(* ===== verification/Farm_Prelude.thy ===== *)
theory Farm_Prelude
  imports Main "HOL-Library.Word" "HOL-Library.List_Lexorder" "HOL-Library.Char_ord"
    "HOL-Library.Multiset"
begin

text \<open>
  Shared vocabulary of the development: the machine types of the Go sources, instants and
  durations, the result type of fallible functions, sorting by a string key (Go's
  \<open>slices.SortFunc\<close> with \<open>strings.Compare\<close>) and the small lemmas on lists, options and
  association that the component theories use. Go strings are byte sequences, which is what
  HOL's \<open>string\<close> (a list of 8-bit characters) is.
\<close>

section \<open>Machine types\<close>

type_synonym uint32 = "32 word"
type_synonym uint64 = "64 word"
type_synonym float64 = "64 word" \<comment> \<open>the IEEE bit pattern; floats are only copied by the modelled code\<close>
type_synonym Time = int \<comment> \<open>nanoseconds since the zero \<open>time.Time\<close>, which is 0\<close>
type_synonym Duration = int \<comment> \<open>nanoseconds, kept in the signed 64-bit range by the operations below\<close>

definition IsZero :: "Time \<Rightarrow> bool" where
  "IsZero t \<longleftrightarrow> t = 0"

text \<open>Signed 64-bit wrap-around, and the saturating difference of \<open>time.Time.Sub\<close>.\<close>

definition wrap_int64 :: "int \<Rightarrow> int" where
  "wrap_int64 x = (x + 2 ^ 63) mod 2 ^ 64 - 2 ^ 63"

definition time_Sub :: "Time \<Rightarrow> Time \<Rightarrow> Duration" where
  "time_Sub a b = max (- (2 ^ 63)) (min (2 ^ 63 - 1) (a - b))"

lemma wrap_int64_bounds: "- (2 ^ 63) \<le> wrap_int64 x \<and> wrap_int64 x < 2 ^ 63"
  by (simp add: wrap_int64_def)

lemma wrap_int64_id: "- (2 ^ 63) \<le> x \<Longrightarrow> x < 2 ^ 63 \<Longrightarrow> wrap_int64 x = x"
  by (simp add: wrap_int64_def)

lemma time_Sub_small: "a - b \<le> d \<Longrightarrow> d < 2 ^ 63 - 1 \<Longrightarrow> time_Sub a b \<le> max d (- (2 ^ 63))"
  by (simp add: time_Sub_def)

section \<open>Collections of facts\<close>

named_theorems record_defs \<open>unfoldings of constructors of records\<close>
named_theorems guard_defs \<open>boolean guards of the sources\<close>
named_theorems store_simps \<open>reads after writes of stores\<close>

section \<open>Sorting by a string key\<close>

text \<open>
  \<open>slices.SortFunc\<close> is not stable; wherever the sources use it the keys are identifiers.
  The model sorts stably; for pairwise different keys every sorting routine gives the same
  list (\<open>sort_key_unique\<close>), so the choice is not visible there.
\<close>

abbreviation sorted_on :: "('a \<Rightarrow> 'k::linorder) \<Rightarrow> 'a list \<Rightarrow> bool" where
  "sorted_on f xs \<equiv> sorted (map f xs)"

lemma distinct_set_singleton: "distinct xs \<Longrightarrow> set xs = {k} \<Longrightarrow> xs = [k]"
  by (cases xs; cases "tl xs") auto

lemma sort_key_unique:
  assumes "mset xs = mset ys" and "inj_on f (set xs)" and "distinct xs"
  shows "sort_key f xs = sort_key f ys"
proof (rule properties_for_sort_key)
  show "mset (sort_key f ys) = mset xs" using assms(1) by simp
  show "sorted (map f (sort_key f ys))" by simp
next
  fix k assume "k \<in> set (sort_key f ys)"
  have st: "set ys = set xs" using assms(1) by (metis mset_eq_setD)
  have dy: "distinct ys" using assms(1,3) by (metis mset_eq_imp_distinct_iff)
  have one: "filter (\<lambda>x. f k = f x) zs = [k]"
    if "set zs = set xs" "distinct zs" "k \<in> set zs" for zs
  proof -
    have "set (filter (\<lambda>x. f k = f x) zs) = {k}"
      using that assms(2) by (auto dest: inj_onD)
    moreover have "distinct (filter (\<lambda>x. f k = f x) zs)" using that by simp
    ultimately show ?thesis by (simp add: distinct_set_singleton)
  qed
  show "filter (\<lambda>x. f k = f x) (sort_key f ys) = filter (\<lambda>x. f k = f x) xs"
    using one[of "sort_key f ys"] one[of xs] \<open>k \<in> set (sort_key f ys)\<close> st dy assms(3) by simp
qed

lemma sort_key_id: "sorted_on f xs \<Longrightarrow> sort_key f xs = xs"
  by (simp add: sort_key_id_if_sorted)

lemma distinct_map_sort_key [simp]: "distinct (map f (sort_key g xs)) = distinct (map f xs)"
  by (metis mset_map mset_sort mset_eq_imp_distinct_iff)

lemma distinct_map_filter_unique:
  "distinct (map f xs) \<Longrightarrow> x \<in> set xs \<Longrightarrow> y \<in> set xs \<Longrightarrow> f x = f y \<Longrightarrow> x = y"
  by (simp add: distinct_map inj_on_def)

section \<open>Searching\<close>

lemma find_SomeD: "find P xs = Some x \<Longrightarrow> x \<in> set xs \<and> P x"
  by (induction xs) (auto split: if_splits)

lemma find_NoneD: "find P xs = None \<longleftrightarrow> (\<forall>x\<in>set xs. \<not> P x)"
  by (induction xs) auto

text \<open>The last hit of a scan that overwrites its result.\<close>

definition last_hit :: "('a \<Rightarrow> bool) \<Rightarrow> 'a list \<Rightarrow> 'a option \<Rightarrow> 'a option" where
  "last_hit P xs d = foldl (\<lambda>acc x. if P x then Some x else acc) d xs"

lemma last_hit_Nil [simp]: "last_hit P [] d = d"
  by (simp add: last_hit_def)

lemma last_hit_Cons [simp]: "last_hit P (x # xs) d = last_hit P xs (if P x then Some x else d)"
  by (simp add: last_hit_def)

lemma last_hit_append [simp]: "last_hit P (xs @ ys) d = last_hit P ys (last_hit P xs d)"
  by (simp add: last_hit_def)

lemma last_hit_SomeD: "last_hit P xs d = Some x \<Longrightarrow> (x \<in> set xs \<and> P x) \<or> d = Some x"
  by (induction xs arbitrary: d) (fastforce split: if_splits)+

lemma last_hit_None: "last_hit P xs None = None \<longleftrightarrow> (\<forall>x\<in>set xs. \<not> P x)"
proof -
  have "last_hit P xs d = None \<longleftrightarrow> d = None \<and> (\<forall>x\<in>set xs. \<not> P x)" for d
    by (induction xs arbitrary: d) auto
  then show ?thesis by simp
qed

end
