(* ===== verification/Go_Strings.thy ===== *)
theory Go_Strings
  imports Farm_Prelude
begin

text \<open>
  The functions of Go's standard packages \<open>strings\<close>, \<open>unicode/utf8\<close>, \<open>net\<close>, \<open>strconv\<close> and
  \<open>encoding/hex\<close> that the modelled sources call, on byte strings. Case mapping of non-ASCII
  text uses Unicode's tables, which are not part of the repository: \<open>ToLower\<close> takes them as a
  parameter and is exact on ASCII text.
\<close>

section \<open>Prefixes, counting and replacing\<close>

definition HasPrefix :: "string \<Rightarrow> string \<Rightarrow> bool" where
  "HasPrefix s p \<longleftrightarrow> take (length p) s = p"

definition TrimPrefix :: "string \<Rightarrow> string \<Rightarrow> string" where
  "TrimPrefix s p = (if HasPrefix s p then drop (length p) s else s)"

definition ContainsAny :: "string \<Rightarrow> char list \<Rightarrow> bool" where
  "ContainsAny s cs \<longleftrightarrow> list_ex (\<lambda>c. c \<in> set cs) s"

definition ContainsNul :: "string \<Rightarrow> bool" where
  "ContainsNul s \<longleftrightarrow> list_ex (\<lambda>c. c = CHR 0x00) s"

text \<open>The patterns of the sources are non-empty constants, so a match consumes at least one byte.\<close>

fun Contains :: "string \<Rightarrow> string \<Rightarrow> bool" where
  "Contains [] p = (p = [])"
| "Contains (c # s) p = (HasPrefix (c # s) p \<or> Contains s p)"

fun str_Count :: "string \<Rightarrow> string \<Rightarrow> nat" where
  "str_Count [] p = 0"
| "str_Count (c # s) p =
     (if HasPrefix (c # s) p then Suc (str_Count (drop (length p - 1) s) p) else str_Count s p)"

fun ReplaceAll :: "string \<Rightarrow> string \<Rightarrow> string \<Rightarrow> string" where
  "ReplaceAll [] p r = []"
| "ReplaceAll (c # s) p r =
     (if HasPrefix (c # s) p then r @ ReplaceAll (drop (length p - 1) s) p r
      else c # ReplaceAll s p r)"

fun ReplaceFirst :: "string \<Rightarrow> string \<Rightarrow> string \<Rightarrow> string" where
  "ReplaceFirst [] p r = []"
| "ReplaceFirst (c # s) p r =
     (if HasPrefix (c # s) p then r @ drop (length p - 1) s else c # ReplaceFirst s p r)"

lemma HasPrefix_append [simp]: "HasPrefix (p @ s) p"
  by (simp add: HasPrefix_def)

lemma HasPrefix_iff: "HasPrefix s p \<longleftrightarrow> (\<exists>t. s = p @ t)"
  by (metis HasPrefix_append HasPrefix_def append_take_drop_id)

lemma ReplaceFirst_no_match: "str_Count s p = 0 \<Longrightarrow> ReplaceFirst s p r = s"
  by (induction s) (auto split: if_splits)

section \<open>UTF-8\<close>

abbreviation byte :: "char \<Rightarrow> nat" where
  "byte c \<equiv> of_char c"

definition is_cont :: "char \<Rightarrow> bool" where
  "is_cont c \<longleftrightarrow> 128 \<le> byte c \<and> byte c \<le> 191"

definition in_range :: "char \<Rightarrow> nat \<Rightarrow> nat \<Rightarrow> bool" where
  "in_range c lo hi \<longleftrightarrow> lo \<le> byte c \<and> byte c \<le> hi"

text \<open>Width of the valid encoding at the head of a string; 0 if there is none.\<close>

fun rune_width :: "string \<Rightarrow> nat" where
  "rune_width [] = 0"
| "rune_width (a # s) =
     (if byte a < 128 then 1
      else case s of [] \<Rightarrow> 0
      | b # s2 \<Rightarrow>
        if in_range a 194 223 \<and> is_cont b then 2
        else case s2 of [] \<Rightarrow> 0
        | c # s3 \<Rightarrow>
          if is_cont c \<and> (byte a = 224 \<and> in_range b 160 191 \<or> in_range a 225 236 \<and> is_cont b
               \<or> byte a = 237 \<and> in_range b 128 159 \<or> in_range a 238 239 \<and> is_cont b) then 3
          else case s3 of [] \<Rightarrow> 0
          | d # _ \<Rightarrow>
            if is_cont c \<and> is_cont d \<and> (byte a = 240 \<and> in_range b 144 191
                 \<or> in_range a 241 243 \<and> is_cont b \<or> byte a = 244 \<and> in_range b 128 143) then 4
            else 0)"

fun ValidUTF8 :: "string \<Rightarrow> bool" where
  "ValidUTF8 [] = True"
| "ValidUTF8 (a # s) =
     (let w = rune_width (a # s) in w \<noteq> 0 \<and> ValidUTF8 (drop (w - 1) s))"

definition is_ascii :: "string \<Rightarrow> bool" where
  "is_ascii s \<longleftrightarrow> list_all (\<lambda>c. byte c < 128) s"

lemma ascii_valid: "is_ascii s \<Longrightarrow> ValidUTF8 s"
  by (induction s) (auto simp: is_ascii_def)

text \<open>Code point of a valid encoding, by its bytes.\<close>

definition rune_value :: "string \<Rightarrow> nat" where
  "rune_value bs =
     (case map byte bs of
        [a] \<Rightarrow> a
      | [a, b] \<Rightarrow> (a - 192) * 64 + (b - 128)
      | [a, b, c] \<Rightarrow> ((a - 224) * 64 + (b - 128)) * 64 + (c - 128)
      | [a, b, c, d] \<Rightarrow> (((a - 240) * 64 + (b - 128)) * 64 + (c - 128)) * 64 + (d - 128)
      | _ \<Rightarrow> 65533)"

text \<open>Forward segmentation into runes: an invalid byte is U+FFFD (65533) of width one.\<close>

fun rune_segs :: "string \<Rightarrow> (nat \<times> string) list" where
  "rune_segs [] = []"
| "rune_segs (a # s) =
     (let w = rune_width (a # s)
      in if w = 0 then (65533, [a]) # rune_segs s
         else (rune_value (take w (a # s)), take w (a # s)) # rune_segs (drop (w - 1) s))"

lemma rune_segs_concat: "concat (map snd (rune_segs s)) = s"
proof (induction s rule: rune_segs.induct)
  case (2 a s)
  show ?case
  proof (cases "rune_width (a # s) = 0")
    case False
    then obtain k where k: "rune_width (a # s) = Suc k" by (cases "rune_width (a # s)") auto
    then show ?thesis using "2.IH"(2)[OF refl False] by (simp add: Let_def)
  qed (use "2.IH"(1) in simp)
qed simp

lemma rune_segs_ascii: "is_ascii s \<Longrightarrow> rune_segs s = map (\<lambda>c. (byte c, [c])) s"
  by (induction s) (auto simp: is_ascii_def rune_value_def Let_def)

section \<open>White space and case\<close>

text \<open>\<open>unicode.IsSpace\<close>.\<close>

definition IsSpace :: "nat \<Rightarrow> bool" where
  "IsSpace r \<longleftrightarrow> (9 \<le> r \<and> r \<le> 13) \<or> r = 32 \<or> r = 133 \<or> r = 160 \<or> r = 5760
     \<or> (8192 \<le> r \<and> r \<le> 8202) \<or> r = 8232 \<or> r = 8233 \<or> r = 8239 \<or> r = 8287 \<or> r = 12288"

definition TrimSpace :: "string \<Rightarrow> string" where
  "TrimSpace s = concat (map snd
     (rev (dropWhile (\<lambda>x. IsSpace (fst x)) (rev (dropWhile (\<lambda>x. IsSpace (fst x)) (rune_segs s))))))"

fun split_fields :: "(nat \<times> string) list \<Rightarrow> string \<Rightarrow> string list" where
  "split_fields [] cur = (if cur = [] then [] else [cur])"
| "split_fields (x # xs) cur =
     (if IsSpace (fst x) then (if cur = [] then split_fields xs [] else cur # split_fields xs [])
      else split_fields xs (cur @ snd x))"

definition Fields :: "string \<Rightarrow> string list" where
  "Fields s = split_fields (rune_segs s) []"

fun Join :: "string list \<Rightarrow> string \<Rightarrow> string" where
  "Join [] sep = []"
| "Join [x] sep = x"
| "Join (x # y # xs) sep = x @ sep @ Join (y # xs) sep"

definition ascii_lower :: "char \<Rightarrow> char" where
  "ascii_lower c = (if 65 \<le> byte c \<and> byte c \<le> 90 then char_of (byte c + 32 :: nat) else c)"

type_synonym unicode_case = "string \<Rightarrow> string"

definition ToLower :: "unicode_case \<Rightarrow> string \<Rightarrow> string" where
  "ToLower uni s = (if is_ascii s then map ascii_lower s else uni s)"

definition Trim :: "string \<Rightarrow> char list \<Rightarrow> string" where
  "Trim s cs = rev (dropWhile (\<lambda>c. c \<in> set cs) (rev (dropWhile (\<lambda>c. c \<in> set cs) s)))"

lemma byte_less [simp]: "byte c < 256"
  using of_char_mod_256 [of c, where ?'a = nat] by (metis mod_less_divisor zero_less_numeral)

lemma byte_ascii_lower: "byte (ascii_lower c) = (if 65 \<le> byte c \<and> byte c \<le> 90 then byte c + 32 else byte c)"
  by (simp add: ascii_lower_def)

lemma ascii_lower_idem [simp]: "ascii_lower (ascii_lower c) = ascii_lower c"
  using byte_ascii_lower[of c] by (auto simp: ascii_lower_def[of "ascii_lower c"] split: if_splits)

lemma is_ascii_map_lower [simp]: "is_ascii (map ascii_lower s) \<longleftrightarrow> is_ascii s"
  by (induction s) (auto simp: is_ascii_def byte_ascii_lower split: if_splits)

lemma ToLower_idem_ascii: "is_ascii s \<Longrightarrow> ToLower u (ToLower u s) = ToLower u s"
  by (simp add: ToLower_def)

lemma IsSpace_lower [simp]: "IsSpace (byte (ascii_lower c)) = IsSpace (byte c)"
  by (auto simp: byte_ascii_lower IsSpace_def)

section \<open>Decimal and hexadecimal texts\<close>

fun dec_digits :: "nat \<Rightarrow> string" where
  "dec_digits n = (if n < 10 then [char_of (48 + n)] else dec_digits (n div 10) @ [char_of (48 + n mod 10)])"

declare dec_digits.simps [simp del]

text \<open>\<open>strconv.Itoa\<close> on \<open>int\<close>, and \<open>strconv.FormatUint\<close> on natural numbers is \<open>dec_digits\<close>.\<close>

definition Itoa :: "int \<Rightarrow> string" where
  "Itoa i = (if i < 0 then CHR ''-'' # dec_digits (nat (- i)) else dec_digits (nat i))"

definition is_digit :: "char \<Rightarrow> bool" where
  "is_digit c \<longleftrightarrow> 48 \<le> byte c \<and> byte c \<le> 57"

definition dec_value :: "string \<Rightarrow> nat" where
  "dec_value s = foldl (\<lambda>acc c. acc * 10 + (byte c - 48)) 0 s"

text \<open>\<open>strconv.ParseUint(s, 10, bits)\<close>: \<open>None\<close> for a syntax or range error.\<close>

definition ParseUint :: "string \<Rightarrow> nat \<Rightarrow> nat option" where
  "ParseUint s bits =
     (if s = [] \<or> \<not> list_all is_digit s then None
      else if dec_value s < 2 ^ bits then Some (dec_value s) else None)"

definition hex_digit :: "nat \<Rightarrow> char" where
  "hex_digit n = (if n < 10 then char_of (48 + n) else char_of (87 + n))"

definition hex_byte :: "8 word \<Rightarrow> string" where
  "hex_byte b = [hex_digit (unat b div 16), hex_digit (unat b mod 16)]"

text \<open>\<open>hex.EncodeToString\<close>.\<close>

definition EncodeToString :: "8 word list \<Rightarrow> string" where
  "EncodeToString bs = concat (map hex_byte bs)"

definition is_hex_lower :: "char \<Rightarrow> bool" where
  "is_hex_lower c \<longleftrightarrow> is_digit c \<or> (97 \<le> byte c \<and> byte c \<le> 102)"

definition is_hex_any :: "char \<Rightarrow> bool" where
  "is_hex_any c \<longleftrightarrow> is_hex_lower c \<or> (65 \<le> byte c \<and> byte c \<le> 70)"

text \<open>\<open>hex.DecodeString\<close> succeeds on an even number of hexadecimal digits of either case.\<close>

definition hex_decodable :: "string \<Rightarrow> bool" where
  "hex_decodable s \<longleftrightarrow> even (length s) \<and> list_all is_hex_any s"

lemma hex_digit_lower: "n < 16 \<Longrightarrow> is_hex_lower (hex_digit n)"
  by (auto simp: is_hex_lower_def hex_digit_def is_digit_def)

lemma length_EncodeToString [simp]: "length (EncodeToString bs) = 2 * length bs"
  by (induction bs) (auto simp: EncodeToString_def hex_byte_def)

lemma EncodeToString_hex: "list_all is_hex_lower (EncodeToString bs)"
proof (induction bs)
  case (Cons b bs)
  have "unat b < 256" using unsigned_less[of b, where ?'a=nat] by simp
  then have "unat b div 16 < 16" by simp
  then show ?case using Cons by (simp add: EncodeToString_def hex_byte_def hex_digit_lower)
qed (simp add: EncodeToString_def)

lemma hex_digit_inj: "m < 16 \<Longrightarrow> n < 16 \<Longrightarrow> hex_digit m = hex_digit n \<Longrightarrow> m = n"
  by (auto simp: hex_digit_def split: if_splits dest: arg_cong[of _ _ "of_char :: char \<Rightarrow> nat"])

lemma hex_byte_inj: "hex_byte a = hex_byte b \<longleftrightarrow> a = b"
proof
  assume h: "hex_byte a = hex_byte b"
  have "unat a < 256" "unat b < 256"
    using unsigned_less[of a, where ?'a=nat] unsigned_less[of b, where ?'a=nat] by simp_all
  then have "unat a div 16 = unat b div 16" "unat a mod 16 = unat b mod 16"
    using h hex_digit_inj[of "unat a div 16" "unat b div 16"] hex_digit_inj[of "unat a mod 16" "unat b mod 16"]
    by (simp_all add: hex_byte_def)
  then have "unat a = unat b" by (metis div_mult_mod_eq)
  then show "a = b" by (simp add: unsigned_word_eqI)
qed simp

lemma EncodeToString_inj: "EncodeToString as = EncodeToString bs \<longleftrightarrow> as = bs"
proof (induction as arbitrary: bs)
  case Nil
  then show ?case by (cases bs) (simp_all add: EncodeToString_def hex_byte_def)
next
  case (Cons a as)
  have two: "length (hex_byte x) = 2" for x by (simp add: hex_byte_def)
  show ?case
  proof (cases bs)
    case Nil
    then show ?thesis by (simp add: EncodeToString_def hex_byte_def)
  next
    case (Cons b bs')
    then show ?thesis using Cons.IH[of bs'] by (simp add: EncodeToString_def two hex_byte_inj)
  qed
qed

section \<open>Addresses\<close>

definition last_index :: "char \<Rightarrow> string \<Rightarrow> nat option" where
  "last_index c s = (if c \<in> set s then Some (length s - 1 - length (takeWhile (\<lambda>x. x \<noteq> c) (rev s))) else None)"

definition first_index :: "char \<Rightarrow> string \<Rightarrow> nat option" where
  "first_index c s = (if c \<in> set s then Some (length (takeWhile (\<lambda>x. x \<noteq> c) s)) else None)"

text \<open>\<open>net.SplitHostPort\<close>: the reason of an address error, or host and port.\<close>

definition SplitHostPort :: "string \<Rightarrow> string + (string \<times> string)" where
  "SplitHostPort hp =
     (case last_index (CHR '':'') hp of
        None \<Rightarrow> Inl ''missing port in address''
      | Some i \<Rightarrow>
        (if hd hp = CHR ''['' then
           (case first_index (CHR '']'') hp of
              None \<Rightarrow> Inl ''missing ']' in address''
            | Some e \<Rightarrow>
              if e + 1 = length hp then Inl ''missing port in address''
              else if e + 1 \<noteq> i then
                (if hp ! (e + 1) = CHR '':'' then Inl ''too many colons in address''
                 else Inl ''missing port in address'')
              else if CHR ''['' \<in> set (drop 1 hp) then Inl ''unexpected '[' in address''
              else if CHR '']'' \<in> set (drop (e + 1) hp) then Inl ''unexpected ']' in address''
              else Inr (take (e - 1) (drop 1 hp), drop (i + 1) hp))
         else if CHR '':'' \<in> set (take i hp) then Inl ''too many colons in address''
         else if CHR ''['' \<in> set hp then Inl ''unexpected '[' in address''
         else if CHR '']'' \<in> set hp then Inl ''unexpected ']' in address''
         else Inr (take i hp, drop (i + 1) hp)))"

end
