(* ===== verification/Farm_Err.thy ===== *)
theory Farm_Err
  imports Go_Strings
begin

text \<open>
  \<open>internal/farmerr/errors.go\<close>: the typed domain errors. A Go \<open>error\<close> value is a typed
  \<open>farmerr.Error\<close>, some other error known by its text, or a wrapper (\<open>%w\<close>) around an error.
\<close>

section \<open>Codes\<close>

text \<open>
  \<open>Code\<close> is a Go string type: one constructor per declared constant and \<open>CodeOther\<close> for any
  other text, the empty text included.
\<close>

datatype Code = MISSING_DEPENDENCY | MISSING_COMMAND | MISSING_WALLET | MISSING_POOL
  | PACKAGE_NOT_INSTALLED | PACKAGE_HASH_MISMATCH | INCOMPATIBLE_HARDWARE | INSUFFICIENT_DISK
  | SERVICE_NOT_READY | RPC_UNREACHABLE | TELEMETRY_UNKNOWN | TELEMETRY_UNAVAILABLE
  | TELEMETRY_STALE | USEFUL_WORK_NOT_CONFIRMED | POOL_UNREACHABLE | STARTUP_TIMEOUT
  | ZERO_HASHRATE | TOO_MANY_REJECTS | PERMISSION_DENIED | PORT_CONFLICT | PROCESS_CRASHED
  | MAINTENANCE_HOLD | UNMANAGED_PROCESS_CONFLICT | UNMANAGED_OBSERVATION_FAILED
  | CONFIG_CONFLICT | SIGNATURE_INVALID | PROTOCOL_VERSION_MISMATCH | SCHEMA_VERSION_MISMATCH
  | PAIRING_REQUIRED | PAIRING_TOKEN_INVALID | PAIRING_TOKEN_EXPIRED
  | CONTROLLER_IDENTITY_MISMATCH | TLS_CREDENTIALS_REQUIRED | TLS_FINGERPRINT_MISMATCH
  | TLS_IDENTITY_MISMATCH | CERTIFICATE_EXPIRED | NOT_FOUND | ALREADY_EXISTS
  | REVISION_CONFLICT | REFERENCE_IN_USE | INVALID_REFERENCE | INTERNAL_ERROR
  | BACKUP_CREATED | BACKUP_SKIPPED_UNCHANGED | BACKUP_FAILED | BACKUP_CORRUPT | BACKUP_BUSY
  | RESTORE_VALIDATION_FAILED | RESTORE_RECONCILIATION_REQUIRED | RESTORE_IDENTITY_MISMATCH
  | CodeOther string

abbreviation NoCode :: Code where
  "NoCode \<equiv> CodeOther []"

fun Code_text :: "Code \<Rightarrow> string" where
  "Code_text MISSING_DEPENDENCY = ''MISSING_DEPENDENCY''"
| "Code_text MISSING_COMMAND = ''MISSING_COMMAND''"
| "Code_text MISSING_WALLET = ''MISSING_WALLET''"
| "Code_text MISSING_POOL = ''MISSING_POOL''"
| "Code_text PACKAGE_NOT_INSTALLED = ''PACKAGE_NOT_INSTALLED''"
| "Code_text PACKAGE_HASH_MISMATCH = ''PACKAGE_HASH_MISMATCH''"
| "Code_text INCOMPATIBLE_HARDWARE = ''INCOMPATIBLE_HARDWARE''"
| "Code_text INSUFFICIENT_DISK = ''INSUFFICIENT_DISK''"
| "Code_text SERVICE_NOT_READY = ''SERVICE_NOT_READY''"
| "Code_text RPC_UNREACHABLE = ''RPC_UNREACHABLE''"
| "Code_text TELEMETRY_UNKNOWN = ''TELEMETRY_UNKNOWN''"
| "Code_text TELEMETRY_UNAVAILABLE = ''TELEMETRY_UNAVAILABLE''"
| "Code_text TELEMETRY_STALE = ''TELEMETRY_STALE''"
| "Code_text USEFUL_WORK_NOT_CONFIRMED = ''USEFUL_WORK_NOT_CONFIRMED''"
| "Code_text POOL_UNREACHABLE = ''POOL_UNREACHABLE''"
| "Code_text STARTUP_TIMEOUT = ''STARTUP_TIMEOUT''"
| "Code_text ZERO_HASHRATE = ''ZERO_HASHRATE''"
| "Code_text TOO_MANY_REJECTS = ''TOO_MANY_REJECTS''"
| "Code_text PERMISSION_DENIED = ''PERMISSION_DENIED''"
| "Code_text PORT_CONFLICT = ''PORT_CONFLICT''"
| "Code_text PROCESS_CRASHED = ''PROCESS_CRASHED''"
| "Code_text MAINTENANCE_HOLD = ''MAINTENANCE_HOLD''"
| "Code_text UNMANAGED_PROCESS_CONFLICT = ''UNMANAGED_PROCESS_CONFLICT''"
| "Code_text UNMANAGED_OBSERVATION_FAILED = ''UNMANAGED_OBSERVATION_FAILED''"
| "Code_text CONFIG_CONFLICT = ''CONFIG_CONFLICT''"
| "Code_text SIGNATURE_INVALID = ''SIGNATURE_INVALID''"
| "Code_text PROTOCOL_VERSION_MISMATCH = ''PROTOCOL_VERSION_MISMATCH''"
| "Code_text SCHEMA_VERSION_MISMATCH = ''SCHEMA_VERSION_MISMATCH''"
| "Code_text PAIRING_REQUIRED = ''PAIRING_REQUIRED''"
| "Code_text PAIRING_TOKEN_INVALID = ''PAIRING_TOKEN_INVALID''"
| "Code_text PAIRING_TOKEN_EXPIRED = ''PAIRING_TOKEN_EXPIRED''"
| "Code_text CONTROLLER_IDENTITY_MISMATCH = ''CONTROLLER_IDENTITY_MISMATCH''"
| "Code_text TLS_CREDENTIALS_REQUIRED = ''TLS_CREDENTIALS_REQUIRED''"
| "Code_text TLS_FINGERPRINT_MISMATCH = ''TLS_FINGERPRINT_MISMATCH''"
| "Code_text TLS_IDENTITY_MISMATCH = ''TLS_IDENTITY_MISMATCH''"
| "Code_text CERTIFICATE_EXPIRED = ''CERTIFICATE_EXPIRED''"
| "Code_text NOT_FOUND = ''NOT_FOUND''"
| "Code_text ALREADY_EXISTS = ''ALREADY_EXISTS''"
| "Code_text REVISION_CONFLICT = ''REVISION_CONFLICT''"
| "Code_text REFERENCE_IN_USE = ''REFERENCE_IN_USE''"
| "Code_text INVALID_REFERENCE = ''INVALID_REFERENCE''"
| "Code_text INTERNAL_ERROR = ''INTERNAL_ERROR''"
| "Code_text BACKUP_CREATED = ''BACKUP_CREATED''"
| "Code_text BACKUP_SKIPPED_UNCHANGED = ''BACKUP_SKIPPED_UNCHANGED''"
| "Code_text BACKUP_FAILED = ''BACKUP_FAILED''"
| "Code_text BACKUP_CORRUPT = ''BACKUP_CORRUPT''"
| "Code_text BACKUP_BUSY = ''BACKUP_BUSY''"
| "Code_text RESTORE_VALIDATION_FAILED = ''RESTORE_VALIDATION_FAILED''"
| "Code_text RESTORE_RECONCILIATION_REQUIRED = ''RESTORE_RECONCILIATION_REQUIRED''"
| "Code_text RESTORE_IDENTITY_MISMATCH = ''RESTORE_IDENTITY_MISMATCH''"
| "Code_text (CodeOther s) = s"

text \<open>Every declared constant is accepted, and of the other texts only the empty one.\<close>

fun ValidCode :: "Code \<Rightarrow> bool" where
  "ValidCode (CodeOther s) = (s = [])"
| "ValidCode _ = True"

section \<open>Errors\<close>

record Error =
  err_Code :: Code
  err_HumanMessage :: string
  err_Details :: "string \<rightharpoonup> string"
  err_SuggestedFix :: string
  err_LogsRef :: string

datatype error = Typed Error | Plain string | Wrapped string error

type_synonym 'a result = "error + 'a"

definition mk_error :: "Code \<Rightarrow> string \<Rightarrow> (string \<rightharpoonup> string) \<Rightarrow> Error" where
  "mk_error c m d = \<lparr>err_Code = c, err_HumanMessage = m, err_Details = d,
     err_SuggestedFix = [], err_LogsRef = []\<rparr>"

text \<open>\<open>errors.As\<close> with a typed target: the first typed error of the chain of wrappers.\<close>

fun errors_As :: "error \<Rightarrow> Error option" where
  "errors_As (Typed e) = Some e"
| "errors_As (Plain s) = None"
| "errors_As (Wrapped s e) = errors_As e"

text \<open>\<open>CodeOf\<close> returns the code and whether there is one; the code is empty otherwise.\<close>

definition CodeOf :: "error \<Rightarrow> Code \<times> bool" where
  "CodeOf err = (case errors_As err of None \<Rightarrow> (NoCode, False) | Some e \<Rightarrow> (err_Code e, True))"

definition Error_text :: "Error \<Rightarrow> string" where
  "Error_text e = (if err_HumanMessage e = [] then Code_text (err_Code e)
     else Code_text (err_Code e) @ '': '' @ err_HumanMessage e)"

fun error_Error :: "error \<Rightarrow> string" where
  "error_Error (Typed e) = Error_text e"
| "error_Error (Plain s) = s"
| "error_Error (Wrapped s e) = s @ '': '' @ error_Error e"

lemma err_Code_mk [simp]: "err_Code (mk_error c m d) = c"
  by (simp add: mk_error_def)

lemma err_HumanMessage_mk [simp]: "err_HumanMessage (mk_error c m d) = m"
  by (simp add: mk_error_def)

lemma CodeOf_Typed [simp]: "CodeOf (Typed e) = (err_Code e, True)"
  by (simp add: CodeOf_def)

end
