(* ===== verification/Farm_Identity.thy ===== *)
theory Farm_Identity
  imports Farm_Err
begin

text \<open>
  \<open>internal/identity/id.go\<close>: opaque identifiers, one Go struct type per kind, each with a
  constructor from fresh entropy, a parser, a validator and the text marshalling pair. The
  contract they share is the locale \<open>opaque_id\<close>; every kind interprets it. The order on an
  identifier type is the order of its text, which is how the sources sort.
\<close>

section \<open>The shared helpers\<close>

text \<open>\<open>generate\<close>: \<open>rand\<close> is what \<open>rand.Read\<close> gave, the error or the 16 bytes.\<close>

definition generate :: "string \<Rightarrow> error + 8 word list \<Rightarrow> string result" where
  "generate prefix rand =
     (case rand of
        Inl e \<Rightarrow> Inl (Wrapped (''generate '' @ prefix @ '' ID'') e)
      | Inr entropy \<Rightarrow> Inr (prefix @ ''_'' @ EncodeToString entropy))"

definition validate :: "string \<Rightarrow> string \<Rightarrow> error option" where
  "validate value prefix =
     (if length value \<noteq> length prefix + 1 + 32 \<or> \<not> HasPrefix value (prefix @ ''_'')
      then Some (Plain (''invalid '' @ prefix @ '' ID format''))
      else if \<not> list_all is_hex_lower (drop (length prefix + 1) value)
      then Some (Plain (''invalid '' @ prefix @ '' ID encoding''))
      else None)"

lemma validate_None_iff:
  "validate v p = None \<longleftrightarrow> (\<exists>h. v = p @ ''_'' @ h \<and> length h = 32 \<and> list_all is_hex_lower h)"
proof
  assume "validate v p = None"
  then have l: "length v = length p + 1 + 32" and pr: "HasPrefix v (p @ ''_'')"
    and h: "list_all is_hex_lower (drop (length p + 1) v)"
    by (auto simp: validate_def split: if_splits)
  from pr obtain t where "v = (p @ ''_'') @ t" by (auto simp: HasPrefix_iff)
  then show "\<exists>h. v = p @ ''_'' @ h \<and> length h = 32 \<and> list_all is_hex_lower h"
    using l h by auto
qed (auto simp: validate_def HasPrefix_def)

lemma validate_empty: "validate [] p \<noteq> None"
  by (simp add: validate_def)

lemma generate_valid:
  "generate p (Inr es) = Inr v \<Longrightarrow> length es = 16 \<Longrightarrow> validate v p = None"
  by (auto simp: generate_def validate_None_iff EncodeToString_hex)

section \<open>The contract of an identifier kind\<close>

locale opaque_id =
  fixes kind :: string
    and wrap :: "string \<Rightarrow> 'i"
    and text_of :: "'i \<Rightarrow> string"
    and parse :: "string \<Rightarrow> 'i result"
    and check :: "'i \<Rightarrow> error option"
    and marshal :: "'i \<Rightarrow> string result"
    and unmarshal :: "'i \<Rightarrow> string \<Rightarrow> 'i \<times> error option"
  assumes text_wrap: "text_of (wrap s) = s"
    and wrap_text: "wrap (text_of i) = i"
    and parse_iff: "parse s = Inr i \<longleftrightarrow> validate s kind = None \<and> i = wrap s"
    and check_text: "check i = validate (text_of i) kind"
    and marshal_iff: "marshal i = Inr s \<longleftrightarrow> check i = None \<and> s = text_of i"
    and unmarshal_ok: "parse s = Inr j \<Longrightarrow> unmarshal i s = (j, None)"
    and unmarshal_err: "parse s = Inl e \<Longrightarrow> unmarshal i s = (i, Some e)"
begin

lemma text_inj: "text_of i = text_of j \<longleftrightarrow> i = j"
  by (metis wrap_text)

lemma parse_text: "check i = None \<Longrightarrow> parse (text_of i) = Inr i"
  by (simp add: parse_iff check_text wrap_text)

lemma text_parse: "parse s = Inr i \<Longrightarrow> text_of i = s \<and> check i = None"
  by (simp add: parse_iff check_text text_wrap)

lemma zero_invalid: "check (wrap []) \<noteq> None"
  by (simp add: check_text text_wrap validate_empty)

lemma generated_parses:
  assumes "length es = 16"
  shows "\<exists>v i. generate kind (Inr es) = Inr v \<and> parse v = Inr i \<and> text_of i = v"
proof -
  obtain v where v: "generate kind (Inr es) = Inr v" by (simp add: generate_def)
  then have "validate v kind = None" using assms by (rule generate_valid)
  then show ?thesis using v by (auto simp: parse_iff text_wrap)
qed

lemma marshal_unmarshal: "marshal i = Inr s \<Longrightarrow> unmarshal j s = (i, None)"
  by (auto simp: marshal_iff intro!: unmarshal_ok parse_text)

lemma unmarshal_rejects: "unmarshal i s = (j, Some e) \<Longrightarrow> j = i \<and> check (wrap s) \<noteq> None"
proof (cases "parse s")
  case (Inl e')
  then have "validate s kind \<noteq> None" using parse_iff[of s "wrap s"] by auto
  then show "unmarshal i s = (j, Some e) \<Longrightarrow> ?thesis"
    using unmarshal_err[OF Inl] by (simp add: check_text text_wrap)
qed (simp add: unmarshal_ok)

end

section \<open>The kinds\<close>

datatype FarmID = FarmID (FarmID_String: string)

definition NewFarmID :: "error + 8 word list \<Rightarrow> FarmID result" where
  "NewFarmID rand = (case generate ''farm'' rand of Inl e \<Rightarrow> Inl e | Inr v \<Rightarrow> Inr (FarmID v))"

definition ParseFarmID :: "string \<Rightarrow> FarmID result" where
  "ParseFarmID value = (case validate value ''farm'' of Some e \<Rightarrow> Inl e | None \<Rightarrow> Inr (FarmID value))"

definition FarmID_Validate :: "FarmID \<Rightarrow> error option" where
  "FarmID_Validate i = validate (FarmID_String i) ''farm''"

definition FarmID_MarshalText :: "FarmID \<Rightarrow> string result" where
  "FarmID_MarshalText i = (case FarmID_Validate i of Some e \<Rightarrow> Inl e | None \<Rightarrow> Inr (FarmID_String i))"

definition FarmID_UnmarshalText :: "FarmID \<Rightarrow> string \<Rightarrow> FarmID \<times> error option" where
  "FarmID_UnmarshalText i txt = (case ParseFarmID txt of Inl e \<Rightarrow> (i, Some e) | Inr j \<Rightarrow> (j, None))"

interpretation farm_id: opaque_id "''farm''" FarmID FarmID_String ParseFarmID FarmID_Validate
  FarmID_MarshalText FarmID_UnmarshalText
  by unfold_locales
    (auto simp: ParseFarmID_def FarmID_Validate_def FarmID_MarshalText_def FarmID_UnmarshalText_def
      split: option.splits)

datatype ControllerID = ControllerID (ControllerID_String: string)

definition NewControllerID :: "error + 8 word list \<Rightarrow> ControllerID result" where
  "NewControllerID rand = (case generate ''controller'' rand of Inl e \<Rightarrow> Inl e | Inr v \<Rightarrow> Inr (ControllerID v))"

definition ParseControllerID :: "string \<Rightarrow> ControllerID result" where
  "ParseControllerID value = (case validate value ''controller'' of Some e \<Rightarrow> Inl e | None \<Rightarrow> Inr (ControllerID value))"

definition ControllerID_Validate :: "ControllerID \<Rightarrow> error option" where
  "ControllerID_Validate i = validate (ControllerID_String i) ''controller''"

definition ControllerID_MarshalText :: "ControllerID \<Rightarrow> string result" where
  "ControllerID_MarshalText i = (case ControllerID_Validate i of Some e \<Rightarrow> Inl e | None \<Rightarrow> Inr (ControllerID_String i))"

definition ControllerID_UnmarshalText :: "ControllerID \<Rightarrow> string \<Rightarrow> ControllerID \<times> error option" where
  "ControllerID_UnmarshalText i txt = (case ParseControllerID txt of Inl e \<Rightarrow> (i, Some e) | Inr j \<Rightarrow> (j, None))"

interpretation controller_id: opaque_id "''controller''" ControllerID ControllerID_String ParseControllerID ControllerID_Validate
  ControllerID_MarshalText ControllerID_UnmarshalText
  by unfold_locales
    (auto simp: ParseControllerID_def ControllerID_Validate_def ControllerID_MarshalText_def ControllerID_UnmarshalText_def
      split: option.splits)

datatype HostID = HostID (HostID_String: string)

definition NewHostID :: "error + 8 word list \<Rightarrow> HostID result" where
  "NewHostID rand = (case generate ''host'' rand of Inl e \<Rightarrow> Inl e | Inr v \<Rightarrow> Inr (HostID v))"

definition ParseHostID :: "string \<Rightarrow> HostID result" where
  "ParseHostID value = (case validate value ''host'' of Some e \<Rightarrow> Inl e | None \<Rightarrow> Inr (HostID value))"

definition HostID_Validate :: "HostID \<Rightarrow> error option" where
  "HostID_Validate i = validate (HostID_String i) ''host''"

definition HostID_MarshalText :: "HostID \<Rightarrow> string result" where
  "HostID_MarshalText i = (case HostID_Validate i of Some e \<Rightarrow> Inl e | None \<Rightarrow> Inr (HostID_String i))"

definition HostID_UnmarshalText :: "HostID \<Rightarrow> string \<Rightarrow> HostID \<times> error option" where
  "HostID_UnmarshalText i txt = (case ParseHostID txt of Inl e \<Rightarrow> (i, Some e) | Inr j \<Rightarrow> (j, None))"

interpretation host_id: opaque_id "''host''" HostID HostID_String ParseHostID HostID_Validate
  HostID_MarshalText HostID_UnmarshalText
  by unfold_locales
    (auto simp: ParseHostID_def HostID_Validate_def HostID_MarshalText_def HostID_UnmarshalText_def
      split: option.splits)

datatype AgentID = AgentID (AgentID_String: string)

definition NewAgentID :: "error + 8 word list \<Rightarrow> AgentID result" where
  "NewAgentID rand = (case generate ''agent'' rand of Inl e \<Rightarrow> Inl e | Inr v \<Rightarrow> Inr (AgentID v))"

definition ParseAgentID :: "string \<Rightarrow> AgentID result" where
  "ParseAgentID value = (case validate value ''agent'' of Some e \<Rightarrow> Inl e | None \<Rightarrow> Inr (AgentID value))"

definition AgentID_Validate :: "AgentID \<Rightarrow> error option" where
  "AgentID_Validate i = validate (AgentID_String i) ''agent''"

definition AgentID_MarshalText :: "AgentID \<Rightarrow> string result" where
  "AgentID_MarshalText i = (case AgentID_Validate i of Some e \<Rightarrow> Inl e | None \<Rightarrow> Inr (AgentID_String i))"

definition AgentID_UnmarshalText :: "AgentID \<Rightarrow> string \<Rightarrow> AgentID \<times> error option" where
  "AgentID_UnmarshalText i txt = (case ParseAgentID txt of Inl e \<Rightarrow> (i, Some e) | Inr j \<Rightarrow> (j, None))"

interpretation agent_id: opaque_id "''agent''" AgentID AgentID_String ParseAgentID AgentID_Validate
  AgentID_MarshalText AgentID_UnmarshalText
  by unfold_locales
    (auto simp: ParseAgentID_def AgentID_Validate_def AgentID_MarshalText_def AgentID_UnmarshalText_def
      split: option.splits)

datatype NodaID = NodaID (NodaID_String: string)

definition NewNodaID :: "error + 8 word list \<Rightarrow> NodaID result" where
  "NewNodaID rand = (case generate ''noda'' rand of Inl e \<Rightarrow> Inl e | Inr v \<Rightarrow> Inr (NodaID v))"

definition ParseNodaID :: "string \<Rightarrow> NodaID result" where
  "ParseNodaID value = (case validate value ''noda'' of Some e \<Rightarrow> Inl e | None \<Rightarrow> Inr (NodaID value))"

definition NodaID_Validate :: "NodaID \<Rightarrow> error option" where
  "NodaID_Validate i = validate (NodaID_String i) ''noda''"

definition NodaID_MarshalText :: "NodaID \<Rightarrow> string result" where
  "NodaID_MarshalText i = (case NodaID_Validate i of Some e \<Rightarrow> Inl e | None \<Rightarrow> Inr (NodaID_String i))"

definition NodaID_UnmarshalText :: "NodaID \<Rightarrow> string \<Rightarrow> NodaID \<times> error option" where
  "NodaID_UnmarshalText i txt = (case ParseNodaID txt of Inl e \<Rightarrow> (i, Some e) | Inr j \<Rightarrow> (j, None))"

interpretation noda_id: opaque_id "''noda''" NodaID NodaID_String ParseNodaID NodaID_Validate
  NodaID_MarshalText NodaID_UnmarshalText
  by unfold_locales
    (auto simp: ParseNodaID_def NodaID_Validate_def NodaID_MarshalText_def NodaID_UnmarshalText_def
      split: option.splits)

datatype DeviceID = DeviceID (DeviceID_String: string)

definition NewDeviceID :: "error + 8 word list \<Rightarrow> DeviceID result" where
  "NewDeviceID rand = (case generate ''device'' rand of Inl e \<Rightarrow> Inl e | Inr v \<Rightarrow> Inr (DeviceID v))"

definition ParseDeviceID :: "string \<Rightarrow> DeviceID result" where
  "ParseDeviceID value = (case validate value ''device'' of Some e \<Rightarrow> Inl e | None \<Rightarrow> Inr (DeviceID value))"

definition DeviceID_Validate :: "DeviceID \<Rightarrow> error option" where
  "DeviceID_Validate i = validate (DeviceID_String i) ''device''"

definition DeviceID_MarshalText :: "DeviceID \<Rightarrow> string result" where
  "DeviceID_MarshalText i = (case DeviceID_Validate i of Some e \<Rightarrow> Inl e | None \<Rightarrow> Inr (DeviceID_String i))"

definition DeviceID_UnmarshalText :: "DeviceID \<Rightarrow> string \<Rightarrow> DeviceID \<times> error option" where
  "DeviceID_UnmarshalText i txt = (case ParseDeviceID txt of Inl e \<Rightarrow> (i, Some e) | Inr j \<Rightarrow> (j, None))"

interpretation device_id: opaque_id "''device''" DeviceID DeviceID_String ParseDeviceID DeviceID_Validate
  DeviceID_MarshalText DeviceID_UnmarshalText
  by unfold_locales
    (auto simp: ParseDeviceID_def DeviceID_Validate_def DeviceID_MarshalText_def DeviceID_UnmarshalText_def
      split: option.splits)

datatype ProfileID = ProfileID (ProfileID_String: string)

definition NewProfileID :: "error + 8 word list \<Rightarrow> ProfileID result" where
  "NewProfileID rand = (case generate ''profile'' rand of Inl e \<Rightarrow> Inl e | Inr v \<Rightarrow> Inr (ProfileID v))"

definition ParseProfileID :: "string \<Rightarrow> ProfileID result" where
  "ParseProfileID value = (case validate value ''profile'' of Some e \<Rightarrow> Inl e | None \<Rightarrow> Inr (ProfileID value))"

definition ProfileID_Validate :: "ProfileID \<Rightarrow> error option" where
  "ProfileID_Validate i = validate (ProfileID_String i) ''profile''"

definition ProfileID_MarshalText :: "ProfileID \<Rightarrow> string result" where
  "ProfileID_MarshalText i = (case ProfileID_Validate i of Some e \<Rightarrow> Inl e | None \<Rightarrow> Inr (ProfileID_String i))"

definition ProfileID_UnmarshalText :: "ProfileID \<Rightarrow> string \<Rightarrow> ProfileID \<times> error option" where
  "ProfileID_UnmarshalText i txt = (case ParseProfileID txt of Inl e \<Rightarrow> (i, Some e) | Inr j \<Rightarrow> (j, None))"

interpretation profile_id: opaque_id "''profile''" ProfileID ProfileID_String ParseProfileID ProfileID_Validate
  ProfileID_MarshalText ProfileID_UnmarshalText
  by unfold_locales
    (auto simp: ParseProfileID_def ProfileID_Validate_def ProfileID_MarshalText_def ProfileID_UnmarshalText_def
      split: option.splits)

datatype ExecutionID = ExecutionID (ExecutionID_String: string)

definition NewExecutionID :: "error + 8 word list \<Rightarrow> ExecutionID result" where
  "NewExecutionID rand = (case generate ''execution'' rand of Inl e \<Rightarrow> Inl e | Inr v \<Rightarrow> Inr (ExecutionID v))"

definition ParseExecutionID :: "string \<Rightarrow> ExecutionID result" where
  "ParseExecutionID value = (case validate value ''execution'' of Some e \<Rightarrow> Inl e | None \<Rightarrow> Inr (ExecutionID value))"

definition ExecutionID_Validate :: "ExecutionID \<Rightarrow> error option" where
  "ExecutionID_Validate i = validate (ExecutionID_String i) ''execution''"

definition ExecutionID_MarshalText :: "ExecutionID \<Rightarrow> string result" where
  "ExecutionID_MarshalText i = (case ExecutionID_Validate i of Some e \<Rightarrow> Inl e | None \<Rightarrow> Inr (ExecutionID_String i))"

definition ExecutionID_UnmarshalText :: "ExecutionID \<Rightarrow> string \<Rightarrow> ExecutionID \<times> error option" where
  "ExecutionID_UnmarshalText i txt = (case ParseExecutionID txt of Inl e \<Rightarrow> (i, Some e) | Inr j \<Rightarrow> (j, None))"

interpretation execution_id: opaque_id "''execution''" ExecutionID ExecutionID_String ParseExecutionID ExecutionID_Validate
  ExecutionID_MarshalText ExecutionID_UnmarshalText
  by unfold_locales
    (auto simp: ParseExecutionID_def ExecutionID_Validate_def ExecutionID_MarshalText_def ExecutionID_UnmarshalText_def
      split: option.splits)

datatype ServiceID = ServiceID (ServiceID_String: string)

definition NewServiceID :: "error + 8 word list \<Rightarrow> ServiceID result" where
  "NewServiceID rand = (case generate ''service'' rand of Inl e \<Rightarrow> Inl e | Inr v \<Rightarrow> Inr (ServiceID v))"

definition ParseServiceID :: "string \<Rightarrow> ServiceID result" where
  "ParseServiceID value = (case validate value ''service'' of Some e \<Rightarrow> Inl e | None \<Rightarrow> Inr (ServiceID value))"

definition ServiceID_Validate :: "ServiceID \<Rightarrow> error option" where
  "ServiceID_Validate i = validate (ServiceID_String i) ''service''"

definition ServiceID_MarshalText :: "ServiceID \<Rightarrow> string result" where
  "ServiceID_MarshalText i = (case ServiceID_Validate i of Some e \<Rightarrow> Inl e | None \<Rightarrow> Inr (ServiceID_String i))"

definition ServiceID_UnmarshalText :: "ServiceID \<Rightarrow> string \<Rightarrow> ServiceID \<times> error option" where
  "ServiceID_UnmarshalText i txt = (case ParseServiceID txt of Inl e \<Rightarrow> (i, Some e) | Inr j \<Rightarrow> (j, None))"

interpretation service_id: opaque_id "''service''" ServiceID ServiceID_String ParseServiceID ServiceID_Validate
  ServiceID_MarshalText ServiceID_UnmarshalText
  by unfold_locales
    (auto simp: ParseServiceID_def ServiceID_Validate_def ServiceID_MarshalText_def ServiceID_UnmarshalText_def
      split: option.splits)

datatype WalletID = WalletID (WalletID_String: string)

definition NewWalletID :: "error + 8 word list \<Rightarrow> WalletID result" where
  "NewWalletID rand = (case generate ''wallet'' rand of Inl e \<Rightarrow> Inl e | Inr v \<Rightarrow> Inr (WalletID v))"

definition ParseWalletID :: "string \<Rightarrow> WalletID result" where
  "ParseWalletID value = (case validate value ''wallet'' of Some e \<Rightarrow> Inl e | None \<Rightarrow> Inr (WalletID value))"

definition WalletID_Validate :: "WalletID \<Rightarrow> error option" where
  "WalletID_Validate i = validate (WalletID_String i) ''wallet''"

definition WalletID_MarshalText :: "WalletID \<Rightarrow> string result" where
  "WalletID_MarshalText i = (case WalletID_Validate i of Some e \<Rightarrow> Inl e | None \<Rightarrow> Inr (WalletID_String i))"

definition WalletID_UnmarshalText :: "WalletID \<Rightarrow> string \<Rightarrow> WalletID \<times> error option" where
  "WalletID_UnmarshalText i txt = (case ParseWalletID txt of Inl e \<Rightarrow> (i, Some e) | Inr j \<Rightarrow> (j, None))"

interpretation wallet_id: opaque_id "''wallet''" WalletID WalletID_String ParseWalletID WalletID_Validate
  WalletID_MarshalText WalletID_UnmarshalText
  by unfold_locales
    (auto simp: ParseWalletID_def WalletID_Validate_def WalletID_MarshalText_def WalletID_UnmarshalText_def
      split: option.splits)

datatype PoolID = PoolID (PoolID_String: string)

definition NewPoolID :: "error + 8 word list \<Rightarrow> PoolID result" where
  "NewPoolID rand = (case generate ''pool'' rand of Inl e \<Rightarrow> Inl e | Inr v \<Rightarrow> Inr (PoolID v))"

definition ParsePoolID :: "string \<Rightarrow> PoolID result" where
  "ParsePoolID value = (case validate value ''pool'' of Some e \<Rightarrow> Inl e | None \<Rightarrow> Inr (PoolID value))"

definition PoolID_Validate :: "PoolID \<Rightarrow> error option" where
  "PoolID_Validate i = validate (PoolID_String i) ''pool''"

definition PoolID_MarshalText :: "PoolID \<Rightarrow> string result" where
  "PoolID_MarshalText i = (case PoolID_Validate i of Some e \<Rightarrow> Inl e | None \<Rightarrow> Inr (PoolID_String i))"

definition PoolID_UnmarshalText :: "PoolID \<Rightarrow> string \<Rightarrow> PoolID \<times> error option" where
  "PoolID_UnmarshalText i txt = (case ParsePoolID txt of Inl e \<Rightarrow> (i, Some e) | Inr j \<Rightarrow> (j, None))"

interpretation pool_id: opaque_id "''pool''" PoolID PoolID_String ParsePoolID PoolID_Validate
  PoolID_MarshalText PoolID_UnmarshalText
  by unfold_locales
    (auto simp: ParsePoolID_def PoolID_Validate_def PoolID_MarshalText_def PoolID_UnmarshalText_def
      split: option.splits)

datatype PackageID = PackageID (PackageID_String: string)

definition NewPackageID :: "error + 8 word list \<Rightarrow> PackageID result" where
  "NewPackageID rand = (case generate ''package'' rand of Inl e \<Rightarrow> Inl e | Inr v \<Rightarrow> Inr (PackageID v))"

definition ParsePackageID :: "string \<Rightarrow> PackageID result" where
  "ParsePackageID value = (case validate value ''package'' of Some e \<Rightarrow> Inl e | None \<Rightarrow> Inr (PackageID value))"

definition PackageID_Validate :: "PackageID \<Rightarrow> error option" where
  "PackageID_Validate i = validate (PackageID_String i) ''package''"

definition PackageID_MarshalText :: "PackageID \<Rightarrow> string result" where
  "PackageID_MarshalText i = (case PackageID_Validate i of Some e \<Rightarrow> Inl e | None \<Rightarrow> Inr (PackageID_String i))"

definition PackageID_UnmarshalText :: "PackageID \<Rightarrow> string \<Rightarrow> PackageID \<times> error option" where
  "PackageID_UnmarshalText i txt = (case ParsePackageID txt of Inl e \<Rightarrow> (i, Some e) | Inr j \<Rightarrow> (j, None))"

interpretation package_id: opaque_id "''package''" PackageID PackageID_String ParsePackageID PackageID_Validate
  PackageID_MarshalText PackageID_UnmarshalText
  by unfold_locales
    (auto simp: ParsePackageID_def PackageID_Validate_def PackageID_MarshalText_def PackageID_UnmarshalText_def
      split: option.splits)

datatype WorkloadID = WorkloadID (WorkloadID_String: string)

definition NewWorkloadID :: "error + 8 word list \<Rightarrow> WorkloadID result" where
  "NewWorkloadID rand = (case generate ''workload'' rand of Inl e \<Rightarrow> Inl e | Inr v \<Rightarrow> Inr (WorkloadID v))"

definition ParseWorkloadID :: "string \<Rightarrow> WorkloadID result" where
  "ParseWorkloadID value = (case validate value ''workload'' of Some e \<Rightarrow> Inl e | None \<Rightarrow> Inr (WorkloadID value))"

definition WorkloadID_Validate :: "WorkloadID \<Rightarrow> error option" where
  "WorkloadID_Validate i = validate (WorkloadID_String i) ''workload''"

definition WorkloadID_MarshalText :: "WorkloadID \<Rightarrow> string result" where
  "WorkloadID_MarshalText i = (case WorkloadID_Validate i of Some e \<Rightarrow> Inl e | None \<Rightarrow> Inr (WorkloadID_String i))"

definition WorkloadID_UnmarshalText :: "WorkloadID \<Rightarrow> string \<Rightarrow> WorkloadID \<times> error option" where
  "WorkloadID_UnmarshalText i txt = (case ParseWorkloadID txt of Inl e \<Rightarrow> (i, Some e) | Inr j \<Rightarrow> (j, None))"

interpretation workload_id: opaque_id "''workload''" WorkloadID WorkloadID_String ParseWorkloadID WorkloadID_Validate
  WorkloadID_MarshalText WorkloadID_UnmarshalText
  by unfold_locales
    (auto simp: ParseWorkloadID_def WorkloadID_Validate_def WorkloadID_MarshalText_def WorkloadID_UnmarshalText_def
      split: option.splits)

datatype IncidentID = IncidentID (IncidentID_String: string)

definition ParseIncidentID :: "string \<Rightarrow> IncidentID result" where
  "ParseIncidentID value = (case validate value ''incident'' of Some e \<Rightarrow> Inl e | None \<Rightarrow> Inr (IncidentID value))"

definition IncidentID_Validate :: "IncidentID \<Rightarrow> error option" where
  "IncidentID_Validate i = validate (IncidentID_String i) ''incident''"

definition IncidentID_MarshalText :: "IncidentID \<Rightarrow> string result" where
  "IncidentID_MarshalText i = (case IncidentID_Validate i of Some e \<Rightarrow> Inl e | None \<Rightarrow> Inr (IncidentID_String i))"

definition IncidentID_UnmarshalText :: "IncidentID \<Rightarrow> string \<Rightarrow> IncidentID \<times> error option" where
  "IncidentID_UnmarshalText i txt = (case ParseIncidentID txt of Inl e \<Rightarrow> (i, Some e) | Inr j \<Rightarrow> (j, None))"

interpretation incident_id: opaque_id "''incident''" IncidentID IncidentID_String ParseIncidentID IncidentID_Validate
  IncidentID_MarshalText IncidentID_UnmarshalText
  by unfold_locales
    (auto simp: ParseIncidentID_def IncidentID_Validate_def IncidentID_MarshalText_def IncidentID_UnmarshalText_def
      split: option.splits)

section \<open>Order by text\<close>

instantiation HostID :: linorder
begin

definition less_eq_HostID :: "HostID \<Rightarrow> HostID \<Rightarrow> bool" where
  "less_eq_HostID a b \<longleftrightarrow> HostID_String a \<le> HostID_String b"

definition less_HostID :: "HostID \<Rightarrow> HostID \<Rightarrow> bool" where
  "less_HostID a b \<longleftrightarrow> HostID_String a < HostID_String b"

instance
  by standard (auto simp: less_eq_HostID_def less_HostID_def HostID.expand)

end

instantiation DeviceID :: linorder
begin

definition less_eq_DeviceID :: "DeviceID \<Rightarrow> DeviceID \<Rightarrow> bool" where
  "less_eq_DeviceID a b \<longleftrightarrow> DeviceID_String a \<le> DeviceID_String b"

definition less_DeviceID :: "DeviceID \<Rightarrow> DeviceID \<Rightarrow> bool" where
  "less_DeviceID a b \<longleftrightarrow> DeviceID_String a < DeviceID_String b"

instance
  by standard (auto simp: less_eq_DeviceID_def less_DeviceID_def DeviceID.expand)

end

instantiation ExecutionID :: linorder
begin

definition less_eq_ExecutionID :: "ExecutionID \<Rightarrow> ExecutionID \<Rightarrow> bool" where
  "less_eq_ExecutionID a b \<longleftrightarrow> ExecutionID_String a \<le> ExecutionID_String b"

definition less_ExecutionID :: "ExecutionID \<Rightarrow> ExecutionID \<Rightarrow> bool" where
  "less_ExecutionID a b \<longleftrightarrow> ExecutionID_String a < ExecutionID_String b"

instance
  by standard (auto simp: less_eq_ExecutionID_def less_ExecutionID_def ExecutionID.expand)

end

instantiation WorkloadID :: linorder
begin

definition less_eq_WorkloadID :: "WorkloadID \<Rightarrow> WorkloadID \<Rightarrow> bool" where
  "less_eq_WorkloadID a b \<longleftrightarrow> WorkloadID_String a \<le> WorkloadID_String b"

definition less_WorkloadID :: "WorkloadID \<Rightarrow> WorkloadID \<Rightarrow> bool" where
  "less_WorkloadID a b \<longleftrightarrow> WorkloadID_String a < WorkloadID_String b"

instance
  by standard (auto simp: less_eq_WorkloadID_def less_WorkloadID_def WorkloadID.expand)

end

instantiation PoolID :: linorder
begin

definition less_eq_PoolID :: "PoolID \<Rightarrow> PoolID \<Rightarrow> bool" where
  "less_eq_PoolID a b \<longleftrightarrow> PoolID_String a \<le> PoolID_String b"

definition less_PoolID :: "PoolID \<Rightarrow> PoolID \<Rightarrow> bool" where
  "less_PoolID a b \<longleftrightarrow> PoolID_String a < PoolID_String b"

instance
  by standard (auto simp: less_eq_PoolID_def less_PoolID_def PoolID.expand)

end

instantiation WalletID :: linorder
begin

definition less_eq_WalletID :: "WalletID \<Rightarrow> WalletID \<Rightarrow> bool" where
  "less_eq_WalletID a b \<longleftrightarrow> WalletID_String a \<le> WalletID_String b"

definition less_WalletID :: "WalletID \<Rightarrow> WalletID \<Rightarrow> bool" where
  "less_WalletID a b \<longleftrightarrow> WalletID_String a < WalletID_String b"

instance
  by standard (auto simp: less_eq_WalletID_def less_WalletID_def WalletID.expand)

end

instantiation ProfileID :: linorder
begin

definition less_eq_ProfileID :: "ProfileID \<Rightarrow> ProfileID \<Rightarrow> bool" where
  "less_eq_ProfileID a b \<longleftrightarrow> ProfileID_String a \<le> ProfileID_String b"

definition less_ProfileID :: "ProfileID \<Rightarrow> ProfileID \<Rightarrow> bool" where
  "less_ProfileID a b \<longleftrightarrow> ProfileID_String a < ProfileID_String b"

instance
  by standard (auto simp: less_eq_ProfileID_def less_ProfileID_def ProfileID.expand)

end

section \<open>Round trips and disjointness\<close>

lemma generate_inj:
  "generate p (Inr a) = Inr v \<Longrightarrow> generate p (Inr b) = Inr v \<Longrightarrow> a = b"
  by (auto simp: generate_def EncodeToString_inj)

text \<open>
  Identifiers round-trip: an ExecutionID made from 16 bytes of entropy is valid, marshals to its
  text, and parsing or unmarshalling that text gives it back; the entropy can be recovered, so two
  different draws never give the same identifier.
\<close>

theorem execution_id_round_trip:
  assumes "NewExecutionID (Inr entropy) = Inr i" and "length entropy = 16"
  shows "ExecutionID_Validate i = None \<and> ExecutionID_MarshalText i = Inr (ExecutionID_String i)
    \<and> ParseExecutionID (ExecutionID_String i) = Inr i
    \<and> ExecutionID_UnmarshalText j (ExecutionID_String i) = (i, None)
    \<and> (\<forall>other. NewExecutionID (Inr other) = Inr i \<longrightarrow> other = entropy)"
proof -
  obtain v where v: "generate ''execution'' (Inr entropy) = Inr v" "i = ExecutionID v"
    using assms(1) by (auto simp: NewExecutionID_def split: sum.splits)
  have ok: "ExecutionID_Validate i = None"
    using generate_valid[OF v(1) assms(2)] v(2) by (simp add: execution_id.check_text)
  then have m: "ExecutionID_MarshalText i = Inr (ExecutionID_String i)"
    by (simp add: execution_id.marshal_iff)
  have "other = entropy" if "NewExecutionID (Inr other) = Inr i" for other
    using that v generate_inj[of "''execution''" other v entropy]
    by (auto simp: NewExecutionID_def split: sum.splits)
  then show ?thesis
    using ok m execution_id.parse_text[OF ok] execution_id.marshal_unmarshal[OF m] by blast
qed

theorem execution_id_round_trip_witness:
  "\<exists>i. NewExecutionID (Inr (replicate 16 7)) = Inr i \<and> ParseExecutionID (ExecutionID_String i) = Inr i"
proof -
  have "\<exists>i. NewExecutionID (Inr es) = Inr i" for es by (simp add: NewExecutionID_def generate_def)
  then obtain i where i: "NewExecutionID (Inr (replicate 16 7)) = Inr i" by blast
  show ?thesis using execution_id_round_trip[OF i length_replicate] i by blast
qed

text \<open>
  The kinds are disjoint: a text is accepted for at most one kind of identifier, so an
  identifier of one kind never parses as another, and an unmarshalled text is the text of the result.
\<close>

theorem identifier_kind_unique:
  assumes "validate s p = None" and "validate s q = None"
  shows "p = q"
  using assms[unfolded validate_None_iff] by (metis append_eq_append_conv length_Cons length_append)

theorem identifier_kind_unique_witness:
  "validate (''host_'' @ replicate 32 (CHR ''a'')) ''host'' = None
     \<and> validate (''host_'' @ replicate 32 (CHR ''a'')) ''agent'' \<noteq> None"
proof -
  have h: "validate (''host_'' @ replicate 32 (CHR ''a'')) ''host'' = None"
    by (simp add: validate_None_iff is_hex_lower_def list_all_iff)
  then show ?thesis using identifier_kind_unique[OF h, of "''agent''"] by auto
qed

end
