(* ===== verification/Farm_Types.thy ===== *)
theory Farm_Types
  imports Farm_Identity
begin

text \<open>
  The data of the Controller: \<open>internal/model/model.go\<close> and the object types of
  \<open>internal/farmmodel\<close>. A Go struct is a record with one field per field, a pointer to a value
  an \<open>option\<close>, a typed string enumeration a datatype with one constructor per declared constant
  and one for any other text. \<open>uint32\<close> and \<open>uint64\<close> are words. Slices are lists.
\<close>

section \<open>Inventory\<close>

record OSInfo =
  os_ID :: string
  os_VersionID :: string
  os_PrettyName :: string
  os_Kernel :: string

record Host =
  host_HostID :: HostID
  host_Hostname :: string
  host_DisplayName :: string
  host_OS :: OSInfo
  host_Architecture :: string

record CPU =
  cpu_Vendor :: string
  cpu_Model :: string
  cpu_Sockets :: uint32
  cpu_Cores :: uint32
  cpu_Threads :: uint32

record GPU =
  gpu_DeviceID :: DeviceID
  gpu_Vendor :: string
  gpu_Model :: string
  gpu_PCIBusID :: string
  gpu_UUID :: string

record GPUAssignment =
  ga_DeviceID :: DeviceID
  ga_HardwareIdentity :: string
  ga_RuntimeSelector :: string

record Inventory =
  inv_SchemaVersion :: uint32
  inv_Host :: Host
  inv_CPU :: CPU
  inv_GPUs :: "GPU list"
  inv_TotalBytes :: uint64 \<comment> \<open>the only field of \<open>Memory\<close>\<close>

section \<open>Executions and telemetry\<close>

datatype AgentState = AgentStateIdle | AgentStateStarting | AgentStateMining | AgentStateDegraded
  | AgentStateError | AgentStateMaintenance | AgentStateOther string

datatype ExecutionStatus = ExecutionStarting | ExecutionRunning | ExecutionStopping
  | ExecutionStopped | ExecutionCrashed | ExecutionBackoff | ExecutionFailed
  | ExecutionStatusOther string

datatype MinerHealth = MinerHealthStarting | MinerHealthHealthy | MinerHealthMining
  | MinerHealthDegraded | MinerHealthError | MinerHealthOther string

datatype TelemetryAvailability = TelemetryUnknown | TelemetryAvailable | TelemetryUnavailable
  | TelemetryStale | TelemetryOther string

datatype UsefulWorkState = UsefulWorkUnknown | UsefulWorkConfirmed | UsefulWorkNotConfirmed
  | UsefulWorkOther string

datatype UpstreamState = UpstreamUnknown | UpstreamConnected | UpstreamDisconnected
  | UpstreamOther string

datatype EvidenceConfidence = EvidenceConfidenceUnknown | EvidenceConfidenceAdapterReported
  | EvidenceConfidenceUpstreamVerified | EvidenceConfidenceOther string

record WorkMetric =
  wm_Kind :: string
  wm_Unit :: string
  wm_Value :: float64

record UsefulWorkEvidence =
  uw_Provider :: string
  uw_Availability :: TelemetryAvailability
  uw_RuntimeHealthy :: "bool option"
  uw_JobPresent :: "bool option"
  uw_UsefulWork :: UsefulWorkState
  uw_AcceptedWork :: "uint64 option"
  uw_RejectedWork :: "uint64 option"
  uw_StaleWork :: "uint64 option"
  uw_LastUsefulWorkAt :: "Time option"
  uw_Upstream :: UpstreamState
  uw_EndpointVisible :: "bool option"
  uw_Metrics :: "WorkMetric list"
  uw_Confidence :: EvidenceConfidence
  uw_CollectedAt :: Time
  uw_Age :: Duration
  uw_FreshFor :: Duration
  uw_ReasonCode :: Code

record DeviceHashrate =
  dh_DeviceID :: DeviceID
  dh_HashrateHPS :: float64

record MinerTelemetry =
  mt_AdapterID :: string
  mt_MinerVersion :: string
  mt_Algorithm :: string
  mt_HashrateShortHPS :: "float64 option"
  mt_HashrateMediumHPS :: "float64 option"
  mt_HashrateLongHPS :: "float64 option"
  mt_HighestHashrateHPS :: "float64 option"
  mt_PerDevice :: "DeviceHashrate list"
  mt_AcceptedShares :: "uint64 option"
  mt_RejectedShares :: "uint64 option"
  mt_StaleShares :: "uint64 option"
  mt_TotalResults :: "uint64 option"
  mt_PoolConnected :: "bool option"
  mt_PoolLatencyMS :: "uint32 option"
  mt_UptimeSeconds :: uint64
  mt_HugePagesAvailable :: "bool option"
  mt_HugePagesPercent :: "float64 option"
  mt_MSRAvailable :: "bool option"
  mt_CollectedAt :: Time
  mt_Age :: Duration
  mt_Health :: MinerHealth
  mt_ErrorCode :: Code
  mt_Message :: string
  mt_UsefulWork :: "UsefulWorkEvidence option"

record WorkloadOwnership =
  ow_WorkloadID :: WorkloadID
  ow_DesiredGeneration :: uint64
  ow_ResolvedHash :: string
  ow_HostID :: HostID
  ow_CPU :: bool
  ow_DeviceIDs :: "DeviceID list"

record ExecutionObservation =
  ex_ExecutionID :: ExecutionID
  ex_Ownership :: "WorkloadOwnership option"
  ex_Status :: ExecutionStatus
  ex_Error :: "Error option"
  ex_PID :: int
  ex_StartedAt :: Time
  ex_ExitCode :: "int option"
  ex_RestartCount :: uint32
  ex_LastError :: string
  ex_Warnings :: "string list"
  ex_MinerTelemetry :: "MinerTelemetry option"
  ex_UsefulWork :: "UsefulWorkEvidence option"

datatype ProcessResourceAttribution = ProcessResourcesUnknown | ProcessResourcesExact
  | ProcessResourcesOther string

record ProcessEvidence =
  pe_Kind :: string
  pe_Provider :: string
  pe_Detail :: string

record UnmanagedProcessObservation =
  up_PID :: int
  up_Executable :: string
  up_ProcessInstance :: string
  up_CPURelevant :: bool
  up_GPURelevant :: bool
  up_ResourceScope :: ProcessResourceAttribution
  up_CPU :: bool
  up_DeviceIDs :: "DeviceID list"
  up_Evidence :: "ProcessEvidence list"
  up_ObservedAt :: Time

section \<open>Execution plans\<close>

datatype MinerMode = MinerModeMining | MinerModeStress | MinerModeBenchmark | MinerModeOther string

datatype RestartPolicy = RestartNever | RestartOnFailure | RestartPolicyOther string

record MiningEndpoint =
  ep_Address :: string
  ep_TLS :: bool
  ep_User :: string
  ep_Password :: string
  ep_Worker :: string

record MinerSpec =
  ms_AdapterID :: string
  ms_SpecVersion :: uint32
  ms_PackageID :: PackageID
  ms_PackageVersion :: string
  ms_WalletID :: "WalletID option"
  ms_PoolID :: "PoolID option"
  ms_Mode :: MinerMode
  ms_Coin :: string
  ms_Algorithm :: string
  ms_Endpoint :: "MiningEndpoint option"
  ms_CPUThreads :: "uint32 option"
  ms_GPUDeviceIDs :: "DeviceID list"
  ms_GPUAssignments :: "GPUAssignment list"
  ms_HugePages :: "bool option"
  ms_MSR :: "bool option"
  ms_Options :: "string \<rightharpoonup> string"

record ExecutionPlan =
  pl_SchemaVersion :: uint32
  pl_ExecutionID :: ExecutionID
  pl_Ownership :: WorkloadOwnership
  pl_HostID :: HostID
  pl_ProfileID :: ProfileID
  pl_DeviceIDs :: "DeviceID list"
  pl_CPUThreads :: "uint32 option"
  pl_Executable :: string
  pl_Args :: "string list"
  pl_Environment :: "string \<rightharpoonup> string"
  pl_WorkingDirectory :: string
  pl_RestartPolicy :: RestartPolicy
  pl_Miner :: "MinerSpec option"

text \<open>\<open>internal/protocol/version.go\<close>.\<close>

definition CurrentSchemaVersion :: uint32 where
  "CurrentSchemaVersion = 1"

section \<open>Farm objects\<close>

datatype Origin = OriginController | OriginBuiltin | OriginOther string

record ObjectMeta =
  meta_SchemaVersion :: uint32
  meta_Revision :: uint64
  meta_ContentHash :: string
  meta_Origin :: Origin
  meta_CreatedAt :: Time
  meta_UpdatedAt :: Time

datatype PoolAuthKind = PoolAuthNone | PoolAuthPublicLiteral | PoolAuthOther string

record PoolAuth =
  pa_Kind :: PoolAuthKind
  pa_PublicLiteral :: string

record PoolContent =
  pool_Name :: string
  pool_Address :: string
  pool_TLS :: bool
  pool_Auth :: PoolAuth

record Pool =
  pool_PoolID :: PoolID
  pool_Meta :: ObjectMeta
  pool_Content :: PoolContent

record WalletRefContent =
  wal_Name :: string
  wal_Coin :: string
  wal_Address :: string

record WalletRef =
  wal_WalletID :: WalletID
  wal_Meta :: ObjectMeta
  wal_Content :: WalletRefContent

record PackageRef =
  pr_PackageID :: PackageID
  pr_Version :: string

datatype WorkerPlacement = WorkerNone | WorkerInUser | WorkerSeparate | WorkerOther string

record LoginPolicy =
  lp_UserTemplate :: string
  lp_WorkerPlacement :: WorkerPlacement

datatype ProfileMode = ProfileModeMining | ProfileModeOther string

record MiningProfileContent =
  prof_Name :: string
  prof_AdapterID :: string
  prof_Package :: PackageRef
  prof_Mode :: ProfileMode
  prof_Coin :: string
  prof_Algorithm :: string
  prof_PoolID :: PoolID
  prof_WalletID :: WalletID
  prof_LoginPolicy :: LoginPolicy
  prof_CPUThreads :: "uint32 option"
  prof_HugePages :: "bool option"
  prof_MSR :: "bool option"

record MiningProfile =
  prof_ProfileID :: ProfileID
  prof_Meta :: ObjectMeta
  prof_Content :: MiningProfileContent

record HostProfileSettingsContent =
  hps_CPUThreads :: "uint32 option"
  hps_HugePages :: "bool option"
  hps_MSR :: "bool option"

record HostProfileSettings =
  hps_HostID :: HostID
  hps_ProfileID :: ProfileID
  hps_Meta :: ObjectMeta
  hps_Content :: HostProfileSettingsContent

record TuningCapabilities =
  tc_CPUThreads :: bool
  tc_HugePages :: bool
  tc_MSR :: bool

record RuntimeCapabilities =
  rc_CPU :: bool
  rc_GPU :: bool
  rc_MultiGPUSingleProcess :: bool
  rc_GPUVendors :: "string list"

record PackageRelease =
  rel_Ref :: PackageRef
  rel_AdapterIDs :: "string list"
  rel_Tuning :: TuningCapabilities
  rel_Runtime :: RuntimeCapabilities

section \<open>Desired and resolved state\<close>

datatype DesiredRunState = DesiredRunning | DesiredStopped | DesiredOther string

record ResourceClaim =
  cl_CPU :: bool
  cl_DeviceIDs :: "DeviceID list"

record DesiredWorkloadContent =
  dw_Name :: string
  dw_HostID :: HostID
  dw_ProfileID :: ProfileID
  dw_RunState :: DesiredRunState
  dw_Worker :: string
  dw_Resources :: ResourceClaim

record DesiredWorkload =
  dw_WorkloadID :: WorkloadID
  dw_Meta :: ObjectMeta
  dw_DesiredGeneration :: uint64
  dw_EffectiveHash :: string
  dw_Content :: DesiredWorkloadContent

record WorkloadRuntimeBinding =
  rb_WorkloadID :: WorkloadID
  rb_BlockedGeneration :: uint64
  rb_ErrorCode :: Code
  rb_HumanMessage :: string
  rb_BlockedAt :: Time

record ResolvedRuntimeContent =
  rr_RunState :: DesiredRunState
  rr_HostID :: HostID
  rr_ProfileID :: ProfileID
  rr_Resources :: ResourceClaim
  rr_GPUAssignments :: "GPUAssignment list"
  rr_AdapterID :: string
  rr_Package :: PackageRef
  rr_Mode :: ProfileMode
  rr_Coin :: string
  rr_Algorithm :: string
  rr_Endpoint :: MiningEndpoint
  rr_CPUThreads :: "uint32 option"
  rr_HugePages :: "bool option"
  rr_MSR :: "bool option"

record ResolvedExecutionSnapshot =
  sn_WorkloadID :: WorkloadID
  sn_DesiredGeneration :: uint64
  sn_ExecutionID :: ExecutionID
  sn_HostID :: HostID
  sn_ProfileID :: ProfileID
  sn_ProfileRevision :: uint64
  sn_HostProfileSettingsRevision :: uint64
  sn_PoolID :: PoolID
  sn_PoolRevision :: uint64
  sn_WalletID :: WalletID
  sn_WalletRevision :: uint64
  sn_Package :: PackageRef
  sn_Resources :: ResourceClaim
  sn_Plan :: ExecutionPlan
  sn_ResolvedHash :: string
  sn_CreatedAt :: Time

record MaintenanceHold =
  mh_HostID :: HostID
  mh_Active :: bool
  mh_Revision :: uint64
  mh_Reason :: string
  mh_CreatedAt :: Time
  mh_UpdatedAt :: Time

datatype RestoreBarrierStatus = RestoreBarrierPending | RestoreBarrierConflict
  | RestoreBarrierOther string

record ControllerRestoreState =
  rst_Required :: bool
  rst_BackupID :: string
  rst_SourceControllerID :: ControllerID
  rst_SourceFarmID :: FarmID
  rst_SourceTrustFingerprint :: string
  rst_RestoredAt :: Time

record RestoreHostBarrier =
  rhb_HostID :: HostID
  rhb_BackupID :: string
  rhb_Revision :: uint64
  rhb_Status :: RestoreBarrierStatus
  rhb_ReasonCode :: Code
  rhb_UpdatedAt :: Time

section \<open>Incidents\<close>

datatype IncidentType = IncidentAgentOffline | IncidentMonitoringStale
  | IncidentDesiredRunningNotExecuting | IncidentRuntimeError | IncidentUsefulWorkDegraded
  | IncidentTelemetryUnknown | IncidentTelemetryUnavailable | IncidentIncompatibleHardware
  | IncidentUnmanagedProcessConflict | IncidentResourceConflict | IncidentMaintenanceHold
  | IncidentConfigurationBlocked | IncidentTypeOther string

datatype IncidentSeverity = IncidentSeverityInfo | IncidentSeverityWarning
  | IncidentSeverityError | IncidentSeverityCritical | IncidentSeverityOther string

datatype IncidentState = IncidentActive | IncidentResolved | IncidentStateOther string

datatype IncidentSource = IncidentSourceController | IncidentSourceOther string

record IncidentCondition =
  ic_IncidentID :: IncidentID
  ic_Key :: string
  ic_Type :: IncidentType
  ic_Severity :: IncidentSeverity
  ic_HostID :: HostID
  ic_WorkloadID :: "WorkloadID option"
  ic_ExecutionID :: "ExecutionID option"
  ic_DeviceID :: "DeviceID option"
  ic_ReasonCode :: Code
  ic_Source :: IncidentSource

record Incident =
  in_Condition :: IncidentCondition
  in_State :: IncidentState
  in_FirstObservedAt :: Time
  in_LastObservedAt :: Time
  in_ResolvedAt :: "Time option"
  in_OccurrenceCount :: uint64

section \<open>Texts of the enumerations that are written out\<close>

fun IncidentType_text :: "IncidentType \<Rightarrow> string" where
  "IncidentType_text IncidentAgentOffline = ''AGENT_OFFLINE''"
| "IncidentType_text IncidentMonitoringStale = ''MONITORING_STALE''"
| "IncidentType_text IncidentDesiredRunningNotExecuting = ''DESIRED_RUNNING_NOT_EXECUTING''"
| "IncidentType_text IncidentRuntimeError = ''RUNTIME_ERROR''"
| "IncidentType_text IncidentUsefulWorkDegraded = ''USEFUL_WORK_DEGRADED''"
| "IncidentType_text IncidentTelemetryUnknown = ''TELEMETRY_UNKNOWN''"
| "IncidentType_text IncidentTelemetryUnavailable = ''TELEMETRY_UNAVAILABLE''"
| "IncidentType_text IncidentIncompatibleHardware = ''INCOMPATIBLE_HARDWARE''"
| "IncidentType_text IncidentUnmanagedProcessConflict = ''UNMANAGED_PROCESS_CONFLICT''"
| "IncidentType_text IncidentResourceConflict = ''RESOURCE_CONFLICT''"
| "IncidentType_text IncidentMaintenanceHold = ''MAINTENANCE_HOLD''"
| "IncidentType_text IncidentConfigurationBlocked = ''CONFIGURATION_BLOCKED''"
| "IncidentType_text (IncidentTypeOther s) = s"

fun DesiredRunState_text :: "DesiredRunState \<Rightarrow> string" where
  "DesiredRunState_text DesiredRunning = ''RUNNING''"
| "DesiredRunState_text DesiredStopped = ''STOPPED''"
| "DesiredRunState_text (DesiredOther s) = s"

fun PoolAuthKind_text :: "PoolAuthKind \<Rightarrow> string" where
  "PoolAuthKind_text PoolAuthNone = ''NONE''"
| "PoolAuthKind_text PoolAuthPublicLiteral = ''PUBLIC_LITERAL''"
| "PoolAuthKind_text (PoolAuthOther s) = s"

fun WorkerPlacement_text :: "WorkerPlacement \<Rightarrow> string" where
  "WorkerPlacement_text WorkerNone = ''NONE''"
| "WorkerPlacement_text WorkerInUser = ''IN_USER''"
| "WorkerPlacement_text WorkerSeparate = ''SEPARATE''"
| "WorkerPlacement_text (WorkerOther s) = s"

fun ProfileMode_text :: "ProfileMode \<Rightarrow> string" where
  "ProfileMode_text ProfileModeMining = ''MINING''"
| "ProfileMode_text (ProfileModeOther s) = s"

section \<open>Claims and ownership\<close>

text \<open>The check that device lists are valid and free of duplicates, in the order of the loop.\<close>

fun check_devices :: "(error option \<Rightarrow> error) \<Rightarrow> error \<Rightarrow> DeviceID set \<Rightarrow> DeviceID list \<Rightarrow> error option" where
  "check_devices bad dup seen [] = None"
| "check_devices bad dup seen (d # ds) =
     (case DeviceID_Validate d of
        Some e \<Rightarrow> Some (bad (Some e))
      | None \<Rightarrow> if d \<in> seen then Some dup else check_devices bad dup (insert d seen) ds)"

lemma check_devices_None:
  "check_devices bad dup seen ds = None \<longleftrightarrow>
     (\<forall>d\<in>set ds. DeviceID_Validate d = None) \<and> distinct ds \<and> set ds \<inter> seen = {}"
  by (induction ds arbitrary: seen) (auto split: option.splits)

text \<open>
  The lower-case comparison is bytewise: text that is not ASCII is rejected by the hexadecimal
  decoding that follows, with the same error.
\<close>

definition WorkloadOwnership_Validate :: "WorkloadOwnership \<Rightarrow> error option" where
  "WorkloadOwnership_Validate ow =
     (let prefix = ''sha256:''; rawHash = TrimPrefix (ow_ResolvedHash ow) prefix
      in if WorkloadID_Validate (ow_WorkloadID ow) \<noteq> None then Some (Plain ''invalid WorkloadID'')
         else if ow_DesiredGeneration ow < 1 then Some (Plain ''DesiredGeneration must be at least 1'')
         else if HostID_Validate (ow_HostID ow) \<noteq> None then Some (Plain ''invalid HostID'')
         else if \<not> HasPrefix (ow_ResolvedHash ow) prefix
              \<or> length (ow_ResolvedHash ow) \<noteq> length prefix + 64 then Some (Plain ''invalid ResolvedHash'')
         else if map ascii_lower rawHash \<noteq> rawHash then Some (Plain ''invalid ResolvedHash'')
         else if \<not> hex_decodable rawHash then Some (Plain ''invalid ResolvedHash'')
         else if \<not> ow_CPU ow \<and> ow_DeviceIDs ow = []
              then Some (Plain ''ResourceClaim must include CPU or at least one DeviceID'')
         else check_devices (\<lambda>_. Plain ''invalid ResourceClaim DeviceID'')
                (Plain ''duplicate ResourceClaim DeviceID'') {} (ow_DeviceIDs ow))"

end
