(* ===== verification/Observed_Store.thy ===== *)
theory Observed_Store
  imports Farm_Types
begin

text \<open>
  \<open>internal/controllerstate/observed.go\<close>: the Controller's ephemeral, epoch-scoped
  observations of Hosts. The store is a record with the map of entries and the freshness
  timeout. Every operation takes the store and returns the new one with its result; the mutex
  makes each of them atomic. The clock is a parameter: \<open>clk n\<close> is the reading at the n-th call
  site of \<open>store.now\<close> in the operation. The deep copies (\<open>clone*\<close>, \<open>copy*\<close>) protect against
  aliasing and are the identity on values.
\<close>

section \<open>State\<close>

record HostObservation =
  ho_HostID :: HostID
  ho_AgentID :: AgentID
  ho_ConnectionEpoch :: uint64
  ho_Connected :: bool
  ho_Ready :: bool
  ho_Fresh :: bool
  ho_RefreshedAt :: Time
  ho_InventoryFresh :: bool
  ho_InventoryRefreshedAt :: Time
  ho_Inventory :: Inventory
  ho_ProcessesFresh :: bool
  ho_ProcessesRefreshedAt :: Time
  ho_UnmanagedProcesses :: "UnmanagedProcessObservation list"
  ho_AgentState :: AgentState
  ho_Executions :: "ExecutionObservation list"
  ho_RuntimeSequence :: uint64
  ho_Revision :: uint64

record entry =
  en_observation :: HostObservation
  en_inventoryCurrent :: bool
  en_statusCurrent :: bool
  en_processesCurrent :: bool
  en_freshAt :: Time
  en_inventoryFreshAt :: Time
  en_processesFreshAt :: Time
  en_runtimeSequence :: uint64

record Store =
  st_hosts :: "HostID \<rightharpoonup> entry"
  st_freshnessTimeout :: Duration

definition zero_Inventory :: Inventory where
  "zero_Inventory = \<lparr>inv_SchemaVersion = 0,
     inv_Host = \<lparr>host_HostID = HostID [], host_Hostname = [], host_DisplayName = [],
       host_OS = \<lparr>os_ID = [], os_VersionID = [], os_PrettyName = [], os_Kernel = []\<rparr>,
       host_Architecture = []\<rparr>,
     inv_CPU = \<lparr>cpu_Vendor = [], cpu_Model = [], cpu_Sockets = 0, cpu_Cores = 0, cpu_Threads = 0\<rparr>,
     inv_GPUs = [], inv_TotalBytes = 0\<rparr>"

definition zero_HostObservation :: HostObservation where
  "zero_HostObservation = \<lparr>ho_HostID = HostID [], ho_AgentID = AgentID [], ho_ConnectionEpoch = 0,
     ho_Connected = False, ho_Ready = False, ho_Fresh = False, ho_RefreshedAt = 0,
     ho_InventoryFresh = False, ho_InventoryRefreshedAt = 0, ho_Inventory = zero_Inventory,
     ho_ProcessesFresh = False, ho_ProcessesRefreshedAt = 0, ho_UnmanagedProcesses = [],
     ho_AgentState = AgentStateOther [], ho_Executions = [], ho_RuntimeSequence = 0,
     ho_Revision = 0\<rparr>"

definition DefaultFreshnessTimeout :: Duration where
  "DefaultFreshnessTimeout = 45 * 1000000000"

definition NewWithOptions :: "Duration \<Rightarrow> Store" where
  "NewWithOptions freshnessTimeout =
     \<lparr>st_hosts = Map.empty,
      st_freshnessTimeout = (if freshnessTimeout \<le> 0 then DefaultFreshnessTimeout else freshnessTimeout)\<rparr>"

definition put_entry :: "Store \<Rightarrow> HostID \<Rightarrow> entry \<Rightarrow> Store" where
  "put_entry s h e = s\<lparr>st_hosts := (st_hosts s)(h \<mapsto> e)\<rparr>"

section \<open>Operations\<close>

definition store_current :: "Store \<Rightarrow> HostID \<Rightarrow> uint64 \<Rightarrow> entry option" where
  "store_current s h epoch =
     (case st_hosts s h of
        None \<Rightarrow> None
      | Some item \<Rightarrow>
          if ho_ConnectionEpoch (en_observation item) \<noteq> epoch \<or> \<not> ho_Connected (en_observation item)
          then None else Some item)"

definition Connect :: "Store \<Rightarrow> AgentID \<Rightarrow> HostID \<Rightarrow> uint64 \<Rightarrow> Store \<times> bool" where
  "Connect s agentID hostID epoch =
     (case st_hosts s hostID of
        Some c \<Rightarrow> if epoch \<le> ho_ConnectionEpoch (en_observation c) then (s, False)
          else (put_entry s hostID
            \<lparr>en_observation = zero_HostObservation\<lparr>ho_HostID := hostID, ho_AgentID := agentID,
               ho_ConnectionEpoch := epoch, ho_Connected := True, ho_Revision := 1\<rparr>,
             en_inventoryCurrent = False, en_statusCurrent = False, en_processesCurrent = False,
             en_freshAt = 0, en_inventoryFreshAt = 0, en_processesFreshAt = 0,
             en_runtimeSequence = 0\<rparr>, True)
      | None \<Rightarrow> (put_entry s hostID
            \<lparr>en_observation = zero_HostObservation\<lparr>ho_HostID := hostID, ho_AgentID := agentID,
               ho_ConnectionEpoch := epoch, ho_Connected := True, ho_Revision := 1\<rparr>,
             en_inventoryCurrent = False, en_statusCurrent = False, en_processesCurrent = False,
             en_freshAt = 0, en_inventoryFreshAt = 0, en_processesFreshAt = 0,
             en_runtimeSequence = 0\<rparr>, True))"

definition SetExecutions ::
  "Store \<Rightarrow> (nat \<Rightarrow> Time) \<Rightarrow> HostID \<Rightarrow> uint64 \<Rightarrow> ExecutionObservation list \<Rightarrow> Time \<Rightarrow> uint64 \<Rightarrow> Store \<times> bool" where
  "SetExecutions s clk hostID epoch executions refreshedAt runtimeSequence =
     (case store_current s hostID epoch of
        None \<Rightarrow> (s, False)
      | Some item \<Rightarrow>
          if runtimeSequence < en_runtimeSequence item then (s, False)
          else (put_entry s hostID (item\<lparr>
            en_observation := (en_observation item)\<lparr>ho_Executions := executions, ho_Fresh := True,
              ho_RefreshedAt := refreshedAt, ho_RuntimeSequence := runtimeSequence,
              ho_Revision := ho_Revision (en_observation item) + 1\<rparr>,
            en_freshAt := clk 0, en_runtimeSequence := runtimeSequence\<rparr>), True))"

definition SetInventory ::
  "Store \<Rightarrow> (nat \<Rightarrow> Time) \<Rightarrow> HostID \<Rightarrow> uint64 \<Rightarrow> Inventory \<Rightarrow> Store \<times> bool" where
  "SetInventory s clk hostID epoch inventory =
     (case store_current s hostID epoch of
        None \<Rightarrow> (s, False)
      | Some item \<Rightarrow>
          let now = clk 0 in
          (put_entry s hostID (item\<lparr>
            en_observation := (en_observation item)\<lparr>ho_Inventory := inventory,
              ho_InventoryFresh := True, ho_InventoryRefreshedAt := now,
              ho_Revision := ho_Revision (en_observation item) + 1\<rparr>,
            en_inventoryCurrent := True, en_inventoryFreshAt := now\<rparr>), True))"

definition SetUnmanagedProcesses ::
  "Store \<Rightarrow> (nat \<Rightarrow> Time) \<Rightarrow> HostID \<Rightarrow> uint64 \<Rightarrow> UnmanagedProcessObservation list \<Rightarrow> Time \<Rightarrow> Store \<times> bool" where
  "SetUnmanagedProcesses s clk hostID epoch processes refreshedAt =
     (case store_current s hostID epoch of
        None \<Rightarrow> (s, False)
      | Some item \<Rightarrow>
          (put_entry s hostID (item\<lparr>
            en_observation := (en_observation item)\<lparr>ho_UnmanagedProcesses := processes,
              ho_ProcessesFresh := True, ho_ProcessesRefreshedAt := refreshedAt,
              ho_Revision := ho_Revision (en_observation item) + 1\<rparr>,
            en_processesCurrent := True, en_processesFreshAt := clk 0\<rparr>), True))"

definition SetAgentState :: "Store \<Rightarrow> HostID \<Rightarrow> uint64 \<Rightarrow> AgentState \<Rightarrow> Store \<times> bool" where
  "SetAgentState s hostID epoch state =
     (case store_current s hostID epoch of
        None \<Rightarrow> (s, False)
      | Some item \<Rightarrow>
          (put_entry s hostID (item\<lparr>
            en_observation := (en_observation item)\<lparr>ho_AgentState := state,
              ho_Revision := ho_Revision (en_observation item) + 1\<rparr>,
            en_statusCurrent := True\<rparr>), True))"

definition MarkReady :: "Store \<Rightarrow> HostID \<Rightarrow> uint64 \<Rightarrow> Store \<times> bool" where
  "MarkReady s hostID epoch =
     (case store_current s hostID epoch of
        None \<Rightarrow> (s, False)
      | Some item \<Rightarrow>
          if ho_Ready (en_observation item) \<or> \<not> ho_Fresh (en_observation item)
             \<or> \<not> en_inventoryCurrent item \<or> \<not> en_statusCurrent item \<or> \<not> en_processesCurrent item
          then (s, False)
          else (put_entry s hostID (item\<lparr>
            en_observation := (en_observation item)\<lparr>ho_Ready := True,
              ho_Revision := ho_Revision (en_observation item) + 1\<rparr>\<rparr>), True))"

definition RequireFreshBootstrap :: "Store \<Rightarrow> HostID \<Rightarrow> uint64 \<Rightarrow> Store \<times> bool" where
  "RequireFreshBootstrap s hostID epoch =
     (case store_current s hostID epoch of
        None \<Rightarrow> (s, False)
      | Some item \<Rightarrow>
          (put_entry s hostID (item\<lparr>
            en_observation := (en_observation item)\<lparr>ho_Ready := False, ho_Fresh := False,
              ho_InventoryFresh := False, ho_ProcessesFresh := False,
              ho_Revision := ho_Revision (en_observation item) + 1\<rparr>,
            en_freshAt := 0, en_inventoryFreshAt := 0, en_processesFreshAt := 0,
            en_inventoryCurrent := False, en_processesCurrent := False,
            en_statusCurrent := False\<rparr>), True))"

text \<open>The loop of \<open>UpsertExecution\<close>: the first entry with the same identifier is replaced.\<close>

fun replace_execution ::
  "ExecutionObservation \<Rightarrow> ExecutionObservation list \<Rightarrow> ExecutionObservation list \<times> bool" where
  "replace_execution x [] = ([], False)"
| "replace_execution x (e # es) =
     (if ex_ExecutionID e = ex_ExecutionID x then (x # es, True)
      else let r = replace_execution x es in (e # fst r, snd r))"

definition UpsertExecution ::
  "Store \<Rightarrow> (nat \<Rightarrow> Time) \<Rightarrow> HostID \<Rightarrow> uint64 \<Rightarrow> ExecutionObservation \<Rightarrow> Time \<Rightarrow> uint64 \<Rightarrow> Store \<times> bool" where
  "UpsertExecution s clk hostID epoch execution refreshedAt runtimeSequence =
     (case store_current s hostID epoch of
        None \<Rightarrow> (s, False)
      | Some item \<Rightarrow>
          if \<not> ho_Fresh (en_observation item) \<or> runtimeSequence < en_runtimeSequence item then (s, False)
          else
            let r = replace_execution execution (ho_Executions (en_observation item));
                replaced = (if snd r then fst r else fst r @ [execution]);
                sorted_es = sort_key ex_ExecutionID replaced
            in (put_entry s hostID (item\<lparr>
              en_observation := (en_observation item)\<lparr>ho_Executions := sorted_es,
                ho_RefreshedAt := refreshedAt, ho_RuntimeSequence := runtimeSequence,
                ho_Revision := ho_Revision (en_observation item) + 1\<rparr>,
              en_freshAt := clk 0, en_runtimeSequence := runtimeSequence\<rparr>), True))"

definition Disconnect :: "Store \<Rightarrow> HostID \<Rightarrow> uint64 \<Rightarrow> Store \<times> bool" where
  "Disconnect s hostID epoch =
     (case store_current s hostID epoch of
        None \<Rightarrow> (s, False)
      | Some item \<Rightarrow>
          (put_entry s hostID (item\<lparr>
            en_observation := (en_observation item)\<lparr>ho_Connected := False, ho_Ready := False,
              ho_Fresh := False, ho_InventoryFresh := False, ho_ProcessesFresh := False,
              ho_Revision := ho_Revision (en_observation item) + 1\<rparr>,
            en_freshAt := 0, en_inventoryCurrent := False, en_inventoryFreshAt := 0,
            en_processesCurrent := False, en_processesFreshAt := 0,
            en_statusCurrent := False\<rparr>), True))"

section \<open>Reading\<close>

text \<open>\<open>refreshFreshness\<close>: three expiry checks in sequence, each with its own clock reading.\<close>

definition bump_revision :: "HostObservation \<Rightarrow> HostObservation" where
  "bump_revision o' = o'\<lparr>ho_Revision := ho_Revision o' + 1\<rparr>"

definition expired :: "Duration \<Rightarrow> Time \<Rightarrow> Time \<Rightarrow> bool" where
  "expired timeout at now \<longleftrightarrow> IsZero at \<or> time_Sub now at > timeout"

definition refreshFreshness :: "Duration \<Rightarrow> (nat \<Rightarrow> Time) \<Rightarrow> entry \<Rightarrow> entry" where
  "refreshFreshness timeout clk item =
     (let o0 = en_observation item;
          o1 = (if ho_Fresh o0 \<and> expired timeout (en_freshAt item) (clk 0)
                then bump_revision (o0\<lparr>ho_Fresh := False\<rparr>) else o0);
          o2 = (if ho_InventoryFresh o1 \<and> expired timeout (en_inventoryFreshAt item) (clk 1)
                then bump_revision (o1\<lparr>ho_InventoryFresh := False\<rparr>) else o1);
          o3 = (if ho_ProcessesFresh o2 \<and> expired timeout (en_processesFreshAt item) (clk 2)
                then bump_revision (o2\<lparr>ho_ProcessesFresh := False\<rparr>) else o2)
      in item\<lparr>en_observation := o3\<rparr>)"

text \<open>One iteration of \<open>ageObservedTelemetry\<close>: the aged execution and its stale-working flag.\<close>

definition age_execution :: "Duration \<Rightarrow> ExecutionObservation \<Rightarrow> ExecutionObservation \<times> bool" where
  "age_execution elapsed e =
     (case ex_UsefulWork e of
        None \<Rightarrow> (e, False)
      | Some ev \<Rightarrow>
          let tel = map_option (\<lambda>t. t\<lparr>mt_Age := wrap_int64 (mt_Age t + elapsed)\<rparr>) (ex_MinerTelemetry e);
              ev1 = ev\<lparr>uw_Age := wrap_int64 (uw_Age ev + elapsed)\<rparr>
          in if uw_Availability ev1 = TelemetryAvailable \<and> uw_FreshFor ev1 > 0
                \<and> uw_Age ev1 > uw_FreshFor ev1
             then (e\<lparr>ex_MinerTelemetry := map_option (\<lambda>t. t\<lparr>mt_Health := MinerHealthDegraded,
                       mt_ErrorCode := TELEMETRY_STALE\<rparr>) tel,
                     ex_UsefulWork := Some (ev1\<lparr>uw_Availability := TelemetryStale,
                       uw_ReasonCode := TELEMETRY_STALE\<rparr>)\<rparr>,
                   ex_Status e = ExecutionRunning \<and> uw_UsefulWork ev1 = UsefulWorkConfirmed)
             else (e\<lparr>ex_MinerTelemetry := tel, ex_UsefulWork := Some ev1\<rparr>, False))"

definition ageObservedTelemetry :: "HostObservation \<Rightarrow> Duration \<Rightarrow> HostObservation" where
  "ageObservedTelemetry observation elapsed =
     (if elapsed \<le> 0 then observation
      else let aged = map (age_execution elapsed) (ho_Executions observation);
               staleWorking = list_ex snd aged
           in observation\<lparr>ho_Executions := map fst aged,
                ho_AgentState := (if staleWorking \<and> ho_AgentState observation = AgentStateMining
                  then AgentStateDegraded else ho_AgentState observation)\<rparr>)"

definition cloneCurrent :: "(nat \<Rightarrow> Time) \<Rightarrow> entry \<Rightarrow> HostObservation" where
  "cloneCurrent clk item =
     (if IsZero (en_freshAt item) then en_observation item
      else ageObservedTelemetry (en_observation item) (time_Sub (clk 3) (en_freshAt item)))"

definition Get :: "Store \<Rightarrow> (nat \<Rightarrow> Time) \<Rightarrow> HostID \<Rightarrow> Store \<times> HostObservation \<times> bool" where
  "Get s clk hostID =
     (case st_hosts s hostID of
        None \<Rightarrow> (s, zero_HostObservation, False)
      | Some item \<Rightarrow>
          let item' = refreshFreshness (st_freshnessTimeout s) clk item
          in (put_entry s hostID item', cloneCurrent clk item', True))"

text \<open>
  \<open>List\<close> walks the map in an order Go leaves open and then sorts by HostID. Here it walks the
  keys in ascending order; the map is finite in every reachable store.
\<close>

definition ListHosts :: "Store \<Rightarrow> (HostID \<Rightarrow> nat \<Rightarrow> Time) \<Rightarrow> Store \<times> HostObservation list" where
  "ListHosts s clk =
     (let hosts' = (\<lambda>h. map_option (refreshFreshness (st_freshnessTimeout s) (clk h)) (st_hosts s h));
          keys = sorted_list_of_set (dom (st_hosts s))
      in (s\<lparr>st_hosts := hosts'\<rparr>,
          sort_key ho_HostID (map (\<lambda>h. cloneCurrent (clk h) (the (hosts' h))) keys)))"

section \<open>Reads after writes\<close>

lemma put_entry_hosts [store_simps, simp]: "st_hosts (put_entry s h e) = (st_hosts s)(h \<mapsto> e)"
  by (simp add: put_entry_def)

lemma put_entry_timeout [store_simps, simp]: "st_freshnessTimeout (put_entry s h e) = st_freshnessTimeout s"
  by (simp add: put_entry_def)

lemma store_current_Some:
  "store_current s h ep = Some i \<longleftrightarrow>
     st_hosts s h = Some i \<and> ho_ConnectionEpoch (en_observation i) = ep \<and> ho_Connected (en_observation i)"
  by (auto simp: store_current_def split: option.splits)

lemmas op_defs = SetExecutions_def SetInventory_def SetUnmanagedProcesses_def SetAgentState_def
  MarkReady_def RequireFreshBootstrap_def UpsertExecution_def Disconnect_def

section \<open>The contract of epoch-gated operations\<close>

text \<open>
  Every mutation but \<open>Connect\<close> is gated by the epoch of a live session: it changes nothing and
  returns false unless the named epoch is the connected one, and when it returns true it
  rewrites only that Host's entry, keeps its identity and advances its revision by one.
\<close>

definition same_identity :: "HostObservation \<Rightarrow> HostObservation \<Rightarrow> bool" where
  "same_identity o1 o2 \<longleftrightarrow> ho_HostID o1 = ho_HostID o2 \<and> ho_AgentID o1 = ho_AgentID o2
     \<and> ho_ConnectionEpoch o1 = ho_ConnectionEpoch o2"

text \<open>The revision counted at most \<open>n\<close> changes, and an entry whose revision counted none is the same.\<close>

definition counts_changes :: "nat \<Rightarrow> entry \<Rightarrow> entry \<Rightarrow> bool" where
  "counts_changes n i i' \<longleftrightarrow> (\<exists>m\<le>n. ho_Revision (en_observation i') = ho_Revision (en_observation i) + of_nat m \<and> (m = 0 \<longrightarrow> i' = i))"

lemma counts_changes_refl [simp]: "counts_changes n i i"
  by (auto simp: counts_changes_def intro!: exI[of _ 0])

lemma counts_changes_one: "ho_Revision (en_observation i') = ho_Revision (en_observation i) + 1 \<Longrightarrow> 1 \<le> n \<Longrightarrow> counts_changes n i i'"
  unfolding counts_changes_def by (intro exI[of _ 1]) simp

lemma counts_changes_trans: "counts_changes m i j \<Longrightarrow> counts_changes n j k \<Longrightarrow> counts_changes (m + n) i k"
proof -
  assume "counts_changes m i j" "counts_changes n j k"
  then obtain a b where "a \<le> m" "b \<le> n" "a = 0 \<longrightarrow> j = i" "b = 0 \<longrightarrow> k = j"
    and "ho_Revision (en_observation j) = ho_Revision (en_observation i) + of_nat a" "ho_Revision (en_observation k) = ho_Revision (en_observation j) + of_nat b"
    by (auto simp: counts_changes_def)
  then show ?thesis unfolding counts_changes_def by (intro exI[of _ "a + b"]) (simp add: add.assoc)
qed

lemma counts_changes_mono: "counts_changes 1 i i' \<Longrightarrow> counts_changes 3 i i'"
  using counts_changes_trans[of 1 i i' 2 i'] by (simp add: numeral_3_eq_3)

lemma counted_grows:
  assumes "counts_changes n i i'" "unat (ho_Revision (en_observation i)) + n < 2 ^ 64"
  shows "ho_Revision (en_observation i) \<le> ho_Revision (en_observation i') \<and> (ho_Revision (en_observation i') = ho_Revision (en_observation i) \<longrightarrow> i' = i)"
proof -
  obtain m where m: "m \<le> n" "ho_Revision (en_observation i') = ho_Revision (en_observation i) + of_nat m" "m = 0 \<longrightarrow> i' = i"
    using assms(1) by (auto simp: counts_changes_def)
  have "unat (ho_Revision (en_observation i')) = unat (ho_Revision (en_observation i)) + m"
    using m(1) assms(2) unfolding m(2) by (simp add: unat_word_ariths unat_of_nat)
  then show ?thesis using m(3) by (auto simp: word_le_nat_alt)
qed

locale epoch_gated =
  fixes op :: "Store \<Rightarrow> HostID \<Rightarrow> uint64 \<Rightarrow> Store \<times> bool"
  assumes gate: "store_current s h ep = None \<Longrightarrow> op s h ep = (s, False)"
    and refused: "op s h ep = (s', False) \<Longrightarrow> s' = s"
    and accepted: "op s h ep = (s', True) \<Longrightarrow> \<exists>i i'. store_current s h ep = Some i
          \<and> s' = put_entry s h i' \<and> same_identity (en_observation i') (en_observation i)
          \<and> ho_Revision (en_observation i') = ho_Revision (en_observation i) + 1
          \<and> en_runtimeSequence i \<le> en_runtimeSequence i'"
begin

lemma stale_epoch:
  assumes "st_hosts s h = Some i" and "ho_ConnectionEpoch (en_observation i) \<noteq> ep"
  shows "op s h ep = (s, False)"
  using assms by (intro gate) (simp add: store_current_def)

lemma disconnected:
  assumes "st_hosts s h = Some i" and "\<not> ho_Connected (en_observation i)"
  shows "op s h ep = (s, False)"
  using assms by (intro gate) (simp add: store_current_def)

lemma other_host: "op s h ep = (s', b) \<Longrightarrow> h' \<noteq> h \<Longrightarrow> st_hosts s' h' = st_hosts s h'"
  by (cases b) (auto dest: accepted refused)

lemma epoch_kept:
  assumes "op s h ep = (s', b)" and "st_hosts s k = Some i"
  shows "\<exists>i'. st_hosts s' k = Some i' \<and> same_identity (en_observation i') (en_observation i)
    \<and> en_runtimeSequence i \<le> en_runtimeSequence i'"
proof (cases b)
  case True
  with assms(1) obtain j j' where j: "store_current s h ep = Some j" "s' = put_entry s h j'"
    "same_identity (en_observation j') (en_observation j)" "en_runtimeSequence j \<le> en_runtimeSequence j'"
    by (metis accepted)
  show ?thesis using assms(2) j by (cases "k = h") (auto simp: store_current_Some same_identity_def)
qed (use assms in \<open>auto dest: refused simp: same_identity_def\<close>)

lemma change_counted:
  assumes "op s h ep = (s', b)" and "st_hosts s k = Some i" and "st_hosts s' k = Some i'"
  shows "counts_changes 1 i i'"
proof (cases b)
  case True
  with assms(1) obtain j j' where j: "store_current s h ep = Some j" "s' = put_entry s h j'"
    "ho_Revision (en_observation j') = ho_Revision (en_observation j) + 1"
    by (metis accepted)
  show ?thesis using assms(2,3) j by (cases "k = h") (auto simp: store_current_Some intro: counts_changes_one)
qed (use assms in \<open>auto dest: refused\<close>)

lemma dom_kept: "op s h ep = (s', b) \<Longrightarrow> dom (st_hosts s') = dom (st_hosts s)"
  by (cases b) (auto dest!: accepted refused simp: store_current_Some split: if_splits)

lemma timeout_kept: "op s h ep = (s', b) \<Longrightarrow> st_freshnessTimeout s' = st_freshnessTimeout s"
  by (cases b) (auto dest!: accepted refused)

end

interpretation set_executions: epoch_gated "\<lambda>s h ep. SetExecutions s clk h ep xs t q" for clk xs t q
  by unfold_locales
    (auto simp: SetExecutions_def same_identity_def split: option.splits if_splits)

interpretation set_inventory: epoch_gated "\<lambda>s h ep. SetInventory s clk h ep iv" for clk iv
  by unfold_locales
    (auto simp: SetInventory_def same_identity_def Let_def split: option.splits if_splits)

interpretation set_processes: epoch_gated "\<lambda>s h ep. SetUnmanagedProcesses s clk h ep ps t" for clk ps t
  by unfold_locales
    (auto simp: SetUnmanagedProcesses_def same_identity_def split: option.splits if_splits)

interpretation set_agent_state: epoch_gated "\<lambda>s h ep. SetAgentState s h ep st" for st
  by unfold_locales
    (auto simp: SetAgentState_def same_identity_def split: option.splits if_splits)

interpretation mark_ready: epoch_gated MarkReady
  by unfold_locales
    (auto simp: MarkReady_def same_identity_def split: option.splits if_splits)

interpretation require_bootstrap: epoch_gated RequireFreshBootstrap
  by unfold_locales
    (auto simp: RequireFreshBootstrap_def same_identity_def split: option.splits if_splits)

interpretation upsert: epoch_gated "\<lambda>s h ep. UpsertExecution s clk h ep x t q" for clk x t q
  by unfold_locales
    (auto simp: UpsertExecution_def same_identity_def Let_def split: option.splits if_splits)

interpretation disconnect: epoch_gated Disconnect
  by unfold_locales
    (auto simp: Disconnect_def same_identity_def split: option.splits if_splits)

section \<open>The invariant of reachable stores\<close>

definition entry_inv :: "HostID \<Rightarrow> entry \<Rightarrow> bool" where
  "entry_inv h i \<longleftrightarrow>
     ho_HostID (en_observation i) = h
   \<and> (ho_Ready (en_observation i) \<longrightarrow> ho_Connected (en_observation i) \<and> en_inventoryCurrent i
        \<and> en_statusCurrent i \<and> en_processesCurrent i)
   \<and> (ho_Fresh (en_observation i) \<longrightarrow> ho_Connected (en_observation i))
   \<and> (ho_InventoryFresh (en_observation i) \<longrightarrow> ho_Connected (en_observation i) \<and> en_inventoryCurrent i)
   \<and> (ho_ProcessesFresh (en_observation i) \<longrightarrow> ho_Connected (en_observation i) \<and> en_processesCurrent i)
   \<and> ho_RuntimeSequence (en_observation i) = en_runtimeSequence i"

definition store_inv :: "Store \<Rightarrow> bool" where
  "store_inv s \<longleftrightarrow> finite (dom (st_hosts s)) \<and> 0 < st_freshnessTimeout s
     \<and> (\<forall>h i. st_hosts s h = Some i \<longrightarrow> entry_inv h i)"

lemma store_inv_put [intro]: "store_inv s \<Longrightarrow> entry_inv h i \<Longrightarrow> store_inv (put_entry s h i)"
  by (auto simp: store_inv_def)

lemma store_inv_current: "store_inv s \<Longrightarrow> store_current s h ep = Some i \<Longrightarrow>
    entry_inv h i \<and> ho_Connected (en_observation i)"
  by (auto simp: store_inv_def store_current_Some)

lemma store_inv_New: "store_inv (NewWithOptions d)"
  by (simp add: store_inv_def NewWithOptions_def DefaultFreshnessTimeout_def)

lemma store_inv_Connect: "store_inv s \<Longrightarrow> store_inv (fst (Connect s a h ep))"
  by (auto simp: Connect_def entry_inv_def zero_HostObservation_def split: option.splits)

lemma store_inv_ops:
  assumes "store_inv s"
  shows "store_inv (fst (SetExecutions s clk h ep xs t q))"
    and "store_inv (fst (SetInventory s clk h ep iv))"
    and "store_inv (fst (SetUnmanagedProcesses s clk h ep ps t))"
    and "store_inv (fst (SetAgentState s h ep st))"
    and "store_inv (fst (MarkReady s h ep))"
    and "store_inv (fst (RequireFreshBootstrap s h ep))"
    and "store_inv (fst (UpsertExecution s clk h ep x t q))"
    and "store_inv (fst (Disconnect s h ep))"
  using assms store_inv_current[OF assms]
  by (auto simp: op_defs Let_def entry_inv_def split: option.splits)

lemma refreshFreshness_fields [simp]:
  "en_inventoryCurrent (refreshFreshness d clk i) = en_inventoryCurrent i"
  "en_statusCurrent (refreshFreshness d clk i) = en_statusCurrent i"
  "en_processesCurrent (refreshFreshness d clk i) = en_processesCurrent i"
  "en_freshAt (refreshFreshness d clk i) = en_freshAt i"
  "en_inventoryFreshAt (refreshFreshness d clk i) = en_inventoryFreshAt i"
  "en_processesFreshAt (refreshFreshness d clk i) = en_processesFreshAt i"
  "en_runtimeSequence (refreshFreshness d clk i) = en_runtimeSequence i"
  by (simp_all add: refreshFreshness_def Let_def)

lemma refreshFreshness_observation [simp]:
  "ho_HostID (en_observation (refreshFreshness d clk i)) = ho_HostID (en_observation i)"
  "ho_AgentID (en_observation (refreshFreshness d clk i)) = ho_AgentID (en_observation i)"
  "ho_ConnectionEpoch (en_observation (refreshFreshness d clk i)) = ho_ConnectionEpoch (en_observation i)"
  "ho_Connected (en_observation (refreshFreshness d clk i)) = ho_Connected (en_observation i)"
  "ho_Ready (en_observation (refreshFreshness d clk i)) = ho_Ready (en_observation i)"
  "ho_RuntimeSequence (en_observation (refreshFreshness d clk i)) = ho_RuntimeSequence (en_observation i)"
  "ho_Executions (en_observation (refreshFreshness d clk i)) = ho_Executions (en_observation i)"
  "ho_AgentState (en_observation (refreshFreshness d clk i)) = ho_AgentState (en_observation i)"
  by (simp_all add: refreshFreshness_def Let_def bump_revision_def)

lemma refreshFreshness_fresh:
  "ho_Fresh (en_observation (refreshFreshness d clk i)) \<longleftrightarrow>
     ho_Fresh (en_observation i) \<and> \<not> expired d (en_freshAt i) (clk 0)"
  "ho_InventoryFresh (en_observation (refreshFreshness d clk i)) \<longleftrightarrow>
     ho_InventoryFresh (en_observation i) \<and> \<not> expired d (en_inventoryFreshAt i) (clk 1)"
  "ho_ProcessesFresh (en_observation (refreshFreshness d clk i)) \<longleftrightarrow>
     ho_ProcessesFresh (en_observation i) \<and> \<not> expired d (en_processesFreshAt i) (clk 2)"
  by (auto simp: refreshFreshness_def Let_def bump_revision_def)

lemma entry_inv_refresh: "entry_inv h i \<Longrightarrow> entry_inv h (refreshFreshness d clk i)"
  by (auto simp: entry_inv_def refreshFreshness_fresh)

lemma store_inv_Get: "store_inv s \<Longrightarrow> store_inv (fst (Get s clk h))"
  by (auto simp: Get_def Let_def store_inv_def intro: entry_inv_refresh split: option.splits)

lemma store_inv_ListHosts: "store_inv s \<Longrightarrow> store_inv (fst (ListHosts s clk))"
  by (auto simp: ListHosts_def Let_def store_inv_def dom_def intro: entry_inv_refresh)

section \<open>Runs\<close>

datatype ObsEvent = EvConnect AgentID HostID uint64
  | EvExecutions "nat \<Rightarrow> Time" HostID uint64 "ExecutionObservation list" Time uint64
  | EvInventory "nat \<Rightarrow> Time" HostID uint64 Inventory
  | EvProcesses "nat \<Rightarrow> Time" HostID uint64 "UnmanagedProcessObservation list" Time
  | EvAgentState HostID uint64 AgentState
  | EvMarkReady HostID uint64
  | EvRequireBootstrap HostID uint64
  | EvUpsert "nat \<Rightarrow> Time" HostID uint64 ExecutionObservation Time uint64
  | EvDisconnect HostID uint64
  | EvGet "nat \<Rightarrow> Time" HostID
  | EvList "HostID \<Rightarrow> nat \<Rightarrow> Time"

fun obs_step :: "Store \<Rightarrow> ObsEvent \<Rightarrow> Store" where
  "obs_step s (EvConnect a h ep) = fst (Connect s a h ep)"
| "obs_step s (EvExecutions clk h ep xs t q) = fst (SetExecutions s clk h ep xs t q)"
| "obs_step s (EvInventory clk h ep iv) = fst (SetInventory s clk h ep iv)"
| "obs_step s (EvProcesses clk h ep ps t) = fst (SetUnmanagedProcesses s clk h ep ps t)"
| "obs_step s (EvAgentState h ep st) = fst (SetAgentState s h ep st)"
| "obs_step s (EvMarkReady h ep) = fst (MarkReady s h ep)"
| "obs_step s (EvRequireBootstrap h ep) = fst (RequireFreshBootstrap s h ep)"
| "obs_step s (EvUpsert clk h ep x t q) = fst (UpsertExecution s clk h ep x t q)"
| "obs_step s (EvDisconnect h ep) = fst (Disconnect s h ep)"
| "obs_step s (EvGet clk h) = fst (Get s clk h)"
| "obs_step s (EvList clk) = fst (ListHosts s clk)"

fun obs_run :: "Store \<Rightarrow> ObsEvent list \<Rightarrow> Store" where
  "obs_run s [] = s"
| "obs_run s (e # es) = obs_run (obs_step s e) es"

lemma store_inv_step: "store_inv s \<Longrightarrow> store_inv (obs_step s e)"
  by (cases e) (simp_all add: store_inv_ops store_inv_Connect store_inv_Get store_inv_ListHosts)

lemma store_inv_run: "store_inv s \<Longrightarrow> store_inv (obs_run s es)"
  by (induction es arbitrary: s) (simp_all add: store_inv_step)

section \<open>Epochs and watermarks only advance\<close>

definition advances :: "entry \<Rightarrow> entry \<Rightarrow> bool" where
  "advances i i' \<longleftrightarrow>
     ho_ConnectionEpoch (en_observation i) < ho_ConnectionEpoch (en_observation i')
   \<or> (same_identity (en_observation i') (en_observation i)
       \<and> en_runtimeSequence i \<le> en_runtimeSequence i')"

lemma advances_refl [simp]: "advances i i"
  by (simp add: advances_def same_identity_def)

lemma advances_trans: "advances i j \<Longrightarrow> advances j k \<Longrightarrow> advances i k"
  unfolding advances_def same_identity_def by (auto intro: order_trans less_trans)

lemma advances_kept: "same_identity (en_observation i') (en_observation i) \<Longrightarrow>
    en_runtimeSequence i \<le> en_runtimeSequence i' \<Longrightarrow> advances i i'"
  by (simp add: advances_def)

lemmas gated_epoch_kept = set_executions.epoch_kept set_inventory.epoch_kept
  set_processes.epoch_kept set_agent_state.epoch_kept mark_ready.epoch_kept
  require_bootstrap.epoch_kept upsert.epoch_kept disconnect.epoch_kept

lemma Connect_advances:
  "st_hosts s k = Some i \<Longrightarrow> \<exists>i'. st_hosts (fst (Connect s a h ep)) k = Some i' \<and> advances i i'"
  by (auto simp: Connect_def advances_def same_identity_def split: option.splits)

lemma Get_advances:
  "st_hosts s k = Some i \<Longrightarrow> \<exists>i'. st_hosts (fst (Get s clk h)) k = Some i' \<and> advances i i'"
  by (auto simp: Get_def Let_def advances_def same_identity_def split: option.splits)

lemma ListHosts_advances:
  "st_hosts s k = Some i \<Longrightarrow> \<exists>i'. st_hosts (fst (ListHosts s clk)) k = Some i' \<and> advances i i'"
  by (auto simp: ListHosts_def Let_def advances_def same_identity_def)

lemma obs_step_advances:
  assumes "st_hosts s k = Some i"
  shows "\<exists>i'. st_hosts (obs_step s e) k = Some i' \<and> advances i i'"
proof (cases e)
  case (EvConnect a h ep) then show ?thesis using Connect_advances[OF assms] by simp
next
  case (EvGet clk h) then show ?thesis using Get_advances[OF assms] by simp
next
  case (EvList clk) then show ?thesis using ListHosts_advances[OF assms] by simp
qed (use assms in \<open>auto dest: gated_epoch_kept[OF surjective_pairing] intro: advances_kept\<close>)

lemma run_advances: "st_hosts s h = Some i \<Longrightarrow> \<exists>i'. st_hosts (obs_run s es) h = Some i' \<and> advances i i'"
proof (induction es arbitrary: s i)
  case (Cons e es)
  obtain j where j: "st_hosts (obs_step s e) h = Some j" "advances i j"
    using obs_step_advances[OF Cons.prems] by blast
  with Cons.IH[OF j(1)] show ?case by (auto intro: advances_trans)
qed simp

lemmas gated_change_counted = set_executions.change_counted set_inventory.change_counted
  set_processes.change_counted set_agent_state.change_counted mark_ready.change_counted
  require_bootstrap.change_counted upsert.change_counted disconnect.change_counted

lemma refresh_counted: "counts_changes 3 i (refreshFreshness d clk i)"
proof -
  have step: "counts_changes 1 (i\<lparr>en_observation := x\<rparr>) (i\<lparr>en_observation := if c then bump_revision y else x\<rparr>)" if "ho_Revision y = ho_Revision x" for c x y
    using that by (auto simp: bump_revision_def intro: counts_changes_one)
  define o0 o1 o2 o3 where "o0 = en_observation i"
    and "o1 = (if ho_Fresh o0 \<and> expired d (en_freshAt i) (clk 0) then bump_revision (o0\<lparr>ho_Fresh := False\<rparr>) else o0)"
    and "o2 = (if ho_InventoryFresh o1 \<and> expired d (en_inventoryFreshAt i) (clk 1) then bump_revision (o1\<lparr>ho_InventoryFresh := False\<rparr>) else o1)"
    and "o3 = (if ho_ProcessesFresh o2 \<and> expired d (en_processesFreshAt i) (clk 2) then bump_revision (o2\<lparr>ho_ProcessesFresh := False\<rparr>) else o2)"
  note os = this
  have "counts_changes 1 (i\<lparr>en_observation := o0\<rparr>) (i\<lparr>en_observation := o1\<rparr>)" unfolding os(2) by (rule step) simp
  moreover have "counts_changes 1 (i\<lparr>en_observation := o1\<rparr>) (i\<lparr>en_observation := o2\<rparr>)" unfolding os(3) by (rule step) simp
  moreover have "counts_changes 1 (i\<lparr>en_observation := o2\<rparr>) (i\<lparr>en_observation := o3\<rparr>)" unfolding os(4) by (rule step) simp
  ultimately have "counts_changes (1 + 1 + 1) (i\<lparr>en_observation := o0\<rparr>) (i\<lparr>en_observation := o3\<rparr>)" by (blast intro: counts_changes_trans)
  moreover have "i\<lparr>en_observation := o3\<rparr> = refreshFreshness d clk i" by (simp only: refreshFreshness_def Let_def os)
  moreover have "i\<lparr>en_observation := o0\<rparr> = i" by (simp add: os(1))
  ultimately show ?thesis by (simp add: numeral_3_eq_3)
qed

lemma obs_step_counted:
  assumes "st_hosts s k = Some i" "st_hosts (obs_step s e) k = Some i'"
    and "ho_ConnectionEpoch (en_observation i') = ho_ConnectionEpoch (en_observation i)"
  shows "counts_changes 3 i i'"
proof (cases e)
  case (EvConnect a h ep)
  then have "i' = i" using assms by (auto simp: Connect_def split: option.splits if_splits)
  then show ?thesis by simp
next
  case (EvGet clk h)
  then show ?thesis using assms refresh_counted by (auto simp: Get_def Let_def split: option.splits if_splits)
next
  case (EvList clk)
  then show ?thesis using assms refresh_counted by (auto simp: ListHosts_def Let_def)
qed (use assms in \<open>auto intro!: counts_changes_mono dest: gated_change_counted[OF surjective_pairing]\<close>)

lemma obs_run_counted:
  assumes "st_hosts s h = Some i" "st_hosts (obs_run s es) h = Some i'"
    and "ho_ConnectionEpoch (en_observation i') = ho_ConnectionEpoch (en_observation i)"
  shows "counts_changes (3 * length es) i i'"
  using assms
proof (induction es arbitrary: s i)
  case (Cons e es)
  obtain j where j: "st_hosts (obs_step s e) h = Some j" "advances i j" using obs_step_advances[OF Cons.prems(1)] by blast
  have "advances j i'" using run_advances[OF j(1), of es] Cons.prems(2) by simp
  then have e: "ho_ConnectionEpoch (en_observation j) = ho_ConnectionEpoch (en_observation i)"
    using j(2) Cons.prems(3) by (auto simp: advances_def same_identity_def)
  then have "counts_changes (3 * length es) j i'" using Cons.IH[OF j(1)] Cons.prems(2,3) by simp
  then show ?case using counts_changes_trans[OF obs_step_counted[OF Cons.prems(1) j(1) e]] by simp
qed simp

text \<open>
  C4: Whatever the sequence of store operations, the observation of a Host never goes back: its
  connection epoch never decreases, and while the epoch stays the same the Agent identity is
  kept, the runtime watermark of the represented executions never decreases, and neither does the
  revision, which grows whenever anything of the entry changes (an operation raises it by at most
  three, so the last holds for runs that are too short to wrap the 64 bits).
\<close>

theorem observation_never_goes_back:
  assumes "st_hosts s h = Some i"
  shows "\<exists>i'. st_hosts (obs_run s es) h = Some i' \<and> advances i i'
    \<and> (ho_ConnectionEpoch (en_observation i') = ho_ConnectionEpoch (en_observation i)
        \<and> unat (ho_Revision (en_observation i)) + 3 * length es < 2 ^ 64
      \<longrightarrow> ho_Revision (en_observation i) \<le> ho_Revision (en_observation i')
        \<and> (ho_Revision (en_observation i') = ho_Revision (en_observation i) \<longrightarrow> i' = i))"
proof -
  obtain i' where i': "st_hosts (obs_run s es) h = Some i'" "advances i i'" using run_advances[OF assms] by blast
  then show ?thesis using counted_grows[OF obs_run_counted[OF assms i'(1)]] by blast
qed

section \<open>Readiness refines a bootstrap ledger\<close>

text \<open>
  The abstract promise of the store for one Host: a ledger of the kinds of facts that arrived
  for the live epoch since its last connection or bootstrap reset.
\<close>

datatype Fact = FactExecutions | FactInventory | FactProcesses | FactStatus

record Ledger =
  lg_epoch :: uint64
  lg_live :: bool
  lg_facts :: "Fact set"

definition ledger_on :: "HostID \<Rightarrow> HostID \<Rightarrow> uint64 \<Rightarrow> (Ledger \<Rightarrow> Ledger) \<Rightarrow> Ledger option \<Rightarrow> Ledger option" where
  "ledger_on h h' ep f l =
     map_option (\<lambda>g. if h' = h \<and> lg_epoch g = ep \<and> lg_live g then f g else g) l"

definition learn :: "Fact \<Rightarrow> Ledger \<Rightarrow> Ledger" where
  "learn x g = g\<lparr>lg_facts := insert x (lg_facts g)\<rparr>"

fun ledger_step :: "HostID \<Rightarrow> Ledger option \<Rightarrow> ObsEvent \<Rightarrow> Ledger option" where
  "ledger_step h l (EvConnect a h' ep) =
     (if h' = h \<and> (case l of None \<Rightarrow> True | Some g \<Rightarrow> lg_epoch g < ep)
      then Some \<lparr>lg_epoch = ep, lg_live = True, lg_facts = {}\<rparr> else l)"
| "ledger_step h l (EvExecutions clk h' ep xs t q) = ledger_on h h' ep (learn FactExecutions) l"
| "ledger_step h l (EvInventory clk h' ep iv) = ledger_on h h' ep (learn FactInventory) l"
| "ledger_step h l (EvProcesses clk h' ep ps t) = ledger_on h h' ep (learn FactProcesses) l"
| "ledger_step h l (EvAgentState h' ep st) = ledger_on h h' ep (learn FactStatus) l"
| "ledger_step h l (EvRequireBootstrap h' ep) = ledger_on h h' ep (\<lambda>g. g\<lparr>lg_facts := {}\<rparr>) l"
| "ledger_step h l (EvDisconnect h' ep) =
     ledger_on h h' ep (\<lambda>g. g\<lparr>lg_live := False, lg_facts := {}\<rparr>) l"
| "ledger_step h l _ = l"

fun ledger_run :: "HostID \<Rightarrow> Ledger option \<Rightarrow> ObsEvent list \<Rightarrow> Ledger option" where
  "ledger_run h l [] = l"
| "ledger_run h l (e # es) = ledger_run h (ledger_step h l e) es"

definition entry_sim :: "entry \<Rightarrow> Ledger \<Rightarrow> bool" where
  "entry_sim i g \<longleftrightarrow>
     ho_ConnectionEpoch (en_observation i) = lg_epoch g
   \<and> ho_Connected (en_observation i) = lg_live g
   \<and> (ho_Fresh (en_observation i) \<longrightarrow> FactExecutions \<in> lg_facts g)
   \<and> en_inventoryCurrent i = (FactInventory \<in> lg_facts g)
   \<and> en_processesCurrent i = (FactProcesses \<in> lg_facts g)
   \<and> en_statusCurrent i = (FactStatus \<in> lg_facts g)
   \<and> (ho_Ready (en_observation i) \<longrightarrow> lg_live g \<and> lg_facts g = UNIV)"

definition ledger_sim :: "HostID \<Rightarrow> Store \<Rightarrow> Ledger option \<Rightarrow> bool" where
  "ledger_sim h s l \<longleftrightarrow> rel_option entry_sim (st_hosts s h) l"

lemma all_facts: "F = UNIV \<longleftrightarrow> FactExecutions \<in> F \<and> FactInventory \<in> F \<and> FactProcesses \<in> F \<and> FactStatus \<in> F"
proof
  assume "FactExecutions \<in> F \<and> FactInventory \<in> F \<and> FactProcesses \<in> F \<and> FactStatus \<in> F"
  then have "x \<in> F" for x by (cases x) auto
  then show "F = UNIV" by auto
qed simp

lemma ledger_sim_cases:
  "ledger_sim h s l \<longleftrightarrow> (st_hosts s h = None \<and> l = None)
     \<or> (\<exists>i g. st_hosts s h = Some i \<and> l = Some g \<and> entry_sim i g)"
  by (cases "st_hosts s h"; cases l) (auto simp: ledger_sim_def)

lemma entry_sim_refresh: "entry_sim i g \<Longrightarrow> entry_sim (refreshFreshness d clk i) g"
  by (auto simp: entry_sim_def refreshFreshness_fresh)

lemma ledger_sim_refresh:
  assumes "ledger_sim h s l"
    and "st_hosts s' h = st_hosts s h \<or>
         (\<exists>i d clk. st_hosts s h = Some i \<and> st_hosts s' h = Some (refreshFreshness d clk i))"
  shows "ledger_sim h s' l"
  using assms by (auto simp: ledger_sim_cases intro: entry_sim_refresh)

lemma ledger_on_id [simp]: "ledger_on h h' ep (\<lambda>g. g) l = l"
  by (cases l) (simp_all add: ledger_on_def)

lemma ledger_on_frame:
  assumes "ledger_sim h s l" and "h' = h \<Longrightarrow> store_current s h ep = None"
  shows "ledger_on h h' ep f l = l"
  using assms
  by (cases "st_hosts s h") (auto simp: ledger_sim_cases ledger_on_def entry_sim_def store_current_def split: if_splits)

text \<open>A gated operation simulates a ledger update if it does so on the live entry.\<close>

context epoch_gated
begin

lemma sim_gate:
  assumes sim: "ledger_sim h s l"
    and upd: "\<And>i g. \<lbrakk>store_current s h ep = Some i; st_hosts s h = Some i; entry_sim i g; lg_live g; lg_epoch g = ep\<rbrakk>
      \<Longrightarrow> \<exists>i'. st_hosts (fst (op s h ep)) h = Some i' \<and> entry_sim i' (f g)"
  shows "ledger_sim h (fst (op s h' ep)) (ledger_on h h' ep f l)"
proof (cases "h' = h \<and> store_current s h ep \<noteq> None")
  case True
  then obtain i where i: "store_current s h ep = Some i" and h': "h' = h" by auto
  then obtain g where g: "l = Some g" "entry_sim i g"
    using sim by (auto simp: ledger_sim_cases store_current_Some)
  moreover have "lg_live g" "lg_epoch g = ep" using i g by (auto simp: store_current_Some entry_sim_def)
  ultimately show ?thesis using upd[OF i _ g(2)] h' i by (auto simp: ledger_sim_cases ledger_on_def store_current_Some)
next
  case False
  then have "st_hosts (fst (op s h' ep)) h = st_hosts s h"
    using other_host[OF surjective_pairing] gate by (cases "h' = h") auto
  moreover have "ledger_on h h' ep f l = l" using False by (intro ledger_on_frame[OF sim]) auto
  ultimately show ?thesis using sim by (simp add: ledger_sim_def)
qed

end

lemma Connect_hosts:
  "\<exists>n. ho_ConnectionEpoch (en_observation n) = ep \<and> ho_Connected (en_observation n)
     \<and> \<not> ho_Fresh (en_observation n) \<and> \<not> ho_Ready (en_observation n)
     \<and> \<not> en_inventoryCurrent n \<and> \<not> en_processesCurrent n \<and> \<not> en_statusCurrent n
     \<and> st_hosts (fst (Connect s a h' ep)) h =
        (if h' = h \<and> (case st_hosts s h of None \<Rightarrow> True
                       | Some i \<Rightarrow> ho_ConnectionEpoch (en_observation i) < ep)
         then Some n else st_hosts s h)"
  by (rule exI[of _ "\<lparr>en_observation = zero_HostObservation\<lparr>ho_HostID := h', ho_AgentID := a,
               ho_ConnectionEpoch := ep, ho_Connected := True, ho_Revision := 1\<rparr>,
             en_inventoryCurrent = False, en_statusCurrent = False, en_processesCurrent = False,
             en_freshAt = 0, en_inventoryFreshAt = 0, en_processesFreshAt = 0,
             en_runtimeSequence = 0\<rparr>"])
    (simp add: Connect_def zero_HostObservation_def split: option.split)

lemma ledger_sim_step:
  assumes "ledger_sim h s l"
  shows "ledger_sim h (obs_step s e) (ledger_step h l e)"
proof (cases e)
  case (EvConnect a h' ep)
  obtain n where n: "entry_sim n \<lparr>lg_epoch = ep, lg_live = True, lg_facts = {}\<rparr>"
    "st_hosts (fst (Connect s a h' ep)) h =
        (if h' = h \<and> (case st_hosts s h of None \<Rightarrow> True
                       | Some i \<Rightarrow> ho_ConnectionEpoch (en_observation i) < ep)
         then Some n else st_hosts s h)"
    using Connect_hosts[of ep s a h' h] by (auto simp: entry_sim_def)
  have "(case st_hosts s h of None \<Rightarrow> True | Some i \<Rightarrow> ho_ConnectionEpoch (en_observation i) < ep)
      = (case l of None \<Rightarrow> True | Some g \<Rightarrow> lg_epoch g < ep)"
    using assms by (auto simp: ledger_sim_cases entry_sim_def)
  then show ?thesis using assms n EvConnect by (simp add: ledger_sim_def)
next
  case (EvExecutions clk h' ep xs t q)
  have "ledger_sim h (fst (SetExecutions s clk h' ep xs t q)) (ledger_on h h' ep (learn FactExecutions) l)"
    by (rule set_executions.sim_gate[OF assms]) (auto simp: SetExecutions_def entry_sim_def learn_def all_facts)
  then show ?thesis using EvExecutions by simp
next
  case (EvInventory clk h' ep iv)
  have "ledger_sim h (fst (SetInventory s clk h' ep iv)) (ledger_on h h' ep (learn FactInventory) l)"
    by (rule set_inventory.sim_gate[OF assms]) (auto simp: SetInventory_def Let_def entry_sim_def learn_def all_facts)
  then show ?thesis using EvInventory by simp
next
  case (EvProcesses clk h' ep ps t)
  have "ledger_sim h (fst (SetUnmanagedProcesses s clk h' ep ps t)) (ledger_on h h' ep (learn FactProcesses) l)"
    by (rule set_processes.sim_gate[OF assms]) (auto simp: SetUnmanagedProcesses_def entry_sim_def learn_def all_facts)
  then show ?thesis using EvProcesses by simp
next
  case (EvAgentState h' ep st)
  have "ledger_sim h (fst (SetAgentState s h' ep st)) (ledger_on h h' ep (learn FactStatus) l)"
    by (rule set_agent_state.sim_gate[OF assms]) (auto simp: SetAgentState_def entry_sim_def learn_def all_facts)
  then show ?thesis using EvAgentState by simp
next
  case (EvMarkReady h' ep)
  have "ledger_sim h (fst (MarkReady s h' ep)) (ledger_on h h' ep (\<lambda>g. g) l)"
    by (rule mark_ready.sim_gate[OF assms]) (auto simp: MarkReady_def entry_sim_def all_facts)
  then show ?thesis using EvMarkReady by simp
next
  case (EvRequireBootstrap h' ep)
  have "ledger_sim h (fst (RequireFreshBootstrap s h' ep)) (ledger_on h h' ep (\<lambda>g. g\<lparr>lg_facts := {}\<rparr>) l)"
    by (rule require_bootstrap.sim_gate[OF assms]) (auto simp: RequireFreshBootstrap_def entry_sim_def)
  then show ?thesis using EvRequireBootstrap by simp
next
  case (EvUpsert clk h' ep x t q)
  have "ledger_sim h (fst (UpsertExecution s clk h' ep x t q)) (ledger_on h h' ep (\<lambda>g. g) l)"
    by (rule upsert.sim_gate[OF assms]) (auto simp: UpsertExecution_def Let_def entry_sim_def)
  then show ?thesis using EvUpsert by simp
next
  case (EvDisconnect h' ep)
  have "ledger_sim h (fst (Disconnect s h' ep)) (ledger_on h h' ep (\<lambda>g. g\<lparr>lg_live := False, lg_facts := {}\<rparr>) l)"
    by (rule disconnect.sim_gate[OF assms]) (auto simp: Disconnect_def entry_sim_def)
  then show ?thesis using EvDisconnect by simp
next
  case (EvGet clk h')
  have "ledger_sim h (fst (Get s clk h')) l"
    by (rule ledger_sim_refresh[OF assms]) (auto simp: Get_def Let_def split: option.splits)
  then show ?thesis using EvGet by simp
next
  case (EvList clk)
  have "ledger_sim h (fst (ListHosts s clk)) l"
    by (rule ledger_sim_refresh[OF assms], cases "st_hosts s h") (auto simp: ListHosts_def Let_def)
  then show ?thesis using EvList by simp
qed

lemma ledger_sim_run: "ledger_sim h s l \<Longrightarrow> ledger_sim h (obs_run s es) (ledger_run h l es)"
  by (induction es arbitrary: s l) (simp_all add: ledger_sim_step)

text \<open>
  C5: A Host is Ready only after a complete bootstrap. In every store reached from the empty one,
  a Ready Host is connected and its ledger shows that an execution snapshot, an inventory, a
  process scan and a status of the live epoch all arrived since the Host last connected or had
  its bootstrap reset.
\<close>

theorem ready_only_after_bootstrap:
  assumes "st_hosts (obs_run (NewWithOptions d) es) h = Some i" and "ho_Ready (en_observation i)"
  shows "\<exists>g. ledger_run h None es = Some g \<and> lg_live g
    \<and> lg_epoch g = ho_ConnectionEpoch (en_observation i)
    \<and> lg_facts g = {FactExecutions, FactInventory, FactProcesses, FactStatus}"
proof -
  have "ledger_sim h (NewWithOptions d) None"
    by (simp add: ledger_sim_cases NewWithOptions_def)
  then have "ledger_sim h (obs_run (NewWithOptions d) es) (ledger_run h None es)"
    by (rule ledger_sim_run)
  then obtain g where g: "ledger_run h None es = Some g" "entry_sim i g"
    using assms(1) by (auto simp: ledger_sim_cases)
  moreover have "(UNIV :: Fact set) = {FactExecutions, FactInventory, FactProcesses, FactStatus}"
    using Fact.exhaust by auto
  ultimately show ?thesis using assms(2) by (auto simp: entry_sim_def)
qed

section \<open>What a read reports\<close>

lemma expired_iff:
  "0 < d \<Longrightarrow> d < 2 ^ 63 - 1 \<Longrightarrow> \<not> expired d a now \<longleftrightarrow> a \<noteq> 0 \<and> now - a \<le> d"
  by (auto simp: expired_def IsZero_def time_Sub_def)

lemma ageObservedTelemetry_fields [simp]:
  "ho_Fresh (ageObservedTelemetry v d) = ho_Fresh v"
  "ho_InventoryFresh (ageObservedTelemetry v d) = ho_InventoryFresh v"
  "ho_ProcessesFresh (ageObservedTelemetry v d) = ho_ProcessesFresh v"
  "ho_HostID (ageObservedTelemetry v d) = ho_HostID v"
  "ho_ConnectionEpoch (ageObservedTelemetry v d) = ho_ConnectionEpoch v"
  "ho_Connected (ageObservedTelemetry v d) = ho_Connected v"
  "ho_Ready (ageObservedTelemetry v d) = ho_Ready v"
  by (simp_all add: ageObservedTelemetry_def Let_def)

lemma cloneCurrent_fields [simp]:
  "ho_Fresh (cloneCurrent clk i) = ho_Fresh (en_observation i)"
  "ho_InventoryFresh (cloneCurrent clk i) = ho_InventoryFresh (en_observation i)"
  "ho_ProcessesFresh (cloneCurrent clk i) = ho_ProcessesFresh (en_observation i)"
  "ho_HostID (cloneCurrent clk i) = ho_HostID (en_observation i)"
  "ho_ConnectionEpoch (cloneCurrent clk i) = ho_ConnectionEpoch (en_observation i)"
  "ho_Connected (cloneCurrent clk i) = ho_Connected (en_observation i)"
  "ho_Ready (cloneCurrent clk i) = ho_Ready (en_observation i)"
  by (simp_all add: cloneCurrent_def)

text \<open>
  \<open>Get\<close> reports execution, inventory and process facts as fresh exactly when they are marked
  fresh and the time since they were accepted is at most the freshness timeout; the timeout
  comparison is exact although the difference of two instants saturates.
\<close>

theorem get_reports_fresh_within_timeout:
  assumes "Get s clk h = (s', v, True)" and "store_inv s" and "st_freshnessTimeout s < 2 ^ 63 - 1"
  shows "\<exists>i. st_hosts s h = Some i
    \<and> (ho_Fresh v \<longleftrightarrow> ho_Fresh (en_observation i) \<and> en_freshAt i \<noteq> 0
         \<and> clk 0 - en_freshAt i \<le> st_freshnessTimeout s)
    \<and> (ho_InventoryFresh v \<longleftrightarrow> ho_InventoryFresh (en_observation i) \<and> en_inventoryFreshAt i \<noteq> 0
         \<and> clk 1 - en_inventoryFreshAt i \<le> st_freshnessTimeout s)
    \<and> (ho_ProcessesFresh v \<longleftrightarrow> ho_ProcessesFresh (en_observation i) \<and> en_processesFreshAt i \<noteq> 0
         \<and> clk 2 - en_processesFreshAt i \<le> st_freshnessTimeout s)"
proof -
  obtain i where i: "st_hosts s h = Some i"
    "v = cloneCurrent clk (refreshFreshness (st_freshnessTimeout s) clk i)"
    using assms(1) by (auto simp: Get_def Let_def split: option.splits)
  have "0 < st_freshnessTimeout s" using assms(2) by (simp add: store_inv_def)
  note ex = expired_iff[OF this assms(3)]
  show ?thesis using i by (simp add: refreshFreshness_fresh ex)
qed

lemma age_execution_overdue:
  "ex_UsefulWork (fst (age_execution d x)) = Some ev \<Longrightarrow> uw_FreshFor ev > 0 \<Longrightarrow>
   uw_Age ev > uw_FreshFor ev \<Longrightarrow> uw_Availability ev \<noteq> TelemetryAvailable"
  by (auto simp: age_execution_def Let_def split: option.splits if_splits)

lemma age_execution_flag:
  "snd (age_execution d x) \<longleftrightarrow> ex_Status x = ExecutionRunning \<and>
     (\<exists>ev ev'. ex_UsefulWork x = Some ev \<and> uw_UsefulWork ev = UsefulWorkConfirmed
        \<and> uw_Availability ev = TelemetryAvailable
        \<and> ex_UsefulWork (fst (age_execution d x)) = Some ev' \<and> uw_Availability ev' = TelemetryStale)"
  by (auto simp: age_execution_def Let_def split: option.splits if_splits)

lemma ageObservedTelemetry_overdue:
  assumes "0 < d" and "x \<in> set (ho_Executions (ageObservedTelemetry v d))"
    and "ex_UsefulWork x = Some ev" and "0 < uw_FreshFor ev" and "uw_FreshFor ev < uw_Age ev"
  shows "uw_Availability ev \<noteq> TelemetryAvailable"
  using assms age_execution_overdue by (fastforce simp: ageObservedTelemetry_def Let_def)

lemma ageObservedTelemetry_mining:
  assumes "ho_AgentState (ageObservedTelemetry v d) = AgentStateMining" and "0 < d"
    and "x \<in> set (ho_Executions v)"
  shows "\<not> snd (age_execution d x)"
  using assms by (force simp: ageObservedTelemetry_def Let_def list_ex_iff split: if_splits)

text \<open>
  When time has passed since the execution snapshot was accepted, \<open>Get\<close> reports no useful-work
  sample as available whose age exceeds its freshness bound, and it reports the Agent as MINING
  only if no running execution with confirmed work had its available sample go stale.
\<close>

theorem get_reports_no_overdue_sample:
  assumes "Get s clk h = (s', v, True)" and "st_hosts s h = Some i"
    and "en_freshAt i \<noteq> 0" and "en_freshAt i < clk 3"
  shows "(\<forall>x ev. x \<in> set (ho_Executions v) \<and> ex_UsefulWork x = Some ev \<and> 0 < uw_FreshFor ev
            \<and> uw_FreshFor ev < uw_Age ev \<longrightarrow> uw_Availability ev \<noteq> TelemetryAvailable)
    \<and> (ho_AgentState v = AgentStateMining \<longrightarrow>
        (\<forall>x\<in>set (ho_Executions (en_observation i)).
           \<not> snd (age_execution (time_Sub (clk 3) (en_freshAt i)) x)))"
proof -
  let ?r = "refreshFreshness (st_freshnessTimeout s) clk i"
  have v: "v = ageObservedTelemetry (en_observation ?r) (time_Sub (clk 3) (en_freshAt i))"
    using assms by (auto simp: Get_def Let_def cloneCurrent_def IsZero_def)
  have d: "0 < time_Sub (clk 3) (en_freshAt i)" using assms(4) by (simp add: time_Sub_def)
  show ?thesis
    using ageObservedTelemetry_overdue[OF d] ageObservedTelemetry_mining[OF _ d, of "en_observation ?r"]
    unfolding v by auto
qed

section \<open>Upserting an execution\<close>

lemma replace_execution_snd: "snd (replace_execution x es) \<longleftrightarrow> ex_ExecutionID x \<in> ex_ExecutionID ` set es"
  by (induction es) (auto simp: Let_def)

lemma replace_execution_ids: "map ex_ExecutionID (fst (replace_execution x es)) = map ex_ExecutionID es"
  by (induction es) (auto simp: Let_def)

lemma replace_execution_set:
  "distinct (map ex_ExecutionID es) \<Longrightarrow> set (fst (replace_execution x es)) =
     {e \<in> set es. ex_ExecutionID e \<noteq> ex_ExecutionID x} \<union> (if snd (replace_execution x es) then {x} else {})"
  by (induction es) (auto simp: Let_def, (metis image_eqI)+)

text \<open>
  An accepted \<open>UpsertExecution\<close> on a list with pairwise different identifiers leaves exactly
  the new execution under its identifier and every other execution as it was, in ascending
  order of identifiers without duplicates, and records the watermark of the action.
\<close>

theorem upsert_execution_replaces:
  assumes "UpsertExecution s clk h ep x t q = (s', True)" and "st_hosts s h = Some i"
    and "distinct (map ex_ExecutionID (ho_Executions (en_observation i)))"
  shows "\<exists>i'. st_hosts s' h = Some i'
    \<and> set (ho_Executions (en_observation i')) =
        insert x {e \<in> set (ho_Executions (en_observation i)). ex_ExecutionID e \<noteq> ex_ExecutionID x}
    \<and> sorted (map ex_ExecutionID (ho_Executions (en_observation i')))
    \<and> distinct (map ex_ExecutionID (ho_Executions (en_observation i')))
    \<and> en_runtimeSequence i' = q \<and> en_freshAt i' = clk 0"
proof -
  let ?es = "ho_Executions (en_observation i)"
  let ?r = "replace_execution x ?es"
  let ?l = "if snd ?r then fst ?r else fst ?r @ [x]"
  obtain i' where i': "st_hosts s' h = Some i'"
    "ho_Executions (en_observation i') = sort_key ex_ExecutionID ?l"
    "en_runtimeSequence i' = q" "en_freshAt i' = clk 0"
    using assms(1,2)
    by (auto simp: UpsertExecution_def Let_def store_current_Some split: option.splits if_splits)
  have "set ?l = insert x {e \<in> set ?es. ex_ExecutionID e \<noteq> ex_ExecutionID x}"
    by (auto simp: replace_execution_set[OF assms(3)])
  moreover have "distinct (map ex_ExecutionID ?l)"
    using assms(3) replace_execution_snd[of x ?es]
    by (auto simp: replace_execution_ids simp flip: set_map)
  ultimately show ?thesis using i' by (intro exI[of _ i']) simp
qed

section \<open>Concrete runs\<close>

definition demo_host :: HostID where
  "demo_host = HostID ''host_a''"

definition demo_connected :: Store where
  "demo_connected = fst (Connect (NewWithOptions 0) (AgentID ''agent_a'') demo_host 1)"

definition demo_evidence :: UsefulWorkEvidence where
  "demo_evidence = \<lparr>uw_Provider = ''xmrig'', uw_Availability = TelemetryAvailable,
     uw_RuntimeHealthy = Some True, uw_JobPresent = Some True, uw_UsefulWork = UsefulWorkConfirmed,
     uw_AcceptedWork = Some 7, uw_RejectedWork = None, uw_StaleWork = None,
     uw_LastUsefulWorkAt = None, uw_Upstream = UpstreamConnected, uw_EndpointVisible = None,
     uw_Metrics = [], uw_Confidence = EvidenceConfidenceAdapterReported, uw_CollectedAt = 5,
     uw_Age = 0, uw_FreshFor = 30, uw_ReasonCode = NoCode\<rparr>"

definition demo_execution :: ExecutionObservation where
  "demo_execution = \<lparr>ex_ExecutionID = ExecutionID ''execution_a'', ex_Ownership = None,
     ex_Status = ExecutionRunning, ex_Error = None, ex_PID = 11, ex_StartedAt = 1,
     ex_ExitCode = None, ex_RestartCount = 0, ex_LastError = [], ex_Warnings = [],
     ex_MinerTelemetry = None, ex_UsefulWork = Some demo_evidence\<rparr>"

definition demo_bootstrap :: "ObsEvent list" where
  "demo_bootstrap = [EvConnect (AgentID ''agent_a'') demo_host 1,
     EvExecutions (\<lambda>_. 100) demo_host 1 [demo_execution] 100 0,
     EvInventory (\<lambda>_. 101) demo_host 1 zero_Inventory,
     EvProcesses (\<lambda>_. 102) demo_host 1 [] 102,
     EvAgentState demo_host 1 AgentStateMining,
     EvMarkReady demo_host 1]"

definition demo_store :: Store where
  "demo_store = obs_run (NewWithOptions 0) demo_bootstrap"

lemma demo_connected_entry: "\<exists>i. st_hosts demo_connected demo_host = Some i"
  by (simp add: demo_connected_def Connect_def NewWithOptions_def)

lemma demo_store_entry:
  "\<exists>i. st_hosts demo_store demo_host = Some i \<and> ho_Ready (en_observation i)
     \<and> ho_Executions (en_observation i) = [demo_execution] \<and> en_freshAt i = 100
     \<and> en_runtimeSequence i = 0 \<and> ho_Fresh (en_observation i)
     \<and> ho_ConnectionEpoch (en_observation i) = 1 \<and> ho_Connected (en_observation i)"
  by (simp add: demo_store_def demo_bootstrap_def NewWithOptions_def Connect_def op_defs
      store_current_def zero_HostObservation_def)

lemma demo_store_inv: "store_inv demo_store"
  by (simp add: demo_store_def store_inv_run store_inv_New)

lemma obs_run_timeout: "st_freshnessTimeout (obs_run s es) = st_freshnessTimeout s"
proof (induction es arbitrary: s)
  case (Cons e es)
  have "st_freshnessTimeout (obs_step s e) = st_freshnessTimeout s"
    by (cases e) (simp_all add: op_defs Connect_def Get_def ListHosts_def Let_def split: option.split)
  then show ?case by (simp add: Cons.IH)
qed simp

lemma demo_store_timeout: "st_freshnessTimeout demo_store = DefaultFreshnessTimeout"
  by (simp add: demo_store_def obs_run_timeout NewWithOptions_def)

lemma observation_never_goes_back_witness:
  "\<exists>i i'. st_hosts demo_connected demo_host = Some i
     \<and> st_hosts (obs_run demo_connected [EvDisconnect demo_host 1]) demo_host = Some i' \<and> advances i i'
     \<and> ho_Revision (en_observation i) = 1 \<and> ho_Revision (en_observation i') = 2 \<and> ho_Revision (en_observation i) \<le> ho_Revision (en_observation i')"
proof -
  obtain i where i: "st_hosts demo_connected demo_host = Some i" "ho_Revision (en_observation i) = 1" "ho_ConnectionEpoch (en_observation i) = 1"
    "ho_Connected (en_observation i)"
    by (simp add: demo_connected_def Connect_def NewWithOptions_def)
  obtain i' where i': "st_hosts (obs_run demo_connected [EvDisconnect demo_host 1]) demo_host = Some i'"
      "ho_Revision (en_observation i') = 2" "ho_ConnectionEpoch (en_observation i') = 1"
    using i by (simp add: Disconnect_def store_current_def)
  show ?thesis using observation_never_goes_back[OF i(1), of "[EvDisconnect demo_host 1]"] i i' by auto
qed

lemma ready_only_after_bootstrap_witness:
  "\<exists>g. ledger_run demo_host None demo_bootstrap = Some g \<and> lg_live g
    \<and> lg_facts g = {FactExecutions, FactInventory, FactProcesses, FactStatus}"
  using demo_store_entry ready_only_after_bootstrap[of 0 demo_bootstrap demo_host]
  unfolding demo_store_def by blast

lemma get_reports_fresh_within_timeout_witness:
  "\<exists>s' v. Get demo_store (\<lambda>_. 200) demo_host = (s', v, True) \<and> (\<exists>i. st_hosts demo_store demo_host = Some i
    \<and> (ho_Fresh v \<longleftrightarrow> ho_Fresh (en_observation i) \<and> en_freshAt i \<noteq> 0
         \<and> 200 - en_freshAt i \<le> DefaultFreshnessTimeout))"
proof -
  have "snd (snd (Get demo_store (\<lambda>_. 200) demo_host))"
    using demo_store_entry by (auto simp: Get_def Let_def)
  then obtain s' v where g: "Get demo_store (\<lambda>_. 200) demo_host = (s', v, True)"
    by (metis (full_types) prod.collapse)
  have "st_freshnessTimeout demo_store < 2 ^ 63 - 1"
    by (simp add: demo_store_timeout DefaultFreshnessTimeout_def)
  from get_reports_fresh_within_timeout[OF g demo_store_inv this] g show ?thesis
    unfolding demo_store_timeout by blast
qed

lemma get_reports_no_overdue_sample_witness:
  "\<exists>s' v. Get demo_store (\<lambda>_. 200) demo_host = (s', v, True) \<and>
     (\<forall>x ev. x \<in> set (ho_Executions v) \<and> ex_UsefulWork x = Some ev \<and> 0 < uw_FreshFor ev
            \<and> uw_FreshFor ev < uw_Age ev \<longrightarrow> uw_Availability ev \<noteq> TelemetryAvailable)"
proof -
  obtain i where i: "st_hosts demo_store demo_host = Some i" "en_freshAt i = 100"
    using demo_store_entry by blast
  then have "snd (snd (Get demo_store (\<lambda>_. 200) demo_host))" by (simp add: Get_def Let_def)
  then obtain s' v where g: "Get demo_store (\<lambda>_. 200) demo_host = (s', v, True)"
    by (metis (full_types) prod.collapse)
  from get_reports_no_overdue_sample[OF g i(1)] i(2) g show ?thesis by auto
qed

lemma upsert_execution_replaces_witness:
  "\<exists>s' i'. UpsertExecution demo_store (\<lambda>_. 150) demo_host 1 demo_execution 150 1 = (s', True)
     \<and> st_hosts s' demo_host = Some i' \<and> set (ho_Executions (en_observation i')) = {demo_execution}"
proof -
  obtain i where i: "st_hosts demo_store demo_host = Some i" "en_runtimeSequence i = 0"
    "ho_Executions (en_observation i) = [demo_execution]" "ho_Fresh (en_observation i)"
    "ho_ConnectionEpoch (en_observation i) = 1" "ho_Connected (en_observation i)"
    using demo_store_entry by blast
  then have "snd (UpsertExecution demo_store (\<lambda>_. 150) demo_host 1 demo_execution 150 1)"
    by (simp add: UpsertExecution_def store_current_def Let_def)
  then obtain s' where u: "UpsertExecution demo_store (\<lambda>_. 150) demo_host 1 demo_execution 150 1 = (s', True)"
    by (metis (full_types) prod.collapse)
  from upsert_execution_replaces[OF u i(1)] i(3) u show ?thesis by auto
qed

end
