(* ===== verification/Reconcile_Planner.thy ===== *)
theory Reconcile_Planner
  imports Observed_Store
begin

text \<open>
  \<open>internal/reconcile/planner.go\<close>: the pure, level-triggered planner that compares the desired
  workload with the observed executions of its Host and proposes at most one action.
\<close>

section \<open>Actions\<close>

datatype ActionKind = ActionStart | ActionStop | ActionBlock

record ActionKey =
  ak_HostID :: HostID
  ak_WorkloadID :: WorkloadID
  ak_DesiredGeneration :: uint64
  ak_ExecutionID :: ExecutionID
  ak_ConnectionEpoch :: uint64
  ak_Action :: ActionKind

record Action =
  ac_Key :: ActionKey
  ac_Snapshot :: ResolvedExecutionSnapshot
  ac_Code :: Code
  ac_Message :: string

record PlanInput =
  pi_Workload :: DesiredWorkload
  pi_Current :: "ResolvedExecutionSnapshot option"
  pi_Snapshots :: "ResolvedExecutionSnapshot list"
  pi_Binding :: "WorkloadRuntimeBinding option"
  pi_Hold :: "MaintenanceHold option"
  pi_Observed :: HostObservation
  pi_InFlight :: "ActionKey set"
  pi_OtherOwned :: "ExecutionID \<rightharpoonup> ResolvedExecutionSnapshot"

record PlanResult =
  pres_Actions :: "Action list"
  pres_Code :: Code
  pres_Conflict :: string

definition zero_ownership :: WorkloadOwnership where
  "zero_ownership = \<lparr>ow_WorkloadID = WorkloadID [], ow_DesiredGeneration = 0, ow_ResolvedHash = [],
     ow_HostID = HostID [], ow_CPU = False, ow_DeviceIDs = []\<rparr>"

definition zero_plan :: ExecutionPlan where
  "zero_plan = \<lparr>pl_SchemaVersion = 0, pl_ExecutionID = ExecutionID [], pl_Ownership = zero_ownership,
     pl_HostID = HostID [], pl_ProfileID = ProfileID [], pl_DeviceIDs = [], pl_CPUThreads = None,
     pl_Executable = [], pl_Args = [], pl_Environment = Map.empty, pl_WorkingDirectory = [],
     pl_RestartPolicy = RestartPolicyOther [], pl_Miner = None\<rparr>"

definition zero_snapshot :: ResolvedExecutionSnapshot where
  "zero_snapshot = \<lparr>sn_WorkloadID = WorkloadID [], sn_DesiredGeneration = 0,
     sn_ExecutionID = ExecutionID [], sn_HostID = HostID [], sn_ProfileID = ProfileID [],
     sn_ProfileRevision = 0, sn_HostProfileSettingsRevision = 0, sn_PoolID = PoolID [],
     sn_PoolRevision = 0, sn_WalletID = WalletID [], sn_WalletRevision = 0,
     sn_Package = \<lparr>pr_PackageID = PackageID [], pr_Version = []\<rparr>,
     sn_Resources = \<lparr>cl_CPU = False, cl_DeviceIDs = []\<rparr>, sn_Plan = zero_plan,
     sn_ResolvedHash = [], sn_CreatedAt = 0\<rparr>"

definition no_plan :: PlanResult where
  "no_plan = \<lparr>pres_Actions = [], pres_Code = NoCode, pres_Conflict = []\<rparr>"

definition plan_action :: "Action \<Rightarrow> PlanResult" where
  "plan_action a = \<lparr>pres_Actions = [a], pres_Code = NoCode, pres_Conflict = []\<rparr>"

definition plan_conflict :: "Code \<Rightarrow> string \<Rightarrow> PlanResult" where
  "plan_conflict c m = \<lparr>pres_Actions = [], pres_Code = c, pres_Conflict = m\<rparr>"

lemma plan_fields [simp]:
  "pres_Actions no_plan = []" "pres_Conflict no_plan = []" "pres_Actions (plan_action a) = [a]"
  "pres_Conflict (plan_action a) = []" "pres_Actions (plan_conflict c m) = []"
  "pres_Conflict (plan_conflict c m) = m" "pres_Code (plan_conflict c m) = c"
  by (simp_all add: no_plan_def plan_action_def plan_conflict_def)

section \<open>Ownership and resources\<close>

definition ownershipMatchesSnapshot :: "WorkloadOwnership option \<Rightarrow> ResolvedExecutionSnapshot \<Rightarrow> bool" where
  "ownershipMatchesSnapshot ownership s =
     (case ownership of None \<Rightarrow> False
      | Some ow \<Rightarrow> ow_WorkloadID ow = sn_WorkloadID s \<and> ow_DesiredGeneration ow = sn_DesiredGeneration s
          \<and> ow_ResolvedHash ow = sn_ResolvedHash s \<and> ow_HostID ow = sn_HostID s)"

definition snapshotIdentityEqual :: "ResolvedExecutionSnapshot \<Rightarrow> ResolvedExecutionSnapshot \<Rightarrow> bool" where
  "snapshotIdentityEqual a b \<longleftrightarrow> sn_ExecutionID a = sn_ExecutionID b \<and> sn_WorkloadID a = sn_WorkloadID b
     \<and> sn_DesiredGeneration a = sn_DesiredGeneration b \<and> sn_ResolvedHash a = sn_ResolvedHash b"

definition claimMatches :: "WorkloadOwnership option \<Rightarrow> ResourceClaim \<Rightarrow> bool" where
  "claimMatches ownership claim =
     (case ownership of None \<Rightarrow> False
      | Some ow \<Rightarrow> ow_CPU ow = cl_CPU claim \<and> ow_DeviceIDs ow = cl_DeviceIDs claim)"

definition claimsOverlap :: "ResourceClaim \<Rightarrow> ResourceClaim \<Rightarrow> bool" where
  "claimsOverlap a b \<longleftrightarrow> (cl_CPU a \<and> cl_CPU b)
     \<or> list_ex (\<lambda>left. List.member (cl_DeviceIDs b) left) (cl_DeviceIDs a)"

definition inventoryContains :: "Inventory \<Rightarrow> DeviceID list \<Rightarrow> bool" where
  "inventoryContains inventory devices =
     list_all (\<lambda>wanted. list_ex (\<lambda>gpu. gpu_DeviceID gpu = wanted) (inv_GPUs inventory)) devices"

definition holdsResources :: "ExecutionStatus \<Rightarrow> bool" where
  "holdsResources status \<longleftrightarrow> status \<noteq> ExecutionStopped"

definition blocksStartResources :: "ExecutionStatus \<Rightarrow> bool" where
  "blocksStartResources status \<longleftrightarrow> status \<noteq> ExecutionStopped \<and> status \<noteq> ExecutionFailed"

lemma claimsOverlap_iff:
  "claimsOverlap a b \<longleftrightarrow> (cl_CPU a \<and> cl_CPU b) \<or> set (cl_DeviceIDs a) \<inter> set (cl_DeviceIDs b) \<noteq> {}"
  by (auto simp: claimsOverlap_def list_ex_iff)

lemma inventoryContains_iff:
  "inventoryContains iv ds \<longleftrightarrow> set ds \<subseteq> gpu_DeviceID ` set (inv_GPUs iv)"
  by (auto simp: inventoryContains_def list_all_iff list_ex_iff)

section \<open>Start conflicts\<close>

definition process_conflicts :: "ResourceClaim \<Rightarrow> UnmanagedProcessObservation \<Rightarrow> bool" where
  "process_conflicts claim process =
     (let overlaps = (up_CPU process \<and> cl_CPU claim)
            \<or> list_ex (\<lambda>d. List.member (up_DeviceIDs process) d) (cl_DeviceIDs claim);
          ambiguous = up_ResourceScope process = ProcessResourcesUnknown
            \<and> ((cl_CPU claim \<and> up_CPURelevant process)
               \<or> (cl_DeviceIDs claim \<noteq> [] \<and> up_GPURelevant process))
      in overlaps \<or> ambiguous)"

text \<open>An execution is owned when a known snapshot of its identifier matches its ownership.\<close>

definition owned_by ::
  "(ExecutionID \<rightharpoonup> ResolvedExecutionSnapshot) \<Rightarrow> ExecutionObservation \<Rightarrow> ResolvedExecutionSnapshot option" where
  "owned_by known e =
     (case known (ex_ExecutionID e) of
        None \<Rightarrow> None
      | Some s \<Rightarrow> if ownershipMatchesSnapshot (ex_Ownership e) s then Some s else None)"

definition ownership_claim :: "WorkloadOwnership \<Rightarrow> ResourceClaim" where
  "ownership_claim ow = \<lparr>cl_CPU = ow_CPU ow, cl_DeviceIDs = ow_DeviceIDs ow\<rparr>"

text \<open>The execution loop of \<open>startConflict\<close>; \<open>None\<close> is the empty result after the loop.\<close>

fun execution_conflict ::
  "WorkloadID \<Rightarrow> ResolvedExecutionSnapshot \<Rightarrow> (ExecutionID \<rightharpoonup> ResolvedExecutionSnapshot)
     \<Rightarrow> ExecutionObservation list \<Rightarrow> (Code \<times> string) option" where
  "execution_conflict wid cur known [] = None"
| "execution_conflict wid cur known (e # es) =
     (if \<not> blocksStartResources (ex_Status e) then execution_conflict wid cur known es
      else if ex_ExecutionID e = sn_ExecutionID cur \<and> ownershipMatchesSnapshot (ex_Ownership e) cur
      then execution_conflict wid cur known es
      else case owned_by known e of
        Some s \<Rightarrow>
          if sn_WorkloadID s = wid
          then Some (CONFIG_CONFLICT, ''obsolete owned execution must be absent before START'')
          else if claimsOverlap (sn_Resources cur) (sn_Resources s)
          then Some (CONFIG_CONFLICT, ''another Controller-owned execution overlaps desired resources'')
          else execution_conflict wid cur known es
      | None \<Rightarrow> (case ex_Ownership e of
          None \<Rightarrow> Some (UNMANAGED_PROCESS_CONFLICT, ''unmanaged execution has an unknown resource claim'')
        | Some ow \<Rightarrow>
            if claimsOverlap (sn_Resources cur) (ownership_claim ow)
            then Some (UNMANAGED_PROCESS_CONFLICT, ''unmanaged execution overlaps desired resources'')
            else execution_conflict wid cur known es))"

definition startConflict ::
  "PlanInput \<Rightarrow> ResolvedExecutionSnapshot \<Rightarrow> (ExecutionID \<rightharpoonup> ResolvedExecutionSnapshot) \<Rightarrow> (Code \<times> string) option" where
  "startConflict i cur known =
     (let claim = sn_Resources cur; obs = pi_Observed i
      in if \<not> inventoryContains (ho_Inventory obs) (cl_DeviceIDs claim)
         then Some (INCOMPATIBLE_HARDWARE, ''fresh inventory does not contain every desired DeviceID'')
         else if list_ex (process_conflicts claim) (ho_UnmanagedProcesses obs)
         then Some (UNMANAGED_PROCESS_CONFLICT, ''fresh observation reports a conflicting unmanaged mining process'')
         else execution_conflict (dw_WorkloadID (pi_Workload i)) cur known (ho_Executions obs))"

section \<open>The planner\<close>

text \<open>The map of known snapshots: later entries win, and \<open>OtherOwned\<close> wins over \<open>Snapshots\<close>.\<close>

definition known_snapshots :: "PlanInput \<Rightarrow> ExecutionID \<rightharpoonup> ResolvedExecutionSnapshot" where
  "known_snapshots i =
     foldl (\<lambda>m s. m(sn_ExecutionID s \<mapsto> s)) Map.empty (pi_Snapshots i) ++ pi_OtherOwned i"

text \<open>The scan over the observed executions: the active owned ones, and the last that is current.\<close>

fun plan_scan ::
  "(ExecutionID \<rightharpoonup> ResolvedExecutionSnapshot) \<Rightarrow> WorkloadID \<Rightarrow> ResolvedExecutionSnapshot option
     \<Rightarrow> ExecutionObservation list \<Rightarrow> ExecutionObservation list \<times> ExecutionObservation option
     \<Rightarrow> ExecutionObservation list \<times> ExecutionObservation option" where
  "plan_scan known wid cur [] acc = acc"
| "plan_scan known wid cur (e # es) (active, current) =
     (if \<not> holdsResources (ex_Status e) then plan_scan known wid cur es (active, current)
      else case owned_by known e of
        None \<Rightarrow> plan_scan known wid cur es (active, current)
      | Some s \<Rightarrow>
          if sn_WorkloadID s \<noteq> wid then plan_scan known wid cur es (active, current)
          else plan_scan known wid cur es (active @ [e],
            (case cur of
               Some c \<Rightarrow> if snapshotIdentityEqual s c \<and> claimMatches (ex_Ownership e) (sn_Resources c)
                 then Some e else current
             | None \<Rightarrow> current)))"

definition ownership_generation :: "ExecutionObservation \<Rightarrow> uint64" where
  "ownership_generation e = (case ex_Ownership e of None \<Rightarrow> 0 | Some ow \<Rightarrow> ow_DesiredGeneration ow)"

definition unless_in_flight :: "PlanInput \<Rightarrow> Action \<Rightarrow> PlanResult" where
  "unless_in_flight i a = (if ac_Key a \<in> pi_InFlight i then no_plan else plan_action a)"

definition mk_key :: "PlanInput \<Rightarrow> uint64 \<Rightarrow> ExecutionID \<Rightarrow> ActionKind \<Rightarrow> ActionKey" where
  "mk_key i gen eid kind =
     \<lparr>ak_HostID = dw_HostID (dw_Content (pi_Workload i)), ak_WorkloadID = dw_WorkloadID (pi_Workload i),
      ak_DesiredGeneration = gen, ak_ExecutionID = eid,
      ak_ConnectionEpoch = ho_ConnectionEpoch (pi_Observed i), ak_Action = kind\<rparr>"

definition mk_action :: "ActionKey \<Rightarrow> ResolvedExecutionSnapshot \<Rightarrow> Action" where
  "mk_action k s = \<lparr>ac_Key = k, ac_Snapshot = s, ac_Code = NoCode, ac_Message = []\<rparr>"

definition snapshot_or_zero :: "ResolvedExecutionSnapshot option \<Rightarrow> ResolvedExecutionSnapshot" where
  "snapshot_or_zero s = (case s of None \<Rightarrow> zero_snapshot | Some x \<Rightarrow> x)"

definition observation_usable :: "PlanInput \<Rightarrow> bool" where
  "observation_usable i \<longleftrightarrow>
     ho_Connected (pi_Observed i) \<and> ho_Ready (pi_Observed i) \<and> ho_Fresh (pi_Observed i)
   \<and> ho_HostID (pi_Observed i) = dw_HostID (dw_Content (pi_Workload i))"

definition hold_active :: "PlanInput \<Rightarrow> bool" where
  "hold_active i \<longleftrightarrow> (case pi_Hold i of None \<Rightarrow> False | Some h \<Rightarrow> mh_Active h)"

definition generation_blocked :: "PlanInput \<Rightarrow> bool" where
  "generation_blocked i \<longleftrightarrow> (case pi_Binding i of None \<Rightarrow> False
     | Some b \<Rightarrow> rb_BlockedGeneration b = dw_DesiredGeneration (pi_Workload i))"

definition plan_stop_current :: "PlanInput \<Rightarrow> ExecutionObservation \<Rightarrow> PlanResult" where
  "plan_stop_current i c = unless_in_flight i
     (mk_action (mk_key i (ownership_generation c) (ex_ExecutionID c) ActionStop)
        (snapshot_or_zero (pi_Current i)))"

definition plan_running ::
  "PlanInput \<Rightarrow> (ExecutionID \<rightharpoonup> ResolvedExecutionSnapshot) \<Rightarrow> ExecutionObservation option \<Rightarrow> PlanResult" where
  "plan_running i known current =
     (let gen = dw_DesiredGeneration (pi_Workload i)
      in if generation_blocked i then no_plan
         else case current of
           Some c \<Rightarrow>
             if ex_Status c = ExecutionFailed
             then plan_action \<lparr>ac_Key = mk_key i gen (ex_ExecutionID c) ActionBlock,
               ac_Snapshot = zero_snapshot, ac_Code = PROCESS_CRASHED,
               ac_Message = ''execution reached terminal FAILED state''\<rparr>
             else no_plan
         | None \<Rightarrow>
             (case pi_Current i of
                None \<Rightarrow> plan_conflict NoCode ''RUNNING workload has no current resolved snapshot''
              | Some cur \<Rightarrow>
                  (case startConflict i cur known of
                     Some (code, conflict) \<Rightarrow> plan_conflict code conflict
                   | None \<Rightarrow> unless_in_flight i
                       (mk_action (mk_key i gen (sn_ExecutionID cur) ActionStart) cur))))"

definition Plan :: "PlanInput \<Rightarrow> PlanResult" where
  "Plan i =
     (if \<not> observation_usable i then no_plan
      else
        let known = known_snapshots i;
            scanned = plan_scan known (dw_WorkloadID (pi_Workload i)) (pi_Current i)
              (ho_Executions (pi_Observed i)) ([], None);
            activeOwned = sort_key ex_ExecutionID (fst scanned);
            current = snd scanned
        in case find (\<lambda>e. \<not> (case current of None \<Rightarrow> False | Some c \<Rightarrow> ex_ExecutionID e = ex_ExecutionID c)) activeOwned of
             Some e \<Rightarrow>
               let s = snapshot_or_zero (known (ex_ExecutionID e))
               in unless_in_flight i (mk_action (mk_key i (sn_DesiredGeneration s) (ex_ExecutionID e) ActionStop) s)
           | None \<Rightarrow>
               if dw_RunState (dw_Content (pi_Workload i)) = DesiredStopped then
                 (case current of None \<Rightarrow> no_plan | Some c \<Rightarrow> plan_stop_current i c)
               else if hold_active i then
                 (case current of
                    None \<Rightarrow> plan_conflict MAINTENANCE_HOLD ''Desired RUNNING is suppressed by Maintenance Hold''
                  | Some c \<Rightarrow> plan_stop_current i c)
               else plan_running i known current)"

section \<open>What the scan finds\<close>

definition active_owned :: "PlanInput \<Rightarrow> ExecutionObservation \<Rightarrow> bool" where
  "active_owned i e \<longleftrightarrow> holdsResources (ex_Status e)
     \<and> (\<exists>s. owned_by (known_snapshots i) e = Some s \<and> sn_WorkloadID s = dw_WorkloadID (pi_Workload i))"

definition is_current :: "PlanInput \<Rightarrow> ExecutionObservation \<Rightarrow> bool" where
  "is_current i e \<longleftrightarrow> active_owned i e
     \<and> (\<exists>s c. owned_by (known_snapshots i) e = Some s \<and> pi_Current i = Some c
          \<and> snapshotIdentityEqual s c \<and> claimMatches (ex_Ownership e) (sn_Resources c))"

definition active_list :: "PlanInput \<Rightarrow> ExecutionObservation list" where
  "active_list i = filter (active_owned i) (ho_Executions (pi_Observed i))"

definition current_of :: "PlanInput \<Rightarrow> ExecutionObservation option" where
  "current_of i = last_hit (is_current i) (ho_Executions (pi_Observed i)) None"

definition obsolete :: "PlanInput \<Rightarrow> ExecutionObservation \<Rightarrow> bool" where
  "obsolete i e \<longleftrightarrow> \<not> (case current_of i of None \<Rightarrow> False | Some c \<Rightarrow> ex_ExecutionID e = ex_ExecutionID c)"

lemma plan_scan_step:
  "plan_scan (known_snapshots i) (dw_WorkloadID (pi_Workload i)) (pi_Current i) (e # es) (a, c) =
   plan_scan (known_snapshots i) (dw_WorkloadID (pi_Workload i)) (pi_Current i) es
     (if active_owned i e then (a @ [e], if is_current i e then Some e else c) else (a, c))"
  by (auto simp: active_owned_def is_current_def split: option.split)

lemma plan_scan_eq:
  "plan_scan (known_snapshots i) (dw_WorkloadID (pi_Workload i)) (pi_Current i) es (a, c) =
     (a @ filter (active_owned i) es, last_hit (is_current i) es c)"
proof (induction es arbitrary: a c)
  case (Cons e es)
  have "is_current i e \<Longrightarrow> active_owned i e" by (simp add: is_current_def)
  then show ?case unfolding plan_scan_step by (auto simp: Cons.IH)
qed simp

lemma current_of_SomeD: "current_of i = Some c \<Longrightarrow> c \<in> set (ho_Executions (pi_Observed i)) \<and> is_current i c"
  by (auto simp: current_of_def dest: last_hit_SomeD)

text \<open>The planner in terms of its scan: the shape all properties are proved from.\<close>

lemma Plan_eq:
  "Plan i =
     (if \<not> observation_usable i then no_plan
      else case find (obsolete i) (sort_key ex_ExecutionID (active_list i)) of
        Some e \<Rightarrow>
          (let s = snapshot_or_zero (known_snapshots i (ex_ExecutionID e))
           in unless_in_flight i (mk_action (mk_key i (sn_DesiredGeneration s) (ex_ExecutionID e) ActionStop) s))
      | None \<Rightarrow>
          if dw_RunState (dw_Content (pi_Workload i)) = DesiredStopped then
            (case current_of i of None \<Rightarrow> no_plan | Some c \<Rightarrow> plan_stop_current i c)
          else if hold_active i then
            (case current_of i of
               None \<Rightarrow> plan_conflict MAINTENANCE_HOLD ''Desired RUNNING is suppressed by Maintenance Hold''
             | Some c \<Rightarrow> plan_stop_current i c)
          else plan_running i (known_snapshots i) (current_of i))"
proof -
  have c: "snd (plan_scan (known_snapshots i) (dw_WorkloadID (pi_Workload i)) (pi_Current i)
      (ho_Executions (pi_Observed i)) ([], None)) = current_of i"
    by (simp add: plan_scan_eq current_of_def)
  have o1: "obsolete i = (\<lambda>e. \<not> (case current_of i of None \<Rightarrow> False | Some c \<Rightarrow> ex_ExecutionID e = ex_ExecutionID c))"
    by (simp add: obsolete_def fun_eq_iff)
  show ?thesis unfolding Plan_def Let_def c o1 by (simp add: plan_scan_eq active_list_def)
qed

lemma find_obsolete_None:
  "find (obsolete i) (sort_key ex_ExecutionID (active_list i)) = None \<longleftrightarrow> (\<forall>e\<in>set (active_list i). \<not> obsolete i e)"
  by (simp add: find_NoneD)

lemma find_obsolete_Some:
  "find (obsolete i) (sort_key ex_ExecutionID (active_list i)) = Some e \<Longrightarrow> e \<in> set (active_list i) \<and> obsolete i e"
  by (auto dest: find_SomeD)

lemma current_in_active: "current_of i = Some c \<Longrightarrow> c \<in> set (active_list i)"
  by (auto dest: current_of_SomeD simp: active_list_def is_current_def)

lemma active_listD:
  "e \<in> set (active_list i) \<Longrightarrow> e \<in> set (ho_Executions (pi_Observed i)) \<and> holdsResources (ex_Status e) \<and>
     (\<exists>s. known_snapshots i (ex_ExecutionID e) = Some s \<and> ownershipMatchesSnapshot (ex_Ownership e) s
          \<and> sn_WorkloadID s = dw_WorkloadID (pi_Workload i))"
  by (auto simp: active_list_def active_owned_def owned_by_def split: option.splits if_splits)

lemma unless_in_flight_actions [simp]:
  "a \<in> set (pres_Actions (unless_in_flight i b)) \<longleftrightarrow> a = b \<and> ac_Key b \<notin> pi_InFlight i"
  by (auto simp: unless_in_flight_def)

lemma mk_fields [simp]:
  "ac_Key (mk_action k s) = k" "ac_Snapshot (mk_action k s) = s"
  "ak_Action (mk_key i g e kind) = kind" "ak_ExecutionID (mk_key i g e kind) = e"
  "ak_DesiredGeneration (mk_key i g e kind) = g"
  "ak_HostID (mk_key i g e kind) = dw_HostID (dw_Content (pi_Workload i))"
  "ak_WorkloadID (mk_key i g e kind) = dw_WorkloadID (pi_Workload i)"
  "ak_ConnectionEpoch (mk_key i g e kind) = ho_ConnectionEpoch (pi_Observed i)"
  by (simp_all add: mk_action_def mk_key_def)

section \<open>Safety of the proposed action\<close>

text \<open>Case analysis of a proposed action: the branch of the planner that emitted it.\<close>

lemma Plan_actionD:
  assumes "a \<in> set (pres_Actions (Plan i))"
  shows "observation_usable i \<and>
    (case ak_Action (ac_Key a) of
       ActionStop \<Rightarrow> ac_Key a \<notin> pi_InFlight i \<and>
         (\<exists>e\<in>set (active_list i). ex_ExecutionID e = ak_ExecutionID (ac_Key a)
            \<and> (obsolete i e \<or> (current_of i = Some e
                 \<and> (dw_RunState (dw_Content (pi_Workload i)) = DesiredStopped \<or> hold_active i))))
     | ActionStart \<Rightarrow> ac_Key a \<notin> pi_InFlight i \<and> active_list i = []
         \<and> dw_RunState (dw_Content (pi_Workload i)) \<noteq> DesiredStopped
         \<and> \<not> hold_active i \<and> \<not> generation_blocked i
         \<and> (\<exists>cur. pi_Current i = Some cur \<and> startConflict i cur (known_snapshots i) = None
              \<and> a = mk_action (mk_key i (dw_DesiredGeneration (pi_Workload i)) (sn_ExecutionID cur) ActionStart) cur)
     | ActionBlock \<Rightarrow> ac_Code a = PROCESS_CRASHED
         \<and> ak_DesiredGeneration (ac_Key a) = dw_DesiredGeneration (pi_Workload i)
         \<and> dw_RunState (dw_Content (pi_Workload i)) \<noteq> DesiredStopped
         \<and> \<not> hold_active i \<and> \<not> generation_blocked i
         \<and> (\<exists>c. current_of i = Some c \<and> ex_Status c = ExecutionFailed
              \<and> ak_ExecutionID (ac_Key a) = ex_ExecutionID c))"
proof -
  have usable: "observation_usable i" using assms by (simp add: Plan_eq split: if_splits)
  show ?thesis
  proof (cases "find (obsolete i) (sort_key ex_ExecutionID (active_list i))")
    case (Some e)
    then show ?thesis using assms usable find_obsolete_Some[OF Some]
      by (auto simp: Plan_eq Let_def)
  next
    case None
    then have nobs: "\<forall>e\<in>set (active_list i). \<not> obsolete i e" by (simp add: find_obsolete_None)
    have empty: "active_list i = []" if "current_of i = None"
      using nobs that by (cases "active_list i") (auto simp: obsolete_def)
    show ?thesis using assms usable None empty
      by (auto simp: Plan_eq plan_stop_current_def plan_running_def Let_def
          intro: current_in_active split: if_splits option.splits)
  qed
qed

lemma Plan_at_most_one: "length (pres_Actions (Plan i)) \<le> 1"
  by (auto simp: Plan_eq plan_stop_current_def plan_running_def Let_def unless_in_flight_def
      split: option.split)

text \<open>
  The planner proposes at most one action, only on a connected, ready and fresh observation
  of the workload's own Host; the action carries the epoch of that observation and the identity
  of the workload, and a START or STOP already in flight is not proposed again.
\<close>

theorem plan_single_epoch_bound_action:
  "length (pres_Actions (Plan i)) \<le> 1
   \<and> list_all (\<lambda>a. observation_usable i
       \<and> ak_ConnectionEpoch (ac_Key a) = ho_ConnectionEpoch (pi_Observed i)
       \<and> ak_HostID (ac_Key a) = ho_HostID (pi_Observed i)
       \<and> ak_WorkloadID (ac_Key a) = dw_WorkloadID (pi_Workload i)
       \<and> (ac_Key a \<notin> pi_InFlight i \<or> ak_Action (ac_Key a) = ActionBlock)) (pres_Actions (Plan i))"
proof -
  have "ak_ConnectionEpoch (ac_Key a) = ho_ConnectionEpoch (pi_Observed i)
     \<and> ak_HostID (ac_Key a) = dw_HostID (dw_Content (pi_Workload i))
     \<and> ak_WorkloadID (ac_Key a) = dw_WorkloadID (pi_Workload i)"
    if "a \<in> set (pres_Actions (Plan i))" for a
    using that by (auto simp: Plan_eq plan_stop_current_def plan_running_def Let_def
        split: if_splits option.splits)
  moreover have "observation_usable i \<and> (ac_Key a \<notin> pi_InFlight i \<or> ak_Action (ac_Key a) = ActionBlock)"
    if "a \<in> set (pres_Actions (Plan i))" for a
    using Plan_actionD[OF that] by (cases "ak_Action (ac_Key a)") auto
  ultimately show ?thesis using Plan_at_most_one
    by (auto simp: list_all_iff observation_usable_def)
qed

text \<open>The resources an observed execution holds, as far as the Controller can tell.\<close>

definition observed_claim :: "PlanInput \<Rightarrow> ExecutionObservation \<Rightarrow> ResourceClaim option" where
  "observed_claim i e =
     (case owned_by (known_snapshots i) e of
        Some s \<Rightarrow> Some (sn_Resources s)
      | None \<Rightarrow> map_option ownership_claim (ex_Ownership e))"

lemma execution_conflict_None:
  "execution_conflict wid cur known es = None \<Longrightarrow> e \<in> set es \<Longrightarrow> blocksStartResources (ex_Status e) \<Longrightarrow>
     (ex_ExecutionID e = sn_ExecutionID cur \<and> ownershipMatchesSnapshot (ex_Ownership e) cur)
   \<or> (\<exists>s. owned_by known e = Some s \<and> sn_WorkloadID s \<noteq> wid \<and> \<not> claimsOverlap (sn_Resources cur) (sn_Resources s))
   \<or> (owned_by known e = None \<and> (\<exists>ow. ex_Ownership e = Some ow
          \<and> \<not> claimsOverlap (sn_Resources cur) (ownership_claim ow)))"
  by (induction es) (auto split: if_splits option.splits)

text \<open>
  The Controller's own records are consistent when the current snapshot is among the known ones
  and belongs to the workload; the store guarantees both.
\<close>

definition current_known :: "PlanInput \<Rightarrow> bool" where
  "current_known i \<longleftrightarrow> (case pi_Current i of None \<Rightarrow> True
     | Some cur \<Rightarrow> known_snapshots i (sn_ExecutionID cur) = Some cur
         \<and> sn_WorkloadID cur = dw_WorkloadID (pi_Workload i))"

text \<open>
  C1: A START is safe: it is proposed only for a workload that is not desired STOPPED, not under
  an active Maintenance Hold and not blocked at this generation, for the current snapshot, when
  the observed inventory has every claimed device, no unmanaged mining process touches the claim,
  no execution of the workload holds resources, and every observed execution that could block
  the start has a known claim that does not overlap the claim of the snapshot.
\<close>

theorem plan_start_is_exclusive:
  assumes "a \<in> set (pres_Actions (Plan i))" and "ak_Action (ac_Key a) = ActionStart"
    and "current_known i"
  shows "\<exists>cur. pi_Current i = Some cur \<and> ac_Snapshot a = cur
    \<and> ak_ExecutionID (ac_Key a) = sn_ExecutionID cur
    \<and> dw_RunState (dw_Content (pi_Workload i)) \<noteq> DesiredStopped
    \<and> \<not> hold_active i \<and> \<not> generation_blocked i
    \<and> set (cl_DeviceIDs (sn_Resources cur)) \<subseteq> gpu_DeviceID ` set (inv_GPUs (ho_Inventory (pi_Observed i)))
    \<and> \<not> list_ex (process_conflicts (sn_Resources cur)) (ho_UnmanagedProcesses (pi_Observed i))
    \<and> filter (active_owned i) (ho_Executions (pi_Observed i)) = []
    \<and> (\<forall>e\<in>set (ho_Executions (pi_Observed i)). blocksStartResources (ex_Status e) \<longrightarrow>
         (\<exists>r. observed_claim i e = Some r \<and> \<not> claimsOverlap (sn_Resources cur) r))"
proof -
  from Plan_actionD[OF assms(1)] assms(2) obtain cur where
    cur: "pi_Current i = Some cur" "startConflict i cur (known_snapshots i) = None"
      "a = mk_action (mk_key i (dw_DesiredGeneration (pi_Workload i)) (sn_ExecutionID cur) ActionStart) cur"
    and rest: "active_list i = []" "dw_RunState (dw_Content (pi_Workload i)) \<noteq> DesiredStopped"
      "\<not> hold_active i" "\<not> generation_blocked i"
    by auto
  have sc: "inventoryContains (ho_Inventory (pi_Observed i)) (cl_DeviceIDs (sn_Resources cur))"
    "\<not> list_ex (process_conflicts (sn_Resources cur)) (ho_UnmanagedProcesses (pi_Observed i))"
    "execution_conflict (dw_WorkloadID (pi_Workload i)) cur (known_snapshots i) (ho_Executions (pi_Observed i)) = None"
    using cur(2) by (auto simp: startConflict_def Let_def split: if_splits)
  have claim: "\<exists>r. observed_claim i e = Some r \<and> \<not> claimsOverlap (sn_Resources cur) r"
    if e: "e \<in> set (ho_Executions (pi_Observed i))" and b: "blocksStartResources (ex_Status e)" for e
  proof -
    have "\<not> (ex_ExecutionID e = sn_ExecutionID cur \<and> ownershipMatchesSnapshot (ex_Ownership e) cur)"
    proof
      assume m: "ex_ExecutionID e = sn_ExecutionID cur \<and> ownershipMatchesSnapshot (ex_Ownership e) cur"
      then have "active_owned i e"
        using b assms(3) cur(1)
        by (simp add: active_owned_def owned_by_def current_known_def blocksStartResources_def holdsResources_def)
      then show False using e rest(1) by (auto simp: active_list_def filter_empty_conv)
    qed
    then show ?thesis using execution_conflict_None[OF sc(3) e b] by (auto simp: observed_claim_def)
  qed
  show ?thesis using cur rest sc claim by (auto simp: inventoryContains_iff active_list_def)
qed

text \<open>
  C3: A STOP reaches only the Controller's own executions: the stopped execution is observed, is
  not already stopped, carries exactly the ownership of a known snapshot with its identifier, and
  that snapshot belongs to the planned workload. Unmanaged executions and executions of other
  workloads are never stopped.
\<close>

theorem plan_stops_only_owned:
  assumes "a \<in> set (pres_Actions (Plan i))" and "ak_Action (ac_Key a) = ActionStop"
  shows "\<exists>e s. e \<in> set (ho_Executions (pi_Observed i)) \<and> ex_ExecutionID e = ak_ExecutionID (ac_Key a)
    \<and> ex_Status e \<noteq> ExecutionStopped
    \<and> known_snapshots i (ex_ExecutionID e) = Some s \<and> ownershipMatchesSnapshot (ex_Ownership e) s
    \<and> sn_WorkloadID s = dw_WorkloadID (pi_Workload i)"
  using Plan_actionD[OF assms(1)] assms(2) active_listD[of _ i]
  by (fastforce simp: holdsResources_def)

text \<open>
  A generation is proposed for blocking only when the workload's current execution is observed
  in the terminal state FAILED, and only for the desired generation that is not blocked yet.
\<close>

theorem plan_blocks_only_failed:
  assumes "a \<in> set (pres_Actions (Plan i))" and "ak_Action (ac_Key a) = ActionBlock"
  shows "ac_Code a = PROCESS_CRASHED \<and> \<not> generation_blocked i
    \<and> ak_DesiredGeneration (ac_Key a) = dw_DesiredGeneration (pi_Workload i)
    \<and> (\<exists>e\<in>set (ho_Executions (pi_Observed i)). is_current i e \<and> ex_Status e = ExecutionFailed
         \<and> ex_ExecutionID e = ak_ExecutionID (ac_Key a))"
  using Plan_actionD[OF assms(1)] assms(2) by (auto dest: current_of_SomeD)

section \<open>Convergence\<close>

text \<open>
  The reconciliation loop with an ideal Host: a STOP makes the execution STOPPED, a START makes the
  execution of the snapshot run under its ownership, a BLOCK records the blocked generation.
\<close>

definition snapshot_ownership :: "ResolvedExecutionSnapshot \<Rightarrow> WorkloadOwnership" where
  "snapshot_ownership s = \<lparr>ow_WorkloadID = sn_WorkloadID s, ow_DesiredGeneration = sn_DesiredGeneration s,
     ow_ResolvedHash = sn_ResolvedHash s, ow_HostID = sn_HostID s, ow_CPU = cl_CPU (sn_Resources s),
     ow_DeviceIDs = cl_DeviceIDs (sn_Resources s)\<rparr>"

definition started_execution :: "ResolvedExecutionSnapshot \<Rightarrow> ExecutionObservation" where
  "started_execution s = \<lparr>ex_ExecutionID = sn_ExecutionID s, ex_Ownership = Some (snapshot_ownership s),
     ex_Status = ExecutionRunning, ex_Error = None, ex_PID = 1, ex_StartedAt = 0, ex_ExitCode = None,
     ex_RestartCount = 0, ex_LastError = [], ex_Warnings = [], ex_MinerTelemetry = None, ex_UsefulWork = None\<rparr>"

definition with_executions :: "PlanInput \<Rightarrow> ExecutionObservation list \<Rightarrow> PlanInput" where
  "with_executions i es = i\<lparr>pi_Observed := (pi_Observed i)\<lparr>ho_Executions := es\<rparr>\<rparr>"

definition blocked_binding :: "PlanInput \<Rightarrow> Action \<Rightarrow> WorkloadRuntimeBinding" where
  "blocked_binding i a = \<lparr>rb_WorkloadID = dw_WorkloadID (pi_Workload i),
     rb_BlockedGeneration = ak_DesiredGeneration (ac_Key a), rb_ErrorCode = ac_Code a,
     rb_HumanMessage = ac_Message a, rb_BlockedAt = 0\<rparr>"

definition host_applies :: "PlanInput \<Rightarrow> Action \<Rightarrow> PlanInput" where
  "host_applies i a =
     (let eid = ak_ExecutionID (ac_Key a); es = ho_Executions (pi_Observed i)
      in case ak_Action (ac_Key a) of
        ActionStop \<Rightarrow> with_executions i
          (map (\<lambda>e. if ex_ExecutionID e = eid then e\<lparr>ex_Status := ExecutionStopped\<rparr> else e) es)
      | ActionStart \<Rightarrow> with_executions i
          (filter (\<lambda>e. ex_ExecutionID e \<noteq> eid) es @ [started_execution (ac_Snapshot a)])
      | ActionBlock \<Rightarrow> i\<lparr>pi_Binding := Some (blocked_binding i a)\<rparr>)"

definition reconcile_round :: "PlanInput \<Rightarrow> PlanInput" where
  "reconcile_round i = (case pres_Actions (Plan i) of [] \<Rightarrow> i | a # _ \<Rightarrow> host_applies i a)"

lemma with_executions_fields [simp]:
  "pi_Workload (with_executions i es) = pi_Workload i" "pi_Current (with_executions i es) = pi_Current i"
  "pi_Snapshots (with_executions i es) = pi_Snapshots i" "pi_Binding (with_executions i es) = pi_Binding i"
  "pi_Hold (with_executions i es) = pi_Hold i" "pi_InFlight (with_executions i es) = pi_InFlight i"
  "pi_OtherOwned (with_executions i es) = pi_OtherOwned i"
  "ho_Executions (pi_Observed (with_executions i es)) = es"
  "observation_usable (with_executions i es) = observation_usable i"
  "known_snapshots (with_executions i es) = known_snapshots i"
  "hold_active (with_executions i es) = hold_active i"
  "generation_blocked (with_executions i es) = generation_blocked i"
  "active_owned (with_executions i es) = active_owned i"
  "is_current (with_executions i es) = is_current i"
  by (auto simp: with_executions_def observation_usable_def known_snapshots_def hold_active_def
      generation_blocked_def active_owned_def is_current_def fun_eq_iff split: option.splits)

lemma with_binding_fields [simp]:
  "observation_usable (i\<lparr>pi_Binding := b\<rparr>) = observation_usable i"
  "known_snapshots (i\<lparr>pi_Binding := b\<rparr>) = known_snapshots i"
  "hold_active (i\<lparr>pi_Binding := b\<rparr>) = hold_active i"
  "active_owned (i\<lparr>pi_Binding := b\<rparr>) = active_owned i"
  "is_current (i\<lparr>pi_Binding := b\<rparr>) = is_current i"
  by (auto simp: observation_usable_def known_snapshots_def hold_active_def
      active_owned_def is_current_def fun_eq_iff split: option.splits)

definition steady :: "PlanInput \<Rightarrow> bool" where
  "steady i \<longleftrightarrow> observation_usable i \<and> pi_InFlight i = {} \<and> current_known i"

lemma Plan_singleton: "pres_Actions (Plan i) = [] \<or> (\<exists>a. pres_Actions (Plan i) = [a])"
  using Plan_at_most_one[of i] by (cases "pres_Actions (Plan i)") auto

lemma steady_with [simp]:
  "steady (with_executions i es) = steady i" "steady (i\<lparr>pi_Binding := b\<rparr>) = steady i"
  by (simp_all add: steady_def current_known_def split: option.split)

lemma steady_round: "steady i \<Longrightarrow> steady (reconcile_round i)"
  by (simp add: reconcile_round_def host_applies_def Let_def split: list.split ActionKind.split)

lemma stop_shrinks:
  assumes "pres_Actions (Plan i) = [a]" "ak_Action (ac_Key a) = ActionStop"
  shows "length (active_list (reconcile_round i)) < length (active_list i)"
proof -
  let ?f = "\<lambda>e. if ex_ExecutionID e = ak_ExecutionID (ac_Key a) then e\<lparr>ex_Status := ExecutionStopped\<rparr> else e"
  obtain e where e: "e \<in> set (active_list i)" "ex_ExecutionID e = ak_ExecutionID (ac_Key a)"
    using Plan_actionD[of a i] assms by auto
  have off: "\<not> active_owned i (x\<lparr>ex_Status := ExecutionStopped\<rparr>)" for x
    by (simp add: active_owned_def holdsResources_def)
  have le: "length (filter (active_owned i) (map ?f es)) \<le> length (filter (active_owned i) es)" for es
    by (induction es) (auto simp: off)
  have lt: "length (filter (active_owned i) (map ?f es)) < length (filter (active_owned i) es)"
    if "e \<in> set es" "active_owned i e" for es
    using that
  proof (induction es)
    case (Cons x es)
    show ?case
    proof (cases "x = e")
      case True
      then show ?thesis using Cons.prems e(2) le[of es] by (simp add: off)
    next
      case False
      then have "length (filter (active_owned i) (map ?f es)) < length (filter (active_owned i) es)"
        using Cons by auto
      then show ?thesis by (auto simp: off)
    qed
  qed simp
  show ?thesis using lt[of "ho_Executions (pi_Observed i)"] e(1) assms
    by (simp add: reconcile_round_def host_applies_def Let_def active_list_def)
qed

lemma block_settles:
  assumes "pres_Actions (Plan i) = [a]" "ak_Action (ac_Key a) = ActionBlock"
  shows "pres_Actions (Plan (reconcile_round i)) = []"
proof -
  let ?j = "reconcile_round i"
  have j: "?j = i\<lparr>pi_Binding := Some (blocked_binding i a)\<rparr>"
    using assms by (simp add: reconcile_round_def host_applies_def)
  have run: "dw_RunState (dw_Content (pi_Workload i)) \<noteq> DesiredStopped" "\<not> hold_active i"
    and gen: "ak_DesiredGeneration (ac_Key a) = dw_DesiredGeneration (pi_Workload i)"
    and cur: "\<exists>c. current_of i = Some c \<and> ex_Status c = ExecutionFailed"
    using Plan_actionD[of a i] assms by auto
  have nobs: "find (obsolete i) (sort_key ex_ExecutionID (active_list i)) = None"
  proof (rule ccontr)
    assume "\<not> ?thesis"
    then obtain e where "find (obsolete i) (sort_key ex_ExecutionID (active_list i)) = Some e" by auto
    then have "ak_Action (ac_Key a) = ActionStop" using assms(1)
      by (auto simp: Plan_eq Let_def unless_in_flight_def split: if_splits)
    then show False using assms(2) by simp
  qed
  have same: "active_list ?j = active_list i" "current_of ?j = current_of i" "obsolete ?j = obsolete i"
    "hold_active ?j = hold_active i"
    by (simp_all add: j active_list_def current_of_def obsolete_def fun_eq_iff)
  have "generation_blocked ?j" using gen by (simp add: j generation_blocked_def blocked_binding_def)
  then show ?thesis using run nobs same
    by (simp add: Plan_eq j plan_running_def Let_def)
qed

lemma start_settles:
  assumes "pres_Actions (Plan i) = [a]" "ak_Action (ac_Key a) = ActionStart" "current_known i"
  shows "pres_Actions (Plan (reconcile_round i)) = []"
proof -
  obtain cur where cur: "pi_Current i = Some cur"
      "a = mk_action (mk_key i (dw_DesiredGeneration (pi_Workload i)) (sn_ExecutionID cur) ActionStart) cur"
    and rest: "active_list i = []" "dw_RunState (dw_Content (pi_Workload i)) \<noteq> DesiredStopped"
      "\<not> hold_active i"
    using Plan_actionD[of a i] assms(1,2) by auto
  let ?new = "started_execution cur"
  let ?es = "filter (\<lambda>e. ex_ExecutionID e \<noteq> sn_ExecutionID cur) (ho_Executions (pi_Observed i))"
  have j: "reconcile_round i = with_executions i (?es @ [?new])"
    using assms(1) cur(2) by (simp add: reconcile_round_def host_applies_def Let_def)
  have known: "owned_by (known_snapshots i) ?new = Some cur" "sn_WorkloadID cur = dw_WorkloadID (pi_Workload i)"
    using assms(3) cur(1) by (auto simp: current_known_def owned_by_def ownershipMatchesSnapshot_def
        started_execution_def snapshot_ownership_def)
  then have isc: "is_current i ?new"
    using cur(1) by (simp add: is_current_def active_owned_def holdsResources_def snapshotIdentityEqual_def
        claimMatches_def started_execution_def snapshot_ownership_def)
  have act: "active_list (reconcile_round i) = [?new]"
    using rest(1) isc by (simp add: j active_list_def filter_empty_conv is_current_def)
  have c: "current_of (reconcile_round i) = Some ?new" by (simp add: j current_of_def isc)
  have nobs: "find (obsolete (reconcile_round i)) (sort_key ex_ExecutionID (active_list (reconcile_round i))) = None"
    by (simp add: act obsolete_def c)
  have st: "ex_Status ?new \<noteq> ExecutionFailed" by (simp add: started_execution_def)
  show ?thesis using rest(2,3) nobs c st
    by (simp add: Plan_eq j plan_running_def Let_def)
qed

text \<open>
  C2: Reconciliation converges. From every state with a usable observation, nothing in flight and
  consistent records, at most one round per active execution of the workload plus one reaches a
  state in which the planner proposes nothing more.
\<close>

theorem reconcile_converges:
  assumes "steady i"
  shows "\<exists>n\<le>Suc (length (active_list i)). pres_Actions (Plan ((reconcile_round ^^ n) i)) = []"
  using assms
proof (induction "length (active_list i)" arbitrary: i rule: less_induct)
  case less
  consider "pres_Actions (Plan i) = []" | a where "pres_Actions (Plan i) = [a]"
    using Plan_singleton by blast
  then show ?case
  proof cases
    case 1
    then show ?thesis by (intro exI[of _ 0]) simp
  next
    case (2 a)
    show ?thesis
    proof (cases "ak_Action (ac_Key a)")
      case ActionStop
      have lt: "length (active_list (reconcile_round i)) < length (active_list i)"
        by (rule stop_shrinks[OF 2 ActionStop])
      obtain n where n: "n \<le> Suc (length (active_list (reconcile_round i)))"
        "pres_Actions (Plan ((reconcile_round ^^ n) (reconcile_round i))) = []"
        using less.hyps[OF lt steady_round[OF less.prems]] by blast
      then show ?thesis using lt by (intro exI[of _ "Suc n"]) (simp add: funpow_swap1)
    next
      case ActionStart
      then show ?thesis using start_settles[OF 2] less.prems
        by (intro exI[of _ 1]) (simp add: steady_def)
    next
      case ActionBlock
      then show ?thesis using block_settles[OF 2] by (intro exI[of _ 1]) simp
    qed
  qed
qed

text \<open>
  A quiet planner means a converged Host: with a usable observation and nothing in flight, the
  planner proposes no action and reports no conflict exactly when every active execution of the
  workload is the current one, and the workload is either to be STOPPED and has none, or is to be
  RUNNING without a hold and is blocked at this generation or has a current execution that did not fail.
\<close>

theorem plan_quiet_iff_converged:
  assumes "observation_usable i" and "pi_InFlight i = {}"
  shows "pres_Actions (Plan i) = [] \<and> pres_Conflict (Plan i) = [] \<longleftrightarrow>
     (\<forall>e\<in>set (active_list i). \<exists>c. current_of i = Some c \<and> ex_ExecutionID e = ex_ExecutionID c)
   \<and> (if dw_RunState (dw_Content (pi_Workload i)) = DesiredStopped then current_of i = None
      else \<not> (hold_active i) \<and> (generation_blocked i
        \<or> (\<exists>c. current_of i = Some c \<and> ex_Status c \<noteq> ExecutionFailed)))"
proof -
  have ob: "(\<forall>e\<in>set (active_list i). \<exists>c. current_of i = Some c \<and> ex_ExecutionID e = ex_ExecutionID c)
     \<longleftrightarrow> find (obsolete i) (sort_key ex_ExecutionID (active_list i)) = None"
    unfolding find_obsolete_None by (auto simp: obsolete_def split: option.splits)
  have conflict: "m \<noteq> []" if "startConflict i cur (known_snapshots i) = Some (c, m)" for cur c m
  proof -
    have "execution_conflict w s k es = Some (c, m) \<Longrightarrow> m \<noteq> []" for w s k es
      by (induction es) (auto split: if_splits option.splits)
    then show ?thesis using that by (auto simp: startConflict_def Let_def split: if_splits)
  qed
  show ?thesis unfolding ob using assms conflict
    by (auto simp: Plan_eq plan_stop_current_def plan_running_def unless_in_flight_def Let_def
        split: option.split if_splits)
qed

section \<open>Concrete inputs\<close>

definition demo_planner_host :: HostID where
  "demo_planner_host = HostID ''host_p''"

definition demo_snapshot :: ResolvedExecutionSnapshot where
  "demo_snapshot = zero_snapshot\<lparr>sn_WorkloadID := WorkloadID ''workload_p'', sn_DesiredGeneration := 3,
     sn_ExecutionID := ExecutionID ''execution_p'', sn_HostID := demo_planner_host,
     sn_Resources := \<lparr>cl_CPU = True, cl_DeviceIDs = []\<rparr>\<rparr>"

definition demo_workload :: "DesiredRunState \<Rightarrow> DesiredWorkload" where
  "demo_workload rs = \<lparr>dw_WorkloadID = WorkloadID ''workload_p'',
     dw_Meta = \<lparr>meta_SchemaVersion = 1, meta_Revision = 3, meta_ContentHash = [], meta_Origin = OriginOther [],
       meta_CreatedAt = 0, meta_UpdatedAt = 0\<rparr>,
     dw_DesiredGeneration = 3, dw_EffectiveHash = [],
     dw_Content = \<lparr>dw_Name = ''p'', dw_HostID = demo_planner_host, dw_ProfileID = ProfileID [],
       dw_RunState = rs, dw_Worker = [], dw_Resources = \<lparr>cl_CPU = True, cl_DeviceIDs = []\<rparr>\<rparr>\<rparr>"

definition demo_input :: "DesiredRunState \<Rightarrow> ExecutionObservation list \<Rightarrow> PlanInput" where
  "demo_input rs es = \<lparr>pi_Workload = demo_workload rs, pi_Current = Some demo_snapshot,
     pi_Snapshots = [demo_snapshot], pi_Binding = None, pi_Hold = None,
     pi_Observed = zero_HostObservation\<lparr>ho_HostID := demo_planner_host, ho_ConnectionEpoch := 7,
       ho_Connected := True, ho_Ready := True, ho_Fresh := True, ho_Executions := es\<rparr>,
     pi_InFlight = {}, pi_OtherOwned = Map.empty\<rparr>"

lemma demo_input_fields [simp]:
  "observation_usable (demo_input rs es)" "current_known (demo_input rs es)" "steady (demo_input rs es)"
  "known_snapshots (demo_input rs es) = [sn_ExecutionID demo_snapshot \<mapsto> demo_snapshot]"
  "pi_InFlight (demo_input rs es) = {}" "\<not> hold_active (demo_input rs es)"
  "\<not> generation_blocked (demo_input rs es)" "pi_Current (demo_input rs es) = Some demo_snapshot"
  "ho_Executions (pi_Observed (demo_input rs es)) = es"
  "dw_RunState (dw_Content (pi_Workload (demo_input rs es))) = rs"
  "dw_DesiredGeneration (pi_Workload (demo_input rs es)) = 3"
  "ho_UnmanagedProcesses (pi_Observed (demo_input rs es)) = []"
  "sn_Resources demo_snapshot = \<lparr>cl_CPU = True, cl_DeviceIDs = []\<rparr>"
  "sn_ExecutionID demo_snapshot = ExecutionID ''execution_p''"
  by (simp_all add: zero_HostObservation_def demo_input_def observation_usable_def demo_workload_def current_known_def steady_def
      known_snapshots_def demo_snapshot_def hold_active_def generation_blocked_def)

lemma demo_current:
  "is_current (demo_input rs es) ((started_execution demo_snapshot)\<lparr>ex_Status := st\<rparr>) \<longleftrightarrow> holdsResources st"
  by (auto simp: is_current_def active_owned_def owned_by_def ownershipMatchesSnapshot_def
      started_execution_def snapshot_ownership_def snapshotIdentityEqual_def claimMatches_def
      demo_input_def demo_workload_def demo_snapshot_def known_snapshots_def)

lemma demo_start:
  "pres_Actions (Plan (demo_input DesiredRunning [])) =
     [mk_action (mk_key (demo_input DesiredRunning []) 3 (ExecutionID ''execution_p'') ActionStart) demo_snapshot]"
  by (simp add: Plan_eq active_list_def current_of_def plan_running_def startConflict_def
      inventoryContains_def unless_in_flight_def plan_action_def)

definition demo_failed :: ExecutionObservation where
  "demo_failed = (started_execution demo_snapshot)\<lparr>ex_Status := ExecutionFailed\<rparr>"

lemma demo_one:
  "active_list (demo_input rs [demo_failed]) = [demo_failed]"
  "current_of (demo_input rs [demo_failed]) = Some demo_failed"
  "\<not> obsolete (demo_input rs [demo_failed]) demo_failed"
proof -
  have c: "is_current (demo_input rs [demo_failed]) demo_failed"
    by (simp add: demo_failed_def demo_current holdsResources_def)
  then show "active_list (demo_input rs [demo_failed]) = [demo_failed]"
    by (simp add: active_list_def is_current_def)
  show co: "current_of (demo_input rs [demo_failed]) = Some demo_failed"
    using c by (simp add: current_of_def)
  show "\<not> obsolete (demo_input rs [demo_failed]) demo_failed" by (simp add: obsolete_def co)
qed

lemma demo_block:
  "\<exists>a. pres_Actions (Plan (demo_input DesiredRunning [demo_failed])) = [a] \<and> ak_Action (ac_Key a) = ActionBlock"
  by (simp add: Plan_eq demo_one plan_running_def Let_def)
    (simp add: demo_failed_def)

lemma demo_stop:
  "\<exists>a. pres_Actions (Plan (demo_input DesiredStopped [demo_failed])) = [a] \<and> ak_Action (ac_Key a) = ActionStop"
  by (simp add: Plan_eq demo_one plan_stop_current_def unless_in_flight_def)

theorem plan_start_is_exclusive_witness:
  "set (cl_DeviceIDs (sn_Resources demo_snapshot)) \<subseteq> gpu_DeviceID ` set (inv_GPUs (ho_Inventory (pi_Observed (demo_input DesiredRunning []))))
   \<and> \<not> hold_active (demo_input DesiredRunning [])"
  using plan_start_is_exclusive[OF _ _ demo_input_fields(2), of _ DesiredRunning "[]"] demo_start by auto

theorem plan_stops_only_owned_witness:
  "\<exists>e s. e \<in> set [demo_failed] \<and> ex_Status e \<noteq> ExecutionStopped
     \<and> known_snapshots (demo_input DesiredStopped [demo_failed]) (ex_ExecutionID e) = Some s"
proof -
  obtain a where a: "a \<in> set (pres_Actions (Plan (demo_input DesiredStopped [demo_failed])))"
    "ak_Action (ac_Key a) = ActionStop"
    using demo_stop by auto
  show ?thesis using plan_stops_only_owned[OF a] by (simp only: demo_input_fields) blast
qed

theorem plan_blocks_only_failed_witness:
  "\<exists>e\<in>set [demo_failed]. ex_Status e = ExecutionFailed"
proof -
  obtain a where a: "a \<in> set (pres_Actions (Plan (demo_input DesiredRunning [demo_failed])))"
    "ak_Action (ac_Key a) = ActionBlock"
    using demo_block by auto
  show ?thesis using plan_blocks_only_failed[OF a] by (simp only: demo_input_fields) blast
qed

theorem reconcile_converges_witness:
  "\<exists>n\<le>Suc (length (active_list (demo_input DesiredRunning [demo_failed]))).
     pres_Actions (Plan ((reconcile_round ^^ n) (demo_input DesiredRunning [demo_failed]))) = []"
  by (rule reconcile_converges[OF demo_input_fields(3)])

theorem plan_quiet_iff_converged_witness:
  "\<not> (pres_Actions (Plan (demo_input DesiredStopped [demo_failed])) = []
      \<and> pres_Conflict (Plan (demo_input DesiredStopped [demo_failed])) = [])
   \<and> current_of (demo_input DesiredStopped [demo_failed]) = Some demo_failed"
  using plan_quiet_iff_converged[OF demo_input_fields(1,5), of DesiredStopped "[demo_failed]"]
  by (simp add: demo_one)

theorem plan_single_epoch_bound_action_witness:
  "ak_ConnectionEpoch (ac_Key (hd (pres_Actions (Plan (demo_input DesiredRunning [])))))
     = ho_ConnectionEpoch (pi_Observed (demo_input DesiredRunning []))
   \<and> length (pres_Actions (Plan (demo_input DesiredRunning []))) = 1"
  using plan_single_epoch_bound_action[of "demo_input DesiredRunning []"] by (simp add: demo_start)

end
