(* ===== verification/Go_Sha256.thy ===== *)
theory Go_Sha256
  imports Go_Strings
begin

unbundle bit_operations_syntax

text \<open>
  \<open>crypto/sha256.Sum256\<close> (FIPS 180-4): the content hashes, the incident identifiers and the package
  checks of the sources are SHA-256 digests. Words are 32 bits wide and addition wraps.
\<close>

text \<open>
  The constants are the first 32 bits of the fractional parts of the cube roots of the first 64
  primes, and of the square roots of the first eight: \<open>root_bits k n N 0\<close> is the largest \<open>r\<close> of \<open>n\<close> bits
  whose \<open>k\<close>-th power does not exceed \<open>N\<close>.
\<close>

fun root_bits :: "nat \<Rightarrow> nat \<Rightarrow> nat \<Rightarrow> nat \<Rightarrow> nat" where
  "root_bits k 0 N r = r"
| "root_bits k (Suc n) N r = root_bits k n N (if (r + 2 ^ n) ^ k \<le> N then r + 2 ^ n else r)"

definition sha_primes :: "nat list" where
  "sha_primes = filter (\<lambda>p. list_all (\<lambda>d. p mod d \<noteq> 0) [2..<p]) [2..<312]"

definition sha_K :: "32 word list" where
  "sha_K = map (\<lambda>p. of_nat (root_bits 3 40 (p * 2 ^ 96) 0)) sha_primes"

definition sha_H0 :: "32 word list" where
  "sha_H0 = map (\<lambda>p. of_nat (root_bits 2 40 (p * 2 ^ 64) 0)) (take 8 sha_primes)"

definition rotr :: "nat \<Rightarrow> 32 word \<Rightarrow> 32 word" where
  "rotr n x = drop_bit n x OR push_bit (32 - n) x"

definition sha_s0 :: "32 word \<Rightarrow> 32 word" where
  "sha_s0 x = (rotr 7 x XOR rotr 18 x) XOR drop_bit 3 x"

definition sha_s1 :: "32 word \<Rightarrow> 32 word" where
  "sha_s1 x = (rotr 17 x XOR rotr 19 x) XOR drop_bit 10 x"

definition sha_S0 :: "32 word \<Rightarrow> 32 word" where
  "sha_S0 x = (rotr 2 x XOR rotr 13 x) XOR rotr 22 x"

definition sha_S1 :: "32 word \<Rightarrow> 32 word" where
  "sha_S1 x = (rotr 6 x XOR rotr 11 x) XOR rotr 25 x"

text \<open>The schedule is kept newest first: \<open>w ! 15\<close> is the word sixteen steps back.\<close>

fun sha_extend :: "nat \<Rightarrow> 32 word list \<Rightarrow> 32 word list" where
  "sha_extend 0 w = rev w"
| "sha_extend (Suc n) w = sha_extend n ((sha_s1 (w ! 1) + w ! 6 + sha_s0 (w ! 14) + w ! 15) # w)"

definition sha_schedule :: "32 word list \<Rightarrow> 32 word list" where
  "sha_schedule block = sha_extend 48 (rev block)"

fun sha_rounds :: "(32 word \<times> 32 word) list \<Rightarrow> 32 word list \<Rightarrow> 32 word list" where
  "sha_rounds [] v = v"
| "sha_rounds ((k, w) # kws) [a, b, c, d, e, f, g, h] =
     (let t1 = h + sha_S1 e + ((e AND f) XOR (NOT e AND g)) + k + w;
          t2 = sha_S0 a + ((a AND b) XOR (a AND c) XOR (b AND c))
      in sha_rounds kws [t1 + t2, a, b, c, d + t1, e, f, g])"
| "sha_rounds (kw # kws) v = v"

definition sha_block :: "32 word list \<Rightarrow> 32 word list \<Rightarrow> 32 word list" where
  "sha_block h block = map2 (+) h (sha_rounds (zip sha_K (sha_schedule block)) h)"

text \<open>Big-endian bytes of a number, and the padding to blocks of 64 bytes.\<close>

fun be_bytes :: "nat \<Rightarrow> nat \<Rightarrow> nat list" where
  "be_bytes 0 n = []"
| "be_bytes (Suc k) n = be_bytes k (n div 256) @ [n mod 256]"

definition sha_pad :: "string \<Rightarrow> nat list" where
  "sha_pad s = map byte s @ [128] @ replicate (nat ((55 - int (length s)) mod 64)) 0
     @ be_bytes 8 (8 * length s)"

fun be_words :: "nat list \<Rightarrow> 32 word list" where
  "be_words (a # b # c # d # xs) = word_of_nat (((a * 256 + b) * 256 + c) * 256 + d) # be_words xs"
| "be_words _ = []"

function sha_blocks :: "32 word list \<Rightarrow> 32 word list \<Rightarrow> 32 word list" where
  "sha_blocks h ws = (if ws = [] then h else sha_blocks (sha_block h (take 16 ws)) (drop 16 ws))"
  by pat_completeness auto
termination by (relation "measure (length o snd)") auto

declare sha_blocks.simps [simp del]

definition Sum256 :: "string \<Rightarrow> 8 word list" where
  "Sum256 s = concat (map (\<lambda>w. map word_of_nat (be_bytes 4 (unat w)))
     (sha_blocks sha_H0 (be_words (sha_pad s))))"

lemma sha_rounds_length: "length v = 8 \<Longrightarrow> length (sha_rounds kws v) = 8"
  by (induction kws v rule: sha_rounds.induct) (simp_all add: Let_def)

lemma sha_blocks_length: "length h = 8 \<Longrightarrow> length (sha_blocks h ws) = 8"
proof (induction h ws rule: sha_blocks.induct)
  case (1 h ws)
  show ?case
  proof (cases "ws = []")
    case True
    then show ?thesis using "1.prems" by (simp add: sha_blocks.simps)
  next
    case False
    have "length (sha_block h (take 16 ws)) = 8"
      using "1.prems" by (simp add: sha_block_def sha_rounds_length)
    then show ?thesis using "1.IH"[OF False] False by (subst sha_blocks.simps) simp
  qed
qed

lemma length_be_bytes [simp]: "length (be_bytes k n) = k"
  by (induction k arbitrary: n) auto

lemma length_sha_H0: "length sha_H0 = 8"
proof -
  let ?P = "\<lambda>p. list_all (\<lambda>d. p mod d \<noteq> 0) [2..<p]"
  have "[2..<312] = [2..<20] @ [20..<312::nat]"
    using upt_add_eq_append[of 2 20 292] by simp
  moreover have "length (filter ?P [2..<20]) = 8"
    by (simp add: upt_rec)
  ultimately show ?thesis
    by (simp only: sha_H0_def sha_primes_def filter_append length_map length_take length_append min_absorb2 le_add1)
qed

lemma length_Sum256 [simp]: "length (Sum256 s) = 32"
  by (simp add: Sum256_def length_concat comp_def sum_list_triv sha_blocks_length length_sha_H0)

end
