(* ===== verification/Farm_Validate.thy ===== *)
theory Farm_Validate
  imports Farm_Types
begin

text \<open>
  The validators of \<open>internal/farmmodel\<close> (model.go, desired.go, incident.go, maintenance.go) and
  the normal form of resource claims. A validator returns the first error, \<open>None\<close> for valid
  content. Texts of standard-library errors that end up in the details use \<open>strconv.Quote\<close>,
  whose Unicode tables are not part of the repository: it is the parameter \<open>quote\<close>.
\<close>

section \<open>Shared helpers\<close>

definition invalid :: "string \<Rightarrow> error option \<Rightarrow> error" where
  "invalid message cause = Typed (mk_error CONFIG_CONFLICT message
     (case cause of None \<Rightarrow> Map.empty | Some e \<Rightarrow> [''cause'' \<mapsto> error_Error e]))"

definition validateName :: "string \<Rightarrow> error option" where
  "validateName value =
     (if TrimSpace value = [] \<or> length value > 256 \<or> ContainsNul value \<or> \<not> ValidUTF8 value
      then Some (Plain ''name must be non-empty valid UTF-8 and at most 256 bytes'') else None)"

definition validateToken :: "string \<Rightarrow> string \<Rightarrow> nat \<Rightarrow> error option" where
  "validateToken label value mx =
     (if TrimSpace value = [] \<or> length value > mx \<or> ContainsNul value
         \<or> ContainsAny value [CHR 0x0D, CHR 0x0A]
      then Some (invalid (''invalid '' @ label) None) else None)"

text \<open>The first failing step of a sequence of early returns.\<close>

fun first_error :: "error option list \<Rightarrow> error option" where
  "first_error [] = None"
| "first_error (None # es) = first_error es"
| "first_error (Some e # es) = Some e"

definition check_with :: "string \<Rightarrow> error option \<Rightarrow> error option" where
  "check_with message r = (case r of None \<Rightarrow> None | Some e \<Rightarrow> Some (invalid message (Some e)))"

definition require :: "bool \<Rightarrow> string \<Rightarrow> error option" where
  "require ok message = (if ok then None else Some (invalid message None))"

lemma first_error_None: "first_error es = None \<longleftrightarrow> (\<forall>e\<in>set es. e = None)"
  by (induction es rule: first_error.induct) auto

lemma check_with_None [simp]: "check_with m r = None \<longleftrightarrow> r = None"
  by (simp add: check_with_def split: option.split)

lemma require_None [simp]: "require ok m = None \<longleftrightarrow> ok"
  by (simp add: require_def)

lemma CodeOf_invalid [simp]: "CodeOf (invalid m c) = (CONFIG_CONFLICT, True)"
  by (simp add: invalid_def)

section \<open>Pools and wallets\<close>

text \<open>\<open>strconv.ParseUint\<close> on 16 bits with the text of its error: the scan stops at the first
  character that is no digit or takes the value out of range.\<close>

fun uint_scan :: "nat \<Rightarrow> nat \<Rightarrow> string \<Rightarrow> string + nat" where
  "uint_scan mx acc [] = Inr acc"
| "uint_scan mx acc (c # cs) =
     (if \<not> is_digit c then Inl ''invalid syntax''
      else let n = acc * 10 + (byte c - 48)
        in if n > mx then Inl ''value out of range'' else uint_scan mx n cs)"

definition parse_port :: "(string \<Rightarrow> string) \<Rightarrow> string \<Rightarrow> nat result" where
  "parse_port quote s =
     (case (if s = [] then Inl ''invalid syntax'' else uint_scan 65535 0 s) of
        Inl m \<Rightarrow> Inl (Plain (''strconv.ParseUint: parsing '' @ quote s @ '': '' @ m))
      | Inr n \<Rightarrow> Inr n)"

definition addr_error :: "string \<Rightarrow> string \<Rightarrow> error" where
  "addr_error addr m = Plain (if addr = [] then m else ''address '' @ addr @ '': '' @ m)"

definition validate_address :: "(string \<Rightarrow> string) \<Rightarrow> string \<Rightarrow> error option" where
  "validate_address quote addr =
     (case SplitHostPort addr of
        Inl m \<Rightarrow> Some (invalid ''Pool address must be host:port'' (Some (addr_error addr m)))
      | Inr (host, portText) \<Rightarrow>
        if TrimSpace host = [] then Some (invalid ''Pool address must be host:port'' None)
        else (case parse_port quote portText of
            Inl e \<Rightarrow> Some (invalid ''Pool address must contain a valid TCP port'' (Some e))
          | Inr port \<Rightarrow> require (port \<noteq> 0) ''Pool address must contain a valid TCP port''))"

definition validate_auth :: "PoolAuth \<Rightarrow> error option" where
  "validate_auth auth =
     (case pa_Kind auth of
        PoolAuthNone \<Rightarrow> require (pa_PublicLiteral auth = []) ''NONE Pool auth cannot contain a public literal''
      | PoolAuthPublicLiteral \<Rightarrow>
          require (pa_PublicLiteral auth \<noteq> [] \<and> length (pa_PublicLiteral auth) \<le> 256
             \<and> \<not> ContainsNul (pa_PublicLiteral auth))
            ''PUBLIC_LITERAL Pool auth requires a bounded non-empty value''
      | PoolAuthOther s \<Rightarrow> Some (invalid ''unknown Pool auth kind'' None))"

definition ValidatePool :: "(string \<Rightarrow> string) \<Rightarrow> PoolContent \<Rightarrow> error option" where
  "ValidatePool quote content = first_error
     [check_with ''invalid Pool name'' (validateName (pool_Name content)),
      require (length (pool_Address content) \<le> 512 \<and> \<not> ContainsNul (pool_Address content)) ''invalid Pool address'',
      validate_address quote (pool_Address content),
      validate_auth (pool_Auth content)]"

definition ValidateWalletRef :: "WalletRefContent \<Rightarrow> error option" where
  "ValidateWalletRef content = first_error
     [check_with ''invalid WalletRef name'' (validateName (wal_Name content)),
      validateToken ''coin'' (wal_Coin content) 64,
      require (TrimSpace (wal_Address content) \<noteq> [] \<and> length (wal_Address content) \<le> 1024
          \<and> \<not> ContainsNul (wal_Address content))
        ''WalletRef public address must be non-empty and bounded'']"

section \<open>Mining profiles\<close>

definition ValidatePackageRef :: "PackageRef \<Rightarrow> error option" where
  "ValidatePackageRef ref = first_error
     [check_with ''invalid PackageID'' (PackageID_Validate (pr_PackageID ref)),
      validateToken ''package version'' (pr_Version ref) 128,
      require (pr_Version ref \<noteq> ''.'' \<and> pr_Version ref \<noteq> ''..''
          \<and> \<not> ContainsAny (pr_Version ref) [CHR ''/'', CHR 0x5C])
        ''invalid package version'']"

definition wallet_placeholder :: string where
  "wallet_placeholder = ''${wallet}''"

definition worker_placeholder :: string where
  "worker_placeholder = ''${worker}''"

definition ValidateLoginPolicy :: "LoginPolicy \<Rightarrow> error option" where
  "ValidateLoginPolicy policy =
     (let t = lp_UserTemplate policy;
          remainder = ReplaceAll (ReplaceAll t wallet_placeholder []) worker_placeholder [];
          workers = str_Count t worker_placeholder
      in first_error
        [require (t \<noteq> [] \<and> length t \<le> 1024 \<and> \<not> ContainsNul t \<and> ValidUTF8 t)
           ''login user template must be non-empty valid UTF-8'',
         require (str_Count t wallet_placeholder = 1)
           ''login user template must contain ${wallet} exactly once'',
         require (\<not> Contains remainder ''${'' \<and> \<not> ContainsAny t [CHR 0x0D, CHR 0x0A])
           ''login user template contains an unsupported placeholder or control character'',
         (case lp_WorkerPlacement policy of
            WorkerNone \<Rightarrow> require (workers = 0) ''worker placeholder is not allowed for this worker placement''
          | WorkerSeparate \<Rightarrow> require (workers = 0) ''worker placeholder is not allowed for this worker placement''
          | WorkerInUser \<Rightarrow> require (workers = 1)
              ''IN_USER login template must contain ${worker} exactly once''
          | WorkerOther s \<Rightarrow> Some (invalid ''unknown worker placement'' None))])"

definition ValidateMiningProfile :: "MiningProfileContent \<Rightarrow> error option" where
  "ValidateMiningProfile content = first_error
     [check_with ''invalid MiningProfile name'' (validateName (prof_Name content)),
      validateToken ''adapter ID'' (prof_AdapterID content) 128,
      ValidatePackageRef (prof_Package content),
      require (prof_Mode content = ProfileModeMining) ''M4 MiningProfile mode must be MINING'',
      validateToken ''coin'' (prof_Coin content) 64,
      require (length (prof_Algorithm content) \<le> 128 \<and> \<not> ContainsNul (prof_Algorithm content)) ''invalid algorithm'',
      check_with ''invalid Pool reference'' (PoolID_Validate (prof_PoolID content)),
      check_with ''invalid WalletRef reference'' (WalletID_Validate (prof_WalletID content)),
      ValidateLoginPolicy (prof_LoginPolicy content),
      require (prof_CPUThreads content \<noteq> Some 0) ''CPU threads must be at least one when set'']"

definition ValidateHostProfileSettings ::
  "HostID \<Rightarrow> ProfileID \<Rightarrow> HostProfileSettingsContent \<Rightarrow> error option" where
  "ValidateHostProfileSettings hostID profileID content = first_error
     [check_with ''invalid HostProfileSettings HostID'' (HostID_Validate hostID),
      check_with ''invalid HostProfileSettings ProfileID'' (ProfileID_Validate profileID),
      require (hps_CPUThreads content \<noteq> Some 0)
        ''HostProfileSettings CPU threads must be at least one when set'',
      require (hps_CPUThreads content \<noteq> None \<or> hps_HugePages content \<noteq> None \<or> hps_MSR content \<noteq> None)
        ''HostProfileSettings must contain at least one explicit override'']"

definition ValidateTuningCapabilities ::
  "uint32 option \<Rightarrow> bool option \<Rightarrow> bool option \<Rightarrow> TuningCapabilities \<Rightarrow> error option" where
  "ValidateTuningCapabilities cpuThreads hugePages msr capabilities = first_error
     [require (cpuThreads = None \<or> tc_CPUThreads capabilities) ''package/adapter does not support CPUThreads'',
      require (hugePages = None \<or> tc_HugePages capabilities) ''package/adapter does not support HugePages'',
      require (msr = None \<or> tc_MSR capabilities) ''package/adapter does not support MSR'']"

section \<open>Workloads, incidents and maintenance\<close>

definition ValidateResourceClaim :: "ResourceClaim \<Rightarrow> error option" where
  "ValidateResourceClaim claim =
     (if \<not> cl_CPU claim \<and> cl_DeviceIDs claim = []
      then Some (invalid ''ResourceClaim must include CPU or at least one DeviceID'' None)
      else check_devices (invalid ''ResourceClaim contains an invalid DeviceID'')
        (invalid ''ResourceClaim contains a duplicate DeviceID'' None) {} (cl_DeviceIDs claim))"

definition NormalizeResourceClaim :: "ResourceClaim \<Rightarrow> ResourceClaim" where
  "NormalizeResourceClaim claim = \<lparr>cl_CPU = cl_CPU claim, cl_DeviceIDs = sort (cl_DeviceIDs claim)\<rparr>"

definition ValidateDesiredWorkload :: "DesiredWorkloadContent \<Rightarrow> error option" where
  "ValidateDesiredWorkload content = first_error
     [check_with ''invalid DesiredWorkload name'' (validateName (dw_Name content)),
      check_with ''invalid DesiredWorkload HostID'' (HostID_Validate (dw_HostID content)),
      check_with ''invalid DesiredWorkload ProfileID'' (ProfileID_Validate (dw_ProfileID content)),
      require (dw_RunState content = DesiredRunning \<or> dw_RunState content = DesiredStopped)
        ''invalid desired run state'',
      require (length (dw_Worker content) \<le> 256
          \<and> \<not> ContainsAny (dw_Worker content) [CHR 0x00, CHR 0x0D, CHR 0x0A] \<and> ValidUTF8 (dw_Worker content))
        ''invalid workload worker'',
      ValidateResourceClaim (dw_Resources content)]"

fun ValidIncidentType :: "IncidentType \<Rightarrow> bool" where
  "ValidIncidentType (IncidentTypeOther s) = False"
| "ValidIncidentType _ = True"

fun ValidIncidentSeverity :: "IncidentSeverity \<Rightarrow> bool" where
  "ValidIncidentSeverity (IncidentSeverityOther s) = False"
| "ValidIncidentSeverity _ = True"

definition ValidateIncidentCondition :: "IncidentCondition \<Rightarrow> error option" where
  "ValidateIncidentCondition v =
     (if IncidentID_Validate (ic_IncidentID v) \<noteq> None \<or> length (ic_Key v) = 0 \<or> length (ic_Key v) > 512
      then Some (Plain ''invalid incident identity'')
      else if \<not> ValidIncidentType (ic_Type v) \<or> \<not> ValidIncidentSeverity (ic_Severity v)
           \<or> ic_Source v \<noteq> IncidentSourceController then Some (Plain ''invalid incident classification'')
      else if \<not> ValidCode (ic_ReasonCode v) then Some (Plain ''invalid incident reason code'')
      else if HostID_Validate (ic_HostID v) \<noteq> None then Some (Plain ''invalid incident HostID'')
      else if (case ic_WorkloadID v of None \<Rightarrow> False | Some i \<Rightarrow> WorkloadID_Validate i \<noteq> None)
           then Some (Plain ''invalid incident WorkloadID'')
      else if (case ic_ExecutionID v of None \<Rightarrow> False | Some i \<Rightarrow> ExecutionID_Validate i \<noteq> None)
           then Some (Plain ''invalid incident ExecutionID'')
      else if (case ic_DeviceID v of None \<Rightarrow> False | Some i \<Rightarrow> DeviceID_Validate i \<noteq> None)
           then Some (Plain ''invalid incident DeviceID'')
      else None)"

definition ValidateMaintenanceReason :: "string \<Rightarrow> error option" where
  "ValidateMaintenanceReason reason =
     require (length reason \<le> 512 \<and> ValidUTF8 reason \<and> \<not> ContainsAny reason [CHR 0x00, CHR 0x0D, CHR 0x0A])
       ''invalid Maintenance Hold reason''"

section \<open>Resource claims\<close>

lemma ValidateResourceClaim_None:
  "ValidateResourceClaim c = None \<longleftrightarrow> (cl_CPU c \<or> cl_DeviceIDs c \<noteq> []) \<and> distinct (cl_DeviceIDs c)
     \<and> (\<forall>d\<in>set (cl_DeviceIDs c). DeviceID_Validate d = None)"
  by (auto simp: ValidateResourceClaim_def check_devices_None)

lemma Normalize_fields [simp]:
  "cl_CPU (NormalizeResourceClaim c) = cl_CPU c"
  "cl_DeviceIDs (NormalizeResourceClaim c) = sort (cl_DeviceIDs c)"
  by (simp_all add: NormalizeResourceClaim_def)

lemma Normalize_valid: "ValidateResourceClaim (NormalizeResourceClaim c) = None \<longleftrightarrow> ValidateResourceClaim c = None"
  by (auto simp: ValidateResourceClaim_None) (metis set_empty set_sort)+

text \<open>
  Normalising a resource claim gives a canonical representative: it keeps validity, is idempotent,
  and two valid claims have the same normal form exactly when they claim the same resources.
\<close>

theorem claim_normal_form:
  assumes "ValidateResourceClaim a = None" and "ValidateResourceClaim b = None"
  shows "ValidateResourceClaim (NormalizeResourceClaim a) = None
    \<and> NormalizeResourceClaim (NormalizeResourceClaim a) = NormalizeResourceClaim a
    \<and> (NormalizeResourceClaim a = NormalizeResourceClaim b \<longleftrightarrow>
         cl_CPU a = cl_CPU b \<and> set (cl_DeviceIDs a) = set (cl_DeviceIDs b))"
proof -
  have "sort (cl_DeviceIDs a) = sort (cl_DeviceIDs b) \<longleftrightarrow> set (cl_DeviceIDs a) = set (cl_DeviceIDs b)"
    using assms by (metis ValidateResourceClaim_None set_sort sorted_list_of_set_sort_remdups distinct_remdups_id)
  then have "NormalizeResourceClaim a = NormalizeResourceClaim b
    \<longleftrightarrow> cl_CPU a = cl_CPU b \<and> set (cl_DeviceIDs a) = set (cl_DeviceIDs b)"
    by (simp add: NormalizeResourceClaim_def)
  moreover have "NormalizeResourceClaim (NormalizeResourceClaim a) = NormalizeResourceClaim a"
    by (simp add: NormalizeResourceClaim_def sort_key_id)
  ultimately show ?thesis using assms(1) by (simp add: Normalize_valid)
qed

theorem claim_normal_form_witness:
  "NormalizeResourceClaim (NormalizeResourceClaim \<lparr>cl_CPU = True, cl_DeviceIDs = []\<rparr>)
     = NormalizeResourceClaim \<lparr>cl_CPU = True, cl_DeviceIDs = []\<rparr>"
proof -
  have v: "ValidateResourceClaim \<lparr>cl_CPU = True, cl_DeviceIDs = []\<rparr> = None"
    by (simp add: ValidateResourceClaim_None)
  show ?thesis using claim_normal_form[OF v v] by blast
qed

end
