(* ===== verification/Canonical_Json.thy ===== *)
theory Canonical_Json
  imports Farm_Validate Go_Sha256
begin

text \<open>
  \<open>internal/farmmodel/hash.go\<close>: the deterministic JSON text of configuration content and the
  content hashes built on it. A Go map is an association list; the text does not depend on its
  order. The central fact is that the text determines the value up to the order of map entries
  and the width of integers, so that two contents share a hash only if SHA-256 collides on them.
\<close>

section \<open>Values\<close>

text \<open>The values \<open>appendCanonical\<close> dispatches on; \<open>JOther\<close> is a value of an unsupported Go type.\<close>

datatype json = JNull | JString string | JBool bool | JUint32 uint32 | JUint64 uint64 | JInt int
  | JArray "json list" | JObject "(string \<times> json) list" | JOther string

definition escape_byte :: "char \<Rightarrow> string" where
  "escape_byte c =
     (if c = CHR 0x22 \<or> c = CHR 0x5C then [CHR 0x5C, c]
      else if c = CHR 0x08 then [CHR 0x5C, CHR ''b'']
      else if c = CHR 0x09 then [CHR 0x5C, CHR ''t'']
      else if c = CHR 0x0A then [CHR 0x5C, CHR ''n'']
      else if c = CHR 0x0C then [CHR 0x5C, CHR ''f'']
      else if c = CHR 0x0D then [CHR 0x5C, CHR ''r'']
      else if byte c < 32 then CHR 0x5C # ''u00'' @ [hex_digit (byte c div 16), hex_digit (byte c mod 16)]
      else [c])"

definition quoted :: "string \<Rightarrow> string" where
  "quoted s = CHR 0x22 # concat (map escape_byte s) @ [CHR 0x22]"

text \<open>
  On valid UTF-8 a rune outside ASCII is written as the bytes it was read from, so the loop over
  runes is the loop over bytes.
\<close>

definition appendJSONString :: "string \<Rightarrow> string result" where
  "appendJSONString value =
     (if \<not> ValidUTF8 value then Inl (Plain ''canonical JSON string is not valid UTF-8'')
      else Inr (quoted value))"

fun join_items :: "string result list \<Rightarrow> string result" where
  "join_items [] = Inr []"
| "join_items (r # rs) =
     (case r of Inl e \<Rightarrow> Inl e
      | Inr s \<Rightarrow> (case join_items rs of Inl e \<Rightarrow> Inl e
          | Inr t \<Rightarrow> Inr (if rs = [] then s else s @ '','' @ t)))"

definition member_text :: "string \<Rightarrow> string result \<Rightarrow> string result" where
  "member_text k r =
     (case appendJSONString k of Inl e \<Rightarrow> Inl e
      | Inr ks \<Rightarrow> (case r of Inl e \<Rightarrow> Inl e | Inr v \<Rightarrow> Inr (ks @ '':'' @ v)))"

definition bracket :: "string \<Rightarrow> string \<Rightarrow> string result \<Rightarrow> string result" where
  "bracket l r x = (case x of Inl e \<Rightarrow> Inl e | Inr s \<Rightarrow> Inr (l @ s @ r))"

fun appendCanonical :: "json \<Rightarrow> string result" where
  "appendCanonical JNull = Inr ''null''"
| "appendCanonical (JString s) = appendJSONString s"
| "appendCanonical (JBool b) = Inr (if b then ''true'' else ''false'')"
| "appendCanonical (JUint32 n) = Inr (dec_digits (unat n))"
| "appendCanonical (JUint64 n) = Inr (dec_digits (unat n))"
| "appendCanonical (JInt i) = Inr (Itoa i)"
| "appendCanonical (JArray xs) = bracket ''['' '']'' (join_items (map appendCanonical xs))"
| "appendCanonical (JObject kvs) = bracket ''{'' ''}''
     (join_items (map (\<lambda>(k, r). member_text k r)
       (sort_key fst (map (\<lambda>(k, v). (k, appendCanonical v)) kvs))))"
| "appendCanonical (JOther t) = Inl (Plain (''unsupported canonical JSON value '' @ t))"

definition ContentHash :: "json \<Rightarrow> string result" where
  "ContentHash value =
     (case appendCanonical value of Inl e \<Rightarrow> Inl e
      | Inr text' \<Rightarrow> Inr (''sha256:'' @ EncodeToString (Sum256 text')))"

section \<open>The hashed contents\<close>

definition optionalUint32 :: "uint32 option \<Rightarrow> json" where
  "optionalUint32 v = (case v of None \<Rightarrow> JNull | Some n \<Rightarrow> JUint64 (ucast n))"

definition optionalBool :: "bool option \<Rightarrow> json" where
  "optionalBool v = (case v of None \<Rightarrow> JNull | Some b \<Rightarrow> JBool b)"

definition resourceClaimHashValue :: "ResourceClaim \<Rightarrow> json" where
  "resourceClaimHashValue claim = JObject
     [(''cpu'', JBool (cl_CPU claim)),
      (''device_ids'', JArray (map (\<lambda>d. JString (DeviceID_String d)) (cl_DeviceIDs claim)))]"

definition package_value :: "PackageRef \<Rightarrow> json" where
  "package_value p = JObject
     [(''package_id'', JString (PackageID_String (pr_PackageID p))), (''version'', JString (pr_Version p))]"

definition Pool_value :: "PoolContent \<Rightarrow> json" where
  "Pool_value content = JObject
     [(''address'', JString (pool_Address content)),
      (''auth'', JObject [(''kind'', JString (PoolAuthKind_text (pa_Kind (pool_Auth content)))),
         (''public_literal'', JString (pa_PublicLiteral (pool_Auth content)))]),
      (''name'', JString (pool_Name content)), (''tls'', JBool (pool_TLS content))]"

definition PoolHash :: "PoolContent \<Rightarrow> string result" where
  "PoolHash content = ContentHash (Pool_value content)"

definition WalletRef_value :: "WalletRefContent \<Rightarrow> json" where
  "WalletRef_value content = JObject
     [(''address'', JString (wal_Address content)), (''coin'', JString (wal_Coin content)),
      (''name'', JString (wal_Name content))]"

definition WalletRefHash :: "WalletRefContent \<Rightarrow> string result" where
  "WalletRefHash content = ContentHash (WalletRef_value content)"

definition MiningProfile_value :: "MiningProfileContent \<Rightarrow> json" where
  "MiningProfile_value content = JObject
     [(''adapter_id'', JString (prof_AdapterID content)),
      (''algorithm'', JString (prof_Algorithm content)), (''coin'', JString (prof_Coin content)),
      (''cpu_threads'', optionalUint32 (prof_CPUThreads content)),
      (''huge_pages'', optionalBool (prof_HugePages content)),
      (''login_policy'', JObject
         [(''user_template'', JString (lp_UserTemplate (prof_LoginPolicy content))),
          (''worker_placement'', JString (WorkerPlacement_text (lp_WorkerPlacement (prof_LoginPolicy content))))]),
      (''mode'', JString (ProfileMode_text (prof_Mode content))),
      (''msr'', optionalBool (prof_MSR content)), (''name'', JString (prof_Name content)),
      (''package'', package_value (prof_Package content)),
      (''pool_id'', JString (PoolID_String (prof_PoolID content))),
      (''wallet_id'', JString (WalletID_String (prof_WalletID content)))]"

definition MiningProfileHash :: "MiningProfileContent \<Rightarrow> string result" where
  "MiningProfileHash content = ContentHash (MiningProfile_value content)"

definition HostProfileSettings_value :: "HostProfileSettingsContent \<Rightarrow> json" where
  "HostProfileSettings_value content = JObject
     [(''cpu_threads'', optionalUint32 (hps_CPUThreads content)),
      (''huge_pages'', optionalBool (hps_HugePages content)), (''msr'', optionalBool (hps_MSR content))]"

definition HostProfileSettingsHash :: "HostProfileSettingsContent \<Rightarrow> string result" where
  "HostProfileSettingsHash content = ContentHash (HostProfileSettings_value content)"

definition DesiredWorkload_value :: "DesiredWorkloadContent \<Rightarrow> json" where
  "DesiredWorkload_value content = JObject
     [(''host_id'', JString (HostID_String (dw_HostID content))), (''name'', JString (dw_Name content)),
      (''profile_id'', JString (ProfileID_String (dw_ProfileID content))),
      (''run_state'', JString (DesiredRunState_text (dw_RunState content))),
      (''worker'', JString (dw_Worker content)),
      (''resources'', resourceClaimHashValue (NormalizeResourceClaim (dw_Resources content)))]"

definition DesiredWorkloadHash :: "DesiredWorkloadContent \<Rightarrow> string result" where
  "DesiredWorkloadHash content = ContentHash (DesiredWorkload_value content)"

text \<open>\<open>sort.Slice\<close> is not stable; device identifiers of one claim are distinct, so any sort gives this list.\<close>

definition gpuAssignmentHashValue :: "GPUAssignment list \<Rightarrow> json" where
  "gpuAssignmentHashValue assignments = JArray (map (\<lambda>a. JObject
     [(''device_id'', JString (DeviceID_String (ga_DeviceID a))),
      (''hardware_identity'', JString (ga_HardwareIdentity a)),
      (''runtime_selector'', JString (ga_RuntimeSelector a))]) (sort_key ga_DeviceID assignments))"

definition ResolvedRuntime_value :: "ResolvedRuntimeContent \<Rightarrow> json" where
  "ResolvedRuntime_value content = JObject
     ([(''run_state'', JString (DesiredRunState_text (rr_RunState content))),
       (''host_id'', JString (HostID_String (rr_HostID content))),
       (''profile_id'', JString (ProfileID_String (rr_ProfileID content))),
       (''resources'', resourceClaimHashValue (NormalizeResourceClaim (rr_Resources content))),
       (''adapter_id'', JString (rr_AdapterID content)), (''package'', package_value (rr_Package content)),
       (''mode'', JString (ProfileMode_text (rr_Mode content))), (''coin'', JString (rr_Coin content)),
       (''algorithm'', JString (rr_Algorithm content)),
       (''endpoint'', JObject
          [(''address'', JString (ep_Address (rr_Endpoint content))), (''tls'', JBool (ep_TLS (rr_Endpoint content))),
           (''user'', JString (ep_User (rr_Endpoint content))),
           (''password'', JString (ep_Password (rr_Endpoint content))),
           (''worker'', JString (ep_Worker (rr_Endpoint content)))]),
       (''cpu_threads'', optionalUint32 (rr_CPUThreads content)),
       (''huge_pages'', optionalBool (rr_HugePages content)), (''msr'', optionalBool (rr_MSR content))]
      @ (if rr_GPUAssignments content = [] then []
         else [(''gpu_assignments'', gpuAssignmentHashValue (rr_GPUAssignments content))]))"

definition ResolvedRuntimeHash :: "ResolvedRuntimeContent \<Rightarrow> string result" where
  "ResolvedRuntimeHash content = ContentHash (ResolvedRuntime_value content)"

section \<open>The text determines the value\<close>

lemma dec_digits_digit: "list_all is_digit (dec_digits n) \<and> dec_digits n \<noteq> []"
proof (induction n rule: dec_digits.induct)
  case (1 n)
  have d: "is_digit (char_of (48 + k))" if "k < 10" for k :: nat
    using that by (simp add: is_digit_def)
  show ?case
  proof (cases "n < 10")
    case True
    then show ?thesis by (simp add: dec_digits.simps d)
  next
    case False
    then show ?thesis using 1 d[of "n mod 10"] by (subst (1 2) dec_digits.simps) simp
  qed
qed

lemma dec_value_snoc: "dec_value (s @ [c]) = dec_value s * 10 + (byte c - 48)"
  by (simp add: dec_value_def)

lemma dec_value_digits [simp]: "dec_value (dec_digits n) = n"
proof (induction n rule: dec_digits.induct)
  case (1 n)
  show ?case
  proof (cases "n < 10")
    case True
    then show ?thesis by (simp add: dec_digits.simps dec_value_def)
  next
    case False
    then have "dec_value (dec_digits n) = n div 10 * 10 + n mod 10"
      using 1 by (subst dec_digits.simps) (simp add: dec_value_snoc)
    then show ?thesis by simp
  qed
qed

lemma dec_digits_inj: "dec_digits m = dec_digits n \<longleftrightarrow> m = n"
  by (metis dec_value_digits)

definition number_char :: "char \<Rightarrow> bool" where
  "number_char c \<longleftrightarrow> is_digit c \<or> c = CHR ''-''"

definition delimited :: "string \<Rightarrow> bool" where
  "delimited s \<longleftrightarrow> (case s of [] \<Rightarrow> True | c # _ \<Rightarrow> c = CHR '','' \<or> c = CHR '']'' \<or> c = CHR ''}'')"

lemma Itoa_chars: "list_all number_char (Itoa i) \<and> Itoa i \<noteq> []"
  using dec_digits_digit[of "nat i"] dec_digits_digit[of "nat (- i)"]
  by (auto simp: Itoa_def number_char_def list_all_iff)

lemma Itoa_inj: "Itoa i = Itoa j \<longleftrightarrow> i = j"
proof
  have minus: "dec_digits n \<noteq> CHR ''-'' # s" for n s
    using dec_digits_digit[of n] by (auto simp: is_digit_def)
  assume "Itoa i = Itoa j"
  then show "i = j" using minus minus[symmetric]
    by (auto simp: Itoa_def dec_digits_inj split: if_splits)
qed simp

lemma Itoa_prefix:
  assumes "Itoa i @ u = Itoa j @ v" "delimited u" "delimited v"
  shows "i = j \<and> u = v"
proof -
  have tw: "takeWhile number_char (Itoa k @ w) = Itoa k" if "delimited w" for k w
    using that Itoa_chars[of k]
    by (cases w) (auto simp: takeWhile_append2 list_all_iff delimited_def number_char_def is_digit_def)
  have "Itoa i = Itoa j" using tw[OF assms(2), of i] tw[OF assms(3), of j] assms(1) by simp
  then show ?thesis using assms(1) by (simp add: Itoa_inj)
qed

lemma hex_digit_eq [simp]: "m < 16 \<Longrightarrow> n < 16 \<Longrightarrow> hex_digit m = hex_digit n \<longleftrightarrow> m = n"
  using hex_digit_inj by blast

lemma escape_prefix: "escape_byte c @ u = escape_byte d @ v \<Longrightarrow> c = d \<and> u = v"
proof -
  assume e: "escape_byte c @ u = escape_byte d @ v"
  have "byte c = byte d" if "byte c < 32" "byte d < 32" "byte c div 16 = byte d div 16" "byte c mod 16 = byte d mod 16"
    using that by (metis div_mult_mod_eq)
  then show ?thesis using e by (auto simp: escape_byte_def split: if_splits)
qed

lemma escape_not_quote: "escape_byte c @ u \<noteq> CHR 0x22 # v"
  by (simp add: escape_byte_def)

lemma quoted_prefix: "quoted s @ u = quoted t @ v \<Longrightarrow> s = t \<and> u = v"
proof -
  have "concat (map escape_byte s) @ CHR 0x22 # u = concat (map escape_byte t) @ CHR 0x22 # v
     \<Longrightarrow> s = t \<and> u = v"
  proof (induction s arbitrary: t)
    case Nil
    then show ?case using escape_not_quote by (cases t) (auto, metis append_assoc)
  next
    case (Cons c s)
    show ?case
    proof (cases t)
      case Nil
      then show ?thesis using Cons.prems escape_not_quote[of c] by simp
    next
      case (Cons d t')
      then show ?thesis using Cons.prems Cons.IH[of t'] escape_prefix[of c _ d] by fastforce
    qed
  qed
  then show "quoted s @ u = quoted t @ v \<Longrightarrow> ?thesis" by (simp add: quoted_def)
qed

text \<open>Canonical values: entries sorted by key, integers without a width.\<close>

fun canon :: "json \<Rightarrow> json" where
  "canon (JUint32 n) = JInt (int (unat n))"
| "canon (JUint64 n) = JInt (int (unat n))"
| "canon (JArray xs) = JArray (map canon xs)"
| "canon (JObject kvs) = JObject (sort_key fst (map (\<lambda>(k, v). (k, canon v)) kvs))"
| "canon j = j"

fun canonical :: "json \<Rightarrow> bool" where
  "canonical (JUint32 n) = False"
| "canonical (JUint64 n) = False"
| "canonical (JOther t) = False"
| "canonical (JArray xs) = list_all canonical xs"
| "canonical (JObject kvs) = list_all (\<lambda>(k, v). canonical v) kvs"
| "canonical j = True"

text \<open>The text of a value whose entries are written in the given order.\<close>

fun json_text :: "json \<Rightarrow> string" where
  "json_text JNull = ''null''"
| "json_text (JString s) = quoted s"
| "json_text (JBool b) = (if b then ''true'' else ''false'')"
| "json_text (JUint32 n) = dec_digits (unat n)"
| "json_text (JUint64 n) = dec_digits (unat n)"
| "json_text (JInt i) = Itoa i"
| "json_text (JArray xs) = ''['' @ Join (map json_text xs) '','' @ '']''"
| "json_text (JObject kvs) = ''{'' @ Join (map (\<lambda>(k, v). quoted k @ '':'' @ json_text v) kvs) '','' @ ''}''"
| "json_text (JOther t) = []"

lemma sort_key_map_snd: "sort_key fst (map (\<lambda>(k, v). (k, f v)) kvs) = map (\<lambda>(k, v). (k, f v)) (sort_key fst kvs)"
proof -
  have "insort_key fst (k, f v) (map (\<lambda>(k, v). (k, f v)) xs) = map (\<lambda>(k, v). (k, f v)) (insort_key fst (k, v) xs)"
    for k v xs by (induction xs) auto
  note step = this
  show ?thesis by (induction kvs) (auto simp: step)
qed

lemma join_items_text:
  assumes "join_items (map g xs) = Inr t" and "\<And>x u. x \<in> set xs \<Longrightarrow> g x = Inr u \<Longrightarrow> u = h x"
  shows "t = Join (map h xs) '',''"
  using assms
proof (induction xs arbitrary: t)
  case (Cons x xs)
  then show ?case by (cases xs) (auto split: sum.splits)
qed simp

lemma appendCanonical_text: "appendCanonical j = Inr s \<Longrightarrow> s = json_text (canon j) \<and> canonical (canon j)"
proof (induction j arbitrary: s)
  case (JString x)
  then show ?case by (simp add: appendJSONString_def split: if_splits)
next
  case (JUint32 x)
  then show ?case by (simp add: Itoa_def)
next
  case (JUint64 x)
  then show ?case by (simp add: Itoa_def)
next
  case (JArray xs)
  then obtain t where t: "join_items (map appendCanonical xs) = Inr t" "s = ''['' @ t @ '']''"
    by (auto simp: bracket_def split: sum.splits)
  have ok: "\<exists>u. appendCanonical x = Inr u" if "x \<in> set xs" for x
    using t(1) that by (induction xs arbitrary: t) (auto split: sum.splits)
  have "t = Join (map (json_text \<circ> canon) xs) '',''"
    using t(1) JArray.IH by (intro join_items_text) auto
  moreover have "list_all canonical (map canon xs)"
    using ok JArray.IH by (fastforce simp: list_all_iff)
  ultimately show ?case using t(2) by simp
next
  case (JObject kvs)
  let ?xs = "sort_key fst kvs"
  obtain t where t: "join_items (map (\<lambda>(k, v). member_text k (appendCanonical v)) ?xs) = Inr t"
      "s = ''{'' @ t @ ''}''"
    using JObject.prems
    by (auto simp: bracket_def sort_key_map_snd comp_def case_prod_unfold
        sort_key_map_snd[unfolded case_prod_unfold] split: sum.splits)
  have IH: "u = json_text (canon v) \<and> canonical (canon v)"
    if "(k, v) \<in> set kvs" "appendCanonical v = Inr u" for k v u
    using JObject.IH[of "(k, v)" v u] that by auto
  have ok: "\<exists>u. appendCanonical v = Inr u" if "(k, v) \<in> set ys"
    "join_items (map (\<lambda>(k, v). member_text k (appendCanonical v)) ys) = Inr r" for k v ys r
    using that by (induction ys arbitrary: r) (auto simp: member_text_def split: sum.splits)
  have "t = Join (map (\<lambda>(k, v). quoted k @ '':'' @ json_text (canon v)) ?xs) '',''"
    using t(1) IH
    by (intro join_items_text) (auto simp: member_text_def appendJSONString_def split: sum.splits if_splits)
  moreover have "list_all (\<lambda>(k, v). canonical (canon v)) ?xs"
    using ok[OF _ t(1)] IH by (fastforce simp: list_all_iff)
  ultimately show ?case using t(2)
    by (simp add: sort_key_map_snd comp_def case_prod_unfold
        sort_key_map_snd[unfolded case_prod_unfold] list_all_iff)
qed (auto simp: Itoa_def)


definition token_kind :: "char \<Rightarrow> nat" where
  "token_kind c = (if c = CHR ''n'' then 0 else if c = CHR 0x22 then 1
     else if c = CHR ''t'' \<or> c = CHR ''f'' then 2 else if number_char c then 3
     else if c = CHR ''['' then 4 else if c = CHR ''{'' then 5 else 6)"

fun json_kind :: "json \<Rightarrow> nat" where
  "json_kind JNull = 0"
| "json_kind (JString s) = 1"
| "json_kind (JBool b) = 2"
| "json_kind (JArray xs) = 4"
| "json_kind (JObject kvs) = 5"
| "json_kind j = 3"

lemma json_text_head: "canonical j \<Longrightarrow> json_text j \<noteq> [] \<and> token_kind (hd (json_text j)) = json_kind j"
proof (cases j)
  case (JInt i)
  have "number_char (hd (Itoa i))" "Itoa i \<noteq> []"
    using Itoa_chars[of i] by (cases "Itoa i"; simp)+
  moreover have "c \<noteq> CHR ''n'' \<and> c \<noteq> CHR 0x22 \<and> c \<noteq> CHR ''t'' \<and> c \<noteq> CHR ''f''" if "number_char c" for c
    using that by (auto simp: number_char_def is_digit_def)
  ultimately show ?thesis using JInt by (simp add: token_kind_def)
qed (auto simp: token_kind_def quoted_def number_char_def is_digit_def)

text \<open>Sequences closed by a bracket, for an item encoding that can be read off a delimited prefix.\<close>

fun rest_items :: "('a \<Rightarrow> string) \<Rightarrow> char \<Rightarrow> 'a list \<Rightarrow> string" where
  "rest_items f c [] = [c]"
| "rest_items f c (x # xs) = CHR '','' # f x @ rest_items f c xs"

lemma Join_rest: "Join (map f (x # xs)) '','' @ [c] = f x @ rest_items f c xs"
  by (induction xs arbitrary: x) auto

lemma rest_items_prefix:
  assumes "\<And>x y u v. x \<in> set xs \<Longrightarrow> P y \<Longrightarrow> f x @ u = f y @ v \<Longrightarrow> delimited u \<Longrightarrow> delimited v \<Longrightarrow> x = y \<and> u = v"
    and "list_all P ys" and "c = CHR '']'' \<or> c = CHR ''}''"
    and "rest_items f c xs @ u = rest_items f c ys @ v"
  shows "xs = ys \<and> u = v"
  using assms(1,2,4)
proof (induction xs arbitrary: ys)
  case Nil
  then show ?case using assms(3) by (cases ys) auto
next
  case (Cons x xs)
  have del: "delimited (rest_items f c zs @ w)" for zs w
    using assms(3) by (cases zs) (auto simp: delimited_def)
  show ?case
  proof (cases ys)
    case Nil
    then show ?thesis using Cons.prems(3) assms(3) by auto
  next
    case (Cons y ys')
    then have "x = y \<and> rest_items f c xs @ u = rest_items f c ys' @ v"
      using Cons.prems(2,3) Cons.prems(1)[of x y "rest_items f c xs @ u" "rest_items f c ys' @ v"] del by simp
    then show ?thesis using Cons Cons.IH[of ys'] Cons.prems(1,2) by auto
  qed
qed

lemma Join_prefix:
  assumes item: "\<And>x y u v. x \<in> set xs \<Longrightarrow> P y \<Longrightarrow> f x @ u = f y @ v \<Longrightarrow> delimited u \<Longrightarrow> delimited v \<Longrightarrow> x = y \<and> u = v"
    and "list_all P ys" and c: "c = CHR '']'' \<or> c = CHR ''}''"
    and head: "\<And>x. x \<in> set xs \<union> set ys \<Longrightarrow> f x \<noteq> [] \<and> hd (f x) \<noteq> c"
    and eq: "Join (map f xs) '','' @ [c] @ u = Join (map f ys) '','' @ [c] @ v"
  shows "xs = ys \<and> u = v"
proof -
  have del: "delimited (rest_items f c zs @ w)" for zs w
    using c by (cases zs) (auto simp: delimited_def)
  have ne: "f z @ r \<noteq> c # w" if "z \<in> set xs \<union> set ys" for z r w
    using head[OF that] by (cases "f z") auto
  have form: "Join (map f (z # zs)) '','' @ [c] @ w = f z @ rest_items f c zs @ w" for z zs w
    using Join_rest[of f z zs c] by (metis append_assoc)
  show ?thesis
  proof (cases xs; cases ys)
    fix x xs' y ys' assume l: "xs = x # xs'" "ys = y # ys'"
    have "f x @ rest_items f c xs' @ u = f y @ rest_items f c ys' @ v"
      using eq unfolding l form .
    then have xy: "x = y \<and> rest_items f c xs' @ u = rest_items f c ys' @ v"
      using item[of x y] assms(2) l del by simp
    have "xs' = ys' \<and> u = v"
    proof (rule rest_items_prefix[where f = f and P = P and c = c])
      show "z = y' \<and> u' = v'" if "z \<in> set xs'" "P y'" "f z @ u' = f y' @ v'" "delimited u'" "delimited v'"
        for z y' u' v' using item[OF _ that(2-5)] that(1) l(1) by simp
    qed (use assms(2) c l xy in simp_all)
    then show ?thesis using xy l by simp
  next
    fix y ys' assume l: "xs = []" "ys = y # ys'"
    have "f y @ rest_items f c ys' @ v = c # u" using eq unfolding l form by simp
    then show ?thesis using ne[of y] l by simp
  next
    fix x xs' assume l: "xs = x # xs'" "ys = []"
    have "f x @ rest_items f c xs' @ u = c # v" using eq unfolding l form by simp
    then show ?thesis using ne[of x] l by simp
  qed (use eq in simp)
qed

lemma json_kind_eq:
  assumes "canonical a" "canonical b" "json_text a @ u = json_text b @ v"
  shows "json_kind a = json_kind b"
proof -
  have "hd (json_text a) = hd (json_text b)"
    using assms(3) json_text_head[OF assms(1)] json_text_head[OF assms(2)]
    by (cases "json_text a"; cases "json_text b") auto
  then show ?thesis using json_text_head[OF assms(1)] json_text_head[OF assms(2)] by simp
qed

lemma json_text_prefix:
  "canonical a \<Longrightarrow> canonical b \<Longrightarrow> json_text a @ u = json_text b @ v \<Longrightarrow> delimited u \<Longrightarrow> delimited v
     \<Longrightarrow> a = b \<and> u = v"
proof (induction a arbitrary: b u v)
  case (JArray xs)
  have "json_kind b = 4"
    using json_kind_eq[OF JArray.prems(1-3)] by simp
  then obtain ys where b: "b = JArray ys" by (cases b) auto
  have h: "json_text x \<noteq> [] \<and> hd (json_text x) \<noteq> CHR '']''" if "canonical x" for x
    using json_text_head[OF that] by (cases x) (auto simp: token_kind_def number_char_def is_digit_def)
  have "xs = ys \<and> u = v"
  proof (rule Join_prefix[where f = json_text and P = canonical and c = "CHR '']''"])
    show "Join (map json_text xs) '','' @ [CHR '']''] @ u = Join (map json_text ys) '','' @ [CHR '']''] @ v"
      using JArray.prems(3) b by simp
    show "x = y \<and> u' = v'" if "x \<in> set xs" "canonical y" "json_text x @ u' = json_text y @ v'"
      "delimited u'" "delimited v'" for x y u' v'
      using JArray.IH[OF that(1) _ that(2-5)] JArray.prems(1) that(1) by (simp add: list_all_iff)
    show "list_all canonical ys" using JArray.prems(2) b by simp
    show "json_text x \<noteq> [] \<and> hd (json_text x) \<noteq> CHR '']''" if "x \<in> set xs \<union> set ys" for x
      by (rule h) (use that JArray.prems(1,2) b in \<open>auto simp: list_all_iff\<close>)
  qed simp
  then show ?case using b by simp
next
  case (JObject kvs)
  have "json_kind b = 5"
    using json_kind_eq[OF JObject.prems(1-3)] by simp
  then obtain lws where b: "b = JObject lws" by (cases b) auto
  let ?f = "\<lambda>(k, v). quoted k @ '':'' @ json_text v"
  have "kvs = lws \<and> u = v"
  proof (rule Join_prefix[where f = ?f and P = "\<lambda>(k, v). canonical v" and c = "CHR ''}''"])
    show "Join (map ?f kvs) '','' @ [CHR ''}''] @ u = Join (map ?f lws) '','' @ [CHR ''}''] @ v"
      using JObject.prems(3) b by simp
    show "x = y \<and> u' = v'" if "x \<in> set kvs" "(\<lambda>(k, v). canonical v) y" "?f x @ u' = ?f y @ v'"
      "delimited u'" "delimited v'" for x y u' v'
    proof -
      obtain k w l z where xy: "x = (k, w)" "y = (l, z)" by (cases x; cases y) auto
      have "k = l \<and> json_text w @ u' = json_text z @ v'"
        using that(3) quoted_prefix[of k _ l] unfolding xy by fastforce
      moreover have "canonical w" "canonical z" using that JObject.prems(1) xy by (auto simp: list_all_iff)
      ultimately show ?thesis using JObject.IH[of x w z u' v'] that xy by auto
    qed
  qed (use JObject.prems b in \<open>auto simp: quoted_def\<close>)
  then show ?case using b by simp
next
  case (JString s)
  have "json_kind b = 1"
    using json_kind_eq[OF JString.prems(1-3)] by simp
  then obtain t where b: "b = JString t" by (cases b) auto
  show ?case using JString.prems(3) quoted_prefix[of s u t v] unfolding b by simp
next
  case (JInt i)
  have "json_kind b = 3"
    using json_kind_eq[OF JInt.prems(1-3)] by simp
  then obtain k where b: "b = JInt k" using JInt.prems(2) by (cases b) auto
  show ?case using JInt.prems(3-5) Itoa_prefix[of i u k v] unfolding b by simp
next
  case JNull
  have "json_kind b = 0"
    using json_kind_eq[OF JNull.prems(1-3)] by simp
  then show ?case using JNull.prems by (cases b) auto
next
  case (JBool t)
  have "json_kind b = 2"
    using json_kind_eq[OF JBool.prems(1-3)] by simp
  then show ?case using JBool.prems by (cases b) (auto split: if_splits)
qed auto

lemma appendCanonical_inj: "appendCanonical a = Inr s \<Longrightarrow> appendCanonical b = Inr s \<Longrightarrow> canon a = canon b"
  using appendCanonical_text[of a s] appendCanonical_text[of b s] json_text_prefix[of "canon a" "canon b" "[]" "[]"]
  by (simp add: delimited_def)

section \<open>Objects with a fixed schema\<close>

lemma assoc_eq:
  "distinct (map fst xs) \<Longrightarrow> set xs = set ys \<Longrightarrow> map fst xs = map fst ys \<Longrightarrow> xs = ys"
proof (rule nth_equalityI)
  assume d: "distinct (map fst xs)" and s: "set xs = set ys" and m: "map fst xs = map fst ys"
  show l: "length xs = length ys" using map_eq_imp_length_eq[OF m] .
  fix i assume i: "i < length xs"
  have f: "fst (xs ! i) = fst (ys ! i)" using m i l by (metis nth_map)
  have "(fst (xs ! i), snd (xs ! i)) \<in> set xs" using i by simp
  moreover have "(fst (xs ! i), snd (ys ! i)) \<in> set xs" using i l unfolding f s by simp
  ultimately have "snd (xs ! i) = snd (ys ! i)" by (rule eq_key_imp_eq_value[OF d])
  then show "xs ! i = ys ! i" using f by (simp add: prod_eq_iff)
qed

lemma canon_object_keys:
  assumes "canon (JObject kvs) = canon (JObject lws)"
  shows "mset (map fst kvs) = mset (map fst lws)"
proof -
  let ?c = "map (\<lambda>(k, v). (k, canon v))"
  have "sort_key fst (?c kvs) = sort_key fst (?c lws)" using assms by (simp only: canon.simps json.inject)
  from arg_cong[OF this, of mset] have "mset (?c kvs) = mset (?c lws)" by (simp only: mset_sort)
  from arg_cong[OF this, of "image_mset fst"]
  have "mset (map fst (?c kvs)) = mset (map fst (?c lws))" by (simp only: mset_map)
  moreover have "map fst (?c xs) = map fst xs" for xs :: "(string \<times> json) list" by (induction xs) auto
  ultimately show ?thesis by (simp only:)
qed

lemma canon_object_inj:
  assumes "canon (JObject kvs) = canon (JObject lws)" "map fst kvs = map fst lws" "distinct (map fst kvs)"
  shows "map (\<lambda>(k, v). (k, canon v)) kvs = map (\<lambda>(k, v). (k, canon v)) lws"
proof (rule assoc_eq)
  let ?c = "map (\<lambda>(k, v). (k, canon v))"
  have "sort_key fst (?c kvs) = sort_key fst (?c lws)" using assms(1) by (simp only: canon.simps json.inject)
  from arg_cong[OF this, of mset] have "mset (?c kvs) = mset (?c lws)" by (simp only: mset_sort)
  then show "set (?c kvs) = set (?c lws)" by (metis set_mset_mset)
qed (use assms(2,3) in \<open>simp_all add: comp_def case_prod_unfold\<close>)

lemma canon_object_perm:
  assumes "mset kvs = mset lws" "distinct (map fst kvs)"
  shows "sort_key fst kvs = sort_key fst lws"
  by (rule sort_key_unique) (use assms in \<open>auto simp: distinct_map\<close>)

lemma canon_optional_eq:
  "canon (optionalUint32 a) = canon (optionalUint32 b) \<longleftrightarrow> a = b"
  "canon (optionalBool p) = canon (optionalBool q) \<longleftrightarrow> p = q"
proof -
  have u: "unat (ucast n :: uint64) = unat n" for n :: uint32
  proof -
    have "unat n < 2 ^ 64" using unsigned_less[of n, where ?'a = nat] by simp
    then show ?thesis by (simp add: unsigned_ucast_eq take_bit_nat_eq_self)
  qed
  show "canon (optionalUint32 a) = canon (optionalUint32 b) \<longleftrightarrow> a = b"
    by (auto simp: optionalUint32_def u unsigned_word_eqI split: option.splits)
  show "canon (optionalBool p) = canon (optionalBool q) \<longleftrightarrow> p = q"
    by (auto simp: optionalBool_def split: option.splits)
qed

lemma device_value_inj: "inj (\<lambda>d. JString (DeviceID_String d))"
  by (auto simp: inj_def device_id.text_inj)

lemma canon_claim_eq:
  "canon (resourceClaimHashValue a) = canon (resourceClaimHashValue b) \<longleftrightarrow> a = b"
proof
  assume "canon (resourceClaimHashValue a) = canon (resourceClaimHashValue b)"
  from canon_object_inj[OF this[unfolded resourceClaimHashValue_def]]
  have "cl_CPU a = cl_CPU b"
    "map (\<lambda>d. JString (DeviceID_String d)) (cl_DeviceIDs a) = map (\<lambda>d. JString (DeviceID_String d)) (cl_DeviceIDs b)"
    by (simp_all add: comp_def)
  then show "a = b" by (simp add: inj_map_eq_map[OF device_value_inj])
qed simp

section \<open>Content hashes identify content\<close>

definition known_run_state :: "DesiredRunState \<Rightarrow> bool" where
  "known_run_state r \<longleftrightarrow> r = DesiredRunning \<or> r = DesiredStopped"

lemma run_state_text_inj:
  "known_run_state r \<Longrightarrow> known_run_state q \<Longrightarrow> DesiredRunState_text r = DesiredRunState_text q \<longleftrightarrow> r = q"
  by (auto simp: known_run_state_def)

lemma valid_run_state: "ValidateDesiredWorkload c = None \<Longrightarrow> known_run_state (dw_RunState c)"
  by (simp add: ValidateDesiredWorkload_def first_error_None known_run_state_def)

text \<open>Two texts that differ and have the same digest.\<close>

definition sha_collision :: "json \<Rightarrow> json \<Rightarrow> bool" where
  "sha_collision a b \<longleftrightarrow> (case (appendCanonical a, appendCanonical b) of
     (Inr s, Inr t) \<Rightarrow> s \<noteq> t \<and> Sum256 s = Sum256 t | _ \<Rightarrow> False)"

lemma ContentHash_eqD:
  assumes "ContentHash a = Inr h" "ContentHash b = Inr h" "\<not> sha_collision a b"
  shows "canon a = canon b"
  using assms appendCanonical_inj[of a _ b]
  by (auto simp: ContentHash_def sha_collision_def EncodeToString_inj split: sum.splits)

text \<open>
  C6: The text that is hashed does not depend on the iteration order of a Go map, and it determines
  the value up to that order and the width of integers.
\<close>

theorem canonical_text_injective:
  "(mset kvs = mset lws \<and> distinct (map fst kvs) \<longrightarrow>
      appendCanonical (JObject kvs) = appendCanonical (JObject lws))
   \<and> (appendCanonical a = Inr s \<and> appendCanonical b = Inr s \<longrightarrow> canon a = canon b)"
proof -
  let ?f = "map (\<lambda>(k, v). (k, appendCanonical v))"
  have "sort_key fst (?f kvs) = sort_key fst (?f lws)"
    if "mset kvs = mset lws" "distinct (map fst kvs)"
    by (simp only: sort_key_map_snd canon_object_perm[OF that])
  then show ?thesis using appendCanonical_inj by auto
qed

theorem canonical_text_injective_witness:
  "appendCanonical (JObject [(''b'', JBool True), (''a'', JUint64 7)])
     = appendCanonical (JObject [(''a'', JUint64 7), (''b'', JBool True)])
   \<and> canon (JUint32 7) = canon (JUint64 7)"
proof
  show "appendCanonical (JObject [(''b'', JBool True), (''a'', JUint64 7)])
     = appendCanonical (JObject [(''a'', JUint64 7), (''b'', JBool True)])"
    using canonical_text_injective[of "[(''b'', JBool True), (''a'', JUint64 7)]"
        "[(''a'', JUint64 7), (''b'', JBool True)]"] by (simp add: add_mset_commute)
  show "canon (JUint32 7) = canon (JUint64 7)"
    using canonical_text_injective[of "[]" "[]" "JUint32 7" "dec_digits 7" "JUint64 7"] by simp
qed

text \<open>Values whose strings are valid UTF-8 and that contain nothing unsupported are hashable.\<close>

fun hashable :: "json \<Rightarrow> bool" where
  "hashable (JString s) = ValidUTF8 s"
| "hashable (JArray xs) = list_all hashable xs"
| "hashable (JObject kvs) = list_all (\<lambda>(k, v). ValidUTF8 k \<and> hashable v) kvs"
| "hashable (JOther t) = False"
| "hashable j = True"

lemma join_items_ok: "\<forall>r\<in>set rs. \<exists>s. r = Inr s \<Longrightarrow> \<exists>s. join_items rs = Inr s"
  by (induction rs) (auto split: sum.splits)

lemma hashable_text: "hashable j \<Longrightarrow> \<exists>s. appendCanonical j = Inr s"
proof (induction j)
  case (JArray xs)
  then have "\<exists>s. join_items (map appendCanonical xs) = Inr s"
    by (intro join_items_ok) (auto simp: list_all_iff)
  then show ?case by (auto simp: bracket_def)
next
  case (JObject kvs)
  have "\<exists>s. member_text k (appendCanonical v) = Inr s" if "(k, v) \<in> set kvs" for k v
    using JObject that by (fastforce simp: list_all_iff member_text_def appendJSONString_def)
  then have "\<exists>s. join_items (map (\<lambda>(k, v). member_text k (appendCanonical v)) (sort_key fst kvs)) = Inr s"
    by (intro join_items_ok) auto
  then show ?case
    by (auto simp: bracket_def case_prod_unfold comp_def sort_key_map_snd[unfolded case_prod_unfold])
qed (auto simp: appendJSONString_def)

lemma valid_id_utf8: "validate v p = None \<Longrightarrow> is_ascii p \<Longrightarrow> ValidUTF8 v"
proof (rule ascii_valid)
  assume "validate v p = None" "is_ascii p"
  moreover have "byte c < 128" if "is_hex_lower c" for c
    using that by (auto simp: is_hex_lower_def is_digit_def)
  ultimately show "is_ascii v" by (auto simp: validate_None_iff is_ascii_def list_all_iff)
qed

text \<open>
  Validation is enough for hashing: a DesiredWorkload whose content validates always has a hash,
  of the form \<open>sha256:\<close> and 64 lower-case hexadecimal digits.
\<close>

theorem valid_workload_hashes:
  assumes "ValidateDesiredWorkload c = None"
  shows "\<exists>d. DesiredWorkloadHash c = Inr (''sha256:'' @ d) \<and> length d = 64 \<and> list_all is_hex_lower d"
proof -
  have v: "validateName (dw_Name c) = None" "HostID_Validate (dw_HostID c) = None"
    "ProfileID_Validate (dw_ProfileID c) = None" "ValidUTF8 (dw_Worker c)"
    "ValidateResourceClaim (dw_Resources c) = None"
    using assms by (simp_all add: ValidateDesiredWorkload_def first_error_None)
  have ids: "ValidUTF8 (HostID_String (dw_HostID c))" "ValidUTF8 (ProfileID_String (dw_ProfileID c))"
    by (rule valid_id_utf8, use v in \<open>simp add: host_id.check_text profile_id.check_text\<close>, simp add: is_ascii_def)+
  have "DeviceID_Validate d = None" if "d \<in> set (cl_DeviceIDs (dw_Resources c))" for d
    using v(5) that by (simp add: ValidateResourceClaim_def check_devices_None split: if_splits)
  then have dev: "ValidUTF8 (DeviceID_String d)" if "d \<in> set (cl_DeviceIDs (dw_Resources c))" for d
    by (rule_tac valid_id_utf8[where p = "''device''"]) (use that in \<open>simp_all add: device_id.check_text is_ascii_def\<close>)
  have nm: "ValidUTF8 (dw_Name c)" using v(1) by (simp add: validateName_def split: if_splits)
  have run: "ValidUTF8 (DesiredRunState_text (dw_RunState c))"
    using valid_run_state[OF assms] by (auto simp: known_run_state_def intro!: ascii_valid)
      (simp_all add: is_ascii_def)
  have "hashable (DesiredWorkload_value c)"
    using ids nm run v(4) dev
    by (simp add: DesiredWorkload_value_def resourceClaimHashValue_def NormalizeResourceClaim_def list_all_iff)
  then obtain s where "appendCanonical (DesiredWorkload_value c) = Inr s" using hashable_text by blast
  then show ?thesis by (simp add: DesiredWorkloadHash_def ContentHash_def EncodeToString_hex)
qed

text \<open>
  C7: The hash of a DesiredWorkload identifies its content: valid contents with the same hash agree
  in every field and in their resource claim up to the order of devices, unless SHA-256 collides on
  their two texts. Contents that agree so have the same hash.
\<close>

theorem desired_workload_hash_identifies:
  assumes "ValidateDesiredWorkload a = None" and "ValidateDesiredWorkload b = None"
    and "\<not> sha_collision (DesiredWorkload_value a) (DesiredWorkload_value b)"
    and "DesiredWorkloadHash a = Inr h"
  shows "DesiredWorkloadHash b = Inr h \<longleftrightarrow>
     dw_HostID a = dw_HostID b \<and> dw_Name a = dw_Name b \<and> dw_ProfileID a = dw_ProfileID b
     \<and> dw_RunState a = dw_RunState b \<and> dw_Worker a = dw_Worker b
     \<and> NormalizeResourceClaim (dw_Resources a) = NormalizeResourceClaim (dw_Resources b)" (is "_ \<longleftrightarrow> ?same")
proof
  assume "DesiredWorkloadHash b = Inr h"
  then have c: "canon (DesiredWorkload_value a) = canon (DesiredWorkload_value b)"
    using assms(3,4) ContentHash_eqD by (simp add: DesiredWorkloadHash_def)
  from canon_object_inj[OF this[unfolded DesiredWorkload_value_def]] show ?same
    by (simp add: host_id.text_inj profile_id.text_inj canon_claim_eq
        run_state_text_inj[OF valid_run_state[OF assms(1)] valid_run_state[OF assms(2)]]
        del: canon.simps(4))
next
  assume ?same
  then have "DesiredWorkload_value a = DesiredWorkload_value b" by (simp add: DesiredWorkload_value_def)
  then show "DesiredWorkloadHash b = Inr h" using assms(4) by (simp add: DesiredWorkloadHash_def)
qed

definition gpu_value_of :: "GPUAssignment \<Rightarrow> json" where
  "gpu_value_of a = JObject
     [(''device_id'', JString (DeviceID_String (ga_DeviceID a))),
      (''hardware_identity'', JString (ga_HardwareIdentity a)),
      (''runtime_selector'', JString (ga_RuntimeSelector a))]"

lemma gpu_value_inj: "canon (gpu_value_of a) = canon (gpu_value_of b) \<Longrightarrow> a = b"
  unfolding gpu_value_of_def by (drule canon_object_inj) (auto simp: device_id.text_inj)

lemma canon_gpu_eq:
  "canon (gpuAssignmentHashValue xs) = canon (gpuAssignmentHashValue ys)
     \<longleftrightarrow> sort_key ga_DeviceID xs = sort_key ga_DeviceID ys"
proof -
  have "inj (\<lambda>a. canon (gpu_value_of a))" by (auto simp: inj_def dest: gpu_value_inj)
  moreover have "canon (gpuAssignmentHashValue zs) = JArray (map (\<lambda>a. canon (gpu_value_of a)) (sort_key ga_DeviceID zs))"
    for zs by (simp add: gpuAssignmentHashValue_def gpu_value_of_def comp_def del: canon.simps(4))
  ultimately show ?thesis by (simp add: inj_map_eq_map)
qed

lemma canon_package_eq: "canon (package_value p) = canon (package_value q) \<longleftrightarrow> p = q"
proof
  assume "canon (package_value p) = canon (package_value q)"
  from canon_object_inj[OF this[unfolded package_value_def]] show "p = q"
    by (simp add: package_id.text_inj)
qed simp

lemma canon_endpoint_eq:
  "canon (JObject [(''address'', JString (ep_Address (a :: MiningEndpoint))), (''tls'', JBool (ep_TLS a)), (''user'', JString (ep_User a)),
     (''password'', JString (ep_Password a)), (''worker'', JString (ep_Worker a))])
   = canon (JObject [(''address'', JString (ep_Address (b :: MiningEndpoint))), (''tls'', JBool (ep_TLS b)), (''user'', JString (ep_User b)),
     (''password'', JString (ep_Password b)), (''worker'', JString (ep_Worker b))]) \<longleftrightarrow> a = b"
proof
  assume "canon (JObject [(''address'', JString (ep_Address a)), (''tls'', JBool (ep_TLS a)), (''user'', JString (ep_User a)),
     (''password'', JString (ep_Password a)), (''worker'', JString (ep_Worker a))])
   = canon (JObject [(''address'', JString (ep_Address b)), (''tls'', JBool (ep_TLS b)), (''user'', JString (ep_User b)),
     (''password'', JString (ep_Password b)), (''worker'', JString (ep_Worker b))])"
  from canon_object_inj[OF this] show "a = b" by (cases a; cases b) simp
qed simp

text \<open>
  The hash of a resolved runtime identifies what is executed: hosts, profiles, resources, GPU
  bindings, adapter, package, mode, coin, algorithm, endpoint and tuning all agree when the hash
  does (known run states, mode MINING), unless SHA-256 collides on the two texts.
\<close>

theorem resolved_hash_identifies_runtime:
  assumes "known_run_state (rr_RunState a)" and "known_run_state (rr_RunState b)"
    and "rr_Mode a = ProfileModeMining" and "rr_Mode b = ProfileModeMining"
    and "\<not> sha_collision (ResolvedRuntime_value a) (ResolvedRuntime_value b)"
    and "ResolvedRuntimeHash a = Inr h" and "ResolvedRuntimeHash b = Inr h"
  shows "rr_RunState a = rr_RunState b \<and> rr_HostID a = rr_HostID b \<and> rr_ProfileID a = rr_ProfileID b
     \<and> NormalizeResourceClaim (rr_Resources a) = NormalizeResourceClaim (rr_Resources b)
     \<and> sort_key ga_DeviceID (rr_GPUAssignments a) = sort_key ga_DeviceID (rr_GPUAssignments b)
     \<and> rr_AdapterID a = rr_AdapterID b \<and> rr_Package a = rr_Package b \<and> rr_Coin a = rr_Coin b
     \<and> rr_Algorithm a = rr_Algorithm b \<and> rr_Endpoint a = rr_Endpoint b
     \<and> rr_CPUThreads a = rr_CPUThreads b \<and> rr_HugePages a = rr_HugePages b \<and> rr_MSR a = rr_MSR b"
proof -
  have c: "canon (ResolvedRuntime_value a) = canon (ResolvedRuntime_value b)"
    using assms(5-7) ContentHash_eqD by (simp add: ResolvedRuntimeHash_def)
  have gs: "(rr_GPUAssignments a = []) = (rr_GPUAssignments b = [])"
    using arg_cong[OF canon_object_keys[OF c[unfolded ResolvedRuntime_value_def]], of size]
    by (simp split: if_splits)
  note facts = host_id.text_inj profile_id.text_inj canon_claim_eq canon_gpu_eq canon_package_eq
    canon_endpoint_eq canon_optional_eq run_state_text_inj[OF assms(1,2)]
  show ?thesis
  proof (cases "rr_GPUAssignments a = []")
    case True
    from canon_object_inj[OF c[unfolded ResolvedRuntime_value_def]] show ?thesis
      using True gs by (simp add: facts del: canon.simps(4))
  next
    case False
    from canon_object_inj[OF c[unfolded ResolvedRuntime_value_def]] show ?thesis
      using False gs by (simp add: facts del: canon.simps(4))
  qed
qed

section \<open>A concrete workload and runtime\<close>

definition demo_id :: "string \<Rightarrow> string" where
  "demo_id kind = kind @ ''_'' @ replicate 32 (CHR ''a'')"

lemma demo_id_valid: "validate (demo_id kind) kind = None"
  by (auto simp: demo_id_def validate_None_iff list_all_iff is_hex_lower_def)

definition demo_content :: DesiredWorkloadContent where
  "demo_content = \<lparr>dw_Name = ''rig'', dw_HostID = HostID (demo_id ''host''),
     dw_ProfileID = ProfileID (demo_id ''profile''), dw_RunState = DesiredRunning, dw_Worker = [],
     dw_Resources = \<lparr>cl_CPU = True, cl_DeviceIDs = []\<rparr>\<rparr>"

lemma demo_content_valid: "ValidateDesiredWorkload demo_content = None"
  by (simp add: ValidateDesiredWorkload_def demo_content_def demo_id_valid host_id.check_text
      profile_id.check_text validateName_def TrimSpace_def rune_value_def IsSpace_def ContainsNul_def
      ContainsAny_def ValidateResourceClaim_def first_error_None)

definition demo_runtime :: ResolvedRuntimeContent where
  "demo_runtime = \<lparr>rr_RunState = DesiredRunning, rr_HostID = HostID (demo_id ''host''),
     rr_ProfileID = ProfileID (demo_id ''profile''), rr_Resources = \<lparr>cl_CPU = True, cl_DeviceIDs = []\<rparr>,
     rr_GPUAssignments = [], rr_AdapterID = ''xmrig'',
     rr_Package = \<lparr>pr_PackageID = PackageID (demo_id ''package''), pr_Version = ''6''\<rparr>,
     rr_Mode = ProfileModeMining, rr_Coin = ''xmr'', rr_Algorithm = [],
     rr_Endpoint = \<lparr>ep_Address = ''p:1'', ep_TLS = True, ep_User = ''u'', ep_Password = [], ep_Worker = []\<rparr>,
     rr_CPUThreads = Some 4, rr_HugePages = None, rr_MSR = None\<rparr>"

lemma not_collision_self [simp]: "\<not> sha_collision a a"
  by (simp add: sha_collision_def split: sum.split)

lemma demo_runtime_hash: "\<exists>h. ResolvedRuntimeHash demo_runtime = Inr h"
proof -
  have asc: "is_ascii (demo_id k)" if "is_ascii k" for k
    using that by (simp add: demo_id_def is_ascii_def list_all_iff)
  have "hashable (ResolvedRuntime_value demo_runtime)"
    by (simp add: ResolvedRuntime_value_def demo_runtime_def resourceClaimHashValue_def
        NormalizeResourceClaim_def package_value_def optionalUint32_def optionalBool_def
        asc[THEN ascii_valid] is_ascii_def)
  then obtain s where "appendCanonical (ResolvedRuntime_value demo_runtime) = Inr s"
    using hashable_text by blast
  then show ?thesis by (simp add: ResolvedRuntimeHash_def ContentHash_def)
qed

theorem valid_workload_hashes_witness:
  "\<exists>d. DesiredWorkloadHash demo_content = Inr (''sha256:'' @ d) \<and> length d = 64 \<and> list_all is_hex_lower d"
  by (rule valid_workload_hashes[OF demo_content_valid])

lemma demo_content_hash: "\<exists>h. DesiredWorkloadHash demo_content = Inr h"
proof -
  have "is_ascii (demo_id ''host'')" "is_ascii (demo_id ''profile'')"
    by (simp_all add: demo_id_def is_ascii_def list_all_iff)
  then have "hashable (DesiredWorkload_value demo_content)"
    by (simp add: DesiredWorkload_value_def demo_content_def resourceClaimHashValue_def
        NormalizeResourceClaim_def ascii_valid)
  then obtain s where "appendCanonical (DesiredWorkload_value demo_content) = Inr s"
    using hashable_text by blast
  then show ?thesis by (simp add: DesiredWorkloadHash_def ContentHash_def)
qed

theorem desired_workload_hash_identifies_witness:
  "\<exists>h. DesiredWorkloadHash demo_content = Inr h \<and> (DesiredWorkloadHash demo_content = Inr h \<longleftrightarrow>
     dw_HostID demo_content = dw_HostID demo_content)"
proof -
  obtain h where "DesiredWorkloadHash demo_content = Inr h" using demo_content_hash by blast
  then show ?thesis
    using desired_workload_hash_identifies[OF demo_content_valid demo_content_valid not_collision_self] by blast
qed

theorem resolved_hash_identifies_runtime_witness:
  "\<exists>h. ResolvedRuntimeHash demo_runtime = Inr h \<and> rr_Endpoint demo_runtime = rr_Endpoint demo_runtime"
proof -
  obtain h where h: "ResolvedRuntimeHash demo_runtime = Inr h" using demo_runtime_hash by blast
  have r: "known_run_state (rr_RunState demo_runtime)" "rr_Mode demo_runtime = ProfileModeMining"
    by (simp_all add: demo_runtime_def known_run_state_def)
  show ?thesis
    using resolved_hash_identifies_runtime[OF r(1) r(1) r(2) r(2) not_collision_self h h] h by blast
qed

end
