(* ===== verification/Gpu_Resource.thy ===== *)
theory Gpu_Resource
  imports Farm_Validate
begin

text \<open>
  \<open>internal/gpuresource/gpu.go\<close>: the binding of claimed GPU devices to the hardware identity and
  runtime selector of the current inventory, and the validation of stored bindings. The parameter
  \<open>uni\<close> is the case mapping of text outside ASCII (see Go\_Strings).
\<close>

section \<open>Texts of the hardware\<close>

definition incompatible :: "string \<Rightarrow> (string \<rightharpoonup> string) \<Rightarrow> error" where
  "incompatible message details = Typed (mk_error INCOMPATIBLE_HARDWARE message details)"

definition NormalizeHardwareText :: "unicode_case \<Rightarrow> string \<Rightarrow> string" where
  "NormalizeHardwareText uni value = ToLower uni (Join (Fields value) '' '')"

definition validHardwareIdentity :: "string \<Rightarrow> bool" where
  "validHardwareIdentity value \<longleftrightarrow>
     value \<notin> {[], ''unknown'', ''none'', ''n/a'', ''not available''} \<and> Trim value ''0-:._ '' \<noteq> []"

text \<open>The regular expression for PCI selectors: an optional domain, then bus, device and function.\<close>

fun match_bdf :: "string \<Rightarrow> bool" where
  "match_bdf [a, b, c, d, e, f, g] \<longleftrightarrow> is_hex_lower a \<and> is_hex_lower b \<and> c = CHR '':''
     \<and> is_hex_lower d \<and> is_hex_lower e \<and> f = CHR ''.'' \<and> 48 \<le> byte g \<and> byte g \<le> 55"
| "match_bdf _ \<longleftrightarrow> False"

definition pciSelectorPattern :: "string \<Rightarrow> bool" where
  "pciSelectorPattern s \<longleftrightarrow> match_bdf s \<or>
     (length s = 12 \<and> list_all is_hex_lower (take 4 s) \<and> s ! 4 = CHR '':'' \<and> match_bdf (drop 5 s))"

definition containsNormalized :: "unicode_case \<Rightarrow> string list \<Rightarrow> string \<Rightarrow> bool" where
  "containsNormalized uni values wanted = list_ex (\<lambda>v. NormalizeHardwareText uni v = wanted) values"

definition identity_of :: "unicode_case \<Rightarrow> GPU \<Rightarrow> string" where
  "identity_of uni gpu = NormalizeHardwareText uni (gpu_UUID gpu)"

definition selector_of :: "unicode_case \<Rightarrow> GPU \<Rightarrow> string" where
  "selector_of uni gpu = ToLower uni (TrimSpace (gpu_PCIBusID gpu))"

section \<open>Resolution\<close>

record GpuIndex =
  gi_byID :: "DeviceID \<rightharpoonup> GPU"
  gi_identities :: "string \<rightharpoonup> DeviceID"
  gi_selectors :: "string \<rightharpoonup> DeviceID"

definition no_gpus :: GpuIndex where
  "no_gpus = \<lparr>gi_byID = Map.empty, gi_identities = Map.empty, gi_selectors = Map.empty\<rparr>"

text \<open>A text that is already in the map for another device.\<close>

definition taken :: "(string \<rightharpoonup> DeviceID) \<Rightarrow> string \<Rightarrow> DeviceID \<Rightarrow> bool" where
  "taken m k d \<longleftrightarrow> (case m k of None \<Rightarrow> False | Some other \<Rightarrow> other \<noteq> d)"

definition remember :: "(string \<rightharpoonup> DeviceID) \<Rightarrow> string \<Rightarrow> DeviceID \<Rightarrow> (string \<rightharpoonup> DeviceID)" where
  "remember m k d = (if k = [] then m else m(k \<mapsto> d))"

fun index_gpus :: "unicode_case \<Rightarrow> GPU list \<Rightarrow> GpuIndex \<Rightarrow> GpuIndex result" where
  "index_gpus uni [] ix = Inr ix"
| "index_gpus uni (gpu # gpus) ix =
     (let d = gpu_DeviceID gpu; ident = identity_of uni gpu; sel = selector_of uni gpu
      in if DeviceID_Validate d \<noteq> None
         then Inl (incompatible ''fresh inventory contains an invalid GPU DeviceID'' Map.empty)
         else if gi_byID ix d \<noteq> None
         then Inl (incompatible ''fresh inventory contains a duplicate GPU DeviceID'' [''device_id'' \<mapsto> DeviceID_String d])
         else if ident \<noteq> [] \<and> taken (gi_identities ix) ident d
         then Inl (incompatible ''fresh inventory contains an ambiguous GPU hardware identity'' Map.empty)
         else if sel \<noteq> [] \<and> taken (gi_selectors ix) sel d
         then Inl (incompatible ''fresh inventory contains an ambiguous GPU runtime selector'' Map.empty)
         else index_gpus uni gpus
           \<lparr>gi_byID = (gi_byID ix)(d \<mapsto> gpu), gi_identities = remember (gi_identities ix) ident d,
            gi_selectors = remember (gi_selectors ix) sel d\<rparr>)"

definition bind_gpu :: "unicode_case \<Rightarrow> string list \<Rightarrow> DeviceID \<Rightarrow> GPU \<Rightarrow> GPUAssignment result" where
  "bind_gpu uni allowedVendors d gpu =
     (let hw = identity_of uni gpu; sel = selector_of uni gpu;
          vendor = NormalizeHardwareText uni (gpu_Vendor gpu)
      in if \<not> validHardwareIdentity hw
         then Inl (incompatible ''requested GPU has no stable hardware identity'' [''device_id'' \<mapsto> DeviceID_String d])
         else if \<not> pciSelectorPattern sel
         then Inl (incompatible ''requested GPU has no valid runtime selector'' [''device_id'' \<mapsto> DeviceID_String d])
         else if allowedVendors \<noteq> [] \<and> \<not> containsNormalized uni allowedVendors vendor
         then Inl (incompatible ''requested GPU vendor is incompatible with package/adapter''
                [''device_id'' \<mapsto> DeviceID_String d, ''vendor'' \<mapsto> vendor])
         else Inr \<lparr>ga_DeviceID = d, ga_HardwareIdentity = hw, ga_RuntimeSelector = sel\<rparr>)"

fun bind_requested ::
  "unicode_case \<Rightarrow> string list \<Rightarrow> GpuIndex \<Rightarrow> DeviceID set \<Rightarrow> DeviceID list \<Rightarrow> GPUAssignment list result" where
  "bind_requested uni vendors ix seen [] = Inr []"
| "bind_requested uni vendors ix seen (d # ds) =
     (if DeviceID_Validate d \<noteq> None then Inl (incompatible ''requested GPU DeviceID is invalid'' Map.empty)
      else if d \<in> seen
      then Inl (incompatible ''requested GPU DeviceID is duplicated'' [''device_id'' \<mapsto> DeviceID_String d])
      else case gi_byID ix d of
        None \<Rightarrow> Inl (incompatible ''requested DeviceID is absent from fresh inventory''
                  [''device_id'' \<mapsto> DeviceID_String d])
      | Some gpu \<Rightarrow>
          (case bind_gpu uni vendors d gpu of
             Inl e \<Rightarrow> Inl e
           | Inr a \<Rightarrow>
               (case bind_requested uni vendors ix (insert d seen) ds of
                  Inl e \<Rightarrow> Inl e | Inr rest \<Rightarrow> Inr (a # rest))))"

definition Resolve_gpus ::
  "unicode_case \<Rightarrow> DeviceID list \<Rightarrow> Inventory \<Rightarrow> string list \<Rightarrow> GPUAssignment list result" where
  "Resolve_gpus uni requested inventory allowedVendors =
     (case index_gpus uni (inv_GPUs inventory) no_gpus of
        Inl e \<Rightarrow> Inl e
      | Inr ix \<Rightarrow>
          (case bind_requested uni allowedVendors ix {} requested of
             Inl e \<Rightarrow> Inl e | Inr result \<Rightarrow> Inr (sort_key ga_DeviceID result)))"

section \<open>Validation of bindings\<close>

definition binding_ok :: "unicode_case \<Rightarrow> GPUAssignment \<Rightarrow> DeviceID \<Rightarrow> bool" where
  "binding_ok uni a d \<longleftrightarrow> ga_DeviceID a = d \<and> validHardwareIdentity (ga_HardwareIdentity a)
     \<and> NormalizeHardwareText uni (ga_HardwareIdentity a) = ga_HardwareIdentity a
     \<and> pciSelectorPattern (ga_RuntimeSelector a)
     \<and> ToLower uni (TrimSpace (ga_RuntimeSelector a)) = ga_RuntimeSelector a"

fun check_bindings :: "unicode_case \<Rightarrow> GPUAssignment list \<Rightarrow> DeviceID list \<Rightarrow> error option" where
  "check_bindings uni (a # as) (d # ds) =
     (if binding_ok uni a d then check_bindings uni as ds
      else Some (incompatible ''GPU assignment is malformed or not canonical''
             [''device_id'' \<mapsto> DeviceID_String (ga_DeviceID a)]))"
| "check_bindings uni _ _ = None"

definition ValidateBindings :: "unicode_case \<Rightarrow> DeviceID list \<Rightarrow> GPUAssignment list \<Rightarrow> error option" where
  "ValidateBindings uni requested assignments =
     (if length requested \<noteq> length assignments
      then Some (incompatible ''GPU assignment count does not match ResourceClaim'' Map.empty)
      else check_bindings uni assignments (sort requested))"

definition ValidateCurrent ::
  "unicode_case \<Rightarrow> DeviceID list \<Rightarrow> GPUAssignment list \<Rightarrow> Inventory \<Rightarrow> string list \<Rightarrow> error option" where
  "ValidateCurrent uni requested assignments inventory allowedVendors =
     (case ValidateBindings uni requested assignments of
        Some e \<Rightarrow> Some e
      | None \<Rightarrow>
          (case Resolve_gpus uni requested inventory allowedVendors of
             Inl e \<Rightarrow> Some e
           | Inr current \<Rightarrow>
               if current = assignments then None
               else Some (incompatible ''resolved GPU binding does not match fresh inventory'' Map.empty)))"

fun stable_mismatch :: "GPUAssignment list \<Rightarrow> GPUAssignment list \<Rightarrow> error option" where
  "stable_mismatch (c # cs) (a # as) =
     (if ga_DeviceID c \<noteq> ga_DeviceID a \<or> ga_HardwareIdentity c \<noteq> ga_HardwareIdentity a
      then Some (incompatible ''GPU DeviceID resolves to a different physical hardware identity''
             [''device_id'' \<mapsto> DeviceID_String (ga_DeviceID a)])
      else stable_mismatch cs as)"
| "stable_mismatch _ _ = None"

definition ValidateStableIdentities ::
  "unicode_case \<Rightarrow> DeviceID list \<Rightarrow> GPUAssignment list \<Rightarrow> Inventory \<Rightarrow> string list \<Rightarrow> error option" where
  "ValidateStableIdentities uni requested assignments inventory allowedVendors =
     (case ValidateBindings uni requested assignments of
        Some e \<Rightarrow> Some e
      | None \<Rightarrow>
          (case Resolve_gpus uni requested inventory allowedVendors of
             Inl e \<Rightarrow> Some e
           | Inr current \<Rightarrow> stable_mismatch current assignments))"

section \<open>The index\<close>

definition index_inv :: "unicode_case \<Rightarrow> GPU list \<Rightarrow> GpuIndex \<Rightarrow> bool" where
  "index_inv uni gpus ix \<longleftrightarrow> distinct (map gpu_DeviceID gpus)
     \<and> gi_byID ix = map_of (map (\<lambda>g. (gpu_DeviceID g, g)) gpus)
     \<and> (\<forall>g\<in>set gpus. identity_of uni g \<noteq> [] \<longrightarrow> gi_identities ix (identity_of uni g) = Some (gpu_DeviceID g))
     \<and> (\<forall>g\<in>set gpus. selector_of uni g \<noteq> [] \<longrightarrow> gi_selectors ix (selector_of uni g) = Some (gpu_DeviceID g))"

lemma index_step:
  assumes "index_inv uni gs ix" "gi_byID ix (gpu_DeviceID g) = None"
    "identity_of uni g = [] \<or> \<not> taken (gi_identities ix) (identity_of uni g) (gpu_DeviceID g)"
    "selector_of uni g = [] \<or> \<not> taken (gi_selectors ix) (selector_of uni g) (gpu_DeviceID g)"
  shows "index_inv uni (g # gs) \<lparr>gi_byID = (gi_byID ix)(gpu_DeviceID g \<mapsto> g),
     gi_identities = remember (gi_identities ix) (identity_of uni g) (gpu_DeviceID g),
     gi_selectors = remember (gi_selectors ix) (selector_of uni g) (gpu_DeviceID g)\<rparr>"
proof -
  have new: "gpu_DeviceID g \<notin> gpu_DeviceID ` set gs"
    using assms(1,2) by (simp add: index_inv_def map_of_eq_None_iff image_image)
  have keep: "remember m k (gpu_DeviceID g) (f h) = Some (gpu_DeviceID h)"
    if "h \<in> set gs" "m (f h) = Some (gpu_DeviceID h)" "k = [] \<or> \<not> taken m k (gpu_DeviceID g)"
    for m k h and f :: "GPU \<Rightarrow> string"
  proof -
    have "gpu_DeviceID h \<noteq> gpu_DeviceID g" using imageI[OF that(1), of gpu_DeviceID] new by auto
    then show ?thesis using that(2,3) by (auto simp: remember_def taken_def)
  qed
  have head: "k \<noteq> [] \<Longrightarrow> remember m k d k = Some d" for m k d by (simp add: remember_def)
  show ?thesis unfolding index_inv_def
  proof (intro conjI)
    show "distinct (map gpu_DeviceID (g # gs))" using assms(1) new by (simp add: index_inv_def)
    show "gi_byID \<lparr>gi_byID = (gi_byID ix)(gpu_DeviceID g \<mapsto> g),
        gi_identities = remember (gi_identities ix) (identity_of uni g) (gpu_DeviceID g),
        gi_selectors = remember (gi_selectors ix) (selector_of uni g) (gpu_DeviceID g)\<rparr>
      = map_of (map (\<lambda>g. (gpu_DeviceID g, g)) (g # gs))" using assms(1) by (simp add: index_inv_def)
  qed (use assms keep head in \<open>simp_all add: index_inv_def\<close>)
qed

lemma index_gpus_inv:
  "index_gpus uni gpus ix = Inr ix' \<Longrightarrow> index_inv uni gs ix \<Longrightarrow> \<exists>gs'. set gs' = set gpus \<union> set gs \<and> index_inv uni gs' ix'"
proof (induction gpus arbitrary: ix gs)
  case (Cons g gpus)
  define ix1 where "ix1 = \<lparr>gi_byID = (gi_byID ix)(gpu_DeviceID g \<mapsto> g),
     gi_identities = remember (gi_identities ix) (identity_of uni g) (gpu_DeviceID g),
     gi_selectors = remember (gi_selectors ix) (selector_of uni g) (gpu_DeviceID g)\<rparr>"
  have n: "gi_byID ix (gpu_DeviceID g) = None"
    "identity_of uni g = [] \<or> \<not> taken (gi_identities ix) (identity_of uni g) (gpu_DeviceID g)"
    "selector_of uni g = [] \<or> \<not> taken (gi_selectors ix) (selector_of uni g) (gpu_DeviceID g)"
    "index_gpus uni gpus ix1 = Inr ix'"
    using Cons.prems(1) by (simp_all add: Let_def ix1_def split: if_splits)
  have "index_inv uni (g # gs) ix1"
    unfolding ix1_def by (rule index_step[OF Cons.prems(2) n(1-3)])
  from Cons.IH[OF n(4) this] show ?case by auto
qed auto

lemma index_gpus_sound:
  assumes "index_gpus uni gpus no_gpus = Inr ix"
  shows "(\<forall>d g. gi_byID ix d = Some g \<longrightarrow> g \<in> set gpus \<and> gpu_DeviceID g = d)
    \<and> (\<forall>g\<in>set gpus. \<forall>h\<in>set gpus. identity_of uni g \<noteq> [] \<longrightarrow> identity_of uni g = identity_of uni h \<longrightarrow> g = h)
    \<and> (\<forall>g\<in>set gpus. \<forall>h\<in>set gpus. selector_of uni g \<noteq> [] \<longrightarrow> selector_of uni g = selector_of uni h \<longrightarrow> g = h)"
proof -
  have "index_inv uni [] no_gpus" by (simp add: index_inv_def no_gpus_def)
  then obtain gs where gs: "set gs = set gpus" "index_inv uni gs ix"
    using index_gpus_inv[OF assms, of "[]"] by auto
  have same: "g = h" if "g \<in> set gpus" "h \<in> set gpus" "gpu_DeviceID g = gpu_DeviceID h" for g h
    using gs that distinct_map_filter_unique[of gpu_DeviceID gs g h] by (simp add: index_inv_def)
  have "gi_byID ix d = Some g \<longrightarrow> g \<in> set gpus \<and> gpu_DeviceID g = d" for d g
    using gs by (auto simp: index_inv_def dest: map_of_SomeD)
  moreover have "g = h" if "g \<in> set gpus" "h \<in> set gpus" "identity_of uni g \<noteq> []" "identity_of uni g = identity_of uni h" for g h
  proof (rule same[OF that(1,2)])
    have "gi_identities ix (identity_of uni k) = Some (gpu_DeviceID k)" if "k \<in> {g, h}" for k
      using gs that \<open>g \<in> set gpus\<close> \<open>h \<in> set gpus\<close> \<open>identity_of uni g \<noteq> []\<close> \<open>identity_of uni g = identity_of uni h\<close>
      by (auto simp: index_inv_def)
    from this[of g] this[of h] show "gpu_DeviceID g = gpu_DeviceID h" using that(4) by simp
  qed
  moreover have "g = h" if "g \<in> set gpus" "h \<in> set gpus" "selector_of uni g \<noteq> []" "selector_of uni g = selector_of uni h" for g h
  proof (rule same[OF that(1,2)])
    have "gi_selectors ix (selector_of uni k) = Some (gpu_DeviceID k)" if "k \<in> {g, h}" for k
      using gs that \<open>g \<in> set gpus\<close> \<open>h \<in> set gpus\<close> \<open>selector_of uni g \<noteq> []\<close> \<open>selector_of uni g = selector_of uni h\<close>
      by (auto simp: index_inv_def)
    from this[of g] this[of h] show "gpu_DeviceID g = gpu_DeviceID h" using that(4) by simp
  qed
  ultimately show ?thesis by blast
qed

section \<open>Soundness of a resolution\<close>

text \<open>What a binding says of the inventory it was resolved from.\<close>

definition binds :: "unicode_case \<Rightarrow> string list \<Rightarrow> GPU list \<Rightarrow> GPUAssignment \<Rightarrow> GPU \<Rightarrow> bool" where
  "binds uni vendors gpus a g \<longleftrightarrow> g \<in> set gpus \<and> gpu_DeviceID g = ga_DeviceID a
     \<and> ga_HardwareIdentity a = identity_of uni g \<and> ga_RuntimeSelector a = selector_of uni g
     \<and> validHardwareIdentity (identity_of uni g) \<and> pciSelectorPattern (selector_of uni g)
     \<and> (vendors = [] \<or> containsNormalized uni vendors (NormalizeHardwareText uni (gpu_Vendor g)))"

lemma bind_requested_sound:
  "bind_requested uni vendors ix seen ds = Inr as \<Longrightarrow>
     (\<forall>d g. gi_byID ix d = Some g \<longrightarrow> g \<in> set gpus \<and> gpu_DeviceID g = d) \<Longrightarrow>
     map ga_DeviceID as = ds \<and> distinct ds \<and> set ds \<inter> seen = {}
     \<and> (\<forall>a\<in>set as. DeviceID_Validate (ga_DeviceID a) = None \<and> (\<exists>g. binds uni vendors gpus a g))"
proof (induction ds arbitrary: seen as)
  case (Cons d ds)
  obtain g a rest where g: "gi_byID ix d = Some g" "bind_gpu uni vendors d g = Inr a"
      "bind_requested uni vendors ix (insert d seen) ds = Inr rest" "as = a # rest"
      "DeviceID_Validate d = None" "d \<notin> seen"
    using Cons.prems(1) by (auto split: if_splits option.splits sum.splits)
  have b: "ga_DeviceID a = d" "binds uni vendors gpus a g"
    using g(1,2) Cons.prems(2) by (auto simp: bind_gpu_def binds_def Let_def split: if_splits)
  from Cons.IH[OF g(3) Cons.prems(2)] show ?case using g b by auto
qed simp

lemma sorted_map_unique:
  "map f as = ds \<Longrightarrow> map f (sort_key f as) = sort ds"
  by (rule sym, rule properties_for_sort) auto

lemma Resolve_gpus_sound:
  assumes "Resolve_gpus uni requested iv vendors = Inr as"
  shows "map ga_DeviceID as = sort requested \<and> distinct requested
    \<and> (\<forall>a\<in>set as. DeviceID_Validate (ga_DeviceID a) = None \<and> (\<exists>g. binds uni vendors (inv_GPUs iv) a g))
    \<and> (\<exists>ix. index_gpus uni (inv_GPUs iv) no_gpus = Inr ix)"
proof -
  obtain ix r where ix: "index_gpus uni (inv_GPUs iv) no_gpus = Inr ix"
      and r: "bind_requested uni vendors ix {} requested = Inr r" "as = sort_key ga_DeviceID r"
    using assms by (auto simp: Resolve_gpus_def split: sum.splits)
  have "\<forall>d g. gi_byID ix d = Some g \<longrightarrow> g \<in> set (inv_GPUs iv) \<and> gpu_DeviceID g = d"
    using index_gpus_sound[OF ix] by blast
  from bind_requested_sound[OF r(1) this] show ?thesis
    using ix r(2) sorted_map_unique[of ga_DeviceID r requested] by auto
qed

text \<open>
  C8: A GPU resolution is sound and unambiguous: the bindings are exactly the requested devices in
  canonical order, each names a GPU of the inventory by its normalised, valid identity and a valid
  selector of an allowed vendor, and two different bound devices never share identity or selector.
\<close>

theorem gpu_resolution_sound:
  assumes "Resolve_gpus uni requested iv vendors = Inr as"
  shows "map ga_DeviceID as = sort requested \<and> distinct requested
    \<and> (\<forall>a\<in>set as. \<exists>g. binds uni vendors (inv_GPUs iv) a g)
    \<and> (\<forall>a\<in>set as. \<forall>b\<in>set as. ga_HardwareIdentity a = ga_HardwareIdentity b
          \<or> ga_RuntimeSelector a = ga_RuntimeSelector b \<longrightarrow> a = b)"
proof -
  note snd = Resolve_gpus_sound[OF assms]
  obtain ix where ix: "index_gpus uni (inv_GPUs iv) no_gpus = Inr ix" using snd by blast
  note uniq = index_gpus_sound[OF ix]
  have "a = b" if ab: "a \<in> set as" "b \<in> set as"
    and eq: "ga_HardwareIdentity a = ga_HardwareIdentity b \<or> ga_RuntimeSelector a = ga_RuntimeSelector b" for a b
  proof -
    obtain g h where g: "binds uni vendors (inv_GPUs iv) a g" and h: "binds uni vendors (inv_GPUs iv) b h"
      using snd ab by blast
    have ne: "identity_of uni g \<noteq> []" "selector_of uni g \<noteq> []"
      using g by (auto simp: binds_def validHardwareIdentity_def pciSelectorPattern_def)
    have "g = h" using uniq eq g h ne unfolding binds_def by metis
    then show ?thesis using g h by (simp add: binds_def)
  qed
  then show ?thesis using snd by blast
qed

lemma check_bindings_None:
  "length as = length ds \<Longrightarrow> check_bindings uni as ds = None \<longleftrightarrow> list_all2 (binding_ok uni) as ds"
  by (induction as ds rule: list_induct2) auto

section \<open>Normalised texts are fixed points\<close>

lemma match_bdf_chars: "match_bdf s \<Longrightarrow> \<forall>c\<in>set s. byte c < 128 \<and> \<not> IsSpace (byte c) \<and> ascii_lower c = c"
proof (induction s rule: match_bdf.induct)
  case (1 a b c d e f g)
  have "byte x < 128 \<and> \<not> IsSpace (byte x) \<and> ascii_lower x = x" if "is_hex_lower x" for x
    using that by (auto simp: is_hex_lower_def is_digit_def IsSpace_def ascii_lower_def)
  moreover have "byte g < 128 \<and> \<not> IsSpace (byte g) \<and> ascii_lower g = g" if "48 \<le> byte g \<and> byte g \<le> 55"
    using that by (auto simp: IsSpace_def ascii_lower_def)
  ultimately show ?case using 1 by (auto simp: IsSpace_def ascii_lower_def)
qed auto

lemma selector_chars: "pciSelectorPattern s \<Longrightarrow> \<forall>c\<in>set s. byte c < 128 \<and> \<not> IsSpace (byte c) \<and> ascii_lower c = c"
proof -
  assume p: "pciSelectorPattern s"
  have hexc: "byte x < 128 \<and> \<not> IsSpace (byte x) \<and> ascii_lower x = x" if "is_hex_lower x" for x
    using that by (auto simp: is_hex_lower_def is_digit_def IsSpace_def ascii_lower_def)
  show ?thesis
  proof (cases "match_bdf s")
    case False
    then have l: "length s = 12" "list_all is_hex_lower (take 4 s)" "s ! 4 = CHR '':''" "match_bdf (drop 5 s)"
      using p by (auto simp: pciSelectorPattern_def)
    have "s = take 4 s @ s ! 4 # drop 5 s" using l(1) id_take_nth_drop[of 4 s] by simp
    from arg_cong[OF this, of set] have chars: "set s \<subseteq> insert (CHR '':'') (set (take 4 s) \<union> set (drop 5 s))"
      unfolding set_append list.set l(3) by blast
    have "byte c < 128 \<and> \<not> IsSpace (byte c) \<and> ascii_lower c = c" if cs: "c \<in> set s" for c
    proof -
      consider "c = CHR '':''" | "is_hex_lower c" | "c \<in> set (drop 5 s)"
        using chars cs l(2) by (auto simp: list_all_iff)
      then show ?thesis
        by cases (use hexc match_bdf_chars[OF l(4)] in \<open>auto simp: IsSpace_def ascii_lower_def\<close>)
    qed
    then show ?thesis by blast
  qed (use match_bdf_chars in blast)
qed

lemma TrimSpace_id: "is_ascii s \<Longrightarrow> \<forall>c\<in>set s. \<not> IsSpace (byte c) \<Longrightarrow> TrimSpace s = s"
proof -
  assume a: "is_ascii s" and n: "\<forall>c\<in>set s. \<not> IsSpace (byte c)"
  have d: "dropWhile (\<lambda>x. IsSpace (fst x)) (map (\<lambda>c. (byte c, [c])) t) = map (\<lambda>c. (byte c, [c])) t"
    if "\<forall>c\<in>set t. \<not> IsSpace (byte c)" for t using that by (cases t) auto
  have "TrimSpace s = concat (map snd (rev (dropWhile (\<lambda>x. IsSpace (fst x)) (map (\<lambda>c. (byte c, [c])) (rev s)))))"
    unfolding TrimSpace_def rune_segs_ascii[OF a] d[OF n] rev_map ..
  also have "\<dots> = s" using n by (subst d) (auto simp: rev_map[symmetric] comp_def)
  finally show ?thesis .
qed

lemma selector_fixed: "pciSelectorPattern s \<Longrightarrow> ToLower uni (TrimSpace s) = s"
proof -
  assume p: "pciSelectorPattern s"
  then have a: "is_ascii s" using selector_chars by (auto simp: is_ascii_def list_all_iff)
  have "TrimSpace s = s" using selector_chars[OF p] by (intro TrimSpace_id[OF a]) auto
  moreover have "map ascii_lower s = s" using selector_chars[OF p] by (simp add: map_idI)
  ultimately show ?thesis using a by (simp add: ToLower_def)
qed

definition segs :: "string \<Rightarrow> (nat \<times> string) list" where
  "segs s = map (\<lambda>c. (byte c, [c])) s"

definition word_ok :: "string \<Rightarrow> bool" where
  "word_ok w \<longleftrightarrow> w \<noteq> [] \<and> (\<forall>c\<in>set w. \<not> IsSpace (byte c))"

lemma segs_simps [simp]: "segs [] = []" "segs (c # s) = (byte c, [c]) # segs s" "segs (s @ t) = segs s @ segs t"
  by (simp_all add: segs_def)

lemma split_fields_ok:
  "\<forall>c\<in>set cur. \<not> IsSpace (byte c) \<Longrightarrow> w \<in> set (split_fields (segs s) cur) \<Longrightarrow> word_ok w"
proof (induction s arbitrary: cur)
  case Nil
  then show ?case by (auto simp: word_ok_def split: if_splits)
next
  case (Cons a s)
  show ?case
  proof (cases "IsSpace (byte a)")
    case True
    then show ?thesis using Cons.prems Cons.IH[of "[]"] by (auto simp: word_ok_def split: if_splits)
  next
    case False
    then show ?thesis using Cons.prems Cons.IH[of "cur @ [a]"] by auto
  qed
qed

lemma split_fields_chars: "w \<in> set (split_fields (segs s) cur) \<Longrightarrow> set w \<subseteq> set cur \<union> set s"
  by (induction s arbitrary: cur) (fastforce split: if_splits)+

lemma split_fields_word:
  "\<forall>c\<in>set w. \<not> IsSpace (byte c) \<Longrightarrow> split_fields (segs w @ xs) cur = split_fields xs (cur @ w)"
  by (induction w arbitrary: cur) auto

lemma split_fields_Join: "\<forall>w\<in>set ws. word_ok w \<Longrightarrow> split_fields (segs (Join ws '' '')) [] = ws"
proof (induction ws rule: induct_list012)
  case (2 w)
  then show ?case using split_fields_word[of w "[]" "[]"] by (simp add: word_ok_def)
next
  case (3 v w ws)
  have "split_fields (segs (Join (v # w # ws) '' '')) [] = split_fields (segs ('' '' @ Join (w # ws) '' '')) v"
    using 3 split_fields_word[of v "segs ('' '' @ Join (w # ws) '' '')" "[]"] by (simp add: word_ok_def)
  then show ?case using 3 by (simp add: IsSpace_def word_ok_def)
qed simp

lemma map_lower_Join: "map ascii_lower (Join ws '' '') = Join (map (map ascii_lower) ws) '' ''"
  by (induction ws rule: induct_list012) (simp_all add: ascii_lower_def)

lemma Join_ascii: "\<forall>w\<in>set ws. is_ascii w \<Longrightarrow> is_ascii (Join ws '' '')"
  by (induction ws rule: induct_list012) (simp_all add: is_ascii_def)

lemma NormalizeHardwareText_idem:
  assumes a: "is_ascii v"
  shows "NormalizeHardwareText uni (NormalizeHardwareText uni v) = NormalizeHardwareText uni v"
proof -
  define ws where "ws = Fields v"
  have ws: "ws = split_fields (segs v) []" by (simp add: ws_def Fields_def rune_segs_ascii[OF a] segs_def)
  have ok: "\<forall>w\<in>set ws. word_ok w" using split_fields_ok[of "[]" _ v] by (simp add: ws)
  have asc: "\<forall>w\<in>set ws. is_ascii w"
    using split_fields_chars[of _ v "[]"] a by (fastforce simp: ws is_ascii_def list_all_iff)
  define ls where "ls = map (map ascii_lower) ws"
  have n: "NormalizeHardwareText uni v = Join ls '' ''"
    using Join_ascii[OF asc] by (simp add: NormalizeHardwareText_def ToLower_def ws_def[symmetric] map_lower_Join ls_def)
  have lok: "\<forall>w\<in>set ls. word_ok w" using ok by (auto simp: ls_def word_ok_def)
  have lasc: "is_ascii (Join ls '' '')" using asc by (intro Join_ascii) (auto simp: ls_def)
  have "Fields (Join ls '' '') = ls"
    using split_fields_Join[OF lok] by (simp add: Fields_def rune_segs_ascii[OF lasc] segs_def)
  moreover have "map ascii_lower (Join ls '' '') = Join ls '' ''"
    by (simp add: map_lower_Join) (simp add: ls_def comp_def)
  ultimately show ?thesis unfolding n using lasc by (simp add: NormalizeHardwareText_def ToLower_def)
qed

text \<open>
  A fresh resolution is its own best witness: on an inventory with ASCII hardware texts its result
  passes the validation of stored bindings, is current for the same inventory, and is stable; and a
  stable binding only ever changes its runtime selectors.
\<close>

theorem gpu_resolution_validates:
  assumes "Resolve_gpus uni requested iv vendors = Inr as"
    and "\<forall>g\<in>set (inv_GPUs iv). is_ascii (gpu_UUID g)"
  shows "ValidateBindings uni requested as = None \<and> ValidateCurrent uni requested as iv vendors = None
    \<and> (\<forall>bs. ValidateStableIdentities uni requested bs iv vendors = None \<longrightarrow>
         map ga_DeviceID bs = map ga_DeviceID as \<and> map ga_HardwareIdentity bs = map ga_HardwareIdentity as)"
proof -
  note snd = Resolve_gpus_sound[OF assms(1)]
  have len: "length as = length requested" using snd by (metis length_map length_sort)
  have "binding_ok uni a (ga_DeviceID a)" if am: "a \<in> set as" for a
  proof -
    obtain g where g: "binds uni vendors (inv_GPUs iv) a g"
      using snd[THEN conjunct2, THEN conjunct2, THEN conjunct1] am by blast
    then have "g \<in> set (inv_GPUs iv)" unfolding binds_def by (rule conjunct1)
    with assms(2) have "is_ascii (gpu_UUID g)" by (rule bspec)
    from NormalizeHardwareText_idem[OF this, of uni]
    have "NormalizeHardwareText uni (identity_of uni g) = identity_of uni g" by (simp only: identity_of_def)
    moreover have "ga_HardwareIdentity a = identity_of uni g" "pciSelectorPattern (ga_RuntimeSelector a)"
      "validHardwareIdentity (ga_HardwareIdentity a)"
      using g unfolding binds_def by metis+
    ultimately show ?thesis using selector_fixed[of "ga_RuntimeSelector a" uni]
      by (simp add: binding_ok_def)
  qed
  then have "list_all2 (binding_ok uni) as (map ga_DeviceID as)"
    by (simp add: list_all2_map2 list.rel_refl_strong)
  then have vb: "ValidateBindings uni requested as = None"
    using snd len by (simp add: ValidateBindings_def check_bindings_None)
  moreover have "map ga_DeviceID bs = map ga_DeviceID as \<and> map ga_HardwareIdentity bs = map ga_HardwareIdentity as"
    if s: "ValidateStableIdentities uni requested bs iv vendors = None" for bs
  proof -
    have "stable_mismatch as bs = None" "length bs = length as"
      using s assms(1) len
      by (auto simp: ValidateStableIdentities_def ValidateBindings_def split: option.splits if_splits)
    then show ?thesis
      by (induction as bs rule: stable_mismatch.induct) (auto split: if_splits)
  qed
  ultimately show ?thesis using assms(1) by (simp add: ValidateCurrent_def)
qed

section \<open>A concrete inventory\<close>

definition demo_device :: DeviceID where
  "demo_device = DeviceID (''device_'' @ replicate 32 (CHR ''a''))"

definition demo_gpu :: GPU where
  "demo_gpu = \<lparr>gpu_DeviceID = demo_device, gpu_Vendor = ''NVIDIA'', gpu_Model = ''X'',
     gpu_PCIBusID = ''01:00.0'', gpu_UUID = ''gpu-7''\<rparr>"

definition demo_inventory :: Inventory where
  "demo_inventory = \<lparr>inv_SchemaVersion = 1,
     inv_Host = \<lparr>host_HostID = HostID [], host_Hostname = [], host_DisplayName = [],
       host_OS = \<lparr>os_ID = [], os_VersionID = [], os_PrettyName = [], os_Kernel = []\<rparr>, host_Architecture = []\<rparr>,
     inv_CPU = \<lparr>cpu_Vendor = [], cpu_Model = [], cpu_Sockets = 1, cpu_Cores = 1, cpu_Threads = 1\<rparr>,
     inv_GPUs = [demo_gpu], inv_TotalBytes = 0\<rparr>"

lemma demo_device_valid: "DeviceID_Validate demo_device = None"
  by (auto simp: demo_device_def device_id.check_text validate_None_iff list_all_iff is_hex_lower_def)

lemma demo_gpu_texts:
  "identity_of id demo_gpu = ''gpu-7''" "selector_of id demo_gpu = ''01:00.0''"
  by (simp_all add: identity_of_def selector_of_def demo_gpu_def NormalizeHardwareText_def Fields_def
      ToLower_def is_ascii_def rune_value_def IsSpace_def TrimSpace_def ascii_lower_def)

lemma demo_resolution:
  "Resolve_gpus id [demo_device] demo_inventory []
     = Inr [\<lparr>ga_DeviceID = demo_device, ga_HardwareIdentity = ''gpu-7'', ga_RuntimeSelector = ''01:00.0''\<rparr>]"
proof -
  have "gpu_DeviceID demo_gpu = demo_device" by (simp add: demo_gpu_def)
  moreover have "pciSelectorPattern ''01:00.0''"
    by (simp add: pciSelectorPattern_def is_hex_lower_def is_digit_def)
  moreover have "validHardwareIdentity ''gpu-7''" by (simp add: validHardwareIdentity_def Trim_def)
  ultimately show ?thesis
    by (simp add: Resolve_gpus_def demo_inventory_def demo_device_valid no_gpus_def taken_def
        remember_def bind_gpu_def demo_gpu_texts)
qed

theorem gpu_resolution_sound_witness:
  "\<exists>as. Resolve_gpus id [demo_device] demo_inventory [] = Inr as \<and> map ga_DeviceID as = [demo_device]
     \<and> (\<forall>a\<in>set as. \<exists>g. binds id [] [demo_gpu] a g)"
  using gpu_resolution_sound[OF demo_resolution] demo_resolution by (simp add: demo_inventory_def)

theorem gpu_resolution_validates_witness:
  "\<exists>as. ValidateBindings id [demo_device] as = None \<and> ValidateCurrent id [demo_device] as demo_inventory [] = None"
  using gpu_resolution_validates[OF demo_resolution]
  by (auto simp: demo_inventory_def demo_gpu_def is_ascii_def)

end
