(* ===== verification/Farm_Resolve.thy ===== *)
theory Farm_Resolve
  imports Canonical_Json Gpu_Resource
begin

text \<open>
  \<open>internal/farmresolve/resolver.go\<close> and \<open>internal/packagecatalog/catalog.go\<close>: the deterministic
  resolution of farm objects into the runtime content that is executed, and the immutable snapshot
  built from it. The package catalog is the Go interface \<open>PackageCatalog\<close>: an argument of the
  resolver, with the static catalog of the sources as the instance.
\<close>

section \<open>The package catalog\<close>

definition typed :: "Code \<Rightarrow> string \<Rightarrow> error" where
  "typed code message = Typed (mk_error code message Map.empty)"

type_synonym Lookup = "PackageRef \<Rightarrow> PackageRelease result"

definition catalogKey :: "PackageRef \<Rightarrow> string" where
  "catalogKey ref = PackageID_String (pr_PackageID ref) @ [CHR 0x00] @ pr_Version ref"

fun static_insert :: "PackageRelease list \<Rightarrow> (string \<rightharpoonup> PackageRelease) \<Rightarrow> (string \<rightharpoonup> PackageRelease) result" where
  "static_insert [] m = Inr m"
| "static_insert (r # rs) m =
     (if ValidatePackageRef (rel_Ref r) \<noteq> None \<or> rel_AdapterIDs r = []
      then Inl (typed CONFIG_CONFLICT ''invalid package catalog release'')
      else if m (catalogKey (rel_Ref r)) \<noteq> None
      then Inl (typed ALREADY_EXISTS ''duplicate package catalog release'')
      else static_insert rs (m(catalogKey (rel_Ref r) \<mapsto> r)))"

definition NewStatic :: "PackageRelease list \<Rightarrow> (string \<rightharpoonup> PackageRelease) result" where
  "NewStatic releases = static_insert releases Map.empty"

definition Static_Lookup :: "(string \<rightharpoonup> PackageRelease) \<Rightarrow> Lookup" where
  "Static_Lookup releases ref =
     (case ValidatePackageRef ref of
        Some e \<Rightarrow> Inl e
      | None \<Rightarrow> (case releases (catalogKey ref) of
          None \<Rightarrow> Inl (typed NOT_FOUND ''package release is not present in the Controller catalog'')
        | Some r \<Rightarrow> Inr r))"

section \<open>Resolution\<close>

record Inputs =
  ri_Workload :: DesiredWorkload
  ri_Profile :: MiningProfile
  ri_Settings :: "HostProfileSettings option"
  ri_Pool :: Pool
  ri_Wallet :: WalletRef
  ri_GPUAssignments :: "GPUAssignment list"

record Result =
  rs_Content :: ResolvedRuntimeContent
  rs_Hash :: string

text \<open>What the resolver is given: text functions of the standard library, and the catalog, nil or not.\<close>

record Env =
  env_quote :: "string \<Rightarrow> string"
  env_uni :: unicode_case
  env_catalog :: "Lookup option"

definition validateResourceShape :: "ResourceClaim \<Rightarrow> RuntimeCapabilities \<Rightarrow> error option" where
  "validateResourceShape claim cap =
     (if cl_CPU claim \<and> cl_DeviceIDs claim \<noteq> []
      then Some (typed CONFIG_CONFLICT ''combined CPU and GPU execution is not supported by the M6 runtime contract'')
      else if cl_CPU claim \<and> \<not> rc_CPU cap
      then Some (typed INCOMPATIBLE_HARDWARE ''package/adapter does not support CPU execution'')
      else if cl_DeviceIDs claim \<noteq> [] \<and> \<not> rc_GPU cap
      then Some (typed INCOMPATIBLE_HARDWARE ''package/adapter does not support GPU execution'')
      else if length (cl_DeviceIDs claim) > 1 \<and> \<not> rc_MultiGPUSingleProcess cap
      then Some (typed CONFIG_CONFLICT ''package/adapter does not support one process claiming multiple GPUs'')
      else None)"

definition normalizeAssignments :: "GPUAssignment list \<Rightarrow> GPUAssignment list" where
  "normalizeAssignments values = sort_key ga_DeviceID values"

definition override :: "'a option \<Rightarrow> 'a option \<Rightarrow> 'a option" where
  "override setting base = (case setting of None \<Rightarrow> base | Some v \<Rightarrow> Some v)"

definition effectiveTuning ::
  "MiningProfile \<Rightarrow> HostProfileSettings option \<Rightarrow> uint32 option \<times> bool option \<times> bool option" where
  "effectiveTuning profile settings =
     (let c = prof_Content profile
      in case settings of
        None \<Rightarrow> (prof_CPUThreads c, prof_HugePages c, prof_MSR c)
      | Some s \<Rightarrow> (override (hps_CPUThreads (hps_Content s)) (prof_CPUThreads c),
                  override (hps_HugePages (hps_Content s)) (prof_HugePages c),
                  override (hps_MSR (hps_Content s)) (prof_MSR c)))"

definition resolve_user :: "LoginPolicy \<Rightarrow> string \<Rightarrow> string" where
  "resolve_user policy address = ReplaceFirst (lp_UserTemplate policy) wallet_placeholder address"

definition resolveEndpoint :: "PoolContent \<Rightarrow> WalletRefContent \<Rightarrow> LoginPolicy \<Rightarrow> string \<Rightarrow> MiningEndpoint result" where
  "resolveEndpoint pool wallet policy worker =
     (case ValidateLoginPolicy policy of
        Some e \<Rightarrow> Inl e
      | None \<Rightarrow>
          let user = resolve_user policy (wal_Address wallet);
              password = (if pa_Kind (pool_Auth pool) = PoolAuthPublicLiteral
                          then pa_PublicLiteral (pool_Auth pool) else []);
              endpoint = (\<lambda>u w. \<lparr>ep_Address = pool_Address pool, ep_TLS = pool_TLS pool, ep_User = u,
                ep_Password = password, ep_Worker = w\<rparr>)
          in case lp_WorkerPlacement policy of
            WorkerNone \<Rightarrow>
              if worker \<noteq> [] then Inl (typed CONFIG_CONFLICT ''worker must be empty for NONE placement'')
              else Inr (endpoint user [])
          | WorkerInUser \<Rightarrow>
              if worker = [] then Inl (typed CONFIG_CONFLICT ''worker is required for IN_USER placement'')
              else Inr (endpoint (ReplaceFirst user worker_placeholder worker) [])
          | WorkerSeparate \<Rightarrow>
              if worker = [] then Inl (typed CONFIG_CONFLICT ''worker is required for SEPARATE placement'')
              else Inr (endpoint user worker)
          | WorkerOther s \<Rightarrow> Inr (endpoint user []))"

text \<open>The checks of the inputs before the catalog is asked.\<close>

definition validate_inputs :: "Env \<Rightarrow> Inputs \<Rightarrow> error option" where
  "validate_inputs env i =
     (let w = dw_Content (ri_Workload i); p = prof_Content (ri_Profile i)
      in first_error
        [(case env_catalog env of None \<Rightarrow> Some (typed CONFIG_CONFLICT ''package catalog is required'')
          | Some c \<Rightarrow> None),
         ValidateDesiredWorkload w, ValidateMiningProfile p,
         ValidatePool (env_quote env) (pool_Content (ri_Pool i)), ValidateWalletRef (wal_Content (ri_Wallet i)),
         (if dw_ProfileID w \<noteq> prof_ProfileID (ri_Profile i) \<or> prof_PoolID p \<noteq> pool_PoolID (ri_Pool i)
             \<or> prof_WalletID p \<noteq> wal_WalletID (ri_Wallet i)
          then Some (typed INVALID_REFERENCE ''resolver object references do not agree'') else None),
         (case ri_Settings i of
            None \<Rightarrow> None
          | Some s \<Rightarrow>
              if hps_HostID s \<noteq> dw_HostID w \<or> hps_ProfileID s \<noteq> prof_ProfileID (ri_Profile i)
              then Some (typed INVALID_REFERENCE ''HostProfileSettings does not match workload HostID and ProfileID'')
              else ValidateHostProfileSettings (hps_HostID s) (hps_ProfileID s) (hps_Content s))])"

text \<open>The checks against the release.\<close>

definition validate_release :: "Env \<Rightarrow> Inputs \<Rightarrow> PackageRelease \<Rightarrow> error option" where
  "validate_release env i release =
     (let w = dw_Content (ri_Workload i); p = prof_Content (ri_Profile i);
          (cpuThreads, hugePages, msr) = effectiveTuning (ri_Profile i) (ri_Settings i);
          assignments = normalizeAssignments (ri_GPUAssignments i)
      in first_error
        [(if rel_Ref release \<noteq> prof_Package p
          then Some (typed INVALID_REFERENCE ''package catalog returned a different release'') else None),
         (if wal_Coin (wal_Content (ri_Wallet i)) \<noteq> prof_Coin p
          then Some (typed INVALID_REFERENCE ''WalletRef coin does not match MiningProfile coin'') else None),
         (if \<not> List.member (rel_AdapterIDs release) (prof_AdapterID p)
          then Some (typed INVALID_REFERENCE ''package release does not support profile adapter'') else None),
         validateResourceShape (dw_Resources w) (rel_Runtime release),
         (if \<not> cl_CPU (dw_Resources w) \<and> (cpuThreads \<noteq> None \<or> hugePages \<noteq> None \<or> msr \<noteq> None)
          then Some (typed CONFIG_CONFLICT ''CPU tuning cannot be applied to a GPU-only workload'') else None),
         (if assignments \<noteq> []
          then ValidateBindings (env_uni env) (cl_DeviceIDs (NormalizeResourceClaim (dw_Resources w))) assignments
          else None),
         ValidateTuningCapabilities cpuThreads hugePages msr (rel_Tuning release)])"

definition resolved_content :: "Inputs \<Rightarrow> MiningEndpoint \<Rightarrow> ResolvedRuntimeContent" where
  "resolved_content i endpoint =
     (let w = dw_Content (ri_Workload i); p = prof_Content (ri_Profile i);
          (cpuThreads, hugePages, msr) = effectiveTuning (ri_Profile i) (ri_Settings i)
      in \<lparr>rr_RunState = dw_RunState w, rr_HostID = dw_HostID w, rr_ProfileID = prof_ProfileID (ri_Profile i),
          rr_Resources = NormalizeResourceClaim (dw_Resources w),
          rr_GPUAssignments = normalizeAssignments (ri_GPUAssignments i),
          rr_AdapterID = prof_AdapterID p, rr_Package = prof_Package p, rr_Mode = prof_Mode p,
          rr_Coin = prof_Coin p, rr_Algorithm = prof_Algorithm p, rr_Endpoint = endpoint,
          rr_CPUThreads = cpuThreads, rr_HugePages = hugePages, rr_MSR = msr\<rparr>)"

definition hash_result :: "string \<Rightarrow> ResolvedRuntimeContent \<Rightarrow> Result result" where
  "hash_result message content =
     (case ResolvedRuntimeHash content of
        Inl e \<Rightarrow> Inl (typed INTERNAL_ERROR message)
      | Inr h \<Rightarrow> Inr \<lparr>rs_Content = content, rs_Hash = h\<rparr>)"

definition lookup_release :: "Env \<Rightarrow> PackageRef \<Rightarrow> PackageRelease result" where
  "lookup_release env ref =
     (case env_catalog env of
        None \<Rightarrow> Inl (typed CONFIG_CONFLICT ''package catalog is required'')
      | Some lookup \<Rightarrow> (case lookup ref of
          Inl e \<Rightarrow> Inl (typed INVALID_REFERENCE ''package release is unavailable'') | Inr r \<Rightarrow> Inr r))"

definition Resolver_Resolve :: "Env \<Rightarrow> Inputs \<Rightarrow> Result result" where
  "Resolver_Resolve env i =
     (case validate_inputs env i of
        Some e \<Rightarrow> Inl e
      | None \<Rightarrow>
          (case lookup_release env (prof_Package (prof_Content (ri_Profile i))) of
             Inl e \<Rightarrow> Inl e
           | Inr release \<Rightarrow>
               (case validate_release env i release of
                  Some e \<Rightarrow> Inl e
                | None \<Rightarrow>
                    (case resolveEndpoint (pool_Content (ri_Pool i)) (wal_Content (ri_Wallet i))
                        (prof_LoginPolicy (prof_Content (ri_Profile i))) (dw_Worker (dw_Content (ri_Workload i))) of
                       Inl e \<Rightarrow> Inl e
                     | Inr endpoint \<Rightarrow>
                         hash_result ''cannot hash resolved runtime intent'' (resolved_content i endpoint)))))"

section \<open>Validation against hardware\<close>

definition hardwareError :: "Inputs \<Rightarrow> string \<Rightarrow> (string \<rightharpoonup> string) \<Rightarrow> error" where
  "hardwareError i message extra =
     (let h = HostID_String (dw_HostID (dw_Content (ri_Workload i)));
          p = ProfileID_String (prof_ProfileID (ri_Profile i))
      in Typed (mk_error INCOMPATIBLE_HARDWARE (''Host '' @ h @ '' Profile '' @ p @ '': '' @ message)
           ([''host_id'' \<mapsto> h, ''profile_id'' \<mapsto> p] ++ extra)))"

definition as_hardware_error :: "Inputs \<Rightarrow> string \<Rightarrow> error \<Rightarrow> error" where
  "as_hardware_error i fallback e =
     (case errors_As e of
        Some t \<Rightarrow> hardwareError i (err_HumanMessage t) (err_Details t)
      | None \<Rightarrow> hardwareError i fallback Map.empty)"

definition check_cpu :: "Inputs \<Rightarrow> ResolvedRuntimeContent \<Rightarrow> Inventory \<Rightarrow> error option" where
  "check_cpu i content iv =
     (let supported = cpu_Threads (inv_CPU iv)
      in if \<not> cl_CPU (rr_Resources content) then None
         else if supported = 0
         then Some (hardwareError i ''fresh inventory does not report logical CPU capacity'' Map.empty)
         else (case rr_CPUThreads content of
             None \<Rightarrow> None
           | Some n \<Rightarrow>
               if n > supported
               then Some (hardwareError i
                 (''requests CPUThreads='' @ dec_digits (unat n) @ '' but fresh inventory supports ''
                   @ dec_digits (unat supported))
                 [''requested'' \<mapsto> dec_digits (unat n), ''supported'' \<mapsto> dec_digits (unat supported)])
               else None))"

definition bind_hardware :: "Env \<Rightarrow> Inputs \<Rightarrow> Result \<Rightarrow> Inventory \<Rightarrow> Result result" where
  "bind_hardware env i r iv =
     (let devices = cl_DeviceIDs (rr_Resources (rs_Content r))
      in case lookup_release env (rr_Package (rs_Content r)) of
        Inl e \<Rightarrow> Inl e
      | Inr release \<Rightarrow>
          let vendors = rc_GPUVendors (rel_Runtime release)
          in case Resolve_gpus (env_uni env) devices iv vendors of
            Inl e \<Rightarrow> Inl (as_hardware_error i ''cannot resolve requested GPU resources'' e)
          | Inr assignments \<Rightarrow>
              (case (if ri_GPUAssignments i \<noteq> []
                     then ValidateStableIdentities (env_uni env) devices (ri_GPUAssignments i) iv vendors
                     else None) of
                 Some e \<Rightarrow> Inl (as_hardware_error i ''GPU stable identity validation failed'' e)
               | None \<Rightarrow> hash_result ''cannot hash hardware-resolved runtime intent''
                   ((rs_Content r)\<lparr>rr_GPUAssignments := assignments\<rparr>)))"

definition ResolveAndValidate :: "Env \<Rightarrow> Inputs \<Rightarrow> Inventory \<Rightarrow> Result result" where
  "ResolveAndValidate env i iv =
     (case Resolver_Resolve env i of
        Inl e \<Rightarrow> Inl e
      | Inr r \<Rightarrow>
          if host_HostID (inv_Host iv) \<noteq> dw_HostID (dw_Content (ri_Workload i))
          then Inl (hardwareError i ''fresh inventory belongs to a different Host'' Map.empty)
          else case check_cpu i (rs_Content r) iv of
            Some e \<Rightarrow> Inl e
          | None \<Rightarrow> if cl_DeviceIDs (rr_Resources (rs_Content r)) \<noteq> [] then bind_hardware env i r iv else Inr r)"

section \<open>Snapshots\<close>

definition settingsRevision :: "HostProfileSettings option \<Rightarrow> uint64" where
  "settingsRevision settings = (case settings of None \<Rightarrow> 0 | Some s \<Rightarrow> meta_Revision (hps_Meta s))"

definition snapshot_plan :: "Result \<Rightarrow> Inputs \<Rightarrow> ExecutionID \<Rightarrow> uint64 \<Rightarrow> ExecutionPlan" where
  "snapshot_plan r i executionID generation =
     (let c = rs_Content r; w = ri_Workload i; host = dw_HostID (dw_Content w); p = prof_Content (ri_Profile i)
      in \<lparr>pl_SchemaVersion = CurrentSchemaVersion, pl_ExecutionID = executionID,
          pl_Ownership = \<lparr>ow_WorkloadID = dw_WorkloadID w, ow_DesiredGeneration = generation,
            ow_ResolvedHash = rs_Hash r, ow_HostID = host, ow_CPU = cl_CPU (rr_Resources c),
            ow_DeviceIDs = cl_DeviceIDs (rr_Resources c)\<rparr>,
          pl_HostID = host, pl_ProfileID = prof_ProfileID (ri_Profile i),
          pl_DeviceIDs = cl_DeviceIDs (rr_Resources c), pl_CPUThreads = rr_CPUThreads c,
          pl_Executable = [], pl_Args = [], pl_Environment = Map.empty, pl_WorkingDirectory = [],
          pl_RestartPolicy = RestartOnFailure,
          pl_Miner = Some \<lparr>ms_AdapterID = rr_AdapterID c, ms_SpecVersion = 1,
            ms_PackageID = pr_PackageID (rr_Package c), ms_PackageVersion = pr_Version (rr_Package c),
            ms_WalletID = Some (prof_WalletID p), ms_PoolID = Some (prof_PoolID p), ms_Mode = MinerModeMining,
            ms_Coin = rr_Coin c, ms_Algorithm = rr_Algorithm c, ms_Endpoint = Some (rr_Endpoint c),
            ms_CPUThreads = rr_CPUThreads c, ms_GPUDeviceIDs = cl_DeviceIDs (rr_Resources c),
            ms_GPUAssignments = rr_GPUAssignments c, ms_HugePages = rr_HugePages c, ms_MSR = rr_MSR c,
            ms_Options = Map.empty\<rparr>\<rparr>)"

definition Resolver_Snapshot ::
  "Result \<Rightarrow> Inputs \<Rightarrow> ExecutionID \<Rightarrow> uint64 \<Rightarrow> Time \<Rightarrow> ResolvedExecutionSnapshot result" where
  "Resolver_Snapshot r i executionID generation createdAt =
     (if rr_RunState (rs_Content r) \<noteq> DesiredRunning \<or> ExecutionID_Validate executionID \<noteq> None \<or> generation < 1
      then Inl (typed CONFIG_CONFLICT ''invalid running snapshot identity'')
      else Inr \<lparr>sn_WorkloadID = dw_WorkloadID (ri_Workload i), sn_DesiredGeneration = generation,
        sn_ExecutionID = executionID, sn_HostID = dw_HostID (dw_Content (ri_Workload i)),
        sn_ProfileID = prof_ProfileID (ri_Profile i), sn_ProfileRevision = meta_Revision (prof_Meta (ri_Profile i)),
        sn_HostProfileSettingsRevision = settingsRevision (ri_Settings i),
        sn_PoolID = pool_PoolID (ri_Pool i), sn_PoolRevision = meta_Revision (pool_Meta (ri_Pool i)),
        sn_WalletID = wal_WalletID (ri_Wallet i), sn_WalletRevision = meta_Revision (wal_Meta (ri_Wallet i)),
        sn_Package = prof_Package (prof_Content (ri_Profile i)),
        sn_Resources = NormalizeResourceClaim (dw_Resources (dw_Content (ri_Workload i))),
        sn_Plan = snapshot_plan r i executionID generation, sn_ResolvedHash = rs_Hash r,
        sn_CreatedAt = createdAt\<rparr>)"

section \<open>What a resolution says\<close>

text \<open>All checks of a successful resolution, as facts.\<close>

lemma Resolver_ResolveD:
  assumes "Resolver_Resolve env i = Inr r"
  obtains release endpoint where
    "validate_inputs env i = None"
    "lookup_release env (prof_Package (prof_Content (ri_Profile i))) = Inr release"
    "validate_release env i release = None"
    "resolveEndpoint (pool_Content (ri_Pool i)) (wal_Content (ri_Wallet i))
       (prof_LoginPolicy (prof_Content (ri_Profile i))) (dw_Worker (dw_Content (ri_Workload i))) = Inr endpoint"
    "rs_Content r = resolved_content i endpoint" "ResolvedRuntimeHash (rs_Content r) = Inr (rs_Hash r)"
  using assms by (auto simp: Resolver_Resolve_def hash_result_def split: option.splits sum.splits)

lemma validate_inputsD:
  assumes "validate_inputs env i = None"
  shows "ValidateDesiredWorkload (dw_Content (ri_Workload i)) = None"
    "ValidateMiningProfile (prof_Content (ri_Profile i)) = None"
    "dw_ProfileID (dw_Content (ri_Workload i)) = prof_ProfileID (ri_Profile i)"
    "prof_PoolID (prof_Content (ri_Profile i)) = pool_PoolID (ri_Pool i)"
    "prof_WalletID (prof_Content (ri_Profile i)) = wal_WalletID (ri_Wallet i)"
  using assms by (auto simp: validate_inputs_def first_error_None Let_def split: if_splits)

lemma sorted_bindings:
  assumes "ValidateBindings uni ds as = None"
  shows "map ga_DeviceID as = sort ds"
proof -
  have "list_all2 (binding_ok uni) as (sort ds)"
    using assms by (simp add: ValidateBindings_def check_bindings_None split: if_splits)
  then show ?thesis by (induction rule: list_all2_induct) (auto simp: binding_ok_def)
qed

lemma tuning_overridden:
  assumes "effectiveTuning profile settings = (ct, hp, msr)"
  shows "ct = (case settings of Some s \<Rightarrow> if hps_CPUThreads (hps_Content s) = None then prof_CPUThreads (prof_Content profile) else hps_CPUThreads (hps_Content s)
      | None \<Rightarrow> prof_CPUThreads (prof_Content profile))"
    "hp = (case settings of Some s \<Rightarrow> if hps_HugePages (hps_Content s) = None then prof_HugePages (prof_Content profile) else hps_HugePages (hps_Content s)
      | None \<Rightarrow> prof_HugePages (prof_Content profile))"
    "msr = (case settings of Some s \<Rightarrow> if hps_MSR (hps_Content s) = None then prof_MSR (prof_Content profile) else hps_MSR (hps_Content s)
      | None \<Rightarrow> prof_MSR (prof_Content profile))"
  using assms by (auto simp: effectiveTuning_def override_def Let_def split: option.splits)

lemma endpoint_of_pool:
  assumes "resolveEndpoint pool wallet policy worker = Inr e"
  shows "ep_Address e = pool_Address pool" "ep_TLS e = pool_TLS pool"
    "ep_Password e = (if pa_Kind (pool_Auth pool) = PoolAuthPublicLiteral then pa_PublicLiteral (pool_Auth pool) else [])"
  using assms by (auto simp: resolveEndpoint_def Let_def split: option.splits WorkerPlacement.splits if_splits)


text \<open>
  Validation against hardware fails closed: a result is for the workload's own Host, requests no
  more CPU threads than the inventory reports, binds exactly the claimed GPUs to this inventory, and
  keeps the hardware identity of every device that was bound before.
\<close>

theorem hardware_resolution_sound:
  assumes "ResolveAndValidate env i iv = Inr r"
  shows "let c = rs_Content r in
    host_HostID (inv_Host iv) = rr_HostID c
    \<and> (cl_CPU (rr_Resources c) \<longrightarrow> cpu_Threads (inv_CPU iv) \<noteq> 0
        \<and> (case rr_CPUThreads c of None \<Rightarrow> True | Some n \<Rightarrow> n \<le> cpu_Threads (inv_CPU iv)))
    \<and> (cl_DeviceIDs (rr_Resources c) \<noteq> [] \<longrightarrow>
        (\<exists>vendors. Resolve_gpus (env_uni env) (cl_DeviceIDs (rr_Resources c)) iv vendors = Inr (rr_GPUAssignments c)
          \<and> (ri_GPUAssignments i \<noteq> [] \<longrightarrow>
               ValidateStableIdentities (env_uni env) (cl_DeviceIDs (rr_Resources c)) (ri_GPUAssignments i) iv vendors = None)))
    \<and> ResolvedRuntimeHash c = Inr (rs_Hash r)"
proof -
  obtain r0 where r0: "Resolver_Resolve env i = Inr r0"
    and host: "host_HostID (inv_Host iv) = dw_HostID (dw_Content (ri_Workload i))"
    and cpu: "check_cpu i (rs_Content r0) iv = None"
    and bound: "if cl_DeviceIDs (rr_Resources (rs_Content r0)) \<noteq> [] then bind_hardware env i r0 iv = Inr r else r = r0"
    using assms by (auto simp: ResolveAndValidate_def split: sum.splits option.splits if_splits)
  obtain endpoint where c0: "rs_Content r0 = resolved_content i endpoint" "ResolvedRuntimeHash (rs_Content r0) = Inr (rs_Hash r0)"
    using Resolver_ResolveD[OF r0] by metis
  have h: "rr_HostID (rs_Content r0) = dw_HostID (dw_Content (ri_Workload i))"
    by (simp add: c0(1) resolved_content_def Let_def split: prod.split)
  have threads: "cl_CPU (rr_Resources (rs_Content r0)) \<longrightarrow> cpu_Threads (inv_CPU iv) \<noteq> 0
      \<and> (case rr_CPUThreads (rs_Content r0) of None \<Rightarrow> True | Some n \<Rightarrow> n \<le> cpu_Threads (inv_CPU iv))"
    using cpu by (auto simp: check_cpu_def Let_def split: if_splits option.splits)
  show ?thesis
  proof (cases "cl_DeviceIDs (rr_Resources (rs_Content r0)) = []")
    case True
    then show ?thesis using bound c0(2) h host threads by (simp add: Let_def)
  next
    case False
    then obtain as vendors where
      as: "Resolve_gpus (env_uni env) (cl_DeviceIDs (rr_Resources (rs_Content r0))) iv vendors = Inr as"
        "ri_GPUAssignments i \<noteq> [] \<longrightarrow> ValidateStableIdentities (env_uni env)
           (cl_DeviceIDs (rr_Resources (rs_Content r0))) (ri_GPUAssignments i) iv vendors = None"
        "hash_result ''cannot hash hardware-resolved runtime intent''
           ((rs_Content r0)\<lparr>rr_GPUAssignments := as\<rparr>) = Inr r"
      using bound by (auto simp: bind_hardware_def Let_def split: sum.splits option.splits if_splits)
    then have "rs_Content r = (rs_Content r0)\<lparr>rr_GPUAssignments := as\<rparr>"
      "ResolvedRuntimeHash (rs_Content r) = Inr (rs_Hash r)"
      by (auto simp: hash_result_def split: sum.splits)
    then show ?thesis using as(1,2) h host threads by (auto simp: Let_def)
  qed
qed

section \<open>The login user\<close>

lemma str_Count_split:
  assumes "str_Count s p = Suc n" and "p \<noteq> []"
  shows "\<exists>a b. s = a @ p @ b \<and> (\<forall>r. ReplaceFirst s p r = a @ r @ b) \<and> str_Count b p = n"
  using assms
proof (induction s)
  case (Cons c s)
  show ?case
  proof (cases "HasPrefix (c # s) p")
    case True
    obtain q where q: "c # s = p @ q" using True by (auto simp: HasPrefix_iff)
    have d: "drop (length p - 1) s = q"
      using q Cons.prems(2) by (cases p) auto
    have "ReplaceFirst (c # s) p r = [] @ r @ q" for r using True d by simp
    moreover have "str_Count q p = n" using Cons.prems(1) True d by simp
    ultimately show ?thesis using q by (intro exI[of _ "[]"] exI[of _ q]) auto
  next
    case False
    then obtain a b where "s = a @ p @ b" "\<forall>r. ReplaceFirst s p r = a @ r @ b" "str_Count b p = n"
      using Cons by auto
    then show ?thesis using False by (intro exI[of _ "c # a"] exI[of _ b]) auto
  qed
qed simp

text \<open>
  The login user of an endpoint is the template with the wallet address in the place of the one
  \<open>${wallet}\<close> placeholder, for the placements that put no worker into the user; address, TLS and
  password come from the pool, and the worker is passed on exactly for SEPARATE placement.
\<close>

theorem login_user_substitutes:
  assumes "resolveEndpoint pool wallet policy worker = Inr ep"
  shows "\<exists>a b. lp_UserTemplate policy = a @ wallet_placeholder @ b \<and> str_Count b wallet_placeholder = 0
    \<and> (lp_WorkerPlacement policy \<noteq> WorkerInUser \<longrightarrow> ep_User ep = a @ wal_Address wallet @ b)
    \<and> ep_Address ep = pool_Address pool \<and> ep_TLS ep = pool_TLS pool
    \<and> ep_Worker ep = (if lp_WorkerPlacement policy = WorkerSeparate then worker else [])
    \<and> (ep_Password ep = [] \<or> pa_Kind (pool_Auth pool) = PoolAuthPublicLiteral)"
proof -
  have v: "ValidateLoginPolicy policy = None" using assms by (auto simp: resolveEndpoint_def split: option.splits)
  then have one: "str_Count (lp_UserTemplate policy) wallet_placeholder = Suc 0"
    by (simp add: ValidateLoginPolicy_def first_error_None Let_def)
  obtain a b where ab: "lp_UserTemplate policy = a @ wallet_placeholder @ b"
    "\<forall>r. ReplaceFirst (lp_UserTemplate policy) wallet_placeholder r = a @ r @ b"
    "str_Count b wallet_placeholder = 0"
    using str_Count_split[OF one] by (auto simp: wallet_placeholder_def)
  have "ep_User ep = a @ wal_Address wallet @ b" if "lp_WorkerPlacement policy \<noteq> WorkerInUser"
    using assms v that ab(2)
    by (auto simp: resolveEndpoint_def resolve_user_def Let_def split: WorkerPlacement.splits if_splits)
  moreover have "ep_Address ep = pool_Address pool \<and> ep_TLS ep = pool_TLS pool
    \<and> ep_Worker ep = (if lp_WorkerPlacement policy = WorkerSeparate then worker else [])
    \<and> (ep_Password ep = [] \<or> pa_Kind (pool_Auth pool) = PoolAuthPublicLiteral)"
    using assms v by (auto simp: resolveEndpoint_def Let_def split: WorkerPlacement.splits if_splits)
  ultimately show ?thesis using ab by blast
qed

text \<open>
  For IN\_USER placement the second replacement also looks into the substituted address: a valid wallet
  address that contains the text of the worker placeholder captures the worker name, and the
  placeholder of the template stays in the login user.
\<close>

lemma wallet_text_captures_worker:
  assumes "wal_Address wallet = ''a${worker}''"
    and "policy = \<lparr>lp_UserTemplate = ''${wallet}.${worker}'', lp_WorkerPlacement = WorkerInUser\<rparr>"
  shows "\<exists>ep. resolveEndpoint pool wallet policy ''rig'' = Inr ep \<and> ep_User ep = ''arig.${worker}''"
proof -
  have "ValidateLoginPolicy policy = None"
    by (simp add: assms(2) ValidateLoginPolicy_def first_error_None Let_def HasPrefix_def wallet_placeholder_def
        worker_placeholder_def ContainsNul_def ContainsAny_def ascii_valid is_ascii_def)
  then show ?thesis using assms
    by (simp add: resolveEndpoint_def resolve_user_def HasPrefix_def wallet_placeholder_def worker_placeholder_def)
qed

section \<open>A concrete resolution\<close>

definition demo_meta :: ObjectMeta where
  "demo_meta = \<lparr>meta_SchemaVersion = 1, meta_Revision = 1, meta_ContentHash = [], meta_Origin = OriginController,
     meta_CreatedAt = 1, meta_UpdatedAt = 1\<rparr>"

definition demo_package :: PackageRef where
  "demo_package = \<lparr>pr_PackageID = PackageID (demo_id ''package''), pr_Version = ''6''\<rparr>"

definition demo_release :: PackageRelease where
  "demo_release = \<lparr>rel_Ref = demo_package, rel_AdapterIDs = [''xmrig''],
     rel_Tuning = \<lparr>tc_CPUThreads = True, tc_HugePages = True, tc_MSR = True\<rparr>,
     rel_Runtime = \<lparr>rc_CPU = True, rc_GPU = False, rc_MultiGPUSingleProcess = False, rc_GPUVendors = []\<rparr>\<rparr>"

definition demo_env :: Env where
  "demo_env = \<lparr>env_quote = id, env_uni = id,
     env_catalog = Some (Static_Lookup [catalogKey demo_package \<mapsto> demo_release])\<rparr>"

definition demo_profile :: MiningProfile where
  "demo_profile = \<lparr>prof_ProfileID = ProfileID (demo_id ''profile''), prof_Meta = demo_meta,
     prof_Content = \<lparr>prof_Name = ''m'', prof_AdapterID = ''xmrig'', prof_Package = demo_package,
       prof_Mode = ProfileModeMining, prof_Coin = ''xmr'', prof_Algorithm = [],
       prof_PoolID = PoolID (demo_id ''pool''), prof_WalletID = WalletID (demo_id ''wallet''),
       prof_LoginPolicy = \<lparr>lp_UserTemplate = ''${wallet}'', lp_WorkerPlacement = WorkerNone\<rparr>,
       prof_CPUThreads = Some 2, prof_HugePages = None, prof_MSR = None\<rparr>\<rparr>"

definition demo_inputs :: Inputs where
  "demo_inputs = \<lparr>ri_Workload = \<lparr>dw_WorkloadID = WorkloadID (demo_id ''workload''), dw_Meta = demo_meta,
       dw_DesiredGeneration = 1, dw_EffectiveHash = [], dw_Content = demo_content\<rparr>,
     ri_Profile = demo_profile, ri_Settings = None,
     ri_Pool = \<lparr>pool_PoolID = PoolID (demo_id ''pool''), pool_Meta = demo_meta,
       pool_Content = \<lparr>pool_Name = ''p'', pool_Address = ''p:1'', pool_TLS = True,
         pool_Auth = \<lparr>pa_Kind = PoolAuthNone, pa_PublicLiteral = []\<rparr>\<rparr>\<rparr>,
     ri_Wallet = \<lparr>wal_WalletID = WalletID (demo_id ''wallet''), wal_Meta = demo_meta,
       wal_Content = \<lparr>wal_Name = ''w'', wal_Coin = ''xmr'', wal_Address = ''4A''\<rparr>\<rparr>,
     ri_GPUAssignments = []\<rparr>"

definition demo_endpoint :: MiningEndpoint where
  "demo_endpoint = \<lparr>ep_Address = ''p:1'', ep_TLS = True, ep_User = ''4A'', ep_Password = [], ep_Worker = []\<rparr>"

lemmas text_checks = validateName_def validateToken_def TrimSpace_def rune_value_def IsSpace_def
  ContainsNul_def ContainsAny_def first_error_None Let_def

lemma demo_package_ok: "ValidatePackageRef demo_package = None"
  by (simp add: ValidatePackageRef_def demo_package_def demo_id_valid package_id.check_text text_checks)

lemma demo_policy_ok: "ValidateLoginPolicy (prof_LoginPolicy (prof_Content demo_profile)) = None"
  by (simp add: demo_profile_def ValidateLoginPolicy_def text_checks HasPrefix_def wallet_placeholder_def
      worker_placeholder_def)

lemma demo_profile_ok: "ValidateMiningProfile (prof_Content demo_profile) = None"
  using demo_policy_ok demo_package_ok
  by (simp add: ValidateMiningProfile_def demo_profile_def demo_id_valid pool_id.check_text
      wallet_id.check_text text_checks)

lemma demo_pool_ok: "ValidatePool id (pool_Content (ri_Pool demo_inputs)) = None"
  by (simp add: demo_inputs_def ValidatePool_def text_checks validate_address_def SplitHostPort_def
      last_index_def parse_port_def is_digit_def validate_auth_def)

lemma demo_wallet_ok: "ValidateWalletRef (wal_Content (ri_Wallet demo_inputs)) = None"
  by (simp add: demo_inputs_def ValidateWalletRef_def text_checks)

lemma demo_inputs_ok: "validate_inputs demo_env demo_inputs = None"
  using demo_profile_ok demo_pool_ok demo_wallet_ok demo_content_valid
  by (simp add: validate_inputs_def first_error_None demo_env_def demo_inputs_def Let_def)
    (simp add: demo_profile_def demo_content_def)

lemma demo_lookup: "lookup_release demo_env demo_package = Inr demo_release"
  by (simp add: lookup_release_def demo_env_def Static_Lookup_def demo_package_ok)

lemma demo_release_ok: "validate_release demo_env demo_inputs demo_release = None"
  by (simp add: validate_release_def first_error_None demo_inputs_def demo_profile_def demo_release_def
      effectiveTuning_def normalizeAssignments_def validateResourceShape_def demo_content_def
      ValidateTuningCapabilities_def)

lemma demo_endpoint_ok:
  "resolveEndpoint (pool_Content (ri_Pool demo_inputs)) (wal_Content (ri_Wallet demo_inputs))
     (prof_LoginPolicy (prof_Content demo_profile)) [] = Inr demo_endpoint"
  using demo_policy_ok
  by (simp add: resolveEndpoint_def demo_inputs_def demo_profile_def resolve_user_def HasPrefix_def
      wallet_placeholder_def demo_endpoint_def)

lemma demo_resolved: "\<exists>r. Resolver_Resolve demo_env demo_inputs = Inr r \<and> rs_Content r = resolved_content demo_inputs demo_endpoint"
proof -
  have "hashable (ResolvedRuntime_value (resolved_content demo_inputs demo_endpoint))"
    by (simp add: resolved_content_def demo_inputs_def demo_profile_def demo_content_def effectiveTuning_def
        ResolvedRuntime_value_def resourceClaimHashValue_def NormalizeResourceClaim_def package_value_def
        optionalUint32_def optionalBool_def normalizeAssignments_def demo_endpoint_def demo_package_def
        valid_id_utf8[OF demo_id_valid] is_ascii_def)
  from hashable_text[OF this] obtain h where
    h: "ResolvedRuntimeHash (resolved_content demo_inputs demo_endpoint) = Inr h"
    by (auto simp: ResolvedRuntimeHash_def ContentHash_def)
  have "prof_Package (prof_Content (ri_Profile demo_inputs)) = demo_package"
    "ri_Profile demo_inputs = demo_profile" "dw_Worker (dw_Content (ri_Workload demo_inputs)) = []"
    by (simp_all add: demo_inputs_def demo_profile_def demo_content_def)
  then show ?thesis
    using h by (simp add: Resolver_Resolve_def demo_inputs_ok demo_lookup demo_release_ok demo_endpoint_ok hash_result_def)
qed

definition demo_hardware :: Inventory where
  "demo_hardware = demo_inventory\<lparr>inv_Host := (inv_Host demo_inventory)\<lparr>host_HostID := HostID (demo_id ''host'')\<rparr>,
     inv_CPU := (inv_CPU demo_inventory)\<lparr>cpu_Threads := 8\<rparr>\<rparr>"

lemma demo_hardware_resolved:
  "\<exists>r. ResolveAndValidate demo_env demo_inputs demo_hardware = Inr r"
proof -
  obtain r where r: "Resolver_Resolve demo_env demo_inputs = Inr r" "rs_Content r = resolved_content demo_inputs demo_endpoint"
    using demo_resolved by blast
  have "rr_Resources (rs_Content r) = \<lparr>cl_CPU = True, cl_DeviceIDs = []\<rparr>" "rr_CPUThreads (rs_Content r) = Some 2"
    by (simp_all add: r(2) resolved_content_def demo_inputs_def demo_profile_def demo_content_def effectiveTuning_def
        NormalizeResourceClaim_def)
  moreover have "host_HostID (inv_Host demo_hardware) = dw_HostID (dw_Content (ri_Workload demo_inputs))"
    "cpu_Threads (inv_CPU demo_hardware) = 8"
    by (simp_all add: demo_hardware_def demo_inputs_def demo_content_def)
  ultimately show ?thesis using r(1) by (simp add: ResolveAndValidate_def check_cpu_def)
qed

text \<open>The Host has settings: four threads instead of the two of the profile, and the registers.\<close>

definition demo_tuned :: Inputs where
  "demo_tuned = demo_inputs\<lparr>ri_Settings := Some \<lparr>hps_HostID = HostID (demo_id ''host''), hps_ProfileID = ProfileID (demo_id ''profile''),
     hps_Meta = demo_meta, hps_Content = \<lparr>hps_CPUThreads = Some 4, hps_HugePages = None, hps_MSR = Some True\<rparr>\<rparr>\<rparr>"

lemma demo_tuned_ok: "validate_inputs demo_env demo_tuned = None"
  using demo_profile_ok demo_pool_ok demo_wallet_ok demo_content_valid
  by (simp add: validate_inputs_def first_error_None demo_env_def demo_inputs_def demo_tuned_def Let_def ValidateHostProfileSettings_def
      check_with_def require_def host_id.check_text profile_id.check_text)
    (simp add: demo_profile_def demo_content_def demo_id_valid)

lemma demo_tuned_resolved: "\<exists>r. Resolver_Resolve demo_env demo_tuned = Inr r"
proof -
  have "hashable (ResolvedRuntime_value (resolved_content demo_tuned demo_endpoint))"
    by (simp add: resolved_content_def demo_tuned_def demo_inputs_def demo_profile_def demo_content_def effectiveTuning_def override_def
        ResolvedRuntime_value_def resourceClaimHashValue_def NormalizeResourceClaim_def package_value_def
        optionalUint32_def optionalBool_def normalizeAssignments_def demo_endpoint_def demo_package_def
        valid_id_utf8[OF demo_id_valid] is_ascii_def)
  from hashable_text[OF this] obtain h where
    h: "ResolvedRuntimeHash (resolved_content demo_tuned demo_endpoint) = Inr h"
    by (auto simp: ResolvedRuntimeHash_def ContentHash_def)
  have fields: "prof_Package (prof_Content demo_profile) = demo_package" "ri_Pool demo_tuned = ri_Pool demo_inputs"
    "ri_Wallet demo_tuned = ri_Wallet demo_inputs" "ri_Profile demo_tuned = demo_profile" "dw_Worker (dw_Content (ri_Workload demo_tuned)) = []"
    by (simp_all add: demo_tuned_def demo_inputs_def demo_profile_def demo_content_def)
  have "validate_release demo_env demo_tuned demo_release = None"
    by (simp add: validate_release_def first_error_None demo_tuned_def demo_inputs_def demo_profile_def demo_release_def
        effectiveTuning_def override_def normalizeAssignments_def validateResourceShape_def demo_content_def
        ValidateTuningCapabilities_def require_def)
  then show ?thesis
    using h by (simp add: Resolver_Resolve_def demo_tuned_ok demo_lookup fields demo_endpoint_ok hash_result_def)
qed


theorem hardware_resolution_sound_witness:
  "\<exists>r. ResolveAndValidate demo_env demo_inputs demo_hardware = Inr r
     \<and> host_HostID (inv_Host demo_hardware) = rr_HostID (rs_Content r)"
proof -
  obtain r where r: "ResolveAndValidate demo_env demo_inputs demo_hardware = Inr r" using demo_hardware_resolved by blast
  show ?thesis using hardware_resolution_sound[OF r] r by (auto simp: Let_def)
qed

theorem login_user_substitutes_witness:
  "\<exists>a b. ''${wallet}'' = a @ wallet_placeholder @ b \<and> ep_User demo_endpoint = a @ ''4A'' @ b"
  using login_user_substitutes[OF demo_endpoint_ok] by (auto simp: demo_profile_def demo_inputs_def)

end
