(* ===== verification/Farm_Db.thy ===== *)
theory Farm_Db
  imports Farm_Resolve
begin

text \<open>
  The tables of the Controller database and what every operation of \<open>internal/farmconfig\<close> shares:
  transactions with rollback, optimistic revisions, the typed errors, and the validation of every
  row that is read. A table is the list of its rows in insertion order, a row the record of the
  object it stores (identifiers and times are kept as values; that their texts and nanosecond counts
  are read back unchanged is the contract of the database driver). The triggers of the migrations
  that count row changes in \<open>controller_backup_state\<close> are \<open>touch\<close>; SQL statements on existing tables
  do not fail except on the constraints written out. The JSON column of a plan is the plan: its
  strings are valid UTF-8 because the snapshot's hash was computed from them.
\<close>

section \<open>Tables\<close>

record ControllerRestoreRow =
  crr_Required :: bool
  crr_BackupID :: string
  crr_ControllerID :: string
  crr_FarmID :: string
  crr_TrustFingerprint :: string
  crr_RestoredAt :: Time

record DB =
  db_pools :: "Pool list"
  db_wallets :: "WalletRef list"
  db_profiles :: "MiningProfile list"
  db_settings :: "HostProfileSettings list"
  db_workloads :: "DesiredWorkload list"
  db_snapshots :: "ResolvedExecutionSnapshot list"
  db_bindings :: "WorkloadRuntimeBinding list"
  db_holds :: "MaintenanceHold list"
  db_barriers :: "RestoreHostBarrier list"
  db_restore :: ControllerRestoreRow
  db_incidents :: "Incident list"
  db_persistent_revision :: nat

text \<open>\<open>SELECT ... WHERE key=?\<close>, \<open>UPDATE\<close> and \<open>DELETE\<close> of the row with a primary key.\<close>

definition row_of :: "('r \<Rightarrow> 'k) \<Rightarrow> 'k \<Rightarrow> 'r list \<Rightarrow> 'r option" where
  "row_of key k rows = find (\<lambda>r. key r = k) rows"

definition replace_row :: "('r \<Rightarrow> 'k) \<Rightarrow> 'r \<Rightarrow> 'r list \<Rightarrow> 'r list" where
  "replace_row key r rows = map (\<lambda>x. if key x = key r then r else x) rows"

definition remove_row :: "('r \<Rightarrow> 'k) \<Rightarrow> 'k \<Rightarrow> 'r list \<Rightarrow> 'r list" where
  "remove_row key k rows = filter (\<lambda>r. key r \<noteq> k) rows"

definition touch :: "nat \<Rightarrow> DB \<Rightarrow> DB" where
  "touch n db = db\<lparr>db_persistent_revision := db_persistent_revision db + n\<rparr>"

lemma row_of_SomeD: "row_of key k rows = Some r \<Longrightarrow> r \<in> set rows \<and> key r = k"
  by (auto simp: row_of_def dest: find_SomeD)

lemma row_of_None: "row_of key k rows = None \<longleftrightarrow> (\<forall>r\<in>set rows. key r \<noteq> k)"
  by (simp add: row_of_def find_NoneD)

lemma row_of_append [simp]:
  "row_of key k (rows @ [r]) = (case row_of key k rows of Some x \<Rightarrow> Some x | None \<Rightarrow> if key r = k then Some r else None)"
  unfolding row_of_def by (induction rows) auto

lemma row_of_replace:
  "row_of key k (replace_row key r rows) =
     (if k = key r then map_option (\<lambda>_. r) (row_of key k rows) else row_of key k rows)"
  unfolding row_of_def replace_row_def by (induction rows) auto

lemma row_of_remove: "row_of key k (remove_row key j rows) = (if k = j then None else row_of key k rows)"
  unfolding row_of_def remove_row_def by (induction rows) auto

lemma keys_replace [simp]: "map key (replace_row key r rows) = map key rows"
  by (induction rows) (auto simp: replace_row_def)

lemma set_replace: "x \<in> set (replace_row key r rows) \<Longrightarrow> x = r \<or> (x \<in> set rows \<and> key x \<noteq> key r)"
  by (auto simp: replace_row_def)

lemma row_of_unique: "distinct (map key rows) \<Longrightarrow> r \<in> set rows \<Longrightarrow> row_of key (key r) rows = Some r"
  unfolding row_of_def by (induction rows) (auto simp: image_iff)

section \<open>Errors and transactions\<close>

definition typed_cause :: "Code \<Rightarrow> string \<Rightarrow> error option \<Rightarrow> error" where
  "typed_cause code message cause = Typed (mk_error code message
     (case cause of
        None \<Rightarrow> Map.empty
      | Some e \<Rightarrow>
          if snd (CodeOf e) then [''cause_code'' \<mapsto> Code_text (fst (CodeOf e))]
          else [''cause'' \<mapsto> ''underlying operation failed'']))"

definition corrupt :: "string \<Rightarrow> error option \<Rightarrow> error" where
  "corrupt message cause = typed_cause CONFIG_CONFLICT message cause"

definition revisionConflict :: "string \<Rightarrow> uint64 \<Rightarrow> uint64 \<Rightarrow> error" where
  "revisionConflict kind expected current = Typed (mk_error REVISION_CONFLICT (kind @ '' revision changed'')
     [''expected'' \<mapsto> dec_digits (unat expected), ''current'' \<mapsto> dec_digits (unat current)])"

definition not_found :: "string \<Rightarrow> error" where
  "not_found kind = typed_cause NOT_FOUND (kind @ '' was not found'') None"

definition wrapDB :: "string \<Rightarrow> error \<Rightarrow> error" where
  "wrapDB operation e =
     (if snd (CodeOf e) then e
      else typed_cause INTERNAL_ERROR (''farm database operation failed: '' @ operation) (Some e))"

lemma CodeOf_typed_cause [simp]: "CodeOf (typed_cause c m e) = (c, True)"
  by (simp add: typed_cause_def)

lemma CodeOf_corrupt [simp]: "CodeOf (corrupt m e) = (CONFIG_CONFLICT, True)"
  by (simp add: corrupt_def)

lemma CodeOf_revisionConflict [simp]: "CodeOf (revisionConflict k a b) = (REVISION_CONFLICT, True)"
  by (simp add: revisionConflict_def)

text \<open>Sequencing of fallible steps, and the transaction: an error rolls back.\<close>

definition andThen :: "'a result \<Rightarrow> ('a \<Rightarrow> 'b result) \<Rightarrow> 'b result" where
  "andThen r f = (case r of Inl e \<Rightarrow> Inl e | Inr x \<Rightarrow> f x)"

definition guard :: "error option \<Rightarrow> 'b result \<Rightarrow> 'b result" where
  "guard c k = (case c of Some e \<Rightarrow> Inl e | None \<Rightarrow> k)"

definition fail_if :: "bool \<Rightarrow> error \<Rightarrow> error option" where
  "fail_if b e = (if b then Some e else None)"

text \<open>A \<open>CHECK\<close> of the table's declaration that a written row does not meet.\<close>

definition check_row :: "bool \<Rightarrow> error option" where
  "check_row ok = fail_if (\<not> ok) (Plain ''constraint failed'')"

definition map_error :: "(error \<Rightarrow> error) \<Rightarrow> 'a result \<Rightarrow> 'a result" where
  "map_error f r = (case r of Inl e \<Rightarrow> Inl (f e) | Inr x \<Rightarrow> Inr x)"

definition writeTx :: "DB \<Rightarrow> (DB \<times> 'a) result \<Rightarrow> DB \<times> 'a result" where
  "writeTx db body = (case body of Inl e \<Rightarrow> (db, Inl e) | Inr (db', x) \<Rightarrow> (db', Inr x))"

text \<open>The checks a call makes before it opens its transaction.\<close>

definition prepare :: "'a result \<Rightarrow> DB \<Rightarrow> ('a \<Rightarrow> DB \<times> 'b result) \<Rightarrow> DB \<times> 'b result" where
  "prepare r db f = (case r of Inl e \<Rightarrow> (db, Inl e) | Inr x \<Rightarrow> f x)"

definition wrapped :: "string \<Rightarrow> DB \<times> 'a result \<Rightarrow> DB \<times> 'a result" where
  "wrapped operation r = (fst r, map_error (wrapDB operation) (snd r))"

lemma andThen_Inr [simp]: "andThen r f = Inr y \<longleftrightarrow> (\<exists>x. r = Inr x \<and> f x = Inr y)"
  by (auto simp: andThen_def split: sum.split)

lemma andThen_simps [simp]: "andThen (Inr x) f = f x" "andThen (Inl e) f = Inl e"
  by (simp_all add: andThen_def)

lemma guard_Inr [simp]: "guard c k = Inr y \<longleftrightarrow> c = None \<and> k = Inr y"
  by (auto simp: guard_def split: option.split)

lemma fail_if_None [simp]: "fail_if b e = None \<longleftrightarrow> \<not> b"
  by (simp add: fail_if_def)

lemma check_row_None [simp]: "check_row ok = None \<longleftrightarrow> ok"
  by (simp add: check_row_def)

lemma map_error_Inr [simp]: "map_error f r = Inr y \<longleftrightarrow> r = Inr y"
  by (auto simp: map_error_def split: sum.split)

lemma writeTx_Inr [simp]: "writeTx db body = (db', Inr x) \<longleftrightarrow> body = Inr (db', x)"
  by (auto simp: writeTx_def split: sum.splits)

lemma wrapped_Inr [simp]: "wrapped op r = (db', Inr x) \<longleftrightarrow> r = (db', Inr x)"
  by (cases r) (auto simp: wrapped_def)

lemma prepare_Inr [simp]: "prepare r db f = (db', Inr y) \<longleftrightarrow> (\<exists>x. r = Inr x \<and> f x = (db', Inr y))"
  by (auto simp: prepare_def split: sum.split)

lemma prepare_keeps: "P db \<Longrightarrow> (\<And>x. r = Inr x \<Longrightarrow> P (fst (f x))) \<Longrightarrow> P (fst (prepare r db f))"
  by (auto simp: prepare_def split: sum.split)

lemma wrapped_db [simp]: "fst (wrapped op r) = fst r"
  by (simp add: wrapped_def)

text \<open>A transaction leaves the database of its body, or the database it started from.\<close>

lemma writeTx_cases:
  "(fst (writeTx db body) = db \<and> (\<exists>e. snd (writeTx db body) = Inl e \<and> body = Inl e))
   \<or> (\<exists>db' x. body = Inr (db', x) \<and> writeTx db body = (db', Inr x))"
  by (cases body) (auto simp: writeTx_def)

lemma writeTx_keeps:
  "P db \<Longrightarrow> (\<And>db' x. body = Inr (db', x) \<Longrightarrow> P db') \<Longrightarrow> P (fst (writeTx db body))"
  by (auto simp: writeTx_def split: sum.split)

text \<open>What one call of the service is given: the environment of the resolver, the successive readings
  of the clock and the identifiers drawn from entropy.\<close>

record Svc =
  sv_env :: Env
  sv_clock :: "nat \<Rightarrow> Time"
  sv_newPoolID :: "PoolID result"
  sv_newWalletID :: "WalletID result"
  sv_newProfileID :: "ProfileID result"
  sv_newWorkloadID :: "WorkloadID result"
  sv_newExecutionID :: "nat \<Rightarrow> ExecutionID result"

section \<open>Metadata\<close>

definition ObjectSchemaVersion :: uint32 where
  "ObjectSchemaVersion = 1"

definition newMeta :: "Origin \<Rightarrow> string \<Rightarrow> Time \<Rightarrow> ObjectMeta" where
  "newMeta origin hash now = \<lparr>meta_SchemaVersion = ObjectSchemaVersion, meta_Revision = 1,
     meta_ContentHash = hash, meta_Origin = origin, meta_CreatedAt = now, meta_UpdatedAt = now\<rparr>"

definition validateOrigin :: "Origin \<Rightarrow> error option" where
  "validateOrigin origin = fail_if (origin \<noteq> OriginController \<and> origin \<noteq> OriginBuiltin)
     (typed_cause CONFIG_CONFLICT ''invalid object origin'' None)"

definition validateStoredMeta :: "ObjectMeta \<Rightarrow> error option" where
  "validateStoredMeta meta = first_error
     [fail_if (meta_SchemaVersion meta \<noteq> ObjectSchemaVersion)
        (corrupt ''stored object schema version is unsupported'' None),
      fail_if (meta_Revision meta < 1) (corrupt ''stored object revision is invalid'' None),
      (case validateOrigin (meta_Origin meta) of None \<Rightarrow> None
       | Some e \<Rightarrow> Some (corrupt ''stored object origin is invalid'' (Some e))),
      fail_if (IsZero (meta_CreatedAt meta) \<or> IsZero (meta_UpdatedAt meta) \<or> meta_UpdatedAt meta < meta_CreatedAt meta)
        (corrupt ''stored object timestamps are invalid'' None)]"

definition bump_meta :: "string \<Rightarrow> Time \<Rightarrow> ObjectMeta \<Rightarrow> ObjectMeta" where
  "bump_meta hash now meta = meta\<lparr>meta_Revision := meta_Revision meta + 1, meta_ContentHash := hash,
     meta_UpdatedAt := now\<rparr>"

text \<open>A stored hash that is not the hash of the content, with the error of hashing if there is one.\<close>

definition hash_mismatch :: "string result \<Rightarrow> string \<Rightarrow> string \<Rightarrow> error option" where
  "hash_mismatch computed stored message =
     (case computed of
        Inl e \<Rightarrow> Some (corrupt message (Some e))
      | Inr h \<Rightarrow> fail_if (h \<noteq> stored) (corrupt message None))"

definition corrupt_if :: "string \<Rightarrow> error option \<Rightarrow> error option" where
  "corrupt_if message r = (case r of None \<Rightarrow> None | Some e \<Rightarrow> Some (corrupt message (Some e)))"

definition internal_if :: "string \<Rightarrow> error option \<Rightarrow> error option" where
  "internal_if message r =
     (case r of None \<Rightarrow> None | Some e \<Rightarrow> Some (typed_cause INTERNAL_ERROR message (Some e)))"

lemma corrupt_if_None [simp]: "corrupt_if m r = None \<longleftrightarrow> r = None"
  by (simp add: corrupt_if_def split: option.split)

lemma internal_if_None [simp]: "internal_if m r = None \<longleftrightarrow> r = None"
  by (simp add: internal_if_def split: option.split)

lemma hash_mismatch_None [simp]: "hash_mismatch c s m = None \<longleftrightarrow> c = Inr s"
  by (auto simp: hash_mismatch_def split: sum.split)

section \<open>Reading rows\<close>

definition scanPool :: "Svc \<Rightarrow> Pool \<Rightarrow> Pool result" where
  "scanPool sv row = guard (first_error
     [internal_if ''stored PoolID is invalid'' (PoolID_Validate (pool_PoolID row)),
      corrupt_if ''stored Pool content is invalid'' (ValidatePool (env_quote (sv_env sv)) (pool_Content row)),
      hash_mismatch (PoolHash (pool_Content row)) (meta_ContentHash (pool_Meta row))
        ''stored Pool content hash does not match'',
      validateStoredMeta (pool_Meta row)]) (Inr row)"

definition scanWallet :: "WalletRef \<Rightarrow> WalletRef result" where
  "scanWallet row = guard (first_error
     [internal_if ''stored WalletID is invalid'' (WalletID_Validate (wal_WalletID row)),
      corrupt_if ''stored WalletRef content is invalid'' (ValidateWalletRef (wal_Content row)),
      hash_mismatch (WalletRefHash (wal_Content row)) (meta_ContentHash (wal_Meta row))
        ''stored WalletRef content hash does not match'',
      validateStoredMeta (wal_Meta row)]) (Inr row)"

definition scanProfile :: "MiningProfile \<Rightarrow> MiningProfile result" where
  "scanProfile row = guard (let c = prof_Content row in first_error
     [internal_if ''stored ProfileID is invalid'' (ProfileID_Validate (prof_ProfileID row)),
      internal_if ''stored PackageID is invalid'' (PackageID_Validate (pr_PackageID (prof_Package c))),
      internal_if ''stored PoolID is invalid'' (PoolID_Validate (prof_PoolID c)),
      internal_if ''stored WalletID is invalid'' (WalletID_Validate (prof_WalletID c)),
      fail_if (prof_CPUThreads c = Some 0) (corrupt ''stored CPU thread setting is invalid'' None),
      corrupt_if ''stored MiningProfile content is invalid'' (ValidateMiningProfile c),
      hash_mismatch (MiningProfileHash c) (meta_ContentHash (prof_Meta row))
        ''stored MiningProfile content hash does not match'',
      validateStoredMeta (prof_Meta row)]) (Inr row)"

definition scanHostProfileSettings :: "HostProfileSettings \<Rightarrow> HostProfileSettings result" where
  "scanHostProfileSettings row = guard (first_error
     [corrupt_if ''stored HostProfileSettings HostID is invalid'' (HostID_Validate (hps_HostID row)),
      corrupt_if ''stored HostProfileSettings ProfileID is invalid'' (ProfileID_Validate (hps_ProfileID row)),
      fail_if (hps_CPUThreads (hps_Content row) = Some 0)
        (corrupt ''stored HostProfileSettings CPU thread setting is invalid'' None),
      corrupt_if ''stored HostProfileSettings content is invalid''
        (ValidateHostProfileSettings (hps_HostID row) (hps_ProfileID row) (hps_Content row)),
      hash_mismatch (HostProfileSettingsHash (hps_Content row)) (meta_ContentHash (hps_Meta row))
        ''stored HostProfileSettings content hash does not match'',
      validateStoredMeta (hps_Meta row)]) (Inr row)"

definition validResolvedHash :: "string \<Rightarrow> bool" where
  "validResolvedHash value \<longleftrightarrow> HasPrefix value ''sha256:'' \<and> length value = 7 + 64
     \<and> map ascii_lower (TrimPrefix value ''sha256:'') = TrimPrefix value ''sha256:''
     \<and> hex_decodable (TrimPrefix value ''sha256:'')"

text \<open>The columns of a workload row, then its devices (ordered by identifier) and the content checks.\<close>

definition scanWorkload :: "DesiredWorkload \<Rightarrow> error option" where
  "scanWorkload row = first_error
     [corrupt_if ''stored WorkloadID is invalid'' (WorkloadID_Validate (dw_WorkloadID row)),
      corrupt_if ''stored workload HostID is invalid'' (HostID_Validate (dw_HostID (dw_Content row))),
      corrupt_if ''stored workload ProfileID is invalid'' (ProfileID_Validate (dw_ProfileID (dw_Content row)))]"

definition loadDevices :: "string \<Rightarrow> DeviceID list \<Rightarrow> error option" where
  "loadDevices message devices =
     first_error (map (\<lambda>d. corrupt_if message (DeviceID_Validate d)) (sort devices))"

definition normalize_workload :: "DesiredWorkload \<Rightarrow> DesiredWorkload" where
  "normalize_workload w = w\<lparr>dw_Content := (dw_Content w)\<lparr>dw_Resources := NormalizeResourceClaim (dw_Resources (dw_Content w))\<rparr>\<rparr>"

definition validateLoadedWorkload :: "DesiredWorkload \<Rightarrow> DesiredWorkload result" where
  "validateLoadedWorkload row =
     (let w = normalize_workload row
      in guard (first_error
        [corrupt_if ''stored DesiredWorkload content is invalid'' (ValidateDesiredWorkload (dw_Content w)),
         hash_mismatch (DesiredWorkloadHash (dw_Content w)) (meta_ContentHash (dw_Meta w))
           ''stored DesiredWorkload content hash does not match'',
         validateStoredMeta (dw_Meta w),
         fail_if (dw_DesiredGeneration w < 1 \<or> \<not> validResolvedHash (dw_EffectiveHash w))
           (corrupt ''stored DesiredWorkload generation association is invalid'' None)]) (Inr w))"

definition loadWorkloadTx :: "DB \<Rightarrow> WorkloadID \<Rightarrow> DesiredWorkload result" where
  "loadWorkloadTx db i =
     (case row_of dw_WorkloadID i (db_workloads db) of
        None \<Rightarrow> Inl (not_found ''DesiredWorkload'')
      | Some row \<Rightarrow> guard (scanWorkload row)
          (guard (loadDevices ''stored workload DeviceID is invalid'' (cl_DeviceIDs (dw_Resources (dw_Content row))))
            (validateLoadedWorkload row)))"

section \<open>Snapshots\<close>

fun MinerMode_profile :: "MinerMode \<Rightarrow> ProfileMode" where
  "MinerMode_profile MinerModeMining = ProfileModeMining"
| "MinerMode_profile MinerModeStress = ProfileModeOther ''STRESS''"
| "MinerMode_profile MinerModeBenchmark = ProfileModeOther ''BENCHMARK''"
| "MinerMode_profile (MinerModeOther s) = ProfileModeOther s"

text \<open>The content that the immutable plan of a snapshot stands for.\<close>

definition snapshot_content :: "ResolvedExecutionSnapshot \<Rightarrow> MinerSpec \<Rightarrow> MiningEndpoint \<Rightarrow> ResolvedRuntimeContent" where
  "snapshot_content s m endpoint = \<lparr>rr_RunState = DesiredRunning, rr_HostID = sn_HostID s,
     rr_ProfileID = sn_ProfileID s, rr_Resources = sn_Resources s, rr_GPUAssignments = ms_GPUAssignments m,
     rr_AdapterID = ms_AdapterID m, rr_Package = sn_Package s, rr_Mode = MinerMode_profile (ms_Mode m),
     rr_Coin = ms_Coin m, rr_Algorithm = ms_Algorithm m, rr_Endpoint = endpoint,
     rr_CPUThreads = ms_CPUThreads m, rr_HugePages = ms_HugePages m, rr_MSR = ms_MSR m\<rparr>"

definition plan_matches :: "ResolvedExecutionSnapshot \<Rightarrow> MinerSpec \<Rightarrow> bool" where
  "plan_matches s m \<longleftrightarrow>
     (let p = sn_Plan s; ow = pl_Ownership p; ds = cl_DeviceIDs (sn_Resources s)
      in WorkloadOwnership_Validate ow = None \<and> ow_WorkloadID ow = sn_WorkloadID s
       \<and> ow_DesiredGeneration ow = sn_DesiredGeneration s \<and> ow_ResolvedHash ow = sn_ResolvedHash s
       \<and> ow_HostID ow = sn_HostID s \<and> ow_CPU ow = cl_CPU (sn_Resources s) \<and> ow_DeviceIDs ow = ds
       \<and> pl_SchemaVersion p = CurrentSchemaVersion \<and> pl_ExecutionID p = sn_ExecutionID s
       \<and> pl_HostID p = sn_HostID s \<and> pl_ProfileID p = sn_ProfileID s \<and> pl_Executable p = []
       \<and> pl_Args p = [] \<and> pl_Environment p = Map.empty \<and> pl_WorkingDirectory p = []
       \<and> pl_RestartPolicy p = RestartOnFailure \<and> ms_SpecVersion m = 1 \<and> ms_Mode m = MinerModeMining
       \<and> ms_Options m = Map.empty \<and> ms_PackageID m = pr_PackageID (sn_Package s)
       \<and> ms_PackageVersion m = pr_Version (sn_Package s) \<and> ms_PoolID m = Some (sn_PoolID s)
       \<and> ms_WalletID m = Some (sn_WalletID s) \<and> pl_CPUThreads p = ms_CPUThreads m
       \<and> pl_DeviceIDs p = ds \<and> ms_GPUDeviceIDs m = ds)"

definition validateSnapshot :: "unicode_case \<Rightarrow> ResolvedExecutionSnapshot \<Rightarrow> error option" where
  "validateSnapshot uni s = first_error
     [fail_if (sn_DesiredGeneration s < 1 \<or> sn_ProfileRevision s < 1 \<or> sn_PoolRevision s < 1
          \<or> sn_WalletRevision s < 1 \<or> IsZero (sn_CreatedAt s) \<or> sn_ResolvedHash s = [])
        (corrupt ''snapshot provenance is invalid'' None),
      corrupt_if ''snapshot resource claim is invalid'' (ValidateResourceClaim (sn_Resources s)),
      (case pl_Miner (sn_Plan s) of
         Some m \<Rightarrow>
           if ms_GPUAssignments m \<noteq> []
           then corrupt_if ''snapshot GPU assignments are invalid''
             (ValidateBindings uni (cl_DeviceIDs (sn_Resources s)) (ms_GPUAssignments m))
           else None
       | None \<Rightarrow> None),
      (let mismatch = corrupt ''snapshot ExecutionPlan identity does not match provenance'' None
       in case pl_Miner (sn_Plan s) of
         None \<Rightarrow> Some mismatch
       | Some m \<Rightarrow>
           (case ms_Endpoint m of
              None \<Rightarrow> Some mismatch
            | Some endpoint \<Rightarrow>
                if \<not> plan_matches s m then Some mismatch
                else hash_mismatch (ResolvedRuntimeHash (snapshot_content s m endpoint)) (sn_ResolvedHash s)
                  ''snapshot resolved hash does not match immutable plan''))]"

definition scanSnapshot :: "ResolvedExecutionSnapshot \<Rightarrow> error option" where
  "scanSnapshot s = first_error
     [corrupt_if ''snapshot WorkloadID is invalid'' (WorkloadID_Validate (sn_WorkloadID s)),
      corrupt_if ''snapshot ExecutionID is invalid'' (ExecutionID_Validate (sn_ExecutionID s)),
      corrupt_if ''snapshot HostID is invalid'' (HostID_Validate (sn_HostID s)),
      corrupt_if ''snapshot ProfileID is invalid'' (ProfileID_Validate (sn_ProfileID s)),
      corrupt_if ''snapshot PoolID is invalid'' (PoolID_Validate (sn_PoolID s)),
      corrupt_if ''snapshot WalletID is invalid'' (WalletID_Validate (sn_WalletID s)),
      corrupt_if ''snapshot PackageID is invalid'' (PackageID_Validate (pr_PackageID (sn_Package s)))]"

definition load_snapshot :: "Svc \<Rightarrow> ResolvedExecutionSnapshot \<Rightarrow> ResolvedExecutionSnapshot result" where
  "load_snapshot sv row =
     (let s = row\<lparr>sn_Resources := NormalizeResourceClaim (sn_Resources row)\<rparr>
      in guard (scanSnapshot row)
        (guard (loadDevices ''stored snapshot DeviceID is invalid'' (cl_DeviceIDs (sn_Resources row)))
          (guard (validateSnapshot (env_uni (sv_env sv)) s) (Inr s))))"

definition snapshot_key :: "ResolvedExecutionSnapshot \<Rightarrow> WorkloadID \<times> uint64" where
  "snapshot_key s = (sn_WorkloadID s, sn_DesiredGeneration s)"

definition getSnapshot :: "Svc \<Rightarrow> DB \<Rightarrow> WorkloadID \<Rightarrow> uint64 \<Rightarrow> ResolvedExecutionSnapshot result" where
  "getSnapshot sv db i generation =
     (case row_of snapshot_key (i, generation) (db_snapshots db) of
        None \<Rightarrow> Inl (not_found ''ResolvedExecutionSnapshot'')
      | Some row \<Rightarrow> load_snapshot sv row)"

text \<open>The insertion checks the snapshot; the primary key and the unique execution identifier are the
  constraints of the table.\<close>

definition insertResolvedSnapshot :: "Svc \<Rightarrow> DB \<Rightarrow> ResolvedExecutionSnapshot \<Rightarrow> DB result" where
  "insertResolvedSnapshot sv db s =
     guard (validateSnapshot (env_uni (sv_env sv)) s)
       (if list_ex (\<lambda>r. snapshot_key r = snapshot_key s \<or> sn_ExecutionID r = sn_ExecutionID s) (db_snapshots db)
        then Inl (Plain ''constraint failed'')
        else Inr (touch (1 + length (cl_DeviceIDs (sn_Resources s))) (db\<lparr>db_snapshots := db_snapshots db @ [s]\<rparr>)))"

end
