(* ===== verification/Workload_Store.thy ===== *)
theory Workload_Store
  imports Farm_Db
begin

text \<open>
  \<open>internal/farmconfig/workloads.go\<close>: desired workloads, their generations and the append-only table of
  resolved execution snapshots. Every operation is one transaction; \<open>sv\<close> carries what the call draws
  from outside (clock, fresh identifiers, catalog).
\<close>

section \<open>Resolution against the tables\<close>

definition latest_generation :: "DB \<Rightarrow> WorkloadID \<Rightarrow> uint64 option" where
  "latest_generation db i =
     (case map sn_DesiredGeneration (filter (\<lambda>s. sn_WorkloadID s = i) (db_snapshots db)) of
        [] \<Rightarrow> None | g # gs \<Rightarrow> Some (foldl max g gs))"

definition latestGPUAssignments :: "Svc \<Rightarrow> DB \<Rightarrow> DesiredWorkload \<Rightarrow> GPUAssignment list result" where
  "latestGPUAssignments sv db w =
     (let claim = dw_Resources (dw_Content w)
      in if cl_DeviceIDs claim = [] then Inr []
         else case latest_generation db (dw_WorkloadID w) of
           None \<Rightarrow> Inr []
         | Some g \<Rightarrow>
             andThen (getSnapshot sv db (dw_WorkloadID w) g) (\<lambda>s. Inr
               (case pl_Miner (sn_Plan s) of
                  None \<Rightarrow> []
                | Some m \<Rightarrow>
                    if cl_DeviceIDs (sn_Resources s) \<noteq> cl_DeviceIDs (NormalizeResourceClaim claim) then []
                    else ms_GPUAssignments m)))"

definition fetch :: "string \<Rightarrow> 'r option \<Rightarrow> ('r \<Rightarrow> 'r result) \<Rightarrow> 'r result" where
  "fetch kind row scan = (case row of None \<Rightarrow> Inl (not_found kind) | Some r \<Rightarrow> scan r)"

definition unavailable :: "string \<Rightarrow> error \<Rightarrow> error" where
  "unavailable message e = typed_cause INVALID_REFERENCE message (Some e)"

definition missing_as_reference :: "string \<Rightarrow> error \<Rightarrow> error" where
  "missing_as_reference message e =
     (if fst (CodeOf e) = NOT_FOUND then typed_cause INVALID_REFERENCE message None else e)"

definition load_settings :: "DB \<Rightarrow> HostID \<Rightarrow> ProfileID \<Rightarrow> HostProfileSettings option result" where
  "load_settings db host profile =
     (case row_of (\<lambda>r. (hps_HostID r, hps_ProfileID r)) (host, profile) (db_settings db) of
        None \<Rightarrow> Inr None
      | Some row \<Rightarrow> andThen (scanHostProfileSettings row) (\<lambda>s. Inr (Some s)))"

definition resolve_inputs :: "Svc \<Rightarrow> DB \<Rightarrow> DesiredWorkload \<Rightarrow> Inputs result" where
  "resolve_inputs sv db w =
     andThen (map_error (missing_as_reference ''DesiredWorkload references a missing MiningProfile'')
       (fetch ''MiningProfile'' (row_of prof_ProfileID (dw_ProfileID (dw_Content w)) (db_profiles db)) scanProfile))
     (\<lambda>profile. andThen (map_error (unavailable ''MiningProfile references an unavailable Pool'')
       (fetch ''Pool'' (row_of pool_PoolID (prof_PoolID (prof_Content profile)) (db_pools db)) (scanPool sv)))
     (\<lambda>pool. andThen (map_error (unavailable ''MiningProfile references an unavailable WalletRef'')
       (fetch ''WalletRef'' (row_of wal_WalletID (prof_WalletID (prof_Content profile)) (db_wallets db)) scanWallet))
     (\<lambda>wallet. andThen (load_settings db (dw_HostID (dw_Content w)) (prof_ProfileID profile))
     (\<lambda>settings. andThen (latestGPUAssignments sv db w)
     (\<lambda>assignments. Inr \<lparr>ri_Workload = w, ri_Profile = profile, ri_Settings = settings, ri_Pool = pool,
        ri_Wallet = wallet, ri_GPUAssignments = assignments\<rparr>)))))"

definition resolveWorkload :: "Svc \<Rightarrow> DB \<Rightarrow> DesiredWorkload \<Rightarrow> (Inputs \<times> Result) result" where
  "resolveWorkload sv db w =
     andThen (resolve_inputs sv db w) (\<lambda>i. andThen (Resolver_Resolve (sv_env sv) i) (\<lambda>r. Inr (i, r)))"

definition configurationSnapshotReady :: "ResolvedRuntimeContent \<Rightarrow> bool" where
  "configurationSnapshotReady content \<longleftrightarrow> cl_DeviceIDs (rr_Resources content) = []"

definition fresh_execution :: "DB \<Rightarrow> ExecutionID result \<Rightarrow> ExecutionID result" where
  "fresh_execution db new =
     (case new of
        Inl e \<Rightarrow> Inl (typed_cause INTERNAL_ERROR ''cannot generate ExecutionID'' (Some e))
      | Inr x \<Rightarrow>
          if list_ex (\<lambda>s. sn_ExecutionID s = x) (db_snapshots db)
          then Inl (typed_cause ALREADY_EXISTS ''ExecutionID already exists'' None) else Inr x)"

definition createSnapshot ::
  "Svc \<Rightarrow> nat \<Rightarrow> DB \<Rightarrow> Inputs \<Rightarrow> Result \<Rightarrow> uint64 \<Rightarrow> Time \<Rightarrow> DB result" where
  "createSnapshot sv n db i r generation created =
     andThen (fresh_execution db (sv_newExecutionID sv n))
       (\<lambda>x. andThen (Resolver_Snapshot r i x generation created) (insertResolvedSnapshot sv db))"

section \<open>Resource conflicts\<close>

definition running_on :: "HostID \<Rightarrow> WorkloadID \<Rightarrow> DesiredWorkload \<Rightarrow> bool" where
  "running_on host exclude w \<longleftrightarrow> dw_HostID (dw_Content w) = host
     \<and> dw_RunState (dw_Content w) = DesiredRunning \<and> dw_WorkloadID w \<noteq> exclude"

definition checkResourceConflict :: "DB \<Rightarrow> DesiredWorkload \<Rightarrow> WorkloadID \<Rightarrow> error option" where
  "checkResourceConflict db candidate exclude =
     (let c = dw_Content candidate;
          others = filter (running_on (dw_HostID c) exclude) (db_workloads db)
      in if dw_RunState c \<noteq> DesiredRunning then None
         else if cl_CPU (dw_Resources c) \<and> list_ex (\<lambda>w. cl_CPU (dw_Resources (dw_Content w))) others
         then Some (typed_cause CONFIG_CONFLICT ''another RUNNING workload claims this Host CPU'' None)
         else if list_ex (\<lambda>d. list_ex (\<lambda>w. d \<in> set (cl_DeviceIDs (dw_Resources (dw_Content w)))) others)
                (cl_DeviceIDs (dw_Resources c))
         then Some (typed_cause CONFIG_CONFLICT ''another RUNNING workload claims this DeviceID'' None)
         else None)"

section \<open>Workloads\<close>

definition no_workload :: WorkloadID where
  "no_workload = WorkloadID []"

definition device_rows :: "DesiredWorkload \<Rightarrow> nat" where
  "device_rows w = length (cl_DeviceIDs (dw_Resources (dw_Content w)))"

definition normalize_content :: "DesiredWorkloadContent \<Rightarrow> DesiredWorkloadContent" where
  "normalize_content c = c\<lparr>dw_Resources := NormalizeResourceClaim (dw_Resources c)\<rparr>"

definition snapshot_if_ready ::
  "Svc \<Rightarrow> nat \<Rightarrow> DB \<Rightarrow> DesiredWorkload \<Rightarrow> Inputs \<Rightarrow> Result \<Rightarrow> Time \<Rightarrow> DB result" where
  "snapshot_if_ready sv n db w i r created =
     (if dw_RunState (dw_Content w) = DesiredRunning \<and> configurationSnapshotReady (rs_Content r)
      then createSnapshot sv n db i r (dw_DesiredGeneration w) created else Inr db)"

definition insert_workload :: "Svc \<Rightarrow> DB \<Rightarrow> DesiredWorkload \<Rightarrow> Time \<Rightarrow> (DB \<times> DesiredWorkload) result" where
  "insert_workload sv db w now =
     guard (fail_if (row_of dw_WorkloadID (dw_WorkloadID w) (db_workloads db) \<noteq> None)
       (typed_cause ALREADY_EXISTS ''WorkloadID already exists'' None))
     (guard (checkResourceConflict db w no_workload)
     (andThen (resolveWorkload sv db w) (\<lambda>(i, r).
       let w' = w\<lparr>dw_EffectiveHash := rs_Hash r\<rparr>;
           db' = touch (1 + device_rows w') (db\<lparr>db_workloads := db_workloads db @ [w']\<rparr>)
       in andThen (snapshot_if_ready sv 0 db' w' i r now) (\<lambda>db''. Inr (db'', w')))))"

definition CreateDesiredWorkload ::
  "Svc \<Rightarrow> DesiredWorkloadContent \<Rightarrow> DB \<Rightarrow> DB \<times> DesiredWorkload result" where
  "CreateDesiredWorkload sv content0 db =
     (let content = normalize_content content0; now = sv_clock sv 0
      in case ValidateDesiredWorkload content of
        Some e \<Rightarrow> (db, Inl e)
      | None \<Rightarrow> (case sv_newWorkloadID sv of
          Inl e \<Rightarrow> (db, Inl (typed_cause INTERNAL_ERROR ''cannot generate WorkloadID'' (Some e)))
        | Inr i \<Rightarrow> (case DesiredWorkloadHash content of
            Inl e \<Rightarrow> (db, Inl (typed_cause INTERNAL_ERROR ''cannot hash DesiredWorkload'' (Some e)))
          | Inr hash \<Rightarrow> wrapped ''create DesiredWorkload'' (writeTx db
              (insert_workload sv db \<lparr>dw_WorkloadID = i, dw_Meta = newMeta OriginController hash now,
                 dw_DesiredGeneration = 1, dw_EffectiveHash = [], dw_Content = content\<rparr> now)))))"

definition GetDesiredWorkload :: "WorkloadID \<Rightarrow> DB \<Rightarrow> DesiredWorkload result" where
  "GetDesiredWorkload i db =
     guard (case WorkloadID_Validate i of None \<Rightarrow> None
            | Some e \<Rightarrow> Some (typed_cause CONFIG_CONFLICT ''invalid WorkloadID'' (Some e)))
       (case row_of dw_WorkloadID i (db_workloads db) of
          None \<Rightarrow> Inl (not_found ''DesiredWorkload'')
        | Some row \<Rightarrow> guard (scanWorkload row)
            (guard (map_option (wrapDB ''load DesiredWorkload resources'')
                (loadDevices ''stored workload DeviceID is invalid'' (cl_DeviceIDs (dw_Resources (dw_Content row)))))
              (validateLoadedWorkload row)))"

fun traverse :: "('a \<Rightarrow> 'b result) \<Rightarrow> 'a list \<Rightarrow> 'b list result" where
  "traverse f [] = Inr []"
| "traverse f (x # xs) = andThen (f x) (\<lambda>y. andThen (traverse f xs) (\<lambda>ys. Inr (y # ys)))"

lemma traverse_Inr: "traverse f xs = Inr ys \<longleftrightarrow> list_all2 (\<lambda>x y. f x = Inr y) xs ys"
  by (induction xs arbitrary: ys) (auto simp: list_all2_Cons1)

definition ListDesiredWorkloads :: "DB \<Rightarrow> DesiredWorkload list result" where
  "ListDesiredWorkloads db =
     (let rows = sort_key dw_WorkloadID (db_workloads db)
      in guard (first_error (map scanWorkload rows))
        (traverse (\<lambda>row. guard (map_option (wrapDB ''load DesiredWorkload resources'')
            (loadDevices ''stored workload DeviceID is invalid'' (cl_DeviceIDs (dw_Resources (dw_Content row)))))
          (validateLoadedWorkload row)) rows))"

text \<open>\<open>UPDATE desired_workloads\<close> of one row, under the checks of the table.\<close>

definition store_workload :: "DesiredWorkload \<Rightarrow> DB \<Rightarrow> DB result" where
  "store_workload w db =
     guard (check_row (meta_Revision (dw_Meta w) > 0 \<and> dw_DesiredGeneration w > 0))
       (Inr (touch 1 (db\<lparr>db_workloads := replace_row dw_WorkloadID w (db_workloads db)\<rparr>)))"

definition change_workload ::
  "Svc \<Rightarrow> DB \<Rightarrow> WorkloadID \<Rightarrow> uint64 \<Rightarrow> DesiredWorkloadContent \<Rightarrow> string \<Rightarrow> (DB \<times> DesiredWorkload) result" where
  "change_workload sv db i expected content hash =
     andThen (loadWorkloadTx db i) (\<lambda>current.
     guard (fail_if (meta_Revision (dw_Meta current) \<noteq> expected)
       (revisionConflict ''DesiredWorkload'' expected (meta_Revision (dw_Meta current))))
     (guard (fail_if (dw_HostID content \<noteq> dw_HostID (dw_Content current))
       (typed_cause CONFIG_CONFLICT
          ''DesiredWorkload HostID is immutable; retire it before targeting another Host'' None))
     (if meta_ContentHash (dw_Meta current) = hash then Inr (db, current)
      else
        let now = sv_clock sv 0;
            updated = current\<lparr>dw_Content := content, dw_Meta := bump_meta hash now (dw_Meta current)\<rparr>
        in guard (checkResourceConflict db updated i)
          (andThen (resolveWorkload sv db updated) (\<lambda>(inputs, r).
            let changed = rs_Hash r \<noteq> dw_EffectiveHash current;
                w = (if changed then updated\<lparr>dw_DesiredGeneration := dw_DesiredGeneration updated + 1,
                       dw_EffectiveHash := rs_Hash r\<rparr> else updated)
            in andThen (store_workload w (touch (device_rows current + device_rows w) db)) (\<lambda>db'.
               andThen (if changed then snapshot_if_ready sv 0 db' w inputs r now else Inr db')
                 (\<lambda>db''. Inr (db'', w))))))))"

definition invalid_workload_id :: "WorkloadID \<Rightarrow> error option" where
  "invalid_workload_id i = (case WorkloadID_Validate i of None \<Rightarrow> None
     | Some e \<Rightarrow> Some (typed_cause CONFIG_CONFLICT ''invalid WorkloadID'' (Some e)))"

definition UpdateDesiredWorkload ::
  "Svc \<Rightarrow> WorkloadID \<Rightarrow> uint64 \<Rightarrow> DesiredWorkloadContent \<Rightarrow> DB \<Rightarrow> DB \<times> DesiredWorkload result" where
  "UpdateDesiredWorkload sv i expected content0 db =
     (let content = normalize_content content0
      in case first_error [invalid_workload_id i, ValidateDesiredWorkload content] of
        Some e \<Rightarrow> (db, Inl e)
      | None \<Rightarrow> (case DesiredWorkloadHash content of
          Inl e \<Rightarrow> (db, Inl (typed_cause INTERNAL_ERROR ''cannot hash DesiredWorkload'' (Some e)))
        | Inr hash \<Rightarrow> wrapped ''update DesiredWorkload''
            (writeTx db (change_workload sv db i expected content hash))))"

section \<open>Deletion\<close>

definition resolves :: "WorkloadID \<Rightarrow> Incident \<Rightarrow> bool" where
  "resolves i x \<longleftrightarrow> ic_WorkloadID (in_Condition x) = Some i \<and> in_State x = IncidentActive"

definition resolveDeletedWorkloadIncidentsTx :: "Svc \<Rightarrow> WorkloadID \<Rightarrow> DB \<Rightarrow> DB" where
  "resolveDeletedWorkloadIncidentsTx sv i db =
     (let now = sv_clock sv 0
      in touch (length (filter (resolves i) (db_incidents db)))
        (db\<lparr>db_incidents := map (\<lambda>x. if resolves i x
           then x\<lparr>in_State := IncidentResolved, in_LastObservedAt := now, in_ResolvedAt := Some now\<rparr> else x)
           (db_incidents db)\<rparr>))"

text \<open>Devices and the binding of the workload are deleted with it (\<open>ON DELETE CASCADE\<close>).\<close>

definition delete_workload_row :: "DB \<Rightarrow> DesiredWorkload \<Rightarrow> DB" where
  "delete_workload_row db w =
     (let i = dw_WorkloadID w
      in touch (1 + device_rows w + length (filter (\<lambda>b. rb_WorkloadID b = i) (db_bindings db)))
        (db\<lparr>db_workloads := remove_row dw_WorkloadID i (db_workloads db),
            db_bindings := remove_row rb_WorkloadID i (db_bindings db)\<rparr>))"

definition DeleteDesiredWorkload :: "Svc \<Rightarrow> WorkloadID \<Rightarrow> uint64 \<Rightarrow> DB \<Rightarrow> DB \<times> unit result" where
  "DeleteDesiredWorkload sv i expected db =
     (case invalid_workload_id i of
        Some e \<Rightarrow> (db, Inl e)
      | None \<Rightarrow> wrapped ''delete DesiredWorkload'' (writeTx db
          (andThen (loadWorkloadTx db i) (\<lambda>current.
            guard (fail_if (meta_Revision (dw_Meta current) \<noteq> expected)
              (revisionConflict ''DesiredWorkload'' expected (meta_Revision (dw_Meta current))))
            (guard (fail_if (dw_RunState (dw_Content current) \<noteq> DesiredStopped
                \<or> list_ex (\<lambda>s. sn_WorkloadID s = i) (db_snapshots db))
              (typed_cause REFERENCE_IN_USE
                ''DesiredWorkload may still own a runtime execution; fresh retirement proof is required'' None))
            (Inr (delete_workload_row (resolveDeletedWorkloadIncidentsTx sv i db) current, ())))))))"

definition FinalizeRetiredDesiredWorkloadDeletion ::
  "Svc \<Rightarrow> WorkloadID \<Rightarrow> uint64 \<Rightarrow> DB \<Rightarrow> DB \<times> unit result" where
  "FinalizeRetiredDesiredWorkloadDeletion sv i expected db =
     (case invalid_workload_id i of
        Some e \<Rightarrow> (db, Inl e)
      | None \<Rightarrow> wrapped ''finalize retired DesiredWorkload deletion'' (writeTx db
          (andThen (loadWorkloadTx db i) (\<lambda>current.
            guard (fail_if (meta_Revision (dw_Meta current) \<noteq> expected)
              (revisionConflict ''DesiredWorkload'' expected (meta_Revision (dw_Meta current))))
            (guard (fail_if (dw_RunState (dw_Content current) \<noteq> DesiredStopped)
              (typed_cause REFERENCE_IN_USE ''DesiredWorkload must be STOPPED before deletion'' None))
            (Inr (delete_workload_row (resolveDeletedWorkloadIncidentsTx sv i db) current, ())))))))"

section \<open>The safety latch\<close>

definition latch :: "WorkloadRuntimeBinding \<Rightarrow> WorkloadRuntimeBinding list \<Rightarrow> WorkloadRuntimeBinding list" where
  "latch b rows = (if row_of rb_WorkloadID (rb_WorkloadID b) rows = None then rows @ [b]
     else replace_row rb_WorkloadID b rows)"

definition BlockDesiredGeneration ::
  "Svc \<Rightarrow> WorkloadID \<Rightarrow> uint64 \<Rightarrow> Code \<Rightarrow> string \<Rightarrow> DB \<Rightarrow> DB \<times> unit result" where
  "BlockDesiredGeneration sv i generation code message db =
     (if WorkloadID_Validate i \<noteq> None \<or> generation < 1 \<or> code = NoCode
      then (db, Inl (typed_cause CONFIG_CONFLICT ''invalid blocked workload generation'' (WorkloadID_Validate i)))
      else wrapped ''block DesiredWorkload generation'' (writeTx db
        (andThen (loadWorkloadTx db i) (\<lambda>w.
          if dw_RunState (dw_Content w) \<noteq> DesiredRunning \<or> dw_DesiredGeneration w \<noteq> generation
          then Inr (db, ())
          else Inr (touch 1 (db\<lparr>db_bindings := latch \<lparr>rb_WorkloadID = i, rb_BlockedGeneration = generation,
            rb_ErrorCode = code, rb_HumanMessage = message, rb_BlockedAt = sv_clock sv 0\<rparr>
            (db_bindings db)\<rparr>), ())))))"

text \<open>1970-01-01: the origin of \<open>UnixNano\<close>.\<close>

definition unix_epoch :: Time where
  "unix_epoch = 62135596800 * 10 ^ 9"

definition GetWorkloadRuntimeBinding :: "WorkloadID \<Rightarrow> DB \<Rightarrow> WorkloadRuntimeBinding option result" where
  "GetWorkloadRuntimeBinding i db = guard (invalid_workload_id i)
     (case row_of rb_WorkloadID i (db_bindings db) of
        None \<Rightarrow> Inr None
      | Some b \<Rightarrow>
          if rb_BlockedGeneration b < 1 \<or> rb_ErrorCode b = NoCode \<or> rb_BlockedAt b \<le> unix_epoch
          then Inl (corrupt ''stored workload runtime binding is invalid'' None) else Inr (Some b))"

definition retried_snapshot :: "ResolvedExecutionSnapshot \<Rightarrow> uint64 \<Rightarrow> ExecutionID \<Rightarrow> Time \<Rightarrow> ResolvedExecutionSnapshot" where
  "retried_snapshot s generation x now =
     s\<lparr>sn_DesiredGeneration := generation, sn_ExecutionID := x, sn_CreatedAt := now,
       sn_Plan := (sn_Plan s)\<lparr>pl_ExecutionID := x,
         pl_Ownership := (pl_Ownership (sn_Plan s))\<lparr>ow_DesiredGeneration := generation\<rparr>\<rparr>\<rparr>"

definition RetryWorkload :: "Svc \<Rightarrow> WorkloadID \<Rightarrow> uint64 \<Rightarrow> DB \<Rightarrow> DB \<times> DesiredWorkload result" where
  "RetryWorkload sv i expected db =
     (case invalid_workload_id i of
        Some e \<Rightarrow> (db, Inl e)
      | None \<Rightarrow> wrapped ''retry DesiredWorkload'' (writeTx db
          (andThen (loadWorkloadTx db i) (\<lambda>w.
            guard (fail_if (meta_Revision (dw_Meta w) \<noteq> expected)
              (revisionConflict ''DesiredWorkload'' expected (meta_Revision (dw_Meta w))))
            (guard (fail_if (dw_RunState (dw_Content w) \<noteq> DesiredRunning)
              (typed_cause CONFIG_CONFLICT ''only a RUNNING workload can be retried'' None))
            (case row_of rb_WorkloadID i (db_bindings db) of
               None \<Rightarrow> Inl (typed_cause CONFIG_CONFLICT ''DesiredWorkload generation is not blocked'' None)
             | Some b \<Rightarrow>
                 guard (fail_if (rb_BlockedGeneration b \<noteq> dw_DesiredGeneration w)
                   (typed_cause CONFIG_CONFLICT ''current DesiredWorkload generation is not blocked'' None))
                 (andThen (getSnapshot sv db i (dw_DesiredGeneration w)) (\<lambda>previous.
                 andThen (fresh_execution db (sv_newExecutionID sv 0)) (\<lambda>x.
                   let now = sv_clock sv 0; generation = dw_DesiredGeneration w + 1;
                       w' = w\<lparr>dw_DesiredGeneration := generation,
                         dw_Meta := (dw_Meta w)\<lparr>meta_Revision := meta_Revision (dw_Meta w) + 1, meta_UpdatedAt := now\<rparr>\<rparr>
                   in andThen (insertResolvedSnapshot sv db (retried_snapshot previous generation x now)) (\<lambda>db'.
                      andThen (store_workload w' db') (\<lambda>db''.
                      Inr (touch 1 (db''\<lparr>db_bindings := remove_row rb_WorkloadID i (db_bindings db'')\<rparr>), w'))))))))))))"

section \<open>Snapshots of the current generation\<close>

definition GetCurrentResolvedSnapshot :: "Svc \<Rightarrow> WorkloadID \<Rightarrow> DB \<Rightarrow> ResolvedExecutionSnapshot result" where
  "GetCurrentResolvedSnapshot sv i db =
     andThen (GetDesiredWorkload i db) (\<lambda>w.
       if dw_RunState (dw_Content w) \<noteq> DesiredRunning
       then Inl (typed_cause NOT_FOUND ''STOPPED DesiredWorkload has no active execution snapshot'' None)
       else getSnapshot sv db i (dw_DesiredGeneration w))"

definition check_gpu_snapshot :: "Svc \<Rightarrow> ResolvedExecutionSnapshot \<Rightarrow> Inventory \<Rightarrow> error option" where
  "check_gpu_snapshot sv candidate iv =
     (if cl_DeviceIDs (sn_Resources candidate) = [] then None
      else case env_catalog (sv_env sv) of
        None \<Rightarrow> Some (typed_cause CONFIG_CONFLICT ''farm database and package catalog are required'' None)
      | Some lookup \<Rightarrow> (case lookup (sn_Package candidate) of
          Inl e \<Rightarrow> Some (typed_cause INVALID_REFERENCE ''package release is unavailable'' (Some e))
        | Inr release \<Rightarrow> (case pl_Miner (sn_Plan candidate) of
            None \<Rightarrow> Some (typed_cause CONFIG_CONFLICT ''GPU snapshot has no miner plan'' None)
          | Some m \<Rightarrow> ValidateCurrent (env_uni (sv_env sv)) (cl_DeviceIDs (sn_Resources candidate))
              (ms_GPUAssignments m) iv (rc_GPUVendors (rel_Runtime release)))))"

definition ValidateResolvedSnapshotForStart ::
  "Svc \<Rightarrow> ResolvedExecutionSnapshot \<Rightarrow> Inventory \<Rightarrow> DB \<Rightarrow> unit result" where
  "ValidateResolvedSnapshotForStart sv candidate iv db =
     andThen (loadWorkloadTx db (sn_WorkloadID candidate)) (\<lambda>w.
     guard (fail_if (dw_RunState (dw_Content w) \<noteq> DesiredRunning
         \<or> dw_DesiredGeneration w \<noteq> sn_DesiredGeneration candidate \<or> dw_HostID (dw_Content w) \<noteq> sn_HostID candidate)
       (typed_cause CONFIG_CONFLICT ''resolved snapshot is no longer current desired intent'' None))
     (andThen (getSnapshot sv db (dw_WorkloadID w) (dw_DesiredGeneration w)) (\<lambda>current.
     guard (fail_if (sn_ExecutionID current \<noteq> sn_ExecutionID candidate \<or> sn_ResolvedHash current \<noteq> sn_ResolvedHash candidate)
       (typed_cause CONFIG_CONFLICT ''resolved snapshot identity is no longer current'' None))
     (guard (check_gpu_snapshot sv candidate iv)
     (andThen (resolveWorkload sv db w) (\<lambda>(inputs, _).
     andThen (ResolveAndValidate (sv_env sv) inputs iv) (\<lambda>resolved.
       guard (fail_if (rs_Hash resolved \<noteq> sn_ResolvedHash candidate)
         (typed_cause CONFIG_CONFLICT ''freshly resolved runtime plan does not match immutable snapshot'' None))
       (Inr ()))))))))"

text \<open>The generation of a refreshed snapshot; \<open>None\<close> when the current snapshot is up to date.\<close>

definition refreshed_generation :: "Svc \<Rightarrow> DB \<Rightarrow> DesiredWorkload \<Rightarrow> string \<Rightarrow> uint64 option result" where
  "refreshed_generation sv db w hash =
     (case getSnapshot sv db (dw_WorkloadID w) (dw_DesiredGeneration w) of
        Inr current \<Rightarrow>
          Inr (if sn_ResolvedHash current = hash then None else Some (dw_DesiredGeneration w + 1))
      | Inl e \<Rightarrow> if fst (CodeOf e) \<noteq> NOT_FOUND then Inl e else Inr (Some (dw_DesiredGeneration w)))"

definition RefreshResolvedSnapshotForInventory ::
  "Svc \<Rightarrow> WorkloadID \<Rightarrow> Inventory \<Rightarrow> DB \<Rightarrow> DB \<times> unit result" where
  "RefreshResolvedSnapshotForInventory sv i iv db =
     (case invalid_workload_id i of
        Some e \<Rightarrow> (db, Inl e)
      | None \<Rightarrow> writeTx db
          (andThen (loadWorkloadTx db i) (\<lambda>w.
            if dw_RunState (dw_Content w) \<noteq> DesiredRunning \<or> cl_DeviceIDs (dw_Resources (dw_Content w)) = []
            then Inr (db, ())
            else andThen (resolveWorkload sv db w) (\<lambda>(inputs, _).
              andThen (ResolveAndValidate (sv_env sv) inputs iv) (\<lambda>resolved.
              andThen (refreshed_generation sv db w (rs_Hash resolved)) (\<lambda>g.
                case g of
                  None \<Rightarrow> Inr (db, ())
                | Some generation \<Rightarrow>
                    let w' = w\<lparr>dw_DesiredGeneration := generation, dw_EffectiveHash := rs_Hash resolved\<rparr>
                    in andThen (store_workload w' db) (\<lambda>db'.
                       andThen (createSnapshot sv 0 db'
                        (inputs\<lparr>ri_Workload := w', ri_GPUAssignments := rr_GPUAssignments (rs_Content resolved)\<rparr>)
                        resolved generation (sv_clock sv 0)) (\<lambda>db''. Inr (db'', ())))))))))"

definition ListResolvedSnapshots :: "Svc \<Rightarrow> WorkloadID \<Rightarrow> DB \<Rightarrow> ResolvedExecutionSnapshot list result" where
  "ListResolvedSnapshots sv i db = guard (invalid_workload_id i)
     (let rows = sort_key sn_DesiredGeneration (filter (\<lambda>s. sn_WorkloadID s = i) (db_snapshots db))
      in guard (first_error (map scanSnapshot rows)) (traverse (load_snapshot sv) rows))"

definition ListAllResolvedSnapshots :: "Svc \<Rightarrow> DB \<Rightarrow> ResolvedExecutionSnapshot list result" where
  "ListAllResolvedSnapshots sv db =
     (let rows = sort_key sn_WorkloadID (sort_key sn_DesiredGeneration (db_snapshots db))
      in guard (first_error (map scanSnapshot rows)) (traverse (load_snapshot sv) rows))"

section \<open>Propagation of changed objects\<close>

text \<open>\<open>n\<close> counts the workloads that changed, so that each draws its own clock reading and identifier.\<close>

fun propagateWorkloadIDs :: "Svc \<Rightarrow> nat \<Rightarrow> DB \<Rightarrow> WorkloadID list \<Rightarrow> DB result" where
  "propagateWorkloadIDs sv n db [] = Inr db"
| "propagateWorkloadIDs sv n db (i # is) =
     andThen (loadWorkloadTx db i) (\<lambda>w.
     andThen (resolveWorkload sv db w) (\<lambda>(inputs, r).
       if rs_Hash r = dw_EffectiveHash w then propagateWorkloadIDs sv n db is
       else
         let w' = w\<lparr>dw_DesiredGeneration := dw_DesiredGeneration w + 1, dw_EffectiveHash := rs_Hash r\<rparr>
         in andThen (store_workload w' db) (\<lambda>db'.
            andThen (snapshot_if_ready sv n db' w' inputs r (sv_clock sv (Suc n)))
              (\<lambda>db''. propagateWorkloadIDs sv (Suc n) db'' is))))"

definition workloads_of_profile :: "DB \<Rightarrow> ProfileID \<Rightarrow> WorkloadID list" where
  "workloads_of_profile db p =
     sort (map dw_WorkloadID (filter (\<lambda>w. dw_ProfileID (dw_Content w) = p) (db_workloads db)))"

text \<open>The \<open>seen\<close> map: a workload is visited at its first occurrence only.\<close>

definition first_seen :: "'a list \<Rightarrow> 'a list" where
  "first_seen xs = rev (remdups (rev xs))"

definition propagateProfileWorkloads :: "Svc \<Rightarrow> DB \<Rightarrow> ProfileID list \<Rightarrow> DB result" where
  "propagateProfileWorkloads sv db profiles =
     (let ids = concat (map (workloads_of_profile db) profiles)
      in guard (first_error (map (\<lambda>i. corrupt_if ''stored WorkloadID is invalid'' (WorkloadID_Validate i)) ids))
        (propagateWorkloadIDs sv 0 db (first_seen ids)))"

definition propagateHostProfileWorkloads :: "Svc \<Rightarrow> DB \<Rightarrow> HostID \<Rightarrow> ProfileID \<Rightarrow> DB result" where
  "propagateHostProfileWorkloads sv db host p =
     (let ids = sort (map dw_WorkloadID (filter (\<lambda>w. dw_HostID (dw_Content w) = host
            \<and> dw_ProfileID (dw_Content w) = p) (db_workloads db)))
      in guard (first_error (map (\<lambda>i. corrupt_if ''stored WorkloadID is invalid'' (WorkloadID_Validate i)) ids))
        (propagateWorkloadIDs sv 0 db ids))"

end
