(* ===== verification/Object_Store.thy ===== *)
theory Object_Store
  imports Workload_Store
begin

text \<open>
  \<open>internal/farmconfig/service.go\<close> and \<open>host_profile_settings.go\<close>: creation, reading, optimistic update
  and deletion of pools, wallet references, mining profiles and the per-Host settings of profiles. An
  update or a change of settings is propagated to the desired workloads in the same transaction.
\<close>

section \<open>Shared steps\<close>

definition generated :: "string \<Rightarrow> 'a result \<Rightarrow> 'a result" where
  "generated kind new = map_error (\<lambda>e. typed_cause INTERNAL_ERROR (''cannot generate '' @ kind) (Some e)) new"

definition hashed :: "string \<Rightarrow> string result \<Rightarrow> string result" where
  "hashed kind h = map_error (\<lambda>e. typed_cause INTERNAL_ERROR (''cannot hash '' @ kind) (Some e)) h"

definition valid_id :: "string \<Rightarrow> error option \<Rightarrow> error option" where
  "valid_id kind r = (case r of None \<Rightarrow> None | Some e \<Rightarrow> Some (typed_cause CONFIG_CONFLICT (''invalid '' @ kind) (Some e)))"

definition expect_revision :: "string \<Rightarrow> uint64 \<Rightarrow> ObjectMeta \<Rightarrow> error option" where
  "expect_revision kind expected meta =
     fail_if (meta_Revision meta \<noteq> expected) (revisionConflict kind expected (meta_Revision meta))"

definition list_objects :: "('r \<Rightarrow> 'k::linorder) \<Rightarrow> ('r \<Rightarrow> 'r result) \<Rightarrow> 'r list \<Rightarrow> 'r list result" where
  "list_objects key scan rows = traverse scan (sort_key key rows)"

section \<open>Pools\<close>

definition CreatePool :: "Svc \<Rightarrow> PoolContent \<Rightarrow> DB \<Rightarrow> DB \<times> Pool result" where
  "CreatePool sv content db =
     prepare (guard (ValidatePool (env_quote (sv_env sv)) content)
       (andThen (generated ''PoolID'' (sv_newPoolID sv)) (\<lambda>i.
        andThen (hashed ''Pool'' (PoolHash content)) (\<lambda>hash. Inr (i, hash))))) db
     (\<lambda>(i, hash). wrapped ''create Pool'' (writeTx db
       (guard (fail_if (row_of pool_PoolID i (db_pools db) \<noteq> None)
         (typed_cause ALREADY_EXISTS ''PoolID already exists'' None))
       (let object = \<lparr>pool_PoolID = i, pool_Meta = newMeta OriginController hash (sv_clock sv 0), pool_Content = content\<rparr>
        in Inr (touch 1 (db\<lparr>db_pools := db_pools db @ [object]\<rparr>), object)))))"

definition GetPool :: "Svc \<Rightarrow> PoolID \<Rightarrow> DB \<Rightarrow> Pool result" where
  "GetPool sv i db = guard (valid_id ''PoolID'' (PoolID_Validate i))
     (fetch ''Pool'' (row_of pool_PoolID i (db_pools db)) (scanPool sv))"

definition ListPools :: "Svc \<Rightarrow> DB \<Rightarrow> Pool list result" where
  "ListPools sv db = list_objects pool_PoolID (scanPool sv) (db_pools db)"

definition UpdatePool :: "Svc \<Rightarrow> PoolID \<Rightarrow> uint64 \<Rightarrow> PoolContent \<Rightarrow> DB \<Rightarrow> DB \<times> Pool result" where
  "UpdatePool sv i expected content db =
     prepare (guard (valid_id ''PoolID'' (PoolID_Validate i))
       (guard (ValidatePool (env_quote (sv_env sv)) content) (hashed ''Pool'' (PoolHash content)))) db
     (\<lambda>hash. wrapped ''update Pool'' (writeTx db
       (andThen (fetch ''Pool'' (row_of pool_PoolID i (db_pools db)) (scanPool sv)) (\<lambda>current.
        guard (expect_revision ''Pool'' expected (pool_Meta current))
        (if meta_ContentHash (pool_Meta current) = hash then Inr (db, current)
         else
           let object = current\<lparr>pool_Meta := bump_meta hash (sv_clock sv 0) (pool_Meta current), pool_Content := content\<rparr>;
               db' = touch 1 (db\<lparr>db_pools := replace_row pool_PoolID object (db_pools db)\<rparr>);
               profiles = map prof_ProfileID (filter (\<lambda>p. prof_PoolID (prof_Content p) = i) (db_profiles db'))
           in guard (check_row (meta_Revision (pool_Meta object) > 0)) (andThen (propagateProfileWorkloads sv db' profiles) (\<lambda>db''. Inr (db'', object))))))))"

definition DeletePool :: "Svc \<Rightarrow> PoolID \<Rightarrow> uint64 \<Rightarrow> DB \<Rightarrow> DB \<times> unit result" where
  "DeletePool sv i expected db =
     prepare (guard (valid_id ''PoolID'' (PoolID_Validate i)) (Inr ())) db
     (\<lambda>_. wrapped ''delete Pool'' (writeTx db
       (andThen (fetch ''Pool'' (row_of pool_PoolID i (db_pools db)) (scanPool sv)) (\<lambda>current.
        guard (expect_revision ''Pool'' expected (pool_Meta current))
        (guard (fail_if (list_ex (\<lambda>p. prof_PoolID (prof_Content p) = i) (db_profiles db))
          (typed_cause REFERENCE_IN_USE ''Pool is referenced by a MiningProfile'' None))
        (Inr (touch 1 (db\<lparr>db_pools := remove_row pool_PoolID i (db_pools db)\<rparr>), ())))))))"

section \<open>Wallet references\<close>

definition CreateWalletRef :: "Svc \<Rightarrow> WalletRefContent \<Rightarrow> DB \<Rightarrow> DB \<times> WalletRef result" where
  "CreateWalletRef sv content db =
     prepare (guard (ValidateWalletRef content)
       (andThen (generated ''WalletID'' (sv_newWalletID sv)) (\<lambda>i.
        andThen (hashed ''WalletRef'' (WalletRefHash content)) (\<lambda>hash. Inr (i, hash))))) db
     (\<lambda>(i, hash). wrapped ''create WalletRef'' (writeTx db
       (guard (fail_if (row_of wal_WalletID i (db_wallets db) \<noteq> None)
         (typed_cause ALREADY_EXISTS ''WalletID already exists'' None))
       (let object = \<lparr>wal_WalletID = i, wal_Meta = newMeta OriginController hash (sv_clock sv 0), wal_Content = content\<rparr>
        in Inr (touch 1 (db\<lparr>db_wallets := db_wallets db @ [object]\<rparr>), object)))))"

definition GetWalletRef :: "WalletID \<Rightarrow> DB \<Rightarrow> WalletRef result" where
  "GetWalletRef i db = guard (valid_id ''WalletID'' (WalletID_Validate i))
     (fetch ''WalletRef'' (row_of wal_WalletID i (db_wallets db)) scanWallet)"

definition ListWalletRefs :: "DB \<Rightarrow> WalletRef list result" where
  "ListWalletRefs db = list_objects wal_WalletID scanWallet (db_wallets db)"

definition UpdateWalletRef :: "Svc \<Rightarrow> WalletID \<Rightarrow> uint64 \<Rightarrow> WalletRefContent \<Rightarrow> DB \<Rightarrow> DB \<times> WalletRef result" where
  "UpdateWalletRef sv i expected content db =
     prepare (guard (valid_id ''WalletID'' (WalletID_Validate i))
       (guard (ValidateWalletRef content) (hashed ''WalletRef'' (WalletRefHash content)))) db
     (\<lambda>hash. wrapped ''update WalletRef'' (writeTx db
       (andThen (fetch ''WalletRef'' (row_of wal_WalletID i (db_wallets db)) scanWallet) (\<lambda>current.
        guard (expect_revision ''WalletRef'' expected (wal_Meta current))
        (if meta_ContentHash (wal_Meta current) = hash then Inr (db, current)
         else
           let object = current\<lparr>wal_Meta := bump_meta hash (sv_clock sv 0) (wal_Meta current), wal_Content := content\<rparr>;
               db' = touch 1 (db\<lparr>db_wallets := replace_row wal_WalletID object (db_wallets db)\<rparr>);
               profiles = map prof_ProfileID (filter (\<lambda>p. prof_WalletID (prof_Content p) = i) (db_profiles db'))
           in guard (check_row (meta_Revision (wal_Meta object) > 0)) (andThen (propagateProfileWorkloads sv db' profiles) (\<lambda>db''. Inr (db'', object))))))))"

definition DeleteWalletRef :: "WalletID \<Rightarrow> uint64 \<Rightarrow> DB \<Rightarrow> DB \<times> unit result" where
  "DeleteWalletRef i expected db =
     prepare (guard (valid_id ''WalletID'' (WalletID_Validate i)) (Inr ())) db
     (\<lambda>_. wrapped ''delete WalletRef'' (writeTx db
       (andThen (fetch ''WalletRef'' (row_of wal_WalletID i (db_wallets db)) scanWallet) (\<lambda>current.
        guard (expect_revision ''WalletRef'' expected (wal_Meta current))
        (guard (fail_if (list_ex (\<lambda>p. prof_WalletID (prof_Content p) = i) (db_profiles db))
          (typed_cause REFERENCE_IN_USE ''WalletRef is referenced by a MiningProfile'' None))
        (Inr (touch 1 (db\<lparr>db_wallets := remove_row wal_WalletID i (db_wallets db)\<rparr>), ())))))))"

section \<open>Mining profiles\<close>

definition catalog_release :: "Svc \<Rightarrow> string \<Rightarrow> PackageRef \<Rightarrow> PackageRelease result" where
  "catalog_release sv message ref =
     (case env_catalog (sv_env sv) of
        None \<Rightarrow> Inl (typed_cause CONFIG_CONFLICT ''farm database and package catalog are required'' None)
      | Some lookup \<Rightarrow> map_error (\<lambda>e. typed_cause INVALID_REFERENCE message (Some e)) (lookup ref))"

definition validateProfile :: "Svc \<Rightarrow> MiningProfileContent \<Rightarrow> error option" where
  "validateProfile sv content = first_error
     [ValidateMiningProfile content,
      (case catalog_release sv ''MiningProfile package release is unavailable'' (prof_Package content) of
         Inl e \<Rightarrow> Some e
       | Inr release \<Rightarrow> first_error
           [fail_if (prof_AdapterID content \<notin> set (rel_AdapterIDs release))
              (typed_cause INVALID_REFERENCE ''MiningProfile adapter is not supported by the package release'' None),
            ValidateTuningCapabilities (prof_CPUThreads content) (prof_HugePages content) (prof_MSR content)
              (rel_Tuning release)])]"

definition requireReferences :: "DB \<Rightarrow> PoolID \<Rightarrow> WalletID \<Rightarrow> error option" where
  "requireReferences db pool wallet = first_error
     [fail_if (row_of pool_PoolID pool (db_pools db) = None)
        (typed_cause INVALID_REFERENCE ''MiningProfile references a missing Pool'' None),
      fail_if (row_of wal_WalletID wallet (db_wallets db) = None)
        (typed_cause INVALID_REFERENCE ''MiningProfile references a missing WalletRef'' None)]"

definition CreateMiningProfile :: "Svc \<Rightarrow> MiningProfileContent \<Rightarrow> DB \<Rightarrow> DB \<times> MiningProfile result" where
  "CreateMiningProfile sv content db =
     prepare (guard (validateProfile sv content)
       (andThen (generated ''ProfileID'' (sv_newProfileID sv)) (\<lambda>i.
        andThen (hashed ''MiningProfile'' (MiningProfileHash content)) (\<lambda>hash. Inr (i, hash))))) db
     (\<lambda>(i, hash). wrapped ''create MiningProfile'' (writeTx db
       (guard (requireReferences db (prof_PoolID content) (prof_WalletID content))
       (guard (fail_if (row_of prof_ProfileID i (db_profiles db) \<noteq> None)
         (typed_cause ALREADY_EXISTS ''ProfileID already exists'' None))
       (let object = \<lparr>prof_ProfileID = i, prof_Meta = newMeta OriginController hash (sv_clock sv 0), prof_Content = content\<rparr>
        in Inr (touch 1 (db\<lparr>db_profiles := db_profiles db @ [object]\<rparr>), object))))))"

definition GetMiningProfile :: "ProfileID \<Rightarrow> DB \<Rightarrow> MiningProfile result" where
  "GetMiningProfile i db = guard (valid_id ''ProfileID'' (ProfileID_Validate i))
     (fetch ''MiningProfile'' (row_of prof_ProfileID i (db_profiles db)) scanProfile)"

definition ListMiningProfiles :: "DB \<Rightarrow> MiningProfile list result" where
  "ListMiningProfiles db = list_objects prof_ProfileID scanProfile (db_profiles db)"

definition UpdateMiningProfile ::
  "Svc \<Rightarrow> ProfileID \<Rightarrow> uint64 \<Rightarrow> MiningProfileContent \<Rightarrow> DB \<Rightarrow> DB \<times> MiningProfile result" where
  "UpdateMiningProfile sv i expected content db =
     prepare (guard (valid_id ''ProfileID'' (ProfileID_Validate i))
       (guard (validateProfile sv content) (hashed ''MiningProfile'' (MiningProfileHash content)))) db
     (\<lambda>hash. wrapped ''update MiningProfile'' (writeTx db
       (andThen (fetch ''MiningProfile'' (row_of prof_ProfileID i (db_profiles db)) scanProfile) (\<lambda>current.
        guard (expect_revision ''MiningProfile'' expected (prof_Meta current))
        (if meta_ContentHash (prof_Meta current) = hash then Inr (db, current)
         else guard (requireReferences db (prof_PoolID content) (prof_WalletID content))
           (let object = current\<lparr>prof_Meta := bump_meta hash (sv_clock sv 0) (prof_Meta current), prof_Content := content\<rparr>;
                db' = touch 1 (db\<lparr>db_profiles := replace_row prof_ProfileID object (db_profiles db)\<rparr>);
                profiles = map prof_ProfileID (filter (\<lambda>p. prof_ProfileID p = i) (db_profiles db'))
            in guard (check_row (meta_Revision (prof_Meta object) > 0))
              (andThen (propagateProfileWorkloads sv db' profiles) (\<lambda>db''. Inr (db'', object)))))))))"

definition DeleteMiningProfile :: "ProfileID \<Rightarrow> uint64 \<Rightarrow> DB \<Rightarrow> DB \<times> unit result" where
  "DeleteMiningProfile i expected db =
     prepare (guard (valid_id ''ProfileID'' (ProfileID_Validate i)) (Inr ())) db
     (\<lambda>_. wrapped ''delete MiningProfile'' (writeTx db
       (andThen (fetch ''MiningProfile'' (row_of prof_ProfileID i (db_profiles db)) scanProfile) (\<lambda>current.
        guard (expect_revision ''MiningProfile'' expected (prof_Meta current))
        (guard (fail_if (list_ex (\<lambda>w. dw_ProfileID (dw_Content w) = i) (db_workloads db))
          (typed_cause REFERENCE_IN_USE ''MiningProfile is referenced by a DesiredWorkload'' None))
        (guard (fail_if (list_ex (\<lambda>s. hps_ProfileID s = i) (db_settings db))
          (typed_cause REFERENCE_IN_USE ''MiningProfile is referenced by HostProfileSettings'' None))
        (Inr (touch 1 (db\<lparr>db_profiles := remove_row prof_ProfileID i (db_profiles db)\<rparr>), ()))))))))"

section \<open>Settings of a profile on a Host\<close>

definition settings_key :: "HostProfileSettings \<Rightarrow> HostID \<times> ProfileID" where
  "settings_key s = (hps_HostID s, hps_ProfileID s)"

definition validateSettingsForProfile :: "Svc \<Rightarrow> MiningProfile \<Rightarrow> HostProfileSettingsContent \<Rightarrow> error option" where
  "validateSettingsForProfile sv profile content =
     (case catalog_release sv ''HostProfileSettings package release is unavailable'' (prof_Package (prof_Content profile)) of
        Inl e \<Rightarrow> Some e
      | Inr release \<Rightarrow> first_error
          [fail_if (prof_AdapterID (prof_Content profile) \<notin> set (rel_AdapterIDs release))
             (typed_cause INVALID_REFERENCE ''HostProfileSettings adapter is not supported by the package release'' None),
           ValidateTuningCapabilities (hps_CPUThreads content) (hps_HugePages content) (hps_MSR content)
             (rel_Tuning release)])"

definition CreateHostProfileSettings ::
  "Svc \<Rightarrow> HostID \<Rightarrow> ProfileID \<Rightarrow> HostProfileSettingsContent \<Rightarrow> DB \<Rightarrow> DB \<times> HostProfileSettings result" where
  "CreateHostProfileSettings sv host p content db =
     prepare (guard (ValidateHostProfileSettings host p content)
       (hashed ''HostProfileSettings'' (HostProfileSettingsHash content))) db
     (\<lambda>hash. wrapped ''create HostProfileSettings'' (writeTx db
       (andThen (map_error (missing_as_reference ''HostProfileSettings references a missing MiningProfile'')
         (fetch ''MiningProfile'' (row_of prof_ProfileID p (db_profiles db)) scanProfile)) (\<lambda>profile.
        guard (validateSettingsForProfile sv profile content)
        (guard (fail_if (row_of settings_key (host, p) (db_settings db) \<noteq> None)
          (typed_cause ALREADY_EXISTS ''HostProfileSettings already exists for this HostID and ProfileID'' None))
        (let object = \<lparr>hps_HostID = host, hps_ProfileID = p,
               hps_Meta = newMeta OriginController hash (sv_clock sv 0), hps_Content = content\<rparr>;
             db' = touch 1 (db\<lparr>db_settings := db_settings db @ [object]\<rparr>)
         in andThen (propagateHostProfileWorkloads sv db' host p) (\<lambda>db''. Inr (db'', object))))))))"

definition GetHostProfileSettings :: "HostID \<Rightarrow> ProfileID \<Rightarrow> DB \<Rightarrow> HostProfileSettings result" where
  "GetHostProfileSettings host p db =
     guard (first_error [valid_id ''HostID'' (HostID_Validate host), valid_id ''ProfileID'' (ProfileID_Validate p)])
       (fetch ''HostProfileSettings'' (row_of settings_key (host, p) (db_settings db)) scanHostProfileSettings)"

definition ListHostProfileSettings :: "DB \<Rightarrow> HostProfileSettings list result" where
  "ListHostProfileSettings db =
     traverse scanHostProfileSettings (sort_key hps_HostID (sort_key hps_ProfileID (db_settings db)))"

definition UpdateHostProfileSettings ::
  "Svc \<Rightarrow> HostID \<Rightarrow> ProfileID \<Rightarrow> uint64 \<Rightarrow> HostProfileSettingsContent \<Rightarrow> DB \<Rightarrow> DB \<times> HostProfileSettings result" where
  "UpdateHostProfileSettings sv host p expected content db =
     prepare (guard (ValidateHostProfileSettings host p content)
       (hashed ''HostProfileSettings'' (HostProfileSettingsHash content))) db
     (\<lambda>hash. wrapped ''update HostProfileSettings'' (writeTx db
       (andThen (fetch ''HostProfileSettings'' (row_of settings_key (host, p) (db_settings db)) scanHostProfileSettings) (\<lambda>current.
        guard (expect_revision ''HostProfileSettings'' expected (hps_Meta current))
        (andThen (fetch ''MiningProfile'' (row_of prof_ProfileID p (db_profiles db)) scanProfile) (\<lambda>profile.
        guard (validateSettingsForProfile sv profile content)
        (if meta_ContentHash (hps_Meta current) = hash then Inr (db, current)
         else
           let object = current\<lparr>hps_Meta := bump_meta hash (sv_clock sv 0) (hps_Meta current), hps_Content := content\<rparr>;
               db' = touch 1 (db\<lparr>db_settings := replace_row settings_key object (db_settings db)\<rparr>)
           in guard (check_row (meta_Revision (hps_Meta object) > 0)) (andThen (propagateHostProfileWorkloads sv db' host p) (\<lambda>db''. Inr (db'', object))))))))))"

definition DeleteHostProfileSettings :: "Svc \<Rightarrow> HostID \<Rightarrow> ProfileID \<Rightarrow> uint64 \<Rightarrow> DB \<Rightarrow> DB \<times> unit result" where
  "DeleteHostProfileSettings sv host p expected db =
     prepare (guard (first_error [valid_id ''HostID'' (HostID_Validate host), valid_id ''ProfileID'' (ProfileID_Validate p)])
       (Inr ())) db
     (\<lambda>_. wrapped ''delete HostProfileSettings'' (writeTx db
       (andThen (fetch ''HostProfileSettings'' (row_of settings_key (host, p) (db_settings db)) scanHostProfileSettings) (\<lambda>current.
        guard (expect_revision ''HostProfileSettings'' expected (hps_Meta current))
        (andThen (propagateHostProfileWorkloads sv
            (touch 1 (db\<lparr>db_settings := remove_row settings_key (host, p) (db_settings db)\<rparr>)) host p)
          (\<lambda>db'. Inr (db', ())))))))"

end
