(* ===== verification/Hold_Store.thy ===== *)
theory Hold_Store
  imports Workload_Store
begin

text \<open>
  \<open>internal/farmconfig/maintenance.go\<close> and \<open>restore.go\<close>: the maintenance hold of a Host, the state that a
  restored Controller database carries, and the barrier that keeps each Host of the restored farm from
  being reconciled until it is cleared.
\<close>

section \<open>Maintenance holds\<close>

definition invalid_host :: "string \<Rightarrow> HostID \<Rightarrow> error option" where
  "invalid_host message host =
     (case HostID_Validate host of None \<Rightarrow> None | Some e \<Rightarrow> Some (typed_cause CONFIG_CONFLICT message (Some e)))"

definition scanMaintenanceHold :: "MaintenanceHold \<Rightarrow> MaintenanceHold result" where
  "scanMaintenanceHold row = guard (first_error
     [corrupt_if ''stored Maintenance Hold HostID is invalid'' (HostID_Validate (mh_HostID row)),
      fail_if (mh_Revision row < 1) (corrupt ''stored Maintenance Hold revision is invalid'' None),
      corrupt_if ''stored Maintenance Hold reason is invalid'' (ValidateMaintenanceReason (mh_Reason row)),
      fail_if (IsZero (mh_CreatedAt row) \<or> mh_UpdatedAt row < mh_CreatedAt row)
        (corrupt ''stored Maintenance Hold timestamps are invalid'' None)]) (Inr row)"

text \<open>The hold that is reported when there is no row: its Host and zero values.\<close>

definition no_hold :: "HostID \<Rightarrow> MaintenanceHold" where
  "no_hold host = \<lparr>mh_HostID = host, mh_Active = False, mh_Revision = 0, mh_Reason = [], mh_CreatedAt = 0, mh_UpdatedAt = 0\<rparr>"

definition GetMaintenanceHold :: "HostID \<Rightarrow> DB \<Rightarrow> (MaintenanceHold \<times> bool) result" where
  "GetMaintenanceHold host db = guard (invalid_host ''invalid Maintenance Hold HostID'' host)
     (case row_of mh_HostID host (db_holds db) of
        None \<Rightarrow> Inr (no_hold host, False)
      | Some row \<Rightarrow> andThen (map_error (wrapDB ''get Maintenance Hold'') (scanMaintenanceHold row)) (\<lambda>h. Inr (h, True)))"

definition ListMaintenanceHolds :: "DB \<Rightarrow> MaintenanceHold list result" where
  "ListMaintenanceHolds db =
     map_error (wrapDB ''list Maintenance Holds'') (traverse scanMaintenanceHold (sort_key mh_HostID (db_holds db)))"

definition SetMaintenanceHold ::
  "Svc \<Rightarrow> HostID \<Rightarrow> uint64 \<Rightarrow> bool \<Rightarrow> string \<Rightarrow> DB \<Rightarrow> DB \<times> MaintenanceHold result" where
  "SetMaintenanceHold sv host expected active reason db =
     prepare (guard (first_error [invalid_host ''invalid Maintenance Hold HostID'' host, ValidateMaintenanceReason reason]) (Inr ())) db
     (\<lambda>_. wrapped ''set Maintenance Hold'' (writeTx db
       (let now = sv_clock sv 0
        in case row_of mh_HostID host (db_holds db) of
          None \<Rightarrow> guard (fail_if (expected \<noteq> 0) (revisionConflict ''MaintenanceHold'' expected 0))
            (let h = \<lparr>mh_HostID = host, mh_Active = active, mh_Revision = 1, mh_Reason = reason,
                   mh_CreatedAt = now, mh_UpdatedAt = now\<rparr>
             in Inr (touch 1 (db\<lparr>db_holds := db_holds db @ [h]\<rparr>), h))
        | Some row \<Rightarrow> andThen (scanMaintenanceHold row) (\<lambda>current.
            guard (fail_if (mh_Revision current \<noteq> expected)
              (revisionConflict ''MaintenanceHold'' expected (mh_Revision current)))
            (if mh_Active current = active \<and> mh_Reason current = reason then Inr (db, current)
             else
               let h = current\<lparr>mh_Active := active, mh_Reason := reason, mh_Revision := mh_Revision current + 1,
                     mh_UpdatedAt := now\<rparr>
               in guard (check_row (mh_Revision h > 0))
                 (Inr (touch 1 (db\<lparr>db_holds := replace_row mh_HostID h (db_holds db)\<rparr>), h)))))))"

section \<open>Restore state\<close>

definition validBackupID :: "string \<Rightarrow> bool" where
  "validBackupID value \<longleftrightarrow> length value = length ''backup_'' + 32 \<and> HasPrefix value ''backup_''
     \<and> list_all is_hex_lower (drop (length ''backup_'') value)"

definition is_hex_upper :: "char \<Rightarrow> bool" where
  "is_hex_upper c \<longleftrightarrow> is_digit c \<or> (65 \<le> byte c \<and> byte c \<le> 70)"

definition validTrustFingerprint :: "string \<Rightarrow> bool" where
  "validTrustFingerprint value \<longleftrightarrow> length value = length ''SHA256:'' + 64 \<and> HasPrefix value ''SHA256:''
     \<and> list_all is_hex_upper (drop (length ''SHA256:'') value)"

definition no_restore :: "bool \<Rightarrow> string \<Rightarrow> ControllerRestoreState" where
  "no_restore required backup = \<lparr>rst_Required = required, rst_BackupID = backup, rst_SourceControllerID = ControllerID [],
     rst_SourceFarmID = FarmID [], rst_SourceTrustFingerprint = [], rst_RestoredAt = 0\<rparr>"

definition parsed :: "string \<Rightarrow> 'a result \<Rightarrow> 'a result" where
  "parsed message r = map_error (\<lambda>e. corrupt message (Some e)) r"

definition GetControllerRestoreState :: "DB \<Rightarrow> ControllerRestoreState result" where
  "GetControllerRestoreState db =
     (let row = db_restore db
      in if crr_BackupID row = [] then
           guard (fail_if (crr_Required row \<or> crr_ControllerID row \<noteq> [] \<or> crr_FarmID row \<noteq> []
               \<or> crr_TrustFingerprint row \<noteq> [] \<or> crr_RestoredAt row \<noteq> unix_epoch)
             (corrupt ''stored Controller restore state is invalid'' None))
           (Inr (no_restore (crr_Required row) (crr_BackupID row)))
         else
           guard (fail_if (\<not> validBackupID (crr_BackupID row) \<or> crr_RestoredAt row \<le> unix_epoch)
             (corrupt ''stored Controller restore metadata is invalid'' None))
           (andThen (parsed ''stored restore ControllerID is invalid'' (ParseControllerID (crr_ControllerID row))) (\<lambda>controller.
            andThen (parsed ''stored restore FarmID is invalid'' (ParseFarmID (crr_FarmID row))) (\<lambda>farm.
            guard (fail_if (\<not> validTrustFingerprint (crr_TrustFingerprint row))
              (corrupt ''stored restore trust fingerprint is invalid'' None))
            (Inr \<lparr>rst_Required = crr_Required row, rst_BackupID = crr_BackupID row, rst_SourceControllerID = controller,
               rst_SourceFarmID = farm, rst_SourceTrustFingerprint = crr_TrustFingerprint row,
               rst_RestoredAt = crr_RestoredAt row\<rparr>)))))"

section \<open>Restore barriers\<close>

definition scanRestoreBarrier :: "RestoreHostBarrier \<Rightarrow> RestoreHostBarrier result" where
  "scanRestoreBarrier row = guard (first_error
     [fail_if (HostID_Validate (rhb_HostID row) \<noteq> None \<or> \<not> validBackupID (rhb_BackupID row) \<or> rhb_Revision row = 0
          \<or> rhb_UpdatedAt row \<le> unix_epoch)
        (corrupt ''stored restore Host barrier is invalid'' (HostID_Validate (rhb_HostID row))),
      fail_if (rhb_Status row \<noteq> RestoreBarrierPending \<and> rhb_Status row \<noteq> RestoreBarrierConflict
          \<or> rhb_ReasonCode row \<noteq> RESTORE_RECONCILIATION_REQUIRED)
        (corrupt ''stored restore Host barrier classification is invalid'' None)]) (Inr row)"

definition GetRestoreHostBarrier :: "HostID \<Rightarrow> DB \<Rightarrow> RestoreHostBarrier option result" where
  "GetRestoreHostBarrier host db = guard (invalid_host ''invalid restore HostID'' host)
     (case row_of rhb_HostID host (db_barriers db) of
        None \<Rightarrow> Inr None
      | Some row \<Rightarrow> andThen (map_error (wrapDB ''read restore Host barrier'') (scanRestoreBarrier row)) (\<lambda>b. Inr (Some b)))"

definition ListRestoreHostBarriers :: "DB \<Rightarrow> RestoreHostBarrier list result" where
  "ListRestoreHostBarriers db =
     map_error (wrapDB ''list restore Host barriers'') (traverse scanRestoreBarrier (sort_key rhb_HostID (db_barriers db)))"

definition invalid_transition :: "HostID \<Rightarrow> string \<Rightarrow> uint64 \<Rightarrow> error option" where
  "invalid_transition host backup expected =
     fail_if (HostID_Validate host \<noteq> None \<or> \<not> validBackupID backup \<or> expected = 0)
       (typed_cause CONFIG_CONFLICT ''invalid restore barrier transition'' (HostID_Validate host))"

definition read_barrier :: "DB \<Rightarrow> HostID \<Rightarrow> string \<Rightarrow> uint64 \<Rightarrow> RestoreHostBarrier result" where
  "read_barrier db host backup expected =
     (case row_of rhb_HostID host (db_barriers db) of
        None \<Rightarrow> Inl (Plain ''sql: no rows in result set'')
      | Some row \<Rightarrow> andThen (scanRestoreBarrier row) (\<lambda>current.
          guard (fail_if (rhb_BackupID current \<noteq> backup \<or> rhb_Revision current \<noteq> expected)
            (revisionConflict ''RestoreHostBarrier'' expected (rhb_Revision current))) (Inr current)))"

definition MarkRestoreHostConflict ::
  "Svc \<Rightarrow> HostID \<Rightarrow> string \<Rightarrow> uint64 \<Rightarrow> DB \<Rightarrow> DB \<times> RestoreHostBarrier result" where
  "MarkRestoreHostConflict sv host backup expected db =
     prepare (guard (invalid_transition host backup expected) (Inr ())) db
     (\<lambda>_. wrapped ''mark restore Host conflict'' (writeTx db
       (andThen (read_barrier db host backup expected) (\<lambda>current.
        if rhb_Status current = RestoreBarrierConflict \<and> rhb_ReasonCode current = RESTORE_RECONCILIATION_REQUIRED
        then Inr (db, current)
        else
          let b = current\<lparr>rhb_Status := RestoreBarrierConflict, rhb_ReasonCode := RESTORE_RECONCILIATION_REQUIRED,
                rhb_Revision := rhb_Revision current + 1, rhb_UpdatedAt := sv_clock sv 0\<rparr>
          in guard (check_row (rhb_Revision b > 0))
            (Inr (touch 1 (db\<lparr>db_barriers := replace_row rhb_HostID b (db_barriers db)\<rparr>), b))))))"

definition ClearRestoreHostBarrier :: "HostID \<Rightarrow> string \<Rightarrow> uint64 \<Rightarrow> DB \<Rightarrow> DB \<times> unit result" where
  "ClearRestoreHostBarrier host backup expected db =
     prepare (guard (invalid_transition host backup expected) (Inr ())) db
     (\<lambda>_. wrapped ''clear restore Host barrier'' (writeTx db
       (andThen (read_barrier db host backup expected) (\<lambda>current.
        let remaining = remove_row rhb_HostID host (db_barriers db)
        in Inr (touch 1 (db\<lparr>db_barriers := remaining,
             db_restore := (db_restore db)\<lparr>crr_Required := remaining \<noteq> []\<rparr>\<rparr>), ())))))"

end
