(* ===== verification/Incident_Eval.thy ===== *)
theory Incident_Eval
  imports Observed_Store Farm_Validate Go_Sha256
begin

text \<open>
  \<open>internal/incidents/evaluator.go\<close>: the incident conditions of one Host, computed from its desired
  workloads, their snapshots and bindings, the maintenance hold and the observation, with the incident
  types that this evaluation may resolve. A Go map whose keys are collected and sorted is the sorted
  list of its keys.
\<close>

section \<open>Inputs and results\<close>

record WorkloadFacts =
  wf_Workload :: DesiredWorkload
  wf_Current :: "ResolvedExecutionSnapshot option"
  wf_Binding :: "WorkloadRuntimeBinding option"

record Input =
  ei_HostID :: HostID
  ei_Workloads :: "WorkloadFacts list"
  ei_AllSnapshots :: "ResolvedExecutionSnapshot list"
  ei_Hold :: "MaintenanceHold option"
  ei_Observed :: HostObservation
  ei_HasObserved :: bool

record Evaluation =
  ev_Conditions :: "IncidentCondition list"
  ev_ResolvableTypes :: "IncidentType \<Rightarrow> bool"

section \<open>The identity of a condition\<close>

definition stringValue :: "('i \<Rightarrow> string) \<Rightarrow> 'i option \<Rightarrow> string" where
  "stringValue text v = (case v of None \<Rightarrow> [] | Some i \<Rightarrow> text i)"

definition incident_key ::
  "IncidentType \<Rightarrow> HostID \<Rightarrow> WorkloadID option \<Rightarrow> ExecutionID option \<Rightarrow> DeviceID option \<Rightarrow> Code \<Rightarrow> string" where
  "incident_key kind host workload execution device reason =
     Join [IncidentType_text kind, HostID_String host, Code_text reason, stringValue WorkloadID_String workload,
       stringValue ExecutionID_String execution, stringValue DeviceID_String device] ''|''"

definition incident_id :: "string \<Rightarrow> IncidentID" where
  "incident_id key = IncidentID (''incident_'' @ EncodeToString (take 16 (Sum256 key)))"

definition NewCondition ::
  "IncidentType \<Rightarrow> IncidentSeverity \<Rightarrow> HostID \<Rightarrow> WorkloadID option \<Rightarrow> ExecutionID option \<Rightarrow> DeviceID option \<Rightarrow> Code
   \<Rightarrow> IncidentCondition" where
  "NewCondition kind severity host workload execution device reason =
     (let key = incident_key kind host workload execution device reason
      in \<lparr>ic_IncidentID = incident_id key, ic_Key = key, ic_Type = kind, ic_Severity = severity, ic_HostID = host,
          ic_WorkloadID = workload, ic_ExecutionID = execution, ic_DeviceID = device, ic_ReasonCode = reason,
          ic_Source = IncidentSourceController\<rparr>)"

section \<open>Facts about one workload\<close>

definition allTypes :: "IncidentType list" where
  "allTypes = [IncidentAgentOffline, IncidentMonitoringStale, IncidentDesiredRunningNotExecuting, IncidentRuntimeError,
     IncidentUsefulWorkDegraded, IncidentTelemetryUnknown, IncidentTelemetryUnavailable, IncidentIncompatibleHardware,
     IncidentUnmanagedProcessConflict, IncidentResourceConflict, IncidentMaintenanceHold, IncidentConfigurationBlocked]"

definition incidentTypeForCode :: "Code \<Rightarrow> IncidentType" where
  "incidentTypeForCode code =
     (if code = INCOMPATIBLE_HARDWARE then IncidentIncompatibleHardware
      else if code = UNMANAGED_PROCESS_CONFLICT then IncidentUnmanagedProcessConflict
      else IncidentConfigurationBlocked)"

definition runs_snapshot :: "ResolvedExecutionSnapshot \<Rightarrow> ExecutionObservation \<Rightarrow> bool" where
  "runs_snapshot s e \<longleftrightarrow> ex_ExecutionID e = sn_ExecutionID s
     \<and> (case ex_Ownership e of
          None \<Rightarrow> False
        | Some ow \<Rightarrow> ow_WorkloadID ow = sn_WorkloadID s \<and> ow_DesiredGeneration ow = sn_DesiredGeneration s
            \<and> ow_ResolvedHash ow = sn_ResolvedHash s \<and> ow_HostID ow = sn_HostID s
            \<and> ow_CPU ow = cl_CPU (sn_Resources s) \<and> ow_DeviceIDs ow = cl_DeviceIDs (sn_Resources s))"

definition currentExecution ::
  "ResolvedExecutionSnapshot \<Rightarrow> ExecutionObservation list \<Rightarrow> ExecutionObservation option" where
  "currentExecution s executions = find (runs_snapshot s) executions"

definition missingDevices :: "Inventory \<Rightarrow> DeviceID list \<Rightarrow> DeviceID list" where
  "missingDevices iv devices = filter (\<lambda>d. \<not> list_ex (\<lambda>g. gpu_DeviceID g = d) (inv_GPUs iv)) devices"

definition unmanagedConflicts ::
  "ResourceClaim \<Rightarrow> UnmanagedProcessObservation list \<Rightarrow> DeviceID list \<times> bool" where
  "unmanagedConflicts claim processes =
     (sort (remdups (concat (map (\<lambda>p. filter (\<lambda>d. d \<in> set (up_DeviceIDs p)) (cl_DeviceIDs claim)) processes))),
      list_ex (\<lambda>p. up_CPU p \<and> cl_CPU claim
        \<or> up_ResourceScope p = ProcessResourcesUnknown
          \<and> (cl_CPU claim \<and> up_CPURelevant p \<or> cl_DeviceIDs claim \<noteq> [] \<and> up_GPURelevant p)) processes)"

text \<open>The snapshots of other workloads that are seen to execute, in the order of the executions.\<close>

definition other_owner ::
  "ResolvedExecutionSnapshot \<Rightarrow> (ExecutionID \<rightharpoonup> ResolvedExecutionSnapshot) \<Rightarrow> ExecutionObservation
   \<Rightarrow> ResolvedExecutionSnapshot option" where
  "other_owner current known e =
     (if ex_Status e = ExecutionStopped \<or> ex_ExecutionID e = sn_ExecutionID current then None
      else case known (ex_ExecutionID e) of
        None \<Rightarrow> None
      | Some other \<Rightarrow>
          if currentExecution other [e] = None \<or> sn_WorkloadID other = sn_WorkloadID current then None else Some other)"

definition ownedResourceConflicts ::
  "ResolvedExecutionSnapshot \<Rightarrow> ExecutionObservation list \<Rightarrow> (ExecutionID \<rightharpoonup> ResolvedExecutionSnapshot)
   \<Rightarrow> DeviceID list \<times> bool" where
  "ownedResourceConflicts current executions known =
     (let others = List.map_filter (other_owner current known) executions
      in (sort (remdups (concat (map (\<lambda>o'. filter (\<lambda>d. d \<in> set (cl_DeviceIDs (sn_Resources o')))
            (cl_DeviceIDs (sn_Resources current))) others))),
          list_ex (\<lambda>o'. cl_CPU (sn_Resources current) \<and> cl_CPU (sn_Resources o')) others))"

section \<open>Conditions\<close>

definition host_condition :: "HostID \<Rightarrow> IncidentType \<Rightarrow> IncidentSeverity \<Rightarrow> Code \<Rightarrow> IncidentCondition" where
  "host_condition host kind severity reason = NewCondition kind severity host None None None reason"

definition workload_condition ::
  "HostID \<Rightarrow> WorkloadID \<Rightarrow> ExecutionID option \<Rightarrow> DeviceID option \<Rightarrow> IncidentType \<Rightarrow> IncidentSeverity \<Rightarrow> Code
   \<Rightarrow> IncidentCondition" where
  "workload_condition host w x d kind severity reason = NewCondition kind severity host (Some w) x d reason"

definition reason_or :: "Code \<Rightarrow> Code \<Rightarrow> Code" where
  "reason_or code fallback = (if code = NoCode then fallback else code)"

definition useful_work_conditions ::
  "(IncidentType \<Rightarrow> IncidentSeverity \<Rightarrow> Code \<Rightarrow> IncidentCondition) \<Rightarrow> UsefulWorkEvidence option \<Rightarrow> IncidentCondition list" where
  "useful_work_conditions at useful =
     (case useful of
        None \<Rightarrow> [at IncidentTelemetryUnknown IncidentSeverityWarning TELEMETRY_UNKNOWN]
      | Some u \<Rightarrow>
          if uw_Availability u = TelemetryUnknown then [at IncidentTelemetryUnknown IncidentSeverityWarning TELEMETRY_UNKNOWN]
          else if uw_Availability u = TelemetryUnavailable
          then [at IncidentTelemetryUnavailable IncidentSeverityWarning TELEMETRY_UNAVAILABLE]
          else if uw_Availability u = TelemetryStale then [at IncidentUsefulWorkDegraded IncidentSeverityWarning TELEMETRY_STALE]
          else if uw_UsefulWork u = UsefulWorkUnknown then [at IncidentTelemetryUnknown IncidentSeverityWarning TELEMETRY_UNKNOWN]
          else if uw_UsefulWork u \<noteq> UsefulWorkConfirmed
          then [at IncidentUsefulWorkDegraded IncidentSeverityWarning (reason_or (uw_ReasonCode u) USEFUL_WORK_NOT_CONFIRMED)]
          else [])"

definition execution_conditions :: "HostID \<Rightarrow> WorkloadID \<Rightarrow> ExecutionObservation \<Rightarrow> IncidentCondition list" where
  "execution_conditions host w e =
     (let at = workload_condition host w (Some (ex_ExecutionID e)) None
      in if ex_Status e \<in> {ExecutionFailed, ExecutionCrashed, ExecutionBackoff}
         then [at IncidentRuntimeError IncidentSeverityError PROCESS_CRASHED]
         else if ex_Status e = ExecutionStopped
         then [at IncidentDesiredRunningNotExecuting IncidentSeverityError PROCESS_CRASHED]
         else if ex_Status e = ExecutionStarting \<or> ex_Status e = ExecutionStopping then []
         else case ex_MinerTelemetry e of
           Some t \<Rightarrow>
             if mt_Health t = MinerHealthError
             then [at IncidentRuntimeError IncidentSeverityError (reason_or (mt_ErrorCode t) TELEMETRY_UNAVAILABLE)]
             else useful_work_conditions at (ex_UsefulWork e)
         | None \<Rightarrow> useful_work_conditions at (ex_UsefulWork e))"

text \<open>One workload that is to run, on a Host whose observation is complete and fresh.\<close>

definition workload_conditions ::
  "HostID \<Rightarrow> HostObservation \<Rightarrow> (ExecutionID \<rightharpoonup> ResolvedExecutionSnapshot) \<Rightarrow> bool \<Rightarrow> WorkloadFacts \<Rightarrow> IncidentCondition list" where
  "workload_conditions host obs known holdActive f =
     (let w = wf_Workload f; i = dw_WorkloadID w
      in if dw_RunState (dw_Content w) \<noteq> DesiredRunning then []
         else case (case wf_Binding f of
               Some b \<Rightarrow> if rb_BlockedGeneration b = dw_DesiredGeneration w then Some b else None
             | None \<Rightarrow> None) of
           Some b \<Rightarrow> [workload_condition host i None None (incidentTypeForCode (rb_ErrorCode b)) IncidentSeverityError (rb_ErrorCode b)]
         | None \<Rightarrow> (case wf_Current f of
             None \<Rightarrow> [workload_condition host i None None IncidentConfigurationBlocked IncidentSeverityError NOT_FOUND]
           | Some s \<Rightarrow>
               let missing = missingDevices (ho_Inventory obs) (cl_DeviceIDs (sn_Resources s));
                   (devices, unscoped) = unmanagedConflicts (sn_Resources s) (ho_UnmanagedProcesses obs);
                   (owned, cpu) = ownedResourceConflicts s (ho_Executions obs) known
               in if missing \<noteq> []
                  then map (\<lambda>d. workload_condition host i None (Some d) IncidentIncompatibleHardware IncidentSeverityError
                         INCOMPATIBLE_HARDWARE) missing
                  else if devices \<noteq> [] \<or> unscoped
                  then map (\<lambda>d. workload_condition host i None (Some d) IncidentUnmanagedProcessConflict IncidentSeverityWarning
                         UNMANAGED_PROCESS_CONFLICT) devices
                    @ (if unscoped then [workload_condition host i None None IncidentUnmanagedProcessConflict
                         IncidentSeverityWarning UNMANAGED_PROCESS_CONFLICT] else [])
                  else if owned \<noteq> [] \<or> cpu
                  then map (\<lambda>d. workload_condition host i None (Some d) IncidentResourceConflict IncidentSeverityError
                         CONFIG_CONFLICT) owned
                    @ (if cpu then [workload_condition host i None None IncidentResourceConflict IncidentSeverityError
                         CONFIG_CONFLICT] else [])
                  else if holdActive then []
                  else (case currentExecution s (ho_Executions obs) of
                      None \<Rightarrow> [workload_condition host i None None IncidentDesiredRunningNotExecuting IncidentSeverityError
                        PROCESS_CRASHED]
                    | Some e \<Rightarrow> execution_conditions host i e)))"

section \<open>The evaluation\<close>

definition known_executions :: "ResolvedExecutionSnapshot list \<Rightarrow> ExecutionID \<rightharpoonup> ResolvedExecutionSnapshot" where
  "known_executions snapshots = map_of (rev (map (\<lambda>s. (sn_ExecutionID s, s)) snapshots))"

definition running_desired :: "Input \<Rightarrow> bool" where
  "running_desired i = list_ex (\<lambda>f. dw_RunState (dw_Content (wf_Workload f)) = DesiredRunning) (ei_Workloads i)"

definition hold_is_active :: "Input \<Rightarrow> bool" where
  "hold_is_active i = (case ei_Hold i of None \<Rightarrow> False | Some h \<Rightarrow> mh_Active h)"

definition monitored :: "Input \<Rightarrow> bool" where
  "monitored i \<longleftrightarrow> ho_Connected (ei_Observed i) \<and> ho_HostID (ei_Observed i) = ei_HostID i
     \<and> ho_ConnectionEpoch (ei_Observed i) \<noteq> 0"

definition fully_fresh :: "HostObservation \<Rightarrow> bool" where
  "fully_fresh o' \<longleftrightarrow> ho_Ready o' \<and> ho_Fresh o' \<and> ho_InventoryFresh o' \<and> ho_ProcessesFresh o'"

definition finish :: "IncidentCondition list \<Rightarrow> (IncidentType \<Rightarrow> bool) \<Rightarrow> Evaluation" where
  "finish conditions resolvable = \<lparr>ev_Conditions = sort_key ic_Key conditions, ev_ResolvableTypes = resolvable\<rparr>"

definition Evaluate :: "Input \<Rightarrow> Evaluation" where
  "Evaluate i =
     (let host = ei_HostID i; obs = ei_Observed i;
          held = (if hold_is_active i
            then [host_condition host IncidentMaintenanceHold IncidentSeverityInfo MAINTENANCE_HOLD] else []);
          offline = host_condition host IncidentAgentOffline IncidentSeverityError SERVICE_NOT_READY;
          hold_only = (\<lambda>k. k = IncidentMaintenanceHold);
          all = (\<lambda>k. k \<in> set allTypes)
      in if \<not> ei_HasObserved i then finish (held @ (if running_desired i then [offline] else [])) hold_only
         else if \<not> monitored i then finish (held @ [offline]) hold_only
         else if \<not> fully_fresh obs then
           finish (held @ (if running_desired i
             then [host_condition host IncidentMonitoringStale IncidentSeverityWarning SERVICE_NOT_READY] else [])) hold_only
         else finish (held @ concat (map (workload_conditions host obs (known_executions (ei_AllSnapshots i)) (hold_is_active i))
           (ei_Workloads i))) all)"

section \<open>Keys\<close>

lemma split_at: "c \<notin> set x \<Longrightarrow> c \<notin> set y \<Longrightarrow> x @ c # r = y @ c # r' \<Longrightarrow> x = y \<and> r = r'"
proof (induction x arbitrary: y)
  case Nil
  then show ?case by (cases y) auto
next
  case (Cons a x)
  then show ?case by (cases y) auto
qed

lemma Join_inj:
  "length xs = length ys \<Longrightarrow> (\<And>x. x \<in> set xs \<union> set ys \<Longrightarrow> c \<notin> set x) \<Longrightarrow> Join xs [c] = Join ys [c] \<Longrightarrow> xs = ys"
proof (induction xs "[c]" arbitrary: ys rule: Join.induct)
  case 1
  then show ?case by simp
next
  case (2 x)
  then obtain y where "ys = [y]" by (cases ys) auto
  then show ?case using "2.prems"(3) by simp
next
  case (3 x y xs)
  from "3.prems"(1) obtain a b zs where ys: "ys = a # b # zs" by (cases ys; cases "tl ys") auto
  have "c \<notin> set x" "c \<notin> set a" using "3.prems"(2) ys by auto
  from split_at[OF this] "3.prems"(3) have "x = a" "Join (y # xs) [c] = Join (b # zs) [c]" by (simp_all add: ys)
  moreover have "y # xs = b # zs"
    by (rule "3.hyps") (use "3.prems"(1,2) calculation(2) in \<open>auto simp: ys\<close>)
  ultimately show ?case by (simp add: ys)
qed

lemma valid_id_text:
  assumes "validate v p = None" and "CHR ''|'' \<notin> set p"
  shows "CHR ''|'' \<notin> set v" "length v = length p + 33" "v \<noteq> []"
proof -
  obtain h where h: "v = p @ ''_'' @ h" "length h = 32" "list_all is_hex_lower h"
    using assms(1) validate_None_iff by blast
  have "CHR ''|'' \<notin> set h"
  proof
    assume "CHR ''|'' \<in> set h"
    with h(3) have "is_hex_lower (CHR ''|'')" by (simp add: list_all_iff)
    then show False by (simp add: is_hex_lower_def is_digit_def)
  qed
  then show "CHR ''|'' \<notin> set v" "length v = length p + 33" "v \<noteq> []" using h assms(2) by simp_all
qed

lemma type_text: "ValidIncidentType k \<Longrightarrow> CHR ''|'' \<notin> set (IncidentType_text k) \<and> length (IncidentType_text k) \<le> 40
    \<and> IncidentType_text k \<noteq> []"
  by (cases k) simp_all

lemma code_text: "ValidCode c \<Longrightarrow> CHR ''|'' \<notin> set (Code_text c) \<and> length (Code_text c) \<le> 40"
  by (cases c) simp_all

definition scoped :: "HostID \<Rightarrow> WorkloadID option \<Rightarrow> ExecutionID option \<Rightarrow> DeviceID option \<Rightarrow> bool" where
  "scoped host w x d \<longleftrightarrow> HostID_Validate host = None \<and> (\<forall>i. w = Some i \<longrightarrow> WorkloadID_Validate i = None)
     \<and> (\<forall>i. x = Some i \<longrightarrow> ExecutionID_Validate i = None) \<and> (\<forall>i. d = Some i \<longrightarrow> DeviceID_Validate i = None)"

lemma scope_texts:
  assumes "scoped host w x d"
  shows "CHR ''|'' \<notin> set (HostID_String host)" "length (HostID_String host) \<le> 50"
    "CHR ''|'' \<notin> set (stringValue WorkloadID_String w)" "length (stringValue WorkloadID_String w) \<le> 50"
    "CHR ''|'' \<notin> set (stringValue ExecutionID_String x)" "length (stringValue ExecutionID_String x) \<le> 50"
    "CHR ''|'' \<notin> set (stringValue DeviceID_String d)" "length (stringValue DeviceID_String d) \<le> 50"
proof -
  have h: "validate (HostID_String host) ''host'' = None" using assms by (simp add: scoped_def host_id.check_text)
  show "CHR ''|'' \<notin> set (HostID_String host)" "length (HostID_String host) \<le> 50"
    using valid_id_text[OF h] by simp_all
  have w: "w = Some i \<Longrightarrow> validate (WorkloadID_String i) ''workload'' = None" for i
    using assms by (simp add: scoped_def workload_id.check_text)
  show "CHR ''|'' \<notin> set (stringValue WorkloadID_String w)" "length (stringValue WorkloadID_String w) \<le> 50"
    using valid_id_text[OF w] by (auto simp: stringValue_def split: option.split)
  have x: "x = Some i \<Longrightarrow> validate (ExecutionID_String i) ''execution'' = None" for i
    using assms by (simp add: scoped_def execution_id.check_text)
  show "CHR ''|'' \<notin> set (stringValue ExecutionID_String x)" "length (stringValue ExecutionID_String x) \<le> 50"
    using valid_id_text[OF x] by (auto simp: stringValue_def split: option.split)
  have d: "d = Some i \<Longrightarrow> validate (DeviceID_String i) ''device'' = None" for i
    using assms by (simp add: scoped_def device_id.check_text)
  show "CHR ''|'' \<notin> set (stringValue DeviceID_String d)" "length (stringValue DeviceID_String d) \<le> 50"
    using valid_id_text[OF d] by (auto simp: stringValue_def split: option.split)
qed

lemma incident_id_valid: "ParseIncidentID (IncidentID_String (incident_id key)) = Inr (incident_id key)"
  "IncidentID_Validate (incident_id key) = None"
proof -
  have "validate (''incident_'' @ EncodeToString (take 16 (Sum256 key))) ''incident'' = None"
    by (rule generate_valid[of _ "take 16 (Sum256 key)"]) (simp_all add: generate_def)
  then show "IncidentID_Validate (incident_id key) = None" by (simp add: incident_id_def incident_id.check_text)
  then show "ParseIncidentID (IncidentID_String (incident_id key)) = Inr (incident_id key)"
    by (rule incident_id.parse_text)
qed

lemma NewCondition_valid:
  assumes "ValidIncidentType k" "ValidIncidentSeverity sv" "ValidCode r" "scoped host w x d"
  shows "ValidateIncidentCondition (NewCondition k sv host w x d r) = None"
proof -
  let ?key = "incident_key k host w x d r"
  have len: "length ?key \<le> 512"
    using scope_texts[OF assms(4)] type_text[OF assms(1)] code_text[OF assms(3)] by (simp add: incident_key_def)
  moreover have "?key \<noteq> []" using type_text[OF assms(1)] by (simp add: incident_key_def)
  ultimately show ?thesis using assms incident_id_valid(2)
    by (simp add: ValidateIncidentCondition_def NewCondition_def Let_def scoped_def split: option.split)
qed

text \<open>Within the conditions of one Host the key determines the type, the workload and the device.\<close>

lemma key_determines:
  assumes "incident_key k host w x d r = incident_key k' host w' x' d' r'"
    and "ValidIncidentType k" "ValidIncidentType k'" "ValidCode r" "ValidCode r'" "scoped host w x d" "scoped host w' x' d'"
  shows "IncidentType_text k = IncidentType_text k' \<and> stringValue WorkloadID_String w = stringValue WorkloadID_String w'
    \<and> stringValue DeviceID_String d = stringValue DeviceID_String d'"
proof -
  let ?l = "\<lambda>k w x d r. [IncidentType_text k, HostID_String host, Code_text r, stringValue WorkloadID_String w,
       stringValue ExecutionID_String x, stringValue DeviceID_String d]"
  have "?l k w x d r = ?l k' w' x' d' r'"
    by (rule Join_inj[where c = "CHR ''|''"])
      (use assms type_text[OF assms(2)] type_text[OF assms(3)] code_text[OF assms(4)] code_text[OF assms(5)]
        scope_texts[OF assms(6)] scope_texts[OF assms(7)] in \<open>auto simp: incident_key_def\<close>)
  then show ?thesis by simp
qed

lemma type_text_inj: "ValidIncidentType k \<Longrightarrow> ValidIncidentType k' \<Longrightarrow> IncidentType_text k = IncidentType_text k' \<Longrightarrow> k = k'"
  by (cases k; cases k') simp_all

lemma stringValue_workload:
  "scoped h w x d \<Longrightarrow> scoped h' w' x' d' \<Longrightarrow> stringValue WorkloadID_String w = stringValue WorkloadID_String w' \<Longrightarrow> w = w'"
  using valid_id_text(3)[of _ "''workload''"]
  by (auto simp: stringValue_def scoped_def workload_id.check_text workload_id.text_inj split: option.splits)

lemma stringValue_device:
  "scoped h w x d \<Longrightarrow> scoped h' w' x' d' \<Longrightarrow> stringValue DeviceID_String d = stringValue DeviceID_String d' \<Longrightarrow> d = d'"
  using valid_id_text(3)[of _ "''device''"]
  by (auto simp: stringValue_def scoped_def device_id.check_text device_id.text_inj split: option.splits)

section \<open>Acceptable inputs\<close>

definition facts_ok :: "WorkloadFacts \<Rightarrow> bool" where
  "facts_ok f \<longleftrightarrow> WorkloadID_Validate (dw_WorkloadID (wf_Workload f)) = None
     \<and> (case wf_Binding f of None \<Rightarrow> True | Some b \<Rightarrow> ValidCode (rb_ErrorCode b))
     \<and> (case wf_Current f of None \<Rightarrow> True | Some s \<Rightarrow> ValidateResourceClaim (sn_Resources s) = None)"

definition execution_ok :: "ExecutionObservation \<Rightarrow> bool" where
  "execution_ok e \<longleftrightarrow> ExecutionID_Validate (ex_ExecutionID e) = None
     \<and> (case ex_MinerTelemetry e of None \<Rightarrow> True | Some t \<Rightarrow> ValidCode (mt_ErrorCode t))
     \<and> (case ex_UsefulWork e of None \<Rightarrow> True | Some u \<Rightarrow> ValidCode (uw_ReasonCode u))"

definition input_ok :: "Input \<Rightarrow> bool" where
  "input_ok i \<longleftrightarrow> HostID_Validate (ei_HostID i) = None
     \<and> distinct (map (\<lambda>f. dw_WorkloadID (wf_Workload f)) (ei_Workloads i))
     \<and> list_all facts_ok (ei_Workloads i) \<and> list_all execution_ok (ho_Executions (ei_Observed i))"

text \<open>\<open>good host w c\<close>: \<open>c\<close> was built by \<open>NewCondition\<close> from valid parts, for the workload \<open>w\<close> of the Host.\<close>

definition good :: "HostID \<Rightarrow> WorkloadID option \<Rightarrow> IncidentCondition \<Rightarrow> bool" where
  "good host w c \<longleftrightarrow> (\<exists>k sv x d r. c = NewCondition k sv host w x d r \<and> ValidIncidentType k
     \<and> ValidIncidentSeverity sv \<and> ValidCode r \<and> scoped host w x d)"

lemma goodI: "ValidIncidentType k \<Longrightarrow> ValidIncidentSeverity sv \<Longrightarrow> ValidCode r \<Longrightarrow> scoped host (Some i) x d
    \<Longrightarrow> good host (Some i) (workload_condition host i x d k sv r)"
  unfolding good_def workload_condition_def by blast

lemma condition_fields [simp]:
  "ic_WorkloadID (NewCondition k sv host w x d r) = w" "ic_DeviceID (NewCondition k sv host w x d r) = d"
  "ic_Type (NewCondition k sv host w x d r) = k" "ic_Key (NewCondition k sv host w x d r) = incident_key k host w x d r"
  "ic_WorkloadID (workload_condition host i x d k sv r) = Some i" "ic_DeviceID (workload_condition host i x d k sv r) = d"
  by (simp_all add: NewCondition_def workload_condition_def Let_def)

lemma good_keys:
  assumes "good host w c" "good host w' c'" "ic_Key c = ic_Key c'"
  shows "ic_Type c = ic_Type c' \<and> w = w' \<and> ic_DeviceID c = ic_DeviceID c'"
proof -
  obtain k sv x d r where c: "c = NewCondition k sv host w x d r" "ValidIncidentType k" "ValidCode r" "scoped host w x d"
    using assms(1) by (auto simp: good_def)
  obtain k' sv' x' d' r' where c': "c' = NewCondition k' sv' host w' x' d' r'" "ValidIncidentType k'" "ValidCode r'"
    "scoped host w' x' d'" using assms(2) by (auto simp: good_def)
  have "incident_key k host w x d r = incident_key k' host w' x' d' r'" using assms(3) by (simp add: c(1) c'(1))
  from key_determines[OF this c(2) c'(2) c(3) c'(3) c(4) c'(4)]
  show ?thesis using type_text_inj[OF c(2) c'(2)] stringValue_workload[OF c(4) c'(4)] stringValue_device[OF c(4) c'(4)]
    by (simp add: c(1) c'(1))
qed

lemma reason_or_valid: "ValidCode c \<Longrightarrow> ValidCode d \<Longrightarrow> ValidCode (reason_or c d)"
  by (simp add: reason_or_def)

lemma incidentTypeForCode_valid: "ValidIncidentType (incidentTypeForCode c)"
  by (simp add: incidentTypeForCode_def)

lemma useful_work_good:
  assumes "scoped host (Some i) x d" and "case u of None \<Rightarrow> True | Some v \<Rightarrow> ValidCode (uw_ReasonCode v)"
  shows "list_all (good host (Some i)) (useful_work_conditions (workload_condition host i x d) u)
    \<and> length (useful_work_conditions (workload_condition host i x d) u) \<le> 1"
  using assms by (auto simp: useful_work_conditions_def intro!: goodI reason_or_valid split: option.splits)

lemma execution_good:
  assumes "scoped host (Some i) (Some (ex_ExecutionID e)) None" and "execution_ok e"
  shows "list_all (good host (Some i)) (execution_conditions host i e) \<and> length (execution_conditions host i e) \<le> 1"
proof -
  have u: "case ex_UsefulWork e of None \<Rightarrow> True | Some v \<Rightarrow> ValidCode (uw_ReasonCode v)"
    using assms(2) by (simp add: execution_ok_def)
  have t: "ex_MinerTelemetry e = Some t \<Longrightarrow> ValidCode (mt_ErrorCode t)" for t
    using assms(2) by (simp add: execution_ok_def)
  show ?thesis using useful_work_good[OF assms(1) u] t
    by (auto simp: execution_conditions_def Let_def intro!: goodI reason_or_valid assms(1) split: option.splits)
qed

lemma singleton_distinct: "length xs \<le> 1 \<Longrightarrow> distinct (map f xs)"
  by (cases xs) auto

lemma scoped_device: "scoped host (Some i) None None \<Longrightarrow> DeviceID_Validate d = None \<Longrightarrow> scoped host (Some i) None (Some d)"
  by (simp add: scoped_def)

lemma device_conditions:
  assumes "scoped host (Some i) None None" and "\<forall>d\<in>set ds. DeviceID_Validate d = None" and "distinct ds"
    and "ValidIncidentType k" and "ValidIncidentSeverity sv" and "ValidCode r"
  shows "let cs = map (\<lambda>d. workload_condition host i None (Some d) k sv r) ds
                  @ (if b then [workload_condition host i None None k sv r] else [])
    in list_all (good host (Some i)) cs \<and> distinct (map ic_DeviceID cs)"
proof -
  have "list_all (good host (Some i)) (map (\<lambda>d. workload_condition host i None (Some d) k sv r) ds
      @ (if b then [workload_condition host i None None k sv r] else []))"
    using assms(2) by (auto simp: list_all_iff intro!: goodI scoped_device assms(1,4-6))
  moreover have "map ic_DeviceID (map (\<lambda>d. workload_condition host i None (Some d) k sv r) ds
      @ (if b then [workload_condition host i None None k sv r] else [])) = map Some ds @ (if b then [None] else [])"
    by (simp add: comp_def)
  moreover have "distinct (map Some ds @ (if b then [None] else []))"
    using assms(3) by (auto simp: distinct_map)
  ultimately show ?thesis unfolding Let_def by metis
qed

lemma conflict_devices:
  "set (fst (unmanagedConflicts claim ps)) \<subseteq> set (cl_DeviceIDs claim) \<and> distinct (fst (unmanagedConflicts claim ps))"
  "set (fst (ownedResourceConflicts s es known)) \<subseteq> set (cl_DeviceIDs (sn_Resources s))
    \<and> distinct (fst (ownedResourceConflicts s es known))"
  by (auto simp: unmanagedConflicts_def ownedResourceConflicts_def Let_def)

lemma workload_conditions_good:
  assumes host: "HostID_Validate host = None" and f: "facts_ok f"
    and es: "list_all execution_ok (ho_Executions obs)"
  shows "list_all (good host (Some (dw_WorkloadID (wf_Workload f)))) (workload_conditions host obs known hold f)
    \<and> distinct (map ic_DeviceID (workload_conditions host obs known hold f))"
proof -
  let ?i = "dw_WorkloadID (wf_Workload f)"
  have sc: "scoped host (Some ?i) None None" using host f by (simp add: scoped_def facts_ok_def)
  have one: "good host (Some ?i) (workload_condition host ?i None None k sv r)"
    if "ValidIncidentType k" "ValidIncidentSeverity sv" "ValidCode r" for k sv r using goodI[OF that sc] .
  have cur: "list_all (good host (Some ?i)) (execution_conditions host ?i e) \<and> length (execution_conditions host ?i e) \<le> 1"
    if "currentExecution s (ho_Executions obs) = Some e" for s e
  proof -
    have "e \<in> set (ho_Executions obs)" using that by (auto simp: currentExecution_def dest: find_SomeD)
    then have ok: "execution_ok e" using es by (simp add: list_all_iff)
    then have "scoped host (Some ?i) (Some (ex_ExecutionID e)) None" using sc by (simp add: scoped_def execution_ok_def)
    from execution_good[OF this ok] show ?thesis .
  qed
  have claim: "distinct (cl_DeviceIDs (sn_Resources s)) \<and> (\<forall>d\<in>set (cl_DeviceIDs (sn_Resources s)). DeviceID_Validate d = None)"
    if "wf_Current f = Some s" for s using f that by (simp add: facts_ok_def ValidateResourceClaim_None)
  have bind: "ValidCode (rb_ErrorCode b)" if "wf_Binding f = Some b" for b using f that by (simp add: facts_ok_def)
  have dev: "let cs = map (\<lambda>d. workload_condition host ?i None (Some d) k sv r) ds
                  @ (if b then [workload_condition host ?i None None k sv r] else [])
    in list_all (good host (Some ?i)) cs \<and> distinct (map ic_DeviceID cs)"
    if "wf_Current f = Some s" "set ds \<subseteq> set (cl_DeviceIDs (sn_Resources s))" "distinct ds"
      "ValidIncidentType k" "ValidIncidentSeverity sv" "ValidCode r" for s ds k sv r b
    by (rule device_conditions[OF sc _ that(3-6)]) (use claim[OF that(1)] that(2) in blast)
  show ?thesis
  proof (cases "wf_Current f")
    case None
    then show ?thesis using one bind by (auto simp: workload_conditions_def Let_def incidentTypeForCode_valid split: option.splits)
  next
    case (Some s)
    note miss = dev[OF Some, where ds = "missingDevices (ho_Inventory obs) (cl_DeviceIDs (sn_Resources s))" and b = False
        and k = IncidentIncompatibleHardware and sv = IncidentSeverityError and r = INCOMPATIBLE_HARDWARE]
    note unm = dev[OF Some, where ds = "fst (unmanagedConflicts (sn_Resources s) (ho_UnmanagedProcesses obs))"
        and k = IncidentUnmanagedProcessConflict and sv = IncidentSeverityWarning and r = UNMANAGED_PROCESS_CONFLICT]
    note own = dev[OF Some, where ds = "fst (ownedResourceConflicts s (ho_Executions obs) known)"
        and k = IncidentResourceConflict and sv = IncidentSeverityError and r = CONFIG_CONFLICT]
    have m: "set (missingDevices (ho_Inventory obs) (cl_DeviceIDs (sn_Resources s))) \<subseteq> set (cl_DeviceIDs (sn_Resources s))"
      "distinct (missingDevices (ho_Inventory obs) (cl_DeviceIDs (sn_Resources s)))"
      using claim[OF Some] by (auto simp: missingDevices_def)
    note facts = miss[OF m] unm[OF conflict_devices(1)[THEN conjunct1] conflict_devices(1)[THEN conjunct2]]
      own[OF conflict_devices(2)[THEN conjunct1] conflict_devices(2)[THEN conjunct2]]
    obtain ds u where u: "unmanagedConflicts (sn_Resources s) (ho_UnmanagedProcesses obs) = (ds, u)" by fastforce
    obtain os c where o': "ownedResourceConflicts s (ho_Executions obs) known = (os, c)" by fastforce
    show ?thesis using facts one bind cur[of s] singleton_distinct[of "execution_conditions host ?i _" ic_DeviceID]
      unfolding workload_conditions_def Let_def Some u o' option.case
      by (auto simp: u o' incidentTypeForCode_valid simp del: Product_Type.split_paired_All split: option.splits if_splits)
  qed
qed

section \<open>Every evaluation can be recorded\<close>

definition scope_of :: "IncidentCondition \<Rightarrow> IncidentType \<times> WorkloadID option \<times> DeviceID option" where
  "scope_of c = (ic_Type c, ic_WorkloadID c, ic_DeviceID c)"

lemma good_workload: "good host w c \<Longrightarrow> ic_WorkloadID c = w"
  by (auto simp: good_def)

lemma distinct_by_device: "distinct (map ic_DeviceID cs) \<Longrightarrow> distinct (map scope_of cs)"
  by (induction cs) (auto simp: scope_of_def)

lemma concat_scopes:
  assumes "distinct (map i fs)" and "\<forall>f\<in>set fs. list_all (\<lambda>c. ic_WorkloadID c = Some (i f)) (g f) \<and> distinct (map ic_DeviceID (g f))"
  shows "distinct (map scope_of (concat (map g fs)))"
  using assms
proof (induction fs)
  case (Cons f fs)
  have d: "distinct (map scope_of (g f))" using Cons.prems(2) distinct_by_device by simp
  have "scope_of x \<noteq> scope_of y" if "x \<in> set (g f)" "h \<in> set fs" "y \<in> set (g h)" for x h y
    using that Cons.prems by (auto simp: scope_of_def list_all_iff)
  then have "set (map scope_of (g f)) \<inter> set (map scope_of (concat (map g fs))) = {}" by fastforce
  moreover have "distinct (map scope_of (concat (map g fs)))" using Cons by simp
  ultimately show ?case using d by (simp only: list.map concat.simps map_append distinct_append)
qed simp

lemma host_condition_good:
  "HostID_Validate host = None \<Longrightarrow> ValidIncidentType k \<Longrightarrow> ValidIncidentSeverity sv \<Longrightarrow> ValidCode r
    \<Longrightarrow> good host None (host_condition host k sv r)"
  unfolding good_def host_condition_def scoped_def by blast

lemma host_condition_fields [simp]:
  "ic_WorkloadID (host_condition host k sv r) = None" "ic_Type (host_condition host k sv r) = k"
  by (simp_all add: host_condition_def)

lemma Evaluate_conditions:
  assumes "input_ok i"
  shows "\<exists>raw. ev_Conditions (Evaluate i) = sort_key ic_Key raw \<and> (\<forall>c\<in>set raw. \<exists>w. good (ei_HostID i) w c)
    \<and> distinct (map scope_of raw)"
proof -
  let ?host = "ei_HostID i"
  let ?held = "if hold_is_active i then [host_condition ?host IncidentMaintenanceHold IncidentSeverityInfo MAINTENANCE_HOLD] else []"
  let ?off = "host_condition ?host IncidentAgentOffline IncidentSeverityError SERVICE_NOT_READY"
  let ?stale = "host_condition ?host IncidentMonitoringStale IncidentSeverityWarning SERVICE_NOT_READY"
  let ?g = "workload_conditions ?host (ei_Observed i) (known_executions (ei_AllSnapshots i)) (hold_is_active i)"
  have host: "HostID_Validate ?host = None" using assms by (simp add: input_ok_def)
  have h: "good ?host None ?off" "good ?host None ?stale" "\<forall>c\<in>set ?held. good ?host None c"
    using host by (auto intro!: host_condition_good)
  have g: "list_all (good ?host (Some (dw_WorkloadID (wf_Workload f)))) (?g f) \<and> distinct (map ic_DeviceID (?g f))"
    if "f \<in> set (ei_Workloads i)" for f
    using workload_conditions_good[OF host] assms that by (auto simp: input_ok_def list_all_iff)
  have wl: "list_all (\<lambda>c. ic_WorkloadID c = Some (dw_WorkloadID (wf_Workload f))) (?g f)"
    if "f \<in> set (ei_Workloads i)" for f using g[OF that] good_workload by (fastforce simp: list_all_iff)
  let ?ws = "concat (map ?g (ei_Workloads i))"
  have ws: "distinct (map scope_of ?ws)"
    by (rule concat_scopes[where i = "\<lambda>f. dw_WorkloadID (wf_Workload f)"])
      (use assms g wl in \<open>auto simp: input_ok_def\<close>)
  have "ic_WorkloadID c \<noteq> None" if "c \<in> set ?ws" for c using that wl by (fastforce simp: list_all_iff)
  then have full: "distinct (map scope_of (?held @ ?ws))" using ws by (force simp: scope_of_def)
  have gs: "\<forall>c\<in>set (?held @ ?ws). \<exists>w. good ?host w c" using h(3) g by (fastforce simp: list_all_iff)
  show ?thesis
  proof (cases "ei_HasObserved i \<and> monitored i \<and> fully_fresh (ei_Observed i)")
    case True
    then have "ev_Conditions (Evaluate i) = sort_key ic_Key (?held @ ?ws)" by (simp add: Evaluate_def Let_def finish_def)
    then show ?thesis using full gs by blast
  next
    case False
    let ?c = "if \<not> ei_HasObserved i then (if running_desired i then [?off] else [])
      else if \<not> monitored i then [?off] else if running_desired i then [?stale] else []"
    have "ev_Conditions (Evaluate i) = sort_key ic_Key (?held @ ?c)"
      using False by (simp add: Evaluate_def Let_def finish_def)
    moreover have c: "?c = [] \<or> ?c = [?off] \<or> ?c = [?stale]" by simp
    have "distinct (map scope_of (?held @ c))" if "c = [] \<or> c = [?off] \<or> c = [?stale]" for c
      using that by (auto simp: scope_of_def)
    moreover have "\<forall>x\<in>set (?held @ c). \<exists>w. good ?host w x" if "c = [] \<or> c = [?off] \<or> c = [?stale]" for c
      using that h by auto
    ultimately show ?thesis using c by blast
  qed
qed

definition recordable :: "HostID \<Rightarrow> IncidentCondition \<Rightarrow> bool" where
  "recordable host c \<longleftrightarrow> ValidateIncidentCondition c = None \<and> ic_HostID c = host
     \<and> c = NewCondition (ic_Type c) (ic_Severity c) host (ic_WorkloadID c) (ic_ExecutionID c) (ic_DeviceID c) (ic_ReasonCode c)"

lemma good_recordable: "good host w c \<Longrightarrow> recordable host c"
  unfolding good_def recordable_def using NewCondition_valid by (auto simp: NewCondition_def Let_def)

text \<open>
  Whatever the evaluator reports can be recorded: for well-formed facts (valid identifiers and error
  codes, valid claims, distinct workloads) every condition passes validation, belongs to the Host, is the
  one its own parts determine, and no two conditions share a key; the list is in key order.
\<close>

theorem evaluation_is_recordable:
  assumes "input_ok i"
  shows "list_all (recordable (ei_HostID i)) (ev_Conditions (Evaluate i))
    \<and> distinct (map ic_Key (ev_Conditions (Evaluate i))) \<and> sorted (map ic_Key (ev_Conditions (Evaluate i)))"
proof -
  obtain raw where raw: "ev_Conditions (Evaluate i) = sort_key ic_Key raw"
    "\<forall>c\<in>set raw. \<exists>w. good (ei_HostID i) w c" "distinct (map scope_of raw)"
    using Evaluate_conditions[OF assms] by blast
  have scope: "scope_of a = scope_of b" if ab: "a \<in> set raw" "b \<in> set raw" "ic_Key a = ic_Key b" for a b
  proof -
    obtain w w' where g: "good (ei_HostID i) w a" "good (ei_HostID i) w' b" using raw(2) ab(1,2) by blast
    show ?thesis using good_keys[OF g ab(3)] good_workload[OF g(1)] good_workload[OF g(2)] by (simp add: scope_of_def)
  qed
  have inj: "inj_on scope_of (set raw)" using raw(3) by (simp add: distinct_map)
  have "inj_on ic_Key (set raw)"
  proof (rule inj_onI)
    fix a b assume ab: "a \<in> set raw" "b \<in> set raw" "ic_Key a = ic_Key b"
    show "a = b" by (rule inj_onD[OF inj scope[OF ab] ab(1,2)])
  qed
  then have keys: "distinct (map ic_Key raw)" using raw(3) by (simp add: distinct_map)
  have "mset (map ic_Key (sort_key ic_Key raw)) = mset (map ic_Key raw)" by simp
  then have "distinct (map ic_Key (sort_key ic_Key raw))" using keys by (metis mset_eq_imp_distinct_iff)
  moreover have "list_all (recordable (ei_HostID i)) (sort_key ic_Key raw)"
    using raw(2) good_recordable by (auto simp: list_all_iff)
  ultimately show ?thesis by (simp add: raw(1))
qed

text \<open>Concrete facts: a Host, a workload that is to run, and an observation with one execution.\<close>

definition demo_text :: "string \<Rightarrow> string" where
  "demo_text kind = kind @ ''_'' @ replicate 32 (CHR ''a'')"

definition demo_workload :: DesiredWorkload where
  "demo_workload = \<lparr>dw_WorkloadID = WorkloadID (demo_text ''workload''),
     dw_Meta = \<lparr>meta_SchemaVersion = 1, meta_Revision = 1, meta_ContentHash = [], meta_Origin = OriginController,
       meta_CreatedAt = 1, meta_UpdatedAt = 1\<rparr>, dw_DesiredGeneration = 1, dw_EffectiveHash = [],
     dw_Content = \<lparr>dw_Name = ''a'', dw_HostID = HostID (demo_text ''host''), dw_ProfileID = ProfileID (demo_text ''profile''),
       dw_RunState = DesiredRunning, dw_Worker = [], dw_Resources = \<lparr>cl_CPU = True, cl_DeviceIDs = []\<rparr>\<rparr>\<rparr>"

definition demo_input :: Input where
  "demo_input = \<lparr>ei_HostID = HostID (demo_text ''host''),
     ei_Workloads = [\<lparr>wf_Workload = demo_workload, wf_Current = None, wf_Binding = None\<rparr>], ei_AllSnapshots = [], ei_Hold = None,
     ei_Observed = zero_HostObservation\<lparr>ho_HostID := HostID (demo_text ''host''), ho_ConnectionEpoch := 1, ho_Connected := True,
       ho_Ready := True, ho_Fresh := True, ho_InventoryFresh := True, ho_ProcessesFresh := True\<rparr>, ei_HasObserved = True\<rparr>"

lemma demo_text_valid: "validate (demo_text kind) kind = None"
proof -
  have "list_all is_hex_lower (replicate 32 (CHR ''a''))" by (simp add: list_all_iff is_hex_lower_def)
  then show ?thesis unfolding validate_None_iff demo_text_def by (intro exI[of _ "replicate 32 (CHR ''a'')"]) simp
qed

lemma demo_input_ok: "input_ok demo_input"
  by (simp add: input_ok_def demo_input_def demo_workload_def facts_ok_def host_id.check_text workload_id.check_text
      demo_text_valid zero_HostObservation_def)

theorem evaluation_is_recordable_witness:
  "distinct (map ic_Key (ev_Conditions (Evaluate demo_input)))"
  using evaluation_is_recordable[OF demo_input_ok] by blast

section \<open>Silence means health\<close>

definition process_touches :: "ResourceClaim \<Rightarrow> UnmanagedProcessObservation \<Rightarrow> bool" where
  "process_touches claim p \<longleftrightarrow> set (up_DeviceIDs p) \<inter> set (cl_DeviceIDs claim) \<noteq> {} \<or> up_CPU p \<and> cl_CPU claim
     \<or> up_ResourceScope p = ProcessResourcesUnknown
       \<and> (cl_CPU claim \<and> up_CPURelevant p \<or> cl_DeviceIDs claim \<noteq> [] \<and> up_GPURelevant p)"

definition claims_meet :: "ResourceClaim \<Rightarrow> ResourceClaim \<Rightarrow> bool" where
  "claims_meet a b \<longleftrightarrow> cl_CPU a \<and> cl_CPU b \<or> set (cl_DeviceIDs a) \<inter> set (cl_DeviceIDs b) \<noteq> {}"

definition works :: "ExecutionObservation \<Rightarrow> bool" where
  "works e \<longleftrightarrow> ex_Status e \<in> {ExecutionStarting, ExecutionStopping}
     \<or> ex_Status e \<notin> {ExecutionFailed, ExecutionCrashed, ExecutionBackoff, ExecutionStopped}
       \<and> (case ex_MinerTelemetry e of None \<Rightarrow> True | Some t \<Rightarrow> mt_Health t \<noteq> MinerHealthError)
       \<and> (case ex_UsefulWork e of None \<Rightarrow> False | Some u \<Rightarrow> uw_UsefulWork u = UsefulWorkConfirmed
            \<and> uw_Availability u \<notin> {TelemetryUnknown, TelemetryUnavailable, TelemetryStale})"

definition healthy :: "Input \<Rightarrow> WorkloadFacts \<Rightarrow> bool" where
  "healthy i f \<longleftrightarrow> (case wf_Binding f of None \<Rightarrow> True | Some b \<Rightarrow> rb_BlockedGeneration b \<noteq> dw_DesiredGeneration (wf_Workload f))
     \<and> (case wf_Current f of None \<Rightarrow> False | Some s \<Rightarrow>
          set (cl_DeviceIDs (sn_Resources s)) \<subseteq> gpu_DeviceID ` set (inv_GPUs (ho_Inventory (ei_Observed i)))
          \<and> list_all (\<lambda>p. \<not> process_touches (sn_Resources s) p) (ho_UnmanagedProcesses (ei_Observed i))
          \<and> list_all (\<lambda>e. case other_owner s (known_executions (ei_AllSnapshots i)) e of None \<Rightarrow> True
                | Some other \<Rightarrow> \<not> claims_meet (sn_Resources s) (sn_Resources other)) (ho_Executions (ei_Observed i))
          \<and> (case currentExecution s (ho_Executions (ei_Observed i)) of None \<Rightarrow> False | Some e \<Rightarrow> works e))"

lemma missing_Nil: "missingDevices iv ds = [] \<longleftrightarrow> set ds \<subseteq> gpu_DeviceID ` set (inv_GPUs iv)"
  by (auto simp: missingDevices_def filter_empty_conv list_ex_iff)

lemma sorted_remdups_Nil [simp]: "sort (remdups xs) = [] \<longleftrightarrow> xs = []"
  by (metis set_empty set_remdups set_sort)

lemma unmanaged_none:
  "unmanagedConflicts claim ps = ([], False) \<longleftrightarrow> list_all (\<lambda>p. \<not> process_touches claim p) ps"
  by (fastforce simp: unmanagedConflicts_def process_touches_def list_all_iff list_ex_iff filter_empty_conv)

lemma map_filter_set: "y \<in> set (List.map_filter f xs) \<longleftrightarrow> (\<exists>x\<in>set xs. f x = Some y)"
  by (induction xs) (auto simp: List.map_filter_simps split: option.splits)

lemma owned_none:
  "ownedResourceConflicts s es known = ([], False) \<longleftrightarrow>
     list_all (\<lambda>e. case other_owner s known e of None \<Rightarrow> True
       | Some other \<Rightarrow> \<not> claims_meet (sn_Resources s) (sn_Resources other)) es"
proof -
  have "ownedResourceConflicts s es known = ([], False) \<longleftrightarrow>
     (\<forall>o'\<in>set (List.map_filter (other_owner s known) es). \<not> claims_meet (sn_Resources s) (sn_Resources o'))"
    by (auto simp: ownedResourceConflicts_def Let_def claims_meet_def list_ex_iff filter_empty_conv)
  then show ?thesis by (auto simp: map_filter_set list_all_iff split: option.splits)
qed

lemma useful_none:
  "useful_work_conditions at u = [] \<longleftrightarrow> (case u of None \<Rightarrow> False | Some u \<Rightarrow> uw_UsefulWork u = UsefulWorkConfirmed
     \<and> uw_Availability u \<notin> {TelemetryUnknown, TelemetryUnavailable, TelemetryStale})"
  by (auto simp: useful_work_conditions_def split: option.split)

lemma execution_none: "execution_conditions host i e = [] \<longleftrightarrow> works e"
  by (auto simp: execution_conditions_def Let_def works_def useful_none split: option.split)

lemma workload_none:
  assumes "dw_RunState (dw_Content (wf_Workload f)) = DesiredRunning"
  shows "workload_conditions (ei_HostID i) (ei_Observed i) (known_executions (ei_AllSnapshots i)) False f = [] \<longleftrightarrow> healthy i f"
proof (cases "wf_Current f")
  case None
  then show ?thesis using assms by (auto simp: workload_conditions_def healthy_def Let_def split: option.splits)
next
  case (Some s)
  let ?known = "known_executions (ei_AllSnapshots i)" and ?o = "ei_Observed i"
  obtain ds u where u: "unmanagedConflicts (sn_Resources s) (ho_UnmanagedProcesses ?o) = (ds, u)" by fastforce
  obtain os c where o': "ownedResourceConflicts s (ho_Executions ?o) ?known = (os, c)" by fastforce
  have "workload_conditions (ei_HostID i) ?o ?known False f = [] \<longleftrightarrow>
    (case wf_Binding f of None \<Rightarrow> True | Some b \<Rightarrow> rb_BlockedGeneration b \<noteq> dw_DesiredGeneration (wf_Workload f))
    \<and> missingDevices (ho_Inventory ?o) (cl_DeviceIDs (sn_Resources s)) = [] \<and> (ds, u) = ([], False) \<and> (os, c) = ([], False)
    \<and> (case currentExecution s (ho_Executions ?o) of None \<Rightarrow> False | Some e \<Rightarrow> works e)"
    using assms by (auto simp: workload_conditions_def Let_def Some u o' execution_none split: option.splits)
  then show ?thesis
    unfolding u[symmetric] o'[symmetric] healthy_def Some option.case missing_Nil unmanaged_none owned_none by blast
qed

text \<open>
  The evaluator is silent exactly when nothing is wrong: no hold is active, a Host that was ever
  observed is connected, and when work is to run on it the observation is complete and fresh and every
  running workload is healthy: not blocked, with a snapshot whose devices are present and untouched by
  foreign processes and other workloads, and whose own execution works.
\<close>

theorem evaluation_silent_iff_healthy:
  "ev_Conditions (Evaluate i) = [] \<longleftrightarrow>
     \<not> hold_is_active i \<and> (ei_HasObserved i \<longrightarrow> monitored i)
     \<and> (running_desired i \<longrightarrow> ei_HasObserved i \<and> fully_fresh (ei_Observed i)
          \<and> (\<forall>f\<in>set (ei_Workloads i). dw_RunState (dw_Content (wf_Workload f)) = DesiredRunning \<longrightarrow> healthy i f))"
proof -
  let ?g = "\<lambda>h. workload_conditions (ei_HostID i) (ei_Observed i) (known_executions (ei_AllSnapshots i)) h"
  have stopped: "?g h f = []" if "dw_RunState (dw_Content (wf_Workload f)) \<noteq> DesiredRunning" for h f
    using that by (simp add: workload_conditions_def Let_def)
  have each: "?g False f = [] \<longleftrightarrow> (dw_RunState (dw_Content (wf_Workload f)) = DesiredRunning \<longrightarrow> healthy i f)" for f
    using stopped[of f] workload_none[of f] by (cases "dw_RunState (dw_Content (wf_Workload f)) = DesiredRunning") auto
  have all: "concat (map (?g False) (ei_Workloads i)) = [] \<longleftrightarrow>
      (running_desired i \<longrightarrow> (\<forall>f\<in>set (ei_Workloads i). dw_RunState (dw_Content (wf_Workload f)) = DesiredRunning \<longrightarrow> healthy i f))"
    unfolding concat_eq_Nil_conv running_desired_def list_ex_iff using each by auto
  have sorted: "sort_key ic_Key cs = [] \<longleftrightarrow> cs = []" for cs by (metis length_sort length_0_conv)
  show ?thesis
    by (cases "hold_is_active i"; cases "ei_HasObserved i"; cases "monitored i"; cases "fully_fresh (ei_Observed i)")
      (simp_all only: Evaluate_def Let_def finish_def Evaluation.simps sorted all if_True if_False not_True_eq_False
        not_False_eq_True append.simps simp_thms list.distinct split: if_split)
qed

theorem evaluation_silent_iff_healthy_witness:
  "ev_Conditions (Evaluate demo_input) \<noteq> [] \<and> ev_Conditions (Evaluate (demo_input\<lparr>ei_Workloads := []\<rparr>)) = []"
  using evaluation_silent_iff_healthy[of demo_input] evaluation_silent_iff_healthy[of "demo_input\<lparr>ei_Workloads := []\<rparr>"]
  by (simp add: demo_input_def demo_workload_def healthy_def running_desired_def monitored_def hold_is_active_def)

end
