(* ===== verification/Incident_Store.thy ===== *)
theory Incident_Store
  imports Incident_Eval Workload_Store
begin

text \<open>
  \<open>internal/farmconfig/incidents.go\<close>: the table of incidents and the authority, a fingerprint of the
  persistent facts that an evaluation of a Host depends on. An evaluation is recorded in one transaction,
  and only if the authority is still the one it was made under.
\<close>

section \<open>The authority\<close>

definition FormatBool :: "bool \<Rightarrow> string" where
  "FormatBool b = (if b then ''true'' else ''false'')"

definition FormatUint :: "uint64 \<Rightarrow> string" where
  "FormatUint n = dec_digits (unat n)"

text \<open>One call of \<open>writeAuthorityFields\<close> writes each field after its length in eight bytes.\<close>

definition framed :: "string \<Rightarrow> string" where
  "framed field = map char_of (be_bytes 8 (length field)) @ field"

definition workload_facts :: "DesiredWorkload \<Rightarrow> string list" where
  "workload_facts w = [''WORKLOAD'', WorkloadID_String (dw_WorkloadID w), FormatUint (meta_Revision (dw_Meta w)),
     meta_ContentHash (dw_Meta w), DesiredRunState_text (dw_RunState (dw_Content w)),
     FormatBool (cl_CPU (dw_Resources (dw_Content w))), FormatUint (dw_DesiredGeneration w), dw_EffectiveHash w]"

definition workload_device_facts :: "DesiredWorkload \<Rightarrow> string list list" where
  "workload_device_facts w = map (\<lambda>d. [''WORKLOAD_DEVICE'', WorkloadID_String (dw_WorkloadID w), DeviceID_String d])
     (sort (cl_DeviceIDs (dw_Resources (dw_Content w))))"

definition snapshot_facts :: "ResolvedExecutionSnapshot \<Rightarrow> string list" where
  "snapshot_facts s = [''SNAPSHOT'', WorkloadID_String (sn_WorkloadID s), FormatUint (sn_DesiredGeneration s),
     ExecutionID_String (sn_ExecutionID s), sn_ResolvedHash s, FormatBool (cl_CPU (sn_Resources s))]"

definition snapshot_device_facts :: "ResolvedExecutionSnapshot \<Rightarrow> string list list" where
  "snapshot_device_facts s = map (\<lambda>d. [''SNAPSHOT_DEVICE'', WorkloadID_String (sn_WorkloadID s),
     FormatUint (sn_DesiredGeneration s), DeviceID_String d]) (sort (cl_DeviceIDs (sn_Resources s)))"

definition binding_facts :: "WorkloadRuntimeBinding \<Rightarrow> string list" where
  "binding_facts b = [''BINDING'', WorkloadID_String (rb_WorkloadID b), FormatUint (rb_BlockedGeneration b),
     Code_text (rb_ErrorCode b), Itoa (rb_BlockedAt b - unix_epoch)]"

text \<open>The rows the authority reads, each table in its order.\<close>

definition host_workloads :: "DB \<Rightarrow> HostID \<Rightarrow> DesiredWorkload list" where
  "host_workloads db host = sort_key dw_WorkloadID (filter (\<lambda>w. dw_HostID (dw_Content w) = host) (db_workloads db))"

definition host_snapshots :: "DB \<Rightarrow> HostID \<Rightarrow> ResolvedExecutionSnapshot list" where
  "host_snapshots db host =
     sort_key sn_WorkloadID (sort_key sn_DesiredGeneration (filter (\<lambda>s. sn_HostID s = host) (db_snapshots db)))"

definition host_bindings :: "DB \<Rightarrow> HostID \<Rightarrow> WorkloadRuntimeBinding list" where
  "host_bindings db host = sort_key rb_WorkloadID
     (filter (\<lambda>b. list_ex (\<lambda>w. dw_WorkloadID w = rb_WorkloadID b \<and> dw_HostID (dw_Content w) = host) (db_workloads db)) (db_bindings db))"

definition authority_facts :: "DB \<Rightarrow> HostID \<Rightarrow> string list list" where
  "authority_facts db host =
     [[''HOST'', HostID_String host]]
     @ (case row_of mh_HostID host (db_holds db) of
          None \<Rightarrow> [] | Some h \<Rightarrow> [[''HOLD'', FormatBool (mh_Active h), FormatUint (mh_Revision h)]])
     @ map workload_facts (host_workloads db host) @ concat (map workload_device_facts (host_workloads db host))
     @ map snapshot_facts (host_snapshots db host) @ concat (map snapshot_device_facts (host_snapshots db host))
     @ map binding_facts (host_bindings db host)"

definition authority_text :: "string list list \<Rightarrow> string" where
  "authority_text facts = concat (map framed (concat facts))"

definition incidentAuthorityTx :: "DB \<Rightarrow> HostID \<Rightarrow> string" where
  "incidentAuthorityTx db host = EncodeToString (Sum256 (authority_text (authority_facts db host)))"

definition invalid_incident_host :: "HostID \<Rightarrow> error option" where
  "invalid_incident_host host = (case HostID_Validate host of None \<Rightarrow> None
     | Some e \<Rightarrow> Some (typed_cause CONFIG_CONFLICT ''invalid incident HostID'' (Some e)))"

definition IncidentAuthority :: "DB \<Rightarrow> HostID \<Rightarrow> string result" where
  "IncidentAuthority db host = guard (invalid_incident_host host) (Inr (incidentAuthorityTx db host))"

section \<open>Reading incidents\<close>

definition scope_condition :: "IncidentCondition \<Rightarrow> IncidentCondition" where
  "scope_condition c = NewCondition (ic_Type c) (ic_Severity c) (ic_HostID c) (ic_WorkloadID c) (ic_ExecutionID c)
     (ic_DeviceID c) (ic_ReasonCode c)"

definition stored_optional :: "string \<Rightarrow> ('i \<Rightarrow> error option) \<Rightarrow> 'i option \<Rightarrow> error option" where
  "stored_optional message check v = (case v of None \<Rightarrow> None | Some i \<Rightarrow> corrupt_if message (check i))"

definition scanIncident :: "Incident \<Rightarrow> Incident result" where
  "scanIncident row = guard (let c = in_Condition row in first_error
     [corrupt_if ''stored IncidentID is invalid'' (IncidentID_Validate (ic_IncidentID c)),
      corrupt_if ''stored incident HostID is invalid'' (HostID_Validate (ic_HostID c)),
      stored_optional ''stored incident WorkloadID is invalid'' WorkloadID_Validate (ic_WorkloadID c),
      stored_optional ''stored incident ExecutionID is invalid'' ExecutionID_Validate (ic_ExecutionID c),
      stored_optional ''stored incident DeviceID is invalid'' DeviceID_Validate (ic_DeviceID c),
      fail_if (in_State row \<noteq> IncidentActive \<and> in_State row \<noteq> IncidentResolved \<or> in_OccurrenceCount row = 0
          \<or> \<not> ValidIncidentType (ic_Type c) \<or> \<not> ValidIncidentSeverity (ic_Severity c) \<or> ic_Source c \<noteq> IncidentSourceController)
        (corrupt ''stored incident classification is invalid'' (Some (Plain ''invalid incident fields''))),
      fail_if (IsZero (in_FirstObservedAt row) \<or> in_LastObservedAt row < in_FirstObservedAt row
          \<or> in_State row = IncidentActive \<and> in_ResolvedAt row \<noteq> None
          \<or> in_State row = IncidentResolved
            \<and> (case in_ResolvedAt row of None \<Rightarrow> True | Some t \<Rightarrow> t < in_FirstObservedAt row))
        (corrupt ''stored incident lifecycle is invalid'' None),
      corrupt_if ''stored incident condition is invalid'' (ValidateIncidentCondition c),
      fail_if (ic_IncidentID (scope_condition c) \<noteq> ic_IncidentID c \<or> ic_Key (scope_condition c) \<noteq> ic_Key c)
        (corrupt ''stored incident identity does not match typed scope'' None)]) (Inr row)"

section \<open>Recording an evaluation\<close>

text \<open>The checks of the conditions, in their order; \<open>seen\<close> holds the identifiers met so far.\<close>

fun check_conditions :: "HostID \<Rightarrow> IncidentID list \<Rightarrow> IncidentCondition list \<Rightarrow> error option" where
  "check_conditions host seen [] = None"
| "check_conditions host seen (c # cs) =
     (if ValidateIncidentCondition c \<noteq> None \<or> ic_HostID c \<noteq> host
      then Some (typed_cause CONFIG_CONFLICT ''invalid incident condition'' (ValidateIncidentCondition c))
      else if ic_IncidentID (scope_condition c) \<noteq> ic_IncidentID c \<or> ic_Key (scope_condition c) \<noteq> ic_Key c
      then Some (typed_cause CONFIG_CONFLICT ''incident identity does not match typed scope'' None)
      else if ic_IncidentID c \<in> set seen
      then Some (typed_cause CONFIG_CONFLICT ''duplicate incident condition'' None)
      else check_conditions host (ic_IncidentID c # seen) cs)"

definition incident_row_id :: "Incident \<Rightarrow> IncidentID" where
  "incident_row_id row = ic_IncidentID (in_Condition row)"

definition resolve_incident :: "Time \<Rightarrow> Incident \<Rightarrow> Incident" where
  "resolve_incident now row = row\<lparr>in_State := IncidentResolved, in_LastObservedAt := now, in_ResolvedAt := Some now\<rparr>"

definition is_absent :: "HostID \<Rightarrow> IncidentID list \<Rightarrow> (IncidentType \<Rightarrow> bool) \<Rightarrow> Incident \<Rightarrow> bool" where
  "is_absent host current resolvable row \<longleftrightarrow> ic_HostID (in_Condition row) = host \<and> in_State row = IncidentActive
     \<and> incident_row_id row \<notin> set current \<and> resolvable (ic_Type (in_Condition row))"

definition resolve_absent :: "HostID \<Rightarrow> IncidentID list \<Rightarrow> (IncidentType \<Rightarrow> bool) \<Rightarrow> Time \<Rightarrow> DB \<Rightarrow> DB" where
  "resolve_absent host current resolvable now db =
     touch (length (filter (is_absent host current resolvable) (db_incidents db)))
       (db\<lparr>db_incidents := map (\<lambda>r. if is_absent host current resolvable r then resolve_incident now r else r) (db_incidents db)\<rparr>)"

text \<open>What a condition leaves in the row of its identifier.\<close>

definition observe_again :: "Time \<Rightarrow> IncidentCondition \<Rightarrow> Incident \<Rightarrow> Incident" where
  "observe_again now c row = row\<lparr>in_LastObservedAt := now, in_Condition := (in_Condition row)
     \<lparr>ic_Severity := ic_Severity c, ic_ReasonCode := ic_ReasonCode c, ic_Source := ic_Source c\<rparr>\<rparr>"

definition reactivate :: "Time \<Rightarrow> IncidentCondition \<Rightarrow> Incident \<Rightarrow> Incident" where
  "reactivate now c row = (observe_again now c row)\<lparr>in_State := IncidentActive, in_ResolvedAt := None,
     in_OccurrenceCount := in_OccurrenceCount row + 1\<rparr>"

definition first_occurrence :: "Time \<Rightarrow> IncidentCondition \<Rightarrow> Incident" where
  "first_occurrence now c = \<lparr>in_Condition = c, in_State = IncidentActive, in_FirstObservedAt = now,
     in_LastObservedAt = now, in_ResolvedAt = None, in_OccurrenceCount = 1\<rparr>"

definition activate :: "Time \<Rightarrow> IncidentCondition \<Rightarrow> DB \<Rightarrow> DB result" where
  "activate now c db =
     (case row_of incident_row_id (ic_IncidentID c) (db_incidents db) of
        None \<Rightarrow>
          if list_ex (\<lambda>r. ic_Key (in_Condition r) = ic_Key c) (db_incidents db) then Inl (Plain ''constraint failed'')
          else Inr (touch 1 (db\<lparr>db_incidents := db_incidents db @ [first_occurrence now c]\<rparr>))
      | Some row \<Rightarrow>
          if ic_Key (in_Condition row) \<noteq> ic_Key c
          then Inl (typed_cause CONFIG_CONFLICT ''IncidentID collision with different typed scope'' None)
          else if in_State row = IncidentResolved
          then guard (check_row (in_OccurrenceCount (reactivate now c row) > 0))
            (Inr (touch 1 (db\<lparr>db_incidents := replace_row incident_row_id (reactivate now c row) (db_incidents db)\<rparr>)))
          else Inr (touch (if (observe_again now c row)\<lparr>in_LastObservedAt := in_LastObservedAt row\<rparr> = row then 0 else 1)
            (db\<lparr>db_incidents := replace_row incident_row_id (observe_again now c row) (db_incidents db)\<rparr>)))"

fun activate_all :: "Time \<Rightarrow> IncidentCondition list \<Rightarrow> DB \<Rightarrow> DB result" where
  "activate_all now [] db = Inr db"
| "activate_all now (c # cs) db = andThen (activate now c db) (activate_all now cs)"

definition invalid_authority :: "string \<Rightarrow> error option" where
  "invalid_authority authority = fail_if (\<not> hex_decodable authority \<or> length authority \<noteq> 64)
     (typed_cause CONFIG_CONFLICT ''invalid incident authority''
       (if hex_decodable authority then None else Some (Plain ''encoding/hex: invalid input'')))"

definition ReconcileIncidents ::
  "Svc \<Rightarrow> HostID \<Rightarrow> string \<Rightarrow> IncidentCondition list \<Rightarrow> (IncidentType \<Rightarrow> bool) \<Rightarrow> DB \<Rightarrow> DB \<times> unit result" where
  "ReconcileIncidents sv host expected conditions resolvable db =
     prepare (guard (first_error [invalid_incident_host host, invalid_authority expected,
         check_conditions host [] conditions]) (Inr ())) db
     (\<lambda>_. wrapped ''reconcile incidents'' (writeTx db
       (guard (fail_if (incidentAuthorityTx db host \<noteq> expected)
         (typed_cause REVISION_CONFLICT ''incident evaluation authority changed'' None))
       (andThen (traverse scanIncident (filter (\<lambda>r. ic_HostID (in_Condition r) = host \<and> in_State r = IncidentActive) (db_incidents db)))
         (\<lambda>_. let now = sv_clock sv 0
              in andThen (activate_all now conditions
                   (resolve_absent host (map ic_IncidentID conditions) resolvable now db)) (\<lambda>db'. Inr (db', ())))))))"

section \<open>Queries\<close>

record IncidentQuery =
  iq_HostID :: "HostID option"
  iq_State :: "IncidentState option" \<comment> \<open>\<open>None\<close> is the empty text\<close>
  iq_Limit :: int

definition check_query :: "IncidentQuery \<Rightarrow> error option" where
  "check_query q = first_error
     [fail_if (let limit = (if iq_Limit q = 0 then 200 else iq_Limit q) in limit < 1 \<or> limit > 1000)
        (typed_cause CONFIG_CONFLICT ''incident query limit must be between 1 and 1000'' None),
      (case iq_HostID q of None \<Rightarrow> None
       | Some h \<Rightarrow> (case HostID_Validate h of None \<Rightarrow> None
           | Some e \<Rightarrow> Some (typed_cause CONFIG_CONFLICT ''invalid incident query HostID'' (Some e)))),
      (case iq_State q of None \<Rightarrow> None
       | Some s \<Rightarrow> fail_if (s \<noteq> IncidentActive \<and> s \<noteq> IncidentResolved)
           (typed_cause CONFIG_CONFLICT ''invalid incident query state'' None))]"

definition query_rows :: "IncidentQuery \<Rightarrow> Incident list \<Rightarrow> Incident list" where
  "query_rows q rows =
     take (nat (if iq_Limit q = 0 then 200 else iq_Limit q))
       (rev (sort_key in_LastObservedAt (rev (sort_key (\<lambda>r. IncidentID_String (incident_row_id r))
         (filter (\<lambda>r. (case iq_HostID q of None \<Rightarrow> True | Some h \<Rightarrow> ic_HostID (in_Condition r) = h)
            \<and> (case iq_State q of None \<Rightarrow> True | Some s \<Rightarrow> in_State r = s)) rows)))))"

definition ListIncidents :: "IncidentQuery \<Rightarrow> DB \<Rightarrow> Incident list result" where
  "ListIncidents q db = guard (check_query q) (traverse scanIncident (query_rows q (db_incidents db)))"

definition ListActiveIncidents :: "DB \<Rightarrow> Incident list result" where
  "ListActiveIncidents db = ListIncidents \<lparr>iq_HostID = None, iq_State = Some IncidentActive, iq_Limit = 0\<rparr> db"

end
