(* ===== verification/Store_Model.thy ===== *)
theory Store_Model
  imports Object_Store Hold_Store Incident_Store
begin

text \<open>
  What the farm configuration store promises, as an abstract machine. An event is one change of the
  workload, snapshot and binding tables that the store may make, or a change of the other tables; every
  operation of the store is a sequence of events (theory \<open>Store_Safety\<close>). The invariant of the machine is
  proved here, once per event.
\<close>

section \<open>Events\<close>

definition core :: "DB \<Rightarrow> DesiredWorkload list \<times> ResolvedExecutionSnapshot list \<times> WorkloadRuntimeBinding list" where
  "core db = (db_workloads db, db_snapshots db, db_bindings db)"

text \<open>The tables without the times at which active incidents were last seen, and without the counter.\<close>

definition forget_times :: "DB \<Rightarrow> DB" where
  "forget_times db = db\<lparr>db_incidents := map (\<lambda>r. r\<lparr>in_LastObservedAt := 0\<rparr>) (db_incidents db), db_persistent_revision := 0\<rparr>"

definition workload_row :: "DB \<Rightarrow> WorkloadID \<Rightarrow> DesiredWorkload option" where
  "workload_row db i = row_of dw_WorkloadID i (db_workloads db)"

definition snapshots_of :: "DB \<Rightarrow> WorkloadID \<Rightarrow> ResolvedExecutionSnapshot list" where
  "snapshots_of db i = filter (\<lambda>s. sn_WorkloadID s = i) (db_snapshots db)"

definition incidents_distinct :: "DB \<Rightarrow> bool" where
  "incidents_distinct db \<longleftrightarrow> distinct (map incident_row_id (db_incidents db))"

text \<open>A committed change is counted, and keeps the primary key of the incidents.\<close>

definition counted :: "DB \<Rightarrow> DB \<Rightarrow> bool" where
  "counted db db' \<longleftrightarrow> db_persistent_revision db < db_persistent_revision db' \<and> (incidents_distinct db \<longrightarrow> incidents_distinct db')"

lemma counted_same: "db_incidents db' = db_incidents db \<Longrightarrow> counted db db' \<longleftrightarrow> db_persistent_revision db < db_persistent_revision db'"
  by (simp add: counted_def incidents_distinct_def)

inductive event :: "unicode_case \<Rightarrow> DB \<Rightarrow> DB \<Rightarrow> bool" for uni where
  other: "core db' = core db \<Longrightarrow> counted db db' \<Longrightarrow> event uni db db'"
| seen_again: "core db' = core db \<Longrightarrow> db_persistent_revision db \<le> db_persistent_revision db'
    \<Longrightarrow> forget_times db' = forget_times db \<Longrightarrow> event uni db db'"
| add: "workload_row db (dw_WorkloadID w) = None \<Longrightarrow> dw_WorkloadID w \<noteq> no_workload \<Longrightarrow> snapshots_of db (dw_WorkloadID w) = []
    \<Longrightarrow> dw_DesiredGeneration w = 1 \<Longrightarrow> checkResourceConflict db w no_workload = None
    \<Longrightarrow> core db' = (db_workloads db @ [w], db_snapshots db, db_bindings db) \<Longrightarrow> counted db db' \<Longrightarrow> event uni db db'"
| change: "workload_row db (dw_WorkloadID w') = Some w \<Longrightarrow> dw_HostID (dw_Content w') = dw_HostID (dw_Content w)
    \<Longrightarrow> checkResourceConflict db w' (dw_WorkloadID w') = None
    \<Longrightarrow> (dw_DesiredGeneration w', dw_EffectiveHash w') = (dw_DesiredGeneration w, dw_EffectiveHash w)
        \<or> dw_DesiredGeneration w' = dw_DesiredGeneration w + 1 \<Longrightarrow> dw_DesiredGeneration w' > 0
    \<Longrightarrow> core db' = (replace_row dw_WorkloadID w' (db_workloads db), db_snapshots db, db_bindings db)
    \<Longrightarrow> counted db db' \<Longrightarrow> event uni db db'"
| regenerate: "workload_row db (dw_WorkloadID w') = Some w \<Longrightarrow> dw_Content w' = dw_Content (normalize_workload w)
    \<Longrightarrow> dw_DesiredGeneration w' = dw_DesiredGeneration w + 1 \<Longrightarrow> dw_DesiredGeneration w' > 0
    \<Longrightarrow> core db' = (replace_row dw_WorkloadID w' (db_workloads db), db_snapshots db, db_bindings db)
    \<Longrightarrow> counted db db' \<Longrightarrow> event uni db db'"
| rehash: "workload_row db (dw_WorkloadID w') = Some w \<Longrightarrow> dw_Content w' = dw_Content (normalize_workload w)
    \<Longrightarrow> dw_DesiredGeneration w' = dw_DesiredGeneration w \<Longrightarrow> row_of snapshot_key (dw_WorkloadID w, dw_DesiredGeneration w) (db_snapshots db) = None
    \<Longrightarrow> core db' = (replace_row dw_WorkloadID w' (db_workloads db), db_snapshots db, db_bindings db)
    \<Longrightarrow> counted db db' \<Longrightarrow> event uni db db'"
| snapshot: "workload_row db (sn_WorkloadID s) = Some w \<Longrightarrow> dw_RunState (dw_Content w) = DesiredRunning
    \<Longrightarrow> sn_DesiredGeneration s = dw_DesiredGeneration w \<Longrightarrow> sn_ResolvedHash s = dw_EffectiveHash w
    \<Longrightarrow> sn_HostID s = dw_HostID (dw_Content w) \<Longrightarrow> validateSnapshot uni s = None
    \<Longrightarrow> (\<forall>r\<in>set (db_snapshots db). snapshot_key r \<noteq> snapshot_key s \<and> sn_ExecutionID r \<noteq> sn_ExecutionID s)
    \<Longrightarrow> core db' = (db_workloads db, db_snapshots db @ [s], db_bindings db) \<Longrightarrow> counted db db' \<Longrightarrow> event uni db db'"
| block: "workload_row db (rb_WorkloadID b) = Some w \<Longrightarrow> dw_RunState (dw_Content w) = DesiredRunning
    \<Longrightarrow> rb_BlockedGeneration b = dw_DesiredGeneration w
    \<Longrightarrow> core db' = (db_workloads db, db_snapshots db, latch b (db_bindings db)) \<Longrightarrow> counted db db' \<Longrightarrow> event uni db db'"
| unblock: "core db' = (db_workloads db, db_snapshots db, remove_row rb_WorkloadID i (db_bindings db))
    \<Longrightarrow> counted db db' \<Longrightarrow> event uni db db'"

text \<open>The removal of one workload, with its binding, is the only change that loses a row.\<close>

inductive removal :: "WorkloadID \<Rightarrow> DB \<Rightarrow> DB \<Rightarrow> bool" for i where
  remove: "core db' = (remove_row dw_WorkloadID i (db_workloads db), db_snapshots db, remove_row rb_WorkloadID i (db_bindings db))
    \<Longrightarrow> counted db db' \<Longrightarrow> removal i db db'"

abbreviation events :: "unicode_case \<Rightarrow> DB \<Rightarrow> DB \<Rightarrow> bool" where
  "events uni \<equiv> (event uni)\<^sup>*\<^sup>*"

lemma core_fields: "core db = (ws, ss, bs) \<longleftrightarrow> db_workloads db = ws \<and> db_snapshots db = ss \<and> db_bindings db = bs"
  by (auto simp: core_def)

section \<open>The invariant\<close>

text \<open>No two running workloads of one Host claim the same CPU or device.\<close>

definition clash :: "DesiredWorkload \<Rightarrow> DesiredWorkload \<Rightarrow> bool" where
  "clash a b \<longleftrightarrow> dw_RunState (dw_Content a) = DesiredRunning \<and> dw_RunState (dw_Content b) = DesiredRunning
     \<and> dw_HostID (dw_Content a) = dw_HostID (dw_Content b) \<and> claims_meet (dw_Resources (dw_Content a)) (dw_Resources (dw_Content b))"

definition exclusive :: "DesiredWorkload list \<Rightarrow> bool" where
  "exclusive ws \<longleftrightarrow> (\<forall>a\<in>set ws. \<forall>b\<in>set ws. dw_WorkloadID a \<noteq> dw_WorkloadID b \<longrightarrow> \<not> clash a b)"

definition snapshots_agree :: "DesiredWorkload \<Rightarrow> ResolvedExecutionSnapshot list \<Rightarrow> bool" where
  "snapshots_agree w ss \<longleftrightarrow> (\<forall>s\<in>set ss. sn_WorkloadID s = dw_WorkloadID w \<longrightarrow>
     sn_DesiredGeneration s \<le> dw_DesiredGeneration w \<and> sn_HostID s = dw_HostID (dw_Content w)
     \<and> (sn_DesiredGeneration s = dw_DesiredGeneration w \<longrightarrow> sn_ResolvedHash s = dw_EffectiveHash w))"

definition binding_agrees :: "DesiredWorkload list \<Rightarrow> WorkloadRuntimeBinding \<Rightarrow> bool" where
  "binding_agrees ws b \<longleftrightarrow> (\<exists>w\<in>set ws. dw_WorkloadID w = rb_WorkloadID b \<and> 0 < rb_BlockedGeneration b
     \<and> rb_BlockedGeneration b \<le> dw_DesiredGeneration w)"

definition farm_inv :: "unicode_case \<Rightarrow> DB \<Rightarrow> bool" where
  "farm_inv uni db \<longleftrightarrow> distinct (map dw_WorkloadID (db_workloads db))
     \<and> list_all (\<lambda>w. dw_WorkloadID w \<noteq> no_workload \<and> dw_DesiredGeneration w > 0 \<and> snapshots_agree w (db_snapshots db)) (db_workloads db)
     \<and> exclusive (db_workloads db)
     \<and> distinct (map snapshot_key (db_snapshots db)) \<and> distinct (map sn_ExecutionID (db_snapshots db))
     \<and> list_all (\<lambda>s. validateSnapshot uni s = None) (db_snapshots db)
     \<and> distinct (map rb_WorkloadID (db_bindings db)) \<and> list_all (binding_agrees (db_workloads db)) (db_bindings db)"

lemma clash_sym: "clash a b \<longleftrightarrow> clash b a"
  by (auto simp: clash_def claims_meet_def)

lemma clash_normalize:
  "dw_Content a = dw_Content (normalize_workload b) \<Longrightarrow> clash a c \<longleftrightarrow> clash b c"
  by (simp add: clash_def normalize_workload_def claims_meet_def)

lemma checkResourceConflict_None:
  assumes "checkResourceConflict db w x = None" and "b \<in> set (db_workloads db)" and "dw_WorkloadID b \<noteq> x"
  shows "\<not> clash w b"
proof
  assume c: "clash w b"
  let ?others = "filter (running_on (dw_HostID (dw_Content w)) x) (db_workloads db)"
  have b: "b \<in> set ?others" using c assms(2,3) by (simp add: running_on_def clash_def)
  have run: "dw_RunState (dw_Content w) = DesiredRunning" using c by (simp add: clash_def)
  consider "cl_CPU (dw_Resources (dw_Content w))" "cl_CPU (dw_Resources (dw_Content b))"
    | d where "d \<in> set (cl_DeviceIDs (dw_Resources (dw_Content w)))" "d \<in> set (cl_DeviceIDs (dw_Resources (dw_Content b)))"
    using c by (auto simp: clash_def claims_meet_def)
  then show False
  proof cases
    case 1
    then have "list_ex (\<lambda>w. cl_CPU (dw_Resources (dw_Content w))) ?others" using b by (auto simp: list_ex_iff)
    then show ?thesis using assms(1) run 1 by (simp add: checkResourceConflict_def Let_def split: if_splits)
  next
    case 2
    then have "list_ex (\<lambda>d. list_ex (\<lambda>w. d \<in> set (cl_DeviceIDs (dw_Resources (dw_Content w)))) ?others)
        (cl_DeviceIDs (dw_Resources (dw_Content w)))" using b unfolding list_ex_iff by blast
    then show ?thesis using assms(1) run by (simp add: checkResourceConflict_def Let_def split: if_splits)
  qed
qed

lemma word_inc: "(g :: 64 word) + 1 > 0 \<Longrightarrow> unat (g + 1) = Suc (unat g)"
  using unatSuc[of g] by (simp add: add.commute word_neq_0_conv)

lemma word_suc_le: "(g :: 64 word) + 1 > 0 \<Longrightarrow> h \<le> g \<Longrightarrow> h \<le> g + 1 \<and> h \<noteq> g + 1"
  using word_inc[of g] by (auto simp: word_le_nat_alt)

lemma exclusive_add:
  "exclusive ws \<Longrightarrow> (\<And>b. b \<in> set ws \<Longrightarrow> \<not> clash w b) \<Longrightarrow> exclusive (ws @ [w])"
  unfolding exclusive_def using clash_sym by auto

lemma exclusive_replace:
  assumes "exclusive ws" and "\<And>b. b \<in> set ws \<Longrightarrow> dw_WorkloadID b \<noteq> dw_WorkloadID w \<Longrightarrow> \<not> clash w b"
  shows "exclusive (replace_row dw_WorkloadID w ws)"
  using assms clash_sym unfolding exclusive_def by (metis set_replace)

lemma row_member: "row_of key k rows = Some r \<Longrightarrow> r \<in> set rows \<and> key r = k"
  by (rule row_of_SomeD)

lemma binding_agrees_mono:
  assumes "binding_agrees ws b" and "\<And>w. w \<in> set ws \<Longrightarrow> dw_WorkloadID w = rb_WorkloadID b
    \<Longrightarrow> \<exists>w'\<in>set ws'. dw_WorkloadID w' = dw_WorkloadID w \<and> dw_DesiredGeneration w \<le> dw_DesiredGeneration w'"
  shows "binding_agrees ws' b"
  using assms unfolding binding_agrees_def by (metis order.trans)

lemma set_replace_self: "r \<in> set rows \<Longrightarrow> key r = key r' \<Longrightarrow> r' \<in> set (replace_row key r' rows)"
  by (force simp: replace_row_def)

lemma set_replace_other: "r \<in> set rows \<Longrightarrow> key r \<noteq> key r' \<Longrightarrow> r \<in> set (replace_row key r' rows)"
  by (force simp: replace_row_def)

lemma bindings_replace:
  assumes "list_all (binding_agrees ws) bs" and "w \<in> set ws" and "dw_WorkloadID w = dw_WorkloadID w'"
    and "dw_DesiredGeneration w \<le> dw_DesiredGeneration w'" and "distinct (map dw_WorkloadID ws)"
  shows "list_all (binding_agrees (replace_row dw_WorkloadID w' ws)) bs"
  unfolding list_all_iff
proof
  fix b assume "b \<in> set bs"
  then have "binding_agrees ws b" using assms(1) by (simp add: list_all_iff)
  then show "binding_agrees (replace_row dw_WorkloadID w' ws) b"
  proof (rule binding_agrees_mono)
    fix v assume v: "v \<in> set ws"
    show "\<exists>x\<in>set (replace_row dw_WorkloadID w' ws). dw_WorkloadID x = dw_WorkloadID v
        \<and> dw_DesiredGeneration v \<le> dw_DesiredGeneration x"
    proof (cases "dw_WorkloadID v = dw_WorkloadID w'")
      case True
      then have "v = w" using v assms(2,3,5) by (metis row_of_unique option.inject)
      then show ?thesis using set_replace_self[of w ws dw_WorkloadID w'] assms(2-4) by (intro bexI[of _ w']) simp_all
    next
      case False
      then show ?thesis using set_replace_other[OF v] by (intro bexI[of _ v]) simp_all
    qed
  qed
qed

text \<open>The part of the invariant about one workload.\<close>

abbreviation workload_ok :: "ResolvedExecutionSnapshot list \<Rightarrow> DesiredWorkload \<Rightarrow> bool" where
  "workload_ok ss w \<equiv> dw_WorkloadID w \<noteq> no_workload \<and> dw_DesiredGeneration w > 0 \<and> snapshots_agree w ss"

text \<open>Replacing a row by a new generation of itself.\<close>

lemma replace_workload_inv:
  assumes inv: "farm_inv uni db" and row: "workload_row db (dw_WorkloadID w') = Some w"
    and core: "core db' = (replace_row dw_WorkloadID w' (db_workloads db), db_snapshots db, db_bindings db)"
    and ok: "workload_ok (db_snapshots db) w'" and gen: "dw_DesiredGeneration w \<le> dw_DesiredGeneration w'"
    and free: "\<And>b. b \<in> set (db_workloads db) \<Longrightarrow> dw_WorkloadID b \<noteq> dw_WorkloadID w' \<Longrightarrow> \<not> clash w' b"
  shows "farm_inv uni db'"
proof -
  have w: "w \<in> set (db_workloads db)" "dw_WorkloadID w = dw_WorkloadID w'"
    using row row_of_SomeD unfolding workload_row_def by metis+
  have fields: "db_workloads db' = replace_row dw_WorkloadID w' (db_workloads db)" "db_snapshots db' = db_snapshots db"
    "db_bindings db' = db_bindings db" using core by (simp_all add: core_def)
  have "list_all (workload_ok (db_snapshots db)) (db_workloads db)" using inv by (simp add: farm_inv_def)
  then have ws: "list_all (workload_ok (db_snapshots db)) (replace_row dw_WorkloadID w' (db_workloads db))"
    using ok unfolding list_all_iff by (metis set_replace)
  have bs: "list_all (binding_agrees (replace_row dw_WorkloadID w' (db_workloads db))) (db_bindings db)"
    by (rule bindings_replace[OF _ w(1) w(2) gen]) (use inv in \<open>simp_all add: farm_inv_def\<close>)
  show ?thesis using inv ws bs exclusive_replace[OF _ free] by (simp add: farm_inv_def fields)
qed

lemma agree_next:
  assumes "snapshots_agree w ss" and "dw_WorkloadID w' = dw_WorkloadID w" and "dw_HostID (dw_Content w') = dw_HostID (dw_Content w)"
    and "dw_DesiredGeneration w' = dw_DesiredGeneration w + 1" and "dw_DesiredGeneration w' > 0"
  shows "snapshots_agree w' ss"
  unfolding snapshots_agree_def
proof (intro ballI impI)
  fix s assume s: "s \<in> set ss" "sn_WorkloadID s = dw_WorkloadID w'"
  then have "sn_DesiredGeneration s \<le> dw_DesiredGeneration w" "sn_HostID s = dw_HostID (dw_Content w)"
    using assms(1,2) by (simp_all add: snapshots_agree_def)
  then show "sn_DesiredGeneration s \<le> dw_DesiredGeneration w' \<and> sn_HostID s = dw_HostID (dw_Content w')
      \<and> (sn_DesiredGeneration s = dw_DesiredGeneration w' \<longrightarrow> sn_ResolvedHash s = dw_EffectiveHash w')"
    using word_suc_le[of "dw_DesiredGeneration w"] assms(3-5) by metis
qed

lemma stored_workload_ok:
  "farm_inv uni db \<Longrightarrow> workload_row db i = Some w \<Longrightarrow> w \<in> set (db_workloads db) \<and> dw_WorkloadID w = i \<and> workload_ok (db_snapshots db) w"
  using row_of_SomeD[of dw_WorkloadID i "db_workloads db" w] by (auto simp: farm_inv_def list_all_iff workload_row_def)

lemma no_clash_with_others:
  "farm_inv uni db \<Longrightarrow> w \<in> set (db_workloads db) \<Longrightarrow> b \<in> set (db_workloads db) \<Longrightarrow> dw_WorkloadID b \<noteq> dw_WorkloadID w \<Longrightarrow> \<not> clash w b"
  by (simp add: farm_inv_def exclusive_def)

lemma normalize_host [simp]:
  "dw_HostID (dw_Content (normalize_workload w)) = dw_HostID (dw_Content w)"
  "dw_RunState (dw_Content (normalize_workload w)) = dw_RunState (dw_Content w)"
  "dw_WorkloadID (normalize_workload w) = dw_WorkloadID w"
  "dw_DesiredGeneration (normalize_workload w) = dw_DesiredGeneration w"
  "dw_EffectiveHash (normalize_workload w) = dw_EffectiveHash w"
  "dw_Meta (normalize_workload w) = dw_Meta w"
  by (simp_all add: normalize_workload_def)

section \<open>Preservation\<close>

lemma snapshot_key_conv: "snapshot_key s = (i, g) \<longleftrightarrow> sn_WorkloadID s = i \<and> sn_DesiredGeneration s = g"
  by (auto simp: snapshot_key_def)

lemma remove_keeps: "list_all P rows \<Longrightarrow> list_all P (remove_row key k rows)"
  "distinct (map key rows) \<Longrightarrow> distinct (map key (remove_row key k rows))"
  by (simp_all add: remove_row_def list_all_iff distinct_map_filter)

lemma add_inv:
  assumes inv: "farm_inv uni db" and fresh: "workload_row db (dw_WorkloadID w) = None" "snapshots_of db (dw_WorkloadID w) = []"
    and id: "dw_WorkloadID w \<noteq> no_workload" and gen: "dw_DesiredGeneration w = 1" and free: "checkResourceConflict db w no_workload = None"
    and core: "core db' = (db_workloads db @ [w], db_snapshots db, db_bindings db)"
  shows "farm_inv uni db'"
proof -
  have fields: "db_workloads db' = db_workloads db @ [w]" "db_snapshots db' = db_snapshots db" "db_bindings db' = db_bindings db"
    using core by (simp_all add: core_def)
  have "snapshots_agree w (db_snapshots db)" using fresh(2) by (auto simp: snapshots_agree_def snapshots_of_def filter_empty_conv)
  moreover have "dw_WorkloadID w \<notin> set (map dw_WorkloadID (db_workloads db))"
    using fresh(1) by (auto simp: workload_row_def row_of_None)
  moreover have "\<not> clash w b" if "b \<in> set (db_workloads db)" for b
    using checkResourceConflict_None[OF free that] inv that by (auto simp: farm_inv_def list_all_iff)
  moreover have "list_all (binding_agrees (db_workloads db @ [w])) (db_bindings db)"
    using inv by (auto simp: farm_inv_def list_all_iff binding_agrees_def)
  ultimately show ?thesis using inv id gen exclusive_add[of "db_workloads db" w] by (auto simp: farm_inv_def fields)
qed

lemma remove_inv:
  assumes inv: "farm_inv uni db"
    and core: "core db' = (remove_row dw_WorkloadID i (db_workloads db), db_snapshots db, remove_row rb_WorkloadID i (db_bindings db))"
  shows "farm_inv uni db'"
proof -
  have fields: "db_workloads db' = remove_row dw_WorkloadID i (db_workloads db)" "db_snapshots db' = db_snapshots db"
    "db_bindings db' = remove_row rb_WorkloadID i (db_bindings db)" using core by (simp_all add: core_def)
  have "binding_agrees (remove_row dw_WorkloadID i (db_workloads db)) b"
    if "b \<in> set (db_bindings db)" "rb_WorkloadID b \<noteq> i" for b
    using inv that unfolding farm_inv_def list_all_iff binding_agrees_def remove_row_def by fastforce
  then have "list_all (binding_agrees (remove_row dw_WorkloadID i (db_workloads db))) (remove_row rb_WorkloadID i (db_bindings db))"
    unfolding remove_row_def[of rb_WorkloadID] by (simp add: list_all_iff)
  moreover have "exclusive (remove_row dw_WorkloadID i (db_workloads db))"
    using inv by (auto simp: farm_inv_def exclusive_def remove_row_def)
  ultimately show ?thesis using inv unfolding farm_inv_def fields by (simp add: remove_keeps)
qed

lemma snapshot_inv:
  assumes inv: "farm_inv uni db" and row: "workload_row db (sn_WorkloadID s) = Some w"
    and same: "sn_DesiredGeneration s = dw_DesiredGeneration w" "sn_ResolvedHash s = dw_EffectiveHash w" "sn_HostID s = dw_HostID (dw_Content w)"
    and valid: "validateSnapshot uni s = None"
    and fresh: "\<forall>r\<in>set (db_snapshots db). snapshot_key r \<noteq> snapshot_key s \<and> sn_ExecutionID r \<noteq> sn_ExecutionID s"
    and core: "core db' = (db_workloads db, db_snapshots db @ [s], db_bindings db)"
  shows "farm_inv uni db'"
proof -
  have fields: "db_workloads db' = db_workloads db" "db_snapshots db' = db_snapshots db @ [s]" "db_bindings db' = db_bindings db"
    using core by (simp_all add: core_def)
  note w = stored_workload_ok[OF inv row]
  have "snapshots_agree v (db_snapshots db @ [s])" if v: "v \<in> set (db_workloads db)" for v
  proof -
    have "snapshots_agree v (db_snapshots db)" using inv v by (simp add: farm_inv_def list_all_iff)
    moreover have "v = w" if "sn_WorkloadID s = dw_WorkloadID v"
    proof -
      have "distinct (map dw_WorkloadID (db_workloads db))" using inv by (simp add: farm_inv_def)
      from row_of_unique[OF this v] row_of_unique[OF this, of w] show ?thesis using w that by simp
    qed
    ultimately show ?thesis using same by (auto simp: snapshots_agree_def simp del: split_paired_All)
  qed
  then show ?thesis using inv valid fresh by (auto simp: farm_inv_def fields list_all_iff)
qed

lemma latch_inv:
  assumes inv: "farm_inv uni db" and row: "workload_row db (rb_WorkloadID b) = Some w"
    and gen: "rb_BlockedGeneration b = dw_DesiredGeneration w"
    and core: "core db' = (db_workloads db, db_snapshots db, latch b (db_bindings db))"
  shows "farm_inv uni db'"
proof -
  have fields: "db_workloads db' = db_workloads db" "db_snapshots db' = db_snapshots db" "db_bindings db' = latch b (db_bindings db)"
    using core by (simp_all add: core_def)
  note w = stored_workload_ok[OF inv row]
  then have b: "binding_agrees (db_workloads db) b" using gen unfolding binding_agrees_def by (intro bexI[of _ w]) simp_all
  have "list_all (binding_agrees (db_workloads db)) (latch b (db_bindings db))"
    using inv b set_replace[of _ rb_WorkloadID b "db_bindings db"] unfolding latch_def farm_inv_def list_all_iff by auto
  moreover have "distinct (map rb_WorkloadID (latch b (db_bindings db)))"
    using inv by (auto simp: latch_def farm_inv_def row_of_None)
  ultimately show ?thesis using inv by (simp add: farm_inv_def fields)
qed

lemma unblock_inv:
  assumes inv: "farm_inv uni db" and core: "core db' = (db_workloads db, db_snapshots db, remove_row rb_WorkloadID i (db_bindings db))"
  shows "farm_inv uni db'"
proof -
  have "db_workloads db' = db_workloads db" "db_snapshots db' = db_snapshots db" "db_bindings db' = remove_row rb_WorkloadID i (db_bindings db)"
    using core by (simp_all add: core_def)
  then show ?thesis using inv unfolding farm_inv_def by (simp add: remove_keeps)
qed

lemma event_inv: "event uni db db' \<Longrightarrow> farm_inv uni db \<Longrightarrow> farm_inv uni db'"
proof (induction rule: event.induct)
  case (change db w' w db')
  note w = stored_workload_ok[OF change.prems change.hyps(1)]
  have gen: "dw_DesiredGeneration w \<le> dw_DesiredGeneration w'"
    using change.hyps(4,5) word_suc_le[of "dw_DesiredGeneration w" "dw_DesiredGeneration w"] by auto
  have "snapshots_agree w' (db_snapshots db)"
  proof (cases "dw_DesiredGeneration w' = dw_DesiredGeneration w + 1")
    case True
    then show ?thesis using agree_next[of w] w change.hyps by simp
  next
    case False
    then show ?thesis using w change.hyps by (simp add: snapshots_agree_def)
  qed
  then show ?case using w checkResourceConflict_None[OF change.hyps(3)] change.hyps(5)
    by (intro replace_workload_inv[OF change.prems change.hyps(1,6) _ gen]) auto
next
  case (regenerate db w' w db')
  note w = stored_workload_ok[OF regenerate.prems regenerate.hyps(1)]
  have gen: "dw_DesiredGeneration w \<le> dw_DesiredGeneration w'"
    using regenerate.hyps(3,4) word_suc_le[of "dw_DesiredGeneration w" "dw_DesiredGeneration w"] by auto
  have "snapshots_agree w' (db_snapshots db)" using agree_next[of w] w regenerate.hyps by simp
  then show ?case using w regenerate.hyps(4) no_clash_with_others[OF regenerate.prems] clash_normalize[OF regenerate.hyps(2)]
    by (intro replace_workload_inv[OF regenerate.prems regenerate.hyps(1,5) _ gen]) auto
next
  case (rehash db w' w db')
  note w = stored_workload_ok[OF rehash.prems rehash.hyps(1)]
  have "snapshots_agree w' (db_snapshots db)"
    using w rehash.hyps(2,3,4) by (auto simp: snapshots_agree_def row_of_None snapshot_key_conv)
  then show ?case using w rehash.hyps(3) no_clash_with_others[OF rehash.prems] clash_normalize[OF rehash.hyps(2)]
    by (intro replace_workload_inv[OF rehash.prems rehash.hyps(1,5)]) auto
next
  case (add db w db')
  show ?case by (rule add_inv[OF add.prems add.hyps(1,3,2,4-6)])
next
  case (snapshot db s w db')
  show ?case by (rule snapshot_inv[OF snapshot.prems snapshot.hyps(1,3-8)])
next
  case (block db b w db')
  show ?case by (rule latch_inv[OF block.prems block.hyps(1,3,4)])
next
  case (unblock db' db i)
  show ?case by (rule unblock_inv[OF unblock.prems unblock.hyps(1)])
next
  case (other db' db)
  then show ?case by (simp add: farm_inv_def core_def)
next
  case (seen_again db' db)
  then show ?case by (simp add: farm_inv_def core_def)
qed

lemma events_inv: "events uni db db' \<Longrightarrow> farm_inv uni db \<Longrightarrow> farm_inv uni db'"
  by (induction rule: rtranclp_induct) (auto intro: event_inv)

lemma removal_inv: "removal i db db' \<Longrightarrow> farm_inv uni db \<Longrightarrow> farm_inv uni db'"
  by (auto elim: removal.cases intro: remove_inv)

lemma forget_times_ids: "forget_times db' = forget_times db \<Longrightarrow> map incident_row_id (db_incidents db') = map incident_row_id (db_incidents db)"
proof -
  assume "forget_times db' = forget_times db"
  then have "db_incidents (forget_times db') = db_incidents (forget_times db)" by simp
  then have "map (\<lambda>r. r\<lparr>in_LastObservedAt := 0\<rparr>) (db_incidents db') = map (\<lambda>r. r\<lparr>in_LastObservedAt := 0\<rparr>) (db_incidents db)"
    by (simp add: forget_times_def)
  then have "map incident_row_id (map (\<lambda>r. r\<lparr>in_LastObservedAt := 0\<rparr>) (db_incidents db'))
    = map incident_row_id (map (\<lambda>r. r\<lparr>in_LastObservedAt := 0\<rparr>) (db_incidents db))" by (rule arg_cong)
  then show ?thesis by (simp add: incident_row_id_def[abs_def] comp_def)
qed

lemma event_incidents: "event uni db db' \<Longrightarrow> incidents_distinct db \<Longrightarrow> incidents_distinct db'"
  by (induction rule: event.induct) (auto simp: counted_def incidents_distinct_def dest: forget_times_ids)

lemma events_incidents: "events uni db db' \<Longrightarrow> incidents_distinct db \<Longrightarrow> incidents_distinct db'"
  by (induction rule: rtranclp_induct) (auto intro: event_incidents)

lemma removal_incidents: "removal i db db' \<Longrightarrow> incidents_distinct db \<Longrightarrow> incidents_distinct db'"
  by (auto elim: removal.cases simp: counted_def)

section \<open>What the events keep\<close>

lemma event_snapshots: "event uni db db' \<Longrightarrow> \<exists>new. db_snapshots db' = db_snapshots db @ new"
  by (induction rule: event.induct) (auto simp: core_def)

lemma events_snapshots: "events uni db db' \<Longrightarrow> \<exists>new. db_snapshots db' = db_snapshots db @ new"
proof (induction rule: rtranclp_induct)
  case (step db' db'')
  then show ?case using event_snapshots by (metis append.assoc)
qed simp

text \<open>The row of a workload only moves to later generations, on the same Host; the hash of a generation
  that has a snapshot does not change.\<close>

definition advances_to :: "DB \<Rightarrow> DesiredWorkload \<Rightarrow> DesiredWorkload \<Rightarrow> bool" where
  "advances_to db w w' \<longleftrightarrow> dw_DesiredGeneration w \<le> dw_DesiredGeneration w' \<and> dw_HostID (dw_Content w') = dw_HostID (dw_Content w)
     \<and> (dw_DesiredGeneration w' = dw_DesiredGeneration w \<and> row_of snapshot_key (dw_WorkloadID w, dw_DesiredGeneration w) (db_snapshots db) \<noteq> None
        \<longrightarrow> dw_EffectiveHash w' = dw_EffectiveHash w)"

lemma row_advances_refl: "advances_to db w w"
  by (simp add: advances_to_def)

lemma row_of_more: "row_of key k rows \<noteq> None \<Longrightarrow> row_of key k (rows @ new) \<noteq> None"
  by (auto simp: row_of_None)

lemma row_advances_trans:
  assumes "advances_to db w w'" and "advances_to db' w' w''" and "dw_WorkloadID w' = dw_WorkloadID w"
    and "db_snapshots db' = db_snapshots db @ new"
  shows "advances_to db w w''"
proof -
  have "dw_DesiredGeneration w' = dw_DesiredGeneration w" if "dw_DesiredGeneration w'' = dw_DesiredGeneration w"
    using assms(1,2) that by (auto simp: advances_to_def)
  then show ?thesis using assms row_of_more[of snapshot_key "(dw_WorkloadID w, dw_DesiredGeneration w)" "db_snapshots db" new]
    by (auto simp: advances_to_def)
qed

lemma replaced_advances:
  assumes "workload_row db i = Some w" and "workload_row db (dw_WorkloadID w') = Some v" and "advances_to db v w'"
    and "core db' = (replace_row dw_WorkloadID w' (db_workloads db), db_snapshots db, db_bindings db)"
  shows "\<exists>x. workload_row db' i = Some x \<and> advances_to db w x"
  using assms row_advances_refl[of db w] by (cases "i = dw_WorkloadID w'") (auto simp: workload_row_def core_def row_of_replace)

lemma regenerated_advances:
  "dw_DesiredGeneration w' = dw_DesiredGeneration w + 1 \<Longrightarrow> dw_DesiredGeneration w' > 0
    \<Longrightarrow> dw_HostID (dw_Content w') = dw_HostID (dw_Content w) \<Longrightarrow> advances_to db w w'"
  using word_suc_le[of "dw_DesiredGeneration w" "dw_DesiredGeneration w"] by (auto simp: advances_to_def)

lemma event_advances:
  assumes "event uni db db'" and "workload_row db i = Some w"
  shows "\<exists>w'. workload_row db' i = Some w' \<and> advances_to db w w'"
  using assms
proof (induction rule: event.induct)
  case (add db v db')
  then have "workload_row db' i = Some w" by (auto simp: workload_row_def core_def)
  then show ?case using row_advances_refl by blast
next
  case (change db w' v db')
  have "advances_to db v w'"
  proof (cases "dw_DesiredGeneration w' = dw_DesiredGeneration v + 1")
    case True
    then show ?thesis using change.hyps by (intro regenerated_advances) simp_all
  next
    case False
    then show ?thesis using change.hyps by (simp add: advances_to_def)
  qed
  then show ?case by (rule replaced_advances[OF change.prems change.hyps(1) _ change.hyps(6)])
next
  case (regenerate db w' v db')
  then have "advances_to db v w'" by (intro regenerated_advances) (simp_all add: normalize_workload_def)
  then show ?case by (rule replaced_advances[OF regenerate.prems regenerate.hyps(1) _ regenerate.hyps(5)])
next
  case (rehash db w' v db')
  then have "advances_to db v w'" by (simp add: advances_to_def normalize_workload_def)
  then show ?case by (rule replaced_advances[OF rehash.prems rehash.hyps(1) _ rehash.hyps(5)])
qed (use row_advances_refl[of _ w] in \<open>auto simp: workload_row_def core_def\<close>)

lemma events_advance:
  assumes "events uni db db'" and "workload_row db i = Some w"
  shows "\<exists>w'. workload_row db' i = Some w' \<and> advances_to db w w'"
  using assms(1)
proof (induction rule: rtranclp_induct)
  case base
  then show ?case using assms(2) row_advances_refl by blast
next
  case (step db1 db2)
  then obtain w1 w2 where w: "workload_row db1 i = Some w1" "advances_to db w w1" "workload_row db2 i = Some w2" "advances_to db1 w1 w2"
    using event_advances by blast
  moreover have "dw_WorkloadID w1 = dw_WorkloadID w" using w(1) assms(2) unfolding workload_row_def by (metis row_of_SomeD)
  ultimately show ?case using row_advances_trans events_snapshots[OF step.hyps(1)] by blast
qed

text \<open>The counter grows with every change of the tables, times of observation apart.\<close>

lemma event_counts: "event uni db db' \<Longrightarrow> db_persistent_revision db < db_persistent_revision db'
    \<or> db_persistent_revision db = db_persistent_revision db' \<and> forget_times db' = forget_times db"
  by (induction rule: event.induct) (auto simp: counted_def)

lemma events_count: "events uni db db' \<Longrightarrow> db_persistent_revision db < db_persistent_revision db'
    \<or> db_persistent_revision db = db_persistent_revision db' \<and> forget_times db' = forget_times db"
proof (induction rule: rtranclp_induct)
  case (step db1 db2)
  then show ?case using event_counts[OF step.hyps(2)] by auto
qed simp

end
