(* ===== verification/Store_Steps.thy ===== *)
theory Store_Steps
  imports Store_Model
begin

text \<open>
  Every operation of the farm configuration store is a sequence of events of \<open>Store_Model\<close>: one lemma
  per operation, from what each step of its transaction reads and writes. A call that fails leaves the
  database as it was.
\<close>

section \<open>What the steps read and write\<close>

lemma touch_core [simp]: "core (touch n db) = core db" "db_persistent_revision (touch n db) = db_persistent_revision db + n"
  "db_incidents (touch n db) = db_incidents db" "db_workloads (touch n db) = db_workloads db"
  "db_snapshots (touch n db) = db_snapshots db" "db_bindings (touch n db) = db_bindings db"
  by (simp_all add: core_def touch_def)

lemma store_workloadD:
  "store_workload w db = Inr db' \<Longrightarrow>
     core db' = (replace_row dw_WorkloadID w (db_workloads db), db_snapshots db, db_bindings db)
     \<and> counted db db' \<and> dw_DesiredGeneration w > 0 \<and> meta_Revision (dw_Meta w) > 0"
  by (auto simp: store_workload_def core_def counted_def incidents_distinct_def)

lemma loadWorkloadTxD: "loadWorkloadTx db i = Inr w \<Longrightarrow> \<exists>row. workload_row db i = Some row \<and> w = normalize_workload row"
  by (auto simp: loadWorkloadTx_def workload_row_def validateLoadedWorkload_def Let_def split: option.splits)

lemma workload_row_id: "workload_row db i = Some row \<Longrightarrow> dw_WorkloadID row = i"
  unfolding workload_row_def by (drule row_of_SomeD) blast

lemma resolveWorkloadD: "resolveWorkload sv db w = Inr (i, r) \<Longrightarrow> ri_Workload i = w \<and> Resolver_Resolve (sv_env sv) i = Inr r"
  by (auto simp: resolveWorkload_def resolve_inputs_def)

lemma insertResolvedSnapshotD:
  "insertResolvedSnapshot sv db s = Inr db' \<Longrightarrow> validateSnapshot (env_uni (sv_env sv)) s = None
     \<and> (\<forall>r\<in>set (db_snapshots db). snapshot_key r \<noteq> snapshot_key s \<and> sn_ExecutionID r \<noteq> sn_ExecutionID s)
     \<and> core db' = (db_workloads db, db_snapshots db @ [s], db_bindings db) \<and> counted db db'"
  by (auto simp: insertResolvedSnapshot_def core_def counted_def incidents_distinct_def list_ex_iff split: if_splits)

lemma createSnapshotD:
  assumes "createSnapshot sv n db i r g t = Inr db'"
  shows "\<exists>s. insertResolvedSnapshot sv db s = Inr db' \<and> sn_WorkloadID s = dw_WorkloadID (ri_Workload i)
    \<and> sn_DesiredGeneration s = g \<and> sn_ResolvedHash s = rs_Hash r \<and> sn_HostID s = dw_HostID (dw_Content (ri_Workload i))"
proof -
  obtain x s where "Resolver_Snapshot r i x g t = Inr s" "insertResolvedSnapshot sv db s = Inr db'"
    using assms by (auto simp: createSnapshot_def)
  then show ?thesis by (auto simp: Resolver_Snapshot_def Let_def split: if_splits)
qed

text \<open>The snapshot of a workload that has just been written is an event.\<close>

lemma createSnapshot_event:
  assumes "createSnapshot sv n db i r g t = Inr db'" and "workload_row db (dw_WorkloadID (ri_Workload i)) = Some w"
    and "dw_RunState (dw_Content w) = DesiredRunning" and "g = dw_DesiredGeneration w" and "rs_Hash r = dw_EffectiveHash w"
    and "dw_HostID (dw_Content (ri_Workload i)) = dw_HostID (dw_Content w)"
  shows "event (env_uni (sv_env sv)) db db'"
proof -
  obtain s where s: "insertResolvedSnapshot sv db s = Inr db'" "sn_WorkloadID s = dw_WorkloadID (ri_Workload i)"
    "sn_DesiredGeneration s = g" "sn_ResolvedHash s = rs_Hash r" "sn_HostID s = dw_HostID (dw_Content (ri_Workload i))"
    using createSnapshotD[OF assms(1)] by blast
  note ins = insertResolvedSnapshotD[OF s(1)]
  show ?thesis by (rule event.snapshot[of db s w]) (use assms(2-6) s(2-5) ins in simp_all)
qed

lemma snapshot_if_ready_events:
  assumes "snapshot_if_ready sv n db w i r t = Inr db'" and "workload_row db (dw_WorkloadID w) = Some w"
    and "dw_WorkloadID (ri_Workload i) = dw_WorkloadID w" and "rs_Hash r = dw_EffectiveHash w"
    and "dw_HostID (dw_Content (ri_Workload i)) = dw_HostID (dw_Content w)"
  shows "events (env_uni (sv_env sv)) db db'"
proof (cases "dw_RunState (dw_Content w) = DesiredRunning \<and> configurationSnapshotReady (rs_Content r)")
  case True
  then have "event (env_uni (sv_env sv)) db db'"
    using createSnapshot_event[of sv n db i r "dw_DesiredGeneration w" t db' w] assms by (simp add: snapshot_if_ready_def)
  then show ?thesis by simp
next
  case False
  then show ?thesis using assms(1) by (auto simp: snapshot_if_ready_def)
qed

lemma replaced_row:
  "workload_row db (dw_WorkloadID w') = Some w \<Longrightarrow> db_workloads db' = replace_row dw_WorkloadID w' (db_workloads db)
     \<Longrightarrow> workload_row db' (dw_WorkloadID w') = Some w'"
  by (simp add: workload_row_def row_of_replace)

section \<open>Propagation\<close>

lemma propagate_events:
  "propagateWorkloadIDs sv n db is = Inr db' \<Longrightarrow> events (env_uni (sv_env sv)) db db'"
proof (induction "is" arbitrary: n db)
  case Nil
  then show ?case by simp
next
  case (Cons i "is")
  obtain w where w: "loadWorkloadTx db i = Inr w" using Cons.prems by auto
  obtain inputs r where r: "resolveWorkload sv db w = Inr (inputs, r)" using Cons.prems w by auto
  obtain row where row: "workload_row db i = Some row" "w = normalize_workload row" using loadWorkloadTxD[OF w] by blast
  note inp = resolveWorkloadD[OF r]
  show ?case
  proof (cases "rs_Hash r = dw_EffectiveHash w")
    case True
    then have "propagateWorkloadIDs sv n db is = Inr db'" using Cons.prems w r by simp
    then show ?thesis by (rule Cons.IH)
  next
    case False
    let ?w' = "w\<lparr>dw_DesiredGeneration := dw_DesiredGeneration w + 1, dw_EffectiveHash := rs_Hash r\<rparr>"
    obtain db1 db2 where d: "store_workload ?w' db = Inr db1"
      "snapshot_if_ready sv n db1 ?w' inputs r (sv_clock sv (Suc n)) = Inr db2"
      "propagateWorkloadIDs sv (Suc n) db2 is = Inr db'"
      using Cons.prems w r False by (auto simp: Let_def)
    note st = store_workloadD[OF d(1)]
    have id: "workload_row db (dw_WorkloadID ?w') = Some row" using row workload_row_id[OF row(1)] by simp
    have "event (env_uni (sv_env sv)) db db1"
      by (rule event.regenerate[OF id]) (use st row(2) in simp_all)
    moreover have "events (env_uni (sv_env sv)) db1 db2"
      using snapshot_if_ready_events[OF d(2)] replaced_row[OF id] st inp by (simp add: core_def)
    moreover have "events (env_uni (sv_env sv)) db2 db'"
by (rule Cons.IH[OF d(3)])
    ultimately show ?thesis by (meson converse_rtranclp_into_rtranclp rtranclp_trans)
  qed
qed

lemma propagateProfile_events:
  "propagateProfileWorkloads sv db ps = Inr db' \<Longrightarrow> events (env_uni (sv_env sv)) db db'"
  by (auto simp: propagateProfileWorkloads_def Let_def intro: propagate_events)

lemma propagateHostProfile_events:
  "propagateHostProfileWorkloads sv db h p = Inr db' \<Longrightarrow> events (env_uni (sv_env sv)) db db'"
  by (auto simp: propagateHostProfileWorkloads_def Let_def intro: propagate_events)

section \<open>Transactions\<close>

lemma write_events:
  assumes "\<And>db' y. body = Inr (db', y) \<Longrightarrow> events uni db db'"
  shows "events uni db (fst (writeTx db body))"
  by (rule writeTx_keeps[where P = "events uni db"]) (use assms in simp_all)

lemma tx_events:
  assumes "\<And>x db' y. r = Inr x \<Longrightarrow> body x = Inr (db', y) \<Longrightarrow> events uni db db'"
  shows "events uni db (fst (prepare r db (\<lambda>x. wrapped op (writeTx db (body x)))))"
proof (rule prepare_keeps[where P = "events uni db"])
  fix x assume "r = Inr x"
  then show "events uni db (fst (wrapped op (writeTx db (body x))))"
    unfolding wrapped_db by (rule write_events[OF assms])
qed simp

lemma checked_events:
  assumes "\<And>db' y. body = Inr (db', y) \<Longrightarrow> events uni db db'"
  shows "events uni db (fst (case v of Some e \<Rightarrow> (db, Inl e) | None \<Rightarrow> wrapped op (writeTx db body)))"
  using write_events[OF assms] by (cases v) simp_all

lemma other_event: "core db' = core db \<Longrightarrow> counted db db' \<Longrightarrow> events uni db db'"
  by (rule r_into_rtranclp, rule event.other)

lemma other_then: "events uni db1 db' \<Longrightarrow> core db1 = core db \<Longrightarrow> counted db db1 \<Longrightarrow> events uni db db'"
  by (rule rtranclp_trans[OF other_event])

lemma core_tables [simp]: "core (db_pools_update f db) = core db" "core (db_wallets_update f2 db) = core db"
  "core (db_profiles_update f3 db) = core db" "core (db_settings_update f4 db) = core db" "core (db_holds_update f5 db) = core db"
  "core (db_barriers_update f6 db) = core db" "core (db_restore_update f7 db) = core db" "core (db_incidents_update f8 db) = core db"
  by (simp_all add: core_def)

lemma created: "core db' = core db \<Longrightarrow> db_persistent_revision db' = db_persistent_revision db \<Longrightarrow> db_incidents db' = db_incidents db
    \<Longrightarrow> events uni db (touch (Suc 0) db')"
  by (rule other_event) (simp_all add: counted_same)

lemma updated:
  "propagateProfileWorkloads sv (touch (Suc 0) db1) ps = Inr db' \<Longrightarrow> core db1 = core db \<Longrightarrow> db_persistent_revision db1 = db_persistent_revision db
     \<Longrightarrow> db_incidents db1 = db_incidents db \<Longrightarrow> events (env_uni (sv_env sv)) db db'"
  by (drule propagateProfile_events, erule other_then) (simp_all add: counted_same)

lemma updated_on_host:
  "propagateHostProfileWorkloads sv (touch (Suc 0) db1) h p = Inr db' \<Longrightarrow> core db1 = core db \<Longrightarrow> db_persistent_revision db1 = db_persistent_revision db
     \<Longrightarrow> db_incidents db1 = db_incidents db \<Longrightarrow> events (env_uni (sv_env sv)) db db'"
  by (drule propagateHostProfile_events, erule other_then) (simp_all add: counted_same)

lemma CreatePool_events: "events (env_uni (sv_env sv)) db (fst (CreatePool sv c db))"
  unfolding CreatePool_def split_beta by (rule tx_events) (auto simp: Let_def split_beta split: if_splits intro: created updated)

lemma UpdatePool_events: "events (env_uni (sv_env sv)) db (fst (UpdatePool sv i n c db))"
  unfolding UpdatePool_def by (rule tx_events) (auto simp: Let_def split_beta split: if_splits intro: created updated)

lemma DeletePool_events: "events (env_uni (sv_env sv)) db (fst (DeletePool sv i n db))"
  unfolding DeletePool_def by (rule tx_events) (auto simp: Let_def split_beta split: if_splits intro: created updated)

lemma CreateWalletRef_events: "events (env_uni (sv_env sv)) db (fst (CreateWalletRef sv c db))"
  unfolding CreateWalletRef_def split_beta by (rule tx_events) (auto simp: Let_def split_beta split: if_splits intro: created updated)

lemma UpdateWalletRef_events: "events (env_uni (sv_env sv)) db (fst (UpdateWalletRef sv i n c db))"
  unfolding UpdateWalletRef_def by (rule tx_events) (auto simp: Let_def split_beta split: if_splits intro: created updated)

lemma DeleteWalletRef_events: "events (env_uni (sv_env sv)) db (fst (DeleteWalletRef i n db))"
  unfolding DeleteWalletRef_def by (rule tx_events) (auto simp: Let_def split_beta split: if_splits intro: created updated)

lemma CreateMiningProfile_events: "events (env_uni (sv_env sv)) db (fst (CreateMiningProfile sv c db))"
  unfolding CreateMiningProfile_def split_beta by (rule tx_events) (auto simp: Let_def split_beta split: if_splits intro: created updated)

lemma UpdateMiningProfile_events: "events (env_uni (sv_env sv)) db (fst (UpdateMiningProfile sv i n c db))"
  unfolding UpdateMiningProfile_def by (rule tx_events) (auto simp: Let_def split_beta split: if_splits intro: created updated)

lemma DeleteMiningProfile_events: "events (env_uni (sv_env sv)) db (fst (DeleteMiningProfile i n db))"
  unfolding DeleteMiningProfile_def by (rule tx_events) (auto simp: Let_def split_beta split: if_splits intro: created updated)

lemma CreateHostProfileSettings_events: "events (env_uni (sv_env sv)) db (fst (CreateHostProfileSettings sv h p c db))"
  unfolding CreateHostProfileSettings_def by (rule tx_events) (auto simp: Let_def split_beta split: if_splits intro: created updated_on_host)

lemma UpdateHostProfileSettings_events: "events (env_uni (sv_env sv)) db (fst (UpdateHostProfileSettings sv h p n c db))"
  unfolding UpdateHostProfileSettings_def by (rule tx_events) (auto simp: Let_def split_beta split: if_splits intro: created updated_on_host)

lemma DeleteHostProfileSettings_events: "events (env_uni (sv_env sv)) db (fst (DeleteHostProfileSettings sv h p n db))"
  unfolding DeleteHostProfileSettings_def by (rule tx_events) (auto simp: Let_def split_beta split: if_splits intro: created updated_on_host)

lemma SetMaintenanceHold_events: "events uni db (fst (SetMaintenanceHold sv h n a t db))"
  unfolding SetMaintenanceHold_def
  by (rule tx_events) (auto simp: Let_def split: if_splits option.splits intro: created)

lemma MarkRestoreHostConflict_events: "events uni db (fst (MarkRestoreHostConflict sv h b n db))"
  unfolding MarkRestoreHostConflict_def by (rule tx_events) (auto simp: Let_def split: if_splits intro: created)

lemma ClearRestoreHostBarrier_events: "events uni db (fst (ClearRestoreHostBarrier h b n db))"
  unfolding ClearRestoreHostBarrier_def by (rule tx_events) (auto simp: Let_def core_def intro: created)

section \<open>Workloads\<close>

text \<open>Identifiers drawn from entropy are well formed and were never used: no snapshot names them.\<close>

definition fresh_ids :: "Svc \<Rightarrow> DB \<Rightarrow> bool" where
  "fresh_ids sv db \<longleftrightarrow> (case sv_newWorkloadID sv of Inl _ \<Rightarrow> True
     | Inr i \<Rightarrow> i \<noteq> no_workload \<and> snapshots_of db i = [])"

lemma conflict_of_hash: "checkResourceConflict db (w\<lparr>dw_EffectiveHash := h\<rparr>) x = checkResourceConflict db w x"
  by (simp add: checkResourceConflict_def)

lemma insert_workload_events:
  assumes "insert_workload sv db w now = Inr (db', x)" and "dw_WorkloadID w \<noteq> no_workload"
    and "snapshots_of db (dw_WorkloadID w) = []" and "dw_DesiredGeneration w = 1"
  shows "events (env_uni (sv_env sv)) db db'"
proof -
  obtain i r where free: "row_of dw_WorkloadID (dw_WorkloadID w) (db_workloads db) = None"
    "checkResourceConflict db w no_workload = None" and res: "resolveWorkload sv db w = Inr (i, r)"
    and snap: "snapshot_if_ready sv 0 (touch (1 + device_rows (w\<lparr>dw_EffectiveHash := rs_Hash r\<rparr>))
      (db\<lparr>db_workloads := db_workloads db @ [w\<lparr>dw_EffectiveHash := rs_Hash r\<rparr>]\<rparr>)) (w\<lparr>dw_EffectiveHash := rs_Hash r\<rparr>) i r now = Inr db'"
    using assms(1) by (auto simp: insert_workload_def Let_def)
  let ?w = "w\<lparr>dw_EffectiveHash := rs_Hash r\<rparr>"
  let ?db1 = "touch (1 + device_rows ?w) (db\<lparr>db_workloads := db_workloads db @ [?w]\<rparr>)"
  have "event (env_uni (sv_env sv)) db ?db1"
    by (rule event.add[of db ?w])
      (use assms(2-4) free in \<open>simp_all add: workload_row_def conflict_of_hash core_def touch_def counted_def incidents_distinct_def\<close>)
  moreover have "events (env_uni (sv_env sv)) ?db1 db'"
    by (rule snapshot_if_ready_events[OF snap])
      (use free(1) resolveWorkloadD[OF res] in \<open>simp_all add: workload_row_def touch_def\<close>)
  ultimately show ?thesis by (rule converse_rtranclp_into_rtranclp)
qed

lemma CreateDesiredWorkload_events:
  "fresh_ids sv db \<Longrightarrow> events (env_uni (sv_env sv)) db (fst (CreateDesiredWorkload sv c db))"
  unfolding CreateDesiredWorkload_def Let_def
  by (auto split: option.split sum.split simp: fresh_ids_def intro!: write_events elim!: insert_workload_events)

text \<open>The row that an update writes.\<close>

definition updated_row :: "Svc \<Rightarrow> DesiredWorkload \<Rightarrow> DesiredWorkloadContent \<Rightarrow> string \<Rightarrow> DesiredWorkload" where
  "updated_row sv w c hash = w\<lparr>dw_Content := c, dw_Meta := bump_meta hash (sv_clock sv 0) (dw_Meta w)\<rparr>"

definition next_generation :: "string \<Rightarrow> DesiredWorkload \<Rightarrow> DesiredWorkload" where
  "next_generation h w = (if h = dw_EffectiveHash w then w
     else w\<lparr>dw_DesiredGeneration := dw_DesiredGeneration w + 1, dw_EffectiveHash := h\<rparr>)"

lemma change_workload_rows:
  "change_workload sv db i n c hash =
     andThen (loadWorkloadTx db i) (\<lambda>w.
     guard (fail_if (meta_Revision (dw_Meta w) \<noteq> n) (revisionConflict ''DesiredWorkload'' n (meta_Revision (dw_Meta w))))
     (guard (fail_if (dw_HostID c \<noteq> dw_HostID (dw_Content w)) (typed_cause CONFIG_CONFLICT
          ''DesiredWorkload HostID is immutable; retire it before targeting another Host'' None))
     (if meta_ContentHash (dw_Meta w) = hash then Inr (db, w)
      else guard (checkResourceConflict db (updated_row sv w c hash) i)
        (andThen (resolveWorkload sv db (updated_row sv w c hash)) (\<lambda>(inputs, r).
          let x = next_generation (rs_Hash r) (updated_row sv w c hash)
          in andThen (store_workload x (touch (device_rows w + device_rows x) db)) (\<lambda>db'.
             andThen (if rs_Hash r \<noteq> dw_EffectiveHash w then snapshot_if_ready sv 0 db' x inputs r (sv_clock sv 0) else Inr db')
               (\<lambda>db''. Inr (db'', x))))))))"
proof -
  have "(if h \<noteq> dw_EffectiveHash w then (updated_row sv w c hash)\<lparr>dw_DesiredGeneration := dw_DesiredGeneration (updated_row sv w c hash) + 1,
      dw_EffectiveHash := h\<rparr> else updated_row sv w c hash) = next_generation h (updated_row sv w c hash)" for h w
    by (simp add: next_generation_def updated_row_def)
  note row = this[unfolded updated_row_def]
  show ?thesis unfolding change_workload_def Let_def updated_row_def by (simp only: row)
qed

lemma next_generation_hash [simp]: "dw_EffectiveHash (next_generation h w) = h"
  by (simp add: next_generation_def)

lemma change_workloadD:
  assumes "change_workload sv db i n c hash = Inr (db', x)"
  obtains (unchanged) w where "loadWorkloadTx db i = Inr w" "meta_Revision (dw_Meta w) = n" "dw_HostID c = dw_HostID (dw_Content w)"
      "meta_ContentHash (dw_Meta w) = hash" "db' = db" "x = w"
  | (changed) w inputs r db1 where "loadWorkloadTx db i = Inr w" "meta_Revision (dw_Meta w) = n" "dw_HostID c = dw_HostID (dw_Content w)"
      "meta_ContentHash (dw_Meta w) \<noteq> hash" "checkResourceConflict db (updated_row sv w c hash) i = None"
      "resolveWorkload sv db (updated_row sv w c hash) = Inr (inputs, r)" "x = next_generation (rs_Hash r) (updated_row sv w c hash)"
      "store_workload x (touch (device_rows w + device_rows x) db) = Inr db1"
      "db' = db1 \<or> snapshot_if_ready sv 0 db1 x inputs r (sv_clock sv 0) = Inr db'"
proof -
  obtain w where w: "loadWorkloadTx db i = Inr w" "meta_Revision (dw_Meta w) = n" "dw_HostID c = dw_HostID (dw_Content w)"
    and rest: "(if meta_ContentHash (dw_Meta w) = hash then Inr (db, w)
      else guard (checkResourceConflict db (updated_row sv w c hash) i)
        (andThen (resolveWorkload sv db (updated_row sv w c hash)) (\<lambda>(inputs, r).
          let x = next_generation (rs_Hash r) (updated_row sv w c hash)
          in andThen (store_workload x (touch (device_rows w + device_rows x) db)) (\<lambda>db'.
             andThen (if rs_Hash r \<noteq> dw_EffectiveHash w then snapshot_if_ready sv 0 db' x inputs r (sv_clock sv 0) else Inr db')
               (\<lambda>db''. Inr (db'', x)))))) = Inr (db', x)"
    using assms unfolding change_workload_rows andThen_Inr guard_Inr fail_if_None by blast
  show thesis
  proof (cases "meta_ContentHash (dw_Meta w) = hash")
    case True
    then show thesis using rest w by (intro unchanged[of w]) simp_all
  next
    case False
    then obtain inputs r where res: "checkResourceConflict db (updated_row sv w c hash) i = None"
      "resolveWorkload sv db (updated_row sv w c hash) = Inr (inputs, r)" using rest by auto
    then have "andThen (store_workload (next_generation (rs_Hash r) (updated_row sv w c hash))
        (touch (device_rows w + device_rows (next_generation (rs_Hash r) (updated_row sv w c hash))) db)) (\<lambda>db'.
          andThen (if rs_Hash r \<noteq> dw_EffectiveHash w then snapshot_if_ready sv 0 db' (next_generation (rs_Hash r) (updated_row sv w c hash))
            inputs r (sv_clock sv 0) else Inr db') (\<lambda>db''. Inr (db'', next_generation (rs_Hash r) (updated_row sv w c hash)))) = Inr (db', x)"
      using rest False by (simp add: Let_def guard_def)
    then obtain db1 where "store_workload x (touch (device_rows w + device_rows x) db) = Inr db1"
      "(if rs_Hash r \<noteq> dw_EffectiveHash w then snapshot_if_ready sv 0 db1 x inputs r (sv_clock sv 0) else Inr db1) = Inr db'"
      "x = next_generation (rs_Hash r) (updated_row sv w c hash)" unfolding andThen_Inr by blast
    then show thesis using w False res by (intro changed[of w inputs r db1]) (simp_all split: if_splits)
  qed
qed

lemma change_workload_events:
  assumes "change_workload sv db i n c hash = Inr (db', x)"
  shows "events (env_uni (sv_env sv)) db db'"
  using assms
proof (cases rule: change_workloadD)
  case (unchanged w)
  then show ?thesis by simp
next
  case (changed w inputs r db1)
  obtain row where row: "workload_row db i = Some row" "w = normalize_workload row" using loadWorkloadTxD[OF changed(1)] by blast
  note d = store_workloadD[OF changed(8)]
  have id: "dw_WorkloadID x = i" "dw_Content x = c" "dw_HostID c = dw_HostID (dw_Content row)"
    using row workload_row_id[OF row(1)] changed(3,7) by (simp_all add: next_generation_def updated_row_def normalize_workload_def)
  have gen: "(dw_DesiredGeneration x, dw_EffectiveHash x) = (dw_DesiredGeneration row, dw_EffectiveHash row)
      \<or> dw_DesiredGeneration x = dw_DesiredGeneration row + 1"
    using row changed(7) by (simp add: next_generation_def updated_row_def normalize_workload_def)
  have free: "checkResourceConflict db x i = None"
    using changed(5,7) by (simp add: next_generation_def checkResourceConflict_def)
  have "event (env_uni (sv_env sv)) db db1"
    by (rule event.change[of db x row]) (use row(1) id free gen d in \<open>simp_all add: counted_def incidents_distinct_def\<close>)
  moreover have "events (env_uni (sv_env sv)) db1 db'"
    using changed(9)
  proof
    assume s: "snapshot_if_ready sv 0 db1 x inputs r (sv_clock sv 0) = Inr db'"
    have "db_workloads db1 = replace_row dw_WorkloadID x (db_workloads db)" using d by (simp add: core_def)
    then have "workload_row db1 (dw_WorkloadID x) = Some x" using replaced_row[of db x row db1] row(1) id(1) by simp
    moreover have "ri_Workload inputs = updated_row sv w c hash" using resolveWorkloadD[OF changed(6)] by simp
    ultimately show ?thesis using s changed(7)
      by (intro snapshot_if_ready_events[of sv 0 db1 x inputs r "sv_clock sv 0"]) (simp_all add: next_generation_def)
  qed simp
  ultimately show ?thesis by (rule converse_rtranclp_into_rtranclp)
qed

lemma UpdateDesiredWorkload_events: "events (env_uni (sv_env sv)) db (fst (UpdateDesiredWorkload sv i n c db))"
  unfolding UpdateDesiredWorkload_def Let_def
  by (auto split: option.split sum.split intro!: write_events elim!: change_workload_events)

lemma delete_removal:
  "loadWorkloadTx db i = Inr w \<Longrightarrow> removal i db (delete_workload_row (resolveDeletedWorkloadIncidentsTx sv i db) w)"
proof -
  assume "loadWorkloadTx db i = Inr w"
  then have "dw_WorkloadID w = i" using loadWorkloadTxD workload_row_id by fastforce
  moreover have "incident_row_id \<circ> (\<lambda>x. if resolves i x then x\<lparr>in_State := IncidentResolved, in_LastObservedAt := sv_clock sv 0,
      in_ResolvedAt := Some (sv_clock sv 0)\<rparr> else x) = incident_row_id" by (auto simp: incident_row_id_def)
  ultimately show ?thesis
    by (intro removal.remove) (simp_all add: delete_workload_row_def resolveDeletedWorkloadIncidentsTx_def core_def touch_def
        counted_def incidents_distinct_def Let_def)
qed

lemma checked_removal:
  assumes "\<And>db' y. body = Inr (db', y) \<Longrightarrow> removal i db db'"
  shows "fst (case v of Some e \<Rightarrow> (db, Inl e) | None \<Rightarrow> wrapped op (writeTx db body)) = db
    \<or> removal i db (fst (case v of Some e \<Rightarrow> (db, Inl e) | None \<Rightarrow> wrapped op (writeTx db body)))"
  using assms by (cases v; cases body) (auto simp: writeTx_def)

lemma DeleteDesiredWorkload_removal:
  "fst (DeleteDesiredWorkload sv i n db) = db \<or> removal i db (fst (DeleteDesiredWorkload sv i n db))"
  unfolding DeleteDesiredWorkload_def by (rule checked_removal) (auto intro: delete_removal)

lemma FinalizeRetired_removal:
  "fst (FinalizeRetiredDesiredWorkloadDeletion sv i n db) = db \<or> removal i db (fst (FinalizeRetiredDesiredWorkloadDeletion sv i n db))"
  unfolding FinalizeRetiredDesiredWorkloadDeletion_def by (rule checked_removal) (auto intro: delete_removal)

lemma block_event:
  assumes "loadWorkloadTx db i = Inr w" and "dw_RunState (dw_Content w) = DesiredRunning" and "dw_DesiredGeneration w = rb_BlockedGeneration b"
    and "rb_WorkloadID b = i"
  shows "events uni db (touch (Suc 0) (db\<lparr>db_bindings := latch b (db_bindings db)\<rparr>))"
  using loadWorkloadTxD[OF assms(1)] assms(2-4)
  by (auto simp: normalize_workload_def core_def touch_def counted_def incidents_distinct_def intro!: r_into_rtranclp event.block[of db b])

lemma BlockDesiredGeneration_events: "events uni db (fst (BlockDesiredGeneration sv i g c m db))"
proof -
  let ?b = "\<lparr>rb_WorkloadID = i, rb_BlockedGeneration = g, rb_ErrorCode = c, rb_HumanMessage = m, rb_BlockedAt = sv_clock sv 0\<rparr>"
  have "events uni db db'" if "loadWorkloadTx db i = Inr w" "(if dw_RunState (dw_Content w) \<noteq> DesiredRunning \<or> dw_DesiredGeneration w \<noteq> g
      then Inr (db, ()) else Inr (touch 1 (db\<lparr>db_bindings := latch ?b (db_bindings db)\<rparr>), ())) = Inr (db', x)" for w db' and x :: unit
    using that block_event[OF that(1), of ?b] by (auto split: if_splits)
  then have "events uni db (fst (writeTx db (andThen (loadWorkloadTx db i) (\<lambda>w.
      if dw_RunState (dw_Content w) \<noteq> DesiredRunning \<or> dw_DesiredGeneration w \<noteq> g then Inr (db, ())
      else Inr (touch 1 (db\<lparr>db_bindings := latch ?b (db_bindings db)\<rparr>), ())))))"
    by (intro write_events) (unfold andThen_Inr, elim exE conjE)
  then show ?thesis by (simp add: BlockDesiredGeneration_def)
qed

text \<open>The retry writes the snapshot before the workload row; the changes commute.\<close>

lemma current_snapshot_agrees:
  assumes "farm_inv uni db" and "workload_row db i = Some row" and "getSnapshot sv db i (dw_DesiredGeneration row) = Inr s"
  shows "sn_WorkloadID s = i \<and> sn_DesiredGeneration s = dw_DesiredGeneration row \<and> sn_ResolvedHash s = dw_EffectiveHash row
    \<and> sn_HostID s = dw_HostID (dw_Content row)"
proof -
  obtain r where r: "row_of snapshot_key (i, dw_DesiredGeneration row) (db_snapshots db) = Some r"
    and s: "s = r\<lparr>sn_Resources := NormalizeResourceClaim (sn_Resources r)\<rparr>"
    using assms(3) by (auto simp: getSnapshot_def load_snapshot_def Let_def split: option.splits)
  have "r \<in> set (db_snapshots db)" "sn_WorkloadID r = i" "sn_DesiredGeneration r = dw_DesiredGeneration row"
    using row_of_SomeD[OF r] by (simp_all add: snapshot_key_def)
  moreover have "snapshots_agree row (db_snapshots db)" using stored_workload_ok[OF assms(1), of i row] assms(2) workload_row_id by blast
  ultimately show ?thesis using s workload_row_id[OF assms(2)] by (simp add: snapshots_agree_def)
qed

lemma retry_events:
  assumes inv: "farm_inv uni db" and w: "loadWorkloadTx db i = Inr w" and run: "dw_RunState (dw_Content w) = DesiredRunning"
    and prev: "getSnapshot sv db i (dw_DesiredGeneration w) = Inr previous"
    and ins: "insertResolvedSnapshot sv db (retried_snapshot previous (dw_DesiredGeneration w + 1) x now) = Inr db1"
    and st: "store_workload w' db1 = Inr db2" and uni: "env_uni (sv_env sv) = uni"
    and w': "dw_WorkloadID w' = dw_WorkloadID w" "dw_Content w' = dw_Content w" "dw_EffectiveHash w' = dw_EffectiveHash w"
      "dw_DesiredGeneration w' = dw_DesiredGeneration w + 1"
  shows "events uni db (touch 1 (db2\<lparr>db_bindings := remove_row rb_WorkloadID i (db_bindings db2)\<rparr>))"
proof -
  obtain row where row: "workload_row db i = Some row" "w = normalize_workload row" using loadWorkloadTxD[OF w] by blast
  have id: "dw_WorkloadID w' = i" using w'(1) row workload_row_id[OF row(1)] by simp
  let ?s = "retried_snapshot previous (dw_DesiredGeneration w + 1) x now"
  note ins' = insertResolvedSnapshotD[OF ins] and st' = store_workloadD[OF st]
  have agree: "sn_WorkloadID ?s = i \<and> sn_DesiredGeneration ?s = dw_DesiredGeneration w' \<and> sn_ResolvedHash ?s = dw_EffectiveHash w'
      \<and> sn_HostID ?s = dw_HostID (dw_Content w')"
    using current_snapshot_agrees[OF inv row(1), of sv previous] prev row(2) w' by (simp add: retried_snapshot_def)
  let ?a = "touch 1 (db\<lparr>db_workloads := replace_row dw_WorkloadID w' (db_workloads db)\<rparr>)"
  let ?b = "touch 1 (?a\<lparr>db_snapshots := db_snapshots db @ [?s]\<rparr>)"
  let ?c = "touch 1 (db2\<lparr>db_bindings := remove_row rb_WorkloadID i (db_bindings db2)\<rparr>)"
  have "event uni db ?a"
    by (rule event.regenerate[of db w' row]) (use row id w' st' in \<open>simp_all add: core_def touch_def counted_def incidents_distinct_def\<close>)
  moreover have "event uni ?a ?b"
  proof (rule event.snapshot[of ?a ?s w'])
    show "workload_row ?a (sn_WorkloadID ?s) = Some w'" using agree replaced_row[of db w' row ?a] row(1) id by simp
    show "validateSnapshot uni ?s = None" using ins' uni by simp
    show "\<forall>r\<in>set (db_snapshots ?a). snapshot_key r \<noteq> snapshot_key ?s \<and> sn_ExecutionID r \<noteq> sn_ExecutionID ?s"
      using ins' by (simp add: touch_def)
  qed (use agree run w' in \<open>simp_all add: core_def touch_def counted_def incidents_distinct_def\<close>)
  moreover have "event uni ?b ?c"
  proof (rule event.unblock[of _ _ i])
    show "core ?c = (db_workloads ?b, db_snapshots ?b, remove_row rb_WorkloadID i (db_bindings ?b))"
      using ins' st' by (simp add: core_def touch_def)
    have "db_persistent_revision db2 = db_persistent_revision db + (1 + length (cl_DeviceIDs (sn_Resources ?s))) + 1
        \<and> db_incidents db2 = db_incidents db"
      using ins st by (auto simp: insertResolvedSnapshot_def store_workload_def touch_def split: if_splits)
    then show "counted ?b ?c" by (simp add: counted_def incidents_distinct_def touch_def)
  qed
  ultimately show ?thesis by (meson converse_rtranclp_into_rtranclp rtranclp.rtrancl_refl)
qed

lemma RetryWorkload_events:
  assumes "farm_inv (env_uni (sv_env sv)) db"
  shows "events (env_uni (sv_env sv)) db (fst (RetryWorkload sv i n db))"
  unfolding RetryWorkload_def
proof (rule checked_events, goal_cases)
  case (1 db' y)
  then show ?case
    by (auto simp: Let_def split: option.splits intro!: retry_events[OF assms, simplified])
qed

text \<open>A stored snapshot that does not pass its checks is reported as corrupt, never as missing.\<close>

abbreviation conflicts :: "error option \<Rightarrow> bool" where
  "conflicts r \<equiv> (\<forall>e. r = Some e \<longrightarrow> fst (CodeOf e) = CONFIG_CONFLICT)"

lemma first_error_conflicts: "(\<forall>r\<in>set rs. conflicts r) \<Longrightarrow> conflicts (first_error rs)"
  by (induction rs rule: first_error.induct) auto

lemma conflicts_intros [simp]: "conflicts (corrupt_if m r)" "conflicts (fail_if b (corrupt m r))" "conflicts (hash_mismatch c h m)"
  by (auto simp: corrupt_if_def fail_if_def hash_mismatch_def split: option.splits sum.splits if_splits)

lemma snapshot_conflicts: "conflicts (scanSnapshot s)" "conflicts (loadDevices m ds)" "conflicts (validateSnapshot uni s)"
  unfolding scanSnapshot_def loadDevices_def validateSnapshot_def
  by (rule first_error_conflicts, simp add: Let_def split: option.split)+

lemma getSnapshot_missing:
  assumes "getSnapshot sv db i g = Inl e" "fst (CodeOf e) = NOT_FOUND"
  shows "row_of snapshot_key (i, g) (db_snapshots db) = None"
proof (cases "row_of snapshot_key (i, g) (db_snapshots db)")
  case (Some row)
  then have "fst (CodeOf e) = CONFIG_CONFLICT" using assms(1) snapshot_conflicts
    by (auto simp: getSnapshot_def load_snapshot_def Let_def guard_def split: option.splits)
  then show ?thesis using assms(2) by simp
qed

lemma refresh_events:
  assumes w: "loadWorkloadTx db i = Inr w" and run: "dw_RunState (dw_Content w) = DesiredRunning"
    and g: "refreshed_generation sv db w h = Inr (Some g)" and h: "h = rs_Hash resolved"
    and st: "store_workload (w\<lparr>dw_DesiredGeneration := g, dw_EffectiveHash := h\<rparr>) db = Inr db1"
    and snap: "createSnapshot sv 0 db1 (inputs\<lparr>ri_Workload := w\<lparr>dw_DesiredGeneration := g, dw_EffectiveHash := h\<rparr>, ri_GPUAssignments := gs\<rparr>)
      resolved g now = Inr db2"
  shows "events (env_uni (sv_env sv)) db db2"
proof -
  let ?w = "w\<lparr>dw_DesiredGeneration := g, dw_EffectiveHash := h\<rparr>"
  obtain row where row: "workload_row db i = Some row" "w = normalize_workload row" using loadWorkloadTxD[OF w] by blast
  have id: "workload_row db (dw_WorkloadID ?w) = Some row" using row workload_row_id[OF row(1)] by simp
  note st' = store_workloadD[OF st]
  consider "row_of snapshot_key (dw_WorkloadID row, dw_DesiredGeneration row) (db_snapshots db) = None" "g = dw_DesiredGeneration w"
    | "g = dw_DesiredGeneration w + 1"
    using g getSnapshot_missing[of sv db "dw_WorkloadID w" "dw_DesiredGeneration w"] row(2)
    by (auto simp: refreshed_generation_def split: sum.splits if_splits)
  then have "event (env_uni (sv_env sv)) db db1"
  proof cases
    case 1
    then show ?thesis using st' row(2) by (intro event.rehash[OF id]) simp_all
  next
    case 2
    then show ?thesis using st' row(2) by (intro event.regenerate[OF id]) simp_all
  qed
  moreover have "event (env_uni (sv_env sv)) db1 db2"
    using replaced_row[OF id, of db1] st' run h by (intro createSnapshot_event[OF snap, of ?w]) (simp_all add: core_def)
  ultimately show ?thesis by (meson converse_rtranclp_into_rtranclp rtranclp.rtrancl_refl)
qed

lemma RefreshResolvedSnapshot_events:
  "events (env_uni (sv_env sv)) db (fst (RefreshResolvedSnapshotForInventory sv i iv db))"
proof -
  have "events (env_uni (sv_env sv)) db (fst (writeTx db body))"
    if "body = andThen (loadWorkloadTx db i) (\<lambda>w.
            if dw_RunState (dw_Content w) \<noteq> DesiredRunning \<or> cl_DeviceIDs (dw_Resources (dw_Content w)) = []
            then Inr (db, ())
            else andThen (resolveWorkload sv db w) (\<lambda>(inputs, _).
              andThen (ResolveAndValidate (sv_env sv) inputs iv) (\<lambda>resolved.
              andThen (refreshed_generation sv db w (rs_Hash resolved)) (\<lambda>g.
                case g of
                  None \<Rightarrow> Inr (db, ())
                | Some generation \<Rightarrow>
                    let w' = w\<lparr>dw_DesiredGeneration := generation, dw_EffectiveHash := rs_Hash resolved\<rparr>
                    in andThen (store_workload w' db) (\<lambda>db'.
                       andThen (createSnapshot sv 0 db'
                        (inputs\<lparr>ri_Workload := w', ri_GPUAssignments := rr_GPUAssignments (rs_Content resolved)\<rparr>)
                        resolved generation (sv_clock sv 0)) (\<lambda>db''. Inr (db'', ())))))))" for body
    by (rule write_events)
      (use that in \<open>auto simp: Let_def split: if_splits option.splits intro: refresh_events\<close>)
  then show ?thesis by (simp add: RefreshResolvedSnapshotForInventory_def split: option.split)
qed

section \<open>Incidents\<close>

lemma activate_events: 
  assumes "incidents_distinct db" and "activate now c db = Inr db'"
  shows "events uni db db'"
proof (cases "row_of incident_row_id (ic_IncidentID c) (db_incidents db)")
  case None
  then have "incident_row_id (first_occurrence now c) \<notin> set (map incident_row_id (db_incidents db))"
    by (auto simp: row_of_None first_occurrence_def incident_row_id_def)
  then show ?thesis using assms None
    by (intro other_event) (auto simp: activate_def counted_def incidents_distinct_def touch_def core_def split: if_splits)
next
  case (Some row)
  have key: "incident_row_id (observe_again now c row) = incident_row_id row"
    by (simp add: observe_again_def incident_row_id_def)
  show ?thesis
  proof (cases "db_persistent_revision db < db_persistent_revision db'")
    case True
    then show ?thesis using assms(2) Some
      by (intro other_event) (auto simp: activate_def counted_def incidents_distinct_def touch_def core_def split: if_splits)
  next
    case False
    let ?row = "observe_again now c row"
    have same: "?row\<lparr>in_LastObservedAt := in_LastObservedAt row\<rparr> = row"
      and db': "db' = touch 0 (db\<lparr>db_incidents := replace_row incident_row_id ?row (db_incidents db)\<rparr>)"
      using assms(2) Some False by (auto simp: activate_def touch_def split: if_splits)
    have "r = row" if "r \<in> set (db_incidents db)" "incident_row_id r = incident_row_id row" for r
      using row_of_unique[of incident_row_id "db_incidents db" r] assms(1) that Some row_of_SomeD[OF Some]
      by (simp add: incidents_distinct_def)
    moreover have "?row\<lparr>in_LastObservedAt := 0\<rparr> = row\<lparr>in_LastObservedAt := 0\<rparr>"
    proof -
      have "?row\<lparr>in_LastObservedAt := 0\<rparr> = (?row\<lparr>in_LastObservedAt := in_LastObservedAt row\<rparr>)\<lparr>in_LastObservedAt := 0\<rparr>" by simp
      then show ?thesis by (simp only: same)
    qed
    ultimately have "map (\<lambda>r. r\<lparr>in_LastObservedAt := 0\<rparr>) (replace_row incident_row_id ?row (db_incidents db))
        = map (\<lambda>r. r\<lparr>in_LastObservedAt := 0\<rparr>) (db_incidents db)"
      unfolding replace_row_def map_map key by (intro map_cong) auto
    then show ?thesis using db' by (intro r_into_rtranclp event.seen_again) (simp_all add: forget_times_def touch_def core_def)
  qed
qed

lemma activate_all_events: "incidents_distinct db \<Longrightarrow> activate_all now cs db = Inr db' \<Longrightarrow> events uni db db'"
proof (induction cs arbitrary: db)
  case (Cons c cs)
  obtain db1 where step: "activate now c db = Inr db1" "activate_all now cs db1 = Inr db'" using Cons.prems(2) by auto
  note e = activate_events[OF Cons.prems(1) step(1), of uni]
  show ?case by (rule rtranclp_trans[OF e Cons.IH[OF events_incidents[OF e Cons.prems(1)] step(2)]])
qed simp

lemma resolve_absent_events: "events uni db (resolve_absent h is p now db)"
proof (cases "filter (is_absent h is p) (db_incidents db) = []")
  case True
  then have "map (\<lambda>r. if is_absent h is p r then resolve_incident now r else r) (db_incidents db) = db_incidents db"
    by (intro map_idI) (simp add: filter_empty_conv)
  then have "resolve_absent h is p now db = db" using True by (simp add: resolve_absent_def touch_def)
  then show ?thesis by simp
next
  case False
  have "incident_row_id \<circ> (\<lambda>r. if is_absent h is p r then resolve_incident now r else r) = incident_row_id"
    by (auto simp: resolve_incident_def incident_row_id_def)
  then show ?thesis using False
    by (intro other_event) (simp_all add: resolve_absent_def counted_def incidents_distinct_def touch_def core_def)
qed

lemma ReconcileIncidents_events: "incidents_distinct db \<Longrightarrow> events uni db (fst (ReconcileIncidents sv h a cs rv db))"
  unfolding ReconcileIncidents_def
  by (rule tx_events) (auto simp: Let_def intro: rtranclp_trans[OF resolve_absent_events activate_all_events] events_incidents[OF resolve_absent_events])

end
