(* ===== verification/Store_Safety.thy ===== *)
theory Store_Safety
  imports Store_Steps
begin

text \<open>
  The farm configuration store as a whole. Its calls are values of \<open>StoreOp\<close>; \<open>perform\<close> is one call,
  and \<open>reachable\<close> holds the databases that any sequence of calls leaves. The safety properties follow
  from the invariant of \<open>Store_Model\<close>: every call is a sequence of its events.
\<close>

section \<open>Calls\<close>

datatype StoreOp =
    OpCreatePool PoolContent
  | OpUpdatePool PoolID uint64 PoolContent
  | OpDeletePool PoolID uint64
  | OpCreateWalletRef WalletRefContent
  | OpUpdateWalletRef WalletID uint64 WalletRefContent
  | OpDeleteWalletRef WalletID uint64
  | OpCreateMiningProfile MiningProfileContent
  | OpUpdateMiningProfile ProfileID uint64 MiningProfileContent
  | OpDeleteMiningProfile ProfileID uint64
  | OpCreateHostProfileSettings HostID ProfileID HostProfileSettingsContent
  | OpUpdateHostProfileSettings HostID ProfileID uint64 HostProfileSettingsContent
  | OpDeleteHostProfileSettings HostID ProfileID uint64
  | OpCreateDesiredWorkload DesiredWorkloadContent
  | OpUpdateDesiredWorkload WorkloadID uint64 DesiredWorkloadContent
  | OpDeleteDesiredWorkload WorkloadID uint64
  | OpFinalizeRetiredDesiredWorkloadDeletion WorkloadID uint64
  | OpBlockDesiredGeneration WorkloadID uint64 Code string
  | OpRetryWorkload WorkloadID uint64
  | OpRefreshResolvedSnapshotForInventory WorkloadID Inventory
  | OpSetMaintenanceHold HostID uint64 bool string
  | OpMarkRestoreHostConflict HostID string uint64
  | OpClearRestoreHostBarrier HostID string uint64
  | OpReconcileIncidents HostID string "IncidentCondition list" "IncidentType \<Rightarrow> bool"

fun perform :: "Svc \<Rightarrow> StoreOp \<Rightarrow> DB \<Rightarrow> DB" where
  "perform sv (OpCreatePool c) db = fst (CreatePool sv c db)"
| "perform sv (OpUpdatePool i n c) db = fst (UpdatePool sv i n c db)"
| "perform sv (OpDeletePool i n) db = fst (DeletePool sv i n db)"
| "perform sv (OpCreateWalletRef c) db = fst (CreateWalletRef sv c db)"
| "perform sv (OpUpdateWalletRef i n c) db = fst (UpdateWalletRef sv i n c db)"
| "perform sv (OpDeleteWalletRef i n) db = fst (DeleteWalletRef i n db)"
| "perform sv (OpCreateMiningProfile c) db = fst (CreateMiningProfile sv c db)"
| "perform sv (OpUpdateMiningProfile i n c) db = fst (UpdateMiningProfile sv i n c db)"
| "perform sv (OpDeleteMiningProfile i n) db = fst (DeleteMiningProfile i n db)"
| "perform sv (OpCreateHostProfileSettings h p c) db = fst (CreateHostProfileSettings sv h p c db)"
| "perform sv (OpUpdateHostProfileSettings h p n c) db = fst (UpdateHostProfileSettings sv h p n c db)"
| "perform sv (OpDeleteHostProfileSettings h p n) db = fst (DeleteHostProfileSettings sv h p n db)"
| "perform sv (OpCreateDesiredWorkload c) db = fst (CreateDesiredWorkload sv c db)"
| "perform sv (OpUpdateDesiredWorkload i n c) db = fst (UpdateDesiredWorkload sv i n c db)"
| "perform sv (OpDeleteDesiredWorkload i n) db = fst (DeleteDesiredWorkload sv i n db)"
| "perform sv (OpFinalizeRetiredDesiredWorkloadDeletion i n) db = fst (FinalizeRetiredDesiredWorkloadDeletion sv i n db)"
| "perform sv (OpBlockDesiredGeneration i g c m) db = fst (BlockDesiredGeneration sv i g c m db)"
| "perform sv (OpRetryWorkload i n) db = fst (RetryWorkload sv i n db)"
| "perform sv (OpRefreshResolvedSnapshotForInventory i iv) db = fst (RefreshResolvedSnapshotForInventory sv i iv db)"
| "perform sv (OpSetMaintenanceHold h n a r) db = fst (SetMaintenanceHold sv h n a r db)"
| "perform sv (OpMarkRestoreHostConflict h b n) db = fst (MarkRestoreHostConflict sv h b n db)"
| "perform sv (OpClearRestoreHostBarrier h b n) db = fst (ClearRestoreHostBarrier h b n db)"
| "perform sv (OpReconcileIncidents h a cs rv) db = fst (ReconcileIncidents sv h a cs rv db)"

text \<open>A new database has no workloads, snapshots, bindings and incidents. Every call draws its own clock
  readings and identifiers; identifiers drawn from entropy were never used before.\<close>

definition initial :: "DB \<Rightarrow> bool" where
  "initial db \<longleftrightarrow> core db = ([], [], []) \<and> db_incidents db = []"

inductive reachable :: "unicode_case \<Rightarrow> DB \<Rightarrow> bool" for uni where
  start: "initial db \<Longrightarrow> reachable uni db"
| call: "reachable uni db \<Longrightarrow> env_uni (sv_env sv) = uni \<Longrightarrow> fresh_ids sv db \<Longrightarrow> reachable uni (perform sv op db)"

section \<open>Every call is a step of the abstract machine\<close>

definition step :: "unicode_case \<Rightarrow> DB \<Rightarrow> DB \<Rightarrow> bool" where
  "step uni db db' \<longleftrightarrow> events uni db db' \<or> (\<exists>i. removal i db db')"

lemma perform_step:
  assumes "farm_inv (env_uni (sv_env sv)) db" and "incidents_distinct db" and "fresh_ids sv db"
  shows "step (env_uni (sv_env sv)) db (perform sv op db)"
  unfolding step_def
proof (cases op)
  case (OpCreateDesiredWorkload c)
  then show "events (env_uni (sv_env sv)) db (perform sv op db) \<or> (\<exists>i. removal i db (perform sv op db))"
    using CreateDesiredWorkload_events[OF assms(3)] by simp
next
  case (OpRetryWorkload i n)
  then show "events (env_uni (sv_env sv)) db (perform sv op db) \<or> (\<exists>i. removal i db (perform sv op db))"
    using RetryWorkload_events[OF assms(1)] by simp
next
  case (OpReconcileIncidents h a cs rv)
  then show "events (env_uni (sv_env sv)) db (perform sv op db) \<or> (\<exists>i. removal i db (perform sv op db))"
    using ReconcileIncidents_events[OF assms(2)] by simp
next
  case (OpDeleteDesiredWorkload i n)
  then show "events (env_uni (sv_env sv)) db (perform sv op db) \<or> (\<exists>i. removal i db (perform sv op db))"
    using DeleteDesiredWorkload_removal[of sv i n db] by auto
next
  case (OpFinalizeRetiredDesiredWorkloadDeletion i n)
  then show "events (env_uni (sv_env sv)) db (perform sv op db) \<or> (\<exists>i. removal i db (perform sv op db))"
    using FinalizeRetired_removal[of sv i n db] by auto
qed (simp_all add: CreatePool_events UpdatePool_events DeletePool_events CreateWalletRef_events UpdateWalletRef_events
    DeleteWalletRef_events CreateMiningProfile_events UpdateMiningProfile_events DeleteMiningProfile_events
    CreateHostProfileSettings_events UpdateHostProfileSettings_events DeleteHostProfileSettings_events
    UpdateDesiredWorkload_events BlockDesiredGeneration_events RefreshResolvedSnapshot_events
    SetMaintenanceHold_events MarkRestoreHostConflict_events ClearRestoreHostBarrier_events)

lemma step_cases:
  assumes "step uni db db'" and "events uni db db' \<Longrightarrow> P" and "\<And>i. removal i db db' \<Longrightarrow> P"
  shows P
  using assms by (auto simp: step_def)

lemma step_inv: "step uni db db' \<Longrightarrow> farm_inv uni db \<Longrightarrow> farm_inv uni db'"
  by (erule step_cases) (auto intro: events_inv removal_inv)

lemma step_incidents: "step uni db db' \<Longrightarrow> incidents_distinct db \<Longrightarrow> incidents_distinct db'"
  by (erule step_cases) (auto intro: events_incidents removal_incidents)

lemma step_snapshots: "step uni db db' \<Longrightarrow> \<exists>new. db_snapshots db' = db_snapshots db @ new"
  by (erule step_cases) (auto intro: events_snapshots simp: core_def elim: removal.cases)

lemma step_counts: "step uni db db' \<Longrightarrow> db_persistent_revision db \<le> db_persistent_revision db'
    \<and> (db_persistent_revision db' = db_persistent_revision db \<longrightarrow> forget_times db' = forget_times db)"
proof (erule step_cases)
  assume "events uni db db'"
  then show ?thesis using events_count[of uni db db'] by auto
qed (auto simp: counted_def elim: removal.cases)

lemma step_advances:
  assumes "step uni db db'" and "workload_row db i = Some w" and "workload_row db' i = Some w'"
  shows "advances_to db w w'"
  using assms(1) unfolding step_def
proof (elim disjE exE)
  assume "events uni db db'"
  then show ?thesis using events_advance[of uni db db' i w] assms(2,3) by auto
next
  fix j assume "removal j db db'"
  then have "workload_row db' i = (if i = j then None else workload_row db i)"
    by (auto simp: workload_row_def row_of_remove core_def elim!: removal.cases)
  then show ?thesis using assms(2,3) row_advances_refl by (auto split: if_splits)
qed

lemma initial_inv: "initial db \<Longrightarrow> farm_inv uni db \<and> incidents_distinct db"
  by (simp add: initial_def core_def farm_inv_def incidents_distinct_def exclusive_def)

lemma reachable_inv: "reachable uni db \<Longrightarrow> farm_inv uni db \<and> incidents_distinct db"
proof (induction rule: reachable.induct)
  case (start db)
  then show ?case by (rule initial_inv)
next
  case (call db sv op)
  then have "step uni db (perform sv op db)" using perform_step by metis
  then show ?case using call.IH step_inv step_incidents by blast
qed

lemma perform_reachable:
  "reachable uni db \<Longrightarrow> env_uni (sv_env sv) = uni \<Longrightarrow> fresh_ids sv db \<Longrightarrow> step uni db (perform sv op db)"
  using reachable_inv perform_step by metis

section \<open>Properties\<close>

text \<open>C10: every call of the store, on a database that calls have produced, is a step of the abstract
  machine of \<open>Store_Model\<close>: a sequence of its events, or the removal of one workload with its binding.\<close>

theorem calls_refine_machine:
  assumes "reachable (env_uni (sv_env sv)) db" and "fresh_ids sv db"
  shows "(event (env_uni (sv_env sv)))\<^sup>*\<^sup>* db (perform sv op db) \<or> (\<exists>i. removal i db (perform sv op db))"
  using perform_reachable[OF assms(1) refl assms(2)] by (simp add: step_def)

text \<open>C11: whatever calls were made, two workloads that are to run on one Host never both claim its CPU,
  and share no device.\<close>

theorem running_workloads_exclusive:
  assumes "reachable uni db" and "a \<in> set (db_workloads db)" and "b \<in> set (db_workloads db)"
    and "dw_WorkloadID a \<noteq> dw_WorkloadID b" and "dw_HostID (dw_Content a) = dw_HostID (dw_Content b)"
    and "dw_RunState (dw_Content a) = DesiredRunning" and "dw_RunState (dw_Content b) = DesiredRunning"
  shows "\<not> (cl_CPU (dw_Resources (dw_Content a)) \<and> cl_CPU (dw_Resources (dw_Content b)))
    \<and> set (cl_DeviceIDs (dw_Resources (dw_Content a))) \<inter> set (cl_DeviceIDs (dw_Resources (dw_Content b))) = {}"
proof -
  have "exclusive (db_workloads db)" using reachable_inv[OF assms(1)] by (simp add: farm_inv_def)
  then have "\<not> clash a b" using assms(2-4) unfolding exclusive_def by blast
  then show ?thesis using assms(5-7) by (auto simp: clash_def claims_meet_def)
qed

text \<open>C12: the table of snapshots only grows at its end; no two of its rows name the same generation of a
  workload or the same execution, and each row passes the checks of a snapshot, so that its hash is the
  hash of the plan it carries.\<close>

theorem snapshots_append_only:
  assumes "reachable uni db" and "env_uni (sv_env sv) = uni" and "fresh_ids sv db"
  shows "\<exists>new. db_snapshots (perform sv op db) = db_snapshots db @ new
    \<and> distinct (map snapshot_key (db_snapshots db @ new)) \<and> distinct (map sn_ExecutionID (db_snapshots db @ new))
    \<and> list_all (\<lambda>s. validateSnapshot uni s = None) (db_snapshots db @ new)"
proof -
  note s = perform_reachable[OF assms, of op]
  obtain new where "db_snapshots (perform sv op db) = db_snapshots db @ new" using step_snapshots[OF s] by blast
  moreover have "farm_inv uni (perform sv op db)" using step_inv[OF s] reachable_inv[OF assms(1)] by blast
  ultimately show ?thesis by (metis farm_inv_def)
qed

text \<open>C13: a snapshot of a workload is of a generation up to the current one, for its Host; the snapshot of
  the current generation has the effective hash of the workload.\<close>

theorem current_snapshot_matches_workload:
  assumes "reachable uni db" and "w \<in> set (db_workloads db)" and "s \<in> set (db_snapshots db)"
    and "sn_WorkloadID s = dw_WorkloadID w"
  shows "sn_DesiredGeneration s \<le> dw_DesiredGeneration w \<and> sn_HostID s = dw_HostID (dw_Content w)
    \<and> (sn_DesiredGeneration s = dw_DesiredGeneration w \<longrightarrow> sn_ResolvedHash s = dw_EffectiveHash w)"
  using reachable_inv[OF assms(1)] assms(2-4) by (auto simp: farm_inv_def list_all_iff snapshots_agree_def)

text \<open>No call moves a workload to an earlier generation or to another Host, and none changes the
  effective hash of a generation that has a snapshot.\<close>

theorem generations_advance:
  assumes "reachable uni db" and "env_uni (sv_env sv) = uni" and "fresh_ids sv db"
    and "workload_row db i = Some w" and "workload_row (perform sv op db) i = Some w'"
  shows "dw_DesiredGeneration w \<le> dw_DesiredGeneration w' \<and> dw_HostID (dw_Content w') = dw_HostID (dw_Content w)
    \<and> (dw_DesiredGeneration w' = dw_DesiredGeneration w
        \<and> row_of snapshot_key (i, dw_DesiredGeneration w) (db_snapshots db) \<noteq> None \<longrightarrow> dw_EffectiveHash w' = dw_EffectiveHash w)"
  using step_advances[OF perform_reachable[OF assms(1-3)] assms(4,5)] workload_row_id[OF assms(4)]
  by (simp add: advances_to_def)

text \<open>A latched generation is one the workload has had, and there is at most one latch per workload.\<close>

theorem latches_belong_to_workloads:
  assumes "reachable uni db" and "b \<in> set (db_bindings db)"
  shows "(\<exists>w. workload_row db (rb_WorkloadID b) = Some w \<and> 0 < rb_BlockedGeneration b \<and> rb_BlockedGeneration b \<le> dw_DesiredGeneration w)
    \<and> row_of rb_WorkloadID (rb_WorkloadID b) (db_bindings db) = Some b"
proof -
  have inv: "farm_inv uni db" using reachable_inv[OF assms(1)] by blast
  then obtain w where "w \<in> set (db_workloads db)" "dw_WorkloadID w = rb_WorkloadID b" "0 < rb_BlockedGeneration b"
    "rb_BlockedGeneration b \<le> dw_DesiredGeneration w"
    using assms(2) by (auto simp: farm_inv_def list_all_iff binding_agrees_def)
  moreover have "workload_row db (dw_WorkloadID w) = Some w" "row_of rb_WorkloadID (rb_WorkloadID b) (db_bindings db) = Some b"
    using inv calculation(1) assms(2) by (auto simp: workload_row_def farm_inv_def intro: row_of_unique)
  ultimately show ?thesis by auto
qed

text \<open>A call that leaves the revision counter of the backup state unchanged has changed nothing but the
  times at which active incidents were last observed; the counter never decreases.\<close>

theorem changes_are_counted:
  assumes "reachable uni db" and "env_uni (sv_env sv) = uni" and "fresh_ids sv db"
  shows "db_persistent_revision db \<le> db_persistent_revision (perform sv op db)
    \<and> (db_persistent_revision (perform sv op db) = db_persistent_revision db \<longrightarrow> forget_times (perform sv op db) = forget_times db)"
  by (rule step_counts[OF perform_reachable[OF assms]])

end
