(* ===== verification/Store_Updates.thy ===== *)
theory Store_Updates
  imports Store_Steps
begin

text \<open>
  Optimistic updates. A caller names the revision it has seen; the update succeeds only if that is the
  revision of the stored row, and a change moves the row to the next one. The contract is a locale; the
  update operations of all objects of the store, and the retry of a workload, satisfy it, so no update
  is ever made on top of one its caller has not seen.
\<close>

section \<open>The contract\<close>

text \<open>A history of one object: the revisions that its effective updates named, in order; calls that leave
  the revision of the object are not recorded.\<close>

inductive updates :: "('c \<Rightarrow> uint64 \<Rightarrow> DB \<Rightarrow> DB \<times> 'o result) \<Rightarrow> (DB \<Rightarrow> uint64 option) \<Rightarrow> DB \<Rightarrow> uint64 list \<Rightarrow> DB \<Rightarrow> bool"
  for upd rev db where
  start: "updates upd rev db [] db"
| effective: "updates upd rev db ns db1 \<Longrightarrow> upd c n db1 = (db2, Inr x) \<Longrightarrow> rev db2 \<noteq> rev db1 \<Longrightarrow> updates upd rev db (ns @ [n]) db2"
| quiet: "updates upd rev db ns db1 \<Longrightarrow> rev db2 = rev db1 \<Longrightarrow> updates upd rev db ns db2"

lemma unat_shift: "unat r + k < 2 ^ 64 \<Longrightarrow> unat (r + of_nat k :: 64 word) = unat r + k"
  by (simp add: unat_word_ariths unat_of_nat)

locale optimistic =
  fixes upd :: "'c \<Rightarrow> uint64 \<Rightarrow> DB \<Rightarrow> DB \<times> 'o result" and rev :: "DB \<Rightarrow> uint64 option"
  assumes expected: "upd c n db = (db', Inr x) \<Longrightarrow> rev db = Some n"
    and next_revision: "upd c n db = (db', Inr x) \<Longrightarrow> rev db' = Some n \<or> rev db' = Some (n + 1) \<and> n + 1 > 0"
begin

lemma history:
  assumes "updates upd rev db ns db'" and "rev db = Some r"
  shows "rev db' = Some (r + of_nat (length ns)) \<and> unat r + length ns < 2 ^ 64
    \<and> ns = map (\<lambda>k. r + of_nat k) [0..<length ns]"
  using assms(1)
proof (induction rule: updates.induct)
  case start
  then show ?case using assms(2) unsigned_less[of r, where 'a = nat] by simp
next
  case (effective ns db1 c n db2 x)
  have n: "n = r + of_nat (length ns)" using expected[OF effective.hyps(2)] effective.IH by simp
  have nxt: "rev db2 = Some (n + 1)" "n + 1 > 0"
    using next_revision[OF effective.hyps(2)] expected[OF effective.hyps(2)] effective.hyps(3) by auto
  have "unat n = unat r + length ns"
    using effective.IH n unat_shift by simp
  moreover have "unat (n + 1) = Suc (unat n)" by (rule word_inc[OF nxt(2)])
  moreover have "unat (n + 1) < 2 ^ 64" using unsigned_less[of "n + 1", where 'a = nat] by simp
  ultimately have "unat r + length (ns @ [n]) < 2 ^ 64" by simp
  then show ?case using effective.IH nxt(1) n by (auto simp: algebra_simps)
next
  case (quiet ns db1 db2)
  then show ?case by simp
qed

lemma distinct_expectations:
  assumes "updates upd rev db ns db'" and "rev db = Some r"
  shows "distinct ns"
proof -
  note h = history[OF assms]
  then have bound: "unat r + length ns < 2 ^ 64" by blast
  have "inj_on (\<lambda>k. r + of_nat k :: 64 word) {0..<length ns}"
  proof (rule inj_onI)
    fix j k assume jk: "j \<in> {0..<length ns}" "k \<in> {0..<length ns}" and eq: "r + of_nat j = r + of_nat k"
    have "unat (r + of_nat j) = unat r + j" "unat (r + of_nat k) = unat r + k"
      using bound jk by (intro unat_shift; simp)+
    then show "j = k" unfolding eq by linarith
  qed
  then have "distinct (map (\<lambda>k. r + of_nat k :: 64 word) [0..<length ns])" by (simp add: distinct_map)
  moreover have "ns = map (\<lambda>k. r + of_nat k) [0..<length ns]" using h by blast
  ultimately show ?thesis by (rule ssubst[rotated])
qed

end

section \<open>What the propagation leaves alone\<close>

definition objects :: "DB \<Rightarrow> Pool list \<times> WalletRef list \<times> MiningProfile list \<times> HostProfileSettings list \<times> MaintenanceHold list" where
  "objects db = (db_pools db, db_wallets db, db_profiles db, db_settings db, db_holds db)"

lemma insertResolvedSnapshot_objects: "insertResolvedSnapshot sv db s = Inr db' \<Longrightarrow> objects db' = objects db \<and> db_workloads db' = db_workloads db"
  by (auto simp: insertResolvedSnapshot_def objects_def touch_def split: if_splits)

lemma snapshot_if_ready_objects:
  "snapshot_if_ready sv n db w i r t = Inr db' \<Longrightarrow> objects db' = objects db \<and> db_workloads db' = db_workloads db"
  by (auto simp: snapshot_if_ready_def createSnapshot_def dest: insertResolvedSnapshot_objects split: if_splits)

lemma store_workload_objects: "store_workload w db = Inr db' \<Longrightarrow> objects db' = objects db"
  by (auto simp: store_workload_def objects_def touch_def)

lemma propagate_objects: "propagateWorkloadIDs sv n db is = Inr db' \<Longrightarrow> objects db' = objects db"
proof (induction "is" arbitrary: n db)
  case (Cons i "is")
  then show ?case
    by (auto simp: Let_def split: if_splits dest!: snapshot_if_ready_objects store_workload_objects)
qed simp

lemma propagateProfile_objects: "propagateProfileWorkloads sv db ps = Inr db' \<Longrightarrow> objects db' = objects db"
  by (auto simp: propagateProfileWorkloads_def Let_def intro: propagate_objects)

lemma propagateHostProfile_objects: "propagateHostProfileWorkloads sv db h p = Inr db' \<Longrightarrow> objects db' = objects db"
  by (auto simp: propagateHostProfileWorkloads_def Let_def intro: propagate_objects)

section \<open>The updates of the store\<close>

definition revision_of :: "('r \<Rightarrow> 'k) \<Rightarrow> ('r \<Rightarrow> ObjectMeta) \<Rightarrow> 'k \<Rightarrow> 'r list \<Rightarrow> uint64 option" where
  "revision_of key meta k rows = map_option (\<lambda>r. meta_Revision (meta r)) (row_of key k rows)"

lemma fetchD: "fetch kind row scan = Inr x \<Longrightarrow> (\<And>r y. scan r = Inr y \<Longrightarrow> y = r) \<Longrightarrow> row = Some x"
  by (auto simp: fetch_def split: option.splits)

lemma scan_same: "scanPool sv r = Inr y \<Longrightarrow> y = r" "scanWallet r2 = Inr y2 \<Longrightarrow> y2 = r2" "scanProfile r3 = Inr y3 \<Longrightarrow> y3 = r3"
  "scanHostProfileSettings r4 = Inr y4 \<Longrightarrow> y4 = r4" "scanMaintenanceHold r5 = Inr y5 \<Longrightarrow> y5 = r5"
  by (auto simp: scanPool_def scanWallet_def scanProfile_def scanHostProfileSettings_def scanMaintenanceHold_def Let_def)

lemma revision_replaced:
  "row_of key k rows = Some r \<Longrightarrow> key r' = k \<Longrightarrow> revision_of key meta k (replace_row key r' rows) = Some (meta_Revision (meta r'))"
  by (simp add: revision_of_def row_of_replace)

lemma bump_revision [simp]: "meta_Revision (bump_meta h t m) = meta_Revision m + 1"
  by (simp add: bump_meta_def)

lemma expect_revision_None [simp]: "expect_revision kind n meta = None \<longleftrightarrow> meta_Revision meta = n"
  by (simp add: expect_revision_def)

text \<open>What a successful update did to the row: nothing, or the step to the next revision.\<close>

definition bumped :: "('r \<Rightarrow> 'k) \<Rightarrow> ('r \<Rightarrow> ObjectMeta) \<Rightarrow> 'k \<Rightarrow> uint64 \<Rightarrow> 'r list \<Rightarrow> 'r list \<Rightarrow> bool" where
  "bumped key meta k n rows rows' \<longleftrightarrow> revision_of key meta k rows = Some n
     \<and> (revision_of key meta k rows' = Some n \<or> n + 1 > 0 \<and> revision_of key meta k rows' = Some (n + 1))"

lemma not_bumped: "row_of key k rows = Some r \<Longrightarrow> meta_Revision (meta r) = n \<Longrightarrow> bumped key meta k n rows rows"
  by (simp add: bumped_def revision_of_def)

lemma bumped_row:
  assumes "row_of key k rows = Some r" and "key r' = key r" and "meta r' = bump_meta h t (meta r)" and "meta_Revision (meta r) = n"
    and "n + 1 > 0"
  shows "bumped key meta k n rows (replace_row key r' rows)"
proof -
  have "key r' = k" using assms(1,2) row_of_SomeD[OF assms(1)] by simp
  then show ?thesis using assms revision_replaced[OF assms(1), of r' meta] by (simp add: bumped_def revision_of_def)
qed

lemma fetched_row: "fetch kind row (scanPool sv) = Inr x \<Longrightarrow> row = Some x" "fetch kind row2 scanWallet = Inr x2 \<Longrightarrow> row2 = Some x2"
  "fetch kind row3 scanProfile = Inr x3 \<Longrightarrow> row3 = Some x3" "fetch kind row4 scanHostProfileSettings = Inr x4 \<Longrightarrow> row4 = Some x4"
  by (auto dest: fetchD scan_same)

lemma UpdatePool_bumps: "UpdatePool sv i n c db = (db', Inr x) \<Longrightarrow> bumped pool_PoolID pool_Meta i n (db_pools db) (db_pools db')"
  by (auto simp: UpdatePool_def Let_def objects_def touch_def split: if_splits intro: not_bumped
      intro!: bumped_row dest!: fetched_row propagateProfile_objects)

lemma UpdateWalletRef_bumps: "UpdateWalletRef sv i n c db = (db', Inr x) \<Longrightarrow> bumped wal_WalletID wal_Meta i n (db_wallets db) (db_wallets db')"
  by (auto simp: UpdateWalletRef_def Let_def objects_def touch_def split: if_splits intro: not_bumped
      intro!: bumped_row dest!: fetched_row propagateProfile_objects)

lemma UpdateMiningProfile_bumps:
  "UpdateMiningProfile sv i n c db = (db', Inr x) \<Longrightarrow> bumped prof_ProfileID prof_Meta i n (db_profiles db) (db_profiles db')"
  by (auto simp: UpdateMiningProfile_def Let_def objects_def touch_def split: if_splits intro: not_bumped
      intro!: bumped_row dest!: fetched_row propagateProfile_objects)

lemma UpdateHostProfileSettings_bumps:
  "UpdateHostProfileSettings sv h p n c db = (db', Inr x) \<Longrightarrow> bumped settings_key hps_Meta (h, p) n (db_settings db) (db_settings db')"
  by (auto simp: UpdateHostProfileSettings_def Let_def objects_def touch_def settings_key_def split: if_splits intro: not_bumped
      intro!: bumped_row dest!: fetched_row propagateHostProfile_objects)

lemma normalize_fields [simp]: "dw_WorkloadID (normalize_workload w) = dw_WorkloadID w" "dw_Meta (normalize_workload w) = dw_Meta w"
  by (simp_all add: normalize_workload_def)

lemma stored_revision:
  assumes "loadWorkloadTx db i = Inr w" and "dw_WorkloadID w' = dw_WorkloadID w" and "meta_Revision (dw_Meta w) = n"
    and "meta_Revision (dw_Meta w') = n + 1" and "store_workload w' db1 = Inr db2" and "db_workloads db1 = db_workloads db"
    and "db_workloads db3 = db_workloads db2"
  shows "bumped dw_WorkloadID dw_Meta i n (db_workloads db) (db_workloads db3)"
    "revision_of dw_WorkloadID dw_Meta i (db_workloads db3) = Some (n + 1)"
proof -
  obtain row where row: "workload_row db i = Some row" "w = normalize_workload row" using loadWorkloadTxD[OF assms(1)] by blast
  have "db_workloads db3 = replace_row dw_WorkloadID w' (db_workloads db)" "meta_Revision (dw_Meta w') > 0"
    using store_workloadD[OF assms(5)] assms(6,7) by (simp_all add: core_def)
  moreover have "dw_WorkloadID w' = i" using assms(2) row workload_row_id[OF row(1)] by simp
  ultimately show "bumped dw_WorkloadID dw_Meta i n (db_workloads db) (db_workloads db3)"
    "revision_of dw_WorkloadID dw_Meta i (db_workloads db3) = Some (n + 1)" using row assms(3,4) revision_replaced[of dw_WorkloadID i "db_workloads db" row w' dw_Meta]
    by (simp_all add: bumped_def revision_of_def workload_row_def)
qed

lemma loaded_not_bumped:
  "loadWorkloadTx db i = Inr w \<Longrightarrow> meta_Revision (dw_Meta w) = n \<Longrightarrow> bumped dw_WorkloadID dw_Meta i n (db_workloads db) (db_workloads db)"
  by (auto dest!: loadWorkloadTxD simp: bumped_def revision_of_def workload_row_def)

lemma change_workload_bumps:
  assumes "change_workload sv db i n c h = Inr (db', x)"
  shows "bumped dw_WorkloadID dw_Meta i n (db_workloads db) (db_workloads db')"
  using assms
proof (cases rule: change_workloadD)
  case (unchanged w)
  then show ?thesis using loaded_not_bumped by simp
next
  case (changed w inputs r db1)
  have "db_workloads db' = db_workloads db1" using changed(9) snapshot_if_ready_objects by blast
  moreover have "dw_WorkloadID x = dw_WorkloadID w" "meta_Revision (dw_Meta x) = n + 1"
    using changed(2,7) by (simp_all add: next_generation_def updated_row_def)
  ultimately show ?thesis by (intro stored_revision(1)[OF changed(1) _ changed(2) _ changed(8)]) simp_all
qed

lemma UpdateDesiredWorkload_bumps:
  "UpdateDesiredWorkload sv i n c db = (db', Inr x) \<Longrightarrow> bumped dw_WorkloadID dw_Meta i n (db_workloads db) (db_workloads db')"
  by (auto simp: UpdateDesiredWorkload_def Let_def split: option.splits sum.splits intro: change_workload_bumps)

lemma RetryWorkload_bumps:
  assumes "RetryWorkload sv i n db = (db', Inr x)"
  shows "bumped dw_WorkloadID dw_Meta i n (db_workloads db) (db_workloads db')"
    "revision_of dw_WorkloadID dw_Meta i (db_workloads db') = Some (n + 1)"
proof -
  obtain w s db1 db2 where w: "loadWorkloadTx db i = Inr w" "meta_Revision (dw_Meta w) = n"
    and ins: "insertResolvedSnapshot sv db s = Inr db1"
    and x: "dw_WorkloadID x = dw_WorkloadID w" "meta_Revision (dw_Meta x) = n + 1" and st: "store_workload x db1 = Inr db2"
    and same: "db_workloads db' = db_workloads db2"
    using assms by (auto simp: RetryWorkload_def Let_def touch_def split: option.splits)
  have "db_workloads db1 = db_workloads db" using insertResolvedSnapshot_objects[OF ins] by simp
  then show "bumped dw_WorkloadID dw_Meta i n (db_workloads db) (db_workloads db')"
    "revision_of dw_WorkloadID dw_Meta i (db_workloads db') = Some (n + 1)"
    using stored_revision[OF w(1) x(1) w(2) x(2) st _ same] by blast+
qed

definition hold_revision :: "HostID \<Rightarrow> DB \<Rightarrow> uint64 option" where
  "hold_revision h db = Some (case row_of mh_HostID h (db_holds db) of None \<Rightarrow> 0 | Some m \<Rightarrow> mh_Revision m)"

lemma SetMaintenanceHold_bumps:
  assumes "SetMaintenanceHold sv h n a t db = (db', Inr x)"
  shows "hold_revision h db = Some n \<and> (hold_revision h db' = Some n \<or> n + 1 > 0 \<and> hold_revision h db' = Some (n + 1))"
proof (cases "row_of mh_HostID h (db_holds db)")
  case None
  then show ?thesis using assms by (auto simp: SetMaintenanceHold_def hold_revision_def Let_def touch_def)
next
  case (Some m)
  then have "mh_HostID m = h" by (auto dest: row_of_SomeD)
  then show ?thesis using assms Some
    by (auto simp: SetMaintenanceHold_def hold_revision_def Let_def touch_def row_of_replace split: if_splits dest!: scan_same(5))
qed

section \<open>Interpretations\<close>

abbreviation "pool_revision i db \<equiv> revision_of pool_PoolID pool_Meta i (db_pools db)"
abbreviation "wallet_revision i db \<equiv> revision_of wal_WalletID wal_Meta i (db_wallets db)"
abbreviation "profile_revision i db \<equiv> revision_of prof_ProfileID prof_Meta i (db_profiles db)"
abbreviation "settings_revision h p db \<equiv> revision_of settings_key hps_Meta (h, p) (db_settings db)"
abbreviation "workload_revision i db \<equiv> revision_of dw_WorkloadID dw_Meta i (db_workloads db)"

text \<open>The two operations that change a workload under the caller's expected revision.\<close>

definition change_or_retry ::
  "WorkloadID \<Rightarrow> Svc \<times> DesiredWorkloadContent option \<Rightarrow> uint64 \<Rightarrow> DB \<Rightarrow> DB \<times> DesiredWorkload result" where
  "change_or_retry i call n db =
     (case call of (sv, Some c) \<Rightarrow> UpdateDesiredWorkload sv i n c db | (sv, None) \<Rightarrow> RetryWorkload sv i n db)"

interpretation pool_updates: optimistic "\<lambda>(sv, c) n db. UpdatePool sv i n c db" "pool_revision i" for i
  by unfold_locales (auto dest!: UpdatePool_bumps simp: bumped_def)

interpretation wallet_updates: optimistic "\<lambda>(sv, c) n db. UpdateWalletRef sv i n c db" "wallet_revision i" for i
  by unfold_locales (auto dest!: UpdateWalletRef_bumps simp: bumped_def)

interpretation profile_updates: optimistic "\<lambda>(sv, c) n db. UpdateMiningProfile sv i n c db" "profile_revision i" for i
  by unfold_locales (auto dest!: UpdateMiningProfile_bumps simp: bumped_def)

interpretation settings_updates: optimistic "\<lambda>(sv, c) n db. UpdateHostProfileSettings sv h p n c db" "settings_revision h p" for h p
  by unfold_locales (auto dest!: UpdateHostProfileSettings_bumps simp: bumped_def)

interpretation workload_updates: optimistic "change_or_retry i" "workload_revision i" for i
  by unfold_locales (auto simp: change_or_retry_def bumped_def split: prod.splits option.splits
    dest!: UpdateDesiredWorkload_bumps RetryWorkload_bumps(1))

interpretation hold_updates: optimistic "\<lambda>(sv, a, t) n db. SetMaintenanceHold sv h n a t db" "hold_revision h" for h
  by unfold_locales (auto dest!: SetMaintenanceHold_bumps)

section \<open>Properties\<close>


text \<open>The same for a maintenance hold, whose revision is 0 as long as it was never set: two operators
  that saw the same revision cannot both change the hold.\<close>

theorem no_hold_update_lost:
  assumes "updates (\<lambda>(sv, a, t) n db. SetMaintenanceHold sv h n a t db) (hold_revision h) db ns db'"
  shows "distinct ns \<and> (\<exists>r. hold_revision h db = Some r \<and> hold_revision h db' = Some (r + of_nat (length ns)))"
proof -
  obtain r where "hold_revision h db = Some r" by (simp add: hold_revision_def)
  then show ?thesis using hold_updates.history[OF assms] hold_updates.distinct_expectations[OF assms] by blast
qed

end
