(* ===== verification/Store_Lifecycle.thy ===== *)
theory Store_Lifecycle
  imports Store_Safety
begin

text \<open>
  What single calls of the store do to a desired workload: the snapshot of a resolution passes the checks
  of the table, a retry issues the same plan again, a latch stops only the generation it names, a deletion
  needs a stopped workload without history, and a failed call leaves no trace.
\<close>

section \<open>Snapshots of resolutions\<close>

lemma ContentHash_shape:
  assumes "ContentHash v = Inr h"
  shows "HasPrefix h ''sha256:''" "length h = 71" "map ascii_lower (TrimPrefix h ''sha256:'') = TrimPrefix h ''sha256:''"
    "hex_decodable (TrimPrefix h ''sha256:'')" "h \<noteq> []"
proof -
  obtain bs where h: "h = ''sha256:'' @ EncodeToString bs" "length bs = 32"
    using assms by (auto simp: ContentHash_def split: sum.splits)
  have hex: "list_all is_hex_lower (EncodeToString bs)" by (rule EncodeToString_hex)
  have "ascii_lower c = c" if "is_hex_lower c" for c
    using that by (auto simp: is_hex_lower_def is_digit_def ascii_lower_def)
  then have "map ascii_lower (EncodeToString bs) = EncodeToString bs" using hex by (intro map_idI) (auto simp: list_all_iff)
  moreover have "TrimPrefix h ''sha256:'' = EncodeToString bs" by (simp add: h TrimPrefix_def HasPrefix_def)
  moreover have "list_all is_hex_any (EncodeToString bs)" using hex by (auto simp: list_all_iff is_hex_any_def)
  ultimately show "HasPrefix h ''sha256:''" "length h = 71" "map ascii_lower (TrimPrefix h ''sha256:'') = TrimPrefix h ''sha256:''"
    "hex_decodable (TrimPrefix h ''sha256:'')" "h \<noteq> []"
    using h by (simp_all add: HasPrefix_def hex_decodable_def)
qed

text \<open>The checks of the inputs of a resolution that the snapshot repeats.\<close>

lemma resolution_checks:
  assumes "Resolver_Resolve env i = Inr r"
  shows "HostID_Validate (dw_HostID (dw_Content (ri_Workload i))) = None"
    "ValidateResourceClaim (NormalizeResourceClaim (dw_Resources (dw_Content (ri_Workload i)))) = None"
    "prof_Mode (prof_Content (ri_Profile i)) = ProfileModeMining"
    "rr_GPUAssignments (rs_Content r) \<noteq> [] \<Longrightarrow> ValidateBindings (env_uni env)
       (cl_DeviceIDs (NormalizeResourceClaim (dw_Resources (dw_Content (ri_Workload i))))) (rr_GPUAssignments (rs_Content r)) = None"
proof -
  obtain release endpoint where v: "validate_inputs env i = None" "validate_release env i release = None"
    and c: "rs_Content r = resolved_content i endpoint" using Resolver_ResolveD[OF assms] by metis
  note inp = validate_inputsD[OF v(1)]
  show "HostID_Validate (dw_HostID (dw_Content (ri_Workload i))) = None"
    using inp(1) by (simp add: ValidateDesiredWorkload_def first_error_None check_with_def split: option.splits)
  show "ValidateResourceClaim (NormalizeResourceClaim (dw_Resources (dw_Content (ri_Workload i)))) = None"
    using inp(1) by (simp add: ValidateDesiredWorkload_def first_error_None Normalize_valid)
  show "prof_Mode (prof_Content (ri_Profile i)) = ProfileModeMining"
    using inp(2) by (simp add: ValidateMiningProfile_def first_error_None require_def split: if_splits)
  have "rr_GPUAssignments (rs_Content r) = normalizeAssignments (ri_GPUAssignments i)"
    by (simp add: c resolved_content_def Let_def split: prod.split)
  then show "rr_GPUAssignments (rs_Content r) \<noteq> [] \<Longrightarrow> ValidateBindings (env_uni env)
       (cl_DeviceIDs (NormalizeResourceClaim (dw_Resources (dw_Content (ri_Workload i))))) (rr_GPUAssignments (rs_Content r)) = None"
    using v(2) by (simp add: validate_release_def first_error_None Let_def split: prod.splits)
qed

text \<open>A snapshot that the resolver makes of a successful resolution, for a stored workload and stored
  objects, passes every check that the store makes before it inserts a snapshot and whenever it reads one:
  its plan says what its columns say, and its hash is the hash of the plan.\<close>

theorem resolved_snapshot_validates:
  assumes r: "Resolver_Resolve env i = Inr r" and s: "Resolver_Snapshot r i x g t = Inr s"
    and "WorkloadID_Validate (dw_WorkloadID (ri_Workload i)) = None" and "\<not> IsZero t"
    and "meta_Revision (prof_Meta (ri_Profile i)) > 0" and "meta_Revision (pool_Meta (ri_Pool i)) > 0"
    and "meta_Revision (wal_Meta (ri_Wallet i)) > 0"
  shows "validateSnapshot (env_uni env) s = None"
proof -
  obtain endpoint where c: "rs_Content r = resolved_content i endpoint" "ResolvedRuntimeHash (rs_Content r) = Inr (rs_Hash r)"
    and v: "validate_inputs env i = None" using Resolver_ResolveD[OF r] by metis
  note inp = validate_inputsD[OF v] and checks = resolution_checks[OF r]
  have run: "rr_RunState (rs_Content r) = DesiredRunning" "g \<noteq> 0"
    using s by (auto simp: Resolver_Snapshot_def split: if_splits)
  have fields: "sn_Resources s = NormalizeResourceClaim (dw_Resources (dw_Content (ri_Workload i)))" "sn_Plan s = snapshot_plan r i x g"
    "sn_HostID s = dw_HostID (dw_Content (ri_Workload i))" "sn_ResolvedHash s = rs_Hash r" "sn_DesiredGeneration s = g"
    "sn_ProfileID s = prof_ProfileID (ri_Profile i)" "sn_WorkloadID s = dw_WorkloadID (ri_Workload i)" "sn_ExecutionID s = x"
    "sn_Package s = prof_Package (prof_Content (ri_Profile i))" "sn_PoolID s = pool_PoolID (ri_Pool i)"
    "sn_WalletID s = wal_WalletID (ri_Wallet i)" "sn_CreatedAt s = t"
    "sn_ProfileRevision s = meta_Revision (prof_Meta (ri_Profile i))" "sn_PoolRevision s = meta_Revision (pool_Meta (ri_Pool i))"
    "sn_WalletRevision s = meta_Revision (wal_Meta (ri_Wallet i))"
    using s by (auto simp: Resolver_Snapshot_def split: if_splits)
  have cf: "rr_Resources (rs_Content r) = sn_Resources s" "rr_Package (rs_Content r) = sn_Package s" "rr_HostID (rs_Content r) = sn_HostID s"
    "rr_ProfileID (rs_Content r) = sn_ProfileID s" "rr_Mode (rs_Content r) = ProfileModeMining"
    using checks(3) by (simp_all add: c(1) resolved_content_def fields Let_def split: prod.split)
  obtain m where m: "pl_Miner (sn_Plan s) = Some m" "ms_Endpoint m = Some (rr_Endpoint (rs_Content r))"
    "ms_GPUAssignments m = rr_GPUAssignments (rs_Content r)"
    and content: "snapshot_content s m (rr_Endpoint (rs_Content r)) = rs_Content r"
    using run(1) cf by (simp add: fields(2) snapshot_plan_def Let_def snapshot_content_def)
  have shape: "ContentHash (ResolvedRuntime_value (rs_Content r)) = Inr (rs_Hash r)" using c(2) by (simp add: ResolvedRuntimeHash_def)
  note hash = ContentHash_shape[OF shape]
  have "check_devices (\<lambda>_. Plain ''invalid ResourceClaim DeviceID'') (Plain ''duplicate ResourceClaim DeviceID'') {}
      (cl_DeviceIDs (sn_Resources s)) = None"
    using checks(2) by (simp add: ValidateResourceClaim_None fields check_devices_None)
  then have "WorkloadOwnership_Validate (pl_Ownership (sn_Plan s)) = None"
    using assms(3) checks(1,2) hash run(2) cf(1)
    by (auto simp: WorkloadOwnership_Validate_def fields snapshot_plan_def Let_def ValidateResourceClaim_None)
  then have "plan_matches s m"
    using m(1) cf inp(3-5) by (auto simp: plan_matches_def fields snapshot_plan_def Let_def)
  then show ?thesis using assms(4-7) m content c(2) checks(2,4) hash(5) run(2)
    by (auto simp: validateSnapshot_def first_error_None fields Let_def)
qed

section \<open>Failed calls\<close>

definition failure :: "DB \<times> 'a result \<Rightarrow> error option" where
  "failure r = (case snd r of Inl e \<Rightarrow> Some e | Inr _ \<Rightarrow> None)"

fun outcome :: "Svc \<Rightarrow> StoreOp \<Rightarrow> DB \<Rightarrow> error option" where
  "outcome sv (OpCreatePool c) db = failure (CreatePool sv c db)"
| "outcome sv (OpUpdatePool i n c) db = failure (UpdatePool sv i n c db)"
| "outcome sv (OpDeletePool i n) db = failure (DeletePool sv i n db)"
| "outcome sv (OpCreateWalletRef c) db = failure (CreateWalletRef sv c db)"
| "outcome sv (OpUpdateWalletRef i n c) db = failure (UpdateWalletRef sv i n c db)"
| "outcome sv (OpDeleteWalletRef i n) db = failure (DeleteWalletRef i n db)"
| "outcome sv (OpCreateMiningProfile c) db = failure (CreateMiningProfile sv c db)"
| "outcome sv (OpUpdateMiningProfile i n c) db = failure (UpdateMiningProfile sv i n c db)"
| "outcome sv (OpDeleteMiningProfile i n) db = failure (DeleteMiningProfile i n db)"
| "outcome sv (OpCreateHostProfileSettings h p c) db = failure (CreateHostProfileSettings sv h p c db)"
| "outcome sv (OpUpdateHostProfileSettings h p n c) db = failure (UpdateHostProfileSettings sv h p n c db)"
| "outcome sv (OpDeleteHostProfileSettings h p n) db = failure (DeleteHostProfileSettings sv h p n db)"
| "outcome sv (OpCreateDesiredWorkload c) db = failure (CreateDesiredWorkload sv c db)"
| "outcome sv (OpUpdateDesiredWorkload i n c) db = failure (UpdateDesiredWorkload sv i n c db)"
| "outcome sv (OpDeleteDesiredWorkload i n) db = failure (DeleteDesiredWorkload sv i n db)"
| "outcome sv (OpFinalizeRetiredDesiredWorkloadDeletion i n) db = failure (FinalizeRetiredDesiredWorkloadDeletion sv i n db)"
| "outcome sv (OpBlockDesiredGeneration i g c m) db = failure (BlockDesiredGeneration sv i g c m db)"
| "outcome sv (OpRetryWorkload i n) db = failure (RetryWorkload sv i n db)"
| "outcome sv (OpRefreshResolvedSnapshotForInventory i iv) db = failure (RefreshResolvedSnapshotForInventory sv i iv db)"
| "outcome sv (OpSetMaintenanceHold h n a r) db = failure (SetMaintenanceHold sv h n a r db)"
| "outcome sv (OpMarkRestoreHostConflict h b n) db = failure (MarkRestoreHostConflict sv h b n db)"
| "outcome sv (OpClearRestoreHostBarrier h b n) db = failure (ClearRestoreHostBarrier h b n db)"
| "outcome sv (OpReconcileIncidents h a cs rv) db = failure (ReconcileIncidents sv h a cs rv db)"

text \<open>The shapes of the operations: whenever they end in an error, the database is the one they started from.\<close>

definition atomic :: "DB \<Rightarrow> DB \<times> 'a result \<Rightarrow> bool" where
  "atomic db r \<longleftrightarrow> (failure r \<noteq> None \<longrightarrow> fst r = db)"

lemma atomic_write [simp]: "atomic db (writeTx db body)"
  by (auto simp: atomic_def failure_def writeTx_def split: sum.splits)

lemma atomic_wrapped [simp]: "atomic db (wrapped op r) \<longleftrightarrow> atomic db r"
  by (auto simp: atomic_def failure_def wrapped_def map_error_def split: sum.splits)

lemma atomic_prepare [simp]: "(\<And>x. atomic db (f x)) \<Longrightarrow> atomic db (prepare r db f)"
  by (auto simp: atomic_def failure_def prepare_def split: sum.splits)

lemma atomic_prepare_pair [simp]: "(\<And>x y. atomic db (f x y)) \<Longrightarrow> atomic db (prepare r db (\<lambda>(x, y). f x y))"
  by (rule atomic_prepare) (simp split: prod.split)

lemma atomic_error [simp]: "atomic db (db, r)"
  by (simp add: atomic_def)

lemmas workload_ops = CreateDesiredWorkload_def UpdateDesiredWorkload_def DeleteDesiredWorkload_def
  FinalizeRetiredDesiredWorkloadDeletion_def BlockDesiredGeneration_def RetryWorkload_def RefreshResolvedSnapshotForInventory_def

lemmas object_ops = CreatePool_def UpdatePool_def DeletePool_def CreateWalletRef_def UpdateWalletRef_def DeleteWalletRef_def
  CreateMiningProfile_def UpdateMiningProfile_def DeleteMiningProfile_def CreateHostProfileSettings_def
  UpdateHostProfileSettings_def DeleteHostProfileSettings_def

lemmas hold_ops = SetMaintenanceHold_def MarkRestoreHostConflict_def ClearRestoreHostBarrier_def ReconcileIncidents_def

lemma atomic_objects:
  "atomic db (CreatePool sv c1 db)" "atomic db (UpdatePool sv i1 n c1 db)" "atomic db (DeletePool sv i1 n db)"
  "atomic db (CreateWalletRef sv c2 db)" "atomic db (UpdateWalletRef sv i2 n c2 db)" "atomic db (DeleteWalletRef i2 n db)"
  "atomic db (CreateMiningProfile sv c3 db)" "atomic db (UpdateMiningProfile sv i3 n c3 db)" "atomic db (DeleteMiningProfile i3 n db)"
  "atomic db (CreateHostProfileSettings sv h p c4 db)" "atomic db (UpdateHostProfileSettings sv h p n c4 db)"
  "atomic db (DeleteHostProfileSettings sv h p n db)"
  by (simp_all only: object_ops atomic_prepare atomic_prepare_pair atomic_wrapped atomic_write)

lemma atomic_workloads:
  "atomic db (CreateDesiredWorkload sv c db)" "atomic db (UpdateDesiredWorkload sv i n c db)" "atomic db (DeleteDesiredWorkload sv i n db)"
  "atomic db (FinalizeRetiredDesiredWorkloadDeletion sv i n db)" "atomic db (BlockDesiredGeneration sv i g e m db)"
  "atomic db (RetryWorkload sv i n db)" "atomic db (RefreshResolvedSnapshotForInventory sv i iv db)"
  by (simp_all only: workload_ops Let_def atomic_error atomic_wrapped atomic_write split: option.split sum.split if_split) simp_all

lemma atomic_holds:
  "atomic db (SetMaintenanceHold sv h n a t db)" "atomic db (MarkRestoreHostConflict sv h b n db)"
  "atomic db (ClearRestoreHostBarrier h b n db)" "atomic db (ReconcileIncidents sv h x cs rv db)"
  by (simp_all only: hold_ops atomic_prepare atomic_wrapped atomic_write)

text \<open>Every call of the store is atomic: a call that reports an error has changed nothing.\<close>

theorem failed_calls_change_nothing:
  assumes "outcome sv op db = Some e"
  shows "perform sv op db = db"
  using assms atomic_objects atomic_workloads atomic_holds by (cases op) (auto simp: atomic_def)

section \<open>The life of a workload\<close>

lemma snapshot_if_ready_workloads: "snapshot_if_ready sv n db w i r t = Inr db' \<Longrightarrow> db_workloads db' = db_workloads db"
  by (auto simp: snapshot_if_ready_def createSnapshot_def core_def dest: insertResolvedSnapshotD split: if_splits)

lemma row_of_latch: "row_of rb_WorkloadID j (latch b rows) = (if j = rb_WorkloadID b then Some b else row_of rb_WorkloadID j rows)"
  by (auto simp: latch_def row_of_replace split: option.split)

text \<open>A report that a generation failed latches exactly that generation, and only as long as it is the
  current one of a running workload; a late report of an earlier generation changes nothing.\<close>

theorem block_latches_current_generation:
  assumes "BlockDesiredGeneration sv i g code message db = (db', Inr u)"
  shows "\<exists>w. workload_row db i = Some w \<and>
    (if dw_RunState (dw_Content w) = DesiredRunning \<and> dw_DesiredGeneration w = g
     then row_of rb_WorkloadID i (db_bindings db') = Some \<lparr>rb_WorkloadID = i, rb_BlockedGeneration = g, rb_ErrorCode = code,
            rb_HumanMessage = message, rb_BlockedAt = sv_clock sv 0\<rparr>
        \<and> (\<forall>j. j \<noteq> i \<longrightarrow> row_of rb_WorkloadID j (db_bindings db') = row_of rb_WorkloadID j (db_bindings db))
        \<and> db_workloads db' = db_workloads db \<and> db_snapshots db' = db_snapshots db
     else db' = db)"
proof -
  obtain w where w: "loadWorkloadTx db i = Inr w"
    and db': "db' = (if dw_RunState (dw_Content w) \<noteq> DesiredRunning \<or> dw_DesiredGeneration w \<noteq> g then db
      else touch 1 (db\<lparr>db_bindings := latch \<lparr>rb_WorkloadID = i, rb_BlockedGeneration = g, rb_ErrorCode = code,
        rb_HumanMessage = message, rb_BlockedAt = sv_clock sv 0\<rparr> (db_bindings db)\<rparr>))"
    using assms by (auto simp: BlockDesiredGeneration_def split: if_splits)
  obtain row where "workload_row db i = Some row" "w = normalize_workload row" using loadWorkloadTxD[OF w] by blast
  then show ?thesis using db'
    by (auto simp: normalize_workload_def row_of_latch)
qed

text \<open>The plan of a valid snapshot stays valid under a later generation and another execution.\<close>

lemma retried_validates:
  assumes "validateSnapshot uni s = None" and "g \<noteq> 0" and "\<not> IsZero now"
  shows "validateSnapshot uni (retried_snapshot s g x now) = None"
proof -
  have content: "snapshot_content (retried_snapshot s g x now) m e = snapshot_content s m e" for m e
    by (simp add: snapshot_content_def retried_snapshot_def)
  have "plan_matches s m \<Longrightarrow> plan_matches (retried_snapshot s g x now) m" for m
    using assms(2) by (auto simp: plan_matches_def retried_snapshot_def Let_def WorkloadOwnership_Validate_def split: if_splits)
  then show ?thesis using assms content
    by (auto simp: validateSnapshot_def first_error_None Let_def retried_snapshot_def[of s] split: option.splits if_splits)
qed


text \<open>C16: a workload is deleted only when it is stopped, no snapshot was ever made for it and the caller has
  seen its revision; its latch goes with it, no incident of it stays active, and all other workloads stay.\<close>

theorem delete_needs_retirement:
  assumes "DeleteDesiredWorkload sv i n db = (db', Inr u)"
  shows "\<exists>w. workload_row db i = Some w \<and> dw_RunState (dw_Content w) = DesiredStopped \<and> meta_Revision (dw_Meta w) = n
    \<and> snapshots_of db i = [] \<and> workload_row db' i = None \<and> (\<forall>j. j \<noteq> i \<longrightarrow> workload_row db' j = workload_row db j)
    \<and> row_of rb_WorkloadID i (db_bindings db') = None \<and> db_snapshots db' = db_snapshots db
    \<and> (\<forall>r\<in>set (db_incidents db'). ic_WorkloadID (in_Condition r) = Some i \<longrightarrow> in_State r \<noteq> IncidentActive)"
proof -
  obtain w where w: "loadWorkloadTx db i = Inr w" "meta_Revision (dw_Meta w) = n" "dw_RunState (dw_Content w) = DesiredStopped"
    and unused: "\<not> list_ex (\<lambda>s. sn_WorkloadID s = i) (db_snapshots db)"
    and db': "db' = delete_workload_row (resolveDeletedWorkloadIncidentsTx sv i db) w"
    using assms by (auto simp: DeleteDesiredWorkload_def split: option.splits)
  obtain row where row: "workload_row db i = Some row" "w = normalize_workload row" using loadWorkloadTxD[OF w(1)] by blast
  have id: "dw_WorkloadID w = i" using row workload_row_id[OF row(1)] by simp
  have "db_workloads db' = remove_row dw_WorkloadID i (db_workloads db)" "db_bindings db' = remove_row rb_WorkloadID i (db_bindings db)"
    "db_snapshots db' = db_snapshots db"
    "db_incidents db' = map (\<lambda>x. if resolves i x then x\<lparr>in_State := IncidentResolved, in_LastObservedAt := sv_clock sv 0,
       in_ResolvedAt := Some (sv_clock sv 0)\<rparr> else x) (db_incidents db)"
    by (simp_all add: db' id delete_workload_row_def resolveDeletedWorkloadIncidentsTx_def Let_def touch_def)
  moreover have "snapshots_of db i = []" using unused by (auto simp: snapshots_of_def filter_empty_conv list_ex_iff)
  ultimately show ?thesis using row w by (auto simp: workload_row_def row_of_remove normalize_workload_def resolves_def)
qed

text \<open>An update with new content takes the content over, resolves it against the stored objects and
  records the hash of the resolution; it starts a new generation exactly when that hash differs from the one
  of the current generation. An update with the stored content changes nothing.\<close>

theorem update_starts_generation:
  assumes "UpdateDesiredWorkload sv i n c db = (db', Inr w')"
  shows "\<exists>w. loadWorkloadTx db i = Inr w \<and> meta_Revision (dw_Meta w) = n \<and> dw_HostID c = dw_HostID (dw_Content w)
    \<and> (if DesiredWorkloadHash (normalize_content c) = Inr (meta_ContentHash (dw_Meta w)) then db' = db \<and> w' = w
       else workload_row db' i = Some w' \<and> dw_Content w' = normalize_content c \<and> meta_Revision (dw_Meta w') = n + 1
         \<and> (\<exists>inputs r. Resolver_Resolve (sv_env sv) inputs = Inr r \<and> dw_Content (ri_Workload inputs) = normalize_content c
             \<and> dw_EffectiveHash w' = rs_Hash r
             \<and> dw_DesiredGeneration w' = (if rs_Hash r = dw_EffectiveHash w then dw_DesiredGeneration w
                 else dw_DesiredGeneration w + 1)))"
proof -
  obtain hash where h: "DesiredWorkloadHash (normalize_content c) = Inr hash"
    and run: "change_workload sv db i n (normalize_content c) hash = Inr (db', w')"
    using assms by (auto simp: UpdateDesiredWorkload_def Let_def split: option.splits sum.splits)
  from run show ?thesis
  proof (cases rule: change_workloadD)
    case (unchanged w)
    then show ?thesis using h by (intro exI[of _ w]) (simp add: normalize_content_def)
  next
    case (changed w inputs r db1)
    obtain row where row: "workload_row db i = Some row" "w = normalize_workload row" using loadWorkloadTxD[OF changed(1)] by blast
    have id: "dw_WorkloadID w' = i"
      using row workload_row_id[OF row(1)] changed(7) by (simp add: next_generation_def updated_row_def normalize_workload_def)
    have "db_workloads db' = replace_row dw_WorkloadID w' (db_workloads db)"
      using store_workloadD[OF changed(8)] changed(9) snapshot_if_ready_workloads by (auto simp: core_def)
    then have "workload_row db' i = Some w'" using row(1) id by (simp add: workload_row_def row_of_replace)
    moreover have "Resolver_Resolve (sv_env sv) inputs = Inr r \<and> dw_Content (ri_Workload inputs) = normalize_content c"
      using resolveWorkloadD[OF changed(6)] by (simp add: updated_row_def)
    moreover have "dw_Content w' = normalize_content c" "meta_Revision (dw_Meta w') = n + 1" "dw_EffectiveHash w' = rs_Hash r"
      "dw_DesiredGeneration w' = (if rs_Hash r = dw_EffectiveHash w then dw_DesiredGeneration w else dw_DesiredGeneration w + 1)"
      using changed(2,7) by (simp_all add: next_generation_def updated_row_def bump_meta_def)
    moreover have "DesiredWorkloadHash (normalize_content c) \<noteq> Inr (meta_ContentHash (dw_Meta w))" using h changed(4) by simp
    ultimately show ?thesis using changed(1-3) by (intro exI[of _ w]) (auto simp: normalize_content_def)
  qed
qed

end
