(* ===== verification/Incident_Facts.thy ===== *)
theory Incident_Facts
  imports Incident_Store
begin

text \<open>
  What the authority of an evaluation stands for, and what a recorded evaluation leaves in the table of
  incidents.
\<close>

section \<open>The text of the authority\<close>

lemma be_bytes_inj: "m < 256 ^ k \<Longrightarrow> n < 256 ^ k \<Longrightarrow> be_bytes k m = be_bytes k n \<Longrightarrow> m = n"
proof (induction k arbitrary: m n)
  case (Suc k)
  then have "be_bytes k (m div 256) = be_bytes k (n div 256)" "m mod 256 = n mod 256" by simp_all
  moreover have "m div 256 < 256 ^ k" "n div 256 < 256 ^ k" using Suc.prems by (simp_all add: less_mult_imp_div_less mult.commute)
  ultimately have "m div 256 = n div 256" using Suc.IH by blast
  then show ?case using \<open>m mod 256 = n mod 256\<close> by (metis div_mult_mod_eq)
qed simp

lemma be_bytes_bound: "x \<in> set (be_bytes k n) \<Longrightarrow> x < 256"
  by (induction k arbitrary: n) auto

abbreviation framable :: "string \<Rightarrow> bool" where
  "framable f \<equiv> length f < 2 ^ 64"

lemma length_framed [simp]: "length (framed f) = 8 + length f"
  by (simp add: framed_def)

lemma framed_nonempty [simp]: "framed f \<noteq> []" "[] \<noteq> framed f"
  using length_framed[of f] by (metis length_0_conv add_is_0 zero_neq_numeral)+

lemma framed_prefix:
  assumes "framable f" and "framable g" and "framed f @ xs = framed g @ ys"
  shows "f = g \<and> xs = ys"
proof -
  have split: "map char_of (be_bytes 8 (length f)) = map char_of (be_bytes 8 (length g))" "f @ xs = g @ ys"
    using assms(3) by (simp_all add: framed_def)
  have inj: "inj_on (char_of :: nat \<Rightarrow> char) {0..<256}"
    by (rule inj_onI) (metis atLeastLessThan_iff of_char_of mod_less)
  have "set (be_bytes 8 (length f)) \<union> set (be_bytes 8 (length g)) \<subseteq> {0..<256}" using be_bytes_bound by auto
  then have "be_bytes 8 (length f) = be_bytes 8 (length g)"
    by (intro map_inj_on[OF split(1)] inj_on_subset[OF inj])
  then have "length f = length g" using be_bytes_inj[of "length f" 8 "length g"] assms(1,2) by simp
  then show ?thesis using split(2) by simp
qed

lemma authority_fields:
  assumes "list_all framable fs" and "list_all framable gs" and "concat (map framed fs) = concat (map framed gs)"
  shows "fs = gs"
  using assms
proof (induction fs arbitrary: gs)
  case Nil
  then show ?case by (cases gs) auto
next
  case (Cons f fs)
  obtain g gs' where gs: "gs = g # gs'" using Cons.prems(3) by (cases gs) simp_all
  have app: "framed f @ concat (map framed fs) = framed g @ concat (map framed gs')"
    using Cons.prems(3) unfolding gs by (simp only: list.map concat.simps)
  have "framable f" "framable g" using Cons.prems(1,2) gs by simp_all
  then have "f = g \<and> concat (map framed fs) = concat (map framed gs')" using app by (rule framed_prefix)
  then have "f = g" "concat (map framed fs) = concat (map framed gs')" by blast+
  then show ?case using Cons.IH[of gs'] Cons.prems(1,2) gs by simp
qed

text \<open>The first field of each group of fields is its tag, and the tag says how many fields follow.\<close>

definition group_size :: "string \<Rightarrow> nat" where
  "group_size tag = (if tag = ''HOST'' then 2 else if tag = ''HOLD'' then 3 else if tag = ''WORKLOAD'' then 8
     else if tag = ''WORKLOAD_DEVICE'' then 3 else if tag = ''SNAPSHOT'' then 6 else if tag = ''SNAPSHOT_DEVICE'' then 4 else 5)"

definition grouped :: "string list \<Rightarrow> bool" where
  "grouped fs \<longleftrightarrow> fs \<noteq> [] \<and> length fs = group_size (hd fs)"

lemma grouped_concat:
  assumes "list_all grouped xs" and "list_all grouped ys" and "concat xs = concat ys"
  shows "xs = ys"
  using assms
proof (induction xs arbitrary: ys)
  case Nil
  then show ?case by (cases ys) (auto simp: grouped_def)
next
  case (Cons x xs)
  then obtain y ys' where ys: "ys = y # ys'" by (cases ys) (simp_all add: grouped_def)
  have app: "x @ concat xs = y @ concat ys'" using Cons.prems(3) unfolding ys by (simp only: concat.simps)
  have g: "grouped x" "grouped y" using Cons.prems(1,2) ys by simp_all
  have "hd x = hd (x @ concat xs)" "hd y = hd (y @ concat ys')" using g by (simp_all add: grouped_def)
  then have "length x = length y" using g app by (simp only: grouped_def)
  then have "x = y" "concat xs = concat ys'" using app append_eq_append_conv[of x y "concat xs" "concat ys'"] by blast+
  then show ?case using Cons.IH[of ys'] Cons.prems(1,2) ys by simp
qed

lemma authority_facts_grouped: "list_all grouped (authority_facts db host)"
  by (auto simp: authority_facts_def list_all_iff grouped_def group_size_def workload_facts_def workload_device_facts_def
      snapshot_facts_def snapshot_device_facts_def binding_facts_def split: option.splits)

definition authority_collision :: "string list list \<Rightarrow> string list list \<Rightarrow> bool" where
  "authority_collision a b \<longleftrightarrow> authority_text a \<noteq> authority_text b \<and> Sum256 (authority_text a) = Sum256 (authority_text b)"

lemma authority_determines_facts:
  assumes "incidentAuthorityTx db host = incidentAuthorityTx db' host"
    and "list_all (list_all framable) (authority_facts db host)" and "list_all (list_all framable) (authority_facts db' host)"
    and "\<not> authority_collision (authority_facts db host) (authority_facts db' host)"
  shows "authority_facts db host = authority_facts db' host"
proof -
  have "Sum256 (authority_text (authority_facts db host)) = Sum256 (authority_text (authority_facts db' host))"
    using assms(1) EncodeToString_inj by (simp add: incidentAuthorityTx_def)
  then have "authority_text (authority_facts db host) = authority_text (authority_facts db' host)"
    using assms(4) by (simp add: authority_collision_def)
  then have "concat (authority_facts db host) = concat (authority_facts db' host)"
    using assms(2,3) by (intro authority_fields) (auto simp: authority_text_def list_all_iff)
  then show ?thesis using grouped_concat authority_facts_grouped by blast
qed

text \<open>The tags keep the kinds of facts apart, so the facts of each kind are the same.\<close>

definition tagged :: "string \<Rightarrow> string list list \<Rightarrow> string list set" where
  "tagged tag facts = {f \<in> set facts. hd f = tag}"

definition workloads_of :: "DB \<Rightarrow> HostID \<Rightarrow> DesiredWorkload set" where
  "workloads_of db host = {w \<in> set (db_workloads db). dw_HostID (dw_Content w) = host}"

definition snapshots_on :: "DB \<Rightarrow> HostID \<Rightarrow> ResolvedExecutionSnapshot set" where
  "snapshots_on db host = {s \<in> set (db_snapshots db). ResolvedExecutionSnapshot.sn_HostID s = host}"

definition latches_of :: "DB \<Rightarrow> HostID \<Rightarrow> WorkloadRuntimeBinding set" where
  "latches_of db host = {b \<in> set (db_bindings db). rb_WorkloadID b \<in> dw_WorkloadID ` workloads_of db host}"

lemma image_pairs: "(\<Union>w\<in>W. (\<lambda>d. f (h w d)) ` D w) = f ` {h w d |w d. w \<in> W \<and> d \<in> D w}"
  by blast

lemma tagged_facts:
  "tagged ''HOLD'' (authority_facts db host) = (\<lambda>h. [''HOLD'', FormatBool (mh_Active h), FormatUint (mh_Revision h)]) ` set_option (row_of mh_HostID host (db_holds db))"
  "tagged ''WORKLOAD'' (authority_facts db host) = workload_facts ` workloads_of db host"
  "tagged ''WORKLOAD_DEVICE'' (authority_facts db host)
     = (\<lambda>(i, d). [''WORKLOAD_DEVICE'', WorkloadID_String i, DeviceID_String d])
         ` {(dw_WorkloadID w, d) |w d. w \<in> workloads_of db host \<and> d \<in> set (cl_DeviceIDs (dw_Resources (dw_Content w)))}"
  "tagged ''SNAPSHOT'' (authority_facts db host) = snapshot_facts ` snapshots_on db host"
  "tagged ''SNAPSHOT_DEVICE'' (authority_facts db host)
     = (\<lambda>(i, g, d). [''SNAPSHOT_DEVICE'', WorkloadID_String i, FormatUint g, DeviceID_String d])
         ` {(sn_WorkloadID s, sn_DesiredGeneration s, d) |s d. s \<in> snapshots_on db host \<and> d \<in> set (cl_DeviceIDs (sn_Resources s))}"
  "tagged ''BINDING'' (authority_facts db host) = binding_facts ` latches_of db host"
proof -
  have parts: "set (host_workloads db host) = workloads_of db host" "set (host_snapshots db host) = snapshots_on db host"
    "set (host_bindings db host) = latches_of db host"
    by (auto simp: host_workloads_def host_snapshots_def host_bindings_def workloads_of_def snapshots_on_def latches_of_def list_ex_iff image_iff Bex_def)
  have facts: "set (authority_facts db host) = {[''HOST'', HostID_String host]}
      \<union> (\<lambda>h. [''HOLD'', FormatBool (mh_Active h), FormatUint (mh_Revision h)]) ` set_option (row_of mh_HostID host (db_holds db))
      \<union> workload_facts ` workloads_of db host \<union> (\<Union>w\<in>workloads_of db host. set (workload_device_facts w))
      \<union> snapshot_facts ` snapshots_on db host \<union> (\<Union>s\<in>snapshots_on db host. set (snapshot_device_facts s))
      \<union> binding_facts ` latches_of db host"
    by (auto simp: authority_facts_def parts split: option.splits)
  have heads: "hd (workload_facts w) = ''WORKLOAD''" "hd (snapshot_facts s) = ''SNAPSHOT''" "hd (binding_facts b) = ''BINDING''"
    "f \<in> set (workload_device_facts w) \<Longrightarrow> hd f = ''WORKLOAD_DEVICE''" "f \<in> set (snapshot_device_facts s) \<Longrightarrow> hd f = ''SNAPSHOT_DEVICE''" for w s b f
    by (auto simp: workload_facts_def snapshot_facts_def binding_facts_def workload_device_facts_def snapshot_device_facts_def)
  show "tagged ''HOLD'' (authority_facts db host)
      = (\<lambda>h. [''HOLD'', FormatBool (mh_Active h), FormatUint (mh_Revision h)]) ` set_option (row_of mh_HostID host (db_holds db))"
    "tagged ''WORKLOAD'' (authority_facts db host) = workload_facts ` workloads_of db host"
    "tagged ''SNAPSHOT'' (authority_facts db host) = snapshot_facts ` snapshots_on db host"
    "tagged ''BINDING'' (authority_facts db host) = binding_facts ` latches_of db host"
    unfolding tagged_def facts by (auto simp: heads)
  have "tagged ''WORKLOAD_DEVICE'' (authority_facts db host) = (\<Union>w\<in>workloads_of db host. set (workload_device_facts w))"
    "tagged ''SNAPSHOT_DEVICE'' (authority_facts db host) = (\<Union>s\<in>snapshots_on db host. set (snapshot_device_facts s))"
    unfolding tagged_def facts by (auto simp: heads)
  moreover have "set (workload_device_facts w)
      = (\<lambda>d. (case (dw_WorkloadID w, d) of (i, d) \<Rightarrow> [''WORKLOAD_DEVICE'', WorkloadID_String i, DeviceID_String d]))
          ` set (cl_DeviceIDs (dw_Resources (dw_Content w)))" for w
    by (simp add: workload_device_facts_def)
  moreover have "set (snapshot_device_facts s)
      = (\<lambda>d. (case (sn_WorkloadID s, sn_DesiredGeneration s, d) of (i, g, d) \<Rightarrow> [''SNAPSHOT_DEVICE'', WorkloadID_String i, FormatUint g, DeviceID_String d]))
          ` set (cl_DeviceIDs (sn_Resources s))" for s
    by (simp add: snapshot_device_facts_def)
  ultimately show "tagged ''WORKLOAD_DEVICE'' (authority_facts db host)
     = (\<lambda>(i, d). [''WORKLOAD_DEVICE'', WorkloadID_String i, DeviceID_String d])
         ` {(dw_WorkloadID w, d) |w d. w \<in> workloads_of db host \<and> d \<in> set (cl_DeviceIDs (dw_Resources (dw_Content w)))}"
    "tagged ''SNAPSHOT_DEVICE'' (authority_facts db host)
     = (\<lambda>(i, g, d). [''SNAPSHOT_DEVICE'', WorkloadID_String i, FormatUint g, DeviceID_String d])
         ` {(sn_WorkloadID s, sn_DesiredGeneration s, d) |s d. s \<in> snapshots_on db host \<and> d \<in> set (cl_DeviceIDs (sn_Resources s))}"
    using image_pairs[where f = "\<lambda>(i, d). [''WORKLOAD_DEVICE'', WorkloadID_String i, DeviceID_String d]" and h = "\<lambda>w d. (dw_WorkloadID w, d)"]
      image_pairs[where f = "\<lambda>(i, g, d). [''SNAPSHOT_DEVICE'', WorkloadID_String i, FormatUint g, DeviceID_String d]"
        and h = "\<lambda>s d. (sn_WorkloadID s, sn_DesiredGeneration s, d)"]
    by (simp_all only:)
qed

lemma Format_inj: "FormatUint m = FormatUint n \<longleftrightarrow> m = n" "FormatBool a = FormatBool b \<longleftrightarrow> a = b"
  by (simp_all add: FormatUint_def FormatBool_def dec_digits_inj word_unat_eq_iff)

lemma image_determined: "f ` A = f ` B \<Longrightarrow> (\<And>x y. f x = f y \<Longrightarrow> g x = g y) \<Longrightarrow> g ` A = g ` B"
proof -
  assume f: "f ` A = f ` B" and g: "\<And>x y. f x = f y \<Longrightarrow> g x = g y"
  have "g ` A \<subseteq> g ` B" if "f ` A = f ` B" for A B
  proof
    fix z assume "z \<in> g ` A"
    then obtain x where x: "x \<in> A" "z = g x" by blast
    then have "f x \<in> f ` B" using that by blast
    then show "z \<in> g ` B" using g x by blast
  qed
  from this[OF f] this[OF f[symmetric]] show ?thesis by blast
qed

text \<open>What an evaluation of a Host sees of its hold, workloads, snapshots and latches.\<close>

definition seen_hold :: "DB \<Rightarrow> HostID \<Rightarrow> (bool \<times> uint64) option" where
  "seen_hold db host = map_option (\<lambda>h. (mh_Active h, mh_Revision h)) (row_of mh_HostID host (db_holds db))"

definition seen_workloads :: "DB \<Rightarrow> HostID \<Rightarrow> (WorkloadID \<times> uint64 \<times> string \<times> string \<times> bool \<times> uint64 \<times> string) set" where
  "seen_workloads db host = (\<lambda>w. (dw_WorkloadID w, meta_Revision (dw_Meta w), meta_ContentHash (dw_Meta w),
     DesiredRunState_text (dw_RunState (dw_Content w)), cl_CPU (dw_Resources (dw_Content w)), dw_DesiredGeneration w, dw_EffectiveHash w))
     ` workloads_of db host"

definition seen_workload_devices :: "DB \<Rightarrow> HostID \<Rightarrow> (WorkloadID \<times> DeviceID) set" where
  "seen_workload_devices db host =
     {(dw_WorkloadID w, d) |w d. w \<in> workloads_of db host \<and> d \<in> set (cl_DeviceIDs (dw_Resources (dw_Content w)))}"

definition seen_snapshots :: "DB \<Rightarrow> HostID \<Rightarrow> (WorkloadID \<times> uint64 \<times> ExecutionID \<times> string \<times> bool) set" where
  "seen_snapshots db host = (\<lambda>s. (sn_WorkloadID s, sn_DesiredGeneration s, ResolvedExecutionSnapshot.sn_ExecutionID s, sn_ResolvedHash s,
     cl_CPU (sn_Resources s))) ` snapshots_on db host"

definition seen_snapshot_devices :: "DB \<Rightarrow> HostID \<Rightarrow> (WorkloadID \<times> uint64 \<times> DeviceID) set" where
  "seen_snapshot_devices db host =
     {(sn_WorkloadID s, sn_DesiredGeneration s, d) |s d. s \<in> snapshots_on db host \<and> d \<in> set (cl_DeviceIDs (sn_Resources s))}"

definition seen_latches :: "DB \<Rightarrow> HostID \<Rightarrow> (WorkloadID \<times> uint64 \<times> string \<times> Time) set" where
  "seen_latches db host = (\<lambda>b. (rb_WorkloadID b, rb_BlockedGeneration b, Code_text (rb_ErrorCode b), rb_BlockedAt b)) ` latches_of db host"

lemma facts_seen:
  assumes "authority_facts db host = authority_facts db' host"
  shows "seen_hold db host = seen_hold db' host" "seen_workloads db host = seen_workloads db' host"
    "seen_workload_devices db host = seen_workload_devices db' host" "seen_snapshots db host = seen_snapshots db' host"
    "seen_snapshot_devices db host = seen_snapshot_devices db' host" "seen_latches db host = seen_latches db' host"
proof -
  have t: "tagged tag (authority_facts db host) = tagged tag (authority_facts db' host)" for tag using assms by simp
  note eqs = t[of "''HOLD''", unfolded tagged_facts] t[of "''WORKLOAD''", unfolded tagged_facts] t[of "''WORKLOAD_DEVICE''", unfolded tagged_facts]
    t[of "''SNAPSHOT''", unfolded tagged_facts] t[of "''SNAPSHOT_DEVICE''", unfolded tagged_facts] t[of "''BINDING''", unfolded tagged_facts]
  have "(\<lambda>h. (mh_Active h, mh_Revision h)) ` set_option (row_of mh_HostID host (db_holds db))
      = (\<lambda>h. (mh_Active h, mh_Revision h)) ` set_option (row_of mh_HostID host (db_holds db'))"
    using eqs(1) by (rule image_determined) (simp add: Format_inj)
  then have "set_option (seen_hold db host) = set_option (seen_hold db' host)" by (simp add: seen_hold_def option.set_map)
  then show "seen_hold db host = seen_hold db' host" by (cases "seen_hold db host"; cases "seen_hold db' host") auto
  show "seen_workloads db host = seen_workloads db' host" unfolding seen_workloads_def
    using eqs(2) by (rule image_determined) (auto simp: workload_facts_def Format_inj workload_id.text_inj)
  show "seen_snapshots db host = seen_snapshots db' host" unfolding seen_snapshots_def
    using eqs(4) by (rule image_determined) (auto simp: snapshot_facts_def Format_inj workload_id.text_inj execution_id.text_inj)
  show "seen_latches db host = seen_latches db' host" unfolding seen_latches_def
    using eqs(6) by (rule image_determined) (auto simp: binding_facts_def Format_inj workload_id.text_inj Itoa_inj)
  have "(\<lambda>x. x) ` seen_workload_devices db host = (\<lambda>x. x) ` seen_workload_devices db' host" unfolding seen_workload_devices_def
    using eqs(3) by (rule image_determined) (auto simp: workload_id.text_inj device_id.text_inj)
  then show "seen_workload_devices db host = seen_workload_devices db' host" by simp
  have "(\<lambda>x. x) ` seen_snapshot_devices db host = (\<lambda>x. x) ` seen_snapshot_devices db' host" unfolding seen_snapshot_devices_def
    using eqs(5) by (rule image_determined) (auto simp: Format_inj workload_id.text_inj device_id.text_inj)
  then show "seen_snapshot_devices db host = seen_snapshot_devices db' host" by simp
qed

text \<open>C17: an evaluation is recorded only against the facts it was made under: if a call succeeds with the
  authority taken from an earlier state of the database, then in both states the Host has the same hold, with its
  revision; the same workloads, with their revisions, content hashes, run states, claims, generations and effective
  hashes; the same snapshots, with their executions, hashes and claims; and the same latches, with the blocked
  generation, the error and the time, unless SHA-256 collides on the two.\<close>

theorem recorded_under_same_facts:
  assumes "ReconcileIncidents sv host (incidentAuthorityTx earlier host) conditions resolvable db = (db', Inr u)"
    and "list_all (list_all framable) (authority_facts earlier host)" and "list_all (list_all framable) (authority_facts db host)"
    and "\<not> authority_collision (authority_facts db host) (authority_facts earlier host)"
  shows "seen_hold db host = seen_hold earlier host \<and> seen_workloads db host = seen_workloads earlier host
    \<and> seen_workload_devices db host = seen_workload_devices earlier host \<and> seen_snapshots db host = seen_snapshots earlier host
    \<and> seen_snapshot_devices db host = seen_snapshot_devices earlier host \<and> seen_latches db host = seen_latches earlier host"
proof -
  have "incidentAuthorityTx db host = incidentAuthorityTx earlier host"
    using assms(1) by (auto simp: ReconcileIncidents_def)
  then have "authority_facts db host = authority_facts earlier host" using authority_determines_facts assms(2-4) by blast
  from facts_seen[OF this] show ?thesis by simp
qed

section \<open>The rows a recorded evaluation leaves\<close>

lemma row_of_map:
  assumes "\<And>r. key (f r) = key r"
  shows "row_of key k (map f rows) = map_option f (row_of key k rows)"
  unfolding row_of_def using assms by (induction rows) auto

lemma incident_ids [simp]: "incident_row_id (resolve_incident now r) = incident_row_id r"
  "incident_row_id (observe_again now c r) = incident_row_id r" "incident_row_id (reactivate now c r) = incident_row_id r"
  "incident_row_id (first_occurrence now c) = ic_IncidentID c"
  by (simp_all add: incident_row_id_def resolve_incident_def observe_again_def reactivate_def first_occurrence_def)

text \<open>The row of an identifier whose condition is present.\<close>

definition present_row :: "Time \<Rightarrow> IncidentCondition \<Rightarrow> Incident option \<Rightarrow> Incident" where
  "present_row now c row = (case row of
     None \<Rightarrow> first_occurrence now c
   | Some r \<Rightarrow> if in_State r = IncidentResolved then reactivate now c r else observe_again now c r)"

abbreviation incident_row :: "DB \<Rightarrow> IncidentID \<Rightarrow> Incident option" where
  "incident_row db j \<equiv> row_of incident_row_id j (db_incidents db)"

lemma activate_rows:
  assumes "activate now c db = Inr db'"
  shows "incident_row db' j = (if j = ic_IncidentID c then Some (present_row now c (incident_row db j)) else incident_row db j)"
proof (cases "incident_row db (ic_IncidentID c)")
  case None
  then show ?thesis using assms by (auto simp: activate_def present_row_def touch_def split: option.splits if_splits)
next
  case (Some r)
  then have "incident_row_id r = ic_IncidentID c" by (auto dest: row_of_SomeD)
  then show ?thesis using assms Some
    by (auto simp: activate_def present_row_def touch_def row_of_replace split: if_splits)
qed

lemma activate_all_rows:
  assumes "activate_all now cs db = Inr db'" and "distinct (map ic_IncidentID cs)"
  shows "incident_row db' j = (case find (\<lambda>c. ic_IncidentID c = j) cs of
     None \<Rightarrow> incident_row db j | Some c \<Rightarrow> Some (present_row now c (incident_row db j)))"
  using assms
proof (induction cs arbitrary: db)
  case (Cons c cs)
  obtain db1 where step: "activate now c db = Inr db1" "activate_all now cs db1 = Inr db'" using Cons.prems(1) by auto
  note r = activate_rows[OF step(1), of j] and ih = Cons.IH[OF step(2)]
  show ?case
  proof (cases "ic_IncidentID c = j")
    case True
    then have "find (\<lambda>c. ic_IncidentID c = j) cs = None" using Cons.prems(2) unfolding find_None_iff by (metis distinct.simps(2) image_eqI list.simps(9) set_map)
    then show ?thesis using True r ih Cons.prems(2) by simp
  next
    case False
    then show ?thesis using r ih Cons.prems(2) by (simp cong: option.case_cong)
  qed
qed simp

lemma resolve_absent_rows:
  "incident_row (resolve_absent host is p now db) j
     = map_option (\<lambda>r. if is_absent host is p r then resolve_incident now r else r) (incident_row db j)"
  by (simp add: resolve_absent_def touch_def row_of_map)

lemma check_conditions_distinct:
  "check_conditions host seen cs = None \<Longrightarrow> distinct (map ic_IncidentID cs) \<and> set (map ic_IncidentID cs) \<inter> set seen = {}
     \<and> (\<forall>c\<in>set cs. ic_HostID c = host)"
proof (induction cs arbitrary: seen)
  case (Cons c cs)
  then have "check_conditions host (ic_IncidentID c # seen) cs = None" "ic_IncidentID c \<notin> set seen" "ic_HostID c = host"
    by (auto split: if_splits)
  then show ?case using Cons.IH[of "ic_IncidentID c # seen"] by auto
qed simp

text \<open>A recorded evaluation leaves, for every identifier, the row that its conditions call for: a condition
  that is present has an active row, new, seen again or active again with one more occurrence; an active
  incident of the Host whose condition is absent is resolved if its type could be evaluated; nothing else
  changes.\<close>

theorem recorded_evaluation_rows:
  assumes "ReconcileIncidents sv host authority conditions resolvable db = (db', Inr u)"
  shows "incident_row db' j = (case find (\<lambda>c. ic_IncidentID c = j) conditions of
      Some c \<Rightarrow> Some (present_row (sv_clock sv 0) c (incident_row db j))
    | None \<Rightarrow> map_option (\<lambda>r. if ic_HostID (in_Condition r) = host \<and> in_State r = IncidentActive
          \<and> resolvable (ic_Type (in_Condition r)) then resolve_incident (sv_clock sv 0) r else r) (incident_row db j))"
proof -
  have cs: "check_conditions host [] conditions = None"
    and run: "activate_all (sv_clock sv 0) conditions
      (resolve_absent host (map ic_IncidentID conditions) resolvable (sv_clock sv 0) db) = Inr db'"
    using assms by (auto simp: ReconcileIncidents_def first_error_None Let_def)
  note rows = activate_all_rows[OF run, of j] and absent = resolve_absent_rows[of j host "map ic_IncidentID conditions" resolvable "sv_clock sv 0" db]
  have distinct: "distinct (map ic_IncidentID conditions)" using check_conditions_distinct[OF cs] by blast
  have id: "incident_row_id r = j" if "incident_row db j = Some r" for r using that by (auto dest: row_of_SomeD)
  show ?thesis
  proof (cases "find (\<lambda>c. ic_IncidentID c = j) conditions")
    case None
    then have "j \<notin> set (map ic_IncidentID conditions)" by (auto simp: find_None_iff)
    then show ?thesis using rows[OF distinct] absent None id
      by (cases "incident_row db j") (auto simp: is_absent_def)
  next
    case (Some c)
    then have "j \<in> set (map ic_IncidentID conditions)" by (auto simp: find_Some_iff)
    then have "map_option (\<lambda>r. if is_absent host (map ic_IncidentID conditions) resolvable r then resolve_incident (sv_clock sv 0) r else r)
        (incident_row db j) = incident_row db j"
      using id by (cases "incident_row db j") (auto simp: is_absent_def)
    then show ?thesis using rows[OF distinct] absent Some by simp
  qed
qed

end
