(* ===== verification/Store_Demo.thy ===== *)
theory Store_Demo
  imports Store_Lifecycle Store_Updates Incident_Facts
begin

text \<open>
  A concrete farm: one Host, a pool, a wallet, a profile whose release mines on CPUs and GPUs. Calls are
  made on it one after the other; hashes and resolutions stay symbolic. The theorems of the store are
  applied along this history.
\<close>

section \<open>The objects\<close>

definition stored_hash :: "string result \<Rightarrow> string" where
  "stored_hash r = (case r of Inr h \<Rightarrow> h | Inl _ \<Rightarrow> [])"

lemma stored_hash_text: "hashable v \<Longrightarrow> ContentHash v = Inr (stored_hash (ContentHash v))"
  using hashable_text[of v] by (auto simp: stored_hash_def ContentHash_def)

definition farm_release :: PackageRelease where
  "farm_release = demo_release\<lparr>rel_Runtime := \<lparr>rc_CPU = True, rc_GPU = True, rc_MultiGPUSingleProcess = False, rc_GPUVendors = []\<rparr>\<rparr>"

definition farm_env :: Env where
  "farm_env = demo_env\<lparr>env_catalog := Some (Static_Lookup [catalogKey demo_package \<mapsto> farm_release])\<rparr>"

definition farm_pool :: Pool where
  "farm_pool = (let p = ri_Pool demo_inputs
     in p\<lparr>pool_Meta := demo_meta\<lparr>meta_ContentHash := stored_hash (PoolHash (pool_Content p))\<rparr>\<rparr>)"

definition farm_wallet :: WalletRef where
  "farm_wallet = (let w = ri_Wallet demo_inputs
     in w\<lparr>wal_Meta := demo_meta\<lparr>meta_ContentHash := stored_hash (WalletRefHash (wal_Content w))\<rparr>\<rparr>)"

definition farm_profile_content :: MiningProfileContent where
  "farm_profile_content = (prof_Content demo_profile)\<lparr>prof_CPUThreads := None\<rparr>"

definition farm_profile :: MiningProfile where
  "farm_profile = \<lparr>prof_ProfileID = ProfileID (demo_id ''profile''),
     prof_Meta = demo_meta\<lparr>meta_ContentHash := stored_hash (MiningProfileHash farm_profile_content)\<rparr>,
     prof_Content = farm_profile_content\<rparr>"

lemma farm_release_lookup: "lookup_release farm_env demo_package = Inr farm_release"
  by (simp add: lookup_release_def farm_env_def Static_Lookup_def demo_package_ok)

lemma demo_meta_ok: "validateStoredMeta (demo_meta\<lparr>meta_ContentHash := h\<rparr>) = None"
  by (simp add: validateStoredMeta_def first_error_None demo_meta_def ObjectSchemaVersion_def validateOrigin_def IsZero_def fail_if_def)

lemma farm_pool_scan: "scanPool sv farm_pool = Inr farm_pool" if "sv_env sv = farm_env"
proof -
  have "hashable (Pool_value (pool_Content (ri_Pool demo_inputs)))"
    by (simp add: Pool_value_def demo_inputs_def is_ascii_def ascii_valid)
  then have "PoolHash (pool_Content (ri_Pool demo_inputs)) = Inr (stored_hash (PoolHash (pool_Content (ri_Pool demo_inputs))))"
    unfolding PoolHash_def by (rule stored_hash_text)
  then show ?thesis using that demo_pool_ok
    by (simp add: scanPool_def first_error_None farm_pool_def Let_def demo_meta_ok farm_env_def demo_env_def)
      (simp add: demo_meta_def demo_inputs_def pool_id.check_text demo_id_valid)
qed

lemma farm_wallet_scan: "scanWallet farm_wallet = Inr farm_wallet"
proof -
  have "hashable (WalletRef_value (wal_Content (ri_Wallet demo_inputs)))"
    by (simp add: WalletRef_value_def demo_inputs_def is_ascii_def ascii_valid)
  then have "WalletRefHash (wal_Content (ri_Wallet demo_inputs)) = Inr (stored_hash (WalletRefHash (wal_Content (ri_Wallet demo_inputs))))"
    unfolding WalletRefHash_def by (rule stored_hash_text)
  then show ?thesis using demo_wallet_ok
    by (simp add: scanWallet_def first_error_None farm_wallet_def Let_def demo_meta_ok)
      (simp add: demo_meta_def demo_inputs_def wallet_id.check_text demo_id_valid)
qed

lemma farm_profile_ok: "ValidateMiningProfile farm_profile_content = None"
  using demo_profile_ok by (simp add: ValidateMiningProfile_def first_error_None farm_profile_content_def require_def)

lemma farm_profile_scan: "scanProfile farm_profile = Inr farm_profile"
proof -
  have "hashable (MiningProfile_value farm_profile_content)"
    by (simp add: MiningProfile_value_def farm_profile_content_def demo_profile_def package_value_def demo_package_def
        optionalUint32_def optionalBool_def is_ascii_def ascii_valid valid_id_utf8[OF demo_id_valid])
  then have "MiningProfileHash farm_profile_content = Inr (stored_hash (MiningProfileHash farm_profile_content))"
    unfolding MiningProfileHash_def by (rule stored_hash_text)
  moreover have "PackageID_Validate (pr_PackageID (prof_Package farm_profile_content)) = None"
    "PoolID_Validate (prof_PoolID farm_profile_content) = None" "WalletID_Validate (prof_WalletID farm_profile_content) = None"
    "prof_CPUThreads farm_profile_content = None"
    by (simp_all add: farm_profile_content_def demo_profile_def demo_package_def package_id.check_text pool_id.check_text
        wallet_id.check_text demo_id_valid)
  ultimately show ?thesis using farm_profile_ok
    by (simp add: scanProfile_def first_error_None farm_profile_def demo_meta_ok profile_id.check_text demo_id_valid Let_def)
qed

section \<open>The workloads\<close>

definition cpu_claim :: ResourceClaim where
  "cpu_claim = \<lparr>cl_CPU = True, cl_DeviceIDs = []\<rparr>"

definition gpu_claim :: ResourceClaim where
  "gpu_claim = \<lparr>cl_CPU = False, cl_DeviceIDs = [demo_device]\<rparr>"

definition rig :: "DesiredRunState \<Rightarrow> ResourceClaim \<Rightarrow> DesiredWorkloadContent" where
  "rig st claim = demo_content\<lparr>dw_RunState := st, dw_Resources := claim\<rparr>"

definition runnable :: "DesiredWorkloadContent \<Rightarrow> bool" where
  "runnable c \<longleftrightarrow> (\<exists>st claim. c = rig st claim \<and> st \<in> {DesiredRunning, DesiredStopped} \<and> claim \<in> {cpu_claim, gpu_claim})"

lemma runnable_rig [simp]: "st \<in> {DesiredRunning, DesiredStopped} \<Longrightarrow> claim \<in> {cpu_claim, gpu_claim} \<Longrightarrow> runnable (rig st claim)"
  by (auto simp: runnable_def)

lemma claim_normal [simp]: "NormalizeResourceClaim cpu_claim = cpu_claim" "NormalizeResourceClaim gpu_claim = gpu_claim"
  by (simp_all add: NormalizeResourceClaim_def cpu_claim_def gpu_claim_def)

lemma runnable_normal: "runnable c \<Longrightarrow> normalize_content c = c \<and> c\<lparr>dw_Resources := NormalizeResourceClaim (dw_Resources c)\<rparr> = c"
  by (auto simp: runnable_def normalize_content_def rig_def)

lemma runnable_valid: "runnable c \<Longrightarrow> ValidateDesiredWorkload c = None"
  using demo_content_valid
  by (auto simp: runnable_def rig_def ValidateDesiredWorkload_def first_error_None ValidateResourceClaim_None
      cpu_claim_def gpu_claim_def demo_device_valid require_def)

lemma runnable_hash: "runnable c \<Longrightarrow> DesiredWorkloadHash c = Inr (stored_hash (DesiredWorkloadHash c))"
proof -
  assume "runnable c"
  then have "hashable (DesiredWorkload_value c)"
    by (auto simp: runnable_def rig_def DesiredWorkload_value_def demo_content_def resourceClaimHashValue_def
        cpu_claim_def gpu_claim_def NormalizeResourceClaim_def ascii_valid is_ascii_def demo_device_def demo_id_def list_all_iff)
  then show ?thesis unfolding DesiredWorkloadHash_def by (rule stored_hash_text)
qed

definition farm_inputs :: "DesiredWorkload \<Rightarrow> Inputs" where
  "farm_inputs w = \<lparr>ri_Workload = w, ri_Profile = farm_profile, ri_Settings = None, ri_Pool = farm_pool, ri_Wallet = farm_wallet,
     ri_GPUAssignments = []\<rparr>"

lemma farm_fields:
  "pool_Content farm_pool = pool_Content (ri_Pool demo_inputs)" "wal_Content farm_wallet = wal_Content (ri_Wallet demo_inputs)"
  "pool_PoolID farm_pool = PoolID (demo_id ''pool'')" "wal_WalletID farm_wallet = WalletID (demo_id ''wallet'')"
  "prof_PoolID farm_profile_content = PoolID (demo_id ''pool'')" "prof_WalletID farm_profile_content = WalletID (demo_id ''wallet'')"
  "prof_ProfileID farm_profile = ProfileID (demo_id ''profile'')" "prof_Content farm_profile = farm_profile_content"
  "prof_Package farm_profile_content = demo_package" "prof_LoginPolicy farm_profile_content = prof_LoginPolicy (prof_Content demo_profile)"
  "effectiveTuning farm_profile None = (None, None, None)" "meta_Revision (prof_Meta farm_profile) = 1"
  "meta_Revision (pool_Meta farm_pool) = 1" "meta_Revision (wal_Meta farm_wallet) = 1"
  by (simp_all add: farm_pool_def farm_wallet_def farm_profile_def farm_profile_content_def demo_inputs_def demo_profile_def
      effectiveTuning_def demo_meta_def Let_def)

lemma rig_fields:
  "dw_HostID (rig st claim) = HostID (demo_id ''host'')" "dw_ProfileID (rig st claim) = ProfileID (demo_id ''profile'')"
  "dw_Worker (rig st claim) = []" "dw_RunState (rig st claim) = st" "dw_Resources (rig st claim) = claim"
  by (simp_all add: rig_def demo_content_def)

lemma farm_resolves:
  assumes "runnable (dw_Content w)"
  shows "\<exists>r. Resolver_Resolve farm_env (farm_inputs w) = Inr r \<and> rs_Content r = resolved_content (farm_inputs w) demo_endpoint"
proof -
  obtain st claim where c: "dw_Content w = rig st claim" "st = DesiredRunning \<or> st = DesiredStopped" "claim = cpu_claim \<or> claim = gpu_claim"
    using assms by (auto simp: runnable_def)
  have "validate_inputs farm_env (farm_inputs w) = None"
    using runnable_valid[OF assms] farm_profile_ok demo_pool_ok demo_wallet_ok
    by (simp add: validate_inputs_def first_error_None farm_inputs_def farm_fields c(1) rig_fields Let_def)
      (simp add: farm_env_def demo_env_def)
  moreover have "validate_release farm_env (farm_inputs w) farm_release = None"
    using c(3) by (auto simp: validate_release_def first_error_None farm_inputs_def farm_fields c(1) rig_fields Let_def
        normalizeAssignments_def validateResourceShape_def ValidateTuningCapabilities_def require_def cpu_claim_def gpu_claim_def
        farm_release_def demo_release_def farm_profile_content_def demo_profile_def demo_inputs_def)
  moreover have "resolveEndpoint (pool_Content farm_pool) (wal_Content farm_wallet) (prof_LoginPolicy farm_profile_content) [] = Inr demo_endpoint"
    using demo_endpoint_ok by (simp add: farm_fields)
  moreover have "\<exists>h. ResolvedRuntimeHash (resolved_content (farm_inputs w) demo_endpoint) = Inr h"
  proof -
    have "hashable (ResolvedRuntime_value (resolved_content (farm_inputs w) demo_endpoint))"
      using c(2,3) by (auto simp: resolved_content_def farm_inputs_def farm_fields c(1) rig_fields Let_def ResolvedRuntime_value_def
        resourceClaimHashValue_def package_value_def optionalUint32_def optionalBool_def normalizeAssignments_def demo_endpoint_def
        demo_package_def valid_id_utf8[OF demo_id_valid] is_ascii_def cpu_claim_def gpu_claim_def farm_profile_content_def
        demo_profile_def demo_device_def NormalizeResourceClaim_def ascii_valid list_all_iff)
    from hashable_text[OF this] show ?thesis by (auto simp: ResolvedRuntimeHash_def ContentHash_def)
  qed
  ultimately show ?thesis using farm_release_lookup
    by (auto simp: Resolver_Resolve_def hash_result_def c(1) rig_fields) (auto simp: farm_inputs_def farm_fields c(1) rig_fields hash_result_def)
qed

section \<open>The calls\<close>

definition farm_wid :: "char \<Rightarrow> WorkloadID" where
  "farm_wid ch = WorkloadID (''workload_'' @ replicate 32 ch)"

definition farm_xid :: "char \<Rightarrow> ExecutionID" where
  "farm_xid ch = ExecutionID (''execution_'' @ replicate 32 ch)"

definition farm_sv :: "char \<Rightarrow> Svc" where
  "farm_sv ch = \<lparr>sv_env = farm_env, sv_clock = (\<lambda>_. unix_epoch + 5), sv_newPoolID = Inl (Plain []), sv_newWalletID = Inl (Plain []),
     sv_newProfileID = Inl (Plain []), sv_newWorkloadID = Inr (farm_wid ch),
     sv_newExecutionID = (\<lambda>_. Inr (farm_xid ch))\<rparr>"

lemma farm_sv_fields [simp]: "sv_env (farm_sv ch) = farm_env" "sv_clock (farm_sv ch) n = unix_epoch + 5"
  "sv_newWorkloadID (farm_sv ch) = Inr (farm_wid ch)" "sv_newExecutionID (farm_sv ch) n = Inr (farm_xid ch)"
  by (simp_all add: farm_sv_def)

definition farm_objects :: "DB \<Rightarrow> bool" where
  "farm_objects db \<longleftrightarrow> db_pools db = [farm_pool] \<and> db_wallets db = [farm_wallet] \<and> db_profiles db = [farm_profile] \<and> db_settings db = []"

lemma farm_objects_same:
  "objects db' = objects db \<Longrightarrow> farm_objects db' = farm_objects db"
  by (simp add: objects_def farm_objects_def)

lemma key_valid: "is_hex_lower ch \<Longrightarrow> WorkloadID_Validate (farm_wid ch) = None"
  "is_hex_lower ch \<Longrightarrow> ExecutionID_Validate (farm_xid ch) = None"
  by (auto simp: farm_wid_def farm_xid_def workload_id.check_text execution_id.check_text validate_None_iff list_all_iff)

lemma farm_resolveWorkload:
  assumes "farm_objects db" and "runnable (dw_Content w)" and "sv_env sv = farm_env"
    and "cl_DeviceIDs (dw_Resources (dw_Content w)) = [] \<or> snapshots_of db (dw_WorkloadID w) = []"
  shows "\<exists>r. resolveWorkload sv db w = Inr (farm_inputs w, r) \<and> Resolver_Resolve farm_env (farm_inputs w) = Inr r
    \<and> rs_Content r = resolved_content (farm_inputs w) demo_endpoint"
proof -
  have "latestGPUAssignments sv db w = Inr []"
    using assms(4) by (auto simp: latestGPUAssignments_def latest_generation_def snapshots_of_def Let_def)
  moreover obtain st claim where c: "dw_Content w = rig st claim" using assms(2) by (auto simp: runnable_def)
  ultimately have "resolve_inputs sv db w = Inr (farm_inputs w)" using assms(1)
    by (simp add: resolve_inputs_def farm_objects_def row_of_def fetch_def map_error_def farm_fields rig_fields c
        farm_profile_scan farm_pool_scan[OF assms(3)] farm_wallet_scan load_settings_def farm_inputs_def)
  then show ?thesis using farm_resolves[OF assms(2)] by (auto simp: resolveWorkload_def assms(3))
qed

text \<open>The snapshot that a creation leaves.\<close>

definition farm_snap :: "char \<Rightarrow> DesiredWorkload \<Rightarrow> uint64 \<Rightarrow> ResolvedExecutionSnapshot \<Rightarrow> bool" where
  "farm_snap ch w g s \<longleftrightarrow> sn_ExecutionID s = farm_xid ch \<and> snapshot_key s = (dw_WorkloadID w, g)
     \<and> sn_Resources s = NormalizeResourceClaim (dw_Resources (dw_Content w)) \<and> scanSnapshot s = None
     \<and> validateSnapshot (env_uni farm_env) s = None \<and> sn_HostID s = dw_HostID (dw_Content w)
     \<and> ResolvedRuntimeHash (resolved_content (farm_inputs w) demo_endpoint) = Inr (sn_ResolvedHash s)"

lemma farm_snapshot:
  assumes "Resolver_Resolve farm_env (farm_inputs w) = Inr r" and "rs_Content r = resolved_content (farm_inputs w) demo_endpoint"
    and "dw_RunState (dw_Content w) = DesiredRunning" and "WorkloadID_Validate (dw_WorkloadID w) = None" and "is_hex_lower ch" and "g \<noteq> 0"
    and "\<forall>s\<in>set (db_snapshots db). sn_ExecutionID s \<noteq> farm_xid ch \<and> snapshot_key s \<noteq> (dw_WorkloadID w, g)"
    and "HostID_Validate (dw_HostID (dw_Content w)) = None"
  shows "\<exists>s db'. createSnapshot (farm_sv ch) n db (farm_inputs w) r g (unix_epoch + 5) = Inr db' \<and> db_snapshots db' = db_snapshots db @ [s]
    \<and> farm_snap ch w g s"
proof -
  let ?x = "farm_xid ch"
  have "rr_RunState (rs_Content r) = DesiredRunning"
    using assms(3) by (simp add: assms(2) resolved_content_def farm_inputs_def farm_fields Let_def)
  then obtain s where s: "Resolver_Snapshot r (farm_inputs w) ?x g (unix_epoch + 5) = Inr s"
    using key_valid(2)[OF assms(5)] assms(6) by (auto simp: Resolver_Snapshot_def)
  have fields: "sn_ExecutionID s = ?x" "snapshot_key s = (dw_WorkloadID w, g)"
    using s by (auto simp: Resolver_Snapshot_def snapshot_key_def farm_inputs_def split: if_splits)
  have valid: "validateSnapshot (env_uni farm_env) s = None"
    by (rule resolved_snapshot_validates[OF assms(1) s])
      (use assms(4) in \<open>simp_all add: farm_inputs_def farm_fields IsZero_def unix_epoch_def\<close>)
  have "scanSnapshot s = None" "sn_Resources s = NormalizeResourceClaim (dw_Resources (dw_Content w))"
    using s assms(4,8) key_valid(2)[OF assms(5)]
    by (auto simp: Resolver_Snapshot_def scanSnapshot_def first_error_None farm_inputs_def farm_fields host_id.check_text
        profile_id.check_text pool_id.check_text wallet_id.check_text package_id.check_text demo_id_valid demo_package_def split: if_splits)
  moreover have "sn_HostID s = dw_HostID (dw_Content w)" "sn_ResolvedHash s = rs_Hash r"
    using s by (auto simp: Resolver_Snapshot_def farm_inputs_def split: if_splits)
  moreover have "ResolvedRuntimeHash (resolved_content (farm_inputs w) demo_endpoint) = Inr (rs_Hash r)"
    using Resolver_ResolveD[OF assms(1)] assms(2) by metis
  ultimately have snap: "farm_snap ch w g s" using fields valid by (simp add: farm_snap_def)
  have "fresh_execution db (sv_newExecutionID (farm_sv ch) n) = Inr ?x"
    using assms(7) by (auto simp: fresh_execution_def list_ex_iff)
  moreover have "\<exists>db'. insertResolvedSnapshot (farm_sv ch) db s = Inr db' \<and> db_snapshots db' = db_snapshots db @ [s]"
    using valid assms(7) fields by (auto simp: insertResolvedSnapshot_def list_ex_iff touch_def)
  ultimately show ?thesis using s snap by (auto simp: createSnapshot_def)
qed

text \<open>The row that a creation leaves.\<close>

definition farm_row :: "char \<Rightarrow> DesiredWorkloadContent \<Rightarrow> DesiredWorkload \<Rightarrow> bool" where
  "farm_row ch c w \<longleftrightarrow> dw_WorkloadID w = farm_wid ch \<and> dw_Content w = c \<and> dw_DesiredGeneration w = 1
     \<and> dw_Meta w = newMeta OriginController (stored_hash (DesiredWorkloadHash c)) (unix_epoch + 5)
     \<and> (\<exists>v. ContentHash v = Inr (dw_EffectiveHash w))"

lemma farm_row_loads:
  assumes "farm_row ch c w" and "runnable c" and "is_hex_lower ch" and "workload_row db (farm_wid ch) = Some w"
  shows "loadWorkloadTx db (farm_wid ch) = Inr w"
proof -
  obtain st claim where c: "c = rig st claim" "claim = cpu_claim \<or> claim = gpu_claim" using assms(2) by (auto simp: runnable_def)
  have w: "dw_Content w = c" "normalize_workload w = w"
    using assms(1) runnable_normal[OF assms(2)] by (simp_all add: farm_row_def normalize_workload_def)
  have "scanWorkload w = None"
    using assms(1) key_valid(1)[OF assms(3)]
    by (simp add: scanWorkload_def first_error_None farm_row_def c rig_fields host_id.check_text profile_id.check_text demo_id_valid)
  moreover have "loadDevices m (cl_DeviceIDs (dw_Resources c)) = None" for m
    using c by (auto simp: loadDevices_def rig_fields cpu_claim_def gpu_claim_def demo_device_valid first_error_None)
  moreover have "validResolvedHash (dw_EffectiveHash w)"
    using assms(1) ContentHash_shape by (auto simp: farm_row_def validResolvedHash_def)
  moreover have "validateStoredMeta (dw_Meta w) = None"
    using assms(1) by (simp add: farm_row_def validateStoredMeta_def newMeta_def ObjectSchemaVersion_def validateOrigin_def
        IsZero_def fail_if_def unix_epoch_def)
  moreover have "DesiredWorkloadHash (dw_Content w) = Inr (meta_ContentHash (dw_Meta w))"
    using runnable_hash[OF assms(2)] assms(1) by (simp add: farm_row_def newMeta_def)
  moreover have "dw_DesiredGeneration w = 1" using assms(1) by (simp add: farm_row_def)
  ultimately have "validateLoadedWorkload w = Inr w" "scanWorkload w = None" "\<And>m. loadDevices m (cl_DeviceIDs (dw_Resources (dw_Content w))) = None"
    using runnable_valid[OF assms(2)] w by (simp_all add: validateLoadedWorkload_def first_error_None Let_def)
  then show ?thesis using assms(4) by (simp add: loadWorkloadTx_def workload_row_def)
qed

lemma farm_create:
  assumes db: "farm_objects db" and c: "runnable c" and ch: "is_hex_lower ch"
    and new: "workload_row db (farm_wid ch) = None" "snapshots_of db (farm_wid ch) = []"
      "\<forall>s\<in>set (db_snapshots db). sn_ExecutionID s \<noteq> farm_xid ch"
    and free: "\<And>w. dw_Content w = c \<Longrightarrow> checkResourceConflict db w no_workload = None"
  shows "\<exists>w db'. CreateDesiredWorkload (farm_sv ch) c db = (db', Inr w) \<and> farm_row ch c w \<and> db_workloads db' = db_workloads db @ [w]
    \<and> objects db' = objects db \<and> db_bindings db' = db_bindings db
    \<and> (if dw_RunState c = DesiredRunning \<and> dw_Resources c = cpu_claim
       then \<exists>s. db_snapshots db' = db_snapshots db @ [s] \<and> farm_snap ch w 1 s
       else db_snapshots db' = db_snapshots db)"
proof -
  let ?i = "farm_wid ch" and ?now = "unix_epoch + 5"
  obtain st claim where rig: "c = rig st claim" "claim = cpu_claim \<or> claim = gpu_claim" using c by (auto simp: runnable_def)
  define w where "w = \<lparr>dw_WorkloadID = ?i, dw_Meta = newMeta OriginController (stored_hash (DesiredWorkloadHash c)) ?now,
    dw_DesiredGeneration = 1, dw_EffectiveHash = [], dw_Content = c\<rparr>"
  have "cl_DeviceIDs (dw_Resources (dw_Content w)) = [] \<or> snapshots_of db (dw_WorkloadID w) = []" using new(2) by (simp add: w_def)
  with farm_resolveWorkload[OF db, of w "farm_sv ch"] c obtain r
    where res: "resolveWorkload (farm_sv ch) db w = Inr (farm_inputs w, r)" "Resolver_Resolve farm_env (farm_inputs w) = Inr r"
      "rs_Content r = resolved_content (farm_inputs w) demo_endpoint"
    by (auto simp: w_def)
  let ?w = "w\<lparr>dw_EffectiveHash := rs_Hash r\<rparr>"
  let ?db1 = "touch (1 + device_rows ?w) (db\<lparr>db_workloads := db_workloads db @ [?w]\<rparr>)"
  have hash: "\<exists>v. ContentHash v = Inr (rs_Hash r)" using Resolver_ResolveD[OF res(2)] by (metis ResolvedRuntimeHash_def)
  have ready: "configurationSnapshotReady (rs_Content r) \<longleftrightarrow> claim = cpu_claim"
    using rig(2) by (auto simp: configurationSnapshotReady_def res(3) resolved_content_def farm_inputs_def farm_fields Let_def w_def
        rig rig_fields cpu_claim_def gpu_claim_def)
  have "\<exists>db'. snapshot_if_ready (farm_sv ch) 0 ?db1 ?w (farm_inputs w) r ?now = Inr db' \<and> db_workloads db' = db_workloads ?db1
      \<and> objects db' = objects db \<and> db_bindings db' = db_bindings db
      \<and> (if dw_RunState c = DesiredRunning \<and> dw_Resources c = cpu_claim
         then \<exists>s. db_snapshots db' = db_snapshots db @ [s] \<and> farm_snap ch w 1 s
         else db_snapshots db' = db_snapshots db)"
  proof (cases "st = DesiredRunning \<and> claim = cpu_claim")
    case True
    have "\<forall>s\<in>set (db_snapshots ?db1). sn_ExecutionID s \<noteq> farm_xid ch \<and> snapshot_key s \<noteq> (dw_WorkloadID w, 1)"
      using new(2,3) by (auto simp: touch_def snapshot_key_def w_def snapshots_of_def filter_empty_conv)
    then obtain s db' where sn: "createSnapshot (farm_sv ch) 0 ?db1 (farm_inputs w) r 1 ?now = Inr db'" "db_snapshots db' = db_snapshots ?db1 @ [s]"
      "farm_snap ch w 1 s"
      using farm_snapshot[OF res(2,3), of ch 1 ?db1 0] True key_valid(1)[OF ch] ch
      by (auto simp: w_def rig rig_fields host_id.check_text demo_id_valid)
    have run: "snapshot_if_ready (farm_sv ch) 0 ?db1 ?w (farm_inputs w) r ?now = Inr db'"
      using sn(1) True ready by (simp add: snapshot_if_ready_def w_def rig rig_fields)
    obtain s' where "insertResolvedSnapshot (farm_sv ch) ?db1 s' = Inr db'" using sn(1) by (auto simp: createSnapshot_def)
    then have "db_bindings db' = db_bindings db" using insertResolvedSnapshotD[of "farm_sv ch" ?db1 s' db'] by (simp add: core_def touch_def)
    moreover have "objects db' = objects db" using snapshot_if_ready_objects[OF run] by (simp add: objects_def touch_def)
    ultimately show ?thesis using run snapshot_if_ready_objects[OF run] sn(2,3) True
      by (intro exI[of _ db']) (simp add: rig rig_fields w_def touch_def)
  next
    case False
    then show ?thesis using ready
      by (intro exI[of _ ?db1]) (auto simp: snapshot_if_ready_def w_def rig rig_fields touch_def objects_def)
  qed
  then obtain db' where db': "snapshot_if_ready (farm_sv ch) 0 ?db1 ?w (farm_inputs w) r ?now = Inr db'" "db_workloads db' = db_workloads ?db1"
    "objects db' = objects db" "db_bindings db' = db_bindings db"
    "(if dw_RunState c = DesiredRunning \<and> dw_Resources c = cpu_claim
       then \<exists>s. db_snapshots db' = db_snapshots db @ [s] \<and> farm_snap ch w 1 s
       else db_snapshots db' = db_snapshots db)" by blast
  obtain h where dwh: "DesiredWorkloadHash c = Inr h" using runnable_hash[OF c] by blast
  then have sh: "stored_hash (DesiredWorkloadHash c) = h" by (simp add: stored_hash_def)
  have "insert_workload (farm_sv ch) db w ?now = Inr (db', ?w)"
    using new(1) free[of w] res(1) db'(1) by (simp add: insert_workload_def workload_row_def w_def Let_def guard_def fail_if_def)
  then have "CreateDesiredWorkload (farm_sv ch) c db = (db', Inr ?w)"
    using runnable_normal[OF c] runnable_valid[OF c] dwh
    by (simp add: CreateDesiredWorkload_def Let_def farm_sv_fields w_def wrapped_def writeTx_def map_error_def stored_hash_def)
  moreover have "resolved_content (farm_inputs ?w) demo_endpoint = resolved_content (farm_inputs w) demo_endpoint"
    by (simp add: resolved_content_def farm_inputs_def)
  then have "farm_snap ch ?w 1 = farm_snap ch w 1" by (simp add: farm_snap_def fun_eq_iff)
  moreover have "farm_row ch c ?w" using hash by (simp add: farm_row_def w_def)
  ultimately show ?thesis using db'(2-5) by (intro exI[of _ ?w] exI[of _ db']) (simp add: touch_def)
qed

section \<open>A history\<close>

definition farm0 :: DB where
  "farm0 = \<lparr>db_pools = [farm_pool], db_wallets = [farm_wallet], db_profiles = [farm_profile], db_settings = [], db_workloads = [],
     db_snapshots = [], db_bindings = [], db_holds = [], db_barriers = [],
     db_restore = \<lparr>crr_Required = False, crr_BackupID = [], crr_ControllerID = [], crr_FarmID = [], crr_TrustFingerprint = [],
       crr_RestoredAt = unix_epoch\<rparr>, db_incidents = [], db_persistent_revision = 0\<rparr>"

abbreviation "sv_b \<equiv> farm_sv (CHR ''b'')"
abbreviation "sv_c \<equiv> farm_sv (CHR ''c'')"
abbreviation "sv_d \<equiv> farm_sv (CHR ''d'')"
abbreviation "id_b \<equiv> farm_wid (CHR ''b'')"
abbreviation "id_c \<equiv> farm_wid (CHR ''c'')"
abbreviation "running_cpu \<equiv> rig DesiredRunning cpu_claim"
abbreviation "running_gpu \<equiv> rig DesiredRunning gpu_claim"

definition farm1 :: DB where
  "farm1 = perform sv_b (OpCreateDesiredWorkload running_cpu) farm0"

definition farm2 :: DB where
  "farm2 = perform sv_c (OpCreateDesiredWorkload running_gpu) farm1"

definition farm3 :: DB where
  "farm3 = perform sv_d (OpBlockDesiredGeneration id_b 1 PROCESS_CRASHED ''exited'') farm2"

definition farm4 :: DB where
  "farm4 = perform sv_d (OpRetryWorkload id_b 1) farm3"

lemma hex_chars: "is_hex_lower (CHR ''b'')" "is_hex_lower (CHR ''c'')" "is_hex_lower (CHR ''d'')"
  by (simp_all add: is_hex_lower_def)

lemma farm_ids [simp]: "id_b \<noteq> id_c" "farm_xid (CHR ''b'') \<noteq> farm_xid (CHR ''c'')" "farm_xid (CHR ''b'') \<noteq> farm_xid (CHR ''d'')"
  "farm_wid ch \<noteq> no_workload" "farm_wid (CHR ''d'') \<noteq> id_b" "id_b \<noteq> farm_wid (CHR ''d'')" "id_c \<noteq> id_b"
  "farm_xid (CHR ''d'') \<noteq> farm_xid (CHR ''b'')"
  by (simp_all add: farm_wid_def farm_xid_def no_workload_def)

lemma farm1_rows: "\<exists>a s. CreateDesiredWorkload sv_b running_cpu farm0 = (farm1, Inr a) \<and> db_workloads farm1 = [a]
    \<and> farm_row (CHR ''b'') running_cpu a \<and> db_snapshots farm1 = [s] \<and> farm_snap (CHR ''b'') a 1 s \<and> db_bindings farm1 = []
    \<and> farm_objects farm1"
proof -
  have free: "checkResourceConflict farm0 w no_workload = None" for w
    by (simp add: checkResourceConflict_def farm0_def Let_def list_ex_iff)
  have "farm_objects farm0" by (simp add: farm_objects_def farm0_def)
  from farm_create[OF this _ hex_chars(1) _ _ _ free, of running_cpu] show ?thesis
    using \<open>farm_objects farm0\<close> farm_objects_same[of farm1 farm0]
    by (auto simp: farm1_def farm0_def workload_row_def row_of_def snapshots_of_def rig_fields)
qed

lemma farm2_rows: "\<exists>a b s. CreateDesiredWorkload sv_c running_gpu farm1 = (farm2, Inr b) \<and> db_workloads farm2 = [a, b]
    \<and> farm_row (CHR ''b'') running_cpu a \<and> farm_row (CHR ''c'') running_gpu b \<and> db_snapshots farm2 = [s]
    \<and> farm_snap (CHR ''b'') a 1 s \<and> db_bindings farm2 = [] \<and> farm_objects farm2"
proof -
  obtain a s where f: "db_workloads farm1 = [a]" "farm_row (CHR ''b'') running_cpu a" "db_snapshots farm1 = [s]"
    "farm_snap (CHR ''b'') a 1 s" "db_bindings farm1 = []" "farm_objects farm1" using farm1_rows by blast
  have "dw_WorkloadID a = id_b" "dw_Content a = running_cpu" using f(2) by (simp_all add: farm_row_def)
  then have free: "checkResourceConflict farm1 w no_workload = None" if "dw_Content w = running_gpu" for w
    using that by (simp add: checkResourceConflict_def f(1) Let_def rig_fields cpu_claim_def gpu_claim_def)
  have "sn_WorkloadID s = id_b" "sn_ExecutionID s = farm_xid (CHR ''b'')"
    using f(4) \<open>dw_WorkloadID a = id_b\<close> by (simp_all add: farm_snap_def snapshot_key_def)
  with farm_create[OF f(6) _ hex_chars(2) _ _ _ free, of running_gpu] show ?thesis
    using f \<open>dw_WorkloadID a = id_b\<close> farm_objects_same[of farm2 farm1]
    by (auto simp: farm2_def workload_row_def row_of_def snapshots_of_def rig_fields cpu_claim_def gpu_claim_def)
qed

lemma farm_reachable:
  "reachable (env_uni farm_env) farm0" "reachable (env_uni farm_env) farm1" "reachable (env_uni farm_env) farm2"
  "reachable (env_uni farm_env) farm3" "fresh_ids sv_b farm0" "fresh_ids sv_c farm1" "fresh_ids sv_d farm2"
proof -
  show 0: "reachable (env_uni farm_env) farm0" by (rule reachable.start) (simp add: initial_def core_def farm0_def)
  show f0: "fresh_ids sv_b farm0" by (simp add: fresh_ids_def snapshots_of_def farm0_def)
  show 1: "reachable (env_uni farm_env) farm1" unfolding farm1_def by (rule reachable.call[OF 0 _ f0]) simp
  obtain a s where f: "db_snapshots farm1 = [s]" "farm_snap (CHR ''b'') a 1 s" "farm_row (CHR ''b'') running_cpu a"
    using farm1_rows by blast
  then show f1: "fresh_ids sv_c farm1"
    by (auto simp: fresh_ids_def snapshots_of_def farm_snap_def snapshot_key_def farm_row_def)
  show 2: "reachable (env_uni farm_env) farm2" unfolding farm2_def by (rule reachable.call[OF 1 _ f1]) simp
  obtain a2 b2 s2 where f2: "db_snapshots farm2 = [s2]" "farm_snap (CHR ''b'') a2 1 s2" "farm_row (CHR ''b'') running_cpu a2"
    using farm2_rows by blast
  then show f2: "fresh_ids sv_d farm2"
    by (auto simp: fresh_ids_def snapshots_of_def farm_snap_def snapshot_key_def farm_row_def)
  show "reachable (env_uni farm_env) farm3" unfolding farm3_def by (rule reachable.call[OF 2 _ f2]) simp
qed

text \<open>The failure of the first workload is latched, and it is retried.\<close>

lemma farm3_rows: "\<exists>a b s. BlockDesiredGeneration sv_d id_b 1 PROCESS_CRASHED ''exited'' farm2 = (farm3, Inr ()) \<and> db_workloads farm3 = [a, b]
    \<and> farm_row (CHR ''b'') running_cpu a \<and> farm_row (CHR ''c'') running_gpu b \<and> db_snapshots farm3 = [s] \<and> farm_snap (CHR ''b'') a 1 s
    \<and> (\<exists>l. db_bindings farm3 = [l] \<and> rb_WorkloadID l = id_b \<and> rb_BlockedGeneration l = 1)"
proof -
  obtain a b s where f: "db_workloads farm2 = [a, b]" "farm_row (CHR ''b'') running_cpu a" "farm_row (CHR ''c'') running_gpu b"
    "db_snapshots farm2 = [s]" "farm_snap (CHR ''b'') a 1 s" "db_bindings farm2 = []" using farm2_rows by blast
  have row: "workload_row farm2 id_b = Some a" using f(1,2) by (simp add: workload_row_def row_of_def farm_row_def)
  have load: "loadWorkloadTx farm2 id_b = Inr a" by (rule farm_row_loads[OF f(2) _ hex_chars(1) row]) simp
  have "dw_RunState (dw_Content a) = DesiredRunning" "dw_DesiredGeneration a = 1" using f(2) by (simp_all add: farm_row_def rig_fields)
  then have "BlockDesiredGeneration sv_d id_b 1 PROCESS_CRASHED ''exited'' farm2 = (touch 1 (farm2\<lparr>db_bindings := latch \<lparr>rb_WorkloadID = id_b,
      rb_BlockedGeneration = 1, rb_ErrorCode = PROCESS_CRASHED, rb_HumanMessage = ''exited'', rb_BlockedAt = unix_epoch + 5\<rparr> []\<rparr>), Inr ())"
    using load key_valid(1)[OF hex_chars(1)] f(6)
    by (simp add: BlockDesiredGeneration_def wrapped_def writeTx_def map_error_def)
  then show ?thesis using f by (simp add: farm3_def touch_def latch_def row_of_def)
qed

lemma farm4_rows: "\<exists>a. RetryWorkload sv_d id_b 1 farm3 = (farm4, Inr a)"
proof -
  obtain a b s l where f: "db_workloads farm3 = [a, b]" "farm_row (CHR ''b'') running_cpu a" "db_snapshots farm3 = [s]"
    "farm_snap (CHR ''b'') a 1 s" "db_bindings farm3 = [l]" "rb_WorkloadID l = id_b" "rb_BlockedGeneration l = 1"
    using farm3_rows by blast
  have a: "dw_WorkloadID a = id_b" "dw_RunState (dw_Content a) = DesiredRunning" "dw_DesiredGeneration a = 1" "meta_Revision (dw_Meta a) = 1"
    "dw_Resources (dw_Content a) = cpu_claim"
    using f(2) by (simp_all add: farm_row_def rig_fields newMeta_def)
  have row: "workload_row farm3 id_b = Some a" using f(1,2) by (simp add: workload_row_def row_of_def farm_row_def)
  have load: "loadWorkloadTx farm3 id_b = Inr a" by (rule farm_row_loads[OF f(2) _ hex_chars(1) row]) simp
  have s: "snapshot_key s = (id_b, 1)" "sn_Resources s = cpu_claim" "scanSnapshot s = None" "validateSnapshot (env_uni farm_env) s = None"
    "sn_ExecutionID s = farm_xid (CHR ''b'')"
    using f(4) a(1,5) by (simp_all add: farm_snap_def)
  have same: "s\<lparr>sn_Resources := cpu_claim\<rparr> = s" using s(2) by (cases s) simp
  have "loadDevices m (cl_DeviceIDs (sn_Resources s)) = None" for m by (simp add: s(2) cpu_claim_def loadDevices_def)
  then have "load_snapshot sv_d s = Inr s"
    unfolding load_snapshot_def Let_def s(2) claim_normal same using s(3,4) by (simp add: s(2))
  then have get: "getSnapshot sv_d farm3 id_b 1 = Inr s" using s(1) by (simp add: getSnapshot_def f(3) row_of_def)
  have x: "fresh_execution farm3 (Inr (farm_xid (CHR ''d''))) = Inr (farm_xid (CHR ''d''))"
    using s(5) by (simp add: fresh_execution_def f(3))
  let ?s = "retried_snapshot s 2 (farm_xid (CHR ''d'')) (unix_epoch + 5)"
  have "validateSnapshot (env_uni farm_env) ?s = None"
    by (rule retried_validates[OF s(4)]) (simp_all add: IsZero_def unix_epoch_def)
  moreover have "snapshot_key ?s = (id_b, 2)" "sn_ExecutionID ?s = farm_xid (CHR ''d'')"
    using s(1) by (simp_all add: retried_snapshot_def snapshot_key_def)
  ultimately obtain db1 where ins: "insertResolvedSnapshot sv_d farm3 ?s = Inr db1"
    using s(1,5) by (auto simp: insertResolvedSnapshot_def f(3))
  have "\<exists>db2. store_workload w db1 = Inr db2" if "meta_Revision (dw_Meta w) = 2" "dw_DesiredGeneration w = 2" for w
    using that by (auto simp: store_workload_def guard_def check_row_def fail_if_def)
  then obtain db2 where "store_workload (a\<lparr>dw_DesiredGeneration := 2, dw_Meta := (dw_Meta a)\<lparr>meta_Revision := 2,
      meta_UpdatedAt := unix_epoch + 5\<rparr>\<rparr>) db1 = Inr db2" by fastforce
  then have "\<exists>db w. RetryWorkload sv_d id_b 1 farm3 = (db, Inr w)"
    using load get x ins a key_valid(1)[OF hex_chars(1)] f(6,7)
    by (auto simp: RetryWorkload_def invalid_workload_id_def f(5) row_of_def Let_def guard_def fail_if_def wrapped_def writeTx_def map_error_def)
  then show ?thesis by (auto simp: farm4_def)
qed

section \<open>The theorems along the history\<close>

theorem calls_refine_machine_witness:
  "(event (env_uni farm_env))\<^sup>*\<^sup>* farm0 farm1 \<or> (\<exists>i. removal i farm0 farm1)"
  using calls_refine_machine[of sv_b farm0 "OpCreateDesiredWorkload running_cpu"] farm_reachable by (simp add: farm1_def)

theorem running_workloads_exclusive_witness:
  "\<exists>a b. a \<in> set (db_workloads farm2) \<and> b \<in> set (db_workloads farm2) \<and> dw_HostID (dw_Content a) = dw_HostID (dw_Content b)
    \<and> set (cl_DeviceIDs (dw_Resources (dw_Content a))) \<inter> set (cl_DeviceIDs (dw_Resources (dw_Content b))) = {}
    \<and> \<not> (cl_CPU (dw_Resources (dw_Content a)) \<and> cl_CPU (dw_Resources (dw_Content b)))"
proof -
  obtain a b where f: "db_workloads farm2 = [a, b]" "farm_row (CHR ''b'') running_cpu a" "farm_row (CHR ''c'') running_gpu b"
    using farm2_rows by blast
  then have "a \<in> set (db_workloads farm2)" "b \<in> set (db_workloads farm2)" "dw_WorkloadID a \<noteq> dw_WorkloadID b"
    "dw_HostID (dw_Content a) = dw_HostID (dw_Content b)" "dw_RunState (dw_Content a) = DesiredRunning"
    "dw_RunState (dw_Content b) = DesiredRunning"
    by (simp_all add: farm_row_def rig_fields)
  then show ?thesis using running_workloads_exclusive[OF farm_reachable(3), of a b] by blast
qed

theorem snapshots_append_only_witness:
  "\<exists>new. db_snapshots (perform sv_c (OpCreateDesiredWorkload running_gpu) farm1) = db_snapshots farm1 @ new"
  using snapshots_append_only[OF farm_reachable(2) _ farm_reachable(6), of "OpCreateDesiredWorkload running_gpu"] by auto

theorem current_snapshot_matches_workload_witness:
  "\<exists>w s. w \<in> set (db_workloads farm2) \<and> s \<in> set (db_snapshots farm2) \<and> sn_ResolvedHash s = dw_EffectiveHash w"
proof -
  obtain a b s where f: "db_workloads farm2 = [a, b]" "db_snapshots farm2 = [s]" "farm_snap (CHR ''b'') a 1 s"
    "farm_row (CHR ''b'') running_cpu a" using farm2_rows by blast
  then have "a \<in> set (db_workloads farm2)" "s \<in> set (db_snapshots farm2)" "sn_WorkloadID s = dw_WorkloadID a"
    "sn_DesiredGeneration s = dw_DesiredGeneration a"
    by (simp_all add: farm_snap_def snapshot_key_def farm_row_def)
  then show ?thesis using current_snapshot_matches_workload[OF farm_reachable(3), of a s] by blast
qed

theorem generations_advance_witness:
  "\<exists>w w'. workload_row farm1 id_b = Some w \<and> workload_row farm2 id_b = Some w' \<and> dw_DesiredGeneration w \<le> dw_DesiredGeneration w'"
proof -
  obtain a where f1: "db_workloads farm1 = [a]" "farm_row (CHR ''b'') running_cpu a" using farm1_rows by blast
  obtain a2 b2 where f2: "db_workloads farm2 = [a2, b2]" "farm_row (CHR ''b'') running_cpu a2" using farm2_rows by blast
  have "workload_row farm1 id_b = Some a" "workload_row farm2 id_b = Some a2"
    using f1 f2 by (simp_all add: workload_row_def row_of_def farm_row_def)
  then show ?thesis
    using generations_advance[OF farm_reachable(2) _ farm_reachable(6), of id_b a "OpCreateDesiredWorkload running_gpu" a2]
    by (simp add: farm2_def)
qed

theorem latches_belong_to_workloads_witness:
  "\<exists>l w. l \<in> set (db_bindings farm3) \<and> workload_row farm3 (rb_WorkloadID l) = Some w \<and> rb_BlockedGeneration l \<le> dw_DesiredGeneration w"
proof -
  obtain l where "l \<in> set (db_bindings farm3)" using farm3_rows by auto
  then show ?thesis using latches_belong_to_workloads[OF farm_reachable(4), of l] by blast
qed

theorem changes_are_counted_witness:
  "db_persistent_revision farm1 \<le> db_persistent_revision farm2"
  using changes_are_counted[OF farm_reachable(2) _ farm_reachable(6), of "OpCreateDesiredWorkload running_gpu"] by (simp add: farm2_def)


theorem no_hold_update_lost_witness:
  "\<exists>db. updates (\<lambda>(sv, a, t) n db. SetMaintenanceHold sv (HostID (demo_id ''host'')) n a t db) (hold_revision (HostID (demo_id ''host'')))
      farm0 [0] db \<and> distinct [0 :: uint64]"
proof -
  have "\<exists>db x. SetMaintenanceHold sv_b (HostID (demo_id ''host'')) 0 True ''x'' farm0 = (db, Inr x)
      \<and> hold_revision (HostID (demo_id ''host'')) db = Some 1"
    by (simp add: SetMaintenanceHold_def prepare_def guard_def first_error_None invalid_host_def host_id.check_text demo_id_valid
        ValidateMaintenanceReason_def require_def ContainsAny_def ascii_valid is_ascii_def farm0_def row_of_def fail_if_def
        wrapped_def writeTx_def map_error_def Let_def hold_revision_def touch_def)
  then obtain db x where "SetMaintenanceHold sv_b (HostID (demo_id ''host'')) 0 True ''x'' farm0 = (db, Inr x)"
    "hold_revision (HostID (demo_id ''host'')) db = Some 1" by blast
  then have "updates (\<lambda>(sv, a, t) n db. SetMaintenanceHold sv (HostID (demo_id ''host'')) n a t db) (hold_revision (HostID (demo_id ''host'')))
      farm0 ([] @ [0]) db"
    by (intro updates.effective[OF updates.start, of _ "(sv_b, True, ''x'')"]) (simp_all add: hold_revision_def farm0_def row_of_def)
  then show ?thesis using no_hold_update_lost by fastforce
qed

theorem resolved_snapshot_validates_witness:
  "\<exists>r w s. Resolver_Resolve farm_env (farm_inputs w) = Inr r
    \<and> Resolver_Snapshot r (farm_inputs w) (farm_xid (CHR ''b'')) 1 5 = Inr s \<and> validateSnapshot (env_uni farm_env) s = None"
proof -
  obtain w where w: "farm_row (CHR ''b'') running_cpu w" using farm1_rows by blast
  then have c: "dw_Content w = running_cpu" "dw_WorkloadID w = id_b" by (simp_all add: farm_row_def)
  then obtain r where r: "Resolver_Resolve farm_env (farm_inputs w) = Inr r" "rs_Content r = resolved_content (farm_inputs w) demo_endpoint"
    using farm_resolves[of w] by auto
  have "rr_RunState (rs_Content r) = DesiredRunning"
    by (simp add: r(2) c resolved_content_def farm_inputs_def farm_fields Let_def rig_fields)
  then obtain s where s: "Resolver_Snapshot r (farm_inputs w) (farm_xid (CHR ''b'')) 1 5 = Inr s"
    using key_valid(2)[OF hex_chars(1)] by (simp add: Resolver_Snapshot_def)
  have "validateSnapshot (env_uni farm_env) s = None"
    by (rule resolved_snapshot_validates[OF r(1) s])
      (use key_valid(1)[OF hex_chars(1)] in \<open>simp_all add: farm_inputs_def farm_fields IsZero_def c\<close>)
  then show ?thesis using r(1) s by blast
qed

theorem failed_calls_change_nothing_witness:
  "outcome sv_b (OpDeletePool (PoolID (demo_id ''pool'')) 1) farm0 \<noteq> None
    \<and> perform sv_b (OpDeletePool (PoolID (demo_id ''pool'')) 1) farm0 = farm0"
proof -
  have "fetch ''Pool'' (row_of pool_PoolID (PoolID (demo_id ''pool'')) (db_pools farm0)) (scanPool sv_b) = Inr farm_pool"
    by (simp add: farm0_def row_of_def farm_fields fetch_def farm_pool_scan)
  then have "outcome sv_b (OpDeletePool (PoolID (demo_id ''pool'')) 1) farm0
      = Some (typed_cause REFERENCE_IN_USE ''Pool is referenced by a MiningProfile'' None)"
    by (simp add: failure_def DeletePool_def prepare_def guard_def valid_id_def pool_id.check_text demo_id_valid wrapped_def writeTx_def
        map_error_def expect_revision_def fail_if_def farm_fields wrapDB_def typed_cause_def)
      (simp add: farm0_def farm_fields)
  then show ?thesis using failed_calls_change_nothing[of sv_b "OpDeletePool (PoolID (demo_id ''pool'')) 1" farm0] by simp
qed

theorem block_latches_current_generation_witness:
  "map_option rb_BlockedGeneration (row_of rb_WorkloadID id_b (db_bindings farm3)) = Some 1"
proof -
  obtain a b where "BlockDesiredGeneration sv_d id_b 1 PROCESS_CRASHED ''exited'' farm2 = (farm3, Inr ())" using farm3_rows by blast
  note block_latches_current_generation[OF this]
  moreover obtain a b where "db_workloads farm2 = [a, b]" "farm_row (CHR ''b'') running_cpu a" using farm2_rows by blast
  then have "workload_row farm2 id_b = Some a" "dw_RunState (dw_Content a) = DesiredRunning" "dw_DesiredGeneration a = 1"
    by (simp_all add: workload_row_def row_of_def farm_row_def rig_fields)
  ultimately show ?thesis by auto
qed


lemma stopped_farm: "\<exists>db w. CreateDesiredWorkload sv_b (rig DesiredStopped cpu_claim) farm0 = (db, Inr w) \<and> db_workloads db = [w]
    \<and> farm_row (CHR ''b'') (rig DesiredStopped cpu_claim) w \<and> db_snapshots db = []"
proof -
  have free: "checkResourceConflict farm0 w no_workload = None" for w
    by (simp add: checkResourceConflict_def farm0_def Let_def list_ex_iff)
  have "farm_objects farm0" by (simp add: farm_objects_def farm0_def)
  from farm_create[OF this _ hex_chars(1) _ _ _ free, of "rig DesiredStopped cpu_claim"] show ?thesis
    by (auto simp: farm0_def workload_row_def row_of_def snapshots_of_def rig_fields)
qed

theorem delete_needs_retirement_witness:
  "\<exists>db db'. DeleteDesiredWorkload sv_c id_b 1 db = (db', Inr ()) \<and> workload_row db id_b \<noteq> None \<and> workload_row db' id_b = None"
proof -
  obtain db :: DB and w :: DesiredWorkload where f: "db_workloads db = [w]" "farm_row (CHR ''b'') (rig DesiredStopped cpu_claim) w" "db_snapshots db = []"
    using stopped_farm by blast
  have row: "workload_row db id_b = Some w" using f(1,2) by (simp add: workload_row_def row_of_def farm_row_def)
  have load: "loadWorkloadTx db id_b = Inr w" by (rule farm_row_loads[OF f(2) _ hex_chars(1) row]) simp
  have "dw_RunState (dw_Content w) = DesiredStopped" "meta_Revision (dw_Meta w) = 1"
    using f(2) by (simp_all add: farm_row_def rig_fields newMeta_def)
  then have "\<exists>db'. DeleteDesiredWorkload sv_c id_b 1 db = (db', Inr ())"
    using load f(3) key_valid(1)[OF hex_chars(1)]
    by (simp add: DeleteDesiredWorkload_def invalid_workload_id_def guard_def fail_if_def wrapped_def writeTx_def map_error_def)
  then show ?thesis using delete_needs_retirement row by fastforce
qed

theorem update_starts_generation_witness:
  "\<exists>db w. UpdateDesiredWorkload sv_c id_b 1 (rig DesiredStopped cpu_claim) farm1 = (db, Inr w)
    \<and> (db = farm1 \<or> dw_RunState (dw_Content w) = DesiredStopped)"
proof -
  let ?c = "rig DesiredStopped cpu_claim"
  obtain a s where f: "db_workloads farm1 = [a]" "farm_row (CHR ''b'') running_cpu a" "farm_objects farm1" using farm1_rows by blast
  have row: "workload_row farm1 id_b = Some a" using f(1,2) by (simp add: workload_row_def row_of_def farm_row_def)
  have load: "loadWorkloadTx farm1 id_b = Inr a" by (rule farm_row_loads[OF f(2) _ hex_chars(1) row]) simp
  have a: "meta_Revision (dw_Meta a) = 1" "dw_Content a = running_cpu" "dw_DesiredGeneration a = 1"
    using f(2) by (simp_all add: farm_row_def newMeta_def)
  obtain h where h: "DesiredWorkloadHash ?c = Inr h" using runnable_hash[of ?c] by auto
  have "\<exists>db w. change_workload sv_c farm1 id_b 1 ?c h = Inr (db, w)"
  proof (cases "meta_ContentHash (dw_Meta a) = h")
    case True
    then show ?thesis using load a by (simp add: change_workload_def guard_def fail_if_def rig_fields)
  next
    case False
    define u where "u = updated_row sv_c a ?c h"
    have u: "dw_Content u = ?c" "dw_DesiredGeneration u = 1" "meta_Revision (dw_Meta u) = 2"
      by (simp_all add: u_def updated_row_def a bump_meta_def)
    obtain r :: Result where r: "resolveWorkload sv_c farm1 u = Inr (farm_inputs u, r)"
      using farm_resolveWorkload[OF f(3), of u sv_c] by (auto simp: u rig_fields cpu_claim_def)
    have "\<exists>db. store_workload w x = Inr db" if "meta_Revision (dw_Meta w) = 2" "dw_DesiredGeneration w \<in> {1, 2}" for w x
      using that by (auto simp: store_workload_def guard_def check_row_def fail_if_def)
    moreover have "meta_Revision (dw_Meta (next_generation (rs_Hash r) u)) = 2" "dw_DesiredGeneration (next_generation (rs_Hash r) u) \<in> {1, 2}"
      by (simp_all add: next_generation_def u)
    ultimately obtain x where "store_workload (next_generation (rs_Hash r) u)
        (touch (device_rows a + device_rows (next_generation (rs_Hash r) u)) farm1) = Inr x" by blast
    moreover have "dw_RunState (dw_Content (next_generation (rs_Hash r) u)) = DesiredStopped" by (simp add: next_generation_def u rig_fields)
    ultimately show ?thesis using load a False r
      by (cases "rs_Hash r = dw_EffectiveHash a") (simp_all add: change_workload_rows u_def[symmetric] guard_def fail_if_def rig_fields checkResourceConflict_def u snapshot_if_ready_def Let_def)
  qed
  then obtain db w where "UpdateDesiredWorkload sv_c id_b 1 ?c farm1 = (db, Inr w)"
    using runnable_normal[of ?c] runnable_valid[of ?c] key_valid(1)[OF hex_chars(1)] h
    by (auto simp: UpdateDesiredWorkload_def Let_def invalid_workload_id_def wrapped_def writeTx_def map_error_def)
  moreover note update_starts_generation[OF this]
  moreover have "dw_RunState (normalize_content ?c) = DesiredStopped" by (simp add: normalize_content_def rig_fields)
  ultimately show ?thesis by (metis (no_types, lifting))
qed

section \<open>An incident\<close>

definition offline :: IncidentCondition where
  "offline = NewCondition IncidentAgentOffline IncidentSeverityWarning (HostID (demo_id ''host'')) None None None RPC_UNREACHABLE"

lemma offline_fields: "ic_HostID offline = HostID (demo_id ''host'')" "scope_condition offline = offline"
  by (simp_all add: offline_def NewCondition_def scope_condition_def Let_def)

lemma offline_valid: "ValidateIncidentCondition offline = None"
  unfolding offline_def by (rule NewCondition_valid) (simp_all add: scoped_def host_id.check_text demo_id_valid)

lemma authority_hex: "invalid_authority (incidentAuthorityTx db host) = None"
proof -
  have "list_all is_hex_any (EncodeToString bs)" for bs
    using EncodeToString_hex[of bs] by (auto simp: list_all_iff is_hex_any_def)
  then show ?thesis by (simp add: invalid_authority_def incidentAuthorityTx_def hex_decodable_def)
qed

lemma offline_recorded:
  "\<exists>db. ReconcileIncidents sv_b (HostID (demo_id ''host'')) (incidentAuthorityTx farm0 (HostID (demo_id ''host''))) [offline] (\<lambda>_. True) farm0
     = (db, Inr ())"
  using offline_valid authority_hex[of farm0 "HostID (demo_id ''host'')"]
  by (simp add: ReconcileIncidents_def prepare_def guard_def first_error_None invalid_incident_host_def host_id.check_text demo_id_valid
      offline_fields wrapped_def writeTx_def map_error_def fail_if_def resolve_absent_def touch_def)
    (simp add: farm0_def activate_def row_of_def Let_def)

text \<open>The same Host under a hold; a pool that is gone is not among the facts.\<close>

definition held_farm :: DB where
  "held_farm = farm0\<lparr>db_holds := [\<lparr>mh_HostID = HostID (demo_id ''host''), mh_Active = True, mh_Revision = 3, mh_Reason = [],
     mh_CreatedAt = 1, mh_UpdatedAt = 1\<rparr>]\<rparr>"

lemma held_recorded:
  "\<exists>db. ReconcileIncidents sv_b (HostID (demo_id ''host'')) (incidentAuthorityTx held_farm (HostID (demo_id ''host''))) [offline] (\<lambda>_. True) held_farm
     = (db, Inr ())"
  using offline_valid authority_hex[of held_farm "HostID (demo_id ''host'')"]
  by (simp add: ReconcileIncidents_def prepare_def guard_def first_error_None invalid_incident_host_def host_id.check_text demo_id_valid
      offline_fields wrapped_def writeTx_def map_error_def fail_if_def resolve_absent_def touch_def)
    (simp add: held_farm_def farm0_def activate_def row_of_def Let_def)

theorem recorded_under_same_facts_witness:
  "\<exists>earlier db. ReconcileIncidents sv_b (HostID (demo_id ''host'')) (incidentAuthorityTx earlier (HostID (demo_id ''host''))) [offline]
     (\<lambda>_. True) held_farm = (db, Inr ()) \<and> earlier \<noteq> held_farm
     \<and> seen_hold earlier (HostID (demo_id ''host'')) = Some (True, 3) \<and> seen_latches earlier (HostID (demo_id ''host'')) = {}"
proof -
  let ?h = "HostID (demo_id ''host'')" and ?earlier = "held_farm\<lparr>db_pools := []\<rparr>"
  have three: "dec_digits 3 = [char_of (51 :: nat)]" by (subst dec_digits.simps) simp
  have facts: "authority_facts held_farm ?h = [[''HOST'', demo_id ''host''], [''HOLD'', ''true'', [char_of (51 :: nat)]]]"
    "authority_facts ?earlier ?h = [[''HOST'', demo_id ''host''], [''HOLD'', ''true'', [char_of (51 :: nat)]]]"
    by (simp_all add: authority_facts_def held_farm_def farm0_def row_of_def host_workloads_def host_snapshots_def host_bindings_def
        FormatBool_def FormatUint_def three)
  then have same: "incidentAuthorityTx ?earlier ?h = incidentAuthorityTx held_farm ?h" by (simp add: incidentAuthorityTx_def)
  obtain db where db: "ReconcileIncidents sv_b ?h (incidentAuthorityTx ?earlier ?h) [offline] (\<lambda>_. True) held_farm = (db, Inr ())"
    using held_recorded same by auto
  have "length (demo_id ''host'') = 37" by (simp add: demo_id_def)
  then have small: "list_all (list_all framable) (authority_facts ?earlier ?h)" "list_all (list_all framable) (authority_facts held_farm ?h)"
    by (simp_all add: facts)
  have "\<not> authority_collision (authority_facts held_farm ?h) (authority_facts ?earlier ?h)" by (simp add: authority_collision_def facts)
  note seen = recorded_under_same_facts[OF db small this]
  have now: "seen_hold held_farm ?h = Some (True, 3)" "seen_latches held_farm ?h = {}"
    by (simp_all add: seen_hold_def seen_latches_def latches_of_def held_farm_def farm0_def row_of_def)
  have "seen_hold ?earlier ?h = Some (True, 3)" "seen_latches ?earlier ?h = {}" using seen unfolding now by simp_all
  moreover have "?earlier \<noteq> held_farm" by (simp add: held_farm_def farm0_def)
  ultimately show ?thesis using db by blast
qed

theorem recorded_evaluation_rows_witness:
  "\<exists>db. incident_row db (ic_IncidentID offline) = Some (first_occurrence (unix_epoch + 5) offline)"
proof -
  obtain db where db: "ReconcileIncidents sv_b (HostID (demo_id ''host'')) (incidentAuthorityTx farm0 (HostID (demo_id ''host''))) [offline]
      (\<lambda>_. True) farm0 = (db, Inr ())" using offline_recorded by blast
  have "incident_row farm0 (ic_IncidentID offline) = None" by (simp add: farm0_def row_of_def)
  then show ?thesis using recorded_evaluation_rows[OF db, of "ic_IncidentID offline"] by (auto simp: present_row_def)
qed

end
