(* ===== verification/Go_Paths.thy ===== *)
theory Go_Paths
  imports Go_Strings
begin

text \<open>
  The lexical part of Go's \<open>path/filepath\<close> on Unix, as far as the sources use it:
  \<open>IsAbs\<close>, \<open>Clean\<close> and \<open>Base\<close>, and what the sources ask of the file system (\<open>os.Stat\<close>),
  which is an argument of the definitions that use it.
\<close>

section \<open>Components\<close>

fun split_on :: "char \<Rightarrow> string \<Rightarrow> string list" where
  "split_on c [] = [[]]"
| "split_on c (x # xs) = (if x = c then [] # split_on c xs
     else (case split_on c xs of [] \<Rightarrow> [[x]] | y # ys \<Rightarrow> (x # y) # ys))"

definition slash :: char where
  "slash = CHR 0x2F"

definition dot :: string where
  "dot = [CHR 0x2E]"

definition dotdot :: string where
  "dotdot = [CHR 0x2E, CHR 0x2E]"

definition IsAbs :: "string \<Rightarrow> bool" where
  "IsAbs p \<longleftrightarrow> (\<exists>r. p = slash # r)"

lemma IsAbs_code [code, simp]: "IsAbs [] = False" "IsAbs (c # r) = (c = slash)"
  by (auto simp: IsAbs_def)

text \<open>
  \<open>filepath.Clean\<close> reads the elements from left to right and keeps those of the result: an
  empty element and \<open>.\<close> are dropped, \<open>..\<close> removes the element before it, is kept when
  there is none left to remove in a relative path and is dropped at the root.
\<close>

fun clean_step :: "bool \<Rightarrow> string list \<Rightarrow> string \<Rightarrow> string list" where
  "clean_step rooted st e =
     (if e = [] \<or> e = dot then st
      else if e = dotdot then
        (if st \<noteq> [] \<and> last st \<noteq> dotdot then butlast st else if rooted then st else st @ [e])
      else st @ [e])"

definition clean_elems :: "bool \<Rightarrow> string list \<Rightarrow> string list" where
  "clean_elems rooted es = foldl (clean_step rooted) [] es"

definition Clean :: "string \<Rightarrow> string" where
  "Clean p =
     (if p = [] then dot
      else if IsAbs p then slash # Join (clean_elems True (split_on slash p)) [slash]
      else (let es = clean_elems False (split_on slash p) in if es = [] then dot else Join es [slash]))"

text \<open>\<open>filepath.Base\<close>: the last element, with the slashes after it removed first.\<close>

definition Base :: "string \<Rightarrow> string" where
  "Base p =
     (if p = [] then dot
      else (let q = rev (dropWhile (\<lambda>c. c = slash) (rev p)) in
        if q = [] then [slash] else last (split_on slash q)))"

section \<open>Files\<close>

record FileInfo =
  fi_IsRegular :: bool
  fi_IsDir :: bool
  fi_Perm :: "9 word"

type_synonym file_system = "string \<Rightarrow> string + FileInfo"

section \<open>Cleaning is idempotent\<close>

text \<open>A list of elements is normal when no cleaning step removes anything.\<close>

definition plain_elem :: "string \<Rightarrow> bool" where
  "plain_elem e \<longleftrightarrow> e \<noteq> [] \<and> e \<noteq> dot \<and> e \<noteq> dotdot \<and> slash \<notin> set e"

definition normal_elems :: "bool \<Rightarrow> string list \<Rightarrow> bool" where
  "normal_elems rooted es \<longleftrightarrow>
     (\<exists>n xs. es = replicate n dotdot @ xs \<and> list_all plain_elem xs \<and> (rooted \<longrightarrow> n = 0))"

lemma split_on_ne [simp]: "split_on c s \<noteq> []"
  by (induction s) (auto split: list.splits)

lemma split_on_no_sep: "e \<in> set (split_on c s) \<Longrightarrow> c \<notin> set e"
  by (induction s arbitrary: e) (auto split: list.splits if_splits)

lemma split_on_plain: "c \<notin> set e \<Longrightarrow> split_on c e = [e]"
  by (induction e) auto

lemma split_on_append: "c \<notin> set e \<Longrightarrow> split_on c (e @ c # s) = e # split_on c s"
  by (induction e) auto

lemma split_on_Join:
  assumes "es \<noteq> []" "\<forall>e\<in>set es. c \<notin> set e"
  shows "split_on c (Join es [c]) = es"
  using assms by (induction es "[c]" rule: Join.induct) (auto simp: split_on_plain split_on_append)

lemma plain_not_dots [simp]: "\<not> plain_elem dotdot" "\<not> plain_elem dot" "\<not> plain_elem []"
  by (auto simp: plain_elem_def)

lemma dots_distinct [simp]: "dotdot \<noteq> []" "dot \<noteq> []" "dot \<noteq> dotdot" "dotdot \<noteq> dot"
  by (auto simp: dot_def dotdot_def)

lemma slash_not_dots [simp]: "slash \<notin> set dot" "slash \<notin> set dotdot"
  by (auto simp: slash_def dot_def dotdot_def)

declare clean_step.simps [simp del]

lemma clean_step_simps [simp]:
  "clean_step r st [] = st" "clean_step r st dot = st"
  "plain_elem e \<Longrightarrow> clean_step r st e = st @ [e]"
  "plain_elem y \<Longrightarrow> clean_step r (st @ [y]) dotdot = st"
  "clean_step True [] dotdot = []"
  by (auto simp: clean_step.simps plain_elem_def)

lemma clean_step_up:
  "clean_step False (replicate m dotdot) dotdot = replicate (Suc m) dotdot"
proof -
  show ?thesis by (cases m) (auto simp: clean_step.simps replicate_append_same last_replicate simp del: replicate_Suc,
      simp_all)
qed

lemma normal_elemsI:
  "list_all plain_elem xs \<Longrightarrow> r \<longrightarrow> n = 0 \<Longrightarrow> normal_elems r (replicate n dotdot @ xs)"
  by (auto simp: normal_elems_def)

lemma clean_step_normal:
  assumes "normal_elems rooted st" "slash \<notin> set e"
  shows "normal_elems rooted (clean_step rooted st e)"
proof -
  obtain n xs where st: "st = replicate n dotdot @ xs" "list_all plain_elem xs" "rooted \<longrightarrow> n = 0"
    using assms(1) by (auto simp: normal_elems_def)
  consider "e = [] \<or> e = dot" | "e = dotdot" "xs = []" | ys y where "e = dotdot" "xs = ys @ [y]" | "plain_elem e"
    using assms(2) by (cases xs rule: rev_cases) (auto simp: plain_elem_def)
  then show ?thesis
  proof cases
    case 2
    show ?thesis
    proof (cases rooted)
      case True
      then show ?thesis using 2 st by (simp add: normal_elems_def)
    next
      case False
      then show ?thesis using 2 st clean_step_up[of n] normal_elemsI[of "[]" False "Suc n"] by simp
    qed
  next
    case 3
    then have "clean_step rooted st e = replicate n dotdot @ ys"
      using st clean_step_simps(4)[of y rooted "replicate n dotdot @ ys"] by simp
    then show ?thesis using 3 st by (auto intro: normal_elemsI)
  next
    case 4
    then show ?thesis using st normal_elemsI[of "xs @ [e]" rooted n] by simp
  qed (use assms(1) in auto)
qed

lemma clean_elems_normal:
  assumes "\<forall>e\<in>set es. slash \<notin> set e"
  shows "normal_elems rooted (clean_elems rooted es)"
proof -
  have "normal_elems rooted st \<Longrightarrow> normal_elems rooted (foldl (clean_step rooted) st es)" for st
    using assms by (induction es arbitrary: st) (auto intro: clean_step_normal)
  then show ?thesis by (simp add: clean_elems_def normal_elems_def)
qed

lemma clean_ups:
  "foldl (clean_step False) (replicate m dotdot) (replicate n dotdot) = replicate (m + n) dotdot"
proof (induction n arbitrary: m)
  case (Suc n)
  have "foldl (clean_step False) (replicate m dotdot) (replicate (Suc n) dotdot)
      = foldl (clean_step False) (replicate (Suc m) dotdot) (replicate n dotdot)"
    using clean_step_up[of m] by simp
  then show ?case using Suc.IH[of "Suc m"] by simp
qed simp

lemma clean_normal:
  assumes "normal_elems rooted es"
  shows "clean_elems rooted es = es"
proof -
  obtain n xs where es: "es = replicate n dotdot @ xs" "list_all plain_elem xs" "rooted \<longrightarrow> n = 0"
    using assms by (auto simp: normal_elems_def)
  have tail: "foldl (clean_step rooted) st xs = st @ xs" for st
    using es(2) by (induction xs arbitrary: st) auto
  show ?thesis using es clean_ups[of 0 n] tail by (cases rooted) (simp_all add: clean_elems_def)
qed

lemma clean_skips_empty: "clean_elems rooted ([] # es) = clean_elems rooted es"
  by (simp add: clean_elems_def)

lemma normal_elem:
  assumes "normal_elems rooted es" "e \<in> set es"
  shows "slash \<notin> set e \<and> e \<noteq> []"
proof -
  obtain n xs where "es = replicate n dotdot @ xs" "list_all plain_elem xs"
    using assms(1) by (auto simp: normal_elems_def)
  then have "e = dotdot \<or> plain_elem e"
    using assms(2) by (auto simp: list_all_iff set_replicate_conv_if split: if_splits)
  then show ?thesis by (auto simp: plain_elem_def)
qed

lemma Join_ne: "es \<noteq> [] \<Longrightarrow> \<forall>e\<in>set es. e \<noteq> [] \<Longrightarrow> Join es s \<noteq> []"
  by (induction es s rule: Join.induct) auto

lemma hd_Join: "es \<noteq> [] \<Longrightarrow> hd es \<noteq> [] \<Longrightarrow> hd (Join es s) = hd (hd es)"
  by (induction es s rule: Join.induct) auto

text \<open>Cleaning a path is idempotent: a cleaned path is its own clean form.\<close>

theorem Clean_idempotent: "Clean (Clean p) = Clean p"
proof -
  define es where "es = clean_elems (IsAbs p) (split_on slash p)"
  have n: "normal_elems (IsAbs p) es"
    unfolding es_def by (rule clean_elems_normal) (use split_on_no_sep in blast)
  have sp: "split_on slash (Join es [slash]) = es" if "es \<noteq> []"
    using that n by (intro split_on_Join) (auto dest: normal_elem)
  have J: "split_on slash (Join [] [slash]) = [[]]" by simp
  show ?thesis
  proof (cases "p = [] \<or> (\<not> IsAbs p \<and> es = [])")
    case True
    have "Clean dot = dot"
      by (simp add: Clean_def split_on_plain clean_elems_def) (simp add: dot_def slash_def)
    then show ?thesis using True by (auto simp: Clean_def es_def Let_def)
  next
    case False
    show ?thesis
    proof (cases "IsAbs p")
      case True
      have "clean_elems True (split_on slash (slash # Join es [slash])) = es"
      proof (cases "es = []")
        case True
        then show ?thesis by (simp add: clean_elems_def)
      next
        case ne: False
        then show ?thesis using sp[OF ne] clean_normal[OF n] True by (simp add: clean_skips_empty)
      qed
      then show ?thesis using True False by (simp add: Clean_def es_def)
    next
      case rel: False
      have ne: "es \<noteq> []" and pn: "p \<noteq> []" using False rel by auto
      have h: "hd es \<noteq> [] \<and> slash \<notin> set (hd es)"
        using normal_elem[OF n hd_in_set[OF ne]] by blast
      have jn: "Join es [slash] \<noteq> []" by (rule Join_ne[OF ne]) (use normal_elem[OF n] in blast)
      have "hd (Join es [slash]) \<noteq> slash"
        using hd_Join[OF ne] h by (metis hd_in_set)
      then have "\<not> IsAbs (Join es [slash])" using jn by (cases "Join es [slash]") auto
      then show ?thesis using rel ne pn jn sp[OF ne] clean_normal[OF n]
        by (simp add: Clean_def Let_def es_def)
    qed
  qed
qed

end
