(* ===== verification/Agent_Supervisor.thy ===== *)
theory Agent_Supervisor
  imports Farm_Types Go_Paths "HOL-Library.AList"
begin

text \<open>
  \<open>internal/runtime/supervisor/supervisor_linux.go\<close>: the owner of the miner processes of one
  Host. Every operation of the Supervisor is a sequence of sections that run under its mutex,
  with blocking calls between them (the start validator, the exit of a process, a timer, the
  end of a stop). Here each section is one function on the state; \<open>Supervisor_Tasks\<close> composes
  them into goroutines that interleave.

  Go identities become numbers drawn from a counter: the \<open>*exec.Cmd\<close> of a process and the
  channels \<open>done\<close> and \<open>backoffCancel\<close>. What the operating system answers (file status, the
  outcome of \<open>cmd.Start\<close>, exit codes, the clock, \<open>/proc\<close>) is an argument.
\<close>

section \<open>State\<close>

definition defaultTail :: int where
  "defaultTail = 64 * 1024"

abbreviation Second :: Duration where
  "Second \<equiv> 1000000000"

record Config =
  cf_StopGrace :: Duration
  cf_RestartInitial :: Duration
  cf_RestartMax :: Duration
  cf_CrashLimit :: int
  cf_CrashWindow :: Duration
  cf_TailBytes :: int

record ExecSnapshot =
  sn_ExecutionID :: ExecutionID
  sn_Ownership :: WorkloadOwnership
  sn_State :: ExecutionStatus
  sn_PID :: int
  sn_StartedAt :: Time
  sn_ExitCode :: "int option"
  sn_RestartCount :: uint32
  sn_ProcessInstance :: string
  sn_LastError :: string
  sn_Stdout :: string
  sn_Stderr :: string

record tail_buffer =
  tl_max :: int
  tl_buf :: string

record execution =
  xe_plan :: ExecutionPlan
  xe_state :: ExecutionStatus
  xe_cmd :: "nat option"
  xe_pid :: int
  xe_started :: Time
  xe_processInstance :: string
  xe_exitCode :: "int option"
  xe_restarts :: uint32
  xe_lastErr :: string
  xe_stdout :: tail_buffer
  xe_stderr :: tail_buffer
  xe_desired :: bool
  xe_done :: "nat option"
  xe_generation :: uint64
  xe_crashes :: "Time list"
  xe_backoffCancel :: "nat option"

text \<open>
  \<open>su_startValidator\<close> says whether a start validator is installed; the function itself is the
  client's. \<open>su_next\<close> is the counter of identities; \<open>su_doneClosed\<close> and \<open>su_cancelClosed\<close> are the
  \<open>done\<close> and \<open>backoffCancel\<close> channels closed so far.
\<close>

record Supervisor =
  su_cfg :: Config
  su_executions :: "(ExecutionID \<times> execution) list"
  su_startValidator :: bool
  su_maintenance :: bool
  su_holdRevision :: uint64
  su_closed :: bool
  su_next :: nat
  su_doneClosed :: "nat list"
  su_cancelClosed :: "nat list"

section \<open>Output tails\<close>

definition keep_last :: "int \<Rightarrow> string \<Rightarrow> string" where
  "keep_last n s = (if int (length s) > n then drop (nat (int (length s) - n)) s else s)"

definition tail_Write :: "tail_buffer \<Rightarrow> string \<Rightarrow> tail_buffer \<times> int" where
  "tail_Write w p = (w\<lparr>tl_buf := keep_last (tl_max w) (tl_buf w @ p)\<rparr>, int (length p))"

definition tail_String :: "tail_buffer \<Rightarrow> string" where
  "tail_String w = tl_buf w"

section \<open>Construction\<close>

definition default_to :: "int \<Rightarrow> int \<Rightarrow> int" where
  "default_to d x = (if x \<le> 0 then d else x)"

definition New :: "Config \<Rightarrow> Supervisor" where
  "New cfg = \<lparr>su_cfg = \<lparr>cf_StopGrace = default_to (5 * Second) (cf_StopGrace cfg),
       cf_RestartInitial = default_to Second (cf_RestartInitial cfg),
       cf_RestartMax = default_to (30 * Second) (cf_RestartMax cfg),
       cf_CrashLimit = default_to 5 (cf_CrashLimit cfg),
       cf_CrashWindow = default_to (10 * 60 * Second) (cf_CrashWindow cfg),
       cf_TailBytes = default_to defaultTail (cf_TailBytes cfg)\<rparr>,
     su_executions = [], su_startValidator = False, su_maintenance = False, su_holdRevision = 0,
     su_closed = False, su_next = 0, su_doneClosed = [], su_cancelClosed = []\<rparr>"

definition SetStartValidator :: "bool \<Rightarrow> Supervisor \<Rightarrow> Supervisor" where
  "SetStartValidator v s = s\<lparr>su_startValidator := v\<rparr>"

section \<open>Validation of a plan\<close>

definition typed :: "Code \<Rightarrow> string \<Rightarrow> string option \<Rightarrow> error" where
  "typed code msg err = Typed (mk_error code msg
     (case err of None \<Rightarrow> Map.empty | Some r \<Rightarrow> [''reason'' \<mapsto> r]))"

definition shells :: "string list" where
  "shells = [''sh'', ''bash'', ''dash'', ''zsh'', ''ksh'']"

definition valid_entry :: "string \<Rightarrow> string \<Rightarrow> bool" where
  "valid_entry k v \<longleftrightarrow> \<not> (k = [] \<or> length k > 128 \<or> length v > 8192 \<or> ContainsNul k \<or> CHR ''='' \<in> set k \<or> ContainsNul v)"

text \<open>The loop over the environment map, in the order \<open>ks\<close> in which the runtime yields its keys.\<close>

fun check_environment :: "(string \<rightharpoonup> string) \<Rightarrow> string list \<Rightarrow> nat \<Rightarrow> error option" where
  "check_environment env [] used = None"
| "check_environment env (k # ks) used =
     (let v = (case env k of None \<Rightarrow> [] | Some v \<Rightarrow> v) in
      if \<not> valid_entry k v then Some (typed CONFIG_CONFLICT ''environment entry is invalid'' None)
      else (let used = used + (length k + length v + 1) in
        if used > 32 * 1024 then Some (typed CONFIG_CONFLICT ''environment is too large'' None)
        else check_environment env ks used))"

definition executable_perm :: "FileInfo \<Rightarrow> bool" where
  "executable_perm i \<longleftrightarrow> and (fi_Perm i) 0x49 \<noteq> 0"

definition check_executable :: "file_system \<Rightarrow> string \<Rightarrow> error option" where
  "check_executable stat exe =
     (if exe = [] \<or> \<not> IsAbs exe \<or> Clean exe \<noteq> exe \<or> ContainsNul exe
      then Some (typed CONFIG_CONFLICT ''executable must be a clean absolute path'' None)
      else if Base exe \<in> set shells
      then Some (typed CONFIG_CONFLICT ''shell executables are not allowed'' None)
      else (case stat exe of
        Inl e \<Rightarrow> Some (typed MISSING_COMMAND ''executable is unavailable'' (Some e))
      | Inr info \<Rightarrow>
        if \<not> fi_IsRegular info \<or> \<not> executable_perm info
        then Some (typed PERMISSION_DENIED ''executable is not an executable regular file'' None)
        else None))"

definition check_directory :: "file_system \<Rightarrow> string \<Rightarrow> error option" where
  "check_directory stat dir =
     (if dir = [] then None
      else if \<not> IsAbs dir \<or> Clean dir \<noteq> dir
      then Some (typed CONFIG_CONFLICT ''working directory must be a clean absolute path'' None)
      else (case stat dir of
        Inl e \<Rightarrow> Some (typed CONFIG_CONFLICT ''working directory is invalid'' (Some e))
      | Inr i \<Rightarrow> if \<not> fi_IsDir i then Some (typed CONFIG_CONFLICT ''working directory is invalid'' None) else None))"

definition validate_plan :: "file_system \<Rightarrow> string list \<Rightarrow> ExecutionPlan \<Rightarrow> error option" where
  "validate_plan stat ks p =
     (case ExecutionID_Validate (pl_ExecutionID p) of
        Some e \<Rightarrow> Some (typed CONFIG_CONFLICT ''invalid ExecutionID'' (Some (error_Error e)))
      | None \<Rightarrow>
     (case check_executable stat (pl_Executable p) of Some e \<Rightarrow> Some e
      | None \<Rightarrow>
     (case check_directory stat (pl_WorkingDirectory p) of Some e \<Rightarrow> Some e
      | None \<Rightarrow>
        if \<not> list_all (\<lambda>a. \<not> ContainsNul a) (pl_Args p)
        then Some (typed CONFIG_CONFLICT ''argument contains NUL'' None)
        else if length ks > 64
        then Some (typed CONFIG_CONFLICT ''environment has too many entries'' None)
        else (case check_environment (pl_Environment p) ks 0 of Some e \<Rightarrow> Some e
      | None \<Rightarrow>
        if pl_RestartPolicy p \<notin> {RestartPolicyOther [], RestartNever, RestartOnFailure}
        then Some (typed CONFIG_CONFLICT ''restart policy is invalid'' None)
        else None))))"

text \<open>The environment of the child: the baseline of the parent, then the entries of the plan.\<close>

definition baseline_keys :: "string list" where
  "baseline_keys = [''HOME'', ''LANG'', ''LC_ALL'', ''PATH'', ''TMPDIR'', ''TZ'']"

definition environment :: "(string \<rightharpoonup> string) \<Rightarrow> (string \<rightharpoonup> string) \<Rightarrow> string list \<Rightarrow> string list" where
  "environment lookup extra ks =
     (let values = (lookup |` set baseline_keys) ++ extra;
          keys = sort (remdups (filter (\<lambda>k. lookup k \<noteq> None) baseline_keys @ ks))
      in map (\<lambda>k. k @ ''='' @ the (values k)) keys)"

section \<open>Executions\<close>

definition snapshot :: "execution \<Rightarrow> ExecSnapshot" where
  "snapshot e = \<lparr>sn_ExecutionID = pl_ExecutionID (xe_plan e), sn_Ownership = pl_Ownership (xe_plan e),
     sn_State = xe_state e, sn_PID = xe_pid e, sn_StartedAt = xe_started e, sn_ExitCode = xe_exitCode e,
     sn_RestartCount = xe_restarts e, sn_ProcessInstance = xe_processInstance e,
     sn_LastError = xe_lastErr e, sn_Stdout = tail_String (xe_stdout e), sn_Stderr = tail_String (xe_stderr e)\<rparr>"

definition zero_ownership :: WorkloadOwnership where
  "zero_ownership = \<lparr>ow_WorkloadID = WorkloadID [], ow_DesiredGeneration = 0, ow_ResolvedHash = [],
     ow_HostID = HostID [], ow_CPU = False, ow_DeviceIDs = []\<rparr>"

definition bare_snapshot :: "ExecutionID \<Rightarrow> WorkloadOwnership \<Rightarrow> ExecutionStatus \<Rightarrow> ExecSnapshot" where
  "bare_snapshot i own st = \<lparr>sn_ExecutionID = i, sn_Ownership = own, sn_State = st, sn_PID = 0,
     sn_StartedAt = 0, sn_ExitCode = None, sn_RestartCount = 0, sn_ProcessInstance = [],
     sn_LastError = [], sn_Stdout = [], sn_Stderr = []\<rparr>"

definition zero_snapshot :: ExecSnapshot where
  "zero_snapshot = bare_snapshot (ExecutionID []) zero_ownership (ExecutionStatusOther [])"

definition new_execution :: "ExecutionPlan \<Rightarrow> Config \<Rightarrow> execution" where
  "new_execution p cfg = \<lparr>xe_plan = p, xe_state = ExecutionStarting, xe_cmd = None, xe_pid = 0,
     xe_started = 0, xe_processInstance = [], xe_exitCode = None, xe_restarts = 0, xe_lastErr = [],
     xe_stdout = \<lparr>tl_max = cf_TailBytes cfg, tl_buf = []\<rparr>,
     xe_stderr = \<lparr>tl_max = cf_TailBytes cfg, tl_buf = []\<rparr>,
     xe_desired = True, xe_done = None, xe_generation = 1, xe_crashes = [], xe_backoffCancel = None\<rparr>"

definition entry :: "Supervisor \<Rightarrow> ExecutionID \<Rightarrow> execution option" where
  "entry s i = map_of (su_executions s) i"

definition put :: "ExecutionID \<Rightarrow> execution \<Rightarrow> Supervisor \<Rightarrow> Supervisor" where
  "put i e s = s\<lparr>su_executions := AList.update i e (su_executions s)\<rparr>"

definition close_done :: "nat option \<Rightarrow> Supervisor \<Rightarrow> Supervisor" where
  "close_done c s = (case c of None \<Rightarrow> s | Some c \<Rightarrow> s\<lparr>su_doneClosed := c # su_doneClosed s\<rparr>)"

definition close_cancel :: "nat option \<Rightarrow> Supervisor \<Rightarrow> Supervisor" where
  "close_cancel c s = (case c of None \<Rightarrow> s | Some c \<Rightarrow> s\<lparr>su_cancelClosed := c # su_cancelClosed s\<rparr>)"

definition tick :: "Supervisor \<Rightarrow> Supervisor" where
  "tick s = s\<lparr>su_next := Suc (su_next s)\<rparr>"

text \<open>\<open>cancelBackoff\<close> closes the cancel channel of the entry and forgets it.\<close>

definition cancelBackoff :: "execution \<Rightarrow> execution" where
  "cancelBackoff e = e\<lparr>xe_backoffCancel := None\<rparr>"

definition put_cancelled :: "ExecutionID \<Rightarrow> execution \<Rightarrow> execution \<Rightarrow> Supervisor \<Rightarrow> Supervisor" where
  "put_cancelled i old e s = close_cancel (xe_backoffCancel old) (put i (cancelBackoff e) s)"

type_synonym reply = "ExecSnapshot \<times> string \<times> error option"

section \<open>Start\<close>

definition held_error :: error where
  "held_error = typed MAINTENANCE_HOLD ''process START is suppressed by Maintenance Hold'' None"

definition is_up :: "ExecutionStatus \<Rightarrow> bool" where
  "is_up st \<longleftrightarrow> st \<in> {ExecutionRunning, ExecutionStarting, ExecutionBackoff}"

text \<open>The entry a repeated \<open>Start\<close> revives.\<close>

definition revive :: "execution \<Rightarrow> execution" where
  "revive e = e\<lparr>xe_desired := True, xe_crashes := [], xe_lastErr := [], xe_exitCode := None,
     xe_generation := xe_generation e + 1\<rparr>"

text \<open>
  \<open>Start\<close> up to the call of \<open>startExisting\<close>: a reply, or the generation to start.
\<close>

definition Start_enter :: "error option \<Rightarrow> ExecutionPlan \<Rightarrow> Supervisor \<Rightarrow> Supervisor \<times> (reply + uint64)" where
  "Start_enter invalid p s =
     (case invalid of Some err \<Rightarrow> (s, Inl (zero_snapshot, [], Some err))
      | None \<Rightarrow>
        if su_closed s then (s, Inl (zero_snapshot, [], Some (typed CONFIG_CONFLICT ''supervisor is shutting down'' None)))
        else if su_maintenance s
        then (s, Inl (bare_snapshot (pl_ExecutionID p) (pl_Ownership p) ExecutionStopped, [], Some held_error))
        else (case entry s (pl_ExecutionID p) of
          Some e \<Rightarrow>
            if xe_plan e \<noteq> p then (s, Inl (zero_snapshot, [], Some (typed CONFIG_CONFLICT ''ExecutionID already has a different plan'' None)))
            else if xe_desired e \<and> is_up (xe_state e) then (s, Inl (snapshot e, ''already running'', None))
            else (put_cancelled (pl_ExecutionID p) e (revive e) s, Inr (xe_generation e + 1))
        | None \<Rightarrow> (put (pl_ExecutionID p) (new_execution p (su_cfg s)) s, Inr 1)))"

text \<open>\<open>startExisting\<close>, first section: the plan to validate and whether a validator is installed.\<close>

definition start_first :: "ExecutionID \<Rightarrow> uint64 \<Rightarrow> Supervisor \<Rightarrow> reply + bool" where
  "start_first i gen s = (case entry s i of None \<Rightarrow> Inl (zero_snapshot, [], None)
     | Some e \<Rightarrow> if \<not> xe_desired e \<or> xe_generation e \<noteq> gen then Inl (snapshot e, ''stopped'', None)
       else Inr (su_startValidator s))"

text \<open>\<open>startExisting\<close>, the validator refused.\<close>

definition start_refused :: "ExecutionID \<Rightarrow> uint64 \<Rightarrow> error \<Rightarrow> Supervisor \<Rightarrow> Supervisor \<times> reply" where
  "start_refused i gen err s = (case entry s i of None \<Rightarrow> (s, (zero_snapshot, [], None))
     | Some e \<Rightarrow>
       (let e' = (if xe_desired e \<and> xe_generation e = gen \<and> \<not> su_closed s
          then e\<lparr>xe_desired := False, xe_state := ExecutionFailed, xe_lastErr := error_Error err\<rparr> else e)
        in (put i e' s, (snapshot e', [], Some err))))"

text \<open>
  \<open>startExisting\<close>, the section that creates the process. The outcome of \<open>cmd.Start\<close> is an
  error with its class, or the PID, the instant and the process instance read from \<open>/proc\<close>.
\<close>

datatype start_failure = NotPermitted string | NotExist string | OtherFailure string

fun failure_text :: "start_failure \<Rightarrow> string" where
  "failure_text (NotPermitted t) = t"
| "failure_text (NotExist t) = t"
| "failure_text (OtherFailure t) = t"

fun failure_code :: "start_failure \<Rightarrow> Code" where
  "failure_code (NotPermitted t) = PERMISSION_DENIED"
| "failure_code (NotExist t) = MISSING_COMMAND"
| "failure_code (OtherFailure t) = INTERNAL_ERROR"

type_synonym start_outcome = "start_failure + (int \<times> Time \<times> string)"

definition begin_start :: "nat \<Rightarrow> execution \<Rightarrow> execution" where
  "begin_start c e = e\<lparr>xe_state := ExecutionStarting, xe_done := Some c, xe_cmd := Some c\<rparr>"

definition start_commit ::
  "ExecutionID \<Rightarrow> uint64 \<Rightarrow> string \<Rightarrow> start_outcome \<Rightarrow> Supervisor \<Rightarrow> Supervisor \<times> reply \<times> nat option" where
  "start_commit i gen msg outcome s = (case entry s i of None \<Rightarrow> (s, (zero_snapshot, [], None), None)
     | Some e \<Rightarrow>
       if su_maintenance s then
         (let e' = e\<lparr>xe_desired := False, xe_state := ExecutionStopped, xe_generation := xe_generation e + 1\<rparr>
          in (put i e' s, (snapshot e', [], Some held_error), None))
       else if \<not> xe_desired e \<or> xe_generation e \<noteq> gen \<or> su_closed s
       then (s, (snapshot e, ''stopped'', None), None)
       else (let c = su_next s; e1 = begin_start c e in
         (case outcome of
            Inl f \<Rightarrow>
              (let e' = e1\<lparr>xe_state := ExecutionFailed, xe_lastErr := failure_text f, xe_desired := False\<rparr>
               in (close_done (Some c) (put i e' (tick s)),
                   (snapshot e', [], Some (typed (failure_code f) ''process start failed'' (Some (failure_text f)))), None))
          | Inr (pid, now, inst) \<Rightarrow>
              (let e' = e1\<lparr>xe_pid := pid, xe_started := now, xe_processInstance := inst, xe_state := ExecutionRunning\<rparr>
               in (put i e' (tick s), (snapshot e', msg, None), Some c)))))"

section \<open>The watchdog\<close>

definition exit_text :: "int \<Rightarrow> string" where
  "exit_text code = ''process exited with code '' @ Itoa code"

definition crash_loop_text :: string where
  "crash_loop_text = Code_text PROCESS_CRASHED @ '': crash loop limit reached''"

definition recent_crashes :: "Config \<Rightarrow> Time \<Rightarrow> Time list \<Rightarrow> Time list" where
  "recent_crashes cfg now cs = filter (\<lambda>t. t > now - cf_CrashWindow cfg) cs"

text \<open>
  The pause before restart number \<open>n\<close>: a left shift of a signed 64-bit \<open>Duration\<close>, cut at the
  maximum. A shift of 64 or more gives 0.
\<close>

definition backoff_delay :: "Config \<Rightarrow> nat \<Rightarrow> Duration" where
  "backoff_delay cfg n =
     (let delay = wrap_int64 (cf_RestartInitial cfg * 2 ^ n) in
      if delay > cf_RestartMax cfg then cf_RestartMax cfg else delay)"

text \<open>\<open>wait\<close> after \<open>cmd.Wait\<close> returned: the state, and the pause with its generation and channel.\<close>

definition wait_exit ::
  "ExecutionID \<Rightarrow> nat \<Rightarrow> uint64 \<Rightarrow> int \<Rightarrow> Time \<Rightarrow> Supervisor \<Rightarrow> Supervisor \<times> (Duration \<times> uint64 \<times> nat) option" where
  "wait_exit i cmd gen code now s = (case entry s i of None \<Rightarrow> (s, None)
     | Some e \<Rightarrow>
       if xe_cmd e \<noteq> Some cmd \<or> xe_generation e \<noteq> gen then (s, None)
       else (let e1 = e\<lparr>xe_exitCode := Some code, xe_pid := 0\<rparr>; s1 = close_done (xe_done e) s in
         if \<not> xe_desired e then (put i (e1\<lparr>xe_state := ExecutionStopped\<rparr>) s1, None)
         else (let crashes = recent_crashes (su_cfg s) now (xe_crashes e) @ [now];
                   e2 = e1\<lparr>xe_state := ExecutionCrashed, xe_lastErr := exit_text code, xe_crashes := crashes\<rparr> in
           if pl_RestartPolicy (xe_plan e) \<noteq> RestartOnFailure
           then (put i (e2\<lparr>xe_desired := False, xe_state := ExecutionCrashed\<rparr>) s1, None)
           else if int (length crashes) \<ge> cf_CrashLimit (su_cfg s)
           then (put i (e2\<lparr>xe_desired := False, xe_state := ExecutionFailed, xe_lastErr := crash_loop_text\<rparr>) s1, None)
           else (let cancel = su_next s; gen' = xe_generation e + 1 in
             (put i (e2\<lparr>xe_state := ExecutionBackoff, xe_restarts := xe_restarts e + 1,
                  xe_generation := gen', xe_backoffCancel := Some cancel\<rparr>) (tick s1),
              Some (backoff_delay (su_cfg s) (length crashes - 1), gen', cancel))))))"

text \<open>The section after the pause: whether the watchdog goes on to start the process.\<close>

definition backoff_wake :: "ExecutionID \<Rightarrow> uint64 \<Rightarrow> nat \<Rightarrow> Supervisor \<Rightarrow> Supervisor \<times> bool" where
  "backoff_wake i gen cancel s = (case entry s i of None \<Rightarrow> (s, False)
     | Some e \<Rightarrow>
       (let e' = (if xe_backoffCancel e = Some cancel then e\<lparr>xe_backoffCancel := None\<rparr> else e)
        in (put i e' s, xe_desired e \<and> xe_generation e = gen \<and> \<not> su_closed s)))"

section \<open>Stop and Restart\<close>

definition invalid_id :: "ExecutionID \<Rightarrow> error option" where
  "invalid_id i = (case ExecutionID_Validate i of None \<Rightarrow> None
     | Some e \<Rightarrow> Some (typed CONFIG_CONFLICT ''invalid ExecutionID'' (Some (error_Error e))))"

text \<open>\<open>Stop\<close> up to the wait: a reply, or the channel to wait for and the process group to signal.\<close>

definition Stop_enter :: "ExecutionID \<Rightarrow> Supervisor \<Rightarrow> Supervisor \<times> (reply + (nat option \<times> nat option \<times> int))" where
  "Stop_enter i s =
     (case invalid_id i of Some err \<Rightarrow> (s, Inl (zero_snapshot, [], Some err))
      | None \<Rightarrow> (case entry s i of
          None \<Rightarrow> (s, Inl (bare_snapshot i zero_ownership ExecutionStopped, ''already stopped'', None))
        | Some e \<Rightarrow>
          (let e1 = e\<lparr>xe_desired := False\<rparr> in
           if xe_state e = ExecutionStopped \<or> xe_pid e = 0 then
             (let e2 = e1\<lparr>xe_generation := xe_generation e + 1, xe_state := ExecutionStopped\<rparr>
              in (put_cancelled i e e2 s, Inl (snapshot e2, ''already stopped'', None)))
           else (put_cancelled i e (e1\<lparr>xe_state := ExecutionStopping\<rparr>) s, Inr (xe_done e, xe_cmd e, xe_pid e)))))"

definition stop_waits :: "nat option \<Rightarrow> int \<Rightarrow> bool" where
  "stop_waits cmd pid \<longleftrightarrow> cmd \<noteq> None \<and> pid > 0"

definition Stop_leave :: "ExecutionID \<Rightarrow> Supervisor \<Rightarrow> Supervisor \<times> reply" where
  "Stop_leave i s = (case entry s i of None \<Rightarrow> (s, (zero_snapshot, [], None))
     | Some e \<Rightarrow> (let e' = e\<lparr>xe_state := ExecutionStopped, xe_pid := 0\<rparr> in (put i e' s, (snapshot e', ''stopped'', None))))"

definition Restart_enter :: "ExecutionID \<Rightarrow> Supervisor \<Rightarrow> reply + (ExecutionPlan \<times> uint32)" where
  "Restart_enter i s =
     (case invalid_id i of Some err \<Rightarrow> Inl (zero_snapshot, [], Some err)
      | None \<Rightarrow> (case entry s i of
          None \<Rightarrow> Inl (zero_snapshot, [], Some (typed CONFIG_CONFLICT ''unknown ExecutionID'' None))
        | Some e \<Rightarrow> Inr (xe_plan e, xe_restarts e + 1)))"

definition Restart_leave :: "ExecutionID \<Rightarrow> uint32 \<Rightarrow> reply \<Rightarrow> Supervisor \<Rightarrow> Supervisor \<times> reply" where
  "Restart_leave i n rep s = (case entry s i of None \<Rightarrow> (s, rep)
     | Some e \<Rightarrow> if xe_restarts e < n
       then (let e' = e\<lparr>xe_restarts := n\<rparr> in (put i e' s, (snapshot e', snd rep)))
       else (s, rep))"

section \<open>Maintenance Hold, queries and shutdown\<close>

definition ids_sorted :: "ExecutionID list \<Rightarrow> ExecutionID list" where
  "ids_sorted ids = sort_key ExecutionID_String ids"

definition hold_targets :: "Supervisor \<Rightarrow> ExecutionID list" where
  "hold_targets s = (if su_maintenance s
     then map fst (filter (\<lambda>(i, e). xe_desired e \<or> xe_state e \<noteq> ExecutionStopped) (su_executions s)) else [])"

definition hold_conflicts :: "bool \<Rightarrow> uint64 \<Rightarrow> Supervisor \<Rightarrow> bool" where
  "hold_conflicts active revision s \<longleftrightarrow> revision < su_holdRevision s
     \<or> revision = su_holdRevision s \<and> active \<noteq> su_maintenance s"

definition publish_hold :: "bool \<Rightarrow> uint64 \<Rightarrow> Supervisor \<Rightarrow> Supervisor" where
  "publish_hold active revision s = (if revision > su_holdRevision s
     then s\<lparr>su_holdRevision := revision, su_maintenance := active\<rparr> else s)"

text \<open>The section of \<open>ApplyMaintenanceHold\<close>: the conflict, or the executions to stop in order.\<close>

definition ApplyMaintenanceHold_enter ::
  "bool \<Rightarrow> uint64 \<Rightarrow> Supervisor \<Rightarrow> Supervisor \<times> (bool \<times> uint64) \<times> (error + ExecutionID list)" where
  "ApplyMaintenanceHold_enter active revision s =
     (if hold_conflicts active revision s
      then (s, (su_maintenance s, su_holdRevision s),
        Inl (typed CONFIG_CONFLICT ''stale or conflicting Maintenance Hold revision'' None))
      else (let s' = publish_hold active revision s
        in (s', (su_maintenance s', su_holdRevision s'), Inr (ids_sorted (hold_targets s')))))"

definition MaintenanceHold_view :: "Supervisor \<Rightarrow> bool \<times> uint64" where
  "MaintenanceHold_view s = (su_maintenance s, su_holdRevision s)"

definition Get_execution :: "ExecutionID \<Rightarrow> Supervisor \<Rightarrow> ExecSnapshot \<times> bool" where
  "Get_execution i s = (if ExecutionID_Validate i \<noteq> None then (zero_snapshot, False)
     else (case entry s i of None \<Rightarrow> (zero_snapshot, False) | Some e \<Rightarrow> (snapshot e, True)))"

definition List_snapshots :: "Supervisor \<Rightarrow> ExecSnapshot list" where
  "List_snapshots s = sort_key (ExecutionID_String \<circ> sn_ExecutionID) (map (snapshot \<circ> snd) (su_executions s))"

definition Shutdown_enter :: "Supervisor \<Rightarrow> Supervisor \<times> ExecutionID list" where
  "Shutdown_enter s = (s\<lparr>su_closed := True\<rparr>, map fst (su_executions s))"

text \<open>The output of a process goes to the tails of its execution.\<close>

definition write_stdout :: "ExecutionID \<Rightarrow> string \<Rightarrow> Supervisor \<Rightarrow> Supervisor" where
  "write_stdout i p s = (case entry s i of None \<Rightarrow> s
     | Some e \<Rightarrow> put i (e\<lparr>xe_stdout := fst (tail_Write (xe_stdout e) p)\<rparr>) s)"

definition write_stderr :: "ExecutionID \<Rightarrow> string \<Rightarrow> Supervisor \<Rightarrow> Supervisor" where
  "write_stderr i p s = (case entry s i of None \<Rightarrow> s
     | Some e \<Rightarrow> put i (e\<lparr>xe_stderr := fst (tail_Write (xe_stderr e) p)\<rparr>) s)"

section \<open>Process instances\<close>

text \<open>\<open>readProcessInstance\<close> on the contents of \<open>/proc/<pid>/stat\<close>, or the error reading it.\<close>

definition readProcessInstance :: "string + string \<Rightarrow> string \<times> error option" where
  "readProcessInstance data = (case data of Inl err \<Rightarrow> ([], Some (Plain err))
     | Inr text \<Rightarrow> (case last_index (CHR '')'') text of
         None \<Rightarrow> ([], Some (Plain ''process stat has no command terminator''))
       | Some close \<Rightarrow>
         (let fs = Fields (drop (close + 1) text) in
          if length fs \<le> 19 then ([], Some (Plain ''process stat is incomplete''))
          else (case ParseUint (fs ! 19) 64 of
              None \<Rightarrow> ([], Some (Plain ''process stat start time is invalid''))
            | Some ticks \<Rightarrow> if ticks = 0 then ([], Some (Plain ''process stat start time is invalid''))
                else (''linux-proc-start-ticks:'' @ dec_digits ticks, None)))))"

end
