(* ===== verification/Supervisor_Tasks.thy ===== *)
theory Supervisor_Tasks
  imports Agent_Supervisor
begin

text \<open>
  The goroutines of \<open>supervisor_linux.go\<close> as a pool of tasks. A task stands between two
  sections of an operation; running it executes its next section, atomically under the mutex,
  and yields the tasks that follow. Operations that call others (\<open>Restart\<close>, the loop of
  \<open>ApplyMaintenanceHold\<close>, the loop of \<open>Shutdown\<close>) leave a continuation in the task. Any task
  of the pool may run next, so every interleaving of the operations is a run.
\<close>

section \<open>Tasks\<close>

text \<open>
  What happens with the reply of a \<open>Start\<close> or \<open>Stop\<close>: it goes to the client, the loop of
  \<open>ApplyMaintenanceHold\<close> or of \<open>Shutdown\<close> goes on with the remaining executions, or
  \<open>Restart\<close> goes on with \<open>Start\<close> and then with its last section.
\<close>

datatype cont = Return | HoldRest "ExecutionID list" | ShutdownRest "ExecutionID list"
  | ThenStart ExecutionPlan uint32 | ThenCount ExecutionID uint32

datatype task =
    CallStart ExecutionPlan cont
  | CallStop ExecutionID cont
  | CallRestart ExecutionID
  | FirstSection ExecutionID uint64 string cont
  | Validating ExecutionID uint64 string cont
  | Committing ExecutionID uint64 string cont
  | Waiting ExecutionID nat uint64
  | BackingOff ExecutionID uint64 nat
  | AwaitingExit ExecutionID "nat option" cont
  | LeavingStop ExecutionID cont
  | EndRestart ExecutionID uint32 reply

fun next_stop :: "(ExecutionID list \<Rightarrow> cont) \<Rightarrow> ExecutionID list \<Rightarrow> task list" where
  "next_stop k [] = []"
| "next_stop k (i # is) = [CallStop i (k is)]"

fun resume :: "cont \<Rightarrow> reply \<Rightarrow> task list" where
  "resume Return rep = []"
| "resume (HoldRest is) (snap, msg, err) = (if err \<noteq> None then [] else next_stop HoldRest is)"
| "resume (ShutdownRest is) rep = next_stop ShutdownRest is"
| "resume (ThenStart p n) (snap, msg, err) =
     (if err \<noteq> None then [] else [CallStart p (ThenCount (pl_ExecutionID p) n)])"
| "resume (ThenCount i n) rep = [EndRestart i n rep]"

text \<open>
  What the environment decides when a task runs: the files seen by the validation of a plan
  and the order of its environment map, the verdict of the start validator, the outcome of
  \<open>cmd.Start\<close>, the exit of the process, and whether the timer or the cancellation ends a pause.
\<close>

datatype choice = Go | Files file_system "string list" | Verdict "error option"
  | Outcome start_outcome | Exit int Time | Elapsed | Cancelled

datatype sup_event = StartAccepted ExecutionID | Created ExecutionID nat
  | Exited ExecutionID nat Time | Pausing ExecutionID Duration

fun start_tasks :: "ExecutionID \<Rightarrow> cont \<Rightarrow> reply + uint64 \<Rightarrow> task list \<times> sup_event list" where
  "start_tasks i k (Inl rep) = (resume k rep, [])"
| "start_tasks i k (Inr gen) = ([FirstSection i gen ''started'' k], [StartAccepted i])"

fun first_tasks :: "ExecutionID \<Rightarrow> uint64 \<Rightarrow> string \<Rightarrow> cont \<Rightarrow> reply + bool \<Rightarrow> task list" where
  "first_tasks i gen msg k (Inl rep) = resume k rep"
| "first_tasks i gen msg k (Inr True) = [Validating i gen msg k]"
| "first_tasks i gen msg k (Inr False) = [Committing i gen msg k]"

fun stop_tasks :: "ExecutionID \<Rightarrow> cont \<Rightarrow> reply + (nat option \<times> nat option \<times> int) \<Rightarrow> task list" where
  "stop_tasks i k (Inl rep) = resume k rep"
| "stop_tasks i k (Inr (dn, cmd, pid)) =
     (if stop_waits cmd pid then [AwaitingExit i dn k] else [LeavingStop i k])"

definition has_ended :: "nat option \<Rightarrow> Supervisor \<Rightarrow> bool" where
  "has_ended d s \<longleftrightarrow> (case d of None \<Rightarrow> False | Some c \<Rightarrow> c \<in> set (su_doneClosed s))"

text \<open>One section of a task; \<open>None\<close> when the task cannot run with this choice.\<close>

fun run_task :: "task \<Rightarrow> choice \<Rightarrow> Supervisor \<Rightarrow> (Supervisor \<times> task list \<times> sup_event list) option" where
  "run_task (CallStart p k) ch s = (case ch of Files stat ks \<Rightarrow>
     (case Start_enter (validate_plan stat ks p) p s of (s', r) \<Rightarrow> Some (s', start_tasks (pl_ExecutionID p) k r))
     | _ \<Rightarrow> None)"
| "run_task (CallStop i k) ch s = (case ch of Go \<Rightarrow>
     (case Stop_enter i s of (s', r) \<Rightarrow> Some (s', stop_tasks i k r, [])) | _ \<Rightarrow> None)"
| "run_task (CallRestart i) ch s = (case ch of Go \<Rightarrow>
     (case Restart_enter i s of Inl rep \<Rightarrow> Some (s, [], [])
      | Inr (p, n) \<Rightarrow> Some (s, [CallStop i (ThenStart p n)], [])) | _ \<Rightarrow> None)"
| "run_task (FirstSection i gen msg k) ch s = (case ch of Go \<Rightarrow>
     Some (s, first_tasks i gen msg k (start_first i gen s), []) | _ \<Rightarrow> None)"
| "run_task (Validating i gen msg k) ch s = (case ch of
       Verdict None \<Rightarrow> Some (s, [Committing i gen msg k], [])
     | Verdict (Some err) \<Rightarrow> (case start_refused i gen err s of (s', rep) \<Rightarrow> Some (s', resume k rep, []))
     | _ \<Rightarrow> None)"
| "run_task (Committing i gen msg k) ch s = (case ch of Outcome out \<Rightarrow>
     (case start_commit i gen msg out s of
        (s', rep, None) \<Rightarrow> Some (s', resume k rep, [])
      | (s', rep, Some c) \<Rightarrow> Some (s', Waiting i c gen # resume k rep, [Created i c]))
     | _ \<Rightarrow> None)"
| "run_task (Waiting i c gen) ch s = (case ch of Exit code now \<Rightarrow>
     (case wait_exit i c gen code now s of
        (s', None) \<Rightarrow> Some (s', [], [Exited i c now])
      | (s', Some (d, gen', cancel)) \<Rightarrow> Some (s', [BackingOff i gen' cancel], [Exited i c now, Pausing i d]))
     | _ \<Rightarrow> None)"
| "run_task (BackingOff i gen cancel) ch s = (case ch of
       Elapsed \<Rightarrow> (case backoff_wake i gen cancel s of
         (s', ok) \<Rightarrow> Some (s', if ok then [FirstSection i gen ''watchdog restart'' Return] else [], []))
     | Cancelled \<Rightarrow> if cancel \<in> set (su_cancelClosed s) then Some (s, [], []) else None
     | _ \<Rightarrow> None)"
| "run_task (AwaitingExit i d k) ch s = (case ch of Go \<Rightarrow>
     if has_ended d s then Some (s, [LeavingStop i k], []) else None | _ \<Rightarrow> None)"
| "run_task (LeavingStop i k) ch s = (case ch of Go \<Rightarrow>
     (case Stop_leave i s of (s', rep) \<Rightarrow> Some (s', resume k rep, [])) | _ \<Rightarrow> None)"
| "run_task (EndRestart i n rep) ch s = (case ch of Go \<Rightarrow>
     (case Restart_leave i n rep s of (s', rep') \<Rightarrow> Some (s', [], [])) | _ \<Rightarrow> None)"

text \<open>
  What the environment guarantees: the keys of a map are each yielded once, and the PID of a
  started process is positive.
\<close>

definition yields :: "string list \<Rightarrow> (string \<rightharpoonup> string) \<Rightarrow> bool" where
  "yields ks m \<longleftrightarrow> distinct ks \<and> set ks = dom m"

fun admissible :: "task \<Rightarrow> choice \<Rightarrow> bool" where
  "admissible (CallStart p k) ch \<longleftrightarrow> (case ch of Files stat ks \<Rightarrow> yields ks (pl_Environment p) | _ \<Rightarrow> True)"
| "admissible (Committing i gen msg k) ch \<longleftrightarrow>
     (case ch of Outcome (Inr (pid, now, inst)) \<Rightarrow> pid > 0 | _ \<Rightarrow> True)"
| "admissible t ch \<longleftrightarrow> True"

section \<open>Runs\<close>

type_synonym world = "Supervisor \<times> task list"

fun client_call :: "task \<Rightarrow> bool" where
  "client_call (CallStart p k) = (k = Return)"
| "client_call (CallStop i k) = (k = Return)"
| "client_call (CallRestart i) = True"
| "client_call t = False"

fun hold_tasks :: "error + ExecutionID list \<Rightarrow> task list" where
  "hold_tasks (Inl err) = []"
| "hold_tasks (Inr ids) = next_stop HoldRest ids"

text \<open>The context of a \<open>Shutdown\<close> ends: the stop it waits for goes on alone.\<close>

fun abandon :: "task \<Rightarrow> task" where
  "abandon (CallStop i (ShutdownRest is)) = CallStop i Return"
| "abandon (AwaitingExit i d (ShutdownRest is)) = AwaitingExit i d Return"
| "abandon (LeavingStop i (ShutdownRest is)) = LeavingStop i Return"
| "abandon t = t"

fun alive :: "ExecutionID \<Rightarrow> task \<Rightarrow> bool" where
  "alive i (Waiting j c g) = (i = j)"
| "alive i _ = False"

text \<open>
  \<open>sup_step P\<close> is one step of the pool; \<open>P\<close> restricts which task may run in which world, and
  \<open>free\<close> restricts nothing.
\<close>

definition free :: "world \<Rightarrow> task \<Rightarrow> bool" where
  "free w t \<longleftrightarrow> True"

inductive sup_step :: "(world \<Rightarrow> task \<Rightarrow> bool) \<Rightarrow> world \<Rightarrow> sup_event list \<Rightarrow> world \<Rightarrow> bool"
  for P where
  step_client: "client_call t \<Longrightarrow> sup_step P (s, ts) [] (s, ts @ [t])"
| step_validator: "sup_step P (s, ts) [] (SetStartValidator v s, ts)"
| step_hold: "ApplyMaintenanceHold_enter active revision s = (s', v, r) \<Longrightarrow>
    sup_step P (s, ts) [] (s', ts @ hold_tasks r)"
| step_shutdown: "Shutdown_enter s = (s', ids) \<Longrightarrow> mset ids' = mset ids \<Longrightarrow>
    sup_step P (s, ts) [] (s', ts @ next_stop ShutdownRest ids')"
| step_abandon: "sup_step P (s, xs @ t # ys) [] (s, xs @ abandon t # ys)"
| step_stdout: "\<exists>t\<in>set ts. alive i t \<Longrightarrow> sup_step P (s, ts) [] (write_stdout i out s, ts)"
| step_stderr: "\<exists>t\<in>set ts. alive i t \<Longrightarrow> sup_step P (s, ts) [] (write_stderr i out s, ts)"
| step_task: "P (s, xs @ t # ys) t \<Longrightarrow> admissible t ch \<Longrightarrow> run_task t ch s = Some (s', new, evs) \<Longrightarrow>
    sup_step P (s, xs @ t # ys) evs (s', xs @ new @ ys)"

inductive sup_runs :: "(world \<Rightarrow> task \<Rightarrow> bool) \<Rightarrow> world \<Rightarrow> nat \<Rightarrow> sup_event list \<Rightarrow> world \<Rightarrow> bool"
  for P where
  runs_none: "sup_runs P w 0 [] w"
| runs_step: "sup_runs P w n evs w' \<Longrightarrow> sup_step P w' es w'' \<Longrightarrow> sup_runs P w (Suc n) (evs @ es) w''"

definition first_world :: "Config \<Rightarrow> world" where
  "first_world cfg = (New cfg, [])"

lemma runs_append:
  assumes "sup_runs P w m as w'" "sup_runs P w' n bs w''"
  shows "sup_runs P w (m + n) (as @ bs) w''"
  using assms(2,1)
proof (induction rule: sup_runs.induct)
  case (runs_step w' n evs w'' es w''')
  then show ?case using sup_runs.runs_step[of P w "m + n" "as @ evs" w'' es w'''] by simp
qed simp

lemma step_free: "sup_step P w es w' \<Longrightarrow> sup_step free w es w'"
proof (induction rule: sup_step.induct)
  case (step_task s xs t ys ch s' new evs)
  then show ?case by (intro sup_step.step_task) (auto simp: free_def)
qed (auto intro: sup_step.intros)

lemma runs_free: "sup_runs P w n evs w' \<Longrightarrow> sup_runs free w n evs w'"
  by (induction rule: sup_runs.induct) (auto intro: runs_none runs_step step_free)

end
