(* ===== verification/Supervisor_Safety.thy ===== *)
theory Supervisor_Safety
  imports Supervisor_Tasks
begin

text \<open>
  What the Supervisor keeps under every interleaving: the order of the holds, who may create
  a process and when, and how often the watchdog restarts one.
\<close>

section \<open>Reads after writes\<close>

lemma entry_put [simp]: "entry (put i e s) j = (if j = i then Some e else entry s j)"
  by (simp add: entry_def put_def update_conv')

lemma entry_close [simp]: "entry (close_done c s) j = entry s j" "entry (close_cancel c s) j = entry s j"
    "entry (tick s) j = entry s j" "entry (SetStartValidator v s) j = entry s j"
    "entry (publish_hold a r s) j = entry s j"
  by (auto simp: entry_def close_done_def close_cancel_def tick_def SetStartValidator_def publish_hold_def
      split: option.splits)

lemma put_fields [simp]:
  "su_maintenance (put i e s) = su_maintenance s" "su_holdRevision (put i e s) = su_holdRevision s"
  "su_closed (put i e s) = su_closed s" "su_cfg (put i e s) = su_cfg s" "su_next (put i e s) = su_next s"
  "su_doneClosed (put i e s) = su_doneClosed s"
  by (simp_all add: put_def)

lemma close_fields [simp]:
  "su_maintenance (close_done c s) = su_maintenance s" "su_holdRevision (close_done c s) = su_holdRevision s"
  "su_closed (close_done c s) = su_closed s" "su_cfg (close_done c s) = su_cfg s" "su_next (close_done c s) = su_next s"
  "su_maintenance (close_cancel c s) = su_maintenance s" "su_holdRevision (close_cancel c s) = su_holdRevision s"
  "su_closed (close_cancel c s) = su_closed s" "su_cfg (close_cancel c s) = su_cfg s" "su_next (close_cancel c s) = su_next s"
  "su_doneClosed (close_cancel c s) = su_doneClosed s"
  "set (su_doneClosed (close_done c s)) = set_option c \<union> set (su_doneClosed s)"
  by (auto simp: close_done_def close_cancel_def split: option.splits)

lemma tick_fields [simp]:
  "su_maintenance (tick s) = su_maintenance s" "su_holdRevision (tick s) = su_holdRevision s"
  "su_closed (tick s) = su_closed s" "su_cfg (tick s) = su_cfg s" "su_next (tick s) = Suc (su_next s)"
  "su_doneClosed (tick s) = su_doneClosed s"
  by (simp_all add: tick_def)

lemmas section_defs = Start_enter_def start_refused_def start_commit_def wait_exit_def backoff_wake_def
  Stop_enter_def Stop_leave_def Restart_leave_def put_cancelled_def Let_def

text \<open>One case rule for every section: the task with its choice, and the section it ran.\<close>

lemma run_task_cases [consumes 1]:
  assumes "run_task t ch s = Some (s', new, evs)"
  obtains (start) p k stat ks r where "t = CallStart p k" "ch = Files stat ks"
      "Start_enter (validate_plan stat ks p) p s = (s', r)" "start_tasks (pl_ExecutionID p) k r = (new, evs)"
  | (stop) i k r where "t = CallStop i k" "ch = Go" "Stop_enter i s = (s', r)" "new = stop_tasks i k r" "evs = []"
  | (restart_refused) i rep where "t = CallRestart i" "Restart_enter i s = Inl rep" "s' = s" "new = []" "evs = []"
  | (restart) i p n where "t = CallRestart i" "Restart_enter i s = Inr (p, n)" "s' = s"
      "new = [CallStop i (ThenStart p n)]" "evs = []"
  | (first) i gen msg k where "t = FirstSection i gen msg k" "s' = s"
      "new = first_tasks i gen msg k (start_first i gen s)" "evs = []"
  | (accepted) i gen msg k where "t = Validating i gen msg k" "s' = s" "new = [Committing i gen msg k]" "evs = []"
  | (refused) i gen msg k err rep where "t = Validating i gen msg k" "start_refused i gen err s = (s', rep)"
      "new = resume k rep" "evs = []"
  | (not_created) i gen msg k out rep where "t = Committing i gen msg k" "ch = Outcome out"
      "start_commit i gen msg out s = (s', rep, None)" "new = resume k rep" "evs = []"
  | (created) i gen msg k out rep c where "t = Committing i gen msg k" "ch = Outcome out"
      "start_commit i gen msg out s = (s', rep, Some c)" "new = Waiting i c gen # resume k rep" "evs = [Created i c]"
  | (exit) i c gen code now where "t = Waiting i c gen" "wait_exit i c gen code now s = (s', None)"
      "new = []" "evs = [Exited i c now]"
  | (pause) i c gen code now d gen' cancel where "t = Waiting i c gen"
      "wait_exit i c gen code now s = (s', Some (d, gen', cancel))"
      "new = [BackingOff i gen' cancel]" "evs = [Exited i c now, Pausing i d]"
  | (elapsed) i gen cancel ok where "t = BackingOff i gen cancel" "backoff_wake i gen cancel s = (s', ok)"
      "new = (if ok then [FirstSection i gen ''watchdog restart'' Return] else [])" "evs = []"
  | (cancelled) i gen cancel where "t = BackingOff i gen cancel" "s' = s" "new = []" "evs = []"
  | (ended) i d k where "t = AwaitingExit i d k" "has_ended d s" "s' = s" "new = [LeavingStop i k]" "evs = []"
  | (leave) i k rep where "t = LeavingStop i k" "Stop_leave i s = (s', rep)" "new = resume k rep" "evs = []"
  | (count) i n rep rep' where "t = EndRestart i n rep" "Restart_leave i n rep s = (s', rep')" "new = []" "evs = []"
proof (cases t)
  case (CallStart p k)
  then obtain stat ks r where "ch = Files stat ks" "Start_enter (validate_plan stat ks p) p s = (s', r)" "start_tasks (pl_ExecutionID p) k r = (new, evs)"
    using assms by (auto split: choice.splits prod.splits option.splits sum.splits if_splits)
  with CallStart show thesis by (intro start)
next
  case (CallStop i k)
  then obtain r where "ch = Go" "Stop_enter i s = (s', r)" "new = stop_tasks i k r" "evs = []"
    using assms by (auto split: choice.splits prod.splits option.splits sum.splits if_splits)
  with CallStop show thesis by (intro stop)
next
  case (CallRestart i)
  show thesis
  proof (cases "Restart_enter i s")
    case (Inl rep)
    with CallRestart show thesis using assms by (intro restart_refused) (auto split: choice.splits)
  next
    case (Inr pn)
    with CallRestart show thesis using assms
      by (intro restart[of i "fst pn" "snd pn"]) (auto split: choice.splits prod.splits)
  qed
next
  case (FirstSection i gen msg k)
  then have "s' = s" "new = first_tasks i gen msg k (start_first i gen s)" "evs = []"
    using assms by (auto split: choice.splits prod.splits option.splits sum.splits if_splits)
  with FirstSection show thesis by (intro first)
next
  case (Validating i gen msg k)
  show thesis
  proof (cases "ch = Verdict None")
    case True
    with Validating show thesis using assms by (intro accepted) auto
  next
    case False
    with Validating obtain err rep where "start_refused i gen err s = (s', rep)" "new = resume k rep" "evs = []"
      using assms by (auto split: choice.splits option.splits prod.splits)
    with Validating show thesis by (intro refused)
  qed
next
  case (Committing i gen msg k)
  then obtain out rep co where o: "ch = Outcome out" "start_commit i gen msg out s = (s', rep, co)"
    using assms by (cases ch) (auto split: option.splits prod.splits)
  show thesis
  proof (cases co)
    case None
    with Committing o show thesis using assms by (intro not_created) auto
  next
    case (Some c)
    with Committing o show thesis using assms by (intro created) auto
  qed
next
  case (Waiting i c gen)
  then obtain code now r where r: "ch = Exit code now" "wait_exit i c gen code now s = (s', r)"
    using assms by (cases ch) (auto split: option.splits prod.splits)
  show thesis
  proof (cases r)
    case None
    with Waiting r show thesis using assms by (intro exit) auto
  next
    case (Some x)
    obtain d gen' cancel where "x = (d, gen', cancel)" by (cases x)
    with Waiting r Some show thesis using assms by (intro pause) auto
  qed
next
  case (BackingOff i gen cancel)
  show thesis
  proof (cases "ch = Elapsed")
    case True
    then obtain ok where "backoff_wake i gen cancel s = (s', ok)"
      using assms BackingOff by (auto split: prod.splits)
    with BackingOff True show thesis using assms by (intro elapsed) auto
  next
    case False
    with BackingOff have "s' = s" "new = []" "evs = []" using assms by (auto split: choice.splits if_splits)
    with BackingOff show thesis by (intro cancelled)
  qed
next
  case (AwaitingExit i d k)
  then have "has_ended d s" "s' = s" "new = [LeavingStop i k]" "evs = []"
    using assms by (auto split: choice.splits prod.splits option.splits sum.splits if_splits)
  with AwaitingExit show thesis by (intro ended)
next
  case (LeavingStop i k)
  then obtain rep where "Stop_leave i s = (s', rep)" "new = resume k rep" "evs = []"
    using assms by (auto split: choice.splits prod.splits option.splits sum.splits if_splits)
  with LeavingStop show thesis by (intro leave)
next
  case (EndRestart i n rep)
  then obtain rep' where "Restart_leave i n rep s = (s', rep')" "new = []" "evs = []"
    using assms by (auto split: choice.splits prod.splits option.splits sum.splits if_splits)
  with EndRestart show thesis by (intro count)
qed

section \<open>Holds\<close>

definition hold_of :: "Supervisor \<Rightarrow> bool \<times> uint64" where
  "hold_of s = (su_maintenance s, su_holdRevision s)"

lemma section_hold:
  "Start_enter v p s = (s', r) \<Longrightarrow> hold_of s' = hold_of s"
  "start_refused i g err s = (s', rep) \<Longrightarrow> hold_of s' = hold_of s"
  "start_commit i g m out s = (s', rep, co) \<Longrightarrow> hold_of s' = hold_of s"
  "wait_exit i c g code now s = (s', w) \<Longrightarrow> hold_of s' = hold_of s"
  "backoff_wake i g cn s = (s', ok) \<Longrightarrow> hold_of s' = hold_of s"
  "Stop_enter i s = (s', r') \<Longrightarrow> hold_of s' = hold_of s"
  "Stop_leave i s = (s', rep) \<Longrightarrow> hold_of s' = hold_of s"
  "Restart_leave i n rep0 s = (s', rep) \<Longrightarrow> hold_of s' = hold_of s"
  by (auto simp: section_defs hold_of_def split: option.splits if_splits sum.splits prod.splits)

lemma run_task_hold: "run_task t ch s = Some (s', new, evs) \<Longrightarrow> hold_of s' = hold_of s"
  by (erule run_task_cases) (auto dest: section_hold)

lemma write_hold [simp]: "hold_of (write_stdout i out s) = hold_of s" "hold_of (write_stderr i out s) = hold_of s"
  by (auto simp: write_stdout_def write_stderr_def hold_of_def split: option.splits)

text \<open>One hold follows another: at a later revision, or unchanged.\<close>

definition hold_follows :: "bool \<times> uint64 \<Rightarrow> bool \<times> uint64 \<Rightarrow> bool" where
  "hold_follows h h' \<longleftrightarrow> snd h < snd h' \<or> h' = h"

lemma hold_follows_refl [simp]: "hold_follows h h"
  by (simp add: hold_follows_def)

lemma hold_follows_trans: "hold_follows a b \<Longrightarrow> hold_follows b c \<Longrightarrow> hold_follows a c"
  by (auto simp: hold_follows_def)

lemma step_hold_follows: "sup_step P (s, ts) evs (s', ts') \<Longrightarrow> hold_follows (hold_of s) (hold_of s')"
  by (erule sup_step.cases)
    (auto simp: ApplyMaintenanceHold_enter_def publish_hold_def hold_of_def[of "SetStartValidator _ _"]
      SetStartValidator_def Shutdown_enter_def hold_follows_def Let_def run_task_hold
      split: if_splits, auto simp: hold_of_def)

lemma runs_hold_follows: "sup_runs P w n evs w' \<Longrightarrow> hold_follows (hold_of (fst w)) (hold_of (fst w'))"
proof (induction rule: sup_runs.induct)
  case (runs_step w n evs w' es w'')
  then show ?case using step_hold_follows[of P "fst w'" "snd w'" es "fst w''" "snd w''"]
    by (auto intro: hold_follows_trans)
qed simp

text \<open>The one section that creates a process.\<close>

lemma run_task_creates:
  assumes "run_task t ch s = Some (s', new, evs)" "Created i c \<in> set evs"
  obtains gen msg k e where "t = Committing i gen msg k" "entry s i = Some e" "xe_desired e"
    "xe_generation e = gen" "\<not> su_maintenance s" "\<not> su_closed s"
  using assms
proof (cases rule: run_task_cases)
  case (start p k stat ks r)
  then show thesis using assms(2) by (cases r) auto
next
  case (created j gen msg k out rep c')
  then show thesis using assms(2) that
    by (auto simp: start_commit_def Let_def split: option.splits if_splits sum.splits)
qed (use assms(2) in auto)

lemma step_creates:
  assumes "sup_step P (s, ts) evs (s', ts')" "Created i c \<in> set evs"
  shows "\<not> su_maintenance s \<and> \<not> su_closed s \<and> (\<exists>e. entry s i = Some e \<and> xe_desired e)"
  using assms by (cases rule: sup_step.cases) (auto elim: run_task_creates)

text \<open>
  C18: Process creation respects the published Maintenance Hold: while a hold is active and no
  later revision has been published, no interleaving of starts, restarts, watchdog restarts,
  stops and exits creates a process, not even a start that was already past its first checks
  when the hold was published.
\<close>

theorem no_process_created_under_hold:
  assumes "sup_runs free (s, ts) n evs (s', ts')" "su_maintenance s" "su_holdRevision s' = su_holdRevision s"
  shows "Created i c \<notin> set evs"
proof -
  have "sup_runs free w n evs w' \<Longrightarrow> su_maintenance (fst w) \<Longrightarrow>
      snd (hold_of (fst w')) = snd (hold_of (fst w)) \<Longrightarrow> Created i c \<notin> set evs" for w w'
  proof (induction rule: sup_runs.induct)
    case (runs_step w n evs w' es w'')
    have f: "hold_follows (hold_of (fst w)) (hold_of (fst w'))"
      using runs_hold_follows[OF runs_step.hyps(1)] .
    have g: "hold_follows (hold_of (fst w')) (hold_of (fst w''))"
      using step_hold_follows[of free "fst w'" "snd w'" es "fst w''" "snd w''"] runs_step.hyps(2) by simp
    have same: "hold_of (fst w') = hold_of (fst w)"
      using f g runs_step.prems(2) by (auto simp: hold_follows_def)
    then have "su_maintenance (fst w')" using runs_step.prems(1) by (simp add: hold_of_def)
    then have "Created i c \<notin> set es"
      using step_creates[of free "fst w'" "snd w'" es "fst w''" "snd w''" i c] runs_step.hyps(2) by auto
    then show ?case using runs_step.IH runs_step.prems(1) same by simp
  qed simp
  from this[OF assms(1)] show ?thesis using assms(2,3) by (simp add: hold_of_def)
qed

text \<open>
  The hold a Host reports only moves forward: along every run the revision never falls,
  and a revision never changes its meaning from held to released or back.
\<close>

theorem hold_revisions_advance:
  assumes "sup_runs free (s, ts) n evs (s', ts')"
  shows "su_holdRevision s \<le> su_holdRevision s'
    \<and> (su_holdRevision s' = su_holdRevision s \<longrightarrow> su_maintenance s' = su_maintenance s)"
  using runs_hold_follows[OF assms] by (auto simp: hold_follows_def hold_of_def)

section \<open>Stopped executions\<close>

definition wanted :: "Supervisor \<Rightarrow> ExecutionID \<Rightarrow> bool" where
  "wanted s i \<longleftrightarrow> (case entry s i of None \<Rightarrow> False | Some e \<Rightarrow> xe_desired e)"

lemma section_wanted:
  "start_refused i g err s = (s', rep) \<Longrightarrow> wanted s' j \<Longrightarrow> wanted s j"
  "start_commit i g m out s = (s', rep, c) \<Longrightarrow> wanted s' j \<Longrightarrow> wanted s j"
  "wait_exit i d g code now s = (s', w) \<Longrightarrow> wanted s' j \<Longrightarrow> wanted s j"
  "backoff_wake i g cn s = (s', ok) \<Longrightarrow> wanted s' j \<Longrightarrow> wanted s j"
  "Stop_enter i s = (s', r') \<Longrightarrow> wanted s' j \<Longrightarrow> wanted s j"
  "Stop_leave i s = (s', rep) \<Longrightarrow> wanted s' j \<Longrightarrow> wanted s j"
  "Restart_leave i n rep0 s = (s', rep) \<Longrightarrow> wanted s' j \<Longrightarrow> wanted s j"
  by (auto simp: section_defs wanted_def cancelBackoff_def begin_start_def
      split: option.splits if_splits sum.splits prod.splits)

lemma Start_wanted:
  "Start_enter v p s = (s', Inl rep) \<Longrightarrow> wanted s' j \<Longrightarrow> wanted s j"
  "Start_enter v p s = (s', r) \<Longrightarrow> j \<noteq> pl_ExecutionID p \<Longrightarrow> wanted s' j \<Longrightarrow> wanted s j"
  by (auto simp: section_defs wanted_def split: option.splits if_splits)

lemma run_task_wanted:
  assumes "run_task t ch s = Some (s', new, evs)" "StartAccepted j \<notin> set evs" "wanted s' j"
  shows "wanted s j"
  using assms
proof (cases rule: run_task_cases)
  case (start p k stat ks r)
  then show ?thesis using assms(2,3) Start_wanted by (cases r) auto
qed (use assms(3) section_wanted in \<open>auto dest: section_wanted\<close>)

lemma write_wanted [simp]: "wanted (write_stdout i out s) j = wanted s j" "wanted (write_stderr i out s) j = wanted s j"
  by (auto simp: write_stdout_def write_stderr_def wanted_def split: option.splits)

lemma step_wanted:
  assumes "sup_step P (s, ts) evs (s', ts')" "StartAccepted j \<notin> set evs" "wanted s' j"
  shows "wanted s j"
  using assms
proof (cases rule: sup_step.cases)
  case (step_hold a r v x)
  then have "wanted s j = wanted s' j"
    by (auto simp: ApplyMaintenanceHold_enter_def wanted_def Let_def split: if_splits)
  then show ?thesis using assms(3) by simp
qed (use assms(3) in \<open>auto simp: Shutdown_enter_def wanted_def entry_def SetStartValidator_def
  write_wanted[unfolded wanted_def entry_def] dest: run_task_wanted[unfolded wanted_def entry_def]\<close>)

text \<open>
  A stop holds: once an execution is not desired (every \<open>Stop\<close>, refused start and
  exhausted crash loop leaves it so), neither the watchdog nor a start that was already under
  way creates a process for it until a client's \<open>Start\<close> or \<open>Restart\<close> is accepted again.
\<close>

theorem stopped_until_started:
  assumes "sup_runs free (s, ts) n evs (s', ts')" "\<not> wanted s i" "StartAccepted i \<notin> set evs"
  shows "\<not> wanted s' i \<and> Created i c \<notin> set evs"
proof -
  have "sup_runs free w n evs w' \<Longrightarrow> \<not> wanted (fst w) i \<Longrightarrow> StartAccepted i \<notin> set evs \<Longrightarrow>
      \<not> wanted (fst w') i \<and> Created i c \<notin> set evs" for w w'
  proof (induction rule: sup_runs.induct)
    case (runs_step w n evs w' es w'')
    then have ih: "\<not> wanted (fst w') i" "Created i c \<notin> set evs" by auto
    have st: "sup_step free (fst w', snd w') es (fst w'', snd w'')" using runs_step.hyps(2) by simp
    have "\<not> wanted (fst w'') i" using step_wanted[OF st] ih runs_step.prems by auto
    moreover have "Created i c \<notin> set es" using step_creates[OF st, of i c] ih by (auto simp: wanted_def)
    ultimately show ?case using ih by simp
  qed simp
  from this[OF assms(1)] show ?thesis using assms(2,3) by simp
qed

end
