(* ===== verification/Supervisor_Tokens.thy ===== *)
theory Supervisor_Tokens
  imports Supervisor_Safety
begin

text \<open>
  The generation of an execution as a token: at most one pending start, process or pause
  carries the current generation, under every interleaving. From it follows the bound on the
  restarts of the watchdog. Generations are 64-bit counters that grow by at most one per step,
  so the statements are for runs of fewer than \<open>2 ^ 64\<close> steps.
\<close>

section \<open>Tasks of an execution\<close>

fun touches :: "task \<Rightarrow> ExecutionID" where
  "touches (CallStart p k) = pl_ExecutionID p"
| "touches (CallStop i k) = i"
| "touches (CallRestart i) = i"
| "touches (FirstSection i g m k) = i"
| "touches (Validating i g m k) = i"
| "touches (Committing i g m k) = i"
| "touches (Waiting i c g) = i"
| "touches (BackingOff i g c) = i"
| "touches (AwaitingExit i d k) = i"
| "touches (LeavingStop i k) = i"
| "touches (EndRestart i n rep) = i"

fun starting :: "task \<Rightarrow> bool" where
  "starting (FirstSection i g m k) = True"
| "starting (Validating i g m k) = True"
| "starting (Committing i g m k) = True"
| "starting t = False"

fun stopping :: "task \<Rightarrow> bool" where
  "stopping (AwaitingExit i d k) = True"
| "stopping (LeavingStop i k) = True"
| "stopping t = False"

fun live :: "task \<Rightarrow> bool" where
  "live (Waiting i c g) = True"
| "live t = False"

fun backing :: "task \<Rightarrow> bool" where
  "backing (BackingOff i g c) = True"
| "backing t = False"

fun token_gen :: "task \<Rightarrow> uint64 option" where
  "token_gen (FirstSection i g m k) = Some g"
| "token_gen (Validating i g m k) = Some g"
| "token_gen (Committing i g m k) = Some g"
| "token_gen (Waiting i c g) = Some g"
| "token_gen (BackingOff i g c) = Some g"
| "token_gen t = None"

definition at_work :: "task \<Rightarrow> bool" where
  "at_work t \<longleftrightarrow> starting t \<or> live t \<or> backing t \<or> stopping t"

definition loc :: "ExecutionID \<Rightarrow> task list \<Rightarrow> task list" where
  "loc i ts = filter (\<lambda>t. touches t = i \<and> at_work t) ts"

lemma loc_simps [simp]:
  "loc i [] = []" "loc i (xs @ ys) = loc i xs @ loc i ys"
  "loc i (t # ts) = (if touches t = i \<and> at_work t then t # loc i ts else loc i ts)"
  by (simp_all add: loc_def)

lemma at_work_simps [simp]:
  "\<not> at_work (CallStart p k)" "\<not> at_work (CallStop i k)" "\<not> at_work (CallRestart i)" "\<not> at_work (EndRestart i n rep)"
  "at_work (FirstSection i g m k)" "at_work (Validating i g m k)" "at_work (Committing i g m k)"
  "at_work (Waiting i c g)" "at_work (BackingOff i g c)" "at_work (AwaitingExit i d k)" "at_work (LeavingStop i k)"
  by (simp_all add: at_work_def)

lemma loc_next_stop [simp]: "loc i (next_stop k is) = []"
  by (cases "is") simp_all

lemma loc_resume [simp]: "loc i (resume k rep) = []"
  by (cases "(k, rep)" rule: resume.cases) auto

lemma loc_hold_tasks [simp]: "loc i (hold_tasks r) = []"
  by (cases r) auto

lemma loc_client [simp]: "client_call t \<Longrightarrow> loc i [t] = []"
  by (cases t) auto

text \<open>A section changes only the execution of its task.\<close>

lemma section_frame:
  "Start_enter v p s = (s', r) \<Longrightarrow> pl_ExecutionID p \<noteq> j \<Longrightarrow> entry s' j = entry s j"
  "start_refused i g err s = (s', rep) \<Longrightarrow> i \<noteq> j \<Longrightarrow> entry s' j = entry s j"
  "start_commit i g m out s = (s', rep, co) \<Longrightarrow> i \<noteq> j \<Longrightarrow> entry s' j = entry s j"
  "wait_exit i c g code now s = (s', w) \<Longrightarrow> i \<noteq> j \<Longrightarrow> entry s' j = entry s j"
  "backoff_wake i g cn s = (s', ok) \<Longrightarrow> i \<noteq> j \<Longrightarrow> entry s' j = entry s j"
  "Stop_enter i s = (s', r') \<Longrightarrow> i \<noteq> j \<Longrightarrow> entry s' j = entry s j"
  "Stop_leave i s = (s', rep) \<Longrightarrow> i \<noteq> j \<Longrightarrow> entry s' j = entry s j"
  "Restart_leave i n rep0 s = (s', rep) \<Longrightarrow> i \<noteq> j \<Longrightarrow> entry s' j = entry s j"
  by (auto simp: section_defs split: option.splits if_splits sum.splits prod.splits)

lemma run_task_frame:
  assumes "run_task t ch s = Some (s', new, evs)" "touches t \<noteq> j"
  shows "entry s' j = entry s j \<and> loc j new = []"
  using assms
proof (cases rule: run_task_cases)
  case (start p k stat ks r)
  then show ?thesis using assms(2) by (cases r) (auto simp: section_frame(1))
next
  case (stop i k r)
  then show ?thesis using assms(2) by (cases r) (auto simp: section_frame)
next
  case (first i gen msg k)
  then show ?thesis using assms(2)
    by (cases "(i, gen, msg, k, start_first i gen s)" rule: first_tasks.cases) auto
qed (use assms(2) in \<open>auto simp: section_frame\<close>)

lemma write_cfg [simp]: "su_cfg (write_stdout i out s) = su_cfg s" "su_cfg (write_stderr i out s) = su_cfg s"
  by (auto simp: write_stdout_def write_stderr_def split: option.splits)

lemma section_cfg:
  "Start_enter v p s = (s', r) \<Longrightarrow> su_cfg s' = su_cfg s"
  "start_refused i g err s = (s', rep) \<Longrightarrow> su_cfg s' = su_cfg s"
  "start_commit i g m out s = (s', rep, co) \<Longrightarrow> su_cfg s' = su_cfg s"
  "wait_exit i c g code now s = (s', w) \<Longrightarrow> su_cfg s' = su_cfg s"
  "backoff_wake i g cn s = (s', ok) \<Longrightarrow> su_cfg s' = su_cfg s"
  "Stop_enter i s = (s', r') \<Longrightarrow> su_cfg s' = su_cfg s"
  "Stop_leave i s = (s', rep) \<Longrightarrow> su_cfg s' = su_cfg s"
  "Restart_leave i n rep0 s = (s', rep) \<Longrightarrow> su_cfg s' = su_cfg s"
  by (auto simp: section_defs split: option.splits if_splits sum.splits prod.splits)

lemma run_task_cfg: "run_task t ch s = Some (s', new, evs) \<Longrightarrow> su_cfg s' = su_cfg s"
  by (erule run_task_cases) (auto dest: section_cfg)

lemma step_cfg: "sup_step P (s, ts) evs (s', ts') \<Longrightarrow> su_cfg s' = su_cfg s"
  by (erule sup_step.cases)
    (auto simp: ApplyMaintenanceHold_enter_def publish_hold_def SetStartValidator_def Shutdown_enter_def
      Let_def run_task_cfg split: if_splits)

lemma runs_cfg: "sup_runs P w n evs w' \<Longrightarrow> su_cfg (fst w') = su_cfg (fst w)"
proof (induction rule: sup_runs.induct)
  case (runs_step w n evs w' es w'')
  then show ?case using step_cfg[of P "fst w'" "snd w'" es "fst w''" "snd w''"] by simp
qed simp

section \<open>One token of the current generation\<close>

definition current :: "execution \<Rightarrow> task \<Rightarrow> bool" where
  "current e t \<longleftrightarrow> token_gen t = Some (xe_generation e)"

definition gens_ok :: "nat \<Rightarrow> execution \<Rightarrow> task list \<Rightarrow> bool" where
  "gens_ok n e L \<longleftrightarrow> unat (xe_generation e) \<le> n
     \<and> (\<forall>t\<in>set L. \<forall>g. token_gen t = Some g \<longrightarrow> g \<le> xe_generation e)
     \<and> length (filter (current e) L) \<le> 1"

lemma current_cong: "xe_generation e' = xe_generation e \<Longrightarrow> current e' = current e"
  by (simp add: current_def fun_eq_iff)

lemma gens_mono: "gens_ok m e L \<Longrightarrow> m \<le> n \<Longrightarrow> gens_ok n e L"
  by (auto simp: gens_ok_def)

lemma gens_same: "gens_ok n e L \<Longrightarrow> xe_generation e' = xe_generation e \<Longrightarrow> gens_ok n e' L"
  using current_cong[of e' e]
  by (simp add: gens_ok_def current_def)

text \<open>A task is replaced by at most one task, with its token or with none.\<close>

lemma gens_keep:
  assumes "gens_ok n e (L1 @ t # L2)" "xe_generation e' = xe_generation e"
    "new = [] \<or> (\<exists>t'. new = [t'] \<and> (token_gen t' = None \<or> token_gen t' = token_gen t))"
  shows "gens_ok n e' (L1 @ new @ L2)"
  using assms(3)
proof
  assume "new = []"
  then show ?thesis using assms(1) by (auto simp: gens_ok_def current_cong[OF assms(2)] assms(2) split: if_splits)
next
  assume "\<exists>t'. new = [t'] \<and> (token_gen t' = None \<or> token_gen t' = token_gen t)"
  then obtain t' where t': "new = [t']" "token_gen t' = None \<or> token_gen t' = token_gen t" by blast
  have "current e t' \<Longrightarrow> current e t" using t'(2) by (auto simp: current_def)
  then show ?thesis using assms(1) t'
    by (auto simp: gens_ok_def current_cong[OF assms(2)] assms(2) split: if_splits)
qed

text \<open>A new generation has no token, except those its section adds.\<close>

lemma no_token_above:
  assumes "gens_ok n e L" "Suc n < 2 ^ 64" "xe_generation e' = xe_generation e + 1"
  shows "unat (xe_generation e') = Suc (unat (xe_generation e)) \<and> filter (current e') L = []"
proof -
  have "unat (xe_generation e + 1) = Suc (unat (xe_generation e))"
    using assms(1,2) by (simp add: gens_ok_def unat_word_ariths)
  moreover have "\<not> current e' t" if "t \<in> set L" for t
  proof
    assume "current e' t"
    then have "xe_generation e + 1 \<le> xe_generation e"
      using that assms(1,3) by (auto simp: gens_ok_def current_def)
    then show False using \<open>unat (xe_generation e + 1) = _\<close> by (simp add: word_le_nat_alt)
  qed
  ultimately show ?thesis using assms(3) by (simp add: filter_empty_conv)
qed

lemma gens_bump:
  assumes "gens_ok n e (L1 @ old @ L2)" "Suc n < 2 ^ 64" "xe_generation e' = xe_generation e + 1"
    "new = [] \<or> (\<exists>t'. new = [t'] \<and> (token_gen t' = None \<or> token_gen t' = Some (xe_generation e')))"
  shows "gens_ok (Suc n) e' (L1 @ new @ L2)"
proof -
  have n: "unat (xe_generation e') = Suc (unat (xe_generation e))" "filter (current e') (L1 @ old @ L2) = []"
    using no_token_above[OF assms(1,2,3)] by auto
  have le: "xe_generation e \<le> xe_generation e'" using n(1) by (simp add: word_le_nat_alt)
  have old: "g \<le> xe_generation e'" if "t \<in> set L1 \<union> set L2" "token_gen t = Some g" for t g
    using assms(1) that order_trans[OF _ le] by (auto simp: gens_ok_def)
  have f: "filter (current e') L1 = []" "filter (current e') L2 = []" using n(2) by auto
  have "unat (xe_generation e') \<le> Suc n" using assms(1) n(1) by (simp add: gens_ok_def)
  moreover have "length (filter (current e') (L1 @ new @ L2)) \<le> 1" using assms(4) f by auto
  moreover have "g \<le> xe_generation e'" if "t \<in> set (L1 @ new @ L2)" "token_gen t = Some g" for t g
    using that assms(4) old[of t g] by auto
  ultimately show ?thesis by (simp add: gens_ok_def)
qed

section \<open>Every section keeps the tokens\<close>

definition local_ok :: "nat \<Rightarrow> Supervisor \<Rightarrow> ExecutionID \<Rightarrow> task list \<Rightarrow> bool" where
  "local_ok n s i L \<longleftrightarrow> (case entry s i of None \<Rightarrow> L = []
     | Some e \<Rightarrow> pl_ExecutionID (xe_plan e) = i \<and> gens_ok n e L)"

definition tokens_ok :: "nat \<Rightarrow> world \<Rightarrow> bool" where
  "tokens_ok n w \<longleftrightarrow> (\<forall>i. local_ok n (fst w) i (loc i (snd w)))"

lemma local_ok_mono: "local_ok m s i L \<Longrightarrow> m \<le> n \<Longrightarrow> local_ok n s i L"
  by (auto simp: local_ok_def intro: gens_mono split: option.splits)

text \<open>Two executions of one identifier: the same plan and the same or the next generation.\<close>

definition kept :: "execution \<Rightarrow> execution \<Rightarrow> bool" where
  "kept e e' \<longleftrightarrow> xe_plan e' = xe_plan e \<and> xe_generation e' = xe_generation e"

definition bumped :: "execution \<Rightarrow> execution \<Rightarrow> bool" where
  "bumped e e' \<longleftrightarrow> xe_plan e' = xe_plan e \<and> xe_generation e' = xe_generation e + 1"

lemma section_kept:
  assumes "entry s i = Some e"
  shows "start_refused i g err s = (s', rep) \<Longrightarrow> \<exists>e'. entry s' i = Some e' \<and> kept e e'"
    "start_commit i g m out s = (s', rep, Some c) \<Longrightarrow> \<exists>e'. entry s' i = Some e' \<and> kept e e'"
    "start_commit i g m out s = (s', rep, None) \<Longrightarrow> \<exists>e'. entry s' i = Some e' \<and> (kept e e' \<or> bumped e e')"
    "wait_exit i d g code now s = (s', None) \<Longrightarrow> \<exists>e'. entry s' i = Some e' \<and> kept e e'"
    "wait_exit i d g code now s = (s', Some (dl, g', cn)) \<Longrightarrow>
      \<exists>e'. entry s' i = Some e' \<and> bumped e e' \<and> g' = xe_generation e'"
    "backoff_wake i g cn s = (s', ok) \<Longrightarrow> \<exists>e'. entry s' i = Some e' \<and> kept e e'"
    "Stop_enter i s = (s', r') \<Longrightarrow> \<exists>e'. entry s' i = Some e' \<and> (kept e e' \<or> bumped e e')"
    "Stop_leave i s = (s', rep) \<Longrightarrow> \<exists>e'. entry s' i = Some e' \<and> kept e e'"
    "Restart_leave i n rep0 s = (s', rep) \<Longrightarrow> \<exists>e'. entry s' i = Some e' \<and> kept e e'"
  using assms
  by (auto simp: section_defs kept_def bumped_def cancelBackoff_def begin_start_def
      split: if_splits sum.splits option.splits prod.splits)

lemma section_absent:
  "entry s i = None \<Longrightarrow> Stop_enter i s = (s', r') \<Longrightarrow> entry s' i = None"
  "entry s i = None \<Longrightarrow> Restart_leave i n rep0 s = (s', rep) \<Longrightarrow> entry s' i = None"
  by (auto simp: section_defs split: option.splits)

lemma Start_refuses: "Start_enter v p s = (s', Inl rep) \<Longrightarrow> s' = s"
  by (auto simp: section_defs split: option.splits if_splits)

lemma Start_accepts:
  assumes "Start_enter v p s = (s', Inr g)"
  shows "(entry s (pl_ExecutionID p) = None \<and> g = 1
        \<and> s' = put (pl_ExecutionID p) (new_execution p (su_cfg s)) s)
    \<or> (\<exists>e. entry s (pl_ExecutionID p) = Some e \<and> xe_plan e = p \<and> \<not> (xe_desired e \<and> is_up (xe_state e))
        \<and> s' = put_cancelled (pl_ExecutionID p) e (revive e) s \<and> g = xe_generation e + 1)"
  using assms by (auto simp: Start_enter_def split: option.splits if_splits)

lemma local_keep:
  assumes "local_ok n s i (L1 @ t # L2)" "entry s i = Some e" "entry s' i = Some e'" "kept e e'"
    "new = [] \<or> (\<exists>t'. new = [t'] \<and> (token_gen t' = None \<or> token_gen t' = token_gen t))"
  shows "local_ok (Suc n) s' i (L1 @ new @ L2)"
  using assms gens_keep[of n e L1 t L2 e' new] gens_mono[of n e' "L1 @ new @ L2" "Suc n"]
  by (auto simp: local_ok_def kept_def)

lemma local_bump:
  assumes "local_ok n s i (L1 @ old @ L2)" "entry s i = Some e" "entry s' i = Some e'" "bumped e e'"
    "Suc n < 2 ^ 64" "new = [] \<or> (\<exists>t'. new = [t'] \<and> (token_gen t' = None \<or> token_gen t' = Some (xe_generation e')))"
  shows "local_ok (Suc n) s' i (L1 @ new @ L2)"
  using assms gens_bump[of n e L1 old L2 e' new] by (auto simp: local_ok_def bumped_def)

lemma local_idle:
  assumes "local_ok n s i L" "entry s i = Some e" "entry s' i = Some e'" "kept e e' \<or> bumped e e'" "Suc n < 2 ^ 64"
  shows "local_ok (Suc n) s' i L"
  using assms local_bump[of n s i L "[]" "[]" e s' e' "[]"]
    gens_mono[of n e' L "Suc n"] gens_same[of n e L e']
  by (auto simp: local_ok_def kept_def)

lemma loc_stop_tasks: "loc i (stop_tasks i k r) = []
    \<or> (\<exists>t'. loc i (stop_tasks i k r) = [t'] \<and> token_gen t' = None)"
  by (cases "(i, k, r)" rule: stop_tasks.cases) auto

lemma loc_first_tasks: "loc i (first_tasks i g m k r) = []
    \<or> (\<exists>t'. loc i (first_tasks i g m k r) = [t'] \<and> token_gen t' = Some g)"
  by (cases "(i, g, m, k, r)" rule: first_tasks.cases) auto

lemma local_add:
  assumes "local_ok n s i (L1 @ L2)" "entry s i \<noteq> None" "new = [] \<or> (\<exists>t'. new = [t'] \<and> token_gen t' = None)"
  shows "local_ok n s i (L1 @ new @ L2)"
  using assms by (auto simp: local_ok_def gens_ok_def current_def)

lemma start_keeps_tokens:
  assumes "Start_enter v p s = (s', Inr g)" "i = pl_ExecutionID p" "local_ok n s i (L1 @ L2)" "Suc n < 2 ^ 64"
  shows "local_ok (Suc n) s' i (L1 @ [FirstSection i g msg k] @ L2)"
  using Start_accepts[OF assms(1)]
proof (elim disjE exE conjE)
  assume "entry s (pl_ExecutionID p) = None" "g = 1" "s' = put (pl_ExecutionID p) (new_execution p (su_cfg s)) s"
  then show ?thesis using assms(2,3)
    by (auto simp: local_ok_def gens_ok_def new_execution_def current_def)
next
  fix e assume e: "entry s (pl_ExecutionID p) = Some e"
    "s' = put_cancelled (pl_ExecutionID p) e (revive e) s" "g = xe_generation e + 1"
  show ?thesis
    by (rule local_bump[of n s i L1 "[]" L2 e s' "cancelBackoff (revive e)"])
      (use assms e in \<open>auto simp: bumped_def revive_def cancelBackoff_def put_cancelled_def\<close>)
qed

lemma run_task_tokens:
  assumes "run_task t ch s = Some (s', new, evs)" "local_ok n s (touches t) (loc (touches t) (xs @ t # ys))"
    "Suc n < 2 ^ 64"
  shows "local_ok (Suc n) s' (touches t) (loc (touches t) (xs @ new @ ys))"
proof -
  define i where "i = touches t"
  have ok: "local_ok n s i (loc i xs @ loc i [t] @ loc i ys)" using assms(2) by (cases "at_work t") (auto simp: i_def)
  have present: "at_work t \<Longrightarrow> \<exists>e. entry s i = Some e"
    using ok by (auto simp: local_ok_def i_def split: option.splits)
  have keep: "local_ok (Suc n) s' i (loc i xs @ new' @ loc i ys)"
    if "entry s i = Some e" "entry s' i = Some e'" "kept e e'" "at_work t"
      "new' = [] \<or> (\<exists>t'. new' = [t'] \<and> (token_gen t' = None \<or> token_gen t' = token_gen t))" for e e' new'
    using local_keep[of n s i "loc i xs" t "loc i ys" e s' e' new'] ok that by (simp add: i_def)
  have bump: "local_ok (Suc n) s' i (loc i xs @ new' @ loc i ys)"
    if "entry s i = Some e" "entry s' i = Some e'" "bumped e e'"
      "new' = [] \<or> (\<exists>t'. new' = [t'] \<and> (token_gen t' = None \<or> token_gen t' = Some (xe_generation e')))" for e e' new'
    using local_bump[of n s i "loc i xs" "loc i [t]" "loc i ys" e s' e' new'] ok that assms(3) by simp
  have stay: "local_ok (Suc n) s' i (loc i xs @ new' @ loc i ys)"
    if "s' = s" "at_work t" "new' = [] \<or> (\<exists>t'. new' = [t'] \<and> (token_gen t' = None \<or> token_gen t' = token_gen t))" for new'
    using present[OF that(2)] keep[OF _ _ _ that(2,3)] that(1) by (auto simp: kept_def)
  have "local_ok (Suc n) s' i (loc i xs @ loc i new @ loc i ys)"
    using assms(1)
  proof (cases rule: run_task_cases)
    case (start p k stat ks r)
    show ?thesis
    proof (cases r)
      case (Inl rep)
      then have "s' = s" "loc i new = []" using start Start_refuses by (auto simp: i_def)
      then show ?thesis using ok start local_ok_mono[of n s i _ "Suc n"] by (simp add: i_def)
    next
      case (Inr g)
      then show ?thesis using start ok start_keeps_tokens[of _ p s s' g i n "loc i xs" "loc i ys"] assms(3)
        by (auto simp: i_def)
    qed
  next
    case (stop j k r)
    have idle: "at_work t = False" "j = i" using stop by (auto simp: i_def)
    show ?thesis
    proof (cases "entry s i")
      case None
      then show ?thesis using stop ok idle section_absent(1)[of s i s' r]
        by (auto simp: local_ok_def Stop_enter_def split: option.splits)
    next
      case (Some e)
      obtain e' where e': "entry s' i = Some e'" "kept e e' \<or> bumped e e'"
        using section_kept(7)[OF Some] stop idle by auto
      have "local_ok (Suc n) s' i (loc i xs @ loc i ys)"
        using local_idle[of n s i "loc i xs @ loc i ys"] ok idle Some e' assms(3) by simp
      then show ?thesis using local_add[of "Suc n" s' i "loc i xs" "loc i ys" "loc i new"] e' stop idle
          loc_stop_tasks[of i k r] by auto
    qed
  next
    case (first j gen msg k)
    then obtain e where e: "entry s i = Some e" "entry s' i = Some e" "kept e e" "at_work t"
      using present by (auto simp: i_def kept_def)
    have "i = j" "token_gen t = Some gen" using first by (simp_all add: i_def)
    then have "loc i new = [] \<or> (\<exists>t'. loc i new = [t'] \<and> (token_gen t' = None \<or> token_gen t' = token_gen t))"
      using first(3) loc_first_tasks[of j gen msg k "start_first j gen s"] by auto
    from keep[OF e this] show ?thesis .
  next
    case (refused j gen msg k err rep)
    then have j: "j = i" "at_work t" by (simp_all add: i_def)
    then obtain e where e: "entry s i = Some e" using present by blast
    obtain e' where e': "entry s' i = Some e'" "kept e e'" using section_kept(1)[OF e] refused j(1) by blast
    show ?thesis by (rule keep[OF e e' j(2)]) (use refused j in simp)
  next
    case (not_created j gen msg k out rep)
    then have j: "j = i" "at_work t" by (simp_all add: i_def)
    then obtain e where e: "entry s i = Some e" using present by blast
    obtain e' where e': "entry s' i = Some e'" "kept e e' \<or> bumped e e'"
      using section_kept(3)[OF e] not_created j(1) by blast
    have "loc i new = []" using not_created by simp
    with e'(2) show ?thesis
      using keep[OF e e'(1) _ j(2), of "loc i new"] bump[OF e e'(1), of "loc i new"] by blast
  next
    case (created j gen msg k out rep c)
    then have j: "j = i" "at_work t" by (simp_all add: i_def)
    then obtain e where e: "entry s i = Some e" using present by blast
    obtain e' where e': "entry s' i = Some e'" "kept e e'" using section_kept(2)[OF e] created j(1) by blast
    show ?thesis by (rule keep[OF e e' j(2)]) (use created j in simp)
  next
    case (exit j c gen code now)
    then have j: "j = i" "at_work t" by (simp_all add: i_def)
    then obtain e where e: "entry s i = Some e" using present by blast
    obtain e' where e': "entry s' i = Some e'" "kept e e'" using section_kept(4)[OF e] exit j(1) by blast
    show ?thesis by (rule keep[OF e e' j(2)]) (use exit j in simp)
  next
    case (pause j c gen code now d gen' cancel)
    then have j: "j = i" "at_work t" by (simp_all add: i_def)
    then obtain e where e: "entry s i = Some e" using present by blast
    obtain e' where e': "entry s' i = Some e'" "bumped e e'" "gen' = xe_generation e'"
      using section_kept(5)[OF e] pause j(1) by blast
    show ?thesis by (rule bump[OF e e'(1,2)]) (use pause j e' in simp)
  next
    case (elapsed j gen cancel go)
    then have j: "j = i" "at_work t" by (simp_all add: i_def)
    then obtain e where e: "entry s i = Some e" using present by blast
    obtain e' where e': "entry s' i = Some e'" "kept e e'" using section_kept(6)[OF e] elapsed j(1) by blast
    show ?thesis by (rule keep[OF e e' j(2)]) (use elapsed j in \<open>cases go; simp\<close>)
  next
    case (leave j k rep)
    then have j: "j = i" "at_work t" by (simp_all add: i_def)
    then obtain e where e: "entry s i = Some e" using present by blast
    obtain e' where e': "entry s' i = Some e'" "kept e e'" using section_kept(8)[OF e] leave j(1) by blast
    show ?thesis by (rule keep[OF e e' j(2)]) (use leave j in simp)
  next
    case (count j m rep rep')
    show ?thesis
    proof (cases "entry s i")
      case None
      then show ?thesis using count ok section_absent(2) by (auto simp: local_ok_def i_def)
    next
      case (Some e)
      have j: "j = i" using count by (simp add: i_def)
      obtain e' where e': "entry s' i = Some e'" "kept e e'" using section_kept(9)[OF Some] count(2) j by blast
      have "local_ok n s i (loc i xs @ loc i ys)" using ok count j by simp
      from local_idle[OF this Some e'(1) disjI1[OF e'(2)] assms(3)] show ?thesis using count by simp
    qed
  next
    case (accepted j gen msg k)
    show ?thesis by (rule stay) (use accepted in \<open>auto simp: i_def\<close>)
  next
    case (cancelled j gen cancel)
    show ?thesis by (rule stay) (use cancelled in \<open>auto simp: i_def\<close>)
  next
    case (ended j d k)
    show ?thesis by (rule stay) (use ended in \<open>auto simp: i_def\<close>)
  qed (use ok in \<open>auto simp: i_def intro: local_ok_mono\<close>)
  then show ?thesis by (simp add: i_def)
qed

lemma write_keeps:
  "entry s j = Some e \<Longrightarrow> \<exists>e'. entry (write_stdout i out s) j = Some e' \<and> kept e e' \<and> xe_crashes e' = xe_crashes e"
  "entry s j = Some e \<Longrightarrow> \<exists>e'. entry (write_stderr i out s) j = Some e' \<and> kept e e' \<and> xe_crashes e' = xe_crashes e"
  "entry s j = None \<Longrightarrow> entry (write_stdout i out s) j = None"
  "entry s j = None \<Longrightarrow> entry (write_stderr i out s) j = None"
  by (auto simp: write_stdout_def write_stderr_def kept_def split: option.splits)

text \<open>The steps outside the pool change no execution, except for its output.\<close>

lemma outer_entries:
  "entry (SetStartValidator v s) i = entry s i"
  "ApplyMaintenanceHold_enter a r s = (s', h, x) \<Longrightarrow> entry s' i = entry s i"
  "Shutdown_enter s = (s', ids) \<Longrightarrow> entry s' i = entry s i"
  by (auto simp: ApplyMaintenanceHold_enter_def Shutdown_enter_def entry_def publish_hold_def SetStartValidator_def
      Let_def split: if_splits)

lemma abandon_same [simp]: "touches (abandon t) = touches t" "at_work (abandon t) = at_work t"
    "token_gen (abandon t) = token_gen t" "live (abandon t) = live t" "starting (abandon t) = starting t"
    "backing (abandon t) = backing t" "stopping (abandon t) = stopping t"
  by (cases t rule: abandon.cases; simp)+

lemma local_ok_entry: "entry s' i = entry s i \<Longrightarrow> local_ok n s' i L = local_ok n s i L"
  by (simp add: local_ok_def)

lemma local_ok_write:
  "local_ok n s j L \<Longrightarrow> local_ok n (write_stdout i out s) j L"
  "local_ok n s j L \<Longrightarrow> local_ok n (write_stderr i out s) j L"
  using write_keeps[where s = s and j = j and i = i and out = out] gens_same[of n _ L]
  by (cases "entry s j"; fastforce simp: local_ok_def kept_def)+

lemma abandon_tokens:
  assumes "local_ok n s i (L1 @ t # L2)"
  shows "local_ok n s i (L1 @ abandon t # L2)"
  using assms by (auto simp: local_ok_def gens_ok_def current_def split: option.splits if_splits)

lemma step_tokens:
  assumes "sup_step P (s, ts) evs (s', ts')" "tokens_ok n (s, ts)" "Suc n < 2 ^ 64"
  shows "tokens_ok (Suc n) (s', ts')"
proof -
  have "local_ok (Suc n) s' i (loc i ts')" for i
  proof -
    have ok: "local_ok n s i (loc i ts)" using assms(2) by (simp add: tokens_ok_def)
    have up: "local_ok (Suc n) s' i (loc i ts')" if "local_ok n s' i (loc i ts')"
      using that by (rule local_ok_mono) simp
    show ?thesis
      using assms(1)
    proof (cases rule: sup_step.cases)
      case (step_hold a r v x)
      show ?thesis by (rule up) (use step_hold ok local_ok_entry[OF outer_entries(2)] in simp)
    next
      case (step_shutdown ids ids')
      show ?thesis by (rule up) (use step_shutdown ok local_ok_entry[OF outer_entries(3)] in simp)
    next
      case (step_task xs t ys ch new)
      show ?thesis
      proof (cases "touches t = i")
        case True
        then show ?thesis using step_task run_task_tokens[of t ch s s' new evs n xs ys] ok assms(3) by simp
      next
        case False
        then have "entry s' i = entry s i" "loc i new = []"
          using step_task run_task_frame[of t ch s s' new evs i] by auto
        then have "local_ok n s' i (loc i ts')" using ok step_task False local_ok_entry[of s' i s n] by auto
        then show ?thesis by (rule up)
      qed
    next
      case (step_abandon xs t ys)
      show ?thesis by (rule up) (use step_abandon ok abandon_tokens[of n s i] in \<open>auto split: if_splits\<close>)
    next
      case (step_stdout j out)
      show ?thesis by (rule up) (use step_stdout ok local_ok_write(1) in simp)
    next
      case (step_stderr j out)
      show ?thesis by (rule up) (use step_stderr ok local_ok_write(2) in simp)
    next
      case (step_client t)
      show ?thesis by (rule up) (use step_client ok loc_client in simp)
    next
      case (step_validator v)
      show ?thesis by (rule up) (use step_validator ok local_ok_entry[OF outer_entries(1)] in simp)
    qed
  qed
  then show ?thesis by (simp add: tokens_ok_def)
qed

lemma first_tokens: "tokens_ok 0 (first_world cfg)"
  by (simp add: tokens_ok_def first_world_def local_ok_def entry_def New_def)

lemma runs_tokens:
  assumes "sup_runs P w n evs w'" "tokens_ok m w" "m + n < 2 ^ 64"
  shows "tokens_ok (m + n) w'"
  using assms
proof (induction rule: sup_runs.induct)
  case (runs_step w n evs w' es w'')
  then show ?case using step_tokens[of P "fst w'" "snd w'" es "fst w''" "snd w''" "m + n"] by simp
qed simp

end
