(* ===== verification/Supervisor_Crashes.thy ===== *)
theory Supervisor_Crashes
  imports Supervisor_Tokens
begin

text \<open>
  The crash loop: between two accepted starts the Supervisor creates at most as many processes
  for an execution as its crash limit allows.
\<close>

section \<open>Creations, exits and pending restarts\<close>

fun is_creation :: "ExecutionID \<Rightarrow> sup_event \<Rightarrow> bool" where
  "is_creation i (Created j c) = (i = j)"
| "is_creation i v = False"

definition creations :: "ExecutionID \<Rightarrow> sup_event list \<Rightarrow> nat" where
  "creations i evs = length (filter (is_creation i) evs)"

definition exits_within :: "ExecutionID \<Rightarrow> Time \<Rightarrow> Duration \<Rightarrow> sup_event list \<Rightarrow> bool" where
  "exits_within i t0 d evs \<longleftrightarrow> (\<forall>c t. Exited i c t \<in> set evs \<longrightarrow> t0 \<le> t \<and> t < t0 + d)"

definition start_pending :: "execution \<Rightarrow> task list \<Rightarrow> bool" where
  "start_pending e L \<longleftrightarrow> (\<exists>t\<in>set L. current e t \<and> (starting t \<or> backing t))"

text \<open>
  The invariant, for \<open>k\<close> processes created so far: every one but the last has left a crash on
  record, and a restart is pending only below the limit.
\<close>

definition crash_inv :: "ExecutionID \<Rightarrow> Time \<Rightarrow> nat \<Rightarrow> Supervisor \<Rightarrow> task list \<Rightarrow> bool" where
  "crash_inv i t0 k s L \<longleftrightarrow> (\<exists>e. entry s i = Some e
     \<and> k + (if start_pending e L then 1 else 0) \<le> length (xe_crashes e) + 1
     \<and> (start_pending e L \<longrightarrow> int (length (xe_crashes e)) < cf_CrashLimit (su_cfg s))
     \<and> int k \<le> cf_CrashLimit (su_cfg s)
     \<and> (\<forall>t\<in>set (xe_crashes e). t0 \<le> t \<and> t < t0 + cf_CrashWindow (su_cfg s)))"

lemma crash_inv_weaken:
  assumes "crash_inv i t0 k s L" "entry s i = Some e" "entry s' i = Some e'" "xe_crashes e' = xe_crashes e"
    "su_cfg s' = su_cfg s" "start_pending e' L' \<Longrightarrow> start_pending e L"
  shows "crash_inv i t0 k s' L'"
  using assms by (auto simp: crash_inv_def split: if_splits)

lemma section_crashes:
  assumes "entry s i = Some e"
  shows "start_refused i g err s = (s', rep) \<Longrightarrow> \<exists>e'. entry s' i = Some e' \<and> xe_crashes e' = xe_crashes e"
    "start_commit i g m out s = (s', rep, co) \<Longrightarrow> \<exists>e'. entry s' i = Some e' \<and> xe_crashes e' = xe_crashes e"
    "backoff_wake i g cn s = (s', ok) \<Longrightarrow> \<exists>e'. entry s' i = Some e' \<and> xe_crashes e' = xe_crashes e"
    "Stop_enter i s = (s', r') \<Longrightarrow> \<exists>e'. entry s' i = Some e' \<and> xe_crashes e' = xe_crashes e"
    "Stop_leave i s = (s', rep) \<Longrightarrow> \<exists>e'. entry s' i = Some e' \<and> xe_crashes e' = xe_crashes e"
    "Restart_leave i n rep0 s = (s', rep) \<Longrightarrow> \<exists>e'. entry s' i = Some e' \<and> xe_crashes e' = xe_crashes e"
  using assms
  by (auto simp: section_defs cancelBackoff_def begin_start_def
      split: if_splits sum.splits option.splits prod.splits)

lemma recent_all:
  assumes "\<forall>t\<in>set cs. t0 \<le> t" "now < t0 + cf_CrashWindow cfg"
  shows "recent_crashes cfg now cs = cs"
  using assms by (auto simp: recent_crashes_def filter_id_conv)

text \<open>The exit of the current process, with every earlier crash inside the window.\<close>

lemma exit_counts:
  assumes "wait_exit i c gen code now s = (s', r)" "entry s i = Some e" "xe_cmd e = Some c" "xe_generation e = gen"
    "\<forall>t\<in>set (xe_crashes e). t0 \<le> t" "now < t0 + cf_CrashWindow (su_cfg s)"
  shows "\<exists>e'. entry s' i = Some e' \<and> (xe_crashes e' = xe_crashes e \<or> xe_crashes e' = xe_crashes e @ [now])
    \<and> (r = None \<longrightarrow> xe_generation e' = gen)
    \<and> (r \<noteq> None \<longrightarrow> xe_crashes e' = xe_crashes e @ [now] \<and> int (length (xe_crashes e')) < cf_CrashLimit (su_cfg s))"
  using assms(1-4) recent_all[OF assms(5,6)]
  by (auto simp: wait_exit_def Let_def split: if_splits)

lemma exit_stale:
  assumes "wait_exit i c gen code now s = (s', r)" "entry s i = Some e" "\<not> (xe_cmd e = Some c \<and> xe_generation e = gen)"
  shows "s' = s \<and> r = None"
  using assms by (auto simp: wait_exit_def)

lemma pending_kept:
  assumes "xe_generation e' = xe_generation e" "start_pending e' (L1 @ new @ L2)"
    "\<And>t'. t' \<in> set new \<Longrightarrow> current e t' \<Longrightarrow> starting t' \<or> backing t' \<Longrightarrow> current e t \<and> (starting t \<or> backing t)"
  shows "start_pending e (L1 @ t # L2)"
proof -
  obtain t' where "t' \<in> set (L1 @ new @ L2)" "current e t'" "starting t' \<or> backing t'"
    using assms(2) current_cong[OF assms(1)] by (auto simp: start_pending_def)
  then show ?thesis using assms(3)[of t'] by (auto simp: start_pending_def)
qed

lemma token_unique:
  assumes "gens_ok n e (L1 @ t # L2)" "current e t"
  shows "\<not> start_pending e (L1 @ L2)"
proof -
  have "filter (current e) L1 = []" "filter (current e) L2 = []"
    using assms by (auto simp: gens_ok_def simp flip: length_0_conv)
  then show ?thesis by (auto simp: start_pending_def filter_empty_conv)
qed

lemma pending_bumped:
  assumes "gens_ok n e L" "Suc n < 2 ^ 64" "bumped e e'"
  shows "\<not> start_pending e' L"
  using no_token_above[OF assms(1,2)] assms(3) by (auto simp: start_pending_def bumped_def filter_empty_conv)

lemma pending_quiet_new:
  "\<forall>t'\<in>set new. \<not> starting t' \<and> \<not> backing t' \<Longrightarrow> start_pending e (L1 @ new @ L2) = start_pending e (L1 @ L2)"
  by (auto simp: start_pending_def)

lemma pending_after_bump:
  assumes "gens_ok n e (L1 @ old @ L2)" "Suc n < 2 ^ 64" "bumped e e'" "\<forall>t'\<in>set new. \<not> starting t' \<and> \<not> backing t'"
  shows "\<not> start_pending e' (L1 @ new @ L2)"
  using pending_bumped[OF assms(1-3)] pending_quiet_new[OF assms(4), of e' L1 L2]
  by (auto simp: start_pending_def)

lemma quiet_stop_tasks: "\<forall>t'\<in>set (loc i (stop_tasks i k r)). \<not> starting t' \<and> \<not> backing t'"
  by (cases "(i, k, r)" rule: stop_tasks.cases) auto

lemma creations_simps [simp]:
  "creations i [] = 0" "creations i (xs @ ys) = creations i xs + creations i ys"
  "creations i [Exited j c t] = 0" "creations i [Exited j c t, Pausing j d] = 0"
  "creations i [StartAccepted j] = 0" "creations i [Created j c] = (if i = j then 1 else 0)"
  by (simp_all add: creations_def)

lemma is_creation_iff: "is_creation i v \<longleftrightarrow> (\<exists>c. v = Created i c)"
  by (cases v) auto

lemma creation_member: "creations i evs \<noteq> 0 \<Longrightarrow> \<exists>c. Created i c \<in> set evs"
  by (auto simp: creations_def is_creation_iff filter_empty_conv)

lemma run_task_crash:
  assumes run: "run_task t ch s = Some (s', new, evs)" and i: "touches t = i"
    and ok: "local_ok n s i (L1 @ loc i [t] @ L2)" and n: "Suc n < 2 ^ 64"
    and evs: "StartAccepted i \<notin> set evs" "exits_within i t0 (cf_CrashWindow (su_cfg s)) evs"
    and inv: "crash_inv i t0 k s (L1 @ loc i [t] @ L2)"
  shows "crash_inv i t0 (k + creations i evs) s' (L1 @ loc i new @ L2)"
proof -
  obtain e where e: "entry s i = Some e" using inv by (auto simp: crash_inv_def)
  have g: "gens_ok n e (L1 @ loc i [t] @ L2)" using ok e by (simp add: local_ok_def)
  have weaken: "crash_inv i t0 k s' (L1 @ loc i new @ L2)"
    if "entry s' i = Some e'" "xe_crashes e' = xe_crashes e"
      "start_pending e' (L1 @ loc i new @ L2) \<Longrightarrow> start_pending e (L1 @ loc i [t] @ L2)" for e'
    using crash_inv_weaken[OF inv e that(1,2) run_task_cfg[OF run]] that(3) by blast
  have idle: "start_pending e (L1 @ loc i [t] @ L2)"
    if k: "kept e e' \<or> bumped e e'" and q: "\<forall>t'\<in>set (loc i new). \<not> starting t' \<and> \<not> backing t'"
      and p: "start_pending e' (L1 @ loc i new @ L2)" for e'
  proof -
    have "\<not> bumped e e'" using pending_after_bump[OF g n _ q] p by blast
    then have "current e' = current e" using k current_cong[of e' e] by (simp add: kept_def)
    moreover have "start_pending e' (L1 @ L2)" using p pending_quiet_new[OF q] by simp
    ultimately show ?thesis by (auto simp: start_pending_def)
  qed
  have moves: "start_pending e (L1 @ loc i [t] @ L2)"
    if "kept e e'" "at_work t" "loc i new = [] \<or> (\<exists>t'. loc i new = [t'] \<and> token_gen t' = token_gen t
        \<and> (starting t' \<longrightarrow> starting t \<or> backing t) \<and> \<not> backing t')"
      "start_pending e' (L1 @ loc i new @ L2)" for e'
  proof -
    have "start_pending e (L1 @ t # L2)"
    proof (rule pending_kept[OF _ that(4)])
      show "xe_generation e' = xe_generation e" using that(1) by (simp add: kept_def)
      show "current e t \<and> (starting t \<or> backing t)"
        if "t' \<in> set (loc i new)" "current e t'" "starting t' \<or> backing t'" for t'
        using that \<open>loc i new = [] \<or> _\<close> by (auto simp: current_def)
    qed
    then show ?thesis using that(2) i by simp
  qed
  show ?thesis
    using run
  proof (cases rule: run_task_cases)
    case (start p k' stat ks r)
    then show ?thesis using inv i evs(1) by (cases r) (auto dest!: Start_refuses)
  next
    case (stop j k' r)
    then have j: "j = i" using i by simp
    obtain e' where e': "entry s' i = Some e'" "kept e e' \<or> bumped e e'" "xe_crashes e' = xe_crashes e"
      using section_kept(7)[OF e, of s' r] section_crashes(4)[OF e, of s' r] stop(3) j by auto
    show ?thesis using weaken[OF e'(1,3) idle[OF e'(2)]] quiet_stop_tasks[of i k' r] stop j by simp
  next
    case (first j gen msg k')
    have f: "loc i new = [] \<or> (\<exists>t'. loc i new = [t'] \<and> token_gen t' = token_gen t
        \<and> (starting t' \<longrightarrow> starting t \<or> backing t) \<and> \<not> backing t')"
      using first i by (cases "(j, gen, msg, k', start_first j gen s)" rule: first_tasks.cases) auto
    show ?thesis using weaken[of e, OF _ _ moves[OF _ _ f]] e first by (simp add: kept_def)
  next
    case (accepted j gen msg k')
    show ?thesis using weaken[of e, OF _ _ moves[of e]] e accepted i by (simp add: kept_def)
  next
    case (refused j gen msg k' err rep)
    then have j: "j = i" using i by simp
    obtain e' where e': "entry s' i = Some e'" "kept e e'" "xe_crashes e' = xe_crashes e"
      using section_kept(1)[OF e, of gen err s' rep] section_crashes(1)[OF e, of gen err s' rep] refused j by auto
    show ?thesis using weaken[OF e'(1,3) idle[OF disjI1[OF e'(2)]]] refused by simp
  next
    case (not_created j gen msg k' out rep)
    then have j: "j = i" using i by simp
    obtain e' where e': "entry s' i = Some e'" "kept e e' \<or> bumped e e'" "xe_crashes e' = xe_crashes e"
      using section_kept(3)[OF e, of gen msg out s' rep] section_crashes(2)[OF e, of gen msg out s' rep]
        not_created j by auto
    show ?thesis using weaken[OF e'(1,3) idle[OF e'(2)]] not_created by simp
  next
    case (created j gen msg k' out rep c)
    then have j: "j = i" "loc i new = [Waiting i c gen]" "loc i [t] = [t]" using i by auto
    obtain e' where e': "entry s' i = Some e'" "kept e e'" "xe_crashes e' = xe_crashes e"
      using section_kept(2)[OF e, of gen msg out s' rep c] section_crashes(2)[OF e, of gen msg out s' rep "Some c"]
        created j by auto
    have gen: "xe_generation e = gen"
      by (rule run_task_creates[OF run, of i c]) (use created j e in auto)
    then have cur: "current e t" using created by (simp add: current_def)
    have "\<not> start_pending e (L1 @ L2)" using token_unique[of n e L1 t L2] g cur j by simp
    then have "\<not> start_pending e' (L1 @ loc i new @ L2)"
      using pending_quiet_new[of "loc i new" e' L1 L2] j current_cong[of e' e] e'(2)
      by (auto simp: start_pending_def kept_def)
    moreover have "start_pending e (L1 @ loc i [t] @ L2)" using cur j created by (auto simp: start_pending_def)
    ultimately show ?thesis using inv e e' created j run_task_cfg[OF run] by (auto simp: crash_inv_def)
  next
    case (elapsed j gen cancel go)
    then have j: "j = i" using i by simp
    obtain e' where e': "entry s' i = Some e'" "kept e e'" "xe_crashes e' = xe_crashes e"
      using section_kept(6)[OF e, of gen cancel s' go] section_crashes(3)[OF e, of gen cancel s' go] elapsed j by auto
    show ?thesis using weaken[OF e'(1,3) moves[OF e'(2)]] elapsed j by (cases go) simp_all
  next
    case (cancelled j gen cancel)
    show ?thesis using weaken[of e, OF _ _ moves[of e]] e cancelled i by (simp add: kept_def)
  next
    case (ended j d k')
    show ?thesis using weaken[of e, OF _ _ idle[of e]] e ended i by (simp add: kept_def)
  next
    case (leave j k' rep)
    then have j: "j = i" using i by simp
    obtain e' where e': "entry s' i = Some e'" "kept e e'" "xe_crashes e' = xe_crashes e"
      using section_kept(8)[OF e, of s' rep] section_crashes(5)[OF e, of s' rep] leave j by auto
    show ?thesis using weaken[OF e'(1,3) idle[OF disjI1[OF e'(2)]]] leave by simp
  next
    case (count j m rep rep')
    then have j: "j = i" using i by simp
    obtain e' where e': "entry s' i = Some e'" "kept e e'" "xe_crashes e' = xe_crashes e"
      using section_kept(9)[OF e, of m rep s' rep'] section_crashes(6)[OF e, of m rep s' rep'] count j by auto
    show ?thesis using weaken[OF e'(1,3) idle[OF disjI1[OF e'(2)]]] count by simp
  next
    case (exit j c gen code now)
    then have j: "j = i" "t = Waiting i c gen" "now < t0 + cf_CrashWindow (su_cfg s)"
      using i evs(2) by (auto simp: exits_within_def)
    show ?thesis
    proof (cases "xe_cmd e = Some c \<and> xe_generation e = gen")
      case False
      then have "s' = s" using exit_stale[of i c gen code now s s' None e] exit(2) j(1) e by simp
      then show ?thesis using weaken[of e, OF _ _ moves[of e]] e exit j(2) by (simp add: kept_def)
    next
      case True
      obtain e' where e': "entry s' i = Some e'" "xe_crashes e' = xe_crashes e \<or> xe_crashes e' = xe_crashes e @ [now]"
        "xe_generation e' = gen"
        using exit_counts[of i c gen code now s s' None e t0] exit(2) j e True inv by (auto simp: crash_inv_def)
      have "\<not> start_pending e (L1 @ L2)"
        using token_unique[of n e L1 t L2] g j True by (auto simp: current_def)
      then have "\<not> start_pending e' (L1 @ loc i new @ L2)"
        using current_cong[of e' e] e'(3) True exit by (auto simp: start_pending_def)
      then show ?thesis using inv e e' exit j evs(2) run_task_cfg[OF run]
        by (auto simp: crash_inv_def exits_within_def split: if_splits)
    qed
  next
    case (pause j c gen code now d gen' cancel)
    then have j: "j = i" "t = Waiting i c gen" "t0 \<le> now" "now < t0 + cf_CrashWindow (su_cfg s)"
      using i evs(2) by (auto simp: exits_within_def)
    have "xe_cmd e = Some c \<and> xe_generation e = gen"
      using exit_stale[of i c gen code now s s' "Some (d, gen', cancel)" e] pause(2) j(1) e by auto
    then obtain e' where e': "entry s' i = Some e'" "xe_crashes e' = xe_crashes e @ [now]"
        "int (length (xe_crashes e')) < cf_CrashLimit (su_cfg s)"
      using exit_counts[of i c gen code now s s' "Some (d, gen', cancel)" e t0] pause(2) j e inv
      by (auto simp: crash_inv_def)
    then show ?thesis using inv e pause j run_task_cfg[OF run] by (auto simp: crash_inv_def split: if_splits)
  qed (use inv in auto)
qed

section \<open>The bound\<close>

lemma crash_inv_entry:
  assumes "crash_inv i t0 k s L" "entry s' i = entry s i" "su_cfg s' = su_cfg s"
  shows "crash_inv i t0 k s' L"
  using assms by (simp add: crash_inv_def)

lemma crash_inv_write:
  "crash_inv i t0 k s L \<Longrightarrow> crash_inv i t0 k (write_stdout j out s) L"
  "crash_inv i t0 k s L \<Longrightarrow> crash_inv i t0 k (write_stderr j out s) L"
proof -
  have pend: "start_pending e' L \<Longrightarrow> start_pending e L" if "kept e e'" for e e'
    using current_cong[of e' e] that by (simp add: start_pending_def kept_def)
  assume inv: "crash_inv i t0 k s L"
  then obtain e where e: "entry s i = Some e" by (auto simp: crash_inv_def)
  show "crash_inv i t0 k (write_stdout j out s) L"
    using write_keeps(1)[OF e, of j out] crash_inv_weaken[OF inv e _ _ write_cfg(1) pend] by blast
  show "crash_inv i t0 k (write_stderr j out s) L"
    using write_keeps(2)[OF e, of j out] crash_inv_weaken[OF inv e _ _ write_cfg(2) pend] by blast
qed

lemma abandon_pending: "start_pending e (L1 @ abandon t # L2) = start_pending e (L1 @ t # L2)"
  by (auto simp: start_pending_def current_def)

lemma step_crash:
  assumes "sup_step P (s, ts) evs (s', ts')" "tokens_ok n (s, ts)" "Suc n < 2 ^ 64"
    "StartAccepted i \<notin> set evs" "exits_within i t0 (cf_CrashWindow (su_cfg s)) evs"
    "crash_inv i t0 k s (loc i ts)"
  shows "crash_inv i t0 (k + creations i evs) s' (loc i ts')"
  using assms(1)
proof (cases rule: sup_step.cases)
  case (step_hold a r v x)
  show ?thesis using crash_inv_entry[OF assms(6) outer_entries(2)[OF step_hold(3)]] step_cfg[OF assms(1)] step_hold
    by simp
next
  case (step_shutdown ids ids')
  show ?thesis using crash_inv_entry[OF assms(6) outer_entries(3)[OF step_shutdown(3)]] step_cfg[OF assms(1)] step_shutdown
    by simp
next
  case (step_abandon xs t ys)
  then show ?thesis using assms(6) abandon_pending[of _ "loc i xs" t "loc i ys"]
    by (auto simp: crash_inv_def split: if_splits)
next
  case (step_task xs t ys ch new)
  have L: "loc i (xs @ t # ys) = loc i xs @ loc i [t] @ loc i ys" by simp
  show ?thesis
  proof (cases "touches t = i")
    case True
    have "local_ok n s i (loc i (xs @ t # ys))"
      using assms(2) step_task(1) by (simp add: tokens_ok_def del: loc_simps)
    then have "local_ok n s i (loc i xs @ loc i [t] @ loc i ys)" by (simp only: L)
    from run_task_crash[OF step_task(5) True this assms(3-5)] assms(6)
    show ?thesis using step_task(1,2) L by simp
  next
    case False
    have f: "entry s' i = entry s i" "loc i new = []" using run_task_frame[OF step_task(5) False] by auto
    have "creations i evs = 0"
    proof (rule ccontr)
      assume "creations i evs \<noteq> 0"
      then obtain c where "Created i c \<in> set evs" using creation_member by blast
      with step_task(5) show False by (rule run_task_creates) (use False in simp)
    qed
    then show ?thesis using crash_inv_entry[OF assms(6) f(1)] step_cfg[OF assms(1)] step_task(1,2) f(2) False by simp
  qed
next
  case (step_client t)
  then show ?thesis using assms(6) loc_client[of t i] by simp
qed (use assms(6) crash_inv_write step_cfg[OF assms(1)] crash_inv_entry[OF _ outer_entries(1)] in
  \<open>auto simp: SetStartValidator_def\<close>)

text \<open>
  C21: The crash loop limit bounds the watchdog. Take any execution just after a start was
  accepted (its crash record is empty) in a reachable state, and any run from there without
  another accepted start in which the exits of its processes fall into one crash window:
  however starts, stops, pauses and exits interleave, at most \<open>CrashLimit\<close> processes are
  created for it.
\<close>

theorem crash_loop_bounded:
  assumes "sup_runs free (first_world cfg) m evs0 (s, ts)" "entry s i = Some e" "xe_crashes e = []"
    "sup_runs free (s, ts) n evs (s', ts')" "m + n < 2 ^ 64"
    "StartAccepted i \<notin> set evs" "exits_within i t0 (cf_CrashWindow (su_cfg s)) evs"
  shows "int (creations i evs) \<le> cf_CrashLimit (su_cfg s)"
proof -
  have limit: "0 < cf_CrashLimit (su_cfg s)"
    using runs_cfg[OF assms(1)] by (simp add: first_world_def New_def default_to_def)
  have toks: "tokens_ok m (s, ts)" using runs_tokens[OF assms(1) first_tokens] assms(5) by simp
  have start: "crash_inv i t0 0 s (loc i ts)"
    using assms(2,3) limit by (simp add: crash_inv_def)
  have "sup_runs free w n evs w' \<Longrightarrow> tokens_ok m w \<Longrightarrow> m + n < 2 ^ 64 \<Longrightarrow> StartAccepted i \<notin> set evs \<Longrightarrow>
      exits_within i t0 (cf_CrashWindow (su_cfg (fst w))) evs \<Longrightarrow> crash_inv i t0 0 (fst w) (loc i (snd w)) \<Longrightarrow>
      crash_inv i t0 (creations i evs) (fst w') (loc i (snd w'))" for w w'
  proof (induction rule: sup_runs.induct)
    case (runs_step w n evs w' es w'')
    have split: "exits_within i t0 (cf_CrashWindow (su_cfg (fst w))) evs" "StartAccepted i \<notin> set evs"
      "exits_within i t0 (cf_CrashWindow (su_cfg (fst w'))) es" "StartAccepted i \<notin> set es"
      using runs_step.prems runs_cfg[OF runs_step.hyps(1)] by (auto simp: exits_within_def)
    have ih: "crash_inv i t0 (creations i evs) (fst w') (loc i (snd w'))"
      using runs_step split by simp
    have tk: "tokens_ok (m + n) w'"
      using runs_tokens[OF runs_step.hyps(1) runs_step.prems(1)] runs_step.prems(2) by simp
    show ?case
      using step_crash[of free "fst w'" "snd w'" es "fst w''" "snd w''" "m + n" i t0 "creations i evs"]
        runs_step.hyps(2) runs_step.prems(2) tk split ih by simp
  qed simp
  from this[OF assms(4)] have "crash_inv i t0 (creations i evs) s' (loc i ts')"
    using toks assms(5-7) start by simp
  then show ?thesis using runs_cfg[OF assms(4)] by (auto simp: crash_inv_def)
qed

end
