(* ===== verification/Supervisor_Drain.thy ===== *)
theory Supervisor_Drain
  imports Supervisor_Crashes
begin

text \<open>
  When a Maintenance Hold has been applied, no process is left: the loop of
  \<open>ApplyMaintenanceHold\<close> stops every process that existed when the hold was published. This
  holds for schedules in which a client's \<open>Start\<close> of an execution does not run while another
  start or a stop of the same execution is under way (\<open>quiet_start\<close>); without that
  discipline it fails, as \<open>Supervisor_Demo\<close> shows.
\<close>

section \<open>The discipline and the invariant of one execution\<close>

fun quiet_start :: "world \<Rightarrow> task \<Rightarrow> bool" where
  "quiet_start (s, ts) (CallStart p k) =
     (\<forall>t\<in>set (loc (pl_ExecutionID p) ts). \<not> starting t \<and> \<not> stopping t)"
| "quiet_start (s, ts) t = True"

fun leaving :: "task \<Rightarrow> bool" where
  "leaving (LeavingStop i k) = True"
| "leaving t = False"

definition n_of :: "(task \<Rightarrow> bool) \<Rightarrow> task list \<Rightarrow> nat" where
  "n_of Q L = length (filter Q L)"

lemma n_of_simps [simp]:
  "n_of Q [] = 0" "n_of Q (xs @ ys) = n_of Q xs + n_of Q ys"
  "n_of Q (t # ts) = (if Q t then 1 else 0) + n_of Q ts"
  by (simp_all add: n_of_def)

definition pausing :: "execution \<Rightarrow> task \<Rightarrow> bool" where
  "pausing e t \<longleftrightarrow> backing t \<and> current e t"

text \<open>
  At most one pending start, process or current pause; the PID and the state tell whether
  there is a process; a stop under way excludes a start.
\<close>

definition counts_ok :: "execution \<Rightarrow> task list \<Rightarrow> bool" where
  "counts_ok e L \<longleftrightarrow> n_of starting L + n_of live L + n_of (pausing e) L \<le> 1
     \<and> (n_of live L = 0 \<longrightarrow> xe_pid e = 0)
     \<and> (n_of live L > 0 \<longrightarrow> xe_pid e > 0 \<and> (xe_state e = ExecutionRunning \<and> xe_desired e
          \<or> xe_state e = ExecutionStopping \<and> \<not> xe_desired e \<and> n_of stopping L > 0))
     \<and> (n_of stopping L > 0 \<longrightarrow> \<not> xe_desired e \<and> n_of starting L = 0 \<and> n_of (pausing e) L = 0)
     \<and> (n_of leaving L > 0 \<longrightarrow> n_of live L = 0)"

definition chans_ok :: "nat list \<Rightarrow> nat \<Rightarrow> execution \<Rightarrow> task list \<Rightarrow> bool" where
  "chans_ok cl nx e L \<longleftrightarrow>
     (\<forall>i c g. Waiting i c g \<in> set L \<longrightarrow> xe_cmd e = Some c \<and> xe_done e = Some c \<and> g = xe_generation e \<and> c \<notin> set cl)
     \<and> (\<forall>i d k. AwaitingExit i d k \<in> set L \<longrightarrow> d = xe_done e \<and> d \<noteq> None)
     \<and> (\<forall>c. xe_done e = Some c \<longrightarrow> c < nx)"

definition drain_ok :: "Supervisor \<Rightarrow> execution \<Rightarrow> task list \<Rightarrow> bool" where
  "drain_ok s e L \<longleftrightarrow> counts_ok e L \<and> chans_ok (su_doneClosed s) (su_next s) e L"

lemma live_iff: "live t \<longleftrightarrow> (\<exists>i c g. t = Waiting i c g)"
  by (cases t) auto

lemma leaving_stopping: "leaving t \<Longrightarrow> stopping t"
  by (cases t) auto

lemma n_of_pos: "n_of Q L > 0 \<longleftrightarrow> (\<exists>t\<in>set L. Q t)"
  by (auto simp: n_of_def filter_empty_conv)

lemma n_of_none: "n_of Q L = 0 \<longleftrightarrow> (\<forall>t\<in>set L. \<not> Q t)"
  by (auto simp: n_of_def filter_empty_conv)

lemma pausing_simps [simp]: "\<not> pausing e (FirstSection i g m k)" "\<not> pausing e (Validating i g m k)"
    "\<not> pausing e (Committing i g m k)" "\<not> pausing e (Waiting i c g)" "\<not> pausing e (AwaitingExit i d k)"
    "\<not> pausing e (LeavingStop i k)" "pausing e (BackingOff i g c) = (g = xe_generation e)"
  by (auto simp: pausing_def current_def)

lemma pausing_cong: "xe_generation e' = xe_generation e \<Longrightarrow> pausing e' = pausing e"
  by (simp add: pausing_def current_def fun_eq_iff)

lemma no_pausing_above:
  assumes "gens_ok n e L" "Suc n < 2 ^ 64" "xe_generation e' = xe_generation e + 1"
  shows "n_of (pausing e') L = 0"
  using no_token_above[OF assms] by (auto simp: n_of_none filter_empty_conv pausing_def)

text \<open>How each section changes the execution of its task and the channels.\<close>

definition shift :: "execution \<Rightarrow> execution \<Rightarrow> bool" where
  "shift e e' \<longleftrightarrow> xe_cmd e' = xe_cmd e \<and> xe_done e' = xe_done e \<and> xe_pid e' = xe_pid e"

lemma live_one:
  assumes "counts_ok e L" "Waiting i c g \<in> set L"
  shows "n_of live L = 1 \<and> n_of starting L = 0 \<and> n_of (pausing e) L = 0"
proof -
  have "live (Waiting i c g)" by simp
  then have "n_of live L > 0" using assms(2) unfolding n_of_pos by blast
  then show ?thesis using assms(1) by (auto simp: counts_ok_def)
qed

lemma chans_shift:
  assumes "chans_ok cl nx e L" "shift e e'"
    "\<And>i c g. Waiting i c g \<in> set L' \<Longrightarrow> Waiting i c g \<in> set L \<and> xe_generation e' = xe_generation e"
    "\<And>i d k. AwaitingExit i d k \<in> set L' \<Longrightarrow> d = xe_done e \<and> d \<noteq> None"
  shows "chans_ok cl nx e' L'"
  unfolding chans_ok_def
proof (intro conjI allI impI)
  fix i c g assume "Waiting i c g \<in> set L'"
  then have "Waiting i c g \<in> set L" "xe_generation e' = xe_generation e" using assms(3) by blast+
  then show "xe_cmd e' = Some c" "xe_done e' = Some c" "g = xe_generation e'" "c \<notin> set cl"
    using assms(1,2) by (auto simp: chans_ok_def shift_def)
qed (use assms(1,2,4) in \<open>auto simp: chans_ok_def shift_def\<close>)

lemma chansD:
  assumes "chans_ok cl nx e L"
  shows "Waiting i c g \<in> set L \<Longrightarrow> xe_cmd e = Some c \<and> xe_done e = Some c \<and> g = xe_generation e \<and> c \<notin> set cl"
    "AwaitingExit i d k \<in> set L \<Longrightarrow> d = xe_done e \<and> d \<noteq> None" "xe_done e = Some c \<Longrightarrow> c < nx"
  using assms unfolding chans_ok_def by blast+

lemma chans_more:
  assumes "chans_ok cl nx e L" "\<And>c. xe_done e = Some c \<Longrightarrow> c \<in> set cl' \<Longrightarrow> c \<in> set cl" "nx \<le> nx'"
  shows "chans_ok cl' nx' e L"
  using assms by (auto simp: chans_ok_def intro: less_le_trans)

lemma no_live: "n_of live L = 0 \<Longrightarrow> Waiting i c g \<notin> set L"
  unfolding n_of_none by (metis live.simps(1))

text \<open>The local part of one section: the task \<open>t\<close> of the execution gives way to \<open>new\<close>.\<close>

lemma drain_revive:
  assumes "counts_ok e L" "chans_ok cl nx e L" "\<not> (xe_desired e \<and> is_up (xe_state e))"
    "n_of starting L = 0" "n_of stopping L = 0" "n_of (pausing e') L = 0"
    "e' = cancelBackoff (revive e)" "L = L1 @ L2"
  shows "counts_ok e' (L1 @ FirstSection i g m k # L2) \<and> chans_ok cl nx e' (L1 @ FirstSection i g m k # L2)"
proof -
  have nl: "n_of live L = 0" using assms(1,3,5) by (auto simp: counts_ok_def is_up_def)
  then have pid: "xe_pid e = 0" using assms(1) by (simp add: counts_ok_def)
  have nv: "n_of leaving L = 0" using assms(5) leaving_stopping by (auto simp: n_of_none)
  have "counts_ok e' (L1 @ FirstSection i g m k # L2)"
    using nl pid nv assms(4-8) by (auto simp: counts_ok_def cancelBackoff_def revive_def)
  moreover have "chans_ok cl nx e' (L1 @ FirstSection i g m k # L2)"
    by (rule chans_shift[OF assms(2)])
      (use assms(7,8) no_live[OF nl] chansD(2)[OF assms(2)] in \<open>auto simp: shift_def cancelBackoff_def revive_def\<close>)
  ultimately show ?thesis ..
qed

lemma drain_new: "counts_ok (new_execution p cfg) [FirstSection i g m k]
    \<and> chans_ok cl nx (new_execution p cfg) [FirstSection i g m k]"
  by (simp add: counts_ok_def chans_ok_def new_execution_def)

lemma drain_stop_idle:
  assumes "counts_ok e L" "chans_ok cl nx e L" "xe_state e = ExecutionStopped \<or> xe_pid e = 0"
    "n_of (pausing e') L = 0"
    "e' = cancelBackoff (e\<lparr>xe_desired := False, xe_generation := xe_generation e + 1, xe_state := ExecutionStopped\<rparr>)"
  shows "counts_ok e' L \<and> chans_ok cl nx e' L"
proof -
  have nl: "n_of live L = 0" using assms(1,3) by (auto simp: counts_ok_def)
  have "counts_ok e' L" using assms nl by (auto simp: counts_ok_def cancelBackoff_def)
  moreover have "chans_ok cl nx e' L"
    by (rule chans_shift[OF assms(2)])
      (use assms(5) no_live[OF nl] chansD(2)[OF assms(2)] in \<open>auto simp: shift_def cancelBackoff_def\<close>)
  ultimately show ?thesis ..
qed

lemma drain_stop_live:
  assumes "counts_ok e L" "chans_ok cl nx e L" "\<not> (xe_state e = ExecutionStopped \<or> xe_pid e = 0)"
    "e' = cancelBackoff (e\<lparr>xe_desired := False, xe_state := ExecutionStopping\<rparr>)" "L = L1 @ L2"
  shows "counts_ok e' (L1 @ AwaitingExit i (xe_done e) k # L2)
      \<and> chans_ok cl nx e' (L1 @ AwaitingExit i (xe_done e) k # L2)
      \<and> stop_waits (xe_cmd e) (xe_pid e)"
proof -
  have nl: "n_of live L > 0" using assms(1,3) by (auto simp: counts_ok_def)
  then obtain j c g where w: "Waiting j c g \<in> set L" unfolding n_of_pos live_iff by blast
  have one: "n_of live L = 1" "n_of starting L = 0" "n_of (pausing e) L = 0" using live_one[OF assms(1) w] by auto
  have e: "xe_cmd e = Some c" "xe_done e = Some c" using chansD(1)[OF assms(2) w] by auto
  have gen: "xe_generation e' = xe_generation e" using assms(4) by (simp add: cancelBackoff_def)
  have "counts_ok e' (L1 @ AwaitingExit i (xe_done e) k # L2)"
  proof -
    have z: "n_of live L1 + n_of live L2 = 1" "n_of starting L1 + n_of starting L2 = 0"
        "n_of (pausing e') L1 + n_of (pausing e') L2 = 0" "n_of leaving L1 + n_of leaving L2 = 0" "xe_pid e > 0"
      using one assms(1,5) pausing_cong[OF gen] by (simp_all add: counts_ok_def)
    have "xe_pid e' = xe_pid e" "xe_state e' = ExecutionStopping" "\<not> xe_desired e'"
      using assms(4) by (simp_all add: cancelBackoff_def)
    then show ?thesis using z by (simp add: counts_ok_def)
  qed
  moreover have "chans_ok cl nx e' (L1 @ AwaitingExit i (xe_done e) k # L2)"
    by (rule chans_shift[OF assms(2)])
      (use assms(4,5) e chansD(2)[OF assms(2)] in \<open>auto simp: shift_def cancelBackoff_def\<close>)
  moreover have "stop_waits (xe_cmd e) (xe_pid e)" using e(1) nl assms(1) by (simp add: stop_waits_def counts_ok_def)
  ultimately show ?thesis by blast
qed

text \<open>A start under way moves on, is given up, or is refused.\<close>

lemma not_live_starting:
  assumes "counts_ok e L" "t \<in> set L" "starting t"
  shows "n_of live L = 0 \<and> n_of stopping L = 0 \<and> xe_pid e = 0"
proof -
  have "n_of starting L > 0" using assms(2,3) unfolding n_of_pos by blast
  then show ?thesis using assms(1) by (auto simp: counts_ok_def)
qed

lemma stopping_not_starting: "starting t \<Longrightarrow> \<not> stopping t \<and> \<not> live t \<and> \<not> leaving t \<and> \<not> pausing e t"
  by (cases t) auto

lemma alone:
  assumes "counts_ok e (L1 @ t # L2)" "starting t"
  shows "n_of live (L1 @ L2) = 0" "n_of stopping (L1 @ L2) = 0" "n_of leaving (L1 @ L2) = 0"
    "n_of starting (L1 @ L2) = 0" "n_of (pausing e) (L1 @ L2) = 0" "xe_pid e = 0"
proof -
  have stop: "n_of stopping (L1 @ L2) = 0" and pid: "xe_pid e = 0"
    using not_live_starting[OF assms(1) _ assms(2)] stopping_not_starting[OF assms(2)] by auto
  show "n_of stopping (L1 @ L2) = 0" "xe_pid e = 0" using stop pid by auto
  show "n_of live (L1 @ L2) = 0" "n_of starting (L1 @ L2) = 0" "n_of (pausing e) (L1 @ L2) = 0"
    using assms(1) stopping_not_starting[OF assms(2)] assms(2) by (auto simp: counts_ok_def)
  show "n_of leaving (L1 @ L2) = 0" using stop leaving_stopping unfolding n_of_none by blast
qed

lemma drain_start_moves:
  assumes "counts_ok e (L1 @ t # L2)" "chans_ok cl nx e (L1 @ t # L2)" "starting t"
    "new = [] \<or> (\<exists>t'. new = [t'] \<and> starting t')" "shift e e'" "xe_generation e' = xe_generation e"
  shows "counts_ok e' (L1 @ new @ L2) \<and> chans_ok cl nx e' (L1 @ new @ L2)"
proof -
  note none = alone[OF assms(1,3)]
  have one: "n_of stopping (L1 @ new @ L2) = 0" "n_of live (L1 @ new @ L2) = 0" "n_of leaving (L1 @ new @ L2) = 0"
    "n_of starting (L1 @ new @ L2) + n_of (pausing e) (L1 @ new @ L2) \<le> 1"
    using assms(4) none stopping_not_starting by auto
  have "counts_ok e' (L1 @ new @ L2)"
    using one none(6) assms(5) pausing_cong[OF assms(6)] by (simp add: counts_ok_def shift_def)
  moreover have "chans_ok cl nx e' (L1 @ new @ L2)"
  proof (rule chans_shift[OF assms(2,5)])
    fix i c g assume "Waiting i c g \<in> set (L1 @ new @ L2)"
    then show "Waiting i c g \<in> set (L1 @ t # L2) \<and> xe_generation e' = xe_generation e"
      using no_live[OF one(2)] by blast
  next
    fix i d k assume a: "AwaitingExit i d k \<in> set (L1 @ new @ L2)"
    have "stopping (AwaitingExit i d k)" by simp
    then show "d = xe_done e \<and> d \<noteq> None" using a one(1) unfolding n_of_none by blast
  qed
  ultimately show ?thesis ..
qed

lemma drain_start_held:
  assumes "counts_ok e (L1 @ t # L2)" "chans_ok cl nx e (L1 @ t # L2)" "starting t" "n_of (pausing e') (L1 @ L2) = 0"
    "e' = e\<lparr>xe_desired := False, xe_state := ExecutionStopped, xe_generation := xe_generation e + 1\<rparr>"
  shows "counts_ok e' (L1 @ L2) \<and> chans_ok cl nx e' (L1 @ L2)"
proof -
  note none = alone[OF assms(1,3)]
  have "counts_ok e' (L1 @ L2)" using none assms(4,5) by (simp add: counts_ok_def)
  moreover have "chans_ok cl nx e' (L1 @ L2)"
  proof (rule chans_shift[OF assms(2)])
    show "shift e e'" using assms(5) by (simp add: shift_def)
    fix i c g assume "Waiting i c g \<in> set (L1 @ L2)"
    then show "Waiting i c g \<in> set (L1 @ t # L2) \<and> xe_generation e' = xe_generation e"
      using no_live[OF none(1)] by blast
  qed (use chansD(2)[OF assms(2)] in auto)
  ultimately show ?thesis ..
qed

lemma drain_create:
  assumes "counts_ok e (L1 @ t # L2)" "starting t" "xe_desired e" "pid > 0"
    "e' = (begin_start nx e)\<lparr>xe_pid := pid, xe_started := now, xe_processInstance := inst, xe_state := ExecutionRunning\<rparr>"
    "gen = xe_generation e" "\<forall>c\<in>set cl. c < nx"
  shows "counts_ok e' (L1 @ Waiting i nx gen # L2) \<and> chans_ok cl (Suc nx) e' (L1 @ Waiting i nx gen # L2)"
proof -
  note none = alone[OF assms(1,2)]
  have gen: "xe_generation e' = xe_generation e" using assms(5) by (simp add: begin_start_def)
  have "counts_ok e' (L1 @ Waiting i nx gen # L2)"
    using none assms(3-5) pausing_cong[OF gen] by (simp add: counts_ok_def begin_start_def)
  moreover have "chans_ok cl (Suc nx) e' (L1 @ Waiting i nx gen # L2)"
  proof -
    have w: "Waiting j c g \<notin> set L1" "Waiting j c g \<notin> set L2" for j c g using no_live[OF none(1)] by auto
    have a: "AwaitingExit j d k \<notin> set L1" "AwaitingExit j d k \<notin> set L2" for j d k
      using none(2) unfolding n_of_none by force+
    show ?thesis using w a assms(5-7) by (auto simp: chans_ok_def begin_start_def)
  qed
  ultimately show ?thesis ..
qed

lemma drain_create_fails:
  assumes "counts_ok e (L1 @ t # L2)" "starting t"
    "e' = (begin_start nx e)\<lparr>xe_state := ExecutionFailed, xe_lastErr := err, xe_desired := False\<rparr>"
  shows "counts_ok e' (L1 @ L2) \<and> chans_ok cl (Suc nx) e' (L1 @ L2)"
proof -
  note none = alone[OF assms(1,2)]
  have gen: "xe_generation e' = xe_generation e" using assms(3) by (simp add: begin_start_def)
  have "counts_ok e' (L1 @ L2)"
    using none assms(3) pausing_cong[OF gen] by (simp add: counts_ok_def begin_start_def)
  moreover have "chans_ok cl (Suc nx) e' (L1 @ L2)"
  proof -
    have w: "Waiting j c g \<notin> set L1" "Waiting j c g \<notin> set L2" for j c g using no_live[OF none(1)] by auto
    have a: "AwaitingExit j d k \<notin> set L1" "AwaitingExit j d k \<notin> set L2" for j d k
      using none(2) unfolding n_of_none by force+
    show ?thesis using w a assms(3) by (auto simp: chans_ok_def begin_start_def)
  qed
  ultimately show ?thesis ..
qed

text \<open>The process exits: every later section of the execution sees no process.\<close>

lemma drain_exit:
  assumes "counts_ok e (L1 @ Waiting i c g # L2)" "chans_ok cl nx e (L1 @ Waiting i c g # L2)"
    "xe_pid e' = 0" "xe_done e' = xe_done e" "xe_desired e' \<longrightarrow> xe_desired e"
    "n_of (pausing e') (L1 @ L2) = 0" "new = [] \<or> xe_desired e \<and> (\<exists>t. new = [t] \<and> backing t)"
  shows "counts_ok e' (L1 @ new @ L2) \<and> chans_ok cl' nx e' (L1 @ new @ L2)"
proof -
  have none: "n_of live (L1 @ L2) = 0" "n_of starting (L1 @ L2) = 0" "n_of (pausing e) (L1 @ L2) = 0"
    "n_of leaving (L1 @ L2) = 0"
    using live_one[OF assms(1), of i c g] assms(1) by (auto simp: counts_ok_def)
  have stop: "xe_desired e \<Longrightarrow> n_of stopping (L1 @ L2) = 0" using assms(1) by (auto simp: counts_ok_def)
  have nd: "n_of stopping (L1 @ L2) > 0 \<Longrightarrow> \<not> xe_desired e" using assms(1) by (auto simp: counts_ok_def)
  have b: "\<not> live t \<and> \<not> starting t \<and> \<not> leaving t \<and> \<not> stopping t" if "backing t" for t using that by (cases t) auto
  have "counts_ok e' (L1 @ new @ L2)"
    using assms(7)
  proof
    assume "new = []"
    then show ?thesis using none nd assms(3,5,6) by (auto simp: counts_ok_def)
  next
    assume "xe_desired e \<and> (\<exists>t. new = [t] \<and> backing t)"
    then obtain t where "xe_desired e" "new = [t]" "backing t" by blast
    then show ?thesis using none stop b assms(3,6) by (auto simp: counts_ok_def)
  qed
  moreover have "chans_ok cl' nx e' (L1 @ new @ L2)"
  proof -
    have w: "Waiting j c g \<notin> set (L1 @ new @ L2)" for j c g
      using no_live[OF none(1)] assms(7) b by (metis Un_iff empty_iff empty_set list.set(2) insert_iff live.simps(1) set_append)
    have "d = xe_done e \<and> d \<noteq> None" if "AwaitingExit j d k \<in> set (L1 @ new @ L2)" for j d k
      using that chansD(2)[OF assms(2), of j d k] assms(7) by auto
    then show ?thesis using w chansD(3)[OF assms(2)] assms(4) by (auto simp: chans_ok_def)
  qed
  ultimately show ?thesis ..
qed

lemma drain_wake:
  assumes "counts_ok e (L1 @ t # L2)" "chans_ok cl nx e (L1 @ t # L2)" "backing t" "shift e e'"
    "xe_generation e' = xe_generation e" "xe_state e' = xe_state e" "xe_desired e' = xe_desired e"
    "new = [] \<or> (\<exists>t'. new = [t'] \<and> starting t' \<and> current e t)"
  shows "counts_ok e' (L1 @ new @ L2) \<and> chans_ok cl nx e' (L1 @ new @ L2)"
proof -
  have t: "\<not> live t" "\<not> starting t" "\<not> stopping t" "\<not> leaving t" "pausing e t = current e t"
    using assms(3) by (cases t; auto simp: pausing_def)+
  have "counts_ok e' (L1 @ new @ L2)"
    using assms(8)
  proof
    assume "new = []"
    then show ?thesis using assms(1,4,6,7) t pausing_cong[OF assms(5)] by (auto simp: counts_ok_def shift_def)
  next
    assume "\<exists>t'. new = [t'] \<and> starting t' \<and> current e t"
    then obtain t' where t': "new = [t']" "starting t'" "pausing e t" using t(5) by blast
    have z: "n_of starting (L1 @ L2) = 0" "n_of live (L1 @ L2) = 0" "n_of (pausing e) (L1 @ L2) = 0" "xe_pid e = 0"
      "n_of stopping (L1 @ L2) = 0" "n_of leaving (L1 @ L2) = 0"
      using assms(1) t t'(3) leaving_stopping by (auto simp: counts_ok_def n_of_none)
    show ?thesis using z t'(1) stopping_not_starting[OF t'(2)] t'(2) pausing_cong[OF assms(5)] assms(4)
      by (simp add: counts_ok_def shift_def)
  qed
  moreover have "chans_ok cl nx e' (L1 @ new @ L2)"
    by (rule chans_shift[OF assms(2,4)]) (use assms(5,8) chansD(2)[OF assms(2)] in auto)
  ultimately show ?thesis ..
qed

text \<open>The end of a stop.\<close>

lemma drain_ended:
  assumes "counts_ok e (L1 @ AwaitingExit i d k # L2)" "chans_ok cl nx e (L1 @ AwaitingExit i d k # L2)"
    "case d of None \<Rightarrow> False | Some c \<Rightarrow> c \<in> set cl"
  shows "counts_ok e (L1 @ LeavingStop i k # L2) \<and> chans_ok cl nx e (L1 @ LeavingStop i k # L2)"
proof -
  have d: "d = xe_done e" using chansD(2)[OF assms(2), of i d k] by simp
  have nl: "n_of live (L1 @ L2) = 0"
  proof (rule ccontr)
    assume "n_of live (L1 @ L2) \<noteq> 0"
    then obtain j c g where "Waiting j c g \<in> set (L1 @ AwaitingExit i d k # L2)"
      using n_of_pos[of live "L1 @ L2"] by (auto simp: live_iff)
    then show False using chansD(1)[OF assms(2)] d assms(3) by fastforce
  qed
  have "counts_ok e (L1 @ LeavingStop i k # L2)" using assms(1) nl by (auto simp: counts_ok_def)
  moreover have "chans_ok cl nx e (L1 @ LeavingStop i k # L2)"
    by (rule chans_shift[OF assms(2)]) (use chansD(2)[OF assms(2)] in \<open>auto simp: shift_def\<close>)
  ultimately show ?thesis ..
qed

lemma drain_leave:
  assumes "counts_ok e (L1 @ LeavingStop i k # L2)" "chans_ok cl nx e (L1 @ LeavingStop i k # L2)"
    "e' = e\<lparr>xe_state := ExecutionStopped, xe_pid := 0\<rparr>"
  shows "counts_ok e' (L1 @ L2) \<and> chans_ok cl nx e' (L1 @ L2)"
proof -
  have nl: "n_of live (L1 @ L2) = 0" using assms(1) by (auto simp: counts_ok_def)
  have gen: "xe_generation e' = xe_generation e" using assms(3) by simp
  have "counts_ok e' (L1 @ L2)" using assms(1,3) nl pausing_cong[OF gen] by (auto simp: counts_ok_def)
  moreover have "chans_ok cl nx e' (L1 @ L2)"
    unfolding chans_ok_def using no_live[OF nl] chansD(2,3)[OF assms(2)] assms(3) by auto
  ultimately show ?thesis ..
qed

section \<open>One section of a disciplined run\<close>

definition chan_step :: "Supervisor \<Rightarrow> Supervisor \<Rightarrow> execution \<Rightarrow> execution \<Rightarrow> bool" where
  "chan_step s s' e e' \<longleftrightarrow> su_next s \<le> su_next s'
     \<and> (xe_done e' = xe_done e \<or> xe_done e' = Some (su_next s) \<and> su_next s < su_next s')
     \<and> (\<forall>c\<in>set (su_doneClosed s'). c \<in> set (su_doneClosed s) \<or> xe_done e = Some c \<or> c = su_next s \<and> su_next s < su_next s')"

lemma chan_step_same:
  "su_next s' = su_next s \<Longrightarrow> su_doneClosed s' = su_doneClosed s \<Longrightarrow> xe_done e' = xe_done e \<Longrightarrow> chan_step s s' e e'"
  by (simp add: chan_step_def)

text \<open>The exit of a process: its task always matches the execution.\<close>

lemma exit_effect:
  assumes "wait_exit i c gen code now s = (s', r)" "entry s i = Some e" "xe_cmd e = Some c" "xe_generation e = gen"
  shows "\<exists>e'. entry s' i = Some e' \<and> xe_pid e' = 0 \<and> xe_done e' = xe_done e \<and> (xe_desired e' \<longrightarrow> xe_desired e)
    \<and> (r \<noteq> None \<longrightarrow> xe_desired e) \<and> (xe_generation e' = gen \<or> xe_generation e' = gen + 1)
    \<and> set (su_doneClosed s') = set_option (xe_done e) \<union> set (su_doneClosed s) \<and> su_next s \<le> su_next s'"
  using assms by (auto simp: wait_exit_def Let_def split: if_splits)

lemma pausing_next:
  assumes "gens_ok n e (L1 @ old @ L2)" "Suc n < 2 ^ 64" "n_of (pausing e) (L1 @ L2) = 0"
    "xe_generation e' = xe_generation e \<or> xe_generation e' = xe_generation e + 1"
  shows "n_of (pausing e') (L1 @ L2) = 0"
  using assms(4)
proof
  assume "xe_generation e' = xe_generation e"
  then show ?thesis using assms(3) pausing_cong[of e' e] by simp
next
  assume "xe_generation e' = xe_generation e + 1"
  then show ?thesis using no_pausing_above[OF assms(1,2)] by simp
qed

lemma run_task_drain:
  assumes run: "run_task t ch s = Some (s', new, evs)" and adm: "admissible t ch" and i: "touches t = i"
    and e: "entry s i = Some e" and g: "gens_ok n e (L1 @ loc i [t] @ L2)" and n: "Suc n < 2 ^ 64"
    and d: "drain_ok s e (L1 @ loc i [t] @ L2)" and cl: "\<forall>c\<in>set (su_doneClosed s). c < su_next s"
    and q: "\<And>p k. t = CallStart p k \<Longrightarrow> n_of starting (L1 @ L2) = 0 \<and> n_of stopping (L1 @ L2) = 0"
  shows "\<exists>e'. entry s' i = Some e' \<and> drain_ok s' e' (L1 @ loc i new @ L2) \<and> chan_step s s' e e'"
proof -
  have c: "counts_ok e (L1 @ loc i [t] @ L2)" "chans_ok (su_doneClosed s) (su_next s) e (L1 @ loc i [t] @ L2)"
    using d by (auto simp: drain_ok_def)
  have up: "n_of (pausing e') (L1 @ loc i [t] @ L2) = 0" if "xe_generation e' = xe_generation e + 1" for e'
    using no_pausing_above[OF g n that] .
  have up2: "n_of (pausing e') (L1 @ L2) = 0" if "xe_generation e' = xe_generation e + 1" for e'
    using up[OF that] by simp
  have quietly: ?thesis if "s' = s" "loc i [t] = []" "loc i new = []"
    using that e d by (auto simp: chan_step_def)
  show ?thesis
    using run
  proof (cases rule: run_task_cases)
    case (start p k stat ks r)
    show ?thesis
    proof (cases r)
      case (Inl rep)
      then show ?thesis using start quietly Start_refuses by auto
    next
      case (Inr gen)
      have p: "pl_ExecutionID p = i" "loc i [t] = []" using i start by auto
      from Start_accepts[of _ p s s' gen] start(3) Inr
      have a: "\<not> (xe_desired e \<and> is_up (xe_state e))" "s' = put_cancelled i e (revive e) s" using p e by auto
      define e' where "e' = cancelBackoff (revive e)"
      have gen: "xe_generation e' = xe_generation e + 1" by (simp add: e'_def cancelBackoff_def revive_def)
      have L: "loc i new = [FirstSection i gen ''started'' k]" using start Inr p by auto
      have s': "entry s' i = Some e'" "su_doneClosed s' = su_doneClosed s" "su_next s' = su_next s"
        using a(2) by (simp_all add: put_cancelled_def e'_def)
      have "counts_ok e (L1 @ L2)" "chans_ok (su_doneClosed s) (su_next s) e (L1 @ L2)" using c p by simp_all
      note drain_revive[OF this a(1) conjunct1[OF q[OF start(1)]] conjunct2[OF q[OF start(1)]] up2[OF gen] e'_def refl,
        of i gen "''started''" k]
      then show ?thesis using s' L by (auto simp: drain_ok_def chan_step_def e'_def cancelBackoff_def revive_def)
    qed
  next
    case (stop j k r)
    have j: "j = i" "loc i [t] = []" using i stop by auto
    have c': "counts_ok e (L1 @ L2)" "chans_ok (su_doneClosed s) (su_next s) e (L1 @ L2)" using c j by simp_all
    show ?thesis
    proof (cases "invalid_id i")
      case (Some err)
      then show ?thesis using stop j quietly by (auto simp: Stop_enter_def)
    next
      case None
      show ?thesis
      proof (cases "xe_state e = ExecutionStopped \<or> xe_pid e = 0")
        case True
        define e2 where "e2 = e\<lparr>xe_desired := False, xe_generation := xe_generation e + 1, xe_state := ExecutionStopped\<rparr>"
        define e' where "e' = cancelBackoff e2"
        have gen: "xe_generation e' = xe_generation e + 1" by (simp add: e'_def e2_def cancelBackoff_def)
        have s': "s' = put_cancelled i e e2 s" "loc i new = []"
          using stop j None e True by (auto simp: Stop_enter_def Let_def e2_def)
        show ?thesis
          using drain_stop_idle[OF c' True up2[OF gen]] s'
          by (auto simp: drain_ok_def put_cancelled_def chan_step_def e'_def e2_def cancelBackoff_def)
      next
        case False
        define e' where "e' = cancelBackoff (e\<lparr>xe_desired := False, xe_state := ExecutionStopping\<rparr>)"
        have r: "s' = put_cancelled i e (e\<lparr>xe_desired := False, xe_state := ExecutionStopping\<rparr>) s"
          "r = Inr (xe_done e, xe_cmd e, xe_pid e)"
          using stop j None e False by (auto simp: Stop_enter_def Let_def)
        note dr = drain_stop_live[OF c' False e'_def refl, of i k]
        then have "loc i new = [AwaitingExit i (xe_done e) k]" using stop j r(2) by simp
        then show ?thesis using dr r(1)
          by (auto simp: drain_ok_def put_cancelled_def chan_step_def e'_def cancelBackoff_def)
      qed
    qed
  next
    case (restart_refused j rep)
    then show ?thesis using quietly by simp
  next
    case (restart j p m)
    then show ?thesis using quietly by simp
  next
    case (first j gen msg k)
    then have t: "loc i [t] = [t]" "starting t" using i by auto
    have f: "loc i new = [] \<or> (\<exists>t'. loc i new = [t'] \<and> starting t')"
      using first i by (cases "(j, gen, msg, k, start_first j gen s)" rule: first_tasks.cases) auto
    show ?thesis
      using drain_start_moves[of e L1 t L2 "su_doneClosed s" "su_next s" "loc i new" e] c t f first(2) e
      by (auto simp: drain_ok_def chan_step_def shift_def)
  next
    case (accepted j gen msg k)
    then have t: "loc i [t] = [t]" "starting t" "loc i new = [Committing i gen msg k]" using i by auto
    show ?thesis
      using drain_start_moves[of e L1 t L2 "su_doneClosed s" "su_next s" "loc i new" e] c t accepted(2) e
      by (auto simp: drain_ok_def chan_step_def shift_def)
  next
    case (refused j gen msg k err rep)
    then have t: "loc i [t] = [t]" "starting t" "loc i new = []" "j = i" using i by auto
    define e' where "e' = (if xe_desired e \<and> xe_generation e = gen \<and> \<not> su_closed s
        then e\<lparr>xe_desired := False, xe_state := ExecutionFailed, xe_lastErr := error_Error err\<rparr> else e)"
    have e': "s' = put i e' s" "shift e e'" "xe_generation e' = xe_generation e"
      using refused(2) t(4) e by (auto simp: start_refused_def shift_def e'_def Let_def)
    then show ?thesis
      using drain_start_moves[of e L1 t L2 "su_doneClosed s" "su_next s" "[]" e'] c t
      by (auto simp: drain_ok_def chan_step_def shift_def)
  next
    case (elapsed j gen cancel go)
    then have t: "loc i [t] = [t]" "backing t" "j = i" using i by auto
    define e' where "e' = (if xe_backoffCancel e = Some cancel then e\<lparr>xe_backoffCancel := None\<rparr> else e)"
    have e': "s' = put i e' s" "shift e e'" "xe_generation e' = xe_generation e"
        "xe_state e' = xe_state e" "xe_desired e' = xe_desired e" "go \<Longrightarrow> xe_generation e = gen"
      using elapsed(2) t(3) e by (auto simp: backoff_wake_def shift_def e'_def Let_def)
    have nw: "loc i new = [] \<or> (\<exists>t'. loc i new = [t'] \<and> starting t' \<and> current e t)"
      using elapsed t(3) e'(6) by (cases go) (auto simp: current_def)
    show ?thesis
      using drain_wake[OF _ _ t(2) e'(2-5) nw, of L1 L2 "su_doneClosed s" "su_next s"] c t(1) e'(1,2)
      by (auto simp: drain_ok_def chan_step_def shift_def)
  next
    case (cancelled j gen cancel)
    then have t: "loc i [t] = [t]" "backing t" "loc i new = []" using i by auto
    show ?thesis
      using drain_wake[of e L1 t L2 "su_doneClosed s" "su_next s" e "[]"] c t cancelled(2) e
      by (auto simp: drain_ok_def chan_step_def shift_def)
  next
    case (ended j dn k)
    then have t: "loc i [t] = [AwaitingExit i dn k]" "loc i new = [LeavingStop i k]" using i by auto
    show ?thesis
      using drain_ended[of e L1 i dn k L2 "su_doneClosed s" "su_next s"] c t ended(2,3) e
      by (auto simp: drain_ok_def chan_step_def has_ended_def)
  next
    case (leave j k rep)
    then have t: "loc i [t] = [LeavingStop i k]" "loc i new = []" "j = i" using i by auto
    define e' where "e' = e\<lparr>xe_state := ExecutionStopped, xe_pid := 0\<rparr>"
    have "s' = put i e' s" using leave(2) t(3) e by (simp add: Stop_leave_def Let_def e'_def)
    then show ?thesis
      using drain_leave[OF _ _ e'_def, of L1 i k L2 "su_doneClosed s" "su_next s"] c t
      by (auto simp: drain_ok_def chan_step_def e'_def)
  next
    case (count j m rep rep')
    then have t: "loc i [t] = []" "loc i new = []" "j = i" using i by auto
    obtain m' where "s' = s \<or> s' = put i (e\<lparr>xe_restarts := m'\<rparr>) s"
      using count(2) t(3) e by (auto simp: Restart_leave_def Let_def split: if_splits)
    moreover have "counts_ok (e\<lparr>xe_restarts := m'\<rparr>) (L1 @ L2)"
      "chans_ok (su_doneClosed s) (su_next s) (e\<lparr>xe_restarts := m'\<rparr>) (L1 @ L2)"
      using c t pausing_cong[of "e\<lparr>xe_restarts := m'\<rparr>" e] by (simp_all add: counts_ok_def chans_ok_def)
    ultimately show ?thesis using t e d by (auto simp: drain_ok_def chan_step_def)
  next
    case (not_created j gen msg k out rep)
    then have t: "loc i [t] = [t]" "starting t" "loc i new = []" "j = i" using i by auto
    have c': "counts_ok e (L1 @ t # L2)" "chans_ok (su_doneClosed s) (su_next s) e (L1 @ t # L2)"
      using c t(1) by simp_all
    have com: "start_commit i gen msg out s = (s', rep, None)" using not_created(3) t(4) by simp
    show ?thesis
    proof (cases "su_maintenance s")
      case True
      define e' where "e' = e\<lparr>xe_desired := False, xe_state := ExecutionStopped, xe_generation := xe_generation e + 1\<rparr>"
      have "s' = put i e' s" using com e True by (simp add: start_commit_def Let_def e'_def)
      moreover have "xe_generation e' = xe_generation e + 1" by (simp add: e'_def)
      ultimately show ?thesis using drain_start_held[OF c' t(2) up2 e'_def] t(3)
        by (auto simp: drain_ok_def chan_step_def e'_def)
    next
      case False
      show ?thesis
      proof (cases "\<not> xe_desired e \<or> xe_generation e \<noteq> gen \<or> su_closed s")
        case True
        then have "s' = s" using com e False by (simp add: start_commit_def)
        then show ?thesis using drain_start_moves[OF c' t(2), of "[]" e] t(3) e
          by (auto simp: drain_ok_def chan_step_def shift_def)
      next
        case live: False
        then obtain f where f: "out = Inl f"
          using com e False by (cases out) (auto simp: start_commit_def Let_def split: prod.splits)
        define e' where "e' = (begin_start (su_next s) e)\<lparr>xe_state := ExecutionFailed, xe_lastErr := failure_text f, xe_desired := False\<rparr>"
        have "s' = close_done (Some (su_next s)) (put i e' (tick s))"
          using com e False live f by (simp add: start_commit_def Let_def e'_def)
        then show ?thesis using drain_create_fails[OF c'(1) t(2) e'_def] t(3)
          by (auto simp: drain_ok_def chan_step_def e'_def begin_start_def)
      qed
    qed
  next
    case (created j gen msg k out rep co)
    then have t: "loc i [t] = [t]" "starting t" "loc i new = [Waiting i co gen]" "j = i" using i by auto
    have com: "start_commit i gen msg out s = (s', rep, Some co)" using created(3) t(4) by simp
    have guard: "\<not> su_maintenance s" "xe_desired e" "xe_generation e = gen" "\<not> su_closed s"
      using com e by (auto simp: start_commit_def Let_def split: if_splits)
    obtain pid now inst where out: "out = Inr (pid, now, inst)" "pid > 0"
      using com e guard adm created(1,2) by (cases out) (auto simp: start_commit_def Let_def)
    define e' where "e' = (begin_start (su_next s) e)\<lparr>xe_pid := pid, xe_started := now, xe_processInstance := inst, xe_state := ExecutionRunning\<rparr>"
    have s': "s' = put i e' (tick s)" "co = su_next s"
      using com e guard out by (auto simp: start_commit_def Let_def e'_def)
    have "counts_ok e (L1 @ t # L2)" using c t(1) by simp
    from drain_create[OF this t(2) guard(2) out(2) e'_def guard(3)[symmetric] cl, of i]
    show ?thesis using s' t(3) by (auto simp: drain_ok_def chan_step_def e'_def begin_start_def)
  next
    case (exit j co gen code now)
    then have t: "loc i [t] = [Waiting i co gen]" "loc i new = []" "j = i" using i by auto
    have c': "counts_ok e (L1 @ Waiting i co gen # L2)" "chans_ok (su_doneClosed s) (su_next s) e (L1 @ Waiting i co gen # L2)"
      using c t(1) by simp_all
    have m: "xe_cmd e = Some co" "xe_generation e = gen" using chansD(1)[OF c'(2), of i co gen] by auto
    obtain e' where e': "entry s' i = Some e'" "xe_pid e' = 0" "xe_done e' = xe_done e" "xe_desired e' \<longrightarrow> xe_desired e"
        "xe_generation e' = gen \<or> xe_generation e' = gen + 1"
        "set (su_doneClosed s') = set_option (xe_done e) \<union> set (su_doneClosed s)" "su_next s \<le> su_next s'"
      using exit_effect[of i co gen code now s s' None e] exit(2) t(3) e m by auto
    have z: "n_of (pausing e) (L1 @ L2) = 0" using live_one[OF c'(1), of i co gen] by simp
    have "n_of (pausing e') (L1 @ L2) = 0" by (rule pausing_next[OF g n z]) (use e'(5) m in auto)
    from drain_exit[OF c' e'(2-4) this, of "[]" "su_doneClosed s'"] show ?thesis
      using e' t(2) chans_more[of "su_doneClosed s'" "su_next s" e' "L1 @ L2" "su_doneClosed s'" "su_next s'"]
      by (auto simp: drain_ok_def chan_step_def)
  next
    case (pause j co gen code now dl gen' cancel)
    then have t: "loc i [t] = [Waiting i co gen]" "loc i new = [BackingOff i gen' cancel]" "j = i" using i by auto
    have c': "counts_ok e (L1 @ Waiting i co gen # L2)" "chans_ok (su_doneClosed s) (su_next s) e (L1 @ Waiting i co gen # L2)"
      using c t(1) by simp_all
    have m: "xe_cmd e = Some co" "xe_generation e = gen" using chansD(1)[OF c'(2), of i co gen] by auto
    obtain e' where e': "entry s' i = Some e'" "xe_pid e' = 0" "xe_done e' = xe_done e" "xe_desired e' \<longrightarrow> xe_desired e"
        "xe_generation e' = gen \<or> xe_generation e' = gen + 1" "xe_desired e"
        "set (su_doneClosed s') = set_option (xe_done e) \<union> set (su_doneClosed s)" "su_next s \<le> su_next s'"
      using exit_effect[of i co gen code now s s' "Some (dl, gen', cancel)" e] pause(2) t(3) e m by auto
    have z: "n_of (pausing e) (L1 @ L2) = 0" using live_one[OF c'(1), of i co gen] by simp
    have "n_of (pausing e') (L1 @ L2) = 0" by (rule pausing_next[OF g n z]) (use e'(5) m in auto)
    from drain_exit[OF c' e'(2-4) this, of "[BackingOff i gen' cancel]" "su_doneClosed s'"] e'(6) show ?thesis
      using e' t(2) chans_more[of "su_doneClosed s'" "su_next s" e' "L1 @ BackingOff i gen' cancel # L2" "su_doneClosed s'" "su_next s'"]
      by (auto simp: drain_ok_def chan_step_def)
  qed
qed

section \<open>The invariant of the pool\<close>

fun held_ids :: "task \<Rightarrow> ExecutionID set" where
  "held_ids (CallStop i (HoldRest is)) = insert i (set is)"
| "held_ids (AwaitingExit i d (HoldRest is)) = insert i (set is)"
| "held_ids (LeavingStop i (HoldRest is)) = insert i (set is)"
| "held_ids t = {}"

text \<open>The executions that the loops of \<open>ApplyMaintenanceHold\<close> still have to stop.\<close>

definition pending_hold :: "task list \<Rightarrow> ExecutionID set" where
  "pending_hold ts = (\<Union>t\<in>set ts. held_ids t)"

lemma pending_hold_simps [simp]:
  "pending_hold [] = {}" "pending_hold (xs @ ys) = pending_hold xs \<union> pending_hold ys"
  "pending_hold (t # ts) = held_ids t \<union> pending_hold ts"
  by (auto simp: pending_hold_def)

definition process_of :: "ExecutionID \<Rightarrow> task list \<Rightarrow> bool" where
  "process_of i ts \<longleftrightarrow> (\<exists>t\<in>set ts. alive i t)"

definition pool_ok :: "world \<Rightarrow> bool" where
  "pool_ok w \<longleftrightarrow> (case w of (s, ts) \<Rightarrow>
     (\<forall>i e. entry s i = Some e \<longrightarrow> ExecutionID_Validate i = None \<and> drain_ok s e (loc i ts))
     \<and> (\<forall>i j ei ej c. entry s i = Some ei \<longrightarrow> entry s j = Some ej \<longrightarrow> xe_done ei = Some c \<longrightarrow> xe_done ej = Some c \<longrightarrow> i = j)
     \<and> (\<forall>c\<in>set (su_doneClosed s). c < su_next s)
     \<and> (\<forall>i\<in>pending_hold ts. ExecutionID_Validate i = None)
     \<and> (su_maintenance s \<longrightarrow> (\<forall>i. process_of i ts \<longrightarrow> i \<in> pending_hold ts)))"

lemma alive_iff: "alive i t \<longleftrightarrow> live t \<and> touches t = i"
  by (cases t) auto

lemma process_of_loc: "process_of i ts \<longleftrightarrow> n_of live (loc i ts) > 0"
  unfolding process_of_def n_of_pos by (auto simp: loc_def alive_iff at_work_def)

lemma process_simps [simp]:
  "\<not> process_of i []" "process_of i (xs @ ys) \<longleftrightarrow> process_of i xs \<or> process_of i ys"
  "process_of i (t # ts) \<longleftrightarrow> alive i t \<or> process_of i ts"
  by (auto simp: process_of_def)

lemma drain_other:
  assumes "drain_ok s e L" "su_next s \<le> su_next s'"
    "\<And>c. xe_done e = Some c \<Longrightarrow> c \<in> set (su_doneClosed s') \<Longrightarrow> c \<in> set (su_doneClosed s)"
  shows "drain_ok s' e L"
  using assms chans_more by (auto simp: drain_ok_def)

lemma next_stop_hold [simp]: "pending_hold (next_stop HoldRest is) = set is" "pending_hold (next_stop ShutdownRest is) = {}"
    "\<not> process_of i (next_stop k is)"
  by (cases "is"; simp)+

lemma resume_process [simp]: "\<not> process_of i (resume k rep)"
  by (cases "(k, rep)" rule: resume.cases) auto

lemma resume_hold:
  "pending_hold (resume (HoldRest is) (snap, msg, None)) = set is"
  "pending_hold (resume k rep) \<subseteq> (case k of HoldRest is \<Rightarrow> set is | _ \<Rightarrow> {})"
  by simp (cases "(k, rep)" rule: resume.cases; auto)

text \<open>A section hands the pending executions on, except the one whose stop is complete.\<close>

definition cont_ids :: "cont \<Rightarrow> ExecutionID set" where
  "cont_ids k = (case k of HoldRest is \<Rightarrow> set is | _ \<Rightarrow> {})"

text \<open>The continuations of starts never are loops over stops.\<close>

fun start_cont :: "task \<Rightarrow> bool" where
  "start_cont (CallStart p k) = (cont_ids k = {})"
| "start_cont (FirstSection i g m k) = (cont_ids k = {})"
| "start_cont (Validating i g m k) = (cont_ids k = {})"
| "start_cont (Committing i g m k) = (cont_ids k = {})"
| "start_cont t = True"

definition stop_complete :: "Supervisor \<Rightarrow> task \<Rightarrow> bool" where
  "stop_complete s t \<longleftrightarrow> (\<exists>i k. t = LeavingStop i k)
     \<or> (\<exists>i k. t = CallStop i k \<and> (case entry s i of None \<Rightarrow> True
          | Some e \<Rightarrow> xe_state e = ExecutionStopped \<or> xe_pid e = 0))"

lemma held_simps:
  "held_ids (CallStop i k) = (case k of HoldRest is \<Rightarrow> insert i (set is) | _ \<Rightarrow> {})"
  "held_ids (AwaitingExit i d k) = (case k of HoldRest is \<Rightarrow> insert i (set is) | _ \<Rightarrow> {})"
  "held_ids (LeavingStop i k) = (case k of HoldRest is \<Rightarrow> insert i (set is) | _ \<Rightarrow> {})"
  by (cases k; simp)+

lemma resume_pending: "pending_hold (resume k (snap, msg, err)) = (if err = None then cont_ids k else {})"
  by (cases k) (auto simp: cont_ids_def)

lemma next_stop_start_cont: "t \<in> set (next_stop k is) \<Longrightarrow> start_cont t"
  by (cases "is") auto

lemma resume_start_cont: "t \<in> set (resume k rep) \<Longrightarrow> start_cont t"
  by (cases "(k, rep)" rule: resume.cases) (auto simp: cont_ids_def dest: next_stop_start_cont split: if_splits)

lemma Stop_enter_idle:
  assumes "Stop_enter i s = (s', Inl (snap, msg, err))" "invalid_id i = None"
  shows "err = None \<and> (case entry s i of None \<Rightarrow> True | Some e \<Rightarrow> xe_state e = ExecutionStopped \<or> xe_pid e = 0)"
  using assms by (auto simp: Stop_enter_def Let_def split: option.splits if_splits)

lemma run_task_held:
  assumes "run_task t ch s = Some (s', new, evs)" "start_cont t" "\<forall>i\<in>held_ids t. ExecutionID_Validate i = None"
  shows "(\<forall>t'\<in>set new. start_cont t') \<and> pending_hold new \<subseteq> held_ids t
    \<and> (\<forall>j\<in>held_ids t. j \<in> pending_hold new \<or> j = touches t \<and> stop_complete s t)"
  using assms(1)
proof (cases rule: run_task_cases)
  case (start p k stat ks r)
  then show ?thesis using assms(2)
    by (cases r) (auto simp: resume_start_cont resume_pending split: if_splits)
next
  case (stop i k r)
  show ?thesis
  proof (cases r)
    case (Inl rep)
    obtain snap msg err where rep: "rep = (snap, msg, err)" by (cases rep)
    have inv: "\<exists>is. k = HoldRest is \<Longrightarrow> invalid_id i = None"
      using assms(3) stop by (auto simp: invalid_id_def)
    show ?thesis
    proof (cases "\<exists>is. k = HoldRest is")
      case True
      then obtain "is" where k: "k = HoldRest is" by blast
      then have "err = None" "stop_complete s t"
        using Stop_enter_idle[of i s s' snap msg err] inv stop Inl rep by (auto simp: stop_complete_def)
      then show ?thesis using stop Inl rep k resume_start_cont by (auto simp: next_stop_start_cont)
    next
      case False
      then show ?thesis using stop Inl rep resume_start_cont
        by (auto simp: held_simps resume_pending cont_ids_def split: cont.splits)
    qed
  next
    case (Inr x)
    then show ?thesis using stop by (cases x) (auto simp: held_simps split: cont.splits)
  qed
next
  case (first i gen msg k)
  then show ?thesis using assms(2)
    by (cases "(i, gen, msg, k, start_first i gen s)" rule: first_tasks.cases)
      (auto simp: resume_start_cont resume_pending split: if_splits)
next
  case (refused i gen msg k err rep)
  then show ?thesis using assms(2) by (cases rep) (auto simp: resume_start_cont resume_pending split: if_splits)
next
  case (not_created i gen msg k out rep)
  then show ?thesis using assms(2) by (cases rep) (auto simp: resume_start_cont resume_pending split: if_splits)
next
  case (created i gen msg k out rep c)
  then show ?thesis using assms(2) by (cases rep) (auto simp: resume_start_cont resume_pending split: if_splits)
next
  case (ended i d k)
  then show ?thesis by (auto simp: held_simps split: cont.splits)
next
  case (leave i k rep)
  have rep: "snd (snd rep) = None \<or> entry s i = None" "snd (snd rep) = None"
    using leave(2) by (auto simp: Stop_leave_def Let_def split: option.splits)
  obtain snap msg where r: "rep = (snap, msg, None)" using rep(2) by (cases rep) auto
  show ?thesis using leave r resume_start_cont
    by (auto simp: held_simps resume_pending cont_ids_def stop_complete_def split: cont.splits)
qed (use assms(2) in \<open>auto simp: cont_ids_def\<close>)

lemma run_task_processes:
  assumes "run_task t ch s = Some (s', new, evs)" "su_maintenance s" "process_of i new"
  shows "alive i t"
  using assms(1)
proof (cases rule: run_task_cases)
  case (start p k stat ks r)
  then show ?thesis using assms(3) by (cases r) auto
next
  case (stop j k r)
  then show ?thesis using assms(3) by (cases "(j, k, r)" rule: stop_tasks.cases) (auto split: if_splits)
next
  case (first j gen msg k)
  then show ?thesis using assms(3) by (cases "(j, gen, msg, k, start_first j gen s)" rule: first_tasks.cases) auto
next
  case (created j gen msg k out rep c)
  then show ?thesis using assms(2) by (auto simp: start_commit_def Let_def split: option.splits)
qed (use assms(3) in \<open>auto split: if_splits\<close>)

definition drain_inv :: "nat \<Rightarrow> world \<Rightarrow> bool" where
  "drain_inv n w \<longleftrightarrow> tokens_ok n w \<and> pool_ok w \<and> (\<forall>t\<in>set (snd w). start_cont t)"

lemma no_process_when_complete:
  assumes "stop_complete s t" "tokens_ok n (s, ts)" "pool_ok (s, ts)" "t \<in> set ts"
  shows "\<not> process_of (touches t) ts"
proof
  assume "process_of (touches t) ts"
  then have live: "n_of live (loc (touches t) ts) > 0" by (simp add: process_of_loc)
  then have "loc (touches t) ts \<noteq> []" by auto
  then obtain e where e: "entry s (touches t) = Some e"
    using assms(2) by (auto simp: tokens_ok_def local_ok_def split: option.splits)
  then have c: "counts_ok e (loc (touches t) ts)" using assms(3) by (auto simp: pool_ok_def drain_ok_def)
  from assms(1) show False
    unfolding stop_complete_def
  proof
    assume "\<exists>i k. t = LeavingStop i k"
    then have "n_of leaving (loc (touches t) ts) > 0"
      using assms(4) unfolding n_of_pos by (auto simp: loc_def intro!: bexI[of _ t])
    then show False using c live by (simp add: counts_ok_def)
  next
    assume "\<exists>i k. t = CallStop i k \<and> (case entry s i of None \<Rightarrow> True | Some e \<Rightarrow> xe_state e = ExecutionStopped \<or> xe_pid e = 0)"
    then show False using c live e by (auto simp: counts_ok_def)
  qed
qed

section \<open>Every disciplined step keeps the invariant\<close>

lemma pool_okD:
  assumes "pool_ok (s, ts)"
  shows "entry s i = Some e \<Longrightarrow> ExecutionID_Validate i = None"
    "entry s i = Some e \<Longrightarrow> drain_ok s e (loc i ts)"
    "entry s i = Some ei \<Longrightarrow> entry s j = Some ej \<Longrightarrow> xe_done ei = Some c \<Longrightarrow> xe_done ej = Some c \<Longrightarrow> i = j"
    "c \<in> set (su_doneClosed s) \<Longrightarrow> c < su_next s"
    "i \<in> pending_hold ts \<Longrightarrow> ExecutionID_Validate i = None"
    "su_maintenance s \<Longrightarrow> process_of i ts \<Longrightarrow> i \<in> pending_hold ts"
  using assms unfolding pool_ok_def prod.case by blast+

lemma absent_section:
  assumes "run_task t ch s = Some (s', new, evs)" "entry s (touches t) = None" "at_work t = False"
  shows "su_next s' = su_next s \<and> su_doneClosed s' = su_doneClosed s \<and>
    (entry s' (touches t) = None \<and> loc (touches t) new = []
     \<or> (\<exists>p cfg g m k. entry s' (touches t) = Some (new_execution p cfg) \<and> ExecutionID_Validate (touches t) = None
          \<and> loc (touches t) new = [FirstSection (touches t) g m k]))"
  using assms(1)
proof (cases rule: run_task_cases)
  case (start p k stat ks r)
  show ?thesis
  proof (cases r)
    case (Inl rep)
    then have "s' = s" using start(3) by (auto dest: Start_refuses)
    then show ?thesis using start Inl assms(2) by auto
  next
    case (Inr gen)
    have v: "ExecutionID_Validate (pl_ExecutionID p) = None"
      using start(3) Inr by (auto simp: Start_enter_def validate_plan_def split: option.splits)
    have "s' = put (pl_ExecutionID p) (new_execution p (su_cfg s)) s"
      using Start_accepts[of _ p s s' gen] start Inr assms(2) by auto
    then show ?thesis using start Inr v by auto
  qed
next
  case (stop i k r)
  then show ?thesis using assms(2) by (auto simp: Stop_enter_def split: option.splits)
next
  case (count i n rep rep')
  then show ?thesis using assms(2) by (auto simp: Restart_leave_def)
qed (use assms(2,3) in auto)

text \<open>The entries and channels after a section: those of its own execution and of the others.\<close>

lemma pool_task:
  assumes run: "run_task t ch s = Some (s', new, evs)" and adm: "admissible t ch"
    and q: "quiet_start (s, xs @ t # ys) t" and inv: "pool_ok (s, xs @ t # ys)" "tokens_ok n (s, xs @ t # ys)"
    and n: "Suc n < 2 ^ 64" and st: "start_cont t"
  shows "pool_ok (s', xs @ new @ ys)"
proof -
  define i where "i = touches t"
  have L: "loc i (xs @ t # ys) = loc i xs @ loc i [t] @ loc i ys" by simp
  have lok: "local_ok n s i (loc i xs @ loc i [t] @ loc i ys)"
    using inv(2) unfolding tokens_ok_def fst_conv snd_conv L[symmetric] by blast
  have chans: "su_next s \<le> su_next s'
      \<and> (\<forall>c\<in>set (su_doneClosed s'). c \<in> set (su_doneClosed s) \<or> (\<exists>e. entry s i = Some e \<and> xe_done e = Some c)
           \<or> c = su_next s \<and> su_next s < su_next s')
      \<and> (\<forall>e'. entry s' i = Some e' \<longrightarrow> ExecutionID_Validate i = None \<and> drain_ok s' e' (loc i (xs @ new @ ys))
           \<and> (\<forall>c. xe_done e' = Some c \<longrightarrow> (\<exists>e. entry s i = Some e \<and> xe_done e = Some c) \<or> c = su_next s))"
  proof (cases "entry s i")
    case (Some e)
    have g: "gens_ok n e (loc i xs @ loc i [t] @ loc i ys)"
      using lok Some by (simp add: local_ok_def del: loc_simps)
    have d: "drain_ok s e (loc i xs @ loc i [t] @ loc i ys)" using pool_okD(2)[OF inv(1) Some] by (simp only: L)
    have qn: "n_of starting (loc i xs @ loc i ys) = 0 \<and> n_of stopping (loc i xs @ loc i ys) = 0"
      if "t = CallStart p k" for p k
      using q that unfolding n_of_none by (auto simp: i_def)
    obtain e' where e': "entry s' i = Some e'" "drain_ok s' e' (loc i xs @ loc i new @ loc i ys)" "chan_step s s' e e'"
      using run_task_drain[OF run adm i_def[symmetric] Some g n d ballI[OF pool_okD(4)[OF inv(1)]]] qn by blast
    then show ?thesis using Some pool_okD(1)[OF inv(1) Some] by (auto simp: chan_step_def)
  next
    case None
    have "loc i xs @ loc i [t] @ loc i ys = []"
      using lok None by (simp add: local_ok_def del: loc_simps)
    then have nil: "loc i xs = []" "loc i ys = []" "at_work t = False" by (auto simp: i_def split: if_splits)
    show ?thesis
      using absent_section[OF run] None nil drain_new by (auto simp: i_def drain_ok_def new_execution_def)
  qed
  show ?thesis
    unfolding pool_ok_def prod.case
  proof (intro conjI allI impI ballI)
    fix j e' assume e': "entry s' j = Some e'"
    show "ExecutionID_Validate j = None"
    proof (cases "i = j")
      case False
      then have "entry s j = Some e'" using run_task_frame[OF run, of j] e' by (auto simp: i_def)
      then show ?thesis by (rule pool_okD(1)[OF inv(1)])
    qed (use chans e' in blast)
    show "drain_ok s' e' (loc j (xs @ new @ ys))"
    proof (cases "i = j")
      case False
      then have f: "entry s j = Some e'" "loc j (xs @ new @ ys) = loc j (xs @ t # ys)"
        using run_task_frame[OF run, of j] e' by (auto simp: i_def)
      have d: "drain_ok s e' (loc j (xs @ t # ys))" using pool_okD(2)[OF inv(1) f(1)] .
      show ?thesis unfolding f(2)
      proof (rule drain_other[OF d])
        fix c assume c: "xe_done e' = Some c" "c \<in> set (su_doneClosed s')"
        have "c < su_next s" using d c(1) by (auto simp: drain_ok_def chans_ok_def)
        then show "c \<in> set (su_doneClosed s)" using chans c pool_okD(3)[OF inv(1) _ f(1) _ c(1)] False by blast
      qed (use chans in blast)
    qed (use chans e' in blast)
  next
    fix j k ej ek c assume a: "entry s' j = Some ej" "entry s' k = Some ek" "xe_done ej = Some c" "xe_done ek = Some c"
    have lt: "c < su_next s" if "entry s l = Some el" "xe_done el = Some c" for l el
      using pool_okD(2)[OF inv(1) that(1)] that(2) by (auto simp: drain_ok_def chans_ok_def)
    have src: "(\<exists>e. entry s l = Some e \<and> xe_done e = Some c) \<or> l = i \<and> c = su_next s"
      if "entry s' l = Some el" "xe_done el = Some c" for l el
    proof (cases "l = i")
      case True
      then show ?thesis using chans that by blast
    next
      case False
      then have "entry s l = Some el" using run_task_frame[OF run, of l] that(1) by (auto simp: i_def)
      then show ?thesis using that(2) by blast
    qed
    from src[OF a(1,3)] src[OF a(2,4)] show "j = k"
    proof (elim disjE exE conjE)
      fix e1 e2 assume o: "entry s j = Some e1" "xe_done e1 = Some c" "entry s k = Some e2" "xe_done e2 = Some c"
      show "j = k" by (rule pool_okD(3)[OF inv(1) o(1,3,2,4)])
    qed (use lt in auto)
  next
    fix c assume c: "c \<in> set (su_doneClosed s')"
    have "c < su_next s" if "entry s i = Some e" "xe_done e = Some c" for e
      using pool_okD(2)[OF inv(1) that(1)] that(2) by (auto simp: drain_ok_def chans_ok_def)
    then show "c < su_next s'" using chans c pool_okD(4)[OF inv(1), of c] by fastforce
  next
    fix j assume "j \<in> pending_hold (xs @ new @ ys)"
    then have "j \<in> pending_hold (xs @ t # ys)"
      using run_task_held[OF run st] pool_okD(5)[OF inv(1)] by auto
    then show "ExecutionID_Validate j = None" using pool_okD(5)[OF inv(1)] by blast
  next
    fix j assume m: "su_maintenance s'" and p: "process_of j (xs @ new @ ys)"
    have m0: "su_maintenance s" using run_task_hold[OF run] m by (simp add: hold_of_def)
    have p0: "process_of j (xs @ t # ys)" using p run_task_processes[OF run m0, of j] by auto
    have h: "j \<in> pending_hold (xs @ t # ys)" using pool_okD(6)[OF inv(1) m0 p0] .
    have "\<not> (j = touches t \<and> stop_complete s t)"
      using no_process_when_complete[OF _ inv(2,1)] p0 by auto
    then show "j \<in> pending_hold (xs @ new @ ys)"
      using h run_task_held[OF run st] pool_okD(5)[OF inv(1)] by auto
  qed
qed

lemma pool_frame:
  assumes "pool_ok (s, ts)" "\<And>i. entry s' i = entry s i" "su_next s' = su_next s" "su_doneClosed s' = su_doneClosed s"
    "\<And>i. loc i ts' = loc i ts" "\<And>i. i \<in> pending_hold ts' \<Longrightarrow> ExecutionID_Validate i = None"
    "\<And>i. su_maintenance s' \<Longrightarrow> process_of i ts \<Longrightarrow> i \<in> pending_hold ts'"
  shows "pool_ok (s', ts')"
  unfolding pool_ok_def prod.case
proof (intro conjI allI impI ballI)
  fix i e assume "entry s' i = Some e"
  then have e: "entry s i = Some e" using assms(2) by simp
  show "ExecutionID_Validate i = None" by (rule pool_okD(1)[OF assms(1) e])
  show "drain_ok s' e (loc i ts')" using pool_okD(2)[OF assms(1) e] assms(3-5) by (simp add: drain_ok_def)
next
  fix i j ei ej c assume "entry s' i = Some ei" "entry s' j = Some ej" "xe_done ei = Some c" "xe_done ej = Some c"
  then show "i = j" using pool_okD(3)[OF assms(1)] assms(2) by metis
next
  fix i assume "su_maintenance s'" "process_of i ts'"
  then show "i \<in> pending_hold ts'" using assms(5,7) by (simp add: process_of_loc)
qed (use assms(3,4,6) pool_okD(4)[OF assms(1)] in auto)

lemma targets_cover:
  assumes "pool_ok (s, ts)" "tokens_ok n (s, ts)" "su_maintenance s'" "su_executions s' = su_executions s" "process_of i ts"
  shows "i \<in> set (hold_targets s')"
proof -
  have live: "n_of live (loc i ts) > 0" using assms(5) by (simp add: process_of_loc)
  then have "loc i ts \<noteq> []" by auto
  then obtain e where e: "entry s i = Some e"
    using assms(2) by (auto simp: tokens_ok_def local_ok_def split: option.splits)
  have "counts_ok e (loc i ts)" using pool_okD(2)[OF assms(1) e] by (simp add: drain_ok_def)
  then have "xe_state e \<noteq> ExecutionStopped" using live by (auto simp: counts_ok_def)
  moreover have "(i, e) \<in> set (su_executions s)" using e by (simp add: entry_def map_of_SomeD)
  ultimately show ?thesis using assms(3,4) by (force simp: hold_targets_def)
qed

lemma targets_valid:
  assumes "pool_ok (s, ts)" "su_executions s' = su_executions s" "i \<in> set (hold_targets s')"
  shows "ExecutionID_Validate i = None"
proof -
  obtain e where "(i, e) \<in> set (su_executions s)" using assms(2,3) by (auto simp: hold_targets_def split: if_splits)
  then have "i \<in> fst ` set (su_executions s)" by force
  then have "entry s i \<noteq> None" by (simp add: entry_def map_of_eq_None_iff)
  then show ?thesis using pool_okD(1)[OF assms(1)] by auto
qed

lemma abandon_held [simp]: "held_ids (abandon t) = held_ids t" "start_cont (abandon t) = start_cont t"
    "alive i (abandon t) = alive i t" "leaving (abandon t) = leaving t" "pausing e (abandon t) = pausing e t"
  by (cases t rule: abandon.cases; simp add: pausing_def current_def)+

lemma pool_abandon:
  assumes "pool_ok (s, xs @ t # ys)"
  shows "pool_ok (s, xs @ abandon t # ys)"
  unfolding pool_ok_def prod.case
proof (intro conjI allI impI ballI)
  fix i e assume e: "entry s i = Some e"
  show "ExecutionID_Validate i = None" by (rule pool_okD(1)[OF assms e])
  have w: "Waiting j c g = abandon t \<longleftrightarrow> Waiting j c g = t" for j c g by (cases t rule: abandon.cases) auto
  have a: "AwaitingExit j d k = abandon t \<Longrightarrow> \<exists>k'. AwaitingExit j d k' = t" for j d k
    by (cases t rule: abandon.cases) auto
  have "counts_ok e (loc i (xs @ abandon t # ys)) = counts_ok e (loc i (xs @ t # ys))"
    by (simp add: counts_ok_def)
  moreover have "chans_ok cl nx e (loc i (xs @ abandon t # ys))" if "chans_ok cl nx e (loc i (xs @ t # ys))" for cl nx
  proof (rule chans_shift[OF that])
    show "shift e e" by (simp add: shift_def)
    fix j c g assume "Waiting j c g \<in> set (loc i (xs @ abandon t # ys))"
    then show "Waiting j c g \<in> set (loc i (xs @ t # ys)) \<and> xe_generation e = xe_generation e"
      using w by (auto split: if_splits)
  next
    fix j d k assume "AwaitingExit j d k \<in> set (loc i (xs @ abandon t # ys))"
    then obtain k' where "AwaitingExit j d k' \<in> set (loc i (xs @ t # ys))"
      using a[of j d k] by (auto split: if_splits)
    then show "d = xe_done e \<and> d \<noteq> None" by (rule chansD(2)[OF that])
  qed
  ultimately show "drain_ok s e (loc i (xs @ abandon t # ys))"
    using pool_okD(2)[OF assms e] by (simp only: drain_ok_def)
qed (use assms pool_okD(3-6)[OF assms] in \<open>auto split: if_splits\<close>)

lemma output_same [simp]:
  "pausing (e\<lparr>xe_stdout := x\<rparr>) = pausing e" "pausing (e\<lparr>xe_stderr := x\<rparr>) = pausing e"
  "counts_ok (e\<lparr>xe_stdout := x\<rparr>) L = counts_ok e L" "counts_ok (e\<lparr>xe_stderr := x\<rparr>) L = counts_ok e L"
  "chans_ok cl nx (e\<lparr>xe_stdout := x\<rparr>) L = chans_ok cl nx e L"
  "chans_ok cl nx (e\<lparr>xe_stderr := x\<rparr>) L = chans_ok cl nx e L"
  by (simp_all add: counts_ok_def chans_ok_def pausing_cong[of "e\<lparr>xe_stdout := x\<rparr>" e]
      pausing_cong[of "e\<lparr>xe_stderr := x\<rparr>" e])

lemma pool_put:
  assumes "pool_ok (s, ts)" "entry s i = Some e" "\<And>L. counts_ok e' L = counts_ok e L"
    "\<And>cl nx L. chans_ok cl nx e' L = chans_ok cl nx e L" "xe_done e' = xe_done e"
  shows "pool_ok (put i e' s, ts)"
  unfolding pool_ok_def prod.case
proof (intro conjI allI impI ballI)
  fix j f assume f: "entry (put i e' s) j = Some f"
  show "ExecutionID_Validate j = None" using f assms(2) pool_okD(1)[OF assms(1)] by (auto split: if_splits)
  show "drain_ok (put i e' s) f (loc j ts)"
    using f assms(2-4) pool_okD(2)[OF assms(1)] by (auto simp: drain_ok_def split: if_splits)
next
  fix j k ej ek c
  assume a: "entry (put i e' s) j = Some ej" "entry (put i e' s) k = Some ek" "xe_done ej = Some c" "xe_done ek = Some c"
  have src: "\<exists>f. entry s l = Some f \<and> xe_done f = Some c" if "entry (put i e' s) l = Some g" "xe_done g = Some c" for l g
    using that assms(2,5) by (cases "l = i") auto
  obtain fj fk where "entry s j = Some fj" "entry s k = Some fk" "xe_done fj = Some c" "xe_done fk = Some c"
    using src[OF a(1,3)] src[OF a(2,4)] by blast
  then show "j = k" by (rule pool_okD(3)[OF assms(1)])
next
  fix c assume "c \<in> set (su_doneClosed (put i e' s))"
  then show "c < su_next (put i e' s)" using pool_okD(4)[OF assms(1)] by simp
next
  fix i assume "i \<in> pending_hold ts"
  then show "ExecutionID_Validate i = None" by (rule pool_okD(5)[OF assms(1)])
next
  fix j assume "su_maintenance (put i e' s)" "process_of j ts"
  then show "j \<in> pending_hold ts" using pool_okD(6)[OF assms(1)] by simp
qed

lemma write_drain:
  assumes "pool_ok (s, ts)"
  shows "pool_ok (write_stdout i out s, ts)" "pool_ok (write_stderr i out s, ts)"
  using assms pool_put[OF assms, of i]
  by (auto simp: write_stdout_def write_stderr_def split: option.splits)

lemma step_drain:
  assumes "sup_step quiet_start (s, ts) evs (s', ts')" "drain_inv n (s, ts)" "Suc n < 2 ^ 64"
  shows "drain_inv (Suc n) (s', ts')"
proof -
  have tok: "tokens_ok n (s, ts)" and pool: "pool_ok (s, ts)" and sc: "\<forall>t\<in>set ts. start_cont t"
    using assms(2) by (auto simp: drain_inv_def)
  have "pool_ok (s', ts') \<and> (\<forall>t\<in>set ts'. start_cont t)"
    using assms(1)
  proof (cases rule: sup_step.cases)
    case (step_client t)
    have "held_ids t = {}" "start_cont t" using step_client(4) by (cases t; auto simp: cont_ids_def)+
    then show ?thesis using step_client pool pool_frame[OF pool, of s "ts @ [t]"] pool_okD(5,6)[OF pool] sc loc_client
      by auto
  next
    case (step_validator v)
    have "pool_ok (SetStartValidator v s, ts)"
      by (rule pool_frame[OF pool]) (use pool_okD(5,6)[OF pool] outer_entries(1) in \<open>auto simp: SetStartValidator_def\<close>)
    then show ?thesis using step_validator sc by simp
  next
    case (step_hold a r v x)
    have same: "su_executions s' = su_executions s" "su_next s' = su_next s" "su_doneClosed s' = su_doneClosed s"
      using step_hold(3) by (auto simp: ApplyMaintenanceHold_enter_def publish_hold_def Let_def split: if_splits)
    have pend: "pending_hold (hold_tasks x) \<subseteq> set (hold_targets s')"
        "x = Inr y \<Longrightarrow> pending_hold (hold_tasks x) = set (hold_targets s')" for y
      using step_hold(3) by (auto simp: ApplyMaintenanceHold_enter_def ids_sorted_def Let_def split: if_splits)
    have "pool_ok (s', ts @ hold_tasks x)"
    proof (rule pool_frame[OF pool outer_entries(2)[OF step_hold(3)] same(2,3)])
      show "ExecutionID_Validate i = None" if "i \<in> pending_hold (ts @ hold_tasks x)" for i
        using that pend(1) pool_okD(5)[OF pool] targets_valid[OF pool same(1)] by auto
      show "i \<in> pending_hold (ts @ hold_tasks x)" if "su_maintenance s'" "process_of i ts" for i
      proof (cases x)
        case (Inl err)
        then have "su_maintenance s" using step_hold(3) that(1)
          by (auto simp: ApplyMaintenanceHold_enter_def Let_def split: if_splits)
        then show ?thesis using pool_okD(6)[OF pool _ that(2)] by simp
      next
        case (Inr y)
        then show ?thesis using pend(2)[OF Inr] targets_cover[OF pool tok that(1) same(1) that(2)] by simp
      qed
    qed simp
    moreover have "\<forall>t\<in>set (hold_tasks x). start_cont t" by (cases x) (auto dest: next_stop_start_cont)
    ultimately show ?thesis using step_hold sc by auto
  next
    case (step_shutdown ids ids')
    have "pool_ok (s', ts @ next_stop ShutdownRest ids')"
      by (rule pool_frame[OF pool outer_entries(3)[OF step_shutdown(3)]])
        (use step_shutdown(3) pool_okD(5,6)[OF pool] in \<open>auto simp: Shutdown_enter_def\<close>)
    then show ?thesis using step_shutdown sc by (auto dest: next_stop_start_cont)
  next
    case (step_abandon xs t ys)
    then show ?thesis using pool pool_abandon sc by auto
  next
    case (step_stdout i out)
    then show ?thesis using write_drain[OF pool] sc by auto
  next
    case (step_stderr i out)
    then show ?thesis using write_drain[OF pool] sc by auto
  next
    case (step_task xs t ys ch new)
    have st: "start_cont t" using sc step_task(1) by simp
    have v: "\<forall>i\<in>held_ids t. ExecutionID_Validate i = None" using pool_okD(5)[OF pool] step_task(1) by auto
    have "pool_ok (s', xs @ new @ ys)"
      using pool_task[OF step_task(5,4)] step_task(1,3) pool tok assms(3) st by blast
    then show ?thesis using step_task(1,2) sc run_task_held[OF step_task(5) st v] by auto
  qed
  then show ?thesis using step_tokens[OF assms(1) tok assms(3)] by (simp add: drain_inv_def)
qed

lemma first_drain: "drain_inv 0 (first_world cfg)"
  using first_tokens by (simp add: drain_inv_def first_world_def pool_ok_def entry_def New_def)

lemma runs_drain:
  assumes "sup_runs quiet_start (first_world cfg) n evs w" "n < 2 ^ 64"
  shows "drain_inv n w"
proof -
  have "sup_runs quiet_start w0 n evs w \<Longrightarrow> drain_inv 0 w0 \<Longrightarrow> n < 2 ^ 64 \<Longrightarrow> drain_inv n w" for w0
  proof (induction rule: sup_runs.induct)
    case (runs_step w0 n evs w' es w'')
    then show ?case using step_drain[of "fst w'" "snd w'" es "fst w''" "snd w''" n] by simp
  qed simp
  then show ?thesis using assms first_drain by blast
qed

text \<open>
  C19: A completed Maintenance Hold leaves no process. In every state reachable by schedules in
  which no start of an execution overlaps another start or a stop of it, while a hold is
  active every process still alive belongs to an execution that a running
  \<open>ApplyMaintenanceHold\<close> has yet to stop; so once those loops are done there is none.
\<close>

theorem completed_hold_leaves_no_process:
  assumes "sup_runs quiet_start (first_world cfg) n evs (s, ts)" "n < 2 ^ 64" "su_maintenance s"
  shows "(\<forall>i. process_of i ts \<longrightarrow> i \<in> pending_hold ts)
    \<and> (pending_hold ts = {} \<longrightarrow> (\<forall>i. \<not> process_of i ts))"
proof -
  have "pool_ok (s, ts)" using runs_drain[OF assms(1,2)] by (simp add: drain_inv_def)
  then show ?thesis using pool_okD(6)[of s ts] assms(3) by blast
qed

text \<open>
  C20: Under the same discipline an execution has at most one process, and exactly when its
  entry carries a positive PID: what \<open>Get\<close> and \<open>List\<close> report is what runs.
\<close>

theorem one_process_per_execution:
  assumes "sup_runs quiet_start (first_world cfg) n evs (s, ts)" "n < 2 ^ 64" "entry s i = Some e"
  shows "length (filter (alive i) ts) = (if sn_PID (snapshot e) > 0 then 1 else 0)"
proof -
  have "pool_ok (s, ts)" using runs_drain[OF assms(1,2)] by (simp add: drain_inv_def)
  then have c: "counts_ok e (loc i ts)" using pool_okD(2) assms(3) by (auto simp: drain_ok_def)
  have "filter live (loc i ts) = filter (alive i) ts"
    by (auto simp: loc_def alive_iff at_work_def intro!: filter_cong)
  then have "n_of live (loc i ts) = length (filter (alive i) ts)" by (simp add: n_of_def)
  moreover have "n_of live (loc i ts) \<le> 1 \<and> (n_of live (loc i ts) = 0 \<longleftrightarrow> xe_pid e \<le> 0)"
    using c by (auto simp: counts_ok_def)
  ultimately have "length (filter (alive i) ts) \<le> 1 \<and> (length (filter (alive i) ts) = 0 \<longleftrightarrow> xe_pid e \<le> 0)"
    by simp
  moreover have "sn_PID (snapshot e) = xe_pid e" by (simp add: snapshot_def)
  ultimately show ?thesis by (simp del: length_0_conv) linarith
qed

end
