(* ===== verification/Supervisor_Plans.thy ===== *)
theory Supervisor_Plans
  imports Agent_Supervisor
begin

text \<open>
  The sequential parts of the Supervisor: which plans it accepts, the environment it gives a
  child, the tails of the output, and the identity of a process.
\<close>

section \<open>The environment of a plan\<close>

definition entry_size :: "(string \<rightharpoonup> string) \<Rightarrow> string \<Rightarrow> nat" where
  "entry_size env k = length k + length (case env k of None \<Rightarrow> [] | Some v \<Rightarrow> v) + 1"

lemma check_environment_iff:
  "check_environment env ks used = None \<longleftrightarrow>
     list_all (\<lambda>k. valid_entry k (case env k of None \<Rightarrow> [] | Some v \<Rightarrow> v)) ks
     \<and> (ks = [] \<or> used + (\<Sum>k\<leftarrow>ks. entry_size env k) \<le> 32 * 1024)"
proof (induction ks arbitrary: used)
  case (Cons k ks)
  show ?case using Cons.IH[of "used + entry_size env k"] by (cases ks) (auto simp: entry_size_def Let_def)
qed simp

text \<open>The files and texts that a plan must have, independent of the order of the environment.\<close>

definition runnable :: "file_system \<Rightarrow> string \<Rightarrow> bool" where
  "runnable stat exe \<longleftrightarrow> IsAbs exe \<and> Clean exe = exe \<and> \<not> ContainsNul exe \<and> Base exe \<notin> set shells
     \<and> (\<exists>info. stat exe = Inr info \<and> fi_IsRegular info \<and> executable_perm info)"

definition usable_directory :: "file_system \<Rightarrow> string \<Rightarrow> bool" where
  "usable_directory stat dir \<longleftrightarrow> dir = [] \<or> IsAbs dir \<and> Clean dir = dir \<and> (\<exists>info. stat dir = Inr info \<and> fi_IsDir info)"

definition bounded_environment :: "(string \<rightharpoonup> string) \<Rightarrow> bool" where
  "bounded_environment env \<longleftrightarrow> finite (dom env) \<and> card (dom env) \<le> 64
     \<and> (\<forall>k v. env k = Some v \<longrightarrow> valid_entry k v) \<and> (\<Sum>k\<in>dom env. entry_size env k) \<le> 32 * 1024"

lemma check_executable_iff: "check_executable stat exe = None \<longleftrightarrow> runnable stat exe"
  by (auto simp: check_executable_def runnable_def split: sum.splits)

lemma check_directory_iff: "check_directory stat dir = None \<longleftrightarrow> usable_directory stat dir"
  by (auto simp: check_directory_def usable_directory_def split: sum.splits)

lemma check_environment_bounded:
  assumes "distinct ks" "set ks = dom env"
  shows "length ks \<le> 64 \<and> check_environment env ks 0 = None \<longleftrightarrow> bounded_environment env"
proof -
  have card: "length ks = card (dom env)" using assms by (metis distinct_card)
  have sum: "(\<Sum>k\<leftarrow>ks. entry_size env k) = (\<Sum>k\<in>dom env. entry_size env k)"
    using assms by (metis sum_list_distinct_conv_sum_set)
  have fin: "finite (dom env)" using assms(2) by (metis finite_set)
  have valid: "list_all (\<lambda>k. valid_entry k (case env k of None \<Rightarrow> [] | Some v \<Rightarrow> v)) ks
      \<longleftrightarrow> (\<forall>k v. env k = Some v \<longrightarrow> valid_entry k v)"
    unfolding list_all_iff assms(2) by (auto simp: dom_def split: option.splits)
  show ?thesis
    using card sum fin valid unfolding check_environment_iff bounded_environment_def by auto
qed

text \<open>
  The plans the Supervisor may execute are exactly these, whatever the iteration order of
  the environment map: a valid identifier, a clean absolute path of an executable regular file
  that is not a shell, an absent or clean absolute working directory, arguments without NUL,
  at most 64 valid environment entries of at most 32 KiB together, and a known restart policy.
\<close>

theorem accepted_plans:
  assumes "distinct ks" "set ks = dom (pl_Environment p)"
  shows "validate_plan stat ks p = None \<longleftrightarrow>
     ExecutionID_Validate (pl_ExecutionID p) = None \<and> runnable stat (pl_Executable p)
     \<and> usable_directory stat (pl_WorkingDirectory p) \<and> (\<forall>a\<in>set (pl_Args p). \<not> ContainsNul a)
     \<and> bounded_environment (pl_Environment p)
     \<and> pl_RestartPolicy p \<in> {RestartPolicyOther [], RestartNever, RestartOnFailure}"
  unfolding validate_plan_def check_executable_iff[symmetric] check_directory_iff[symmetric]
    check_environment_bounded[OF assms, symmetric]
  by (auto simp: list_all_iff split: option.splits)

section \<open>The environment of a child\<close>

lemma environment_entries:
  "set (environment lookup extra ks) =
     (\<lambda>k. k @ ''='' @ the (((lookup |` set baseline_keys) ++ extra) k)) `
       ({k \<in> set baseline_keys. lookup k \<noteq> None} \<union> set ks)"
  by (auto simp: environment_def Let_def)

text \<open>
  A child sees nothing of the Agent's environment but the baseline: every variable of its
  environment is either an entry of the plan, with the plan's value, or one of the six
  baseline variables with the Agent's value, and then the plan has no entry for it.
\<close>

theorem child_environment:
  assumes "set ks = dom extra" "line \<in> set (environment lookup extra ks)"
  shows "\<exists>k v. line = k @ ''='' @ v \<and> (extra k = Some v \<or> extra k = None \<and> k \<in> set baseline_keys \<and> lookup k = Some v)"
proof -
  obtain k where k: "line = k @ ''='' @ the (((lookup |` set baseline_keys) ++ extra) k)"
      "k \<in> set baseline_keys \<and> lookup k \<noteq> None \<or> k \<in> dom extra"
    using assms unfolding environment_entries by blast
  show ?thesis
  proof (cases "extra k")
    case None
    then show ?thesis using k by (intro exI[of _ k] exI[of _ "the (lookup k)"]) (auto simp: map_add_def)
  next
    case (Some v)
    then show ?thesis using k by (intro exI[of _ k] exI[of _ v]) (auto simp: map_add_def)
  qed
qed

definition agent_environment :: "string \<rightharpoonup> string" where
  "agent_environment = [''PATH'' \<mapsto> ''/bin'', ''SECRET'' \<mapsto> ''hunter2'']"

lemma child_environment_witness:
  "environment agent_environment [''PATH'' \<mapsto> ''/opt''] [''PATH''] = [''PATH=/opt'']
   \<and> (\<exists>k v. ''PATH=/opt'' = k @ ''='' @ v \<and> ([''PATH'' \<mapsto> ''/opt''] k = Some v
      \<or> [''PATH'' \<mapsto> ''/opt''] k = None \<and> k \<in> set baseline_keys \<and> agent_environment k = Some v))"
proof -
  have e: "environment agent_environment [''PATH'' \<mapsto> ''/opt''] [''PATH''] = [''PATH=/opt'']"
    by (simp add: environment_def agent_environment_def baseline_keys_def Let_def)
  show ?thesis
    using child_environment[of "[''PATH'']" "[''PATH'' \<mapsto> ''/opt'']" "''PATH=/opt''" agent_environment] e by simp
qed

section \<open>Tails\<close>

lemma keep_last_eq: "keep_last n s = drop (length s - nat n) s" if "0 \<le> n"
  using that by (auto simp: keep_last_def nat_diff_distrib)

lemma keep_last_append: "0 \<le> n \<Longrightarrow> keep_last n (keep_last n s @ p) = keep_last n (s @ p)"
  by (cases "length s \<le> nat n") (auto simp: keep_last_eq add.commute)

definition write_all :: "tail_buffer \<Rightarrow> string list \<Rightarrow> tail_buffer" where
  "write_all w ps = foldl (\<lambda>w p. fst (tail_Write w p)) w ps"

text \<open>
  However the output of a process arrives in pieces, the tail holds the last \<open>max\<close> bytes
  of all of it, and never more.
\<close>

theorem tail_keeps_the_end:
  assumes "0 \<le> m"
  shows "tail_String (write_all \<lparr>tl_max = m, tl_buf = []\<rparr> ps) = keep_last m (concat ps)
    \<and> int (length (tail_String (write_all \<lparr>tl_max = m, tl_buf = []\<rparr> ps))) \<le> m"
proof -
  have w: "write_all \<lparr>tl_max = m, tl_buf = keep_last m s\<rparr> ps = \<lparr>tl_max = m, tl_buf = keep_last m (s @ concat ps)\<rparr>" for s
  proof (induction ps arbitrary: s)
    case (Cons p ps)
    show ?case using Cons.IH[of "s @ p"] keep_last_append[OF assms, of s p]
      by (simp add: write_all_def tail_Write_def)
  qed (simp add: write_all_def)
  have "keep_last m [] = []" by (simp add: keep_last_def)
  then have e: "write_all \<lparr>tl_max = m, tl_buf = []\<rparr> ps = \<lparr>tl_max = m, tl_buf = keep_last m (concat ps)\<rparr>"
    using w[of "[]"] by simp
  have "int (length (keep_last m s)) \<le> m" for s using assms by (auto simp: keep_last_eq)
  then show ?thesis by (simp add: e tail_String_def)
qed

lemma tail_keeps_the_end_witness:
  "tail_String (write_all \<lparr>tl_max = 4, tl_buf = []\<rparr> [''abc'', ''de'', ''f'']) = ''cdef''"
proof -
  have "keep_last 4 (concat [''abc'', ''de'', ''f'']) = ''cdef''" by (simp add: keep_last_def)
  then show ?thesis using tail_keeps_the_end[of 4 "[''abc'', ''de'', ''f'']"] by simp
qed

end
