(* ===== verification/Supervisor_Demo.thy ===== *)
theory Supervisor_Demo
  imports Supervisor_Drain Supervisor_Plans
begin

text \<open>
  Schedules of the Supervisor as scripts: an executable scheduler, its soundness for the step
  relation, and concrete runs. Two of them are interleavings in which the code does not do
  what it means to: a start that overtakes a stop, and a stale start under a hold.
\<close>

section \<open>Scripts\<close>

datatype item = Call task | Publish bool uint64 | Install bool | Run nat choice

fun exec_item :: "(world \<Rightarrow> task \<Rightarrow> bool) \<Rightarrow> item \<Rightarrow> world \<Rightarrow> (sup_event list \<times> world) option" where
  "exec_item P (Call t) (s, ts) = (if client_call t then Some ([], (s, ts @ [t])) else None)"
| "exec_item P (Publish a r) (s, ts) =
     (case ApplyMaintenanceHold_enter a r s of (s', v, x) \<Rightarrow> Some ([], (s', ts @ hold_tasks x)))"
| "exec_item P (Install v) (s, ts) = Some ([], (SetStartValidator v s, ts))"
| "exec_item P (Run k ch) (s, ts) =
     (if k < length ts \<and> P (s, ts) (ts ! k) \<and> admissible (ts ! k) ch
      then (case run_task (ts ! k) ch s of None \<Rightarrow> None
        | Some (s', new, evs) \<Rightarrow> Some (evs, (s', take k ts @ new @ drop (Suc k) ts)))
      else None)"

fun exec_script :: "(world \<Rightarrow> task \<Rightarrow> bool) \<Rightarrow> item list \<Rightarrow> world \<Rightarrow> (sup_event list \<times> world) option" where
  "exec_script P [] w = Some ([], w)"
| "exec_script P (x # xs) w = (case exec_item P x w of None \<Rightarrow> None
     | Some (evs, w') \<Rightarrow> (case exec_script P xs w' of None \<Rightarrow> None
       | Some (evs', w'') \<Rightarrow> Some (evs @ evs', w'')))"

lemma exec_item_step: "exec_item P x w = Some (evs, w') \<Longrightarrow> sup_step P w evs w'"
proof (induction P x w rule: exec_item.induct)
  case (4 P k ch s ts)
  then obtain s' new where r: "k < length ts" "P (s, ts) (ts ! k)" "admissible (ts ! k) ch"
      "run_task (ts ! k) ch s = Some (s', new, evs)" "w' = (s', take k ts @ new @ drop (Suc k) ts)"
    by (auto split: if_splits option.splits prod.splits)
  have ts: "ts = take k ts @ ts ! k # drop (Suc k) ts" using r(1) by (rule id_take_nth_drop)
  have "sup_step P (s, take k ts @ ts ! k # drop (Suc k) ts) evs (s', take k ts @ new @ drop (Suc k) ts)"
    by (rule step_task) (use r ts in simp_all)
  then show ?case using r(5) ts by simp
qed (auto intro: step_client step_validator step_hold split: if_splits prod.splits)

lemma script_runs: "exec_script P xs w = Some (evs, w') \<Longrightarrow> sup_runs P w (length xs) evs w'"
proof (induction xs arbitrary: w evs)
  case Nil
  then show ?case by (auto intro: runs_none)
next
  case (Cons x xs)
  then obtain e1 w1 e2 where x: "exec_item P x w = Some (e1, w1)" "exec_script P xs w1 = Some (e2, w')" "evs = e1 @ e2"
    by (auto split: option.splits prod.splits)
  have "sup_runs P w (Suc 0) ([] @ e1) w1"
    by (rule runs_step[OF runs_none exec_item_step[OF x(1)]])
  from runs_append[OF this Cons.IH[OF x(2)]] show ?case using x(3) by simp
qed

section \<open>A plan\<close>

definition sup_id :: ExecutionID where
  "sup_id = ExecutionID (''execution_'' @ replicate 32 CHR ''a'')"

definition sup_plan :: ExecutionPlan where
  "sup_plan = \<lparr>pl_SchemaVersion = CurrentSchemaVersion, pl_ExecutionID = sup_id, pl_Ownership = zero_ownership,
     pl_HostID = HostID [], pl_ProfileID = ProfileID [], pl_DeviceIDs = [], pl_CPUThreads = None,
     pl_Executable = ''/opt/xmrig'', pl_Args = [''-o''], pl_Environment = Map.empty, pl_WorkingDirectory = [],
     pl_RestartPolicy = RestartOnFailure, pl_Miner = None\<rparr>"

definition sup_files :: file_system where
  "sup_files path = Inr \<lparr>fi_IsRegular = True, fi_IsDir = False, fi_Perm = 0x49\<rparr>"

lemma sup_plan_id [simp]: "pl_ExecutionID sup_plan = sup_id" "pl_RestartPolicy sup_plan = RestartOnFailure"
    "pl_Environment sup_plan = Map.empty" "pl_Ownership sup_plan = zero_ownership"
  by (simp_all add: sup_plan_def)

lemma sup_id_valid [simp]: "ExecutionID_Validate sup_id = None" "invalid_id sup_id = None"
  by (simp_all add: sup_id_def invalid_id_def ExecutionID_Validate_def validate_def HasPrefix_def is_hex_lower_def is_digit_def list_all_iff)

lemma sup_plan_valid [simp]: "validate_plan sup_files [] sup_plan = None"
proof -
  have "check_executable sup_files ''/opt/xmrig'' = None"
    by code_simp
  then show ?thesis
    by (simp add: validate_plan_def sup_plan_def check_directory_def ContainsNul_def)
qed

lemma yields_empty [simp]: "yields [] Map.empty"
  by (simp add: yields_def)

definition sup_cfg :: Config where
  "sup_cfg = \<lparr>cf_StopGrace = 0, cf_RestartInitial = 0, cf_RestartMax = 0, cf_CrashLimit = 2, cf_CrashWindow = 0, cf_TailBytes = 0\<rparr>"


section \<open>Runs\<close>

text \<open>A start up to its process, with the instant of the start as the only choice.\<close>

definition start_script :: "item list" where
  "start_script = [Call (CallStart sup_plan Return), Run 0 (Files sup_files []), Run 0 Go,
     Run 0 (Outcome (Inr (7, 100, [])))]"

lemmas run_simps = start_script_def first_world_def New_def default_to_def sup_cfg_def Start_enter_def start_first_def
  start_commit_def begin_start_def entry_def put_def tick_def new_execution_def free_def Stop_enter_def put_cancelled_def
  close_done_def close_cancel_def cancelBackoff_def revive_def stop_waits_def is_up_def wait_exit_def
  ApplyMaintenanceHold_enter_def hold_conflicts_def publish_hold_def hold_targets_def ids_sorted_def
  has_ended_def Stop_leave_def backoff_wake_def recent_crashes_def SetStartValidator_def Let_def

definition running_world :: world where
  "running_world = snd (the (exec_script quiet_start start_script (first_world sup_cfg)))"

lemma running_run: "exec_script quiet_start start_script (first_world sup_cfg)
    = Some ([StartAccepted sup_id, Created sup_id 0], running_world)"
  by (simp add: running_world_def run_simps)


text \<open>A hold is published while the process runs, and its loop stops the process.\<close>

definition held_world :: world where
  "held_world = snd (the (exec_script quiet_start [Publish True 1] running_world))"

definition drain_script :: "item list" where
  "drain_script = [Run 1 Go, Run 0 (Exit 0 200), Run 0 Go, Run 0 Go]"

definition drained_world :: world where
  "drained_world = snd (the (exec_script quiet_start drain_script held_world))"

lemma held_run: "exec_script quiet_start [Publish True 1] running_world = Some ([], held_world)"
  by (simp add: held_world_def running_world_def run_simps)

lemma drained_run: "exec_script quiet_start drain_script held_world = Some ([Exited sup_id 0 200], drained_world)"
  by (simp add: drained_world_def drain_script_def held_world_def running_world_def run_simps)

lemma held_facts: "su_maintenance (fst held_world)" "su_holdRevision (fst held_world) = 1"
    "process_of sup_id (snd held_world)" "sup_id \<in> pending_hold (snd held_world)"
  by (simp_all add: held_world_def running_world_def run_simps)

lemma drained_facts: "su_maintenance (fst drained_world)" "su_holdRevision (fst drained_world) = 1"
    "snd drained_world = []" "\<not> wanted (fst drained_world) sup_id"
  by (simp_all add: drained_world_def drain_script_def held_world_def running_world_def run_simps wanted_def)

text \<open>Two crashes with a crash limit of two.\<close>

definition accepted_world :: world where
  "accepted_world = snd (the (exec_script quiet_start (take 2 start_script) (first_world sup_cfg)))"

definition crash_script :: "item list" where
  "crash_script = [Run 0 Go, Run 0 (Outcome (Inr (7, 100, []))), Run 0 (Exit 1 100), Run 0 Elapsed, Run 0 Go,
     Run 0 (Outcome (Inr (8, 150, []))), Run 0 (Exit 1 200)]"

definition crashed_world :: world where
  "crashed_world = snd (the (exec_script quiet_start crash_script accepted_world))"

lemma accepted_run: "exec_script quiet_start (take 2 start_script) (first_world sup_cfg)
    = Some ([StartAccepted sup_id], accepted_world)"
  by (simp add: accepted_world_def run_simps)

lemma crashed_run: "exec_script quiet_start crash_script accepted_world
    = Some ([Created sup_id 0, Exited sup_id 0 100, Pausing sup_id Second, Created sup_id 2, Exited sup_id 2 200], crashed_world)"
  by (simp add: crashed_world_def crash_script_def accepted_world_def run_simps backoff_delay_def wrap_int64_def)

text \<open>
  A \<open>Start\<close> that runs while a \<open>Stop\<close> of the same execution waits for the process: the entry is
  not desired, so it is started again; the exit of the first process no longer matches.
\<close>

definition overtake_script :: "item list" where
  "overtake_script = [Call (CallStop sup_id Return), Run 1 Go, Call (CallStart sup_plan Return),
     Run 2 (Files sup_files []), Run 2 Go, Run 2 (Outcome (Inr (8, 150, [])))]"

definition overtaken_world :: world where
  "overtaken_world = snd (the (exec_script free overtake_script running_world))"

definition orphaned_world :: world where
  "orphaned_world = snd (the (exec_script free [Run 0 (Exit 0 200)] overtaken_world))"

lemma overtaken_run: "exec_script free overtake_script running_world
    = Some ([StartAccepted sup_id, Created sup_id 1], overtaken_world)"
  by (simp add: overtaken_world_def overtake_script_def running_world_def run_simps)

lemma overtaken_facts: "snd overtaken_world = [Waiting sup_id 0 1, AwaitingExit sup_id (Some 0) Return, Waiting sup_id 1 2]"
  by (simp add: overtaken_world_def overtake_script_def running_world_def run_simps)

lemma orphaned_run: "exec_script free [Run 0 (Exit 0 200)] overtaken_world = Some ([Exited sup_id 0 200], orphaned_world)"
  by (simp add: orphaned_world_def overtaken_world_def overtake_script_def running_world_def run_simps)

lemma orphaned_facts: "snd orphaned_world = [AwaitingExit sup_id (Some 0) Return, Waiting sup_id 1 2]"
    "su_doneClosed (fst orphaned_world) = []" "su_next (fst orphaned_world) = 2"
    "\<exists>e. su_executions (fst orphaned_world) = [(sup_id, e)] \<and> xe_done e = Some 1"
  by (simp_all add: orphaned_world_def overtaken_world_def overtake_script_def running_world_def run_simps)

text \<open>
  A start that a stop has made stale is still with its validator when the execution is started
  again and a hold is published. Its last section, under the hold, marks the execution as
  stopped without looking at its generation; the loop of the hold then skips the process.
\<close>

definition stale_script :: "item list" where
  "stale_script = [Install True, Call (CallStart sup_plan Return), Run 0 (Files sup_files []), Run 0 Go,
     Call (CallStop sup_id Return), Run 1 Go,
     Call (CallStart sup_plan Return), Run 1 (Files sup_files []), Run 1 Go, Run 1 (Verdict None),
     Run 1 (Outcome (Inr (7, 100, []))),
     Publish True 1, Run 0 (Verdict None), Run 0 (Outcome (Inr (8, 150, []))), Run 1 Go]"

definition stale_world :: world where
  "stale_world = snd (the (exec_script free stale_script (first_world sup_cfg)))"

lemma stale_run: "exec_script free stale_script (first_world sup_cfg)
    = Some ([StartAccepted sup_id, StartAccepted sup_id, Created sup_id 0], stale_world)"
  by (simp add: stale_world_def stale_script_def run_simps)

lemma stale_facts: "snd stale_world = [Waiting sup_id 0 3]" "su_maintenance (fst stale_world)"
    "\<exists>e. entry (fst stale_world) sup_id = Some e \<and> xe_state e = ExecutionStopped \<and> xe_pid e = 7 \<and> \<not> xe_desired e"
  by (simp_all add: stale_world_def stale_script_def run_simps)


section \<open>Properties at concrete runs\<close>

lemma accepted_plans_witness:
  "validate_plan sup_files [] sup_plan = None \<and> runnable sup_files (pl_Executable sup_plan)"
  using accepted_plans[of "[]" sup_plan sup_files] by simp

lemma held_drain_free: "sup_runs free held_world 4 [Exited sup_id 0 200] drained_world"
  using runs_free[OF script_runs[OF drained_run]] by (simp add: drain_script_def eval_nat_numeral)

lemma held_drain_quiet: "sup_runs quiet_start (first_world sup_cfg) 9 [StartAccepted sup_id, Created sup_id 0, Exited sup_id 0 200] drained_world"
  using runs_append[OF script_runs[OF running_run] runs_append[OF script_runs[OF held_run] script_runs[OF drained_run]]]
  by (simp add: drain_script_def start_script_def eval_nat_numeral)

lemma no_process_created_under_hold_witness:
  "su_maintenance (fst held_world) \<and> Created sup_id 1 \<notin> set [Exited sup_id 0 200]"
  using no_process_created_under_hold[of "fst held_world" "snd held_world" 4 "[Exited sup_id 0 200]"
      "fst drained_world" "snd drained_world" sup_id 1] held_drain_free held_facts drained_facts by simp

lemma hold_revisions_advance_witness:
  "su_holdRevision (fst running_world) \<le> su_holdRevision (fst held_world) \<and> su_holdRevision (fst held_world) = 1"
  using hold_revisions_advance[of "fst running_world" "snd running_world" 1 "[]" "fst held_world" "snd held_world"]
    runs_free[OF script_runs[OF held_run]] held_facts by simp

lemma stopped_until_started_witness:
  "\<not> wanted (fst drained_world) sup_id \<and> Created sup_id 1 \<notin> set []"
  using stopped_until_started[of "fst drained_world" "snd drained_world" 0 "[]" "fst drained_world" "snd drained_world" sup_id 1]
    runs_none[of free drained_world] drained_facts by simp

lemma accepted_facts: "\<exists>e. entry (fst accepted_world) sup_id = Some e \<and> xe_crashes e = []"
    "cf_CrashLimit (su_cfg (fst accepted_world)) = 2" "cf_CrashWindow (su_cfg (fst accepted_world)) = 600 * Second"
  by (simp_all add: accepted_world_def run_simps)

lemma crash_loop_bounded_witness:
  "creations sup_id [Created sup_id 0, Exited sup_id 0 100, Pausing sup_id Second, Created sup_id 2, Exited sup_id 2 200] = 2
    \<and> int 2 \<le> cf_CrashLimit (su_cfg (fst accepted_world))"
proof -
  let ?evs = "[Created sup_id 0, Exited sup_id 0 100, Pausing sup_id Second, Created sup_id 2, Exited sup_id 2 200]"
  obtain e where e: "entry (fst accepted_world) sup_id = Some e" "xe_crashes e = []" using accepted_facts(1) by blast
  have n: "creations sup_id ?evs = 2" by (simp add: creations_def)
  have w: "exits_within sup_id 0 (cf_CrashWindow (su_cfg (fst accepted_world))) ?evs"
    by (simp add: exits_within_def accepted_facts)
  have r0: "sup_runs free (first_world sup_cfg) 2 [StartAccepted sup_id] (fst accepted_world, snd accepted_world)"
    using runs_free[OF script_runs[OF accepted_run]] by (simp add: start_script_def eval_nat_numeral)
  have r1: "sup_runs free (fst accepted_world, snd accepted_world) 7 ?evs (fst crashed_world, snd crashed_world)"
    using runs_free[OF script_runs[OF crashed_run]] by (simp add: crash_script_def eval_nat_numeral)
  show ?thesis
    using crash_loop_bounded[OF r0 e r1 _ _ w] n by simp
qed

lemma completed_hold_leaves_no_process_witness:
  "su_maintenance (fst drained_world) \<and> \<not> process_of sup_id (snd drained_world)"
  using completed_hold_leaves_no_process[of sup_cfg 9 "[StartAccepted sup_id, Created sup_id 0, Exited sup_id 0 200]"
      "fst drained_world" "snd drained_world"] held_drain_quiet drained_facts by simp

lemma running_facts: "\<exists>e. entry (fst running_world) sup_id = Some e \<and> sn_PID (snapshot e) = 7"
    "snd running_world = [Waiting sup_id 0 1]"
  by (simp_all add: running_world_def run_simps snapshot_def)

lemma one_process_per_execution_witness:
  "\<exists>e. entry (fst running_world) sup_id = Some e \<and> sn_PID (snapshot e) = 7
    \<and> length (filter (alive sup_id) (snd running_world)) = 1"
proof -
  obtain e where e: "entry (fst running_world) sup_id = Some e" "sn_PID (snapshot e) = 7" using running_facts(1) by blast
  have r: "sup_runs quiet_start (first_world sup_cfg) 4 [StartAccepted sup_id, Created sup_id 0] (fst running_world, snd running_world)"
    using script_runs[OF running_run] by (simp add: start_script_def eval_nat_numeral)
  show ?thesis using one_process_per_execution[OF r _ e(1)] e by simp
qed

section \<open>Where the code falls short\<close>

definition orphan :: "nat \<Rightarrow> Supervisor \<Rightarrow> bool" where
  "orphan c s \<longleftrightarrow> c \<notin> set (su_doneClosed s) \<and> c < su_next s \<and> (\<forall>i e. entry s i = Some e \<longrightarrow> xe_done e \<noteq> Some c)"

lemma section_orphan:
  assumes "orphan c s"
  shows "Start_enter v p s = (s', r) \<Longrightarrow> orphan c s'"
    "start_refused i g err s = (s', rep) \<Longrightarrow> orphan c s'"
    "start_commit i g m out s = (s', rep, co) \<Longrightarrow> orphan c s'"
    "wait_exit i d g code now s = (s', w) \<Longrightarrow> orphan c s'"
    "backoff_wake i g cn s = (s', ok) \<Longrightarrow> orphan c s'"
    "Stop_enter i s = (s', r') \<Longrightarrow> orphan c s'"
    "Stop_leave i s = (s', rep) \<Longrightarrow> orphan c s'"
    "Restart_leave i n rep0 s = (s', rep) \<Longrightarrow> orphan c s'"
  using assms
  by (auto simp: section_defs orphan_def new_execution_def revive_def cancelBackoff_def begin_start_def
      split: option.splits if_splits sum.splits prod.splits)

lemma run_task_orphan: "run_task t ch s = Some (s', new, evs) \<Longrightarrow> orphan c s \<Longrightarrow> orphan c s'"
  by (erule run_task_cases) (auto intro: section_orphan)

lemma write_orphan: "orphan c s \<Longrightarrow> orphan c (write_stdout i out s)" "orphan c s \<Longrightarrow> orphan c (write_stderr i out s)"
  by (auto simp: orphan_def write_stdout_def write_stderr_def split: option.splits if_splits)

lemma orphan_frame:
  "orphan c s \<Longrightarrow> (\<And>i. entry s' i = entry s i) \<Longrightarrow> su_next s' = su_next s \<Longrightarrow> su_doneClosed s' = su_doneClosed s
    \<Longrightarrow> orphan c s'"
  by (auto simp: orphan_def)

lemma step_orphan:
  assumes "sup_step P (s, ts) evs (s', ts')" "orphan c s"
  shows "orphan c s'"
  using assms(1)
proof (cases rule: sup_step.cases)
  case (step_hold a r v x)
  show ?thesis
    by (rule orphan_frame[OF assms(2) outer_entries(2)[OF step_hold(3)]])
      (use step_hold(3) in \<open>auto simp: ApplyMaintenanceHold_enter_def publish_hold_def Let_def split: if_splits\<close>)
next
  case (step_shutdown ids ids')
  show ?thesis
    by (rule orphan_frame[OF assms(2) outer_entries(3)[OF step_shutdown(3)]])
      (use step_shutdown(3) in \<open>auto simp: Shutdown_enter_def\<close>)
next
  case (step_validator v)
  show ?thesis unfolding step_validator(2)
    by (rule orphan_frame[OF assms(2) outer_entries(1)]) (simp_all add: SetStartValidator_def)
qed (use assms(2) in \<open>auto intro: run_task_orphan write_orphan\<close>)

lemma runs_orphan: "sup_runs P w n evs w' \<Longrightarrow> orphan c (fst w) \<Longrightarrow> orphan c (fst w')"
proof (induction rule: sup_runs.induct)
  case (runs_step w n evs w' es w'')
  then show ?case using step_orphan[of P "fst w'" "snd w'" es "fst w''" "snd w''"] by simp
qed

text \<open>
  A start that overtakes a stop leaves two processes and a stop that never returns. There
  is a reachable state in which a client's \<open>Stop\<close> still waits and two processes of the one
  execution are alive; after the first of them exits, the channel that \<open>Stop\<close> waits for is
  never closed, whatever runs afterwards.
\<close>

theorem start_overtakes_stop:
  "\<exists>n evs s ts. sup_runs free (first_world sup_cfg) n evs (s, ts)
    \<and> length (filter (alive sup_id) ts) = 2
    \<and> (\<exists>s1 ts1 d. sup_runs free (s, ts) 1 [Exited sup_id 0 200] (s1, ts1) \<and> AwaitingExit sup_id d Return \<in> set ts1
        \<and> (\<forall>m evs' s2 ts2. sup_runs free (s1, ts1) m evs' (s2, ts2) \<longrightarrow>
             (\<forall>ch. run_task (AwaitingExit sup_id d Return) ch s2 = None)))"
proof -
  have r: "sup_runs free (first_world sup_cfg) 10 [StartAccepted sup_id, Created sup_id 0, StartAccepted sup_id, Created sup_id 1]
      (fst overtaken_world, snd overtaken_world)"
    using runs_append[OF runs_free[OF script_runs[OF running_run]] script_runs[OF overtaken_run]]
    by (simp add: start_script_def overtake_script_def eval_nat_numeral)
  have two: "length (filter (alive sup_id) (snd overtaken_world)) = 2" by (simp add: overtaken_facts)
  have o: "sup_runs free (fst overtaken_world, snd overtaken_world) 1 [Exited sup_id 0 200] (fst orphaned_world, snd orphaned_world)"
    using script_runs[OF orphaned_run] by simp
  have w: "AwaitingExit sup_id (Some 0) Return \<in> set (snd orphaned_world)" by (simp add: orphaned_facts)
  have orph: "orphan 0 (fst orphaned_world)"
    using orphaned_facts(2-4) by (auto simp: orphan_def entry_def split: if_splits)
  have stuck: "run_task (AwaitingExit sup_id (Some 0) Return) ch s2 = None"
    if "sup_runs free (fst orphaned_world, snd orphaned_world) m evs' (s2, ts2)" for m evs' s2 ts2 ch
  proof -
    have "orphan 0 s2" using runs_orphan[OF that, of 0] orph by simp
    then show ?thesis by (auto simp: orphan_def has_ended_def split: choice.splits)
  qed
  show ?thesis using r two o w stuck by blast
qed

text \<open>
  A stale start makes a Maintenance Hold miss a process. There is a reachable state in
  which the hold is active and its loop is done, and a process of an execution that the
  Supervisor reports as stopped is still alive. The start section under a hold does not
  compare generations.
\<close>

theorem stale_start_defeats_hold:
  "\<exists>n evs s ts. sup_runs free (first_world sup_cfg) n evs (s, ts) \<and> su_maintenance s \<and> pending_hold ts = {}
    \<and> process_of sup_id ts \<and> (\<exists>e. entry s sup_id = Some e \<and> sn_State (snapshot e) = ExecutionStopped)"
proof -
  have r: "sup_runs free (first_world sup_cfg) 15 [StartAccepted sup_id, StartAccepted sup_id, Created sup_id 0]
      (fst stale_world, snd stale_world)"
    using script_runs[OF stale_run] by (simp add: stale_script_def eval_nat_numeral)
  moreover have "\<exists>e. entry (fst stale_world) sup_id = Some e \<and> sn_State (snapshot e) = ExecutionStopped"
    using stale_facts(3) by (auto simp: snapshot_def)
  moreover have "process_of sup_id (snd stale_world)" "pending_hold (snd stale_world) = {}"
    by (simp_all add: stale_facts(1))
  ultimately show ?thesis using stale_facts(2) by blast
qed

end
