(* ===== verification/Store_Frames.thy ===== *)
theory Store_Frames
  imports Store_Safety
begin

text \<open>
  Which calls of the farm configuration store change holds and restore barriers: only \<open>SetMaintenanceHold\<close>
  changes a hold, of the Host it names, and no call creates a barrier.
\<close>

definition sides :: "DB \<Rightarrow> MaintenanceHold list \<times> RestoreHostBarrier list" where
  "sides db = (db_holds db, db_barriers db)"

lemma sides_touch [simp]: "sides (touch n db) = sides db"
  by (simp add: sides_def touch_def)

lemma sides_tables [simp]:
  "sides (db_pools_update f1 db) = sides db" "sides (db_wallets_update f2 db) = sides db"
  "sides (db_profiles_update f3 db) = sides db" "sides (db_settings_update f4 db) = sides db"
  "sides (db_workloads_update f5 db) = sides db" "sides (db_snapshots_update f6 db) = sides db"
  "sides (db_bindings_update f7 db) = sides db" "sides (db_incidents_update f8 db) = sides db"
  by (simp_all add: sides_def)

lemma tx_sides:
  assumes "\<And>x db' y. r = Inr x \<Longrightarrow> body x = Inr (db', y) \<Longrightarrow> sides db' = sides db"
  shows "sides (fst (prepare r db (\<lambda>x. wrapped op (writeTx db (body x))))) = sides db"
  using assms by (auto simp: prepare_def wrapped_def writeTx_def split: sum.split)

lemma store_workload_sides: "store_workload w db = Inr db' \<Longrightarrow> sides db' = sides db"
  by (auto simp: store_workload_def)

lemma insert_snapshot_sides: "insertResolvedSnapshot sv db s = Inr db' \<Longrightarrow> sides db' = sides db"
  by (auto simp: insertResolvedSnapshot_def split: if_splits)

lemma create_snapshot_sides: "createSnapshot sv n db i r g t = Inr db' \<Longrightarrow> sides db' = sides db"
  by (auto simp: createSnapshot_def dest: insert_snapshot_sides)

lemma snapshot_if_ready_sides: "snapshot_if_ready sv n db w i r t = Inr db' \<Longrightarrow> sides db' = sides db"
  by (auto simp: snapshot_if_ready_def dest: create_snapshot_sides split: if_splits)

lemma propagate_sides: "propagateWorkloadIDs sv n db is = Inr db' \<Longrightarrow> sides db' = sides db"
  by (induction "is" arbitrary: n db)
    (auto simp: Let_def dest!: store_workload_sides snapshot_if_ready_sides split: if_splits)

lemma propagate_profile_sides: "propagateProfileWorkloads sv db ps = Inr db' \<Longrightarrow> sides db' = sides db"
  by (auto simp: propagateProfileWorkloads_def Let_def dest: propagate_sides)

lemma propagate_host_sides: "propagateHostProfileWorkloads sv db h p = Inr db' \<Longrightarrow> sides db' = sides db"
  by (auto simp: propagateHostProfileWorkloads_def Let_def dest: propagate_sides)

lemma object_sides:
  "sides (fst (CreatePool sv c1 db)) = sides db" "sides (fst (UpdatePool sv i1 n c1 db)) = sides db"
  "sides (fst (DeletePool sv i1 n db)) = sides db" "sides (fst (CreateWalletRef sv c2 db)) = sides db"
  "sides (fst (UpdateWalletRef sv i2 n c2 db)) = sides db" "sides (fst (DeleteWalletRef i2 n db)) = sides db"
  "sides (fst (CreateMiningProfile sv c3 db)) = sides db" "sides (fst (UpdateMiningProfile sv i3 n c3 db)) = sides db"
  "sides (fst (DeleteMiningProfile i3 n db)) = sides db" "sides (fst (CreateHostProfileSettings sv h p c4 db)) = sides db"
  "sides (fst (UpdateHostProfileSettings sv h p n c4 db)) = sides db"
  "sides (fst (DeleteHostProfileSettings sv h p n db)) = sides db"
  unfolding CreatePool_def UpdatePool_def DeletePool_def CreateWalletRef_def UpdateWalletRef_def DeleteWalletRef_def
    CreateMiningProfile_def UpdateMiningProfile_def DeleteMiningProfile_def CreateHostProfileSettings_def
    UpdateHostProfileSettings_def DeleteHostProfileSettings_def split_beta
  by (rule tx_sides, auto simp: Let_def split_beta split: if_splits dest!: propagate_profile_sides propagate_host_sides; fail)+

lemma checked_sides:
  assumes "\<And>db' y. body = Inr (db', y) \<Longrightarrow> sides db' = sides db"
  shows "sides (fst (case v of Some e \<Rightarrow> (db, Inl e) | None \<Rightarrow> wrapped op (writeTx db body))) = sides db"
  using assms by (auto simp: wrapped_def writeTx_def split: option.split sum.split)

lemma resolveDeleted_sides: "sides (resolveDeletedWorkloadIncidentsTx sv i db) = sides db"
  by (simp add: resolveDeletedWorkloadIncidentsTx_def Let_def)

lemma delete_row_sides: "sides (delete_workload_row db w) = sides db"
  unfolding delete_workload_row_def Let_def by simp


lemma write_sides:
  assumes "\<And>db' y. body = Inr (db', y) \<Longrightarrow> sides db' = sides db"
  shows "sides (fst (writeTx db body)) = sides db"
  using assms by (auto simp: writeTx_def split: sum.split)

lemma insert_workload_sides: "insert_workload sv db w now = Inr (db', x) \<Longrightarrow> sides db' = sides db"
  by (auto simp: insert_workload_def Let_def dest!: snapshot_if_ready_sides)

lemma change_workload_sides: "change_workload sv db i n c h = Inr (db', x) \<Longrightarrow> sides db' = sides db"
  by (auto simp: change_workload_def Let_def dest!: snapshot_if_ready_sides store_workload_sides split: if_splits)

lemma workload_sides:
  "sides (fst (CreateDesiredWorkload sv c db)) = sides db" "sides (fst (UpdateDesiredWorkload sv i n c db)) = sides db"
  by (auto simp: CreateDesiredWorkload_def UpdateDesiredWorkload_def Let_def
      intro!: write_sides dest: insert_workload_sides change_workload_sides split: option.split sum.split)

lemma deletion_sides:
  "sides (fst (DeleteDesiredWorkload sv i n db)) = sides db"
  "sides (fst (FinalizeRetiredDesiredWorkloadDeletion sv i n db)) = sides db"
  unfolding DeleteDesiredWorkload_def FinalizeRetiredDesiredWorkloadDeletion_def
  by (rule checked_sides, auto simp: delete_row_sides resolveDeleted_sides)+

lemma lifecycle_sides:
  "sides (fst (BlockDesiredGeneration sv i g e m db)) = sides db" "sides (fst (RetryWorkload sv i n db)) = sides db"
  "sides (fst (RefreshResolvedSnapshotForInventory sv i iv db)) = sides db"
  by (auto simp: BlockDesiredGeneration_def RetryWorkload_def RefreshResolvedSnapshotForInventory_def Let_def
      intro!: write_sides dest!: insert_snapshot_sides create_snapshot_sides store_workload_sides
      split: option.splits if_splits)

lemma activate_sides: "activate now c db = Inr db' \<Longrightarrow> sides db' = sides db"
  by (auto simp: activate_def Let_def split: option.splits if_splits sum.splits)

lemma activate_all_sides: "activate_all now cs db = Inr db' \<Longrightarrow> sides db' = sides db"
  by (induction now cs db rule: activate_all.induct) (auto dest!: activate_sides)

lemma incident_sides: "sides (fst (ReconcileIncidents sv h a cs rv db)) = sides db"
  unfolding ReconcileIncidents_def
  by (rule tx_sides) (auto simp: resolve_absent_def Let_def dest!: activate_all_sides)

section \<open>Holds\<close>

definition hold_row :: "DB \<Rightarrow> HostID \<Rightarrow> MaintenanceHold option" where
  "hold_row db host = row_of mh_HostID host (db_holds db)"

definition barrier_row :: "DB \<Rightarrow> HostID \<Rightarrow> RestoreHostBarrier option" where
  "barrier_row db host = row_of rhb_HostID host (db_barriers db)"

lemma rows_of_sides: "sides db' = sides db \<Longrightarrow> hold_row db' h = hold_row db h \<and> barrier_row db' h = barrier_row db h"
  by (simp add: sides_def hold_row_def barrier_row_def)


lemma hold_row_tables [simp]: "hold_row (db_barriers_update f db) h = hold_row db h"
    "hold_row (db_restore_update f2 db) h = hold_row db h" "hold_row (touch n db) h = hold_row db h"
    "barrier_row (db_holds_update f3 db) h = barrier_row db h" "barrier_row (touch n db) h = barrier_row db h"
    "barrier_row (db_restore_update f2 db) h = barrier_row db h"
  by (simp_all add: hold_row_def barrier_row_def touch_def)

lemma tx_row:
  assumes "\<And>x db' y. r = Inr x \<Longrightarrow> body x = Inr (db', y) \<Longrightarrow> f db' = f db"
  shows "f (fst (prepare r db (\<lambda>x. wrapped op (writeTx db (body x))))) = f db"
  using assms by (auto simp: prepare_def wrapped_def writeTx_def split: sum.split)

lemma barrier_calls_hold:
  "hold_row (fst (MarkRestoreHostConflict sv h b n db)) host = hold_row db host"
  "hold_row (fst (ClearRestoreHostBarrier h b n db)) host = hold_row db host"
  unfolding MarkRestoreHostConflict_def ClearRestoreHostBarrier_def
  by (rule tx_row[where f = "\<lambda>db. hold_row db host"], auto simp: Let_def split: if_splits)+

lemma scan_hold_same: "scanMaintenanceHold r = Inr x \<Longrightarrow> x = r"
  by (auto simp: scanMaintenanceHold_def)

lemma hold_call_other:
  assumes "h \<noteq> host"
  shows "hold_row (fst (SetMaintenanceHold sv h n a t db)) host = hold_row db host"
  unfolding SetMaintenanceHold_def
  by (rule tx_row[where f = "\<lambda>db. hold_row db host"])
    (use assms in \<open>auto simp: Let_def hold_row_def touch_def row_of_replace
      dest!: scan_hold_same row_of_SomeD split: option.splits if_splits\<close>)

lemma hold_call_barrier: "barrier_row (fst (SetMaintenanceHold sv h n a t db)) host = barrier_row db host"
  unfolding SetMaintenanceHold_def
  by (rule tx_row[where f = "\<lambda>db. barrier_row db host"]) (auto simp: Let_def split: option.splits if_splits)


lemma no_barrier_created:
  "barrier_row db host = None \<Longrightarrow> barrier_row (fst (MarkRestoreHostConflict sv h b n db)) host = None"
  "barrier_row db host = None \<Longrightarrow> barrier_row (fst (ClearRestoreHostBarrier h b n db)) host = None"
  unfolding MarkRestoreHostConflict_def ClearRestoreHostBarrier_def
  by (auto simp: prepare_def wrapped_def writeTx_def barrier_row_def touch_def Let_def row_of_replace row_of_remove
      split: sum.splits if_splits)

section \<open>Calls\<close>

text \<open>The Host whose hold a call sets.\<close>

definition hold_target :: "StoreOp \<Rightarrow> HostID option" where
  "hold_target op = (case op of OpSetMaintenanceHold h n a t \<Rightarrow> Some h | _ \<Rightarrow> None)"

lemma hold_target_simps [simp]:
  "hold_target (OpSetMaintenanceHold h n a t) = Some h" "hold_target (OpMarkRestoreHostConflict h b n) = None"
  "hold_target (OpClearRestoreHostBarrier h b n) = None" "hold_target (OpRefreshResolvedSnapshotForInventory i iv) = None"
  "hold_target (OpBlockDesiredGeneration i g c m) = None" "hold_target (OpRetryWorkload i n) = None"
  "hold_target (OpDeleteDesiredWorkload i n) = None" "hold_target (OpFinalizeRetiredDesiredWorkloadDeletion i n) = None"
  "hold_target (OpReconcileIncidents h' x cs rv) = None"
  by (simp_all add: hold_target_def)

lemmas side_rows = object_sides[THEN rows_of_sides] workload_sides[THEN rows_of_sides] deletion_sides[THEN rows_of_sides]
  lifecycle_sides[THEN rows_of_sides] incident_sides[THEN rows_of_sides]

lemma perform_hold: "hold_target op \<noteq> Some host \<Longrightarrow> hold_row (perform sv op db) host = hold_row db host"
  by (cases op) (simp_all add: side_rows barrier_calls_hold hold_call_other)

lemma perform_barrier: "barrier_row db host = None \<Longrightarrow> barrier_row (perform sv op db) host = None"
  by (cases op) (simp_all add: side_rows no_barrier_created hold_call_barrier)

end
