(* ===== verification/Reconcile_World.thy ===== *)
theory Reconcile_World
  imports Store_Safety Reconcile_Planner Incident_Eval "HOL-Library.State_Monad"
begin

text \<open>
  What the operations of \<open>internal/reconcile/coordinator.go\<close> share: the database of the farm
  configuration store, the store of observations, the table of actions in flight, and the workers that
  were asked for. An operation is a computation in the state monad over \<open>World\<close>.

  A \<open>Turn\<close> is what the environment does around one call: the calls that other clients of the database
  complete before it, the clock and the identifiers it draws, an error of SQLite or of the context, and the
  session the network layer reports. The turns are a parameter of a run, one per call, so that every
  theorem about a computation holds for every interleaving with other clients of the store.
\<close>

section \<open>Sessions and requests\<close>

record SessionInfo =
  si_AgentID :: AgentID
  si_HostID :: HostID
  si_ConnectionEpoch :: uint64
  si_Authenticated :: bool
  si_Ready :: bool

datatype RuntimeKind = RuntimeStart | RuntimeStop | RuntimeKindOther string

record RuntimeRequest =
  rq_Kind :: RuntimeKind
  rq_WorkloadID :: WorkloadID
  rq_DesiredGeneration :: uint64
  rq_ExecutionID :: ExecutionID
  rq_ResolvedHash :: string
  rq_Plan :: ExecutionPlan
  rq_DispatchSequence :: uint64

section \<open>The state\<close>

record Turn =
  tn_others :: "(Svc \<times> StoreOp) list"
  tn_svc :: Svc
  tn_clock :: "nat \<Rightarrow> Time"
  tn_failure :: "error option"
  tn_session :: "SessionInfo option"

text \<open>\<open>w_calls\<close> records every call made on the database so far; no operation reads it.\<close>

record World =
  w_db :: DB
  w_observed :: Store
  w_inFlight :: "(ActionKey \<times> uint64) list"
  w_workers :: "HostID list"
  w_closing :: bool
  w_incidentRunning :: "HostID \<Rightarrow> bool"
  w_incidentPending :: "HostID \<Rightarrow> bool"
  w_evaluators :: "HostID list"
  w_incidentEvaluations :: "HostID \<Rightarrow> string \<times> Time"
  w_turns :: "nat \<Rightarrow> Turn"
  w_turn :: nat
  w_calls :: "(Svc \<times> StoreOp) list"

fun after_calls :: "(Svc \<times> StoreOp) list \<Rightarrow> DB \<Rightarrow> DB" where
  "after_calls [] db = db"
| "after_calls ((sv, op) # cs) db = after_calls cs (perform sv op db)"

lemma after_calls_append [simp]: "after_calls (as @ bs) db = after_calls bs (after_calls as db)"
  by (induction as db rule: after_calls.induct) simp_all

text \<open>Calls whose identifiers are fresh when they are made leave a reachable database.\<close>

fun lawful :: "unicode_case \<Rightarrow> (Svc \<times> StoreOp) list \<Rightarrow> DB \<Rightarrow> bool" where
  "lawful uni [] db = True"
| "lawful uni ((sv, op) # cs) db = (env_uni (sv_env sv) = uni \<and> fresh_ids sv db \<and> lawful uni cs (perform sv op db))"

lemma lawful_append [simp]: "lawful uni (as @ bs) db \<longleftrightarrow> lawful uni as db \<and> lawful uni bs (after_calls as db)"
  by (induction uni as db rule: lawful.induct) simp_all

lemma lawful_reachable: "lawful uni cs db \<Longrightarrow> reachable uni db \<Longrightarrow> reachable uni (after_calls cs db)"
  by (induction uni cs db rule: lawful.induct) (auto intro: reachable.call)

section \<open>Calls\<close>

definition turn :: "(World, Turn) state" where
  "turn = State (\<lambda>w. let t = w_turns w (w_turn w)
     in (t, w\<lparr>w_turn := w_turn w + 1, w_db := after_calls (tn_others t) (w_db w),
           w_calls := w_calls w @ tn_others t\<rparr>))"

text \<open>A call that only reads the database, and one that may commit a change. A failing call changes nothing.\<close>

definition query :: "(Svc \<Rightarrow> DB \<Rightarrow> 'a result) \<Rightarrow> (World, 'a result) state" where
  "query f = do {
     t \<leftarrow> turn;
     w \<leftarrow> State_Monad.get;
     State_Monad.return (case tn_failure t of Some e \<Rightarrow> Inl e | None \<Rightarrow> f (tn_svc t) (w_db w))
   }"

definition commit :: "StoreOp \<Rightarrow> (Svc \<Rightarrow> DB \<Rightarrow> DB \<times> 'a result) \<Rightarrow> (World, 'a result) state" where
  "commit op f = do {
     t \<leftarrow> turn;
     case tn_failure t of
       Some e \<Rightarrow> State_Monad.return (Inl e)
     | None \<Rightarrow> State (\<lambda>w. let (db', r) = f (tn_svc t) (w_db w)
         in (r, w\<lparr>w_db := db', w_calls := w_calls w @ [(tn_svc t, op)]\<rparr>))
   }"

definition observe :: "(Store \<Rightarrow> (nat \<Rightarrow> Time) \<Rightarrow> Store \<times> 'a) \<Rightarrow> (World, 'a) state" where
  "observe f = do {
     t \<leftarrow> turn;
     State (\<lambda>w. let (s', r) = f (w_observed w) (tn_clock t) in (r, w\<lparr>w_observed := s'\<rparr>))
   }"

definition time_now :: "(World, Time) state" where
  "time_now = do { t \<leftarrow> turn; State_Monad.return (tn_clock t 0) }"

definition commander_Session :: "HostID \<Rightarrow> (World, SessionInfo option) state" where
  "commander_Session host = do { t \<leftarrow> turn; State_Monad.return (tn_session t) }"

definition observed_Get :: "HostID \<Rightarrow> (World, HostObservation \<times> bool) state" where
  "observed_Get host = observe (\<lambda>s clk. Get s clk host)"

section \<open>Rules for computations\<close>

text \<open>A triple: from a state with \<open>P\<close> the computation ends in a state with \<open>Q\<close> of its result.\<close>

definition triple :: "('s \<Rightarrow> bool) \<Rightarrow> ('s, 'a) state \<Rightarrow> ('a \<Rightarrow> 's \<Rightarrow> bool) \<Rightarrow> bool" where
  "triple P m Q \<longleftrightarrow> (\<forall>s. P s \<longrightarrow> (case run_state m s of (x, s') \<Rightarrow> Q x s'))"

named_theorems triples \<open>introduction rules for triples\<close>

lemma tripleD: "triple P m Q \<Longrightarrow> P s \<Longrightarrow> run_state m s = (x, s') \<Longrightarrow> Q x s'"
  by (auto simp: triple_def)

lemma tripleI: "(\<And>s x s'. P s \<Longrightarrow> run_state m s = (x, s') \<Longrightarrow> Q x s') \<Longrightarrow> triple P m Q"
  by (auto simp: triple_def split: prod.split)

lemma triple_bind [triples]:
  "triple P m R \<Longrightarrow> (\<And>x. triple (R x) (f x) Q) \<Longrightarrow> triple P (State_Monad.bind m f) Q"
  unfolding triple_def by (fastforce split: prod.splits)

lemma triple_return [triples]: "(\<And>s. P s \<Longrightarrow> Q x s) \<Longrightarrow> triple P (State_Monad.return x) Q"
  by (simp add: triple_def)

lemma triple_if [triples]:
  "(c \<Longrightarrow> triple P a Q) \<Longrightarrow> (\<not> c \<Longrightarrow> triple P b Q) \<Longrightarrow> triple P (if c then a else b) Q"
  by simp

lemma triple_option [triples]:
  "(x = None \<Longrightarrow> triple P a Q) \<Longrightarrow> (\<And>y. x = Some y \<Longrightarrow> triple P (f y) Q) \<Longrightarrow> triple P (case x of None \<Rightarrow> a | Some y \<Rightarrow> f y) Q"
  by (cases x) simp_all

lemma triple_sum [triples]:
  "(\<And>e. x = Inl e \<Longrightarrow> triple P (f e) Q) \<Longrightarrow> (\<And>y. x = Inr y \<Longrightarrow> triple P (g y) Q) \<Longrightarrow> triple P (case x of Inl e \<Rightarrow> f e | Inr y \<Rightarrow> g y) Q"
  by (cases x) simp_all

lemma triple_prod [triples]: "(\<And>a b. x = (a, b) \<Longrightarrow> triple P (f a b) Q) \<Longrightarrow> triple P (case x of (a, b) \<Rightarrow> f a b) Q"
  by (cases x) simp

lemma triple_list [triples]:
  "(x = [] \<Longrightarrow> triple P a Q) \<Longrightarrow> (\<And>y ys. x = y # ys \<Longrightarrow> triple P (f y ys) Q) \<Longrightarrow> triple P (case x of [] \<Rightarrow> a | y # ys \<Rightarrow> f y ys) Q"
  by (cases x) simp_all

lemma triple_let [triples]: "triple P (f x) Q \<Longrightarrow> triple P (let y = x in f y) Q"
  by simp

lemma triple_strengthen: "triple P m Q \<Longrightarrow> (\<And>s. P' s \<Longrightarrow> P s) \<Longrightarrow> triple P' m Q"
  by (auto simp: triple_def)

lemma triple_weaken: "triple P m Q \<Longrightarrow> (\<And>x s. Q x s \<Longrightarrow> Q' x s) \<Longrightarrow> triple P m Q'"
  by (fastforce simp: triple_def)

lemma triple_conj: "triple P m Q \<Longrightarrow> triple P' m Q' \<Longrightarrow> triple (\<lambda>s. P s \<and> P' s) m (\<lambda>x s. Q x s \<and> Q' x s)"
  by (fastforce simp: triple_def)

text \<open>A relation that every step of a computation respects.\<close>

abbreviation stays :: "('s \<Rightarrow> 's \<Rightarrow> bool) \<Rightarrow> ('s, 'a) state \<Rightarrow> bool" where
  "stays R m \<equiv> state_io_rel R m"

locale frame =
  fixes R :: "'s \<Rightarrow> 's \<Rightarrow> bool"
  assumes same: "R s s" and trans: "R s t \<Longrightarrow> R t u \<Longrightarrow> R s u"
begin

lemma return: "stays R (State_Monad.return x)"
  by (rule state_io_relI) (auto simp: same)

lemma bind: "stays R m \<Longrightarrow> (\<And>x. stays R (f x)) \<Longrightarrow> stays R (State_Monad.bind m f)"
  unfolding state_io_rel_def by (auto split: prod.split) (metis snd_conv trans)

lemma cond: "(c \<Longrightarrow> stays R a) \<Longrightarrow> (\<not> c \<Longrightarrow> stays R b) \<Longrightarrow> stays R (if c then a else b)"
  by simp

lemma option: "stays R a \<Longrightarrow> (\<And>y. stays R (f y)) \<Longrightarrow> stays R (case x of None \<Rightarrow> a | Some y \<Rightarrow> f y)"
  by (cases x) simp_all

lemma sum: "(\<And>e. stays R (f e)) \<Longrightarrow> (\<And>y. stays R (g y)) \<Longrightarrow> stays R (case x of Inl e \<Rightarrow> f e | Inr y \<Rightarrow> g y)"
  by (cases x) simp_all

lemma prod: "(\<And>a b. stays R (f a b)) \<Longrightarrow> stays R (case x of (a, b) \<Rightarrow> f a b)"
  by (cases x) simp

lemma let_in: "stays R (f x) \<Longrightarrow> stays R (let y = x in f y)"
  by simp

lemma list: "stays R a \<Longrightarrow> (\<And>y ys. stays R (f y ys)) \<Longrightarrow> stays R (case x of [] \<Rightarrow> a | y # ys \<Rightarrow> f y ys)"
  by (cases x) simp_all

lemmas steps = return bind cond option sum prod list let_in

end

end
