(* ===== verification/Reconcile_Coordinator.thy ===== *)
theory Reconcile_Coordinator
  imports Reconcile_World
begin

text \<open>
  \<open>internal/reconcile/coordinator.go\<close>: the coordinator that turns the proposals of the planner into runtime
  commands of a Host, one at a time, and keeps the books on actions whose outcome is not known yet. The store
  is the farm configuration store and the commander the network server, so the optional interfaces of the
  code (\<open>incidentStore\<close>, \<open>restoreBarrierStore\<close>, \<open>maintenanceCommander\<close>, ...) are always there. What runs
  under the lock of a Host is one computation; log lines are left out.
\<close>

section \<open>Actions in flight\<close>

definition markInFlight :: "ActionKey \<Rightarrow> (World, bool) state" where
  "markInFlight key = do {
     w \<leftarrow> State_Monad.get;
     if key \<in> fst ` set (w_inFlight w) then State_Monad.return False
     else do {
       State_Monad.set (w\<lparr>w_inFlight := w_inFlight w @ [(key, 0)]\<rparr>);
       State_Monad.return True
     }
   }"

definition clearInFlight :: "ActionKey \<Rightarrow> (World, unit) state" where
  "clearInFlight key = State_Monad.update (\<lambda>w. w\<lparr>w_inFlight := filter (\<lambda>(k, q). k \<noteq> key) (w_inFlight w)\<rparr>)"

definition inFlightSnapshot :: "World \<Rightarrow> ActionKey set" where
  "inFlightSnapshot w = fst ` set (w_inFlight w)"

definition workloadHasInFlight :: "HostID \<Rightarrow> WorkloadID \<Rightarrow> World \<Rightarrow> bool" where
  "workloadHasInFlight host workload w =
     list_ex (\<lambda>(k, q). ak_HostID k = host \<and> ak_WorkloadID k = workload) (w_inFlight w)"

definition hostHasInFlight :: "HostID \<Rightarrow> uint64 \<Rightarrow> World \<Rightarrow> bool" where
  "hostHasInFlight host epoch w =
     list_ex (\<lambda>(k, q). ak_HostID k = host \<and> ak_ConnectionEpoch k = epoch) (w_inFlight w)"

definition setDispatchSequence :: "ActionKey \<Rightarrow> uint64 \<Rightarrow> (World, unit) state" where
  "setDispatchSequence key sequence = do {
     (observed, _) \<leftarrow> observed_Get (ak_HostID key);
     State_Monad.update (\<lambda>w.
       if key \<notin> fst ` set (w_inFlight w) then w
       else if ho_ConnectionEpoch observed = ak_ConnectionEpoch key \<and> sequence \<le> ho_RuntimeSequence observed
       then w\<lparr>w_inFlight := filter (\<lambda>(k, q). k \<noteq> key) (w_inFlight w)\<rparr>
       else w\<lparr>w_inFlight := map (\<lambda>(k, q). if k = key then (k, sequence) else (k, q)) (w_inFlight w)\<rparr>)
   }"

definition resolveInFlightThroughObservation :: "HostID \<Rightarrow> uint64 \<Rightarrow> uint64 \<Rightarrow> (World, unit) state" where
  "resolveInFlightThroughObservation host epoch runtimeSequence = State_Monad.update (\<lambda>w.
     w\<lparr>w_inFlight := filter (\<lambda>(k, q). \<not> (ak_HostID k = host \<and> ak_ConnectionEpoch k = epoch \<and> q > 0 \<and> q \<le> runtimeSequence))
       (w_inFlight w)\<rparr>)"

definition clearSession :: "HostID \<Rightarrow> uint64 \<Rightarrow> (World, unit) state" where
  "clearSession host epoch = State_Monad.update (\<lambda>w.
     w\<lparr>w_inFlight := filter (\<lambda>(k, q). \<not> (ak_HostID k = host \<and> ak_ConnectionEpoch k = epoch)) (w_inFlight w)\<rparr>)"

section \<open>Workers\<close>

text \<open>\<open>startWorker\<close> refuses once \<open>Shutdown\<close> has begun. A worker that reconciles a Host is an entry of
  \<open>w_workers\<close>.\<close>

definition scheduleReconcile :: "HostID \<Rightarrow> (World, bool) state" where
  "scheduleReconcile host = do {
     w \<leftarrow> State_Monad.get;
     if w_closing w then State_Monad.return False
     else do {
       State_Monad.set (w\<lparr>w_workers := w_workers w @ [host]\<rparr>);
       State_Monad.return True
     }
   }"

definition scheduleIf :: "bool \<Rightarrow> HostID \<Rightarrow> (World, unit) state" where
  "scheduleIf c host = (if c then do { scheduleReconcile host; State_Monad.return () } else State_Monad.return ())"

definition Shutdown_begin :: "(World, unit) state" where
  "Shutdown_begin = State_Monad.update (\<lambda>w. w\<lparr>w_closing := True\<rparr>)"

text \<open>The hosts that \<open>ReconcileAll\<close> starts a worker for; the order is the order of a Go map.\<close>

definition or_nothing :: "'a list result \<Rightarrow> 'a list" where
  "or_nothing r = (case r of Inl e \<Rightarrow> [] | Inr xs \<Rightarrow> xs)"

definition ReconcileAll_hosts :: "(World, HostID set) state" where
  "ReconcileAll_hosts = do {
     workloads \<leftarrow> query (\<lambda>sv db. ListDesiredWorkloads db);
     case workloads of
       Inl e \<Rightarrow> State_Monad.return {}
     | Inr ws \<Rightarrow> do {
         holds \<leftarrow> query (\<lambda>sv db. ListMaintenanceHolds db);
         barriers \<leftarrow> query (\<lambda>sv db. ListRestoreHostBarriers db);
         State_Monad.return (set (map (\<lambda>w. dw_HostID (dw_Content w)) ws)
           \<union> set (map mh_HostID (filter mh_Active (or_nothing holds)))
           \<union> set (map rhb_HostID (or_nothing barriers)))
       }
   }"

section \<open>Is an action still current?\<close>

definition same_execution :: "ExecutionObservation \<Rightarrow> ExecutionObservation \<Rightarrow> bool" where
  "same_execution a b \<longleftrightarrow> ex_ExecutionID a = ex_ExecutionID b \<and> ex_Status a = ex_Status b \<and> ex_Ownership a = ex_Ownership b"

definition sameExecutionFacts :: "ExecutionObservation list \<Rightarrow> ExecutionObservation list \<Rightarrow> bool" where
  "sameExecutionFacts left right = list_all2 same_execution left right"

text \<open>The three reads of \<open>actionStillCurrent\<close>: the store before the observation, the observation, and for a
  START the store once more.\<close>

definition still_desired :: "Action \<Rightarrow> (World, DesiredWorkload option) state" where
  "still_desired action = do {
     barrier \<leftarrow> query (\<lambda>sv db. GetRestoreHostBarrier (ak_HostID (ac_Key action)) db);
     case barrier of
       Inr None \<Rightarrow> do {
         latest \<leftarrow> query (\<lambda>sv db. GetDesiredWorkload (ak_WorkloadID (ac_Key action)) db);
         State_Monad.return (case latest of
           Inr workload \<Rightarrow> if dw_HostID (dw_Content workload) = ak_HostID (ac_Key action) then Some workload else None
         | Inl e \<Rightarrow> None)
       }
     | _ \<Rightarrow> State_Monad.return None
   }"

definition still_observed :: "Action \<Rightarrow> HostObservation \<Rightarrow> (World, bool) state" where
  "still_observed action observed = do {
     (now, ok) \<leftarrow> observed_Get (ak_HostID (ac_Key action));
     State_Monad.return (ok \<and> ho_Connected now \<and> ho_Ready now \<and> ho_Fresh now
       \<and> ho_ConnectionEpoch now = ho_ConnectionEpoch observed
       \<and> sameExecutionFacts (ho_Executions now) (ho_Executions observed)
       \<and> (ak_Action (ac_Key action) = ActionStart \<longrightarrow>
           ho_InventoryFresh now \<and> ho_InventoryFresh observed \<and> ho_ProcessesFresh now \<and> ho_ProcessesFresh observed
           \<and> ho_Inventory now = ho_Inventory observed \<and> ho_UnmanagedProcesses now = ho_UnmanagedProcesses observed))
   }"

definition still_startable :: "Action \<Rightarrow> DesiredWorkload \<Rightarrow> (World, bool) state" where
  "still_startable action latest =
     (if ak_Action (ac_Key action) \<noteq> ActionStart then State_Monad.return True
      else do {
        hold \<leftarrow> query (\<lambda>sv db. GetMaintenanceHold (ak_HostID (ac_Key action)) db);
        if (case hold of Inl e \<Rightarrow> True | Inr (h, exists) \<Rightarrow> exists \<and> mh_Active h) then State_Monad.return False
        else if dw_RunState (dw_Content latest) \<noteq> DesiredRunning
          \<or> dw_DesiredGeneration latest \<noteq> ak_DesiredGeneration (ac_Key action) then State_Monad.return False
        else do {
          snapshot \<leftarrow> query (\<lambda>sv db. GetCurrentResolvedSnapshot sv (dw_WorkloadID latest) db);
          State_Monad.return (case snapshot of
            Inr s \<Rightarrow> sn_ExecutionID s = ak_ExecutionID (ac_Key action) \<and> sn_ResolvedHash s = sn_ResolvedHash (ac_Snapshot action)
          | Inl e \<Rightarrow> False)
        }
      })"

definition actionStillCurrent :: "Action \<Rightarrow> HostObservation \<Rightarrow> (World, bool) state" where
  "actionStillCurrent action observed = do {
     latest \<leftarrow> still_desired action;
     case latest of
       None \<Rightarrow> State_Monad.return False
     | Some workload \<Rightarrow> do {
         ok \<leftarrow> still_observed action observed;
         if \<not> ok then State_Monad.return False else still_startable action workload
       }
   }"


section \<open>The restore barrier\<close>

text \<open>The map of the current snapshots of the Host's workloads; \<open>None\<close> when a read fails.\<close>

fun current_executions ::
  "WorkloadID list \<Rightarrow> (ExecutionID \<rightharpoonup> ResolvedExecutionSnapshot) \<Rightarrow> (World, (ExecutionID \<rightharpoonup> ResolvedExecutionSnapshot) option) state" where
  "current_executions [] m = State_Monad.return (Some m)"
| "current_executions (i # is) m = do {
     snapshot \<leftarrow> query (\<lambda>sv db. GetCurrentResolvedSnapshot sv i db);
     case snapshot of
       Inr s \<Rightarrow> current_executions is (m(sn_ExecutionID s \<mapsto> s))
     | Inl e \<Rightarrow> if fst (CodeOf e) \<noteq> NOT_FOUND then State_Monad.return None else current_executions is m
   }"

definition unproven :: "(ExecutionID \<rightharpoonup> ResolvedExecutionSnapshot) \<Rightarrow> ExecutionObservation \<Rightarrow> bool" where
  "unproven current e \<longleftrightarrow> holdsResources (ex_Status e)
     \<and> (case current (ex_ExecutionID e) of
          None \<Rightarrow> True
        | Some s \<Rightarrow> \<not> ownershipMatchesSnapshot (ex_Ownership e) s \<or> \<not> claimMatches (ex_Ownership e) (sn_Resources s))"

definition applyRestoreBarrierLocked :: "HostID \<Rightarrow> HostObservation \<Rightarrow> (World, bool) state" where
  "applyRestoreBarrierLocked host observed = do {
     found \<leftarrow> query (\<lambda>sv db. GetRestoreHostBarrier host db);
     case found of
       Inl e \<Rightarrow> State_Monad.return True
     | Inr None \<Rightarrow> State_Monad.return False
     | Inr (Some barrier) \<Rightarrow>
         if \<not> ho_InventoryFresh observed \<or> \<not> ho_ProcessesFresh observed then State_Monad.return True
         else do {
           listed \<leftarrow> query (\<lambda>sv db. ListDesiredWorkloads db);
           case listed of
             Inl e \<Rightarrow> State_Monad.return True
           | Inr workloads \<Rightarrow> do {
               current \<leftarrow> current_executions
                 (map dw_WorkloadID (filter (\<lambda>w. dw_HostID (dw_Content w) = host) workloads)) Map.empty;
               case current of
                 None \<Rightarrow> State_Monad.return True
               | Some m \<Rightarrow>
                   if list_ex (unproven m) (ho_Executions observed)
                   then do {
                     marked \<leftarrow> commit (OpMarkRestoreHostConflict host (rhb_BackupID barrier) (rhb_Revision barrier))
                       (\<lambda>sv db. MarkRestoreHostConflict sv host (rhb_BackupID barrier) (rhb_Revision barrier) db);
                     State_Monad.return True
                   }
                   else do {
                     cleared \<leftarrow> commit (OpClearRestoreHostBarrier host (rhb_BackupID barrier) (rhb_Revision barrier))
                       (\<lambda>sv db. ClearRestoreHostBarrier host (rhb_BackupID barrier) (rhb_Revision barrier) db);
                     case cleared of
                       Inl e \<Rightarrow> State_Monad.return True
                     | Inr u \<Rightarrow> do { scheduleReconcile host; State_Monad.return True }
                   }
             }
         }
   }"

section \<open>Preparing a dispatch\<close>

record preparedDispatch =
  pd_Action :: Action
  pd_Request :: RuntimeRequest
  pd_Session :: SessionInfo
  pd_Observed :: HostObservation

text \<open>One iteration of the loop over the workloads: \<open>continue\<close>, or the return of the function.\<close>

datatype outcome = Continue | Return "preparedDispatch option"

text \<open>The workload to plan for, re-read after its GPU snapshot was refreshed; \<open>None\<close> is \<open>continue\<close>.\<close>

definition refreshed_workload :: "HostObservation \<Rightarrow> DesiredWorkload \<Rightarrow> (World, DesiredWorkload option) state" where
  "refreshed_workload observed workload =
     (if dw_RunState (dw_Content workload) = DesiredRunning \<and> cl_DeviceIDs (dw_Resources (dw_Content workload)) \<noteq> []
      then if \<not> ho_InventoryFresh observed then State_Monad.return None
        else do {
          refreshed \<leftarrow> commit (OpRefreshResolvedSnapshotForInventory (dw_WorkloadID workload) (ho_Inventory observed))
            (\<lambda>sv db. RefreshResolvedSnapshotForInventory sv (dw_WorkloadID workload) (ho_Inventory observed) db);
          case refreshed of
            Inl e \<Rightarrow> State_Monad.return (Some workload)
          | Inr u \<Rightarrow> do {
              reloaded \<leftarrow> query (\<lambda>sv db. GetDesiredWorkload (dw_WorkloadID workload) db);
              State_Monad.return (case reloaded of Inl e \<Rightarrow> None | Inr w \<Rightarrow> Some w)
            }
        }
      else State_Monad.return (Some workload))"

text \<open>The current snapshot of a running workload; the outer \<open>None\<close> is \<open>continue\<close>.\<close>

definition current_snapshot :: "DesiredWorkload \<Rightarrow> (World, ResolvedExecutionSnapshot option option) state" where
  "current_snapshot workload =
     (if dw_RunState (dw_Content workload) \<noteq> DesiredRunning then State_Monad.return (Some None)
      else do {
        snapshot \<leftarrow> query (\<lambda>sv db. GetCurrentResolvedSnapshot sv (dw_WorkloadID workload) db);
        State_Monad.return (case snapshot of
          Inl e \<Rightarrow> if fst (CodeOf e) \<noteq> NOT_FOUND then None else Some None
        | Inr s \<Rightarrow> Some (Some s))
      })"

definition request_of :: "Action \<Rightarrow> RuntimeRequest" where
  "request_of action = \<lparr>rq_Kind = (if ak_Action (ac_Key action) = ActionStart then RuntimeStart else RuntimeStop),
     rq_WorkloadID = ak_WorkloadID (ac_Key action), rq_DesiredGeneration = ak_DesiredGeneration (ac_Key action),
     rq_ExecutionID = ak_ExecutionID (ac_Key action), rq_ResolvedHash = sn_ResolvedHash (ac_Snapshot action),
     rq_Plan = sn_Plan (ac_Snapshot action), rq_DispatchSequence = 0\<rparr>"

text \<open>From the validation of a START to the reservation of the action.\<close>

definition reserve :: "HostID \<Rightarrow> HostObservation \<Rightarrow> Action \<Rightarrow> (World, outcome) state" where
  "reserve host observed action = do {
     current \<leftarrow> actionStillCurrent action observed;
     if \<not> current then State_Monad.return (Return None)
     else do {
       session \<leftarrow> commander_Session host;
       case session of
         None \<Rightarrow> State_Monad.return (Return None)
       | Some info \<Rightarrow>
           if si_ConnectionEpoch info \<noteq> ho_ConnectionEpoch observed \<or> \<not> si_Ready info then State_Monad.return (Return None)
           else do {
             marked \<leftarrow> markInFlight (ac_Key action);
             State_Monad.return (Return (if marked
               then Some \<lparr>pd_Action = action, pd_Request = request_of action, pd_Session = info, pd_Observed = observed\<rparr>
               else None))
           }
     }
   }"

definition dispatch_action :: "HostID \<Rightarrow> HostObservation \<Rightarrow> Action \<Rightarrow> (World, outcome) state" where
  "dispatch_action host observed action =
     (if ak_Action (ac_Key action) = ActionBlock
      then do {
        blocked \<leftarrow> commit (OpBlockDesiredGeneration (ak_WorkloadID (ac_Key action)) (ak_DesiredGeneration (ac_Key action))
            (ac_Code action) (ac_Message action))
          (\<lambda>sv db. BlockDesiredGeneration sv (ak_WorkloadID (ac_Key action)) (ak_DesiredGeneration (ac_Key action))
            (ac_Code action) (ac_Message action) db);
        State_Monad.return Continue
      }
      else if ak_Action (ac_Key action) = ActionStart
      then if \<not> ho_InventoryFresh observed \<or> \<not> ho_ProcessesFresh observed then State_Monad.return (Return None)
        else do {
          valid \<leftarrow> query (\<lambda>sv db. ValidateResolvedSnapshotForStart sv (ac_Snapshot action) (ho_Inventory observed) db);
          case valid of
            Inl e \<Rightarrow> State_Monad.return Continue
          | Inr u \<Rightarrow> reserve host observed action
        }
      else reserve host observed action)"

definition dispatch_workload ::
  "HostID \<Rightarrow> HostObservation \<Rightarrow> MaintenanceHold option \<Rightarrow> (ExecutionID \<rightharpoonup> ResolvedExecutionSnapshot)
     \<Rightarrow> DesiredWorkload \<Rightarrow> (World, outcome) state" where
  "dispatch_workload host observed hold byExecution listed =
     (if dw_HostID (dw_Content listed) \<noteq> host then State_Monad.return Continue
      else do {
        refreshed \<leftarrow> refreshed_workload observed listed;
        case refreshed of
          None \<Rightarrow> State_Monad.return Continue
        | Some workload \<Rightarrow> do {
            snapshots \<leftarrow> query (\<lambda>sv db. ListResolvedSnapshots sv (dw_WorkloadID workload) db);
            case snapshots of
              Inl e \<Rightarrow> State_Monad.return Continue
            | Inr owned \<Rightarrow> do {
                current \<leftarrow> current_snapshot workload;
                case current of
                  None \<Rightarrow> State_Monad.return Continue
                | Some cur \<Rightarrow> do {
                    binding \<leftarrow> query (\<lambda>sv db. GetWorkloadRuntimeBinding (dw_WorkloadID workload) db);
                    case binding of
                      Inl e \<Rightarrow> State_Monad.return Continue
                    | Inr latched \<Rightarrow> do {
                        w \<leftarrow> State_Monad.get;
                        let planned = Plan \<lparr>pi_Workload = workload, pi_Current = cur, pi_Snapshots = owned,
                          pi_Binding = latched, pi_Hold = hold, pi_Observed = observed,
                          pi_InFlight = inFlightSnapshot w, pi_OtherOwned = byExecution\<rparr>;
                        if pres_Conflict planned \<noteq> [] then State_Monad.return Continue
                        else case pres_Actions planned of
                          [] \<Rightarrow> State_Monad.return Continue
                        | action # _ \<Rightarrow> dispatch_action host observed action
                      }
                  }
              }
          }
      })"

fun dispatch_workloads ::
  "HostID \<Rightarrow> HostObservation \<Rightarrow> MaintenanceHold option \<Rightarrow> (ExecutionID \<rightharpoonup> ResolvedExecutionSnapshot)
     \<Rightarrow> DesiredWorkload list \<Rightarrow> (World, preparedDispatch option) state" where
  "dispatch_workloads host observed hold byExecution [] = State_Monad.return None"
| "dispatch_workloads host observed hold byExecution (workload # rest) = do {
     r \<leftarrow> dispatch_workload host observed hold byExecution workload;
     case r of
       Continue \<Rightarrow> dispatch_workloads host observed hold byExecution rest
     | Return d \<Rightarrow> State_Monad.return d
   }"

definition executions_of :: "ResolvedExecutionSnapshot list \<Rightarrow> ExecutionID \<rightharpoonup> ResolvedExecutionSnapshot" where
  "executions_of snapshots = foldl (\<lambda>m s. m(sn_ExecutionID s \<mapsto> s)) Map.empty snapshots"

text \<open>The rest of \<open>prepareDispatchLocked\<close>, for a Host whose observation is usable.\<close>

definition dispatch_host :: "HostID \<Rightarrow> HostObservation \<Rightarrow> (World, preparedDispatch option) state" where
  "dispatch_host host observed = do {
     blocked \<leftarrow> applyRestoreBarrierLocked host observed;
     w \<leftarrow> State_Monad.get;
     if blocked \<or> hostHasInFlight host (ho_ConnectionEpoch observed) w then State_Monad.return None
     else do {
       all \<leftarrow> query (\<lambda>sv db. ListAllResolvedSnapshots sv db);
       case all of
         Inl e \<Rightarrow> State_Monad.return None
       | Inr snapshots \<Rightarrow> do {
           listed \<leftarrow> query (\<lambda>sv db. ListDesiredWorkloads db);
           case listed of
             Inl e \<Rightarrow> State_Monad.return None
           | Inr workloads \<Rightarrow> do {
               hold \<leftarrow> query (\<lambda>sv db. GetMaintenanceHold host db);
               case hold of
                 Inl e \<Rightarrow> State_Monad.return None
               | Inr (h, exists) \<Rightarrow>
                   dispatch_workloads host observed (if exists then Some h else None) (executions_of snapshots)
                     (sort_key dw_WorkloadID workloads)
             }
         }
     }
   }"

definition prepareDispatchLocked :: "HostID \<Rightarrow> (World, preparedDispatch option) state" where
  "prepareDispatchLocked host = do {
     (observed, ok) \<leftarrow> observed_Get host;
     if \<not> ok \<or> \<not> ho_Connected observed \<or> \<not> ho_Ready observed \<or> \<not> ho_Fresh observed then State_Monad.return None
     else dispatch_host host observed
   }"

section \<open>The sections of \<open>ReconcileHost\<close>\<close>

text \<open>The first section runs under the lock of the Host. Then \<open>actionStillCurrent\<close> runs without the lock, and
  \<open>SendRuntime\<close>; the last section records the sequence number of the command. All of them hold the authority
  lock of the Host for reading.\<close>

definition clearReservedAction :: "ActionKey \<Rightarrow> (World, unit) state" where
  "clearReservedAction key = clearInFlight key"

section \<open>Sessions\<close>

definition SessionConnected :: "SessionInfo \<Rightarrow> (World, unit) state" where
  "SessionConnected info = do {
     updated \<leftarrow> observe (\<lambda>s clk. Connect s (si_AgentID info) (si_HostID info) (si_ConnectionEpoch info));
     scheduleIf updated (si_HostID info)
   }"

definition SessionDisconnected :: "SessionInfo \<Rightarrow> (World, unit) state" where
  "SessionDisconnected info = do {
     updated \<leftarrow> observe (\<lambda>s clk. Disconnect s (si_HostID info) (si_ConnectionEpoch info));
     clearSession (si_HostID info) (si_ConnectionEpoch info);
     scheduleIf updated (si_HostID info)
   }"

definition mark_ready :: "SessionInfo \<Rightarrow> (World, bool) state" where
  "mark_ready info = observe (\<lambda>s clk. MarkReady s (si_HostID info) (si_ConnectionEpoch info))"

definition ExecutionsObserved :: "SessionInfo \<Rightarrow> ExecutionObservation list \<Rightarrow> uint64 \<Rightarrow> (World, unit) state" where
  "ExecutionsObserved info executions runtimeSequence = do {
     now \<leftarrow> time_now;
     updated \<leftarrow> observe (\<lambda>s clk. SetExecutions s clk (si_HostID info) (si_ConnectionEpoch info) executions now runtimeSequence);
     (if updated then resolveInFlightThroughObservation (si_HostID info) (si_ConnectionEpoch info) runtimeSequence
      else State_Monad.return ());
     ready \<leftarrow> mark_ready info;
     scheduleIf (updated \<or> ready) (si_HostID info)
   }"

text \<open>The end that inventory, process and status reports share.\<close>

definition after_report :: "SessionInfo \<Rightarrow> bool \<Rightarrow> (World, unit) state" where
  "after_report info updated = do {
     becameReady \<leftarrow> mark_ready info;
     (current, _) \<leftarrow> observed_Get (si_HostID info);
     scheduleIf (becameReady \<or> updated \<and> ho_Ready current \<and> ho_ConnectionEpoch current = si_ConnectionEpoch info)
       (si_HostID info)
   }"

definition InventoryObserved :: "SessionInfo \<Rightarrow> Inventory \<Rightarrow> (World, unit) state" where
  "InventoryObserved info inventory = do {
     updated \<leftarrow> observe (\<lambda>s clk. SetInventory s clk (si_HostID info) (si_ConnectionEpoch info) inventory);
     after_report info updated
   }"

definition ProcessesObserved :: "SessionInfo \<Rightarrow> UnmanagedProcessObservation list \<Rightarrow> (World, unit) state" where
  "ProcessesObserved info processes = do {
     now \<leftarrow> time_now;
     updated \<leftarrow> observe (\<lambda>s clk. SetUnmanagedProcesses s clk (si_HostID info) (si_ConnectionEpoch info) processes now);
     after_report info updated
   }"

definition StatusObserved :: "SessionInfo \<Rightarrow> AgentState \<Rightarrow> (World, unit) state" where
  "StatusObserved info agent_state = do {
     updated \<leftarrow> observe (\<lambda>s clk. SetAgentState s (si_HostID info) (si_ConnectionEpoch info) agent_state);
     after_report info updated
   }"

definition SessionReady :: "SessionInfo \<Rightarrow> (World, unit) state" where
  "SessionReady info = do {
     becameReady \<leftarrow> mark_ready info;
     (current, _) \<leftarrow> observed_Get (si_HostID info);
     scheduleIf (ho_Ready current \<and> ho_ConnectionEpoch current = si_ConnectionEpoch info) (si_HostID info)
   }"

section \<open>Results of runtime commands\<close>

definition permanentRejection :: "Code \<Rightarrow> bool" where
  "permanentRejection code = List.member [MISSING_DEPENDENCY, MISSING_COMMAND, MISSING_WALLET, MISSING_POOL,
     PACKAGE_NOT_INSTALLED, PACKAGE_HASH_MISMATCH, INCOMPATIBLE_HARDWARE, INSUFFICIENT_DISK, PERMISSION_DENIED,
     PORT_CONFLICT, CONFIG_CONFLICT, SIGNATURE_INVALID] code"

definition requestStillCurrent :: "RuntimeRequest \<Rightarrow> (World, bool) state" where
  "requestStillCurrent request = do {
     found \<leftarrow> query (\<lambda>sv db. GetDesiredWorkload (rq_WorkloadID request) db);
     case found of
       Inl e \<Rightarrow> State_Monad.return False
     | Inr workload \<Rightarrow>
         if dw_RunState (dw_Content workload) \<noteq> DesiredRunning \<or> dw_DesiredGeneration workload \<noteq> rq_DesiredGeneration request
         then State_Monad.return False
         else do {
           snapshot \<leftarrow> query (\<lambda>sv db. GetCurrentResolvedSnapshot sv (rq_WorkloadID request) db);
           State_Monad.return (case snapshot of
             Inl e \<Rightarrow> False
           | Inr s \<Rightarrow> sn_ExecutionID s = rq_ExecutionID request \<and> sn_ResolvedHash s = rq_ResolvedHash request)
         }
   }"

definition result_key :: "SessionInfo \<Rightarrow> RuntimeRequest \<Rightarrow> ActionKey" where
  "result_key info request = \<lparr>ak_HostID = si_HostID info, ak_WorkloadID = rq_WorkloadID request,
     ak_DesiredGeneration = rq_DesiredGeneration request, ak_ExecutionID = rq_ExecutionID request,
     ak_ConnectionEpoch = si_ConnectionEpoch info,
     ak_Action = (if rq_Kind request = RuntimeStart then ActionStart else ActionStop)\<rparr>"

text \<open>Does the reported execution belong to the request?\<close>

definition answers :: "SessionInfo \<Rightarrow> RuntimeRequest \<Rightarrow> ExecutionObservation \<Rightarrow> bool" where
  "answers info request e \<longleftrightarrow> ex_ExecutionID e = rq_ExecutionID request
     \<and> (case ex_Ownership e of
          None \<Rightarrow> False
        | Some ow \<Rightarrow> ow_WorkloadID ow = rq_WorkloadID request \<and> ow_DesiredGeneration ow = rq_DesiredGeneration request
            \<and> ow_ResolvedHash ow = rq_ResolvedHash request \<and> ow_HostID ow = si_HostID info)"

definition block_request :: "RuntimeRequest \<Rightarrow> Code \<Rightarrow> string \<Rightarrow> (World, unit result) state" where
  "block_request request code message =
     commit (OpBlockDesiredGeneration (rq_WorkloadID request) (rq_DesiredGeneration request) code message)
       (\<lambda>sv db. BlockDesiredGeneration sv (rq_WorkloadID request) (rq_DesiredGeneration request) code message db)"

definition rejected :: "SessionInfo \<Rightarrow> RuntimeRequest \<Rightarrow> Error \<Rightarrow> (World, unit) state" where
  "rejected info request agentError =
     (if rq_Kind request = RuntimeStart \<and> permanentRejection (err_Code agentError)
      then do {
        current \<leftarrow> requestStillCurrent request;
        if \<not> current then State_Monad.return ()
        else do {
          blocked \<leftarrow> block_request request (err_Code agentError) (err_HumanMessage agentError);
          case blocked of Inl e \<Rightarrow> State_Monad.return () | Inr u \<Rightarrow> clearInFlight (result_key info request)
        }
      }
      else State_Monad.return ())"

text \<open>Whether the failure of a started execution was persisted; \<open>False\<close> ends \<open>RuntimeResult\<close> at once.\<close>

definition latch_failed_start :: "RuntimeRequest \<Rightarrow> ExecutionObservation \<Rightarrow> (World, bool) state" where
  "latch_failed_start request e =
     (if rq_Kind request = RuntimeStart \<and> ex_Status e = ExecutionFailed
      then do {
        current \<leftarrow> requestStillCurrent request;
        if \<not> current then State_Monad.return True
        else do {
          blocked \<leftarrow> block_request request PROCESS_CRASHED ''execution reached terminal FAILED state'';
          State_Monad.return (case blocked of Inl e \<Rightarrow> False | Inr u \<Rightarrow> True)
        }
      }
      else State_Monad.return True)"

definition completed :: "SessionInfo \<Rightarrow> RuntimeRequest \<Rightarrow> ExecutionObservation \<Rightarrow> (World, unit) state" where
  "completed info request e = do {
     now \<leftarrow> time_now;
     updated \<leftarrow> observe (\<lambda>s clk. UpsertExecution s clk (si_HostID info) (si_ConnectionEpoch info) e now (rq_DispatchSequence request));
     if \<not> updated then State_Monad.return ()
     else do {
       persisted \<leftarrow> latch_failed_start request e;
       if \<not> persisted then State_Monad.return ()
       else do {
         clearInFlight (result_key info request);
         scheduleIf True (si_HostID info)
       }
     }
   }"

definition RuntimeResult ::
  "SessionInfo \<Rightarrow> RuntimeRequest \<Rightarrow> ExecutionObservation option \<Rightarrow> Error option \<Rightarrow> (World, unit) state" where
  "RuntimeResult info request execution agentError = do {
     (observed, ok) \<leftarrow> observed_Get (si_HostID info);
     if \<not> ok \<or> \<not> ho_Connected observed \<or> \<not> ho_Fresh observed \<or> ho_ConnectionEpoch observed \<noteq> si_ConnectionEpoch info
     then clearInFlight (result_key info request)
     else case agentError of
       Some e \<Rightarrow> rejected info request e
     | None \<Rightarrow> (case execution of
         None \<Rightarrow> State_Monad.return ()
       | Some e \<Rightarrow> if answers info request e then completed info request e else State_Monad.return ())
   }"


section \<open>Retries, holds and deletions\<close>

definition coordinator_RetryWorkload :: "WorkloadID \<Rightarrow> uint64 \<Rightarrow> (World, DesiredWorkload result) state" where
  "coordinator_RetryWorkload i expected = do {
     retried \<leftarrow> commit (OpRetryWorkload i expected) (\<lambda>sv db. RetryWorkload sv i expected db);
     case retried of
       Inl e \<Rightarrow> State_Monad.return (Inl e)
     | Inr workload \<Rightarrow> do {
         scheduleReconcile (dw_HostID (dw_Content workload));
         State_Monad.return (Inr workload)
       }
   }"

text \<open>\<open>SetMaintenanceHold\<close> holds the authority lock of the Host for writing from its first section to its end.
  The first section also runs under the lock of the Host; the hold is then sent to the Agent, and a released
  hold asks for a fresh bootstrap of the session it was sent to.\<close>

definition SetMaintenanceHold_begin ::
  "HostID \<Rightarrow> uint64 \<Rightarrow> bool \<Rightarrow> string \<Rightarrow> (World, (MaintenanceHold \<times> SessionInfo option) result) state" where
  "SetMaintenanceHold_begin host expected active reason = do {
     stored \<leftarrow> commit (OpSetMaintenanceHold host expected active reason)
       (\<lambda>sv db. SetMaintenanceHold sv host expected active reason db);
     case stored of
       Inl e \<Rightarrow> State_Monad.return (Inl e)
     | Inr hold \<Rightarrow> do {
         session \<leftarrow> commander_Session host;
         State_Monad.return (Inr (hold, session))
       }
   }"

text \<open>What the caller is told; \<open>sent\<close> is the error of the transport, if any.\<close>

definition SetMaintenanceHold_end ::
  "HostID \<Rightarrow> MaintenanceHold \<Rightarrow> SessionInfo option \<Rightarrow> error option \<Rightarrow> (World, MaintenanceHold \<times> error option) state" where
  "SetMaintenanceHold_end host hold session sent = do {
     let failed = (if session = None then None else sent);
     (case session of
        Some info \<Rightarrow> if \<not> mh_Active hold \<and> failed = None
          then do {
            b \<leftarrow> observe (\<lambda>s clk. RequireFreshBootstrap s host (si_ConnectionEpoch info));
            State_Monad.return ()
          }
          else State_Monad.return ()
      | None \<Rightarrow> State_Monad.return ());
     scheduleIf (failed = None) host;
     State_Monad.return (hold, failed)
   }"

definition still_owned :: "ResolvedExecutionSnapshot list \<Rightarrow> ExecutionObservation \<Rightarrow> bool" where
  "still_owned snapshots e \<longleftrightarrow> ex_Status e \<noteq> ExecutionStopped
     \<and> (case executions_of snapshots (ex_ExecutionID e) of
          None \<Rightarrow> False
        | Some s \<Rightarrow> ownershipMatchesSnapshot (ex_Ownership e) s)"

definition retire :: "WorkloadID \<Rightarrow> uint64 \<Rightarrow> DesiredWorkload \<Rightarrow> ResolvedExecutionSnapshot list \<Rightarrow> (World, unit result) state" where
  "retire i expected workload snapshots =
     (if dw_RunState (dw_Content workload) \<noteq> DesiredStopped
      then State_Monad.return (Inl (typed_cause REFERENCE_IN_USE ''DesiredWorkload must be STOPPED before deletion'' None))
      else do {
        (observed, ok) \<leftarrow> observed_Get (dw_HostID (dw_Content workload));
        if \<not> ok \<or> \<not> ho_Connected observed \<or> \<not> ho_Ready observed \<or> \<not> ho_Fresh observed
        then State_Monad.return (Inl (typed_cause SERVICE_NOT_READY ''fresh Agent retirement proof is required'' None))
        else if list_ex (still_owned snapshots) (ho_Executions observed)
        then State_Monad.return (Inl (typed_cause REFERENCE_IN_USE ''DesiredWorkload still owns an Agent execution'' None))
        else commit (OpFinalizeRetiredDesiredWorkloadDeletion i expected)
          (\<lambda>sv db. FinalizeRetiredDesiredWorkloadDeletion sv i expected db)
      })"

text \<open>The section of \<open>DeleteDesiredWorkload\<close> under the lock of the Host that a first read named.\<close>

definition delete_section :: "WorkloadID \<Rightarrow> uint64 \<Rightarrow> (World, unit result) state" where
  "delete_section i expected = do {
     found \<leftarrow> query (\<lambda>sv db. GetDesiredWorkload i db);
     case found of
       Inl e \<Rightarrow> State_Monad.return (Inl e)
     | Inr workload \<Rightarrow>
         if meta_Revision (dw_Meta workload) \<noteq> expected
         then State_Monad.return (Inl (typed_cause REVISION_CONFLICT ''DesiredWorkload revision changed before retirement'' None))
         else do {
           w \<leftarrow> State_Monad.get;
           if workloadHasInFlight (dw_HostID (dw_Content workload)) i w
           then State_Monad.return (Inl (typed_cause REFERENCE_IN_USE ''DesiredWorkload has unresolved runtime activity'' None))
           else do {
             snapshots \<leftarrow> query (\<lambda>sv db. ListResolvedSnapshots sv i db);
             case snapshots of
               Inl e \<Rightarrow> State_Monad.return (Inl e)
             | Inr [] \<Rightarrow> commit (OpDeleteDesiredWorkload i expected) (\<lambda>sv db. DeleteDesiredWorkload sv i expected db)
             | Inr (s # ss) \<Rightarrow> retire i expected workload (s # ss)
           }
         }
   }"

section \<open>Unmanaged executions\<close>

record UnmanagedExecution =
  ue_HostID :: HostID
  ue_AgentID :: AgentID
  ue_ExecutionID :: ExecutionID
  ue_State :: ExecutionStatus
  ue_ResourceClaim :: "ResourceClaim option"
  ue_MinerStatus :: "MinerTelemetry option"

definition is_managed :: "ResolvedExecutionSnapshot list \<Rightarrow> ExecutionObservation \<Rightarrow> bool" where
  "is_managed snapshots e \<longleftrightarrow> (case executions_of snapshots (ex_ExecutionID e) of
       None \<Rightarrow> False
     | Some s \<Rightarrow> ownershipMatchesSnapshot (ex_Ownership e) s)"

definition unmanaged_of :: "HostID \<Rightarrow> HostObservation \<Rightarrow> ExecutionObservation \<Rightarrow> UnmanagedExecution" where
  "unmanaged_of host observed e = \<lparr>ue_HostID = host, ue_AgentID = ho_AgentID observed, ue_ExecutionID = ex_ExecutionID e,
     ue_State = ex_Status e, ue_ResourceClaim = map_option ownership_claim (ex_Ownership e),
     ue_MinerStatus = ex_MinerTelemetry e\<rparr>"

definition UnmanagedExecutions :: "HostID \<Rightarrow> (World, UnmanagedExecution list result) state" where
  "UnmanagedExecutions host = do {
     (observed, ok) \<leftarrow> observed_Get host;
     if \<not> ok then State_Monad.return (Inr [])
     else do {
       snapshots \<leftarrow> query (\<lambda>sv db. ListAllResolvedSnapshots sv db);
       State_Monad.return (case snapshots of
         Inl e \<Rightarrow> Inl e
       | Inr all \<Rightarrow> Inr (map (unmanaged_of host observed) (filter (\<lambda>e. \<not> is_managed all e) (ho_Executions observed))))
     }
   }"

end
