(* ===== verification/Model_Texts.thy ===== *)
theory Model_Texts
  imports Farm_Types
begin

text \<open>
  The Go string types of \<open>internal/model/model.go\<close> as texts: what is written to the wire, and the conversion of
  any text back to the type. A text that no constant names stays itself. All of them satisfy one contract, the
  locale \<open>string_enum\<close>.
\<close>

section \<open>The contract\<close>

definition enum_of :: "('a \<Rightarrow> string) \<Rightarrow> 'a list \<Rightarrow> (string \<Rightarrow> 'a) \<Rightarrow> string \<Rightarrow> 'a" where
  "enum_of text_of named other s = (case find (\<lambda>x. text_of x = s) named of Some x \<Rightarrow> x | None \<Rightarrow> other s)"

locale string_enum =
  fixes text_of :: "'a \<Rightarrow> string" and named :: "'a list" and other :: "string \<Rightarrow> 'a"
  assumes other_text: "text_of (other s) = s"
    and distinct_texts: "distinct (map text_of named)"
    and covered: "x \<in> set named \<or> (\<exists>s. x = other s)"
begin

lemma text_enum: "text_of (enum_of text_of named other s) = s"
  by (cases "find (\<lambda>x. text_of x = s) named") (use find_SomeD in \<open>fastforce simp: enum_of_def other_text\<close>)+

lemma enum_text: "x \<in> set named \<Longrightarrow> enum_of text_of named other (text_of x) = x"
proof -
  assume x: "x \<in> set named"
  have inj: "inj_on text_of (set named)" using distinct_texts by (simp add: distinct_map)
  from x obtain y where y: "find (\<lambda>z. text_of z = text_of x) named = Some y"
    by (cases "find (\<lambda>z. text_of z = text_of x) named") (auto simp: find_NoneD)
  then have "y = x" using find_SomeD[OF y] inj x by (metis inj_onD)
  then show ?thesis using y by (simp add: enum_of_def)
qed

lemma other_named: "s \<notin> text_of ` set named \<Longrightarrow> enum_of text_of named other s = other s"
  by (cases "find (\<lambda>x. text_of x = s) named") (use find_SomeD in \<open>fastforce simp: enum_of_def\<close>)+

lemma enum_round: "x \<in> set named \<or> (\<exists>s. x = other s \<and> s \<notin> text_of ` set named) \<Longrightarrow> enum_of text_of named other (text_of x) = x"
  using enum_text other_named other_text by auto

end

section \<open>\<open>ExecutionStatus\<close>\<close>

fun ExecutionStatus_text :: "ExecutionStatus \<Rightarrow> string" where
  "ExecutionStatus_text ExecutionStarting = ''STARTING''"
| "ExecutionStatus_text ExecutionRunning = ''RUNNING''"
| "ExecutionStatus_text ExecutionStopping = ''STOPPING''"
| "ExecutionStatus_text ExecutionStopped = ''STOPPED''"
| "ExecutionStatus_text ExecutionCrashed = ''CRASHED''"
| "ExecutionStatus_text ExecutionBackoff = ''BACKOFF''"
| "ExecutionStatus_text ExecutionFailed = ''FAILED''"
| "ExecutionStatus_text (ExecutionStatusOther s) = s"

definition ExecutionStatus_values :: "ExecutionStatus list" where
  "ExecutionStatus_values = [ExecutionStarting, ExecutionRunning, ExecutionStopping, ExecutionStopped, ExecutionCrashed, ExecutionBackoff, ExecutionFailed]"

definition ExecutionStatus_of :: "string \<Rightarrow> ExecutionStatus" where
  "ExecutionStatus_of s = enum_of ExecutionStatus_text ExecutionStatus_values ExecutionStatusOther s"

interpretation execution_status: string_enum ExecutionStatus_text ExecutionStatus_values ExecutionStatusOther
proof
  show "x \<in> set ExecutionStatus_values \<or> (\<exists>s. x = ExecutionStatusOther s)" for x by (cases x) (simp_all add: ExecutionStatus_values_def)
qed (simp_all add: ExecutionStatus_values_def)

section \<open>\<open>TelemetryAvailability\<close>\<close>

fun TelemetryAvailability_text :: "TelemetryAvailability \<Rightarrow> string" where
  "TelemetryAvailability_text TelemetryUnknown = ''UNKNOWN''"
| "TelemetryAvailability_text TelemetryAvailable = ''AVAILABLE''"
| "TelemetryAvailability_text TelemetryUnavailable = ''UNAVAILABLE''"
| "TelemetryAvailability_text TelemetryStale = ''STALE''"
| "TelemetryAvailability_text (TelemetryOther s) = s"

definition TelemetryAvailability_values :: "TelemetryAvailability list" where
  "TelemetryAvailability_values = [TelemetryUnknown, TelemetryAvailable, TelemetryUnavailable, TelemetryStale]"

definition TelemetryAvailability_of :: "string \<Rightarrow> TelemetryAvailability" where
  "TelemetryAvailability_of s = enum_of TelemetryAvailability_text TelemetryAvailability_values TelemetryOther s"

interpretation telemetry_availability: string_enum TelemetryAvailability_text TelemetryAvailability_values TelemetryOther
proof
  show "x \<in> set TelemetryAvailability_values \<or> (\<exists>s. x = TelemetryOther s)" for x by (cases x) (simp_all add: TelemetryAvailability_values_def)
qed (simp_all add: TelemetryAvailability_values_def)

section \<open>\<open>UsefulWorkState\<close>\<close>

fun UsefulWorkState_text :: "UsefulWorkState \<Rightarrow> string" where
  "UsefulWorkState_text UsefulWorkUnknown = ''UNKNOWN''"
| "UsefulWorkState_text UsefulWorkConfirmed = ''CONFIRMED''"
| "UsefulWorkState_text UsefulWorkNotConfirmed = ''NOT_CONFIRMED''"
| "UsefulWorkState_text (UsefulWorkOther s) = s"

definition UsefulWorkState_values :: "UsefulWorkState list" where
  "UsefulWorkState_values = [UsefulWorkUnknown, UsefulWorkConfirmed, UsefulWorkNotConfirmed]"

definition UsefulWorkState_of :: "string \<Rightarrow> UsefulWorkState" where
  "UsefulWorkState_of s = enum_of UsefulWorkState_text UsefulWorkState_values UsefulWorkOther s"

interpretation useful_work_state: string_enum UsefulWorkState_text UsefulWorkState_values UsefulWorkOther
proof
  show "x \<in> set UsefulWorkState_values \<or> (\<exists>s. x = UsefulWorkOther s)" for x by (cases x) (simp_all add: UsefulWorkState_values_def)
qed (simp_all add: UsefulWorkState_values_def)

section \<open>\<open>UpstreamState\<close>\<close>

fun UpstreamState_text :: "UpstreamState \<Rightarrow> string" where
  "UpstreamState_text UpstreamUnknown = ''UNKNOWN''"
| "UpstreamState_text UpstreamConnected = ''CONNECTED''"
| "UpstreamState_text UpstreamDisconnected = ''DISCONNECTED''"
| "UpstreamState_text (UpstreamOther s) = s"

definition UpstreamState_values :: "UpstreamState list" where
  "UpstreamState_values = [UpstreamUnknown, UpstreamConnected, UpstreamDisconnected]"

definition UpstreamState_of :: "string \<Rightarrow> UpstreamState" where
  "UpstreamState_of s = enum_of UpstreamState_text UpstreamState_values UpstreamOther s"

interpretation upstream_state: string_enum UpstreamState_text UpstreamState_values UpstreamOther
proof
  show "x \<in> set UpstreamState_values \<or> (\<exists>s. x = UpstreamOther s)" for x by (cases x) (simp_all add: UpstreamState_values_def)
qed (simp_all add: UpstreamState_values_def)

section \<open>\<open>EvidenceConfidence\<close>\<close>

fun EvidenceConfidence_text :: "EvidenceConfidence \<Rightarrow> string" where
  "EvidenceConfidence_text EvidenceConfidenceUnknown = ''UNKNOWN''"
| "EvidenceConfidence_text EvidenceConfidenceAdapterReported = ''ADAPTER_REPORTED''"
| "EvidenceConfidence_text EvidenceConfidenceUpstreamVerified = ''UPSTREAM_VERIFIED''"
| "EvidenceConfidence_text (EvidenceConfidenceOther s) = s"

definition EvidenceConfidence_values :: "EvidenceConfidence list" where
  "EvidenceConfidence_values = [EvidenceConfidenceUnknown, EvidenceConfidenceAdapterReported, EvidenceConfidenceUpstreamVerified]"

definition EvidenceConfidence_of :: "string \<Rightarrow> EvidenceConfidence" where
  "EvidenceConfidence_of s = enum_of EvidenceConfidence_text EvidenceConfidence_values EvidenceConfidenceOther s"

interpretation evidence_confidence: string_enum EvidenceConfidence_text EvidenceConfidence_values EvidenceConfidenceOther
proof
  show "x \<in> set EvidenceConfidence_values \<or> (\<exists>s. x = EvidenceConfidenceOther s)" for x by (cases x) (simp_all add: EvidenceConfidence_values_def)
qed (simp_all add: EvidenceConfidence_values_def)

section \<open>\<open>MinerHealth\<close>\<close>

fun MinerHealth_text :: "MinerHealth \<Rightarrow> string" where
  "MinerHealth_text MinerHealthStarting = ''STARTING''"
| "MinerHealth_text MinerHealthHealthy = ''HEALTHY''"
| "MinerHealth_text MinerHealthMining = ''MINING''"
| "MinerHealth_text MinerHealthDegraded = ''DEGRADED''"
| "MinerHealth_text MinerHealthError = ''ERROR''"
| "MinerHealth_text (MinerHealthOther s) = s"

definition MinerHealth_values :: "MinerHealth list" where
  "MinerHealth_values = [MinerHealthStarting, MinerHealthHealthy, MinerHealthMining, MinerHealthDegraded, MinerHealthError]"

definition MinerHealth_of :: "string \<Rightarrow> MinerHealth" where
  "MinerHealth_of s = enum_of MinerHealth_text MinerHealth_values MinerHealthOther s"

interpretation miner_health: string_enum MinerHealth_text MinerHealth_values MinerHealthOther
proof
  show "x \<in> set MinerHealth_values \<or> (\<exists>s. x = MinerHealthOther s)" for x by (cases x) (simp_all add: MinerHealth_values_def)
qed (simp_all add: MinerHealth_values_def)

section \<open>\<open>ProcessResourceAttribution\<close>\<close>

fun ProcessResourceAttribution_text :: "ProcessResourceAttribution \<Rightarrow> string" where
  "ProcessResourceAttribution_text ProcessResourcesUnknown = ''UNKNOWN''"
| "ProcessResourceAttribution_text ProcessResourcesExact = ''EXACT''"
| "ProcessResourceAttribution_text (ProcessResourcesOther s) = s"

definition ProcessResourceAttribution_values :: "ProcessResourceAttribution list" where
  "ProcessResourceAttribution_values = [ProcessResourcesUnknown, ProcessResourcesExact]"

definition ProcessResourceAttribution_of :: "string \<Rightarrow> ProcessResourceAttribution" where
  "ProcessResourceAttribution_of s = enum_of ProcessResourceAttribution_text ProcessResourceAttribution_values ProcessResourcesOther s"

interpretation process_resource_attribution: string_enum ProcessResourceAttribution_text ProcessResourceAttribution_values ProcessResourcesOther
proof
  show "x \<in> set ProcessResourceAttribution_values \<or> (\<exists>s. x = ProcessResourcesOther s)" for x by (cases x) (simp_all add: ProcessResourceAttribution_values_def)
qed (simp_all add: ProcessResourceAttribution_values_def)

section \<open>\<open>AgentState\<close>\<close>

fun AgentState_text :: "AgentState \<Rightarrow> string" where
  "AgentState_text AgentStateIdle = ''IDLE''"
| "AgentState_text AgentStateStarting = ''STARTING''"
| "AgentState_text AgentStateMining = ''MINING''"
| "AgentState_text AgentStateDegraded = ''DEGRADED''"
| "AgentState_text AgentStateError = ''ERROR''"
| "AgentState_text AgentStateMaintenance = ''MAINTENANCE''"
| "AgentState_text (AgentStateOther s) = s"

definition AgentState_values :: "AgentState list" where
  "AgentState_values = [AgentStateIdle, AgentStateStarting, AgentStateMining, AgentStateDegraded, AgentStateError, AgentStateMaintenance]"

definition AgentState_of :: "string \<Rightarrow> AgentState" where
  "AgentState_of s = enum_of AgentState_text AgentState_values AgentStateOther s"

interpretation agent_state: string_enum AgentState_text AgentState_values AgentStateOther
proof
  show "x \<in> set AgentState_values \<or> (\<exists>s. x = AgentStateOther s)" for x by (cases x) (simp_all add: AgentState_values_def)
qed (simp_all add: AgentState_values_def)

section \<open>\<open>MinerMode\<close>\<close>

fun MinerMode_text :: "MinerMode \<Rightarrow> string" where
  "MinerMode_text MinerModeMining = ''MINING''"
| "MinerMode_text MinerModeStress = ''STRESS''"
| "MinerMode_text MinerModeBenchmark = ''BENCHMARK''"
| "MinerMode_text (MinerModeOther s) = s"

definition MinerMode_values :: "MinerMode list" where
  "MinerMode_values = [MinerModeMining, MinerModeStress, MinerModeBenchmark]"

definition MinerMode_of :: "string \<Rightarrow> MinerMode" where
  "MinerMode_of s = enum_of MinerMode_text MinerMode_values MinerModeOther s"

interpretation miner_mode: string_enum MinerMode_text MinerMode_values MinerModeOther
proof
  show "x \<in> set MinerMode_values \<or> (\<exists>s. x = MinerModeOther s)" for x by (cases x) (simp_all add: MinerMode_values_def)
qed (simp_all add: MinerMode_values_def)

section \<open>\<open>RestartPolicy\<close>\<close>

fun RestartPolicy_text :: "RestartPolicy \<Rightarrow> string" where
  "RestartPolicy_text RestartNever = ''NEVER''"
| "RestartPolicy_text RestartOnFailure = ''ON_FAILURE''"
| "RestartPolicy_text (RestartPolicyOther s) = s"

definition RestartPolicy_values :: "RestartPolicy list" where
  "RestartPolicy_values = [RestartNever, RestartOnFailure]"

definition RestartPolicy_of :: "string \<Rightarrow> RestartPolicy" where
  "RestartPolicy_of s = enum_of RestartPolicy_text RestartPolicy_values RestartPolicyOther s"

interpretation restart_policy: string_enum RestartPolicy_text RestartPolicy_values RestartPolicyOther
proof
  show "x \<in> set RestartPolicy_values \<or> (\<exists>s. x = RestartPolicyOther s)" for x by (cases x) (simp_all add: RestartPolicy_values_def)
qed (simp_all add: RestartPolicy_values_def)

section \<open>\<open>Code\<close> and \<open>IncidentSeverity\<close>\<close>

definition Code_values :: "Code list" where
  "Code_values = [MISSING_DEPENDENCY, MISSING_COMMAND, MISSING_WALLET, MISSING_POOL, PACKAGE_NOT_INSTALLED, PACKAGE_HASH_MISMATCH, 
     INCOMPATIBLE_HARDWARE, INSUFFICIENT_DISK, SERVICE_NOT_READY, RPC_UNREACHABLE, TELEMETRY_UNKNOWN, 
     TELEMETRY_UNAVAILABLE, TELEMETRY_STALE, USEFUL_WORK_NOT_CONFIRMED, POOL_UNREACHABLE, STARTUP_TIMEOUT, 
     ZERO_HASHRATE, TOO_MANY_REJECTS, PERMISSION_DENIED, PORT_CONFLICT, PROCESS_CRASHED, MAINTENANCE_HOLD, 
     UNMANAGED_PROCESS_CONFLICT, UNMANAGED_OBSERVATION_FAILED, CONFIG_CONFLICT, SIGNATURE_INVALID, 
     PROTOCOL_VERSION_MISMATCH, SCHEMA_VERSION_MISMATCH, PAIRING_REQUIRED, PAIRING_TOKEN_INVALID, 
     PAIRING_TOKEN_EXPIRED, CONTROLLER_IDENTITY_MISMATCH, TLS_CREDENTIALS_REQUIRED, TLS_FINGERPRINT_MISMATCH, 
     TLS_IDENTITY_MISMATCH, CERTIFICATE_EXPIRED, NOT_FOUND, ALREADY_EXISTS, REVISION_CONFLICT, REFERENCE_IN_USE, 
     INVALID_REFERENCE, INTERNAL_ERROR, BACKUP_CREATED, BACKUP_SKIPPED_UNCHANGED, BACKUP_FAILED, 
     BACKUP_CORRUPT, BACKUP_BUSY, RESTORE_VALIDATION_FAILED, RESTORE_RECONCILIATION_REQUIRED, RESTORE_IDENTITY_MISMATCH
     ]"

definition Code_of :: "string \<Rightarrow> Code" where
  "Code_of s = enum_of Code_text Code_values CodeOther s"

interpretation code: string_enum Code_text Code_values CodeOther
proof
  show "x \<in> set Code_values \<or> (\<exists>s. x = CodeOther s)" for x by (cases x) (simp_all add: Code_values_def)
  show "distinct (map Code_text Code_values)" by (simp add: Code_values_def)
qed simp

lemma ValidCode_iff: "ValidCode c \<longleftrightarrow> c = NoCode \<or> c \<in> set Code_values"
  by (cases c) (simp_all add: Code_values_def)

lemma valid_code_round: "ValidCode c \<Longrightarrow> Code_of (Code_text c) = c"
proof -
  have "[] \<notin> Code_text ` set Code_values" by (simp add: Code_values_def)
  then show "ValidCode c \<Longrightarrow> Code_of (Code_text c) = c"
    using code.enum_round[of c] by (auto simp: Code_of_def ValidCode_iff)
qed

fun IncidentSeverity_text :: "IncidentSeverity \<Rightarrow> string" where
  "IncidentSeverity_text IncidentSeverityInfo = ''INFO''"
| "IncidentSeverity_text IncidentSeverityWarning = ''WARNING''"
| "IncidentSeverity_text IncidentSeverityError = ''ERROR''"
| "IncidentSeverity_text IncidentSeverityCritical = ''CRITICAL''"
| "IncidentSeverity_text (IncidentSeverityOther s) = s"

end
