(* ===== verification/Reconcile_Incidents.thy ===== *)
theory Reconcile_Incidents
  imports Reconcile_Coordinator Model_Texts
begin

text \<open>
  The incident part of \<open>internal/reconcile/coordinator.go\<close>: one evaluator per Host, asked for through a
  pending flag, that evaluates the Host outside of all locks and records the outcome under the lock of the
  Host, if what it saw still holds there.
\<close>

section \<open>Signatures\<close>

definition incidentEvaluationSignature :: "Evaluation \<Rightarrow> string" where
  "incidentEvaluationSignature evaluation =
     concat (map (\<lambda>c. IncidentID_String (ic_IncidentID c) @ ''|'' @ IncidentSeverity_text (ic_Severity c) @ '';'')
       (ev_Conditions evaluation))
     @ concat (map (\<lambda>kind. IncidentType_text kind @ '';'') (filter (ev_ResolvableTypes evaluation) allTypes))"

definition execution_signature :: "ExecutionObservation \<Rightarrow> string" where
  "execution_signature e = ''|'' @ ExecutionID_String (ex_ExecutionID e) @ ''|'' @ ExecutionStatus_text (ex_Status e)
     @ (case ex_UsefulWork e of
          None \<Rightarrow> []
        | Some u \<Rightarrow> ''|'' @ TelemetryAvailability_text (uw_Availability u) @ ''|'' @ UsefulWorkState_text (uw_UsefulWork u)
            @ ''|'' @ Code_text (uw_ReasonCode u))"

definition observationAuthoritySignature :: "HostObservation \<Rightarrow> bool \<Rightarrow> string" where
  "observationAuthoritySignature observed exists =
     (if \<not> exists then ''absent''
      else HostID_String (ho_HostID observed) @ ''|'' @ AgentID_String (ho_AgentID observed) @ ''|''
        @ dec_digits (unat (ho_ConnectionEpoch observed)) @ ''|'' @ FormatBool (ho_Connected observed) @ ''|''
        @ FormatBool (ho_Ready observed) @ ''|'' @ FormatBool (ho_Fresh observed) @ ''|''
        @ FormatBool (ho_InventoryFresh observed) @ ''|'' @ FormatBool (ho_ProcessesFresh observed) @ ''|''
        @ dec_digits (unat (ho_Revision observed)) @ concat (map execution_signature (ho_Executions observed)))"

section \<open>The queue\<close>

text \<open>\<open>startWorker\<close> for an evaluator; a refused evaluator takes both flags down again.\<close>

definition queueIncidentEvaluation :: "HostID \<Rightarrow> (World, unit) state" where
  "queueIncidentEvaluation host = State_Monad.update (\<lambda>w.
     let w1 = w\<lparr>w_incidentPending := (w_incidentPending w)(host := True)\<rparr>
     in if w_incidentRunning w host then w1
        else if w_closing w
        then w1\<lparr>w_incidentRunning := (w_incidentRunning w)(host := False), w_incidentPending := (w_incidentPending w)(host := False)\<rparr>
        else w1\<lparr>w_incidentRunning := (w_incidentRunning w)(host := True), w_evaluators := w_evaluators w @ [host]\<rparr>)"

text \<open>The two critical sections of the evaluator's loop around \<open>evaluateIncidents\<close>. The first ends the loop
  when the context is cancelled, the second when nothing was asked for meanwhile; they return whether the loop
  goes on.\<close>

definition evaluator_enter :: "HostID \<Rightarrow> (World, bool) state" where
  "evaluator_enter host = State (\<lambda>w.
     if w_closing w
     then (False, w\<lparr>w_incidentRunning := (w_incidentRunning w)(host := False), w_incidentPending := (w_incidentPending w)(host := False)\<rparr>)
     else (True, w\<lparr>w_incidentPending := (w_incidentPending w)(host := False)\<rparr>))"

definition evaluator_leave :: "HostID \<Rightarrow> (World, bool) state" where
  "evaluator_leave host = State (\<lambda>w.
     if w_incidentPending w host then (True, w)
     else (False, w\<lparr>w_incidentRunning := (w_incidentRunning w)(host := False)\<rparr>))"

section \<open>Evaluation\<close>

fun workload_facts_of :: "HostID \<Rightarrow> DesiredWorkload list \<Rightarrow> (World, WorkloadFacts list option) state" where
  "workload_facts_of host [] = State_Monad.return (Some [])"
| "workload_facts_of host (workload # rest) =
     (if dw_HostID (dw_Content workload) \<noteq> host then workload_facts_of host rest
      else do {
        snapshot \<leftarrow> query (\<lambda>sv db. GetCurrentResolvedSnapshot sv (dw_WorkloadID workload) db);
        if (case snapshot of Inl e \<Rightarrow> fst (CodeOf e) \<noteq> NOT_FOUND | Inr s \<Rightarrow> False) then State_Monad.return None
        else do {
          binding \<leftarrow> query (\<lambda>sv db. GetWorkloadRuntimeBinding (dw_WorkloadID workload) db);
          case binding of
            Inl e \<Rightarrow> State_Monad.return None
          | Inr latched \<Rightarrow> do {
              facts \<leftarrow> workload_facts_of host rest;
              State_Monad.return (map_option (\<lambda>fs. \<lparr>wf_Workload = workload,
                wf_Current = (case snapshot of Inl e \<Rightarrow> None | Inr s \<Rightarrow> Some s), wf_Binding = latched\<rparr> # fs) facts)
            }
        }
      })"

text \<open>What the evaluation of a Host hands to the section that records it.\<close>

record evaluated =
  el_authority :: string
  el_hold :: "MaintenanceHold option"
  el_observed :: HostObservation
  el_hasObserved :: bool
  el_evaluation :: Evaluation
  el_signature :: string
  el_now :: Time

definition incidentTouchInterval :: Duration where
  "incidentTouchInterval = 30 * 1000000000"

text \<open>The facts of the Host, read between two readings of the authority; \<open>None\<close> when a read fails.\<close>

definition gather_facts ::
  "HostID \<Rightarrow> (World, (string \<times> string \<times> WorkloadFacts list \<times> ResolvedExecutionSnapshot list \<times> MaintenanceHold option) option) state" where
  "gather_facts host = do {
     authority \<leftarrow> query (\<lambda>sv db. IncidentAuthority db host);
     case authority of
       Inl e \<Rightarrow> State_Monad.return None
     | Inr a \<Rightarrow> do {
         listed \<leftarrow> query (\<lambda>sv db. ListDesiredWorkloads db);
         case listed of
           Inl e \<Rightarrow> State_Monad.return None
         | Inr workloads \<Rightarrow> do {
             all \<leftarrow> query (\<lambda>sv db. ListAllResolvedSnapshots sv db);
             case all of
               Inl e \<Rightarrow> State_Monad.return None
             | Inr snapshots \<Rightarrow> do {
                 facts \<leftarrow> workload_facts_of host workloads;
                 case facts of
                   None \<Rightarrow> State_Monad.return None
                 | Some fs \<Rightarrow> do {
                     hold \<leftarrow> query (\<lambda>sv db. GetMaintenanceHold host db);
                     case hold of
                       Inl e \<Rightarrow> State_Monad.return None
                     | Inr (h, exists) \<Rightarrow> do {
                         again \<leftarrow> query (\<lambda>sv db. IncidentAuthority db host);
                         State_Monad.return (case again of
                           Inl e \<Rightarrow> None
                         | Inr a' \<Rightarrow> Some (a, a', fs, snapshots, if exists then Some h else None))
                       }
                   }
               }
           }
       }
   }"

text \<open>The part of \<open>evaluateIncidents\<close> before it takes the lock of the Host.\<close>

definition evaluate_begin :: "HostID \<Rightarrow> (World, evaluated option) state" where
  "evaluate_begin host = do {
     gathered \<leftarrow> gather_facts host;
     case gathered of
       None \<Rightarrow> State_Monad.return None
     | Some (authority, current, facts, snapshots, hold) \<Rightarrow>
         if current \<noteq> authority then do { queueIncidentEvaluation host; State_Monad.return None }
         else do {
           (observed, exists) \<leftarrow> observed_Get host;
           let evaluation = Evaluate \<lparr>ei_HostID = host, ei_Workloads = facts, ei_AllSnapshots = snapshots, ei_Hold = hold,
             ei_Observed = observed, ei_HasObserved = exists\<rparr>;
           let signature = incidentEvaluationSignature evaluation;
           now \<leftarrow> time_now;
           w \<leftarrow> State_Monad.get;
           State_Monad.return (
             if fst (w_incidentEvaluations w host) = signature
               \<and> time_Sub now (snd (w_incidentEvaluations w host)) < incidentTouchInterval then None
             else Some \<lparr>el_authority = authority, el_hold = hold, el_observed = observed, el_hasObserved = exists,
               el_evaluation = evaluation, el_signature = signature, el_now = now\<rparr>)
         }
   }"

text \<open>The part under the lock of the Host.\<close>

definition evaluate_end :: "HostID \<Rightarrow> evaluated \<Rightarrow> (World, unit) state" where
  "evaluate_end host el = do {
     (observed, exists) \<leftarrow> observed_Get host;
     if observationAuthoritySignature (el_observed el) (el_hasObserved el) \<noteq> observationAuthoritySignature observed exists
     then queueIncidentEvaluation host
     else do {
       hold \<leftarrow> query (\<lambda>sv db. GetMaintenanceHold host db);
       if (case hold of
            Inl e \<Rightarrow> True
          | Inr (h, found) \<Rightarrow> found \<noteq> (el_hold el \<noteq> None)
              \<or> found \<and> (case el_hold el of
                  None \<Rightarrow> True
                | Some h0 \<Rightarrow> mh_Revision h \<noteq> mh_Revision h0 \<or> mh_Active h \<noteq> mh_Active h0))
       then queueIncidentEvaluation host
       else do {
         recorded \<leftarrow> commit (OpReconcileIncidents host (el_authority el) (ev_Conditions (el_evaluation el)) (ev_ResolvableTypes (el_evaluation el)))
           (\<lambda>sv db. ReconcileIncidents sv host (el_authority el) (ev_Conditions (el_evaluation el)) (ev_ResolvableTypes (el_evaluation el)) db);
         case recorded of
           Inl e \<Rightarrow> if fst (CodeOf e) = REVISION_CONFLICT then queueIncidentEvaluation host else State_Monad.return ()
         | Inr u \<Rightarrow> State_Monad.update (\<lambda>w.
             w\<lparr>w_incidentEvaluations := (w_incidentEvaluations w)(host := (el_signature el, el_now el))\<rparr>)
       }
     }
   }"

end
