(* ===== verification/Reconcile_Moves.thy ===== *)
theory Reconcile_Moves
  imports Reconcile_Incidents
begin

text \<open>
  The coordinator as a machine. A move is one critical section, or one read that the code makes outside of
  its locks; what a goroutine still has to do is a task. The network layer may report anything at any time.
  The authority lock of a Host is the condition under which a reconciliation or a change of its hold may
  begin: reconciliations share it, a change of the hold excludes both.
\<close>

section \<open>Tasks\<close>

datatype Task =
    Recheck preparedDispatch                    \<comment> \<open>a reserved action, before its last check\<close>
  | Look preparedDispatch DesiredWorkload       \<comment> \<open>the store was read, the observation not yet\<close>
  | Confirm preparedDispatch DesiredWorkload    \<comment> \<open>before the last reads of the store\<close>
  | Unreserve ActionKey                         \<comment> \<open>the check failed\<close>
  | Send preparedDispatch                       \<comment> \<open>before \<open>SendRuntime\<close>\<close>
  | Note ActionKey uint64                       \<comment> \<open>sent; the sequence number is not recorded yet\<close>
  | Lose SessionInfo HostID                     \<comment> \<open>\<open>SendRuntime\<close> failed\<close>
  | SendHold HostID MaintenanceHold "SessionInfo option"
  | Enter HostID                                \<comment> \<open>an evaluator at the head of its loop\<close>
  | Evaluating HostID
  | Persist HostID evaluated
  | Leave HostID

text \<open>The Host whose authority lock a task holds for reading, and for writing.\<close>

fun reads_authority :: "Task \<Rightarrow> HostID option" where
  "reads_authority (Recheck d) = Some (ak_HostID (ac_Key (pd_Action d)))"
| "reads_authority (Look d w) = Some (ak_HostID (ac_Key (pd_Action d)))"
| "reads_authority (Confirm d w) = Some (ak_HostID (ac_Key (pd_Action d)))"
| "reads_authority (Unreserve k) = Some (ak_HostID k)"
| "reads_authority (Send d) = Some (ak_HostID (ac_Key (pd_Action d)))"
| "reads_authority (Note k q) = Some (ak_HostID k)"
| "reads_authority (Lose info host) = Some host"
| "reads_authority _ = None"

fun writes_authority :: "Task \<Rightarrow> HostID option" where
  "writes_authority (SendHold host h s) = Some host"
| "writes_authority _ = None"

record Ctl =
  ct_world :: World
  ct_tasks :: "Task list"

definition shared_ok :: "HostID \<Rightarrow> Ctl \<Rightarrow> bool" where
  "shared_ok host c \<longleftrightarrow> \<not> list_ex (\<lambda>t. writes_authority t = Some host) (ct_tasks c)"

definition exclusive_ok :: "HostID \<Rightarrow> Ctl \<Rightarrow> bool" where
  "exclusive_ok host c \<longleftrightarrow> \<not> list_ex (\<lambda>t. writes_authority t = Some host \<or> reads_authority t = Some host) (ct_tasks c)"

section \<open>Moves\<close>

text \<open>How the network layer ended a send: with the sequence number of the command, or with an error.\<close>

datatype Delivery = Delivered uint64 | Undelivered error

datatype Move =
    MReconcile HostID
  | MQueue HostID
  | MTask nat Delivery
  | MHold HostID uint64 bool string
  | MConnected SessionInfo
  | MDisconnected SessionInfo
  | MExecutions SessionInfo "ExecutionObservation list" uint64
  | MInventory SessionInfo Inventory
  | MProcesses SessionInfo "UnmanagedProcessObservation list"
  | MStatus SessionInfo AgentState
  | MReady SessionInfo
  | MResult SessionInfo RuntimeRequest "ExecutionObservation option" "Error option"
  | MRetry WorkloadID uint64
  | MDelete WorkloadID uint64
  | MOthers
  | MShutdown

text \<open>Run a computation; the evaluators it started become tasks.\<close>

definition run_in :: "(World, 'a) state \<Rightarrow> ('a \<Rightarrow> Task list) \<Rightarrow> Task list \<Rightarrow> Ctl \<Rightarrow> Ctl" where
  "run_in m next_tasks others c =
     (let (x, w) = run_state m (ct_world c)
      in \<lparr>ct_world = w\<lparr>w_evaluators := []\<rparr>, ct_tasks = others @ next_tasks x @ map Enter (w_evaluators w)\<rparr>)"

definition run_unit :: "(World, unit) state \<Rightarrow> Task list \<Rightarrow> Ctl \<Rightarrow> Ctl" where
  "run_unit m others c = run_in m (\<lambda>_. []) others c"

fun run_task :: "Task \<Rightarrow> Delivery \<Rightarrow> Task list \<Rightarrow> Ctl \<Rightarrow> Ctl" where
  "run_task (Recheck d) dl others c = run_in (still_desired (pd_Action d))
     (\<lambda>r. case r of None \<Rightarrow> [Unreserve (ac_Key (pd_Action d))] | Some w \<Rightarrow> [Look d w]) others c"
| "run_task (Look d latest) dl others c = run_in (still_observed (pd_Action d) (pd_Observed d))
     (\<lambda>ok. if ok then [Confirm d latest] else [Unreserve (ac_Key (pd_Action d))]) others c"
| "run_task (Confirm d latest) dl others c = run_in (still_startable (pd_Action d) latest)
     (\<lambda>ok. if ok then [Send d] else [Unreserve (ac_Key (pd_Action d))]) others c"
| "run_task (Unreserve k) dl others c = run_unit (clearReservedAction k) others c"
| "run_task (Send d) dl others c = (case dl of
     Delivered q \<Rightarrow> c\<lparr>ct_tasks := others @ [Note (ac_Key (pd_Action d)) q]\<rparr>
   | Undelivered e \<Rightarrow> c\<lparr>ct_tasks := others @ [Lose (pd_Session d) (ak_HostID (ac_Key (pd_Action d)))]\<rparr>)"
| "run_task (Note k q) dl others c = run_unit (setDispatchSequence k q) others c"
| "run_task (Lose info host) dl others c = run_unit (SessionDisconnected info) others c"
| "run_task (SendHold host hold session) dl others c =
     run_in (SetMaintenanceHold_end host hold session (case dl of Delivered q \<Rightarrow> None | Undelivered e \<Rightarrow> Some e)) (\<lambda>_. []) others c"
| "run_task (Enter host) dl others c =
     run_in (evaluator_enter host) (\<lambda>go. if go then [Evaluating host] else []) others c"
| "run_task (Evaluating host) dl others c =
     run_in (evaluate_begin host) (\<lambda>r. case r of None \<Rightarrow> [Leave host] | Some el \<Rightarrow> [Persist host el]) others c"
| "run_task (Persist host el) dl others c = run_in (evaluate_end host el) (\<lambda>_. [Leave host]) others c"
| "run_task (Leave host) dl others c =
     run_in (evaluator_leave host) (\<lambda>go. if go then [Enter host] else []) others c"

definition without :: "nat \<Rightarrow> 'a list \<Rightarrow> 'a list" where
  "without n xs = take n xs @ drop (Suc n) xs"

fun move :: "Move \<Rightarrow> Ctl \<Rightarrow> Ctl option" where
  "move (MReconcile host) c = (if shared_ok host c
     then Some (run_in (prepareDispatchLocked host) (\<lambda>r. case r of None \<Rightarrow> [] | Some d \<Rightarrow> [Recheck d]) (ct_tasks c) c)
     else None)"
| "move (MQueue host) c = Some (run_unit (queueIncidentEvaluation host) (ct_tasks c) c)"
| "move (MTask n dl) c = (if n < length (ct_tasks c)
     then Some (run_task (ct_tasks c ! n) dl (without n (ct_tasks c)) c) else None)"
| "move (MHold host expected active reason) c = (if exclusive_ok host c
     then Some (run_in (SetMaintenanceHold_begin host expected active reason)
       (\<lambda>r. case r of Inl e \<Rightarrow> [] | Inr (h, s) \<Rightarrow> [SendHold host h s]) (ct_tasks c) c)
     else None)"
| "move (MConnected info) c = Some (run_unit (SessionConnected info) (ct_tasks c) c)"
| "move (MDisconnected info) c = Some (run_unit (SessionDisconnected info) (ct_tasks c) c)"
| "move (MExecutions info es q) c = Some (run_unit (ExecutionsObserved info es q) (ct_tasks c) c)"
| "move (MInventory info iv) c = Some (run_unit (InventoryObserved info iv) (ct_tasks c) c)"
| "move (MProcesses info ps) c = Some (run_unit (ProcessesObserved info ps) (ct_tasks c) c)"
| "move (MStatus info st) c = Some (run_unit (StatusObserved info st) (ct_tasks c) c)"
| "move (MReady info) c = Some (run_unit (SessionReady info) (ct_tasks c) c)"
| "move (MResult info request execution err) c = Some (run_unit (RuntimeResult info request execution err) (ct_tasks c) c)"
| "move (MRetry i n) c = Some (run_in (coordinator_RetryWorkload i n) (\<lambda>_. []) (ct_tasks c) c)"
| "move (MDelete i n) c = Some (run_in (delete_section i n) (\<lambda>_. []) (ct_tasks c) c)"
| "move MOthers c = Some (run_in turn (\<lambda>_. []) (ct_tasks c) c)"
| "move MShutdown c = Some (run_unit Shutdown_begin (ct_tasks c) c)"

fun moves :: "Move list \<Rightarrow> Ctl \<Rightarrow> Ctl option" where
  "moves [] c = Some c"
| "moves (m # ms) c = (case move m c of None \<Rightarrow> None | Some c' \<Rightarrow> moves ms c')"

text \<open>A Controller that has just started: no session, no action in flight, no evaluator.\<close>

definition NewCoordinator :: "DB \<Rightarrow> Duration \<Rightarrow> (nat \<Rightarrow> Turn) \<Rightarrow> Ctl" where
  "NewCoordinator db timeout turns = \<lparr>ct_world = \<lparr>w_db = db, w_observed = NewWithOptions timeout, w_inFlight = [],
     w_workers = [], w_closing = False, w_incidentRunning = (\<lambda>_. False), w_incidentPending = (\<lambda>_. False),
     w_evaluators = [], w_incidentEvaluations = (\<lambda>_. ([], 0)), w_turns = turns, w_turn = 0, w_calls = []\<rparr>,
     ct_tasks = []\<rparr>"

lemma moves_append: "moves (as @ bs) c = (case moves as c of None \<Rightarrow> None | Some c' \<Rightarrow> moves bs c')"
  by (induction as arbitrary: c) (auto split: option.split)

lemma moves_induct [consumes 1, case_names start step]:
  assumes "moves ms c = Some c'" and "P [] c"
    and "\<And>ms d m d'. moves ms c = Some d \<Longrightarrow> P ms d \<Longrightarrow> move m d = Some d' \<Longrightarrow> P (ms @ [m]) d'"
  shows "P ms c'"
  using assms(1)
proof (induction ms arbitrary: c' rule: rev_induct)
  case Nil
  then show ?case using assms(2) by simp
next
  case (snoc m ms)
  then obtain d where "moves ms c = Some d" "move m d = Some c'"
    by (auto simp: moves_append split: option.splits)
  then show ?case using snoc.IH assms(3) by blast
qed

end
