(* ===== verification/Reconcile_Frames.thy ===== *)
theory Reconcile_Frames
  imports Reconcile_Moves Store_Frames "HOL-Library.Sublist"
begin

text \<open>
  What the computations of the coordinator leave alone. A computation is calm when it does not touch the
  table of actions in flight and changes the database only by logged calls of the kinds \<open>A\<close>; it is lax when
  it may also drop entries of that table or change their sequence numbers. Every computation but the
  reservation of an action is one or the other.
\<close>

section \<open>Relations\<close>

definition logs :: "(StoreOp \<Rightarrow> bool) \<Rightarrow> World \<Rightarrow> World \<Rightarrow> bool" where
  "logs A w w' \<longleftrightarrow> w_turns w' = w_turns w \<and> (store_inv (w_observed w) \<longrightarrow> store_inv (w_observed w'))
     \<and> (\<exists>cs. w_calls w' = w_calls w @ cs \<and> w_db w' = after_calls cs (w_db w)
         \<and> ((\<forall>n. \<forall>c\<in>set (tn_others (w_turns w n)). A (snd c)) \<longrightarrow> (\<forall>c\<in>set cs. A (snd c))))"

definition slots :: "World \<Rightarrow> (HostID \<times> uint64) list" where
  "slots w = map (\<lambda>(k, q). (ak_HostID k, ak_ConnectionEpoch k)) (w_inFlight w)"

definition calm :: "(StoreOp \<Rightarrow> bool) \<Rightarrow> World \<Rightarrow> World \<Rightarrow> bool" where
  "calm A w w' \<longleftrightarrow> logs A w w' \<and> w_inFlight w' = w_inFlight w"

definition lax :: "(StoreOp \<Rightarrow> bool) \<Rightarrow> World \<Rightarrow> World \<Rightarrow> bool" where
  "lax A w w' \<longleftrightarrow> logs A w w' \<and> subseq (slots w') (slots w)"

lemma logs_same: "logs A w w"
  unfolding logs_def by (auto intro: exI[of _ "[]"])

lemma logs_trans:
  assumes "logs A u v" and "logs A v w"
  shows "logs A u w"
proof -
  obtain as bs where a: "w_calls v = w_calls u @ as" "w_db v = after_calls as (w_db u)"
    "(\<forall>n. \<forall>c\<in>set (tn_others (w_turns u n)). A (snd c)) \<Longrightarrow> \<forall>c\<in>set as. A (snd c)"
    and b: "w_calls w = w_calls v @ bs" "w_db w = after_calls bs (w_db v)"
    "(\<forall>n. \<forall>c\<in>set (tn_others (w_turns u n)). A (snd c)) \<Longrightarrow> \<forall>c\<in>set bs. A (snd c)"
    using assms unfolding logs_def by metis
  have "w_calls w = w_calls u @ as @ bs" "w_db w = after_calls (as @ bs) (w_db u)"
    by (simp_all add: a(1,2) b(1,2))
  moreover have "(\<forall>n. \<forall>c\<in>set (tn_others (w_turns u n)). A (snd c)) \<longrightarrow> (\<forall>c\<in>set (as @ bs). A (snd c))"
    using a(3) b(3) by (metis Un_iff set_append)
  moreover have "w_turns w = w_turns u" "store_inv (w_observed u) \<longrightarrow> store_inv (w_observed w)"
    using assms by (simp_all add: logs_def)
  ultimately show ?thesis unfolding logs_def by blast
qed

lemma logs_any: "logs A w w' \<Longrightarrow> logs (\<lambda>_. True) w w'"
  unfolding logs_def by blast

lemma calm_same: "calm A w w"
  by (simp add: calm_def logs_same)

lemma lax_same: "lax A w w"
  by (simp add: lax_def logs_same)

lemma calm_trans: "calm A u v \<Longrightarrow> calm A v w \<Longrightarrow> calm A u w"
  by (auto simp: calm_def intro: logs_trans)

lemma lax_trans: "lax A u v \<Longrightarrow> lax A v w \<Longrightarrow> lax A u w"
  by (auto simp: lax_def intro: logs_trans subseq_order.trans)

lemma lax_any: "lax A w w' \<Longrightarrow> lax (\<lambda>_. True) w w'"
  by (auto simp: lax_def intro: logs_any)

interpretation calms: frame "calm A" for A
  by unfold_locales (blast intro: calm_same calm_trans)+

interpretation laxs: frame "lax A" for A
  by unfold_locales (blast intro: lax_same lax_trans)+

lemma calm_lax: "stays (calm A) m \<Longrightarrow> stays (lax A) m"
  by (auto simp: state_io_rel_def calm_def lax_def slots_def)

lemma run_state_update [simp]: "run_state (State_Monad.update f) s = ((), f s)"
  by (simp add: State_Monad.update_def)

lemma stays_State: "(\<And>s. R s (snd (f s))) \<Longrightarrow> stays R (State f)"
  by (simp add: state_io_rel_def)

lemma stays_update: "(\<And>s. R s (f s)) \<Longrightarrow> stays R (State_Monad.update f)"
  by (simp add: state_io_rel_def)

lemma stays_get: "(\<And>s. R s s) \<Longrightarrow> stays R State_Monad.get"
  by (simp add: state_io_rel_def)

section \<open>Calls\<close>

named_theorems calm_rules \<open>computations that are calm\<close>
named_theorems lax_rules \<open>computations that are lax\<close>

lemmas calm_steps = calms.steps stays_get[of "calm _", OF calm_same]
lemmas lax_steps = laxs.steps stays_get[of "lax _", OF lax_same]

lemma calm_turn [calm_rules]: "stays (calm A) turn"
  unfolding turn_def by (rule stays_State) (auto simp: calm_def logs_def Let_def)

lemma calm_query [calm_rules]: "stays (calm A) (query f)"
  unfolding query_def by (intro calm_steps calm_rules)

lemma calm_observe:
  assumes "\<And>s clk. store_inv s \<Longrightarrow> store_inv (fst (f s clk))"
  shows "stays (calm A) (observe f)"
  unfolding observe_def
  by (intro calm_steps calm_rules stays_State)
    (use assms in \<open>auto simp: calm_def logs_def Let_def case_prod_beta intro!: exI[of _ "[]"]\<close>)

lemma calm_observations [calm_rules]:
  "stays (calm A) (observe (\<lambda>s clk. Get s clk h))"
  "stays (calm A) (observe (\<lambda>s clk. Connect s a h ep))"
  "stays (calm A) (observe (\<lambda>s clk. SetExecutions s clk h ep xs t q))"
  "stays (calm A) (observe (\<lambda>s clk. SetInventory s clk h ep iv))"
  "stays (calm A) (observe (\<lambda>s clk. SetUnmanagedProcesses s clk h ep ps t))"
  "stays (calm A) (observe (\<lambda>s clk. SetAgentState s h ep st))"
  "stays (calm A) (observe (\<lambda>s clk. MarkReady s h ep))"
  "stays (calm A) (observe (\<lambda>s clk. RequireFreshBootstrap s h ep))"
  "stays (calm A) (observe (\<lambda>s clk. UpsertExecution s clk h ep x t q))"
  "stays (calm A) (observe (\<lambda>s clk. Disconnect s h ep))"
  by (rule calm_observe, simp add: store_inv_ops store_inv_Get store_inv_Connect)+

lemma calm_time_now [calm_rules]: "stays (calm A) time_now"
  unfolding time_now_def by (intro calm_steps calm_rules)

lemma calm_Session [calm_rules]: "stays (calm A) (commander_Session host)"
  unfolding commander_Session_def by (intro calm_steps calm_rules)

lemma calm_Get [calm_rules]: "stays (calm A) (observed_Get host)"
  unfolding observed_Get_def by (intro calm_rules)

lemma calm_commit:
  assumes "A op" and "\<And>sv db. fst (f sv db) = perform sv op db"
  shows "stays (calm A) (commit op f)"
proof -
  have "calm A w (w\<lparr>w_db := fst (f sv (w_db w)), w_calls := w_calls w @ [(sv, op)]\<rparr>)" for w sv
    using assms by (auto simp: calm_def logs_def)
  then show ?thesis unfolding commit_def
    by (intro calm_steps calm_rules stays_State) (simp add: case_prod_beta Let_def)
qed

section \<open>The coordinator\<close>

lemma calm_schedule [calm_rules]: "stays (calm A) (scheduleReconcile host)"
  unfolding scheduleReconcile_def state_io_rel_def by (auto simp: calm_def logs_def intro: exI[of _ "[]"])

lemma calm_scheduleIf [calm_rules]: "stays (calm A) (scheduleIf c host)"
  unfolding scheduleIf_def by (intro calm_steps calm_rules)

lemma calm_still_desired [calm_rules]: "stays (calm A) (still_desired a)"
  unfolding still_desired_def by (intro calm_steps calm_rules)

lemma calm_still_observed [calm_rules]: "stays (calm A) (still_observed a obs)"
  unfolding still_observed_def by (intro calm_steps calm_rules)

lemma calm_still_startable [calm_rules]: "stays (calm A) (still_startable a w)"
  unfolding still_startable_def by (intro calm_steps calm_rules)

lemma calm_actionStillCurrent [calm_rules]: "stays (calm A) (actionStillCurrent a obs)"
  unfolding actionStillCurrent_def by (intro calm_steps calm_rules)

lemma calm_current_executions [calm_rules]: "stays (calm A) (current_executions is m)"
  by (induction "is" arbitrary: m) (auto intro!: calm_steps calm_rules)

text \<open>The calls that a reconciliation makes itself never change a hold.\<close>

abbreviation no_hold_call :: "StoreOp \<Rightarrow> bool" where
  "no_hold_call op \<equiv> hold_target op = None"

lemmas calm_commits [calm_rules] =
  calm_commit[of "\<lambda>op. no_hold_call op" "OpMarkRestoreHostConflict h b n" "\<lambda>sv db. MarkRestoreHostConflict sv h b n db" for h b n, simplified]
  calm_commit[of "\<lambda>op. no_hold_call op" "OpClearRestoreHostBarrier h b n" "\<lambda>sv db. ClearRestoreHostBarrier h b n db" for h b n, simplified]
  calm_commit[of "\<lambda>op. no_hold_call op" "OpRefreshResolvedSnapshotForInventory i iv" "\<lambda>sv db. RefreshResolvedSnapshotForInventory sv i iv db" for i iv, simplified]
  calm_commit[of "\<lambda>op. no_hold_call op" "OpBlockDesiredGeneration i g c m" "\<lambda>sv db. BlockDesiredGeneration sv i g c m db" for i g c m, simplified]
  calm_commit[of "\<lambda>op. no_hold_call op" "OpRetryWorkload i n" "\<lambda>sv db. RetryWorkload sv i n db" for i n, simplified]
  calm_commit[of "\<lambda>op. no_hold_call op" "OpDeleteDesiredWorkload i n" "\<lambda>sv db. DeleteDesiredWorkload sv i n db" for i n, simplified]
  calm_commit[of "\<lambda>op. no_hold_call op" "OpFinalizeRetiredDesiredWorkloadDeletion i n" "\<lambda>sv db. FinalizeRetiredDesiredWorkloadDeletion sv i n db" for i n, simplified]
  calm_commit[of "\<lambda>op. no_hold_call op" "OpReconcileIncidents h a cs rv" "\<lambda>sv db. ReconcileIncidents sv h a cs rv db" for h a cs rv, simplified]

lemma calm_applyRestoreBarrier [calm_rules]: "stays (calm no_hold_call) (applyRestoreBarrierLocked host obs)"
  unfolding applyRestoreBarrierLocked_def by (intro calm_steps calm_rules)

lemma calm_refreshed [calm_rules]: "stays (calm no_hold_call) (refreshed_workload obs w)"
  unfolding refreshed_workload_def by (intro calm_steps calm_rules)

lemma calm_current_snapshot [calm_rules]: "stays (calm A) (current_snapshot w)"
  unfolding current_snapshot_def by (intro calm_steps calm_rules)


section \<open>Everything but a reservation is lax\<close>

lemma lax_update:
  "(\<And>w. w_turns (f w) = w_turns w \<and> w_observed (f w) = w_observed w \<and> w_calls (f w) = w_calls w \<and> w_db (f w) = w_db w
     \<and> subseq (slots (f w)) (slots w)) \<Longrightarrow> stays (lax A) (State_Monad.update f)"
  by (rule stays_update) (auto simp: lax_def logs_def intro: exI[of _ "[]"])

lemma slots_filter: "subseq (slots (w\<lparr>w_inFlight := filter P (w_inFlight w)\<rparr>)) (slots w)"
  by (simp add: slots_def subseq_map)

lemma slots_renumber:
  "slots (w\<lparr>w_inFlight := map (\<lambda>(k, q). if k = key then (k, n) else (k, q)) (w_inFlight w)\<rparr>) = slots w"
  by (auto simp: slots_def)

lemma lax_clearInFlight [lax_rules]: "stays (lax A) (clearInFlight k)"
  unfolding clearInFlight_def by (rule lax_update) (simp add: slots_filter)

lemma lax_clearSession [lax_rules]: "stays (lax A) (clearSession h ep)"
  unfolding clearSession_def by (rule lax_update) (simp add: slots_filter)

lemma lax_resolve [lax_rules]: "stays (lax A) (resolveInFlightThroughObservation h ep q)"
  unfolding resolveInFlightThroughObservation_def by (rule lax_update) (simp add: slots_filter)

lemma lax_setDispatchSequence [lax_rules]: "stays (lax A) (setDispatchSequence k q)"
  unfolding setDispatchSequence_def
  by (intro lax_steps lax_update calm_lax[OF calm_Get]) (auto simp: slots_filter slots_renumber)

lemma calm_mark_ready [calm_rules]: "stays (calm A) (mark_ready info)"
  unfolding mark_ready_def by (intro calm_rules)

lemma calm_after_report [calm_rules]: "stays (calm A) (after_report info u)"
  unfolding after_report_def by (intro calm_steps calm_rules)

lemma calm_reports [calm_rules]:
  "stays (calm A) (SessionConnected info)" "stays (calm A) (InventoryObserved info iv)"
  "stays (calm A) (ProcessesObserved info ps)" "stays (calm A) (StatusObserved info st)"
  "stays (calm A) (SessionReady info)"
  unfolding SessionConnected_def InventoryObserved_def ProcessesObserved_def StatusObserved_def SessionReady_def
  by (intro calm_steps calm_rules)+

lemmas lax_of_calm = calm_rules[THEN calm_lax]

lemma lax_sessions [lax_rules]:
  "stays (lax A) (SessionDisconnected info)" "stays (lax A) (ExecutionsObserved info es q)"
  unfolding SessionDisconnected_def ExecutionsObserved_def
  by (intro lax_steps lax_rules lax_of_calm)+

lemma calm_requestStillCurrent [calm_rules]: "stays (calm A) (requestStillCurrent r)"
  unfolding requestStillCurrent_def by (intro calm_steps calm_rules)

lemma calm_block_request [calm_rules]: "stays (calm no_hold_call) (block_request r c m)"
  unfolding block_request_def by (intro calm_rules)

lemma calm_latch_failed_start [calm_rules]: "stays (calm no_hold_call) (latch_failed_start r e)"
  unfolding latch_failed_start_def by (intro calm_steps calm_rules)

lemmas lax_of_calm' = lax_of_calm calm_requestStillCurrent[THEN calm_lax] calm_block_request[THEN calm_lax]
  calm_latch_failed_start[THEN calm_lax]

lemma lax_RuntimeResult [lax_rules]: "stays (lax no_hold_call) (RuntimeResult info r e err)"
  unfolding RuntimeResult_def rejected_def completed_def
  by (intro lax_steps lax_rules lax_of_calm')

lemma calm_retry [calm_rules]: "stays (calm no_hold_call) (coordinator_RetryWorkload i n)"
  unfolding coordinator_RetryWorkload_def by (intro calm_steps calm_rules)

lemma calm_SetMaintenanceHold_begin:
  "A (OpSetMaintenanceHold h n a t) \<Longrightarrow> stays (calm A) (SetMaintenanceHold_begin h n a t)"
  unfolding SetMaintenanceHold_begin_def by (intro calm_steps calm_rules calm_commit) simp_all

lemma calm_SetMaintenanceHold_end [calm_rules]: "stays (calm A) (SetMaintenanceHold_end h hold s e)"
  unfolding SetMaintenanceHold_end_def by (intro calm_steps calm_rules)

lemma calm_retire [calm_rules]: "stays (calm no_hold_call) (retire i n w ss)"
  unfolding retire_def by (intro calm_steps calm_rules)

lemma calm_delete_section [calm_rules]: "stays (calm no_hold_call) (delete_section i n)"
  unfolding delete_section_def by (intro calm_steps calm_rules)

section \<open>Evaluators\<close>

lemma calm_update:
  "(\<And>w. w_turns (f w) = w_turns w \<and> w_observed (f w) = w_observed w \<and> w_calls (f w) = w_calls w \<and> w_db (f w) = w_db w
     \<and> w_inFlight (f w) = w_inFlight w) \<Longrightarrow> stays (calm A) (State_Monad.update f)"
  by (rule stays_update) (auto simp: calm_def logs_def intro: exI[of _ "[]"])

lemma calm_queue [calm_rules]: "stays (calm A) (queueIncidentEvaluation h)"
  unfolding queueIncidentEvaluation_def by (rule calm_update) (simp add: Let_def)

lemma calm_evaluator [calm_rules]: "stays (calm A) (evaluator_enter h)" "stays (calm A) (evaluator_leave h)"
  unfolding evaluator_enter_def evaluator_leave_def
  by (rule stays_State; auto simp: calm_def logs_def intro: exI[of _ "[]"])+

lemma calm_workload_facts [calm_rules]: "stays (calm A) (workload_facts_of h ws)"
  by (induction ws) (auto intro!: calm_steps calm_rules)

lemma calm_gather [calm_rules]: "stays (calm A) (gather_facts h)"
  unfolding gather_facts_def by (intro calm_steps calm_rules)

lemma calm_evaluate_begin [calm_rules]: "stays (calm A) (evaluate_begin h)"
  unfolding evaluate_begin_def by (intro calm_steps calm_rules)

lemma calm_evaluate_end [calm_rules]: "stays (calm no_hold_call) (evaluate_end h el)"
  unfolding evaluate_end_def by (intro calm_steps calm_rules calm_update) simp

lemma calm_Shutdown [calm_rules]: "stays (calm A) Shutdown_begin"
  unfolding Shutdown_begin_def by (rule calm_update) simp

end
