(* ===== verification/Reconcile_Dispatch.thy ===== *)
theory Reconcile_Dispatch
  imports Reconcile_Frames
begin

text \<open>
  What the coordinator promises about the actions of a Host: at most one is in flight per session, none is
  sent while the restore barrier of the Host stands, no START is sent while its hold is active, and the last
  check before a START finds the snapshot current.
\<close>

section \<open>Reservations\<close>

lemma calm_then:
  "stays (calm A) m \<Longrightarrow> (\<And>x. triple (calm A w0) (f x) Q) \<Longrightarrow> triple (calm A w0) (State_Monad.bind m f) Q"
  by (rule triple_bind[of _ _ "\<lambda>_. calm A w0"], rule tripleI) (erule calm_trans, erule (1) state_io_relD)

lemma calm_get: "stays (calm A) State_Monad.get"
  by (rule stays_get) (rule calm_same)

lemmas branches = triple_return triple_if triple_option triple_sum triple_prod triple_list triple_let

text \<open>The state after an action was reserved, in terms of the one before.\<close>

definition reserved :: "World \<Rightarrow> ActionKey \<Rightarrow> World \<Rightarrow> bool" where
  "reserved w key w' \<longleftrightarrow> logs no_hold_call w w' \<and> w_inFlight w' = w_inFlight w @ [(key, 0)]"

lemma triple_mark:
  "triple (calm no_hold_call w0) (markInFlight key) (\<lambda>m w. if m then reserved w0 key w else calm no_hold_call w0 w)"
  by (rule tripleI) (auto simp: markInFlight_def reserved_def calm_def logs_def split: if_splits)

text \<open>A dispatch of the planner's first action for this observation and hold.\<close>

definition dispatches :: "HostObservation \<Rightarrow> MaintenanceHold option \<Rightarrow> preparedDispatch \<Rightarrow> bool" where
  "dispatches obs hold d \<longleftrightarrow> pd_Observed d = obs \<and> pd_Request d = request_of (pd_Action d)
     \<and> si_ConnectionEpoch (pd_Session d) = ho_ConnectionEpoch obs \<and> ak_Action (ac_Key (pd_Action d)) \<noteq> ActionBlock
     \<and> (\<exists>i. pi_Observed i = obs \<and> pi_Hold i = hold \<and> pd_Action d \<in> set (pres_Actions (Plan i)))"

definition prepared_result :: "World \<Rightarrow> HostObservation \<Rightarrow> MaintenanceHold option \<Rightarrow> preparedDispatch option \<Rightarrow> World \<Rightarrow> bool" where
  "prepared_result w0 obs hold r w = (case r of None \<Rightarrow> calm no_hold_call w0 w
     | Some d \<Rightarrow> reserved w0 (ac_Key (pd_Action d)) w \<and> dispatches obs hold d)"

definition outcome_result :: "World \<Rightarrow> HostObservation \<Rightarrow> MaintenanceHold option \<Rightarrow> outcome \<Rightarrow> World \<Rightarrow> bool" where
  "outcome_result w0 obs hold r w = (case r of Continue \<Rightarrow> calm no_hold_call w0 w | Return d \<Rightarrow> prepared_result w0 obs hold d w)"

lemma outcome_simps [simp]:
  "outcome_result w0 obs hold Continue = calm no_hold_call w0"
  "outcome_result w0 obs hold (Return None) = calm no_hold_call w0"
  "outcome_result w0 obs hold (Return d) = prepared_result w0 obs hold d"
  "prepared_result w0 obs hold None = calm no_hold_call w0"
  by (simp_all add: outcome_result_def prepared_result_def fun_eq_iff)

lemma triple_reserve:
  assumes "a \<in> set (pres_Actions (Plan i))" and "pi_Observed i = obs" and "pi_Hold i = hold" and "ak_Action (ac_Key a) \<noteq> ActionBlock"
  shows "triple (calm no_hold_call w0) (reserve host obs a) (outcome_result w0 obs hold)"
  unfolding reserve_def
proof (rule calm_then[OF calm_actionStillCurrent], intro triple_if triple_return)
  fix x
  show "triple (calm no_hold_call w0) (do {session \<leftarrow> commander_Session host;
     case session of None \<Rightarrow> State_Monad.return (Return None)
     | Some info \<Rightarrow> if si_ConnectionEpoch info \<noteq> ho_ConnectionEpoch obs \<or> \<not> si_Ready info then State_Monad.return (Return None)
       else do {marked \<leftarrow> markInFlight (ac_Key a);
         State_Monad.return (Return (if marked then Some \<lparr>pd_Action = a, pd_Request = request_of a, pd_Session = info, pd_Observed = obs\<rparr> else None))}})
     (outcome_result w0 obs hold)"
    by (rule calm_then[OF calm_Session], intro branches triple_bind[OF triple_mark])
      (use assms in \<open>auto simp: outcome_result_def prepared_result_def dispatches_def split: if_splits\<close>)
qed simp

lemma triple_dispatch_action:
  assumes "a \<in> set (pres_Actions (Plan i))" and "pi_Observed i = obs" and "pi_Hold i = hold"
  shows "triple (calm no_hold_call w0) (dispatch_action host obs a) (outcome_result w0 obs hold)"
  unfolding dispatch_action_def
  by (intro branches calm_then calm_rules triple_reserve[OF assms]) simp_all

lemma triple_dispatch_head:
  "pres_Actions (Plan i) = a # as \<Longrightarrow> pi_Observed i = obs \<Longrightarrow> pi_Hold i = hold
     \<Longrightarrow> triple (calm no_hold_call w0) (dispatch_action host obs a) (outcome_result w0 obs hold)"
  by (rule triple_dispatch_action) simp_all

lemma triple_dispatch_workload:
  "triple (calm no_hold_call w0) (dispatch_workload host obs hold known w) (outcome_result w0 obs hold)"
  unfolding dispatch_workload_def
  by (intro branches calm_then calm_rules calm_get) (simp_all, erule triple_dispatch_head, simp_all)

lemma triple_dispatch_workloads:
  "triple (calm no_hold_call w0) (dispatch_workloads host obs hold known ws) (prepared_result w0 obs hold)"
proof (induction ws)
  case (Cons w ws)
  show ?case unfolding dispatch_workloads.simps
  proof (rule triple_bind[OF triple_dispatch_workload])
    fix r
    show "triple (outcome_result w0 obs hold r) (case r of Continue \<Rightarrow> dispatch_workloads host obs hold known ws
       | Return d \<Rightarrow> State_Monad.return d) (prepared_result w0 obs hold)"
      using Cons.IH by (cases r) (auto intro: triple_return)
  qed
qed (auto intro: triple_return)


lemma get_then:
  "(\<And>x. calm A w0 x \<Longrightarrow> triple (calm A w0) (f x) Q) \<Longrightarrow> triple (calm A w0) (State_Monad.bind State_Monad.get f) Q"
  by (fastforce simp: triple_def split: prod.split)

lemma hostHasInFlight_slots: "hostHasInFlight host ep w \<longleftrightarrow> (host, ep) \<in> set (slots w)"
  by (auto simp: hostHasInFlight_def slots_def list_ex_iff)

text \<open>A prepared dispatch: it was the only one of its Host and session when it was reserved.\<close>

definition prepares :: "World \<Rightarrow> HostID \<Rightarrow> preparedDispatch \<Rightarrow> World \<Rightarrow> bool" where
  "prepares w0 host d w \<longleftrightarrow> reserved w0 (ac_Key (pd_Action d)) w
     \<and> (host, ho_ConnectionEpoch (pd_Observed d)) \<notin> set (slots w0)
     \<and> ho_HostID (pd_Observed d) = host \<and> (\<exists>hold. dispatches (pd_Observed d) hold d)"

definition ready_result :: "World \<Rightarrow> HostID \<Rightarrow> preparedDispatch option \<Rightarrow> World \<Rightarrow> bool" where
  "ready_result w0 host r w = (case r of None \<Rightarrow> calm no_hold_call w0 w | Some d \<Rightarrow> prepares w0 host d w)"

lemma observed_Get_host:
  assumes "store_inv (w_observed w0)"
  shows "triple (\<lambda>w. w = w0) (observed_Get host) (\<lambda>(obs, ok) w. calm no_hold_call w0 w \<and> (ok \<longrightarrow> ho_HostID obs = host))"
proof (rule tripleI)
  fix s x s'
  assume s: "s = w0" and run: "run_state (observed_Get host) s = (x, s')"
  obtain t where x: "x = snd (Get (w_observed w0) t host)"
    using run s by (auto simp: observed_Get_def observe_def turn_def Let_def case_prod_beta)
  have "calm no_hold_call w0 s'" using calm_Get run s by (metis state_io_relD)
  moreover have "snd x \<longrightarrow> ho_HostID (fst x) = host"
    using assms unfolding x by (auto simp: Get_def Let_def store_inv_def entry_inv_def cloneCurrent_def
        ageObservedTelemetry_def split: option.splits)
  ultimately show "(\<lambda>(obs, ok) w. calm no_hold_call w0 w \<and> (ok \<longrightarrow> ho_HostID obs = host)) x s'"
    by (simp add: case_prod_beta)
qed

lemma triple_dispatch_host:
  assumes "ho_HostID obs = host"
  shows "triple (calm no_hold_call w0) (dispatch_host host obs) (ready_result w0 host)"
proof -
  have same: "\<not> hostHasInFlight host (ho_ConnectionEpoch obs) y \<Longrightarrow> calm no_hold_call w0 y
      \<Longrightarrow> (host, ho_ConnectionEpoch obs) \<notin> set (slots w0)" for y
    by (simp add: hostHasInFlight_slots calm_def slots_def)
  have result: "prepared_result w0 obs hold r w \<Longrightarrow> (host, ho_ConnectionEpoch obs) \<notin> set (slots w0)
      \<Longrightarrow> ready_result w0 host r w" for hold r w
    using assms by (auto simp: prepared_result_def ready_result_def prepares_def dispatches_def split: option.splits)
  have loop: "triple (calm no_hold_call w0) (dispatch_workloads host obs hold known ws) (ready_result w0 host)"
    if "\<not> (b \<or> hostHasInFlight host (ho_ConnectionEpoch obs) y)" "calm no_hold_call w0 y" for hold known ws y b
    by (rule triple_weaken[OF triple_dispatch_workloads], rule result) (use same that in auto)
  show ?thesis unfolding dispatch_host_def
    by (rule calm_then[OF calm_applyRestoreBarrier], rule get_then, intro calm_then branches calm_query)
      (erule (1) loop | simp add: ready_result_def)+
qed

lemma triple_prepare:
  assumes "store_inv (w_observed w0)"
  shows "triple (\<lambda>w. w = w0) (prepareDispatchLocked host) (ready_result w0 host)"
proof -
  have one: "triple (\<lambda>w. calm no_hold_call w0 w \<and> (ok \<longrightarrow> ho_HostID obs = host))
     (if \<not> ok \<or> c then State_Monad.return None else dispatch_host host obs) (ready_result w0 host)" for ok obs c
  proof (cases "\<not> ok \<or> c")
    case True
    then show ?thesis by (auto simp: ready_result_def intro!: triple_return)
  next
    case False
    then show ?thesis by (cases "ho_HostID obs = host")
        (auto intro!: tripleI intro: tripleD[OF triple_dispatch_host])
  qed
  show ?thesis unfolding prepareDispatchLocked_def
    by (rule triple_bind[OF observed_Get_host[OF assms]], rule triple_prod) (simp only: prod.case, rule one)
qed


section \<open>Moves\<close>

lemma run_in_stays:
  assumes "stays R m" and "\<And>w es. R (ct_world c) w \<Longrightarrow> R (ct_world c) (w\<lparr>w_evaluators := es\<rparr>)"
  shows "R (ct_world c) (ct_world (run_in m f ts c))"
  using assms by (auto simp: run_in_def Let_def state_io_rel_def split: prod.split) (metis snd_conv)

lemma evaluators_frame [simp]:
  "lax A w0 (w\<lparr>w_evaluators := es\<rparr>) = lax A w0 w" "calm A w0 (w\<lparr>w_evaluators := es\<rparr>) = calm A w0 w"
  "logs A w0 (w\<lparr>w_evaluators := es\<rparr>) = logs A w0 w"
  by (simp_all add: lax_def calm_def logs_def slots_def)

lemma run_in_lax: "stays (lax A) m \<Longrightarrow> lax A (ct_world c) (ct_world (run_in m f ts c))"
  by (erule run_in_stays) simp

lemma run_in_calm: "stays (calm A) m \<Longrightarrow> calm A (ct_world c) (ct_world (run_in m f ts c))"
  by (erule run_in_stays) simp

lemma lax_clearReserved [lax_rules]: "stays (lax A) (clearReservedAction k)"
  unfolding clearReservedAction_def by (intro lax_rules)

lemma run_task_lax: "lax no_hold_call (ct_world c) (ct_world (run_task t dl ts c))"
  by (cases t; cases dl)
    (simp_all add: run_unit_def lax_same run_in_lax calm_lax[OF calm_still_desired] calm_lax[OF calm_still_observed]
      calm_lax[OF calm_still_startable] lax_rules calm_rules[THEN calm_lax])

text \<open>A move that is neither a reconciliation nor the begin of a change of a hold.\<close>

definition plain :: "Move \<Rightarrow> bool" where
  "plain m \<longleftrightarrow> (case m of MReconcile h \<Rightarrow> False | MHold h n a r \<Rightarrow> False | _ \<Rightarrow> True)"

lemma plain_simps [simp]: "\<not> plain (MReconcile h)" "\<not> plain (MHold h n a r)"
  by (simp_all add: plain_def)

lemma plain_lax: "move m c = Some c' \<Longrightarrow> plain m \<Longrightarrow> lax no_hold_call (ct_world c) (ct_world c')"
  by (cases m) (auto simp: run_unit_def run_task_lax split: if_splits
      intro!: run_in_lax lax_rules calm_rules[THEN calm_lax])

lemma hold_calm:
  "move (MHold h n a r) c = Some c' \<Longrightarrow> calm (\<lambda>op. hold_target op \<in> {None, Some h}) (ct_world c) (ct_world c')"
  by (auto split: if_splits intro!: run_in_calm calm_SetMaintenanceHold_begin)

lemma reconcile_cases:
  assumes "move (MReconcile host) c = Some c'" and "store_inv (w_observed (ct_world c))"
  obtains (quiet) es where "calm no_hold_call (ct_world c) (ct_world c')" "ct_tasks c' = ct_tasks c @ map Enter es"
  | (dispatch) d es where "prepares (ct_world c) host d (ct_world c')" "ct_tasks c' = ct_tasks c @ Recheck d # map Enter es"
proof -
  obtain r w where run: "run_state (prepareDispatchLocked host) (ct_world c) = (r, w)"
    and c': "c' = \<lparr>ct_world = w\<lparr>w_evaluators := []\<rparr>,
      ct_tasks = ct_tasks c @ (case r of None \<Rightarrow> [] | Some d \<Rightarrow> [Recheck d]) @ map Enter (w_evaluators w)\<rparr>"
    using assms(1) by (auto simp: run_in_def split: if_splits prod.splits)
  have r: "ready_result (ct_world c) host r w" by (rule tripleD[OF triple_prepare[OF assms(2)] refl run])
  show ?thesis
  proof (cases r)
    case None
    then show ?thesis using r quiet[of "w_evaluators w"] c' by (simp add: ready_result_def)
  next
    case (Some d)
    then show ?thesis using r dispatch[of d "w_evaluators w"] c'
      by (simp add: ready_result_def prepares_def reserved_def)
  qed
qed

section \<open>One action in flight per session\<close>

definition ctl_inv :: "Ctl \<Rightarrow> bool" where
  "ctl_inv c \<longleftrightarrow> store_inv (w_observed (ct_world c)) \<and> distinct (slots (ct_world c))"

lemma distinct_subseq: "subseq xs ys \<Longrightarrow> distinct ys \<Longrightarrow> distinct xs"
  by (induction rule: list_emb.induct) (auto dest: list_emb_set)

lemma ctl_inv_lax: "ctl_inv c \<Longrightarrow> lax A (ct_world c) (ct_world c') \<Longrightarrow> ctl_inv c'"
  by (auto simp: ctl_inv_def lax_def logs_def intro: distinct_subseq)

lemma ctl_inv_calm: "ctl_inv c \<Longrightarrow> calm A (ct_world c) (ct_world c') \<Longrightarrow> ctl_inv c'"
  by (auto simp: ctl_inv_def calm_def logs_def slots_def)

lemma planned_key:
  assumes "dispatches obs hold d"
  shows "ak_HostID (ac_Key (pd_Action d)) = ho_HostID obs \<and> ak_ConnectionEpoch (ac_Key (pd_Action d)) = ho_ConnectionEpoch obs"
proof -
  obtain i where i: "pi_Observed i = obs" "pd_Action d \<in> set (pres_Actions (Plan i))"
    using assms by (auto simp: dispatches_def)
  show ?thesis using plan_single_epoch_bound_action[of i] i by (auto simp: list_all_iff)
qed

lemma prepares_key:
  "prepares w0 host d w \<Longrightarrow> ak_HostID (ac_Key (pd_Action d)) = host
     \<and> ak_ConnectionEpoch (ac_Key (pd_Action d)) = ho_ConnectionEpoch (pd_Observed d)"
  unfolding prepares_def by (metis planned_key)

lemma prepares_slot:
  "prepares w0 host d w \<Longrightarrow> slots w = slots w0 @ [(host, ho_ConnectionEpoch (pd_Observed d))]"
  using prepares_key[of w0 host d w] by (auto simp: prepares_def reserved_def slots_def)

lemma ctl_inv_move:
  assumes "ctl_inv c" and "move m c = Some c'"
  shows "ctl_inv c'"
proof (cases "plain m")
  case True
  then show ?thesis using assms ctl_inv_lax plain_lax by blast
next
  case False
  then consider (reconcile) host where "m = MReconcile host" | (hold) h n a r where "m = MHold h n a r"
    by (cases m) (auto simp: plain_def)
  then show ?thesis
  proof cases
    case reconcile
    have "store_inv (w_observed (ct_world c))" using assms(1) by (simp add: ctl_inv_def)
    with assms(2)[unfolded reconcile] show ?thesis
    proof (cases rule: reconcile_cases)
      case (quiet es)
      then show ?thesis using assms(1) ctl_inv_calm by blast
    next
      case (dispatch d es)
      then show ?thesis using assms(1) prepares_slot[OF dispatch(1)]
        by (auto simp: ctl_inv_def prepares_def reserved_def logs_def)
    qed
  next
    case hold
    then show ?thesis using assms ctl_inv_calm hold_calm by blast
  qed
qed

lemma ctl_inv_moves:
  assumes "moves ms (NewCoordinator db timeout turns) = Some c"
  shows "ctl_inv c"
  using assms
proof (induction rule: moves_induct)
  case start
  show ?case by (simp add: ctl_inv_def NewCoordinator_def slots_def store_inv_New)
qed (blast intro: ctl_inv_move)

text \<open>C23: in every interleaving of the coordinator's sections with reports of the network layer and calls of
  other clients of the store, at most one action of a Host is in flight per session.\<close>

theorem one_action_per_session:
  assumes "moves ms (NewCoordinator db timeout turns) = Some c"
    and "x \<in> set (w_inFlight (ct_world c))" and "y \<in> set (w_inFlight (ct_world c))"
    and "ak_HostID (fst x) = ak_HostID (fst y)" and "ak_ConnectionEpoch (fst x) = ak_ConnectionEpoch (fst y)"
  shows "x = y"
proof -
  have "distinct (map (\<lambda>(k, q). (ak_HostID k, ak_ConnectionEpoch k)) (w_inFlight (ct_world c)))"
    using ctl_inv_moves[OF assms(1)] by (simp add: ctl_inv_def slots_def)
  then show ?thesis using assms(2-5) unfolding distinct_map inj_on_def by (cases x; cases y) fastforce
qed


section \<open>Holds and barriers\<close>

definition turns_ok :: "(StoreOp \<Rightarrow> bool) \<Rightarrow> (nat \<Rightarrow> Turn) \<Rightarrow> bool" where
  "turns_ok A turns \<longleftrightarrow> (\<forall>n. \<forall>c\<in>set (tn_others (turns n)). A (snd c))"

definition held :: "DB \<Rightarrow> HostID \<Rightarrow> bool" where
  "held db host \<longleftrightarrow> (\<exists>m. hold_row db host = Some m \<and> mh_Active m)"

lemma after_calls_barrier: "barrier_row db host = None \<Longrightarrow> barrier_row (after_calls cs db) host = None"
  by (induction cs db rule: after_calls.induct) (simp_all add: perform_barrier)

lemma after_calls_hold: "\<forall>c\<in>set cs. hold_target (snd c) \<noteq> Some host \<Longrightarrow> hold_row (after_calls cs db) host = hold_row db host"
  by (induction cs db rule: after_calls.induct) (simp_all add: perform_hold)

lemma logs_barrier: "logs A w w' \<Longrightarrow> barrier_row (w_db w) host = None \<Longrightarrow> barrier_row (w_db w') host = None"
  by (auto simp: logs_def after_calls_barrier)

lemma logs_held:
  assumes "logs A w w'" and "turns_ok A (w_turns w)" and "\<And>op. A op \<Longrightarrow> hold_target op \<noteq> Some host"
  shows "held (w_db w') host = held (w_db w) host"
proof -
  obtain cs where "w_db w' = after_calls cs (w_db w)" "\<forall>c\<in>set cs. A (snd c)"
    using assms(1,2) unfolding logs_def turns_ok_def by blast
  then show ?thesis using assms(3) after_calls_hold[of cs host "w_db w"] by (auto simp: held_def)
qed

lemma logs_turns: "logs A w w' \<Longrightarrow> w_turns w' = w_turns w"
  by (simp add: logs_def)

lemma triple_query: "triple (\<lambda>w. True) (query f) (\<lambda>r w. \<forall>x. r = Inr x \<longrightarrow> (\<exists>sv. f sv (w_db w) = Inr x))"
  by (rule tripleI) (auto simp: query_def split: prod.splits option.splits)

lemma GetRestoreHostBarrier_None: "GetRestoreHostBarrier host db = Inr None \<Longrightarrow> barrier_row db host = None"
  by (auto simp: GetRestoreHostBarrier_def barrier_row_def split: option.splits)

lemma GetMaintenanceHold_inactive: "GetMaintenanceHold host db = Inr (h, exists) \<Longrightarrow> \<not> (exists \<and> mh_Active h) \<Longrightarrow> \<not> held db host"
  by (auto simp: GetMaintenanceHold_def held_def hold_row_def split: option.splits dest!: scan_hold_same)

text \<open>A reading of the store that establishes a fact, and a later one that keeps it.\<close>

lemma triple_keep:
  assumes "stays (calm A) m" and "\<And>w w'. P w \<Longrightarrow> logs A w w' \<Longrightarrow> P w'"
  shows "triple P m (\<lambda>_. P)"
  by (rule tripleI) (use assms in \<open>auto simp: calm_def dest!: state_io_relD\<close>)

lemma still_desired_barrier:
  "triple (\<lambda>w. True) (still_desired a) (\<lambda>r w. r \<noteq> None \<longrightarrow> barrier_row (w_db w) (ak_HostID (ac_Key a)) = None)"
  unfolding still_desired_def
proof (rule triple_bind[OF triple_query])
  fix barrier :: "RestoreHostBarrier option result"
  let ?h = "ak_HostID (ac_Key a)"
  show "triple (\<lambda>w. \<forall>x. barrier = Inr x \<longrightarrow> (\<exists>sv. GetRestoreHostBarrier ?h (w_db w) = Inr x))
     (case barrier of Inr None \<Rightarrow> do {
         latest \<leftarrow> query (\<lambda>sv db. GetDesiredWorkload (ak_WorkloadID (ac_Key a)) db);
         State_Monad.return (case latest of
           Inr workload \<Rightarrow> if dw_HostID (dw_Content workload) = ?h then Some workload else None | Inl e \<Rightarrow> None)
       } | _ \<Rightarrow> State_Monad.return None) (\<lambda>r w. r \<noteq> None \<longrightarrow> barrier_row (w_db w) ?h = None)"
  proof (cases "barrier = Inr None")
    case True
    have "triple (\<lambda>w. GetRestoreHostBarrier ?h (w_db w) = Inr None) (query (\<lambda>sv db. GetDesiredWorkload (ak_WorkloadID (ac_Key a)) db))
        (\<lambda>_ w. barrier_row (w_db w) ?h = None)"
      by (rule triple_strengthen[OF triple_keep[OF calm_query]])
        (auto intro: logs_barrier GetRestoreHostBarrier_None)
    then show ?thesis unfolding True by (auto intro!: triple_bind triple_return)
  next
    case False
    then show ?thesis by (auto split: sum.split option.split intro: triple_return)
  qed
qed


lemma still_startable_hold:
  "triple (\<lambda>w. turns_ok no_hold_call (w_turns w)) (still_startable a latest)
     (\<lambda>ok w. ok \<and> ak_Action (ac_Key a) = ActionStart \<longrightarrow> \<not> held (w_db w) (ak_HostID (ac_Key a)))"
proof (cases "ak_Action (ac_Key a) = ActionStart")
  case False
  then show ?thesis by (simp add: still_startable_def triple_return)
next
  case True
  let ?h = "ak_HostID (ac_Key a)"
  have turns: "triple (\<lambda>w. turns_ok no_hold_call (w_turns w)) (query f) (\<lambda>r w. turns_ok no_hold_call (w_turns w)
      \<and> (\<forall>x. r = Inr x \<longrightarrow> (\<exists>sv. f sv (w_db w) = Inr x)))" for f :: "Svc \<Rightarrow> DB \<Rightarrow> (MaintenanceHold \<times> bool) result"
    by (rule triple_weaken[OF triple_strengthen[OF triple_conj[OF triple_keep[OF calm_query[of no_hold_call]] triple_query]]])
      (auto dest: logs_turns)
  have keep: "triple (\<lambda>w. turns_ok no_hold_call (w_turns w) \<and> \<not> held (w_db w) ?h) (query g) (\<lambda>_ w. \<not> held (w_db w) ?h)"
    for g :: "Svc \<Rightarrow> DB \<Rightarrow> ResolvedExecutionSnapshot result"
    using calm_query[of no_hold_call g] by (auto simp: triple_def calm_def dest!: state_io_relD logs_held[where host = ?h] split: prod.split)
  have rest: "triple (\<lambda>w. turns_ok no_hold_call (w_turns w) \<and> (\<forall>x. hold = Inr x \<longrightarrow> (\<exists>sv. GetMaintenanceHold ?h (w_db w) = Inr x)))
     (if (case hold of Inl e \<Rightarrow> True | Inr (h, exists) \<Rightarrow> exists \<and> mh_Active h) then State_Monad.return False
      else if c then State_Monad.return False
      else do {s \<leftarrow> query g; State_Monad.return (ok s)}) (\<lambda>ok w. ok \<longrightarrow> \<not> held (w_db w) ?h)"
    for hold c and g :: "Svc \<Rightarrow> DB \<Rightarrow> ResolvedExecutionSnapshot result" and ok
  proof (intro triple_if triple_return)
    assume "\<not> (case hold of Inl e \<Rightarrow> True | Inr (h, exists) \<Rightarrow> exists \<and> mh_Active h)"
    then have "\<forall>x. hold = Inr x \<longrightarrow> (\<exists>sv. GetMaintenanceHold ?h db = Inr x) \<Longrightarrow> \<not> held db ?h" for db
      by (auto dest: GetMaintenanceHold_inactive split: sum.splits prod.splits)
    then show "triple (\<lambda>w. turns_ok no_hold_call (w_turns w) \<and> (\<forall>x. hold = Inr x \<longrightarrow> (\<exists>sv. GetMaintenanceHold ?h (w_db w) = Inr x)))
      (do {s \<leftarrow> query g; State_Monad.return (ok s)}) (\<lambda>ok w. ok \<longrightarrow> \<not> held (w_db w) ?h)"
      by (intro triple_bind[OF triple_strengthen[OF keep]] triple_return) auto
  qed simp_all
  show ?thesis
    by (simp only: still_startable_def True simp_thms if_False) (rule triple_bind[OF turns], rule rest)
qed

definition task_host :: "preparedDispatch \<Rightarrow> HostID" where
  "task_host d = ak_HostID (ac_Key (pd_Action d))"

definition is_start :: "preparedDispatch \<Rightarrow> bool" where
  "is_start d \<longleftrightarrow> ak_Action (ac_Key (pd_Action d)) = ActionStart"

fun task_ok :: "DB \<Rightarrow> Task \<Rightarrow> bool" where
  "task_ok db (Look d w) = (barrier_row db (task_host d) = None)"
| "task_ok db (Confirm d w) = (barrier_row db (task_host d) = None)"
| "task_ok db (Send d) = (barrier_row db (task_host d) = None \<and> (is_start d \<longrightarrow> \<not> held db (task_host d)))"
| "task_ok db _ = True"

definition tasks_ok :: "Ctl \<Rightarrow> bool" where
  "tasks_ok c \<longleftrightarrow> turns_ok no_hold_call (w_turns (ct_world c)) \<and> store_inv (w_observed (ct_world c))
     \<and> list_all (task_ok (w_db (ct_world c))) (ct_tasks c)"

lemma task_ok_keep:
  assumes "task_ok (w_db w) t" and "logs A w w'" and "turns_ok A (w_turns w)"
    and "\<And>host op. A op \<Longrightarrow> reads_authority t = Some host \<Longrightarrow> hold_target op \<noteq> Some host"
  shows "task_ok (w_db w') t"
  using assms logs_barrier[OF assms(2)] logs_held[OF assms(2,3)] by (cases t) (auto simp: task_host_def)

lemma task_ok_Enter: "list_all (task_ok db) (map Enter es)"
  by (simp add: list_all_iff)

lemma run_in_tasks: "\<exists>x w. run_state m (ct_world c) = (x, w) \<and> ct_world (run_in m f ts c) = w\<lparr>w_evaluators := []\<rparr>
    \<and> ct_tasks (run_in m f ts c) = ts @ f x @ map Enter (w_evaluators w)"
  by (cases "run_state m (ct_world c)") (simp add: run_in_def)

text \<open>A computation that starts only tasks which are all right keeps the invariant.\<close>

lemma run_in_ok:
  assumes "tasks_ok c" and "stays (lax no_hold_call) m" and "set ts \<subseteq> set (ct_tasks c)"
    and "\<And>x w. run_state m (ct_world c) = (x, w) \<Longrightarrow> list_all (task_ok (w_db w)) (f x)"
  shows "tasks_ok (run_in m f ts c)"
proof -
  obtain x w where r: "run_state m (ct_world c) = (x, w)" "ct_world (run_in m f ts c) = w\<lparr>w_evaluators := []\<rparr>"
    "ct_tasks (run_in m f ts c) = ts @ f x @ map Enter (w_evaluators w)"
    using run_in_tasks[of m c f ts] by blast
  have logs: "logs no_hold_call (ct_world c) w" using assms(2) r(1) by (auto simp: lax_def dest!: state_io_relD)
  have "task_ok (w_db w) t" if "t \<in> set ts" for t
    by (rule task_ok_keep[OF _ logs]) (use assms(1,3) that in \<open>auto simp: tasks_ok_def list_all_iff\<close>)
  then show ?thesis using assms(1,4) r logs task_ok_Enter by (auto simp: tasks_ok_def list_all_iff logs_def)
qed

lemma run_in_quiet:
  "tasks_ok c \<Longrightarrow> stays (lax no_hold_call) m \<Longrightarrow> set ts \<subseteq> set (ct_tasks c) \<Longrightarrow> (\<And>x db. list_all (task_ok db) (f x))
     \<Longrightarrow> tasks_ok (run_in m f ts c)"
  by (rule run_in_ok) auto

lemma run_unit_ok:
  "tasks_ok c \<Longrightarrow> stays (lax no_hold_call) m \<Longrightarrow> set ts \<subseteq> set (ct_tasks c) \<Longrightarrow> tasks_ok (run_unit m ts c)"
  unfolding run_unit_def by (erule run_in_quiet) auto

lemma run_task_ok:
  assumes "tasks_ok c" and "set ts \<subseteq> set (ct_tasks c)" and "t \<in> set (ct_tasks c)"
  shows "tasks_ok (run_task t dl ts c)"
proof (cases t)
  case (Recheck d)
  show ?thesis unfolding Recheck run_task.simps
    by (rule run_in_ok[OF assms(1) calm_lax[OF calm_still_desired] assms(2)])
      (use tripleD[OF still_desired_barrier[of "pd_Action d"]] in \<open>fastforce simp: task_host_def split: option.split\<close>)
next
  case (Look d latest)
  have "barrier_row (w_db w) (task_host d) = None" if "run_state (still_observed (pd_Action d) (pd_Observed d)) (ct_world c) = (x, w)" for x w
    using logs_barrier that assms(1,3) Look calm_still_observed[of no_hold_call "pd_Action d" "pd_Observed d"]
    by (fastforce simp: tasks_ok_def list_all_iff calm_def dest!: state_io_relD)
  then show ?thesis unfolding Look run_task.simps
    by (intro run_in_ok[OF assms(1) calm_lax[OF calm_still_observed] assms(2)]) simp
next
  case (Confirm d latest)
  have b: "barrier_row (w_db w) (task_host d) = None" if "run_state (still_startable (pd_Action d) latest) (ct_world c) = (x, w)" for x w
    using logs_barrier that assms(1,3) Confirm calm_still_startable[of no_hold_call "pd_Action d" latest]
    by (fastforce simp: tasks_ok_def list_all_iff calm_def dest!: state_io_relD)
  have turns: "turns_ok no_hold_call (w_turns (ct_world c))" using assms(1) by (simp add: tasks_ok_def)
  have "x \<and> is_start d \<longrightarrow> \<not> held (w_db w) (task_host d)"
    if "run_state (still_startable (pd_Action d) latest) (ct_world c) = (x, w)" for x w
    using tripleD[OF still_startable_hold turns that] by (simp add: is_start_def task_host_def)
  then show ?thesis unfolding Confirm run_task.simps
    by (intro run_in_ok[OF assms(1) calm_lax[OF calm_still_startable] assms(2)]) (use b in auto)
next
  case (Send d)
  then show ?thesis using assms by (cases dl) (auto simp: tasks_ok_def list_all_iff)
qed (auto intro!: run_in_quiet run_unit_ok assms(1,2) lax_rules calm_rules[THEN calm_lax] split: option.split)


lemma set_without: "set (without n xs) \<subseteq> set xs"
  unfolding without_def by (metis Un_least set_append set_drop_subset set_take_subset)

lemma plain_ok:
  assumes "tasks_ok c" and "move m c = Some c'" and "plain m"
  shows "tasks_ok c'"
  using assms
  by (cases m) (auto intro!: run_in_quiet run_unit_ok run_task_ok lax_rules calm_rules[THEN calm_lax] set_without
      split: if_splits)

lemma tasks_ok_move:
  assumes "tasks_ok c" and "move m c = Some c'"
  shows "tasks_ok c'"
proof (cases "plain m")
  case True
  then show ?thesis using assms plain_ok by blast
next
  case False
  then consider (reconcile) host where "m = MReconcile host" | (hold) h n a r where "m = MHold h n a r"
    by (cases m) (auto simp: plain_def)
  then show ?thesis
  proof cases
    case reconcile
    have inv: "store_inv (w_observed (ct_world c))" and turns: "turns_ok no_hold_call (w_turns (ct_world c))"
      and old: "\<forall>t\<in>set (ct_tasks c). task_ok (w_db (ct_world c)) t"
      using assms(1) by (simp_all add: tasks_ok_def list_all_iff)
    have logs: "logs no_hold_call (ct_world c) (ct_world c')"
      and new: "\<forall>t\<in>set (ct_tasks c'). t \<in> set (ct_tasks c) \<or> (\<exists>h. t = Enter h) \<or> (\<exists>d. t = Recheck d)"
      using assms(2)[unfolded reconcile] inv
      by (cases rule: reconcile_cases; auto simp: calm_def prepares_def reserved_def)+
    have "task_ok (w_db (ct_world c')) t" if "t \<in> set (ct_tasks c)" for t
      by (rule task_ok_keep[OF _ logs turns]) (use old that in auto)
    then show ?thesis using new logs turns inv by (auto simp: tasks_ok_def list_all_iff logs_def)
  next
    case hold
    let ?A = "\<lambda>op. hold_target op \<in> {None, Some h}"
    have en: "exclusive_ok h c" and c': "c' = run_in (SetMaintenanceHold_begin h n a r)
        (\<lambda>r. case r of Inl e \<Rightarrow> [] | Inr (h', s) \<Rightarrow> [SendHold h h' s]) (ct_tasks c) c"
      using assms(2) hold by (auto split: if_splits)
    have turns: "turns_ok ?A (w_turns (ct_world c))" using assms(1) by (auto simp: tasks_ok_def turns_ok_def)
    have logs: "logs ?A (ct_world c) (ct_world c')" using hold_calm assms(2) hold by (auto simp: calm_def)
    have "task_ok (w_db (ct_world c')) t" if "t \<in> set (ct_tasks c)" for t
      by (rule task_ok_keep[OF _ logs turns])
        (use assms(1) that en in \<open>auto simp: tasks_ok_def list_all_iff exclusive_ok_def list_ex_iff\<close>)
    moreover have "\<forall>t\<in>set (ct_tasks c'). t \<in> set (ct_tasks c) \<or> (\<exists>h. t = Enter h) \<or> (\<exists>h x s. t = SendHold h x s)"
      unfolding c' run_in_def by (auto split: prod.splits sum.splits)
    ultimately show ?thesis using logs assms(1) by (auto simp: tasks_ok_def list_all_iff logs_def)
  qed
qed

lemma tasks_ok_moves:
  assumes "moves ms (NewCoordinator db timeout turns) = Some c" and "turns_ok no_hold_call turns"
  shows "tasks_ok c"
  using assms(1)
proof (induction rule: moves_induct)
  case start
  show ?case using assms(2) by (simp add: tasks_ok_def NewCoordinator_def store_inv_New)
qed (blast intro: tasks_ok_move)

text \<open>C22: whoever else uses the store, as long as every change of a hold goes through the coordinator: an
  action is about to be sent only while its Host has no restore barrier, and a START only while the hold of
  its Host is not active.\<close>

theorem no_command_against_hold_or_barrier:
  assumes "moves ms (NewCoordinator db timeout turns) = Some c"
    and "\<And>n x. x \<in> set (tn_others (turns n)) \<Longrightarrow> hold_target (snd x) = None"
    and "Send d \<in> set (ct_tasks c)"
  shows "barrier_row (w_db (ct_world c)) (ak_HostID (ac_Key (pd_Action d))) = None
    \<and> (ak_Action (ac_Key (pd_Action d)) = ActionStart \<longrightarrow> \<not> held (w_db (ct_world c)) (ak_HostID (ac_Key (pd_Action d))))"
proof -
  have "tasks_ok c" by (rule tasks_ok_moves[OF assms(1)]) (use assms(2) in \<open>simp add: turns_ok_def\<close>)
  then show ?thesis using assms(3) by (auto simp: tasks_ok_def list_all_iff task_host_def is_start_def)
qed

end
