(* ===== verification/Reconcile_Queues.thy ===== *)
theory Reconcile_Queues
  imports Reconcile_Dispatch
begin

text \<open>
  The incident evaluators of the coordinator: at most one per Host, and a pending request always has one that
  will still look at it.
\<close>

section \<open>The flags of the evaluators\<close>

text \<open>\<open>k\<close> counts the evaluators that run already; those just started are in \<open>w_evaluators\<close>.\<close>

definition flags_ok :: "(HostID \<Rightarrow> nat) \<Rightarrow> World \<Rightarrow> bool" where
  "flags_ok k w \<longleftrightarrow> (\<forall>h. k h + count_list (w_evaluators w) h = of_bool (w_incidentRunning w h)
     \<and> (w_incidentPending w h \<longrightarrow> w_incidentRunning w h))"

definition keeps_flags :: "World \<Rightarrow> World \<Rightarrow> bool" where
  "keeps_flags w w' \<longleftrightarrow> (\<forall>k. flags_ok k w \<longrightarrow> flags_ok k w')"

interpretation flags: frame keeps_flags
  by unfold_locales (auto simp: keeps_flags_def)

named_theorems flag_rules \<open>computations that keep the flags of the evaluators in order\<close>

lemma flags_untouched:
  "(\<And>w. w_evaluators (snd (run_state m w)) = w_evaluators w \<and> w_incidentRunning (snd (run_state m w)) = w_incidentRunning w
     \<and> w_incidentPending (snd (run_state m w)) = w_incidentPending w) \<Longrightarrow> stays keeps_flags m"
  by (auto simp: state_io_rel_def keeps_flags_def flags_ok_def)

lemma flags_get [flag_rules]: "stays keeps_flags State_Monad.get"
  by (rule flags_untouched) simp

lemmas flag_steps = flags.steps flag_rules

lemma flags_calls [flag_rules]:
  "stays keeps_flags turn" "stays keeps_flags (query f)" "stays keeps_flags (commit op g)" "stays keeps_flags (observe j)"
  "stays keeps_flags time_now" "stays keeps_flags (commander_Session h)" "stays keeps_flags (observed_Get h)"
  unfolding observed_Get_def
  by (rule flags_untouched, auto simp: turn_def query_def commit_def observe_def time_now_def commander_Session_def Let_def
      split: prod.split option.split)+

lemma flags_tables [flag_rules]:
  "stays keeps_flags (markInFlight key)" "stays keeps_flags (clearInFlight key)" "stays keeps_flags (clearSession h ep)"
  "stays keeps_flags (resolveInFlightThroughObservation h ep q)" "stays keeps_flags (scheduleReconcile h)"
  "stays keeps_flags Shutdown_begin" "stays keeps_flags (State_Monad.update (\<lambda>w. w\<lparr>w_incidentEvaluations := v w\<rparr>))"
  by (rule flags_untouched, auto simp: markInFlight_def clearInFlight_def clearSession_def scheduleReconcile_def
      resolveInFlightThroughObservation_def Shutdown_begin_def)+

lemma flags_setDispatchSequence [flag_rules]: "stays keeps_flags (setDispatchSequence key q)"
  unfolding setDispatchSequence_def by (intro flags.steps flag_rules flags_untouched) auto

lemma flags_queue [flag_rules]: "stays keeps_flags (queueIncidentEvaluation h)"
proof (rule state_io_relI)
  fix u w w' assume r: "run_state (queueIncidentEvaluation h) w = (u, w')"
  show "keeps_flags w w'" unfolding keeps_flags_def
  proof (intro allI impI)
    fix k assume ok: "flags_ok k w"
    have w': "w' = (let w1 = w\<lparr>w_incidentPending := (w_incidentPending w)(h := True)\<rparr>
     in if w_incidentRunning w h then w1
        else if w_closing w
        then w1\<lparr>w_incidentRunning := (w_incidentRunning w)(h := False), w_incidentPending := (w_incidentPending w)(h := False)\<rparr>
        else w1\<lparr>w_incidentRunning := (w_incidentRunning w)(h := True), w_evaluators := w_evaluators w @ [h]\<rparr>)"
      using r by (simp add: queueIncidentEvaluation_def)
    have row: "k g + count_list (w_evaluators w) g = of_bool (w_incidentRunning w g) \<and> (w_incidentPending w g \<longrightarrow> w_incidentRunning w g)" for g
      using ok by (simp add: flags_ok_def)
    show "flags_ok k w'" unfolding flags_ok_def
    proof
      fix g
      show "k g + count_list (w_evaluators w') g = of_bool (w_incidentRunning w' g) \<and> (w_incidentPending w' g \<longrightarrow> w_incidentRunning w' g)"
        using row[of g] by (cases "g = h") (simp_all add: w' Let_def)
    qed
  qed
qed

lemma flags_sections [flag_rules]:
  "stays keeps_flags (scheduleIf c h)" "stays keeps_flags (still_desired a)" "stays keeps_flags (still_observed a obs)"
  "stays keeps_flags (still_startable a w)" "stays keeps_flags (current_snapshot w)" "stays keeps_flags (refreshed_workload obs w)"
  "stays keeps_flags (mark_ready info)" "stays keeps_flags (requestStillCurrent r)" "stays keeps_flags (block_request r co m)"
  "stays keeps_flags (clearReservedAction key)"
  unfolding scheduleIf_def still_desired_def still_observed_def still_startable_def current_snapshot_def refreshed_workload_def
    mark_ready_def requestStillCurrent_def block_request_def clearReservedAction_def
  by (intro flags.steps flag_rules)+

lemma flags_current_executions [flag_rules]: "stays keeps_flags (current_executions is m)"
  by (induction "is" arbitrary: m) (auto intro!: flags.steps flag_rules)

lemma flags_barrier [flag_rules]: "stays keeps_flags (applyRestoreBarrierLocked h obs)"
  unfolding applyRestoreBarrierLocked_def by (intro flags.steps flag_rules)

lemma flags_dispatch [flag_rules]: "stays keeps_flags (dispatch_action h obs a)"
  unfolding dispatch_action_def reserve_def actionStillCurrent_def by (intro flags.steps flag_rules)

lemma flags_dispatch_workload [flag_rules]: "stays keeps_flags (dispatch_workload h obs hold known w)"
  unfolding dispatch_workload_def by (intro flags.steps flag_rules)

lemma flags_dispatch_workloads [flag_rules]: "stays keeps_flags (dispatch_workloads h obs hold known ws)"
proof (induction ws)
  case (Cons w ws)
  have "stays keeps_flags (case r of Continue \<Rightarrow> dispatch_workloads h obs hold known ws | Return d \<Rightarrow> State_Monad.return d)" for r
    using Cons.IH by (cases r) (auto intro: flags.return)
  then show ?case unfolding dispatch_workloads.simps by (intro flags.steps flag_rules)
qed (simp add: flags.return)

lemma flags_prepare [flag_rules]: "stays keeps_flags (prepareDispatchLocked h)"
  unfolding prepareDispatchLocked_def dispatch_host_def by (intro flags.steps flag_rules)

lemma flags_reports [flag_rules]:
  "stays keeps_flags (SessionConnected info)" "stays keeps_flags (SessionDisconnected info)"
  "stays keeps_flags (ExecutionsObserved info es q)" "stays keeps_flags (InventoryObserved info iv)"
  "stays keeps_flags (ProcessesObserved info ps)" "stays keeps_flags (StatusObserved info st)"
  "stays keeps_flags (SessionReady info)" "stays keeps_flags (RuntimeResult info r e err)"
  unfolding SessionConnected_def SessionDisconnected_def ExecutionsObserved_def InventoryObserved_def ProcessesObserved_def
    StatusObserved_def SessionReady_def after_report_def RuntimeResult_def rejected_def completed_def latch_failed_start_def
  by (intro flags.steps flag_rules)+

lemma flags_clients [flag_rules]:
  "stays keeps_flags (coordinator_RetryWorkload i n)" "stays keeps_flags (SetMaintenanceHold_begin h n act t)"
  "stays keeps_flags (SetMaintenanceHold_end h hold s e)" "stays keeps_flags (delete_section i n)"
  unfolding coordinator_RetryWorkload_def SetMaintenanceHold_begin_def SetMaintenanceHold_end_def delete_section_def retire_def
  by (intro flags.steps flag_rules)+

lemma flags_facts [flag_rules]: "stays keeps_flags (workload_facts_of h ws)"
  by (induction ws) (auto intro!: flags.steps flag_rules)

lemma flags_evaluate [flag_rules]:
  "stays keeps_flags (evaluate_begin h)" "stays keeps_flags (evaluate_end h el)"
  unfolding evaluate_begin_def evaluate_end_def gather_facts_def by (intro flags.steps flag_rules)+

section \<open>The evaluators among the tasks\<close>

fun evaluates :: "HostID \<Rightarrow> Task \<Rightarrow> bool" where
  "evaluates h (Enter g) = (g = h)"
| "evaluates h (Evaluating g) = (g = h)"
| "evaluates h (Persist g el) = (g = h)"
| "evaluates h (Leave g) = (g = h)"
| "evaluates h _ = False"

definition evaluators :: "HostID \<Rightarrow> Task list \<Rightarrow> nat" where
  "evaluators h ts = length (filter (evaluates h) ts)"

lemma evaluators_simps [simp]:
  "evaluators h [] = 0" "evaluators h (t # ts) = of_bool (evaluates h t) + evaluators h ts"
  "evaluators h (as @ bs) = evaluators h as + evaluators h bs" "evaluators h (map Enter hs) = count_list hs h"
  by (simp_all add: evaluators_def) (induction hs, simp_all)

lemma evaluators_without: "n < length ts \<Longrightarrow> evaluators h ts = evaluators h (without n ts) + of_bool (evaluates h (ts ! n))"
  unfolding without_def by (subst (1) id_take_nth_drop[of n ts]) simp_all

definition queues_ok :: "Ctl \<Rightarrow> bool" where
  "queues_ok c \<longleftrightarrow> flags_ok (\<lambda>h. evaluators h (ct_tasks c)) (ct_world c) \<and> w_evaluators (ct_world c) = []"

lemma run_in_queues:
  assumes "run_state m (ct_world c) = (x, w)" and "flags_ok (\<lambda>h. evaluators h (others @ f x)) w"
  shows "queues_ok (run_in m f others c)"
  using assms by (simp add: queues_ok_def run_in_def flags_ok_def add.assoc)

lemma run_in_keeps:
  assumes "stays keeps_flags m" and "flags_ok k (ct_world c)" and "\<And>x. k = (\<lambda>h. evaluators h (others @ f x))"
  shows "queues_ok (run_in m f others c)"
proof -
  obtain x w where r: "run_state m (ct_world c) = (x, w)" by fastforce
  with assms(1,2) have "flags_ok k w" by (auto simp: state_io_rel_def keeps_flags_def dest!: spec[of _ "ct_world c"])
  then show ?thesis using r assms(3)[of x] run_in_queues by metis
qed

lemma flags_enter:
  assumes "flags_ok (\<lambda>h. k h + of_bool (g = h)) w" and "run_state (evaluator_enter g) w = (go, w')"
  shows "flags_ok (\<lambda>h. k h + of_bool (go \<and> g = h)) w'"
proof -
  have row: "k h + of_bool (g = h) + count_list (w_evaluators w) h = of_bool (w_incidentRunning w h)
     \<and> (w_incidentPending w h \<longrightarrow> w_incidentRunning w h)" for h
    using assms(1) by (simp add: flags_ok_def)
  have "k h + of_bool (go \<and> g = h) + count_list (w_evaluators w') h = of_bool (w_incidentRunning w' h)
     \<and> (w_incidentPending w' h \<longrightarrow> w_incidentRunning w' h)" for h
    using row[of h] assms(2) by (cases "g = h"; cases "w_incidentRunning w h") (auto simp: evaluator_enter_def split: if_splits)
  then show ?thesis by (simp add: flags_ok_def)
qed

lemma flags_leave:
  assumes "flags_ok (\<lambda>h. k h + of_bool (g = h)) w" and "run_state (evaluator_leave g) w = (go, w')"
  shows "flags_ok (\<lambda>h. k h + of_bool (go \<and> g = h)) w'"
proof -
  have row: "k h + of_bool (g = h) + count_list (w_evaluators w) h = of_bool (w_incidentRunning w h)
     \<and> (w_incidentPending w h \<longrightarrow> w_incidentRunning w h)" for h
    using assms(1) by (simp add: flags_ok_def)
  have "k h + of_bool (go \<and> g = h) + count_list (w_evaluators w') h = of_bool (w_incidentRunning w' h)
     \<and> (w_incidentPending w' h \<longrightarrow> w_incidentRunning w' h)" for h
    using row[of h] assms(2) by (cases "g = h"; cases "w_incidentRunning w h") (auto simp: evaluator_leave_def split: if_splits)
  then show ?thesis by (simp add: flags_ok_def)
qed

lemma run_unit_queues:
  "stays keeps_flags m \<Longrightarrow> flags_ok (\<lambda>h. evaluators h others) (ct_world c) \<Longrightarrow> queues_ok (run_unit m others c)"
  unfolding run_unit_def by (rule run_in_keeps) simp_all

lemma run_task_queues:
  assumes "flags_ok (\<lambda>h. evaluators h others + of_bool (evaluates h t)) (ct_world c)" and "w_evaluators (ct_world c) = []"
  shows "queues_ok (run_task t dl others c)"
proof (cases t)
  case (Enter g)
  obtain go w where r: "run_state (evaluator_enter g) (ct_world c) = (go, w)" by fastforce
  from flags_enter[OF _ r] show ?thesis using assms(1) Enter by (auto intro!: run_in_queues[OF r])
next
  case (Leave g)
  obtain go w where r: "run_state (evaluator_leave g) (ct_world c) = (go, w)" by fastforce
  from flags_leave[OF _ r] show ?thesis using assms(1) Leave by (auto intro!: run_in_queues[OF r])
next
  case (Send d)
  then show ?thesis using assms by (cases dl) (simp_all add: queues_ok_def)
qed (use assms(1) in \<open>auto intro!: run_in_keeps[OF _ assms(1)] run_unit_queues flag_rules split: option.split\<close>)

lemma move_queues: "move m c = Some c' \<Longrightarrow> queues_ok c \<Longrightarrow> queues_ok c'"
proof (cases m)
  case (MTask n dl)
  assume "move m c = Some c'" "queues_ok c"
  then show ?thesis using MTask evaluators_without[of n "ct_tasks c"]
    by (auto simp: queues_ok_def[of c] split: if_splits intro!: run_task_queues)
qed (auto simp: queues_ok_def[of c] split: if_splits option.split sum.split intro!: run_in_keeps run_unit_queues flag_rules)

text \<open>
  Whatever the network layer reports and however the goroutines interleave, a Host has exactly one incident
  evaluator while its running flag is set and none otherwise, and a request for an evaluation that is still
  pending has an evaluator that has not left its loop: no request is lost and no two evaluations of one Host
  overlap.
\<close>

theorem one_evaluator_per_host:
  assumes "moves ms (NewCoordinator db timeout turns) = Some c"
  shows "evaluators h (ct_tasks c) = of_bool (w_incidentRunning (ct_world c) h)
     \<and> (w_incidentPending (ct_world c) h \<longrightarrow> evaluators h (ct_tasks c) = 1)"
proof -
  from assms have "queues_ok c"
  proof (induction rule: moves_induct)
    case start
    show ?case by (simp add: queues_ok_def flags_ok_def NewCoordinator_def)
  qed (rule move_queues)
  then show ?thesis by (auto simp: queues_ok_def flags_ok_def)
qed

end
