(* ===== verification/Reconcile_Checks.thy ===== *)
theory Reconcile_Checks
  imports Reconcile_Dispatch
begin

text \<open>
  What a command of the coordinator rests on: the planner proposed it for a usable observation of its session,
  a START has passed a last look at the store, and a deletion was proved safe by the store and a fresh observation.
\<close>

section \<open>Where the commands come from\<close>

fun dispatch_of :: "Task \<Rightarrow> preparedDispatch option" where
  "dispatch_of (Recheck d) = Some d"
| "dispatch_of (Look d w) = Some d"
| "dispatch_of (Confirm d w) = Some d"
| "dispatch_of (Send d) = Some d"
| "dispatch_of _ = None"

fun workload_of :: "Task \<Rightarrow> DesiredWorkload option" where
  "workload_of (Look d w) = Some w"
| "workload_of (Confirm d w) = Some w"
| "workload_of _ = None"

text \<open>A task on the way to a command: its action was planned, and the workload it looked up is that of the action.\<close>

definition founded :: "Task \<Rightarrow> bool" where
  "founded t \<longleftrightarrow> (\<forall>d. dispatch_of t = Some d \<longrightarrow> (\<exists>hold. dispatches (pd_Observed d) hold d)
     \<and> (\<forall>w. workload_of t = Some w \<longrightarrow> dw_WorkloadID w = ak_WorkloadID (ac_Key (pd_Action d))))"

lemma founded_simps [simp]:
  "founded (Recheck d) \<longleftrightarrow> (\<exists>hold. dispatches (pd_Observed d) hold d)"
  "founded (Send d) \<longleftrightarrow> (\<exists>hold. dispatches (pd_Observed d) hold d)"
  "founded (Look d w) \<longleftrightarrow> (\<exists>hold. dispatches (pd_Observed d) hold d) \<and> dw_WorkloadID w = ak_WorkloadID (ac_Key (pd_Action d))"
  "founded (Confirm d w) \<longleftrightarrow> (\<exists>hold. dispatches (pd_Observed d) hold d) \<and> dw_WorkloadID w = ak_WorkloadID (ac_Key (pd_Action d))"
  "founded (Unreserve k)" "founded (Note k q)" "founded (Lose info h)" "founded (SendHold h m s)" "founded (Enter h)"
  "founded (Evaluating h)" "founded (Persist h el)" "founded (Leave h)"
  by (auto simp: founded_def)

lemma run_in_founded:
  "\<forall>t\<in>set ts. founded t \<Longrightarrow> (\<And>x w. run_state m (ct_world c) = (x, w) \<Longrightarrow> \<forall>t\<in>set (f x). founded t)
     \<Longrightarrow> t \<in> set (ct_tasks (run_in m f ts c)) \<Longrightarrow> founded t"
  using run_in_tasks[of m c f ts] by auto

lemma GetDesiredWorkload_row:
  "GetDesiredWorkload i db = Inr w \<Longrightarrow> \<exists>row. workload_row db i = Some row \<and> w = normalize_workload row"
  by (auto simp: GetDesiredWorkload_def workload_row_def validateLoadedWorkload_def Let_def guard_def split: option.splits)

lemma GetDesiredWorkload_id: "GetDesiredWorkload i db = Inr w \<Longrightarrow> dw_WorkloadID w = i"
  by (auto simp: workload_row_def normalize_workload_def dest!: GetDesiredWorkload_row row_of_SomeD)

lemma still_desired_id:
  "run_state (still_desired a) w = (Some x, w') \<Longrightarrow> dw_WorkloadID x = ak_WorkloadID (ac_Key a)"
  unfolding still_desired_def query_def turn_def
  by (auto simp: Let_def intro: GetDesiredWorkload_id split: sum.splits option.splits if_splits)

lemma run_task_founded:
  assumes "founded t" and "\<forall>t\<in>set ts. founded t" and "t' \<in> set (ct_tasks (run_task t dl ts c))"
  shows "founded t'"
proof (cases t)
  case (Recheck d)
  then show ?thesis using assms still_desired_id[of "pd_Action d" "ct_world c"]
    by (auto elim!: run_in_founded[rotated 2] split: option.splits)
next
  case (Send d)
  then show ?thesis using assms by (cases dl) auto
qed (use assms in \<open>auto simp: run_unit_def elim!: run_in_founded[rotated 2] split: option.splits if_splits\<close>)

lemma move_founded:
  assumes "move m c = Some c'" and "store_inv (w_observed (ct_world c))" and "\<forall>t\<in>set (ct_tasks c). founded t"
  shows "\<forall>t\<in>set (ct_tasks c'). founded t"
proof (cases m)
  case (MReconcile host)
  show ?thesis using assms(1)[unfolded MReconcile] assms(2)
    by (cases rule: reconcile_cases) (use assms(3) in \<open>auto simp: prepares_def\<close>)
next
  case (MTask n dl)
  then show ?thesis using assms(1,3) run_task_founded[of "ct_tasks c ! n" "without n (ct_tasks c)" _ dl c] set_without[of n "ct_tasks c"]
    by (auto split: if_splits)
qed (use assms in \<open>auto simp: run_unit_def elim!: run_in_founded[rotated 2] split: if_splits sum.splits\<close>)

lemma moves_founded:
  assumes "moves ms (NewCoordinator db timeout turns) = Some c"
  shows "\<forall>t\<in>set (ct_tasks c). founded t"
  using assms
proof (induction rule: moves_induct)
  case start
  show ?case by (simp add: NewCoordinator_def)
next
  case (step ms d m d')
  then show ?case using move_founded ctl_inv_moves by (auto simp: ctl_inv_def)
qed

text \<open>C24: in every interleaving, a command that is about to be sent carries the action that the planner proposed for
  an observation that was connected, ready and fresh, with the identity of that action, and goes to the session of
  that observation.\<close>

theorem commands_are_planned:
  assumes "moves ms (NewCoordinator db timeout turns) = Some c" and "Send d \<in> set (ct_tasks c)"
  shows "\<exists>i. pi_Observed i = pd_Observed d \<and> pd_Action d \<in> set (pres_Actions (Plan i))
    \<and> ho_Connected (pd_Observed d) \<and> ho_Ready (pd_Observed d) \<and> ho_Fresh (pd_Observed d)
    \<and> pd_Request d = request_of (pd_Action d) \<and> ak_Action (ac_Key (pd_Action d)) \<noteq> ActionBlock
    \<and> ak_HostID (ac_Key (pd_Action d)) = ho_HostID (pd_Observed d)
    \<and> ak_ConnectionEpoch (ac_Key (pd_Action d)) = si_ConnectionEpoch (pd_Session d)"
proof -
  obtain hold where d: "dispatches (pd_Observed d) hold d" using moves_founded[OF assms(1)] assms(2) by fastforce
  then obtain i where i: "pi_Observed i = pd_Observed d" "pd_Action d \<in> set (pres_Actions (Plan i))"
    by (auto simp: dispatches_def)
  then have "observation_usable i" using Plan_actionD by blast
  then show ?thesis using i d planned_key[OF d] by (auto simp: observation_usable_def dispatches_def)
qed

section \<open>The last check before a START\<close>

lemma GetCurrentResolvedSnapshot_row:
  assumes "GetCurrentResolvedSnapshot sv i db = Inr s"
  shows "\<exists>row s0. workload_row db i = Some row \<and> dw_RunState (dw_Content row) = DesiredRunning \<and> s0 \<in> set (db_snapshots db)
    \<and> snapshot_key s0 = (i, dw_DesiredGeneration row) \<and> sn_ExecutionID s0 = sn_ExecutionID s \<and> sn_ResolvedHash s0 = sn_ResolvedHash s"
proof -
  obtain w where w: "GetDesiredWorkload i db = Inr w" "dw_RunState (dw_Content w) = DesiredRunning"
    "getSnapshot sv db i (dw_DesiredGeneration w) = Inr s"
    using assms by (auto simp: GetCurrentResolvedSnapshot_def split: if_splits)
  obtain row where row: "workload_row db i = Some row" "w = normalize_workload row" using GetDesiredWorkload_row[OF w(1)] by blast
  obtain s0 where s0: "row_of snapshot_key (i, dw_DesiredGeneration w) (db_snapshots db) = Some s0" "load_snapshot sv s0 = Inr s"
    using w(3) by (auto simp: getSnapshot_def split: option.splits)
  have "s = s0\<lparr>sn_Resources := NormalizeResourceClaim (sn_Resources s0)\<rparr>"
    using s0(2) by (auto simp: load_snapshot_def Let_def guard_def split: option.splits)
  then show ?thesis using row w(2) row_of_SomeD[OF s0(1)]
    by (intro exI[of _ row] exI[of _ s0]) (simp add: normalize_workload_def normalize_content_def)
qed

lemma still_startable_current:
  assumes "run_state (still_startable a latest) w = (True, w')" and "ak_Action (ac_Key a) = ActionStart"
  shows "\<exists>sv s. GetCurrentResolvedSnapshot sv (dw_WorkloadID latest) (w_db w') = Inr s
    \<and> sn_ExecutionID s = ak_ExecutionID (ac_Key a) \<and> sn_ResolvedHash s = sn_ResolvedHash (ac_Snapshot a)"
  using assms unfolding still_startable_def query_def turn_def
  by (auto simp: Let_def split: sum.splits option.splits if_splits)

lemma run_in_sends:
  assumes "Send d \<in> set (ct_tasks (run_in m f ts c))" and "Send d \<notin> set ts"
  shows "\<exists>x w. run_state m (ct_world c) = (x, w) \<and> Send d \<in> set (f x) \<and> w_db (ct_world (run_in m f ts c)) = w_db w"
  using run_in_tasks[of m c f ts] assms by auto

lemma sends_confirmed:
  assumes "Send d \<in> set (ct_tasks (run_task t dl ts c))" and "Send d \<notin> set ts"
  shows "\<exists>latest w. t = Confirm d latest \<and> run_state (still_startable (pd_Action d) latest) (ct_world c) = (True, w)
    \<and> w_db (ct_world (run_task t dl ts c)) = w_db w"
proof (cases t)
  case (Send d)
  then show ?thesis using assms by (cases dl) auto
qed (use assms run_in_sends in \<open>fastforce simp: run_unit_def split: option.splits if_splits\<close>)+

text \<open>C25: a START is handed to the network layer only by a section that has just seen the store: in the database it
  leaves, the workload of the action is RUNNING and the snapshot of its present generation is the very execution,
  with the very resolved hash, that the command starts.\<close>

theorem start_is_current:
  assumes "moves ms (NewCoordinator db timeout turns) = Some c" and "move (MTask n dl) c = Some c'"
    and "Send d \<in> set (ct_tasks c')" and "Send d \<notin> set (ct_tasks c)" and "rq_Kind (pd_Request d) = RuntimeStart"
  shows "\<exists>row s. workload_row (w_db (ct_world c')) (rq_WorkloadID (pd_Request d)) = Some row
    \<and> dw_RunState (dw_Content row) = DesiredRunning \<and> s \<in> set (db_snapshots (w_db (ct_world c')))
    \<and> snapshot_key s = (rq_WorkloadID (pd_Request d), dw_DesiredGeneration row)
    \<and> sn_ExecutionID s = rq_ExecutionID (pd_Request d) \<and> sn_ResolvedHash s = rq_ResolvedHash (pd_Request d)"
proof -
  have n: "n < length (ct_tasks c)" and c': "c' = run_task (ct_tasks c ! n) dl (without n (ct_tasks c)) c"
    using assms(2) by (auto split: if_splits)
  have "Send d \<notin> set (without n (ct_tasks c))" using assms(4) set_without by fastforce
  then obtain latest w where w: "ct_tasks c ! n = Confirm d latest" "run_state (still_startable (pd_Action d) latest) (ct_world c) = (True, w)"
    "w_db (ct_world c') = w_db w" using sends_confirmed assms(3) unfolding c' by blast
  then have "founded (Confirm d latest)" using moves_founded[OF assms(1)] n nth_mem by metis
  then have id: "dw_WorkloadID latest = rq_WorkloadID (pd_Request d)" and req: "pd_Request d = request_of (pd_Action d)"
    by (auto simp: dispatches_def request_of_def)
  then have "ak_Action (ac_Key (pd_Action d)) = ActionStart" using assms(5) by (auto simp: request_of_def split: if_splits)
  from still_startable_current[OF w(2) this] obtain sv s where s: "GetCurrentResolvedSnapshot sv (rq_WorkloadID (pd_Request d)) (w_db w) = Inr s"
    "sn_ExecutionID s = rq_ExecutionID (pd_Request d)" "sn_ResolvedHash s = rq_ResolvedHash (pd_Request d)"
    using id req by (auto simp: request_of_def)
  show ?thesis using GetCurrentResolvedSnapshot_row[OF s(1)] s(2,3) unfolding w(3) by auto
qed

section \<open>Deletions\<close>

lemma bind_run: "run_state (State_Monad.bind m f) w = (x, w') \<longleftrightarrow> (\<exists>y w1. run_state m w = (y, w1) \<and> run_state (f y) w1 = (x, w'))"
  by (simp split: prod.split)

text \<open>The turn of call \<open>k\<close> of a computation, and the database that call sees when the computation has committed nothing before.\<close>

definition turn_after :: "World \<Rightarrow> nat \<Rightarrow> Turn" where
  "turn_after w k = w_turns w (w_turn w + k)"

primrec db_at :: "World \<Rightarrow> nat \<Rightarrow> DB" where
  "db_at w 0 = after_calls (tn_others (turn_after w 0)) (w_db w)"
| "db_at w (Suc k) = after_calls (tn_others (turn_after w (Suc k))) (db_at w k)"

text \<open>The world \<open>w'\<close> is \<open>w\<close> one turn later, for the calls that follow.\<close>

definition turn_later :: "World \<Rightarrow> World \<Rightarrow> bool" where
  "turn_later w w' \<longleftrightarrow> w_turns w' = w_turns w \<and> w_turn w' = Suc (w_turn w) \<and> w_db w' = db_at w 0 \<and> w_inFlight w' = w_inFlight w"

lemma later_reads:
  assumes "turn_later w w'"
  shows "turn_after w' k = turn_after w (Suc k)" "db_at w' k = db_at w (Suc k)"
proof -
  have t: "turn_after w' k = turn_after w (Suc k)" for k using assms by (simp add: turn_later_def turn_after_def)
  then show "turn_after w' k = turn_after w (Suc k)" .
  show "db_at w' k = db_at w (Suc k)" using assms t by (induction k) (simp_all add: turn_later_def)
qed

lemma query_run:
  "run_state (query f) w = (r, w') \<Longrightarrow> turn_later w w' \<and> w_observed w' = w_observed w
     \<and> (\<forall>x. r = Inr x \<longrightarrow> f (tn_svc (turn_after w 0)) (db_at w 0) = Inr x)"
  by (auto simp: query_def turn_def Let_def turn_later_def turn_after_def split: option.splits)

lemma commit_run:
  "run_state (commit op f) w = (Inr x, w') \<Longrightarrow> f (tn_svc (turn_after w 0)) (db_at w 0) = (w_db w', Inr x) \<and> w_observed w' = w_observed w"
  by (auto simp: commit_def turn_def Let_def turn_after_def split: option.splits prod.splits)

lemma observed_run:
  "run_state (observed_Get host) w = ((obs, ok), w')
     \<Longrightarrow> turn_later w w' \<and> Get (w_observed w) (tn_clock (turn_after w 0)) host = (w_observed w', obs, ok)"
  by (auto simp: observed_Get_def observe_def turn_def Let_def turn_later_def turn_after_def split: prod.splits)

text \<open>The executions of a workload that the Agent reports as owned by one of its snapshots, and that are not stopped.\<close>

definition owned_by_snapshot :: "ExecutionObservation \<Rightarrow> ResolvedExecutionSnapshot \<Rightarrow> bool" where
  "owned_by_snapshot e s \<longleftrightarrow> ex_ExecutionID e = sn_ExecutionID s \<and> (\<exists>ow. ex_Ownership e = Some ow \<and> ow_WorkloadID ow = sn_WorkloadID s
     \<and> ow_DesiredGeneration ow = sn_DesiredGeneration s \<and> ow_ResolvedHash ow = sn_ResolvedHash s \<and> ow_HostID ow = sn_HostID s)"

lemma executions_of_snoc: "executions_of (ss @ [s]) = (executions_of ss)(sn_ExecutionID s \<mapsto> s)"
  by (simp add: executions_of_def)

lemma executions_of_distinct: "distinct (map sn_ExecutionID ss) \<Longrightarrow> s \<in> set ss \<Longrightarrow> executions_of ss (sn_ExecutionID s) = Some s"
proof (induction ss rule: rev_induct)
  case (snoc x xs)
  have "s \<noteq> x \<Longrightarrow> sn_ExecutionID s \<noteq> sn_ExecutionID x" using snoc.prems by (simp add: image_iff) metis
  then show ?case using snoc by (cases "s = x") (simp_all add: executions_of_snoc)
qed simp

lemma owned_is_still_owned:
  assumes "distinct (map sn_ExecutionID ss)" "s \<in> set ss" "owned_by_snapshot e s" "\<not> still_owned ss e"
  shows "ex_Status e = ExecutionStopped"
  using assms executions_of_distinct[OF assms(1,2)]
  by (auto simp: owned_by_snapshot_def still_owned_def ownershipMatchesSnapshot_def)

lemma listed_snapshots:
  assumes "ListResolvedSnapshots sv i db = Inr ss"
  shows "snapshots_of db i = [] \<longleftrightarrow> ss = []" "distinct (map sn_ExecutionID (db_snapshots db)) \<Longrightarrow> distinct (map sn_ExecutionID ss)"
    "s \<in> set (snapshots_of db i) \<Longrightarrow> \<exists>s'\<in>set ss. owned_by_snapshot e s' \<longleftrightarrow> owned_by_snapshot e s"
proof -
  let ?rows = "sort_key sn_DesiredGeneration (snapshots_of db i)"
  have l: "list_all2 (\<lambda>x y. load_snapshot sv x = Inr y) ?rows ss"
    using assms by (auto simp: ListResolvedSnapshots_def snapshots_of_def Let_def traverse_Inr split: option.splits)
  have loaded: "load_snapshot sv x = Inr y \<Longrightarrow> \<exists>r. y = x\<lparr>sn_Resources := r\<rparr>" for x y
    by (auto simp: load_snapshot_def Let_def)
  have "length ss = length (snapshots_of db i)" using list_all2_lengthD[OF l] by simp
  then show "snapshots_of db i = [] \<longleftrightarrow> ss = []" by auto
  have "map sn_ExecutionID ss = map sn_ExecutionID ?rows" using l by (induction rule: list_all2_induct) (auto dest: loaded)
  moreover have "distinct (map sn_ExecutionID ?rows)" if "distinct (map sn_ExecutionID (db_snapshots db))"
    using that by (auto simp: distinct_map snapshots_of_def inj_on_def)
  ultimately show "distinct (map sn_ExecutionID (db_snapshots db)) \<Longrightarrow> distinct (map sn_ExecutionID ss)" by simp
  assume "s \<in> set (snapshots_of db i)"
  then obtain k where k: "k < length ?rows" "?rows ! k = s" by (metis in_set_conv_nth set_sort)
  then have "load_snapshot sv s = Inr (ss ! k)" and mem: "ss ! k \<in> set ss" using l by (auto simp: list_all2_conv_all_nth)
  then obtain r where "ss ! k = s\<lparr>sn_Resources := r\<rparr>" using loaded by blast
  then show "\<exists>s'\<in>set ss. owned_by_snapshot e s' \<longleftrightarrow> owned_by_snapshot e s" using mem
    by (intro bexI[of _ "ss ! k"]) (simp_all add: owned_by_snapshot_def)
qed

text \<open>The transactions that delete a workload.\<close>

lemma deleted_row:
  assumes "loadWorkloadTx db i = Inr x"
  shows "\<exists>row. workload_row db i = Some row \<and> dw_RunState (dw_Content row) = dw_RunState (dw_Content x) \<and> meta_Revision (dw_Meta row) = meta_Revision (dw_Meta x)"
    "workload_row (delete_workload_row (resolveDeletedWorkloadIncidentsTx sv i db) x) i = None"
proof -
  obtain row where row: "workload_row db i = Some row" "x = normalize_workload row" using loadWorkloadTxD[OF assms] by blast
  then show "\<exists>row. workload_row db i = Some row \<and> dw_RunState (dw_Content row) = dw_RunState (dw_Content x) \<and> meta_Revision (dw_Meta row) = meta_Revision (dw_Meta x)"
    by (auto simp: normalize_workload_def)
  have "dw_WorkloadID x = i" using row workload_row_id[OF row(1)] by (simp add: normalize_workload_def)
  then show "workload_row (delete_workload_row (resolveDeletedWorkloadIncidentsTx sv i db) x) i = None"
    by (simp add: delete_workload_row_def resolveDeletedWorkloadIncidentsTx_def Let_def touch_def workload_row_def row_of_remove)
qed

definition deletes_stopped :: "WorkloadID \<Rightarrow> uint64 \<Rightarrow> DB \<Rightarrow> DB \<Rightarrow> bool" where
  "deletes_stopped i n db db' \<longleftrightarrow> (\<exists>row. workload_row db i = Some row \<and> dw_RunState (dw_Content row) = DesiredStopped
     \<and> meta_Revision (dw_Meta row) = n) \<and> workload_row db' i = None"

lemma deletions:
  "DeleteDesiredWorkload sv i n db = (db', Inr u) \<Longrightarrow> deletes_stopped i n db db' \<and> snapshots_of db i = []"
  "FinalizeRetiredDesiredWorkloadDeletion sv i n db = (db', Inr u) \<Longrightarrow> deletes_stopped i n db db'"
  using deleted_row[of db i]
  by (fastforce simp: DeleteDesiredWorkload_def FinalizeRetiredDesiredWorkloadDeletion_def deletes_stopped_def snapshots_of_def filter_empty_conv
      list_ex_iff split: option.splits)+

lemma retire_run:
  assumes "run_state (retire i n workload ss) w = (Inr u, w')"
  shows "dw_RunState (dw_Content workload) = DesiredStopped
    \<and> (\<exists>obs. Get (w_observed w) (tn_clock (turn_after w 0)) (dw_HostID (dw_Content workload)) = (w_observed w', obs, True)
        \<and> ho_Connected obs \<and> ho_Ready obs \<and> ho_Fresh obs \<and> (\<forall>e\<in>set (ho_Executions obs). \<not> still_owned ss e))
    \<and> deletes_stopped i n (db_at w 1) (w_db w')"
proof -
  have stopped: "dw_RunState (dw_Content workload) = DesiredStopped" using assms by (auto simp: retire_def split: if_splits)
  obtain obs ok w1 where g: "run_state (observed_Get (dw_HostID (dw_Content workload))) w = ((obs, ok), w1)"
    by (metis prod.exhaust)
  then have c: "ok \<and> ho_Connected obs \<and> ho_Ready obs \<and> ho_Fresh obs \<and> \<not> list_ex (still_owned ss) (ho_Executions obs)"
    "run_state (commit (OpFinalizeRetiredDesiredWorkloadDeletion i n) (\<lambda>sv db. FinalizeRetiredDesiredWorkloadDeletion sv i n db)) w1 = (Inr u, w')"
    using assms stopped by (auto simp: retire_def split: if_splits)
  note g' = observed_run[OF g] and c' = commit_run[OF c(2)]
  have "deletes_stopped i n (db_at w 1) (w_db w')" using deletions(2) c' later_reads[of w w1 0] g' by (metis One_nat_def)
  then show ?thesis using stopped c(1) g' c' by (auto simp: list_ex_iff)
qed

text \<open>C26: a workload is deleted through the coordinator only when the first read of the section, which happens under the
  lock of its Host, has the expected revision and no action of it is in flight; the row that the transaction deletes is
  STOPPED and still has that revision; and either no snapshot was ever made of it, neither when the snapshots are read nor
  when it is deleted, or it was STOPPED at the first read and the observation of its Host at that moment is connected,
  ready and fresh and shows every execution that one of its snapshots owns as stopped. The identifiers of executions are
  unique in the table of snapshots, which is a constraint of the table.\<close>

theorem deletion_is_proved_safe:
  assumes "run_state (delete_section i n) w = (Inr u, w')" and "distinct (map sn_ExecutionID (db_snapshots (db_at w 1)))"
  shows "\<exists>workload. GetDesiredWorkload i (db_at w 0) = Inr workload \<and> meta_Revision (dw_Meta workload) = n
    \<and> (\<forall>k q. (k, q) \<in> set (w_inFlight w) \<longrightarrow> \<not> (ak_HostID k = dw_HostID (dw_Content workload) \<and> ak_WorkloadID k = i))
    \<and> (if snapshots_of (db_at w 1) i = []
       then snapshots_of (db_at w 2) i = [] \<and> deletes_stopped i n (db_at w 2) (w_db w')
       else dw_RunState (dw_Content workload) = DesiredStopped \<and> deletes_stopped i n (db_at w 3) (w_db w')
        \<and> (\<exists>obs. Get (w_observed w) (tn_clock (turn_after w 2)) (dw_HostID (dw_Content workload)) = (w_observed w', obs, True)
            \<and> ho_Connected obs \<and> ho_Ready obs \<and> ho_Fresh obs
            \<and> (\<forall>e s. e \<in> set (ho_Executions obs) \<and> s \<in> set (snapshots_of (db_at w 1) i) \<and> owned_by_snapshot e s \<longrightarrow> ex_Status e = ExecutionStopped)))"
proof -
  obtain r w1 where q: "run_state (query (\<lambda>sv db. GetDesiredWorkload i db)) w = (r, w1)" by fastforce
  then obtain workload where workload: "r = Inr workload" using assms(1) by (cases r) (auto simp: delete_section_def bind_run)
  have checked: "meta_Revision (dw_Meta workload) = n" "\<not> workloadHasInFlight (dw_HostID (dw_Content workload)) i w1"
    using assms(1) q workload by (auto simp: delete_section_def split: if_splits)
  obtain r2 w2 where q2: "run_state (query (\<lambda>sv db. ListResolvedSnapshots sv i db)) w1 = (r2, w2)" by fastforce
  then have rest: "run_state (case r2 of Inl e \<Rightarrow> State_Monad.return (Inl e)
      | Inr [] \<Rightarrow> commit (OpDeleteDesiredWorkload i n) (\<lambda>sv db. DeleteDesiredWorkload sv i n db)
      | Inr (s # ss) \<Rightarrow> retire i n workload (s # ss)) w2 = (Inr u, w')"
    using assms(1) q workload checked by (auto simp: delete_section_def)
  then obtain ss where ss: "r2 = Inr ss" by (cases r2) auto
  note q' = query_run[OF q] and q2' = query_run[OF q2]
  have at: "turn_after w2 k = turn_after w (k + 2)" "db_at w2 k = db_at w (k + 2)" "db_at w1 0 = db_at w 1" for k
    using later_reads[of w w1] later_reads[of w1 w2] q' q2' by (simp_all del: db_at.simps)
  have seen: "w_observed w2 = w_observed w" "w_inFlight w1 = w_inFlight w" using q' q2' by (simp_all add: turn_later_def)
  have list: "ListResolvedSnapshots (tn_svc (turn_after w1 0)) i (db_at w 1) = Inr ss" using q2' ss at(3) by (simp del: db_at.simps)
  note listed = listed_snapshots[OF list]
  have first: "GetDesiredWorkload i (db_at w 0) = Inr workload"
    "\<forall>k q. (k, q) \<in> set (w_inFlight w) \<longrightarrow> \<not> (ak_HostID k = dw_HostID (dw_Content workload) \<and> ak_WorkloadID k = i)"
    using q' workload checked(2) seen(2) by (auto simp: workloadHasInFlight_def list_ex_iff)
  show ?thesis
  proof (cases ss)
    case Nil
    then have run: "run_state (commit (OpDeleteDesiredWorkload i n) (\<lambda>sv db. DeleteDesiredWorkload sv i n db)) w2 = (Inr u, w')" using rest ss by simp
    have "DeleteDesiredWorkload (tn_svc (turn_after w2 0)) i n (db_at w 2) = (w_db w', Inr u)"
      using commit_run[OF run] at(2)[of 0] by (simp add: numeral_2_eq_2 del: db_at.simps)
    then show ?thesis using deletions(1) listed(1) Nil first checked(1) by auto
  next
    case (Cons s0 rest0)
    then have "run_state (retire i n workload ss) w2 = (Inr u, w')" using rest ss by simp
    note retired = retire_run[OF this, unfolded at seen]
    then obtain obs where obs: "Get (w_observed w) (tn_clock (turn_after w (0 + 2))) (dw_HostID (dw_Content workload)) = (w_observed w', obs, True)"
      "ho_Connected obs" "ho_Ready obs" "ho_Fresh obs" "\<forall>e\<in>set (ho_Executions obs). \<not> still_owned ss e" by blast
    have "ex_Status e = ExecutionStopped"
      if "e \<in> set (ho_Executions obs) \<and> s \<in> set (snapshots_of (db_at w 1) i) \<and> owned_by_snapshot e s" for e s
      using listed(3)[of s e] that owned_is_still_owned[OF listed(2)[OF assms(2)], of _ e] obs(5) by blast
    moreover have "snapshots_of (db_at w 1) i \<noteq> []" using listed(1) Cons by simp
    moreover have "deletes_stopped i n (db_at w 3) (w_db w')" "dw_RunState (dw_Content workload) = DesiredStopped"
      using retired by (simp_all add: numeral_3_eq_3)
    moreover have "turn_after w (0 + 2) = turn_after w 2" by (simp add: numeral_2_eq_2)
    ultimately show ?thesis using obs first checked(1) by (intro exI[of _ workload]) (simp del: db_at.simps One_nat_def, blast)
  qed
qed

end
