(* ===== verification/Reconcile_Demo.thy ===== *)
theory Reconcile_Demo
  imports Reconcile_Checks Reconcile_Queues Store_Demo
begin

text \<open>
  The coordinator on the farm of \<open>Store_Demo\<close>: an Agent connects, reports, and its workload is started. The
  theorems on the coordinator are applied along this run.
\<close>

section \<open>A quiet environment\<close>

abbreviation "farm_host \<equiv> HostID (demo_id ''host'')"

definition session1 :: SessionInfo where
  "session1 = \<lparr>si_AgentID = AgentID ''agent'', si_HostID = farm_host, si_ConnectionEpoch = 1, si_Authenticated = True, si_Ready = True\<rparr>"

definition quiet_turn :: Turn where
  "quiet_turn = \<lparr>tn_others = [], tn_svc = sv_b, tn_clock = (\<lambda>_. 5), tn_failure = None, tn_session = Some session1\<rparr>"

definition quiet :: "World \<Rightarrow> bool" where
  "quiet w \<longleftrightarrow> w_turns w = (\<lambda>_. quiet_turn)"

definition after_turn :: "World \<Rightarrow> World" where
  "after_turn w = w\<lparr>w_turn := w_turn w + 1\<rparr>"

lemma session1_fields [simp]: "si_AgentID session1 = AgentID ''agent''" "si_HostID session1 = farm_host"
  "si_ConnectionEpoch session1 = 1" "si_Ready session1"
  by (simp_all add: session1_def)

lemma after_turn_fields [simp]:
  "w_db (after_turn w) = w_db w" "w_observed (after_turn w) = w_observed w" "w_inFlight (after_turn w) = w_inFlight w"
  "w_workers (after_turn w) = w_workers w" "w_closing (after_turn w) = w_closing w" "quiet (after_turn w) = quiet w"
  "w_evaluators (after_turn w) = w_evaluators w" "w_incidentRunning (after_turn w) = w_incidentRunning w"
  "w_incidentPending (after_turn w) = w_incidentPending w"
  by (simp_all add: after_turn_def quiet_def)

lemma quiet_fields [simp]:
  "quiet (w\<lparr>w_db := db\<rparr>) = quiet w" "quiet (w\<lparr>w_observed := s\<rparr>) = quiet w" "quiet (w\<lparr>w_inFlight := fl\<rparr>) = quiet w"
  "quiet (w\<lparr>w_workers := ws\<rparr>) = quiet w" "quiet (w\<lparr>w_evaluators := es\<rparr>) = quiet w" "quiet (w\<lparr>w_calls := cs\<rparr>) = quiet w"
  "quiet (w\<lparr>w_incidentRunning := r\<rparr>) = quiet w" "quiet (w\<lparr>w_incidentPending := r\<rparr>) = quiet w"
  by (simp_all add: quiet_def)

named_theorems quiet_runs \<open>what the calls return in a quiet environment\<close>

lemma quiet_turn_run: "quiet w \<Longrightarrow> run_state turn w = (quiet_turn, after_turn w)"
  by (simp add: quiet_def turn_def quiet_turn_def after_turn_def)

lemma quiet_query [quiet_runs]: "quiet w \<Longrightarrow> run_state (query f) w = (f sv_b (w_db w), after_turn w)"
  by (simp add: query_def quiet_turn_run) (simp add: quiet_turn_def)

lemma quiet_observe [quiet_runs]: "quiet w \<Longrightarrow> run_state (observe f) w
    = (snd (f (w_observed w) (\<lambda>_. 5)), (after_turn w)\<lparr>w_observed := fst (f (w_observed w) (\<lambda>_. 5))\<rparr>)"
  by (simp add: observe_def quiet_turn_run case_prod_beta) (simp add: quiet_turn_def)

lemma quiet_now [quiet_runs]: "quiet w \<Longrightarrow> run_state time_now w = (5, after_turn w)"
  by (simp add: time_now_def quiet_turn_run) (simp add: quiet_turn_def)

lemma quiet_session [quiet_runs]: "quiet w \<Longrightarrow> run_state (commander_Session host) w = (Some session1, after_turn w)"
  by (simp add: commander_Session_def quiet_turn_run) (simp add: quiet_turn_def)

section \<open>The bootstrap of the session\<close>

definition farm_inventory :: Inventory where
  "farm_inventory = zero_Inventory\<lparr>inv_Host := (inv_Host zero_Inventory)\<lparr>host_HostID := farm_host\<rparr>,
     inv_CPU := (inv_CPU zero_Inventory)\<lparr>cpu_Threads := 4\<rparr>\<rparr>"

definition bootstrap :: "Move list" where
  "bootstrap = [MConnected session1, MExecutions session1 [] 0, MInventory session1 farm_inventory,
     MProcesses session1 [], MStatus session1 AgentStateIdle]"

text \<open>The entry of the Host after some of the reports: executions, inventory, processes, status.\<close>

definition sight_entry :: "bool \<Rightarrow> bool \<Rightarrow> bool \<Rightarrow> bool \<Rightarrow> uint64 \<Rightarrow> entry" where
  "sight_entry ex iv ps st r = \<lparr>en_observation = \<lparr>ho_HostID = farm_host, ho_AgentID = AgentID ''agent'', ho_ConnectionEpoch = 1,
      ho_Connected = True, ho_Ready = st, ho_Fresh = ex, ho_RefreshedAt = (if ex then 5 else 0),
      ho_InventoryFresh = iv, ho_InventoryRefreshedAt = (if iv then 5 else 0),
      ho_Inventory = (if iv then farm_inventory else zero_Inventory),
      ho_ProcessesFresh = ps, ho_ProcessesRefreshedAt = (if ps then 5 else 0), ho_UnmanagedProcesses = [],
      ho_AgentState = (if st then AgentStateIdle else AgentStateOther []), ho_Executions = [], ho_RuntimeSequence = 0,
      ho_Revision = r\<rparr>,
    en_inventoryCurrent = iv, en_statusCurrent = st, en_processesCurrent = ps,
    en_freshAt = (if ex then 5 else 0), en_inventoryFreshAt = (if iv then 5 else 0), en_processesFreshAt = (if ps then 5 else 0),
    en_runtimeSequence = 0\<rparr>"

definition sighted :: entry where
  "sighted = sight_entry True True True True 6"

abbreviation "farm_sight \<equiv> en_observation sighted"

text \<open>A quiet world with this database, these actions in flight and this store of observations.\<close>

definition settled :: "DB \<Rightarrow> (ActionKey \<times> uint64) list \<Rightarrow> Store \<Rightarrow> World \<Rightarrow> bool" where
  "settled db flight s w \<longleftrightarrow> quiet w \<and> w_db w = db \<and> w_inFlight w = flight \<and> \<not> w_closing w \<and> w_evaluators w = [] \<and> w_observed w = s"

lemma settled_fields [simp]:
  "settled db flight s (after_turn w) = settled db flight s w"
  "settled db flight s (w\<lparr>w_workers := ws\<rparr>) = settled db flight s w"
  by (simp_all add: settled_def)

lemma settledD: "settled db flight s w \<Longrightarrow> quiet w \<and> w_db w = db \<and> w_inFlight w = flight \<and> \<not> w_closing w \<and> w_evaluators w = [] \<and> w_observed w = s"
  by (simp add: settled_def)

lemma settled_schedule: "settled db flight s w \<Longrightarrow> \<exists>w'. run_state (scheduleIf c h) w = ((), w') \<and> settled db flight s w'"
  by (simp add: scheduleIf_def scheduleReconcile_def settledD)

lemma settled_observe: "settled db flight s w \<Longrightarrow> \<exists>w'. run_state (observe f) w = (snd (f s (\<lambda>_. 5)), w') \<and> settled db flight (fst (f s (\<lambda>_. 5))) w'"
  by (auto simp: quiet_observe settled_def)

lemma settled_now: "settled db flight s w \<Longrightarrow> run_state time_now w = (5, after_turn w)"
  by (simp add: quiet_now settledD)

lemma settled_bind:
  "\<exists>w'. run_state m w = (x, w') \<and> P w' \<Longrightarrow> (\<And>w'. P w' \<Longrightarrow> \<exists>w''. run_state (f x) w' = (y, w'') \<and> Q w'')
     \<Longrightarrow> \<exists>w''. run_state (State_Monad.bind m f) w = (y, w'') \<and> Q w''"
  by auto

lemma settled_connected:
  "settled db flight s w \<Longrightarrow> \<exists>w'. run_state (SessionConnected info) w = ((), w')
     \<and> settled db flight (fst (Connect s (si_AgentID info) (si_HostID info) (si_ConnectionEpoch info))) w'"
  unfolding SessionConnected_def by (rule settled_bind[OF settled_observe settled_schedule])

lemma settled_report:
  assumes "settled db flight s w"
  shows "\<exists>w'. run_state (after_report info updated) w = ((), w')
     \<and> settled db flight (fst (Get (fst (MarkReady s (si_HostID info) (si_ConnectionEpoch info))) (\<lambda>_. 5) (si_HostID info))) w'"
  unfolding after_report_def mark_ready_def observed_Get_def
  by (rule settled_bind[OF settled_observe[OF assms] settled_bind[OF settled_observe]]) (auto intro!: settled_schedule split: prod.split)

lemma settled_reports:
  assumes "settled db flight s w"
  shows "\<exists>w'. run_state (InventoryObserved session1 iv) w = ((), w')
     \<and> settled db flight (fst (Get (fst (MarkReady (fst (SetInventory s (\<lambda>_. 5) farm_host 1 iv)) farm_host 1)) (\<lambda>_. 5) farm_host)) w'"
    and "\<exists>w'. run_state (StatusObserved session1 st) w = ((), w')
     \<and> settled db flight (fst (Get (fst (MarkReady (fst (SetAgentState s farm_host 1 st)) farm_host 1)) (\<lambda>_. 5) farm_host)) w'"
  unfolding InventoryObserved_def StatusObserved_def session1_fields
  by (rule settled_bind[OF settled_observe[OF assms] settled_report[where info = session1, simplified]], assumption)+

lemma settled_processes:
  assumes "settled db flight s w"
  shows "\<exists>w'. run_state (ProcessesObserved session1 ps) w = ((), w')
     \<and> settled db flight (fst (Get (fst (MarkReady (fst (SetUnmanagedProcesses s (\<lambda>_. 5) farm_host 1 ps 5)) farm_host 1)) (\<lambda>_. 5) farm_host)) w'"
proof -
  have now: "settled db flight s (after_turn w)" using assms by simp
  have "\<exists>w'. run_state (do {updated \<leftarrow> observe (\<lambda>s clk. SetUnmanagedProcesses s clk farm_host 1 ps 5); after_report session1 updated}) (after_turn w) = ((), w')
     \<and> settled db flight (fst (Get (fst (MarkReady (fst (SetUnmanagedProcesses s (\<lambda>_. 5) farm_host 1 ps 5)) farm_host 1)) (\<lambda>_. 5) farm_host)) w'"
    by (rule settled_bind[OF settled_observe[OF now] settled_report[where info = session1, simplified]])
  then show ?thesis using assms by (simp add: ProcessesObserved_def settled_now)
qed

lemma settled_executions:
  assumes "settled db [] s w"
  shows "\<exists>w'. run_state (ExecutionsObserved session1 es q) w = ((), w')
     \<and> settled db [] (fst (MarkReady (fst (SetExecutions s (\<lambda>_. 5) farm_host 1 es 5 q)) farm_host 1)) w'"
proof -
  have resolve: "settled db [] s' v \<Longrightarrow> \<exists>w'. run_state (if b then resolveInFlightThroughObservation h ep q else State_Monad.return ()) v = ((), w')
      \<and> settled db [] s' w'" for s' v b h ep
    by (simp add: resolveInFlightThroughObservation_def settled_def)
  have now: "settled db [] s (after_turn w)" using assms by simp
  have "\<exists>w'. run_state (do {
      updated \<leftarrow> observe (\<lambda>s clk. SetExecutions s clk farm_host 1 es 5 q);
      (if updated then resolveInFlightThroughObservation farm_host 1 q else State_Monad.return ());
      ready \<leftarrow> mark_ready session1;
      scheduleIf (updated \<or> ready) farm_host}) (after_turn w) = ((), w')
     \<and> settled db [] (fst (MarkReady (fst (SetExecutions s (\<lambda>_. 5) farm_host 1 es 5 q)) farm_host 1)) w'"
    unfolding mark_ready_def session1_fields
    by (rule settled_bind[OF settled_observe[OF now] settled_bind[OF resolve settled_bind[OF settled_observe settled_schedule]]])
  then show ?thesis using assms by (simp only: ExecutionsObserved_def session1_fields run_state_bind settled_now prod.case)
qed

text \<open>A move that only runs a section of a settled world.\<close>

lemma settled_unit:
  "\<exists>w'. run_state m (ct_world c) = ((), w') \<and> settled db flight s w'
     \<Longrightarrow> \<exists>c'. run_unit m ts c = c' \<and> ct_tasks c' = ts \<and> settled db flight s (ct_world c')"
  by (auto simp: run_unit_def run_in_def settled_def)

definition sight1 :: Store where "sight1 = fst (Connect (NewWithOptions 0) (AgentID ''agent'') farm_host 1)"
definition sight2 :: Store where "sight2 = fst (MarkReady (fst (SetExecutions sight1 (\<lambda>_. 5) farm_host 1 [] 5 0)) farm_host 1)"
definition sight3 :: Store where "sight3 = fst (Get (fst (MarkReady (fst (SetInventory sight2 (\<lambda>_. 5) farm_host 1 farm_inventory)) farm_host 1)) (\<lambda>_. 5) farm_host)"
definition sight4 :: Store where "sight4 = fst (Get (fst (MarkReady (fst (SetUnmanagedProcesses sight3 (\<lambda>_. 5) farm_host 1 [] 5)) farm_host 1)) (\<lambda>_. 5) farm_host)"
definition sight_store :: Store where "sight_store = fst (Get (fst (MarkReady (fst (SetAgentState sight4 farm_host 1 AgentStateIdle)) farm_host 1)) (\<lambda>_. 5) farm_host)"

definition at_sight :: "Store \<Rightarrow> entry \<Rightarrow> bool" where
  "at_sight s e \<longleftrightarrow> st_hosts s farm_host = Some e \<and> st_freshnessTimeout s = DefaultFreshnessTimeout"

lemma not_expired: "\<not> expired DefaultFreshnessTimeout 5 5"
  by (simp add: expired_def IsZero_def time_Sub_def DefaultFreshnessTimeout_def)

lemma sight_refresh: "refreshFreshness DefaultFreshnessTimeout (\<lambda>_. 5) (sight_entry ex iv ps st r) = sight_entry ex iv ps st r"
  by (cases ex; cases iv; cases ps) (simp_all add: refreshFreshness_def sight_entry_def not_expired)

lemma sight_Get_entry: "at_sight s (sight_entry ex iv ps st r) \<Longrightarrow> fst (Get s (\<lambda>_. 5) farm_host) = s"
  by (cases s) (auto simp: at_sight_def Get_def sight_refresh put_entry_def Let_def)

lemma sight_entries: "at_sight sight1 (sight_entry False False False False 1)" "at_sight sight2 (sight_entry True False False False 2)"
  "at_sight sight3 (sight_entry True True False False 3)" "at_sight sight4 (sight_entry True True True False 4)" "at_sight sight_store sighted"
proof -
  note defs = at_sight_def SetExecutions_def SetInventory_def SetUnmanagedProcesses_def SetAgentState_def MarkReady_def store_current_def put_entry_def
  show 1: "at_sight sight1 (sight_entry False False False False 1)"
    by (simp add: sight1_def Connect_def NewWithOptions_def zero_HostObservation_def sight_entry_def at_sight_def put_entry_def)
  show 2: "at_sight sight2 (sight_entry True False False False 2)" unfolding sight2_def
    using 1 by (simp add: defs sight_entry_def)
  have "at_sight (fst (MarkReady (fst (SetInventory sight2 (\<lambda>_. 5) farm_host 1 farm_inventory)) farm_host 1)) (sight_entry True True False False 3)"
    using 2 by (simp add: defs sight_entry_def)
  then show 3: "at_sight sight3 (sight_entry True True False False 3)" by (simp add: sight3_def sight_Get_entry)
  have "at_sight (fst (MarkReady (fst (SetUnmanagedProcesses sight3 (\<lambda>_. 5) farm_host 1 [] 5)) farm_host 1)) (sight_entry True True True False 4)"
    using 3 by (simp add: defs sight_entry_def)
  then show 4: "at_sight sight4 (sight_entry True True True False 4)" by (simp add: sight4_def sight_Get_entry)
  have "at_sight (fst (MarkReady (fst (SetAgentState sight4 farm_host 1 AgentStateIdle)) farm_host 1)) sighted"
    using 4 by (simp add: defs sighted_def sight_entry_def)
  then show "at_sight sight_store sighted" by (simp add: sight_store_def sighted_def sight_Get_entry)
qed

lemma sight_Get: "Get sight_store (\<lambda>_. 5) farm_host = (sight_store, farm_sight, True)"
proof -
  have "fst (Get sight_store (\<lambda>_. 5) farm_host) = sight_store" using sight_entries(5) sight_Get_entry by (simp add: sighted_def)
  moreover have "cloneCurrent (\<lambda>_. 5) sighted = farm_sight"
    by (simp add: cloneCurrent_def sighted_def sight_entry_def IsZero_def time_Sub_def ageObservedTelemetry_def)
  ultimately show ?thesis using sight_entries(5) sight_refresh by (auto simp: Get_def at_sight_def sighted_def prod_eq_iff Let_def)
qed

lemma bootstrapped:
  "\<exists>c. moves bootstrap (NewCoordinator db 0 (\<lambda>_. quiet_turn)) = Some c \<and> ct_tasks c = [] \<and> settled db [] sight_store (ct_world c)"
proof -
  let ?c0 = "NewCoordinator db 0 (\<lambda>_. quiet_turn)"
  have step: "\<exists>c'. move m c = Some c' \<and> ct_tasks c' = [] \<and> settled db [] s (ct_world c')"
    if "move m c = Some (run_unit r (ct_tasks c) c)" "ct_tasks c = []" "\<exists>w'. run_state r (ct_world c) = ((), w') \<and> settled db [] s w'"
    for m r c s
    using settled_unit[OF that(3), of "[]"] that(1,2) by auto
  have "settled db [] (NewWithOptions 0) (ct_world ?c0)" "ct_tasks ?c0 = []"
    by (simp_all add: NewCoordinator_def settled_def quiet_def)
  then obtain c1 where c1: "move (MConnected session1) ?c0 = Some c1" "ct_tasks c1 = []" "settled db [] sight1 (ct_world c1)"
    using step[OF _ _ settled_connected, of "MConnected session1" ?c0 session1] by (auto simp: sight1_def)
  obtain c2 where c2: "move (MExecutions session1 [] 0) c1 = Some c2" "ct_tasks c2 = []" "settled db [] sight2 (ct_world c2)"
    using step[OF _ c1(2) settled_executions[OF c1(3)], of "MExecutions session1 [] 0"] by (auto simp: sight2_def)
  obtain c3 where c3: "move (MInventory session1 farm_inventory) c2 = Some c3" "ct_tasks c3 = []" "settled db [] sight3 (ct_world c3)"
    using step[OF _ c2(2) settled_reports(1)[OF c2(3)], of "MInventory session1 farm_inventory"] by (auto simp: sight3_def)
  obtain c4 where c4: "move (MProcesses session1 []) c3 = Some c4" "ct_tasks c4 = []" "settled db [] sight4 (ct_world c4)"
    using step[OF _ c3(2) settled_processes[OF c3(3)], of "MProcesses session1 []"] by (auto simp: sight4_def)
  obtain c5 where c5: "move (MStatus session1 AgentStateIdle) c4 = Some c5" "ct_tasks c5 = []" "settled db [] sight_store (ct_world c5)"
    using step[OF _ c4(2) settled_reports(2)[OF c4(3)], of "MStatus session1 AgentStateIdle"] by (auto simp: sight_store_def)
  show ?thesis using c1(1) c2(1) c3(1) c4(1) c5 by (simp add: bootstrap_def del: move.simps)
qed

section \<open>The first dispatch\<close>

lemma settled_query: "settled db flight s w \<Longrightarrow> run_state (query f) w = (f sv_b db, after_turn w)"
  by (simp add: quiet_query settledD)

lemma settled_Get: "settled db flight sight_store w \<Longrightarrow> run_state (observed_Get farm_host) w = ((farm_sight, True), after_turn w)"
  by (simp add: observed_Get_def quiet_observe settledD sight_Get after_turn_def)

lemma settled_session: "settled db flight s w \<Longrightarrow> run_state (commander_Session h) w = (Some session1, after_turn w)"
  by (simp add: quiet_session settledD)

lemmas settled_runs = settled_query settled_Get settled_session settled_now

text \<open>What the store of the farm answers about its workload \<open>a\<close> with the snapshot \<open>s\<close>.\<close>

definition serves :: "DesiredWorkload \<Rightarrow> ResolvedExecutionSnapshot \<Rightarrow> bool" where
  "serves a s \<longleftrightarrow> GetDesiredWorkload id_b farm1 = Inr a \<and> ListDesiredWorkloads farm1 = Inr [a]
     \<and> ListAllResolvedSnapshots sv_b farm1 = Inr [s] \<and> ListResolvedSnapshots sv_b id_b farm1 = Inr [s]
     \<and> GetCurrentResolvedSnapshot sv_b id_b farm1 = Inr s \<and> GetWorkloadRuntimeBinding id_b farm1 = Inr None
     \<and> GetMaintenanceHold farm_host farm1 = Inr (no_hold farm_host, False) \<and> GetRestoreHostBarrier farm_host farm1 = Inr None
     \<and> ValidateResolvedSnapshotForStart sv_b s farm_inventory farm1 = Inr ()
     \<and> dw_WorkloadID a = id_b \<and> dw_Content a = running_cpu \<and> dw_DesiredGeneration a = 1
     \<and> sn_ExecutionID s = farm_xid (CHR ''b'') \<and> sn_Resources s = cpu_claim"

lemma farm_serves: "\<exists>a s. serves a s"
proof -
  obtain a s where f: "CreateDesiredWorkload sv_b running_cpu farm0 = (farm1, Inr a)" "db_workloads farm1 = [a]"
    "farm_row (CHR ''b'') running_cpu a" "db_snapshots farm1 = [s]" "farm_snap (CHR ''b'') a 1 s" "db_bindings farm1 = []" "farm_objects farm1"
    using farm1_rows by blast
  have a: "dw_WorkloadID a = id_b" "dw_Content a = running_cpu" "dw_DesiredGeneration a = 1"
    using f(3) by (simp_all add: farm_row_def)
  have row: "workload_row farm1 id_b = Some a" using f(2) a(1) by (simp add: workload_row_def row_of_def)
  have load: "loadWorkloadTx farm1 id_b = Inr a" by (rule farm_row_loads[OF f(3) _ hex_chars(1) row]) simp
  have parts: "scanWorkload a = None" "validateLoadedWorkload a = Inr a"
    "loadDevices ''stored workload DeviceID is invalid'' (cl_DeviceIDs (dw_Resources (dw_Content a))) = None"
    using load row by (auto simp: loadWorkloadTx_def workload_row_def guard_def split: option.splits)
  have wid: "invalid_workload_id id_b = None" "WorkloadID_Validate id_b = None" using key_valid(1)[OF hex_chars(1)] by (simp_all add: invalid_workload_id_def)
  have get: "GetDesiredWorkload id_b farm1 = Inr a"
    using row parts wid by (simp add: GetDesiredWorkload_def workload_row_def)
  have list: "ListDesiredWorkloads farm1 = Inr [a]" using parts by (simp add: ListDesiredWorkloads_def f(2) first_error_None)
  have s: "snapshot_key s = (id_b, 1)" "sn_Resources s = cpu_claim" "scanSnapshot s = None" "validateSnapshot (env_uni farm_env) s = None"
    "sn_ExecutionID s = farm_xid (CHR ''b'')" "sn_HostID s = farm_host" "sn_WorkloadID s = id_b" "sn_DesiredGeneration s = 1"
    "ResolvedRuntimeHash (resolved_content (farm_inputs a) demo_endpoint) = Inr (sn_ResolvedHash s)"
    using f(5) a by (simp_all add: farm_snap_def rig_fields snapshot_key_def)
  have same: "s\<lparr>sn_Resources := cpu_claim\<rparr> = s" using s(2) by (cases s) simp
  have "loadDevices m (cl_DeviceIDs (sn_Resources s)) = None" for m by (simp add: s(2) cpu_claim_def loadDevices_def)
  then have loads: "load_snapshot sv_b s = Inr s"
    unfolding load_snapshot_def Let_def s(2) claim_normal same using s(3,4) by (simp add: s(2))
  then have snap: "getSnapshot sv_b farm1 id_b 1 = Inr s" using s(1) by (simp add: getSnapshot_def f(4) row_of_def)
  have all: "ListAllResolvedSnapshots sv_b farm1 = Inr [s]" "ListResolvedSnapshots sv_b id_b farm1 = Inr [s]"
    using loads s(3,7) wid by (simp_all add: ListAllResolvedSnapshots_def ListResolvedSnapshots_def f(4) first_error_None)
  have current: "GetCurrentResolvedSnapshot sv_b id_b farm1 = Inr s"
    using get snap a by (simp add: GetCurrentResolvedSnapshot_def rig_fields)
  have none: "GetWorkloadRuntimeBinding id_b farm1 = Inr None" using wid by (simp add: GetWorkloadRuntimeBinding_def f(6) row_of_def)
  obtain r :: Result where r: "resolveWorkload sv_b farm1 a = Inr (farm_inputs a, r)" "Resolver_Resolve farm_env (farm_inputs a) = Inr r"
    "rs_Content r = resolved_content (farm_inputs a) demo_endpoint"
    using farm_resolveWorkload[OF f(7), of a sv_b] a by (auto simp: rig_fields cpu_claim_def)
  have "rs_Hash r = sn_ResolvedHash s" using Resolver_ResolveD[OF r(2)] r(3) s(9) by (metis sum.inject(2))
  moreover have "ResolveAndValidate farm_env (farm_inputs a) farm_inventory = Inr r"
    using r by (simp add: ResolveAndValidate_def check_cpu_def resolved_content_def farm_inputs_def farm_fields a rig_fields cpu_claim_def
        NormalizeResourceClaim_def farm_inventory_def zero_Inventory_def Let_def)
  ultimately have valid: "ValidateResolvedSnapshotForStart sv_b s farm_inventory farm1 = Inr ()"
    using load a s snap r(1) by (simp add: ValidateResolvedSnapshotForStart_def check_gpu_snapshot_def rig_fields cpu_claim_def)
  have "hold_row farm0 farm_host = None" "barrier_row farm0 farm_host = None"
    by (simp_all add: hold_row_def barrier_row_def farm0_def row_of_def)
  then have rows: "hold_row farm1 farm_host = None" "barrier_row farm1 farm_host = None"
    using perform_hold[of "OpCreateDesiredWorkload running_cpu" farm_host sv_b farm0, folded farm1_def]
      perform_barrier[of farm0 farm_host sv_b "OpCreateDesiredWorkload running_cpu", folded farm1_def]
    by (simp_all only: hold_target_def StoreOp.case option.distinct simp_thms)
  have hold: "GetMaintenanceHold farm_host farm1 = Inr (no_hold farm_host, False)" "GetRestoreHostBarrier farm_host farm1 = Inr None"
    using rows by (simp_all add: GetMaintenanceHold_def GetRestoreHostBarrier_def hold_row_def barrier_row_def invalid_host_def
        host_id.check_text demo_id_valid)
  show ?thesis unfolding serves_def using get list all current none hold valid a s(2,5) by blast
qed

text \<open>The START that the planner proposes, and its dispatch.\<close>

definition start_key :: ActionKey where
  "start_key = \<lparr>ak_HostID = farm_host, ak_WorkloadID = id_b, ak_DesiredGeneration = 1, ak_ExecutionID = farm_xid (CHR ''b''),
     ak_ConnectionEpoch = 1, ak_Action = ActionStart\<rparr>"

definition start_dispatch :: "ResolvedExecutionSnapshot \<Rightarrow> preparedDispatch" where
  "start_dispatch s = \<lparr>pd_Action = mk_action start_key s, pd_Request = request_of (mk_action start_key s), pd_Session = session1,
     pd_Observed = farm_sight\<rparr>"

lemma sight_fields [simp]: "ho_HostID farm_sight = farm_host" "ho_ConnectionEpoch farm_sight = 1" "ho_Connected farm_sight" "ho_Ready farm_sight"
  "ho_Fresh farm_sight" "ho_InventoryFresh farm_sight" "ho_ProcessesFresh farm_sight" "ho_Inventory farm_sight = farm_inventory"
  "ho_UnmanagedProcesses farm_sight = []" "ho_Executions farm_sight = []" "ho_RuntimeSequence farm_sight = 0"
  by (simp_all add: sighted_def sight_entry_def)

lemma start_key_fields [simp]: "ak_HostID start_key = farm_host" "ak_WorkloadID start_key = id_b" "ak_Action start_key = ActionStart"
  "ak_DesiredGeneration start_key = 1" "ak_ExecutionID start_key = farm_xid (CHR ''b'')" "ak_ConnectionEpoch start_key = 1"
  by (simp_all add: start_key_def)

lemma farm_plan:
  assumes "serves a s"
  shows "Plan \<lparr>pi_Workload = a, pi_Current = Some s, pi_Snapshots = [s], pi_Binding = None, pi_Hold = None, pi_Observed = farm_sight,
     pi_InFlight = {}, pi_OtherOwned = known\<rparr> = plan_action (mk_action start_key s)"
  using assms by (simp add: Plan_def observation_usable_def serves_def rig_fields hold_active_def plan_running_def generation_blocked_def
      startConflict_def inventoryContains_def cpu_claim_def unless_in_flight_def mk_key_def start_key_def Let_def)

lemma farm_still_current:
  assumes "serves a s" and "settled farm1 fl sight_store w"
  shows "run_state (still_desired (mk_action start_key s)) w = (Some a, after_turn (after_turn w))"
    "run_state (still_observed (mk_action start_key s) farm_sight) w = (True, after_turn w)"
    "run_state (still_startable (mk_action start_key s) a) w = (True, after_turn (after_turn w))"
  using assms by (simp_all add: still_desired_def still_observed_def still_startable_def settled_runs[OF assms(2)] settled_runs[where w = "after_turn w", simplified, OF assms(2)]
      serves_def rig_fields sameExecutionFacts_def)


lemma farm_reserve:
  assumes "serves a s" and w: "settled farm1 [] sight_store w"
  shows "\<exists>w'. run_state (dispatch_action farm_host farm_sight (mk_action start_key s)) w = (Return (Some (start_dispatch s)), w')
    \<and> settled farm1 [(start_key, 0)] sight_store w'"
proof -
  have w2: "settled farm1 [] sight_store (after_turn (after_turn w))" using w by simp
  note steps = farm_still_current[OF assms(1)]
  have current: "run_state (actionStillCurrent (mk_action start_key s) farm_sight) v = (True, after_turn (after_turn (after_turn (after_turn (after_turn v)))))"
    if "settled farm1 [] sight_store v" for v
    using that by (simp add: actionStillCurrent_def steps[OF that] steps[where w = "after_turn (after_turn v)"]
        steps[where w = "after_turn (after_turn (after_turn v))"])
  show ?thesis using assms w
    by (simp add: dispatch_action_def reserve_def settled_query current settled_session markInFlight_def settledD serves_def start_dispatch_def)
      (simp add: settled_def)
qed

lemma farm_prepare:
  assumes "serves a s" and w: "settled farm1 [] sight_store w"
  shows "\<exists>w'. run_state (prepareDispatchLocked farm_host) w = (Some (start_dispatch s), w') \<and> settled farm1 [(start_key, 0)] sight_store w'"
proof -
  have loop: "\<exists>w'. run_state (dispatch_workloads farm_host farm_sight None known [a]) v = (Some (start_dispatch s), w')
      \<and> settled farm1 [(start_key, 0)] sight_store w'" if v: "settled farm1 [] sight_store v" for known v
  proof -
    have "\<exists>w'. run_state (dispatch_workload farm_host farm_sight None known a) v = (Return (Some (start_dispatch s)), w')
      \<and> settled farm1 [(start_key, 0)] sight_store w'"
      using assms(1) v farm_plan[OF assms(1)] farm_reserve[OF assms(1), of "after_turn (after_turn (after_turn v))"]
      by (simp add: dispatch_workload_def refreshed_workload_def current_snapshot_def serves_def rig_fields cpu_claim_def settled_query
          inFlightSnapshot_def settledD)
    then show ?thesis by auto
  qed
  show ?thesis using assms w loop
    by (simp add: prepareDispatchLocked_def dispatch_host_def applyRestoreBarrierLocked_def settled_Get settled_query serves_def hostHasInFlight_def settledD)
qed

section \<open>The run\<close>

text \<open>A move that runs a section of a settled world and starts tasks.\<close>

lemma settled_run_in:
  "\<exists>w'. run_state m (ct_world c) = (x, w') \<and> settled db flight s w'
     \<Longrightarrow> ct_tasks (run_in m f ts c) = ts @ f x \<and> settled db flight s (ct_world (run_in m f ts c))"
  by (auto simp: run_in_def settled_def)

lemma without_only [simp]: "without 0 [x] = []"
  by (simp add: without_def)

lemma farm_start_sent:
  assumes "serves a s" and c: "ct_tasks c = []" "settled farm1 [] sight_store (ct_world c)"
  shows "\<exists>c3 c4. moves [MReconcile farm_host, MTask 0 dl, MTask 0 dl] c = Some c3 \<and> ct_tasks c3 = [Confirm (start_dispatch s) a]
      \<and> move (MTask 0 dl) c3 = Some c4 \<and> ct_tasks c4 = [Send (start_dispatch s)] \<and> settled farm1 [(start_key, 0)] sight_store (ct_world c4)"
proof -
  let ?d = "start_dispatch s"
  have d: "pd_Action ?d = mk_action start_key s" "pd_Observed ?d = farm_sight" by (simp_all add: start_dispatch_def)
  obtain c1 where c1: "move (MReconcile farm_host) c = Some c1" "ct_tasks c1 = [Recheck ?d]" "settled farm1 [(start_key, 0)] sight_store (ct_world c1)"
    using settled_run_in[OF farm_prepare[OF assms(1) c(2)], where f = "\<lambda>r. case r of None \<Rightarrow> [] | Some d \<Rightarrow> [Recheck d]"] c(1)
    by (auto simp: shared_ok_def)
  have "\<exists>w'. run_state (still_desired (mk_action start_key s)) (ct_world c1) = (Some a, w') \<and> settled farm1 [(start_key, 0)] sight_store w'"
    using farm_still_current(1)[OF assms(1) c1(3)] c1(3) by simp
  from settled_run_in[OF this, where ts = "[]" and f = "\<lambda>r. case r of None \<Rightarrow> [Unreserve start_key] | Some w \<Rightarrow> [Look ?d w]"]
  obtain c2 where c2: "move (MTask 0 dl) c1 = Some c2" "ct_tasks c2 = [Look ?d a]" "settled farm1 [(start_key, 0)] sight_store (ct_world c2)"
    using c1(2) by (auto simp: d cong: if_cong option.case_cong)
  have "\<exists>w'. run_state (still_observed (mk_action start_key s) farm_sight) (ct_world c2) = (True, w') \<and> settled farm1 [(start_key, 0)] sight_store w'"
    using farm_still_current(2)[OF assms(1) c2(3)] c2(3) by simp
  from settled_run_in[OF this, where ts = "[]" and f = "\<lambda>ok. if ok then [Confirm ?d a] else [Unreserve start_key]"]
  obtain c3 where c3: "move (MTask 0 dl) c2 = Some c3" "ct_tasks c3 = [Confirm ?d a]" "settled farm1 [(start_key, 0)] sight_store (ct_world c3)"
    using c2(2) by (auto simp: d cong: if_cong option.case_cong)
  have "\<exists>w'. run_state (still_startable (mk_action start_key s) a) (ct_world c3) = (True, w') \<and> settled farm1 [(start_key, 0)] sight_store w'"
    using farm_still_current(3)[OF assms(1) c3(3)] c3(3) by simp
  from settled_run_in[OF this, where ts = "[]" and f = "\<lambda>ok. if ok then [Send ?d] else [Unreserve start_key]"]
  obtain c4 where c4: "move (MTask 0 dl) c3 = Some c4" "ct_tasks c4 = [Send ?d]" "settled farm1 [(start_key, 0)] sight_store (ct_world c4)"
    using c3(2) by (auto simp: d cong: if_cong option.case_cong)
  have "moves [MReconcile farm_host, MTask 0 dl, MTask 0 dl] c = Some c3" using c1(1) c2(1) c3(1) by (simp del: move.simps)
  then show ?thesis using c3(2) c4 by blast
qed

abbreviation "farm_run \<equiv> bootstrap @ [MReconcile farm_host, MTask 0 (Delivered 1), MTask 0 (Delivered 1)]"
abbreviation "farm_start \<equiv> NewCoordinator farm1 0 (\<lambda>_. quiet_turn)"

lemma farm_sends:
  "\<exists>s c3 c4. moves farm_run farm_start = Some c3 \<and> (\<exists>a. ct_tasks c3 = [Confirm (start_dispatch s) a])
     \<and> move (MTask 0 (Delivered 1)) c3 = Some c4 \<and> ct_tasks c4 = [Send (start_dispatch s)]
     \<and> moves (farm_run @ [MTask 0 (Delivered 1)]) farm_start = Some c4 \<and> w_inFlight (ct_world c4) = [(start_key, 0)]"
proof -
  obtain a s where s: "serves a s" using farm_serves by blast
  obtain c where c: "moves bootstrap farm_start = Some c" "ct_tasks c = []" "settled farm1 [] sight_store (ct_world c)" using bootstrapped by blast
  from farm_start_sent[OF s c(2,3), of "Delivered 1"] obtain c3 c4 where m: "moves [MReconcile farm_host, MTask 0 (Delivered 1), MTask 0 (Delivered 1)] c = Some c3"
    "ct_tasks c3 = [Confirm (start_dispatch s) a]" "move (MTask 0 (Delivered 1)) c3 = Some c4" "ct_tasks c4 = [Send (start_dispatch s)]"
    "settled farm1 [(start_key, 0)] sight_store (ct_world c4)" by blast
  have run: "moves farm_run farm_start = Some c3" using c(1) m(1) by (simp only: moves_append option.case)
  have "moves [MTask 0 (Delivered 1)] c3 = Some c4" using m(3) by (simp del: move.simps)
  then have "moves (farm_run @ [MTask 0 (Delivered 1)]) farm_start = Some c4"
    using run by (simp only: moves_append[of farm_run] option.case)
  then show ?thesis using run m by (auto simp: settled_def)
qed

section \<open>The theorems along the run\<close>

theorem one_action_per_session_witness:
  "\<exists>ms c. moves ms farm_start = Some c \<and> (start_key, 0) \<in> set (w_inFlight (ct_world c))
     \<and> (\<forall>x\<in>set (w_inFlight (ct_world c)). ak_HostID (fst x) = farm_host \<and> ak_ConnectionEpoch (fst x) = 1 \<longrightarrow> x = (start_key, 0))"
proof -
  obtain c4 where c: "moves (farm_run @ [MTask 0 (Delivered 1)]) farm_start = Some c4" "w_inFlight (ct_world c4) = [(start_key, 0)]"
    using farm_sends by blast
  have "x = (start_key, 0)" if "x \<in> set (w_inFlight (ct_world c4))" "ak_HostID (fst x) = farm_host" "ak_ConnectionEpoch (fst x) = 1" for x
    using one_action_per_session[OF c(1) that(1), of "(start_key, 0)"] that(2,3) c(2) by simp
  then show ?thesis using c by (intro exI[of _ "farm_run @ [MTask 0 (Delivered 1)]"] exI[of _ c4]) auto
qed

theorem no_command_against_hold_or_barrier_witness:
  "\<exists>ms c d. moves ms farm_start = Some c \<and> Send d \<in> set (ct_tasks c) \<and> \<not> held (w_db (ct_world c)) farm_host"
proof -
  obtain s c4 where c: "moves (farm_run @ [MTask 0 (Delivered 1)]) farm_start = Some c4" "ct_tasks c4 = [Send (start_dispatch s)]"
    using farm_sends by blast
  then have "\<not> held (w_db (ct_world c4)) farm_host"
    using no_command_against_hold_or_barrier[OF c(1), of "start_dispatch s"] by (simp add: quiet_turn_def start_dispatch_def)
  then show ?thesis using c by (metis list.set_intros(1))
qed

theorem commands_are_planned_witness:
  "\<exists>ms c d i. moves ms farm_start = Some c \<and> Send d \<in> set (ct_tasks c) \<and> pd_Action d \<in> set (pres_Actions (Plan i))"
proof -
  obtain s c4 where c: "moves (farm_run @ [MTask 0 (Delivered 1)]) farm_start = Some c4" "ct_tasks c4 = [Send (start_dispatch s)]"
    using farm_sends by blast
  have m: "Send (start_dispatch s) \<in> set (ct_tasks c4)" using c(2) by simp
  from commands_are_planned[OF c(1) m] show ?thesis using c(1) m by blast
qed

theorem start_is_current_witness:
  "\<exists>c n c' d row. move (MTask n (Delivered 1)) c = Some c' \<and> Send d \<in> set (ct_tasks c')
     \<and> workload_row (w_db (ct_world c')) id_b = Some row \<and> dw_RunState (dw_Content row) = DesiredRunning"
proof -
  obtain s c3 c4 a where c: "moves farm_run farm_start = Some c3" "ct_tasks c3 = [Confirm (start_dispatch s) a]"
    "move (MTask 0 (Delivered 1)) c3 = Some c4" "ct_tasks c4 = [Send (start_dispatch s)]" using farm_sends by blast
  have m: "Send (start_dispatch s) \<in> set (ct_tasks c4)" "Send (start_dispatch s) \<notin> set (ct_tasks c3)"
    and k: "rq_Kind (pd_Request (start_dispatch s)) = RuntimeStart" "rq_WorkloadID (pd_Request (start_dispatch s)) = id_b"
    using c(2,4) by (simp_all add: start_dispatch_def request_of_def)
  from start_is_current[OF c(1,3) m k(1)] show ?thesis using c(3) m(1) k(2) by (metis (no_types, lifting))
qed

theorem one_evaluator_per_host_witness:
  "\<exists>ms c. moves ms farm_start = Some c \<and> w_incidentPending (ct_world c) farm_host \<and> evaluators farm_host (ct_tasks c) = 1"
proof -
  obtain c where c: "moves [MQueue farm_host] farm_start = Some c" "w_incidentPending (ct_world c) farm_host"
    by (simp add: run_unit_def run_in_def queueIncidentEvaluation_def NewCoordinator_def)
  then show ?thesis using one_evaluator_per_host[OF c(1), of farm_host] by blast
qed

lemma quiet_commit: "quiet w \<Longrightarrow> run_state (commit op f) w
    = (snd (f sv_b (w_db w)), (after_turn w)\<lparr>w_db := fst (f sv_b (w_db w)), w_calls := w_calls w @ [(sv_b, op)]\<rparr>)"
  by (simp add: commit_def quiet_turn_run case_prod_beta) (simp add: quiet_turn_def after_turn_def case_prod_beta)

lemma quiet_db_at: "quiet w \<Longrightarrow> db_at w k = w_db w"
  by (induction k) (simp_all add: quiet_def turn_after_def quiet_turn_def)

text \<open>The farm after its workload was stopped: the snapshot of its only generation is still there.\<close>

lemma retired_farm: "\<exists>(db :: DB) a s. GetDesiredWorkload id_b db = Inr a \<and> loadWorkloadTx db id_b = Inr a \<and> ListResolvedSnapshots sv_b id_b db = Inr [s]
    \<and> dw_RunState (dw_Content a) = DesiredStopped \<and> dw_HostID (dw_Content a) = farm_host \<and> meta_Revision (dw_Meta a) = 1
    \<and> db_snapshots db = db_snapshots farm1"
proof -
  obtain s where "ListResolvedSnapshots sv_b id_b farm1 = Inr [s]" using farm_serves by (auto simp: serves_def)
  then have list: "db_snapshots db = db_snapshots farm1 \<Longrightarrow> ListResolvedSnapshots sv_b id_b db = Inr [s]" for db
    by (simp add: ListResolvedSnapshots_def)
  obtain db0 :: DB and a where f: "db_workloads db0 = [a]" "farm_row (CHR ''b'') (rig DesiredStopped cpu_claim) a"
    using stopped_farm by blast
  let ?db = "db0\<lparr>db_snapshots := db_snapshots farm1\<rparr>"
  have row: "workload_row ?db id_b = Some a" using f by (simp add: workload_row_def row_of_def farm_row_def)
  have load: "loadWorkloadTx ?db id_b = Inr a" by (rule farm_row_loads[OF f(2) _ hex_chars(1) row]) simp
  then have "scanWorkload a = None" "validateLoadedWorkload a = Inr a"
    "loadDevices ''stored workload DeviceID is invalid'' (cl_DeviceIDs (dw_Resources (dw_Content a))) = None"
    using row by (auto simp: loadWorkloadTx_def workload_row_def guard_def split: option.splits)
  then have "GetDesiredWorkload id_b ?db = Inr a"
    using row key_valid(1)[OF hex_chars(1)] by (simp add: GetDesiredWorkload_def workload_row_def invalid_workload_id_def)
  then show ?thesis using load list[of ?db] f(2)
    by (intro exI[of _ ?db] exI[of _ a] exI[of _ s]) (simp add: farm_row_def rig_fields newMeta_def)
qed

theorem deletion_is_proved_safe_witness:
  "\<exists>w w' db. run_state (delete_section id_b 1) w = (Inr (), w') \<and> db_at w 1 = db \<and> snapshots_of db id_b \<noteq> []
     \<and> deletes_stopped id_b 1 db (w_db w') \<and> Get (w_observed w) (\<lambda>_. 5) farm_host = (w_observed w', farm_sight, True)"
proof -
  obtain db :: DB and a s where f: "GetDesiredWorkload id_b db = Inr a" "loadWorkloadTx db id_b = Inr a" "ListResolvedSnapshots sv_b id_b db = Inr [s]"
    "dw_RunState (dw_Content a) = DesiredStopped" "dw_HostID (dw_Content a) = farm_host" "meta_Revision (dw_Meta a) = 1"
    "db_snapshots db = db_snapshots farm1" using retired_farm by blast
  obtain w0 where c: "settled db [] sight_store w0" using bootstrapped[of db] by blast
  have w: "quiet w0" "w_db w0 = db" "w_inFlight w0 = []" "w_observed w0 = sight_store" using c by (simp_all add: settled_def)
  have "\<exists>db'. FinalizeRetiredDesiredWorkloadDeletion sv_b id_b 1 db = (db', Inr ())"
    using f key_valid(1)[OF hex_chars(1)]
    by (simp add: FinalizeRetiredDesiredWorkloadDeletion_def invalid_workload_id_def guard_def fail_if_def wrapped_def writeTx_def map_error_def)
  then obtain db' where del: "FinalizeRetiredDesiredWorkloadDeletion sv_b id_b 1 db = (db', Inr ())" by blast
  have "\<exists>w'. run_state (delete_section id_b 1) w0 = (Inr (), w') \<and> w_observed w' = sight_store"
    using w f del c by (simp add: delete_section_def retire_def settled_Get quiet_query quiet_commit workloadHasInFlight_def)
  then obtain w' where run: "run_state (delete_section id_b 1) w0 = (Inr (), w')" and seen: "w_observed w' = sight_store" by blast
  have at: "db_at w0 k = db" for k using quiet_db_at w(1,2) by simp
  have "length (db_snapshots db) = 1" using f(7) farm1_rows by auto
  then have "distinct (map sn_ExecutionID (db_snapshots (db_at w0 1)))" unfolding at by (cases "db_snapshots db") auto
  note safe = deletion_is_proved_safe[OF run this, unfolded at]
  have "snapshots_of db id_b \<noteq> []" using listed_snapshots(1)[OF f(3)] by simp
  then have "deletes_stopped id_b 1 db (w_db w')" using safe by auto
  moreover have "Get (w_observed w0) (\<lambda>_. 5) farm_host = (w_observed w', farm_sight, True)" using w(4) seen sight_Get by simp
  ultimately show ?thesis using run at \<open>snapshots_of db id_b \<noteq> []\<close> by blast
qed

section \<open>A guard that a stale result takes down\<close>

text \<open>
  The START of the farm was sent with the sequence number 1 and is outstanding. Meanwhile the last snapshot of
  the executions has gone stale.
\<close>

definition stale_entry :: entry where
  "stale_entry = sighted\<lparr>en_observation := farm_sight\<lparr>ho_Revision := 4\<rparr>, en_freshAt := - (10 ^ 12)\<rparr>"

definition stale_store :: Store where
  "stale_store = put_entry sight_store farm_host stale_entry"

definition start_request :: "ResolvedExecutionSnapshot \<Rightarrow> RuntimeRequest" where
  "start_request s = (request_of (mk_action start_key s))\<lparr>rq_DispatchSequence := 1\<rparr>"

lemma put_entry_same: "st_hosts s h = Some e \<Longrightarrow> put_entry s h e = s"
  by (cases s) (auto simp: put_entry_def)

lemma stale_Get: "Get stale_store (\<lambda>_. 5) farm_host
    = (put_entry sight_store farm_host (stale_entry\<lparr>en_observation := farm_sight\<lparr>ho_Fresh := False, ho_Revision := 5\<rparr>\<rparr>),
       farm_sight\<lparr>ho_Fresh := False, ho_Revision := 5\<rparr>, True)"
proof -
  have "refreshFreshness DefaultFreshnessTimeout (\<lambda>_. 5) stale_entry = stale_entry\<lparr>en_observation := farm_sight\<lparr>ho_Fresh := False, ho_Revision := 5\<rparr>\<rparr>"
    by (simp add: refreshFreshness_def stale_entry_def sighted_def sight_entry_def not_expired)
      (simp add: bump_revision_def expired_def IsZero_def time_Sub_def DefaultFreshnessTimeout_def)
  moreover have "st_freshnessTimeout sight_store = DefaultFreshnessTimeout" using sight_entries(5) by (simp add: at_sight_def)
  ultimately show ?thesis
    by (simp add: Get_def stale_store_def cloneCurrent_def stale_entry_def IsZero_def ageObservedTelemetry_def put_entry_def)
qed

lemma refreshed_store:
  "fst (MarkReady (fst (SetExecutions (fst (Get stale_store (\<lambda>_. 5) farm_host)) (\<lambda>_. 5) farm_host 1 [] 5 0)) farm_host 1) = sight_store"
proof -
  have "put_entry sight_store farm_host sighted = sight_store"
    using sight_entries(5) by (simp add: at_sight_def put_entry_same)
  then have "fst (SetExecutions (fst (Get stale_store (\<lambda>_. 5) farm_host)) (\<lambda>_. 5) farm_host 1 [] 5 0) = sight_store"
    unfolding stale_Get by (simp add: SetExecutions_def store_current_def put_entry_def stale_entry_def sighted_def sight_entry_def)
  moreover have "fst (MarkReady sight_store farm_host 1) = sight_store"
    using sight_entries(5) by (simp add: MarkReady_def store_current_def at_sight_def)
  ultimately show ?thesis by simp
qed

text \<open>The Agent answers with a transient error, which says nothing about the START, and then delivers a snapshot it
  took before the command: the guard is gone and the START is sent a second time.\<close>

theorem stale_result_repeats_start:
  assumes "serves a s" and "ct_tasks c = []" and "settled farm1 [(start_key, 1)] stale_store (ct_world c)"
  shows "\<exists>c'. moves [MResult session1 (start_request s) None (Some (mk_error RPC_UNREACHABLE ''no answer'' Map.empty)),
      MExecutions session1 [] 0, MReconcile farm_host, MTask 0 (Delivered 2), MTask 0 (Delivered 2), MTask 0 (Delivered 2)] c = Some c'
    \<and> ct_tasks c' = [Send (start_dispatch s)]"
proof -
  have key: "result_key session1 (start_request s) = start_key"
    by (simp add: result_key_def start_request_def request_of_def start_key_def)
  have "\<exists>w'. run_state (RuntimeResult session1 (start_request s) None (Some (mk_error RPC_UNREACHABLE ''no answer'' Map.empty))) (ct_world c) = ((), w')
      \<and> settled farm1 [] (fst (Get stale_store (\<lambda>_. 5) farm_host)) w'"
  proof -
    have "\<exists>w'. run_state (observed_Get farm_host) (ct_world c) = ((farm_sight\<lparr>ho_Fresh := False, ho_Revision := 5\<rparr>, True), w')
        \<and> settled farm1 [(start_key, 1)] (fst (Get stale_store (\<lambda>_. 5) farm_host)) w'"
      using settled_observe[OF assms(3), of "\<lambda>s clk. Get s clk farm_host"] by (simp add: observed_Get_def stale_Get)
    moreover have "\<exists>w'. run_state (clearInFlight start_key) w = ((), w') \<and> settled farm1 [] s' w'"
      if "settled farm1 [(start_key, 1)] s' w" for s' w
      using that by (simp add: clearInFlight_def settled_def)
    ultimately show ?thesis unfolding RuntimeResult_def session1_fields key by (fastforce simp: case_prod_beta)
  qed
  from settled_unit[OF this, of "[]"] obtain c1 where c1: "move (MResult session1 (start_request s) None (Some (mk_error RPC_UNREACHABLE ''no answer'' Map.empty))) c = Some c1"
    "ct_tasks c1 = []" "settled farm1 [] (fst (Get stale_store (\<lambda>_. 5) farm_host)) (ct_world c1)"
    using assms(2) by auto
  from settled_unit[OF settled_executions[OF c1(3), of "[]" 0], of "[]"] obtain c2 where c2: "move (MExecutions session1 [] 0) c1 = Some c2"
    "ct_tasks c2 = []" "settled farm1 [] sight_store (ct_world c2)"
    using c1(2) refreshed_store by auto
  obtain c3 c4 where m: "moves [MReconcile farm_host, MTask 0 (Delivered 2), MTask 0 (Delivered 2)] c2 = Some c3"
    "move (MTask 0 (Delivered 2)) c3 = Some c4" "ct_tasks c4 = [Send (start_dispatch s)]"
    using farm_start_sent[OF assms(1) c2(2,3)] by blast
  have "moves ([MReconcile farm_host, MTask 0 (Delivered 2), MTask 0 (Delivered 2)] @ [MTask 0 (Delivered 2)]) c2 = Some c4"
    using m by (simp only: moves_append option.case) (simp del: move.simps)
  then show ?thesis using c1(1) c2(1) m(3) by (simp del: move.simps)
qed

end
