(* ===== verification/Wire_Messages.thy ===== *)
theory Wire_Messages
  imports Model_Texts Workload_Store
begin

text \<open>
  The messages of \<open>proto/le0x/v1\<close> that carry execution plans, observations, inventories and commands, as the
  generated Go structs hold them: a message field is a pointer, so it may be absent, an element of a list of
  messages too. The instants and durations of the wire are here as well, and the tests on floating-point numbers.
\<close>

section \<open>Instants and durations\<close>

text \<open>\<open>timestamppb.Timestamp\<close>: seconds since 1970 and nanoseconds.\<close>

record WTimestamp =
  ts_Seconds :: "64 word"
  ts_Nanos :: "32 word"

definition unix_seconds :: int where
  "unix_seconds = 62135596800"

definition timestamp_New :: "Time \<Rightarrow> WTimestamp" where
  "timestamp_New t = \<lparr>ts_Seconds = word_of_int (t div 10 ^ 9 - unix_seconds), ts_Nanos = word_of_int (t mod 10 ^ 9)\<rparr>"

definition AsTime :: "WTimestamp \<Rightarrow> Time" where
  "AsTime ts = (sint (ts_Seconds ts) + unix_seconds) * 10 ^ 9 + sint (ts_Nanos ts)"

definition timestamp_valid :: "WTimestamp \<Rightarrow> bool" where
  "timestamp_valid ts \<longleftrightarrow> - unix_seconds \<le> sint (ts_Seconds ts) \<and> sint (ts_Seconds ts) \<le> 253402300799
     \<and> 0 \<le> sint (ts_Nanos ts) \<and> sint (ts_Nanos ts) < 10 ^ 9"

text \<open>The instants the wire can carry: the years 1 to 9999.\<close>

definition wire_instant :: "Time \<Rightarrow> bool" where
  "wire_instant t \<longleftrightarrow> 0 \<le> t \<and> t < (253402300800 + unix_seconds) * 10 ^ 9"

lemma sint_small: "- (2 ^ (LENGTH('a::len) - 1)) \<le> x \<Longrightarrow> x < 2 ^ (LENGTH('a) - 1) \<Longrightarrow> sint (word_of_int x :: 'a word) = x"
  by (simp add: sint_sbintrunc' signed_take_bit_int_eq_self)

lemma AsTime_New:
  assumes "wire_instant t"
  shows "AsTime (timestamp_New t) = t" and "timestamp_valid (timestamp_New t)"
proof -
  have n: "0 \<le> t mod 10 ^ 9" "t mod 10 ^ 9 < 10 ^ 9" by simp_all
  have d: "- unix_seconds \<le> t div 10 ^ 9 - unix_seconds" "t div 10 ^ 9 - unix_seconds \<le> 253402300799"
    using assms zdiv_mono1[of 0 t 1000000000] zdiv_mono1[of t 315537897599999999999 1000000000]
    by (simp_all add: wire_instant_def unix_seconds_def)
  have s: "sint (ts_Seconds (timestamp_New t)) = t div 10 ^ 9 - unix_seconds"
    unfolding timestamp_New_def WTimestamp.simps by (rule sint_small) (use d in \<open>simp_all add: unix_seconds_def\<close>)
  have m: "sint (ts_Nanos (timestamp_New t)) = t mod 10 ^ 9"
    unfolding timestamp_New_def WTimestamp.simps by (rule sint_small) (use n in simp_all)
  show "timestamp_valid (timestamp_New t)" using d n by (simp add: timestamp_valid_def s m)
  show "AsTime (timestamp_New t) = t" by (simp add: AsTime_def s m)
qed

lemma AsTime_instant: "timestamp_valid ts \<Longrightarrow> wire_instant (AsTime ts)"
  by (auto simp: timestamp_valid_def wire_instant_def AsTime_def unix_seconds_def)

text \<open>\<open>Duration.Milliseconds\<close> of a duration that is not negative, as the wire carries it, and back.\<close>

definition wire_milliseconds :: "Duration \<Rightarrow> uint64" where
  "wire_milliseconds d = word_of_int (max (sgn d * (\<bar>d\<bar> div 1000000)) 0)"

definition of_milliseconds :: "uint64 \<Rightarrow> Duration" where
  "of_milliseconds ms = wrap_int64 (sint ms * 1000000)"

definition maxDurationMilliseconds :: uint64 where
  "maxDurationMilliseconds = 9223372036854"

lemma milliseconds_round:
  assumes "d < 2 ^ 63"
  shows "wire_milliseconds d \<le> maxDurationMilliseconds"
    and "of_milliseconds (wire_milliseconds d) = max 0 d - max 0 d mod 1000000"
proof -
  let ?m = "max (sgn d * (\<bar>d\<bar> div 1000000)) 0"
  have m: "?m = max 0 d div 1000000" by (cases "d < 0") (auto simp: sgn_if max_def)
  have b: "0 \<le> ?m" "?m \<le> 9223372036854" unfolding m using assms by (auto simp: max_def)
  have u: "uint (word_of_int ?m :: uint64) = ?m" using b by (simp add: uint_word_of_int take_bit_int_eq_self)
  show "wire_milliseconds d \<le> maxDurationMilliseconds"
    using b u by (simp add: wire_milliseconds_def maxDurationMilliseconds_def word_le_def)
  have "sint (word_of_int ?m :: uint64) = ?m" using b by (intro sint_small) simp_all
  moreover have "wrap_int64 (m * 1000000) = m * 1000000" if "0 \<le> m" "m \<le> 9223372036854" for m
    unfolding wrap_int64_def using that by (subst mod_pos_pos_trivial) simp_all
  ultimately have "of_milliseconds (wire_milliseconds d) = ?m * 1000000"
    using b unfolding of_milliseconds_def wire_milliseconds_def by presburger
  then show "of_milliseconds (wire_milliseconds d) = max 0 d - max 0 d mod 1000000"
    by (simp add: m minus_mod_eq_div_mult)
qed

section \<open>Floating-point numbers\<close>

text \<open>A \<open>float64\<close> is its bit pattern: one sign bit, 11 bits of exponent, 52 bits of fraction.\<close>

definition f_exponent :: "float64 \<Rightarrow> nat" where
  "f_exponent x = unat x div 2 ^ 52 mod 2 ^ 11"

definition f_fraction :: "float64 \<Rightarrow> nat" where
  "f_fraction x = unat x mod 2 ^ 52"

definition IsNaN :: "float64 \<Rightarrow> bool" where
  "IsNaN x \<longleftrightarrow> f_exponent x = 2047 \<and> f_fraction x \<noteq> 0"

definition IsInf :: "float64 \<Rightarrow> bool" where
  "IsInf x \<longleftrightarrow> f_exponent x = 2047 \<and> f_fraction x = 0"

text \<open>\<open>x < 0\<close>: the sign bit is set, and \<open>x\<close> is neither zero nor a NaN.\<close>

definition f_negative :: "float64 \<Rightarrow> bool" where
  "f_negative x \<longleftrightarrow> 2 ^ 63 < unat x \<and> \<not> IsNaN x"

definition bad_metric :: "float64 \<Rightarrow> bool" where
  "bad_metric x \<longleftrightarrow> f_negative x \<or> IsNaN x \<or> IsInf x"

section \<open>Messages\<close>

record WResourceClaim =
  wrc_Cpu :: bool
  wrc_DeviceIds :: "string list"

record WOwnership =
  wo_WorkloadId :: string
  wo_DesiredGeneration :: uint64
  wo_ResolvedHash :: string
  wo_HostId :: string
  wo_ResourceClaim :: "WResourceClaim option"

record WAssignment =
  wga_DeviceId :: string
  wga_HardwareIdentity :: string
  wga_RuntimeSelector :: string

record WMinerSpec =
  wms_AdapterId :: string
  wms_SpecVersion :: uint32
  wms_PackageId :: string
  wms_PackageVersion :: string
  wms_Mode :: string
  wms_Coin :: string
  wms_Algorithm :: string
  wms_Endpoint :: "MiningEndpoint option" \<comment> \<open>the same five fields\<close>
  wms_CpuThreads :: "uint32 option"
  wms_GpuDeviceIds :: "string list"
  wms_GpuAssignments :: "WAssignment option list"
  wms_HugePages :: "bool option"
  wms_Msr :: "bool option"
  wms_Options :: "string \<rightharpoonup> string"

record WPlan =
  wp_ExecutionId :: string
  wp_Executable :: string
  wp_Args :: "string list"
  wp_Environment :: "string \<rightharpoonup> string"
  wp_WorkingDirectory :: string
  wp_RestartPolicy :: string
  wp_Ownership :: "WOwnership option"
  wp_Miner :: "WMinerSpec option"

record WMetric =
  wmt_Kind :: string
  wmt_Unit :: string
  wmt_Value :: float64

record WUsefulWork =
  wu_Provider :: string
  wu_Availability :: string
  wu_RuntimeHealthy :: "bool option"
  wu_JobPresent :: "bool option"
  wu_UsefulWork :: string
  wu_AcceptedWork :: "uint64 option"
  wu_RejectedWork :: "uint64 option"
  wu_StaleWork :: "uint64 option"
  wu_LastUsefulWorkAt :: "WTimestamp option"
  wu_Upstream :: string
  wu_EndpointVisible :: "bool option"
  wu_Metrics :: "WMetric option list"
  wu_Confidence :: string
  wu_CollectedAt :: "WTimestamp option"
  wu_AgeMilliseconds :: uint64
  wu_FreshForMilliseconds :: uint64
  wu_ReasonCode :: string

record WDeviceHashrate =
  wd_DeviceId :: string
  wd_HashrateHps :: float64

record WTelemetry =
  wt_AdapterId :: string
  wt_MinerVersion :: string
  wt_Algorithm :: string
  wt_HashrateShortHps :: "float64 option"
  wt_HashrateMediumHps :: "float64 option"
  wt_HashrateLongHps :: "float64 option"
  wt_HighestHashrateHps :: "float64 option"
  wt_PerDevice :: "WDeviceHashrate option list"
  wt_AcceptedShares :: "uint64 option"
  wt_RejectedShares :: "uint64 option"
  wt_StaleShares :: "uint64 option"
  wt_TotalResults :: "uint64 option"
  wt_PoolConnected :: "bool option"
  wt_PoolLatencyMs :: "uint32 option"
  wt_UptimeSeconds :: uint64
  wt_HugePagesAvailable :: "bool option"
  wt_HugePagesPercent :: "float64 option"
  wt_MsrAvailable :: "bool option"
  wt_CollectedAt :: "WTimestamp option"
  wt_AgeMilliseconds :: uint64
  wt_Health :: string
  wt_ErrorCode :: string
  wt_Message :: string

record WExecution =
  we_ExecutionId :: string
  we_State :: string
  we_Pid :: "64 word"
  we_StartedAt :: "WTimestamp option"
  we_HasExitCode :: bool
  we_ExitCode :: "32 word"
  we_RestartCount :: uint32
  we_LastError :: string
  we_Warnings :: "string list"
  we_MinerTelemetry :: "WTelemetry option"
  we_Ownership :: "WOwnership option"
  we_UsefulWork :: "WUsefulWork option"

record WGpu =
  wg_DeviceId :: string
  wg_Vendor :: string
  wg_Model :: string
  wg_PciBusId :: string
  wg_Uuid :: string

record WInventory =
  wi_HostId :: string
  wi_Hostname :: string
  wi_OsId :: string
  wi_OsVersion :: string
  wi_Architecture :: string
  wi_CpuVendor :: string
  wi_CpuModel :: string
  wi_CpuCores :: uint32
  wi_CpuThreads :: uint32
  wi_MemoryTotalBytes :: uint64
  wi_Gpus :: "WGpu option list"

record WProcess =
  wpr_Pid :: "64 word"
  wpr_Executable :: string
  wpr_ProcessInstance :: string
  wpr_CpuRelevant :: bool
  wpr_GpuRelevant :: bool
  wpr_ResourceScope :: string
  wpr_Cpu :: bool
  wpr_DeviceIds :: "string list"
  wpr_Evidence :: "ProcessEvidence option list" \<comment> \<open>the same three fields\<close>
  wpr_ObservedAt :: "WTimestamp option"

end
