(* ===== verification/Wire_Map.thy ===== *)
theory Wire_Map
  imports Wire_Messages Go_Paths
begin

text \<open>
  \<open>internal/wiremap\<close>: execution plans, ownership, inventories and foreign processes as messages, and the
  parsers of the Controller for what an Agent reports. A parser trusts nothing: every text is bounded, every
  number checked, and facts that contradict each other are refused.
\<close>

section \<open>Helpers\<close>

abbreviation conflict :: "string \<Rightarrow> error" where
  "conflict m \<equiv> typed CONFIG_CONFLICT m"

definition IsControl :: "nat \<Rightarrow> bool" where
  "IsControl r \<longleftrightarrow> r < 32 \<or> (127 \<le> r \<and> r < 160)"

definition safeEvidenceText :: "string \<Rightarrow> nat \<Rightarrow> bool" where
  "safeEvidenceText value limit \<longleftrightarrow> length value \<le> limit \<and> ValidUTF8 value \<and> \<not> list_ex (\<lambda>r. IsControl (fst r)) (rune_segs value)"

definition safeToken :: "string \<Rightarrow> nat \<Rightarrow> bool" where
  "safeToken value maximum \<longleftrightarrow> value \<noteq> [] \<and> length value \<le> maximum \<and> ValidUTF8 value
     \<and> \<not> ContainsAny value [CHR 0x00, CHR 0x0D, CHR 0x0A]"

definition safeText :: "string \<Rightarrow> nat \<Rightarrow> bool" where
  "safeText value maximum \<longleftrightarrow> length value \<le> maximum \<and> ValidUTF8 value \<and> \<not> ContainsAny value [CHR 0x00, CHR 0x0D, CHR 0x0A]"

definition validProcessInstance :: "string \<Rightarrow> bool" where
  "validProcessInstance value \<longleftrightarrow>
     (let prefix = ''linux-proc-start-ticks:''
      in HasPrefix value prefix \<and> length value \<le> 64
         \<and> (case ParseUint (TrimPrefix value prefix) 64 of None \<Rightarrow> False | Some ticks \<Rightarrow> ticks > 0))"

definition wire_Timestamp :: "Time \<Rightarrow> WTimestamp option" where
  "wire_Timestamp value = (if IsZero value then None else Some (timestamp_New value))"

text \<open>A message that may be absent, checked and read as an instant; absent is the zero instant.\<close>

definition parse_instant :: "string \<Rightarrow> WTimestamp option \<Rightarrow> Time result" where
  "parse_instant message ts = (case ts of
     None \<Rightarrow> Inr 0
   | Some t \<Rightarrow> if timestamp_valid t then Inr (AsTime t) else Inl (conflict message))"

section \<open>Plans and ownership\<close>

definition wire_WorkloadOwnership :: "WorkloadOwnership \<Rightarrow> WOwnership" where
  "wire_WorkloadOwnership ow = \<lparr>wo_WorkloadId = WorkloadID_String (ow_WorkloadID ow), wo_DesiredGeneration = ow_DesiredGeneration ow,
     wo_ResolvedHash = ow_ResolvedHash ow, wo_HostId = HostID_String (ow_HostID ow),
     wo_ResourceClaim = Some \<lparr>wrc_Cpu = ow_CPU ow, wrc_DeviceIds = map DeviceID_String (ow_DeviceIDs ow)\<rparr>\<rparr>"

definition wire_assignment :: "GPUAssignment \<Rightarrow> WAssignment" where
  "wire_assignment a = \<lparr>wga_DeviceId = DeviceID_String (ga_DeviceID a), wga_HardwareIdentity = ga_HardwareIdentity a,
     wga_RuntimeSelector = ga_RuntimeSelector a\<rparr>"

definition wire_miner :: "MinerSpec \<Rightarrow> WMinerSpec" where
  "wire_miner spec = \<lparr>wms_AdapterId = ms_AdapterID spec, wms_SpecVersion = ms_SpecVersion spec,
     wms_PackageId = PackageID_String (ms_PackageID spec), wms_PackageVersion = ms_PackageVersion spec,
     wms_Mode = MinerMode_text (ms_Mode spec), wms_Coin = ms_Coin spec, wms_Algorithm = ms_Algorithm spec,
     wms_Endpoint = ms_Endpoint spec, wms_CpuThreads = ms_CPUThreads spec,
     wms_GpuDeviceIds = map DeviceID_String (ms_GPUDeviceIDs spec),
     wms_GpuAssignments = map (\<lambda>a. Some (wire_assignment a)) (ms_GPUAssignments spec),
     wms_HugePages = ms_HugePages spec, wms_Msr = ms_MSR spec, wms_Options = ms_Options spec\<rparr>"

definition check_miner :: "unicode_case \<Rightarrow> WorkloadOwnership \<Rightarrow> MinerSpec \<Rightarrow> error option" where
  "check_miner uni ow spec =
     (if ms_GPUDeviceIDs spec \<noteq> ow_DeviceIDs ow
      then Some (conflict ''miner DeviceIDs do not match ownership ResourceClaim'')
      else if ms_GPUDeviceIDs spec \<noteq> []
      then map_option (\<lambda>_. conflict ''invalid resolved GPU assignments'') (ValidateBindings uni (ms_GPUDeviceIDs spec) (ms_GPUAssignments spec))
      else fail_if (ms_GPUAssignments spec \<noteq> []) (conflict ''CPU plan contains GPU assignments''))"

definition wire_ExecutionPlan :: "unicode_case \<Rightarrow> ExecutionPlan \<Rightarrow> WPlan result" where
  "wire_ExecutionPlan uni plan =
     (let ow = pl_Ownership plan in
      guard (fail_if (ExecutionID_Validate (pl_ExecutionID plan) \<noteq> None) (conflict ''invalid ExecutionID''))
      (guard (fail_if (WorkloadOwnership_Validate ow \<noteq> None \<or> pl_HostID plan \<noteq> ow_HostID ow \<or> pl_DeviceIDs plan \<noteq> ow_DeviceIDs ow)
         (conflict ''invalid ExecutionPlan ownership metadata''))
      (guard (case pl_Miner plan of None \<Rightarrow> None | Some spec \<Rightarrow> check_miner uni ow spec)
        (Inr \<lparr>wp_ExecutionId = ExecutionID_String (pl_ExecutionID plan), wp_Executable = pl_Executable plan,
           wp_Args = pl_Args plan, wp_Environment = pl_Environment plan, wp_WorkingDirectory = pl_WorkingDirectory plan,
           wp_RestartPolicy = RestartPolicy_text (pl_RestartPolicy plan), wp_Ownership = Some (wire_WorkloadOwnership ow),
           wp_Miner = map_option wire_miner (pl_Miner plan)\<rparr>))))"

text \<open>A list of device identifiers, each parsed; the error names what is parsed.\<close>

definition parse_devices :: "string \<Rightarrow> string list \<Rightarrow> DeviceID list result" where
  "parse_devices message raws = traverse (\<lambda>raw. map_error (\<lambda>_. conflict message) (ParseDeviceID raw)) raws"

definition ParseWorkloadOwnership :: "WOwnership option \<Rightarrow> HostID \<Rightarrow> WorkloadOwnership option result" where
  "ParseWorkloadOwnership wire expectedHost = (case wire of
     None \<Rightarrow> Inr None
   | Some w \<Rightarrow> (case wo_ResourceClaim w of
       None \<Rightarrow> Inl (conflict ''ownership ResourceClaim is required'')
     | Some claim \<Rightarrow>
         andThen (map_error (\<lambda>_. conflict ''invalid ownership WorkloadID'') (ParseWorkloadID (wo_WorkloadId w))) (\<lambda>workloadID.
         andThen (map_error (\<lambda>_. conflict ''invalid ownership HostID'') (ParseHostID (wo_HostId w))) (\<lambda>hostID.
         andThen (parse_devices ''invalid ownership DeviceID'' (wrc_DeviceIds claim)) (\<lambda>devices.
           let ow = \<lparr>ow_WorkloadID = workloadID, ow_DesiredGeneration = wo_DesiredGeneration w, ow_ResolvedHash = wo_ResolvedHash w,
             ow_HostID = hostID, ow_CPU = wrc_Cpu claim, ow_DeviceIDs = devices\<rparr>
           in guard (fail_if (WorkloadOwnership_Validate ow \<noteq> None) (conflict ''invalid ownership metadata''))
             (guard (fail_if (HostID_Validate expectedHost = None \<and> hostID \<noteq> expectedHost)
                (conflict ''ownership HostID does not match Agent session''))
               (Inr (Some ow))))))))"

section \<open>Evidence of useful work\<close>

definition check_evidence :: "WUsefulWork \<Rightarrow> error option" where
  "check_evidence w = fail_if (wu_Provider w = [] \<or> \<not> safeEvidenceText (wu_Provider w) 64 \<or> TrimSpace (wu_Provider w) \<noteq> wu_Provider w
     \<or> length (wu_Metrics w) > 32 \<or> \<not> safeEvidenceText (wu_ReasonCode w) 64 \<or> \<not> ValidCode (Code_of (wu_ReasonCode w))
     \<or> wu_AgeMilliseconds w > maxDurationMilliseconds \<or> wu_FreshForMilliseconds w > maxDurationMilliseconds)
     (conflict ''invalid useful-work evidence metadata'')"

definition evidence_of :: "WUsefulWork \<Rightarrow> UsefulWorkEvidence" where
  "evidence_of w = \<lparr>uw_Provider = wu_Provider w, uw_Availability = TelemetryAvailability_of (wu_Availability w),
     uw_RuntimeHealthy = wu_RuntimeHealthy w, uw_JobPresent = wu_JobPresent w, uw_UsefulWork = UsefulWorkState_of (wu_UsefulWork w),
     uw_AcceptedWork = wu_AcceptedWork w, uw_RejectedWork = wu_RejectedWork w, uw_StaleWork = wu_StaleWork w,
     uw_LastUsefulWorkAt = None, uw_Upstream = UpstreamState_of (wu_Upstream w), uw_EndpointVisible = wu_EndpointVisible w,
     uw_Metrics = [], uw_Confidence = EvidenceConfidence_of (wu_Confidence w), uw_CollectedAt = 0,
     uw_Age = of_milliseconds (wu_AgeMilliseconds w), uw_FreshFor = of_milliseconds (wu_FreshForMilliseconds w),
     uw_ReasonCode = Code_of (wu_ReasonCode w)\<rparr>"

definition check_states :: "UsefulWorkEvidence \<Rightarrow> error option" where
  "check_states e = first_error
     [fail_if (uw_Availability e \<notin> set TelemetryAvailability_values) (conflict ''invalid telemetry availability''),
      fail_if (uw_UsefulWork e \<notin> set UsefulWorkState_values) (conflict ''invalid useful-work state''),
      fail_if (uw_Upstream e \<notin> set UpstreamState_values) (conflict ''invalid upstream state''),
      fail_if (uw_Confidence e \<notin> set EvidenceConfidence_values) (conflict ''invalid evidence confidence'')]"

definition check_sample :: "UsefulWorkEvidence \<Rightarrow> error option" where
  "check_sample e = first_error
     [fail_if ((uw_Availability e = TelemetryAvailable \<or> uw_Availability e = TelemetryStale) \<and> IsZero (uw_CollectedAt e))
        (conflict ''available useful-work evidence lacks collection timestamp''),
      fail_if (uw_Availability e = TelemetryAvailable \<and> uw_FreshFor e \<le> 0)
        (conflict ''available useful-work evidence lacks a freshness bound''),
      fail_if (uw_UsefulWork e = UsefulWorkConfirmed \<and> uw_Availability e = TelemetryAvailable \<and> uw_RuntimeHealthy e = Some False)
        (conflict ''confirmed useful work contradicts runtime health'')]"

text \<open>The instant of the last useful work, which may not be later than the sample.\<close>

definition parse_last_work :: "Time \<Rightarrow> WTimestamp option \<Rightarrow> Time option result" where
  "parse_last_work collectedAt ts = (case ts of
     None \<Rightarrow> Inr None
   | Some t \<Rightarrow>
       if \<not> timestamp_valid t then Inl (conflict ''invalid last useful-work timestamp'')
       else if \<not> IsZero collectedAt \<and> AsTime t > collectedAt
       then Inl (conflict ''last useful-work timestamp is newer than its sample'')
       else Inr (Some (AsTime t)))"

definition parse_metric :: "WMetric option \<Rightarrow> WorkMetric result" where
  "parse_metric wire = (case wire of
     None \<Rightarrow> Inl (conflict ''invalid useful-work metric'')
   | Some m \<Rightarrow>
       if wmt_Kind m = [] \<or> wmt_Unit m = [] \<or> \<not> safeEvidenceText (wmt_Kind m) 64 \<or> \<not> safeEvidenceText (wmt_Unit m) 32 \<or> bad_metric (wmt_Value m)
       then Inl (conflict ''invalid useful-work metric'')
       else Inr \<lparr>wm_Kind = wmt_Kind m, wm_Unit = wmt_Unit m, wm_Value = wmt_Value m\<rparr>)"

definition parseUsefulWork :: "WUsefulWork option \<Rightarrow> UsefulWorkEvidence option result" where
  "parseUsefulWork wire = (case wire of
     None \<Rightarrow> Inr None
   | Some w \<Rightarrow>
       guard (check_evidence w) (guard (check_states (evidence_of w))
       (andThen (parse_instant ''invalid useful-work collection timestamp'' (wu_CollectedAt w)) (\<lambda>collectedAt.
         let e = (evidence_of w)\<lparr>uw_CollectedAt := collectedAt\<rparr> in
         guard (check_sample e)
         (andThen (parse_last_work collectedAt (wu_LastUsefulWorkAt w)) (\<lambda>last.
          andThen (traverse parse_metric (wu_Metrics w)) (\<lambda>metrics.
            Inr (Some (e\<lparr>uw_LastUsefulWorkAt := last, uw_Metrics := metrics\<rparr>))))))))) "

end
