(* ===== verification/Wire_Executions.thy ===== *)
theory Wire_Executions
  imports Wire_Map
begin

text \<open>
  \<open>internal/wiremap/runtime.go\<close> continued: what the Controller accepts of the executions an Agent reports.
  The last check of an execution compares its facts with each other: a live process has an identity, useful work
  belongs to a running managed execution, and mining is never claimed without confirmed work.
\<close>

section \<open>Lists without repetition\<close>

text \<open>A loop that parses items and keeps the keys it has seen; the first problem ends it.\<close>

fun parse_distinct :: "('a \<Rightarrow> 'b result) \<Rightarrow> ('b \<Rightarrow> 'k) \<Rightarrow> error \<Rightarrow> 'k list \<Rightarrow> 'a list \<Rightarrow> 'b list result" where
  "parse_distinct f key dup seen [] = Inr []"
| "parse_distinct f key dup seen (x # xs) = andThen (f x) (\<lambda>y.
     if key y \<in> set seen then Inl dup
     else andThen (parse_distinct f key dup (key y # seen) xs) (\<lambda>ys. Inr (y # ys)))"

section \<open>Miner telemetry\<close>

definition check_telemetry :: "WTelemetry \<Rightarrow> error option" where
  "check_telemetry t = first_error
     [fail_if (\<not> safeEvidenceText (wt_AdapterId t) 64 \<or> \<not> safeEvidenceText (wt_MinerVersion t) 64 \<or> \<not> safeEvidenceText (wt_Algorithm t) 64
         \<or> \<not> safeEvidenceText (wt_Message t) 512 \<or> \<not> ValidCode (Code_of (wt_ErrorCode t)) \<or> length (wt_PerDevice t) > 64)
        (conflict ''miner telemetry exceeds bounds''),
      fail_if (wt_AgeMilliseconds t > maxDurationMilliseconds) (conflict ''miner telemetry age exceeds bounds''),
      fail_if (list_ex (\<lambda>v. case v of None \<Rightarrow> False | Some x \<Rightarrow> bad_metric x)
          [wt_HashrateShortHps t, wt_HashrateMediumHps t, wt_HashrateLongHps t, wt_HighestHashrateHps t, wt_HugePagesPercent t])
        (conflict ''invalid miner telemetry metric'')]"

definition telemetry_of :: "WTelemetry \<Rightarrow> MinerTelemetry" where
  "telemetry_of t = \<lparr>mt_AdapterID = wt_AdapterId t, mt_MinerVersion = wt_MinerVersion t, mt_Algorithm = wt_Algorithm t,
     mt_HashrateShortHPS = wt_HashrateShortHps t, mt_HashrateMediumHPS = wt_HashrateMediumHps t,
     mt_HashrateLongHPS = wt_HashrateLongHps t, mt_HighestHashrateHPS = wt_HighestHashrateHps t, mt_PerDevice = [],
     mt_AcceptedShares = wt_AcceptedShares t, mt_RejectedShares = wt_RejectedShares t, mt_StaleShares = wt_StaleShares t,
     mt_TotalResults = wt_TotalResults t, mt_PoolConnected = wt_PoolConnected t, mt_PoolLatencyMS = wt_PoolLatencyMs t,
     mt_UptimeSeconds = wt_UptimeSeconds t, mt_HugePagesAvailable = wt_HugePagesAvailable t,
     mt_HugePagesPercent = wt_HugePagesPercent t, mt_MSRAvailable = wt_MsrAvailable t, mt_CollectedAt = 0,
     mt_Age = of_milliseconds (wt_AgeMilliseconds t), mt_Health = MinerHealth_of (wt_Health t),
     mt_ErrorCode = Code_of (wt_ErrorCode t), mt_Message = wt_Message t, mt_UsefulWork = None\<rparr>"

definition parse_device_rate :: "WDeviceHashrate option \<Rightarrow> DeviceHashrate result" where
  "parse_device_rate wire = (case wire of
     None \<Rightarrow> Inl (conflict ''invalid per-device telemetry'')
   | Some d \<Rightarrow>
       if bad_metric (wd_HashrateHps d) then Inl (conflict ''invalid per-device hashrate'')
       else andThen (map_error (\<lambda>_. conflict ''invalid telemetry DeviceID'') (ParseDeviceID (wd_DeviceId d))) (\<lambda>i.
         Inr \<lparr>dh_DeviceID = i, dh_HashrateHPS = wd_HashrateHps d\<rparr>))"

definition parse_telemetry :: "WTelemetry option \<Rightarrow> MinerTelemetry option result" where
  "parse_telemetry wire = (case wire of
     None \<Rightarrow> Inr None
   | Some t \<Rightarrow>
       guard (check_telemetry t)
       (andThen (parse_instant ''invalid miner telemetry timestamp'' (wt_CollectedAt t)) (\<lambda>collectedAt.
        andThen (traverse parse_device_rate (wt_PerDevice t)) (\<lambda>devices.
          guard (fail_if (MinerHealth_of (wt_Health t) \<notin> set MinerHealth_values) (conflict ''invalid miner health''))
            (Inr (Some ((telemetry_of t)\<lparr>mt_CollectedAt := collectedAt, mt_PerDevice := devices\<rparr>)))))))"

section \<open>Executions\<close>

definition activeConfirmed :: "ExecutionObservation \<Rightarrow> bool" where
  "activeConfirmed r = (case ex_UsefulWork r of
     None \<Rightarrow> False
   | Some u \<Rightarrow> uw_Availability u = TelemetryAvailable \<and> uw_UsefulWork u = UsefulWorkConfirmed)"

text \<open>A running managed execution with a process of a known identity.\<close>

definition runs_managed :: "ExecutionObservation \<Rightarrow> bool" where
  "runs_managed r \<longleftrightarrow> \<not> (ex_Status r \<noteq> ExecutionRunning \<or> ex_PID r \<le> 0 \<or> IsZero (ex_StartedAt r) \<or> ex_Ownership r = None)"

definition reports_mining :: "ExecutionObservation \<Rightarrow> bool" where
  "reports_mining r = (case ex_MinerTelemetry r of None \<Rightarrow> False | Some t \<Rightarrow> mt_Health t = MinerHealthMining)"

definition samples_differ :: "ExecutionObservation \<Rightarrow> bool" where
  "samples_differ r = (case (ex_MinerTelemetry r, ex_UsefulWork r) of
     (Some t, Some u) \<Rightarrow> \<not> IsZero (mt_CollectedAt t) \<and> \<not> IsZero (uw_CollectedAt u) \<and> mt_CollectedAt t \<noteq> uw_CollectedAt u
   | _ \<Rightarrow> False)"

definition check_execution :: "ExecutionObservation \<Rightarrow> error option" where
  "check_execution r = first_error
     [fail_if (ex_Status r = ExecutionRunning \<and> (ex_PID r \<le> 0 \<or> IsZero (ex_StartedAt r)))
        (conflict ''RUNNING lacks a live process identity''),
      fail_if (ex_PID r > 0 \<and> IsZero (ex_StartedAt r)) (conflict ''observed PID lacks a process start timestamp''),
      fail_if (activeConfirmed r \<and> \<not> runs_managed r) (conflict ''confirmed useful work lacks a running managed execution''),
      fail_if (reports_mining r \<and> \<not> activeConfirmed r) (conflict ''MINING lacks confirmed useful-work evidence''),
      fail_if (reports_mining r \<and> \<not> runs_managed r) (conflict ''MINING lacks a running managed execution''),
      fail_if (samples_differ r) (conflict ''telemetry and useful-work sample timestamps differ'')]"

definition check_warnings :: "string list \<Rightarrow> error option" where
  "check_warnings ws = fail_if (list_ex (\<lambda>w. \<not> safeEvidenceText w 512) ws) (conflict ''invalid observed execution warning'')"

definition check_process :: "WExecution \<Rightarrow> error option" where
  "check_process w = fail_if (sint (we_Pid w) < 0 \<or> \<not> safeEvidenceText (we_LastError w) 512 \<or> length (we_Warnings w) > 32)
     (conflict ''invalid observed process metadata'')"

definition ParseExecution :: "WExecution option \<Rightarrow> HostID \<Rightarrow> ExecutionObservation result" where
  "ParseExecution wire expectedHost = (case wire of
     None \<Rightarrow> Inl (conflict ''execution observation is required'')
   | Some w \<Rightarrow>
       andThen (map_error (\<lambda>_. conflict ''invalid observed ExecutionID'') (ParseExecutionID (we_ExecutionId w))) (\<lambda>i.
       guard (fail_if (ExecutionStatus_of (we_State w) \<notin> set ExecutionStatus_values) (conflict ''invalid observed execution state''))
       (andThen (ParseWorkloadOwnership (we_Ownership w) expectedHost) (\<lambda>ownership.
        guard (check_process w) (guard (check_warnings (we_Warnings w))
        (andThen (parse_instant ''invalid observed start timestamp'' (we_StartedAt w)) (\<lambda>startedAt.
         andThen (parse_telemetry (we_MinerTelemetry w)) (\<lambda>telemetry.
         andThen (parseUsefulWork (we_UsefulWork w)) (\<lambda>useful.
           let r = \<lparr>ex_ExecutionID = i, ex_Ownership = ownership, ex_Status = ExecutionStatus_of (we_State w), ex_Error = None,
             ex_PID = sint (we_Pid w), ex_StartedAt = startedAt,
             ex_ExitCode = (if we_HasExitCode w then Some (sint (we_ExitCode w)) else None),
             ex_RestartCount = we_RestartCount w, ex_LastError = we_LastError w, ex_Warnings = we_Warnings w,
             ex_MinerTelemetry = telemetry, ex_UsefulWork = useful\<rparr>
           in guard (check_execution r) (Inr r))))))))))"

definition ParseExecutions :: "WExecution option list option \<Rightarrow> HostID \<Rightarrow> ExecutionObservation list result" where
  "ParseExecutions wire expectedHost = (case wire of
     None \<Rightarrow> Inl (conflict ''execution snapshot is required'')
   | Some items \<Rightarrow>
       andThen (parse_distinct (\<lambda>item. ParseExecution item expectedHost) ex_ExecutionID
           (conflict ''duplicate ExecutionID in observation'') [] items) (\<lambda>observations.
         Inr (sort_key (ExecutionID_String \<circ> ex_ExecutionID) observations)))"

end
