(* ===== verification/Wire_Hosts.thy ===== *)
theory Wire_Hosts
  imports Wire_Executions
begin

text \<open>
  \<open>internal/wiremap/inventory.go\<close>, \<open>process.go\<close> and the inventory parser of \<open>runtime.go\<close>: what a Host reports of
  its hardware and of the processes nobody manages.
\<close>

section \<open>Inventories\<close>

definition wire_gpu :: "GPU \<Rightarrow> WGpu" where
  "wire_gpu g = \<lparr>wg_DeviceId = DeviceID_String (gpu_DeviceID g), wg_Vendor = gpu_Vendor g, wg_Model = gpu_Model g,
     wg_PciBusId = gpu_PCIBusID g, wg_Uuid = gpu_UUID g\<rparr>"

definition wire_Inventory :: "Inventory \<Rightarrow> WInventory" where
  "wire_Inventory facts = \<lparr>wi_HostId = HostID_String (host_HostID (inv_Host facts)), wi_Hostname = host_Hostname (inv_Host facts),
     wi_OsId = os_ID (host_OS (inv_Host facts)), wi_OsVersion = os_VersionID (host_OS (inv_Host facts)),
     wi_Architecture = host_Architecture (inv_Host facts), wi_CpuVendor = cpu_Vendor (inv_CPU facts), wi_CpuModel = cpu_Model (inv_CPU facts),
     wi_CpuCores = cpu_Cores (inv_CPU facts), wi_CpuThreads = cpu_Threads (inv_CPU facts),
     wi_MemoryTotalBytes = inv_TotalBytes facts, wi_Gpus = map (\<lambda>g. Some (wire_gpu g)) (inv_GPUs facts)\<rparr>"

definition parse_gpu :: "WGpu option \<Rightarrow> GPU result" where
  "parse_gpu wire = (case wire of
     None \<Rightarrow> Inl (conflict ''invalid GPU inventory item'')
   | Some g \<Rightarrow>
       andThen (map_error (\<lambda>_. conflict ''invalid inventory DeviceID'') (ParseDeviceID (wg_DeviceId g))) (\<lambda>i.
         Inr \<lparr>gpu_DeviceID = i, gpu_Vendor = wg_Vendor g, gpu_Model = wg_Model g, gpu_PCIBusID = wg_PciBusId g, gpu_UUID = wg_Uuid g\<rparr>))"

definition ParseInventory :: "WInventory option \<Rightarrow> HostID \<Rightarrow> Inventory result" where
  "ParseInventory wire expectedHost = (case wire of
     None \<Rightarrow> Inl (conflict ''inventory is required'')
   | Some w \<Rightarrow>
       let mismatch = conflict ''inventory HostID does not match Agent session'' in
       andThen (map_error (\<lambda>_. mismatch) (ParseHostID (wi_HostId w))) (\<lambda>hostID.
       guard (fail_if (hostID \<noteq> expectedHost) mismatch)
       (andThen (parse_distinct parse_gpu gpu_DeviceID (conflict ''duplicate inventory DeviceID'') [] (wi_Gpus w)) (\<lambda>gpus.
         Inr \<lparr>inv_SchemaVersion = CurrentSchemaVersion,
           inv_Host = \<lparr>host_HostID = hostID, host_Hostname = wi_Hostname w, host_DisplayName = [],
             host_OS = \<lparr>os_ID = wi_OsId w, os_VersionID = wi_OsVersion w, os_PrettyName = [], os_Kernel = []\<rparr>,
             host_Architecture = wi_Architecture w\<rparr>,
           inv_CPU = \<lparr>cpu_Vendor = wi_CpuVendor w, cpu_Model = wi_CpuModel w, cpu_Sockets = 0, cpu_Cores = wi_CpuCores w,
             cpu_Threads = wi_CpuThreads w\<rparr>,
           inv_GPUs = gpus, inv_TotalBytes = wi_MemoryTotalBytes w\<rparr>))))"

section \<open>Unmanaged processes\<close>

definition wire_process :: "UnmanagedProcessObservation \<Rightarrow> WProcess" where
  "wire_process p = \<lparr>wpr_Pid = word_of_int (up_PID p), wpr_Executable = up_Executable p, wpr_ProcessInstance = up_ProcessInstance p,
     wpr_CpuRelevant = up_CPURelevant p, wpr_GpuRelevant = up_GPURelevant p,
     wpr_ResourceScope = ProcessResourceAttribution_text (up_ResourceScope p), wpr_Cpu = up_CPU p,
     wpr_DeviceIds = map DeviceID_String (up_DeviceIDs p), wpr_Evidence = map Some (up_Evidence p),
     wpr_ObservedAt = Some (timestamp_New (up_ObservedAt p))\<rparr>"

definition wire_UnmanagedProcesses :: "UnmanagedProcessObservation list \<Rightarrow> WProcess option list" where
  "wire_UnmanagedProcesses values = map (\<lambda>p. Some (wire_process p)) values"

definition valid_process_facts :: "WProcess \<Rightarrow> bool" where
  "valid_process_facts w \<longleftrightarrow> sint (wpr_Pid w) \<ge> 1 \<and> safeToken (wpr_Executable w) 256 \<and> Base (wpr_Executable w) = wpr_Executable w
     \<and> validProcessInstance (wpr_ProcessInstance w) \<and> (wpr_CpuRelevant w \<or> wpr_GpuRelevant w)
     \<and> (case wpr_ObservedAt w of None \<Rightarrow> False | Some ts \<Rightarrow> timestamp_valid ts \<and> \<not> IsZero (AsTime ts))"

definition parse_evidence :: "ProcessEvidence option \<Rightarrow> ProcessEvidence result" where
  "parse_evidence wire = (case wire of
     None \<Rightarrow> Inl (conflict ''unmanaged process evidence is invalid'')
   | Some e \<Rightarrow> if safeToken (pe_Kind e) 64 \<and> safeToken (pe_Provider e) 128 \<and> safeText (pe_Detail e) 512 then Inr e
       else Inl (conflict ''unmanaged process evidence is invalid''))"

definition parse_process :: "WProcess option \<Rightarrow> UnmanagedProcessObservation result" where
  "parse_process wire = (let invalid = conflict ''unmanaged process observation contains invalid process facts'' in
     case wire of
       None \<Rightarrow> Inl invalid
     | Some w \<Rightarrow>
         guard (fail_if (\<not> valid_process_facts w) invalid)
         (let scope = ProcessResourceAttribution_of (wpr_ResourceScope w) in
          guard (fail_if (scope \<noteq> ProcessResourcesExact \<and> scope \<noteq> ProcessResourcesUnknown)
            (conflict ''unmanaged process resource attribution is invalid''))
          (andThen (parse_distinct (\<lambda>raw. map_error (\<lambda>_. conflict ''unmanaged process contains invalid DeviceID'') (ParseDeviceID raw))
              (\<lambda>i. i) (conflict ''unmanaged process contains duplicate DeviceID'') [] (wpr_DeviceIds w)) (\<lambda>devices.
            guard (fail_if (scope = ProcessResourcesExact \<and> \<not> wpr_Cpu w \<and> devices = [])
              (conflict ''exact unmanaged process resource scope is empty''))
            (guard (fail_if (wpr_Evidence w = [] \<or> length (wpr_Evidence w) > 16)
              (conflict ''unmanaged process evidence is missing or too large''))
            (andThen (traverse parse_evidence (wpr_Evidence w)) (\<lambda>evidence.
              Inr \<lparr>up_PID = sint (wpr_Pid w), up_Executable = wpr_Executable w, up_ProcessInstance = wpr_ProcessInstance w,
                up_CPURelevant = wpr_CpuRelevant w, up_GPURelevant = wpr_GpuRelevant w, up_ResourceScope = scope, up_CPU = wpr_Cpu w,
                up_DeviceIDs = sort_key DeviceID_String devices, up_Evidence = evidence,
                up_ObservedAt = (case wpr_ObservedAt w of None \<Rightarrow> 0 | Some ts \<Rightarrow> AsTime ts)\<rparr>)))))))"

definition ParseUnmanagedProcesses :: "WProcess option list option \<Rightarrow> UnmanagedProcessObservation list result" where
  "ParseUnmanagedProcesses wire = (let missing = conflict ''unmanaged process observation is missing or too large'' in
     case wire of
       None \<Rightarrow> Inl missing
     | Some items \<Rightarrow>
         guard (fail_if (length items > 4096) missing)
         (andThen (parse_distinct parse_process (\<lambda>p. (up_PID p, up_ProcessInstance p))
             (conflict ''duplicate unmanaged process instance'') [] items) (\<lambda>processes.
           Inr (sort_key up_PID (sort_key up_ProcessInstance processes)))))"

end
