(* ===== verification/Agent_Wire.thy ===== *)
theory Agent_Wire
  imports Wire_Hosts Agent_Supervisor
begin

text \<open>
  \<open>internal/agentnet/client.go\<close>: how the Agent reads a plan it is sent and writes the executions it reports, the
  errors it returns, and the loop that reconnects to the Controller.
\<close>

section \<open>Plans that are received\<close>

definition reasoned_conflict :: "string \<Rightarrow> error option \<Rightarrow> error" where
  "reasoned_conflict m e = (case e of None \<Rightarrow> conflict m
     | Some reason \<Rightarrow> Typed (mk_error CONFIG_CONFLICT m [''reason'' \<mapsto> error_Error reason]))"

definition parseOwnership :: "WOwnership option \<Rightarrow> WorkloadOwnership result" where
  "parseOwnership wire = (let missing = conflict ''workload ownership metadata is required'' in
     case wire of
       None \<Rightarrow> Inl missing
     | Some w \<Rightarrow> (case wo_ResourceClaim w of
         None \<Rightarrow> Inl missing
       | Some claim \<Rightarrow>
           andThen (map_error (\<lambda>_. conflict ''invalid WorkloadID'') (ParseWorkloadID (wo_WorkloadId w))) (\<lambda>workloadID.
           andThen (map_error (\<lambda>_. conflict ''invalid ownership HostID'') (ParseHostID (wo_HostId w))) (\<lambda>hostID.
           andThen (parse_devices ''invalid ownership ResourceClaim DeviceID'' (wrc_DeviceIds claim)) (\<lambda>devices.
             let ow = \<lparr>ow_WorkloadID = workloadID, ow_DesiredGeneration = wo_DesiredGeneration w, ow_ResolvedHash = wo_ResolvedHash w,
               ow_HostID = hostID, ow_CPU = wrc_Cpu claim, ow_DeviceIDs = devices\<rparr>
             in guard (map_option (\<lambda>e. reasoned_conflict ''invalid workload ownership metadata'' (Some e)) (WorkloadOwnership_Validate ow))
               (Inr ow))))))"

definition parse_assignment :: "WAssignment option \<Rightarrow> GPUAssignment result" where
  "parse_assignment wire = (case wire of
     None \<Rightarrow> Inl (conflict ''invalid nil GPU assignment'')
   | Some a \<Rightarrow>
       andThen (map_error (\<lambda>_. conflict ''invalid GPU assignment DeviceID'') (ParseDeviceID (wga_DeviceId a))) (\<lambda>i.
         Inr \<lparr>ga_DeviceID = i, ga_HardwareIdentity = wga_HardwareIdentity a, ga_RuntimeSelector = wga_RuntimeSelector a\<rparr>))"

definition parse_miner :: "WMinerSpec \<Rightarrow> WorkloadOwnership \<Rightarrow> MinerSpec result" where
  "parse_miner w ownership =
     andThen (map_error (\<lambda>_. conflict ''invalid miner PackageID'') (ParsePackageID (wms_PackageId w))) (\<lambda>packageID.
     andThen (parse_devices ''invalid miner DeviceID'' (wms_GpuDeviceIds w)) (\<lambda>devices.
     andThen (traverse parse_assignment (wms_GpuAssignments w)) (\<lambda>assignments.
       guard (fail_if (devices \<noteq> ow_DeviceIDs ownership) (conflict ''miner DeviceIDs do not match ownership ResourceClaim''))
       (Inr \<lparr>ms_AdapterID = wms_AdapterId w, ms_SpecVersion = wms_SpecVersion w, ms_PackageID = packageID,
          ms_PackageVersion = wms_PackageVersion w, ms_WalletID = None, ms_PoolID = None, ms_Mode = MinerMode_of (wms_Mode w),
          ms_Coin = wms_Coin w, ms_Algorithm = wms_Algorithm w, ms_Endpoint = wms_Endpoint w, ms_CPUThreads = wms_CpuThreads w,
          ms_GPUDeviceIDs = devices, ms_GPUAssignments = assignments, ms_HugePages = wms_HugePages w, ms_MSR = wms_Msr w,
          ms_Options = wms_Options w\<rparr>))))"

definition parsePlanForHost :: "WPlan option \<Rightarrow> HostID \<Rightarrow> ExecutionPlan result" where
  "parsePlanForHost wire expectedHost = (case wire of
     None \<Rightarrow> Inl (conflict ''ExecutionPlan is required'')
   | Some w \<Rightarrow>
       andThen (map_error (\<lambda>_. conflict ''invalid ExecutionID'') (ParseExecutionID (wp_ExecutionId w))) (\<lambda>i.
       andThen (parseOwnership (wp_Ownership w)) (\<lambda>ownership.
       guard (fail_if (HostID_Validate expectedHost = None \<and> ow_HostID ownership \<noteq> expectedHost)
         (conflict ''ExecutionPlan target HostID does not match this Agent''))
       (andThen (case wp_Miner w of None \<Rightarrow> Inr None | Some m \<Rightarrow> andThen (parse_miner m ownership) (\<lambda>spec. Inr (Some spec))) (\<lambda>miner.
         Inr \<lparr>pl_SchemaVersion = CurrentSchemaVersion, pl_ExecutionID = i, pl_Ownership = ownership, pl_HostID = ow_HostID ownership,
           pl_ProfileID = ProfileID [], pl_DeviceIDs = ow_DeviceIDs ownership, pl_CPUThreads = None, pl_Executable = wp_Executable w,
           pl_Args = wp_Args w, pl_Environment = wp_Environment w, pl_WorkingDirectory = wp_WorkingDirectory w,
           pl_RestartPolicy = RestartPolicy_of (wp_RestartPolicy w), pl_Miner = miner\<rparr>)))))"

section \<open>Executions that are reported\<close>

text \<open>\<open>minerruntime.Observation\<close>.\<close>

record RuntimeObservation =
  ro_Process :: ExecSnapshot
  ro_Telemetry :: "MinerTelemetry option"
  ro_Warnings :: "string list"

text \<open>The package has its own copy of \<open>wiremap.WorkloadOwnership\<close>.\<close>

definition wireOwnership :: "WorkloadOwnership \<Rightarrow> WOwnership" where
  "wireOwnership ownership = (let devices = map DeviceID_String (ow_DeviceIDs ownership) in
     \<lparr>wo_WorkloadId = WorkloadID_String (ow_WorkloadID ownership), wo_DesiredGeneration = ow_DesiredGeneration ownership,
      wo_ResolvedHash = ow_ResolvedHash ownership, wo_HostId = HostID_String (ow_HostID ownership),
      wo_ResourceClaim = Some \<lparr>wrc_Cpu = ow_CPU ownership, wrc_DeviceIds = devices\<rparr>\<rparr>)"

lemma wireOwnership_same: "wireOwnership ow = wire_WorkloadOwnership ow"
  by (simp add: wireOwnership_def wire_WorkloadOwnership_def)

definition wireExecution :: "ExecSnapshot \<Rightarrow> WExecution" where
  "wireExecution s = \<lparr>we_ExecutionId = ExecutionID_String (ExecSnapshot.sn_ExecutionID s), we_State = ExecutionStatus_text (ExecSnapshot.sn_State s),
     we_Pid = word_of_int (ExecSnapshot.sn_PID s), we_StartedAt = wire_Timestamp (ExecSnapshot.sn_StartedAt s),
     we_HasExitCode = (ExecSnapshot.sn_ExitCode s \<noteq> None),
     we_ExitCode = (case ExecSnapshot.sn_ExitCode s of None \<Rightarrow> 0 | Some c \<Rightarrow> word_of_int c),
     we_RestartCount = ExecSnapshot.sn_RestartCount s, we_LastError = ExecSnapshot.sn_LastError s, we_Warnings = [],
     we_MinerTelemetry = None,
     we_Ownership = (if WorkloadOwnership_Validate (ExecSnapshot.sn_Ownership s) = None
       then Some (wireOwnership (ExecSnapshot.sn_Ownership s)) else None),
     we_UsefulWork = None\<rparr>"

definition wire_metric :: "WorkMetric \<Rightarrow> WMetric" where
  "wire_metric m = \<lparr>wmt_Kind = wm_Kind m, wmt_Unit = wm_Unit m, wmt_Value = wm_Value m\<rparr>"

definition wireUsefulWork :: "UsefulWorkEvidence \<Rightarrow> WUsefulWork" where
  "wireUsefulWork e = \<lparr>wu_Provider = uw_Provider e, wu_Availability = TelemetryAvailability_text (uw_Availability e),
     wu_RuntimeHealthy = uw_RuntimeHealthy e, wu_JobPresent = uw_JobPresent e, wu_UsefulWork = UsefulWorkState_text (uw_UsefulWork e),
     wu_AcceptedWork = uw_AcceptedWork e, wu_RejectedWork = uw_RejectedWork e, wu_StaleWork = uw_StaleWork e,
     wu_LastUsefulWorkAt = (case uw_LastUsefulWorkAt e of None \<Rightarrow> None | Some t \<Rightarrow> wire_Timestamp t),
     wu_Upstream = UpstreamState_text (uw_Upstream e), wu_EndpointVisible = uw_EndpointVisible e,
     wu_Metrics = map (\<lambda>m. Some (wire_metric m)) (uw_Metrics e), wu_Confidence = EvidenceConfidence_text (uw_Confidence e),
     wu_CollectedAt = wire_Timestamp (uw_CollectedAt e), wu_AgeMilliseconds = wire_milliseconds (uw_Age e),
     wu_FreshForMilliseconds = wire_milliseconds (uw_FreshFor e), wu_ReasonCode = Code_text (uw_ReasonCode e)\<rparr>"

definition wire_device_rate :: "DeviceHashrate \<Rightarrow> WDeviceHashrate" where
  "wire_device_rate d = \<lparr>wd_DeviceId = DeviceID_String (dh_DeviceID d), wd_HashrateHps = dh_HashrateHPS d\<rparr>"

definition wire_telemetry :: "MinerTelemetry \<Rightarrow> WTelemetry" where
  "wire_telemetry t = \<lparr>wt_AdapterId = mt_AdapterID t, wt_MinerVersion = mt_MinerVersion t, wt_Algorithm = mt_Algorithm t,
     wt_HashrateShortHps = mt_HashrateShortHPS t, wt_HashrateMediumHps = mt_HashrateMediumHPS t,
     wt_HashrateLongHps = mt_HashrateLongHPS t, wt_HighestHashrateHps = mt_HighestHashrateHPS t,
     wt_PerDevice = map (\<lambda>d. Some (wire_device_rate d)) (mt_PerDevice t), wt_AcceptedShares = mt_AcceptedShares t,
     wt_RejectedShares = mt_RejectedShares t, wt_StaleShares = mt_StaleShares t, wt_TotalResults = mt_TotalResults t,
     wt_PoolConnected = mt_PoolConnected t, wt_PoolLatencyMs = mt_PoolLatencyMS t, wt_UptimeSeconds = mt_UptimeSeconds t,
     wt_HugePagesAvailable = mt_HugePagesAvailable t, wt_HugePagesPercent = mt_HugePagesPercent t,
     wt_MsrAvailable = mt_MSRAvailable t, wt_CollectedAt = wire_Timestamp (mt_CollectedAt t),
     wt_AgeMilliseconds = wire_milliseconds (mt_Age t), wt_Health = MinerHealth_text (mt_Health t),
     wt_ErrorCode = Code_text (mt_ErrorCode t), wt_Message = mt_Message t\<rparr>"

definition wireObservation :: "RuntimeObservation \<Rightarrow> WExecution" where
  "wireObservation ob = (let wire = (wireExecution (ro_Process ob))\<lparr>we_Warnings := ro_Warnings ob\<rparr> in
     case ro_Telemetry ob of
       None \<Rightarrow> wire
     | Some t \<Rightarrow> wire\<lparr>we_MinerTelemetry := Some (wire_telemetry t), we_UsefulWork := map_option wireUsefulWork (mt_UsefulWork t)\<rparr>)"

section \<open>Errors and reconnection\<close>

text \<open>\<open>TypedError\<close> is the error record with its code as text.\<close>

record WError =
  wer_Code :: string
  wer_HumanMessage :: string
  wer_Details :: "string \<rightharpoonup> string"
  wer_SuggestedFix :: string
  wer_LogsRef :: string

definition wireError :: "Code \<Rightarrow> string \<Rightarrow> WError" where
  "wireError code msg = \<lparr>wer_Code = Code_text code, wer_HumanMessage = msg, wer_Details = Map.empty, wer_SuggestedFix = [], wer_LogsRef = []\<rparr>"

definition errorResult :: "error \<Rightarrow> WError" where
  "errorResult err = (case errors_As err of
     Some e \<Rightarrow> \<lparr>wer_Code = Code_text (err_Code e), wer_HumanMessage = err_HumanMessage e, wer_Details = err_Details e,
       wer_SuggestedFix = err_SuggestedFix e, wer_LogsRef = err_LogsRef e\<rparr>
   | None \<Rightarrow> wireError INTERNAL_ERROR (error_Error err))"

text \<open>\<open>status.Code(err) == codes.InvalidArgument\<close> is a fact about the error of the RPC library.\<close>

type_synonym rpc_status = "error \<Rightarrow> bool"

definition permanent_codes :: "Code list" where
  "permanent_codes = [PROTOCOL_VERSION_MISMATCH, SCHEMA_VERSION_MISMATCH, PAIRING_REQUIRED, PAIRING_TOKEN_INVALID, PAIRING_TOKEN_EXPIRED,
     CONTROLLER_IDENTITY_MISMATCH, CONFIG_CONFLICT, TLS_CREDENTIALS_REQUIRED, TLS_FINGERPRINT_MISMATCH, TLS_IDENTITY_MISMATCH,
     CERTIFICATE_EXPIRED]"

definition nonTransient :: "rpc_status \<Rightarrow> error option \<Rightarrow> bool" where
  "nonTransient invalidArgument err = (case err of
     None \<Rightarrow> False
   | Some e \<Rightarrow> (case CodeOf e of (code, ok) \<Rightarrow> (ok \<and> code \<in> set permanent_codes) \<or> invalidArgument e))"

definition default_duration :: "Duration \<Rightarrow> Duration \<Rightarrow> Duration" where
  "default_duration value fallback = (if value \<le> 0 then fallback else value)"

text \<open>
  The loop of \<open>Run\<close> over the outcomes of its sessions: the error of each, and whether it had been established.
  The result is the delays it waits, in order, and the error that ends it.
\<close>

definition next_backoff :: "Duration \<Rightarrow> bool \<Rightarrow> Duration \<Rightarrow> Duration" where
  "next_backoff most established backoff =
     (if \<not> established \<and> backoff < most then let doubled = wrap_int64 (backoff * 2) in if doubled > most then most else doubled
      else backoff)"

fun reconnect :: "rpc_status \<Rightarrow> Duration \<Rightarrow> Duration \<Rightarrow> Duration \<Rightarrow> (error option \<times> bool) list \<Rightarrow> Duration list \<times> error option" where
  "reconnect invalidArgument initial most backoff [] = ([], None)"
| "reconnect invalidArgument initial most backoff ((err, established) # sessions) =
     (let delay = if established then initial else backoff in
      if nonTransient invalidArgument err then ([], err)
      else case reconnect invalidArgument initial most (next_backoff most established delay) sessions of
        (delays, final) \<Rightarrow> (delay # delays, final))"

definition Run_sessions :: "rpc_status \<Rightarrow> Duration \<Rightarrow> Duration \<Rightarrow> (error option \<times> bool) list \<Rightarrow> Duration list \<times> error option" where
  "Run_sessions invalidArgument reconnectInitial reconnectMax sessions =
     (let initial = default_duration reconnectInitial 1000000000; most = default_duration reconnectMax 30000000000
      in reconnect invalidArgument initial most initial sessions)"

end
