(* ===== verification/Wire_Facts.thy ===== *)
theory Wire_Facts
  imports Agent_Wire
begin

text \<open>
  What a successful parse of an Agent's report promises, and what survives the way over the wire.
\<close>

section \<open>Lists\<close>

lemma traverse_map: "(\<And>x. x \<in> set xs \<Longrightarrow> f (g x) = Inr (h x)) \<Longrightarrow> traverse f (map g xs) = Inr (map h xs)"
  by (induction xs) auto

lemma parse_distinct_Inr:
  "parse_distinct f key dup seen xs = Inr ys \<longleftrightarrow>
     list_all2 (\<lambda>x y. f x = Inr y) xs ys \<and> distinct (map key ys) \<and> set (map key ys) \<inter> set seen = {}"
proof (induction xs arbitrary: ys seen)
  case (Cons x xs)
  have step: "parse_distinct f key dup seen (x # xs) = Inr (y # zs) \<longleftrightarrow>
      f x = Inr y \<and> key y \<notin> set seen \<and> parse_distinct f key dup (key y # seen) xs = Inr zs" for y zs
    by auto
  show ?case
  proof (cases ys)
    case Nil
    show ?thesis by (auto simp: Nil split: if_splits)
  qed (auto simp: step Cons.IH simp del: parse_distinct.simps)
qed auto

lemma parse_devices_Inr:
  "parse_devices m raws = Inr ds \<Longrightarrow> map DeviceID_String ds = raws \<and> (\<forall>d\<in>set ds. DeviceID_Validate d = None)"
  unfolding parse_devices_def traverse_Inr
  by (induction rule: list_all2_induct) (auto dest!: device_id.text_parse)

lemma parse_devices_texts: "\<forall>d\<in>set ds. DeviceID_Validate d = None \<Longrightarrow> parse_devices m (map DeviceID_String ds) = Inr ds"
  unfolding parse_devices_def using traverse_map[of ds _ DeviceID_String "\<lambda>d. d"]
  by (simp add: device_id.parse_text)

lemma parse_instant_Inr: "parse_instant m ts = Inr t \<Longrightarrow> wire_instant t"
  by (auto simp: parse_instant_def wire_instant_def unix_seconds_def dest!: AsTime_instant split: option.splits if_splits)

lemma parse_instant_wire: "wire_instant t \<Longrightarrow> parse_instant m (wire_Timestamp t) = Inr t"
  by (simp add: parse_instant_def wire_Timestamp_def IsZero_def AsTime_New)

section \<open>Ownership\<close>

lemma ownership_parts:
  assumes "WorkloadOwnership_Validate ow = None"
  shows "WorkloadID_Validate (ow_WorkloadID ow) = None" "HostID_Validate (ow_HostID ow) = None"
    "\<forall>d\<in>set (ow_DeviceIDs ow). DeviceID_Validate d = None" "distinct (ow_DeviceIDs ow)"
  using assms by (auto simp: WorkloadOwnership_Validate_def Let_def check_devices_None split: if_splits)

lemma parsed_ownership:
  "ParseWorkloadOwnership wire h = Inr (Some ow) \<Longrightarrow>
     WorkloadOwnership_Validate ow = None \<and> (HostID_Validate h = None \<longrightarrow> ow_HostID ow = h) \<and> wire = Some (wire_WorkloadOwnership ow)"
  by (auto simp: ParseWorkloadOwnership_def wire_WorkloadOwnership_def Let_def
      dest!: parse_devices_Inr host_id.text_parse workload_id.text_parse split: option.splits)

lemma parsed_no_ownership: "ParseWorkloadOwnership wire h = Inr None \<longleftrightarrow> wire = None"
  by (auto simp: ParseWorkloadOwnership_def Let_def split: option.splits)

section \<open>Reports of executions\<close>

text \<open>What the Controller may rely on in an execution it accepted from the Host \<open>h\<close>.\<close>

text \<open>A text of bounded length, valid UTF-8, without control characters.\<close>

definition clean_text :: "nat \<Rightarrow> string \<Rightarrow> bool" where
  "clean_text n s \<longleftrightarrow> length s \<le> n \<and> ValidUTF8 s \<and> (\<forall>r\<in>fst ` set (rune_segs s). \<not> (r < 32 \<or> 127 \<le> r \<and> r < 160))"

lemma safe_is_clean: "safeEvidenceText s n \<longleftrightarrow> clean_text n s"
  by (auto simp: safeEvidenceText_def clean_text_def IsControl_def list_ex_iff)

text \<open>A number that is not negative, not infinite and not a NaN, read off its bits: a zero of either sign passes.\<close>

definition sound_number :: "float64 \<Rightarrow> bool" where
  "sound_number x \<longleftrightarrow> unat x \<le> 2 ^ 63 \<and> f_exponent x \<noteq> 2047"

lemma good_metric: "bad_metric x \<longleftrightarrow> \<not> sound_number x"
  by (auto simp: bad_metric_def sound_number_def f_negative_def IsNaN_def IsInf_def)

definition sound_evidence :: "UsefulWorkEvidence \<Rightarrow> bool" where
  "sound_evidence u \<longleftrightarrow>
     uw_Provider u \<noteq> [] \<and> clean_text 64 (uw_Provider u) \<and> TrimSpace (uw_Provider u) = uw_Provider u
     \<and> uw_Availability u \<in> set TelemetryAvailability_values \<and> uw_UsefulWork u \<in> set UsefulWorkState_values
     \<and> uw_Upstream u \<in> set UpstreamState_values \<and> uw_Confidence u \<in> set EvidenceConfidence_values
     \<and> wire_instant (uw_CollectedAt u) \<and> 0 \<le> uw_Age u \<and> 0 \<le> uw_FreshFor u
     \<and> (uw_Availability u \<in> {TelemetryAvailable, TelemetryStale} \<longrightarrow> 0 < uw_CollectedAt u)
     \<and> (uw_Availability u = TelemetryAvailable \<longrightarrow> 0 < uw_FreshFor u)
     \<and> (uw_Availability u = TelemetryAvailable \<and> uw_UsefulWork u = UsefulWorkConfirmed \<longrightarrow> uw_RuntimeHealthy u \<noteq> Some False)
     \<and> (\<forall>t. uw_LastUsefulWorkAt u = Some t \<longrightarrow> 0 < uw_CollectedAt u \<longrightarrow> t \<le> uw_CollectedAt u)
     \<and> ValidCode (uw_ReasonCode u) \<and> length (uw_Metrics u) \<le> 32
     \<and> (\<forall>m\<in>set (uw_Metrics u). wm_Kind m \<noteq> [] \<and> clean_text 64 (wm_Kind m) \<and> wm_Unit m \<noteq> [] \<and> clean_text 32 (wm_Unit m)
          \<and> sound_number (wm_Value m))"

definition sound_telemetry :: "MinerTelemetry \<Rightarrow> bool" where
  "sound_telemetry t \<longleftrightarrow>
     mt_Health t \<in> set MinerHealth_values \<and> ValidCode (mt_ErrorCode t) \<and> wire_instant (mt_CollectedAt t) \<and> 0 \<le> mt_Age t
     \<and> clean_text 64 (mt_AdapterID t) \<and> clean_text 64 (mt_MinerVersion t) \<and> clean_text 64 (mt_Algorithm t) \<and> clean_text 512 (mt_Message t)
     \<and> length (mt_PerDevice t) \<le> 64
     \<and> (\<forall>d\<in>set (mt_PerDevice t). DeviceID_Validate (dh_DeviceID d) = None \<and> sound_number (dh_HashrateHPS d))
     \<and> (\<forall>v\<in>{mt_HashrateShortHPS t, mt_HashrateMediumHPS t, mt_HashrateLongHPS t, mt_HighestHashrateHPS t, mt_HugePagesPercent t}.
          \<forall>x. v = Some x \<longrightarrow> sound_number x)"

definition sound_execution :: "HostID \<Rightarrow> ExecutionObservation \<Rightarrow> bool" where
  "sound_execution h r \<longleftrightarrow>
     ExecutionID_Validate (ex_ExecutionID r) = None \<and> ex_Status r \<in> set ExecutionStatus_values
     \<and> 0 \<le> ex_PID r \<and> ex_PID r < 2 ^ 63 \<and> wire_instant (ex_StartedAt r)
     \<and> (ex_Status r = ExecutionRunning \<longrightarrow> 0 < ex_PID r) \<and> (0 < ex_PID r \<longrightarrow> 0 < ex_StartedAt r)
     \<and> clean_text 512 (ex_LastError r) \<and> length (ex_Warnings r) \<le> 32 \<and> (\<forall>w\<in>set (ex_Warnings r). clean_text 512 w)
     \<and> (\<forall>ow. ex_Ownership r = Some ow \<longrightarrow> WorkloadOwnership_Validate ow = None \<and> (HostID_Validate h = None \<longrightarrow> ow_HostID ow = h))
     \<and> (\<forall>t. ex_MinerTelemetry r = Some t \<longrightarrow> sound_telemetry t) \<and> (\<forall>u. ex_UsefulWork r = Some u \<longrightarrow> sound_evidence u)
     \<and> (\<forall>t u. ex_MinerTelemetry r = Some t \<and> ex_UsefulWork r = Some u \<and> 0 < mt_CollectedAt t \<and> 0 < uw_CollectedAt u
          \<longrightarrow> mt_CollectedAt t = uw_CollectedAt u)
     \<and> (\<forall>t. ex_MinerTelemetry r = Some t \<and> mt_Health t = MinerHealthMining
          \<longrightarrow> (\<exists>u. ex_UsefulWork r = Some u \<and> uw_Availability u = TelemetryAvailable \<and> uw_UsefulWork u = UsefulWorkConfirmed))
     \<and> (\<forall>u. ex_UsefulWork r = Some u \<and> uw_Availability u = TelemetryAvailable \<and> uw_UsefulWork u = UsefulWorkConfirmed
          \<longrightarrow> ex_Status r = ExecutionRunning \<and> 0 < ex_PID r \<and> 0 < ex_StartedAt r \<and> ex_Ownership r \<noteq> None)"

lemma wrap_small: "0 \<le> x \<Longrightarrow> x < 2 ^ 63 \<Longrightarrow> wrap_int64 x = x"
  by (simp add: wrap_int64_id)

lemma of_milliseconds_nonneg: "ms \<le> maxDurationMilliseconds \<Longrightarrow> 0 \<le> of_milliseconds ms"
proof -
  assume "ms \<le> maxDurationMilliseconds"
  then have b: "uint ms \<le> 9223372036854" by (simp add: maxDurationMilliseconds_def word_le_def)
  have "- (2 ^ 63) \<le> uint ms" by (rule order_trans[of _ 0]) simp_all
  then have s: "sint ms = uint ms" using sint_small[where 'a = 64, of "uint ms"] b by simp
  have "wrap_int64 (uint ms * 1000000) = uint ms * 1000000" using b by (intro wrap_small) simp_all
  then show ?thesis by (simp add: of_milliseconds_def s)
qed

lemma parsed_metrics:
  "list_all2 (\<lambda>x y. parse_metric x = Inr y) ws ms \<Longrightarrow>
     length ms = length ws \<and> (\<forall>m\<in>set ms. wm_Kind m \<noteq> [] \<and> clean_text 64 (wm_Kind m) \<and> wm_Unit m \<noteq> [] \<and> clean_text 32 (wm_Unit m)
       \<and> sound_number (wm_Value m))"
  by (induction rule: list_all2_induct) (auto simp: parse_metric_def safe_is_clean good_metric split: option.splits if_splits)

lemma parsed_rates:
  "list_all2 (\<lambda>x y. parse_device_rate x = Inr y) ws ds \<Longrightarrow>
     length ds = length ws \<and> (\<forall>d\<in>set ds. DeviceID_Validate (dh_DeviceID d) = None \<and> sound_number (dh_HashrateHPS d))"
  by (induction rule: list_all2_induct) (auto simp: parse_device_rate_def good_metric dest!: device_id.text_parse split: option.splits if_splits)

lemma parsed_last_work: "parse_last_work c ts = Inr l \<Longrightarrow> 0 < c \<Longrightarrow> l = Some t \<Longrightarrow> t \<le> c"
  by (auto simp: parse_last_work_def IsZero_def split: option.splits if_splits)

lemma first_error_Nil [simp]: "first_error [] = None" and first_error_Cons [simp]: "first_error (e # es) = None \<longleftrightarrow> e = None \<and> first_error es = None"
  by (cases e; simp)+

lemma parsed_evidence: "parseUsefulWork wire = Inr (Some u) \<Longrightarrow> sound_evidence u"
proof -
  assume a: "parseUsefulWork wire = Inr (Some u)"
  then obtain w c l ms where w: "wire = Some w" "check_evidence w = None" "check_states (evidence_of w) = None"
    "parse_instant ''invalid useful-work collection timestamp'' (wu_CollectedAt w) = Inr c"
    "check_sample ((evidence_of w)\<lparr>uw_CollectedAt := c\<rparr>) = None" "parse_last_work c (wu_LastUsefulWorkAt w) = Inr l"
    "traverse parse_metric (wu_Metrics w) = Inr ms" "u = (evidence_of w)\<lparr>uw_CollectedAt := c, uw_LastUsefulWorkAt := l, uw_Metrics := ms\<rparr>"
    by (auto simp: parseUsefulWork_def Let_def split: option.splits)
  have c: "wire_instant c" using w(4) by (rule parse_instant_Inr)
  then have c0: "0 \<le> c" by (simp add: wire_instant_def)
  note m = parsed_metrics[OF w(7)[unfolded traverse_Inr]]
  note l = parsed_last_work[OF w(6)]
  show ?thesis
    using w(2,3,5) c c0 m l
    by (simp add: w(8) sound_evidence_def check_evidence_def check_states_def check_sample_def IsZero_def evidence_of_def safe_is_clean
        of_milliseconds_nonneg not_less) fastforce
qed

lemma parsed_telemetry: "parse_telemetry wire = Inr (Some t) \<Longrightarrow> sound_telemetry t"
proof -
  assume a: "parse_telemetry wire = Inr (Some t)"
  then obtain w c ds where w: "wire = Some w" "check_telemetry w = None"
    "parse_instant ''invalid miner telemetry timestamp'' (wt_CollectedAt w) = Inr c"
    "traverse parse_device_rate (wt_PerDevice w) = Inr ds" "MinerHealth_of (wt_Health w) \<in> set MinerHealth_values"
    "t = (telemetry_of w)\<lparr>mt_CollectedAt := c, mt_PerDevice := ds\<rparr>"
    by (auto simp: parse_telemetry_def split: option.splits)
  note d = parsed_rates[OF w(4)[unfolded traverse_Inr]]
  show ?thesis
    using w(2,5) d parse_instant_Inr[OF w(3)]
    by (auto simp: w(6) sound_telemetry_def check_telemetry_def telemetry_of_def of_milliseconds_nonneg not_less safe_is_clean good_metric)
qed

lemma parsed_execution: "ParseExecution wire h = Inr r \<Longrightarrow> sound_execution h r"
proof -
  assume a: "ParseExecution wire h = Inr r"
  then obtain w i ow st t u where w: "wire = Some w" "ParseExecutionID (we_ExecutionId w) = Inr i"
    "ExecutionStatus_of (we_State w) \<in> set ExecutionStatus_values" "ParseWorkloadOwnership (we_Ownership w) h = Inr ow"
    "check_process w = None" "check_warnings (we_Warnings w) = None"
    "parse_instant ''invalid observed start timestamp'' (we_StartedAt w) = Inr st" "parse_telemetry (we_MinerTelemetry w) = Inr t"
    "parseUsefulWork (we_UsefulWork w) = Inr u" "check_execution r = None"
    and r: "ex_ExecutionID r = i" "ex_Ownership r = ow" "ex_Status r = ExecutionStatus_of (we_State w)" "ex_PID r = sint (we_Pid w)"
      "ex_StartedAt r = st" "ex_LastError r = we_LastError w" "ex_Warnings r = we_Warnings w" "ex_MinerTelemetry r = t" "ex_UsefulWork r = u"
    by (auto simp: ParseExecution_def Let_def split: option.splits)
  have st: "wire_instant st" using w(7) by (rule parse_instant_Inr)
  then have st0: "0 \<le> st" by (simp add: wire_instant_def)
  have pid: "sint (we_Pid w) < 2 ^ 63" using sint_lt[of "we_Pid w"] by simp
  have own: "\<forall>x. ow = Some x \<longrightarrow> WorkloadOwnership_Validate x = None \<and> (HostID_Validate h = None \<longrightarrow> ow_HostID x = h)"
    using w(4) parsed_ownership by blast
  have ev: "\<forall>x. t = Some x \<longrightarrow> sound_telemetry x" "\<forall>x. u = Some x \<longrightarrow> sound_evidence x"
    using w(8,9) parsed_telemetry parsed_evidence by blast+
  have proc: "0 \<le> sint (we_Pid w)" "clean_text 512 (we_LastError w)" "length (we_Warnings w) \<le> 32"
    "\<forall>x\<in>set (we_Warnings w). clean_text 512 x"
    using w(5,6) by (auto simp: check_process_def check_warnings_def safe_is_clean list_ex_iff)
  have facts: "ex_Status r = ExecutionRunning \<longrightarrow> 0 < ex_PID r" "0 < ex_PID r \<longrightarrow> 0 < ex_StartedAt r" "reports_mining r \<longrightarrow> activeConfirmed r"
    "activeConfirmed r \<longrightarrow> runs_managed r" "\<not> samples_differ r"
    using w(10) st0 by (auto simp: check_execution_def IsZero_def r(5))
  then have work: "\<forall>x. t = Some x \<and> mt_Health x = MinerHealthMining
      \<longrightarrow> (\<exists>v. u = Some v \<and> uw_Availability v = TelemetryAvailable \<and> uw_UsefulWork v = UsefulWorkConfirmed)"
    "\<forall>x. u = Some x \<and> uw_Availability x = TelemetryAvailable \<and> uw_UsefulWork x = UsefulWorkConfirmed
      \<longrightarrow> ex_Status r = ExecutionRunning \<and> 0 < ex_PID r \<and> 0 < ex_StartedAt r \<and> ex_Ownership r \<noteq> None"
    "\<forall>x v. t = Some x \<and> u = Some v \<and> 0 < mt_CollectedAt x \<and> 0 < uw_CollectedAt v \<longrightarrow> mt_CollectedAt x = uw_CollectedAt v"
    by (auto simp: reports_mining_def activeConfirmed_def runs_managed_def samples_differ_def IsZero_def r split: option.splits)
  show ?thesis
    unfolding sound_execution_def
    using w(3) st pid own ev proc execution_id.text_parse[OF w(2)] facts(1,2) work by (simp add: r)
qed


end
