(* ===== verification/Wire_Rounds.thy ===== *)
theory Wire_Rounds
  imports Wire_Facts
begin

text \<open>
  What survives the way over the wire: a plan from the Controller to the Agent, and an observation of an execution,
  an inventory and a list of foreign processes from the Agent to the Controller.
\<close>

section \<open>Plans\<close>

lemma parsed_own_ownership:
  assumes "WorkloadOwnership_Validate ow = None"
  shows "parseOwnership (Some (wire_WorkloadOwnership ow)) = Inr ow"
  using ownership_parts[OF assms] assms
  by (cases ow) (simp add: parseOwnership_def wire_WorkloadOwnership_def Let_def map_error_def workload_id.parse_text host_id.parse_text
      parse_devices_texts)

lemma wire_ownership_inj: "wire_WorkloadOwnership a = wire_WorkloadOwnership b \<Longrightarrow> a = b"
proof -
  assume e: "wire_WorkloadOwnership a = wire_WorkloadOwnership b"
  have "inj DeviceID_String" by (auto intro: injI simp: device_id.text_inj)
  with e show "a = b"
    by (cases a; cases b) (auto simp: wire_WorkloadOwnership_def workload_id.text_inj host_id.text_inj inj_map_eq_map)
qed

lemma ownership_back: "ParseWorkloadOwnership (Some (wire_WorkloadOwnership a)) h = Inr x \<Longrightarrow> x = Some a"
  using parsed_ownership[of _ h "the x"] parsed_no_ownership[of _ h] by (cases x) (auto dest: wire_ownership_inj)

lemma parsed_assignments:
  assumes "\<forall>a\<in>set as. DeviceID_Validate (ga_DeviceID a) = None"
  shows "traverse parse_assignment (map (\<lambda>a. Some (wire_assignment a)) as) = Inr as"
  using traverse_map[of as parse_assignment "\<lambda>a. Some (wire_assignment a)" "\<lambda>a. a"] assms
  by (simp add: parse_assignment_def wire_assignment_def map_error_def device_id.parse_text)

text \<open>The package has an identifier, and the enumerations hold one of their named values.\<close>

definition deliverable_miner :: "MinerSpec \<Rightarrow> bool" where
  "deliverable_miner m \<longleftrightarrow> PackageID_Validate (ms_PackageID m) = None \<and> ms_Mode m \<in> set MinerMode_values"

definition delivered_plan :: "ExecutionPlan \<Rightarrow> ExecutionPlan" where
  "delivered_plan p = p\<lparr>pl_SchemaVersion := CurrentSchemaVersion, pl_ProfileID := ProfileID [], pl_CPUThreads := None,
     pl_Miner := map_option (\<lambda>m. m\<lparr>ms_WalletID := None, ms_PoolID := None\<rparr>) (pl_Miner p)\<rparr>"

lemma binding_devices:
  assumes "check_miner uni ow m = None" and "WorkloadOwnership_Validate ow = None"
  shows "ms_GPUDeviceIDs m = ow_DeviceIDs ow" "\<forall>a\<in>set (ms_GPUAssignments m). DeviceID_Validate (ga_DeviceID a) = None"
proof -
  show ds: "ms_GPUDeviceIDs m = ow_DeviceIDs ow" using assms(1) by (auto simp: check_miner_def split: if_splits)
  show "\<forall>a\<in>set (ms_GPUAssignments m). DeviceID_Validate (ga_DeviceID a) = None"
  proof (cases "ms_GPUDeviceIDs m = []")
    case True
    then show ?thesis using assms(1) by (auto simp: check_miner_def split: if_splits)
  next
    case False
    then have "ValidateBindings uni (ow_DeviceIDs ow) (ms_GPUAssignments m) = None"
      using assms(1) ds by (auto simp: check_miner_def split: if_splits)
    from sorted_bindings[OF this] have "ga_DeviceID ` set (ms_GPUAssignments m) = set (ow_DeviceIDs ow)"
      by (metis set_map set_sort)
    then show ?thesis using ownership_parts(3)[OF assms(2)] by blast
  qed
qed

lemma parsed_own_miner:
  assumes "check_miner uni ow m = None" "WorkloadOwnership_Validate ow = None" "deliverable_miner m"
  shows "parse_miner (wire_miner m) ow = Inr (m\<lparr>ms_WalletID := None, ms_PoolID := None\<rparr>)"
proof -
  note b = binding_devices[OF assms(1,2)]
  have d: "parse_devices x (map DeviceID_String (ow_DeviceIDs ow)) = Inr (ow_DeviceIDs ow)" for x
    by (rule parse_devices_texts[OF ownership_parts(3)[OF assms(2)]])
  have "MinerMode_of (MinerMode_text (ms_Mode m)) = ms_Mode m"
    using assms(3) miner_mode.enum_text by (simp add: deliverable_miner_def MinerMode_of_def)
  then show ?thesis
    using assms(3) b(1)
    by (simp add: parse_miner_def wire_miner_def deliverable_miner_def map_error_def package_id.parse_text parsed_assignments[OF b(2)] d)
qed

lemma plan_delivered:
  assumes w: "wire_ExecutionPlan uni p = Inr w" and r: "pl_RestartPolicy p \<in> set RestartPolicy_values"
    and m: "\<forall>m. pl_Miner p = Some m \<longrightarrow> deliverable_miner m"
  shows "parsePlanForHost (Some w) (pl_HostID p) = Inr (delivered_plan p)"
proof -
  let ?ow = "pl_Ownership p"
  have i: "ExecutionID_Validate (pl_ExecutionID p) = None" and o: "WorkloadOwnership_Validate ?ow = None"
    and h: "pl_HostID p = ow_HostID ?ow" "pl_DeviceIDs p = ow_DeviceIDs ?ow"
    and c: "\<forall>x. pl_Miner p = Some x \<longrightarrow> check_miner uni ?ow x = None"
    and wd: "wp_ExecutionId w = ExecutionID_String (pl_ExecutionID p)" "wp_Executable w = pl_Executable p" "wp_Args w = pl_Args p"
      "wp_Environment w = pl_Environment p" "wp_WorkingDirectory w = pl_WorkingDirectory p"
      "wp_RestartPolicy w = RestartPolicy_text (pl_RestartPolicy p)" "wp_Ownership w = Some (wire_WorkloadOwnership ?ow)"
      "wp_Miner w = map_option wire_miner (pl_Miner p)"
    using w by (auto simp: wire_ExecutionPlan_def Let_def)
  have rp: "RestartPolicy_of (RestartPolicy_text (pl_RestartPolicy p)) = pl_RestartPolicy p"
    using r restart_policy.enum_text by (simp add: RestartPolicy_of_def)
  show ?thesis
  proof (cases "pl_Miner p")
    case None
    then show ?thesis
      by (simp add: parsePlanForHost_def wd map_error_def execution_id.parse_text[OF i] parsed_own_ownership[OF o] h rp delivered_plan_def)
  next
    case (Some x)
    then show ?thesis
      using c m parsed_own_miner[OF _ o, of uni x]
      by (simp add: parsePlanForHost_def wd map_error_def execution_id.parse_text[OF i] parsed_own_ownership[OF o] h rp delivered_plan_def)
  qed
qed

lemma loaded_snapshot:
  assumes "load_snapshot sv row = Inr s"
  shows "\<exists>m e. pl_Miner (sn_Plan s) = Some m \<and> ms_Endpoint m = Some e \<and> plan_matches s m \<and> PackageID_Validate (pr_PackageID (sn_Package s)) = None
    \<and> ExecutionID_Validate (ResolvedExecutionSnapshot.sn_ExecutionID s) = None \<and> (ms_GPUAssignments m \<noteq> [] \<longrightarrow> ValidateBindings (env_uni (sv_env sv)) (cl_DeviceIDs (sn_Resources s)) (ms_GPUAssignments m) = None)"
proof -
  have v: "validateSnapshot (env_uni (sv_env sv)) s = None" "scanSnapshot row = None"
    "s = row\<lparr>sn_Resources := NormalizeResourceClaim (sn_Resources row)\<rparr>"
    using assms by (auto simp: load_snapshot_def Let_def)
  show ?thesis
    using v(1,2) unfolding v(3)
    by (auto simp: validateSnapshot_def scanSnapshot_def corrupt_if_def Let_def split: option.splits if_splits)
qed

lemma unbound_devices: "ds \<noteq> [] \<Longrightarrow> ValidateBindings uni ds [] \<noteq> None"
  using sorted_bindings[of uni ds "[]"] by (metis list.simps(8) set_empty set_sort sort_key_simps(1))

text \<open>
  C28: the plan of a snapshot that loads from the database is sent exactly when its devices have been bound to hardware (a
  snapshot that is resolved without an inventory loads with unbound devices; encoding it is refused), and the Agent of its
  Host then reads back exactly that plan: only the profile, wallet and pool identifiers and the thread count of the outer
  record, which the wire does not carry, are gone.
\<close>
theorem stored_plan_reaches_agent:
  assumes "load_snapshot sv row = Inr s" and "pl_Miner (sn_Plan s) = Some m"
  shows "case wire_ExecutionPlan (env_uni (sv_env sv)) (sn_Plan s) of
      Inl e \<Rightarrow> cl_DeviceIDs (sn_Resources s) \<noteq> [] \<and> ms_GPUAssignments m = []
    | Inr w \<Rightarrow> (cl_DeviceIDs (sn_Resources s) = [] \<or> ms_GPUAssignments m \<noteq> [])
        \<and> parsePlanForHost (Some w) (sn_HostID s) = Inr ((sn_Plan s)\<lparr>pl_ProfileID := ProfileID [], pl_CPUThreads := None,
            pl_Miner := Some (m\<lparr>ms_WalletID := None, ms_PoolID := None\<rparr>)\<rparr>)"
proof -
  let ?uni = "env_uni (sv_env sv)" and ?p = "sn_Plan s" and ?ds = "cl_DeviceIDs (sn_Resources s)"
  have l: "plan_matches s m" "PackageID_Validate (pr_PackageID (sn_Package s)) = None" "ExecutionID_Validate (ResolvedExecutionSnapshot.sn_ExecutionID s) = None"
    "ms_GPUAssignments m \<noteq> [] \<longrightarrow> ValidateBindings ?uni ?ds (ms_GPUAssignments m) = None"
    using loaded_snapshot[OF assms(1)] assms(2) by auto
  note pm = l(1)[unfolded plan_matches_def Let_def]
  have "?ds = [] \<longrightarrow> ms_GPUAssignments m = []" using sorted_bindings[of ?uni "[]" "ms_GPUAssignments m"] l(4) by auto
  then have c: "check_miner ?uni (pl_Ownership ?p) m = None \<longleftrightarrow> ?ds = [] \<or> ms_GPUAssignments m \<noteq> []"
    using pm l(4) unbound_devices[of ?ds ?uni] by (cases "?ds = []"; cases "ms_GPUAssignments m = []") (simp_all add: check_miner_def)
  have sent: "wire_ExecutionPlan ?uni ?p = Inr w \<Longrightarrow> check_miner ?uni (pl_Ownership ?p) m = None" for w
    using assms(2) by (auto simp: wire_ExecutionPlan_def Let_def)
  have kept: "check_miner ?uni (pl_Ownership ?p) m = None \<Longrightarrow> \<exists>w. wire_ExecutionPlan ?uni ?p = Inr w"
    using pm l(3) assms(2) by (simp add: wire_ExecutionPlan_def Let_def)
  have reads: "parsePlanForHost (Some w) (pl_HostID ?p) = Inr (delivered_plan ?p)" if "wire_ExecutionPlan ?uni ?p = Inr w" for w
    by (rule plan_delivered[OF that]) (use pm l(2) assms(2) in \<open>auto simp: deliverable_miner_def MinerMode_values_def RestartPolicy_values_def\<close>)
  have "delivered_plan ?p = ?p\<lparr>pl_ProfileID := ProfileID [], pl_CPUThreads := None,
      pl_Miner := Some (m\<lparr>ms_WalletID := None, ms_PoolID := None\<rparr>)\<rparr>"
    using pm assms(2) by (simp add: delivered_plan_def)
  then show ?thesis using c sent kept reads pm by (cases "wire_ExecutionPlan ?uni ?p") auto
qed

section \<open>Observations of executions\<close>

text \<open>The wire carries whole milliseconds, and no negative durations.\<close>

definition whole_milliseconds :: "Duration \<Rightarrow> Duration" where
  "whole_milliseconds d = max 0 d - max 0 d mod 1000000"

definition received_evidence :: "UsefulWorkEvidence \<Rightarrow> UsefulWorkEvidence" where
  "received_evidence u = u\<lparr>uw_Age := whole_milliseconds (uw_Age u), uw_FreshFor := whole_milliseconds (uw_FreshFor u),
     uw_LastUsefulWorkAt := (if uw_LastUsefulWorkAt u = Some 0 then None else uw_LastUsefulWorkAt u)\<rparr>"

definition received_telemetry :: "MinerTelemetry \<Rightarrow> MinerTelemetry" where
  "received_telemetry t = t\<lparr>mt_Age := whole_milliseconds (mt_Age t), mt_UsefulWork := None\<rparr>"

text \<open>What the Controller holds of an observation: the evidence of useful work moves out of the telemetry.\<close>

definition received :: "RuntimeObservation \<Rightarrow> ExecutionObservation" where
  "received ob = (let s = ro_Process ob in
     \<lparr>ex_ExecutionID = ExecSnapshot.sn_ExecutionID s,
      ex_Ownership = (if WorkloadOwnership_Validate (sn_Ownership s) = None then Some (sn_Ownership s) else None),
      ex_Status = sn_State s, ex_Error = None, ex_PID = sn_PID s, ex_StartedAt = sn_StartedAt s, ex_ExitCode = sn_ExitCode s,
      ex_RestartCount = sn_RestartCount s, ex_LastError = sn_LastError s, ex_Warnings = ro_Warnings ob,
      ex_MinerTelemetry = map_option received_telemetry (ro_Telemetry ob),
      ex_UsefulWork = (case ro_Telemetry ob of None \<Rightarrow> None | Some t \<Rightarrow> map_option received_evidence (mt_UsefulWork t))\<rparr>)"

text \<open>The values of Go: 64-bit integers and durations, 32-bit exit codes, instants of the years 1 to 9999, named codes.\<close>

definition go_evidence :: "UsefulWorkEvidence \<Rightarrow> bool" where
  "go_evidence u \<longleftrightarrow> uw_Age u < 2 ^ 63 \<and> uw_FreshFor u < 2 ^ 63 \<and> wire_instant (uw_CollectedAt u)
     \<and> (\<forall>t. uw_LastUsefulWorkAt u = Some t \<longrightarrow> wire_instant t) \<and> ValidCode (uw_ReasonCode u)
     \<and> uw_Availability u \<in> set TelemetryAvailability_values \<and> uw_UsefulWork u \<in> set UsefulWorkState_values
     \<and> uw_Upstream u \<in> set UpstreamState_values \<and> uw_Confidence u \<in> set EvidenceConfidence_values"

definition go_observation :: "RuntimeObservation \<Rightarrow> bool" where
  "go_observation ob \<longleftrightarrow> (let s = ro_Process ob in
     - (2 ^ 63) \<le> sn_PID s \<and> sn_PID s < 2 ^ 63 \<and> wire_instant (sn_StartedAt s) \<and> sn_State s \<in> set ExecutionStatus_values
     \<and> (\<forall>c. sn_ExitCode s = Some c \<longrightarrow> - (2 ^ 31) \<le> c \<and> c < 2 ^ 31)
     \<and> (\<forall>t. ro_Telemetry ob = Some t \<longrightarrow> mt_Age t < 2 ^ 63 \<and> wire_instant (mt_CollectedAt t) \<and> ValidCode (mt_ErrorCode t)
          \<and> mt_Health t \<in> set MinerHealth_values \<and> (\<forall>u. mt_UsefulWork t = Some u \<longrightarrow> go_evidence u)))"

lemma traverse_back:
  assumes "traverse f (map g xs) = Inr ys" and "\<And>x y. x \<in> set xs \<Longrightarrow> f (g x) = Inr y \<Longrightarrow> y = x"
  shows "ys = xs"
  using assms by (induction xs arbitrary: ys) auto

lemma metric_back: "parse_metric (Some (wire_metric m)) = Inr m' \<Longrightarrow> m' = m"
  by (auto simp: parse_metric_def wire_metric_def split: if_splits)

lemma rate_back: "parse_device_rate (Some (wire_device_rate d)) = Inr d' \<Longrightarrow> d' = d"
  by (auto simp: parse_device_rate_def wire_device_rate_def device_id.parse_iff device_id.wrap_text split: if_splits)

lemma last_work_back:
  assumes "parse_last_work c (case l of None \<Rightarrow> None | Some t \<Rightarrow> wire_Timestamp t) = Inr l'" "\<forall>t. l = Some t \<longrightarrow> wire_instant t"
  shows "l' = (if l = Some 0 then None else l)"
  using assms by (auto simp: parse_last_work_def wire_Timestamp_def IsZero_def AsTime_New split: option.splits if_splits)

lemma evidence_back:
  assumes "parseUsefulWork (Some (wireUsefulWork u)) = Inr u'" and g: "go_evidence u"
  shows "u' = Some (received_evidence u)"
proof -
  let ?w = "wireUsefulWork u"
  obtain c l ms where w: "parse_instant ''invalid useful-work collection timestamp'' (wu_CollectedAt ?w) = Inr c"
    "parse_last_work c (wu_LastUsefulWorkAt ?w) = Inr l" "traverse parse_metric (wu_Metrics ?w) = Inr ms"
    "u' = Some ((evidence_of ?w)\<lparr>uw_CollectedAt := c, uw_LastUsefulWorkAt := l, uw_Metrics := ms\<rparr>)"
    using assms(1) by (auto simp: parseUsefulWork_def Let_def)
  have c: "c = uw_CollectedAt u" using w(1) g by (simp add: wireUsefulWork_def parse_instant_wire go_evidence_def)
  have l: "l = (if uw_LastUsefulWorkAt u = Some 0 then None else uw_LastUsefulWorkAt u)"
    using w(2) g last_work_back by (simp add: wireUsefulWork_def go_evidence_def)
  have ms: "ms = uw_Metrics u"
    by (rule traverse_back[of parse_metric "\<lambda>m. Some (wire_metric m)", OF _ metric_back]) (use w(3) in \<open>simp_all add: wireUsefulWork_def\<close>)
  have e: "TelemetryAvailability_of (TelemetryAvailability_text (uw_Availability u)) = uw_Availability u"
    "UsefulWorkState_of (UsefulWorkState_text (uw_UsefulWork u)) = uw_UsefulWork u"
    "UpstreamState_of (UpstreamState_text (uw_Upstream u)) = uw_Upstream u"
    "EvidenceConfidence_of (EvidenceConfidence_text (uw_Confidence u)) = uw_Confidence u"
    "Code_of (Code_text (uw_ReasonCode u)) = uw_ReasonCode u"
    using g telemetry_availability.enum_text useful_work_state.enum_text upstream_state.enum_text evidence_confidence.enum_text valid_code_round
    by (simp_all add: go_evidence_def TelemetryAvailability_of_def UsefulWorkState_of_def UpstreamState_of_def EvidenceConfidence_of_def)
  show ?thesis
    using g by (simp add: w(4) c l ms evidence_of_def wireUsefulWork_def e milliseconds_round go_evidence_def received_evidence_def whole_milliseconds_def)
qed

lemma telemetry_back:
  assumes "parse_telemetry (Some (wire_telemetry t)) = Inr t'" "mt_Age t < 2 ^ 63" "wire_instant (mt_CollectedAt t)"
    "ValidCode (mt_ErrorCode t)" "mt_Health t \<in> set MinerHealth_values"
  shows "t' = Some (received_telemetry t)"
proof -
  let ?w = "wire_telemetry t"
  obtain c ds where w: "parse_instant ''invalid miner telemetry timestamp'' (wt_CollectedAt ?w) = Inr c"
    "traverse parse_device_rate (wt_PerDevice ?w) = Inr ds" "t' = Some ((telemetry_of ?w)\<lparr>mt_CollectedAt := c, mt_PerDevice := ds\<rparr>)"
    using assms(1) by (auto simp: parse_telemetry_def)
  have c: "c = mt_CollectedAt t" using w(1) assms(3) by (simp add: wire_telemetry_def parse_instant_wire)
  have ds: "ds = mt_PerDevice t"
    by (rule traverse_back[of parse_device_rate "\<lambda>d. Some (wire_device_rate d)", OF _ rate_back]) (use w(2) in \<open>simp_all add: wire_telemetry_def\<close>)
  show ?thesis
    using assms(2,4,5) miner_health.enum_text[of "mt_Health t"]
    by (simp add: w(3) c ds telemetry_of_def wire_telemetry_def MinerHealth_of_def valid_code_round milliseconds_round
        received_telemetry_def whole_milliseconds_def)
qed

lemma exit_back: "- (2 ^ 31) \<le> c \<Longrightarrow> c < 2 ^ 31 \<Longrightarrow> sint (word_of_int c :: 32 word) = c"
  by (rule sint_small) simp_all

lemma pid_back: "- (2 ^ 63) \<le> c \<Longrightarrow> c < 2 ^ 63 \<Longrightarrow> sint (word_of_int c :: 64 word) = c"
  by (rule sint_small) simp_all

text \<open>
  C29: whatever the Controller accepts of an observation that the Agent sends is what the Agent observed, field by
  field, with durations cut to whole milliseconds and an ownership that does not validate left out.
\<close>
theorem accepted_observation_faithful:
  assumes "ParseExecution (Some (wireObservation ob)) h = Inr r" and g: "go_observation ob"
  shows "r = received ob"
proof -
  let ?s = "ro_Process ob" and ?w = "wireObservation ob"
  obtain i ow st t u where p: "ParseExecutionID (we_ExecutionId ?w) = Inr i" "ParseWorkloadOwnership (we_Ownership ?w) h = Inr ow"
    "parse_instant ''invalid observed start timestamp'' (we_StartedAt ?w) = Inr st" "parse_telemetry (we_MinerTelemetry ?w) = Inr t"
    "parseUsefulWork (we_UsefulWork ?w) = Inr u"
    "r = \<lparr>ex_ExecutionID = i, ex_Ownership = ow, ex_Status = ExecutionStatus_of (we_State ?w), ex_Error = None,
       ex_PID = sint (we_Pid ?w), ex_StartedAt = st, ex_ExitCode = (if we_HasExitCode ?w then Some (sint (we_ExitCode ?w)) else None),
       ex_RestartCount = we_RestartCount ?w, ex_LastError = we_LastError ?w, ex_Warnings = we_Warnings ?w,
       ex_MinerTelemetry = t, ex_UsefulWork = u\<rparr>"
    using assms(1) by (auto simp: ParseExecution_def Let_def)
  have f: "we_ExecutionId ?w = ExecutionID_String (ExecSnapshot.sn_ExecutionID ?s)" "we_State ?w = ExecutionStatus_text (sn_State ?s)"
    "we_Pid ?w = word_of_int (sn_PID ?s)" "we_StartedAt ?w = wire_Timestamp (sn_StartedAt ?s)"
    "we_HasExitCode ?w = (sn_ExitCode ?s \<noteq> None)" "we_ExitCode ?w = (case sn_ExitCode ?s of None \<Rightarrow> 0 | Some c \<Rightarrow> word_of_int c)"
    "we_RestartCount ?w = sn_RestartCount ?s" "we_LastError ?w = sn_LastError ?s" "we_Warnings ?w = ro_Warnings ob"
    "we_MinerTelemetry ?w = map_option wire_telemetry (ro_Telemetry ob)"
    "we_UsefulWork ?w = (case ro_Telemetry ob of None \<Rightarrow> None | Some t \<Rightarrow> map_option wireUsefulWork (mt_UsefulWork t))"
    "we_Ownership ?w = (if WorkloadOwnership_Validate (sn_Ownership ?s) = None then Some (wire_WorkloadOwnership (sn_Ownership ?s)) else None)"
    by (simp_all add: wireObservation_def Let_def wireExecution_def wireOwnership_same split: option.split)
  note g' = g[unfolded go_observation_def Let_def]
  have i: "i = ExecSnapshot.sn_ExecutionID ?s" using p(1) by (simp add: f execution_id.parse_iff execution_id.wrap_text)
  have ow: "ow = (if WorkloadOwnership_Validate (sn_Ownership ?s) = None then Some (sn_Ownership ?s) else None)"
    using p(2) by (auto simp: f parsed_no_ownership[of None, THEN iffD2] dest: ownership_back split: if_splits)
  have st: "st = sn_StartedAt ?s" using p(3) g' by (simp add: f parse_instant_wire)
  have t: "t = map_option received_telemetry (ro_Telemetry ob)"
    using p(4) g' telemetry_back by (cases "ro_Telemetry ob") (auto simp: f parse_telemetry_def[of None])
  have u: "u = (case ro_Telemetry ob of None \<Rightarrow> None | Some t \<Rightarrow> map_option received_evidence (mt_UsefulWork t))"
    using p(5) g' evidence_back
    by (cases "ro_Telemetry ob"; cases "mt_UsefulWork (the (ro_Telemetry ob))") (auto simp: f parseUsefulWork_def[of None])
  have sts: "ExecutionStatus_of (ExecutionStatus_text (sn_State ?s)) = sn_State ?s"
    using g' execution_status.enum_text by (simp add: ExecutionStatus_of_def)
  show ?thesis
    using g' by (cases "sn_ExitCode ?s") (simp_all add: p(6) f i ow st t u sts received_def Let_def pid_back exit_back)
qed

end
