(* ===== verification/Wire_Reconnect.thy ===== *)
theory Wire_Reconnect
  imports Agent_Wire
begin

text \<open>
  The delays between the sessions of an Agent: they double up to the configured maximum, start again after every
  established session, and end with the first permanent error.
\<close>

lemma wrap_double: "0 < b \<Longrightarrow> b < 2 ^ 62 \<Longrightarrow> wrap_int64 (b * 2) = b * 2"
  by (simp add: wrap_int64_id)

lemma next_backoff_range:
  assumes "0 < initial" "initial \<le> b" "b \<le> max initial most" "most \<le> 2 ^ 62"
  shows "initial \<le> next_backoff most est b \<and> next_backoff most est b \<le> max initial most"
  using assms wrap_double[of b] by (auto simp: next_backoff_def Let_def)

lemma reconnect_range:
  assumes "0 < initial" "initial \<le> b" "b \<le> max initial most" "most \<le> 2 ^ 62" "reconnect rpc initial most b ss = (delays, final)"
  shows "(\<forall>d\<in>set delays. initial \<le> d \<and> d \<le> max initial most)
    \<and> (final = None \<longleftrightarrow> \<not> list_ex (nonTransient rpc \<circ> fst) ss) \<and> (final = None \<longrightarrow> length delays = length ss)"
  using assms
proof (induction ss arbitrary: b delays)
  case (Cons s ss)
  obtain err est where s: "s = (err, est)" by (cases s)
  let ?d = "if est then initial else b"
  show ?case
  proof (cases "nonTransient rpc err")
    case True
    then show ?thesis using Cons.prems(5) by (auto simp: s nonTransient_def split: option.splits)
  next
    case False
    obtain ds where ds: "reconnect rpc initial most (next_backoff most est ?d) ss = (ds, final)" "delays = ?d # ds"
      using Cons.prems(5) False by (auto simp: s Let_def split: prod.splits)
    have d: "initial \<le> ?d" "?d \<le> max initial most" using Cons.prems by auto
    show ?thesis
      using Cons.IH[OF Cons.prems(1) _ _ Cons.prems(4) ds(1)] next_backoff_range[OF Cons.prems(1) d Cons.prems(4), of est] d False
      by (auto simp: s ds(2))
  qed
qed simp

text \<open>The delay after \<open>k\<close> attempts in a row that were not established.\<close>

definition backoff_after :: "Duration \<Rightarrow> nat \<Rightarrow> Duration \<Rightarrow> Duration" where
  "backoff_after most k b = (if b \<le> most then min (b * 2 ^ k) most else b)"

lemma backoff_after_next:
  assumes "0 < b" "most \<le> 2 ^ 62"
  shows "backoff_after most k (next_backoff most False b) = backoff_after most (Suc k) b"
proof (cases "b < most")
  case True
  have n: "next_backoff most False b = min (b * 2) most" using True assms wrap_double[of b] by (simp add: next_backoff_def Let_def min_def)
  show ?thesis
  proof (cases "b * 2 \<le> most")
    case le: True
    then show ?thesis using True by (simp add: n backoff_after_def mult.assoc)
  next
    case gt: False
    have "b * 2 * 1 \<le> b * 2 * 2 ^ k" "most * 1 \<le> most * 2 ^ k" using assms True by (intro mult_left_mono; simp)+
    then have "min (b * 2 * 2 ^ k) most = most" "min (most * 2 ^ k) most = most" using gt by simp_all
    then show ?thesis using True gt by (simp add: n backoff_after_def mult.assoc)
  qed
next
  case False
  have "most \<le> most * 2 ^ k" "most \<le> most * (2 * 2 ^ k)" if "0 < most"
    using that one_le_power[of "2 :: int" k] one_le_power[of "2 :: int" "Suc k"] by (simp_all add: mult_le_cancel_left1)
  then have "0 < most \<Longrightarrow> min (most * 2 ^ k) most = most \<and> min (most * (2 * 2 ^ k)) most = most" by auto
  then show ?thesis using False assms by (cases "b = most") (auto simp: next_backoff_def backoff_after_def)
qed

lemma reconnect_doubles:
  assumes "0 < b" "0 < initial" "most \<le> 2 ^ 62" "reconnect rpc initial most b ss = (delays, final)" "k < length delays"
    "\<forall>j\<le>k. \<not> snd (ss ! j)"
  shows "delays ! k = backoff_after most k b"
  using assms
proof (induction ss arbitrary: b delays k)
  case (Cons s ss)
  obtain err est where s: "s = (err, est)" by (cases s)
  have est: "\<not> est" using Cons.prems(6) by (auto simp: s)
  obtain ds where ds: "reconnect rpc initial most (next_backoff most False b) ss = (ds, final)" "delays = b # ds"
    using Cons.prems(4,5) est by (auto simp: s Let_def split: if_splits prod.splits)
  have pos: "0 < next_backoff most False b" using Cons.prems(1,3) wrap_double[of b] by (auto simp: next_backoff_def Let_def)
  show ?case
  proof (cases k)
    case 0
    then show ?thesis by (auto simp: ds(2) backoff_after_def)
  next
    case (Suc i)
    then have "ds ! i = backoff_after most i (next_backoff most False b)"
      using Cons.IH[OF pos Cons.prems(2,3) ds(1), of i] Cons.prems(5,6) ds(2) by fastforce
    then show ?thesis using Suc ds(2) backoff_after_next[OF Cons.prems(1,3)] by simp
  qed
qed simp

text \<open>The loop ends at the first session with a permanent error, with that error, and after no other session.\<close>

lemma reconnect_end:
  assumes "reconnect rpc initial most b ss = (delays, final)"
  shows "length delays = length (takeWhile (\<lambda>s. \<not> nonTransient rpc (fst s)) ss)
    \<and> final = (case dropWhile (\<lambda>s. \<not> nonTransient rpc (fst s)) ss of [] \<Rightarrow> None | s # later \<Rightarrow> fst s)"
  using assms
proof (induction ss arbitrary: b delays)
  case (Cons s ss)
  obtain err est where s: "s = (err, est)" by (cases s)
  show ?case using Cons.prems Cons.IH by (auto simp: s Let_def split: if_splits prod.splits)
qed simp

text \<open>After an established session the delays start again.\<close>

lemma reconnect_restarts:
  assumes "reconnect rpc initial most b ss = (delays, final)" "i < length delays" "snd (ss ! i)"
  shows "delays ! i = initial \<and> reconnect rpc initial most initial (drop (Suc i) ss) = (drop (Suc i) delays, final)"
  using assms
proof (induction ss arbitrary: b delays i)
  case (Cons s ss)
  obtain err est where s: "s = (err, est)" by (cases s)
  let ?d = "if est then initial else b"
  obtain ds where ds: "reconnect rpc initial most (next_backoff most est ?d) ss = (ds, final)" "delays = ?d # ds"
    using Cons.prems(1,2) by (auto simp: s Let_def split: if_splits prod.splits)
  show ?case
  proof (cases i)
    case 0
    then show ?thesis using Cons.prems(3) ds by (simp add: s next_backoff_def)
  next
    case (Suc k)
    then show ?thesis using Cons.IH[OF ds(1), of k] Cons.prems(2,3) ds(2) by simp
  qed
qed simp

lemma reconnect_since:
  assumes "0 < initial" "most \<le> 2 ^ 62" "reconnect rpc initial most initial ss = (delays, final)"
    and "i \<le> k" "k < length delays" "i = 0 \<or> snd (ss ! (i - 1))" "\<forall>j. i \<le> j \<and> j \<le> k \<longrightarrow> \<not> snd (ss ! j)"
  shows "delays ! k = backoff_after most (k - i) initial"
proof (cases i)
  case 0
  then show ?thesis using reconnect_doubles[OF assms(1,1,2,3,5)] assms(7) by simp
next
  case (Suc l)
  have r: "reconnect rpc initial most initial (drop (Suc l) ss) = (drop (Suc l) delays, final)"
    using reconnect_restarts[OF assms(3), of l] assms(4-6) Suc by simp
  have "length delays \<le> length ss" using reconnect_end[OF assms(3)] length_takeWhile_le[of _ ss] by metis
  then have "\<forall>j\<le>k - i. \<not> snd (drop (Suc l) ss ! j)" using assms(4,5,7) Suc by (auto simp: nth_drop)
  then have "drop (Suc l) delays ! (k - i) = backoff_after most (k - i) initial"
    using reconnect_doubles[OF assms(1,1,2) r, of "k - i"] assms(4,5) Suc by simp
  then show ?thesis using assms(4,5) Suc by (simp add: nth_drop)
qed

text \<open>The outcomes that end the reconnect loop: the errors of version, pairing, identity, configuration and TLS, and
  those that the RPC library reports as invalid arguments.\<close>

definition permanent :: "rpc_status \<Rightarrow> error option \<times> bool \<Rightarrow> bool" where
  "permanent rpc s \<longleftrightarrow> (\<exists>e. fst s = Some e \<and> (rpc e \<or> snd (CodeOf e) \<and> fst (CodeOf e) \<in> {PROTOCOL_VERSION_MISMATCH,
     SCHEMA_VERSION_MISMATCH, PAIRING_REQUIRED, PAIRING_TOKEN_INVALID, PAIRING_TOKEN_EXPIRED, CONTROLLER_IDENTITY_MISMATCH, CONFIG_CONFLICT,
     TLS_CREDENTIALS_REQUIRED, TLS_FINGERPRINT_MISMATCH, TLS_IDENTITY_MISMATCH, CERTIFICATE_EXPIRED}))"

lemma permanent_nonTransient: "permanent = (\<lambda>rpc s. nonTransient rpc (fst s))"
  by (intro ext) (auto simp: permanent_def nonTransient_def permanent_codes_def split: option.splits prod.splits)

text \<open>
  C30: the Agent waits at least the initial delay and never more than the larger of the initial and the maximal delay
  before it reconnects; after an established session it waits the initial delay; after \<open>n\<close> further failures in a row, or
  \<open>n\<close> failures in a row after the first one at the start, the delay has doubled \<open>n\<close> times, up to the maximum; and it stops
  exactly at the first permanent error, which it returns: every session before that one is followed by a delay, that one
  and the later ones are not. Unset delays are one second and thirty seconds.
\<close>
theorem reconnect_delays_bounded:
  assumes "Run_sessions rpc reconnectInitial reconnectMax sessions = (delays, final)" and "reconnectMax \<le> 2 ^ 62"
    and i: "initial = (if 0 < reconnectInitial then reconnectInitial else 1000000000)"
    and m: "most = (if 0 < reconnectMax then reconnectMax else 30000000000)"
  shows "(\<forall>d\<in>set delays. initial \<le> d \<and> d \<le> max initial most)
    \<and> (\<forall>k<length delays. snd (sessions ! k) \<longrightarrow> delays ! k = initial)
    \<and> (\<forall>i k. i \<le> k \<and> k < length delays \<and> (i = 0 \<or> snd (sessions ! (i - 1))) \<and> (\<forall>j. i \<le> j \<and> j \<le> k \<longrightarrow> \<not> snd (sessions ! j))
        \<longrightarrow> delays ! k = (if initial \<le> most then min (initial * 2 ^ (k - i)) most else initial))
    \<and> length delays = length (takeWhile (\<lambda>s. \<not> permanent rpc s) sessions)
    \<and> final = (case dropWhile (\<lambda>s. \<not> permanent rpc s) sessions of [] \<Rightarrow> None | s # later \<Rightarrow> fst s)
    \<and> (final = None \<longleftrightarrow> \<not> list_ex (permanent rpc) sessions)"
proof -
  have d: "default_duration reconnectInitial 1000000000 = initial" "default_duration reconnectMax 30000000000 = most"
    by (simp_all add: i m default_duration_def)
  have b: "0 < initial" "most \<le> 2 ^ 62" using assms(2) by (auto simp: i m)
  have r: "reconnect rpc initial most initial sessions = (delays, final)"
    using assms(1) by (simp only: Run_sessions_def Let_def d)
  note range = reconnect_range[OF b(1) _ _ b(2) r] and last = reconnect_end[OF r]
  have again: "\<forall>k<length delays. snd (sessions ! k) \<longrightarrow> delays ! k = initial" using reconnect_restarts[OF r] by blast
  have "delays ! k = (if initial \<le> most then min (initial * 2 ^ (k - i)) most else initial)"
    if "i \<le> k \<and> k < length delays \<and> (i = 0 \<or> snd (sessions ! (i - 1))) \<and> (\<forall>j. i \<le> j \<and> j \<le> k \<longrightarrow> \<not> snd (sessions ! j))" for i k
    using reconnect_since[OF b r, of i k] that by (simp add: backoff_after_def)
  then show ?thesis using range last again by (simp add: permanent_nonTransient comp_def)
qed

definition demo_lost :: error where
  "demo_lost = Plain ''connection lost''"

definition demo_denied :: error where
  "demo_denied = Typed (mk_error PAIRING_REQUIRED [] Map.empty)"

definition demo_sessions :: "(error option \<times> bool) list" where
  "demo_sessions = [(Some demo_lost, False), (Some demo_lost, False), (Some demo_lost, True), (Some demo_denied, False), (Some demo_lost, False)]"

lemma reconnect_delays_bounded_witness:
  "snd (Run_sessions (\<lambda>_. False) 0 3000000000 demo_sessions) = Some demo_denied \<and> length (fst (Run_sessions (\<lambda>_. False) 0 3000000000 demo_sessions)) = 3
    \<and> list_all (\<lambda>d. 1000000000 \<le> d \<and> d \<le> 3000000000) (fst (Run_sessions (\<lambda>_. False) 0 3000000000 demo_sessions))"
proof -
  have n: "permanent (\<lambda>_. False) (Some demo_denied, b)" "\<not> permanent (\<lambda>_. False) (Some demo_lost, b)" for b
    by (simp_all add: demo_lost_def demo_denied_def permanent_def CodeOf_def)
  note r = reconnect_delays_bounded[of "\<lambda>_. False" 0 3000000000 demo_sessions, OF prod.collapse[symmetric] _ refl refl]
  show ?thesis using r by (simp add: list_all_iff n demo_sessions_def)
qed

end
