(* ===== verification/Wire_Demo.thy ===== *)
theory Wire_Demo
  imports Wire_Rounds Store_Demo
begin

text \<open>
  Concrete messages: an execution that mines with confirmed useful work, the report of an Agent that runs it, and
  the plan of a stored snapshot. And what one refused text does to a whole report.
\<close>

section \<open>An execution that mines\<close>

definition wire_demo_evidence :: UsefulWorkEvidence where
  "wire_demo_evidence = \<lparr>uw_Provider = ''xmrig'', uw_Availability = TelemetryAvailable, uw_RuntimeHealthy = Some True,
     uw_JobPresent = Some True, uw_UsefulWork = UsefulWorkConfirmed, uw_AcceptedWork = Some 7, uw_RejectedWork = None,
     uw_StaleWork = None, uw_LastUsefulWorkAt = Some (unix_epoch + 8000000000), uw_Upstream = UpstreamConnected,
     uw_EndpointVisible = None, uw_Metrics = [\<lparr>wm_Kind = ''hashrate'', wm_Unit = ''H/s'', wm_Value = 4607182418800017408\<rparr>],
     uw_Confidence = EvidenceConfidenceAdapterReported, uw_CollectedAt = unix_epoch + 9000000000, uw_Age = 1500000,
     uw_FreshFor = 30000000000, uw_ReasonCode = NoCode\<rparr>"

definition wire_demo_telemetry :: MinerTelemetry where
  "wire_demo_telemetry = \<lparr>mt_AdapterID = ''xmrig'', mt_MinerVersion = ''6.22'', mt_Algorithm = ''rx/0'',
     mt_HashrateShortHPS = Some 4607182418800017408, mt_HashrateMediumHPS = None, mt_HashrateLongHPS = None,
     mt_HighestHashrateHPS = None, mt_PerDevice = [], mt_AcceptedShares = Some 7, mt_RejectedShares = None,
     mt_StaleShares = None, mt_TotalResults = None, mt_PoolConnected = Some True, mt_PoolLatencyMS = None, mt_UptimeSeconds = 60,
     mt_HugePagesAvailable = None, mt_HugePagesPercent = None, mt_MSRAvailable = None,
     mt_CollectedAt = unix_epoch + 9000000000, mt_Age = 1500000, mt_Health = MinerHealthMining, mt_ErrorCode = NoCode,
     mt_Message = [], mt_UsefulWork = Some wire_demo_evidence\<rparr>"

definition wire_demo_ownership :: WorkloadOwnership where
  "wire_demo_ownership = \<lparr>ow_WorkloadID = WorkloadID (demo_id ''workload''), ow_DesiredGeneration = 1,
     ow_ResolvedHash = ''sha256:'' @ replicate 64 CHR ''a'', ow_HostID = HostID (demo_id ''host''), ow_CPU = True, ow_DeviceIDs = []\<rparr>"

definition wire_demo_snapshot :: "string \<Rightarrow> ExecSnapshot" where
  "wire_demo_snapshot lastErr = \<lparr>sn_ExecutionID = ExecutionID (demo_id ''execution''), sn_Ownership = wire_demo_ownership,
     sn_State = ExecutionRunning, sn_PID = 4242, sn_StartedAt = unix_epoch + 1000000000, sn_ExitCode = None, sn_RestartCount = 0,
     sn_ProcessInstance = [], sn_LastError = lastErr, sn_Stdout = [], sn_Stderr = []\<rparr>"

definition wire_demo_observation :: "string \<Rightarrow> RuntimeObservation" where
  "wire_demo_observation lastErr = \<lparr>ro_Process = wire_demo_snapshot lastErr, ro_Telemetry = Some wire_demo_telemetry, ro_Warnings = []\<rparr>"

lemmas wire_demo_defs = wire_demo_evidence_def wire_demo_telemetry_def wire_demo_ownership_def wire_demo_snapshot_def wire_demo_observation_def

lemma demo_instants: "wire_instant (unix_epoch + 9000000000)" "wire_instant (unix_epoch + 8000000000)" "wire_instant (unix_epoch + 1000000000)"
  "unix_epoch + 9000000000 \<noteq> 0" "unix_epoch + 1000000000 \<noteq> 0" "unix_epoch + 8000000000 \<noteq> 0"
  by (simp_all add: wire_instant_def unix_epoch_def unix_seconds_def)

lemma demo_milliseconds: "wire_milliseconds 1500000 \<le> maxDurationMilliseconds" "wire_milliseconds 30000000000 \<le> maxDurationMilliseconds"
  "of_milliseconds (wire_milliseconds 1500000) = 1000000" "of_milliseconds (wire_milliseconds 30000000000) = 30000000000"
  using milliseconds_round[of 1500000] milliseconds_round[of 30000000000] by simp_all

lemma printable_safe: "list_all (\<lambda>c. 32 \<le> byte c \<and> byte c < 127) s \<Longrightarrow> length s \<le> n \<Longrightarrow> safeEvidenceText s n"
proof -
  assume p: "list_all (\<lambda>c. 32 \<le> byte c \<and> byte c < 127) s" and n: "length s \<le> n"
  have a: "is_ascii s" using p by (auto simp: is_ascii_def list_all_iff)
  have "\<not> IsControl (byte c)" if "c \<in> set s" for c
    using p that by (auto simp: list_all_iff IsControl_def)
  then show ?thesis using ascii_valid[OF a] n by (auto simp: safeEvidenceText_def rune_segs_ascii[OF a] list_ex_iff)
qed

lemma demo_texts: "safeEvidenceText ''xmrig'' 64" "safeEvidenceText ''6.22'' 64" "safeEvidenceText ''rx/0'' 64" "safeEvidenceText [] n"
  "safeEvidenceText ''hashrate'' 64" "safeEvidenceText ''H/s'' 32" "TrimSpace ''xmrig'' = ''xmrig''"
  by (simp_all add: printable_safe TrimSpace_id is_ascii_def IsSpace_def)

lemma demo_metric: "\<not> bad_metric 4607182418800017408"
  by (simp add: bad_metric_def f_negative_def IsNaN_def IsInf_def f_exponent_def)

lemma demo_owner: "WorkloadOwnership_Validate wire_demo_ownership = None"
  by (simp add: WorkloadOwnership_Validate_def wire_demo_ownership_def workload_id.check_text host_id.check_text demo_id_valid
      Let_def HasPrefix_def TrimPrefix_def hex_decodable_def is_hex_any_def is_hex_lower_def ascii_lower_def list_all_iff)

lemma demo_codes: "Code_of (Code_text NoCode) = NoCode" "ValidCode NoCode" "Code_text NoCode = []"
  using valid_code_round[of NoCode] by simp_all

lemma demo_evidence_accepted: "parseUsefulWork (Some (wireUsefulWork wire_demo_evidence)) = Inr (Some (received_evidence wire_demo_evidence))"
proof -
  let ?w = "wireUsefulWork wire_demo_evidence"
  have g: "go_evidence wire_demo_evidence"
    using demo_instants demo_codes(2)
    by (simp add: go_evidence_def wire_demo_evidence_def TelemetryAvailability_values_def UsefulWorkState_values_def UpstreamState_values_def
        EvidenceConfidence_values_def)
  have e: "TelemetryAvailability_of ''AVAILABLE'' = TelemetryAvailable" "UsefulWorkState_of ''CONFIRMED'' = UsefulWorkConfirmed"
    "UpstreamState_of ''CONNECTED'' = UpstreamConnected" "EvidenceConfidence_of ''ADAPTER_REPORTED'' = EvidenceConfidenceAdapterReported"
    by (simp_all add: TelemetryAvailability_of_def UsefulWorkState_of_def UpstreamState_of_def EvidenceConfidence_of_def enum_of_def
        TelemetryAvailability_values_def UsefulWorkState_values_def UpstreamState_values_def EvidenceConfidence_values_def)
  have c: "Code_of [] = NoCode" using demo_codes by simp
  have 1: "check_evidence ?w = None" "check_states (evidence_of ?w) = None"
    by (simp_all add: check_evidence_def check_states_def evidence_of_def wireUsefulWork_def wire_demo_evidence_def demo_texts demo_milliseconds
        demo_codes c e not_less TelemetryAvailability_values_def UsefulWorkState_values_def UpstreamState_values_def EvidenceConfidence_values_def)
  have 2: "parse_instant m (wu_CollectedAt ?w) = Inr (unix_epoch + 9000000000)" for m
    by (simp add: wireUsefulWork_def wire_demo_evidence_def parse_instant_wire demo_instants)
  have 3: "check_sample ((evidence_of ?w)\<lparr>uw_CollectedAt := unix_epoch + 9000000000\<rparr>) = None"
    by (simp add: check_sample_def evidence_of_def wireUsefulWork_def wire_demo_evidence_def e demo_milliseconds IsZero_def demo_instants)
  have 4: "parse_last_work (unix_epoch + 9000000000) (wu_LastUsefulWorkAt ?w) = Inr (Some (unix_epoch + 8000000000))"
    by (simp add: parse_last_work_def wireUsefulWork_def wire_demo_evidence_def wire_Timestamp_def IsZero_def demo_instants AsTime_New)
  have 5: "\<exists>ms. traverse parse_metric (wu_Metrics ?w) = Inr ms"
    by (simp add: wireUsefulWork_def wire_demo_evidence_def parse_metric_def wire_metric_def demo_texts demo_metric)
  obtain u where u: "parseUsefulWork (Some ?w) = Inr u" using 1 2 3 4 5 by (auto simp: parseUsefulWork_def Let_def guard_def)
  then show ?thesis using evidence_back[OF u g] by simp
qed

lemma demo_telemetry_accepted: "parse_telemetry (Some (wire_telemetry wire_demo_telemetry)) = Inr (Some (received_telemetry wire_demo_telemetry))"
proof -
  let ?w = "wire_telemetry wire_demo_telemetry"
  have h: "MinerHealth_of ''MINING'' \<in> set MinerHealth_values" by (simp add: MinerHealth_of_def enum_of_def MinerHealth_values_def)
  have c: "Code_of [] = NoCode" using demo_codes by simp
  have 1: "check_telemetry ?w = None"
    by (simp add: check_telemetry_def wire_telemetry_def wire_demo_telemetry_def demo_texts demo_milliseconds demo_codes c demo_metric not_less)
  have "\<exists>t. parse_telemetry (Some ?w) = Inr t"
    using 1 h by (simp add: parse_telemetry_def guard_def fail_if_def wire_telemetry_def wire_demo_telemetry_def parse_instant_wire demo_instants)
  then obtain t where t: "parse_telemetry (Some ?w) = Inr t" by blast
  show ?thesis
    using telemetry_back[OF t] t demo_instants demo_codes by (simp add: wire_demo_telemetry_def MinerHealth_values_def)
qed

section \<open>The report\<close>

definition wire_demo_host :: HostID where
  "wire_demo_host = HostID (demo_id ''host'')"

lemma demo_parses: "ParseExecutionID (demo_id ''execution'') = Inr (ExecutionID (demo_id ''execution''))"
  "ParseWorkloadOwnership (Some (wire_WorkloadOwnership wire_demo_ownership)) wire_demo_host = Inr (Some wire_demo_ownership)"
  "HostID_Validate wire_demo_host = None"
proof -
  show "ParseExecutionID (demo_id ''execution'') = Inr (ExecutionID (demo_id ''execution''))"
    by (simp add: execution_id.parse_iff demo_id_valid)
  have "ParseWorkloadID (demo_id ''workload'') = Inr (WorkloadID (demo_id ''workload''))" "ParseHostID (demo_id ''host'') = Inr wire_demo_host"
    by (simp_all add: workload_id.parse_iff host_id.parse_iff demo_id_valid wire_demo_host_def)
  then show "ParseWorkloadOwnership (Some (wire_WorkloadOwnership wire_demo_ownership)) wire_demo_host = Inr (Some wire_demo_ownership)"
    using demo_owner by (simp add: ParseWorkloadOwnership_def wire_WorkloadOwnership_def map_error_def parse_devices_def Let_def
        wire_demo_ownership_def wire_demo_host_def guard_def fail_if_def)
  show "HostID_Validate wire_demo_host = None" by (simp add: wire_demo_host_def host_id.check_text demo_id_valid)
qed

text \<open>The report of the execution is accepted as long as its last error is a safe text of at most 512 bytes.\<close>

lemma demo_report_accepted:
  assumes "safeEvidenceText m 512"
  shows "ParseExecution (Some (wireObservation (wire_demo_observation m))) wire_demo_host = Inr (received (wire_demo_observation m))"
proof -
  let ?w = "wireObservation (wire_demo_observation m)" and ?r = "received (wire_demo_observation m)"
  have f: "we_ExecutionId ?w = demo_id ''execution''" "we_State ?w = ''RUNNING''" "we_Pid ?w = 4242"
    "we_StartedAt ?w = wire_Timestamp (unix_epoch + 1000000000)" "\<not> we_HasExitCode ?w" "we_LastError ?w = m" "we_Warnings ?w = []"
    "we_MinerTelemetry ?w = Some (wire_telemetry wire_demo_telemetry)" "we_UsefulWork ?w = Some (wireUsefulWork wire_demo_evidence)"
    "we_Ownership ?w = Some (wire_WorkloadOwnership wire_demo_ownership)" "we_RestartCount ?w = 0"
    using demo_owner by (simp_all add: wireObservation_def wire_demo_observation_def wire_demo_snapshot_def Let_def wireExecution_def
        wireOwnership_same) (simp add: wire_demo_telemetry_def)
  have st: "ExecutionStatus_of ''RUNNING'' = ExecutionRunning" by (simp add: ExecutionStatus_of_def enum_of_def ExecutionStatus_values_def)
  have pid: "sint (4242 :: 64 word) = 4242" by simp
  have r: "?r = \<lparr>ex_ExecutionID = ExecutionID (demo_id ''execution''), ex_Ownership = Some wire_demo_ownership,
      ex_Status = ExecutionRunning, ex_Error = None, ex_PID = 4242, ex_StartedAt = unix_epoch + 1000000000, ex_ExitCode = None,
      ex_RestartCount = 0, ex_LastError = m, ex_Warnings = [], ex_MinerTelemetry = Some (received_telemetry wire_demo_telemetry),
      ex_UsefulWork = Some (received_evidence wire_demo_evidence)\<rparr>"
    using demo_owner by (simp add: received_def Let_def wire_demo_observation_def wire_demo_snapshot_def) (simp add: wire_demo_telemetry_def)
  have c: "check_execution ?r = None"
    by (simp add: r check_execution_def activeConfirmed_def reports_mining_def samples_differ_def runs_managed_def IsZero_def demo_instants
        received_evidence_def received_telemetry_def wire_demo_evidence_def wire_demo_telemetry_def)
  have chk: "check_process ?w = None" "check_warnings [] = None" "ExecutionRunning \<in> set ExecutionStatus_values"
    using assms by (simp_all add: check_process_def check_warnings_def f ExecutionStatus_values_def)
  show ?thesis
    using c by (simp add: ParseExecution_def f chk st pid demo_parses map_error_def parse_instant_wire demo_instants demo_evidence_accepted
        demo_telemetry_accepted guard_def fail_if_def Let_def r)
qed

lemma demo_report_refused:
  assumes "\<not> safeEvidenceText m 512"
  shows "ParseExecution (Some (wireObservation (wire_demo_observation m))) wire_demo_host = Inl (conflict ''invalid observed process metadata'')"
proof -
  let ?w = "wireObservation (wire_demo_observation m)"
  have f: "we_ExecutionId ?w = demo_id ''execution''" "we_State ?w = ''RUNNING''" "we_LastError ?w = m"
    "we_Ownership ?w = Some (wire_WorkloadOwnership wire_demo_ownership)"
    using demo_owner by (simp_all add: wireObservation_def wire_demo_observation_def wire_demo_snapshot_def Let_def wireExecution_def
        wireOwnership_same wire_demo_telemetry_def)
  have st: "ExecutionStatus_of ''RUNNING'' \<in> set ExecutionStatus_values"
    by (simp add: ExecutionStatus_of_def enum_of_def ExecutionStatus_values_def)
  show ?thesis
    using assms by (simp add: ParseExecution_def f st demo_parses map_error_def check_process_def guard_def fail_if_def)
qed

text \<open>
  One execution whose last error is a byte too long, and the whole report of the Host is refused, the healthy
  executions with it. The Supervisor puts no bound on the text of the last error.
\<close>

lemma long_error_refuses_report:
  assumes "513 \<le> length m"
  shows "\<exists>e. ParseExecutions (Some (xs @ Some (wireObservation (wire_demo_observation m)) # ys)) wire_demo_host = Inl e"
proof -
  have "\<not> safeEvidenceText m 512" using assms by (simp add: safeEvidenceText_def)
  then have "parse_distinct (\<lambda>item. ParseExecution item wire_demo_host) ex_ExecutionID d seen
      (xs @ Some (wireObservation (wire_demo_observation m)) # ys) \<noteq> Inr zs" for d seen zs
    by (auto simp: parse_distinct_Inr list_all2_append1 list_all2_Cons1 demo_report_refused)
  then show ?thesis by (cases "ParseExecutions (Some (xs @ Some (wireObservation (wire_demo_observation m)) # ys)) wire_demo_host")
    (auto simp: ParseExecutions_def)
qed

section \<open>Witnesses\<close>


lemma accepted_observation_faithful_witness:
  "\<exists>r. ParseExecution (Some (wireObservation (wire_demo_observation []))) wire_demo_host = Inr r \<and> r = received (wire_demo_observation [])"
proof -
  have g: "go_observation (wire_demo_observation [])"
    using demo_instants demo_codes(2)
    by (simp add: go_observation_def go_evidence_def wire_demo_defs Let_def ExecutionStatus_values_def MinerHealth_values_def
        TelemetryAvailability_values_def UsefulWorkState_values_def UpstreamState_values_def EvidenceConfidence_values_def)
  show ?thesis using accepted_observation_faithful[OF demo_report_accepted[OF demo_texts(4)] g] demo_report_accepted[OF demo_texts(4)] by blast
qed

lemma stored_plan_reaches_agent_witness:
  "\<exists>s m w. load_snapshot sv_d s = Inr s \<and> wire_ExecutionPlan (env_uni farm_env) (sn_Plan s) = Inr w
     \<and> parsePlanForHost (Some w) (sn_HostID s) = Inr ((sn_Plan s)\<lparr>pl_ProfileID := ProfileID [], pl_CPUThreads := None,
         pl_Miner := Some (m\<lparr>ms_WalletID := None, ms_PoolID := None\<rparr>)\<rparr>)"
proof -
  obtain a s where f: "farm_row (CHR ''b'') running_cpu a" "farm_snap (CHR ''b'') a 1 s" using farm1_rows by blast
  have s: "sn_Resources s = cpu_claim" "scanSnapshot s = None" "validateSnapshot (env_uni farm_env) s = None"
    using f by (simp_all add: farm_snap_def farm_row_def rig_fields)
  have same: "s\<lparr>sn_Resources := cpu_claim\<rparr> = s" using s(1) by (cases s) simp
  have "loadDevices m (cl_DeviceIDs (sn_Resources s)) = None" for m by (simp add: s(1) cpu_claim_def loadDevices_def)
  then have l: "load_snapshot sv_d s = Inr s"
    unfolding load_snapshot_def Let_def s(1) claim_normal same using s(2,3) by (simp add: s(1))
  obtain m where m: "pl_Miner (sn_Plan s) = Some m" "plan_matches s m" using loaded_snapshot[OF l] by blast
  have "cl_DeviceIDs (sn_Resources s) = []" by (simp add: s(1) cpu_claim_def)
  then show ?thesis using stored_plan_reaches_agent[OF l m(1)] l by (auto simp: farm_sv_def split: sum.splits)
qed

end
