(* ===== verification/Net_Admission.thy ===== *)
theory Net_Admission
  imports Farm_Identity Farm_Types Farm_Db Go_Sha256
begin

text \<open>
  Who may open a session: \<open>internal/controllernet/pairing.go\<close>, the trust store of
  \<open>internal/controllertrust/store_linux.go\<close>, the identity checks of \<open>internal/controllerpki/pki.go\<close> and the first
  part of \<open>Server.Connect\<close>. What \<open>crypto/x509\<close> says of a certificate or a request, the clock and the outcome of
  writing a file are inputs of each call.
\<close>

section \<open>Pairing windows\<close>

text \<open>\<open>base64.RawURLEncoding\<close>.\<close>

definition base64_digit :: "nat \<Rightarrow> char" where
  "base64_digit n = (if n < 26 then char_of (65 + n) else if n < 52 then char_of (71 + n)
     else if n < 62 then char_of (n - 4) else if n = 62 then CHR ''-'' else CHR ''_'')"

fun base64url :: "nat list \<Rightarrow> string" where
  "base64url (a # b # c # bs) = base64_digit (a div 4) # base64_digit (a mod 4 * 16 + b div 16)
     # base64_digit (b mod 16 * 4 + c div 64) # base64_digit (c mod 64) # base64url bs"
| "base64url [a, b] = [base64_digit (a div 4), base64_digit (a mod 4 * 16 + b div 16), base64_digit (b mod 16 * 4)]"
| "base64url [a] = [base64_digit (a div 4), base64_digit (a mod 4 * 16)]"
| "base64url [] = []"

record PairingWindow =
  pw_digest :: "8 word list"
  pw_expires :: Time
  pw_active :: bool

definition NewPairingWindow :: "Duration \<Rightarrow> Time \<Rightarrow> error + 8 word list \<Rightarrow> (PairingWindow \<times> string \<times> Time) result" where
  "NewPairingWindow ttl now rand =
     (if ttl \<le> 0 then Inl (Plain ''pairing TTL must be positive'')
      else case rand of Inl e \<Rightarrow> Inl e
      | Inr raw \<Rightarrow>
          let token = base64url (map unat raw);
              w = \<lparr>pw_digest = Sum256 token, pw_expires = now + ttl, pw_active = True\<rparr>
          in Inr (w, token, pw_expires w))"

text \<open>The state \<open>'s\<close> is what \<open>persist\<close> changes; it runs under the lock of the window.\<close>

definition Use :: "PairingWindow \<Rightarrow> Time \<Rightarrow> string \<Rightarrow> ('s \<Rightarrow> 's \<times> error option) \<Rightarrow> 's \<Rightarrow> PairingWindow \<times> 's \<times> error option" where
  "Use w now token persist s =
     (if \<not> pw_active w then (w, s, Some (typed PAIRING_TOKEN_INVALID ''Enrollment token is invalid or already used''))
      else if \<not> now < pw_expires w then (w\<lparr>pw_active := False\<rparr>, s, Some (typed PAIRING_TOKEN_EXPIRED ''Enrollment token has expired''))
      else if Sum256 token \<noteq> pw_digest w then (w, s, Some (typed PAIRING_TOKEN_INVALID ''Enrollment token is invalid''))
      else case persist s of
        (s', Some e) \<Rightarrow> (w, s', Some e)
      | (s', None) \<Rightarrow> (w\<lparr>pw_active := False\<rparr>, s', None))"

section \<open>The trust store\<close>

record AgentRecord =
  ar_AgentID :: AgentID
  ar_HostID :: HostID
  ar_PairedAt :: Time

record trust_disk =
  td_SchemaVersion :: uint32
  td_ControllerID :: ControllerID
  td_FarmID :: FarmID
  td_Agents :: "AgentRecord list"

definition trust_conflict :: "string \<Rightarrow> error option \<Rightarrow> error" where
  "trust_conflict msg err = Typed (mk_error CONFIG_CONFLICT msg
     (case err of None \<Rightarrow> Map.empty | Some e \<Rightarrow> [''reason'' \<mapsto> error_Error e]))"

definition trust_Find :: "AgentID \<Rightarrow> AgentRecord list \<Rightarrow> AgentRecord option" where
  "trust_Find agentID agents = find (\<lambda>a. ar_AgentID a = agentID) agents"

text \<open>\<open>st.agents[a.AgentID] = a\<close>.\<close>

definition put_agent :: "AgentRecord \<Rightarrow> AgentRecord list \<Rightarrow> AgentRecord list" where
  "put_agent a agents = filter (\<lambda>b. ar_AgentID b \<noteq> ar_AgentID a) agents @ [a]"

text \<open>The loop of \<open>Open\<close> over the records of the file; \<open>byHost\<close> holds the record read last for a Host.\<close>

fun load_agents :: "AgentRecord list \<Rightarrow> AgentRecord list \<Rightarrow> AgentRecord list result" where
  "load_agents [] agents = Inr agents"
| "load_agents (a # rest) agents =
     (case AgentID_Validate (ar_AgentID a) of Some e \<Rightarrow> Inl (trust_conflict ''invalid paired AgentID'' (Some e))
      | None \<Rightarrow> (case HostID_Validate (ar_HostID a) of Some e \<Rightarrow> Inl (trust_conflict ''invalid paired HostID'' (Some e))
      | None \<Rightarrow>
          if (case trust_Find (ar_AgentID a) agents of None \<Rightarrow> False | Some old \<Rightarrow> ar_HostID old \<noteq> ar_HostID a)
          then Inl (trust_conflict ''duplicate AgentID with different HostID'' None)
          else if (case find (\<lambda>b. ar_HostID b = ar_HostID a) (rev agents) of None \<Rightarrow> False | Some old \<Rightarrow> ar_AgentID old \<noteq> ar_AgentID a)
          then Inl (trust_conflict ''duplicate HostID with different AgentID'' None)
          else load_agents rest (put_agent a agents)))"

text \<open>The contents of the file: absent, unreadable, or the outcome of decoding it. \<open>perm\<close> says that its mode is 0600.\<close>

definition trust_Open :: "ControllerID \<Rightarrow> FarmID \<Rightarrow> trust_disk result result option \<Rightarrow> bool \<Rightarrow> AgentRecord list result" where
  "trust_Open controllerID farmID file perm =
     (case ControllerID_Validate controllerID of Some e \<Rightarrow> Inl (trust_conflict ''invalid ControllerID'' (Some e))
      | None \<Rightarrow> (case FarmID_Validate farmID of Some e \<Rightarrow> Inl (trust_conflict ''invalid FarmID'' (Some e))
      | None \<Rightarrow> (case file of
          None \<Rightarrow> Inr []
        | Some (Inl e) \<Rightarrow> Inl (trust_conflict ''cannot read paired agents'' (Some e))
        | Some (Inr content) \<Rightarrow>
            if \<not> perm then Inl (trust_conflict ''paired agents file must have permissions 0600'' None)
            else (case content of
              Inl e \<Rightarrow> Inl (trust_conflict ''invalid paired agents JSON'' (Some e))
            | Inr d \<Rightarrow>
                if td_SchemaVersion d \<noteq> 1
                then Inl (trust_conflict ''unsupported paired agents schema'' (Some (Plain (''schema_version='' @ Itoa (uint (td_SchemaVersion d))))))
                else if td_ControllerID d \<noteq> controllerID \<or> td_FarmID d \<noteq> farmID
                then Inl (trust_conflict ''paired agents belong to another Controller/Farm'' None)
                else load_agents (td_Agents d) []))))"

text \<open>The scan of \<open>Pair\<close>, in the order in which the map is walked: \<open>Some\<close> of the answer, or none.\<close>

fun pair_scan :: "AgentID \<Rightarrow> HostID \<Rightarrow> AgentRecord list \<Rightarrow> error option option" where
  "pair_scan agentID hostID [] = None"
| "pair_scan agentID hostID (a # agents) =
     (if ar_AgentID a = agentID
      then Some (if ar_HostID a \<noteq> hostID then Some (trust_conflict ''AgentID is bound to another HostID'' None) else None)
      else if ar_HostID a = hostID then Some (Some (trust_conflict ''HostID is bound to another AgentID'' None))
      else pair_scan agentID hostID agents)"

text \<open>\<open>written\<close> is the outcome of \<open>persistLocked\<close>.\<close>

definition trust_Pair :: "AgentID \<Rightarrow> HostID \<Rightarrow> Time \<Rightarrow> error option \<Rightarrow> AgentRecord list \<Rightarrow> AgentRecord list \<times> error option" where
  "trust_Pair agentID hostID now written agents =
     (case AgentID_Validate agentID of Some e \<Rightarrow> (agents, Some (trust_conflict ''invalid AgentID'' (Some e)))
      | None \<Rightarrow> (case HostID_Validate hostID of Some e \<Rightarrow> (agents, Some (trust_conflict ''invalid HostID'' (Some e)))
      | None \<Rightarrow> (case pair_scan agentID hostID agents of
          Some answer \<Rightarrow> (agents, answer)
        | None \<Rightarrow>
            let record' = \<lparr>ar_AgentID = agentID, ar_HostID = hostID, ar_PairedAt = now\<rparr>
            in (case written of
                 None \<Rightarrow> (put_agent record' agents, None)
               | Some e \<Rightarrow> (filter (\<lambda>a. ar_AgentID a \<noteq> agentID) (put_agent record' agents), Some e)))))"

section \<open>Certificates\<close>

text \<open>\<open>ct_chain\<close>: \<open>x509.Certificate.Verify\<close> accepts it for client authentication under the authority of the Farm, now.\<close>

record Certificate =
  ct_URIs :: "string list"
  ct_NotBefore :: Time
  ct_NotAfter :: Time
  ct_chain :: bool

definition agentURI :: "FarmID \<Rightarrow> AgentID \<Rightarrow> HostID \<Rightarrow> string" where
  "agentURI f a h = ''le0xfarm://identity/farm/'' @ FarmID_String f @ ''/agent/'' @ AgentID_String a @ ''/host/'' @ HostID_String h"

definition hasAgentURI :: "string list \<Rightarrow> FarmID \<Rightarrow> AgentID \<Rightarrow> HostID \<Rightarrow> bool" where
  "hasAgentURI uris f a h \<longleftrightarrow> list_ex (\<lambda>u. u = agentURI f a h) uris"

definition VerifyAgentCertificate :: "Certificate \<Rightarrow> FarmID \<Rightarrow> AgentID \<Rightarrow> HostID \<Rightarrow> Time \<Rightarrow> error option" where
  "VerifyAgentCertificate cert farmID agentID hostID now =
     (if \<not> ct_chain cert then
        if now < ct_NotBefore cert \<or> now > ct_NotAfter cert
        then Some (typed CERTIFICATE_EXPIRED ''Agent certificate is not currently valid'')
        else Some (typed TLS_IDENTITY_MISMATCH ''Agent certificate does not chain to Farm CA'')
      else fail_if (\<not> hasAgentURI (ct_URIs cert) farmID agentID hostID)
        (typed TLS_IDENTITY_MISMATCH ''Agent certificate identity does not match AgentHello''))"

text \<open>A request is the list of its URIs, or why it does not parse; \<open>created\<close> is what \<open>x509.CreateCertificate\<close> returns.\<close>

definition IssueAgent :: "string list result \<Rightarrow> FarmID \<Rightarrow> AgentID \<Rightarrow> HostID \<Rightarrow> string result \<Rightarrow> string result" where
  "IssueAgent csr farmID agentID hostID created =
     andThen csr (\<lambda>uris.
       guard (fail_if (\<not> hasAgentURI uris farmID agentID hostID)
         (typed TLS_IDENTITY_MISMATCH ''Agent CSR identity does not match AgentHello'')) created)"

section \<open>The first message of a stream\<close>

record AgentHello =
  he_ProtocolVersion :: uint32
  he_SchemaVersion :: uint32
  he_AgentId :: string
  he_HostId :: string
  he_EnrollmentToken :: string
  he_CertificateRequestDer :: string

text \<open>
  The configuration of a server; whether it names a trust store and a PKI, and how many development commands it has
  for its target (the commands themselves are in \<open>Net_Sessions\<close>).
\<close>

record NetConfig =
  nc_ControllerID :: ControllerID
  nc_FarmID :: FarmID
  nc_InsecureDev :: bool
  nc_ProtocolVersion :: uint32
  nc_SchemaVersion :: uint32
  nc_ShutdownGracePeriod :: Duration
  nc_RuntimeActionTimeout :: Duration
  nc_Trust :: bool
  nc_PKI :: bool
  nc_RuntimeCommands :: nat
  nc_RuntimeTarget :: AgentID

definition CurrentProtocolVersion :: uint32 where
  "CurrentProtocolVersion = 6"

definition config_error :: "string \<Rightarrow> error option \<Rightarrow> error option" where
  "config_error msg err = map_option (\<lambda>e. Typed (mk_error CONFIG_CONFLICT msg [''reason'' \<mapsto> error_Error e])) err"

text \<open>\<open>New\<close>: the configuration with its defaults, or why it is refused.\<close>

definition NewServer :: "NetConfig \<Rightarrow> NetConfig result" where
  "NewServer cf =
     (let cf' = cf\<lparr>nc_ProtocolVersion := (if nc_ProtocolVersion cf = 0 then CurrentProtocolVersion else nc_ProtocolVersion cf),
          nc_SchemaVersion := (if nc_SchemaVersion cf = 0 then CurrentSchemaVersion else nc_SchemaVersion cf),
          nc_ShutdownGracePeriod := (if nc_ShutdownGracePeriod cf \<le> 0 then 3000000000 else nc_ShutdownGracePeriod cf),
          nc_RuntimeActionTimeout := (if nc_RuntimeActionTimeout cf \<le> 0 then 10000000000 else nc_RuntimeActionTimeout cf)\<rparr>
      in guard (fail_if (\<not> nc_InsecureDev cf \<and> \<not> nc_PKI cf) (typed TLS_CREDENTIALS_REQUIRED ''Controller TLS credentials are required''))
         (guard (config_error ''ControllerID is required'' (ControllerID_Validate (nc_ControllerID cf)))
         (guard (config_error ''FarmID is required'' (FarmID_Validate (nc_FarmID cf)))
         (guard (fail_if (\<not> nc_Trust cf) (typed CONFIG_CONFLICT ''Controller trust store is required''))
         (guard (fail_if (nc_RuntimeCommands cf > 0 \<and> AgentID_Validate (nc_RuntimeTarget cf) \<noteq> None)
             (typed CONFIG_CONFLICT ''runtime commands require a target AgentID'')) (Inr cf'))))))"

text \<open>What a caller presents, and what the libraries answer while it is examined.\<close>

record Peer =
  pe_hello :: "AgentHello option"
  pe_cert :: "Certificate option"
  pe_csr :: "string list result"
  pe_created :: "string result"
  pe_clock :: "nat \<Rightarrow> Time"
  pe_written :: "error option"
  pe_hold :: "(bool \<times> uint64) result"

record Authority =
  au_agents :: "AgentRecord list"
  au_window :: "PairingWindow option"

datatype admission =
    Admitted AgentID HostID
  | Enrolled AgentID HostID string "bool \<times> uint64"   \<comment> \<open>a certificate was issued; the stream ends\<close>
  | Rejected Code string
  | Failed error

text \<open>\<open>statusError\<close> of a typed error, the error itself otherwise.\<close>

definition refused :: "error \<Rightarrow> admission" where
  "refused err = (case CodeOf err of (code, ok) \<Rightarrow> if ok then Rejected code (error_Error err) else Failed err)"

text \<open>\<open>Pairing.Use\<close> with a function that may change the trust store.\<close>

definition enroll :: "Authority \<Rightarrow> Time \<Rightarrow> string \<Rightarrow> (AgentRecord list \<Rightarrow> AgentRecord list \<times> error option) \<Rightarrow> (Authority \<times> admission) + Authority" where
  "enroll au now token persist = (case au_window au of
     None \<Rightarrow> Inl (au, Rejected PAIRING_REQUIRED ''Controller pairing window is not enabled'')
   | Some w \<Rightarrow> (case Use w now token persist (au_agents au) of (w', agents, err) \<Rightarrow>
       let au' = au\<lparr>au_window := Some w', au_agents := agents\<rparr>
       in (case err of Some e \<Rightarrow> Inl (au', refused e) | None \<Rightarrow> Inr au')))"

definition persist_secure :: "NetConfig \<Rightarrow> Peer \<Rightarrow> AgentID \<Rightarrow> HostID \<Rightarrow> AgentRecord list \<Rightarrow> AgentRecord list \<times> error option" where
  "persist_secure cf pe agentID hostID agents =
     (case IssueAgent (pe_csr pe) (nc_FarmID cf) agentID hostID (pe_created pe) of
        Inl e \<Rightarrow> (agents, Some e)
      | Inr der \<Rightarrow> (case trust_Find agentID agents of
          Some r \<Rightarrow> (agents, if ar_HostID r \<noteq> hostID then Some (typed TLS_IDENTITY_MISMATCH ''AgentID is paired to another HostID'') else None)
        | None \<Rightarrow> trust_Pair agentID hostID (pe_clock pe 1) (pe_written pe) agents))"

definition admit_without_certificate :: "NetConfig \<Rightarrow> Peer \<Rightarrow> AgentHello \<Rightarrow> AgentID \<Rightarrow> HostID \<Rightarrow> Authority \<Rightarrow> Authority \<times> admission" where
  "admit_without_certificate cf pe hello agentID hostID au =
     (if he_EnrollmentToken hello = []
      then (au, Rejected TLS_CREDENTIALS_REQUIRED ''Agent client certificate or enrollment credentials are required'')
      else if he_CertificateRequestDer hello = []
      then (au, Rejected TLS_CREDENTIALS_REQUIRED ''Agent certificate request is required'')
      else if au_window au = None
      then (au, Rejected PAIRING_REQUIRED ''Controller pairing window is not enabled'')
      else (case pe_csr pe of
        Inl e \<Rightarrow> (au, Rejected TLS_IDENTITY_MISMATCH ''invalid Agent certificate request'')
      | Inr uris \<Rightarrow>
          if \<not> hasAgentURI uris (nc_FarmID cf) agentID hostID
          then (au, Rejected TLS_IDENTITY_MISMATCH ''Agent CSR identity does not match AgentHello'')
          else (case enroll au (pe_clock pe 0) (he_EnrollmentToken hello) (persist_secure cf pe agentID hostID) of
            Inl refusal \<Rightarrow> refusal
          | Inr au' \<Rightarrow> (case pe_hold pe of
              Inl e \<Rightarrow> (au', Rejected SERVICE_NOT_READY ''Maintenance Hold state is unavailable'')
            | Inr hold \<Rightarrow> (au', Enrolled agentID hostID (case pe_created pe of Inl e \<Rightarrow> [] | Inr der \<Rightarrow> der) hold)))))"

definition admit_with_certificate :: "NetConfig \<Rightarrow> Peer \<Rightarrow> Certificate \<Rightarrow> AgentID \<Rightarrow> HostID \<Rightarrow> Authority \<Rightarrow> admission" where
  "admit_with_certificate cf pe cert agentID hostID au =
     (case VerifyAgentCertificate cert (nc_FarmID cf) agentID hostID (pe_clock pe 0) of
        Some e \<Rightarrow> refused e
      | None \<Rightarrow> (case trust_Find agentID (au_agents au) of
          None \<Rightarrow> Rejected PAIRING_REQUIRED ''Agent certificate is valid but Agent is not paired''
        | Some r \<Rightarrow> if ar_HostID r \<noteq> hostID then Rejected TLS_IDENTITY_MISMATCH ''Agent trust record does not match certificate''
            else Admitted agentID hostID))"

definition admit_insecure :: "Peer \<Rightarrow> AgentHello \<Rightarrow> AgentID \<Rightarrow> HostID \<Rightarrow> Authority \<Rightarrow> Authority \<times> admission" where
  "admit_insecure pe hello agentID hostID au =
     (case trust_Find agentID (au_agents au) of
        Some r \<Rightarrow> (au, if ar_HostID r \<noteq> hostID then Rejected CONFIG_CONFLICT ''AgentID is paired to another HostID''
          else Admitted agentID hostID)
      | None \<Rightarrow>
          if he_EnrollmentToken hello = [] then (au, Rejected PAIRING_REQUIRED ''Agent is not paired; enrollment token required'')
          else (case enroll au (pe_clock pe 0) (he_EnrollmentToken hello) (trust_Pair agentID hostID (pe_clock pe 1) (pe_written pe)) of
            Inl refusal \<Rightarrow> refusal
          | Inr au' \<Rightarrow> (au', Admitted agentID hostID)))"

definition Connect_admit :: "NetConfig \<Rightarrow> Peer \<Rightarrow> Authority \<Rightarrow> Authority \<times> admission" where
  "Connect_admit cf pe au = (case pe_hello pe of
     None \<Rightarrow> (au, Rejected CONFIG_CONFLICT ''first Agent message must be AgentHello'')
   | Some hello \<Rightarrow>
       if he_ProtocolVersion hello \<noteq> nc_ProtocolVersion cf then (au, Rejected PROTOCOL_VERSION_MISMATCH ''protocol version mismatch'')
       else if he_SchemaVersion hello \<noteq> nc_SchemaVersion cf then (au, Rejected SCHEMA_VERSION_MISMATCH ''schema version mismatch'')
       else (case ParseAgentID (he_AgentId hello) of
         Inl e \<Rightarrow> (au, Rejected CONFIG_CONFLICT ''invalid AgentID'')
       | Inr agentID \<Rightarrow> (case ParseHostID (he_HostId hello) of
           Inl e \<Rightarrow> (au, Rejected CONFIG_CONFLICT ''invalid HostID'')
         | Inr hostID \<Rightarrow>
             if nc_InsecureDev cf then admit_insecure pe hello agentID hostID au
             else (case pe_cert pe of
               None \<Rightarrow> admit_without_certificate cf pe hello agentID hostID au
             | Some cert \<Rightarrow> (au, admit_with_certificate cf pe cert agentID hostID au)))))"

end
