(* ===== verification/Net_Trust.thy ===== *)
theory Net_Trust
  imports Net_Admission Canonical_Json
begin

text \<open>
  What admission promises: an Agent and a Host that were once admitted together stay bound to each other, a session
  needs a certificate of the Farm for exactly these identities, and a pairing token is good for one enrolment.
\<close>

section \<open>Bindings\<close>

text \<open>A state that binds Agents to Hosts one to one, and only ever adds bindings.\<close>

locale bindings =
  fixes bound :: "'s \<Rightarrow> 'a \<Rightarrow> 'h \<Rightarrow> bool" and sound :: "'s \<Rightarrow> bool" and grows :: "'s \<Rightarrow> 's \<Rightarrow> bool"
  assumes one_host: "sound s \<Longrightarrow> bound s a h \<Longrightarrow> bound s a h' \<Longrightarrow> h = h'"
    and one_agent: "sound s \<Longrightarrow> bound s a h \<Longrightarrow> bound s a' h \<Longrightarrow> a = a'"
    and keeps: "grows s s' \<Longrightarrow> sound s \<Longrightarrow> bound s a h \<Longrightarrow> bound s' a h"
    and stays_sound: "grows s s' \<Longrightarrow> sound s \<Longrightarrow> sound s'"
begin

text \<open>Two bindings, seen at different times.\<close>

lemma bound_for_life:
  assumes "sound s" "bound s a h" "grows s s'" "bound s' a' h'"
  shows "a = a' \<longleftrightarrow> h = h'"
  using one_host[OF stays_sound keeps] one_agent[OF stays_sound keeps] assms by blast

end

text \<open>The trust store: every Agent and every Host at most once.\<close>

definition pair_of :: "AgentRecord \<Rightarrow> AgentID \<times> HostID" where
  "pair_of r = (ar_AgentID r, ar_HostID r)"

definition one_to_one :: "AgentRecord list \<Rightarrow> bool" where
  "one_to_one agents \<longleftrightarrow> distinct (map ar_AgentID agents) \<and> distinct (map ar_HostID agents)"

definition paired :: "AgentRecord list \<Rightarrow> AgentID \<Rightarrow> HostID \<Rightarrow> bool" where
  "paired agents a h \<longleftrightarrow> (a, h) \<in> pair_of ` set agents"

definition extends :: "AgentRecord list \<Rightarrow> AgentRecord list \<Rightarrow> bool" where
  "extends agents agents' \<longleftrightarrow> (one_to_one agents \<longrightarrow> one_to_one agents') \<and> pair_of ` set agents \<subseteq> pair_of ` set agents'"

interpretation trust: bindings paired one_to_one extends
proof
  show "h = h'" if "one_to_one s" "paired s a h" "paired s a h'" for s a h h'
    using that distinct_map_filter_unique[of ar_AgentID s] by (auto simp: one_to_one_def paired_def pair_of_def)
  show "a = a'" if "one_to_one s" "paired s a h" "paired s a' h" for s a a' h
    using that distinct_map_filter_unique[of ar_HostID s] by (auto simp: one_to_one_def paired_def pair_of_def)
qed (auto simp: extends_def paired_def)

lemma extends_refl [simp]: "extends s s"
  by (simp add: extends_def)

lemma extends_trans: "extends s t \<Longrightarrow> extends t u \<Longrightarrow> extends s u"
  by (auto simp: extends_def)

section \<open>The operations keep the bindings\<close>

lemma trust_Find_Some: "trust_Find a agents = Some r \<Longrightarrow> paired agents a (ar_HostID r)"
  unfolding trust_Find_def paired_def pair_of_def by (drule find_SomeD) force

lemma pair_scan_None: "pair_scan a h agents = None \<longleftrightarrow> a \<notin> ar_AgentID ` set agents \<and> h \<notin> ar_HostID ` set agents"
  by (induction agents) auto

lemma put_fresh: "ar_AgentID r \<notin> ar_AgentID ` set agents \<Longrightarrow> put_agent r agents = agents @ [r]"
  unfolding put_agent_def by (induction agents) auto

lemma trust_Pair_extends: "extends agents (fst (trust_Pair a h now written agents))"
proof (cases "pair_scan a h agents")
  case None
  let ?r = "\<lparr>ar_AgentID = a, ar_HostID = h, ar_PairedAt = now\<rparr>"
  have f: "a \<notin> ar_AgentID ` set agents" "h \<notin> ar_HostID ` set agents" using None by (simp_all add: pair_scan_None)
  have p: "put_agent ?r agents = agents @ [?r]" by (rule put_fresh) (simp add: f)
  have "filter (\<lambda>x. ar_AgentID x \<noteq> a) agents = agents" using f(1) by (auto simp: filter_id_conv)
  then show ?thesis using f by (auto simp: trust_Pair_def None p extends_def one_to_one_def Let_def split: option.splits)
qed (auto simp: trust_Pair_def split: option.splits)

lemma trust_Pair_paired: "trust_Pair a h now written agents = (agents', None) \<Longrightarrow> paired agents' a h"
proof -
  have scan: "pair_scan a h agents = Some None \<Longrightarrow> paired agents a h"
    by (induction agents) (auto simp: paired_def pair_of_def split: if_splits)
  show "trust_Pair a h now written agents = (agents', None) \<Longrightarrow> paired agents' a h"
    using scan by (auto simp: trust_Pair_def Let_def paired_def pair_of_def put_agent_def split: option.splits)
qed

lemma load_agents_sound: "load_agents rest agents = Inr agents' \<Longrightarrow> one_to_one agents \<Longrightarrow> one_to_one agents'"
proof (induction rest agents rule: load_agents.induct)
  case (2 a rest agents)
  have old: "\<not> (case trust_Find (ar_AgentID a) agents of None \<Rightarrow> False | Some old \<Rightarrow> ar_HostID old \<noteq> ar_HostID a)"
    and host: "\<not> (case find (\<lambda>b. ar_HostID b = ar_HostID a) (rev agents) of None \<Rightarrow> False | Some old \<Rightarrow> ar_AgentID old \<noteq> ar_AgentID a)"
    and val: "AgentID_Validate (ar_AgentID a) = None" "HostID_Validate (ar_HostID a) = None"
    and rest: "load_agents rest (put_agent a agents) = Inr agents'"
    using "2.prems"(1) by (auto split: option.splits if_splits)
  have "ar_AgentID b = ar_AgentID a" if b: "b \<in> set agents" "ar_HostID b = ar_HostID a" for b
  proof -
    obtain c where c: "find (\<lambda>b. ar_HostID b = ar_HostID a) (rev agents) = Some c"
      using b by (cases "find (\<lambda>b. ar_HostID b = ar_HostID a) (rev agents)") (auto simp: find_NoneD)
    then have "c \<in> set agents" "ar_HostID c = ar_HostID a" "ar_AgentID c = ar_AgentID a" using find_SomeD[OF c] host by auto
    then show ?thesis using "2.prems"(2) b distinct_map_filter_unique[of ar_HostID agents b c] by (simp add: one_to_one_def)
  qed
  then have "one_to_one (put_agent a agents)"
    using "2.prems"(2) by (auto simp: one_to_one_def put_agent_def distinct_map_filter)
  then show ?case using "2.IH"[OF val old host rest] by simp
qed simp

lemma trust_Open_sound: "trust_Open c f file perm = Inr agents \<Longrightarrow> one_to_one agents"
  by (auto simp: trust_Open_def one_to_one_def[of "[]"] intro: load_agents_sound split: option.splits sum.splits if_splits)

section \<open>Admissions\<close>

lemma Use_extends:
  assumes "\<And>agents. extends agents (fst (persist agents))"
  shows "extends agents (fst (snd (Use w now token persist agents)))"
  using assms[of agents] by (auto simp: Use_def split: prod.splits option.splits)

lemma persist_secure_extends: "extends agents (fst (persist_secure cf pe a h agents))"
  by (auto simp: persist_secure_def trust_Pair_extends split: sum.splits option.splits)

lemma enroll_extends:
  assumes "\<And>agents. extends agents (fst (persist agents))"
  shows "case enroll au now token persist of Inl (au', r) \<Rightarrow> extends (au_agents au) (au_agents au') | Inr au' \<Rightarrow> extends (au_agents au) (au_agents au')"
proof (cases "au_window au")
  case (Some w)
  show ?thesis using Use_extends[OF assms, of "au_agents au" w now token]
    by (auto simp: enroll_def Some Let_def split: prod.splits option.splits)
qed (simp add: enroll_def)

lemma admit_extends: "extends (au_agents au) (au_agents (fst (Connect_admit cf pe au)))"
proof -
  have s: "extends (au_agents au) (au_agents (fst (admit_without_certificate cf pe hello a h au)))" for hello a h
    using enroll_extends[where persist = "persist_secure cf pe a h" and au = au and now = "pe_clock pe 0" and token = "he_EnrollmentToken hello", OF persist_secure_extends]
    by (auto simp: admit_without_certificate_def split: sum.splits prod.splits)
  have i: "extends (au_agents au) (au_agents (fst (admit_insecure pe hello a h au)))" for hello a h
    using enroll_extends[where persist = "trust_Pair a h (pe_clock pe 1) (pe_written pe)" and au = au and now = "pe_clock pe 0" and token = "he_EnrollmentToken hello", OF trust_Pair_extends]
    by (auto simp: admit_insecure_def split: option.splits sum.splits prod.splits)
  show ?thesis using s i by (auto simp: Connect_admit_def Let_def split: option.splits sum.splits)
qed

text \<open>What an admission rests on.\<close>

definition grounds :: "NetConfig \<Rightarrow> Peer \<Rightarrow> AgentID \<Rightarrow> HostID \<Rightarrow> Authority \<Rightarrow> bool" where
  "grounds cf pe a h au \<longleftrightarrow> paired (au_agents au) a h \<and> AgentID_Validate a = None \<and> HostID_Validate h = None
     \<and> (\<not> nc_InsecureDev cf \<longrightarrow> (\<exists>cert. pe_cert pe = Some cert \<and> ct_chain cert \<and> agentURI (nc_FarmID cf) a h \<in> set (ct_URIs cert)))"

lemma enroll_pairs:
  assumes "enroll au now token (trust_Pair a h t written) = Inr au'"
  shows "paired (au_agents au') a h"
  using assms by (auto simp: enroll_def Use_def Let_def dest!: trust_Pair_paired split: option.splits prod.splits if_splits)

lemma enroll_refuses: "enroll au now token persist \<noteq> Inl (au', Admitted a h)"
  by (auto simp: enroll_def refused_def Let_def split: option.splits prod.splits if_splits)

lemma admitted_grounds:
  assumes "Connect_admit cf pe au = (au', Admitted a h)"
  shows "grounds cf pe a h au'"
proof -
  obtain hello where h: "pe_hello pe = Some hello" using assms by (auto simp: Connect_admit_def split: option.splits)
  have ids: "ParseAgentID (he_AgentId hello) = Inr a" "ParseHostID (he_HostId hello) = Inr h"
    using assms by (auto simp: Connect_admit_def h admit_insecure_def admit_without_certificate_def admit_with_certificate_def
        enroll_def refused_def Let_def split: option.splits sum.splits if_splits prod.splits)
  have v: "AgentID_Validate a = None" "HostID_Validate h = None"
    using agent_id.text_parse[OF ids(1)] host_id.text_parse[OF ids(2)] by simp_all
  show ?thesis
  proof (cases "nc_InsecureDev cf")
    case True
    then have "admit_insecure pe hello a h au = (au', Admitted a h)"
      using assms by (auto simp: Connect_admit_def h ids split: if_splits)
    then have "paired (au_agents au') a h"
      using trust_Find_Some[of a "au_agents au"]
      by (auto simp: admit_insecure_def enroll_refuses dest: enroll_pairs split: option.splits sum.splits if_splits prod.splits)
    then show ?thesis using True v by (simp add: grounds_def)
  next
    case False
    then obtain cert where c: "pe_cert pe = Some cert" "au' = au" "admit_with_certificate cf pe cert a h au = Admitted a h"
      using assms by (auto simp: Connect_admit_def h ids admit_without_certificate_def enroll_def refused_def Let_def
          split: option.splits sum.splits if_splits prod.splits)
    then have "paired (au_agents au) a h" "ct_chain cert" "agentURI (nc_FarmID cf) a h \<in> set (ct_URIs cert)"
      using trust_Find_Some[of a "au_agents au"]
      by (auto simp: admit_with_certificate_def VerifyAgentCertificate_def hasAgentURI_def list_ex_iff refused_def split: option.splits if_splits prod.splits)
    then show ?thesis using c(1,2) v by (auto simp: grounds_def)
  qed
qed

section \<open>Runs\<close>

text \<open>The callers one after the other, with what each was told and the state it left.\<close>

fun admissions :: "NetConfig \<Rightarrow> Peer list \<Rightarrow> Authority \<Rightarrow> (Peer \<times> admission \<times> Authority) list" where
  "admissions cf [] au = []"
| "admissions cf (pe # pes) au = (case Connect_admit cf pe au of (au', r) \<Rightarrow> (pe, r, au') # admissions cf pes au')"

lemma admissions_grounds:
  "(pe, Admitted a h, au') \<in> set (admissions cf pes au) \<Longrightarrow> grounds cf pe a h au' \<and> extends (au_agents au) (au_agents au')"
proof (induction pes arbitrary: au)
  case (Cons p pes)
  obtain au1 r where c: "Connect_admit cf p au = (au1, r)" by (cases "Connect_admit cf p au")
  have e: "extends (au_agents au) (au_agents au1)" using admit_extends[of au cf p] by (simp add: c)
  show ?case using Cons c e admitted_grounds[of cf p au] extends_trans[OF e] by auto
qed simp

lemma admissions_agree:
  assumes "one_to_one (au_agents au)" "i < length (admissions cf pes au)" "j < length (admissions cf pes au)"
    "admissions cf pes au ! i = (p, Admitted a h, s)" "admissions cf pes au ! j = (p', Admitted a' h', s')"
  shows "a = a' \<longleftrightarrow> h = h'"
  using assms
proof (induction pes arbitrary: au i j p a h s p' a' h' s')
  case (Cons pe pes)
  obtain au1 r where c: "Connect_admit cf pe au = (au1, r)" by (cases "Connect_admit cf pe au")
  have e: "extends (au_agents au) (au_agents au1)" using admit_extends[of au cf pe] by (simp add: c)
  then have sound: "one_to_one (au_agents au1)" using Cons.prems(1) by (simp add: extends_def)
  have pair: "a = a' \<longleftrightarrow> h = h'" if "r = Admitted a h" "(p', Admitted a' h', s') \<in> set (admissions cf pes au1)" for a h a' h' p' s'
    using trust.bound_for_life[OF sound, of a h "au_agents s'" a' h'] admitted_grounds[of cf pe au au1 a h] c that
      admissions_grounds[OF that(2)] by (auto simp: grounds_def)
  show ?case
  proof (cases i; cases j)
    fix m n assume ij: "i = Suc m" "j = Suc n"
    show ?thesis by (rule Cons.IH[OF sound, of m n]) (use Cons.prems ij c in simp_all)
  next
    fix n assume ij: "i = 0" "j = Suc n"
    then show ?thesis using Cons.prems c pair[of a h p' a' h' s'] by (auto simp: in_set_conv_nth)
  next
    fix m assume ij: "i = Suc m" "j = 0"
    then show ?thesis using Cons.prems c pair[of a' h' p a h s] by (auto simp: in_set_conv_nth)
  next
    assume "i = 0" "j = 0"
    then show ?thesis using Cons.prems c by auto
  qed
qed simp

text \<open>
  C31: from a trust file that opens, whatever callers come in whatever order: each admitted session belongs to valid
  identities that the trust store binds, in the secure mode with a certificate of the Farm that names exactly them;
  and over the whole run an Agent is admitted for one Host only, and a Host only for one Agent.
\<close>
theorem agent_and_host_bound_for_life:
  assumes "trust_Open c f file perm = Inr (au_agents au)"
    and "(p, Admitted a h, s) \<in> set (admissions cf pes au)" and "(p', Admitted a' h', s') \<in> set (admissions cf pes au)"
  shows "(a = a' \<longleftrightarrow> h = h') \<and> paired (au_agents s) a h \<and> AgentID_Validate a = None \<and> HostID_Validate h = None
    \<and> (\<not> nc_InsecureDev cf \<longrightarrow> (\<exists>cert. pe_cert p = Some cert \<and> ct_chain cert \<and> agentURI (nc_FarmID cf) a h \<in> set (ct_URIs cert)))"
proof -
  have sound: "one_to_one (au_agents au)" by (rule trust_Open_sound[OF assms(1)])
  have "a = a' \<longleftrightarrow> h = h'" using admissions_agree[OF sound] assms(2,3) by (metis in_set_conv_nth)
  then show ?thesis using admissions_grounds[OF assms(2)] by (auto simp: grounds_def)
qed

section \<open>Pairing tokens\<close>

text \<open>Calls of \<open>Use\<close> on one window: the time, the token, and what persisting does to the state.\<close>

fun uses :: "(Time \<times> string \<times> ('s \<Rightarrow> 's \<times> error option)) list \<Rightarrow> PairingWindow \<Rightarrow> 's \<Rightarrow> (Time \<times> string \<times> error option) list" where
  "uses [] w s = []"
| "uses ((now, token, persist) # calls) w s = (case Use w now token persist s of (w', s', r) \<Rightarrow> (now, token, r) # uses calls w' s')"

lemma spent_window: "\<not> pw_active w \<Longrightarrow> \<forall>(now, token, r)\<in>set (uses calls w s). r \<noteq> None"
  by (induction calls arbitrary: s) (simp, fastforce simp: Use_def)

lemma uses_once:
  "length (filter (\<lambda>(now, token, r). r = None) (uses calls w s)) \<le> 1
     \<and> (\<forall>(now, token, r)\<in>set (uses calls w s). r = None \<longrightarrow> now < pw_expires w \<and> Sum256 token = pw_digest w)"
proof (induction calls arbitrary: w s)
  case (Cons c calls)
  obtain now token persist where c: "c = (now, token, persist)" by (cases c)
  obtain w' s' r where u: "Use w now token persist s = (w', s', r)" by (cases "Use w now token persist s")
  have same: "pw_expires w' = pw_expires w" "pw_digest w' = pw_digest w" using u by (auto simp: Use_def split: if_splits prod.splits option.splits)
  show ?case
  proof (cases r)
    case None
    then have "\<not> pw_active w'" "now < pw_expires w" "Sum256 token = pw_digest w"
      using u by (auto simp: Use_def split: if_splits prod.splits option.splits)
    moreover have "filter (\<lambda>(now, token, r). r = None) (uses calls w' s') = []"
      using spent_window[OF \<open>\<not> pw_active w'\<close>, of calls s'] by (auto simp: filter_empty_conv)
    ultimately show ?thesis using Cons[of w' s'] by (auto simp: c u None same)
  next
    case (Some e)
    then show ?thesis using Cons[of w' s'] by (auto simp: c u same)
  qed
qed simp

text \<open>
  C32: however often a pairing window is used, with whatever tokens and at whatever times, at most one use succeeds; it
  comes before the window expires, and its token is the one that was issued, unless SHA-256 collides.
\<close>
theorem pairing_token_single_use:
  assumes "NewPairingWindow ttl opened rand = Inr (w, issued, expires)"
    and "\<forall>(now, token, persist)\<in>set calls. Sum256 token = Sum256 issued \<longrightarrow> token = issued"
  shows "length (filter (\<lambda>(now, token, r). r = None) (uses calls w s)) \<le> 1
    \<and> (\<forall>(now, token, r)\<in>set (uses calls w s). r = None \<longrightarrow> now < opened + ttl \<and> token = issued)"
proof -
  have w: "pw_digest w = Sum256 issued" "pw_expires w = opened + ttl"
    using assms(1) by (auto simp: NewPairingWindow_def Let_def split: if_splits sum.splits)
  have t: "(now, token, r) \<in> set (uses calls w s) \<Longrightarrow> \<exists>persist. (now, token, persist) \<in> set calls" for now token r w s
    by (induction calls arbitrary: w s) (simp, fastforce split: prod.splits)
  have u: "now < opened + ttl \<and> token = issued" if m: "(now, token, r) \<in> set (uses calls w s)" "r = None" for now token r
    using uses_once[of calls w s] t[OF m(1)] assms(2) m by (fastforce simp: w)
  show ?thesis using uses_once[of calls w s] u by auto
qed

section \<open>Witnesses\<close>

definition demo_agent :: AgentID where
  "demo_agent = AgentID (demo_id ''agent'')"

definition demo_farm :: FarmID where
  "demo_farm = FarmID (demo_id ''farm'')"

definition demo_peer_host :: HostID where
  "demo_peer_host = HostID (demo_id ''host'')"

definition demo_record :: AgentRecord where
  "demo_record = \<lparr>ar_AgentID = demo_agent, ar_HostID = demo_peer_host, ar_PairedAt = 1\<rparr>"

definition demo_authority :: Authority where
  "demo_authority = \<lparr>au_agents = [demo_record], au_window = None\<rparr>"

definition demo_config :: NetConfig where
  "demo_config = \<lparr>nc_ControllerID = ControllerID (demo_id ''controller''), nc_FarmID = demo_farm, nc_InsecureDev = False,
     nc_ProtocolVersion = 6, nc_SchemaVersion = 1, nc_ShutdownGracePeriod = 3000000000, nc_RuntimeActionTimeout = 10000000000,
     nc_Trust = True, nc_PKI = True, nc_RuntimeCommands = 0, nc_RuntimeTarget = AgentID []\<rparr>"

definition demo_peer :: Peer where
  "demo_peer = \<lparr>pe_hello = Some \<lparr>he_ProtocolVersion = 6, he_SchemaVersion = 1, he_AgentId = demo_id ''agent'', he_HostId = demo_id ''host'',
       he_EnrollmentToken = [], he_CertificateRequestDer = []\<rparr>,
     pe_cert = Some \<lparr>ct_URIs = [agentURI demo_farm demo_agent demo_peer_host], ct_NotBefore = 0, ct_NotAfter = 100, ct_chain = True\<rparr>,
     pe_csr = Inr [], pe_created = Inr [], pe_clock = (\<lambda>_. 5), pe_written = None, pe_hold = Inr (False, 0)\<rparr>"

lemma demo_admitted: "Connect_admit demo_config demo_peer demo_authority = (demo_authority, Admitted demo_agent demo_peer_host)"
proof -
  have "ParseAgentID (demo_id ''agent'') = Inr demo_agent" "ParseHostID (demo_id ''host'') = Inr demo_peer_host"
    by (simp_all add: agent_id.parse_iff host_id.parse_iff demo_id_valid demo_agent_def demo_peer_host_def)
  then show ?thesis
    by (simp add: Connect_admit_def demo_config_def demo_peer_def admit_with_certificate_def VerifyAgentCertificate_def hasAgentURI_def
        fail_if_def demo_authority_def trust_Find_def demo_record_def)
qed

lemma agent_and_host_bound_for_life_witness:
  "Connect_admit demo_config demo_peer demo_authority = (demo_authority, Admitted demo_agent demo_peer_host)
   \<and> paired (au_agents demo_authority) demo_agent demo_peer_host \<and> AgentID_Validate demo_agent = None"
proof -
  let ?file = "\<lparr>td_SchemaVersion = 1, td_ControllerID = ControllerID (demo_id ''controller''), td_FarmID = demo_farm, td_Agents = [demo_record]\<rparr>"
  have o: "trust_Open (ControllerID (demo_id ''controller'')) demo_farm (Some (Inr (Inr ?file))) True = Inr (au_agents demo_authority)"
    by (simp add: trust_Open_def controller_id.check_text farm_id.check_text agent_id.check_text host_id.check_text demo_id_valid
        demo_farm_def demo_record_def demo_agent_def demo_peer_host_def demo_authority_def trust_Find_def put_agent_def)
  have m: "(demo_peer, Admitted demo_agent demo_peer_host, demo_authority) \<in> set (admissions demo_config [demo_peer] demo_authority)"
    by (simp add: demo_admitted)
  show ?thesis using agent_and_host_bound_for_life[OF o m m] demo_admitted by simp
qed

lemma pairing_token_single_use_witness:
  "\<exists>w issued e. NewPairingWindow 60 0 (Inr (replicate 32 7)) = Inr (w, issued, e)
     \<and> uses [(1, issued, \<lambda>s. (s, None)), (2, issued, \<lambda>s. (s, None))] w () \<noteq> []
     \<and> length (filter (\<lambda>(now, token, r). r = None) (uses [(1, issued, \<lambda>s. (s, None)), (2, issued, \<lambda>s. (s, None))] w ())) = 1"
proof -
  have "\<exists>w issued e. NewPairingWindow 60 0 (Inr raw) = Inr (w, issued, e)
     \<and> uses [(1, issued, \<lambda>s. (s, None)), (2, issued, \<lambda>s. (s, None))] w () \<noteq> []
     \<and> length (filter (\<lambda>(now, token, r). r = None) (uses [(1, issued, \<lambda>s. (s, None)), (2, issued, \<lambda>s. (s, None))] w ())) = 1" for raw
  proof -
    obtain t where t: "t = base64url (map unat raw)" by simp
    let ?w = "\<lparr>pw_digest = Sum256 t, pw_expires = 60, pw_active = True\<rparr>"
    let ?c = "[(1, t, \<lambda>s. (s, None)), (2, t, \<lambda>s. (s, None))] :: (Time \<times> string \<times> (unit \<Rightarrow> unit \<times> error option)) list"
    have n: "NewPairingWindow 60 0 (Inr raw) = Inr (?w, t, 60)" by (simp add: NewPairingWindow_def Let_def t)
    have known: "\<forall>(now, token, persist)\<in>set ?c. Sum256 token = Sum256 t \<longrightarrow> token = t" by simp
    have "length (filter (\<lambda>(now, token, r). r = None) (uses ?c ?w ())) \<le> 1"
      by (rule pairing_token_single_use[OF n known, THEN conjunct1])
    moreover have "length (filter (\<lambda>(now, token, r). r = None) (uses ?c ?w ())) = 1" "uses ?c ?w () \<noteq> []"
      by (simp_all add: Use_def)
    ultimately show ?thesis using n by blast
  qed
  then show ?thesis .
qed

end
