(* ===== verification/Net_Sessions.thy ===== *)
theory Net_Sessions
  imports Agent_Wire Reconcile_World Net_Admission "HOL-Library.AList"
begin

text \<open>
  \<open>internal/controllernet/sessions.go\<close> and the session part of \<open>server.go\<close>: the table of live sessions, the commands
  a session has sent and not seen answered, and what it tells the coordinator. The operations are the sections the
  code runs under its locks; how goroutines interleave them is in \<open>Net_Machine\<close>.
\<close>

section \<open>Messages\<close>

text \<open>The variants of \<open>CommandEnvelope\<close> and \<open>CommandResult\<close>.\<close>

datatype Command =
    Ping string | GetStatus | GetInventory | GetUnmanagedProcesses | CmdMaintenanceHold bool uint64
  | StartExecution WPlan | StopExecution string | RestartExecution string | GetExecutions | NoCommand

datatype CommandResult =
    Pong string | Status string | InventoryResult WInventory | ExecutionResult "WExecution option" string
  | Executions "WExecution option list" | UnmanagedProcesses "WProcess option list"
  | MaintenanceHoldState bool uint64 | TypedError WError | NoResult

datatype AgentMessage = Heartbeat | ResultMessage string CommandResult | OtherMessage

fun commandKind :: "Command \<Rightarrow> string" where
  "commandKind (Ping n) = ''Ping''"
| "commandKind GetStatus = ''GetStatus''"
| "commandKind GetInventory = ''GetInventory''"
| "commandKind GetUnmanagedProcesses = ''GET_UNMANAGED_PROCESSES''"
| "commandKind (CmdMaintenanceHold a r) = ''SET_MAINTENANCE_HOLD''"
| "commandKind (StartExecution p) = ''START_EXECUTION''"
| "commandKind (StopExecution i) = ''STOP_EXECUTION''"
| "commandKind (RestartExecution i) = ''RESTART_EXECUTION''"
| "commandKind GetExecutions = ''GET_EXECUTIONS''"
| "commandKind NoCommand = ''Unknown''"

definition validAgentState :: "AgentState \<Rightarrow> bool" where
  "validAgentState st \<longleftrightarrow> st \<in> set AgentState_values"

definition safeRuntimeDiagnostic :: "string \<Rightarrow> nat \<Rightarrow> bool" where
  "safeRuntimeDiagnostic value limit \<longleftrightarrow>
     length value \<le> limit \<and> ValidUTF8 value \<and> \<not> list_ex (\<lambda>r. IsControl (fst r)) (rune_segs value)"

definition parseRuntimeExecution :: "WExecution option \<Rightarrow> string \<Rightarrow> HostID \<Rightarrow> ExecutionObservation result" where
  "parseRuntimeExecution execution message expectedHost =
     (if execution = None \<or> \<not> safeRuntimeDiagnostic message 512
      then Inl (conflict ''invalid runtime execution result'')
      else ParseExecution execution expectedHost)"

section \<open>Sessions\<close>

record pendingCommand =
  pc_kind :: string
  pc_nonce :: string
  pc_request :: "RuntimeRequest option"
  pc_runtimeSequence :: uint64
  pc_holdActive :: bool
  pc_holdRevision :: uint64
  pc_done :: bool \<comment> \<open>whether a caller waits for the answer\<close>

text \<open>A command with its identifier, and what was noted of it when it was registered.\<close>

type_synonym sent = "string \<times> Command \<times> pendingCommand"

datatype phase = Greeting | Looping | Ending | Ended

text \<open>
  \<open>lv_gate\<close> is the command of the goroutine that holds the send gate, \<open>lv_stream\<close> what has been written to the
  stream, \<open>lv_outcomes\<close> how sends ended whose callers have not looked yet, \<open>lv_todo\<close> what the goroutine of the
  session still has to queue (\<open>True\<close>: only if no command of its kind is pending), \<open>lv_answers\<close> the answers for
  callers that change a hold. \<open>lv_ids\<close> are the identifiers used so far.
\<close>

record live =
  lv_info :: SessionInfo
  lv_revoked :: bool
  lv_phase :: phase
  lv_pending :: "(string \<times> pendingCommand) list"
  lv_runtimeSequence :: uint64
  lv_gate :: "sent option"
  lv_stream :: "sent list"
  lv_outcomes :: "(string \<times> bool) list"
  lv_answers :: "(string \<times> error option) list"
  lv_todo :: "(bool \<times> Command) list"
  lv_queueing :: "string option"
  lv_ids :: "string list"
  lv_gotExecutions :: bool
  lv_gotInventory :: bool
  lv_gotProcesses :: bool
  lv_gotStatus :: bool
  lv_bootstrapRequested :: bool
  lv_devSent :: bool

text \<open>The calls of the \<open>SessionHandler\<close>.\<close>

datatype HandlerCall =
    SessionConnected SessionInfo
  | SessionDisconnected SessionInfo
  | ExecutionsObserved SessionInfo "ExecutionObservation list" uint64
  | InventoryObserved SessionInfo Inventory
  | StatusObserved SessionInfo AgentState
  | ProcessesObserved SessionInfo "UnmanagedProcessObservation list"
  | SessionReady SessionInfo
  | RuntimeResult SessionInfo RuntimeRequest "ExecutionObservation option" "Error option"

definition new_live :: "AgentID \<Rightarrow> HostID \<Rightarrow> uint64 \<Rightarrow> live" where
  "new_live agentID hostID epoch = \<lparr>lv_info = \<lparr>si_AgentID = agentID, si_HostID = hostID, si_ConnectionEpoch = epoch,
       si_Authenticated = True, si_Ready = False\<rparr>,
     lv_revoked = False, lv_phase = Greeting, lv_pending = [], lv_runtimeSequence = 0, lv_gate = None, lv_stream = [],
     lv_outcomes = [], lv_answers = [], lv_todo = [], lv_queueing = None, lv_ids = [],
     lv_gotExecutions = False, lv_gotInventory = False, lv_gotProcesses = False, lv_gotStatus = False,
     lv_bootstrapRequested = False, lv_devSent = False\<rparr>"

section \<open>Sending\<close>

definition plain_pending :: "Command \<Rightarrow> pendingCommand" where
  "plain_pending c = \<lparr>pc_kind = commandKind c, pc_nonce = (case c of Ping n \<Rightarrow> n | _ \<Rightarrow> []), pc_request = None,
     pc_runtimeSequence = 0, pc_holdActive = False, pc_holdRevision = 0, pc_done = False\<rparr>"

text \<open>The section of \<open>send\<close> under the lock of the pending table, with the gate held.\<close>

definition send_register :: "string \<Rightarrow> Command \<Rightarrow> pendingCommand \<Rightarrow> live \<Rightarrow> live \<times> pendingCommand" where
  "send_register i c pending l =
     (let n = lv_runtimeSequence l + 1;
          p = (case pc_request pending of
            Some r \<Rightarrow> pending\<lparr>pc_runtimeSequence := n, pc_request := Some (r\<lparr>rq_DispatchSequence := n\<rparr>)\<rparr>
          | None \<Rightarrow> if pc_kind pending = ''GET_EXECUTIONS'' then pending\<lparr>pc_runtimeSequence := lv_runtimeSequence l\<rparr> else pending)
      in (l\<lparr>lv_runtimeSequence := (if pc_request pending = None then lv_runtimeSequence l else n),
            lv_pending := AList.update i p (lv_pending l), lv_gate := Some (i, c, p), lv_ids := lv_ids l @ [i]\<rparr>, p))"

text \<open>The goroutine that writes to the stream, and then opens the gate.\<close>

definition transmit :: "bool \<Rightarrow> live \<Rightarrow> live" where
  "transmit ok l = (case lv_gate l of
     None \<Rightarrow> l
   | Some s \<Rightarrow> l\<lparr>lv_stream := (if ok then lv_stream l @ [s] else lv_stream l), lv_gate := None,
       lv_outcomes := lv_outcomes l @ [(fst s, ok)]\<rparr>)"

definition removePending :: "string \<Rightarrow> live \<Rightarrow> live" where
  "removePending i l = l\<lparr>lv_pending := AList.delete i (lv_pending l)\<rparr>"

definition revoke :: "live \<Rightarrow> live" where
  "revoke l = l\<lparr>lv_revoked := True\<rparr>"

definition queue_absent :: "Command \<Rightarrow> live \<Rightarrow> bool" where
  "queue_absent c l \<longleftrightarrow> \<not> list_ex (\<lambda>(i, p). pc_kind p = commandKind c) (lv_pending l)"

section \<open>Requests of the coordinator\<close>

definition check_request :: "RuntimeRequest \<Rightarrow> error option" where
  "check_request r = fail_if (ExecutionID_Validate (rq_ExecutionID r) \<noteq> None \<or> WorkloadID_Validate (rq_WorkloadID r) \<noteq> None
      \<or> rq_DesiredGeneration r < 1 \<or> rq_ResolvedHash r = []) (Farm_Resolve.typed CONFIG_CONFLICT ''invalid runtime request identity'')"

definition runtime_command :: "unicode_case \<Rightarrow> RuntimeRequest \<Rightarrow> Command result" where
  "runtime_command uni r = guard (check_request r) (case rq_Kind r of
     RuntimeStart \<Rightarrow> andThen (wire_ExecutionPlan uni (rq_Plan r)) (\<lambda>plan. Inr (StartExecution plan))
   | RuntimeStop \<Rightarrow> Inr (StopExecution (ExecutionID_String (rq_ExecutionID r)))
   | RuntimeKindOther s \<Rightarrow> Inl (Farm_Resolve.typed CONFIG_CONFLICT ''unsupported runtime request''))"

definition runtime_pending :: "Command \<Rightarrow> RuntimeRequest \<Rightarrow> pendingCommand" where
  "runtime_pending c r = (plain_pending c)\<lparr>pc_nonce := [], pc_request := Some r\<rparr>"

definition hold_pending :: "bool \<Rightarrow> uint64 \<Rightarrow> pendingCommand" where
  "hold_pending active revision = (plain_pending (CmdMaintenanceHold active revision))\<lparr>pc_holdActive := active,
     pc_holdRevision := revision, pc_done := True\<rparr>"

text \<open>The session that the coordinator names is the live one, with the same Agent and epoch.\<close>

definition same_session :: "SessionInfo \<Rightarrow> live \<Rightarrow> bool" where
  "same_session info l \<longleftrightarrow> \<not> lv_revoked l \<and> si_ConnectionEpoch (lv_info l) = si_ConnectionEpoch info
     \<and> si_AgentID (lv_info l) = si_AgentID info \<and> si_Authenticated (lv_info l)"

section \<open>Results\<close>

definition error_of_wire :: "WError \<Rightarrow> Error" where
  "error_of_wire e = \<lparr>err_Code = Code_of (wer_Code e), err_HumanMessage = wer_HumanMessage e, err_Details = wer_Details e,
     err_SuggestedFix = wer_SuggestedFix e, err_LogsRef = wer_LogsRef e\<rparr>"

definition runtime_result :: "live \<Rightarrow> pendingCommand \<Rightarrow> ExecutionObservation option \<Rightarrow> Error option \<Rightarrow> HandlerCall list" where
  "runtime_result l p obs err = (case pc_request p of None \<Rightarrow> [] | Some r \<Rightarrow> [RuntimeResult (lv_info l) r obs err])"

definition answer :: "string \<Rightarrow> pendingCommand \<Rightarrow> error option \<Rightarrow> live \<Rightarrow> live" where
  "answer i p e l = (if pc_done p then l\<lparr>lv_answers := lv_answers l @ [(i, e)]\<rparr> else l)"

text \<open>The part of the loop after a result was matched with its command, by the kind of the command.\<close>

definition status_result :: "CommandResult \<Rightarrow> live \<Rightarrow> live \<times> HandlerCall list" where
  "status_result result l = (case result of
     Status s \<Rightarrow> if validAgentState (AgentState_of s)
       then (l\<lparr>lv_gotStatus := True\<rparr>, [StatusObserved (lv_info l) (AgentState_of s)]) else (l, [])
   | _ \<Rightarrow> (l, []))"

definition inventory_result :: "CommandResult \<Rightarrow> live \<Rightarrow> live \<times> HandlerCall list" where
  "inventory_result result l = (case result of
     InventoryResult w \<Rightarrow> (case ParseInventory (Some w) (si_HostID (lv_info l)) of
         Inl e \<Rightarrow> (l, [])
       | Inr facts \<Rightarrow> (l\<lparr>lv_gotInventory := True\<rparr>, [InventoryObserved (lv_info l) facts]))
   | _ \<Rightarrow> (l, []))"

definition execution_result :: "pendingCommand \<Rightarrow> CommandResult \<Rightarrow> live \<Rightarrow> live \<times> HandlerCall list" where
  "execution_result p result l =
     (let malformed = runtime_result l p None (Some (mk_error INTERNAL_ERROR ''malformed runtime execution result'' Map.empty)) in
      case result of
        ExecutionResult (Some w) message \<Rightarrow> (case parseRuntimeExecution (Some w) message (si_HostID (lv_info l)) of
            Inl e \<Rightarrow> (l, runtime_result l p None (Some (mk_error INTERNAL_ERROR ''invalid runtime execution result'' Map.empty)))
          | Inr obs \<Rightarrow> (l, runtime_result l p (Some obs) None))
      | _ \<Rightarrow> (l, malformed))"

definition bootstrap_commands :: "string \<Rightarrow> (bool \<times> Command) list" where
  "bootstrap_commands nonce = [(False, GetStatus), (False, GetInventory), (False, GetUnmanagedProcesses), (False, Ping nonce)]"

definition executions_result :: "string \<Rightarrow> pendingCommand \<Rightarrow> CommandResult \<Rightarrow> live \<Rightarrow> live \<times> HandlerCall list" where
  "executions_result nonce p result l = (case result of
     Executions items \<Rightarrow> (case ParseExecutions (Some items) (si_HostID (lv_info l)) of
         Inl e \<Rightarrow> (l, [])
       | Inr observations \<Rightarrow>
           (l\<lparr>lv_gotExecutions := True, lv_bootstrapRequested := True,
              lv_todo := (if lv_bootstrapRequested l then lv_todo l else lv_todo l @ bootstrap_commands nonce)\<rparr>,
            [ExecutionsObserved (lv_info l) observations (pc_runtimeSequence p)]))
   | _ \<Rightarrow> (l, []))"

definition processes_result :: "CommandResult \<Rightarrow> live \<Rightarrow> live \<times> HandlerCall list" where
  "processes_result result l = (case result of
     UnmanagedProcesses items \<Rightarrow> (case ParseUnmanagedProcesses (Some items) of
         Inl e \<Rightarrow> (l, [])
       | Inr processes \<Rightarrow> (l\<lparr>lv_gotProcesses := True\<rparr>, [ProcessesObserved (lv_info l) processes]))
   | _ \<Rightarrow> (l, []))"

definition hold_result :: "string \<Rightarrow> pendingCommand \<Rightarrow> CommandResult \<Rightarrow> live \<Rightarrow> live \<times> HandlerCall list" where
  "hold_result i p result l =
     (let same = (case result of MaintenanceHoldState active revision \<Rightarrow> active = pc_holdActive p \<and> revision = pc_holdRevision p | _ \<Rightarrow> False)
      in (answer i p (if same then None else Some (Farm_Resolve.typed CONFIG_CONFLICT ''Agent returned mismatched Maintenance Hold state'')) l, []))"

definition handle_result :: "string \<Rightarrow> string \<Rightarrow> pendingCommand \<Rightarrow> CommandResult \<Rightarrow> live \<Rightarrow> live \<times> HandlerCall list" where
  "handle_result nonce i p result l = (case result of
     TypedError e \<Rightarrow> (answer i p (Some (Typed (error_of_wire e))) l, runtime_result l p None (Some (error_of_wire e)))
   | _ \<Rightarrow>
       if pc_kind p = ''GetStatus'' then status_result result l
       else if pc_kind p = ''GetInventory'' then inventory_result result l
       else if pc_kind p \<in> {''START_EXECUTION'', ''STOP_EXECUTION'', ''RESTART_EXECUTION''} then execution_result p result l
       else if pc_kind p = ''GET_EXECUTIONS'' then executions_result nonce p result l
       else if pc_kind p = ''GET_UNMANAGED_PROCESSES'' then processes_result result l
       else if pc_kind p = ''SET_MAINTENANCE_HOLD'' then hold_result i p result l
       else (l, []))"

text \<open>What follows each result that was no error: the session becomes ready once, and then the development commands go out.\<close>

definition bootstrapped :: "live \<Rightarrow> bool" where
  "bootstrapped l \<longleftrightarrow> lv_gotExecutions l \<and> lv_gotInventory l \<and> lv_gotProcesses l \<and> lv_gotStatus l"

definition after_result :: "AgentID option \<Rightarrow> Command list \<Rightarrow> live \<Rightarrow> live \<times> HandlerCall list" where
  "after_result target commands l =
     (let newly = bootstrapped l \<and> \<not> si_Ready (lv_info l);
          l1 = (if newly then l\<lparr>lv_info := (lv_info l)\<lparr>si_Ready := True\<rparr>\<rparr> else l);
          dev = si_Ready (lv_info l1) \<and> \<not> lv_devSent l1 \<and> target = Some (si_AgentID (lv_info l1));
          l2 = (if dev then l1\<lparr>lv_devSent := True, lv_todo := lv_todo l1 @ map (Pair False) commands\<rparr> else l1)
      in (l2, if newly then [SessionReady (lv_info l1)] else []))"

text \<open>One message of the Agent; the session is the current one of its Host.\<close>

definition refresh_commands :: "(bool \<times> Command) list" where
  "refresh_commands = [(True, GetExecutions), (True, GetStatus), (True, GetInventory), (True, GetUnmanagedProcesses)]"

definition receive :: "AgentID option \<Rightarrow> Command list \<Rightarrow> string \<Rightarrow> AgentMessage \<Rightarrow> live \<Rightarrow> live \<times> (string \<times> HandlerCall) list" where
  "receive target commands nonce message l = (case message of
     Heartbeat \<Rightarrow> (if si_Ready (lv_info l) then l\<lparr>lv_todo := lv_todo l @ refresh_commands\<rparr> else l, [])
   | OtherMessage \<Rightarrow> (l, [])
   | ResultMessage i result \<Rightarrow> (case map_of (lv_pending l) i of
       None \<Rightarrow> (l, [])
     | Some p \<Rightarrow>
         let (l1, calls1) = handle_result nonce i p result (removePending i l)
         in (case result of
              TypedError e \<Rightarrow> (l1, map (Pair i) calls1)
            | _ \<Rightarrow> let (l2, calls2) = after_result target commands l1 in (l2, map (Pair i) (calls1 @ calls2)))))"

end
