(* ===== verification/Net_Machine.thy ===== *)
theory Net_Machine
  imports Net_Sessions
begin

text \<open>
  The sessions of the Controller as a machine. A step is one section of one goroutine: a handler of a stream, a call
  of the coordinator, the writer behind a send gate, a timer. What a goroutine still has to do is a task. The network,
  the timers and the contexts may end any wait at any time; command identifiers do not repeat within a session.
\<close>

section \<open>State\<close>

text \<open>What is left of a call of \<open>SendRuntime\<close> or \<open>SendMaintenanceHold\<close>, for the session with this number.\<close>

datatype NetTask =
    Dispatch nat string Command pendingCommand     \<comment> \<open>waits for the send gate\<close>
  | Await nat string pendingCommand                \<comment> \<open>waits for the write to the stream\<close>
  | AwaitAnswer nat string                         \<comment> \<open>a change of a hold waits for the answer of the Agent\<close>
  | Expiring nat string uint64                     \<comment> \<open>the timer of a runtime command\<close>
  | Report nat string RuntimeRequest               \<comment> \<open>the timer removed the command and has to tell the coordinator\<close>

record Net =
  nt_connections :: int
  nt_nextEpoch :: uint64
  nt_sessions :: "HostID \<rightharpoonup> nat"
  nt_lives :: "live list"
  nt_tasks :: "NetTask list"
  nt_calls :: "(nat \<times> string \<times> HandlerCall) list"
  nt_returns :: "(string \<times> uint64 result) list"

definition net_start :: Net where
  "net_start = \<lparr>nt_connections = 0, nt_nextEpoch = 0, nt_sessions = Map.empty, nt_lives = [], nt_tasks = [], nt_calls = [], nt_returns = []\<rparr>"

definition put_live :: "nat \<Rightarrow> live \<Rightarrow> Net \<Rightarrow> Net" where
  "put_live i l n = n\<lparr>nt_lives := (nt_lives n)[i := l]\<rparr>"

definition tell :: "nat \<Rightarrow> (string \<times> HandlerCall) list \<Rightarrow> Net \<Rightarrow> Net" where
  "tell i calls n = n\<lparr>nt_calls := nt_calls n @ map (Pair i) calls\<rparr>"

definition drop_task :: "nat \<Rightarrow> Net \<Rightarrow> Net" where
  "drop_task k n = n\<lparr>nt_tasks := take k (nt_tasks n) @ drop (Suc k) (nt_tasks n)\<rparr>"

definition add_task :: "NetTask \<Rightarrow> Net \<Rightarrow> Net" where
  "add_task t n = n\<lparr>nt_tasks := nt_tasks n @ [t]\<rparr>"

definition returns :: "string \<Rightarrow> uint64 result \<Rightarrow> Net \<Rightarrow> Net" where
  "returns i r n = n\<lparr>nt_returns := nt_returns n @ [(i, r)]\<rparr>"

definition sessionCurrent :: "nat \<Rightarrow> Net \<Rightarrow> bool" where
  "sessionCurrent i n \<longleftrightarrow> nt_sessions n (si_HostID (lv_info (nt_lives n ! i))) = Some i \<and> \<not> lv_revoked (nt_lives n ! i)"

definition Session :: "HostID \<Rightarrow> Net \<Rightarrow> SessionInfo option" where
  "Session host n = (case nt_sessions n host of
     None \<Rightarrow> None
   | Some i \<Rightarrow> if lv_revoked (nt_lives n ! i) then None else Some (lv_info (nt_lives n ! i)))"

definition can_register :: "string \<Rightarrow> live \<Rightarrow> bool" where
  "can_register c l \<longleftrightarrow> \<not> lv_revoked l \<and> lv_gate l = None \<and> c \<notin> set (lv_ids l)"

section \<open>Connecting and disconnecting\<close>

text \<open>\<open>Connect\<close> after admission: an earlier session of the Host is revoked and must have finished.\<close>

definition replace_session :: "HostID \<Rightarrow> Net \<Rightarrow> Net" where
  "replace_session host n = (case nt_sessions n host of None \<Rightarrow> n | Some i \<Rightarrow> put_live i (revoke (nt_lives n ! i)) n)"

definition register_session :: "AgentID \<Rightarrow> HostID \<Rightarrow> Net \<Rightarrow> Net" where
  "register_session agent host n =
     (let epoch = nt_nextEpoch n + 1
      in n\<lparr>nt_connections := nt_connections n + 1, nt_nextEpoch := epoch,
           nt_sessions := (nt_sessions n)(host \<mapsto> length (nt_lives n)), nt_lives := nt_lives n @ [new_live agent host epoch]\<rparr>)"

definition greet :: "nat \<Rightarrow> bool \<Rightarrow> Net \<Rightarrow> Net" where
  "greet i ok n = (let l = nt_lives n ! i in
     if ok then tell i [([], SessionConnected (lv_info l))] (put_live i (l\<lparr>lv_phase := Looping, lv_todo := [(False, GetExecutions)]\<rparr>) n)
     else put_live i (l\<lparr>lv_phase := Ending\<rparr>) n)"

text \<open>The deferred function of \<open>Connect\<close>.\<close>

definition finish_session :: "nat \<Rightarrow> Net \<Rightarrow> Net" where
  "finish_session i n =
     (let l = nt_lives n ! i; host = si_HostID (lv_info l);
          n1 = put_live i ((revoke l)\<lparr>lv_phase := Ended\<rparr>) n;
          n2 = n1\<lparr>nt_connections := (if nt_connections n1 > 0 then nt_connections n1 - 1 else nt_connections n1),
                  nt_sessions := (if nt_sessions n1 host = Some i then (nt_sessions n1)(host := None) else nt_sessions n1)\<rparr>
      in tell i [([], SessionDisconnected (lv_info l))] n2)"

section \<open>The loop of a session\<close>

text \<open>The next command to queue: skipped when one of its kind is pending, registered when the gate is free.\<close>

definition loop_queue :: "nat \<Rightarrow> string \<Rightarrow> Net \<Rightarrow> Net option" where
  "loop_queue i c n = (let l = nt_lives n ! i in
     case lv_todo l of
       [] \<Rightarrow> None
     | (ifAbsent, command) # rest \<Rightarrow>
         if ifAbsent \<and> \<not> queue_absent command l then Some (put_live i (l\<lparr>lv_todo := rest\<rparr>) n)
         else if can_register c l
         then Some (put_live i ((fst (send_register c command (plain_pending command) l))\<lparr>lv_queueing := Some c\<rparr>) n)
         else None)"

text \<open>The wait for the write ends with its outcome, or without it.\<close>

definition loop_sent :: "nat \<Rightarrow> bool option \<Rightarrow> Net \<Rightarrow> Net option" where
  "loop_sent i outcome n = (let l = nt_lives n ! i in
     case lv_queueing l of
       None \<Rightarrow> None
     | Some c \<Rightarrow> (case outcome of
         Some ok \<Rightarrow> if (c, ok) \<notin> set (lv_outcomes l) then None
           else if ok then Some (put_live i (l\<lparr>lv_queueing := None, lv_todo := tl (lv_todo l)\<rparr>) n)
           else Some (put_live i ((removePending c l)\<lparr>lv_queueing := None, lv_phase := Ending\<rparr>) n)
       | None \<Rightarrow> Some (put_live i ((revoke (removePending c l))\<lparr>lv_queueing := None, lv_phase := Ending\<rparr>) n)))"

definition loop_receive :: "AgentID option \<Rightarrow> Command list \<Rightarrow> nat \<Rightarrow> string \<Rightarrow> AgentMessage \<Rightarrow> Net \<Rightarrow> Net option" where
  "loop_receive target commands i nonce message n = (let l = nt_lives n ! i in
     if lv_todo l \<noteq> [] \<or> lv_queueing l \<noteq> None then None
     else if \<not> sessionCurrent i n then Some (put_live i (l\<lparr>lv_phase := Ending\<rparr>) n)
     else let (l', calls) = receive target commands nonce message l in Some (tell i calls (put_live i l' n)))"

section \<open>Calls of the coordinator\<close>

definition SendRuntime_begin :: "unicode_case \<Rightarrow> SessionInfo \<Rightarrow> RuntimeRequest \<Rightarrow> string \<Rightarrow> Net \<Rightarrow> Net" where
  "SendRuntime_begin uni info r c n =
     (let unready = returns c (Inl (Farm_Resolve.typed SERVICE_NOT_READY ''Agent session is not ready for runtime actions'')) n in
      case nt_sessions n (si_HostID info) of
        None \<Rightarrow> unready
      | Some i \<Rightarrow> let l = nt_lives n ! i in
          if \<not> same_session info l \<or> \<not> si_Ready (lv_info l) then unready
          else (case runtime_command uni r of
            Inl e \<Rightarrow> returns c (Inl e) (put_live i (revoke l) n)
          | Inr command \<Rightarrow> add_task (Dispatch i c command (runtime_pending command r)) n))"

definition SendMaintenanceHold_begin :: "SessionInfo \<Rightarrow> bool \<Rightarrow> uint64 \<Rightarrow> string \<Rightarrow> Net \<Rightarrow> Net" where
  "SendMaintenanceHold_begin info active revision c n =
     (let unavailable = returns c (Inl (Farm_Resolve.typed SERVICE_NOT_READY ''Agent session is unavailable for Maintenance Hold'')) n in
      case nt_sessions n (si_HostID info) of
        None \<Rightarrow> unavailable
      | Some i \<Rightarrow>
          if \<not> same_session info (nt_lives n ! i) then unavailable
          else if revision < 1 then returns c (Inl (Farm_Resolve.typed CONFIG_CONFLICT ''Maintenance Hold revision is invalid'')) n
          else add_task (Dispatch i c (CmdMaintenanceHold active revision) (hold_pending active revision)) n)"

text \<open>
  What a task does next; \<open>ok\<close> is how its wait ends, \<open>None\<close> by a timer, a context or the end of the session, and
  \<open>err\<close> the error of the stream, the context or the closed session that the call returns when it fails.
\<close>

definition task_dispatch :: "nat \<Rightarrow> string \<Rightarrow> Command \<Rightarrow> pendingCommand \<Rightarrow> bool option \<Rightarrow> error \<Rightarrow> Net \<Rightarrow> Net option" where
  "task_dispatch i c command pending ok err n = (let l = nt_lives n ! i in case ok of
     None \<Rightarrow> Some (returns c (Inl err) (put_live i (revoke l) n))
   | Some _ \<Rightarrow> if \<not> can_register c l then None
       else let (l', p) = send_register c command pending l in Some (add_task (Await i c p) (put_live i l' n)))"

definition task_await :: "nat \<Rightarrow> string \<Rightarrow> pendingCommand \<Rightarrow> bool option \<Rightarrow> error \<Rightarrow> Net \<Rightarrow> Net option" where
  "task_await i c p outcome err n = (let l = nt_lives n ! i in case outcome of
     Some ok \<Rightarrow> if (c, ok) \<notin> set (lv_outcomes l) then None
       else if \<not> ok then Some (returns c (Inl err) (put_live i (revoke (removePending c l)) n))
       else if pc_request p = None then Some (add_task (AwaitAnswer i c) n)
       else Some (add_task (Expiring i c (pc_runtimeSequence p)) (returns c (Inr (pc_runtimeSequence p)) n))
   | None \<Rightarrow> Some (returns c (Inl err) (put_live i (revoke (removePending c l)) n)))"

definition task_answer :: "nat \<Rightarrow> string \<Rightarrow> bool option \<Rightarrow> error \<Rightarrow> Net \<Rightarrow> Net option" where
  "task_answer i c ok err n = (let l = nt_lives n ! i in case ok of
     Some _ \<Rightarrow> (case map_of (lv_answers l) c of
         None \<Rightarrow> None
       | Some e \<Rightarrow> Some (returns c (case e of None \<Rightarrow> Inr 0 | Some e \<Rightarrow> Inl e) n))
   | None \<Rightarrow> Some (returns c (Inl err) (put_live i (revoke l) n)))"

text \<open>\<open>expireRuntimeResult\<close>: the timer fires (\<open>Some\<close>), or the session ended before.\<close>

definition task_expire :: "nat \<Rightarrow> string \<Rightarrow> uint64 \<Rightarrow> bool option \<Rightarrow> Net \<Rightarrow> Net option" where
  "task_expire i c seq fired n = (let l = nt_lives n ! i in case fired of
     None \<Rightarrow> Some n
   | Some _ \<Rightarrow> (case map_of (lv_pending l) c of
       None \<Rightarrow> Some n
     | Some p \<Rightarrow> (case pc_request p of
         None \<Rightarrow> Some n
       | Some r \<Rightarrow>
           if pc_runtimeSequence p \<noteq> seq then Some n
           else let n' = put_live i (removePending c l) n
                in Some (if sessionCurrent i n then add_task (Report i c r) n' else n'))))"

definition task_report :: "nat \<Rightarrow> string \<Rightarrow> RuntimeRequest \<Rightarrow> Net \<Rightarrow> Net" where
  "task_report i c r n = tell i [(c, RuntimeResult (lv_info (nt_lives n ! i)) r None
     (Some (mk_error INTERNAL_ERROR ''runtime result deadline exceeded; delivery outcome is uncertain'' Map.empty)))] n"

definition run_net_task :: "NetTask \<Rightarrow> bool option \<Rightarrow> error \<Rightarrow> Net \<Rightarrow> Net option" where
  "run_net_task t ok err n = (case t of
     Dispatch i c command p \<Rightarrow> task_dispatch i c command p ok err n
   | Await i c p \<Rightarrow> task_await i c p ok err n
   | AwaitAnswer i c \<Rightarrow> task_answer i c ok err n
   | Expiring i c seq \<Rightarrow> task_expire i c seq ok n
   | Report i c r \<Rightarrow> Some (task_report i c r n))"

section \<open>Steps\<close>

datatype NetMove =
    NReplace HostID
  | NRegister AgentID HostID
  | NGreet nat bool
  | NQueue nat string
  | NQueued nat "bool option"
  | NTransmit nat bool
  | NReceive nat string AgentMessage
  | NEnd nat
  | NFinish nat
  | NRuntime SessionInfo RuntimeRequest string
  | NHold SessionInfo bool uint64 string
  | NTask nat "bool option" error

definition in_phase :: "phase \<Rightarrow> nat \<Rightarrow> Net \<Rightarrow> bool" where
  "in_phase ph i n \<longleftrightarrow> i < length (nt_lives n) \<and> lv_phase (nt_lives n ! i) = ph"

definition only_if :: "bool \<Rightarrow> 'a \<Rightarrow> 'a option" where
  "only_if b x = (if b then Some x else None)"

text \<open>\<open>uni\<close> is the case mapping of Unicode, \<open>target\<close> and \<open>commands\<close> the development commands of the configuration.\<close>

fun net_move :: "unicode_case \<Rightarrow> AgentID option \<Rightarrow> Command list \<Rightarrow> NetMove \<Rightarrow> Net \<Rightarrow> Net option" where
  "net_move uni target commands (NReplace host) n = Some (replace_session host n)"
| "net_move uni target commands (NRegister agent host) n = only_if (nt_sessions n host = None) (register_session agent host n)"
| "net_move uni target commands (NGreet i ok) n = only_if (in_phase Greeting i n) (greet i ok n)"
| "net_move uni target commands (NQueue i c) n =
     (if in_phase Looping i n \<and> lv_queueing (nt_lives n ! i) = None then loop_queue i c n else None)"
| "net_move uni target commands (NQueued i outcome) n = (if in_phase Looping i n then loop_sent i outcome n else None)"
| "net_move uni target commands (NTransmit i ok) n = only_if (i < length (nt_lives n)) (put_live i (transmit ok (nt_lives n ! i)) n)"
| "net_move uni target commands (NReceive i nonce message) n =
     (if in_phase Looping i n then loop_receive target commands i nonce message n else None)"
| "net_move uni target commands (NEnd i) n =
     only_if (in_phase Looping i n \<and> lv_queueing (nt_lives n ! i) = None) (put_live i ((nt_lives n ! i)\<lparr>lv_phase := Ending\<rparr>) n)"
| "net_move uni target commands (NFinish i) n = only_if (in_phase Ending i n) (finish_session i n)"
| "net_move uni target commands (NRuntime info r c) n = Some (SendRuntime_begin uni info r c n)"
| "net_move uni target commands (NHold info active revision c) n = Some (SendMaintenanceHold_begin info active revision c n)"
| "net_move uni target commands (NTask k ok err) n =
     (if k < length (nt_tasks n) then run_net_task (nt_tasks n ! k) ok err (drop_task k n) else None)"

text \<open>A run: the moves in order; a move that is not enabled ends the run.\<close>

fun net_moves :: "unicode_case \<Rightarrow> AgentID option \<Rightarrow> Command list \<Rightarrow> NetMove list \<Rightarrow> Net \<Rightarrow> Net option" where
  "net_moves uni target commands [] n = Some n"
| "net_moves uni target commands (m # ms) n = (case net_move uni target commands m n of
     None \<Rightarrow> None | Some n' \<Rightarrow> net_moves uni target commands ms n')"

end
