(* ===== verification/Net_Table.thy ===== *)
theory Net_Table
  imports Net_Machine
begin

text \<open>
  The table of sessions: every session that has not ended is the one its Host is registered with, and epochs grow.
\<close>

section \<open>What a session never changes\<close>

definition ident :: "live \<Rightarrow> AgentID \<times> HostID \<times> uint64 \<times> bool" where
  "ident l = (si_AgentID (lv_info l), si_HostID (lv_info l), si_ConnectionEpoch (lv_info l), lv_phase l = Ended)"

lemma ident_send_register [simp]: "ident (fst (send_register c cmd p l)) = ident l"
  by (simp add: send_register_def ident_def Let_def)

lemma ident_transmit [simp]: "ident (transmit ok l) = ident l"
  by (simp add: transmit_def ident_def split: option.split)

lemma ident_removePending [simp]: "ident (removePending c l) = ident l"
  by (simp add: removePending_def ident_def)

lemma ident_revoke [simp]: "ident (revoke l) = ident l"
  by (simp add: revoke_def ident_def)

lemma ident_answer [simp]: "ident (answer c p e l) = ident l"
  by (simp add: answer_def ident_def)

lemmas result_defs = status_result_def inventory_result_def execution_result_def executions_result_def processes_result_def hold_result_def

lemma handle_rule:
  assumes "\<And>e. P (answer c p (Some (Typed (error_of_wire e))) l, runtime_result l p None (Some (error_of_wire e)))"
    and "P (status_result r l)" "P (inventory_result r l)" "P (execution_result p r l)"
    "pc_kind p = ''GET_EXECUTIONS'' \<Longrightarrow> P (executions_result nonce p r l)" "P (processes_result r l)" "P (hold_result c p r l)" "P (l, [])"
  shows "P (handle_result nonce c p r l)"
proof -
  have i: "(t \<Longrightarrow> P a) \<Longrightarrow> P b \<Longrightarrow> P (if t then a else b)" for a b t by simp
  have t: "(\<And>e. P (f e)) \<Longrightarrow> P g \<Longrightarrow> P (case r of TypedError e \<Rightarrow> f e | _ \<Rightarrow> g)" for f g by (cases r) simp_all
  show ?thesis unfolding handle_result_def by (rule t) (intro i assms)+
qed

lemma ident_handle [simp]: "ident (fst (handle_result nonce c p r l)) = ident l"
  by (rule handle_rule) (auto simp: result_defs Let_def ident_def answer_def split: CommandResult.split option.split sum.split)

lemma ident_after [simp]: "ident (fst (after_result target commands l)) = ident l"
  by (simp add: after_result_def ident_def Let_def)

text \<open>A message changes nothing but the list of commands to queue, or it answers a pending command.\<close>

lemma receive_cases:
  assumes "receive target commands nonce m l = (l', calls)"
  obtains (idle) todo where "l' = l\<lparr>lv_todo := todo\<rparr>" "calls = []"
  | (error) c r p calls1 where "m = ResultMessage c r" "map_of (lv_pending l) c = Some p"
      "handle_result nonce c p r (removePending c l) = (l', calls1)" "calls = map (Pair c) calls1"
  | (result) c r p l1 calls1 calls2 where "m = ResultMessage c r" "map_of (lv_pending l) c = Some p"
      "handle_result nonce c p r (removePending c l) = (l1, calls1)" "after_result target commands l1 = (l', calls2)"
      "calls = map (Pair c) (calls1 @ calls2)"
proof (cases m)
  case Heartbeat
  have "l = l\<lparr>lv_todo := lv_todo l\<rparr>" by simp
  then show ?thesis
  proof (cases "si_Ready (lv_info l)")
    case True
    then show ?thesis using assms idle[of "lv_todo l @ refresh_commands"] Heartbeat by (simp add: receive_def)
  next
    case False
    then have "l' = l" "calls = []" using assms Heartbeat by (simp_all add: receive_def)
    then show ?thesis using idle[of "lv_todo l"] by simp
  qed
next
  case (ResultMessage c r)
  have "l = l\<lparr>lv_todo := lv_todo l\<rparr>" by simp
  then show ?thesis
  proof (cases "map_of (lv_pending l) c")
    case None
    then show ?thesis using assms idle[of "lv_todo l"] by (simp add: receive_def ResultMessage)
  next
    case (Some p)
    obtain l1 calls1 where h: "handle_result nonce c p r (removePending c l) = (l1, calls1)" by fastforce
    obtain l2 calls2 where a: "after_result target commands l1 = (l2, calls2)" by fastforce
    show ?thesis
    proof (cases "\<exists>e. r = TypedError e")
      case True
      then show ?thesis using assms h error[OF ResultMessage Some] by (auto simp: receive_def ResultMessage Some)
    next
      case False
      then have "l' = l2" "calls = map (Pair c) (calls1 @ calls2)"
        using assms h a by (auto simp: receive_def ResultMessage Some split: CommandResult.splits prod.splits)
      then show ?thesis using result[OF ResultMessage Some h] a by simp
    qed
  qed
next
  case OtherMessage
  have "l = l\<lparr>lv_todo := lv_todo l\<rparr>" by simp
  then show ?thesis using assms idle[of "lv_todo l"] OtherMessage by (simp add: receive_def)
qed

lemma receive_keeps:
  assumes "receive target commands nonce m l = (l', calls)"
    and "\<And>todo. f (l\<lparr>lv_todo := todo\<rparr>) = f l" and "\<And>c. f (removePending c l) = f l"
    and "\<And>c p r k. f (fst (handle_result nonce c p r k)) = f k" and "\<And>k. f (fst (after_result target commands k)) = f k"
  shows "f l' = f l"
  using assms(1)
proof (cases rule: receive_cases)
  case (error c r p calls1)
  then show ?thesis using assms(3,4) by (metis fst_conv)
next
  case (result c r p l1 calls1 calls2)
  then show ?thesis using assms(3,4,5) by (metis fst_conv)
qed (simp add: assms(2))

lemma ident_receive: "receive target commands nonce m l = (l', calls) \<Longrightarrow> ident l' = ident l"
  by (rule receive_keeps[where f = ident]) (simp_all add: ident_def[of "l\<lparr>lv_todo := x\<rparr>" for x] ident_def[of l])

section \<open>The table\<close>

definition table :: "Net \<Rightarrow> bool" where
  "table n \<longleftrightarrow> (\<forall>h i. nt_sessions n h = Some i \<longrightarrow> i < length (nt_lives n) \<and> si_HostID (lv_info (nt_lives n ! i)) = h
        \<and> lv_phase (nt_lives n ! i) \<noteq> Ended)
     \<and> (\<forall>i<length (nt_lives n). lv_phase (nt_lives n ! i) \<noteq> Ended \<longrightarrow> nt_sessions n (si_HostID (lv_info (nt_lives n ! i))) = Some i)
     \<and> (\<forall>i<length (nt_lives n). si_ConnectionEpoch (lv_info (nt_lives n ! i)) = of_nat (Suc i))
     \<and> nt_nextEpoch n = of_nat (length (nt_lives n))"

text \<open>Moves that neither open nor end a session.\<close>

definition same_table :: "Net \<Rightarrow> Net \<Rightarrow> bool" where
  "same_table n n' \<longleftrightarrow> nt_sessions n' = nt_sessions n \<and> nt_nextEpoch n' = nt_nextEpoch n \<and> map ident (nt_lives n') = map ident (nt_lives n)"

lemma same_table_refl [simp]: "same_table n n"
  by (simp add: same_table_def)

lemma same_table_put: "ident l = ident (nt_lives n ! i) \<Longrightarrow> same_table n (put_live i l n)"
  by (cases "i < length (nt_lives n)")
    (simp_all add: same_table_def put_live_def map_update list_update_same_conv list_update_beyond)

lemma same_table_more [simp]: "same_table n (tell i calls m) = same_table n m" "same_table n (add_task t m) = same_table n m"
  "same_table n (drop_task k m) = same_table n m" "same_table n (returns c r m) = same_table n m"
  by (simp_all add: same_table_def tell_def add_task_def drop_task_def returns_def)

lemma table_same: "table n \<Longrightarrow> same_table n n' \<Longrightarrow> table n'"
proof -
  assume t: "table n" and s: "same_table n n'"
  have len: "length (nt_lives n') = length (nt_lives n)" using s by (metis length_map same_table_def)
  have "ident (nt_lives n' ! i) = ident (nt_lives n ! i)" if "i < length (nt_lives n)" for i
    using s that len by (metis nth_map same_table_def)
  then have "si_HostID (lv_info (nt_lives n' ! i)) = si_HostID (lv_info (nt_lives n ! i))"
    "si_ConnectionEpoch (lv_info (nt_lives n' ! i)) = si_ConnectionEpoch (lv_info (nt_lives n ! i))"
    "(lv_phase (nt_lives n' ! i) = Ended) = (lv_phase (nt_lives n ! i) = Ended)" if "i < length (nt_lives n)" for i
    using that by (simp_all add: ident_def)
  then show ?thesis using t s len by (auto simp: table_def same_table_def)
qed

lemma same_table_phase: "lv_phase (nt_lives n ! i) \<noteq> Ended \<Longrightarrow> ph \<noteq> Ended \<Longrightarrow> lv_info l = lv_info (nt_lives n ! i) \<Longrightarrow> lv_phase l = ph
    \<Longrightarrow> same_table n (put_live i l n)"
  by (rule same_table_put) (simp add: ident_def)

lemma same_table_drop: "same_table (drop_task k n) m = same_table n m"
  by (simp add: same_table_def drop_task_def)

lemma put_drop [simp]: "nt_lives (drop_task k n) = nt_lives n" "nt_sessions (drop_task k n) = nt_sessions n"
  by (simp_all add: drop_task_def)

lemma lives_returns [simp]: "nt_lives (returns c r n) = nt_lives n"
  by (simp add: returns_def)

lemma dispatch_same_table: "task_dispatch i c command p ok err n = Some n' \<Longrightarrow> same_table n n'"
proof (cases ok)
  case (Some x)
  obtain l' p' where s: "send_register c command p (nt_lives n ! i) = (l', p')" by fastforce
  have "ident l' = ident (nt_lives n ! i)" using ident_send_register[of c command p "nt_lives n ! i"] by (simp add: s)
  moreover assume "task_dispatch i c command p ok err n = Some n'"
  ultimately show ?thesis by (auto simp: task_dispatch_def Let_def Some s same_table_put split: if_splits)
qed (auto simp: task_dispatch_def same_table_put)

lemma await_same_table: "task_await i c p outcome err n = Some n' \<Longrightarrow> same_table n n'"
  by (cases outcome) (auto simp: task_await_def Let_def same_table_put split: if_splits)

lemma answer_same_table: "task_answer i c ok err n = Some n' \<Longrightarrow> same_table n n'"
  by (cases ok) (auto simp: task_answer_def Let_def same_table_put split: option.splits)

lemma expire_same_table: "task_expire i c seq fired n = Some n' \<Longrightarrow> same_table n n'"
  by (cases fired) (auto simp: task_expire_def Let_def same_table_put split: option.splits if_splits)

lemma task_same_table: "run_net_task t ok err n = Some n' \<Longrightarrow> same_table n n'"
  by (cases t) (auto simp: run_net_task_def task_report_def
      intro: dispatch_same_table await_same_table answer_same_table expire_same_table)

lemma ident_queueing [simp]: "ident (l\<lparr>lv_queueing := x\<rparr>) = ident l"
  by (simp add: ident_def)

lemma ident_todo [simp]: "ident (l\<lparr>lv_todo := x\<rparr>) = ident l"
  by (simp add: ident_def)

lemma ident_phase: "lv_phase l \<noteq> Ended \<Longrightarrow> ph \<noteq> Ended \<Longrightarrow> ident (l\<lparr>lv_phase := ph\<rparr>) = ident l"
  by (simp add: ident_def)

lemma queue_same_table: "loop_queue i c n = Some n' \<Longrightarrow> same_table n n'"
  by (cases "lv_todo (nt_lives n ! i)") (auto simp: loop_queue_def Let_def same_table_put split: if_splits)

lemma sent_same_table:
  assumes "lv_phase (nt_lives n ! i) \<noteq> Ended" "loop_sent i outcome n = Some n'"
  shows "same_table n n'"
proof -
  let ?l = "nt_lives n ! i"
  have "ident (removePending c ?l\<lparr>lv_queueing := None, lv_phase := Ending\<rparr>) = ident ?l"
    "ident ((revoke (removePending c ?l))\<lparr>lv_queueing := None, lv_phase := Ending\<rparr>) = ident ?l"
    "ident (?l\<lparr>lv_queueing := None, lv_todo := t\<rparr>) = ident ?l" for c t
    using assms(1) by (simp_all add: ident_def removePending_def revoke_def)
  then show ?thesis using assms(2)
    by (cases "lv_queueing ?l"; cases outcome) (auto simp: loop_sent_def Let_def same_table_put split: if_splits)
qed

lemma loop_receive_same_table:
  assumes "lv_phase (nt_lives n ! i) \<noteq> Ended" "loop_receive target commands i nonce m n = Some n'"
  shows "same_table n n'"
proof -
  obtain l' calls where r: "receive target commands nonce m (nt_lives n ! i) = (l', calls)" by fastforce
  show ?thesis using assms ident_receive[OF r]
    by (auto simp: loop_receive_def Let_def r same_table_put ident_phase split: if_splits)
qed

lemma runtime_same_table: "same_table n (SendRuntime_begin uni info r c n)"
  by (simp add: SendRuntime_begin_def Let_def same_table_put split: option.split sum.split)

lemma hold_same_table: "same_table n (SendMaintenanceHold_begin info a v c n)"
  by (simp add: SendMaintenanceHold_begin_def Let_def split: option.split)

lemma greet_same_table: "lv_phase (nt_lives n ! i) \<noteq> Ended \<Longrightarrow> same_table n (greet i ok n)"
  by (cases ok) (simp_all add: greet_def Let_def same_table_put ident_def)

text \<open>The two moves that change the table.\<close>

lemma tableD:
  assumes "table n"
  shows "nt_sessions n h = Some i \<Longrightarrow> i < length (nt_lives n)"
    "nt_sessions n h = Some i \<Longrightarrow> si_HostID (lv_info (nt_lives n ! i)) = h"
    "nt_sessions n h = Some i \<Longrightarrow> lv_phase (nt_lives n ! i) \<noteq> Ended"
    "i < length (nt_lives n) \<Longrightarrow> lv_phase (nt_lives n ! i) \<noteq> Ended \<Longrightarrow> nt_sessions n (si_HostID (lv_info (nt_lives n ! i))) = Some i"
    "i < length (nt_lives n) \<Longrightarrow> si_ConnectionEpoch (lv_info (nt_lives n ! i)) = of_nat (Suc i)"
    "nt_nextEpoch n = of_nat (length (nt_lives n))"
  using assms unfolding table_def by blast+

lemma table_register:
  assumes "table n" "nt_sessions n host = None"
  shows "table (register_session agent host n)"
proof -
  note d = tableD[OF assms(1)]
  let ?new = "new_live agent host (nt_nextEpoch n + 1)"
  let ?n = "register_session agent host n"
  have lives: "nt_lives ?n = nt_lives n @ [?new]" and ses: "nt_sessions ?n = (nt_sessions n)(host \<mapsto> length (nt_lives n))"
    and epoch: "nt_nextEpoch ?n = nt_nextEpoch n + 1"
    by (simp_all add: register_session_def Let_def)
  have new: "si_HostID (lv_info ?new) = host" "lv_phase ?new = Greeting" "si_ConnectionEpoch (lv_info ?new) = nt_nextEpoch n + 1"
    by (simp_all add: new_live_def)
  have old: "si_HostID (lv_info (nt_lives n ! i)) \<noteq> host" if "i < length (nt_lives n)" "lv_phase (nt_lives n ! i) \<noteq> Ended" for i
    using d(4)[OF that] assms(2) by auto
  show ?thesis unfolding table_def lives ses epoch
  proof (intro conjI allI impI)
    fix h i assume s: "((nt_sessions n)(host \<mapsto> length (nt_lives n))) h = Some i"
    show "i < length (nt_lives n @ [?new])" using s d(1)[of h i] by (auto split: if_splits)
    show "si_HostID (lv_info ((nt_lives n @ [?new]) ! i)) = h"
      using s d(1)[of h i] d(2)[of h i] new by (auto simp: nth_append split: if_splits)
    show "lv_phase ((nt_lives n @ [?new]) ! i) \<noteq> Ended"
      using s d(1)[of h i] d(3)[of h i] new by (auto simp: nth_append split: if_splits)
  next
    fix i assume "i < length (nt_lives n @ [?new])" "lv_phase ((nt_lives n @ [?new]) ! i) \<noteq> Ended"
    then show "((nt_sessions n)(host \<mapsto> length (nt_lives n))) (si_HostID (lv_info ((nt_lives n @ [?new]) ! i))) = Some i"
      using d(4)[of i] old[of i] new by (cases "i = length (nt_lives n)") (auto simp: nth_append)
  next
    fix i assume "i < length (nt_lives n @ [?new])"
    then show "si_ConnectionEpoch (lv_info ((nt_lives n @ [?new]) ! i)) = of_nat (Suc i)"
      using d(5)[of i] d(6) new by (cases "i = length (nt_lives n)") (auto simp: nth_append)
  qed (simp add: d(6))
qed

lemma table_finish:
  assumes "table n" "i < length (nt_lives n)" "lv_phase (nt_lives n ! i) \<noteq> Ended"
  shows "table (finish_session i n)"
proof -
  note d = tableD[OF assms(1)]
  let ?n = "finish_session i n" and ?l = "(revoke (nt_lives n ! i))\<lparr>lv_phase := Ended\<rparr>" and ?h = "si_HostID (lv_info (nt_lives n ! i))"
  have lives: "nt_lives ?n = (nt_lives n)[i := ?l]" and ses: "nt_sessions ?n = (nt_sessions n)(?h := None)"
    and epoch: "nt_nextEpoch ?n = nt_nextEpoch n"
    using d(4)[OF assms(2,3)] by (simp_all add: finish_session_def put_live_def tell_def Let_def)
  have new: "lv_info ?l = lv_info (nt_lives n ! i)" "lv_phase ?l = Ended" by (simp_all add: revoke_def)
  show ?thesis unfolding table_def lives ses epoch
  proof (intro conjI allI impI)
    fix h j assume s: "((nt_sessions n)(?h := None)) h = Some j"
    then have o: "nt_sessions n h = Some j" "h \<noteq> ?h" by (auto split: if_splits)
    then have "j \<noteq> i" using d(2)[OF o(1)] by auto
    then show "j < length ((nt_lives n)[i := ?l])" "si_HostID (lv_info ((nt_lives n)[i := ?l] ! j)) = h"
      "lv_phase ((nt_lives n)[i := ?l] ! j) \<noteq> Ended"
      using d(1-3)[OF o(1)] by simp_all
  next
    fix j assume j: "j < length ((nt_lives n)[i := ?l])" "lv_phase ((nt_lives n)[i := ?l] ! j) \<noteq> Ended"
    then have "j \<noteq> i" using assms(2) new by auto
    then have "nt_sessions n (si_HostID (lv_info (nt_lives n ! j))) = Some j" using d(4)[of j] j by simp
    moreover from this have "si_HostID (lv_info (nt_lives n ! j)) \<noteq> ?h" using d(4)[OF assms(2,3)] \<open>j \<noteq> i\<close> by auto
    ultimately show "((nt_sessions n)(?h := None)) (si_HostID (lv_info ((nt_lives n)[i := ?l] ! j))) = Some j"
      using \<open>j \<noteq> i\<close> by simp
  next
    fix j assume "j < length ((nt_lives n)[i := ?l])"
    then show "si_ConnectionEpoch (lv_info ((nt_lives n)[i := ?l] ! j)) = of_nat (Suc j)"
      using d(5)[of j] new(1) by (cases "j = i") simp_all
  qed (simp add: d(6))
qed

lemma table_move:
  assumes "table n" "net_move uni target commands m n = Some n'"
  shows "table n'"
proof (cases m)
  case (NReplace host)
  then show ?thesis using assms
    by (auto simp: replace_session_def intro!: table_same[OF assms(1)] same_table_put split: option.splits)
next
  case (NRegister agent host)
  then show ?thesis using assms by (auto simp: only_if_def intro: table_register split: if_splits)
next
  case (NGreet i ok)
  then show ?thesis using assms by (auto simp: only_if_def in_phase_def intro!: table_same[OF assms(1)] greet_same_table split: if_splits)
next
  case (NQueue i c)
  then show ?thesis using assms by (auto intro: table_same[OF assms(1)] queue_same_table split: if_splits)
next
  case (NQueued i outcome)
  then show ?thesis using assms by (auto simp: in_phase_def intro!: table_same[OF assms(1)] sent_same_table split: if_splits)
next
  case (NTransmit i ok)
  then show ?thesis using assms by (auto simp: only_if_def intro!: table_same[OF assms(1)] same_table_put split: if_splits)
next
  case (NReceive i nonce message)
  then show ?thesis using assms by (auto simp: in_phase_def intro!: table_same[OF assms(1)] loop_receive_same_table split: if_splits)
next
  case (NEnd i)
  then show ?thesis using assms
    by (auto simp: only_if_def in_phase_def ident_phase intro!: table_same[OF assms(1)] same_table_put split: if_splits)
next
  case (NFinish i)
  then show ?thesis using assms by (auto simp: only_if_def in_phase_def intro!: table_finish split: if_splits)
next
  case (NTask k ok err)
  then have "same_table n n'" using assms task_same_table[of _ ok err "drop_task k n" n'] by (auto simp: same_table_drop split: if_splits)
  then show ?thesis by (rule table_same[OF assms(1)])
qed (use assms in \<open>auto intro: table_same runtime_same_table hold_same_table\<close>)

lemma table_start: "table net_start"
  by (simp add: table_def net_start_def)

lemma table_moves: "table n \<Longrightarrow> net_moves uni target commands ms n = Some n' \<Longrightarrow> table n'"
  by (induction ms arbitrary: n) (auto intro: table_move split: option.splits)

text \<open>
  C33: in every interleaving, two sessions of one Host that have not ended are the same session, and of two sessions
  the one that was opened later has the larger epoch, as long as epochs do not wrap; the session the coordinator is
  given for a Host is not revoked and belongs to it.
\<close>
theorem one_live_session_per_host:
  assumes "net_moves uni target commands ms net_start = Some n"
    and "i < length (nt_lives n)" "j < length (nt_lives n)" "length (nt_lives n) < 2 ^ 64"
  shows "(lv_phase (nt_lives n ! i) \<noteq> Ended \<longrightarrow> lv_phase (nt_lives n ! j) \<noteq> Ended
      \<longrightarrow> si_HostID (lv_info (nt_lives n ! i)) = si_HostID (lv_info (nt_lives n ! j)) \<longrightarrow> i = j)
    \<and> (i < j \<longrightarrow> si_ConnectionEpoch (lv_info (nt_lives n ! i)) < si_ConnectionEpoch (lv_info (nt_lives n ! j)))
    \<and> (Session host n = Some info \<longrightarrow> si_HostID info = host \<and> (\<exists>k<length (nt_lives n). info = lv_info (nt_lives n ! k)
        \<and> \<not> lv_revoked (nt_lives n ! k) \<and> lv_phase (nt_lives n ! k) \<noteq> Ended))"
proof -
  have t: "table n" by (rule table_moves[OF table_start assms(1)])
  have u: "unat (of_nat (Suc k) :: uint64) = Suc k" if "k < length (nt_lives n)" for k
    using that assms(4) by (simp add: unat_of_nat take_bit_nat_eq_self del: of_nat_Suc)
  have e: "unat (si_ConnectionEpoch (lv_info (nt_lives n ! k))) = Suc k" if "k < length (nt_lives n)" for k
    unfolding tableD(5)[OF t that] by (rule u[OF that])
  have "si_ConnectionEpoch (lv_info (nt_lives n ! i)) < si_ConnectionEpoch (lv_info (nt_lives n ! j))" if "i < j"
    unfolding word_less_nat_alt e[OF assms(2)] e[OF assms(3)] using that by simp
  moreover have "i = j" if "lv_phase (nt_lives n ! i) \<noteq> Ended" "lv_phase (nt_lives n ! j) \<noteq> Ended"
    "si_HostID (lv_info (nt_lives n ! i)) = si_HostID (lv_info (nt_lives n ! j))"
    using tableD(4)[OF t assms(2)] tableD(4)[OF t assms(3)] that by (metis option.inject)
  moreover have "si_HostID info = host \<and> (\<exists>k<length (nt_lives n). info = lv_info (nt_lives n ! k) \<and> \<not> lv_revoked (nt_lives n ! k)
      \<and> lv_phase (nt_lives n ! k) \<noteq> Ended)" if s: "Session host n = Some info"
  proof -
    obtain k where k: "nt_sessions n host = Some k" "\<not> lv_revoked (nt_lives n ! k)" "info = lv_info (nt_lives n ! k)"
      using s by (auto simp: Session_def split: option.splits if_splits)
    then show ?thesis using tableD(1-3)[OF t k(1)] by blast
  qed
  ultimately show ?thesis by blast
qed

lemma one_live_session_per_host_witness:
  "\<forall>uni a h. \<exists>n. net_moves uni None [] [NRegister a h, NGreet 0 True, NReplace h, NEnd 0, NFinish 0, NRegister a h, NGreet 1 True] net_start = Some n
     \<and> Session h n = Some \<lparr>si_AgentID = a, si_HostID = h, si_ConnectionEpoch = 2, si_Authenticated = True, si_Ready = False\<rparr>
     \<and> length (nt_lives n) = 2 \<and> lv_phase (nt_lives n ! 0) = Ended \<and> lv_phase (nt_lives n ! 1) = Looping
     \<and> si_ConnectionEpoch (lv_info (nt_lives n ! 0)) < si_ConnectionEpoch (lv_info (nt_lives n ! 1))"
proof (intro allI)
  fix uni :: unicode_case and a h
  let ?ms = "[NRegister a h, NGreet 0 True, NReplace h, NEnd 0, NFinish 0, NRegister a h, NGreet 1 True]"
  obtain n where n: "net_moves uni None [] ?ms net_start = Some n" "length (nt_lives n) = 2"
    "lv_phase (nt_lives n ! 0) = Ended" "lv_phase (nt_lives n ! 1) = Looping"
    "Session h n = Some \<lparr>si_AgentID = a, si_HostID = h, si_ConnectionEpoch = 2, si_Authenticated = True, si_Ready = False\<rparr>"
    by (simp add: net_start_def register_session_def only_if_def in_phase_def greet_def tell_def put_live_def new_live_def Let_def
        replace_session_def revoke_def finish_session_def Session_def)
  show "\<exists>n. net_moves uni None [] [NRegister a h, NGreet 0 True, NReplace h, NEnd 0, NFinish 0, NRegister a h, NGreet 1 True] net_start = Some n
     \<and> Session h n = Some \<lparr>si_AgentID = a, si_HostID = h, si_ConnectionEpoch = 2, si_Authenticated = True, si_Ready = False\<rparr>
     \<and> length (nt_lives n) = 2 \<and> lv_phase (nt_lives n ! 0) = Ended \<and> lv_phase (nt_lives n ! 1) = Looping
     \<and> si_ConnectionEpoch (lv_info (nt_lives n ! 0)) < si_ConnectionEpoch (lv_info (nt_lives n ! 1))" using one_live_session_per_host[OF n(1), of 0 1 h] n by auto
qed

end
