(* ===== verification/Net_Invariant.thy ===== *)
theory Net_Invariant
  imports Net_Table
begin

text \<open>
  Invariants of one session. What holds of a session and of the calls it has made, is kept by each of its operations and
  knows no other session, holds in every interleaving of the machine: the contract is the locale \<open>session_invariant\<close>.
\<close>

section \<open>What a session consists of\<close>

definition calls_of :: "nat \<Rightarrow> Net \<Rightarrow> (string \<times> HandlerCall) list" where
  "calls_of i n = map snd (filter (\<lambda>x. fst x = i) (nt_calls n))"

text \<open>The fields the operations of a session are about; the others say where its goroutines are.\<close>

definition core :: "live \<Rightarrow> SessionInfo \<times> (string \<times> pendingCommand) list \<times> uint64 \<times> sent option \<times> sent list \<times> string list
    \<times> bool \<times> bool \<times> bool \<times> bool" where
  "core l = (lv_info l, lv_pending l, lv_runtimeSequence l, lv_gate l, lv_stream l, lv_ids l,
     lv_gotExecutions l, lv_gotInventory l, lv_gotProcesses l, lv_gotStatus l)"

definition ready :: "live \<Rightarrow> bool" where
  "ready l \<longleftrightarrow> si_Ready (lv_info l)"

text \<open>Calls about the session itself, and the result that a timer reports.\<close>

fun bare_call :: "HandlerCall \<Rightarrow> bool" where
  "bare_call (SessionConnected info) = True"
| "bare_call (SessionDisconnected info) = True"
| "bare_call (RuntimeResult info r None err) = True"
| "bare_call call = False"

fun known_task :: "(live \<Rightarrow> Command \<Rightarrow> pendingCommand \<Rightarrow> bool) \<Rightarrow> Net \<Rightarrow> NetTask \<Rightarrow> bool" where
  "known_task D n (Dispatch i c command p) = (i < length (nt_lives n) \<and> D (nt_lives n ! i) command p)"
| "known_task D n (Await i c p) = (i < length (nt_lives n))"
| "known_task D n (AwaitAnswer i c) = (i < length (nt_lives n))"
| "known_task D n (Expiring i c q) = (i < length (nt_lives n))"
| "known_task D n (Report i c r) = (i < length (nt_lives n))"

definition kept :: "(live \<Rightarrow> (string \<times> HandlerCall) list \<Rightarrow> bool) \<Rightarrow> (live \<Rightarrow> Command \<Rightarrow> pendingCommand \<Rightarrow> bool) \<Rightarrow> Net \<Rightarrow> bool" where
  "kept I D n \<longleftrightarrow> (\<forall>i<length (nt_lives n). I (nt_lives n ! i) (calls_of i n)) \<and> (\<forall>t\<in>set (nt_tasks n). known_task D n t)
     \<and> (\<forall>x\<in>set (nt_calls n). fst x < length (nt_lives n))"

lemma calls_of_tell: "nt_calls n' = nt_calls n @ map (Pair i) cs \<Longrightarrow> calls_of j n' = calls_of j n @ (if j = i then cs else [])"
  by (simp add: calls_of_def filter_map comp_def)

lemma session_core_fields [simp]: "core (l\<lparr>lv_phase := x\<rparr>) = core l" "core (l\<lparr>lv_todo := t\<rparr>) = core l" "core (l\<lparr>lv_queueing := u\<rparr>) = core l"
  "core (revoke l) = core l" "core (answer c p e l) = core l"
  by (simp_all add: core_def revoke_def answer_def)

lemma ready_fields [simp]: "ready (l\<lparr>lv_phase := x\<rparr>) = ready l" "ready (l\<lparr>lv_todo := t\<rparr>) = ready l" "ready (l\<lparr>lv_queueing := u\<rparr>) = ready l"
  "ready (revoke l) = ready l" "ready (removePending c l) = ready l" "ready (transmit ok l) = ready l"
  "ready (fst (send_register c cmd p l)) = ready l"
  by (simp_all add: ready_def revoke_def removePending_def transmit_def send_register_def Let_def split: option.split)

lemma ready_handle [simp]: "ready (fst (handle_result nonce c p r l)) = ready l"
  by (rule handle_rule) (auto simp: result_defs Let_def ready_def answer_def split: CommandResult.split option.split sum.split)

lemma ready_after: "ready l \<Longrightarrow> ready (fst (after_result target commands l))"
  by (simp add: after_result_def Let_def ready_def)

lemma ready_receive: "receive target commands nonce m l = (l', calls) \<Longrightarrow> ready l \<Longrightarrow> ready l'"
proof (erule receive_cases)
  fix c r p calls1
  assume h: "handle_result nonce c p r (removePending c l) = (l', calls1)" and r: "ready l"
  show "ready l'" using ready_handle[of nonce c p r "removePending c l"] r by (simp add: h)
next
  fix c r p l1 calls1 calls2
  assume h: "handle_result nonce c p r (removePending c l) = (l1, calls1)" and a: "after_result target commands l1 = (l', calls2)" and r: "ready l"
  have "ready l1" using ready_handle[of nonce c p r "removePending c l"] r by (simp add: h)
  then show "ready l'" using ready_after[of l1 target commands] by (simp add: a)
qed simp

lemma kept_step:
  assumes k: "kept I D n" and i: "i < length (nt_lives n)" and l: "nt_lives n' = (nt_lives n)[i := l]"
    and cs: "nt_calls n' = nt_calls n @ map (Pair i) cs" and own: "I l (calls_of i n @ cs)"
    and mono: "\<And>cmd p. D (nt_lives n ! i) cmd p \<Longrightarrow> D l cmd p"
    and ts: "\<forall>t\<in>set (nt_tasks n'). t \<in> set (nt_tasks n) \<or> known_task D n' t"
  shows "kept I D n'"
proof -
  have "I (nt_lives n' ! j) (calls_of j n')" if "j < length (nt_lives n')" for j
    using k that own i by (cases "j = i") (simp_all add: kept_def l calls_of_tell[OF cs])
  moreover have "known_task D n' t" if "known_task D n t" for t
    using that mono i by (cases t) (auto simp: l nth_list_update)
  then have "\<forall>t\<in>set (nt_tasks n'). known_task D n' t" using k ts by (auto simp: kept_def)
  moreover have "\<forall>x\<in>set (nt_calls n'). fst x < length (nt_lives n')"
    using k i by (auto simp: kept_def cs l)
  ultimately show ?thesis unfolding kept_def by blast
qed

section \<open>The contract\<close>

locale session_invariant =
  fixes I :: "live \<Rightarrow> (string \<times> HandlerCall) list \<Rightarrow> bool" and D :: "live \<Rightarrow> Command \<Rightarrow> pendingCommand \<Rightarrow> bool"
  assumes created: "I (new_live agent host epoch) []"
    and registered: "I l cs \<Longrightarrow> can_register c l \<Longrightarrow> D l cmd p \<Longrightarrow> I (fst (send_register c cmd p l)) cs"
    and plain: "D l cmd (plain_pending cmd)"
    and runtime: "ready l \<Longrightarrow> runtime_command uni r = Inr cmd \<Longrightarrow> D l cmd (runtime_pending cmd r)"
    and hold: "D l (CmdMaintenanceHold active revision) (hold_pending active revision)"
    and later: "D l cmd p \<Longrightarrow> (ready l \<Longrightarrow> ready l') \<Longrightarrow> D l' cmd p"
    and transmitted: "I l cs \<Longrightarrow> I (transmit ok l) cs"
    and removed: "I l cs \<Longrightarrow> I (removePending c l) cs"
    and same: "I l cs \<Longrightarrow> core l' = core l \<Longrightarrow> I l' cs"
    and told: "I l cs \<Longrightarrow> bare_call call \<Longrightarrow> I l (cs @ [(d, call)])"
    and received: "I l cs \<Longrightarrow> receive target commands nonce m l = (l', calls) \<Longrightarrow> I l' (cs @ calls)"
begin

lemma put:
  assumes "kept I D n" "i < length (nt_lives n)" "I l (calls_of i n)" "ready (nt_lives n ! i) \<Longrightarrow> ready l"
  shows "kept I D (put_live i l n)"
  by (rule kept_step[OF assms(1,2), where l = l and cs = "[]"]) (use assms(3,4) later in \<open>auto simp: put_live_def\<close>)

lemma at: "kept I D n \<Longrightarrow> i < length (nt_lives n) \<Longrightarrow> I (nt_lives n ! i) (calls_of i n)"
  by (simp add: kept_def)

lemma registered_put:
  assumes "kept I D n" "i < length (nt_lives n)" "can_register c (nt_lives n ! i)" "D (nt_lives n ! i) cmd p"
  shows "kept I D (put_live i ((fst (send_register c cmd p (nt_lives n ! i)))\<lparr>lv_queueing := x\<rparr>) n)"
    "kept I D (put_live i (fst (send_register c cmd p (nt_lives n ! i))) n)"
  using registered[OF at[OF assms(1,2)] assms(3,4)]
  by (auto intro!: put[OF assms(1,2)] intro: same)

lemma returned [simp]: "kept I D (returns c r n) = kept I D n"
proof -
  have "known_task D (returns c r n) t = known_task D n t" for t by (cases t) (simp_all add: returns_def)
  then show ?thesis by (simp add: kept_def returns_def calls_of_def)
qed

lemma task_added: "known_task D n t \<Longrightarrow> kept I D (add_task t n) = kept I D n"
proof -
  have k: "known_task D (add_task t n) u = known_task D n u" for u by (cases u) (simp_all add: add_task_def)
  then show "known_task D n t \<Longrightarrow> ?thesis" by (auto simp: kept_def k add_task_def calls_of_def)
qed

lemma task_dropped: "kept I D n \<Longrightarrow> kept I D (drop_task k n)"
proof -
  have "known_task D (drop_task k n) u = known_task D n u" for u by (cases u) (simp_all add: drop_task_def)
  then show "kept I D n \<Longrightarrow> ?thesis" by (auto simp: kept_def drop_task_def calls_of_def dest: in_set_takeD in_set_dropD)
qed

lemma call_made:
  assumes "kept I D n" "i < length (nt_lives n)" "bare_call call"
  shows "kept I D (tell i [(d, call)] n)"
  by (rule kept_step[OF assms(1,2), where l = "nt_lives n ! i" and cs = "[(d, call)]"])
    (use told[OF at[OF assms(1,2)] assms(3)] in \<open>auto simp: tell_def\<close>)

lemma tasks_kept:
  assumes "kept I D n" "known_task D n t" "run_net_task t ok err n = Some n'"
  shows "kept I D n'"
proof (cases t)
  case (Dispatch i c command p)
  then have i: "i < length (nt_lives n)" "D (nt_lives n ! i) command p" using assms(2) by simp_all
  note I = at[OF assms(1) i(1)]
  have revoked: "kept I D (put_live i (revoke (nt_lives n ! i)) n)" by (rule put[OF assms(1) i(1)]) (auto intro: same[OF I])
  have new: "kept I D (add_task (Await i c q) (put_live i (fst (send_register c command p (nt_lives n ! i))) n))" if "can_register c (nt_lives n ! i)" for q
    using registered_put(2)[OF assms(1) i(1) that i(2)] i(1) by (simp add: task_added put_live_def)
  show ?thesis
  proof (cases ok)
    case None
    then show ?thesis using revoked assms(3) by (auto simp: Dispatch run_net_task_def task_dispatch_def)
  next
    case (Some x)
    then show ?thesis using new assms(3) by (auto simp: Dispatch run_net_task_def task_dispatch_def Let_def split: if_splits prod.splits)
  qed
next
  case (Await i c p)
  then have i: "i < length (nt_lives n)" using assms(2) by simp
  have lost: "kept I D (put_live i (revoke (removePending c (nt_lives n ! i))) n)"
    by (rule put[OF assms(1) i]) (auto intro: same[OF removed[OF at[OF assms(1) i]]])
  show ?thesis using assms(1,3) i lost
    by (cases ok) (auto simp: Await run_net_task_def task_await_def Let_def task_added split: if_splits)
next
  case (AwaitAnswer i c)
  then have i: "i < length (nt_lives n)" using assms(2) by simp
  have lost: "kept I D (put_live i (revoke (nt_lives n ! i)) n)" by (rule put[OF assms(1) i]) (auto intro: same[OF at[OF assms(1) i]])
  show ?thesis using assms(1,3) lost
    by (cases ok) (auto simp: AwaitAnswer run_net_task_def task_answer_def Let_def split: option.splits)
next
  case (Expiring i c q)
  then have i: "i < length (nt_lives n)" using assms(2) by simp
  have gone: "kept I D (put_live i (removePending c (nt_lives n ! i)) n)"
    by (rule put[OF assms(1) i]) (simp_all add: removed[OF at[OF assms(1) i]])
  then have "kept I D (add_task (Report i c r) (put_live i (removePending c (nt_lives n ! i)) n))" for r
    using i by (simp add: task_added put_live_def)
  then show ?thesis using assms(1,3) gone
    by (cases ok) (auto simp: Expiring run_net_task_def task_expire_def Let_def split: option.splits if_splits)
next
  case (Report i c r)
  then have i: "i < length (nt_lives n)" using assms(2) by simp
  show ?thesis using assms(3) call_made[OF assms(1) i] by (auto simp: Report run_net_task_def task_report_def)
qed

lemma loops_kept:
  assumes "kept I D n" "i < length (nt_lives n)"
  shows "loop_queue i c n = Some n' \<Longrightarrow> kept I D n'" "loop_sent i outcome n = Some n' \<Longrightarrow> kept I D n'"
    "loop_receive target commands i nonce m n = Some n' \<Longrightarrow> kept I D n'"
proof -
  let ?l = "nt_lives n ! i"
  note I = at[OF assms]
  have keep: "kept I D (put_live i (?l\<lparr>lv_todo := t\<rparr>) n)" "kept I D (put_live i (?l\<lparr>lv_phase := Ending\<rparr>) n)"
    "kept I D (put_live i (?l\<lparr>lv_queueing := None, lv_todo := t\<rparr>) n)" for t
    by (rule put[OF assms same[OF I]]; simp)+
  have lost: "kept I D (put_live i ((removePending d ?l)\<lparr>lv_queueing := None, lv_phase := Ending\<rparr>) n)"
    "kept I D (put_live i ((revoke (removePending d ?l))\<lparr>lv_queueing := None, lv_phase := Ending\<rparr>) n)" for d
    by (rule put[OF assms same[OF removed[OF I]]]; simp)+
  show "loop_queue i c n = Some n' \<Longrightarrow> kept I D n'"
    using keep registered_put(1)[OF assms _ plain] by (auto simp: loop_queue_def Let_def split: list.splits if_splits)
  show "loop_sent i outcome n = Some n' \<Longrightarrow> kept I D n'"
    using keep lost by (auto simp: loop_sent_def Let_def split: option.splits if_splits)
  obtain l' calls where r: "receive target commands nonce m ?l = (l', calls)" by fastforce
  have "kept I D (tell i calls (put_live i l' n))"
  proof (rule kept_step[OF assms, where l = l' and cs = calls])
    show "I l' (calls_of i n @ calls)" by (rule received[OF I r])
    show "D ?l cmd p \<Longrightarrow> D l' cmd p" for cmd p by (erule later) (rule ready_receive[OF r])
  qed (simp_all add: tell_def put_live_def)
  then show "loop_receive target commands i nonce m n = Some n' \<Longrightarrow> kept I D n'"
    using keep by (auto simp: loop_receive_def Let_def r split: if_splits)
qed

lemma opened:
  assumes "kept I D n"
  shows "kept I D (register_session agent host n)"
proof -
  let ?n = "register_session agent host n"
  have lives: "nt_lives ?n = nt_lives n @ [new_live agent host (nt_nextEpoch n + 1)]" and rest: "nt_calls ?n = nt_calls n" "nt_tasks ?n = nt_tasks n"
    by (simp_all add: register_session_def Let_def)
  have "calls_of (length (nt_lives n)) n = []" using assms by (auto simp: kept_def calls_of_def filter_empty_conv)
  then have "I (nt_lives ?n ! i) (calls_of i ?n)" if "i < length (nt_lives ?n)" for i
    using that assms created by (cases "i = length (nt_lives n)") (auto simp: lives rest kept_def calls_of_def nth_append)
  moreover have "known_task D ?n t" if "known_task D n t" for t using that by (cases t) (auto simp: lives nth_append)
  moreover have "\<forall>x\<in>set (nt_calls ?n). fst x < length (nt_lives ?n)" using assms by (auto simp: kept_def lives rest)
  ultimately show ?thesis using assms unfolding kept_def rest by blast
qed

lemma ended:
  assumes "kept I D n" "i < length (nt_lives n)"
  shows "kept I D (finish_session i n)"
proof (rule kept_step[OF assms, where l = "(revoke (nt_lives n ! i))\<lparr>lv_phase := Ended\<rparr>" and cs = "[([], SessionDisconnected (lv_info (nt_lives n ! i)))]"])
  show "I ((revoke (nt_lives n ! i))\<lparr>lv_phase := Ended\<rparr>) (calls_of i n @ [([], SessionDisconnected (lv_info (nt_lives n ! i)))])"
    using same[OF told[OF at[OF assms]]] by simp
qed (auto simp: finish_session_def tell_def put_live_def Let_def intro: later)

lemma greeted:
  assumes "kept I D n" "i < length (nt_lives n)"
  shows "kept I D (greet i ok n)"
proof -
  have p: "kept I D (put_live i ((nt_lives n ! i)\<lparr>lv_phase := ph, lv_todo := t\<rparr>) n)" "kept I D (put_live i ((nt_lives n ! i)\<lparr>lv_phase := ph\<rparr>) n)" for ph t
    by (rule put[OF assms same[OF at[OF assms]]]; simp)+
  then show ?thesis using assms(2) by (auto simp: greet_def Let_def intro!: call_made) (simp add: put_live_def)
qed

lemma begun:
  assumes "kept I D n" "table n"
  shows "kept I D (SendRuntime_begin uni info r c n)" "kept I D (SendMaintenanceHold_begin info a v c n)" "kept I D (replace_session host n)"
proof -
  have i: "i < length (nt_lives n)" if "nt_sessions n h = Some i" for h i by (rule tableD(1)[OF assms(2) that])
  have p: "kept I D (put_live i (revoke (nt_lives n ! i)) n)" if "nt_sessions n h = Some i" for h i
    by (rule put[OF assms(1) i[OF that] same[OF at[OF assms(1) i[OF that]]]]) simp_all
  show "kept I D (SendRuntime_begin uni info r c n)" using assms(1) i p runtime
    by (simp add: SendRuntime_begin_def Let_def task_added ready_def split: option.split sum.split)
  show "kept I D (SendMaintenanceHold_begin info a v c n)" using assms(1) i hold
    by (simp add: SendMaintenanceHold_begin_def Let_def task_added split: option.split)
  show "kept I D (replace_session host n)" using assms(1) p by (simp add: replace_session_def split: option.split)
qed

lemma move_kept:
  assumes k: "kept I D n" and t: "table n" and m: "net_move uni target commands m n = Some n'"
  shows "kept I D n'"
proof (cases m)
  case (NReplace host)
  then show ?thesis using m begun(3)[OF k t] by auto
next
  case (NRegister agent host)
  then show ?thesis using m opened[OF k] by (auto simp: only_if_def split: if_splits)
next
  case (NGreet i ok)
  then show ?thesis using m greeted[OF k] by (auto simp: only_if_def in_phase_def split: if_splits)
next
  case (NQueue i c)
  then show ?thesis using m loops_kept(1)[OF k] by (auto simp: in_phase_def split: if_splits)
next
  case (NQueued i outcome)
  then show ?thesis using m loops_kept(2)[OF k] by (auto simp: in_phase_def split: if_splits)
next
  case (NTransmit i ok)
  then show ?thesis using m put[OF k _ transmitted[OF at[OF k]]] by (auto simp: only_if_def split: if_splits)
next
  case (NReceive i nonce message)
  then show ?thesis using m loops_kept(3)[OF k] by (auto simp: in_phase_def split: if_splits)
next
  case (NEnd i)
  then show ?thesis using m put[OF k _ same[OF at[OF k]]] by (auto simp: only_if_def in_phase_def split: if_splits)
next
  case (NFinish i)
  then show ?thesis using m ended[OF k] by (auto simp: only_if_def in_phase_def split: if_splits)
next
  case (NRuntime info r c)
  then show ?thesis using m begun(1)[OF k t] by auto
next
  case (NHold info a v c)
  then show ?thesis using m begun(2)[OF k t] by auto
next
  case (NTask j ok err)
  have "known_task D (drop_task j n) (nt_tasks n ! j)" if "j < length (nt_tasks n)"
  proof -
    have "known_task D (drop_task j n) u = known_task D n u" for u by (cases u) (simp_all add: drop_task_def)
    then show ?thesis using k nth_mem[OF that] by (auto simp: kept_def)
  qed
  then show ?thesis using NTask m tasks_kept[OF task_dropped[OF k]] by (auto split: if_splits)
qed

lemma moves_kept: "kept I D n \<Longrightarrow> table n \<Longrightarrow> net_moves uni target commands ms n = Some n' \<Longrightarrow> kept I D n'"
  by (induction ms arbitrary: n) (auto intro: move_kept table_move split: option.splits)

lemma reached:
  assumes "net_moves uni target commands ms net_start = Some n" "i < length (nt_lives n)"
  shows "I (nt_lives n ! i) (calls_of i n)"
proof -
  have "kept I D net_start" by (simp add: kept_def net_start_def)
  then show ?thesis by (rule at[OF moves_kept[OF _ table_start assms(1)] assms(2)])
qed

end

end
