(* ===== verification/Net_Results.thy ===== *)
theory Net_Results
  imports Net_Table
begin

text \<open>
  The results of runtime commands. A command that was numbered in a session is a token: it is pending, or its timer has
  to report it, or its result was told to the coordinator, and never more than one of these.
\<close>

section \<open>Tokens\<close>

definition numbered :: "uint64 \<Rightarrow> RuntimeRequest \<Rightarrow> bool" where
  "numbered q r \<longleftrightarrow> rq_DispatchSequence r = q"

fun outcome_of :: "uint64 \<Rightarrow> HandlerCall \<Rightarrow> bool" where
  "outcome_of q (RuntimeResult info r obs err) = numbered q r"
| "outcome_of q call = False"

definition told :: "nat \<Rightarrow> uint64 \<Rightarrow> (nat \<times> string \<times> HandlerCall) list \<Rightarrow> nat" where
  "told i q calls = length (filter (\<lambda>(j, c, call). j = i \<and> outcome_of q call) calls)"

definition expected :: "uint64 \<Rightarrow> pendingCommand \<Rightarrow> bool" where
  "expected q p = (case pc_request p of None \<Rightarrow> False | Some r \<Rightarrow> numbered q r)"

definition held :: "uint64 \<Rightarrow> live \<Rightarrow> nat" where
  "held q l = length (filter (\<lambda>(c, p). expected q p) (lv_pending l))"

fun due_task :: "nat \<Rightarrow> uint64 \<Rightarrow> NetTask \<Rightarrow> bool" where
  "due_task i q (Report j c r) = (j = i \<and> numbered q r)"
| "due_task i q t = False"

definition due :: "nat \<Rightarrow> uint64 \<Rightarrow> NetTask list \<Rightarrow> nat" where
  "due i q ts = length (filter (due_task i q) ts)"

definition tokens :: "nat \<Rightarrow> uint64 \<Rightarrow> Net \<Rightarrow> nat" where
  "tokens i q n = told i q (nt_calls n) + (if i < length (nt_lives n) then held q (nt_lives n ! i) else 0) + due i q (nt_tasks n)"

fun task_session :: "NetTask \<Rightarrow> nat" where
  "task_session (Dispatch i c command p) = i"
| "task_session (Await i c p) = i"
| "task_session (AwaitAnswer i c) = i"
| "task_session (Expiring i c q) = i"
| "task_session (Report i c r) = i"

definition sound_session :: "nat \<Rightarrow> Net \<Rightarrow> bool" where
  "sound_session i n \<longleftrightarrow> (let l = nt_lives n ! i in length (lv_ids l) < 2 ^ 64 \<longrightarrow>
     unat (lv_runtimeSequence l) \<le> length (lv_ids l)
     \<and> (\<forall>q. tokens i q n \<le> 1 \<and> (lv_runtimeSequence l < q \<longrightarrow> tokens i q n = 0)))"

definition sound :: "Net \<Rightarrow> bool" where
  "sound n \<longleftrightarrow> (\<forall>t\<in>set (nt_tasks n). task_session t < length (nt_lives n))
     \<and> (\<forall>i<length (nt_lives n). sound_session i n) \<and> (\<forall>i q. length (nt_lives n) \<le> i \<longrightarrow> tokens i q n = 0)"

lemma told_append [simp]: "told i q (xs @ ys) = told i q xs + told i q ys"
  by (simp add: told_def)

lemma told_nil [simp]: "told i q [] = 0"
  by (simp add: told_def)

lemma told_pairs: "told j q (map (Pair i) calls) = (if j = i then length (filter (outcome_of q \<circ> snd) calls) else 0)"
  by (induction calls) (auto simp: told_def comp_def)

lemma due_append [simp]: "due i q (xs @ ys) = due i q xs + due i q ys"
  by (simp add: due_def)

lemma due_cons [simp]: "due i q (t # ts) = (if due_task i q t then 1 else 0) + due i q ts"
  by (simp add: due_def)

lemma due_nil [simp]: "due i q [] = 0"
  by (simp add: due_def)

lemma due_drop: "k < length ts \<Longrightarrow> due i q (take k ts @ drop (Suc k) ts) + (if due_task i q (ts ! k) then 1 else 0) = due i q ts"
  by (subst (3) id_take_nth_drop[of k ts]) simp_all

section \<open>What one session does\<close>

lemma held_same: "lv_pending l' = lv_pending l \<Longrightarrow> held q l' = held q l"
  by (simp add: held_def)

lemma filter_conj_le: "length (filter (\<lambda>x. Q x \<and> P x) xs) \<le> length (filter P xs)"
  by (induction xs) auto

lemma held_delete: "map_of (lv_pending l) c = Some p \<Longrightarrow> held q (removePending c l) + (if expected q p then 1 else 0) \<le> held q l"
proof -
  assume m: "map_of (lv_pending l) c = Some p"
  have "map_of xs c = Some p \<Longrightarrow> length (filter (\<lambda>(c, p). expected q p) (filter (\<lambda>x. c \<noteq> fst x) xs)) + (if expected q p then 1 else 0)
      \<le> length (filter (\<lambda>(c, p). expected q p) xs)" for xs
    by (induction xs) (auto intro: filter_conj_le split: if_splits)
  from this[OF m] show ?thesis by (simp add: held_def removePending_def AList.delete_eq case_prod_beta')
qed

lemma held_remove: "held q (removePending c l) \<le> held q l"
proof -
  have "length (filter P (filter Q xs)) \<le> length (filter P xs)" for P Q and xs :: "(string \<times> pendingCommand) list"
    by (induction xs) auto
  then show ?thesis by (simp add: held_def removePending_def AList.delete_eq del: filter_filter)
qed

lemma held_update: "length (filter (\<lambda>(c, p). expected q p) (AList.update c p xs)) \<le> length (filter (\<lambda>(c, p). expected q p) xs) + (if expected q p then 1 else 0)"
  by (induction xs) auto

lemma register_fields:
  "lv_runtimeSequence (fst (send_register c cmd p l)) = (if pc_request p = None then lv_runtimeSequence l else lv_runtimeSequence l + 1)"
  "lv_ids (fst (send_register c cmd p l)) = lv_ids l @ [c]"
  by (simp_all add: send_register_def Let_def)

lemma held_register:
  "held q (fst (send_register c cmd p l)) \<le> held q l + (if pc_request p \<noteq> None \<and> q = lv_runtimeSequence l + 1 then 1 else 0)"
proof -
  let ?p = "snd (send_register c cmd p l)"
  have "lv_pending (fst (send_register c cmd p l)) = AList.update c ?p (lv_pending l)"
    "expected q ?p \<longleftrightarrow> pc_request p \<noteq> None \<and> q = lv_runtimeSequence l + 1"
    by (cases "pc_request p"; auto simp: send_register_def Let_def expected_def numbered_def)+
  then show ?thesis using held_update[of q c ?p "lv_pending l"] by (simp add: held_def)
qed

lemma handle_pending [simp]: "lv_pending (fst (handle_result nonce c p r l)) = lv_pending l"
  "lv_runtimeSequence (fst (handle_result nonce c p r l)) = lv_runtimeSequence l" "lv_ids (fst (handle_result nonce c p r l)) = lv_ids l"
  by (rule handle_rule; simp add: result_defs answer_def Let_def split: CommandResult.split option.split sum.split)+

lemma after_pending [simp]: "lv_pending (fst (after_result target commands l)) = lv_pending l"
  "lv_runtimeSequence (fst (after_result target commands l)) = lv_runtimeSequence l" "lv_ids (fst (after_result target commands l)) = lv_ids l"
  by (auto simp: after_result_def Let_def)

lemma runtime_told [simp]:
  "filter (outcome_of q) (runtime_result l p obs err) = (if expected q p then [RuntimeResult (lv_info l) (the (pc_request p)) obs err] else [])"
  by (simp add: runtime_result_def expected_def split: option.split)

lemma quiet_results [simp]:
  "filter (outcome_of q) (snd (status_result r l)) = []" "filter (outcome_of q) (snd (inventory_result r l)) = []"
  "filter (outcome_of q) (snd (executions_result nonce p r l)) = []" "filter (outcome_of q) (snd (processes_result r l)) = []"
  "snd (hold_result c p r l) = []"
  by (simp_all add: status_result_def inventory_result_def executions_result_def processes_result_def hold_result_def Let_def
      split: CommandResult.split sum.split)

lemma execution_told: "length (filter (outcome_of q) (snd (execution_result p r l))) \<le> (if expected q p then 1 else 0)"
  by (simp add: execution_result_def Let_def split: CommandResult.split option.split sum.split)

lemma handle_told: "length (filter (outcome_of q) (snd (handle_result nonce c p r l))) \<le> (if expected q p then 1 else 0)"
  by (rule handle_rule) (simp_all add: execution_told)

lemma after_told: "filter (outcome_of q) (snd (after_result target commands l)) = []"
  by (simp add: after_result_def Let_def)

lemma receive_tokens:
  assumes "receive target commands nonce m l = (l', calls)"
  shows "length (filter (outcome_of q \<circ> snd) calls) + held q l' \<le> held q l" "lv_runtimeSequence l' = lv_runtimeSequence l" "lv_ids l' = lv_ids l"
proof -
  have f: "filter (outcome_of q \<circ> snd) (map (Pair c) cs) = map (Pair c) (filter (outcome_of q) cs)" for c and cs :: "HandlerCall list"
    by (simp add: filter_map comp_def)
  show "length (filter (outcome_of q \<circ> snd) calls) + held q l' \<le> held q l"
    using assms
  proof (cases rule: receive_cases)
    case (idle todo)
    then show ?thesis by (simp add: held_def)
  next
    case (error c r p calls1)
    have "held q l' = held q (removePending c l)" using handle_pending(1)[of nonce c p r "removePending c l"] error(3) by (simp add: held_def)
    then show ?thesis using held_delete[OF error(2), of q] handle_told[of q nonce c p r "removePending c l"] error(3,4) by (simp add: f)
  next
    case (result c r p l1 calls1 calls2)
    have "held q l' = held q (removePending c l)"
      using handle_pending(1)[of nonce c p r "removePending c l"] after_pending(1)[of target commands l1] result(3,4) by (simp add: held_def)
    then show ?thesis
      using held_delete[OF result(2), of q] handle_told[of q nonce c p r "removePending c l"] after_told[of q target commands l1] result(3-5)
      by (simp add: f del: map_append)
  qed
  show "lv_runtimeSequence l' = lv_runtimeSequence l"
    by (rule receive_keeps[OF assms]) (simp_all add: removePending_def)
  show "lv_ids l' = lv_ids l"
    by (rule receive_keeps[OF assms]) (simp_all add: removePending_def)
qed

section \<open>Steps of the machine\<close>

lemma sound_session_mono:
  assumes "sound_session j n" "nt_lives n' ! j = nt_lives n ! j" "\<And>q. tokens j q n' \<le> tokens j q n"
  shows "sound_session j n'"
proof -
  have "tokens j q n \<le> 1 \<Longrightarrow> tokens j q n' \<le> 1" "tokens j q n = 0 \<Longrightarrow> tokens j q n' = 0" for q using assms(3)[of q] by simp_all
  then show ?thesis using assms(1,2) by (auto simp: sound_session_def Let_def)
qed

text \<open>A step of session \<open>i\<close> that opens no session: \<open>fresh q\<close> counts the command it numbers.\<close>

lemma sound_step:
  assumes s: "sound n" and i: "i < length (nt_lives n)" and l: "nt_lives n' = (nt_lives n)[i := l]"
    and tasks: "\<forall>t\<in>set (nt_tasks n'). t \<in> set (nt_tasks n) \<or> task_session t = i"
    and others: "\<And>j q. j \<noteq> i \<Longrightarrow> told j q (nt_calls n') + due j q (nt_tasks n') \<le> told j q (nt_calls n) + due j q (nt_tasks n)"
    and own: "\<And>q. told i q (nt_calls n') + held q l + due i q (nt_tasks n')
        \<le> told i q (nt_calls n) + held q (nt_lives n ! i) + due i q (nt_tasks n) + (if fresh q then 1 else 0)"
    and seq: "(\<not> (\<exists>q. fresh q) \<and> lv_runtimeSequence l = lv_runtimeSequence (nt_lives n ! i) \<and> length (lv_ids (nt_lives n ! i)) \<le> length (lv_ids l))
        \<or> ((\<forall>q. fresh q \<longleftrightarrow> q = lv_runtimeSequence (nt_lives n ! i) + 1) \<and> lv_runtimeSequence l = lv_runtimeSequence (nt_lives n ! i) + 1
          \<and> Suc (length (lv_ids (nt_lives n ! i))) \<le> length (lv_ids l))"
  shows "sound n'"
proof -
  have own': "tokens i q n' \<le> tokens i q n + (if fresh q then 1 else 0)" for q
    using own[of q] i l by (simp add: tokens_def)
  have others': "tokens j q n' \<le> tokens j q n" if "j \<noteq> i" for j q
    using others[OF that, of q] that by (simp add: tokens_def l)
  have "sound_session i n'"
    unfolding sound_session_def Let_def
  proof (intro impI)
    assume "length (lv_ids (nt_lives n' ! i)) < 2 ^ 64"
    then have short: "length (lv_ids l) < 2 ^ 64" "length (lv_ids (nt_lives n ! i)) < 2 ^ 64" using seq i by (auto simp: l)
    then have old: "unat (lv_runtimeSequence (nt_lives n ! i)) \<le> length (lv_ids (nt_lives n ! i))"
      "\<And>q. tokens i q n \<le> 1" "\<And>q. lv_runtimeSequence (nt_lives n ! i) < q \<Longrightarrow> tokens i q n = 0"
      using s i by (auto simp: sound_def sound_session_def Let_def)
    from seq have "unat (lv_runtimeSequence l) \<le> length (lv_ids l) \<and> (\<forall>q. tokens i q n' \<le> 1 \<and> (lv_runtimeSequence l < q \<longrightarrow> tokens i q n' = 0))"
    proof (elim disjE conjE)
      assume "\<not> (\<exists>q. fresh q)" "lv_runtimeSequence l = lv_runtimeSequence (nt_lives n ! i)" "length (lv_ids (nt_lives n ! i)) \<le> length (lv_ids l)"
      moreover from this have le: "tokens i q n' \<le> tokens i q n" for q using own'[of q] by simp
      moreover have "tokens i q n' \<le> 1" for q using le[of q] old(2)[of q] by linarith
      moreover have "tokens i q n' = 0" if "lv_runtimeSequence (nt_lives n ! i) < q" for q using le[of q] old(3)[OF that] by linarith
      ultimately show ?thesis using old(1) by simp
    next
      assume f: "\<forall>q. fresh q \<longleftrightarrow> q = lv_runtimeSequence (nt_lives n ! i) + 1" and e: "lv_runtimeSequence l = lv_runtimeSequence (nt_lives n ! i) + 1"
        and len: "Suc (length (lv_ids (nt_lives n ! i))) \<le> length (lv_ids l)"
      have "unat (lv_runtimeSequence (nt_lives n ! i)) + 1 < 2 ^ 64" using old(1) len short(1) by simp
      then have u: "unat (lv_runtimeSequence (nt_lives n ! i) + 1) = unat (lv_runtimeSequence (nt_lives n ! i)) + 1"
        by (simp add: unat_word_ariths)
      then have up: "lv_runtimeSequence (nt_lives n ! i) < lv_runtimeSequence (nt_lives n ! i) + 1" by (simp add: word_less_nat_alt)
      have "tokens i q n' \<le> 1" for q
        using own'[of q] old(2)[of q] old(3)[OF up] f by (cases "fresh q") auto
      moreover have "tokens i q n' = 0" if "lv_runtimeSequence l < q" for q
        using own'[of q] old(3)[of q] that up f e by (metis (mono_tags) add_0_right le_zero_eq less_irrefl less_trans)
      ultimately show ?thesis using u old(1) len by (simp add: e)
    qed
    then show "unat (lv_runtimeSequence (nt_lives n' ! i)) \<le> length (lv_ids (nt_lives n' ! i))
        \<and> (\<forall>q. tokens i q n' \<le> 1 \<and> (lv_runtimeSequence (nt_lives n' ! i) < q \<longrightarrow> tokens i q n' = 0))"
      using i by (simp add: l)
  qed
  moreover have "sound_session j n'" if "j \<noteq> i" "j < length (nt_lives n)" for j
  proof (rule sound_session_mono[OF _ _ others'[OF that(1)]])
    show "sound_session j n" using s that(2) by (simp add: sound_def)
    show "nt_lives n' ! j = nt_lives n ! j" using that(1) by (simp add: l)
  qed
  moreover have "tokens j q n' = 0" if "length (nt_lives n') \<le> j" for j q
    using s that others'[of j q] i by (auto simp: sound_def l)
  moreover have "\<forall>t\<in>set (nt_tasks n'). task_session t < length (nt_lives n')"
    using s tasks i by (auto simp: sound_def l)
  ultimately show ?thesis unfolding sound_def using l by (metis length_list_update)
qed

text \<open>The shape of most sections: one session changes, some calls are made, some tasks are left.\<close>

lemma sound_change:
  assumes "sound n" "i < length (nt_lives n)" "nt_lives n' = (nt_lives n)[i := l]" "nt_calls n' = nt_calls n @ map (Pair i) cs"
    and "nt_tasks n' = nt_tasks n @ ts" "\<forall>t\<in>set ts. task_session t = i"
    and "\<And>q. length (filter (outcome_of q \<circ> snd) cs) + held q l + due i q ts \<le> held q (nt_lives n ! i)"
    and "lv_runtimeSequence l = lv_runtimeSequence (nt_lives n ! i)" "lv_ids l = lv_ids (nt_lives n ! i)"
  shows "sound n'"
proof (rule sound_step[OF assms(1-3), where fresh = "\<lambda>q. False"])
  show "told j q (nt_calls n') + due j q (nt_tasks n') \<le> told j q (nt_calls n) + due j q (nt_tasks n)" if "j \<noteq> i" for j q
  proof -
    have "due j q ts = 0" using assms(6) that by (induction ts) (auto elim!: due_task.elims)
    then show ?thesis using that by (simp add: assms(4,5) told_pairs)
  qed
  show "told i q (nt_calls n') + held q l + due i q (nt_tasks n')
      \<le> told i q (nt_calls n) + held q (nt_lives n ! i) + due i q (nt_tasks n) + (if False then 1 else 0)" for q
    using assms(7)[of q] by (simp add: assms(4,5) told_pairs)
qed (use assms in auto)

lemma sound_put:
  "sound n \<Longrightarrow> i < length (nt_lives n) \<Longrightarrow> (\<And>q. held q l \<le> held q (nt_lives n ! i)) \<Longrightarrow> lv_runtimeSequence l = lv_runtimeSequence (nt_lives n ! i)
    \<Longrightarrow> lv_ids l = lv_ids (nt_lives n ! i) \<Longrightarrow> sound (put_live i l n)"
  by (rule sound_change[where i = i and l = l and cs = "[]" and ts = "[]"]) (simp_all add: put_live_def)

lemma sound_register:
  assumes "sound n" "i < length (nt_lives n)"
  shows "sound (put_live i ((fst (send_register c cmd p (nt_lives n ! i)))\<lparr>lv_queueing := x\<rparr>) n)"
    "sound (put_live i (fst (send_register c cmd p (nt_lives n ! i))) n)"
proof -
  let ?l = "nt_lives n ! i" and ?fresh = "\<lambda>q. pc_request p \<noteq> None \<and> q = lv_runtimeSequence (nt_lives n ! i) + 1"
  have step: "sound (put_live i l n)" if "lv_pending l = lv_pending (fst (send_register c cmd p ?l))"
    "lv_runtimeSequence l = lv_runtimeSequence (fst (send_register c cmd p ?l))" "lv_ids l = lv_ids ?l @ [c]" for l
  proof (rule sound_step[OF assms, where fresh = ?fresh and l = l])
    show "told i q (nt_calls (put_live i l n)) + held q l + due i q (nt_tasks (put_live i l n))
      \<le> told i q (nt_calls n) + held q ?l + due i q (nt_tasks n) + (if ?fresh q then 1 else 0)" for q
      using held_register[of q c cmd p ?l] held_same[OF that(1), of q] by (simp add: put_live_def)
    show "\<not> (\<exists>q. ?fresh q) \<and> lv_runtimeSequence l = lv_runtimeSequence ?l \<and> length (lv_ids ?l) \<le> length (lv_ids l) \<or>
      (\<forall>q. ?fresh q \<longleftrightarrow> q = lv_runtimeSequence ?l + 1) \<and> lv_runtimeSequence l = lv_runtimeSequence ?l + 1
        \<and> Suc (length (lv_ids ?l)) \<le> length (lv_ids l)"
      by (simp add: that register_fields)
  qed (simp_all add: put_live_def)
  show "sound (put_live i ((fst (send_register c cmd p ?l))\<lparr>lv_queueing := x\<rparr>) n)" "sound (put_live i (fst (send_register c cmd p ?l)) n)"
    by (rule step; simp add: register_fields)+
qed

lemma sound_returns [simp]: "sound (returns c r n) = sound n"
  by (simp add: returns_def sound_def sound_session_def tokens_def)

lemma sound_add_task:
  "task_session t < length (nt_lives n) \<Longrightarrow> (\<And>i q. \<not> due_task i q t) \<Longrightarrow> sound (add_task t n) = sound n"
  by (auto simp: add_task_def sound_def sound_session_def tokens_def)

lemma sound_drop: "sound n \<Longrightarrow> k < length (nt_tasks n) \<Longrightarrow> sound (drop_task k n)"
proof -
  assume s: "sound n" and k: "k < length (nt_tasks n)"
  have d: "due i q (nt_tasks (drop_task k n)) \<le> due i q (nt_tasks n)" for i q
    using due_drop[OF k, of i q] by (simp add: drop_task_def)
  then have t: "tokens i q (drop_task k n) \<le> tokens i q n" for i q
    using d[of i q] by (simp add: tokens_def drop_task_def)
  have "set (nt_tasks (drop_task k n)) \<subseteq> set (nt_tasks n)"
    by (auto simp: drop_task_def dest: in_set_takeD in_set_dropD)
  moreover have "sound_session i (drop_task k n)" if "i < length (nt_lives n)" for i
  proof (rule sound_session_mono[OF _ _ t])
    show "sound_session i n" using s that by (simp add: sound_def)
  qed simp
  moreover have "tokens i q (drop_task k n) = 0" if "length (nt_lives n) \<le> i" for i q
    using s that t[of i q] by (auto simp: sound_def)
  ultimately show ?thesis using s unfolding sound_def put_drop by blast
qed

section \<open>Every move\<close>

lemma fields_revoke [simp]: "lv_runtimeSequence (revoke l) = lv_runtimeSequence l" "lv_ids (revoke l) = lv_ids l" "held q (revoke l) = held q l"
  by (simp_all add: revoke_def held_def)

lemma fields_remove [simp]: "lv_runtimeSequence (removePending c l) = lv_runtimeSequence l" "lv_ids (removePending c l) = lv_ids l"
  by (simp_all add: removePending_def)

lemma fields_transmit [simp]: "lv_runtimeSequence (transmit ok l) = lv_runtimeSequence l" "lv_ids (transmit ok l) = lv_ids l" "held q (transmit ok l) = held q l"
  by (simp_all add: transmit_def held_def split: option.split)

lemma held_fields [simp]: "held q (l\<lparr>lv_phase := x\<rparr>) = held q l" "held q (l\<lparr>lv_todo := t\<rparr>) = held q l" "held q (l\<lparr>lv_queueing := u\<rparr>) = held q l"
  by (simp_all add: held_def)

lemma dispatch_sound:
  assumes "sound n" "i < length (nt_lives n)" "task_dispatch i c command p ok err n = Some n'"
  shows "sound n'"
proof (cases ok)
  case None
  have "sound (put_live i (revoke (nt_lives n ! i)) n)" by (rule sound_put[OF assms(1,2)]) simp_all
  then show ?thesis using assms(3) None by (auto simp: task_dispatch_def)
next
  case (Some x)
  then obtain l' p' where r: "send_register c command p (nt_lives n ! i) = (l', p')" "n' = add_task (Await i c p') (put_live i l' n)"
    using assms(3) by (auto simp: task_dispatch_def Let_def split: if_splits prod.splits)
  then show ?thesis using sound_register(2)[OF assms(1,2), of c command p] assms(2)
    by (simp add: sound_add_task put_live_def)
qed

lemma await_sound:
  assumes "sound n" "i < length (nt_lives n)" "task_await i c p outcome err n = Some n'"
  shows "sound n'"
proof -
  have r: "sound (put_live i (revoke (removePending c (nt_lives n ! i))) n)"
    by (rule sound_put[OF assms(1,2)]) (simp_all add: held_remove)
  then show ?thesis using assms
    by (cases outcome) (auto simp: task_await_def Let_def sound_add_task split: if_splits)
qed

lemma answer_sound:
  "sound n \<Longrightarrow> i < length (nt_lives n) \<Longrightarrow> task_answer i c ok err n = Some n' \<Longrightarrow> sound n'"
  by (cases ok) (auto simp: task_answer_def Let_def intro!: sound_put[of n i "revoke (nt_lives n ! i)"] split: option.splits)

lemma expire_sound:
  assumes "sound n" "i < length (nt_lives n)" "task_expire i c q fired n = Some n'"
  shows "sound n'"
proof -
  let ?l = "nt_lives n ! i"
  have removed: "sound (put_live i (removePending c ?l) n)" by (rule sound_put[OF assms(1,2)]) (simp_all add: held_remove)
  have report: "sound (add_task (Report i c r) (put_live i (removePending c ?l) n))"
    if "map_of (lv_pending ?l) c = Some p" "pc_request p = Some r" for p r
  proof (rule sound_change[OF assms(1,2), where l = "removePending c ?l" and cs = "[]" and ts = "[Report i c r]"])
    show "length (filter (outcome_of q \<circ> snd) []) + held q (removePending c ?l) + due i q [Report i c r] \<le> held q ?l" for q
      using held_delete[OF that(1), of q] that(2) by (auto simp: expected_def split: if_splits)
  qed (simp_all add: add_task_def put_live_def)
  show ?thesis using assms(1,3) removed report
    by (cases fired) (auto simp: task_expire_def Let_def split: option.splits if_splits)
qed

lemma report_sound:
  assumes "sound n" "k < length (nt_tasks n)" "nt_tasks n ! k = Report i c r"
  shows "sound (task_report i c r (drop_task k n))"
proof -
  have i: "i < length (nt_lives n)" using assms nth_mem[OF assms(2)] by (auto simp: sound_def)
  have d: "due j q (take k (nt_tasks n) @ drop (Suc k) (nt_tasks n)) + (if j = i \<and> numbered q r then 1 else 0) = due j q (nt_tasks n)" for j q
    using due_drop[OF assms(2), of j q] by (simp add: assms(3) conj_commute eq_commute)
  show ?thesis
  proof (rule sound_step[OF assms(1) i, where l = "nt_lives n ! i" and fresh = "\<lambda>q. False"])
    show "told j q (nt_calls (task_report i c r (drop_task k n))) + due j q (nt_tasks (task_report i c r (drop_task k n)))
        \<le> told j q (nt_calls n) + due j q (nt_tasks n)" if "j \<noteq> i" for j q
      using d[of j q] that by (simp add: task_report_def tell_def drop_task_def told_def)
    show "told i q (nt_calls (task_report i c r (drop_task k n))) + held q (nt_lives n ! i) + due i q (nt_tasks (task_report i c r (drop_task k n)))
        \<le> told i q (nt_calls n) + held q (nt_lives n ! i) + due i q (nt_tasks n) + (if False then 1 else 0)" for q
      using d[of i q] by (auto simp: task_report_def tell_def drop_task_def told_def)
  qed (auto simp: task_report_def tell_def drop_task_def dest: in_set_takeD in_set_dropD)
qed

lemma task_sound:
  assumes "sound n" "k < length (nt_tasks n)" "run_net_task (nt_tasks n ! k) ok err (drop_task k n) = Some n'"
  shows "sound n'"
proof -
  note s = sound_drop[OF assms(1,2)]
  have i: "task_session (nt_tasks n ! k) < length (nt_lives (drop_task k n))"
    using assms(1) nth_mem[OF assms(2)] by (simp add: sound_def)
  show ?thesis
    using assms(3) i report_sound[OF assms(1,2)]
    by (cases "nt_tasks n ! k")
      (auto simp: run_net_task_def intro: dispatch_sound[OF s] await_sound[OF s] answer_sound[OF s] expire_sound[OF s])
qed

lemma loop_sound:
  assumes "sound n" "i < length (nt_lives n)"
  shows "loop_queue i c n = Some n' \<Longrightarrow> sound n'" "loop_sent i outcome n = Some n' \<Longrightarrow> sound n'"
    "loop_receive target commands i nonce m n = Some n' \<Longrightarrow> sound n'"
proof -
  let ?l = "nt_lives n ! i"
  have keep: "sound (put_live i (?l\<lparr>lv_todo := t\<rparr>) n)" "sound (put_live i (?l\<lparr>lv_phase := Ending\<rparr>) n)"
    "sound (put_live i (?l\<lparr>lv_queueing := None, lv_todo := t\<rparr>) n)"
    "sound (put_live i ((removePending d ?l)\<lparr>lv_queueing := None, lv_phase := Ending\<rparr>) n)"
    "sound (put_live i ((revoke (removePending d ?l))\<lparr>lv_queueing := None, lv_phase := Ending\<rparr>) n)" for t d
    by (rule sound_put[OF assms]; simp add: held_remove)+
  show "loop_queue i c n = Some n' \<Longrightarrow> sound n'"
    using keep sound_register(1)[OF assms] by (auto simp: loop_queue_def Let_def split: list.splits if_splits)
  show "loop_sent i outcome n = Some n' \<Longrightarrow> sound n'"
    using keep by (auto simp: loop_sent_def Let_def split: option.splits if_splits)
  obtain l' calls where r: "receive target commands nonce m ?l = (l', calls)" by fastforce
  have "sound (tell i calls (put_live i l' n))"
    by (rule sound_change[OF assms, where l = l' and cs = calls and ts = "[]"]) (simp_all add: tell_def put_live_def receive_tokens[OF r])
  then show "loop_receive target commands i nonce m n = Some n' \<Longrightarrow> sound n'"
    using keep by (auto simp: loop_receive_def Let_def r split: if_splits)
qed

lemma sound_tell:
  assumes "sound n" "i < length (nt_lives n)" "\<And>q. filter (outcome_of q \<circ> snd) calls = []"
  shows "sound (tell i calls n)"
  by (rule sound_change[OF assms(1,2), where l = "nt_lives n ! i" and cs = calls and ts = "[]"]) (simp_all add: tell_def assms(3))

lemma greet_sound: "sound n \<Longrightarrow> i < length (nt_lives n) \<Longrightarrow> sound (greet i ok n)"
  by (auto simp: greet_def Let_def put_live_def[of _ _ n] intro!: sound_tell sound_put[unfolded put_live_def])

lemma finish_sound:
  assumes "sound n" "i < length (nt_lives n)"
  shows "sound (finish_session i n)"
  by (rule sound_change[OF assms, where l = "(revoke (nt_lives n ! i))\<lparr>lv_phase := Ended\<rparr>" and ts = "[]"
        and cs = "[([], SessionDisconnected (lv_info (nt_lives n ! i)))]"])
    (simp_all add: finish_session_def tell_def put_live_def Let_def)

lemma register_sound:
  assumes "sound n"
  shows "sound (register_session agent host n)"
proof -
  let ?n = "register_session agent host n"
  have lives: "nt_lives ?n = nt_lives n @ [new_live agent host (nt_nextEpoch n + 1)]" and rest: "nt_calls ?n = nt_calls n" "nt_tasks ?n = nt_tasks n"
    by (simp_all add: register_session_def Let_def)
  have new: "held q (new_live agent host e) = 0" "lv_runtimeSequence (new_live agent host e) = 0" for q e
    by (simp_all add: held_def new_live_def)
  have t: "tokens i q ?n = tokens i q n" for i q
    by (cases "i = length (nt_lives n)") (auto simp: tokens_def lives rest nth_append new)
  have "sound_session i ?n" if "i < length (nt_lives ?n)" for i
  proof (cases "i = length (nt_lives n)")
    case True
    then have "tokens i q ?n = 0" for q using assms by (simp add: t sound_def)
    then show ?thesis by (simp add: sound_session_def True lives new)
  next
    case False
    then have "i < length (nt_lives n)" using that by (simp add: lives)
    then have "sound_session i n" "nt_lives ?n ! i = nt_lives n ! i" using assms by (simp_all add: sound_def lives nth_append)
    then show ?thesis by (rule sound_session_mono) (simp add: t)
  qed
  moreover have "tokens i q ?n = 0" if "length (nt_lives ?n) \<le> i" for i q
    using assms that by (simp add: sound_def t lives)
  moreover have "\<forall>x\<in>set (nt_tasks ?n). task_session x < length (nt_lives ?n)"
    using assms by (auto simp: sound_def rest lives)
  ultimately show ?thesis unfolding sound_def by blast
qed

lemma begin_sound:
  assumes "sound n" "table n"
  shows "sound (SendRuntime_begin uni info r c n)" "sound (SendMaintenanceHold_begin info a v c n)" "sound (replace_session host n)"
proof -
  have i: "i < length (nt_lives n)" if "nt_sessions n h = Some i" for h i by (rule tableD(1)[OF assms(2) that])
  have p: "sound (put_live i (revoke (nt_lives n ! i)) n)" if "nt_sessions n h = Some i" for h i
    by (rule sound_put[OF assms(1) i[OF that]]) simp_all
  show "sound (SendRuntime_begin uni info r c n)" using assms(1) i p
    by (simp add: SendRuntime_begin_def Let_def sound_add_task split: option.split sum.split)
  show "sound (SendMaintenanceHold_begin info a v c n)" using assms(1) i
    by (simp add: SendMaintenanceHold_begin_def Let_def sound_add_task split: option.split)
  show "sound (replace_session host n)" using assms(1) p by (simp add: replace_session_def split: option.split)
qed

lemma move_sound:
  assumes "sound n" "table n" "net_move uni target commands m n = Some n'"
  shows "sound n'"
proof (cases m)
  case (NTask k ok err)
  then show ?thesis using assms task_sound[OF assms(1), of k ok err n'] by (auto split: if_splits)
next
  case (NTransmit i ok)
  then show ?thesis using assms sound_put[OF assms(1), of i "transmit ok (nt_lives n ! i)"] by (auto simp: only_if_def split: if_splits)
next
  case (NEnd i)
  then show ?thesis using assms sound_put[OF assms(1), of i "(nt_lives n ! i)\<lparr>lv_phase := Ending\<rparr>"]
    by (auto simp: only_if_def in_phase_def split: if_splits)
next
  case (NReplace host)
  then show ?thesis using assms(3) begin_sound(3)[OF assms(1,2)] by auto
next
  case (NRegister agent host)
  then show ?thesis using assms(3) register_sound[OF assms(1)] by (auto simp: only_if_def split: if_splits)
next
  case (NGreet i ok)
  then show ?thesis using assms(3) greet_sound[OF assms(1)] by (auto simp: only_if_def in_phase_def split: if_splits)
next
  case (NQueue i c)
  then show ?thesis using assms(3) loop_sound(1)[OF assms(1)] by (auto simp: in_phase_def split: if_splits)
next
  case (NQueued i outcome)
  then show ?thesis using assms(3) loop_sound(2)[OF assms(1)] by (auto simp: in_phase_def split: if_splits)
next
  case (NReceive i nonce message)
  then show ?thesis using assms(3) loop_sound(3)[OF assms(1)] by (auto simp: in_phase_def split: if_splits)
next
  case (NFinish i)
  then show ?thesis using assms(3) finish_sound[OF assms(1)] by (auto simp: only_if_def in_phase_def split: if_splits)
next
  case (NRuntime info r c)
  then show ?thesis using assms(3) begin_sound(1)[OF assms(1,2)] by auto
next
  case (NHold info a v c)
  then show ?thesis using assms(3) begin_sound(2)[OF assms(1,2)] by auto
qed

lemma sound_start: "sound net_start"
  by (simp add: sound_def net_start_def tokens_def)

lemma moves_sound: "sound n \<Longrightarrow> table n \<Longrightarrow> net_moves uni target commands ms n = Some n' \<Longrightarrow> sound n'"
  by (induction ms arbitrary: n) (auto intro: move_sound table_move split: option.splits)

text \<open>
  C35: in every interleaving the coordinator is told at most one result for a number that a session gave to a runtime
  command, be it an answer of the Agent or the end of the timer; the number was given in that session, and afterwards
  nothing is left that could report it again.
\<close>
theorem runtime_result_once:
  assumes "net_moves uni target commands ms net_start = Some n"
    and "i < length (nt_lives n)" "length (lv_ids (nt_lives n ! i)) < 2 ^ 64"
  shows "told i q (nt_calls n) \<le> 1
    \<and> (told i q (nt_calls n) = 1 \<longrightarrow> held q (nt_lives n ! i) = 0 \<and> due i q (nt_tasks n) = 0 \<and> q \<le> lv_runtimeSequence (nt_lives n ! i))"
proof -
  have "sound_session i n" using moves_sound[OF sound_start table_start assms(1)] assms(2) by (simp add: sound_def)
  then have "tokens i q n \<le> 1" "lv_runtimeSequence (nt_lives n ! i) < q \<Longrightarrow> tokens i q n = 0"
    using assms(3) by (auto simp: sound_session_def Let_def)
  then show ?thesis using assms(2) by (fastforce simp: tokens_def not_less[symmetric])
qed

end
