(* ===== verification/Net_Snapshots.thy ===== *)
theory Net_Snapshots
  imports Net_Invariant
begin

text \<open>
  The numbers of runtime commands and of execution snapshots within a session: what a snapshot that the coordinator is
  given with a number can and cannot have seen.
\<close>

section \<open>Numbers on the stream\<close>

definition entries :: "live \<Rightarrow> sent list" where
  "entries l = lv_stream l @ (case lv_gate l of None \<Rightarrow> [] | Some s \<Rightarrow> [s])"

definition seq_of :: "sent \<Rightarrow> uint64" where
  "seq_of s = pc_runtimeSequence (snd (snd s))"

definition is_command :: "sent \<Rightarrow> bool" where
  "is_command s \<longleftrightarrow> pc_request (snd (snd s)) \<noteq> None"

definition is_report :: "sent \<Rightarrow> bool" where
  "is_report s \<longleftrightarrow> pc_kind (snd (snd s)) = ''GET_EXECUTIONS''"

definition plain_report :: "pendingCommand \<Rightarrow> bool" where
  "plain_report p \<longleftrightarrow> (pc_kind p = ''GET_EXECUTIONS'' \<longrightarrow> pc_request p = None)"

definition precedes :: "sent \<Rightarrow> sent \<Rightarrow> bool" where
  "precedes s t \<longleftrightarrow> (is_command t \<and> (is_command s \<or> is_report s) \<longrightarrow> seq_of s < seq_of t)
     \<and> (is_command s \<and> is_report t \<longrightarrow> seq_of s \<le> seq_of t)"

text \<open>Numbers grow along the stream, as long as the counter does not wrap.\<close>

definition in_order :: "live \<Rightarrow> bool" where
  "in_order l \<longleftrightarrow> (length (lv_ids l) < 2 ^ 64 \<longrightarrow> unat (lv_runtimeSequence l) \<le> length (lv_ids l)
     \<and> sorted_wrt precedes (entries l) \<and> (\<forall>s\<in>set (entries l). is_command s \<or> is_report s \<longrightarrow> seq_of s \<le> lv_runtimeSequence l))"

text \<open>What is pending under an identifier is what was sent under it.\<close>

definition entry_ok :: "live \<Rightarrow> sent \<Rightarrow> bool" where
  "entry_ok l s \<longleftrightarrow> fst s \<in> set (lv_ids l) \<and> plain_report (snd (snd s))
     \<and> (case pc_request (snd (snd s)) of None \<Rightarrow> True | Some r \<Rightarrow> rq_DispatchSequence r = seq_of s)"

definition pending_ok :: "live \<Rightarrow> string \<times> pendingCommand \<Rightarrow> bool" where
  "pending_ok l x \<longleftrightarrow> fst x \<in> set (lv_ids l) \<and> (\<forall>s\<in>set (entries l). fst s = fst x \<longrightarrow> snd (snd s) = snd x)"

text \<open>A snapshot that was told with a number answers the request that carries the number.\<close>

fun call_ok :: "live \<Rightarrow> string \<times> HandlerCall \<Rightarrow> bool" where
  "call_ok l (c, ExecutionsObserved info obs q) = (c \<in> set (lv_ids l) \<and> (\<forall>s\<in>set (entries l). fst s = c \<longrightarrow> is_report s \<and> seq_of s = q))"
| "call_ok l (c, call) = True"

definition faithful :: "live \<Rightarrow> (string \<times> HandlerCall) list \<Rightarrow> bool" where
  "faithful l cs \<longleftrightarrow> in_order l \<and> (\<forall>s\<in>set (entries l). entry_ok l s) \<and> (\<forall>x\<in>set (lv_pending l). pending_ok l x) \<and> (\<forall>x\<in>set cs. call_ok l x)"

definition dispatchable :: "live \<Rightarrow> Command \<Rightarrow> pendingCommand \<Rightarrow> bool" where
  "dispatchable l cmd p \<longleftrightarrow> plain_report p"

lemma entry_views: "entries l' = entries l \<Longrightarrow> lv_ids l' = lv_ids l \<Longrightarrow> entry_ok l' s = entry_ok l s"
  "entries l' = entries l \<Longrightarrow> lv_ids l' = lv_ids l \<Longrightarrow> pending_ok l' x = pending_ok l x"
  by (simp_all add: entry_ok_def pending_ok_def)

lemma call_view: "entries l' = entries l \<Longrightarrow> lv_ids l' = lv_ids l \<Longrightarrow> call_ok l' x = call_ok l x"
  by (cases "(l, x)" rule: call_ok.cases) simp_all

lemma faithful_same:
  assumes "faithful l cs" "entries l' = entries l" "lv_ids l' = lv_ids l" "lv_runtimeSequence l' = lv_runtimeSequence l"
    "set (lv_pending l') \<subseteq> set (lv_pending l)"
  shows "faithful l' cs"
  using assms(1,4,5) entry_views[OF assms(2,3)] call_view[OF assms(2,3)] by (auto simp: faithful_def in_order_def assms(2,3))

lemma set_put: "set (AList.update c p xs) \<subseteq> insert (c, p) (set xs)"
  by (induction xs) auto

lemma call_other: "(\<And>info obs q. call \<noteq> ExecutionsObserved info obs q) \<Longrightarrow> call_ok l (c, call)"
  by (cases call) auto

lemma faithful_transmit:
  assumes "faithful l cs"
  shows "faithful (transmit ok l) cs"
proof (cases "lv_gate l")
  case None
  then show ?thesis using assms by (simp add: transmit_def)
next
  case (Some s)
  have e: "entries l = lv_stream l @ [s]" "entries (transmit ok l) = lv_stream l @ (if ok then [s] else [])"
    by (simp_all add: entries_def transmit_def Some)
  have f: "lv_ids (transmit ok l) = lv_ids l" "lv_runtimeSequence (transmit ok l) = lv_runtimeSequence l" "lv_pending (transmit ok l) = lv_pending l"
    by (simp_all add: transmit_def Some)
  have o: "in_order (transmit ok l)" using assms by (auto simp: faithful_def in_order_def e f sorted_wrt_append)
  have c: "call_ok l x \<Longrightarrow> call_ok (transmit ok l) x" for x
    by (cases "(l, x)" rule: call_ok.cases) (auto simp: e f split: if_splits)
  show ?thesis using assms o c by (auto simp: faithful_def e f entry_ok_def pending_ok_def)
qed

lemma faithful_register:
  assumes "faithful l cs" "can_register c l" "plain_report p"
  shows "faithful (fst (send_register c cmd p l)) cs"
proof -
  let ?l = "fst (send_register c cmd p l)" and ?p = "snd (send_register c cmd p l)"
  have g: "lv_gate l = None" "c \<notin> set (lv_ids l)" using assms(2) by (simp_all add: can_register_def)
  have e: "entries ?l = entries l @ [(c, cmd, ?p)]" by (simp add: entries_def send_register_def Let_def g)
  have f: "lv_ids ?l = lv_ids l @ [c]" "lv_pending ?l = AList.update c ?p (lv_pending l)" by (simp_all add: send_register_def Let_def)
  have old: "fst s \<noteq> c" if "s \<in> set (entries l)" for s using assms(1) that g(2) by (auto simp: faithful_def entry_ok_def)
  have seq: "lv_runtimeSequence ?l = (if pc_request p = None then lv_runtimeSequence l else lv_runtimeSequence l + 1)"
    by (simp add: send_register_def Let_def)
  have new: "is_command (c, cmd, ?p) \<longleftrightarrow> pc_request p \<noteq> None" "is_command (c, cmd, ?p) \<or> is_report (c, cmd, ?p) \<Longrightarrow> seq_of (c, cmd, ?p) = lv_runtimeSequence ?l"
    using assms(3) by (auto simp: is_command_def is_report_def seq_of_def send_register_def Let_def plain_report_def split: option.splits)
  have own: "entry_ok ?l (c, cmd, ?p)" "plain_report ?p"
    using assms(3) by (auto simp: entry_ok_def f seq_of_def send_register_def Let_def plain_report_def split: option.splits)
  have "in_order ?l" unfolding in_order_def
  proof (intro impI)
    assume short: "length (lv_ids ?l) < 2 ^ 64"
    then have b: "unat (lv_runtimeSequence l) \<le> length (lv_ids l)" "sorted_wrt precedes (entries l)"
      "\<And>s. s \<in> set (entries l) \<Longrightarrow> is_command s \<or> is_report s \<Longrightarrow> seq_of s \<le> lv_runtimeSequence l"
      using assms(1) by (auto simp: faithful_def in_order_def f)
    have "unat (lv_runtimeSequence l) + 1 < 2 ^ 64" using b(1) short by (simp add: f)
    then have u: "unat (lv_runtimeSequence l + 1) = unat (lv_runtimeSequence l) + 1" by (simp add: unat_word_ariths)
    then have up: "lv_runtimeSequence l < lv_runtimeSequence l + 1" by (simp add: word_less_nat_alt)
    have before: "precedes s (c, cmd, ?p)" if "s \<in> set (entries l)" for s
      using b(3)[OF that] new up by (auto simp: precedes_def seq split: if_splits)
    have "unat (lv_runtimeSequence ?l) \<le> length (lv_ids ?l)" using b(1) u by (simp add: seq f)
    moreover have "seq_of s \<le> lv_runtimeSequence ?l" if "s \<in> set (entries ?l)" "is_command s \<or> is_report s" for s
      using b(3)[of s] that new(2) up unfolding e seq by (auto split: if_splits)
    ultimately show "unat (lv_runtimeSequence ?l) \<le> length (lv_ids ?l) \<and> sorted_wrt precedes (entries ?l)
        \<and> (\<forall>s\<in>set (entries ?l). is_command s \<or> is_report s \<longrightarrow> seq_of s \<le> lv_runtimeSequence ?l)"
      using before b(2) by (simp add: e sorted_wrt_append)
  qed
  moreover have "\<forall>s\<in>set (entries ?l). entry_ok ?l s"
    using own(1) assms(1) by (auto simp: e faithful_def entry_ok_def f)
  moreover have "\<forall>x\<in>set (lv_pending ?l). pending_ok ?l x"
  proof
    fix x assume "x \<in> set (lv_pending ?l)"
    then have "x = (c, ?p) \<or> x \<in> set (lv_pending l)" using set_put[of c ?p "lv_pending l"] by (auto simp: f)
    then show "pending_ok ?l x"
      using assms(1) old g(2) by (auto simp: pending_ok_def e f faithful_def)
  qed
  moreover have "\<forall>x\<in>set cs. call_ok ?l x"
  proof
    fix x assume "x \<in> set cs"
    then have "call_ok l x" using assms(1) by (simp add: faithful_def)
    then show "call_ok ?l x" using g(2) by (cases "(l, x)" rule: call_ok.cases) (auto simp: e f)
  qed
  ultimately show ?thesis by (simp add: faithful_def)
qed

lemma handled_report: "(\<forall>info obs q. ExecutionsObserved info obs q \<in> set (snd (handle_result nonce c p r l))
    \<longrightarrow> pc_kind p = ''GET_EXECUTIONS'' \<and> q = pc_runtimeSequence p)"
  by (rule handle_rule)
    (auto simp: result_defs runtime_result_def Let_def split: CommandResult.split option.split sum.split)

lemma handled_entries: "entries (fst (handle_result nonce c p r l)) = entries l"
  "lv_ids (fst (handle_result nonce c p r l)) = lv_ids l" "lv_runtimeSequence (fst (handle_result nonce c p r l)) = lv_runtimeSequence l"
  "lv_pending (fst (handle_result nonce c p r l)) = lv_pending l"
  by (rule handle_rule; auto simp: result_defs entries_def answer_def Let_def split: CommandResult.split option.split sum.split)+

lemma after_entries: "entries (fst (after_result target commands l)) = entries l" "lv_ids (fst (after_result target commands l)) = lv_ids l"
  "lv_runtimeSequence (fst (after_result target commands l)) = lv_runtimeSequence l" "lv_pending (fst (after_result target commands l)) = lv_pending l"
  by (simp_all add: after_result_def entries_def Let_def)

lemma remove_entries: "entries (removePending c l) = entries l" "lv_ids (removePending c l) = lv_ids l"
  "lv_runtimeSequence (removePending c l) = lv_runtimeSequence l" "set (lv_pending (removePending c l)) \<subseteq> set (lv_pending l)"
  by (auto simp: removePending_def entries_def AList.delete_eq)

lemma faithful_answered:
  assumes f: "faithful l cs" and p: "map_of (lv_pending l) c = Some p"
    and l: "entries l' = entries l" "lv_ids l' = lv_ids l" "lv_runtimeSequence l' = lv_runtimeSequence l" "set (lv_pending l') \<subseteq> set (lv_pending l)"
    and r: "\<And>info obs q. ExecutionsObserved info obs q \<in> set calls \<Longrightarrow> pc_kind p = ''GET_EXECUTIONS'' \<and> q = pc_runtimeSequence p"
  shows "faithful l' (cs @ map (Pair c) calls)"
proof -
  have o: "pending_ok l (c, p)" using f map_of_SomeD[OF p] by (auto simp: faithful_def)
  have "call_ok l (c, call)" if "call \<in> set calls" for call
  proof (cases "\<exists>info obs q. call = ExecutionsObserved info obs q")
    case True
    then show ?thesis using r that o by (auto simp: pending_ok_def is_report_def seq_of_def)
  next
    case False
    then show ?thesis by (auto intro: call_other)
  qed
  then have "faithful l (cs @ map (Pair c) calls)" using f by (auto simp: faithful_def)
  then show ?thesis by (rule faithful_same[OF _ l])
qed

lemma faithful_receive:
  assumes "faithful l cs" "receive target commands nonce m l = (l', calls)"
  shows "faithful l' (cs @ calls)"
  using assms(2)
proof (cases rule: receive_cases)
  case (idle todo)
  then show ?thesis using faithful_same[OF assms(1), of l'] by (simp add: entries_def)
next
  case (error c r p calls1)
  note h = handled_entries[of nonce c p r "removePending c l", unfolded error(3) fst_conv]
  show ?thesis unfolding error(4)
    by (rule faithful_answered[OF assms(1) error(2)])
      (use h remove_entries[of c l] handled_report[of nonce c p r "removePending c l"] error(3) in auto)
next
  case (result c r p l1 calls1 calls2)
  note h = handled_entries[of nonce c p r "removePending c l", unfolded result(3) fst_conv]
  note a = after_entries[of target commands l1, unfolded result(4) fst_conv]
  have "set calls2 \<subseteq> range SessionReady" using result(4) by (auto simp: after_result_def Let_def split: if_splits)
  then have "ExecutionsObserved info obs q \<notin> set calls2" for info obs q by auto
  then show ?thesis unfolding result(5)
    by (intro faithful_answered[OF assms(1) result(2)])
      (use h a remove_entries[of c l] handled_report[of nonce c p r "removePending c l"] result(3) in auto)
qed

lemma faithful_bare: "faithful l cs \<Longrightarrow> bare_call call \<Longrightarrow> faithful l (cs @ [(d, call)])"
  by (cases call) (auto simp: faithful_def)

lemma runtime_kind: "runtime_command uni r = Inr cmd \<Longrightarrow> commandKind cmd \<noteq> ''GET_EXECUTIONS''"
  by (auto simp: runtime_command_def guard_def andThen_def split: option.splits RuntimeKind.splits sum.splits)

interpretation snapshots: session_invariant faithful dispatchable
proof unfold_locales
  show "faithful (new_live agent host epoch) []" for agent host epoch
    by (simp add: faithful_def new_live_def entries_def in_order_def)
  show "faithful l cs \<Longrightarrow> can_register c l \<Longrightarrow> dispatchable l cmd p \<Longrightarrow> faithful (fst (send_register c cmd p l)) cs" for l cs c cmd p
    by (rule faithful_register) (simp_all add: dispatchable_def)
  show "dispatchable l cmd (plain_pending cmd)" for l cmd by (simp add: dispatchable_def plain_report_def plain_pending_def)
  show "ready l \<Longrightarrow> runtime_command uni r = Inr cmd \<Longrightarrow> dispatchable l cmd (runtime_pending cmd r)" for l uni r cmd
    using runtime_kind by (auto simp: dispatchable_def plain_report_def runtime_pending_def plain_pending_def)
  show "dispatchable l (CmdMaintenanceHold active revision) (hold_pending active revision)" for l active revision
    by (simp add: dispatchable_def plain_report_def hold_pending_def plain_pending_def)
  show "dispatchable l cmd p \<Longrightarrow> (ready l \<Longrightarrow> ready l') \<Longrightarrow> dispatchable l' cmd p" for l l' cmd p by (simp add: dispatchable_def)
  show "faithful l cs \<Longrightarrow> faithful (removePending c l) cs" for l cs c by (rule faithful_same[OF _ remove_entries])
  show "faithful l cs \<Longrightarrow> core l' = core l \<Longrightarrow> faithful l' cs" for l l' cs
    by (erule faithful_same) (simp_all add: core_def entries_def)
qed (fact faithful_transmit faithful_bare faithful_receive)+

section \<open>The property\<close>

text \<open>
  C34: when the coordinator is told a snapshot of the executions with the number \<open>q\<close>, and the request that this
  snapshot answers is entry \<open>k\<close> of the stream, then of the runtime commands on the stream exactly those numbered up to
  \<open>q\<close> were written before it, and the others after it; numbers of runtime commands grow strictly along the stream.
\<close>
theorem snapshot_sequence_exact:
  assumes "net_moves uni target commands ms net_start = Some n"
    and "(i, c, ExecutionsObserved info obs q) \<in> set (nt_calls n)" and "length (lv_ids (nt_lives n ! i)) < 2 ^ 64"
    and "k < length (lv_stream (nt_lives n ! i))" "lv_stream (nt_lives n ! i) ! k = (c, cmd, p)"
    and "j < length (lv_stream (nt_lives n ! i))" "lv_stream (nt_lives n ! i) ! j = (d, cmd', p')" "pc_request p' = Some r"
  shows "(rq_DispatchSequence r \<le> q \<longleftrightarrow> j < k) \<and> (j < m \<and> m < length (lv_stream (nt_lives n ! i))
    \<and> lv_stream (nt_lives n ! i) ! m = (e, cmd'', p'') \<and> pc_request p'' = Some r' \<longrightarrow> rq_DispatchSequence r < rq_DispatchSequence r')"
proof -
  let ?l = "nt_lives n ! i" and ?s = "lv_stream (nt_lives n ! i)"
  have "kept faithful dispatchable n"
    by (rule snapshots.moves_kept[OF _ table_start assms(1)]) (simp add: kept_def net_start_def)
  then have i: "i < length (nt_lives n)" using assms(2) by (fastforce simp: kept_def)
  have f: "faithful ?l (calls_of i n)" by (rule snapshots.reached[OF assms(1) i])
  have m: "x \<in> set (entries ?l)" if "x \<in> set ?s" for x using that by (simp add: entries_def)
  have "(c, ExecutionsObserved info obs q) \<in> set (calls_of i n)" using assms(2) by (force simp: calls_of_def)
  then have ck: "is_report (?s ! k) \<and> seq_of (?s ! k) = q"
    using f m[OF nth_mem[OF assms(4)]] assms(5) by (fastforce simp: faithful_def)
  have no: "\<not> is_command (?s ! k)"
    using f m[OF nth_mem[OF assms(4)]] ck by (auto simp: faithful_def entry_ok_def plain_report_def is_report_def is_command_def)
  have number: "rq_DispatchSequence r = seq_of x" if "x \<in> set ?s" "pc_request (snd (snd x)) = Some r" for x r
    using f m[OF that(1)] that(2) by (force simp: faithful_def entry_ok_def)
  have o: "sorted_wrt precedes ?s" using f assms(3) by (auto simp: faithful_def in_order_def entries_def sorted_wrt_append)
  have cj: "is_command (?s ! j)" "rq_DispatchSequence r = seq_of (?s ! j)"
    using assms(7,8) number[OF nth_mem[OF assms(6)]] by (simp_all add: is_command_def)
  have "seq_of (?s ! j) \<le> q" if "j < k" using sorted_wrt_nth_less[OF o that assms(4)] ck cj by (simp add: precedes_def)
  moreover have "q < seq_of (?s ! j)" if "k < j" using sorted_wrt_nth_less[OF o that assms(6)] ck cj by (simp add: precedes_def)
  moreover have "j \<noteq> k" using no cj by auto
  ultimately have "rq_DispatchSequence r \<le> q \<longleftrightarrow> j < k" unfolding cj(2) by (metis linorder_cases not_le)
  moreover have "rq_DispatchSequence r < rq_DispatchSequence r'" if "j < m" "m < length ?s" "?s ! m = (e, cmd'', p'')" "pc_request p'' = Some r'"
    using sorted_wrt_nth_less[OF o that(1,2)] cj number[OF nth_mem[OF that(2)]] that(3,4) by (simp add: precedes_def is_command_def)
  ultimately show ?thesis by blast
qed

end
