(* ===== verification/Net_Bootstrap.thy ===== *)
theory Net_Bootstrap
  imports Net_Snapshots
begin

text \<open>
  What the coordinator knows of a Host before it can command it: a session takes runtime commands only after it has told
  an execution snapshot, an inventory, the foreign processes and the state of the Agent. And when a session never gets there.
\<close>

section \<open>Ready sessions\<close>

fun is_executions :: "HandlerCall \<Rightarrow> bool" where
  "is_executions (ExecutionsObserved info obs q) = True" | "is_executions call = False"

fun is_inventory :: "HandlerCall \<Rightarrow> bool" where
  "is_inventory (InventoryObserved info inventory) = True" | "is_inventory call = False"

fun is_processes :: "HandlerCall \<Rightarrow> bool" where
  "is_processes (ProcessesObserved info processes) = True" | "is_processes call = False"

fun is_status :: "HandlerCall \<Rightarrow> bool" where
  "is_status (StatusObserved info state) = True" | "is_status call = False"

fun is_ready :: "HandlerCall \<Rightarrow> bool" where
  "is_ready (SessionReady info) = True" | "is_ready call = False"

definition said :: "(HandlerCall \<Rightarrow> bool) \<Rightarrow> (string \<times> HandlerCall) list \<Rightarrow> bool" where
  "said P cs \<longleftrightarrow> list_ex (P \<circ> snd) cs"

definition everything_said :: "(string \<times> HandlerCall) list \<Rightarrow> bool" where
  "everything_said cs \<longleftrightarrow> said is_executions cs \<and> said is_inventory cs \<and> said is_processes cs \<and> said is_status cs"

definition informed :: "live \<Rightarrow> (string \<times> HandlerCall) list \<Rightarrow> bool" where
  "informed l cs \<longleftrightarrow> (lv_gotExecutions l \<longrightarrow> said is_executions cs) \<and> (lv_gotInventory l \<longrightarrow> said is_inventory cs)
     \<and> (lv_gotProcesses l \<longrightarrow> said is_processes cs) \<and> (lv_gotStatus l \<longrightarrow> said is_status cs)"

definition announced :: "live \<Rightarrow> (string \<times> HandlerCall) list \<Rightarrow> bool" where
  "announced l cs \<longleftrightarrow> (ready l \<longrightarrow> bootstrapped l) \<and> length (filter (is_ready \<circ> snd) cs) = (if ready l then 1 else 0)"

definition commanded :: "live \<Rightarrow> bool" where
  "commanded l \<longleftrightarrow> (\<forall>s\<in>set (entries l). is_command s \<longrightarrow> ready l)"

definition open_session :: "live \<Rightarrow> (string \<times> HandlerCall) list \<Rightarrow> bool" where
  "open_session l cs \<longleftrightarrow> informed l cs \<and> announced l cs \<and> commanded l"

definition commandable :: "live \<Rightarrow> Command \<Rightarrow> pendingCommand \<Rightarrow> bool" where
  "commandable l cmd p \<longleftrightarrow> (pc_request p \<noteq> None \<longrightarrow> ready l)"

lemma said_append [simp]: "said P (xs @ ys) \<longleftrightarrow> said P xs \<or> said P ys"
  by (simp add: said_def)

lemma said_pairs [simp]: "said P (map (Pair c) calls) \<longleftrightarrow> list_ex P calls"
  by (simp add: said_def list_ex_iff)

lemma said_simps [simp]: "said P [] \<longleftrightarrow> False" "said P (x # xs) \<longleftrightarrow> P (snd x) \<or> said P xs"
  by (simp_all add: said_def)

lemma announced_pairs: "filter (is_ready \<circ> snd) (map (Pair c) calls) = map (Pair c) (filter is_ready calls)"
  by (simp add: filter_map comp_def)

lemma handled_informed:
  assumes "informed l cs"
  shows "informed (fst (handle_result nonce c p r l)) (cs @ map (Pair c) (snd (handle_result nonce c p r l)))"
proof (rule handle_rule)
  show "informed (fst (executions_result nonce p r l)) (cs @ map (Pair c) (snd (executions_result nonce p r l)))"
    using assms by (auto simp: executions_result_def informed_def split: CommandResult.split sum.split)
  show "informed (fst (execution_result p r l)) (cs @ map (Pair c) (snd (execution_result p r l)))"
    using assms by (auto simp: execution_result_def informed_def Let_def split: CommandResult.split sum.split option.split)
qed (use assms in \<open>auto simp: informed_def status_result_def inventory_result_def processes_result_def hold_result_def answer_def Let_def
    split: CommandResult.split sum.split\<close>)

lemma handled_not_ready: "filter is_ready (snd (handle_result nonce c p r l)) = []"
  by (rule handle_rule) (simp_all add: result_defs runtime_result_def Let_def split: CommandResult.split sum.split option.split)

lemma handled_bootstrapped: "bootstrapped l \<Longrightarrow> bootstrapped (fst (handle_result nonce c p r l))"
  by (rule handle_rule) (simp_all add: result_defs bootstrapped_def answer_def Let_def split: CommandResult.split sum.split option.split)

lemma handled_open:
  assumes "open_session l cs"
  shows "open_session (fst (handle_result nonce c p r l)) (cs @ map (Pair c) (snd (handle_result nonce c p r l)))"
  using assms handled_informed[of l cs nonce c p r] handled_bootstrapped[of l nonce c p r]
  by (simp add: open_session_def announced_def announced_pairs handled_not_ready commanded_def handled_entries)

lemma after_open:
  assumes "open_session l cs"
  shows "open_session (fst (after_result target commands l)) (cs @ map (Pair c) (snd (after_result target commands l)))"
  using assms
  by (auto simp: open_session_def informed_def announced_def announced_pairs commanded_def ready_def bootstrapped_def entries_def
      after_result_def Let_def)

lemma open_same:
  assumes "open_session l cs" "core l' = core l"
  shows "open_session l' cs"
  using assms by (simp add: open_session_def informed_def announced_def commanded_def ready_def bootstrapped_def entries_def core_def)

lemma remove_open: "open_session l cs \<Longrightarrow> open_session (removePending c l) cs"
  by (simp add: open_session_def informed_def announced_def commanded_def ready_def bootstrapped_def entries_def removePending_def)

lemma receive_open:
  assumes "open_session l cs" "receive target commands nonce m l = (l', calls)"
  shows "open_session l' (cs @ calls)"
  using assms(2)
proof (cases rule: receive_cases)
  case (idle todo)
  then show ?thesis using open_same[OF assms(1), of l'] by simp
next
  case (error c r p calls1)
  then show ?thesis using handled_open[OF remove_open[OF assms(1), of c], of nonce c p r] by simp
next
  case (result c r p l1 calls1 calls2)
  then show ?thesis using handled_open[OF remove_open[OF assms(1), of c], of nonce c p r] after_open[of l1 "cs @ map (Pair c) calls1" target commands c] by simp
qed

lemma register_open:
  assumes "open_session l cs" "commandable l cmd p" "can_register c l"
  shows "open_session (fst (send_register c cmd p l)) cs"
  using assms
  by (auto simp: open_session_def informed_def announced_def commanded_def ready_def bootstrapped_def entries_def commandable_def
      send_register_def Let_def is_command_def can_register_def split: option.splits)

lemma transmit_open: "open_session l cs \<Longrightarrow> open_session (transmit ok l) cs"
  by (cases "lv_gate l")
    (auto simp: transmit_def open_session_def informed_def announced_def commanded_def ready_def bootstrapped_def entries_def split: if_splits)

lemma bare_open: "open_session l cs \<Longrightarrow> bare_call call \<Longrightarrow> open_session l (cs @ [(d, call)])"
  by (cases call) (auto simp: open_session_def informed_def announced_def)

interpretation sessions: session_invariant open_session commandable
proof unfold_locales
  show "open_session (new_live agent host epoch) []" for agent host epoch
    by (simp add: open_session_def informed_def announced_def commanded_def ready_def entries_def new_live_def)
  show "commandable l cmd (plain_pending cmd)" for l cmd by (simp add: commandable_def plain_pending_def)
  show "commandable l (CmdMaintenanceHold active revision) (hold_pending active revision)" for l active revision
    by (simp add: commandable_def hold_pending_def plain_pending_def)
qed (auto simp: commandable_def intro: register_open transmit_open remove_open open_same bare_open receive_open)

text \<open>
  C36: in every interleaving a session has a runtime command on its stream only when the coordinator has been told, in
  this session, an execution snapshot, an inventory, the foreign processes and the state of the Agent, and exactly once
  that the session is ready; the number of such announcements never exceeds one.
\<close>
theorem commands_only_after_bootstrap:
  assumes "net_moves uni target commands ms net_start = Some n" and "i < length (nt_lives n)"
  shows "length (filter (is_ready \<circ> snd) (calls_of i n)) \<le> 1
    \<and> ((\<exists>s\<in>set (lv_stream (nt_lives n ! i)). is_command s) \<longrightarrow> everything_said (calls_of i n)
      \<and> length (filter (is_ready \<circ> snd) (calls_of i n)) = 1)"
proof -
  have o: "open_session (nt_lives n ! i) (calls_of i n)" by (rule sessions.reached[OF assms])
  have "ready (nt_lives n ! i)" if "\<exists>s\<in>set (lv_stream (nt_lives n ! i)). is_command s"
    using o that by (auto simp: open_session_def commanded_def entries_def)
  then show ?thesis using o
    by (auto simp: open_session_def informed_def announced_def bootstrapped_def everything_said_def split: if_splits)
qed

end
