(* ===== verification/Net_Demo.thy ===== *)
theory Net_Demo
  imports Net_Trust Net_Results Net_Bootstrap
begin

text \<open>
  A session from its first message to the result of a runtime command, and a session whose bootstrap is refused.
\<close>

section \<open>A session\<close>

definition demo_inventory :: WInventory where
  "demo_inventory = \<lparr>wi_HostId = demo_id ''host'', wi_Hostname = ''rig'', wi_OsId = ''ubuntu'', wi_OsVersion = ''24.04'', wi_Architecture = ''amd64'',
     wi_CpuVendor = [], wi_CpuModel = [], wi_CpuCores = 8, wi_CpuThreads = 16, wi_MemoryTotalBytes = 0, wi_Gpus = []\<rparr>"

definition demo_stop :: RuntimeRequest where
  "demo_stop = \<lparr>rq_Kind = RuntimeStop, rq_WorkloadID = WorkloadID (demo_id ''workload''), rq_DesiredGeneration = 1,
     rq_ExecutionID = ExecutionID (demo_id ''execution''), rq_ResolvedHash = ''hash'', rq_Plan = zero_plan, rq_DispatchSequence = 0\<rparr>"

lemma demo_inventory_parses: "\<exists>facts. ParseInventory (Some demo_inventory) demo_peer_host = Inr facts"
proof -
  have "ParseHostID (demo_id ''host'') = Inr demo_peer_host" by (simp add: host_id.parse_iff demo_id_valid demo_peer_host_def)
  then show ?thesis by (simp add: ParseInventory_def demo_inventory_def Let_def)
qed

lemma demo_answers_parse: "ParseExecutions (Some []) demo_peer_host = Inr []" "ParseUnmanagedProcesses (Some []) = Inr []"
  "AgentState_of ''IDLE'' = AgentStateIdle" "validAgentState AgentStateIdle"
  by (simp_all add: ParseExecutions_def ParseUnmanagedProcesses_def validAgentState_def AgentState_of_def enum_of_def AgentState_values_def)

lemma demo_stop_command: "runtime_command uni demo_stop = Inr (StopExecution (demo_id ''execution''))"
  by (simp add: runtime_command_def demo_stop_def check_request_def execution_id.check_text workload_id.check_text demo_id_valid)

text \<open>A command of the loop of session 0: queued, written, confirmed.\<close>

definition loop_send :: "string \<Rightarrow> NetMove list" where
  "loop_send c = [NQueue 0 c, NTransmit 0 True, NQueued 0 (Some True)]"

definition bootstrap_moves :: "NetMove list" where
  "bootstrap_moves = [NRegister demo_agent demo_peer_host, NGreet 0 True] @ loop_send ''c1'' @ [NReceive 0 ''n'' (ResultMessage ''c1'' (Executions []))]
     @ loop_send ''c2'' @ loop_send ''c3'' @ loop_send ''c4'' @ loop_send ''c5''
     @ [NReceive 0 [] (ResultMessage ''c2'' (Status ''IDLE'')), NReceive 0 [] (ResultMessage ''c3'' (InventoryResult demo_inventory)),
        NReceive 0 [] (ResultMessage ''c4'' (UnmanagedProcesses [])), NReceive 0 [] (ResultMessage ''c5'' (Pong ''n''))]"

definition plain_sent :: "string \<Rightarrow> Command \<Rightarrow> sent" where
  "plain_sent c cmd = (c, cmd, plain_pending cmd)"

definition demo_session :: live where
  "demo_session = \<lparr>lv_info = \<lparr>si_AgentID = demo_agent, si_HostID = demo_peer_host, si_ConnectionEpoch = 1, si_Authenticated = True, si_Ready = True\<rparr>,
     lv_revoked = False, lv_phase = Looping, lv_pending = [], lv_runtimeSequence = 0, lv_gate = None,
     lv_stream = [plain_sent ''c1'' GetExecutions, plain_sent ''c2'' GetStatus, plain_sent ''c3'' GetInventory,
       plain_sent ''c4'' GetUnmanagedProcesses, plain_sent ''c5'' (Ping ''n'')],
     lv_outcomes = map (\<lambda>c. (c, True)) [''c1'', ''c2'', ''c3'', ''c4'', ''c5''], lv_answers = [], lv_todo = [], lv_queueing = None,
     lv_ids = [''c1'', ''c2'', ''c3'', ''c4'', ''c5''],
     lv_gotExecutions = True, lv_gotInventory = True, lv_gotProcesses = True, lv_gotStatus = True, lv_bootstrapRequested = True, lv_devSent = False\<rparr>"

lemmas machine_defs = net_start_def register_session_def only_if_def in_phase_def greet_def tell_def put_live_def new_live_def Let_def
  loop_queue_def can_register_def send_register_def transmit_def loop_sent_def loop_receive_def receive_def sessionCurrent_def removePending_def
  handle_result_def after_result_def bootstrapped_def

lemma plain_fields [simp]: "pc_request (plain_pending c) = None" "pc_kind (plain_pending c) = commandKind c" "pc_runtimeSequence (plain_pending c) = 0"
  "(plain_pending c)\<lparr>pc_runtimeSequence := 0\<rparr> = plain_pending c"
  by (simp_all add: plain_pending_def)

lemma demo_bootstrap:
  "\<exists>n. net_moves uni None [] bootstrap_moves net_start = Some n \<and> nt_lives n = [demo_session] \<and> nt_sessions n demo_peer_host = Some 0 \<and> nt_tasks n = []"
proof -
  obtain facts where f: "ParseInventory (Some demo_inventory) demo_peer_host = Inr facts" using demo_inventory_parses by blast
  show ?thesis
    by (simp add: bootstrap_moves_def loop_send_def machine_defs demo_answers_parse f demo_session_def plain_sent_def
        executions_result_def status_result_def inventory_result_def processes_result_def bootstrap_commands_def)
qed

lemma net_moves_append: "net_moves uni target commands (xs @ ys) n
    = (case net_moves uni target commands xs n of None \<Rightarrow> None | Some n' \<Rightarrow> net_moves uni target commands ys n')"
  by (induction xs arbitrary: n) (simp_all split: option.split)

text \<open>The coordinator stops an execution; a heartbeat makes the session ask for snapshots; the stop is refused.\<close>

definition demo_refusal :: WError where
  "demo_refusal = wireError INTERNAL_ERROR ''no such execution''"

definition command_moves :: "NetMove list" where
  "command_moves = [NRuntime (lv_info demo_session) demo_stop ''c6'', NTask 0 (Some True) (Plain []), NTransmit 0 True, NTask 0 (Some True) (Plain []),
     NReceive 0 [] Heartbeat] @ loop_send ''c7'' @ loop_send ''c8'' @ loop_send ''c9'' @ loop_send ''c0''
     @ [NReceive 0 [] (ResultMessage ''c7'' (Executions [])), NReceive 0 [] (ResultMessage ''c6'' (TypedError demo_refusal))]"

definition stop_sent :: sent where
  "stop_sent = (''c6'', StopExecution (demo_id ''execution''),
     (runtime_pending (StopExecution (demo_id ''execution'')) (demo_stop\<lparr>rq_DispatchSequence := 1\<rparr>))\<lparr>pc_runtimeSequence := 1\<rparr>)"

lemma runtime_fields [simp]: "pc_request (runtime_pending c r) = Some r" "pc_kind (runtime_pending c r) = commandKind c" "\<not> pc_done (runtime_pending c r)"
  "(runtime_pending c r)\<lparr>pc_runtimeSequence := q, pc_request := Some r'\<rparr> = (runtime_pending c r')\<lparr>pc_runtimeSequence := q\<rparr>"
  by (simp_all add: runtime_pending_def plain_pending_def)

lemma demo_command:
  assumes "nt_lives n = [demo_session]" "nt_sessions n demo_peer_host = Some 0" "nt_tasks n = []"
  shows "\<exists>n'. net_moves uni None [] command_moves n = Some n' \<and> length (nt_lives n') = 1
     \<and> lv_stream (nt_lives n' ! 0) ! 5 = stop_sent \<and> lv_stream (nt_lives n' ! 0) ! 6 = (''c7'', GetExecutions, (plain_pending GetExecutions)\<lparr>pc_runtimeSequence := 1\<rparr>)
     \<and> length (lv_stream (nt_lives n' ! 0)) = 10 \<and> length (lv_ids (nt_lives n' ! 0)) = 10
     \<and> nt_calls n' = nt_calls n @ [(0, ''c7'', ExecutionsObserved (lv_info demo_session) [] 1),
          (0, ''c6'', RuntimeResult (lv_info demo_session) (demo_stop\<lparr>rq_DispatchSequence := 1\<rparr>) None (Some (error_of_wire demo_refusal)))]"
  using assms
  by (simp add: command_moves_def loop_send_def machine_defs demo_answers_parse SendRuntime_begin_def same_session_def demo_session_def demo_stop_command
      add_task_def drop_task_def run_net_task_def task_dispatch_def task_await_def returns_def plain_sent_def refresh_commands_def
      queue_absent_def executions_result_def stop_sent_def answer_def runtime_result_def)

lemma demo_run:
  obtains n where "net_moves (\<lambda>s. s) None [] (bootstrap_moves @ command_moves) net_start = Some n" "length (nt_lives n) = 1"
    "lv_stream (nt_lives n ! 0) ! 5 = stop_sent" "lv_stream (nt_lives n ! 0) ! 6 = (''c7'', GetExecutions, (plain_pending GetExecutions)\<lparr>pc_runtimeSequence := 1\<rparr>)"
    "length (lv_stream (nt_lives n ! 0)) = 10" "length (lv_ids (nt_lives n ! 0)) = 10"
    "(0, ''c7'', ExecutionsObserved (lv_info demo_session) [] 1) \<in> set (nt_calls n)" "told 0 1 (nt_calls n) \<noteq> 0"
proof -
  obtain n1 where n1: "net_moves (\<lambda>s. s) None [] bootstrap_moves net_start = Some n1" "nt_lives n1 = [demo_session]"
    "nt_sessions n1 demo_peer_host = Some 0" "nt_tasks n1 = []"
    using demo_bootstrap[of "\<lambda>s. s"] by blast
  obtain n where n: "net_moves (\<lambda>s. s) None [] command_moves n1 = Some n" "length (nt_lives n) = 1"
    "lv_stream (nt_lives n ! 0) ! 5 = stop_sent" "lv_stream (nt_lives n ! 0) ! 6 = (''c7'', GetExecutions, (plain_pending GetExecutions)\<lparr>pc_runtimeSequence := 1\<rparr>)"
    "length (lv_stream (nt_lives n ! 0)) = 10" "length (lv_ids (nt_lives n ! 0)) = 10"
    "nt_calls n = nt_calls n1 @ [(0, ''c7'', ExecutionsObserved (lv_info demo_session) [] 1),
          (0, ''c6'', RuntimeResult (lv_info demo_session) (demo_stop\<lparr>rq_DispatchSequence := 1\<rparr>) None (Some (error_of_wire demo_refusal)))]"
    using demo_command[OF n1(2-4)] by blast
  have m: "net_moves (\<lambda>s. s) None [] (bootstrap_moves @ command_moves) net_start = Some n" by (simp only: net_moves_append n1(1) n(1) option.case)
  have s: "(0, ''c7'', ExecutionsObserved (lv_info demo_session) [] 1) \<in> set (nt_calls n)" by (simp only: n(7)) simp
  have "told 0 1 (nt_calls n) \<noteq> 0" by (simp only: n(7) told_append) (simp add: told_def numbered_def)
  then show ?thesis by (rule that[OF m n(2-6) s])
qed

section \<open>Witnesses\<close>

lemma snapshot_sequence_exact_witness:
  "\<exists>n. net_moves (\<lambda>s. s) None [] (bootstrap_moves @ command_moves) net_start = Some n
     \<and> (0, ''c7'', ExecutionsObserved (lv_info demo_session) [] 1) \<in> set (nt_calls n) \<and> lv_stream (nt_lives n ! 0) ! 5 = stop_sent
     \<and> rq_DispatchSequence (demo_stop\<lparr>rq_DispatchSequence := 1\<rparr>) \<le> 1 \<and> (5::nat) < 6"
proof -
  obtain n where n: "net_moves (\<lambda>s. s) None [] (bootstrap_moves @ command_moves) net_start = Some n" "length (nt_lives n) = 1"
    "lv_stream (nt_lives n ! 0) ! 5 = stop_sent" "lv_stream (nt_lives n ! 0) ! 6 = (''c7'', GetExecutions, (plain_pending GetExecutions)\<lparr>pc_runtimeSequence := 1\<rparr>)"
    "length (lv_stream (nt_lives n ! 0)) = 10" "length (lv_ids (nt_lives n ! 0)) = 10"
    "(0, ''c7'', ExecutionsObserved (lv_info demo_session) [] 1) \<in> set (nt_calls n)"
    by (rule demo_run)
  have "rq_DispatchSequence (demo_stop\<lparr>rq_DispatchSequence := 1\<rparr>) \<le> 1 \<longleftrightarrow> (5::nat) < 6"
  proof (rule snapshot_sequence_exact[OF n(1,7) _ _ n(4) _ n(3)[unfolded stop_sent_def], THEN conjunct1])
    show "length (lv_ids (nt_lives n ! 0)) < 2 ^ 64" "6 < length (lv_stream (nt_lives n ! 0))" "5 < length (lv_stream (nt_lives n ! 0))"
      unfolding n(5,6) by simp_all
  qed simp
  then have "rq_DispatchSequence (demo_stop\<lparr>rq_DispatchSequence := 1\<rparr>) \<le> 1 \<and> (5::nat) < 6" by simp
  then show ?thesis by (intro exI[of _ n] conjI n(1,7,3)) (elim conjE, assumption)+
qed

lemma runtime_result_once_witness:
  "\<exists>n. net_moves (\<lambda>s. s) None [] (bootstrap_moves @ command_moves) net_start = Some n
     \<and> told 0 1 (nt_calls n) = 1 \<and> held 1 (nt_lives n ! 0) = 0 \<and> due 0 1 (nt_tasks n) = 0"
proof -
  obtain n where n: "net_moves (\<lambda>s. s) None [] (bootstrap_moves @ command_moves) net_start = Some n" "length (nt_lives n) = 1"
    "length (lv_ids (nt_lives n ! 0)) = 10" "told 0 1 (nt_calls n) \<noteq> 0"
    using demo_run by blast
  then show ?thesis using runtime_result_once[OF n(1), of 0 1] by auto
qed

lemma commands_only_after_bootstrap_witness:
  "\<exists>n. net_moves (\<lambda>s. s) None [] (bootstrap_moves @ command_moves) net_start = Some n
     \<and> stop_sent \<in> set (lv_stream (nt_lives n ! 0)) \<and> everything_said (calls_of 0 n) \<and> length (filter (is_ready \<circ> snd) (calls_of 0 n)) = 1"
proof -
  obtain n where n: "net_moves (\<lambda>s. s) None [] (bootstrap_moves @ command_moves) net_start = Some n" "length (nt_lives n) = 1"
    "lv_stream (nt_lives n ! 0) ! 5 = stop_sent" "length (lv_stream (nt_lives n ! 0)) = 10"
    using demo_run by blast
  have m: "stop_sent \<in> set (lv_stream (nt_lives n ! 0))" using n(3,4) nth_mem[of 5 "lv_stream (nt_lives n ! 0)"] by simp
  have "is_command stop_sent" by (simp add: is_command_def stop_sent_def)
  then have "everything_said (calls_of 0 n) \<and> length (filter (is_ready \<circ> snd) (calls_of 0 n)) = 1"
    using commands_only_after_bootstrap[OF n(1), of 0] n(2) m by auto
  then show ?thesis using n(1) m by blast
qed

section \<open>A bootstrap that is refused\<close>

text \<open>
  The first answer is an error: nothing is pending and nothing is left to send, and a heartbeat changes nothing. The
  session is registered and takes no runtime command, until it is closed from outside.
\<close>

definition refused_moves :: "NetMove list" where
  "refused_moves = [NRegister demo_agent demo_peer_host, NGreet 0 True] @ loop_send ''c1'' @ [NReceive 0 [] (ResultMessage ''c1'' (TypedError demo_refusal))]"

lemma refused_bootstrap_is_silent:
  "\<exists>n l. net_moves uni None [] refused_moves net_start = Some n \<and> nt_lives n = [l] \<and> sessionCurrent 0 n \<and> lv_phase l = Looping
     \<and> lv_pending l = [] \<and> lv_todo l = [] \<and> nt_tasks n = [] \<and> \<not> ready l
     \<and> receive None [] nonce Heartbeat l = (l, [])"
  by (simp add: refused_moves_def loop_send_def machine_defs ready_def answer_def runtime_result_def)

end
