(* ===== verification/Miner_Runtime.thy ===== *)
theory Miner_Runtime
  imports Agent_Wire Gpu_Resource "HOL-Library.AList"
begin

text \<open>
  \<open>internal/minerruntime/adapter.go\<close>: what a miner adapter is, the checks of a plan against fresh hardware and foreign
  processes, the judgement of a miner's health, and the sections of the \<open>Manager\<close> that keeps the miners of an Agent.
  The adapters themselves are an interface of the source and so a record of functions here; what \<open>Prepare\<close> and \<open>Poll\<close>
  return is an input. Copies of slices and pointers are the identity on
  values, and \<open>plansEqual\<close>, a deep comparison, is equality of values.
\<close>

section \<open>Adapters\<close>

record Capabilities =
  cp_CPU :: bool
  cp_GPU :: bool
  cp_MultiGPUSingleProcess :: bool
  cp_PerGPUProcess :: bool
  cp_HTTPAPI :: bool
  cp_StdoutTelemetry :: bool
  cp_Benchmark :: bool
  cp_Stress :: bool
  cp_Algorithms :: "string list"
  cp_GPUVendors :: "string list"

record ProcessSignature =
  ps_Executable :: string
  ps_Provider :: string
  ps_CPURelevant :: bool
  ps_GPURelevant :: bool

text \<open>\<open>ad_ProcessSignatures\<close> is there when the adapter is a \<open>ProcessClassifier\<close>.\<close>

record Adapter =
  ad_ID :: string
  ad_Capabilities :: Capabilities
  ad_Validate :: "MinerSpec \<Rightarrow> Inventory \<Rightarrow> string list result"
  ad_ProcessSignatures :: "ProcessSignature list option"

type_synonym Registry = "Adapter list"

definition Registry_Get :: "string \<Rightarrow> Registry \<Rightarrow> Adapter option" where
  "Registry_Get i reg = find (\<lambda>a. ad_ID a = i) reg"

definition Registry_Register :: "Adapter option \<Rightarrow> Registry \<Rightarrow> Registry \<times> error option" where
  "Registry_Register adapter reg = (case adapter of
     None \<Rightarrow> (reg, Some (Farm_Resolve.typed CONFIG_CONFLICT ''miner adapter ID is required''))
   | Some a \<Rightarrow>
       if ad_ID a = [] then (reg, Some (Farm_Resolve.typed CONFIG_CONFLICT ''miner adapter ID is required''))
       else if Registry_Get (ad_ID a) reg \<noteq> None
       then (reg, Some (Farm_Resolve.typed CONFIG_CONFLICT ''miner adapter is already registered''))
       else (reg @ [a], None))"

definition ProcessSignatures :: "Registry \<Rightarrow> ProcessSignature list" where
  "ProcessSignatures reg = sort_key (\<lambda>s. [ps_Provider s, ps_Executable s])
     (concat (map (\<lambda>a. case ad_ProcessSignatures a of None \<Rightarrow> [] | Some s \<Rightarrow> s) reg))"

section \<open>Plans against the hardware\<close>

definition resource_conflict :: "string \<Rightarrow> error" where
  "resource_conflict m = Farm_Resolve.typed CONFIG_CONFLICT m"

definition incapable :: "string \<Rightarrow> error" where
  "incapable m = Farm_Resolve.typed INCOMPATIBLE_HARDWARE m"

text \<open>The plan of a miner; \<open>spec\<close> is what \<open>plan.Miner\<close> points to.\<close>

definition validateResourcePlan :: "unicode_case \<Rightarrow> ExecutionPlan \<Rightarrow> MinerSpec \<Rightarrow> Capabilities \<Rightarrow> Inventory \<Rightarrow> error option" where
  "validateResourcePlan uni plan spec cap inventory =
     (let ow = pl_Ownership plan; claimCPU = ow_CPU ow; devices = ow_DeviceIDs ow; threads = cpu_Threads (inv_CPU inventory) in
      first_error
       [fail_if (WorkloadOwnership_Validate ow \<noteq> None \<or> pl_HostID plan \<noteq> host_HostID (inv_Host inventory) \<or> pl_HostID plan \<noteq> ow_HostID ow
            \<or> pl_DeviceIDs plan \<noteq> ow_DeviceIDs ow) (resource_conflict ''miner plan ownership or Host inventory does not agree''),
        fail_if (claimCPU \<and> devices \<noteq> []) (resource_conflict ''combined CPU and GPU execution is not supported''),
        fail_if (claimCPU \<and> \<not> cp_CPU cap) (incapable ''miner adapter does not support CPU execution''),
        fail_if (claimCPU \<and> threads = 0) (incapable ''fresh Agent inventory does not report logical CPU capacity''),
        fail_if (claimCPU \<and> (case ms_CPUThreads spec of None \<Rightarrow> False | Some n \<Rightarrow> n > threads))
          (incapable ''requested CPU threads exceed fresh Agent capacity''),
        fail_if (devices \<noteq> [] \<and> \<not> cp_GPU cap) (incapable ''miner adapter does not support GPU execution''),
        fail_if (length devices > 1 \<and> \<not> cp_MultiGPUSingleProcess cap)
          (resource_conflict ''miner adapter does not support one process claiming multiple GPUs''),
        fail_if (\<not> claimCPU \<and> (ms_CPUThreads spec \<noteq> None \<or> ms_HugePages spec \<noteq> None \<or> ms_MSR spec \<noteq> None))
          (resource_conflict ''CPU tuning is invalid for a GPU-only execution''),
        fail_if (ms_GPUDeviceIDs spec \<noteq> devices) (resource_conflict ''miner GPU DeviceIDs do not match ownership''),
        if devices \<noteq> [] then ValidateCurrent uni devices (ms_GPUAssignments spec) inventory (cp_GPUVendors cap)
        else fail_if (ms_GPUAssignments spec \<noteq> []) (resource_conflict ''CPU execution contains GPU assignments'')])"

definition validatePlanAgainstInventory :: "unicode_case \<Rightarrow> Registry \<Rightarrow> ExecutionPlan \<Rightarrow> Inventory \<Rightarrow> error option" where
  "validatePlanAgainstInventory uni reg plan inventory = (case pl_Miner plan of
     None \<Rightarrow> None
   | Some spec \<Rightarrow> (case Registry_Get (ms_AdapterID spec) reg of
       None \<Rightarrow> Some (resource_conflict ''unknown miner adapter during process start'')
     | Some a \<Rightarrow> (case validateResourcePlan uni plan spec (ad_Capabilities a) inventory of
         Some e \<Rightarrow> Some e
       | None \<Rightarrow> (case ad_Validate a spec inventory of Inl e \<Rightarrow> Some e | Inr warnings \<Rightarrow> None))))"

section \<open>Foreign processes\<close>

definition unmanaged_overlap :: "WorkloadOwnership \<Rightarrow> UnmanagedProcessObservation \<Rightarrow> bool" where
  "unmanaged_overlap ow process \<longleftrightarrow>
     (up_CPU process \<and> ow_CPU ow) \<or> list_ex (\<lambda>wanted. wanted \<in> set (up_DeviceIDs process)) (ow_DeviceIDs ow)
     \<or> (up_ResourceScope process = ProcessResourcesUnknown
        \<and> ((ow_CPU ow \<and> up_CPURelevant process) \<or> (ow_DeviceIDs ow \<noteq> [] \<and> up_GPURelevant process)))"

definition conflict_details :: "UnmanagedProcessObservation \<Rightarrow> string \<rightharpoonup> string" where
  "conflict_details process =
     (let details = [''pid'' \<mapsto> Itoa (up_PID process), ''executable'' \<mapsto> up_Executable process,
        ''resource_scope'' \<mapsto> ProcessResourceAttribution_text (up_ResourceScope process)]
      in case up_Evidence process of
           [] \<Rightarrow> details
         | e # es \<Rightarrow> details(''evidence_kind'' \<mapsto> pe_Kind e, ''evidence_provider'' \<mapsto> pe_Provider e))"

definition unmanagedConflict :: "ExecutionPlan \<Rightarrow> UnmanagedProcessObservation list \<Rightarrow> error option" where
  "unmanagedConflict plan processes = (case find (unmanaged_overlap (pl_Ownership plan)) processes of
     None \<Rightarrow> None
   | Some process \<Rightarrow> Some (Typed \<lparr>err_Code = UNMANAGED_PROCESS_CONFLICT,
       err_HumanMessage = ''unmanaged mining process conflicts with requested resources'', err_Details = conflict_details process,
       err_SuggestedFix = ''Stop the unmanaged process manually, then refresh observations before retrying.'', err_LogsRef = []\<rparr>))"

text \<open>
  \<open>observeUnmanaged\<close> with what \<open>processobserve\<close> answers, if there is an observer; the processes of the Supervisor are
  named to it as managed.
\<close>

definition managed_instances :: "ExecSnapshot list \<Rightarrow> (int \<times> string) list" where
  "managed_instances snapshots = map (\<lambda>s. (ExecSnapshot.sn_PID s, ExecSnapshot.sn_ProcessInstance s))
     (filter (\<lambda>s. ExecSnapshot.sn_PID s > 0 \<and> ExecSnapshot.sn_ProcessInstance s \<noteq> []) snapshots)"

definition observeUnmanaged :: "UnmanagedProcessObservation list result option \<Rightarrow> UnmanagedProcessObservation list result" where
  "observeUnmanaged observed = (case observed of
     None \<Rightarrow> Inr []
   | Some (Inl e) \<Rightarrow> Inl (Typed (mk_error UNMANAGED_OBSERVATION_FAILED ''fresh unmanaged process observation failed'' [''reason'' \<mapsto> error_Error e]))
   | Some (Inr processes) \<Rightarrow> Inr processes)"

text \<open>
  \<open>acquireFinalStartValidation\<close>, which the Supervisor calls for every process it is about to create: \<open>inventory\<close> is the
  refreshed one, or the one kept when there is no refresh.
\<close>

definition final_start_check :: "unicode_case \<Rightarrow> Registry \<Rightarrow> ExecutionPlan \<Rightarrow> Inventory \<Rightarrow> UnmanagedProcessObservation list result option
    \<Rightarrow> error option" where
  "final_start_check uni reg plan inventory observed =
     (case validatePlanAgainstInventory uni reg plan inventory of
        Some e \<Rightarrow> Some e
      | None \<Rightarrow> (case observeUnmanaged observed of
          Inl e \<Rightarrow> Some e
        | Inr processes \<Rightarrow> unmanagedConflict plan processes))"

section \<open>Health\<close>

definition empty_telemetry :: MinerTelemetry where
  "empty_telemetry = \<lparr>mt_AdapterID = [], mt_MinerVersion = [], mt_Algorithm = [], mt_HashrateShortHPS = None, mt_HashrateMediumHPS = None,
     mt_HashrateLongHPS = None, mt_HighestHashrateHPS = None, mt_PerDevice = [], mt_AcceptedShares = None, mt_RejectedShares = None,
     mt_StaleShares = None, mt_TotalResults = None, mt_PoolConnected = None, mt_PoolLatencyMS = None, mt_UptimeSeconds = 0,
     mt_HugePagesAvailable = None, mt_HugePagesPercent = None, mt_MSRAvailable = None, mt_CollectedAt = 0, mt_Age = 0,
     mt_Health = MinerHealthOther [], mt_ErrorCode = NoCode, mt_Message = [], mt_UsefulWork = None\<rparr>"

definition degraded :: "Code \<Rightarrow> MinerTelemetry \<Rightarrow> MinerTelemetry" where
  "degraded code t = t\<lparr>mt_Health := MinerHealthDegraded, mt_ErrorCode := code\<rparr>"

text \<open>Within the grace after its start a miner without evidence is starting, later it is degraded.\<close>

definition unless_starting :: "bool \<Rightarrow> Code \<Rightarrow> MinerTelemetry \<Rightarrow> MinerTelemetry" where
  "unless_starting withinGrace code t = (if withinGrace then t\<lparr>mt_Health := MinerHealthStarting\<rparr> else degraded code t)"

definition reason_or_default :: "Code \<Rightarrow> Code" where
  "reason_or_default code = (if code = NoCode then USEFUL_WORK_NOT_CONFIRMED else code)"

definition within_grace :: "ExecSnapshot \<Rightarrow> Time \<Rightarrow> Duration \<Rightarrow> bool" where
  "within_grace process now startupGrace \<longleftrightarrow>
     \<not> IsZero (ExecSnapshot.sn_StartedAt process) \<and> time_Sub now (ExecSnapshot.sn_StartedAt process) < startupGrace"

text \<open>The judgement of a running miner with evidence of its work.\<close>

definition evaluate_evidence :: "MinerMode \<Rightarrow> ExecSnapshot \<Rightarrow> MinerTelemetry \<Rightarrow> UsefulWorkEvidence \<Rightarrow> bool \<Rightarrow> Duration \<Rightarrow> MinerTelemetry" where
  "evaluate_evidence mode process t u withinGrace staleAfter =
     (if \<not> IsZero (ExecSnapshot.sn_StartedAt process) \<and> mt_CollectedAt t < ExecSnapshot.sn_StartedAt process then
        unless_starting withinGrace TELEMETRY_UNAVAILABLE
          (t\<lparr>mt_UsefulWork := Some (u\<lparr>uw_Availability := TelemetryUnavailable, uw_ReasonCode := TELEMETRY_UNAVAILABLE\<rparr>)\<rparr>)
      else if mt_Age t > staleAfter then
        degraded TELEMETRY_STALE (t\<lparr>mt_UsefulWork := Some (u\<lparr>uw_Availability := TelemetryStale, uw_Age := mt_Age t\<rparr>)\<rparr>)
      else if uw_Availability u \<noteq> TelemetryAvailable then unless_starting withinGrace TELEMETRY_UNAVAILABLE t
      else if uw_RuntimeHealthy u = Some False then degraded (reason_or_default (uw_ReasonCode u)) t
      else if mode = MinerModeMining then
        if uw_UsefulWork u = UsefulWorkConfirmed then t\<lparr>mt_Health := MinerHealthMining, mt_ErrorCode := NoCode\<rparr>
        else unless_starting withinGrace (reason_or_default (uw_ReasonCode u)) t
      else t\<lparr>mt_ErrorCode := NoCode, mt_Health := MinerHealthHealthy\<rparr>)"

definition Evaluate :: "MinerMode \<Rightarrow> ExecSnapshot \<Rightarrow> MinerTelemetry option \<Rightarrow> Time \<Rightarrow> Duration \<Rightarrow> Duration \<Rightarrow> MinerTelemetry" where
  "Evaluate mode process telemetry now startupGrace staleAfter =
     (let t = (case telemetry of None \<Rightarrow> empty_telemetry | Some t \<Rightarrow> t); state = ExecSnapshot.sn_State process in
      if state = ExecutionFailed then
        t\<lparr>mt_Health := MinerHealthError, mt_ErrorCode := PROCESS_CRASHED, mt_Message := ExecSnapshot.sn_LastError process\<rparr>
      else if mode = MinerModeMining \<and> (state = ExecutionBackoff \<or> state = ExecutionCrashed) then degraded PROCESS_CRASHED t
      else if state \<noteq> ExecutionRunning then t\<lparr>mt_Health := MinerHealthStarting\<rparr>
      else let withinGrace = within_grace process now startupGrace in
        case (IsZero (mt_CollectedAt t), mt_UsefulWork t) of
          (False, Some u) \<Rightarrow> evaluate_evidence mode process t u withinGrace staleAfter
        | _ \<Rightarrow> unless_starting withinGrace TELEMETRY_UNAVAILABLE t)"

text \<open>The state of the Agent from the health of its miners.\<close>

definition agentStatePriority :: "AgentState \<Rightarrow> nat" where
  "agentStatePriority state = (case state of AgentStateError \<Rightarrow> 4 | AgentStateDegraded \<Rightarrow> 3 | AgentStateStarting \<Rightarrow> 2
     | AgentStateMining \<Rightarrow> 1 | _ \<Rightarrow> 0)"

record overallStatusItem =
  os_mode :: MinerMode
  os_process :: ExecSnapshot
  os_telemetry :: "MinerTelemetry option"

definition item_counts :: "overallStatusItem \<Rightarrow> bool" where
  "item_counts item \<longleftrightarrow> \<not> (os_mode item \<noteq> MinerModeMining \<or> ExecSnapshot.sn_State (os_process item) = ExecutionStopped
     \<or> ExecSnapshot.sn_State (os_process item) = ExecutionStopping)"

definition item_state :: "overallStatusItem \<Rightarrow> AgentState" where
  "item_state item = (case os_telemetry item of
     None \<Rightarrow> AgentStateStarting
   | Some t \<Rightarrow> (case mt_Health t of MinerHealthError \<Rightarrow> AgentStateError | MinerHealthDegraded \<Rightarrow> AgentStateDegraded
       | MinerHealthMining \<Rightarrow> AgentStateMining | _ \<Rightarrow> AgentStateStarting))"

definition aggregateOverallStatus :: "overallStatusItem list \<Rightarrow> AgentState" where
  "aggregateOverallStatus items = foldl (\<lambda>result item.
     if item_counts item \<and> agentStatePriority (item_state item) > agentStatePriority result then item_state item else result)
     AgentStateIdle items"

section \<open>The manager\<close>

text \<open>
  An entry is an object that goroutines keep pointers to: \<open>mg_entries\<close> are the objects, the table of executions maps
  identifiers to them. \<open>me_cleanup\<close> says that the prepared files are still to be removed, \<open>me_polling\<close> that polling has
  not been cancelled.
\<close>

record minerExecution =
  me_plan :: ExecutionPlan
  me_warnings :: "string list"
  me_telemetry :: "MinerTelemetry option"
  me_cleanup :: bool
  me_polling :: bool
  me_starting :: bool
  me_invalid :: bool

record ManagerConfig =
  mc_PollInterval :: Duration
  mc_StartupGrace :: Duration
  mc_StaleAfter :: Duration

record Manager =
  mg_config :: ManagerConfig
  mg_registry :: Registry
  mg_inventory :: Inventory
  mg_entries :: "minerExecution list"
  mg_executions :: "(ExecutionID \<times> nat) list"
  mg_epoch :: uint64

definition New_manager :: "Registry \<Rightarrow> Inventory \<Rightarrow> ManagerConfig \<Rightarrow> Manager" where
  "New_manager reg inventory cf = \<lparr>mg_config =
       \<lparr>mc_PollInterval = default_duration (mc_PollInterval cf) 3000000000, mc_StartupGrace = default_duration (mc_StartupGrace cf) 45000000000,
        mc_StaleAfter = default_duration (mc_StaleAfter cf) 10000000000\<rparr>,
     mg_registry = reg, mg_inventory = inventory, mg_entries = [], mg_executions = [], mg_epoch = 0\<rparr>"

definition find_entry :: "ExecutionID \<Rightarrow> Manager \<Rightarrow> minerExecution option" where
  "find_entry i m = map_option (\<lambda>r. mg_entries m ! r) (map_of (mg_executions m) i)"

definition put_miner :: "nat \<Rightarrow> minerExecution \<Rightarrow> Manager \<Rightarrow> Manager" where
  "put_miner r e m = m\<lparr>mg_entries := (mg_entries m)[r := e]\<rparr>"

definition forget :: "ExecutionID \<Rightarrow> Manager \<Rightarrow> Manager" where
  "forget i m = m\<lparr>mg_executions := AList.delete i (mg_executions m)\<rparr>"

section \<open>What is reported\<close>

text \<open>The copy of the telemetry with the ages it has now.\<close>

definition aged :: "Time \<Rightarrow> MinerTelemetry \<Rightarrow> MinerTelemetry" where
  "aged now t = t\<lparr>mt_Age := (if IsZero (mt_CollectedAt t) then mt_Age t else time_Sub now (mt_CollectedAt t)),
     mt_UsefulWork := map_option (\<lambda>u. if IsZero (uw_CollectedAt u) then u else u\<lparr>uw_Age := time_Sub now (uw_CollectedAt u)\<rparr>) (mt_UsefulWork t)\<rparr>"

definition observationLocked :: "ManagerConfig \<Rightarrow> Time \<Rightarrow> minerExecution option \<Rightarrow> ExecSnapshot \<Rightarrow> RuntimeObservation" where
  "observationLocked cf now known process = (case known of
     None \<Rightarrow> \<lparr>ro_Process = process, ro_Telemetry = None, ro_Warnings = []\<rparr>
   | Some e \<Rightarrow>
       if ExecSnapshot.sn_State process = ExecutionStopped
       then \<lparr>ro_Process = process, ro_Telemetry = None, ro_Warnings = me_warnings e\<rparr>
       else let mode = (case pl_Miner (me_plan e) of None \<Rightarrow> MinerModeOther [] | Some spec \<Rightarrow> ms_Mode spec) in
         \<lparr>ro_Process = process,
          ro_Telemetry = Some (Evaluate mode process (map_option (aged now) (me_telemetry e)) now (mc_StartupGrace cf) (mc_StaleAfter cf)),
          ro_Warnings = me_warnings e\<rparr>)"

definition Manager_List :: "ExecSnapshot list \<Rightarrow> Time \<Rightarrow> Manager \<Rightarrow> RuntimeObservation list" where
  "Manager_List snapshots now m =
     map (\<lambda>s. observationLocked (mg_config m) now (find_entry (ExecSnapshot.sn_ExecutionID s) m) s) snapshots"

definition status_item :: "Time \<Rightarrow> Manager \<Rightarrow> ExecSnapshot \<Rightarrow> overallStatusItem option" where
  "status_item now m s = (case find_entry (ExecSnapshot.sn_ExecutionID s) m of
     None \<Rightarrow> None
   | Some e \<Rightarrow> (case pl_Miner (me_plan e) of
       None \<Rightarrow> None
     | Some spec \<Rightarrow> Some \<lparr>os_mode = ms_Mode spec, os_process = s, os_telemetry = ro_Telemetry (observationLocked (mg_config m) now (Some e) s)\<rparr>))"

definition OverallStatus :: "ExecSnapshot list \<Rightarrow> Time \<Rightarrow> Manager \<Rightarrow> AgentState" where
  "OverallStatus snapshots now m = aggregateOverallStatus (List.map_filter (status_item now m) snapshots)"

definition listed :: "Manager \<Rightarrow> nat \<Rightarrow> bool" where
  "listed m r \<longleftrightarrow> r \<in> snd ` set (mg_executions m)"

definition change_listed :: "(minerExecution \<Rightarrow> minerExecution) \<Rightarrow> Manager \<Rightarrow> Manager" where
  "change_listed f m = m\<lparr>mg_entries := map (\<lambda>(r, e). if listed m r then f e else e) (enumerate 0 (mg_entries m))\<rparr>"

definition RequireFreshTelemetry :: "Manager \<Rightarrow> Manager" where
  "RequireFreshTelemetry m = (change_listed (\<lambda>e. e\<lparr>me_telemetry := None\<rparr>) m)\<lparr>mg_epoch := mg_epoch m + 1\<rparr>"

section \<open>Inventories\<close>

text \<open>
  \<open>setInventoryAndInvalidateLocked\<close>: the section that publishes the inventory and collects the executions on GPUs, and
  the section that marks one of them invalid. The executions that were marked are then stopped.
\<close>

type_synonym candidate = "ExecutionID \<times> nat \<times> ExecutionPlan"

definition publish_inventory :: "Inventory \<Rightarrow> Manager \<Rightarrow> Manager \<times> candidate list" where
  "publish_inventory inventory m = (m\<lparr>mg_inventory := inventory\<rparr>,
     map (\<lambda>(i, r). (i, r, me_plan (mg_entries m ! r)))
       (filter (\<lambda>(i, r). let plan = me_plan (mg_entries m ! r) in pl_Miner plan \<noteq> None \<and> ow_DeviceIDs (pl_Ownership plan) \<noteq> []) (mg_executions m)))"

definition invalidate :: "unicode_case \<Rightarrow> Inventory \<Rightarrow> candidate \<Rightarrow> Manager \<Rightarrow> Manager \<times> bool" where
  "invalidate uni inventory c m = (case c of (i, r, plan) \<Rightarrow>
     if validatePlanAgainstInventory uni (mg_registry m) plan inventory \<noteq> None \<and> map_of (mg_executions m) i = Some r
     then (put_miner r ((mg_entries m ! r)\<lparr>me_invalid := True\<rparr>) m, True) else (m, False))"

section \<open>Starting, stopping, polling\<close>

datatype start_begun = StartRefused error | StartRunning RuntimeObservation | StartFresh

text \<open>The first section of \<open>Start\<close>; \<open>present\<close> is what the Supervisor has of the execution.\<close>

definition Start_begin :: "ExecutionPlan \<Rightarrow> ExecSnapshot option \<Rightarrow> Time \<Rightarrow> Manager \<Rightarrow> Manager \<times> start_begun" where
  "Start_begin plan present now m = (case map_of (mg_executions m) (pl_ExecutionID plan) of
     None \<Rightarrow> (m, StartFresh)
   | Some r \<Rightarrow> let e = mg_entries m ! r in
       if me_plan e \<noteq> plan then (m, StartRefused (resource_conflict ''ExecutionID already has a different miner plan''))
       else (case present of
           Some s \<Rightarrow> if ExecSnapshot.sn_State s \<in> {ExecutionRunning, ExecutionStarting, ExecutionBackoff}
             then (m, StartRunning (observationLocked (mg_config m) now (Some e) s))
             else (forget (pl_ExecutionID plan) (put_miner r (e\<lparr>me_polling := False\<rparr>) m), StartFresh)
         | None \<Rightarrow> (forget (pl_ExecutionID plan) (put_miner r (e\<lparr>me_polling := False\<rparr>) m), StartFresh)))"

text \<open>What an adapter prepared: the plan, and whether it comes with a telemetry source and a cleanup.\<close>

record Prepared =
  pp_Plan :: ExecutionPlan
  pp_Telemetry :: bool
  pp_Cleanup :: bool

text \<open>Between the sections: the adapter, the checks, the preparation. Identity and claims stay those of the Controller.\<close>

definition restore_identity :: "ExecutionPlan \<Rightarrow> ExecutionPlan \<Rightarrow> ExecutionPlan" where
  "restore_identity plan prepared = prepared\<lparr>pl_ExecutionID := pl_ExecutionID plan, pl_Ownership := pl_Ownership plan, pl_HostID := pl_HostID plan,
     pl_DeviceIDs := pl_DeviceIDs plan, pl_Miner := pl_Miner plan\<rparr>"

definition Start_prepare :: "unicode_case \<Rightarrow> Registry \<Rightarrow> ExecutionPlan \<Rightarrow> MinerSpec \<Rightarrow> Inventory \<Rightarrow> Prepared result
    \<Rightarrow> (ExecutionPlan \<times> string list \<times> bool) result" where
  "Start_prepare uni reg plan spec inventory prepared = (case Registry_Get (ms_AdapterID spec) reg of
     None \<Rightarrow> Inl (resource_conflict ''unknown miner adapter'')
   | Some a \<Rightarrow>
       guard (validateResourcePlan uni plan spec (ad_Capabilities a) inventory)
       (andThen (ad_Validate a spec inventory) (\<lambda>warnings.
        andThen prepared (\<lambda>p.
          guard (fail_if (\<not> pp_Telemetry p) (resource_conflict ''miner adapter returned no telemetry source''))
            (Inr (restore_identity plan (pp_Plan p), warnings, pp_Cleanup p))))))"

definition Start_register :: "ExecutionPlan \<Rightarrow> MinerSpec \<Rightarrow> string list \<Rightarrow> bool \<Rightarrow> Manager \<Rightarrow> Manager \<times> nat" where
  "Start_register plan spec warnings cleanup m = (let r = length (mg_entries m) in
     (m\<lparr>mg_entries := mg_entries m @ [\<lparr>me_plan = plan, me_warnings = warnings,
          me_telemetry = Some (empty_telemetry\<lparr>mt_AdapterID := ms_AdapterID spec, mt_Health := MinerHealthStarting\<rparr>),
          me_cleanup = cleanup, me_polling = False, me_starting = True, me_invalid = False\<rparr>],
        mg_executions := AList.update (pl_ExecutionID plan) r (mg_executions m)\<rparr>, r))"

text \<open>After \<open>Supervisor.Start\<close>: it failed, or it returned a snapshot.\<close>

definition Start_failed :: "ExecutionID \<Rightarrow> nat \<Rightarrow> Manager \<Rightarrow> Manager" where
  "Start_failed i r m = (let m' = (if map_of (mg_executions m) i = Some r then forget i m else m)
     in put_miner r ((mg_entries m ! r)\<lparr>me_cleanup := False\<rparr>) m')"

definition Start_finish :: "nat \<Rightarrow> ExecSnapshot \<Rightarrow> Time \<Rightarrow> Manager \<Rightarrow> Manager \<times> RuntimeObservation result" where
  "Start_finish r process now m = (let e = mg_entries m ! r in
     if me_invalid e
     then (put_miner r (e\<lparr>me_starting := False\<rparr>) m, Inl (incapable ''GPU binding was invalidated during process start''))
     else let e' = e\<lparr>me_polling := True, me_starting := False\<rparr>
       in (put_miner r e' m, Inr (observationLocked (mg_config m) now (Some e') process)))"

text \<open>After \<open>Supervisor.Stop\<close> and \<open>Supervisor.Restart\<close>.\<close>

definition Stop_finish :: "ExecutionID \<Rightarrow> ExecSnapshot \<Rightarrow> Time \<Rightarrow> Manager \<Rightarrow> Manager \<times> RuntimeObservation" where
  "Stop_finish i process now m =
     (let m' = (case map_of (mg_executions m) i of
          None \<Rightarrow> m
        | Some r \<Rightarrow> let e = mg_entries m ! r
            in put_miner r (e\<lparr>me_polling := False, me_cleanup := (if me_starting e then me_cleanup e else False)\<rparr>) m)
      in (m', observationLocked (mg_config m') now (find_entry i m') process))"

definition Restart_finish :: "ExecutionID \<Rightarrow> ExecSnapshot \<Rightarrow> Time \<Rightarrow> Manager \<Rightarrow> RuntimeObservation" where
  "Restart_finish i process now m = observationLocked (mg_config m) now (find_entry i m) process"

definition telemetryErrorMessage :: "error \<Rightarrow> string" where
  "telemetryErrorMessage err = (case errors_As err of
     Some e \<Rightarrow> if err_HumanMessage e \<noteq> [] then err_HumanMessage e else ''miner telemetry unavailable''
   | None \<Rightarrow> ''miner telemetry unavailable'')"

definition unknown_evidence :: "string \<Rightarrow> UsefulWorkEvidence" where
  "unknown_evidence provider = \<lparr>uw_Provider = provider, uw_Availability = TelemetryOther [], uw_RuntimeHealthy = None, uw_JobPresent = None,
     uw_UsefulWork = UsefulWorkUnknown, uw_AcceptedWork = None, uw_RejectedWork = None, uw_StaleWork = None, uw_LastUsefulWorkAt = None,
     uw_Upstream = UpstreamUnknown, uw_EndpointVisible = None, uw_Metrics = [], uw_Confidence = EvidenceConfidenceUnknown,
     uw_CollectedAt = 0, uw_Age = 0, uw_FreshFor = 0, uw_ReasonCode = NoCode\<rparr>"

definition unavailable_evidence :: "UsefulWorkEvidence \<Rightarrow> UsefulWorkEvidence" where
  "unavailable_evidence u = u\<lparr>uw_Availability := TelemetryUnavailable, uw_ReasonCode := TELEMETRY_UNAVAILABLE\<rparr>"

definition no_telemetry :: "string \<Rightarrow> string \<Rightarrow> MinerTelemetry" where
  "no_telemetry adapter message = empty_telemetry\<lparr>mt_AdapterID := adapter, mt_Health := MinerHealthStarting, mt_Message := message,
     mt_UsefulWork := Some (unavailable_evidence (unknown_evidence adapter))\<rparr>"

text \<open>The telemetry an entry has after a poll of the adapter that returned an error, nothing, or a sample.\<close>

definition polled :: "ManagerConfig \<Rightarrow> string \<Rightarrow> Time \<Rightarrow> MinerTelemetry option \<Rightarrow> MinerTelemetry option result \<Rightarrow> MinerTelemetry" where
  "polled cf adapter now old outcome = (case outcome of
     Inl err \<Rightarrow> (case old of
         None \<Rightarrow> no_telemetry adapter (telemetryErrorMessage err)
       | Some t \<Rightarrow> let age = time_Sub now (mt_CollectedAt t);
             u = (case mt_UsefulWork t of None \<Rightarrow> unknown_evidence adapter | Some u \<Rightarrow> u)
           in t\<lparr>mt_Age := age, mt_Message := telemetryErrorMessage err, mt_UsefulWork := Some ((unavailable_evidence u)\<lparr>uw_Age := age\<rparr>)\<rparr>)
   | Inr None \<Rightarrow> no_telemetry adapter ''miner telemetry unavailable''
   | Inr (Some t) \<Rightarrow> t\<lparr>mt_CollectedAt := now, mt_Age := 0,
       mt_UsefulWork := map_option (\<lambda>u. u\<lparr>uw_CollectedAt := now, uw_Age := 0, uw_FreshFor := mc_StaleAfter cf\<rparr>) (mt_UsefulWork t)\<rparr>)"

text \<open>One process ran from before the poll until after it.\<close>

definition same_process :: "ExecSnapshot option \<Rightarrow> ExecSnapshot option \<Rightarrow> bool" where
  "same_process before after = (case (before, after) of
     (Some b, Some a) \<Rightarrow> \<not> (ExecSnapshot.sn_State a \<noteq> ExecutionRunning \<or> ExecSnapshot.sn_PID b \<le> 0 \<or> ExecSnapshot.sn_PID b \<noteq> ExecSnapshot.sn_PID a
       \<or> IsZero (ExecSnapshot.sn_StartedAt b) \<or> ExecSnapshot.sn_StartedAt b \<noteq> ExecSnapshot.sn_StartedAt a
       \<or> ExecSnapshot.sn_ProcessInstance b = [] \<or> ExecSnapshot.sn_ProcessInstance b \<noteq> ExecSnapshot.sn_ProcessInstance a)
   | _ \<Rightarrow> False)"

text \<open>The section of \<open>poll\<close> after the adapter answered; \<open>epoch\<close> was read before it was asked.\<close>

definition poll_end :: "ExecutionID \<Rightarrow> nat \<Rightarrow> uint64 \<Rightarrow> ExecSnapshot option \<Rightarrow> ExecSnapshot option \<Rightarrow> Time \<Rightarrow> MinerTelemetry option result
    \<Rightarrow> Manager \<Rightarrow> Manager" where
  "poll_end i r epoch before after now outcome m =
     (if map_of (mg_executions m) i \<noteq> Some r \<or> mg_epoch m \<noteq> epoch \<or> \<not> same_process before after then m
      else let e = mg_entries m ! r; adapter = (case pl_Miner (me_plan e) of None \<Rightarrow> [] | Some spec \<Rightarrow> ms_AdapterID spec)
        in put_miner r (e\<lparr>me_telemetry := Some (polled (mg_config m) adapter now (me_telemetry e) outcome)\<rparr>) m)"

text \<open>The two sections of \<open>Shutdown\<close>, before and after the Supervisor and the polls have ended.\<close>

definition Shutdown_begin :: "Manager \<Rightarrow> Manager" where
  "Shutdown_begin m = change_listed (\<lambda>e. e\<lparr>me_polling := False\<rparr>) m"

definition Shutdown_end :: "Manager \<Rightarrow> Manager" where
  "Shutdown_end m = change_listed (\<lambda>e. e\<lparr>me_cleanup := False\<rparr>) m"

end
