(* ===== verification/Miner_Samples.thy ===== *)
theory Miner_Samples
  imports Miner_Facts
begin

text \<open>
  The sections of the miner runtime in any order: starts, stops, inventories, polls that take their time, and new
  sessions with the Controller, which drop the samples of the session before.
\<close>

section \<open>Runs\<close>

datatype MinerStep =
    MStart ExecutionPlan "ExecSnapshot option" Time
  | MRegister ExecutionPlan MinerSpec "string list" bool
  | MFailed ExecutionID nat
  | MFinished nat ExecSnapshot Time
  | MStopped ExecutionID ExecSnapshot Time
  | MInventory Inventory
  | MInvalidate Inventory candidate
  | MPollBegin ExecutionID nat
  | MPollEnd nat "ExecSnapshot option" "ExecSnapshot option" Time "MinerTelemetry option result"
  | MFresh
  | MShutdown bool

text \<open>The polls that wait for an adapter, each with the epoch it read when it began.\<close>

type_synonym MinerState = "Manager \<times> (ExecutionID \<times> nat \<times> uint64) list"

fun miner_step :: "unicode_case \<Rightarrow> MinerStep \<Rightarrow> MinerState \<Rightarrow> MinerState" where
  "miner_step uni (MStart plan present now) (m, polls) = (fst (Start_begin plan present now m), polls)"
| "miner_step uni (MRegister plan spec warnings cleanup) (m, polls) = (fst (Start_register plan spec warnings cleanup m), polls)"
| "miner_step uni (MFailed i r) (m, polls) = (Start_failed i r m, polls)"
| "miner_step uni (MFinished r process now) (m, polls) = (fst (Start_finish r process now m), polls)"
| "miner_step uni (MStopped i process now) (m, polls) = (fst (Stop_finish i process now m), polls)"
| "miner_step uni (MInventory inventory) (m, polls) = (fst (publish_inventory inventory m), polls)"
| "miner_step uni (MInvalidate inventory c) (m, polls) = (fst (invalidate uni inventory c m), polls)"
| "miner_step uni (MPollBegin i r) (m, polls) = (m, polls @ [(i, r, mg_epoch m)])"
| "miner_step uni (MPollEnd k before after now outcome) (m, polls) =
     (if k < length polls then (case polls ! k of (i, r, epoch) \<Rightarrow> (poll_end i r epoch before after now outcome m, take k polls @ drop (Suc k) polls))
      else (m, polls))"
| "miner_step uni MFresh (m, polls) = (RequireFreshTelemetry m, polls)"
| "miner_step uni (MShutdown finished) (m, polls) = (if finished then Shutdown_end m else Shutdown_begin m, polls)"

definition miner_run :: "unicode_case \<Rightarrow> MinerStep list \<Rightarrow> MinerState \<Rightarrow> MinerState" where
  "miner_run uni steps s = foldl (\<lambda>s x. miner_step uni x s) s steps"

section \<open>Entries without evidence\<close>

definition no_evidence :: "minerExecution \<Rightarrow> bool" where
  "no_evidence e \<longleftrightarrow> (case me_telemetry e of None \<Rightarrow> True | Some t \<Rightarrow> mt_UsefulWork t = None)"

definition listed_ok :: "Manager \<Rightarrow> bool" where
  "listed_ok m \<longleftrightarrow> (\<forall>(i, r)\<in>set (mg_executions m). r < length (mg_entries m))"

definition unproved :: "MinerState \<Rightarrow> bool" where
  "unproved s \<longleftrightarrow> (case s of (m, polls) \<Rightarrow> listed_ok m \<and> (\<forall>(i, r)\<in>set (mg_executions m). no_evidence (mg_entries m ! r))
     \<and> (\<forall>(i, r, epoch)\<in>set polls. epoch \<noteq> mg_epoch m))"

text \<open>Epochs that were read are not ahead, and the epoch counts at most the steps.\<close>

definition paced :: "nat \<Rightarrow> MinerState \<Rightarrow> bool" where
  "paced k s \<longleftrightarrow> (case s of (m, polls) \<Rightarrow> listed_ok m \<and> (k < 2 ^ 64 \<longrightarrow> unat (mg_epoch m) \<le> k \<and> (\<forall>(i, r, epoch)\<in>set polls. epoch \<le> mg_epoch m)))"

text \<open>A change of the manager that keeps the epoch and gives no listed entry new telemetry.\<close>

definition steady :: "Manager \<Rightarrow> Manager \<Rightarrow> bool" where
  "steady m m' \<longleftrightarrow> mg_epoch m' = mg_epoch m \<and> length (mg_entries m) \<le> length (mg_entries m')
     \<and> (\<forall>(i, r)\<in>set (mg_executions m'). (i, r) \<in> set (mg_executions m) \<and> (r < length (mg_entries m) \<longrightarrow> me_telemetry (mg_entries m' ! r) = me_telemetry (mg_entries m ! r))
        \<or> r < length (mg_entries m') \<and> no_evidence (mg_entries m' ! r))"

lemma steady_refl [simp]: "steady m m"
  by (auto simp: steady_def)

lemma steady_put:
  assumes "me_telemetry e = me_telemetry (mg_entries m ! r)"
  shows "steady m (put_miner r e m)"
proof -
  have "me_telemetry ((mg_entries m)[r := e] ! s) = me_telemetry (mg_entries m ! s)" if "s < length (mg_entries m)" for s
    using that assms by (cases "r = s") simp_all
  then show ?thesis unfolding steady_def put_miner_def by auto
qed

lemma steady_forget: "steady m m' \<Longrightarrow> steady m (forget i m')"
  by (auto simp: steady_def forget_def AList.delete_eq)

lemma steady_keeps: "steady m m' \<Longrightarrow> listed_ok m \<Longrightarrow> listed_ok m'"
  by (fastforce simp: steady_def listed_ok_def)

lemma steady_unproved:
  assumes c: "steady m m'" and u: "unproved (m, polls)"
  shows "unproved (m', polls)"
proof -
  have l: "listed_ok m" and n: "\<And>i r. (i, r) \<in> set (mg_executions m) \<Longrightarrow> no_evidence (mg_entries m ! r)"
    and p: "\<forall>(i, r, epoch)\<in>set polls. epoch \<noteq> mg_epoch m"
    using u by (auto simp: unproved_def)
  have "no_evidence (mg_entries m' ! r)" if "(i, r) \<in> set (mg_executions m')" for i r
  proof (cases "(i, r) \<in> set (mg_executions m) \<and> (r < length (mg_entries m) \<longrightarrow> me_telemetry (mg_entries m' ! r) = me_telemetry (mg_entries m ! r))")
    case True
    then have "me_telemetry (mg_entries m' ! r) = me_telemetry (mg_entries m ! r)" using l by (auto simp: listed_ok_def)
    then show ?thesis using n[of i r] True by (simp add: no_evidence_def)
  next
    case False
    then show ?thesis using c that unfolding steady_def by blast
  qed
  moreover have "mg_epoch m' = mg_epoch m" using c by (simp add: steady_def)
  ultimately show ?thesis using steady_keeps[OF c l] p by (auto simp: unproved_def)
qed

lemma steady_paced: "steady m m' \<Longrightarrow> paced k (m, polls) \<Longrightarrow> paced k (m', polls)"
  using steady_keeps[of m m'] by (auto simp: steady_def paced_def)

lemma steady_steps:
  "steady m (fst (Start_begin plan present now m))" "steady m (fst (Start_register plan spec warnings cleanup m))" "steady m (Start_failed i r m)"
  "steady m (fst (Start_finish r process now m))" "steady m (fst (Stop_finish i process now m))" "steady m (fst (publish_inventory inventory m))"
  "steady m (fst (invalidate uni inventory c m))" "steady m (Shutdown_begin m)" "steady m (Shutdown_end m)"
proof -
  show "steady m (fst (Start_begin plan present now m))"
    by (auto simp: Start_begin_def Let_def intro!: steady_forget steady_put split: option.split)
  have "set (AList.update i r xs) \<subseteq> insert (i, r) (set xs)" for i and r :: nat and xs :: "(ExecutionID \<times> nat) list"
    by (induction xs) auto
  then show "steady m (fst (Start_register plan spec warnings cleanup m))"
    by (fastforce simp: steady_def Start_register_def Let_def no_evidence_def empty_telemetry_def nth_append)
  have "put_miner r e (forget i m) = forget i (put_miner r e m)" for r e i by (simp add: put_miner_def forget_def)
  then show "steady m (Start_failed i r m)"
    by (simp add: Start_failed_def Let_def steady_put steady_forget)
  show "steady m (fst (Start_finish r process now m))" by (simp add: Start_finish_def Let_def steady_put)
  show "steady m (fst (Stop_finish i process now m))" by (simp add: Stop_finish_def Let_def steady_put split: option.split)
  show "steady m (fst (publish_inventory inventory m))" by (auto simp: publish_inventory_def steady_def)
  show "steady m (fst (invalidate uni inventory c m))" by (auto simp: invalidate_def steady_put split: prod.split)
  have listed: "steady m (change_listed f m)" if "\<And>e. me_telemetry (f e) = me_telemetry e" for f
  proof -
    have "me_telemetry (map (\<lambda>(r, e). if listed m r then f e else e) (enumerate 0 (mg_entries m)) ! r) = me_telemetry (mg_entries m ! r)"
      if "r < length (mg_entries m)" for r
      using that \<open>\<And>e. me_telemetry (f e) = me_telemetry e\<close> by (simp add: nth_enumerate_eq)
    then show ?thesis by (auto simp: steady_def change_listed_def)
  qed
  show "steady m (Shutdown_begin m)" "steady m (Shutdown_end m)" by (simp_all add: Shutdown_begin_def Shutdown_end_def listed)
qed

lemma poll_end_keeps: "mg_epoch (poll_end i r epoch before after now outcome m) = mg_epoch m"
  "listed_ok m \<Longrightarrow> listed_ok (poll_end i r epoch before after now outcome m)"
  by (simp_all add: poll_end_def put_miner_def Let_def listed_ok_def)

definition begins :: "MinerStep \<Rightarrow> bool" where
  "begins x \<longleftrightarrow> (case x of MPollBegin i r \<Rightarrow> True | MFresh \<Rightarrow> True | _ \<Rightarrow> False)"

lemma step_unproved:
  assumes "unproved (m, polls)" "\<not> begins x"
  shows "unproved (miner_step uni x (m, polls))"
proof (cases x)
  case (MPollEnd k before after now outcome)
  show ?thesis
  proof (cases "k < length polls")
    case True
    obtain i r epoch where k: "polls ! k = (i, r, epoch)" by (cases "polls ! k") auto
    then have "epoch \<noteq> mg_epoch m" using assms(1) nth_mem[OF True] by (auto simp: unproved_def)
    then have "poll_end i r epoch before after now outcome m = m" by (simp add: poll_end_def)
    then show ?thesis using assms(1) True k
      by (auto simp: MPollEnd unproved_def dest: in_set_takeD in_set_dropD)
  qed (use assms in \<open>simp add: MPollEnd\<close>)
qed (use assms steady_unproved[OF steady_steps(1)] steady_unproved[OF steady_steps(2)] steady_unproved[OF steady_steps(3)]
    steady_unproved[OF steady_steps(4)] steady_unproved[OF steady_steps(5)] steady_unproved[OF steady_steps(6)]
    steady_unproved[OF steady_steps(7)] steady_unproved[OF steady_steps(8)] steady_unproved[OF steady_steps(9)] in \<open>auto simp: begins_def\<close>)

lemma paced_Suc: "paced k s \<Longrightarrow> paced (Suc k) s"
  by (cases s) (auto simp: paced_def)

lemma fresh_next:
  assumes "paced k (m, polls)" "Suc k < 2 ^ 64"
  shows "unat (mg_epoch m + 1) = Suc (unat (mg_epoch m))" "mg_epoch m < mg_epoch m + 1"
proof -
  have "unat (mg_epoch m) + 1 < 2 ^ 64" using assms by (simp add: paced_def)
  then show u: "unat (mg_epoch m + 1) = Suc (unat (mg_epoch m))" by (simp add: unat_word_ariths)
  show "mg_epoch m < mg_epoch m + 1" using u by (simp add: word_less_nat_alt)
qed

lemma fresh_listed: "listed_ok m \<Longrightarrow> listed_ok (RequireFreshTelemetry m)" "mg_epoch (RequireFreshTelemetry m) = mg_epoch m + 1"
  by (simp_all add: RequireFreshTelemetry_def change_listed_def listed_ok_def)

lemma step_paced:
  assumes "paced k (m, polls)"
  shows "paced (Suc k) (miner_step uni x (m, polls))"
proof (cases x)
  case (MPollBegin i r)
  then show ?thesis using assms by (auto simp: paced_def)
next
  case (MPollEnd j before after now outcome)
  have "paced (Suc k) (poll_end i r epoch before after now outcome m, take j polls @ drop (Suc j) polls)" for i r epoch
    using assms by (auto simp: paced_def poll_end_keeps dest: in_set_takeD in_set_dropD)
  then show ?thesis using paced_Suc[OF assms] by (simp add: MPollEnd split: prod.split)
next
  case MFresh
  have "unat (mg_epoch m + 1) \<le> Suc k \<and> (\<forall>(i, r, epoch)\<in>set polls. epoch \<le> mg_epoch m + 1)" if "Suc k < 2 ^ 64"
    using fresh_next[OF assms that] assms that by (fastforce simp: paced_def)
  then show ?thesis using assms by (simp add: MFresh paced_def fresh_listed)
qed (use paced_Suc[OF assms] steady_paced[OF steady_steps(1)] steady_paced[OF steady_steps(2)] steady_paced[OF steady_steps(3)]
    steady_paced[OF steady_steps(4)] steady_paced[OF steady_steps(5)] steady_paced[OF steady_steps(6)]
    steady_paced[OF steady_steps(7)] steady_paced[OF steady_steps(8)] steady_paced[OF steady_steps(9)] in auto)

lemma run_paced: "paced k s \<Longrightarrow> paced (k + length steps) (miner_run uni steps s)"
proof (induction steps arbitrary: k s)
  case (Cons x steps)
  then have "paced (Suc k) (miner_step uni x s)" using step_paced by (cases s) simp
  then show ?case using Cons.IH[of "Suc k"] by (simp add: miner_run_def)
qed (simp add: miner_run_def)

lemma run_unproved: "unproved s \<Longrightarrow> \<not> list_ex begins steps \<Longrightarrow> unproved (miner_run uni steps s)"
proof (induction steps arbitrary: s)
  case (Cons x steps)
  then have "unproved (miner_step uni x s)" using step_unproved by (cases s) simp
  then show ?case using Cons by (simp add: miner_run_def)
qed (simp add: miner_run_def)

lemma fresh_unproved:
  assumes "paced k (m, polls)" "Suc k < 2 ^ 64"
  shows "unproved (RequireFreshTelemetry m, polls)"
proof -
  have l: "listed_ok m" and p: "\<forall>(i, r, epoch)\<in>set polls. epoch \<le> mg_epoch m" using assms by (auto simp: paced_def)
  have "me_telemetry (mg_entries (RequireFreshTelemetry m) ! r) = None" if "(i, r) \<in> set (mg_executions m)" for i r
    using that l by (force simp: RequireFreshTelemetry_def change_listed_def listed_ok_def listed_def nth_enumerate_eq)
  moreover have "mg_executions (RequireFreshTelemetry m) = mg_executions m" by (simp add: RequireFreshTelemetry_def change_listed_def)
  moreover have "\<forall>(i, r, epoch)\<in>set polls. epoch \<noteq> mg_epoch m + 1" using p fresh_next(2)[OF assms] by fastforce
  ultimately show ?thesis using fresh_listed[of m] l by (auto simp: unproved_def no_evidence_def)
qed

text \<open>
  C39: after a new session with the Controller has begun, and until a poll that begins after it has ended, no execution
  is reported with evidence of useful work and none as MINING, whatever starts, stops, inventories and late answers of
  adapters happen in between.
\<close>
theorem new_session_needs_new_samples:
  assumes "miner_run uni steps (New_manager reg inventory cf, []) = s" "Suc (length steps) < 2 ^ 64"
    and "miner_run uni (MFresh # later) s = (m, polls)" "\<not> list_ex begins later"
    and "find_entry i m = Some e" "ro_Telemetry (observationLocked (mg_config m) now (Some e) process) = Some t"
  shows "mt_UsefulWork t = None \<and> mt_Health t \<noteq> MinerHealthMining"
proof -
  obtain m0 polls0 where s: "s = (m0, polls0)" by (cases s)
  have "paced 0 (New_manager reg inventory cf, [])" by (simp add: paced_def New_manager_def listed_ok_def)
  then have "paced (length steps) (m0, polls0)" using run_paced[where steps = steps and uni = uni] assms(1) s by fastforce
  then have "unproved (RequireFreshTelemetry m0, polls0)" using fresh_unproved assms(2) by blast
  moreover have "miner_run uni later (RequireFreshTelemetry m0, polls0) = (m, polls)" using assms(3) by (simp add: s miner_run_def)
  ultimately have u: "unproved (m, polls)" using run_unproved[OF _ assms(4)] by metis
  obtain r where r: "map_of (mg_executions m) i = Some r" "e = mg_entries m ! r" using assms(5) by (auto simp: find_entry_def)
  then have n: "no_evidence e" using u map_of_SomeD[OF r(1)] by (auto simp: unproved_def)
  then have "mt_UsefulWork (case map_option (aged now) (me_telemetry e) of None \<Rightarrow> empty_telemetry | Some x \<Rightarrow> x) = None"
    by (auto simp: no_evidence_def aged_def split: option.splits)
  moreover have "mt_UsefulWork (Evaluate mode process x now g st) = None \<and> mt_Health (Evaluate mode process x now g st) \<noteq> MinerHealthMining"
    if "mt_UsefulWork (case x of None \<Rightarrow> empty_telemetry | Some x \<Rightarrow> x) = None" for mode x g st
    using that by (auto simp: Evaluate_def Let_def degraded_def unless_starting_def split: option.split bool.split)
  ultimately show ?thesis using assms(6) by (auto simp: observationLocked_def Let_def split: if_splits)
qed

end
