(* ===== verification/Miner_Demo.thy ===== *)
theory Miner_Demo
  imports Miner_Samples Wire_Demo
begin

text \<open>
  A miner on the processor of a Host: it passes the check before its process is created, its adapter confirms its work,
  it crashes, and a new session with the Controller begins while the adapter is being asked.
\<close>

section \<open>The miner\<close>

definition mining_spec :: MinerSpec where
  "mining_spec = \<lparr>ms_AdapterID = ''xmrig'', ms_SpecVersion = 1, ms_PackageID = PackageID [], ms_PackageVersion = [], ms_WalletID = None,
     ms_PoolID = None, ms_Mode = MinerModeMining, ms_Coin = ''XMR'', ms_Algorithm = ''rx/0'', ms_Endpoint = None, ms_CPUThreads = Some 8,
     ms_GPUDeviceIDs = [], ms_GPUAssignments = [], ms_HugePages = None, ms_MSR = None, ms_Options = Map.empty\<rparr>"

definition mining_plan :: ExecutionPlan where
  "mining_plan = zero_plan\<lparr>pl_ExecutionID := ExecutionID (demo_id ''execution''), pl_Ownership := wire_demo_ownership,
     pl_HostID := HostID (demo_id ''host''), pl_Miner := Some mining_spec\<rparr>"

definition mining_adapter :: Adapter where
  "mining_adapter = \<lparr>ad_ID = ''xmrig'', ad_Capabilities = \<lparr>cp_CPU = True, cp_GPU = False, cp_MultiGPUSingleProcess = False, cp_PerGPUProcess = False,
       cp_HTTPAPI = True, cp_StdoutTelemetry = False, cp_Benchmark = False, cp_Stress = False, cp_Algorithms = [''rx/0''], cp_GPUVendors = []\<rparr>,
     ad_Validate = (\<lambda>spec inventory. Inr []), ad_ProcessSignatures = None\<rparr>"

definition mining_inventory :: Inventory where
  "mining_inventory = \<lparr>inv_SchemaVersion = 1,
     inv_Host = \<lparr>host_HostID = HostID (demo_id ''host''), host_Hostname = ''rig'', host_DisplayName = [],
       host_OS = \<lparr>os_ID = [], os_VersionID = [], os_PrettyName = [], os_Kernel = []\<rparr>, host_Architecture = []\<rparr>,
     inv_CPU = \<lparr>cpu_Vendor = [], cpu_Model = [], cpu_Sockets = 1, cpu_Cores = 8, cpu_Threads = 16\<rparr>, inv_GPUs = [], inv_TotalBytes = 0\<rparr>"

text \<open>A foreign miner on a graphics card, which does not stand in the way of one on the processor.\<close>

definition foreign_miner :: UnmanagedProcessObservation where
  "foreign_miner = \<lparr>up_PID = 77, up_Executable = ''t-rex'', up_ProcessInstance = ''77:1'', up_CPURelevant = False, up_GPURelevant = True,
     up_ResourceScope = ProcessResourcesUnknown, up_CPU = False, up_DeviceIDs = [], up_Evidence = [], up_ObservedAt = 0\<rparr>"

definition mining_config :: ManagerConfig where
  "mining_config = \<lparr>mc_PollInterval = 0, mc_StartupGrace = 0, mc_StaleAfter = 0\<rparr>"

definition mining_process :: "ExecutionStatus \<Rightarrow> ExecSnapshot" where
  "mining_process state = (wire_demo_snapshot [])\<lparr>ExecSnapshot.sn_State := state, ExecSnapshot.sn_ProcessInstance := ''4242:7''\<rparr>"

definition poll_time :: Time where
  "poll_time = unix_epoch + 9000000000"

text \<open>The miner is started and polled, and a second poll begins.\<close>

definition first_session :: "MinerStep list" where
  "first_session = [MStart mining_plan None poll_time, MRegister mining_plan mining_spec [] True, MFinished 0 (mining_process ExecutionRunning) poll_time,
     MPollBegin (ExecutionID (demo_id ''execution'')) 0,
     MPollEnd 0 (Some (mining_process ExecutionRunning)) (Some (mining_process ExecutionRunning)) poll_time (Inr (Some wire_demo_telemetry)),
     MPollBegin (ExecutionID (demo_id ''execution'')) 0]"

definition late_poll :: "MinerStep list" where
  "late_poll = [MPollEnd 0 (Some (mining_process ExecutionRunning)) (Some (mining_process ExecutionRunning)) poll_time (Inr (Some wire_demo_telemetry))]"

definition mining_sample :: MinerTelemetry where
  "mining_sample = wire_demo_telemetry\<lparr>mt_CollectedAt := poll_time, mt_Age := 0,
     mt_UsefulWork := Some (wire_demo_evidence\<lparr>uw_CollectedAt := poll_time, uw_Age := 0, uw_FreshFor := 10000000000\<rparr>)\<rparr>"

definition mining_entry :: "MinerTelemetry option \<Rightarrow> minerExecution" where
  "mining_entry t = \<lparr>me_plan = mining_plan, me_warnings = [], me_telemetry = t, me_cleanup = True, me_polling = True, me_starting = False, me_invalid = False\<rparr>"

definition mining_manager :: "uint64 \<Rightarrow> MinerTelemetry option \<Rightarrow> Manager" where
  "mining_manager epoch t = \<lparr>mg_config = \<lparr>mc_PollInterval = 3000000000, mc_StartupGrace = 45000000000, mc_StaleAfter = 10000000000\<rparr>,
     mg_registry = [mining_adapter], mg_inventory = mining_inventory, mg_entries = [mining_entry t],
     mg_executions = [(ExecutionID (demo_id ''execution''), 0)], mg_epoch = epoch\<rparr>"

lemma mining_facts: "pl_Miner mining_plan = Some mining_spec" "pl_ExecutionID mining_plan = ExecutionID (demo_id ''execution'')"
  "ms_Mode mining_spec = MinerModeMining" "ExecSnapshot.sn_State (mining_process s) = s" "ms_AdapterID mining_spec = ''xmrig''"
  by (simp_all add: mining_plan_def mining_spec_def mining_process_def)

lemma running_same: "same_process (Some (mining_process ExecutionRunning)) (Some (mining_process ExecutionRunning))"
  by (simp add: same_process_def mining_process_def wire_demo_snapshot_def IsZero_def demo_instants)

lemma first_session_ends:
  "miner_run uni first_session (New_manager [mining_adapter] mining_inventory mining_config, [])
     = (mining_manager 0 (Some mining_sample), [(ExecutionID (demo_id ''execution''), 0, 0)])"
  by (simp add: miner_run_def first_session_def New_manager_def mining_config_def default_duration_def Start_begin_def Start_register_def
      Start_finish_def poll_end_def running_same mining_facts put_miner_def Let_def polled_def mining_manager_def mining_entry_def
      mining_sample_def wire_demo_telemetry_def)

lemma second_session_begins:
  "miner_run uni (MFresh # late_poll) (mining_manager 0 t, [(ExecutionID (demo_id ''execution''), 0, 0)]) = (mining_manager 1 None, [])"
  by (simp add: miner_run_def late_poll_def RequireFreshTelemetry_def change_listed_def listed_def mining_manager_def mining_entry_def poll_end_def)

section \<open>Witnesses\<close>

lemma mining_evaluated:
  "ro_Telemetry (observationLocked (mg_config (mining_manager 0 t)) poll_time (Some (mining_entry t)) (mining_process ExecutionRunning))
    = Some (Miner_Runtime.Evaluate MinerModeMining (mining_process ExecutionRunning) (map_option (aged poll_time) t) poll_time 45000000000 10000000000)"
  by (simp add: observationLocked_def mining_entry_def mining_facts mining_manager_def)

lemma sample_proves: "proves_work (mg_config (mining_manager 0 t)) poll_time (mining_process ExecutionRunning) mining_sample"
  by (simp add: proves_work_def mining_sample_def wire_demo_evidence_def mining_manager_def mining_process_def wire_demo_snapshot_def
      poll_time_def demo_instants time_Sub_def unix_epoch_def unix_seconds_def)

lemma mining_iff_confirmed_witness:
  "mt_Health (Miner_Runtime.Evaluate MinerModeMining (mining_process ExecutionRunning) (Some (aged poll_time mining_sample)) poll_time 45000000000 10000000000)
     = MinerHealthMining"
  using mining_iff_confirmed[OF mining_evaluated[of "Some mining_sample"], of mining_spec] sample_proves
  by (simp add: mining_entry_def mining_facts)

lemma mining_owner: "ow_HostID wire_demo_ownership = HostID (demo_id ''host'')" "ow_CPU wire_demo_ownership" "ow_DeviceIDs wire_demo_ownership = []"
  by (simp_all add: wire_demo_ownership_def)

lemma mining_plan_valid: "validateResourcePlan id mining_plan mining_spec (ad_Capabilities mining_adapter) mining_inventory = None"
  by (simp add: validateResourcePlan_def mining_plan_def zero_plan_def demo_owner mining_owner mining_inventory_def mining_spec_def mining_adapter_def Let_def)

lemma mining_plan_checked:
  "final_start_check id [mining_adapter] mining_plan mining_inventory (Some (Inr [foreign_miner])) = None"
proof -
  have "validatePlanAgainstInventory id [mining_adapter] mining_plan mining_inventory = None"
    using mining_plan_valid by (simp add: validatePlanAgainstInventory_def mining_facts Registry_Get_def mining_adapter_def)
  moreover have "\<not> unmanaged_overlap (pl_Ownership mining_plan) foreign_miner"
    by (simp add: unmanaged_overlap_def mining_plan_def mining_owner foreign_miner_def)
  ultimately show ?thesis by (simp add: final_start_check_def observeUnmanaged_def unmanagedConflict_def)
qed

lemma start_check_is_planner_check_witness:
  "final_start_check id [mining_adapter] mining_plan mining_inventory (Some (Inr [foreign_miner])) = None
     \<and> \<not> process_conflicts (plan_claim mining_plan) foreign_miner \<and> host_HostID (inv_Host mining_inventory) = ow_HostID (pl_Ownership mining_plan)"
proof -
  note c = start_check_is_planner_check[of id "[mining_adapter]" mining_plan mining_inventory "Some (Inr [foreign_miner])" mining_spec]
  have "\<not> process_conflicts (plan_claim mining_plan) foreign_miner" using c[THEN conjunct1] mining_plan_checked by simp
  moreover have "host_HostID (inv_Host mining_inventory) = ow_HostID (pl_Ownership mining_plan)"
    using c[THEN conjunct2] mining_plan_checked mining_facts(1) by blast
  ultimately show ?thesis using mining_plan_checked by blast
qed

lemma new_session_needs_new_samples_witness:
  "miner_run id (MFresh # late_poll) (miner_run id first_session (New_manager [mining_adapter] mining_inventory mining_config, []))
       = (mining_manager 1 None, [])
   \<and> mt_Health (Miner_Runtime.Evaluate MinerModeMining (mining_process ExecutionRunning) None poll_time 45000000000 10000000000) \<noteq> MinerHealthMining"
proof -
  have e: "ro_Telemetry (observationLocked (mg_config (mining_manager 1 None)) poll_time (Some (mining_entry None)) (mining_process ExecutionRunning))
    = Some (Miner_Runtime.Evaluate MinerModeMining (mining_process ExecutionRunning) None poll_time 45000000000 10000000000)"
    using mining_evaluated[of None] by (simp add: mining_manager_def)
  have "find_entry (ExecutionID (demo_id ''execution'')) (mining_manager 1 None) = Some (mining_entry None)"
    by (simp add: find_entry_def mining_manager_def)
  from new_session_needs_new_samples[OF first_session_ends _ second_session_begins _ this e]
  have "mt_Health (Miner_Runtime.Evaluate MinerModeMining (mining_process ExecutionRunning) None poll_time 45000000000 10000000000) \<noteq> MinerHealthMining"
    by (simp add: first_session_def late_poll_def begins_def)
  then show ?thesis by (simp add: first_session_ends second_session_begins)
qed


end
