(* ===== verification/Spec2Isabelle.thy ===== *)
theory Spec2Isabelle
  imports Farm_Prelude Go_Strings Farm_Err Farm_Identity Farm_Types Observed_Store Reconcile_Planner
    Go_Sha256 Farm_Validate Canonical_Json Gpu_Resource Farm_Resolve Farm_Db Workload_Store
    Object_Store Hold_Store Incident_Eval Incident_Store
    Store_Model Store_Steps Store_Safety Store_Updates Store_Lifecycle Incident_Facts Store_Demo
    Go_Paths Agent_Supervisor Supervisor_Tasks Supervisor_Safety Supervisor_Tokens Supervisor_Crashes
    Supervisor_Drain Supervisor_Plans Supervisor_Demo
    Store_Frames Reconcile_World Reconcile_Coordinator Reconcile_Incidents Reconcile_Moves Reconcile_Frames
    Reconcile_Dispatch Reconcile_Queues Reconcile_Checks Reconcile_Demo
    Model_Texts Wire_Messages Wire_Map Wire_Executions Wire_Hosts Agent_Wire Wire_Facts Wire_Rounds Wire_Reconnect Wire_Demo
    Net_Admission Net_Trust Net_Sessions Net_Machine Net_Table Net_Invariant Net_Results Net_Snapshots Net_Bootstrap
    Net_Demo Miner_Runtime Miner_Facts Miner_Samples Miner_Demo
begin

text \<open>
  A verification development for Le0xFarm: a Controller that keeps the desired state of a farm of mining Hosts in a
  database and brings the Hosts to it, and an Agent on each Host that runs the miner processes.

  \<^bold>\<open>The program and its model.\<close> Every definition is a translation of Go code under \<open>src/internal/\<close>; the state of a
  component is a record, its methods are functions on it. What concurrent code does under one lock is one function; the
  goroutines between the locks are tasks of a step relation, and every theorem about a component with goroutines is
  about all interleavings of its sections.

  \<^item> \<^bold>\<open>Data.\<close> \<open>Farm_Err\<close>: \<open>farmerr/errors.go\<close>. \<open>Farm_Identity\<close>: \<open>identity/id.go\<close>, every identifier kind, through the
    locale \<open>opaque_id\<close>. \<open>Farm_Types\<close>: the records of \<open>model/model.go\<close>, \<open>farmmodel/*.go\<close>; \<open>Model_Texts\<close>: its string types
    (locale \<open>string_enum\<close>). \<open>Farm_Validate\<close>: the validators of \<open>farmmodel\<close>. \<open>Canonical_Json\<close>: the canonical text and the
    hashes of \<open>farmmodel/hash.go\<close>, over \<open>Go_Sha256\<close>, SHA-256 itself. \<open>Farm_Prelude\<close>, \<open>Go_Strings\<close>, \<open>Go_Paths\<close>: the parts
    of the Go language and its standard library that the sources use.
  \<^item> \<^bold>\<open>Desired state.\<close> \<open>Farm_Db\<close>: the tables of \<open>controllerdb\<close>'s database with their constraints, transactions and the
    loading and scanning of rows. \<open>Workload_Store\<close>, \<open>Object_Store\<close>, \<open>Hold_Store\<close>, \<open>Incident_Store\<close>: the operations of
    \<open>farmconfig/workloads.go\<close>, \<open>service.go\<close> and \<open>host_profile_settings.go\<close>, \<open>maintenance.go\<close> and \<open>restore.go\<close>,
    \<open>incidents.go\<close>. \<open>Gpu_Resource\<close>: \<open>gpuresource/gpu.go\<close>. \<open>Farm_Resolve\<close>: \<open>farmresolve/resolver.go\<close> and the catalogue of
    \<open>packagecatalog/catalog.go\<close>. \<open>Incident_Eval\<close>: \<open>incidents/evaluator.go\<close>.
  \<^item> \<^bold>\<open>Observed state and control.\<close> \<open>Observed_Store\<close>: \<open>controllerstate/observed.go\<close>. \<open>Reconcile_Planner\<close>:
    \<open>reconcile/planner.go\<close>. \<open>Reconcile_World\<close>, \<open>Reconcile_Coordinator\<close>, \<open>Reconcile_Incidents\<close>, \<open>Reconcile_Moves\<close>:
    \<open>reconcile/coordinator.go\<close>, as computations on a world of store, observations, sessions and in-memory tables, and as
    a machine whose moves are its sections.
  \<^item> \<^bold>\<open>Network.\<close> \<open>Wire_Messages\<close>: the messages of \<open>proto/le0x/v1\<close> as the code reads them. \<open>Wire_Map\<close>, \<open>Wire_Executions\<close>,
    \<open>Wire_Hosts\<close>: \<open>wiremap/*.go\<close>. \<open>Agent_Wire\<close>: the decoding of plans, the encoding of observations, the classification
    of errors and the reconnect loop of \<open>agentnet/client.go\<close>. \<open>Net_Admission\<close>: \<open>controllernet/pairing.go\<close>, the store of
    \<open>controllertrust/store_linux.go\<close>, the identity checks of \<open>controllerpki/pki.go\<close>, \<open>New\<close> and the admission part of
    \<open>Connect\<close> in \<open>controllernet/server.go\<close>. \<open>Net_Sessions\<close>, \<open>Net_Machine\<close>: \<open>controllernet/sessions.go\<close> and the loop of a
    session in \<open>server.go\<close>.
  \<^item> \<^bold>\<open>Agent.\<close> \<open>Agent_Supervisor\<close>, \<open>Supervisor_Tasks\<close>: \<open>runtime/supervisor/supervisor_linux.go\<close>, its sections and its
    goroutines. \<open>Miner_Runtime\<close>: \<open>minerruntime/adapter.go\<close>, the checks of a plan against the hardware, the judgement of a
    miner's health and the sections of the \<open>Manager\<close>, which \<open>Miner_Samples\<close> interleaves.

  \<^bold>\<open>How the parts meet.\<close> An operator changes the desired state through the store, which resolves a workload to a
  snapshot with a plan and its hash. An Agent is admitted and opens a session; its reports are parsed, and reach the
  observed store with the epoch of the session. The coordinator asks the planner for an action of a Host and, when the
  last checks allow it, hands it to the session, which encodes the plan and sends it; the Agent decodes it and gives it
  to the Supervisor. The round trips of \<open>Wire_Rounds\<close> join the store with the Agent and the Agent with the observed
  store; \<open>Reconcile_World\<close> calls the models of the store, the planner, the observed store and the evaluator themselves.

  \<^bold>\<open>What is shown.\<close> The claims are numbered; each stands in the theory of its component.

  \<^item> C1--C3: what the planner proposes, and that with a Host that obeys it converges. C4, C5: the observed store never
    goes back and refines a ledger of received facts.
  \<^item> C6, C7: the canonical text is injective, equal hashes mean equal contents. C8, C9: resolutions are faithful to their
    inputs and fit the hardware.
  \<^item> C10--C17: every call of the store is a sequence of events of an abstract machine (\<open>Store_Model\<close>, \<open>Store_Steps\<close>,
    \<open>Store_Safety\<close>), from which follow exclusive resources, append-only snapshots and generations; optimistic updates
    (locale \<open>optimistic\<close>); the life cycle of a workload; the authority of an evaluation.
  \<^item> C18--C21: the Supervisor under every interleaving: holds, the one process of an execution, the crash loop.
    \<open>Supervisor_Tokens\<close> treats the generation of an execution as a token.
  \<^item> C22--C26: the coordinator under every interleaving: holds and barriers, one action in flight, commands that are
    planned and current, deletions that are proved safe. \<open>Reconcile_Frames\<close> (locale \<open>frame\<close>) says what each computation
    leaves alone.
  \<^item> C27--C30: what an accepted report is, the round trips, and the delays between sessions.
  \<^item> C31--C36: admission binds Agents and Hosts for good and a pairing token enrols once (\<open>Net_Trust\<close>); the sessions under
    every interleaving: one live session of a Host (\<open>Net_Table\<close>), exact snapshot numbers (\<open>Net_Snapshots\<close>), one result of a
    command (\<open>Net_Results\<close>), no command before the bootstrap (\<open>Net_Bootstrap\<close>). \<open>Net_Invariant\<close> (locale
    \<open>session_invariant\<close>) lifts a law of one session to the machine; \<open>Net_Demo\<close> holds the runs.
  \<^item> C37--C40: a miner is reported as mining exactly for confirmed work, the check before a process agrees with the planner
    (\<open>Miner_Facts\<close>), a new session sees no old sample (\<open>Miner_Samples\<close>), and a report the Controller cannot read.
    \<open>Miner_Demo\<close> holds the runs.

  \<^bold>\<open>Parameters.\<close> An argument stands for what the sources only call: the Unicode case mapping, the quoting of
  \<open>strconv\<close>, the clock and entropy, what \<open>crypto/x509\<close> says of a certificate, whether a gRPC error is an invalid
  argument, outcomes of the file system, of signals and of process creation, of reading and writing a stream, of timers
  and contexts, and the points at which the incident provider and the resolver are reached. In the machines these are
  choices of the environment; a choice that the code could not see is never excluded by a theorem unless its statement
  says so.

  \<^bold>\<open>Disciplines.\<close> Some statements assume how the code is used. \<open>quiet_start\<close> (C19, C20): a Start of an execution does
  not overlap a Start or Stop of it; without it the two findings on the Supervisor below apply. C22: every change of a
  hold goes through the coordinator, which is how the Controller is wired. \<open>Net_Machine\<close>: the identifiers of commands,
  16 random bytes, do not repeat within a session. C26: the table of snapshots holds an execution once, which is a UNIQUE
  constraint of the table and part of \<open>farm_inv\<close>. Statements about 64-bit counters (generations, epochs, sequences) are
  for runs of fewer than \<open>2 ^ 64\<close> steps, which their hypotheses say. Statements about hashes name the contents for which
  SHA-256 must not collide.

  \<^bold>\<open>Granularity.\<close> Lists are values: a nil and an empty slice, which \<open>reflect.DeepEqual\<close> in \<open>Start\<close> and the comparison of
  plans in the adapter tell apart, are one value. The readings of the clock within one \<open>observationLocked\<close> are one
  reading. A critical section is one step, and some steps join what the code does next to it: \<open>finish_session\<close> the removal
  from the session table and the call of the handler, \<open>loop_receive\<close> the handling of one message, \<open>wait_exit\<close> the exit of the
  process and the section of \<open>wait\<close> that notes it, so a process counts as alive until that section.

  \<^bold>\<open>Fuel.\<close> Recursion is structural, or over the moves of a run. \<open>reconcile_converges\<close> counts its rounds by the number of
  active executions, and the rounds of SHA-256 and the parsers of numbers run over the length of their input.

  \<^bold>\<open>Findings.\<close> A Start between a Stop and the exit it waits for starts a second process; a stale start under a hold
  hides a running process from the hold (both are runs in \<open>Supervisor_Demo\<close>). A wallet address with the text of the
  placeholder captures the worker name (\<open>Farm_Resolve\<close>). A transient error clears the guard of an uncertain action when
  the observation is not fresh, and the START is sent again (\<open>Reconcile_Demo\<close>). One execution with a long error text
  makes the whole report of a Host unreadable (\<open>Wire_Demo\<close>). A session whose first execution report is refused is never
  asked again (\<open>Net_Demo\<close>). A miner whose work was confirmed and that does not run any more takes the report of its whole
  Host with it (C40).

  \<^bold>\<open>Not modelled.\<close> \<open>controllerbackup\<close>, \<open>linuxinstall\<close>, the package store and the archives: orchestration of the file
  system, SQLite and system tools, whose behaviour lies in what they call. \<open>miners/xmrig\<close>: HTTP polling of
  a miner, its configuration file and floating-point telemetry; what the adapter returns is an input of the Manager, its
  figures are opaque numbers. The identity, trust and PKI stores on disk (all but the pairing table), \<open>controllerdb\<close> and
  the advisory locks: X.509, SQLite and files. \<open>controlleradmin\<close> and the commands under \<open>cmd/\<close>: JSON over a socket and wiring.
  \<open>inventory\<close> and \<open>processobserve\<close>: reading \<open>/proc\<close>, \<open>/sys\<close> and vendor tools. In \<open>agentnet/client.go\<close> the handshake and
  the stream loop; the Supervisor it calls and the messages it translates are modelled. The generated protocol code.
\<close>

end
